(* ===== verification/Prelude.thy ===== *)
theory Prelude
  imports Complex_Main "HOL-Library.Word"
begin

text \<open>
  Shared vocabulary of the development: names for the machine integers of the Rust sources,
  the outcome type for code that may panic, the saturating operations the sources call, decimal
  rendering of integers, and the generic lemmas on lists and options that the component theories
  use.

  The repository is built with \<^verbatim>\<open>cargo build --release\<close> (scripts/deploy_binary_only.sh) and sets
  no overflow checks in its manifest, so \<open>+\<close>, \<open>-\<close> and \<open>*\<close> on fixed-width integers wrap around;
  this is what the operations of \<open>'n word\<close> do.
\<close>

named_theorems panic_simps "rewrite rules for the outcome type"
named_theorems model_eval "definitions unfolded when a model is evaluated on a concrete input"

section \<open>Machine integers\<close>

type_synonym u8 = "8 word"
type_synonym u16 = "16 word"
type_synonym u32 = "32 word"
type_synonym u64 = "64 word"
type_synonym u128 = "128 word"
type_synonym i64 = "64 word"

text \<open>Accounts, mints, pools and wallets are identified by 32-byte Solana addresses.\<close>

type_synonym address = "256 word"

definition saturating_sub :: "'n::len word \<Rightarrow> 'n word \<Rightarrow> 'n word" where
  "saturating_sub a b = (if a < b then 0 else a - b)"

definition saturating_add :: "'n::len word \<Rightarrow> 'n word \<Rightarrow> 'n word" where
  "saturating_add a b = (if unat a + unat b < 2 ^ LENGTH('n) then a + b else - 1)"

definition saturating_mul :: "'n::len word \<Rightarrow> 'n word \<Rightarrow> 'n word" where
  "saturating_mul a b = (if unat a * unat b < 2 ^ LENGTH('n) then a * b else - 1)"

definition clamp_word :: "'n::len word \<Rightarrow> 'n word \<Rightarrow> 'n word \<Rightarrow> 'n word" where
  "clamp_word lo hi x = (if x < lo then lo else if hi < x then hi else x)"

lemma unat_saturating_sub: "unat (saturating_sub a b) = unat a - unat b"
  by (auto simp: saturating_sub_def word_less_nat_alt unat_sub_if')

lemma unat_saturating_add:
  "unat (saturating_add a b) = min (unat a + unat b) (2 ^ LENGTH('n) - 1)" for a b :: "'n::len word"
  by (auto simp: saturating_add_def unat_word_ariths unsigned_minus_1_eq_mask mask_eq_exp_minus_1)

lemma unat_saturating_mul:
  "unat (saturating_mul a b) = min (unat a * unat b) (2 ^ LENGTH('n) - 1)" for a b :: "'n::len word"
  by (auto simp: saturating_mul_def unat_word_ariths unsigned_minus_1_eq_mask mask_eq_exp_minus_1)

lemma saturating_add_ge: "a \<le> saturating_add a b" for a b :: "'n::len word"
proof -
  have "unat a \<le> 2 ^ LENGTH('n) - 1" using unsigned_less[of a] by (metis Suc_pred' less_Suc_eq_le
      One_nat_def zero_less_power pos2)
  then show ?thesis by (auto simp: word_le_nat_alt unat_saturating_add)
qed

lemma clamp_word_bounds: "lo \<le> hi \<Longrightarrow> lo \<le> clamp_word lo hi x \<and> clamp_word lo hi x \<le> hi"
  by (auto simp: clamp_word_def)

section \<open>Outcomes: panics as values\<close>

datatype panic =
    DecimalMismatch    \<comment> \<open>\<^verbatim>\<open>assert_eq!\<close> on the decimals of two amounts\<close>
  | DivideByZero       \<comment> \<open>integer division by zero\<close>
  | ClampBounds        \<comment> \<open>\<^verbatim>\<open>f64::clamp\<close> with a lower bound that is not at most the upper bound\<close>
  | IndexOutOfBounds   \<comment> \<open>a vector read past its end\<close>
  | CharBoundary       \<comment> \<open>a slice of a string that cuts a character of several bytes\<close>
  | NoValidPda         \<comment> \<open>\<^verbatim>\<open>Address::pda\<close> tried every bump seed in vain\<close>

type_synonym 'a outcome = "panic + 'a"

definition bind_outcome :: "'a outcome \<Rightarrow> ('a \<Rightarrow> 'b outcome) \<Rightarrow> 'b outcome" where
  "bind_outcome m f = (case m of Inl e \<Rightarrow> Inl e | Inr x \<Rightarrow> f x)"

definition returns :: "'a outcome \<Rightarrow> bool" where
  "returns m = (case m of Inl _ \<Rightarrow> False | Inr _ \<Rightarrow> True)"

lemma bind_outcome_simps [simp, panic_simps]:
  "bind_outcome (Inl e) f = Inl e"
  "bind_outcome (Inr x) f = f x"
  by (simp_all add: bind_outcome_def)

lemma returns_simps [simp, panic_simps]: "\<not> returns (Inl e)" "returns (Inr x)"
  by (simp_all add: returns_def)

lemma bind_outcome_Inr_iff:
  "bind_outcome m f = Inr y \<longleftrightarrow> (\<exists>x. m = Inr x \<and> f x = Inr y)"
  by (cases m) auto

lemma returns_iff: "returns m \<longleftrightarrow> (\<exists>x. m = Inr x)"
  by (cases m) auto

section \<open>Decimal rendering of integers\<close>

definition digit_char :: "nat \<Rightarrow> char" where
  "digit_char d = char_of (48 + d mod 10)"

fun show_nat :: "nat \<Rightarrow> string" where
  "show_nat n = (if n < 10 then [digit_char n] else show_nat (n div 10) @ [digit_char n])"

declare show_nat.simps [simp del]

definition show_int :: "int \<Rightarrow> string" where
  "show_int k = (if k < 0 then ''-'' @ show_nat (nat (- k)) else show_nat (nat k))"

definition pad_left :: "nat \<Rightarrow> char \<Rightarrow> string \<Rightarrow> string" where
  "pad_left w c s = replicate (w - length s) c @ s"

lemma show_nat_nonempty [simp]: "show_nat n \<noteq> []"
  by (subst show_nat.simps) simp

lemma length_pad_left: "length (pad_left w c s) = max w (length s)"
  by (simp add: pad_left_def)

section \<open>Prefixes of strings\<close>

fun starts_with :: "'a list \<Rightarrow> 'a list \<Rightarrow> bool" where
  "starts_with xs [] = True"
| "starts_with [] (y # ys) = False"
| "starts_with (x # xs) (y # ys) = (x = y \<and> starts_with xs ys)"

lemma starts_with_iff: "starts_with xs ys \<longleftrightarrow> (\<exists>zs. xs = ys @ zs)"
  by (induction xs ys rule: starts_with.induct) auto

lemma starts_with_append [simp]: "starts_with (ys @ zs) ys"
  by (simp add: starts_with_iff)

definition ends_with :: "'a list \<Rightarrow> 'a list \<Rightarrow> bool" where
  "ends_with xs ys = starts_with (rev xs) (rev ys)"

fun contains_sub :: "'a list \<Rightarrow> 'a list \<Rightarrow> bool" where
  "contains_sub [] ys = (ys = [])"
| "contains_sub (x # xs) ys = (starts_with (x # xs) ys \<or> contains_sub xs ys)"

lemma contains_sub_iff: "contains_sub xs ys \<longleftrightarrow> (\<exists>us vs. xs = us @ ys @ vs)"
proof (induction xs)
  case (Cons x xs)
  note IH = Cons.IH
  show ?case
  proof
    assume "contains_sub (x # xs) ys"
    then consider "starts_with (x # xs) ys" | "contains_sub xs ys" by auto
    then show "\<exists>us vs. x # xs = us @ ys @ vs"
    proof cases
      case 1 then show ?thesis by (metis append_Nil starts_with_iff)
    next
      case 2 then show ?thesis using Cons.IH by (metis append_Cons)
    qed
  next
    assume "\<exists>us vs. x # xs = us @ ys @ vs"
    then obtain us vs where eq: "x # xs = us @ ys @ vs" by blast
    show "contains_sub (x # xs) ys"
    proof (cases us)
      case Nil
      then have "starts_with (x # xs) ys" using eq by (simp add: starts_with_iff)
      then show ?thesis by simp
    next
      case (Cons u us')
      then have "contains_sub xs ys" using eq IH by auto
      then show ?thesis by simp
    qed
  qed
qed auto

definition to_ascii_lowercase :: "string \<Rightarrow> string" where
  "to_ascii_lowercase s =
     map (\<lambda>c. let n = (of_char c :: nat) in if 65 \<le> n \<and> n \<le> 90 then char_of (n + 32) else c) s"

section \<open>Association lists in insertion order\<close>

text \<open>
  The sources keep several small tables as a vector of pairs searched front to back, and hash
  maps whose entries are updated by key. Both are lists of pairs here; \<open>distinct (map fst xs)\<close>
  is the invariant that every key occurs once.
\<close>

fun alist_upd :: "'k \<Rightarrow> ('v \<Rightarrow> 'v) \<Rightarrow> ('k \<times> 'v) list \<Rightarrow> ('k \<times> 'v) list" where
  "alist_upd k f [] = []"
| "alist_upd k f ((k', v) # xs) = (if k' = k then (k', f v) # xs else (k', v) # alist_upd k f xs)"

lemma map_fst_alist_upd [simp]: "map fst (alist_upd k f xs) = map fst xs"
  by (induction k f xs rule: alist_upd.induct) auto

lemma map_of_alist_upd:
  "map_of (alist_upd k f xs) j = (if j = k then map_option f (map_of xs k) else map_of xs j)"
  by (induction k f xs rule: alist_upd.induct) auto

lemma length_filter_mono: "(\<And>x. x \<in> set xs \<Longrightarrow> P x \<Longrightarrow> Q x) \<Longrightarrow> length (filter P xs) \<le> length (filter Q xs)"
proof (induction xs)
  case (Cons a xs)
  have "length (filter P xs) \<le> length (filter Q xs)" using Cons by simp
  then show ?case using Cons.prems[of a] by auto
qed simp

lemma length_filter_le_iff_sum: "length (filter P xs) + length (filter (\<lambda>x. \<not> P x) xs) = length xs"
  by (rule sum_length_filter_compl)

end
