(* ===== verification/F64.thy ===== *)
theory F64
  imports Prelude "HOL-Library.Log_Nat"
begin

text \<open>
  The type \<^verbatim>\<open>f64\<close> of Rust: IEEE 754 binary64 with rounding to nearest, ties to even. Every
  arithmetic operation of the sources is performed on this type, so each theorem about a price,
  a profit or a score holds for the rounded value the program computes.

  A finite value is a rational number; \<open>rnd\<close> maps a rational to the nearest binary64 number
  (53 significant bits, smallest exponent -1074) and \<open>f64_of\<close> adds the overflow to infinity. The
  representation does not record the sign of a zero: it would show only in the text \<^verbatim>\<open>-0\<close> of a
  formatted zero and in a division by a negative zero.

  The first half defines the rounding and shows that it is monotone, odd and the identity on
  representable numbers; the second half defines the operations, the comparisons (false on NaN),
  the conversions (saturating, as \<^verbatim>\<open>as\<close> in Rust) and the fixed-precision rendering.
\<close>

section \<open>Rounding a rational to 53 bits\<close>

definition ilog2 :: "rat \<Rightarrow> int" where
  "ilog2 q = (case quotient_of q of (a, b) \<Rightarrow>
     let k = int (floorlog 2 (nat a)) - int (floorlog 2 (nat b))
     in if 2 powi k \<le> q then k else k - 1)"

definition rne :: "rat \<Rightarrow> int" where
  "rne x = (let f = \<lfloor>x\<rfloor>; d = x - of_int f in
     if d < 1 / 2 then f else if 1 / 2 < d then f + 1 else if even f then f else f + 1)"

definition ulp_exp :: "rat \<Rightarrow> int" where
  "ulp_exp q = max (ilog2 q) (- 1022) - 52"

definition rnd_pos :: "rat \<Rightarrow> rat" where
  "rnd_pos q = (let s = 2 powi (ulp_exp q) in of_int (rne (q / s)) * s)"

definition rnd :: "rat \<Rightarrow> rat" where
  "rnd q = (if q = 0 then 0 else if 0 < q then rnd_pos q else - rnd_pos (- q))"

lemma ilog2_bounds:
  assumes "0 < q"
  shows "2 powi (ilog2 q) \<le> q" and "q < 2 powi (ilog2 q + 1)"
proof -
  obtain a b where ab: "quotient_of q = (a, b)" by (cases "quotient_of q")
  then have b: "0 < b" and q: "q = of_int a / of_int b"
    by (auto simp: quotient_of_denom_pos quotient_of_div)
  have a: "0 < a" using assms b q by (simp add: zero_less_divide_iff)
  define m where "m = floorlog 2 (nat a)"
  define n where "n = floorlog 2 (nat b)"
  define k where "k = int m - int n"
  have m: "2 ^ (m - 1) \<le> nat a" "nat a < 2 ^ m"
    using floorlog_bounds[of "nat a" 2] a by (auto simp: m_def)
  have n: "2 ^ (n - 1) \<le> nat b" "nat b < 2 ^ n"
    using floorlog_bounds[of "nat b" 2] b by (auto simp: n_def)
  have m0: "m \<noteq> 0" and n0: "n \<noteq> 0" using a b by (auto simp: m_def n_def floorlog_eq_zero_iff)
  have am: "(2::rat) ^ (m - 1) \<le> of_int a" "of_int a < (2::rat) ^ m"
    using m a of_nat_mono[OF m(1), where 'a=rat] of_nat_less_iff[of "nat a" "2 ^ m", where 'a=rat]
    by (auto simp: nat_less_iff)
  have bn: "(2::rat) ^ (n - 1) \<le> of_int b" "of_int b < (2::rat) ^ n"
    using n b of_nat_mono[OF n(1), where 'a=rat] of_nat_less_iff[of "nat b" "2 ^ n", where 'a=rat]
    by (auto simp: nat_less_iff)
  have up: "q < 2 powi (k + 1)"
  proof -
    have "q < 2 ^ m / 2 ^ (n - 1)"
      unfolding q using a am bn b by (intro frac_less) auto
    also have "\<dots> = 2 powi (k + 1)"
      using n0 by (simp add: k_def power_int_diff power_int_add power_diff field_simps)
    finally show ?thesis .
  qed
  have lo: "2 powi (k - 1) < q"
  proof -
    have "2 powi (k - 1) = (2::rat) ^ (m - 1) / 2 ^ n"
      using m0 by (simp add: k_def power_int_diff power_int_add power_diff field_simps)
    also have "\<dots> < q"
      unfolding q using a am bn b by (intro frac_less2) auto
    finally show ?thesis .
  qed
  have il: "ilog2 q = (if 2 powi k \<le> q then k else k - 1)"
    by (simp add: ilog2_def ab k_def m_def n_def Let_def)
  show "2 powi (ilog2 q) \<le> q" "q < 2 powi (ilog2 q + 1)"
    using il up lo by (auto split: if_splits)
qed

lemma ilog2_mono:
  assumes "0 < x" "x \<le> y" shows "ilog2 x \<le> ilog2 y"
proof (rule ccontr)
  assume "\<not> ilog2 x \<le> ilog2 y"
  then have "(2::rat) powi (ilog2 y + 1) \<le> 2 powi (ilog2 x)"
    by (intro power_int_increasing) auto
  with ilog2_bounds[of x] ilog2_bounds[of y] assms show False by simp
qed

lemma rne_near: "\<bar>x - of_int (rne x)\<bar> \<le> 1 / 2"
  unfolding rne_def Let_def by (auto simp: abs_if) linarith+

lemma rne_mono: assumes "x \<le> y" shows "rne x \<le> rne y"
proof -
  have f: "\<lfloor>x\<rfloor> \<le> \<lfloor>y\<rfloor>" using assms by (rule floor_mono)
  show ?thesis
  proof (cases "\<lfloor>x\<rfloor> = \<lfloor>y\<rfloor>")
    case True then show ?thesis using assms by (auto simp: rne_def Let_def)
  next
    case False
    then have "\<lfloor>x\<rfloor> + 1 \<le> \<lfloor>y\<rfloor>" using f by simp
    then show ?thesis by (auto simp: rne_def Let_def)
  qed
qed

lemma rne_of_int [simp]: "rne (of_int k) = k"
  by (simp add: rne_def Let_def)

lemma ulp_exp_mono: "0 < x \<Longrightarrow> x \<le> y \<Longrightarrow> ulp_exp x \<le> ulp_exp y"
  using ilog2_mono[of x y] by (auto simp: ulp_exp_def)

lemma rnd_pos_nonneg: "0 < q \<Longrightarrow> 0 \<le> rnd_pos q"
  using rne_mono[of 0 "q / 2 powi (ulp_exp q)"] rne_of_int[of 0]
  by (simp add: rnd_pos_def Let_def)

lemma rnd_pos_exact:
  assumes q: "0 < q" and k: "q = of_int k * 2 powi (ulp_exp q)"
  shows "rnd_pos q = q"
proof -
  have "q / 2 powi (ulp_exp q) = of_int k" by (subst k) simp
  then show ?thesis using k by (simp add: rnd_pos_def Let_def)
qed

lemma rnd_pos_le_pow:
  assumes "0 < x" "ulp_exp x < e - 52"
  shows "rnd_pos x \<le> 2 powi e"
proof -
  let ?u = "ulp_exp x"
  have "x < 2 powi (ilog2 x + 1)" by (rule ilog2_bounds) fact
  also have "\<dots> \<le> (2::rat) powi (?u + 53)"
    by (intro power_int_increasing) (auto simp: ulp_exp_def)
  also have "\<dots> = of_int (2 ^ 53) * 2 powi ?u" by (simp add: power_int_add)
  finally have "x / 2 powi ?u \<le> of_int (2 ^ 53)" by (simp add: field_simps)
  then have "rne (x / 2 powi ?u) \<le> 2 ^ 53" using rne_mono rne_of_int by metis
  then have "rnd_pos x \<le> of_int (2 ^ 53) * 2 powi ?u"
    unfolding rnd_pos_def Let_def by (intro mult_right_mono) (auto simp del: of_int_power)
  also have "\<dots> = (2::rat) powi (?u + 53)" by (simp add: power_int_add)
  also have "\<dots> \<le> 2 powi e" using assms by (intro power_int_increasing) auto
  finally show ?thesis .
qed

lemma rnd_pos_ge_pow:
  assumes "2 powi e \<le> y" "e = ulp_exp y + 52"
  shows "2 powi e \<le> rnd_pos y"
proof -
  let ?u = "ulp_exp y"
  have e: "(2::rat) powi e = of_int (2 ^ 52) * 2 powi ?u" by (simp add: assms power_int_add)
  then have "of_int (2 ^ 52) \<le> y / 2 powi ?u" using assms by (simp add: field_simps)
  then have "2 ^ 52 \<le> rne (y / 2 powi ?u)" using rne_mono rne_of_int by metis
  then have "of_int (2 ^ 52) * 2 powi ?u \<le> rnd_pos y"
    unfolding rnd_pos_def Let_def by (intro mult_right_mono) (auto simp del: of_int_power)
  then show ?thesis using e by simp
qed

lemma rnd_pos_mono:
  assumes "0 < x" "x \<le> y" shows "rnd_pos x \<le> rnd_pos y"
proof (cases "ulp_exp x = ulp_exp y")
  case True
  have "rne (x / 2 powi (ulp_exp y)) \<le> rne (y / 2 powi (ulp_exp y))"
    using assms by (intro rne_mono divide_right_mono) auto
  then show ?thesis unfolding rnd_pos_def Let_def True by (intro mult_right_mono) auto
next
  case False
  with assms ulp_exp_mono have lt: "ulp_exp x < ulp_exp y" by (metis order_le_less)
  then have ey: "ilog2 y = ulp_exp y + 52" by (auto simp: ulp_exp_def max_def split: if_splits)
  have "rnd_pos x \<le> 2 powi (ilog2 y)" using assms lt ey by (intro rnd_pos_le_pow) auto
  also have "\<dots> \<le> rnd_pos y" using assms ey by (intro rnd_pos_ge_pow ilog2_bounds) auto
  finally show ?thesis .
qed

lemma rnd_0 [simp]: "rnd 0 = 0" by (simp add: rnd_def)

lemma rnd_uminus: "rnd (- q) = - rnd q" by (simp add: rnd_def)

lemma rnd_nonneg: "0 \<le> q \<Longrightarrow> 0 \<le> rnd q"
  by (auto simp: rnd_def intro: rnd_pos_nonneg)

lemma rnd_mono: assumes "x \<le> y" shows "rnd x \<le> rnd y"
proof -
  consider "0 < x" | "x \<le> 0" "0 \<le> y" | "y < 0" by linarith
  then show ?thesis
  proof cases
    case 1 then show ?thesis using assms by (simp add: rnd_def rnd_pos_mono)
  next
    case 2
    then have "rnd x \<le> 0" using rnd_nonneg[of "- x"] by (simp add: rnd_uminus)
    also have "0 \<le> rnd y" using 2 by (simp add: rnd_nonneg)
    finally show ?thesis .
  next
    case 3
    then have "rnd_pos (- y) \<le> rnd_pos (- x)" using assms by (intro rnd_pos_mono) auto
    then show ?thesis using 3 assms by (simp add: rnd_def)
  qed
qed

text \<open>Numbers with at most 53 significant bits and an exponent above the subnormal limit.\<close>

lemma rnd_exact:
  assumes "\<bar>m\<bar> \<le> 2 ^ 53" "- 1074 \<le> k"
  shows "rnd (of_int m * 2 powi k) = of_int m * 2 powi k"
proof -
  have pos: "rnd (of_int m * 2 powi k) = of_int m * 2 powi k"
    if m: "0 < m" "m < 2 ^ 53" and k: "- 1074 \<le> k" for m k :: int
  proof -
    let ?q = "of_int m * 2 powi k :: rat"
    have q: "0 < ?q" using m by simp
    have "2 powi (ilog2 ?q) \<le> ?q" using q by (rule ilog2_bounds)
    also have "?q < of_int (2 ^ 53) * 2 powi k"
      using m by (intro mult_strict_right_mono) (auto simp only: of_int_less_iff zero_less_power_int)
    also have "\<dots> = (2::rat) powi (k + 53)" by (simp add: power_int_add)
    finally have "ilog2 ?q < k + 53"
      using power_int_increasing[of "k + 53" "ilog2 ?q" "2::rat"] by linarith
    then have "0 \<le> k - ulp_exp ?q" using k by (simp add: ulp_exp_def)
    then obtain j where j: "k - ulp_exp ?q = int j" by (metis nonneg_int_cases)
    have kj: "int j + ulp_exp ?q = k" using j by linarith
    have "(2::rat) powi k = 2 powi (int j + ulp_exp ?q)" by (simp only: kj)
    also have "\<dots> = of_int (2 ^ j) * 2 powi (ulp_exp ?q)" by (simp add: power_int_add)
    finally have "?q = of_int (m * 2 ^ j) * 2 powi (ulp_exp ?q)" by simp
    then have "rnd_pos ?q = ?q" using q rnd_pos_exact by metis
    then show ?thesis using q by (simp add: rnd_def)
  qed
  have top: "rnd (of_int m * 2 powi k) = of_int m * 2 powi k" if m: "0 < m" "m \<le> 2 ^ 53"
      and k: "- 1074 \<le> k" for m k :: int
  proof (cases "m = 2 ^ 53")
    case True
    have "of_int m * 2 powi k = (of_int (2 ^ 52) * 2 powi (k + 1) :: rat)"
      by (simp add: True power_int_add)
    then show ?thesis using pos[of "2 ^ 52" "k + 1"] k by simp
  next
    case False then show ?thesis using pos m k by auto
  qed
  consider "m = 0" | "0 < m" | "m < 0" by linarith
  then show ?thesis
  proof cases
    case 2 then show ?thesis using top assms by auto
  next
    case 3
    then have "rnd (of_int (- m) * 2 powi k) = of_int (- m) * 2 powi k"
      using top[of "- m" k] assms by auto
    then show ?thesis by (simp add: rnd_uminus)
  qed simp
qed

lemma rnd_of_int: "\<bar>m\<bar> \<le> 2 ^ 53 \<Longrightarrow> rnd (of_int m) = of_int m"
  using rnd_exact[of m 0] by simp

text \<open>The rounding error is at most half a unit in the last place.\<close>

lemma rnd_error:
  assumes "2 powi (- 1022) \<le> \<bar>q\<bar>"
  shows "\<bar>rnd q - q\<bar> \<le> \<bar>q\<bar> / 2 ^ 53"
proof -
  have pos: "\<bar>rnd_pos x - x\<bar> \<le> x / 2 ^ 53" if x: "2 powi (- 1022) \<le> x" for x
  proof -
    have "0 < (2::rat) powi (- 1022)" by simp
    then have x0: "0 < x" using x by linarith
    have "- 1022 \<le> ilog2 x"
    proof (rule ccontr)
      assume "\<not> - 1022 \<le> ilog2 x"
      then have "(2::rat) powi (ilog2 x + 1) \<le> 2 powi (- 1022)" by (intro power_int_increasing) auto
      then show False using ilog2_bounds(2)[OF x0] x by linarith
    qed
    then have u: "ulp_exp x = ilog2 x - 52" by (simp add: ulp_exp_def)
    let ?s = "2 powi (ulp_exp x) :: rat"
    have s0: "0 < ?s" by simp
    have "\<bar>rnd_pos x - x\<bar> = \<bar>x / ?s - of_int (rne (x / ?s))\<bar> * ?s"
      using s0 by (simp add: rnd_pos_def Let_def abs_mult_pos' abs_if field_simps)
    also have "\<dots> \<le> 1 / 2 * ?s" using rne_near s0 by (intro mult_right_mono) auto
    also have "\<dots> = 2 powi (ilog2 x) / 2 ^ 53" by (simp add: u power_int_diff)
    also have "\<dots> \<le> x / 2 ^ 53" using ilog2_bounds(1)[OF x0] by (intro divide_right_mono) auto
    finally show ?thesis .
  qed
  have "0 < (2::rat) powi (- 1022)" by simp
  then consider "0 < q" | "q < 0" using assms by (cases "q = 0") (auto simp only: abs_zero not_le neq_iff)
  then show ?thesis
  proof cases
    case 1
    then have "\<bar>rnd_pos q - q\<bar> \<le> q / 2 ^ 53" using pos assms by (simp only: abs_of_pos)
    then show ?thesis using 1 by (simp add: rnd_def)
  next
    case 2
    then have "\<bar>rnd_pos (- q) - (- q)\<bar> \<le> - q / 2 ^ 53" using pos assms by (simp only: abs_of_neg)
    then show ?thesis using 2 by (simp add: rnd_def abs_minus_commute)
  qed
qed

lemma rnd_1 [simp]: "rnd 1 = 1"
  using rnd_of_int[of 1] by simp

lemma rnd_sgn: "0 \<le> rnd q \<Longrightarrow> 0 \<le> q \<or> rnd q = 0"
  using rnd_mono[of q 0] by fastforce

section \<open>The type and its operations\<close>

datatype f64 = NaN | PInf | NInf | Fin rat

definition f64_of :: "rat \<Rightarrow> f64" where
  "f64_of q = (let r = rnd q in
     if 2 ^ 1024 \<le> r then PInf else if r \<le> - (2 ^ 1024) then NInf else Fin r)"

fun f64_uminus :: "f64 \<Rightarrow> f64" where
  "f64_uminus NaN = NaN"
| "f64_uminus PInf = NInf"
| "f64_uminus NInf = PInf"
| "f64_uminus (Fin a) = Fin (- a)"

fun f64_plus :: "f64 \<Rightarrow> f64 \<Rightarrow> f64" where
  "f64_plus NaN _ = NaN"
| "f64_plus _ NaN = NaN"
| "f64_plus PInf NInf = NaN"
| "f64_plus NInf PInf = NaN"
| "f64_plus PInf _ = PInf"
| "f64_plus _ PInf = PInf"
| "f64_plus NInf _ = NInf"
| "f64_plus _ NInf = NInf"
| "f64_plus (Fin a) (Fin b) = f64_of (a + b)"

definition signed_inf :: "rat \<Rightarrow> f64" where
  "signed_inf a = (if a = 0 then NaN else if 0 < a then PInf else NInf)"

fun f64_times :: "f64 \<Rightarrow> f64 \<Rightarrow> f64" where
  "f64_times NaN _ = NaN"
| "f64_times _ NaN = NaN"
| "f64_times PInf PInf = PInf"
| "f64_times PInf NInf = NInf"
| "f64_times NInf PInf = NInf"
| "f64_times NInf NInf = PInf"
| "f64_times PInf (Fin b) = signed_inf b"
| "f64_times NInf (Fin b) = signed_inf (- b)"
| "f64_times (Fin a) PInf = signed_inf a"
| "f64_times (Fin a) NInf = signed_inf (- a)"
| "f64_times (Fin a) (Fin b) = f64_of (a * b)"

fun f64_divide :: "f64 \<Rightarrow> f64 \<Rightarrow> f64" where
  "f64_divide NaN _ = NaN"
| "f64_divide _ NaN = NaN"
| "f64_divide (Fin a) (Fin b) = (if b = 0 then signed_inf a else f64_of (a / b))"
| "f64_divide (Fin a) _ = Fin 0"
| "f64_divide PInf (Fin b) = (if b < 0 then NInf else PInf)"
| "f64_divide NInf (Fin b) = (if b < 0 then PInf else NInf)"
| "f64_divide _ _ = NaN"

fun f64_le :: "f64 \<Rightarrow> f64 \<Rightarrow> bool" where
  "f64_le NaN _ = False"
| "f64_le _ NaN = False"
| "f64_le NInf _ = True"
| "f64_le _ PInf = True"
| "f64_le (Fin a) (Fin b) = (a \<le> b)"
| "f64_le _ _ = False"

fun f64_lt :: "f64 \<Rightarrow> f64 \<Rightarrow> bool" where
  "f64_lt NaN _ = False"
| "f64_lt _ NaN = False"
| "f64_lt NInf NInf = False"
| "f64_lt NInf _ = True"
| "f64_lt PInf _ = False"
| "f64_lt _ PInf = True"
| "f64_lt (Fin a) (Fin b) = (a < b)"
| "f64_lt _ _ = False"

instantiation f64 :: "{zero, one, plus, minus, uminus, times, inverse, ord, abs}"
begin

definition zero_f64_def [code_unfold]: "0 = Fin 0"

definition one_f64_def [code_unfold]: "1 = Fin 1"

definition plus_f64_def: "x + y = f64_plus x y"

definition uminus_f64_def: "- x = f64_uminus x"

definition minus_f64_def: "x - y = f64_plus x (f64_uminus y)"

definition times_f64_def: "x * y = f64_times x y"

definition divide_f64_def: "x div y = f64_divide x y"

definition inverse_f64_def: "inverse x = f64_divide (Fin 1) x"

definition less_eq_f64_def: "x \<le> y = f64_le x y"

definition less_f64_def: "x < y = f64_lt x y"

definition abs_f64_def: "\<bar>x\<bar> = (case x of Fin a \<Rightarrow> Fin \<bar>a\<bar> | NInf \<Rightarrow> PInf | _ \<Rightarrow> x)"

instance ..

end

text \<open>Equality of \<^verbatim>\<open>f64\<close> values in Rust: NaN differs from itself.\<close>

definition f64_eq :: "f64 \<Rightarrow> f64 \<Rightarrow> bool" where
  "f64_eq x y = (x \<noteq> NaN \<and> x = y)"

definition is_finite :: "f64 \<Rightarrow> bool" where
  "is_finite x = (case x of Fin _ \<Rightarrow> True | _ \<Rightarrow> False)"

text \<open>\<^verbatim>\<open>f64::max\<close> and \<^verbatim>\<open>f64::min\<close> ignore a NaN operand; \<^verbatim>\<open>f64::clamp\<close> panics on bad bounds.\<close>

definition f64_max :: "f64 \<Rightarrow> f64 \<Rightarrow> f64" where
  "f64_max x y = (if x = NaN then y else if y = NaN then x else if x < y then y else x)"

definition f64_min :: "f64 \<Rightarrow> f64 \<Rightarrow> f64" where
  "f64_min x y = (if x = NaN then y else if y = NaN then x else if y < x then y else x)"

definition f64_clamp :: "f64 \<Rightarrow> f64 \<Rightarrow> f64 \<Rightarrow> f64 outcome" where
  "f64_clamp lo hi x =
     (if lo \<le> hi then Inr (if x < lo then lo else if hi < x then hi else x) else Inl ClampBounds)"

section \<open>Conversions\<close>

definition word_to_f64 :: "'n::len word \<Rightarrow> f64" where
  "word_to_f64 w = f64_of (of_nat (unat w))"

definition nat_to_f64 :: "nat \<Rightarrow> f64" where
  "nat_to_f64 n = f64_of (of_nat n)"

definition int_to_f64 :: "int \<Rightarrow> f64" where
  "int_to_f64 k = f64_of (of_int k)"

text \<open>\<^verbatim>\<open>f64::round\<close>: to the nearest integer, half away from zero.\<close>

definition f64_round :: "f64 \<Rightarrow> f64" where
  "f64_round x = (case x of
     Fin q \<Rightarrow> Fin (if 0 \<le> q then of_int \<lfloor>q + 1 / 2\<rfloor> else - of_int \<lfloor>- q + 1 / 2\<rfloor>)
   | _ \<Rightarrow> x)"

text \<open>\<^verbatim>\<open>as u64\<close>: towards zero, saturating, NaN to zero.\<close>

definition f64_to_word :: "f64 \<Rightarrow> 'n::len word" where
  "f64_to_word x = (case x of
     NaN \<Rightarrow> 0
   | NInf \<Rightarrow> 0
   | PInf \<Rightarrow> - 1
   | Fin q \<Rightarrow> (if q < 0 then 0 else if 2 ^ LENGTH('n) \<le> \<lfloor>q\<rfloor> then - 1 else of_int \<lfloor>q\<rfloor>))"

section \<open>Rendering\<close>

text \<open>\<^verbatim>\<open>format!("{:.n}", x)\<close>: the exact decimal value rounded half to even, with the sign kept.\<close>

definition fmt_prec :: "nat \<Rightarrow> f64 \<Rightarrow> string" where
  "fmt_prec n x = (case x of
     NaN \<Rightarrow> ''NaN''
   | PInf \<Rightarrow> ''inf''
   | NInf \<Rightarrow> ''-inf''
   | Fin q \<Rightarrow>
       let k = nat (rne (\<bar>q\<bar> * 10 ^ n));
           ip = show_nat (k div 10 ^ n);
           fp = pad_left n (CHR ''0'') (show_nat (k mod 10 ^ n))
       in (if q < 0 then ''-'' else []) @ ip @ (if n = 0 then [] else ''.'' @ fp))"

section \<open>Comparisons\<close>

lemma f64_cmp_simps [simp]:
  "(Fin a \<le> Fin b) = (a \<le> b)" "(Fin a < Fin b) = (a < b)"
  "\<not> NaN \<le> x" "\<not> x \<le> NaN" "\<not> NaN < x" "\<not> x < NaN"
  "NInf \<le> Fin a" "Fin a \<le> PInf" "NInf < Fin a" "Fin a < PInf"
  "\<not> Fin a \<le> NInf" "\<not> PInf \<le> Fin a" "\<not> Fin a < NInf" "\<not> PInf < Fin a"
  "NInf \<le> PInf" "NInf < PInf" "\<not> PInf \<le> NInf" "\<not> PInf < NInf"
  "PInf \<le> PInf" "NInf \<le> NInf" "\<not> PInf < PInf" "\<not> NInf < NInf"
  by (cases x; simp add: less_eq_f64_def less_f64_def)+

lemma f64_inf_bounds [simp]: "(NInf \<le> x) = (x \<noteq> NaN)" "(x \<le> PInf) = (x \<noteq> NaN)"
  by (cases x; simp)+

lemma f64_0_1_simps [simp]:
  "(Fin a \<le> 0) = (a \<le> 0)" "(0 \<le> Fin a) = (0 \<le> a)" "(Fin a < 0) = (a < 0)" "(0 < Fin a) = (0 < a)"
  "0 \<le> PInf" "NInf \<le> 0" "0 < PInf" "NInf < 0" "\<not> PInf \<le> 0" "\<not> 0 \<le> NInf" "\<not> PInf < 0" "\<not> 0 < NInf"
  "(0::f64) \<noteq> NaN" "(1::f64) \<noteq> NaN" "(Fin a = 0) = (a = 0)" "(Fin a = 1) = (a = 1)"
  by (simp_all add: zero_f64_def one_f64_def)

lemma f64_le_trans [trans]: "x \<le> y \<Longrightarrow> y \<le> z \<Longrightarrow> x \<le> z" for x y z :: f64
  by (cases x; cases y; cases z) auto

lemma f64_less_le_trans [trans]: "x < y \<Longrightarrow> y \<le> z \<Longrightarrow> x < z" for x y z :: f64
  by (cases x; cases y; cases z) auto

lemma f64_le_less_trans [trans]: "x \<le> y \<Longrightarrow> y < z \<Longrightarrow> x < z" for x y z :: f64
  by (cases x; cases y; cases z) auto

lemma f64_less_imp_le: "x < y \<Longrightarrow> x \<le> y" for x y :: f64
  by (cases x; cases y) auto

lemma f64_less_imp_not_le: "x < y \<Longrightarrow> \<not> y \<le> x" for x y :: f64
  by (cases x; cases y) auto

lemma f64_not_less: "x \<noteq> NaN \<Longrightarrow> y \<noteq> NaN \<Longrightarrow> (\<not> x < y) = (y \<le> x)" for x y :: f64
  by (cases x; cases y) auto

lemma f64_le_refl: "(x \<le> x) = (x \<noteq> NaN)" for x :: f64
  by (cases x) auto

lemma f64_le_notNaN: "x \<le> y \<Longrightarrow> x \<noteq> NaN \<and> y \<noteq> NaN" for x y :: f64
  by auto

lemma f64_antisym: "x \<le> y \<Longrightarrow> y \<le> x \<Longrightarrow> x = y" for x y :: f64
  by (cases x; cases y) auto

lemma is_finite_iff: "is_finite x \<longleftrightarrow> (\<exists>q. x = Fin q)"
  by (cases x) (auto simp: is_finite_def)

lemma f64_max_ge1: "x \<noteq> NaN \<Longrightarrow> x \<le> f64_max x y"
  by (cases x; cases y) (auto simp: f64_max_def)

lemma f64_max_ge2: "y \<noteq> NaN \<Longrightarrow> y \<le> f64_max x y"
  by (cases x; cases y) (auto simp: f64_max_def)

lemma f64_min_le1: "x \<noteq> NaN \<Longrightarrow> f64_min x y \<le> x"
  by (cases x; cases y) (auto simp: f64_min_def)

lemma f64_min_le2: "y \<noteq> NaN \<Longrightarrow> f64_min x y \<le> y"
  by (cases x; cases y) (auto simp: f64_min_def)

lemma f64_max_cases: "f64_max x y = x \<or> f64_max x y = y"
  by (auto simp: f64_max_def)

lemma f64_min_cases: "f64_min x y = x \<or> f64_min x y = y"
  by (auto simp: f64_min_def)

section \<open>Arithmetic\<close>

lemma f64_of_mono: "p \<le> q \<Longrightarrow> f64_of p \<le> f64_of q"
  using rnd_mono[of p q] by (auto simp: f64_of_def Let_def)

lemma f64_of_not_NaN [simp]: "f64_of q \<noteq> NaN"
  by (simp add: f64_of_def Let_def)

lemma f64_of_Fin: "\<bar>rnd q\<bar> < 2 ^ 1024 \<Longrightarrow> f64_of q = Fin (rnd q)"
  by (auto simp: f64_of_def Let_def abs_if split: if_splits)

lemma f64_of_exact: "rnd q = q \<Longrightarrow> \<bar>q\<bar> < 2 ^ 1024 \<Longrightarrow> f64_of q = Fin q"
  by (auto simp: f64_of_def Let_def abs_if split: if_splits)

lemma f64_of_int: "\<bar>m\<bar> \<le> 2 ^ 53 \<Longrightarrow> f64_of (of_int m) = Fin (of_int m)"
proof -
  assume m: "\<bar>m\<bar> \<le> 2 ^ 53"
  then have "\<bar>of_int m\<bar> \<le> (of_int (2 ^ 53) :: rat)" by (simp only: of_int_le_iff flip: of_int_abs)
  also have "\<dots> < 2 ^ 1024" by simp
  finally show ?thesis using m by (intro f64_of_exact rnd_of_int) auto
qed

lemma f64_of_nat: "n \<le> 2 ^ 53 \<Longrightarrow> f64_of (of_nat n) = Fin (of_nat n)"
  using f64_of_int[of "int n"] by simp

lemma f64_of_numeral [simp]:
  "f64_of 0 = 0" "f64_of 1 = 1" "f64_of (- 1) = Fin (- 1)"
  "numeral n \<le> (9007199254740992::int) \<Longrightarrow> f64_of (numeral n) = Fin (numeral n)"
  "numeral n \<le> (9007199254740992::int) \<Longrightarrow> f64_of (- numeral n) = Fin (- numeral n)"
  using f64_of_int[of 0] f64_of_int[of 1] f64_of_int[of "- 1"] f64_of_int[of "numeral n"]
    f64_of_int[of "- numeral n"]
  by (auto simp: zero_f64_def one_f64_def)

lemma f64_arith_simps [simp]:
  "Fin a + Fin b = f64_of (a + b)" "Fin a - Fin b = f64_of (a - b)"
  "Fin a * Fin b = f64_of (a * b)" "Fin a / Fin b = (if b = 0 then signed_inf a else f64_of (a / b))"
  "- Fin a = Fin (- a)" "\<bar>Fin a\<bar> = Fin \<bar>a\<bar>"
  "NaN + x = NaN" "NaN - x = NaN" "NaN * x = NaN" "NaN / x = NaN"
  "x + NaN = NaN" "x - NaN = NaN" "x * NaN = NaN" "x / NaN = NaN"
  by (cases x; simp add: plus_f64_def minus_f64_def times_f64_def divide_f64_def uminus_f64_def
      abs_f64_def)+

lemma f64_of_nonneg: "0 \<le> q \<Longrightarrow> 0 \<le> f64_of q"
  using f64_of_mono[of 0 q] by simp

lemma f64_of_nonpos: "q \<le> 0 \<Longrightarrow> f64_of q \<le> 0"
  using f64_of_mono[of q 0] by simp

lemma f64_times_nonneg: "0 \<le> x \<Longrightarrow> 0 \<le> y \<Longrightarrow> x * y \<noteq> NaN \<Longrightarrow> 0 \<le> x * y" for x y :: f64
  by (cases x; cases y)
     (auto simp: times_f64_def signed_inf_def f64_of_nonneg split: if_splits)

text \<open>Subtraction, division and scaling by a positive constant keep the order of their operands.\<close>

lemma f64_minus_mono:
  assumes "x \<le> y" "is_finite c" shows "x - c \<le> y - c"
  using assms by (cases x; cases y; cases c)
    (auto simp: is_finite_def minus_f64_def intro: f64_of_mono)

lemma f64_times_mono:
  assumes "x \<le> y" "is_finite c" "0 < c" shows "x * c \<le> y * c"
  using assms by (cases x; cases y; cases c)
    (auto simp: is_finite_def times_f64_def signed_inf_def intro!: f64_of_mono mult_right_mono)

lemma f64_divide_mono:
  assumes "x \<le> y" "is_finite c" "0 < c" shows "x / c \<le> y / c"
  using assms by (cases x; cases y; cases c)
    (auto simp: is_finite_def divide_f64_def intro!: f64_of_mono divide_right_mono)

lemma f64_divide_self: "is_finite c \<Longrightarrow> 0 < c \<Longrightarrow> c / c = 1"
  by (cases c) (auto simp: is_finite_def)

lemma f64_minus_self: "is_finite c \<Longrightarrow> c - c = 0"
  by (cases c) (auto simp: is_finite_def)

lemma f64_clamp_bounds:
  "f64_clamp lo hi x = Inr y \<Longrightarrow> x \<noteq> NaN \<Longrightarrow> lo \<le> y \<and> y \<le> hi"
  by (auto simp: f64_clamp_def f64_le_refl f64_not_less dest: f64_le_notNaN split: if_splits)

lemmas f64_order_trans = f64_le_trans f64_less_le_trans f64_le_less_trans

text \<open>Scaling a double by at most one does not enlarge it, through the rounding.\<close>

lemma f64_shrinks:
  assumes "f64_of q = Fin q" "0 < q" "c \<le> 1" "0 \<le> c" shows "Fin q * c \<le> Fin q"
proof -
  obtain r where c: "c = Fin r" "0 \<le> r" "r \<le> 1"
    using assms(3,4) by (cases c) (auto simp: zero_f64_def one_f64_def)
  have "Fin q * c = f64_of (q * r)" by (simp add: c times_f64_def)
  also have "\<dots> \<le> f64_of q" using assms(2) c by (intro f64_of_mono) (simp add: mult_left_le)
  finally show ?thesis by (simp add: assms(1))
qed

lemma f64_less_imp_neq: "x < y \<Longrightarrow> x \<noteq> y" for x y :: f64
  by (cases x; cases y) auto

section \<open>Sorting\<close>

text \<open>
  \<^verbatim>\<open>sort_by(|a, b| a.partial_cmp(b).unwrap_or(Equal))\<close>, which the sources apply to lists from which
  NaN has been filtered: there it is the stable sort of the numbers.
\<close>

fun f64_insort :: "f64 \<Rightarrow> f64 list \<Rightarrow> f64 list" where
  "f64_insort x [] = [x]"
| "f64_insort x (y # ys) = (if x \<le> y then x # y # ys else y # f64_insort x ys)"

definition f64_sort :: "f64 list \<Rightarrow> f64 list" where
  "f64_sort xs = foldr f64_insort xs []"

lemma f64_insort_Fin: "f64_insort (Fin q) (map Fin qs) = map Fin (insort q qs)"
  by (induction qs) auto

lemma f64_sort_Fin: "f64_sort (map Fin qs) = map Fin (sort qs)"
  by (induction qs) (simp_all add: f64_sort_def f64_insort_Fin)

lemma all_finite_map:
  assumes "\<forall>x \<in> set xs. is_finite x" obtains qs where "xs = map Fin qs"
proof -
  have "\<exists>qs. xs = map Fin qs" using assms
  proof (induction xs)
    case (Cons x xs)
    then obtain qs q where "xs = map Fin qs" "x = Fin q" by (auto simp: is_finite_iff)
    then have "x # xs = map Fin (q # qs)" by simp
    then show ?case by (rule exI)
  qed simp
  then show ?thesis using that by blast
qed

text \<open>The middle element lies in every interval that holds more than half of the elements.\<close>

lemma sorted_middle_in_majority:
  fixes qs :: "'a::linorder list"
  assumes "sorted qs" "length qs < 2 * length (filter (\<lambda>x. lo \<le> x \<and> x \<le> hi) qs)"
  shows "lo \<le> qs ! (length qs div 2) \<and> qs ! (length qs div 2) \<le> hi"
proof -
  let ?n = "length qs" and ?P = "\<lambda>x. lo \<le> x \<and> x \<le> hi"
  let ?I = "{j. j < ?n \<and> ?P (qs ! j)}"
  have card: "length (filter ?P qs) = card ?I" by (rule length_filter_conv_card)
  have n: "0 < ?n" using assms(2) by (cases qs) auto
  show ?thesis
  proof (rule ccontr)
    assume "\<not> ?thesis"
    then consider "qs ! (?n div 2) < lo" | "hi < qs ! (?n div 2)" by force
    then have "2 * card ?I \<le> ?n"
    proof cases
      case 1
      have "?I \<subseteq> {Suc (?n div 2)..<?n}"
      proof
        fix j assume j: "j \<in> ?I"
        have "\<not> j \<le> ?n div 2"
        proof
          assume "j \<le> ?n div 2"
          then have "qs ! j \<le> qs ! (?n div 2)" using assms(1) n by (intro sorted_nth_mono) auto
          then show False using 1 j by auto
        qed
        then show "j \<in> {Suc (?n div 2)..<?n}" using j by auto
      qed
      then have "card ?I \<le> ?n - Suc (?n div 2)" using card_mono[of "{Suc (?n div 2)..<?n}"] by fastforce
      then show ?thesis by linarith
    next
      case 2
      have "?I \<subseteq> {..<?n div 2}"
      proof
        fix j assume j: "j \<in> ?I"
        have "\<not> ?n div 2 \<le> j"
        proof
          assume "?n div 2 \<le> j"
          then have "qs ! (?n div 2) \<le> qs ! j" using assms(1) j by (intro sorted_nth_mono) auto
          then show False using 2 j by auto
        qed
        then show "j \<in> {..<?n div 2}" by auto
      qed
      then have "card ?I \<le> ?n div 2" using card_mono[of "{..<?n div 2}"] by fastforce
      then show ?thesis by linarith
    qed
    then show False using assms(2) card by simp
  qed
qed

lemma sort_middle_in_majority:
  fixes qs :: "'a::linorder list"
  assumes "length qs < 2 * length (filter (\<lambda>x. lo \<le> x \<and> x \<le> hi) qs)"
  shows "lo \<le> sort qs ! (length qs div 2) \<and> sort qs ! (length qs div 2) \<le> hi"
proof -
  have "length (filter (\<lambda>x. lo \<le> x \<and> x \<le> hi) (sort qs)) = length (filter (\<lambda>x. lo \<le> x \<and> x \<le> hi) qs)"
    by (simp add: filter_sort)
  then show ?thesis using sorted_middle_in_majority[of "sort qs" lo hi] assms by simp
qed

end
