(* ===== verification/Snapshots.thy ===== *)
theory Snapshots
  imports F64
begin

text \<open>
  The records that the scoring pipeline hands to the position manager: the feature snapshot taken
  when a token is scored (\<^verbatim>\<open>src/learning/snapshot.rs\<close>), the points of the early tape
  (\<^verbatim>\<open>src/scoring/features.rs\<close>) and the live snapshot of an open position
  (\<^verbatim>\<open>src/scoring/live_position.rs\<close>). Signed 32-bit scores are integers; the theories that compute
  them bound them.
\<close>

record learning_snapshot =
  ls_mint :: string
  ls_dev :: string
  entry_mcap_sol :: f64
  ls_smart_wallet_count :: u32
  velocity_pct :: f64
  ls_bundle_similar :: f64
  ls_bundle_identical :: f64
  ls_buyer_count :: u64
  buy_to_sell_ratio :: f64
  ls_buy_volume_sol :: f64
  score_total :: int
  ls_tier :: string
  ls_buyer_velocity_persistence :: f64
  ls_buyer_velocity_new_per_slice :: "u64 list"
  ls_sell_pressure_score :: f64
  ls_absorb_quality_score :: f64
  ls_sell_volume_window_sol :: f64
  ls_sell_events_window :: u64
  ls_repeat_dump_slices :: u32
  smart_wallet_early_exits :: u32
  has_momentum_good :: bool
  fresh_b_subtype :: "string option"
  fresh_watchlist :: "string option"
  fresh_b_hot_override :: "bool option"
  ls_momentum_overheated :: bool
  hot_override_reason :: "string option"
  a_momentum_override :: "bool option"
  a_plus_momentum_override :: "bool option"
  first_seen_mcap_sol :: "f64 option"
  discovery_to_buy_ms :: "u64 option"

text \<open>The verdict of the scoring engine (\<^verbatim>\<open>src/scoring/score_engine.rs\<close>).\<close>

datatype tier = APlus | A | B | Skip

record early_tape_point =
  tp_buyer_count :: u64
  tp_still_long :: u64
  tp_already_sold :: u64
  tp_buy_volume_sol :: f64
  tp_cum_sell_raw :: u64
  tp_cum_sell_events :: u64
  tp_mcap_sol :: f64

record live_position_snapshot =
  lp_tape :: early_tape_point
  lp_buyers_per_sec :: f64
  lp_holder_growth_rate :: f64
  lp_volume_delta :: f64
  lp_liquidity_delta :: f64
  lp_smart_wallet_count :: u32
  lp_smart_wallet_exits :: u32
  lp_buy_sell_ratio :: f64
  lp_sell_pressure_score :: f64
  lp_bundle_similar :: f64
  lp_bundle_identical :: f64
  lp_mcap_sol :: f64

end
