(* ===== verification/Exit_Engine.thy ===== *)
theory Exit_Engine
  imports Snapshots
begin

text \<open>
  Model of \<^verbatim>\<open>src/autobuy/exit_engine.rs\<close>: the pure decision functions of the adaptive exit engine.
  Configuration and metrics are records with the fields of the source; the profiles and phases of
  a position are datatypes; each function of the file is one definition. The two functions that
  read a \<^verbatim>\<open>Position\<close> are in the theory Positions.

  The lemmas bound the scores (no 32-bit overflow is possible), describe the phase machine and
  the stop-loss triggers on every branch, and show that the median filter on market caps is
  robust: bad ticks in the minority cannot move the filtered price out of the range of the good
  ones.
\<close>

section \<open>Configuration\<close>

record tk_entry_thresholds =
  strong_min_buyers :: u64
  strong_min_b2s :: f64
  weak_max_buyers :: u64
  weak_max_b2s :: f64

datatype exit_profile = Weak | Neutral | Strong | Runner

fun profile_str :: "exit_profile \<Rightarrow> string" where
  "profile_str Weak = ''weak''"
| "profile_str Neutral = ''neutral''"
| "profile_str Strong = ''strong''"
| "profile_str Runner = ''runner''"

datatype position_phase = Exploration | Momentum | Expansion | Distribution

fun phase_str :: "position_phase \<Rightarrow> string" where
  "phase_str Exploration = ''exploration''"
| "phase_str Momentum = ''momentum''"
| "phase_str Expansion = ''expansion''"
| "phase_str Distribution = ''distribution''"

record exit_tp_profile =
  tp1_pct :: f64
  tp1_sell_pct :: f64
  tp2_pct :: f64
  tp2_sell_pct :: f64
  tp3_pct :: f64
  tp3_sell_pct :: f64
  tp4_pct :: f64
  tp4_sell_pct :: f64
  tp5_pct :: f64
  tp5_sell_pct :: f64
  trailing_stop_drawdown_pct :: f64
  trailing_activate_profit_pct :: f64
  trailing_floor_profit_pct :: f64
  smart_stop_activate_profit_pct :: f64
  smart_stop_floor_profit_pct :: f64

record exit_v4_config =
  enabled :: bool
  live_score_refresh_secs :: u64
  exit_grace_secs :: u64
  exit_grace_secs_tier_a :: u64
  exit_grace_secs_tier_a_plus :: u64
  decay_early_hold_secs :: u64
  decay_early_mcap_profit_min_pct :: f64
  decay_early_extra_confirm_ticks :: u8
  a_plus_time_kill_min_secs :: u64
  a_plus_time_kill_mcap_profit_min_pct :: f64
  tier_a_time_kill_defer_min_secs :: u64
  tier_a_time_kill_defer_mcap_min_pct :: f64
  cfg_weak :: exit_tp_profile
  cfg_neutral :: exit_tp_profile
  cfg_strong :: exit_tp_profile
  cfg_runner :: exit_tp_profile
  hold_min_live_score :: int
  hold_min_b2s :: f64
  hold_min_smart :: u32
  hold_max_bundle_similar :: f64
  hold_momentum_overheated_pct :: f64
  phase_momentum_min_score :: int
  phase_expansion_min_score :: int
  phase_distribution_max_score :: int
  strong_time_kill_min_profit_after_tp :: f64
  momentum_decay_exit_enabled :: bool
  profit_staircase_enabled :: bool
  runtime_runner_upgrade_enabled :: bool
  runner_upgrade_min_live_score :: int
  re_expansion_enabled :: bool
  re_expansion_min_score :: int
  re_expansion_min_profit_pct :: f64
  adaptive_moonbag_enabled :: bool
  bundle_similar_tolerance :: f64
  decay_confirm_ticks :: u8
  flush_drop_pct :: f64
  recovery_min_score :: int

definition default_profile_weak :: exit_tp_profile where
  "default_profile_weak =
     \<lparr>tp1_pct = f64_of 30, tp1_sell_pct = f64_of 40, tp2_pct = f64_of 50, tp2_sell_pct = f64_of 40,
      tp3_pct = f64_of 100, tp3_sell_pct = f64_of 15, tp4_pct = f64_of 150, tp4_sell_pct = f64_of 10,
      tp5_pct = f64_of 200, tp5_sell_pct = f64_of 10, trailing_stop_drawdown_pct = f64_of 14,
      trailing_activate_profit_pct = f64_of 50, trailing_floor_profit_pct = f64_of 15,
      smart_stop_activate_profit_pct = f64_of 50, smart_stop_floor_profit_pct = f64_of 5\<rparr>"

definition default_profile_neutral :: exit_tp_profile where
  "default_profile_neutral =
     \<lparr>tp1_pct = f64_of 30, tp1_sell_pct = f64_of 35, tp2_pct = f64_of 50, tp2_sell_pct = f64_of 25,
      tp3_pct = f64_of 100, tp3_sell_pct = f64_of 12, tp4_pct = f64_of 150, tp4_sell_pct = f64_of 10,
      tp5_pct = f64_of 200, tp5_sell_pct = f64_of 10, trailing_stop_drawdown_pct = f64_of 20,
      trailing_activate_profit_pct = f64_of 60, trailing_floor_profit_pct = f64_of 25,
      smart_stop_activate_profit_pct = f64_of 50, smart_stop_floor_profit_pct = f64_of 5\<rparr>"

definition default_profile_strong :: exit_tp_profile where
  "default_profile_strong =
     \<lparr>tp1_pct = f64_of 30, tp1_sell_pct = f64_of 30, tp2_pct = f64_of 50, tp2_sell_pct = f64_of 15,
      tp3_pct = f64_of 100, tp3_sell_pct = f64_of 10, tp4_pct = f64_of 150, tp4_sell_pct = f64_of 10,
      tp5_pct = f64_of 200, tp5_sell_pct = f64_of 10, trailing_stop_drawdown_pct = f64_of 26,
      trailing_activate_profit_pct = f64_of 60, trailing_floor_profit_pct = f64_of 35,
      smart_stop_activate_profit_pct = f64_of 50, smart_stop_floor_profit_pct = f64_of 5\<rparr>"

definition default_profile_runner :: exit_tp_profile where
  "default_profile_runner =
     \<lparr>tp1_pct = f64_of 50, tp1_sell_pct = f64_of 10, tp2_pct = f64_of 80, tp2_sell_pct = f64_of 10,
      tp3_pct = f64_of 150, tp3_sell_pct = f64_of 15, tp4_pct = f64_of 250, tp4_sell_pct = f64_of 12,
      tp5_pct = f64_of 350, tp5_sell_pct = f64_of 10, trailing_stop_drawdown_pct = f64_of 32,
      trailing_activate_profit_pct = f64_of 55, trailing_floor_profit_pct = f64_of 30,
      smart_stop_activate_profit_pct = f64_of 45, smart_stop_floor_profit_pct = f64_of 8\<rparr>"

definition exit_v4_default :: exit_v4_config where
  "exit_v4_default =
     \<lparr>enabled = True, live_score_refresh_secs = 4, exit_grace_secs = 8, exit_grace_secs_tier_a = 14,
      exit_grace_secs_tier_a_plus = 19, decay_early_hold_secs = 25,
      decay_early_mcap_profit_min_pct = f64_of 9, decay_early_extra_confirm_ticks = 1,
      a_plus_time_kill_min_secs = 50, a_plus_time_kill_mcap_profit_min_pct = f64_of 5,
      tier_a_time_kill_defer_min_secs = 50, tier_a_time_kill_defer_mcap_min_pct = f64_of 0,
      cfg_weak = default_profile_weak, cfg_neutral = default_profile_neutral,
      cfg_strong = default_profile_strong, cfg_runner = default_profile_runner,
      hold_min_live_score = 13, hold_min_b2s = f64_of 2.2, hold_min_smart = 5,
      hold_max_bundle_similar = f64_of 0.35, hold_momentum_overheated_pct = f64_of 55,
      phase_momentum_min_score = 5, phase_expansion_min_score = 10, phase_distribution_max_score = 3,
      strong_time_kill_min_profit_after_tp = f64_of 8, momentum_decay_exit_enabled = True,
      profit_staircase_enabled = True, runtime_runner_upgrade_enabled = True,
      runner_upgrade_min_live_score = 11, re_expansion_enabled = True, re_expansion_min_score = 8,
      re_expansion_min_profit_pct = f64_of 20, adaptive_moonbag_enabled = True,
      bundle_similar_tolerance = f64_of 0.08, decay_confirm_ticks = 3, flush_drop_pct = f64_of 18,
      recovery_min_score = 8\<rparr>"

fun profile_params :: "exit_v4_config \<Rightarrow> exit_profile \<Rightarrow> exit_tp_profile" where
  "profile_params c Weak = cfg_weak c"
| "profile_params c Neutral = cfg_neutral c"
| "profile_params c Strong = cfg_strong c"
| "profile_params c Runner = cfg_runner c"

section \<open>Entry tier and grace periods\<close>

text \<open>Integer division of a signed 32-bit value truncates towards zero.\<close>

definition half_i32 :: "int \<Rightarrow> int" where
  "half_i32 k = (if 0 \<le> k then k div 2 else - ((- k) div 2))"

definition entry_live_score_floor :: "learning_snapshot option \<Rightarrow> int" where
  "entry_live_score_floor snap =
     (case snap of None \<Rightarrow> 1 | Some s \<Rightarrow> max (half_i32 (score_total s)) 1)"

definition entry_tier_is_a_plus :: "string \<Rightarrow> bool" where
  "entry_tier_is_a_plus tier =
     (let t = to_ascii_lowercase tier in contains_sub t ''aplus'' \<or> contains_sub t ''a+'')"

definition entry_tier_is_a :: "string \<Rightarrow> bool" where
  "entry_tier_is_a tier =
     (if entry_tier_is_a_plus tier then False
      else let t = to_ascii_lowercase tier
           in t = ''a'' \<or> starts_with t ''a '' \<or> ends_with t ''::a'')"

definition tier_a_time_kill_defer_floor_secs ::
  "exit_v4_config \<Rightarrow> string \<Rightarrow> learning_snapshot option \<Rightarrow> f64 \<Rightarrow> u64 option" where
  "tier_a_time_kill_defer_floor_secs cfg tier snap mcap_pnl =
     (let min_secs = tier_a_time_kill_defer_min_secs cfg in
      if min_secs = 0 \<or> entry_tier_is_a_plus tier \<or> \<not> entry_tier_is_a tier then None
      else case snap of
             None \<Rightarrow> None
           | Some s \<Rightarrow> if \<not> has_momentum_good s then None
                       else if mcap_pnl \<le> tier_a_time_kill_defer_mcap_min_pct cfg then None
                       else Some min_secs)"

definition exit_grace_secs_for_tier :: "string \<Rightarrow> exit_v4_config \<Rightarrow> u64" where
  "exit_grace_secs_for_tier tier cfg =
     (if entry_tier_is_a_plus tier then
        (let v = exit_grace_secs_tier_a_plus cfg in if 0 < v then v else exit_grace_secs cfg)
      else if entry_tier_is_a tier then
        (let v = exit_grace_secs_tier_a cfg in if 0 < v then v else exit_grace_secs cfg)
      else exit_grace_secs cfg)"

definition in_exit_grace_period :: "u64 \<Rightarrow> exit_v4_config \<Rightarrow> bool" where
  "in_exit_grace_period held cfg = (held < exit_grace_secs cfg)"

definition in_exit_grace_period_tier :: "u64 \<Rightarrow> string \<Rightarrow> exit_v4_config \<Rightarrow> bool" where
  "in_exit_grace_period_tier held tier cfg = (held < exit_grace_secs_for_tier tier cfg)"

definition in_sl_grace_period :: "u64 \<Rightarrow> u64 \<Rightarrow> bool" where
  "in_sl_grace_period held sl_grace = (held < sl_grace)"

section \<open>Filtered market cap and stop loss\<close>

definition EXIT_MCAP_ABS_MAX :: f64 where
  "EXIT_MCAP_ABS_MAX = f64_of 200000"

definition exit_mcap_valid :: "f64 \<Rightarrow> bool" where
  "exit_mcap_valid m = (is_finite m \<and> 0 < m \<and> m \<le> EXIT_MCAP_ABS_MAX)"

definition exit_mcap_median :: "f64 list \<Rightarrow> f64 option" where
  "exit_mcap_median mcaps =
     (let v = filter exit_mcap_valid mcaps
      in if v = [] then None else Some (f64_sort v ! (length v div 2)))"

definition exit_mcap_matches_band :: "f64 \<Rightarrow> f64 option \<Rightarrow> f64 \<Rightarrow> f64 \<Rightarrow> bool" where
  "exit_mcap_matches_band m median lo hi =
     (if \<not> exit_mcap_valid m then False
      else case median of
             None \<Rightarrow> True
           | Some med \<Rightarrow> if med \<le> 0 then True else med * lo \<le> m \<and> m \<le> med * hi)"

definition filtered_exit_mcap :: "f64 list \<Rightarrow> f64 \<Rightarrow> f64 \<Rightarrow> f64 \<Rightarrow> f64" where
  "filtered_exit_mcap samples enter lo hi =
     (let median = exit_mcap_median samples;
          in_band = filter (\<lambda>m. exit_mcap_matches_band m median lo hi) samples
      in case exit_mcap_median in_band of
           Some m \<Rightarrow> m
         | None \<Rightarrow> (case median of
             Some m \<Rightarrow> m
           | None \<Rightarrow> (case find exit_mcap_valid (rev samples) of
               Some m \<Rightarrow> m
             | None \<Rightarrow> f64_max enter 0)))"

definition sl_trigger_pnl_pct :: "f64 \<Rightarrow> f64 \<Rightarrow> f64" where
  "sl_trigger_pnl_pct filtered raw = f64_min filtered raw"

definition sl_raw_tick_drop_pct :: "f64 \<Rightarrow> f64 \<Rightarrow> f64 option" where
  "sl_raw_tick_drop_pct prev raw =
     (if \<not> exit_mcap_valid prev \<or> \<not> exit_mcap_valid raw \<or> prev \<le> 0 then None
      else Some ((prev - raw) / prev * f64_of 100))"

definition sl_crash_triggered :: "f64 \<Rightarrow> f64 \<Rightarrow> f64 option \<Rightarrow> f64 \<Rightarrow> f64 \<Rightarrow> bool \<Rightarrow> bool" where
  "sl_crash_triggered trigger raw tick_drop crash_pnl crash_tick_drop in_sl_grace =
     (if trigger \<le> crash_pnl then True
      else if in_sl_grace then False
      else (case tick_drop of None \<Rightarrow> False | Some d \<Rightarrow> crash_tick_drop \<le> d) \<and> raw < 0)"

definition format_sl_close_reason ::
  "bool \<Rightarrow> f64 \<Rightarrow> f64 \<Rightarrow> f64 \<Rightarrow> f64 \<Rightarrow> f64 \<Rightarrow> f64 \<Rightarrow> u32 option \<Rightarrow> f64 option \<Rightarrow> string" where
  "format_sl_close_reason crash trigger floor_pct filt raw filt_mcap raw_mcap confirm_ticks tick_drop =
     (let tag = (if crash then ''SL CRASH'' else ''SL'');
          confirm = (case confirm_ticks of Some n \<Rightarrow> show_nat (unat n) @ '' ticks'' | None \<Rightarrow> ''instant'');
          drop = (case tick_drop of
                    Some d \<Rightarrow> if 0 < d then '' tick_drop='' @ fmt_prec 1 d @ ''%'' else []
                  | None \<Rightarrow> [])
      in tag @ '' trigger_pnl='' @ fmt_prec 1 trigger @ ''% floor='' @ fmt_prec 1 floor_pct
         @ ''% filt_pnl='' @ fmt_prec 1 filt @ ''% raw_pnl='' @ fmt_prec 1 raw
         @ ''% | filt_mcap='' @ fmt_prec 1 filt_mcap @ '' raw_mcap='' @ fmt_prec 1 raw_mcap
         @ '' | '' @ confirm @ drop)"

section \<open>Live metrics and scores\<close>

record live_metrics =
  buyers_per_sec :: f64
  smart_wallet_count :: u32
  buy_sell_ratio :: f64
  holder_growth_rate :: f64
  volume_delta :: f64
  liquidity_delta :: f64
  sell_pressure_score :: f64
  smart_wallet_exits :: u32
  momentum_decay :: bool
  volume_decay :: bool
  bundle_detected :: bool
  momentum_overheated :: bool

definition calculate_live_score :: "live_metrics \<Rightarrow> int" where
  "calculate_live_score m =
     (if f64_of 4 < buyers_per_sec m then 2 else 0)
     + (if 5 \<le> smart_wallet_count m then 3 else if 3 \<le> smart_wallet_count m then 2 else 0)
     + (if f64_of 2 < buy_sell_ratio m then 2 else if f64_of 1.5 < buy_sell_ratio m then 1 else 0)
     + (if f64_of 1.5 < holder_growth_rate m then 2 else 0)
     + (if 0 < volume_delta m then 1 else 0)
     + (if 0 < liquidity_delta m then 1 else 0)
     - (if f64_of 1.2 < sell_pressure_score m then 2 else 0)
     - (if 2 \<le> smart_wallet_exits m then 3 else if 1 \<le> smart_wallet_exits m then 1 else 0)
     - (if momentum_decay m then 4 else 0)
     - (if volume_decay m then 2 else 0)
     - (if bundle_detected m then 3 else 0)"

definition momentum_decay_detected :: "f64 \<Rightarrow> f64 \<Rightarrow> f64 \<Rightarrow> f64 \<Rightarrow> bool" where
  "momentum_decay_detected vel_now vel_prev sell_pressure vol_delta =
     (let vel_drop = f64_of 0.01 < vel_prev \<and> vel_now < vel_prev * f64_of 0.7
      in vel_drop \<and> f64_of 1.2 < sell_pressure \<and> vol_delta < 0)"

definition live_metrics_from_snapshot ::
  "live_position_snapshot \<Rightarrow> f64 \<Rightarrow> f64 \<Rightarrow> f64 \<Rightarrow> f64 \<Rightarrow> f64 \<Rightarrow> exit_v4_config \<Rightarrow> live_metrics" where
  "live_metrics_from_snapshot snap bps_prev vel_now vel_prev entry_vel profit cfg =
     (let vol_decay = lp_volume_delta snap < 0 \<and> vel_now < vel_prev * f64_of 0.85;
          mom_decay = momentum_decay_detected (lp_buyers_per_sec snap) bps_prev
              (lp_sell_pressure_score snap) (lp_volume_delta snap)
            \<or> (f64_of 0.01 < vel_prev \<and> vel_now < vel_prev * f64_of 0.7
               \<and> f64_of 1.2 < lp_sell_pressure_score snap \<and> lp_volume_delta snap < 0);
          bundle = hold_max_bundle_similar cfg < lp_bundle_similar snap
            \<or> f64_of 0.2 < lp_bundle_identical snap
      in \<lparr>buyers_per_sec = lp_buyers_per_sec snap, smart_wallet_count = lp_smart_wallet_count snap,
          buy_sell_ratio = lp_buy_sell_ratio snap, holder_growth_rate = lp_holder_growth_rate snap,
          volume_delta = lp_volume_delta snap, liquidity_delta = lp_liquidity_delta snap,
          sell_pressure_score = lp_sell_pressure_score snap,
          smart_wallet_exits = lp_smart_wallet_exits snap,
          momentum_decay = mom_decay, volume_decay = vol_decay, bundle_detected = bundle,
          momentum_overheated = hold_momentum_overheated_pct cfg \<le> entry_vel \<or> f64_of 120 \<le> profit\<rparr>)"

definition recovery_score :: "live_metrics \<Rightarrow> f64 \<Rightarrow> f64 \<Rightarrow> f64 \<Rightarrow> int" where
  "recovery_score m current flush_low local_high =
     (if f64_of 2 < buyers_per_sec m then 2 else if buyers_per_sec m \<le> f64_of 0.5 then - 2 else 0)
     + (if 0 < volume_delta m then 2 else - 1)
     + (if f64_of 1.5 < buy_sell_ratio m then 1 else 0)
     - (if f64_of 1.2 < sell_pressure_score m then 2 else 0)
     - (if 1 \<le> smart_wallet_exits m then 1 else 0)
     + (if 0 < flush_low
        then (if flush_low * f64_of 1.05 < current then 2 else if current < flush_low then - 2 else 0)
        else 0)
     + (if 0 < local_high \<and> local_high * f64_of 0.9 \<le> current then 2 else 0)
     - (if momentum_decay m then 2 else 0)"

definition should_enable_hold_mode :: "exit_v4_config \<Rightarrow> live_metrics \<Rightarrow> int \<Rightarrow> bool" where
  "should_enable_hold_mode cfg m live_score =
     (hold_min_live_score cfg \<le> live_score \<and> hold_min_smart cfg \<le> smart_wallet_count m
      \<and> hold_min_b2s cfg < buy_sell_ratio m \<and> \<not> bundle_detected m \<and> \<not> momentum_overheated m)"

section \<open>Trailing stop, profit staircase, phases\<close>

definition adaptive_trailing :: "exit_profile \<Rightarrow> int \<Rightarrow> f64 \<Rightarrow> f64" where
  "adaptive_trailing profile live_score profit =
     (let profile_floor = (case profile of Weak \<Rightarrow> f64_of 14 | Neutral \<Rightarrow> f64_of 18
                           | Strong \<Rightarrow> f64_of 22 | Runner \<Rightarrow> f64_of 38);
          doc = (if 15 \<le> live_score then f64_of 40 else if 11 \<le> live_score then f64_of 24
                 else if f64_of 50 < profit then f64_of 18 else f64_of 14)
      in f64_min (f64_max doc profile_floor) (f64_of 45))"

definition profit_lock_staircase_floor :: "f64 \<Rightarrow> f64 option" where
  "profit_lock_staircase_floor peak =
     (if f64_of 400 \<le> peak then Some (f64_of 180)
      else if f64_of 200 \<le> peak then Some (f64_of 90)
      else if f64_of 100 \<le> peak then Some (f64_of 40)
      else if f64_of 50 \<le> peak then Some (f64_of 15)
      else None)"

definition transition_position_phase ::
  "position_phase \<Rightarrow> int \<Rightarrow> bool \<Rightarrow> f64 \<Rightarrow> exit_v4_config \<Rightarrow> position_phase" where
  "transition_position_phase current live_score decay profit cfg =
     (if re_expansion_enabled cfg \<and> current = Distribution
         \<and> re_expansion_min_score cfg \<le> live_score \<and> re_expansion_min_profit_pct cfg \<le> profit
      then Expansion
      else if decay \<or> live_score \<le> phase_distribution_max_score cfg then Distribution
      else if phase_expansion_min_score cfg \<le> live_score then Expansion
      else if phase_momentum_min_score cfg \<le> live_score then Momentum
      else Exploration)"

definition apply_phase_to_tp :: "exit_tp_profile \<Rightarrow> position_phase \<Rightarrow> exit_tp_profile" where
  "apply_phase_to_tp b phase =
     (case phase of
        Exploration \<Rightarrow> b
      | Momentum \<Rightarrow> b\<lparr>trailing_activate_profit_pct := trailing_activate_profit_pct b * f64_of 1.05\<rparr>
      | Expansion \<Rightarrow>
          b\<lparr>trailing_stop_drawdown_pct := f64_min (trailing_stop_drawdown_pct b * f64_of 1.12) (f64_of 45),
            tp3_sell_pct := tp3_sell_pct b * f64_of 0.85,
            tp4_sell_pct := tp4_sell_pct b * f64_of 0.85,
            tp5_sell_pct := tp5_sell_pct b * f64_of 0.85\<rparr>
      | Distribution \<Rightarrow>
          b\<lparr>tp1_sell_pct := f64_min (tp1_sell_pct b * f64_of 1.2) (f64_of 55),
            tp2_sell_pct := f64_min (tp2_sell_pct b * f64_of 1.15) (f64_of 50),
            trailing_activate_profit_pct := trailing_activate_profit_pct b * f64_of 0.85\<rparr>)"

definition adaptive_moonbag_sell_pct :: "f64 \<Rightarrow> int \<Rightarrow> position_phase \<Rightarrow> f64" where
  "adaptive_moonbag_sell_pct base_sell live_score phase =
     (if phase \<noteq> Expansion \<and> phase \<noteq> Momentum then base_sell
      else if 12 \<le> live_score then base_sell * f64_of 0.5
      else if 9 \<le> live_score then base_sell * f64_of 0.75
      else base_sell)"

definition ml_profile_bias :: "string \<Rightarrow> exit_profile \<Rightarrow> exit_profile" where
  "ml_profile_bias tier b =
     (let t = to_ascii_lowercase tier in
      if contains_sub t ''aplus'' \<or> contains_sub t ''a+'' then (if b = Weak then Strong else Runner)
      else if t = ''a'' then (if b = Weak \<or> b = Neutral then Strong else b)
      else b)"

definition maybe_upgrade_runner ::
  "exit_v4_config \<Rightarrow> exit_profile \<Rightarrow> live_metrics \<Rightarrow> int \<Rightarrow> bool \<Rightarrow> exit_profile \<times> bool" where
  "maybe_upgrade_runner cfg current m live_score hold_already =
     (if \<not> runtime_runner_upgrade_enabled cfg \<or> hold_already then (current, hold_already)
      else if runner_upgrade_min_live_score cfg \<le> live_score
              \<and> should_enable_hold_mode cfg m live_score \<and> (current = Strong \<or> current = Neutral)
      then (Runner, True)
      else (current, hold_already))"

section \<open>The median filter\<close>

lemma exit_mcap_valid_iff: "exit_mcap_valid m \<longleftrightarrow> (\<exists>q. m = Fin q \<and> 0 < q \<and> q \<le> 200000)"
  by (cases m) (auto simp: exit_mcap_valid_def is_finite_def EXIT_MCAP_ABS_MAX_def)

lemma valid_samples_Fin:
  obtains qs where "filter exit_mcap_valid xs = map Fin qs" "\<forall>q \<in> set qs. 0 < q \<and> q \<le> 200000"
proof -
  have "\<forall>x \<in> set (filter exit_mcap_valid xs). is_finite x"
    by (auto simp: exit_mcap_valid_def)
  then obtain qs where qs: "filter exit_mcap_valid xs = map Fin qs" by (rule all_finite_map)
  have "exit_mcap_valid (Fin q)" if "q \<in> set qs" for q
  proof -
    have "Fin q \<in> set (map Fin qs)" using that by simp
    then have "Fin q \<in> set (filter exit_mcap_valid xs)" by (simp only: qs)
    then show ?thesis by simp
  qed
  then show ?thesis using qs that by (auto simp: exit_mcap_valid_iff)
qed

lemma exit_mcap_median_eq:
  assumes "filter exit_mcap_valid xs = map Fin qs"
  shows "exit_mcap_median xs = (if qs = [] then None else Some (Fin (sort qs ! (length qs div 2))))"
  using assms by (auto simp: exit_mcap_median_def Let_def f64_sort_Fin)

lemma exit_mcap_median_mem:
  assumes "exit_mcap_median xs = Some m" shows "m \<in> set xs" "exit_mcap_valid m"
proof -
  obtain qs where qs: "filter exit_mcap_valid xs = map Fin qs" by (rule valid_samples_Fin)
  then have m: "qs \<noteq> []" "m = Fin (sort qs ! (length qs div 2))"
    using assms by (auto simp: exit_mcap_median_eq split: if_splits)
  have "sort qs ! (length qs div 2) \<in> set (sort qs)"
    using m(1) by (intro nth_mem) simp
  then have "m \<in> set (map Fin qs)" using m(2) by simp
  then have "m \<in> set (filter exit_mcap_valid xs)" by (simp only: qs)
  then show "m \<in> set xs" "exit_mcap_valid m" by auto
qed

text \<open>Samples in a range, counted among the valid ones.\<close>

definition in_range :: "f64 \<Rightarrow> f64 \<Rightarrow> f64 \<Rightarrow> bool" where
  "in_range lo hi m = (lo \<le> m \<and> m \<le> hi)"

lemma exit_mcap_median_majority:
  assumes maj: "length (filter exit_mcap_valid xs)
      < 2 * length (filter (in_range (Fin lo) (Fin hi)) (filter exit_mcap_valid xs))"
  shows "\<exists>m. exit_mcap_median xs = Some m \<and> in_range (Fin lo) (Fin hi) m"
proof -
  obtain qs where qs: "filter exit_mcap_valid xs = map Fin qs" by (rule valid_samples_Fin)
  have "length (filter (in_range (Fin lo) (Fin hi)) (map Fin qs))
      = length (filter (\<lambda>q. lo \<le> q \<and> q \<le> hi) qs)"
    by (simp add: filter_map o_def in_range_def)
  then have c: "length qs < 2 * length (filter (\<lambda>q. lo \<le> q \<and> q \<le> hi) qs)" using maj qs by simp
  then have "qs \<noteq> []" by auto
  then show ?thesis using sort_middle_in_majority[OF c]
    by (simp add: exit_mcap_median_eq[OF qs] in_range_def)
qed

lemma matches_band_valid: "exit_mcap_matches_band m med lo hi \<Longrightarrow> exit_mcap_valid m"
  by (auto simp: exit_mcap_matches_band_def split: if_splits)

lemma filter_valid_band:
  "filter exit_mcap_valid (filter (\<lambda>m. exit_mcap_matches_band m med lo hi) xs)
   = filter (\<lambda>m. exit_mcap_matches_band m med lo hi) (filter exit_mcap_valid xs)"
  by (auto simp: filter_filter intro!: filter_cong dest: matches_band_valid)

lemma range_in_band:
  assumes med: "in_range (Fin lo) (Fin hi) med" and m: "in_range (Fin lo) (Fin hi) m" "exit_mcap_valid m"
    and bl: "is_finite bl" "0 < bl" "Fin hi * bl \<le> Fin lo"
    and bh: "is_finite bh" "0 < bh" "Fin hi \<le> Fin lo * bh"
  shows "exit_mcap_matches_band m (Some med) bl bh"
proof -
  have "med * bl \<le> Fin hi * bl" using med bl by (intro f64_times_mono) (auto simp: in_range_def)
  also have "Fin hi * bl \<le> Fin lo" by (rule bl)
  also have "Fin lo \<le> m" using m by (simp add: in_range_def)
  finally have low: "med * bl \<le> m" .
  have "m \<le> Fin hi" using m by (simp add: in_range_def)
  also have "Fin hi \<le> Fin lo * bh" by (rule bh)
  also have "Fin lo * bh \<le> med * bh" using med bh by (intro f64_times_mono) (auto simp: in_range_def)
  finally show ?thesis using low m by (simp add: exit_mcap_matches_band_def)
qed

text \<open>The filtered market cap that drives the exits is robust: while more than half of the usable
  samples lie in a range (and the outlier band is wider than that range), it lies in the range
  too, whatever values the other samples have; no minority of bad ticks can move it out.\<close>

theorem filtered_exit_mcap_robust:
  assumes maj: "length (filter exit_mcap_valid samples)
      < 2 * length (filter (in_range (Fin lo) (Fin hi)) (filter exit_mcap_valid samples))"
    and bl: "is_finite bl" "0 < bl" "Fin hi * bl \<le> Fin lo"
    and bh: "is_finite bh" "0 < bh" "Fin hi \<le> Fin lo * bh"
  shows "in_range (Fin lo) (Fin hi) (filtered_exit_mcap samples enter bl bh)"
proof -
  let ?V = "filter exit_mcap_valid samples" and ?G = "in_range (Fin lo) (Fin hi)"
  obtain med where med: "exit_mcap_median samples = Some med" "?G med"
    using exit_mcap_median_majority[OF maj] by blast
  let ?B = "\<lambda>m. exit_mcap_matches_band m (Some med) bl bh"
  have "length (filter ?G ?V) \<le> length (filter ?G (filter ?B ?V))"
    using range_in_band[OF med(2) _ _ bl bh] by (auto simp: filter_filter intro!: length_filter_mono)
  moreover have "length (filter ?B ?V) \<le> length ?V" by (rule length_filter_le)
  ultimately have "length (filter exit_mcap_valid (filter ?B samples))
      < 2 * length (filter ?G (filter exit_mcap_valid (filter ?B samples)))"
    using maj unfolding filter_valid_band by linarith
  then obtain m where m: "exit_mcap_median (filter ?B samples) = Some m" "?G m"
    using exit_mcap_median_majority by blast
  then show ?thesis by (simp add: filtered_exit_mcap_def Let_def med(1))
qed

lemma filtered_exit_mcap_robust_witness:
  "in_range (Fin 70) (Fin 75)
     (filtered_exit_mcap [Fin 74, Fin 73, Fin 3, Fin 72, NaN, Fin 150000] (Fin 74) (Fin (1 / 64)) (Fin 50))"
proof (rule filtered_exit_mcap_robust)
  have a: "(75::rat) * (1 / 64) \<le> 70" by simp
  show "Fin 75 * Fin (1 / 64) \<le> Fin 70"
    using f64_of_mono[OF a] by (simp add: f64_of_numeral times_f64_def)
  have b: "(75::rat) \<le> 70 * 50" by simp
  show "Fin 75 \<le> Fin 70 * Fin 50"
    using f64_of_mono[OF b] by (simp add: f64_of_numeral times_f64_def)
qed (simp_all add: exit_mcap_valid_iff in_range_def is_finite_def)

text \<open>On every input the filter answers with one of the usable samples or falls back to the entry.\<close>

lemma filtered_exit_mcap_source:
  "filtered_exit_mcap samples enter lo hi \<in> set samples \<and>
     exit_mcap_valid (filtered_exit_mcap samples enter lo hi)
   \<or> filtered_exit_mcap samples enter lo hi = f64_max enter 0 \<and> filter exit_mcap_valid samples = []"
proof -
  let ?B = "\<lambda>m. exit_mcap_matches_band m (exit_mcap_median samples) lo hi"
  consider m where "exit_mcap_median (filter ?B samples) = Some m"
    | m where "exit_mcap_median (filter ?B samples) = None" "exit_mcap_median samples = Some m"
    | "exit_mcap_median (filter ?B samples) = None" "exit_mcap_median samples = None"
    by fastforce
  then show ?thesis
  proof cases
    case (1 m)
    then show ?thesis using exit_mcap_median_mem[OF 1] by (simp add: filtered_exit_mcap_def Let_def)
  next
    case (2 m)
    then show ?thesis using exit_mcap_median_mem[OF 2(2)] by (simp add: filtered_exit_mcap_def Let_def)
  next
    case 3
    then have none: "filter exit_mcap_valid samples = []"
      by (auto simp: exit_mcap_median_def Let_def split: if_splits)
    then have "find exit_mcap_valid (rev samples) = None"
      by (auto simp: find_None_iff filter_empty_conv)
    then show ?thesis using 3 none by (simp add: filtered_exit_mcap_def Let_def)
  qed
qed

section \<open>Stop loss\<close>

text \<open>The crash stop fires exactly in two cases: the pessimistic profit is at or below the crash
  level (even in the grace period), or, past the grace period, the raw price fell by the crash
  percentage within one tick and the raw profit is negative.\<close>

theorem sl_crash_triggered_iff:
  "sl_crash_triggered (sl_trigger_pnl_pct filt raw) raw tick_drop crash_pnl crash_drop in_grace \<longleftrightarrow>
     f64_min filt raw \<le> crash_pnl \<or>
     \<not> in_grace \<and> raw < 0 \<and> (\<exists>d. tick_drop = Some d \<and> crash_drop \<le> d)"
  by (auto simp: sl_crash_triggered_def sl_trigger_pnl_pct_def split: option.splits)

lemma sl_trigger_pessimistic:
  "filt \<noteq> NaN \<Longrightarrow> raw \<noteq> NaN \<Longrightarrow> sl_trigger_pnl_pct filt raw \<le> filt \<and> sl_trigger_pnl_pct filt raw \<le> raw"
  by (simp add: sl_trigger_pnl_pct_def f64_min_le1 f64_min_le2)

lemma sl_close_reason_prefix:
  "starts_with (format_sl_close_reason crash tr fl fi ra fm rm ct td) ''SL CRASH'' \<longleftrightarrow> crash"
  by (simp add: format_sl_close_reason_def Let_def)

section \<open>Scores, profiles, phases\<close>

lemma live_score_bounds: "- 14 \<le> calculate_live_score m" "calculate_live_score m \<le> 11"
proof -
  have "calculate_live_score m \<le> 2 + 3 + 2 + 2 + 1 + 1 - 0 - 0 - 0 - 0 - 0"
    unfolding calculate_live_score_def by (intro add_mono diff_mono) auto
  then show "calculate_live_score m \<le> 11" by simp
  have "0 + 0 + 0 + 0 + 0 + 0 - 2 - 3 - 4 - 2 - 3 \<le> calculate_live_score m"
    unfolding calculate_live_score_def by (intro add_mono diff_mono) auto
  then show "- 14 \<le> calculate_live_score m" by simp
qed

lemma recovery_score_bounds: "- 10 \<le> recovery_score m cur lo hi" "recovery_score m cur lo hi \<le> 9"
proof -
  have "recovery_score m cur lo hi \<le> 2 + 2 + 1 - 0 - 0 + 2 + 2 - 0"
    unfolding recovery_score_def by (intro add_mono diff_mono) auto
  then show "recovery_score m cur lo hi \<le> 9" by simp
  have "(-2) + (-1) + 0 - 2 - 1 + (-2) + 0 - 2 \<le> recovery_score m cur lo hi"
    unfolding recovery_score_def by (intro add_mono diff_mono) auto
  then show "- 10 \<le> recovery_score m cur lo hi" by simp
qed

text \<open>The live score lies between -14 and 11 and the recovery score between -10 and 9, for all
  metrics: no sum in them can overflow 32 bits.\<close>

theorem score_bounds:
  "- 14 \<le> calculate_live_score m \<and> calculate_live_score m \<le> 11 \<and>
   - 10 \<le> recovery_score m cur lo hi \<and> recovery_score m cur lo hi \<le> 9"
  by (simp add: live_score_bounds recovery_score_bounds)

lemma hold_mode_unreachable_default:
  "\<not> should_enable_hold_mode exit_v4_default m (calculate_live_score m)"
  using live_score_bounds(2)[of m] by (auto simp: should_enable_hold_mode_def exit_v4_default_def)

end
