(* ===== verification/Amounts.thy ===== *)
theory Amounts
  imports F64 "HOL-Library.Signed_Division"
begin

text \<open>
  Model of \<^verbatim>\<open>src/helper.rs\<close>: the fixed-point amounts (a raw 64-bit value and a number of
  decimals) that carry every SOL and token quantity, and of \<^verbatim>\<open>Currency\<close> from
  \<^verbatim>\<open>src/generalize/general_commands.rs\<close>. Addition and subtraction assert equal decimals and
  otherwise wrap; conversions to and from \<^verbatim>\<open>f64\<close> round.

  The lemmas show when the operations agree with arithmetic on natural numbers, that a change of
  scale can be undone, and that the conversion to \<^verbatim>\<open>f64\<close> and back loses nothing below \<open>2 ^ 50\<close>
  raw units (about 1.1 million SOL).
\<close>

section \<open>Amount\<close>

record amount =
  amt_value :: u64
  amt_decimals :: u8

definition pow10_u64 :: "u8 \<Rightarrow> u64" where
  "pow10_u64 d = 10 ^ unat d"

definition amount_from_raw :: "u64 \<Rightarrow> u8 \<Rightarrow> amount" where
  "amount_from_raw v d = \<lparr>amt_value = v, amt_decimals = d\<rparr>"

definition amount_from_raw_native :: "u64 \<Rightarrow> amount" where
  "amount_from_raw_native v = \<lparr>amt_value = v, amt_decimals = 9\<rparr>"

definition amount_from_float :: "f64 \<Rightarrow> u8 \<Rightarrow> amount" where
  "amount_from_float v d =
     (let scale = pow10_u64 d
      in \<lparr>amt_value = f64_to_word (f64_round (v * word_to_f64 scale)), amt_decimals = d\<rparr>)"

definition amount_from_float_native :: "f64 \<Rightarrow> amount" where
  "amount_from_float_native v =
     (let scale = pow10_u64 9
      in \<lparr>amt_value = f64_to_word (f64_round (v * word_to_f64 scale)), amt_decimals = 9\<rparr>)"

definition amount_to_float :: "amount \<Rightarrow> f64" where
  "amount_to_float a = word_to_f64 (amt_value a) / word_to_f64 (pow10_u64 (amt_decimals a))"

text \<open>The factor is zero when more than 63 decimals are dropped, and then the division panics.\<close>

definition amount_to_scale :: "amount \<Rightarrow> u8 \<Rightarrow> amount outcome" where
  "amount_to_scale a nd =
     (if amt_decimals a < nd then
        let factor = pow10_u64 (nd - amt_decimals a)
        in Inr \<lparr>amt_value = amt_value a * factor, amt_decimals = nd\<rparr>
      else
        let factor = pow10_u64 (amt_decimals a - nd)
        in if factor = 0 then Inl DivideByZero
           else Inr \<lparr>amt_value = amt_value a div factor, amt_decimals = nd\<rparr>)"

definition amount_add :: "amount \<Rightarrow> amount \<Rightarrow> amount outcome" where
  "amount_add a b =
     (if amt_decimals a = amt_decimals b
      then Inr \<lparr>amt_value = amt_value a + amt_value b, amt_decimals = amt_decimals a\<rparr>
      else Inl DecimalMismatch)"

definition amount_sub :: "amount \<Rightarrow> amount \<Rightarrow> amount outcome" where
  "amount_sub a b =
     (if amt_decimals a = amt_decimals b
      then Inr \<lparr>amt_value = amt_value a - amt_value b, amt_decimals = amt_decimals a\<rparr>
      else Inl DecimalMismatch)"

definition amount_div :: "amount \<Rightarrow> amount \<Rightarrow> f64" where
  "amount_div a b = amount_to_float a / amount_to_float b"

definition amount_display :: "amount \<Rightarrow> string outcome" where
  "amount_display a =
     (let scale = pow10_u64 (amt_decimals a) in
      if scale = 0 then Inl DivideByZero
      else
        let int_part = unat (amt_value a div scale); frac_part = unat (amt_value a mod scale)
        in Inr (if amt_decimals a = 0 then show_nat int_part
                else show_nat int_part @ ''.''
                  @ pad_left (unat (amt_decimals a)) (CHR ''0'') (show_nat frac_part)))"

section \<open>SignedAmount\<close>

text \<open>The raw value is an \<^verbatim>\<open>i64\<close>: a 64-bit word read with \<^term>\<open>sint\<close>; division truncates.\<close>

record signed_amount =
  samt_value :: i64
  samt_decimals :: u8

definition i64_div :: "i64 \<Rightarrow> i64 \<Rightarrow> i64 outcome" where
  "i64_div a b = (if b = 0 then Inl DivideByZero else Inr (word_of_int (sint a sdiv sint b)))"

definition f64_to_i64 :: "f64 \<Rightarrow> i64" where
  "f64_to_i64 x = (case x of
     NaN \<Rightarrow> 0
   | NInf \<Rightarrow> word_of_int (- (2 ^ 63))
   | PInf \<Rightarrow> word_of_int (2 ^ 63 - 1)
   | Fin q \<Rightarrow> (let t = (if 0 \<le> q then \<lfloor>q\<rfloor> else \<lceil>q\<rceil>) in
       word_of_int (max (- (2 ^ 63)) (min (2 ^ 63 - 1) t))))"

definition signed_from_float :: "f64 \<Rightarrow> u8 \<Rightarrow> signed_amount" where
  "signed_from_float v d =
     (let scale = pow10_u64 d
      in \<lparr>samt_value = f64_to_i64 (f64_round (v * int_to_f64 (sint scale))), samt_decimals = d\<rparr>)"

definition signed_to_float :: "signed_amount \<Rightarrow> f64" where
  "signed_to_float a = int_to_f64 (sint (samt_value a)) / word_to_f64 (pow10_u64 (samt_decimals a))"

definition signed_to_scale :: "signed_amount \<Rightarrow> u8 \<Rightarrow> signed_amount outcome" where
  "signed_to_scale a nd =
     (if samt_decimals a < nd then
        Inr \<lparr>samt_value = samt_value a * pow10_u64 (nd - samt_decimals a), samt_decimals = nd\<rparr>
      else bind_outcome (i64_div (samt_value a) (pow10_u64 (samt_decimals a - nd)))
        (\<lambda>v. Inr \<lparr>samt_value = v, samt_decimals = nd\<rparr>))"

definition signed_add :: "signed_amount \<Rightarrow> signed_amount \<Rightarrow> signed_amount outcome" where
  "signed_add a b =
     (if samt_decimals a = samt_decimals b
      then Inr \<lparr>samt_value = samt_value a + samt_value b, samt_decimals = samt_decimals a\<rparr>
      else Inl DecimalMismatch)"

definition signed_sub :: "signed_amount \<Rightarrow> signed_amount \<Rightarrow> signed_amount outcome" where
  "signed_sub a b =
     (if samt_decimals a = samt_decimals b
      then Inr \<lparr>samt_value = samt_value a - samt_value b, samt_decimals = samt_decimals a\<rparr>
      else Inl DecimalMismatch)"

section \<open>Currency\<close>

datatype currency = Native amount | Dollar amount

fun currency_amount :: "currency \<Rightarrow> amount" where
  "currency_amount (Native a) = a"
| "currency_amount (Dollar a) = a"

definition currency_raw :: "currency \<Rightarrow> u64" where
  "currency_raw c = amt_value (currency_amount c)"

fun currency_display :: "currency \<Rightarrow> string outcome" where
  "currency_display (Native a) = bind_outcome (amount_display a) (\<lambda>s. Inr (s @ '' SOL''))"
| "currency_display (Dollar a) = bind_outcome (amount_display a) (\<lambda>s. Inr (s @ ''$''))"

section \<open>Correctness\<close>

lemma unat_pow10:
  assumes "unat d \<le> 19"
  shows "unat (pow10_u64 d) = 10 ^ unat d"
proof -
  have "(10::nat) ^ unat d \<le> 10 ^ 19" using assms by (intro power_increasing) auto
  then have "(10::nat) ^ unat d mod 2 ^ 64 = 10 ^ unat d" by (intro mod_less) simp
  moreover have "(10::u64) ^ unat d = of_nat (10 ^ unat d)" by simp
  ultimately show ?thesis by (simp add: pow10_u64_def unat_of_nat del: of_nat_power)
qed

lemma word_to_f64_exact: "unat w \<le> 2 ^ 53 \<Longrightarrow> word_to_f64 w = Fin (of_nat (unat w))"
  by (simp only: word_to_f64_def f64_of_nat)

lemma pow10_f64: "unat d \<le> 15 \<Longrightarrow> word_to_f64 (pow10_u64 d) = Fin (10 ^ unat d)"
proof -
  assume d: "unat d \<le> 15"
  have "(10::nat) ^ unat d \<le> 10 ^ 15" using d by (intro power_increasing) auto
  then show ?thesis using d by (subst word_to_f64_exact) (auto simp: unat_pow10)
qed

text \<open>Rounding twice, after a division and after a multiplication by the same scale, is harmless.\<close>

lemma scale_roundtrip:
  fixes v t :: rat
  assumes v: "1 \<le> v" "v < 2 ^ 50" and t: "1 \<le> t" "t \<le> 10 ^ 15"
  shows "\<exists>w. f64_of (v / t) * Fin t = Fin w \<and> \<bar>w - v\<bar> < 1 / 2"
proof -
  define r where "r = rnd (v / t)"
  define p where "p = r * t"
  have tiny: "(2::rat) powi (- 1022) \<le> 1 / 10 ^ 15"
    by (simp add: power_int_minus_divide)
  have "1 / 10 ^ 15 \<le> v / t" using v t by (intro frac_le) auto
  then have vt: "2 powi (- 1022) \<le> \<bar>v / t\<bar>" "0 < v / t" using tiny v t by auto
  have er: "\<bar>r - v / t\<bar> \<le> (v / t) / 2 ^ 53" using rnd_error[OF vt(1)] vt(2) by (simp add: r_def)
  have "v / t \<le> v" using v t by (simp add: divide_le_eq)
  then have "\<bar>r\<bar> \<le> 2 ^ 51" using er v vt(2) by (simp add: field_simps abs_if split: if_splits)
  then have f1: "f64_of (v / t) = Fin r"
    unfolding r_def by (intro f64_of_Fin) (simp add: r_def)
  have "\<bar>p - v\<bar> = \<bar>r - v / t\<bar> * t" using t by (simp add: p_def abs_mult_pos' field_simps abs_if)
  also have "\<dots> \<le> (v / t) / 2 ^ 53 * t" using er t by (intro mult_right_mono) auto
  also have "\<dots> = v / 2 ^ 53" using t by simp
  finally have ep: "\<bar>p - v\<bar> \<le> v / 2 ^ 53" .
  then have p: "1 / 2 \<le> p" "p \<le> 2 * v" using v by (simp_all add: field_simps abs_if split: if_splits)
  have "2 powi (- 1022) \<le> \<bar>p\<bar>" using tiny p by (simp add: abs_if)
  then have ew: "\<bar>rnd p - p\<bar> \<le> p / 2 ^ 53" using rnd_error[of p] p by simp
  have close: "\<bar>rnd p - v\<bar> < 1 / 2"
    using ew ep p v by (simp add: field_simps abs_if split: if_splits)
  then have "f64_of p = Fin (rnd p)" using v by (intro f64_of_Fin) (simp add: abs_if split: if_splits)
  then show ?thesis using f1 close by (auto simp: p_def)
qed

lemma f64_round_near: "0 \<le> w \<Longrightarrow> \<bar>w - of_int k\<bar> < 1 / 2 \<Longrightarrow> f64_round (Fin w) = Fin (of_int k)"
  by (auto simp: f64_round_def abs_if floor_unique split: if_splits intro!: floor_unique)

lemma f64_to_word_of_nat:
  "n < 2 ^ LENGTH('n) \<Longrightarrow> (f64_to_word (Fin (of_nat n)) :: 'n::len word) = of_nat n"
  by (auto simp: f64_to_word_def simp flip: of_nat_power)

lemma amount_float_roundtrip_raw:
  assumes v: "unat v < 2 ^ 50" and d: "unat d \<le> 15"
  shows "f64_to_word (f64_round (amount_to_float \<lparr>amt_value = v, amt_decimals = d\<rparr>
           * word_to_f64 (pow10_u64 d))) = v"
proof -
  let ?v = "of_nat (unat v) :: rat" and ?t = "10 ^ unat d :: rat"
  have vf: "word_to_f64 v = Fin ?v" using v by (intro word_to_f64_exact) simp
  have t: "1 \<le> ?t" "?t \<le> 10 ^ 15" using power_increasing[of "unat d" 15 "10::rat"] d by simp_all
  have tf: "word_to_f64 (pow10_u64 d) = Fin ?t" using d by (rule pow10_f64)
  have "\<exists>w. f64_of (?v / ?t) * Fin ?t = Fin w \<and> \<bar>w - ?v\<bar> < 1 / 2"
  proof (cases "unat v = 0")
    case True then show ?thesis by (auto simp: zero_f64_def)
  next
    case False
    then have "1 \<le> ?v" by (metis One_nat_def Suc_leI neq0_conv of_nat_1 of_nat_le_iff)
    moreover have "?v < 2 ^ 50" using of_nat_less_iff[of "unat v" "2 ^ 50", where 'a = rat] v
      by (simp only: of_nat_power of_nat_numeral)
    ultimately show ?thesis using t by (rule scale_roundtrip)
  qed
  then obtain w where w: "f64_of (?v / ?t) * Fin ?t = Fin w" "\<bar>w - ?v\<bar> < 1 / 2" by blast
  have w0: "0 \<le> w"
  proof -
    have "0 \<le> ?v / ?t" by (intro divide_nonneg_nonneg of_nat_0_le_iff) simp
    then have "0 \<le> f64_of (?v / ?t) * Fin ?t"
      using t w(1) by (intro f64_times_nonneg f64_of_nonneg) simp_all
    then show ?thesis using w by simp
  qed
  have "f64_round (Fin w) = Fin ?v" using f64_round_near[OF w0, of "int (unat v)"] w(2)
    by (simp only: of_int_of_nat_eq)
  moreover have "(f64_to_word (Fin ?v) :: u64) = v"
    using unsigned_less[of v] by (subst f64_to_word_of_nat) auto
  ultimately show ?thesis using w(1) t by (simp add: amount_to_float_def vf tf)
qed

lemma amount_add_Inr:
  assumes "amt_decimals a = amt_decimals b" "unat (amt_value a) + unat (amt_value b) < 2 ^ 64"
  shows "\<exists>c. amount_add a b = Inr c \<and> unat (amt_value c) = unat (amt_value a) + unat (amt_value b)
    \<and> amt_decimals c = amt_decimals a"
  using assms by (simp add: amount_add_def unat_word_ariths)

lemma amount_add_mismatch:
  "amt_decimals a \<noteq> amt_decimals b \<Longrightarrow> amount_add a b = Inl DecimalMismatch"
  by (simp add: amount_add_def)

lemma amount_sub_Inr:
  assumes "amt_decimals a = amt_decimals b" "amt_value b \<le> amt_value a"
  shows "\<exists>c. amount_sub a b = Inr c \<and> unat (amt_value c) = unat (amt_value a) - unat (amt_value b)
    \<and> amt_decimals c = amt_decimals a"
  using assms by (simp add: amount_sub_def unat_sub)

lemma amount_to_scale_up_down:
  assumes le: "amt_decimals a < nd" and fits: "unat (amt_value a) * 10 ^ unat (nd - amt_decimals a) < 2 ^ 64"
    and d: "unat (nd - amt_decimals a) \<le> 19"
  shows "bind_outcome (amount_to_scale a nd) (\<lambda>b. amount_to_scale b (amt_decimals a)) = Inr a"
proof -
  let ?f = "pow10_u64 (nd - amt_decimals a)"
  have f: "unat ?f = 10 ^ unat (nd - amt_decimals a)" using d by (rule unat_pow10)
  then have "?f \<noteq> 0" by (metis power_eq_0_iff unat_0 zero_neq_numeral)
  moreover have "(amt_value a * ?f) div ?f = amt_value a"
    using fits f by (intro word_unat_eq_iff[THEN iffD2]) (simp add: unat_div unat_word_ariths)
  ultimately show ?thesis using le by (simp add: amount_to_scale_def)
qed

section \<open>Amounts as floats\<close>

lemma rnd_2_64: "rnd (2 ^ 64) = 2 ^ 64" "rnd (1 / 2 ^ 64) = 1 / 2 ^ 64"
  using rnd_exact[of 1 64] rnd_exact[of 1 "- 64"]
  by (simp_all add: power_int_def inverse_eq_divide power_one_over)

lemma f64_of_pow2_between:
  assumes "1 / 2 ^ 64 \<le> q" "q \<le> 2 ^ 64"
  shows "\<exists>r. f64_of q = Fin r \<and> 1 / 2 ^ 64 \<le> r \<and> r \<le> 2 ^ 64"
proof -
  have r: "1 / 2 ^ 64 \<le> rnd q" "rnd q \<le> 2 ^ 64"
    using rnd_mono[OF assms(1)] rnd_mono[OF assms(2)] by (simp_all only: rnd_2_64)
  have "(0::rat) \<le> 1 / 2 ^ 64" by simp
  then have "\<bar>rnd q\<bar> = rnd q" using r(1) by linarith
  moreover have "(2::rat) ^ 64 < 2 ^ 1024" by simp
  ultimately have "\<bar>rnd q\<bar> < 2 ^ 1024" using r(2) by linarith
  then show ?thesis using r f64_of_Fin by blast
qed

lemma word_to_f64_pos:
  assumes "(w :: u64) \<noteq> 0"
  shows "\<exists>q. word_to_f64 w = Fin q \<and> 1 \<le> q \<and> q \<le> 2 ^ 64"
proof -
  have w: "1 \<le> unat w" "unat w \<le> 2 ^ 64"
    using assms unsigned_less[of w, where 'a = nat] by (auto simp: Suc_le_eq unat_gt_0)
  define n :: rat where "n = of_nat (unat w)"
  have "n \<le> of_nat (2 ^ 64)" unfolding n_def using w(2) by (simp only: of_nat_le_iff)
  moreover have "of_nat 1 \<le> n" unfolding n_def using w(1) by (simp only: of_nat_le_iff)
  ultimately have n: "1 \<le> n" "n \<le> 2 ^ 64" by simp_all
  have r: "1 \<le> rnd n" "rnd n \<le> 2 ^ 64"
    using rnd_mono[OF n(1)] rnd_mono[OF n(2)] by (simp_all only: rnd_2_64 rnd_1)
  moreover have "(2::rat) ^ 64 < 2 ^ 1024" by simp
  ultimately have "\<bar>rnd n\<bar> < 2 ^ 1024" by linarith
  then have "f64_of n = Fin (rnd n)" by (rule f64_of_Fin)
  then show ?thesis using r by (simp only: word_to_f64_def n_def f64.inject) blast
qed

text \<open>A non-zero amount is a positive finite float.\<close>

lemma amount_to_float_between:
  assumes "amt_value a \<noteq> 0" "unat (amt_decimals a) \<le> 15"
  shows "\<exists>r. amount_to_float a = Fin r \<and> 1 / 2 ^ 64 \<le> r \<and> r \<le> 2 ^ 64"
proof -
  obtain v where v: "word_to_f64 (amt_value a) = Fin v" "1 \<le> v" "v \<le> 2 ^ 64"
    using word_to_f64_pos[OF assms(1)] by blast
  define p :: rat where "p = 10 ^ unat (amt_decimals a)"
  have p: "1 \<le> p" "p \<le> 10 ^ 15"
    unfolding p_def using assms(2) power_increasing[of "unat (amt_decimals a)" 15 "10::rat"] by simp_all
  have "amount_to_float a = Fin v / Fin p"
    using v(1) assms(2) by (simp add: amount_to_float_def pow10_f64 p_def)
  then have eq: "amount_to_float a = f64_of (v / p)" using p by simp
  have "1 / 2 ^ 64 \<le> (1 :: rat) / 10 ^ 15" by simp
  also have "\<dots> \<le> v / p" using v p by (intro frac_le) auto
  finally have lo: "1 / 2 ^ 64 \<le> v / p" .
  have "v / p \<le> v / 1" using v p by (intro divide_left_mono) auto
  then have "v / p \<le> 2 ^ 64" using v by simp
  then show ?thesis unfolding eq by (rule f64_of_pow2_between[OF lo])
qed

lemma amount_to_float_pos:
  assumes "amt_value a \<noteq> 0" "unat (amt_decimals a) \<le> 15"
  shows "is_finite (amount_to_float a)" "0 < amount_to_float a"
proof -
  obtain r where r: "amount_to_float a = Fin r" "1 / 2 ^ 64 \<le> r"
    using amount_to_float_between[OF assms] by blast
  have "(0::rat) < 1 / 2 ^ 64" by simp
  then have "0 < r" using r(2) by linarith
  then show "is_finite (amount_to_float a)" "0 < amount_to_float a"
    using r(1) by (simp_all add: is_finite_def)
qed

lemma amount_to_float_zero:
  assumes "amt_value a = 0" "unat (amt_decimals a) \<le> 15" shows "amount_to_float a = Fin 0"
proof -
  have "word_to_f64 (amt_value a) = Fin 0" by (simp add: assms(1) word_to_f64_def zero_f64_def)
  then show ?thesis using pow10_f64[OF assms(2)] by (simp add: amount_to_float_def zero_f64_def)
qed

end
