(* ===== verification/Machines.thy ===== *)
theory Machines
  imports Prelude
begin

text \<open>
  Interfaces shared by the components that are driven by messages. A component has a state and a
  step on messages that may panic; \<open>run_outcome\<close> is the actor's receive loop, which stops at the
  first panic. Two contracts recur and are stated as locales: a step that keeps an invariant, and
  a keyed table, where a message concerns one key and leaves the entries of all others alone. The
  lemmas about whole runs are proved here once; the theories of the components interpret the
  locales on their own steps.
\<close>

fun run_outcome :: "('s \<Rightarrow> 'e \<Rightarrow> 's outcome) \<Rightarrow> 's \<Rightarrow> 'e list \<Rightarrow> 's outcome" where
  "run_outcome step s [] = Inr s"
| "run_outcome step s (e # es) = bind_outcome (step s e) (\<lambda>s'. run_outcome step s' es)"

text \<open>Every message of the run satisfies its precondition in the state in which it arrives.\<close>

fun run_ok :: "('s \<Rightarrow> 'e \<Rightarrow> 's outcome) \<Rightarrow> ('s \<Rightarrow> 'e \<Rightarrow> bool) \<Rightarrow> 's \<Rightarrow> 'e list \<Rightarrow> bool" where
  "run_ok step ok s [] = True"
| "run_ok step ok s (e # es) =
     (ok s e \<and> (case step s e of Inl _ \<Rightarrow> True | Inr s' \<Rightarrow> run_ok step ok s' es))"

lemma run_outcome_append:
  "run_outcome step s (es @ fs) = bind_outcome (run_outcome step s es) (\<lambda>s'. run_outcome step s' fs)"
proof (induction es arbitrary: s)
  case (Cons e es)
  then show ?case by (cases "step s e") auto
qed simp

lemma run_ok_True: "run_ok step (\<lambda>_ _. True) s es"
  by (induction es arbitrary: s) (auto split: sum.split)

lemma run_outcome_lift: "run_outcome (\<lambda>s e. Inr (f s e)) s es = Inr (foldl f s es)"
  by (induction es arbitrary: s) auto

section \<open>Steps that keep an invariant\<close>

locale invariant_machine =
  fixes step :: "'s \<Rightarrow> 'e \<Rightarrow> 's outcome"
    and ok :: "'s \<Rightarrow> 'e \<Rightarrow> bool"
    and inv :: "'s \<Rightarrow> bool"
  assumes inv_step: "inv s \<Longrightarrow> ok s e \<Longrightarrow> step s e = Inr s' \<Longrightarrow> inv s'"
begin

lemma inv_run:
  "inv s \<Longrightarrow> run_ok step ok s es \<Longrightarrow> run_outcome step s es = Inr s' \<Longrightarrow> inv s'"
proof (induction es arbitrary: s)
  case (Cons e es)
  from Cons.prems(3) obtain s1 where s1: "step s e = Inr s1" "run_outcome step s1 es = Inr s'"
    by (auto simp: bind_outcome_Inr_iff)
  moreover have "inv s1" using Cons.prems s1 by (auto intro: inv_step)
  moreover have "run_ok step ok s1 es" using Cons.prems(2) s1 by simp
  ultimately show ?case by (blast intro: Cons.IH)
qed simp

end

section \<open>Steps that never panic under the invariant\<close>

locale total_machine = invariant_machine +
  assumes step_returns: "inv s \<Longrightarrow> ok s e \<Longrightarrow> returns (step s e)"
begin

lemma run_returns: "inv s \<Longrightarrow> run_ok step ok s es \<Longrightarrow> \<exists>s'. run_outcome step s es = Inr s' \<and> inv s'"
proof (induction es arbitrary: s)
  case (Cons e es)
  then have "returns (step s e)" by (simp add: step_returns)
  then obtain s1 where s1: "step s e = Inr s1" by (auto simp: returns_iff)
  then have "inv s1" "run_ok step ok s1 es" using Cons.prems inv_step by auto
  then show ?case using Cons.IH s1 by auto
qed simp

end

section \<open>Keyed tables\<close>

locale keyed_machine =
  fixes step :: "'s \<Rightarrow> 'e \<Rightarrow> 's outcome"
    and key :: "'e \<Rightarrow> 'k"
    and look :: "'s \<Rightarrow> 'k \<Rightarrow> 'v option"
    and upd :: "'e \<Rightarrow> 'v option \<Rightarrow> 'v option outcome"
    and good :: "'s \<Rightarrow> bool"
  assumes good_step: "good s \<Longrightarrow> step s e = Inr s' \<Longrightarrow> good s'"
    and own: "good s \<Longrightarrow> step s e = Inr s' \<Longrightarrow> upd e (look s (key e)) = Inr (look s' (key e))"
    and frame: "good s \<Longrightarrow> step s e = Inr s' \<Longrightarrow> k \<noteq> key e \<Longrightarrow> look s' k = look s k"
begin

text \<open>The entry of a key after a run is the result of the messages for that key alone.\<close>

lemma run_project:
  "good s \<Longrightarrow> run_outcome step s es = Inr s' \<Longrightarrow>
   run_outcome (\<lambda>v e. upd e v) (look s k) (filter (\<lambda>e. key e = k) es) = Inr (look s' k)"
proof (induction es arbitrary: s)
  case (Cons e es)
  from Cons.prems obtain s1 where s1: "step s e = Inr s1" "run_outcome step s1 es = Inr s'"
    by (auto simp: bind_outcome_Inr_iff)
  have g: "good s1" using good_step Cons.prems(1) s1(1) by blast
  show ?case
  proof (cases "key e = k")
    case True
    then have "upd e (look s k) = Inr (look s1 k)" using own[OF Cons.prems(1) s1(1)] by simp
    then show ?thesis using True Cons.IH[OF g s1(2)] by simp
  next
    case False
    then show ?thesis using Cons.IH[OF g s1(2)] frame[OF Cons.prems(1) s1(1), of k] by simp
  qed
qed simp

lemma run_good: "good s \<Longrightarrow> run_outcome step s es = Inr s' \<Longrightarrow> good s'"
proof (induction es arbitrary: s)
  case (Cons e es)
  then show ?case using good_step by (auto simp: bind_outcome_Inr_iff)
qed simp

lemma run_frame:
  assumes "good s" "run_outcome step s es = Inr s'" "\<forall>e \<in> set es. key e \<noteq> k"
  shows "look s' k = look s k"
proof -
  have "filter (\<lambda>e. key e = k) es = []" using assms(3) by (simp add: filter_empty_conv)
  then show ?thesis using run_project[OF assms(1,2), of k] by simp
qed

end

end
