(* ===== verification/Pools.thy ===== *)
theory Pools
  imports Amounts Machines
begin

text \<open>
  Model of \<^verbatim>\<open>src/launchpads/pump/pool.rs\<close> (the bonding-curve pool and its migrated form), of the
  pump.fun log events of \<^verbatim>\<open>src/feed/logs/pump.rs\<close> and of their translation to trade actions
  (\<^verbatim>\<open>src/generalize/adapters/pump.rs\<close>, \<^verbatim>\<open>src/generalize/general_commands.rs\<close>).

  The addresses of the pool and of the curve are program-derived addresses, computed by the
  Solana SDK: they are parameters (\<open>bounding_curve\<close>, \<open>pool_pda\<close>) of the definitions that use them.

  The market capitalisation is computed in 128 bits and cut to 64; the lemmas show that the
  128-bit product never overflows and when the cut loses nothing.
\<close>

section \<open>Events\<close>

record create_event =
  ce_name :: string
  ce_symbol :: string
  ce_uri :: string
  ce_mint :: address
  ce_bonding_curve :: address
  ce_user :: address
  ce_creator :: address
  ce_timestamp :: i64
  ce_virtual_token_reserves :: u64
  ce_virtual_sol_reserves :: u64
  ce_real_token_reserves :: u64
  ce_token_total_supply :: u64
  ce_token_program :: address
  ce_is_mayhem_mode :: bool
  ce_is_cashback_enabled :: bool
  ce_quote_mint :: address
  ce_virtual_quote_reserves :: u64

text \<open>The fields of a trade event that the program reads; the fee and volume fields are not read.\<close>

record trade_event =
  te_mint :: address
  te_sol_amount :: u64
  te_token_amount :: u64
  te_is_buy :: bool
  te_user :: address
  te_timestamp :: i64
  te_virtual_sol_reserves :: u64
  te_virtual_token_reserves :: u64
  te_real_sol_reserves :: u64
  te_real_token_reserves :: u64

datatype pump_event = Create create_event | TradeEvent trade_event

fun event_mint :: "pump_event \<Rightarrow> address" where
  "event_mint (Create e) = ce_mint e"
| "event_mint (TradeEvent e) = te_mint e"

section \<open>Trade actions\<close>

record general_buy =
  gb_mint :: address
  gb_user :: address
  gb_bought :: amount
  gb_spent :: currency

record general_sell =
  gs_mint :: address
  gs_user :: address
  gs_sold :: amount
  gs_received :: currency

datatype trade_action = ABuy general_buy | ASell general_sell

datatype offer =
    Buy (buy_for: u64) (buy_received: amount)
  | Sell (sell_amount: amount) (sell_received: u64)

definition PRECISION :: u8 where "PRECISION = 6"

definition trade_action_of :: "trade_event \<Rightarrow> trade_action" where
  "trade_action_of v =
     (if te_is_buy v then
        ABuy \<lparr>gb_mint = te_mint v, gb_user = te_user v,
              gb_bought = amount_from_raw (te_token_amount v) PRECISION,
              gb_spent = Native (amount_from_raw_native (te_sol_amount v))\<rparr>
      else
        ASell \<lparr>gs_mint = te_mint v, gs_user = te_user v,
               gs_sold = amount_from_raw (te_token_amount v) PRECISION,
               gs_received = Native (amount_from_raw_native (te_sol_amount v))\<rparr>)"

fun trade_mint :: "trade_action \<Rightarrow> address" where
  "trade_mint (ABuy b) = gb_mint b"
| "trade_mint (ASell s) = gs_mint s"

fun trade_trader :: "trade_action \<Rightarrow> address" where
  "trade_trader (ABuy b) = gb_user b"
| "trade_trader (ASell s) = gs_user s"

fun trade_size :: "trade_action \<Rightarrow> currency" where
  "trade_size (ABuy b) = gb_spent b"
| "trade_size (ASell s) = gs_received s"

fun offer_of :: "trade_action \<Rightarrow> offer" where
  "offer_of (ABuy b) = Buy (currency_raw (gb_spent b)) (gb_bought b)"
| "offer_of (ASell s) = Sell (gs_sold s) (currency_raw (gs_received s))"

section \<open>Pools\<close>

record bonding =
  virtual_sol_reserves :: amount
  virtual_token_reserves :: amount
  real_sol_reserves :: amount
  real_token_reserves :: amount
  b_mint :: address
  b_pool :: address
  b_creator :: "address list"

record migrated =
  m_sol_reserves :: amount
  m_token_reserves :: amount
  m_mint :: address
  m_pool :: address
  m_creator :: "address list"

text \<open>\<^verbatim>\<open>Box<dyn Pool>\<close>: one of the two implementations.\<close>

datatype pool = BondingPool bonding | MigratedPool migrated

definition bonding_price :: "bonding \<Rightarrow> currency outcome" where
  "bonding_price b =
     (let d = (ucast (amt_value (virtual_token_reserves b)) :: u128) in
      if d = 0 then Inl DivideByZero
      else let price = (ucast (amt_value (virtual_sol_reserves b)) :: u128) * 1000000000 div d
           in Inr (Native (amount_from_raw_native (ucast price))))"

definition bonding_market_cap :: "bonding \<Rightarrow> currency outcome" where
  "bonding_market_cap b =
     (let d = (ucast (amt_value (virtual_token_reserves b)) :: u128) in
      if d = 0 then Inl DivideByZero
      else let cap = (ucast (amt_value (virtual_sol_reserves b)) :: u128) * 1000000000000000 div d
           in Inr (Native (amount_from_raw_native (ucast cap))))"

definition migrated_price :: "migrated \<Rightarrow> currency outcome" where
  "migrated_price m =
     (if amt_value (m_token_reserves m) = 0 then Inl DivideByZero
      else Inr (Native (amount_from_raw_native
             (amt_value (m_sol_reserves m) div amt_value (m_token_reserves m) div 1000))))"

definition migrated_market_cap :: "migrated \<Rightarrow> currency outcome" where
  "migrated_market_cap m =
     (let d = (ucast (amt_value (m_token_reserves m)) :: u128) in
      if d = 0 then Inl DivideByZero
      else let cap = (ucast (amt_value (m_sol_reserves m)) :: u128) * 1000000000 div d
           in Inr (Native (amount_from_raw_native (ucast cap))))"

fun bonding_update :: "bonding \<Rightarrow> pump_event \<Rightarrow> bonding" where
  "bonding_update b (Create _) = b"
| "bonding_update b (TradeEvent t) =
     b\<lparr>real_sol_reserves := amount_from_raw_native (te_real_sol_reserves t),
       real_token_reserves := amount_from_raw (te_real_token_reserves t) PRECISION,
       virtual_sol_reserves := amount_from_raw_native (te_virtual_sol_reserves t),
       virtual_token_reserves := amount_from_raw (te_virtual_token_reserves t) PRECISION\<rparr>"

definition bonding_new :: "(address \<Rightarrow> address) \<Rightarrow> address \<Rightarrow> address \<Rightarrow> bonding" where
  "bonding_new bounding_curve mint creator =
     \<lparr>virtual_sol_reserves = amount_from_raw_native 30000000000,
      virtual_token_reserves = amount_from_raw 1073000000000000 PRECISION,
      real_sol_reserves = amount_from_raw_native 0,
      real_token_reserves = amount_from_raw 793100000000000 PRECISION,
      b_mint = mint, b_pool = bounding_curve mint, b_creator = [creator]\<rparr>"

definition bonding_migrate :: "(address \<Rightarrow> address) \<Rightarrow> bonding \<Rightarrow> migrated" where
  "bonding_migrate pool_pda b =
     \<lparr>m_sol_reserves = real_sol_reserves b, m_token_reserves = real_token_reserves b,
      m_mint = b_mint b, m_pool = pool_pda (b_mint b), m_creator = b_creator b\<rparr>"

fun pool_price :: "pool \<Rightarrow> currency outcome" where
  "pool_price (BondingPool b) = bonding_price b"
| "pool_price (MigratedPool m) = migrated_price m"

fun pool_market_cap :: "pool \<Rightarrow> currency outcome" where
  "pool_market_cap (BondingPool b) = bonding_market_cap b"
| "pool_market_cap (MigratedPool m) = migrated_market_cap m"

fun pool_update :: "pool \<Rightarrow> pump_event \<Rightarrow> pool" where
  "pool_update (BondingPool b) e = BondingPool (bonding_update b e)"
| "pool_update (MigratedPool m) e = MigratedPool m"

fun pool_mint :: "pool \<Rightarrow> address" where
  "pool_mint (BondingPool b) = b_mint b"
| "pool_mint (MigratedPool m) = m_mint m"

fun pool_address :: "pool \<Rightarrow> address" where
  "pool_address (BondingPool b) = b_pool b"
| "pool_address (MigratedPool m) = m_pool m"

fun pool_creators :: "pool \<Rightarrow> address list" where
  "pool_creators (BondingPool b) = b_creator b"
| "pool_creators (MigratedPool m) = m_creator m"

definition pool_token_decimals :: "pool \<Rightarrow> u8" where
  "pool_token_decimals p = 6"

definition pool_quote_decimals :: "pool \<Rightarrow> u8" where
  "pool_quote_decimals p = 9"

section \<open>Correctness\<close>

lemma pool_update_identity [simp]:
  "pool_mint (pool_update p e) = pool_mint p"
  "pool_address (pool_update p e) = pool_address p"
  "pool_creators (pool_update p e) = pool_creators p"
  by (cases p; cases e; simp)+

lemma unat_ucast_u128: "unat (ucast (w :: u64) :: u128) = unat w"
proof -
  have "unat w < 2 ^ 128" using unsigned_less[of w, where 'a = nat] by simp
  then show ?thesis by (simp add: unsigned_ucast_eq unsigned_take_bit_eq take_bit_nat_eq_self)
qed

lemma unat_ucast_u64: "unat (ucast (w :: u128) :: u64) = unat w mod 2 ^ 64"
  by (simp add: unsigned_ucast_eq unsigned_take_bit_eq take_bit_eq_mod)

lemma ucast_u128_0: "(ucast (w :: u64) :: u128) = 0 \<longleftrightarrow> w = 0"
  by (metis unat_ucast_u128 unat_eq_zero)

text \<open>The 128-bit product of a 64-bit reserve and a scale below \<open>2 ^ 64\<close> does not overflow.\<close>

lemma unat_mul_u128:
  assumes "unat c < 2 ^ 64"
  shows "unat ((ucast (w :: u64) :: u128) * c) = unat w * unat c"
proof -
  have "unat w * unat c < 2 ^ 64 * 2 ^ 64"
    using unsigned_less[of w, where 'a = nat] assms by (intro mult_strict_mono) auto
  then show ?thesis by (simp add: unat_word_ariths unat_ucast_u128)
qed

definition mcap_lamports :: "nat \<Rightarrow> nat \<Rightarrow> nat" where
  "mcap_lamports sol tok = sol * 10 ^ 15 div tok"

lemma bonding_market_cap_eq:
  "bonding_market_cap b =
     (if amt_value (virtual_token_reserves b) = 0 then Inl DivideByZero
      else Inr (Native (amount_from_raw_native (of_nat
        (mcap_lamports (unat (amt_value (virtual_sol_reserves b)))
           (unat (amt_value (virtual_token_reserves b))))))))"
  by (simp add: bonding_market_cap_def Let_def ucast_u128_0 word_unat_eq_iff unat_ucast_u64 unat_div
      unat_mul_u128 unat_ucast_u128 mcap_lamports_def unat_of_nat amount_from_raw_native_def)

text \<open>The market capitalisation of a bonding curve is the number of lamports that the virtual SOL
  reserve times 10^15 over the virtual token reserve gives, with no 128-bit overflow for any
  reserves; it is cut to 64 bits, and it panics exactly when the token reserve is zero.\<close>

theorem bonding_market_cap_exact:
  "bonding_market_cap b =
     (let sol = unat (amt_value (virtual_sol_reserves b));
          tok = unat (amt_value (virtual_token_reserves b))
      in if tok = 0 then Inl DivideByZero
         else Inr (Native \<lparr>amt_value = of_nat (sol * 10 ^ 15 div tok), amt_decimals = 9\<rparr>))"
  by (simp add: bonding_market_cap_eq amount_from_raw_native_def mcap_lamports_def Let_def
      unat_eq_zero)

lemma mcap_lamports_mono:
  assumes "s \<le> s'" "t' \<le> t" "0 < t'" shows "mcap_lamports s t \<le> mcap_lamports s' t'"
proof -
  have "s * 10 ^ 15 div t \<le> s' * 10 ^ 15 div t" using assms by (intro div_le_mono) simp
  also have "\<dots> \<le> s' * 10 ^ 15 div t'" using assms by (intro div_le_mono2) auto
  finally show ?thesis by (simp add: mcap_lamports_def)
qed

text \<open>The reserve that divides: a pool whose token reserve is not empty has a market cap.\<close>

definition pool_tokens :: "pool \<Rightarrow> u64" where
  "pool_tokens p = (case p of BondingPool b \<Rightarrow> amt_value (virtual_token_reserves b)
                    | MigratedPool m \<Rightarrow> amt_value (m_token_reserves m))"

lemma pool_market_cap_returns:
  assumes "pool_tokens p \<noteq> 0"
  shows "\<exists>v. pool_market_cap p = Inr (Native (amount_from_raw_native v))"
  using assms by (cases p)
    (auto simp: pool_tokens_def bonding_market_cap_def migrated_market_cap_def Let_def ucast_u128_0)

lemma pool_market_cap_panics: "pool_tokens p = 0 \<Longrightarrow> pool_market_cap p = Inl DivideByZero"
  by (cases p)
    (auto simp: pool_tokens_def bonding_market_cap_def migrated_market_cap_def Let_def)

end
