(* ===== verification/Positions.thy ===== *)
theory Positions
  imports Exit_Engine Pools
begin

text \<open>
  Model of \<^verbatim>\<open>src/autobuy/positions.rs\<close>: an open position with all its fields, the constructor and
  every method, and the two functions of \<^verbatim>\<open>src/autobuy/exit_engine.rs\<close> that read a position. A
  method that asks the pool for its market cap can panic on an empty reserve and has an outcome.

  The lemmas relate the rounded profit percentage to the sign of the price move, bound the tick
  buffer of the median filter, and describe the time-kill velocity samples.
\<close>

section \<open>Position\<close>

record creator_statistics =
  median_market_cap :: currency
  trader_pnl_average :: f64
  total_holders_average :: u64
  average_volume :: f64
  median_total_trades :: u64
  average_unique_buy_to_sell_ratio :: f64
  average_buy_trader_size :: currency
  total_coins :: u64

datatype open_reason = DevStats creator_statistics | TraderStats

text \<open>The key of the position table: mint and wallet.\<close>

type_synonym position_key = "address \<times> string"

record position =
  wallet_id :: string
  pos_pool :: pool
  initial_holdings :: amount
  holdings :: amount
  enter_mcap :: amount
  highest_mcap :: f64
  exit_profit_floor :: f64
  tp1_triggered :: bool
  tp2_triggered :: bool
  tp3_triggered :: bool
  tp4_triggered :: bool
  tp5_triggered :: bool
  mcap_ceiling_triggered :: bool
  trailing_active :: bool
  is_closing :: bool
  pending_partial_sell :: bool
  entry_time :: u64
  total_returned :: f64
  spent_sol :: f64
  dev_address :: "address option"
  early_buyers :: "address list"
  pos_snapshot :: "learning_snapshot option"
  pos_open_reason :: "open_reason option"
  tk_entry_buyers :: u64
  tk_entry_smart :: u32
  tk_entry_b2s :: f64
  tk_last_secs :: u64
  tk_last_mcap :: f64
  tk_prev_secs :: u64
  tk_prev_mcap :: f64
  last_time_kill_tier :: string
  last_time_kill_after_secs :: u64
  pos_profile :: exit_profile
  hold_mode :: bool
  exit_phase :: position_phase
  pos_live_score :: int
  live_prev_velocity :: f64
  live_buyers_per_sec :: f64
  live_prev_buyers_per_sec :: f64
  last_live_score_at :: u64
  live_score_entry_floor :: int
  peak_profit_pct :: f64
  live_tape_prev :: "early_tape_point option"
  live_tape_curr :: "early_tape_point option"
  exit_mcap_ticks :: "f64 list"
  sl_below_floor_streak :: u8
  decay_streak :: u8
  flush_active :: bool
  flush_low_mcap :: f64
  pos_recovery_score :: int
  sl_prev_raw_mcap :: "f64 option"
  use_jupiter_exit_mcap :: bool
  exit_mcap_jupiter :: "f64 option"
  last_exit_mcap_poll_at :: u64

text \<open>\<^verbatim>\<open>Option::filter(|m| *m > 0.0)\<close>.\<close>

definition positive_only :: "f64 option \<Rightarrow> f64 option" where
  "positive_only o' = (case o' of Some m \<Rightarrow> if 0 < m then Some m else None | None \<Rightarrow> None)"

definition position_at :: "string \<Rightarrow> pool \<Rightarrow> amount \<Rightarrow> u64 \<Rightarrow> amount \<Rightarrow> position" where
  "position_at wallet p bought now enter =
     \<lparr>wallet_id = wallet, pos_pool = p, initial_holdings = bought, holdings = bought,
      enter_mcap = enter, highest_mcap = amount_to_float enter, exit_profit_floor = f64_of (- 16),
      tp1_triggered = False, tp2_triggered = False, tp3_triggered = False, tp4_triggered = False,
      tp5_triggered = False, mcap_ceiling_triggered = False, trailing_active = False,
      is_closing = False, pending_partial_sell = False, entry_time = now, total_returned = 0,
      spent_sol = 0, dev_address = None, early_buyers = [], pos_snapshot = None,
      pos_open_reason = None, tk_entry_buyers = 0, tk_entry_smart = 0, tk_entry_b2s = 0,
      tk_last_secs = 0, tk_last_mcap = 0, tk_prev_secs = 0, tk_prev_mcap = 0,
      last_time_kill_tier = [], last_time_kill_after_secs = 0, pos_profile = Neutral,
      hold_mode = False, exit_phase = Exploration, pos_live_score = 0, live_prev_velocity = 0,
      live_buyers_per_sec = 0, live_prev_buyers_per_sec = 0, last_live_score_at = 0,
      live_score_entry_floor = 1, peak_profit_pct = 0, live_tape_prev = None,
      live_tape_curr = None, exit_mcap_ticks = [], sl_below_floor_streak = 0, decay_streak = 0,
      flush_active = False, flush_low_mcap = 0, pos_recovery_score = 0, sl_prev_raw_mcap = None,
      use_jupiter_exit_mcap = False, exit_mcap_jupiter = None, last_exit_mcap_poll_at = 0\<rparr>"

definition position_new ::
  "string \<Rightarrow> pool \<Rightarrow> amount \<Rightarrow> u64 \<Rightarrow> f64 option \<Rightarrow> position outcome" where
  "position_new wallet p bought now fill =
     (case positive_only fill of
        Some m \<Rightarrow> Inr (position_at wallet p bought now (amount_from_float_native m))
      | None \<Rightarrow> bind_outcome (pool_market_cap p)
                  (\<lambda>c. Inr (position_at wallet p bought now (currency_amount c))))"

definition exit_raw_mcap :: "position \<Rightarrow> f64 outcome" where
  "exit_raw_mcap pos =
     (case (if use_jupiter_exit_mcap pos then positive_only (exit_mcap_jupiter pos) else None) of
        Some j \<Rightarrow> Inr j
      | None \<Rightarrow> bind_outcome (pool_market_cap (pos_pool pos))
                  (\<lambda>c. Inr (amount_to_float (currency_amount c))))"

definition push_exit_mcap_tick :: "position \<Rightarrow> f64 \<Rightarrow> nat \<Rightarrow> position" where
  "push_exit_mcap_tick pos raw max_ticks =
     (if exit_mcap_valid raw
      then let ticks = exit_mcap_ticks pos @ [raw]
           in pos\<lparr>exit_mcap_ticks := drop (length ticks - max_ticks) ticks\<rparr>
      else pos)"

definition pnl_at_mcap :: "position \<Rightarrow> f64 \<Rightarrow> f64" where
  "pnl_at_mcap pos mcap =
     (let enter = amount_to_float (enter_mcap pos)
      in if f64_eq enter 0 then 0 else (mcap / enter - 1) * f64_of 100)"

definition pos_pnl :: "position \<Rightarrow> f64 outcome" where
  "pos_pnl pos = bind_outcome (exit_raw_mcap pos) (\<lambda>m. Inr (pnl_at_mcap pos m))"

definition filtered_market_cap :: "position \<Rightarrow> f64 \<Rightarrow> f64 \<Rightarrow> f64" where
  "filtered_market_cap pos lo hi =
     filtered_exit_mcap (exit_mcap_ticks pos) (amount_to_float (enter_mcap pos)) lo hi"

definition pnl_filtered :: "position \<Rightarrow> f64 \<Rightarrow> f64 \<Rightarrow> f64" where
  "pnl_filtered pos lo hi =
     pnl_at_mcap pos (filtered_exit_mcap (exit_mcap_ticks pos) (amount_to_float (enter_mcap pos)) lo hi)"

definition time_kill_note_mcap_sample :: "position \<Rightarrow> u64 \<Rightarrow> f64 \<Rightarrow> position" where
  "time_kill_note_mcap_sample pos wall mcap =
     (if tk_last_secs pos = 0
      then pos\<lparr>tk_last_secs := wall, tk_last_mcap := mcap, tk_prev_secs := wall, tk_prev_mcap := mcap\<rparr>
      else if wall = tk_last_secs pos then pos\<lparr>tk_last_mcap := mcap\<rparr>
      else pos\<lparr>tk_prev_secs := tk_last_secs pos, tk_prev_mcap := tk_last_mcap pos,
               tk_last_secs := wall, tk_last_mcap := mcap\<rparr>)"

definition time_kill_mcap_velocity_pct_per_sec :: "position \<Rightarrow> f64 \<Rightarrow> f64" where
  "time_kill_mcap_velocity_pct_per_sec pos enter =
     (if enter \<le> 0 then 0
      else let dt = word_to_f64 (max (saturating_sub (tk_last_secs pos) (tk_prev_secs pos)) 1);
               dm = tk_last_mcap pos - tk_prev_mcap pos
           in dm / enter * f64_of 100 / dt)"

section \<open>Metrics and profile at entry\<close>

definition live_metrics_lite ::
  "position \<Rightarrow> f64 \<Rightarrow> f64 \<Rightarrow> learning_snapshot option \<Rightarrow> exit_v4_config \<Rightarrow> live_metrics" where
  "live_metrics_lite pos vel profit snap cfg =
     (let sp = (case snap of Some s \<Rightarrow> ls_sell_pressure_score s | None \<Rightarrow> 0);
          entry_vel = (case snap of Some s \<Rightarrow> velocity_pct s | None \<Rightarrow> 0);
          b_sim = (case snap of Some s \<Rightarrow> ls_bundle_similar s | None \<Rightarrow> 0);
          b_id = (case snap of Some s \<Rightarrow> ls_bundle_identical s | None \<Rightarrow> 0);
          exits = (case snap of Some s \<Rightarrow> smart_wallet_early_exits s | None \<Rightarrow> 0);
          b2s = (if 0 < tk_entry_b2s pos then tk_entry_b2s pos
                 else case snap of Some s \<Rightarrow> buy_to_sell_ratio s | None \<Rightarrow> 1);
          bps = f64_max (vel * f64_of 12) 0 + (if 35 \<le> tk_entry_buyers pos then f64_of 2.5 else 0);
          vd = vel
      in \<lparr>buyers_per_sec = bps, smart_wallet_count = tk_entry_smart pos, buy_sell_ratio = b2s,
          holder_growth_rate = f64_max vel 0 * f64_of 20, volume_delta = vd, liquidity_delta = vel,
          sell_pressure_score = sp, smart_wallet_exits = exits,
          momentum_decay = momentum_decay_detected vel (live_prev_velocity pos) sp vd,
          volume_decay = (vd < 0),
          bundle_detected = (hold_max_bundle_similar cfg < b_sim \<or> f64_of 0.25 < b_id),
          momentum_overheated = (hold_momentum_overheated_pct cfg \<le> entry_vel \<or> f64_of 120 \<le> profit)\<rparr>)"

definition resolve_entry_profile ::
  "tk_entry_thresholds \<Rightarrow> exit_v4_config \<Rightarrow> position \<Rightarrow> learning_snapshot option \<Rightarrow> exit_profile \<times> bool" where
  "resolve_entry_profile tk v4 pos snap =
     (let entry_score = (case snap of Some s \<Rightarrow> score_total s | None \<Rightarrow> 0);
          b2s = f64_max (tk_entry_b2s pos) (case snap of Some s \<Rightarrow> buy_to_sell_ratio s | None \<Rightarrow> 0);
          smart = max (tk_entry_smart pos) (case snap of Some s \<Rightarrow> ls_smart_wallet_count s | None \<Rightarrow> 0);
          strong = (if 1 \<le> smart then 1 else 0)
                 + (if strong_min_buyers tk \<le> tk_entry_buyers pos then 1 else 0)
                 + (if strong_min_b2s tk \<le> b2s then 1 else 0 :: nat);
          weak = (if tk_entry_smart pos = 0 then 1 else 0)
               + (if 0 < tk_entry_buyers pos \<and> tk_entry_buyers pos < weak_max_buyers tk then 1 else 0)
               + (if 0 < b2s \<and> b2s < weak_max_b2s tk then 1 else 0 :: nat);
          b = (if 2 \<le> strong \<and> weak \<le> 1 then Strong
               else if 2 \<le> weak \<and> strong \<le> 1 then Weak else Neutral);
          metrics = live_metrics_lite pos 0 0 snap v4;
          live_score = max (calculate_live_score metrics) (half_i32 entry_score);
          hold = should_enable_hold_mode v4 metrics live_score;
          tier = (case snap of Some s \<Rightarrow> ls_tier s | None \<Rightarrow> []);
          biased = ml_profile_bias tier b;
          profile = (if hold \<and> (biased = Strong \<or> biased = Neutral) then Runner else biased)
      in (profile, hold))"

section \<open>Profit percentages\<close>

definition entered :: "position \<Rightarrow> bool" where
  "entered pos \<longleftrightarrow> amt_value (enter_mcap pos) \<noteq> 0 \<and> unat (amt_decimals (enter_mcap pos)) \<le> 15"

lemma entered_float:
  assumes "entered pos"
  shows "is_finite (amount_to_float (enter_mcap pos))" "0 < amount_to_float (enter_mcap pos)"
  using assms amount_to_float_pos by (auto simp: entered_def)

lemma pnl_at_mcap_eq:
  assumes "entered pos"
  shows "pnl_at_mcap pos m = (m / amount_to_float (enter_mcap pos) - 1) * Fin 100"
  using entered_float[OF assms] by (auto simp: pnl_at_mcap_def Let_def f64_eq_def zero_f64_def)

lemma pnl_at_mcap_mono:
  assumes "entered pos" "m \<le> m'"
  shows "pnl_at_mcap pos m \<le> pnl_at_mcap pos m'"
proof -
  have "m / amount_to_float (enter_mcap pos) - 1 \<le> m' / amount_to_float (enter_mcap pos) - 1"
    using entered_float[OF assms(1)] assms(2)
    by (intro f64_minus_mono f64_divide_mono) (auto simp: is_finite_def one_f64_def)
  then show ?thesis
    unfolding pnl_at_mcap_eq[OF assms(1)] by (intro f64_times_mono) (auto simp: is_finite_def)
qed

lemma pnl_at_entry: "entered pos \<Longrightarrow> pnl_at_mcap pos (amount_to_float (enter_mcap pos)) = 0"
  using entered_float[of pos]
  by (simp add: pnl_at_mcap_eq f64_divide_self f64_minus_self is_finite_def one_f64_def zero_f64_def)

text \<open>The profit percentage of a position keeps the order of market caps through all roundings:
  a higher price never shows a lower profit, a price at or above the entry never shows a loss, and
  a price at or below it never shows a gain.\<close>

theorem pnl_order_and_sign:
  assumes "amt_value (enter_mcap pos) \<noteq> 0" "unat (amt_decimals (enter_mcap pos)) \<le> 15"
  shows "(m \<le> m' \<longrightarrow> pnl_at_mcap pos m \<le> pnl_at_mcap pos m') \<and>
    (amount_to_float (enter_mcap pos) \<le> m \<longrightarrow> 0 \<le> pnl_at_mcap pos m) \<and>
    (m \<le> amount_to_float (enter_mcap pos) \<longrightarrow> pnl_at_mcap pos m \<le> 0)"
proof -
  have e: "entered pos" using assms by (simp add: entered_def)
  show ?thesis
    using pnl_at_mcap_mono[OF e, of m m'] pnl_at_entry[OF e]
      pnl_at_mcap_mono[OF e, of "amount_to_float (enter_mcap pos)" m]
      pnl_at_mcap_mono[OF e, of m "amount_to_float (enter_mcap pos)"] by simp
qed

definition sample_pool :: pool where
  "sample_pool = BondingPool (bonding_new id 7 9)"

definition sample_position :: position where
  "sample_position = position_at ''w1'' sample_pool (amount_from_raw 1000 6) 100
     (amount_from_raw_native 30000000000)"

lemma sample_enter: "amount_to_float (enter_mcap sample_position) = Fin 30"
proof -
  have "word_to_f64 (30000000000 :: u64) = Fin 30000000000"
    by (simp add: word_to_f64_def)
  moreover have "word_to_f64 (pow10_u64 9) = Fin (10 ^ 9)" by (simp add: pow10_f64)
  ultimately show ?thesis
    by (simp add: sample_position_def position_at_def amount_to_float_def amount_from_raw_native_def)
qed

lemma pnl_order_and_sign_witness:
  "Fin 30 \<le> Fin 45 \<and> 0 \<le> pnl_at_mcap sample_position (Fin 45)"
  using pnl_order_and_sign[of sample_position "Fin 45" "Fin 45"] sample_enter
  by (simp add: sample_position_def position_at_def amount_from_raw_native_def)

section \<open>Tick buffer\<close>

definition ticks_ok :: "nat \<Rightarrow> position \<Rightarrow> bool" where
  "ticks_ok n pos \<longleftrightarrow> length (exit_mcap_ticks pos) \<le> n \<and> (\<forall>m \<in> set (exit_mcap_ticks pos). exit_mcap_valid m)"

lemma push_tick_ok:
  assumes "ticks_ok n pos" shows "ticks_ok n (push_exit_mcap_tick pos raw n)"
  using assms set_drop_subset by (fastforce simp: ticks_ok_def push_exit_mcap_tick_def Let_def)

text \<open>The newest usable tick is kept, and an unusable one changes nothing.\<close>

lemma push_tick_last:
  "0 < n \<Longrightarrow> exit_mcap_valid raw \<Longrightarrow> last (exit_mcap_ticks (push_exit_mcap_tick pos raw n)) = raw"
  by (simp add: push_exit_mcap_tick_def Let_def last_drop)

text \<open>Whatever raw prices arrive (NaN, infinities, zero, absurd values), the tick buffer of a fresh
  position never grows beyond its bound and only ever holds usable market caps, so the filtered
  market cap is a usable one or the entry.\<close>

theorem exit_ticks_bounded:
  "let pos = fold (\<lambda>raw p. push_exit_mcap_tick p raw n) raws (position_at w p a t e) in
   length (exit_mcap_ticks pos) \<le> n \<and> list_all exit_mcap_valid (exit_mcap_ticks pos) \<and>
   (exit_mcap_valid (filtered_market_cap pos lo hi) \<or>
    filtered_market_cap pos lo hi = f64_max (amount_to_float e) 0)"
proof -
  define pos where "pos = fold (\<lambda>raw p. push_exit_mcap_tick p raw n) raws (position_at w p a t e)"
  have inv: "ticks_ok n (fold (\<lambda>raw p. push_exit_mcap_tick p raw n) raws q) \<and>
      enter_mcap (fold (\<lambda>raw p. push_exit_mcap_tick p raw n) raws q) = enter_mcap q"
    if "ticks_ok n q" for q
    using that
  proof (induction raws arbitrary: q)
    case (Cons r rs)
    then show ?case using push_tick_ok[OF Cons.prems, of r] Cons.IH[of "push_exit_mcap_tick q r n"]
      by (simp add: push_exit_mcap_tick_def Let_def)
  qed simp
  have "ticks_ok n pos \<and> enter_mcap pos = e"
    unfolding pos_def using inv[of "position_at w p a t e"] by (simp add: ticks_ok_def position_at_def)
  then show ?thesis unfolding pos_def[symmetric] Let_def
    using filtered_exit_mcap_source[of "exit_mcap_ticks pos" "amount_to_float e" lo hi]
    by (auto simp: ticks_ok_def list_all_iff filtered_market_cap_def)
qed

section \<open>Time-kill samples\<close>

text \<open>The two samples stay in order of time while the clock does not run backwards.\<close>

lemma time_kill_samples_ordered:
  assumes "tk_prev_secs pos \<le> tk_last_secs pos" "tk_last_secs pos \<le> wall"
  shows "tk_prev_secs (time_kill_note_mcap_sample pos wall m) \<le> tk_last_secs (time_kill_note_mcap_sample pos wall m)"
    "tk_last_secs (time_kill_note_mcap_sample pos wall m) = wall"
    "tk_last_mcap (time_kill_note_mcap_sample pos wall m) = m"
  using assms by (auto simp: time_kill_note_mcap_sample_def)

section \<open>Entry profile\<close>

lemma resolve_entry_profile_hold:
  assumes "resolve_entry_profile tk v4 pos snap = (profile, True)"
  shows "profile = Runner \<or> profile = Weak"
  using assms by (cases profile) (auto simp: resolve_entry_profile_def Let_def split: if_splits)

end
