(* ===== verification/Position_Tick.thy ===== *)
theory Position_Tick
  imports Positions
begin

text \<open>
  Model of one evaluation of an open position by the position manager: the configuration
  \<^verbatim>\<open>SmartBuyConfig\<close>, the time-kill window and the body of the loop of \<^verbatim>\<open>process_positions\<close> in
  \<^verbatim>\<open>src/autobuy/manager.rs\<close>, split at the comments of the source: market-cap samples, live score,
  staircase floor, momentum decay, time kill, stop loss, market-cap ceiling, trailing stop, floor
  upgrades, take profits. A stage either decides on a sell, which ends the evaluation, or passes the
  position on. A sell is a percentage, a reason and the flag of an emergency.

  The lemmas say what every evaluation keeps (size, entry, identity), that it decides on at most
  one sell, that no partial sell is queued while one is in flight, and that each take-profit level
  fires once; further ones describe the confirmation of the stop loss and a defect in it.
\<close>

section \<open>Configuration\<close>

record smart_buy_config =
  bc_amount_sol :: f64
  bc_tp1_pct :: f64
  bc_tp1_sell_pct :: f64
  bc_tp2_pct :: f64
  bc_tp2_sell_pct :: f64
  bc_tp3_pct :: f64
  bc_tp3_sell_pct :: f64
  bc_tp4_pct :: f64
  bc_tp4_sell_pct :: f64
  bc_tp5_pct :: f64
  bc_tp5_sell_pct :: f64
  bc_exit_profit_floor :: f64
  time_kill_secs :: u64
  time_kill_min_profit_pct :: f64
  time_kill_adaptive :: bool
  time_kill_weak_secs :: u64
  time_kill_strong_secs :: u64
  time_kill_neutral_secs :: u64
  time_kill_strong_min_buyers :: u64
  time_kill_strong_min_b2s :: f64
  time_kill_weak_max_buyers :: u64
  time_kill_weak_max_b2s :: f64
  time_kill_vel_strong :: f64
  time_kill_vel_flat :: f64
  time_kill_early_green_pct :: f64
  time_kill_peak_dd_for_weak :: f64
  bc_trailing_stop_drawdown_pct :: f64
  fill_mcap_abort_enabled :: bool
  fill_mcap_abort_max_ratio :: f64
  fill_mcap_abort_min_ratio :: f64
  honest_entry_baseline :: bool
  honest_entry_baseline_min_ratio :: f64
  sl_confirm_ticks :: u32
  sl_grace_secs :: u64
  sl_crash_pnl_pct :: f64
  sl_crash_tick_drop_pct :: f64
  exit_mcap_median_ticks :: nat
  exit_mcap_band_low_ratio :: f64
  exit_mcap_band_high_ratio :: f64
  mcap_ceiling_sol :: f64
  mcap_ceiling_partial_sell_pct :: f64
  exit_v4 :: exit_v4_config
  buy_fanout_delay_ms :: u64
  exit_v4_live_snapshot_interval_ms :: u64

definition smart_buy_default :: smart_buy_config where
  "smart_buy_default =
     \<lparr>bc_amount_sol = f64_of 0.1, bc_tp1_pct = f64_of 30, bc_tp1_sell_pct = f64_of 30,
      bc_tp2_pct = f64_of 50, bc_tp2_sell_pct = f64_of 15, bc_tp3_pct = f64_of 100,
      bc_tp3_sell_pct = f64_of 10, bc_tp4_pct = f64_of 150, bc_tp4_sell_pct = f64_of 10,
      bc_tp5_pct = f64_of 200, bc_tp5_sell_pct = f64_of 10, bc_exit_profit_floor = f64_of (- 40),
      time_kill_secs = 25, time_kill_min_profit_pct = f64_of 10, time_kill_adaptive = True,
      time_kill_weak_secs = 22, time_kill_strong_secs = 60, time_kill_neutral_secs = 32,
      time_kill_strong_min_buyers = 38, time_kill_strong_min_b2s = f64_of 4.5,
      time_kill_weak_max_buyers = 28, time_kill_weak_max_b2s = f64_of 3,
      time_kill_vel_strong = f64_of 0.06, time_kill_vel_flat = f64_of 0.025,
      time_kill_early_green_pct = f64_of 8, time_kill_peak_dd_for_weak = f64_of 0.055,
      bc_trailing_stop_drawdown_pct = f64_of 26, fill_mcap_abort_enabled = True,
      fill_mcap_abort_max_ratio = f64_of 1.5, fill_mcap_abort_min_ratio = f64_of 0.78,
      honest_entry_baseline = True, honest_entry_baseline_min_ratio = f64_of 0.85,
      sl_confirm_ticks = 3, sl_grace_secs = 5, sl_crash_pnl_pct = f64_of (- 28),
      sl_crash_tick_drop_pct = f64_of 18, exit_mcap_median_ticks = 5,
      exit_mcap_band_low_ratio = f64_of 0.02, exit_mcap_band_high_ratio = f64_of 50,
      mcap_ceiling_sol = f64_of 350, mcap_ceiling_partial_sell_pct = f64_of 65,
      exit_v4 = exit_v4_default, buy_fanout_delay_ms = 800, exit_v4_live_snapshot_interval_ms = 500\<rparr>"

section \<open>Time-kill window\<close>

definition time_kill_window_profile ::
  "smart_buy_config \<Rightarrow> position \<Rightarrow> f64 \<Rightarrow> f64 \<Rightarrow> u64 \<Rightarrow> u64 \<times> string" where
  "time_kill_window_profile cfg pos profit current held =
     (if \<not> time_kill_adaptive cfg then (time_kill_secs cfg, ''fixed'')
      else
        let vel = time_kill_mcap_velocity_pct_per_sec pos (amount_to_float (enter_mcap pos));
            peak_dd = (if 0 < highest_mcap pos then (highest_mcap pos - current) / highest_mcap pos else 0);
            strong = (if 1 \<le> tk_entry_smart pos then 1 else 0)
              + (if time_kill_strong_min_buyers cfg \<le> tk_entry_buyers pos then 1 else 0)
              + (if time_kill_strong_min_b2s cfg \<le> tk_entry_b2s pos then 1 else 0)
              + (if 6 \<le> held \<and> time_kill_vel_strong cfg \<le> vel then 1 else 0)
              + (if time_kill_early_green_pct cfg \<le> profit then 1 else 0 :: nat);
            weak = (if tk_entry_smart pos = 0 then 1 else 0)
              + (if 0 < tk_entry_buyers pos \<and> tk_entry_buyers pos < time_kill_weak_max_buyers cfg then 1 else 0)
              + (if 0 < tk_entry_b2s pos \<and> tk_entry_b2s pos < time_kill_weak_max_b2s cfg then 1 else 0)
              + (if 8 \<le> held \<and> \<bar>vel\<bar> \<le> time_kill_vel_flat cfg then 1 else 0)
              + (if time_kill_peak_dd_for_weak cfg \<le> peak_dd \<and> profit < time_kill_min_profit_pct cfg
                 then 1 else 0 :: nat)
        in if 4 \<le> strong \<and> weak \<le> 1 then (clamp_word 45 80 (time_kill_strong_secs cfg), ''strong'')
           else if 3 \<le> weak \<and> strong \<le> 1 then (clamp_word 18 28 (time_kill_weak_secs cfg), ''weak'')
           else (clamp_word 20 45 (time_kill_neutral_secs cfg), ''neutral''))"

section \<open>The values of one evaluation\<close>

record sell_action =
  act_percent :: f64
  act_reason :: string
  act_urgent :: bool

text \<open>The local variables that later stages read.\<close>

record tick_view =
  tv_now :: u64
  tv_raw :: f64
  tv_current :: f64
  tv_profit :: f64
  tv_profit_raw :: f64
  tv_sl_profit :: f64
  tv_tick_drop :: "f64 option"
  tv_vel :: f64
  tv_held :: u64
  tv_tier :: string
  tv_mcap_pnl :: f64
  tv_a_plus :: bool
  tv_grace :: bool
  tv_kill_after :: u64
  tv_tp :: exit_tp_profile
  tv_drawdown :: f64

definition OPEN_EXIT_MCAP_POLL_SECS :: u64 where
  "OPEN_EXIT_MCAP_POLL_SECS = 3"

text \<open>Whether a background poll of the market cap starts, with its flag for Jupiter.\<close>

definition tick_poll :: "bool \<Rightarrow> u64 \<Rightarrow> position \<Rightarrow> f64 \<Rightarrow> position \<times> bool option" where
  "tick_poll has_rpc now pos pool_raw =
     (let force = use_jupiter_exit_mcap pos \<or> mcap_ceiling_triggered pos
      in if (force \<or> f64_of 150 \<le> pool_raw)
            \<and> OPEN_EXIT_MCAP_POLL_SECS \<le> saturating_sub now (last_exit_mcap_poll_at pos) \<and> has_rpc
         then (pos\<lparr>last_exit_mcap_poll_at := now\<rparr>, Some force)
         else (pos, None))"

definition entry_tier_of :: "position \<Rightarrow> string" where
  "entry_tier_of pos = (case pos_snapshot pos of Some s \<Rightarrow> ls_tier s | None \<Rightarrow> [])"

text \<open>The samples of this tick: tick buffer, highest market cap, time-kill samples.\<close>

definition tick_samples :: "smart_buy_config \<Rightarrow> u64 \<Rightarrow> position \<Rightarrow> f64 \<Rightarrow> position \<times> f64" where
  "tick_samples cfg now pos raw =
     (let p1 = push_exit_mcap_tick pos raw (exit_mcap_median_ticks cfg);
          cur = filtered_market_cap p1 (exit_mcap_band_low_ratio cfg) (exit_mcap_band_high_ratio cfg);
          p2 = (if highest_mcap p1 < cur then p1\<lparr>highest_mcap := cur\<rparr> else p1)
      in (time_kill_note_mcap_sample p2 now cur, cur))"

text \<open>Profits, tick drop and peak.\<close>

definition tick_profits :: "smart_buy_config \<Rightarrow> position \<Rightarrow> f64 \<Rightarrow> position \<times> f64 \<times> f64 \<times> f64 \<times> f64 option" where
  "tick_profits cfg pos raw =
     (let profit = pnl_filtered pos (exit_mcap_band_low_ratio cfg) (exit_mcap_band_high_ratio cfg);
          profit_raw = pnl_at_mcap pos raw;
          drop = (case sl_prev_raw_mcap pos of Some prev \<Rightarrow> sl_raw_tick_drop_pct prev raw | None \<Rightarrow> None);
          p1 = pos\<lparr>sl_prev_raw_mcap := Some raw\<rparr>;
          p2 = (if peak_profit_pct p1 < profit then p1\<lparr>peak_profit_pct := profit\<rparr> else p1)
      in (p2, profit, profit_raw, sl_trigger_pnl_pct profit profit_raw, drop))"

text \<open>Refresh of the live score from the entry data while no live tape has arrived.\<close>

definition tick_live_score :: "exit_v4_config \<Rightarrow> u64 \<Rightarrow> bool \<Rightarrow> f64 \<Rightarrow> f64 \<Rightarrow> position \<Rightarrow> position" where
  "tick_live_score v4 now grace vel profit pos =
     (if enabled v4 \<and> \<not> grace
         \<and> live_score_refresh_secs v4 \<le> saturating_sub now (last_live_score_at pos)
         \<and> live_tape_curr pos = None
      then let metrics = live_metrics_lite pos vel profit (pos_snapshot pos) v4;
               p1 = pos\<lparr>pos_live_score := max (calculate_live_score metrics) (live_score_entry_floor pos),
                        live_prev_velocity := vel, last_live_score_at := now\<rparr>;
               p2 = p1\<lparr>exit_phase := transition_position_phase (exit_phase p1) (pos_live_score p1)
                         (momentum_decay metrics) profit v4\<rparr>;
               (prof, hold) = maybe_upgrade_runner v4 (pos_profile p2) metrics (pos_live_score p2) (hold_mode p2)
           in p2\<lparr>pos_profile := prof, hold_mode := hold\<rparr>
      else pos)"

definition tick_staircase :: "exit_v4_config \<Rightarrow> position \<Rightarrow> position" where
  "tick_staircase v4 pos =
     (if enabled v4 \<and> profit_staircase_enabled v4
      then case profit_lock_staircase_floor (peak_profit_pct pos) of
             Some fl \<Rightarrow> if exit_profit_floor pos < fl then pos\<lparr>exit_profit_floor := fl\<rparr> else pos
           | None \<Rightarrow> pos
      else pos)"

definition tick_time_kill_window ::
  "smart_buy_config \<Rightarrow> f64 \<Rightarrow> f64 \<Rightarrow> u64 \<Rightarrow> string \<Rightarrow> f64 \<Rightarrow> position \<Rightarrow> position \<times> u64" where
  "tick_time_kill_window cfg profit cur held tier mcap_pnl pos =
     (let v4 = exit_v4 cfg;
          (k0, label) = time_kill_window_profile cfg pos profit cur held;
          k1 = (if enabled v4 \<and> entry_tier_is_a_plus tier then max k0 (a_plus_time_kill_min_secs v4) else k0);
          k2 = (if enabled v4
                then case tier_a_time_kill_defer_floor_secs v4 tier (pos_snapshot pos) mcap_pnl of
                       Some fl \<Rightarrow> max k1 fl | None \<Rightarrow> k1
                else k1)
      in (pos\<lparr>last_time_kill_tier := label, last_time_kill_after_secs := k2\<rparr>, k2))"

definition tick_tp_profile :: "smart_buy_config \<Rightarrow> position \<Rightarrow> exit_tp_profile" where
  "tick_tp_profile cfg pos =
     (if enabled (exit_v4 cfg)
      then apply_phase_to_tp (profile_params (exit_v4 cfg) (pos_profile pos)) (exit_phase pos)
      else \<lparr>tp1_pct = bc_tp1_pct cfg, tp1_sell_pct = bc_tp1_sell_pct cfg, tp2_pct = bc_tp2_pct cfg,
            tp2_sell_pct = bc_tp2_sell_pct cfg, tp3_pct = bc_tp3_pct cfg, tp3_sell_pct = bc_tp3_sell_pct cfg,
            tp4_pct = bc_tp4_pct cfg, tp4_sell_pct = bc_tp4_sell_pct cfg, tp5_pct = bc_tp5_pct cfg,
            tp5_sell_pct = bc_tp5_sell_pct cfg,
            trailing_stop_drawdown_pct = bc_trailing_stop_drawdown_pct cfg,
            trailing_activate_profit_pct = f64_of 80, trailing_floor_profit_pct = f64_of 35,
            smart_stop_activate_profit_pct = f64_of 50, smart_stop_floor_profit_pct = f64_of 5\<rparr>)"

text \<open>Everything before the first decision.\<close>

definition tick_observe ::
  "smart_buy_config \<Rightarrow> bool \<Rightarrow> u64 \<Rightarrow> position \<Rightarrow> (position \<times> tick_view \<times> bool option) outcome" where
  "tick_observe cfg has_rpc now pos0 =
     bind_outcome (pool_market_cap (pos_pool pos0)) (\<lambda>c.
     let (pos1, poll) = tick_poll has_rpc now pos0 (amount_to_float (currency_amount c)) in
     bind_outcome (exit_raw_mcap pos1) (\<lambda>raw.
     let (pos2, cur) = tick_samples cfg now pos1 raw;
         (pos3, profit, profit_raw, sl_profit, drop) = tick_profits cfg pos2 raw;
         vel = time_kill_mcap_velocity_pct_per_sec pos3 (amount_to_float (enter_mcap pos3));
         held = saturating_sub now (entry_time pos3);
         tier = entry_tier_of pos3 in
     bind_outcome (pos_pnl pos3) (\<lambda>mcap_pnl.
     let v4 = exit_v4 cfg;
         grace = enabled v4 \<and> in_exit_grace_period_tier held tier v4;
         pos4 = tick_staircase v4 (tick_live_score v4 now grace vel profit pos3);
         (pos5, kill_after) = tick_time_kill_window cfg profit cur held tier mcap_pnl pos4;
         tp = tick_tp_profile cfg pos5;
         dd = (if enabled v4 then adaptive_trailing (pos_profile pos5) (pos_live_score pos5) profit
               else trailing_stop_drawdown_pct tp)
     in Inr (pos5,
         \<lparr>tv_now = now, tv_raw = raw, tv_current = cur, tv_profit = profit, tv_profit_raw = profit_raw,
          tv_sl_profit = sl_profit, tv_tick_drop = drop, tv_vel = vel, tv_held = held, tv_tier = tier,
          tv_mcap_pnl = mcap_pnl, tv_a_plus = entry_tier_is_a_plus tier, tv_grace = grace,
          tv_kill_after = kill_after, tv_tp = tp, tv_drawdown = dd\<rparr>, poll))))"

section \<open>The decisions\<close>

type_synonym stage = "position \<times> sell_action option"

definition and_then :: "stage \<Rightarrow> (position \<Rightarrow> stage) \<Rightarrow> stage" where
  "and_then s f = (case s of (pos, Some a) \<Rightarrow> (pos, Some a) | (pos, None) \<Rightarrow> f pos)"

definition full_sell :: "string \<Rightarrow> bool \<Rightarrow> sell_action" where
  "full_sell reason urgent = \<lparr>act_percent = f64_of 100, act_reason = reason, act_urgent = urgent\<rparr>"

definition partial_sell :: "f64 \<Rightarrow> string \<Rightarrow> sell_action" where
  "partial_sell pct reason = \<lparr>act_percent = pct, act_reason = reason, act_urgent = False\<rparr>"

text \<open>0. Momentum decay with its flush window.\<close>

definition track_flush :: "exit_v4_config \<Rightarrow> f64 \<Rightarrow> position \<Rightarrow> position" where
  "track_flush v4 cur pos =
     (let dd = (if 0 < highest_mcap pos then (highest_mcap pos - cur) / highest_mcap pos * f64_of 100 else 0)
      in if flush_drop_pct v4 \<le> dd
         then if \<not> flush_active pos then pos\<lparr>flush_active := True, flush_low_mcap := cur\<rparr>
              else if cur < flush_low_mcap pos then pos\<lparr>flush_low_mcap := cur\<rparr> else pos
         else if highest_mcap pos * f64_of 0.99 \<le> cur then pos\<lparr>flush_active := False\<rparr> else pos)"

definition early_green :: "exit_v4_config \<Rightarrow> tick_view \<Rightarrow> bool" where
  "early_green v4 tv =
     (tv_held tv < decay_early_hold_secs v4 \<and> decay_early_mcap_profit_min_pct v4 \<le> tv_mcap_pnl tv)"

definition decay_now :: "exit_v4_config \<Rightarrow> tick_view \<Rightarrow> position \<Rightarrow> bool" where
  "decay_now v4 tv pos =
     (let sell_p = (case pos_snapshot pos of Some s \<Rightarrow> ls_sell_pressure_score s | None \<Rightarrow> 0);
          vd = momentum_decay_detected (live_buyers_per_sec pos) (live_prev_buyers_per_sec pos) sell_p (tv_vel tv);
          dd = exit_phase pos = Distribution \<and> pos_live_score pos \<le> phase_distribution_max_score v4
      in if early_green v4 tv \<and> dd \<and> \<not> vd then False else vd \<or> dd)"

definition decay_confirm_needed :: "exit_v4_config \<Rightarrow> tick_view \<Rightarrow> u8" where
  "decay_confirm_needed v4 tv =
     max (if early_green v4 tv
          then saturating_add (decay_confirm_ticks v4) (decay_early_extra_confirm_ticks v4)
          else decay_confirm_ticks v4) 1"

definition decay_reason :: "position \<Rightarrow> string" where
  "decay_reason pos =
     ''MOMENTUM DECAY '' @ (if exit_phase pos = Distribution then ''['' @ phase_str (exit_phase pos) @ ''] '' else [])
     @ ''('' @ show_nat (unat (decay_streak pos)) @ '' ticks, rec='' @ show_int (pos_recovery_score pos) @ '')''"

text \<open>The flush window, the recovery score and the streak of decaying ticks.\<close>

definition decay_observe :: "exit_v4_config \<Rightarrow> tick_view \<Rightarrow> position \<Rightarrow> position" where
  "decay_observe v4 tv pos =
     (let p1 = track_flush v4 (tv_current tv) pos;
          rs = recovery_score (live_metrics_lite p1 (tv_vel tv) (tv_profit tv) (pos_snapshot p1) v4)
                 (tv_current tv) (flush_low_mcap p1) (highest_mcap p1);
          healthy = flush_active p1 \<and> recovery_min_score v4 \<le> rs
      in p1\<lparr>pos_recovery_score := rs,
            decay_streak := (if decay_now v4 tv pos \<and> \<not> healthy
                             then saturating_add (decay_streak p1) 1 else 0)\<rparr>)"

definition tick_decay :: "exit_v4_config \<Rightarrow> tick_view \<Rightarrow> position \<Rightarrow> stage" where
  "tick_decay v4 tv pos =
     (if enabled v4 \<and> momentum_decay_exit_enabled v4 \<and> \<not> tv_grace tv \<and> live_tape_curr pos \<noteq> None
      then let p3 = decay_observe v4 tv pos in
           if decay_confirm_needed v4 tv \<le> decay_streak p3
           then (p3\<lparr>is_closing := True\<rparr>, Some (full_sell (decay_reason p3) False))
           else (p3, None)
      else (pos, None))"

text \<open>1. Time kill.\<close>

definition skip_time_kill :: "exit_v4_config \<Rightarrow> tick_view \<Rightarrow> position \<Rightarrow> bool" where
  "skip_time_kill v4 tv pos =
     (enabled v4 \<and> (pos_profile pos = Strong \<or> pos_profile pos = Runner)
        \<and> (tp1_triggered pos \<or> tp2_triggered pos)
        \<and> strong_time_kill_min_profit_after_tp v4 \<le> tv_profit tv
      \<or> enabled v4 \<and> tv_a_plus tv
        \<and> (tv_held tv < a_plus_time_kill_min_secs v4
           \<or> a_plus_time_kill_mcap_profit_min_pct v4 \<le> tv_mcap_pnl tv))"

definition tick_time_kill :: "smart_buy_config \<Rightarrow> tick_view \<Rightarrow> position \<Rightarrow> stage" where
  "tick_time_kill cfg tv pos =
     (if \<not> skip_time_kill (exit_v4 cfg) tv pos
         \<and> entry_time pos + tv_kill_after tv \<le> tv_now tv
         \<and> tv_profit tv < time_kill_min_profit_pct cfg
      then (pos\<lparr>is_closing := True\<rparr>, Some (full_sell ''TIME KILL'' False))
      else (pos, None))"

text \<open>2. Stop loss.\<close>

definition sl_reason :: "bool \<Rightarrow> tick_view \<Rightarrow> position \<Rightarrow> u32 option \<Rightarrow> string" where
  "sl_reason crash tv pos confirm =
     format_sl_close_reason crash (tv_sl_profit tv) (exit_profit_floor pos) (tv_profit tv)
       (tv_profit_raw tv) (tv_current tv) (tv_raw tv) confirm (tv_tick_drop tv)"

definition tick_stop_loss :: "smart_buy_config \<Rightarrow> tick_view \<Rightarrow> position \<Rightarrow> stage" where
  "tick_stop_loss cfg tv pos =
     (let grace = in_sl_grace_period (tv_held tv) (sl_grace_secs cfg);
          confirm = max (sl_confirm_ticks cfg) 1;
          crash = sl_crash_triggered (tv_sl_profit tv) (tv_profit_raw tv) (tv_tick_drop tv)
                    (sl_crash_pnl_pct cfg) (sl_crash_tick_drop_pct cfg) grace
      in if crash then (pos\<lparr>is_closing := True\<rparr>, Some (full_sell (sl_reason True tv pos None) True))
         else let p1 = pos\<lparr>sl_below_floor_streak :=
                     (if grace then 0
                      else if tv_sl_profit tv \<le> exit_profit_floor pos
                           then saturating_add (sl_below_floor_streak pos) 1
                      else 0)\<rparr>
              in if \<not> grace \<and> ucast confirm \<le> sl_below_floor_streak p1
                 then (p1\<lparr>is_closing := True\<rparr>, Some (full_sell (sl_reason False tv p1 (Some confirm)) False))
                 else (p1, None))"

text \<open>3. Market-cap ceiling.\<close>

definition clamp_f64 :: "f64 \<Rightarrow> f64 \<Rightarrow> f64 \<Rightarrow> f64" where
  "clamp_f64 lo hi x = (if x < lo then lo else if hi < x then hi else x)"

lemma clamp_unit: "x \<noteq> NaN \<Longrightarrow> 0 \<le> clamp_f64 0 1 x \<and> clamp_f64 0 1 x \<le> 1"
  by (cases x) (auto simp: clamp_f64_def zero_f64_def one_f64_def)

definition tick_ceiling :: "smart_buy_config \<Rightarrow> tick_view \<Rightarrow> position \<Rightarrow> stage" where
  "tick_ceiling cfg tv pos =
     (if 0 < mcap_ceiling_sol cfg \<and> mcap_ceiling_sol cfg \<le> tv_current tv
         \<and> \<not> mcap_ceiling_triggered pos \<and> \<not> pending_partial_sell pos
      then let pct = clamp_f64 1 (f64_of 99) (mcap_ceiling_partial_sell_pct cfg);
               p1 = pos\<lparr>mcap_ceiling_triggered := True, use_jupiter_exit_mcap := True\<rparr>;
               p2 = (if trailing_active p1 then p1
                     else p1\<lparr>trailing_active := True,
                            exit_profit_floor := f64_max (exit_profit_floor p1) (trailing_floor_profit_pct (tv_tp tv))\<rparr>)
           in (p2\<lparr>pending_partial_sell := True\<rparr>,
               Some (partial_sell pct (''MCAP CEILING ('' @ fmt_prec 0 pct @ ''% lock, moonbag)'')))
      else (pos, None))"

text \<open>4. Trailing stop.\<close>

definition tick_trailing :: "smart_buy_config \<Rightarrow> tick_view \<Rightarrow> position \<Rightarrow> stage" where
  "tick_trailing cfg tv pos =
     (if trailing_active pos
         \<and> tv_current tv \<le> highest_mcap pos * (1 - tv_drawdown tv / f64_of 100)
      then (pos\<lparr>is_closing := True\<rparr>,
            Some (full_sell (if enabled (exit_v4 cfg)
                  then ''TRAILING EXIT ('' @ fmt_prec 0 (tv_drawdown tv) @ ''% trail)'' else ''TRAILING EXIT'') False))
      else (pos, None))"

text \<open>Upgrades of the profit floor.\<close>

definition tick_floor_upgrade :: "tick_view \<Rightarrow> position \<Rightarrow> position" where
  "tick_floor_upgrade tv pos =
     (let tp = tv_tp tv in
      if trailing_activate_profit_pct tp \<le> tv_profit tv
      then if trailing_active pos then pos
           else pos\<lparr>trailing_active := True, exit_profit_floor := trailing_floor_profit_pct tp\<rparr>
      else if smart_stop_activate_profit_pct tp \<le> tv_profit tv
              \<and> exit_profit_floor pos < smart_stop_floor_profit_pct tp
      then pos\<lparr>exit_profit_floor := smart_stop_floor_profit_pct tp\<rparr>
      else pos)"

text \<open>5. Take profits, lowest first, one at a time.\<close>

definition tp_label :: "smart_buy_config \<Rightarrow> position \<Rightarrow> nat \<Rightarrow> f64 \<Rightarrow> string" where
  "tp_label cfg pos n pct =
     (if enabled (exit_v4 cfg)
      then ''TP'' @ show_nat n @ '' ('' @ fmt_prec 0 pct @ ''%) ['' @ profile_str (pos_profile pos) @ ''|''
           @ phase_str (exit_phase pos) @ '']''
      else ''TP'' @ show_nat n)"

definition moonbag_sell :: "smart_buy_config \<Rightarrow> position \<Rightarrow> f64 \<Rightarrow> f64" where
  "moonbag_sell cfg pos b =
     (if enabled (exit_v4 cfg) \<and> adaptive_moonbag_enabled (exit_v4 cfg)
      then adaptive_moonbag_sell_pct b (pos_live_score pos) (exit_phase pos) else b)"

definition tick_take_profit :: "smart_buy_config \<Rightarrow> tick_view \<Rightarrow> position \<Rightarrow> stage" where
  "tick_take_profit cfg tv pos =
     (let tp = tv_tp tv; profit = tv_profit tv; lab = tp_label cfg pos; moon = moonbag_sell cfg pos
      in if pending_partial_sell pos then (pos, None)
         else if tp1_pct tp \<le> profit \<and> \<not> tp1_triggered pos
         then (pos\<lparr>tp1_triggered := True, pending_partial_sell := True\<rparr>,
               Some (partial_sell (tp1_sell_pct tp) (lab 1 (tp1_pct tp))))
         else if tp2_pct tp \<le> profit \<and> \<not> tp2_triggered pos
         then (pos\<lparr>tp2_triggered := True, pending_partial_sell := True\<rparr>,
               Some (partial_sell (tp2_sell_pct tp) (lab 2 (tp2_pct tp))))
         else if tp3_pct tp \<le> profit \<and> \<not> tp3_triggered pos
         then (pos\<lparr>tp3_triggered := True, pending_partial_sell := True\<rparr>,
               Some (partial_sell (moon (tp3_sell_pct tp)) (lab 3 (tp3_pct tp))))
         else if tp4_pct tp \<le> profit \<and> \<not> tp4_triggered pos
         then (pos\<lparr>tp4_triggered := True, pending_partial_sell := True\<rparr>,
               Some (partial_sell (moon (tp4_sell_pct tp)) (lab 4 (tp4_pct tp))))
         else if tp5_pct tp \<le> profit \<and> \<not> tp5_triggered pos
         then (pos\<lparr>tp5_triggered := True, pending_partial_sell := True\<rparr>,
               Some (partial_sell (moon (tp5_sell_pct tp)) (lab 5 (tp5_pct tp))))
         else (pos, None))"

definition tick_decide :: "smart_buy_config \<Rightarrow> tick_view \<Rightarrow> position \<Rightarrow> stage" where
  "tick_decide cfg tv pos =
     and_then (tick_decay (exit_v4 cfg) tv pos) (\<lambda>p.
     and_then (tick_time_kill cfg tv p) (\<lambda>p.
     and_then (tick_stop_loss cfg tv p) (\<lambda>p.
     and_then (tick_ceiling cfg tv p) (\<lambda>p.
     and_then (tick_trailing cfg tv p) (\<lambda>p.
     tick_take_profit cfg tv (tick_floor_upgrade tv p))))))"

text \<open>
  One evaluation of one position: what the loop body does to it, the values it broadcasts, the poll
  it starts and the sell it queues. A position that is being closed is skipped.
\<close>

record tick_result =
  tr_position :: position
  tr_view :: "tick_view option"
  tr_poll :: "bool option"
  tr_action :: "sell_action option"

definition tick_position :: "smart_buy_config \<Rightarrow> bool \<Rightarrow> u64 \<Rightarrow> position \<Rightarrow> tick_result outcome" where
  "tick_position cfg has_rpc now pos =
     (if is_closing pos
      then Inr \<lparr>tr_position = pos, tr_view = None, tr_poll = None, tr_action = None\<rparr>
      else bind_outcome (tick_observe cfg has_rpc now pos) (\<lambda>(p, tv, poll).
             let (p', act) = tick_decide cfg tv p
             in Inr \<lparr>tr_position = p', tr_view = Some tv, tr_poll = poll, tr_action = act\<rparr>))"

section \<open>What every evaluation keeps\<close>

text \<open>The stake: what was bought, when and for how much, and who it belongs to.\<close>

definition stake_of :: "position \<Rightarrow>
    (string \<times> pool \<times> amount \<times> amount \<times> amount \<times> u64) \<times> (f64 \<times> f64 \<times> address option \<times> address list
    \<times> learning_snapshot option \<times> open_reason option)" where
  "stake_of p = ((wallet_id p, pos_pool p, initial_holdings p, holdings p, enter_mcap p, entry_time p),
     (total_returned p, spent_sol p, dev_address p, early_buyers p, pos_snapshot p, pos_open_reason p))"

text \<open>The levels at which a part is sold, in the order TP1 to TP5, ceiling.\<close>

definition sell_flags :: "position \<Rightarrow> bool list" where
  "sell_flags p = [tp1_triggered p, tp2_triggered p, tp3_triggered p, tp4_triggered p, tp5_triggered p,
     mcap_ceiling_triggered p]"

definition sell_state :: "position \<Rightarrow> bool \<times> bool \<times> bool list" where
  "sell_state p = (is_closing p, pending_partial_sell p, sell_flags p)"

lemmas keep_defs = stake_of_def sell_state_def sell_flags_def

text \<open>
  The contract of a decision: it never touches the stake; without a sell it leaves the selling state
  alone; a sell is either the whole position, which marks it closing, or a part at a level that had
  not fired, while no other part is being sold.
\<close>

definition sells_whole :: "position \<Rightarrow> position \<Rightarrow> sell_action \<Rightarrow> bool" where
  "sells_whole p p' a \<longleftrightarrow> act_percent a = Fin 100 \<and> sell_state p' = (True, pending_partial_sell p, sell_flags p)"

definition sells_part :: "position \<Rightarrow> position \<Rightarrow> sell_action \<Rightarrow> bool" where
  "sells_part p p' a \<longleftrightarrow> \<not> act_urgent a \<and> \<not> pending_partial_sell p \<and>
     (\<exists>i < 6. \<not> sell_flags p ! i \<and> sell_state p' = (is_closing p, True, (sell_flags p)[i := True]))"

definition sell_sound :: "position \<Rightarrow> stage \<Rightarrow> bool" where
  "sell_sound p s \<longleftrightarrow> stake_of (fst s) = stake_of p \<and>
     (case snd s of None \<Rightarrow> sell_state (fst s) = sell_state p
      | Some a \<Rightarrow> sells_whole p (fst s) a \<or> sells_part p (fst s) a)"

lemma sell_sound_None: "sell_sound p (p', None) \<longleftrightarrow> stake_of p' = stake_of p \<and> sell_state p' = sell_state p"
  by (simp add: sell_sound_def)

lemma sell_sound_whole:
  "stake_of p' = stake_of p \<Longrightarrow> sell_state p' = (True, pending_partial_sell p, sell_flags p) \<Longrightarrow>
   sell_sound p (p', Some (full_sell r u))"
  by (simp add: sell_sound_def sells_whole_def full_sell_def)

lemma sell_sound_part:
  assumes "stake_of p' = stake_of p" "\<not> pending_partial_sell p" "i < 6" "\<not> sell_flags p ! i"
    "sell_state p' = (is_closing p, True, (sell_flags p)[i := True])"
  shows "sell_sound p (p', Some (partial_sell pct r))"
  using assms by (auto simp: sell_sound_def sells_part_def partial_sell_def)

locale decision =
  fixes f :: "position \<Rightarrow> stage"
  assumes sound: "sell_sound p (f p)"
begin

text \<open>A decision after a sound evaluation without a sell is sound.\<close>

lemma and_then_sound: "sell_sound p s \<Longrightarrow> sell_sound p (and_then s f)"
  using sound[of "fst s"]
  by (cases s; cases "snd s")
     (auto simp: and_then_def sell_sound_def sells_whole_def sells_part_def sell_state_def split: option.splits)

lemma frame: "sell_sound p (p', None) \<Longrightarrow> sell_sound p (f p')"
  using and_then_sound[of p "(p', None)"] by (simp add: and_then_def)

end

lemma track_flush_keeps [simp]:
  "stake_of (track_flush v4 cur p) = stake_of p" "is_closing (track_flush v4 cur p) = is_closing p"
  "pending_partial_sell (track_flush v4 cur p) = pending_partial_sell p"
  "sell_flags (track_flush v4 cur p) = sell_flags p"
  by (auto simp: track_flush_def Let_def keep_defs)

lemma decay_observe_keeps [simp]:
  "stake_of (decay_observe v4 tv p) = stake_of p" "is_closing (decay_observe v4 tv p) = is_closing p"
  "pending_partial_sell (decay_observe v4 tv p) = pending_partial_sell p"
  "sell_flags (decay_observe v4 tv p) = sell_flags p"
proof -
  have "stake_of (q\<lparr>pos_recovery_score := r, decay_streak := k\<rparr>) = stake_of q"
    "is_closing (q\<lparr>pos_recovery_score := r, decay_streak := k\<rparr>) = is_closing q"
    "pending_partial_sell (q\<lparr>pos_recovery_score := r, decay_streak := k\<rparr>) = pending_partial_sell q"
    "sell_flags (q\<lparr>pos_recovery_score := r, decay_streak := k\<rparr>) = sell_flags q" for q r k
    by (simp_all add: keep_defs)
  then show "stake_of (decay_observe v4 tv p) = stake_of p" "is_closing (decay_observe v4 tv p) = is_closing p"
    "pending_partial_sell (decay_observe v4 tv p) = pending_partial_sell p"
    "sell_flags (decay_observe v4 tv p) = sell_flags p"
    by (simp_all only: decay_observe_def Let_def track_flush_keeps)
qed

lemma closing_keeps [simp]:
  "stake_of (p\<lparr>is_closing := c\<rparr>) = stake_of p" "sell_flags (p\<lparr>is_closing := c\<rparr>) = sell_flags p"
  by (simp_all add: keep_defs)

interpretation decay: decision "tick_decay v4 tv"
  by unfold_locales
     (auto simp: tick_decay_def Let_def sell_sound_None sell_state_def intro!: sell_sound_whole)

interpretation time_kill: decision "tick_time_kill cfg tv"
  by unfold_locales (auto simp: tick_time_kill_def sell_sound_None keep_defs intro!: sell_sound_whole)

interpretation stop_loss: decision "tick_stop_loss cfg tv"
  by unfold_locales
     (auto simp: tick_stop_loss_def Let_def sell_sound_None keep_defs intro!: sell_sound_whole)

interpretation ceiling: decision "tick_ceiling cfg tv"
  by unfold_locales
     (auto simp: tick_ceiling_def Let_def sell_sound_None keep_defs intro!: sell_sound_part[where i = 5])

interpretation trailing: decision "tick_trailing cfg tv"
  by unfold_locales (auto simp: tick_trailing_def sell_sound_None keep_defs intro!: sell_sound_whole)

lemma floor_upgrade_keeps [simp]:
  "stake_of (tick_floor_upgrade tv p) = stake_of p" "is_closing (tick_floor_upgrade tv p) = is_closing p"
  "pending_partial_sell (tick_floor_upgrade tv p) = pending_partial_sell p"
  "sell_flags (tick_floor_upgrade tv p) = sell_flags p"
  by (auto simp: tick_floor_upgrade_def Let_def keep_defs)

lemma take_profit_sound: "sell_sound p (tick_take_profit cfg tv p)"
proof -
  let ?tp = "tv_tp tv" and ?profit = "tv_profit tv"
  consider "pending_partial_sell p \<or> snd (tick_take_profit cfg tv p) = None" "tick_take_profit cfg tv p = (p, None)"
    | r x where "\<not> pending_partial_sell p" "\<not> tp1_triggered p"
        "tick_take_profit cfg tv p = (p\<lparr>tp1_triggered := True, pending_partial_sell := True\<rparr>, Some (partial_sell x r))"
    | r x where "\<not> pending_partial_sell p" "\<not> tp2_triggered p"
        "tick_take_profit cfg tv p = (p\<lparr>tp2_triggered := True, pending_partial_sell := True\<rparr>, Some (partial_sell x r))"
    | r x where "\<not> pending_partial_sell p" "\<not> tp3_triggered p"
        "tick_take_profit cfg tv p = (p\<lparr>tp3_triggered := True, pending_partial_sell := True\<rparr>, Some (partial_sell x r))"
    | r x where "\<not> pending_partial_sell p" "\<not> tp4_triggered p"
        "tick_take_profit cfg tv p = (p\<lparr>tp4_triggered := True, pending_partial_sell := True\<rparr>, Some (partial_sell x r))"
    | r x where "\<not> pending_partial_sell p" "\<not> tp5_triggered p"
        "tick_take_profit cfg tv p = (p\<lparr>tp5_triggered := True, pending_partial_sell := True\<rparr>, Some (partial_sell x r))"
    unfolding tick_take_profit_def Let_def by (smt (verit) snd_conv)
  then show ?thesis
  proof cases
    case 1 then show ?thesis by (simp add: sell_sound_None)
  next
    case 2 then show ?thesis by (auto simp: keep_defs intro!: sell_sound_part[where i = 0])
  next
    case 3 then show ?thesis by (auto simp: keep_defs intro!: sell_sound_part[where i = 1])
  next
    case 4 then show ?thesis by (auto simp: keep_defs intro!: sell_sound_part[where i = 2])
  next
    case 5 then show ?thesis by (auto simp: keep_defs intro!: sell_sound_part[where i = 3])
  next
    case 6 then show ?thesis by (auto simp: keep_defs intro!: sell_sound_part[where i = 4])
  qed
qed

interpretation take_profit: decision "\<lambda>p. tick_take_profit cfg tv (tick_floor_upgrade tv p)"
proof
  fix p
  have "sell_sound p (tick_floor_upgrade tv p, None)" by (simp add: sell_sound_None sell_state_def)
  then show "sell_sound p (tick_take_profit cfg tv (tick_floor_upgrade tv p))"
    using take_profit_sound[of "tick_floor_upgrade tv p" cfg tv]
    by (auto simp: sell_sound_def sells_whole_def sells_part_def sell_state_def split: option.splits)
qed

lemma sell_sound_bind:
  "sell_sound p s \<Longrightarrow> (\<And>p. sell_sound p (f p)) \<Longrightarrow> sell_sound p (and_then s f)"
  by (rule decision.and_then_sound) (rule decision.intro)

interpretation whole_tick: decision "tick_decide cfg tv"
  unfolding tick_decide_def
  by unfold_locales (intro sell_sound_bind decay.sound time_kill.sound stop_loss.sound ceiling.sound
      trailing.sound take_profit.sound)

text \<open>The observations before the decisions.\<close>

definition keeps :: "position \<Rightarrow> position \<Rightarrow> bool" where
  "keeps p p' \<longleftrightarrow> stake_of p' = stake_of p \<and> sell_state p' = sell_state p"

lemma keeps_refl: "keeps p p" by (simp add: keeps_def)

lemma keeps_trans: "keeps p q \<Longrightarrow> keeps q r \<Longrightarrow> keeps p r" by (simp add: keeps_def)

lemma tick_poll_keeps: "tick_poll has_rpc now p m = (p', poll) \<Longrightarrow> keeps p p'"
  by (auto simp: tick_poll_def Let_def keeps_def keep_defs split: if_splits)

lemma push_tick_keeps: "keeps p (push_exit_mcap_tick p raw n)"
  by (simp add: push_exit_mcap_tick_def Let_def keeps_def keep_defs)

lemma note_sample_keeps: "keeps p (time_kill_note_mcap_sample p now m)"
  by (simp add: time_kill_note_mcap_sample_def keeps_def keep_defs)

lemma tick_samples_keeps: "tick_samples cfg now p raw = (p', cur) \<Longrightarrow> keeps p p'"
proof -
  assume h: "tick_samples cfg now p raw = (p', cur)"
  define p1 where "p1 = push_exit_mcap_tick p raw (exit_mcap_median_ticks cfg)"
  define p2 where "p2 = (if highest_mcap p1 < cur then p1\<lparr>highest_mcap := cur\<rparr> else p1)"
  have p': "p' = time_kill_note_mcap_sample p2 now cur"
    using h by (auto simp: tick_samples_def Let_def p1_def p2_def)
  have "keeps p1 p2" by (simp add: p2_def keeps_def keep_defs)
  then show ?thesis unfolding p'
    using push_tick_keeps keeps_trans note_sample_keeps p1_def by blast
qed

lemma tick_profits_keeps: "tick_profits cfg p raw = (p', x) \<Longrightarrow> keeps p p'"
  by (auto simp: tick_profits_def Let_def keeps_def keep_defs split: if_splits)

lemma tick_live_score_keeps: "keeps p (tick_live_score v4 now grace vel profit p)"
  by (auto simp: tick_live_score_def Let_def keeps_def keep_defs split: prod.splits)

lemma tick_staircase_keeps: "keeps p (tick_staircase v4 p)"
  by (auto simp: tick_staircase_def keeps_def keep_defs split: option.splits)

lemma tick_window_keeps: "tick_time_kill_window cfg profit cur held tier m p = (p', k) \<Longrightarrow> keeps p p'"
  by (auto simp: tick_time_kill_window_def Let_def keeps_def keep_defs split: prod.splits)

lemma tick_observe_keeps:
  assumes "tick_observe cfg has_rpc now p = Inr (p', tv, poll)" shows "keeps p p'"
proof -
  obtain c where c: "pool_market_cap (pos_pool p) = Inr c"
    using assms by (auto simp: tick_observe_def bind_outcome_Inr_iff)
  obtain p1 pl where tp: "tick_poll has_rpc now p (amount_to_float (currency_amount c)) = (p1, pl)"
    by fastforce
  obtain raw where raw: "exit_raw_mcap p1 = Inr raw"
    using assms by (auto simp: tick_observe_def bind_outcome_Inr_iff c tp)
  obtain p2 cur where ts: "tick_samples cfg now p1 raw = (p2, cur)" by fastforce
  obtain p3 profit pr sp dr where tf: "tick_profits cfg p2 raw = (p3, profit, pr, sp, dr)"
    using prod_cases5 by blast
  obtain mp where mp: "pos_pnl p3 = Inr mp"
    using assms by (auto simp: tick_observe_def bind_outcome_Inr_iff c tp raw ts tf Let_def)
  define vel where "vel = time_kill_mcap_velocity_pct_per_sec p3 (amount_to_float (enter_mcap p3))"
  define held where "held = saturating_sub now (entry_time p3)"
  define tier where "tier = entry_tier_of p3"
  define grace where "grace = (enabled (exit_v4 cfg) \<and> in_exit_grace_period_tier held tier (exit_v4 cfg))"
  define p4 where "p4 = tick_staircase (exit_v4 cfg) (tick_live_score (exit_v4 cfg) now grace vel profit p3)"
  obtain p5 k where tw: "tick_time_kill_window cfg profit cur held tier mp p4 = (p5, k)" by fastforce
  have "p' = p5"
    using assms by (simp add: tick_observe_def c tp raw ts tf mp Let_def
        tw[unfolded p4_def grace_def vel_def held_def tier_def])
  then have steps:
    "tick_poll has_rpc now p (amount_to_float (currency_amount c)) = (p1, pl)"
    "tick_samples cfg now p1 raw = (p2, cur)" "tick_profits cfg p2 raw = (p3, profit, pr, sp, dr)"
    "p4 = tick_staircase (exit_v4 cfg) (tick_live_score (exit_v4 cfg) now grace vel profit p3)"
    "tick_time_kill_window cfg profit cur held tier mp p4 = (p', k)"
    using tp ts tf tw p4_def by simp_all
  show ?thesis
    using tick_poll_keeps[OF steps(1)] tick_samples_keeps[OF steps(2)] tick_profits_keeps[OF steps(3)]
      tick_live_score_keeps[of p3 "exit_v4 cfg" now grace vel profit]
      tick_staircase_keeps[of "tick_live_score (exit_v4 cfg) now grace vel profit p3" "exit_v4 cfg"]
      tick_window_keeps[OF steps(5)] steps(4)
    by (blast intro: keeps_trans)
qed

lemma tick_position_closing: "is_closing p \<Longrightarrow> tick_position cfg has_rpc now p =
    Inr \<lparr>tr_position = p, tr_view = None, tr_poll = None, tr_action = None\<rparr>"
  by (simp add: tick_position_def)

lemma tick_position_decides:
  assumes "tick_position cfg has_rpc now p = Inr r" "\<not> is_closing p"
  shows "stake_of (tr_position r) = stake_of p \<and>
    (case tr_action r of
       None \<Rightarrow> sell_state (tr_position r) = sell_state p
     | Some a \<Rightarrow> sells_whole p (tr_position r) a \<or> sells_part p (tr_position r) a)"
proof -
  obtain q tv poll where q1: "tick_observe cfg has_rpc now p = Inr (q, tv, poll)"
    using assms by (auto simp: tick_position_def bind_outcome_Inr_iff)
  have q2: "(tr_position r, tr_action r) = tick_decide cfg tv q"
    using assms by (cases "tick_decide cfg tv q") (auto simp: tick_position_def q1)
  have "keeps p q" by (rule tick_observe_keeps[OF q1])
  moreover have "sell_sound q (tr_position r, tr_action r)"
    unfolding q2 by (rule whole_tick.sound)
  ultimately show ?thesis
    by (auto simp: sell_sound_def keeps_def sells_whole_def sells_part_def sell_state_def split: option.splits)
qed

text \<open>C9. One evaluation of a position never changes what was bought, its entry or its owner, and decides
  on at most one sell: none, with the selling state untouched; the whole position, which is then
  marked closing and skipped from then on; or a part at a level that had not fired, while no other
  part is being sold. A position that is being closed is left exactly as it is.\<close>

theorem tick_one_sound_sell:
  assumes "tick_position cfg has_rpc now p = Inr r"
  shows "stake_of (tr_position r) = stake_of p \<and>
    (case tr_action r of
       None \<Rightarrow> sell_state (tr_position r) = sell_state p
     | Some a \<Rightarrow> \<not> is_closing p \<and> (sells_whole p (tr_position r) a \<or> sells_part p (tr_position r) a)) \<and>
    (if is_closing p then tr_position r = p else True)"
proof (cases "is_closing p")
  case True
  then show ?thesis using assms by (auto simp: tick_position_closing)
next
  case False
  then show ?thesis using tick_position_decides[OF assms False] by (auto split: option.splits)
qed

text \<open>An evaluation panics only on a pool with no tokens left.\<close>

lemma exit_raw_mcap_returns: "pool_tokens (pos_pool p) \<noteq> 0 \<Longrightarrow> \<exists>m. exit_raw_mcap p = Inr m"
  using pool_market_cap_returns[of "pos_pool p"] by (auto simp: exit_raw_mcap_def split: option.splits)

lemma keeps_pool: "keeps p q \<Longrightarrow> pos_pool q = pos_pool p"
  by (simp add: keeps_def stake_of_def)

lemma tick_position_returns:
  assumes "pool_tokens (pos_pool p) \<noteq> 0" shows "returns (tick_position cfg has_rpc now p)"
proof -
  obtain v where c: "pool_market_cap (pos_pool p) = Inr (Native (amount_from_raw_native v))"
    using pool_market_cap_returns[OF assms] by blast
  obtain p1 pl where tp: "tick_poll has_rpc now p
      (amount_to_float (currency_amount (Native (amount_from_raw_native v)))) = (p1, pl)" by fastforce
  have t1: "pool_tokens (pos_pool p1) \<noteq> 0" using assms keeps_pool[OF tick_poll_keeps[OF tp]] by simp
  then obtain raw where raw: "exit_raw_mcap p1 = Inr raw" using exit_raw_mcap_returns by blast
  obtain p2 cur where ts: "tick_samples cfg now p1 raw = (p2, cur)" by fastforce
  obtain p3 profit pr sp dr where tf: "tick_profits cfg p2 raw = (p3, profit, pr, sp, dr)"
    using prod_cases5 by blast
  have "pool_tokens (pos_pool p3) \<noteq> 0"
    using t1 keeps_pool[OF tick_samples_keeps[OF ts]] keeps_pool[OF tick_profits_keeps[OF tf]] by simp
  then obtain m where "pos_pnl p3 = Inr m" using exit_raw_mcap_returns by (fastforce simp: pos_pnl_def)
  then have "returns (tick_observe cfg has_rpc now p)"
    using c tp raw ts tf by (simp add: tick_observe_def Let_def split: prod.split)
  then show ?thesis
    by (auto simp: tick_position_def returns_iff split: prod.split)
qed

lemma tick_one_sound_sell_witness:
  "\<exists>r. tick_position smart_buy_default True 140 sample_position = Inr r \<and>
     stake_of (tr_position r) = stake_of sample_position"
proof -
  have "pool_tokens (pos_pool sample_position) \<noteq> 0"
    by (simp add: sample_position_def position_at_def sample_pool_def bonding_new_def pool_tokens_def
        amount_from_raw_def)
  then obtain r where "tick_position smart_buy_default True 140 sample_position = Inr r"
    using tick_position_returns by (fastforce simp: returns_iff)
  then show ?thesis using tick_one_sound_sell by blast
qed

section \<open>Stop loss\<close>

text \<open>A tick at or below the floor, after the grace period.\<close>

definition sl_hit :: "smart_buy_config \<Rightarrow> tick_view \<times> f64 \<Rightarrow> bool" where
  "sl_hit cfg vf \<longleftrightarrow> \<not> in_sl_grace_period (tv_held (fst vf)) (sl_grace_secs cfg) \<and> tv_sl_profit (fst vf) \<le> snd vf"

definition sl_crashes :: "smart_buy_config \<Rightarrow> tick_view \<Rightarrow> bool" where
  "sl_crashes cfg tv = sl_crash_triggered (tv_sl_profit tv) (tv_profit_raw tv) (tv_tick_drop tv)
     (sl_crash_pnl_pct cfg) (sl_crash_tick_drop_pct cfg)
     (in_sl_grace_period (tv_held tv) (sl_grace_secs cfg))"

text \<open>The stop-loss stage over a sequence of ticks, each with the floor of that tick.\<close>

fun sl_run :: "smart_buy_config \<Rightarrow> position \<Rightarrow> (tick_view \<times> f64) list \<Rightarrow> stage" where
  "sl_run cfg p [] = (p, None)"
| "sl_run cfg p ((tv, fl) # vs) =
     and_then (tick_stop_loss cfg tv (p\<lparr>exit_profit_floor := fl\<rparr>)) (\<lambda>q. sl_run cfg q vs)"

definition trailing_hits :: "bool list \<Rightarrow> nat" where
  "trailing_hits hs = length (takeWhile (\<lambda>h. h) (rev hs))"

lemma trailing_hits_snoc: "trailing_hits (hs @ [h]) = (if h then Suc (trailing_hits hs) else 0)"
  by (simp add: trailing_hits_def)

lemma sl_run_snoc: "sl_run cfg p (vs @ [v]) = and_then (sl_run cfg p vs)
    (\<lambda>q. tick_stop_loss cfg (fst v) (q\<lparr>exit_profit_floor := snd v\<rparr>))"
proof (induction cfg p vs rule: sl_run.induct)
  case (1 cfg p)
  then show ?case by (cases v) (auto simp: and_then_def split: option.splits prod.splits)
next
  case (2 cfg p tv fl vs)
  then show ?case by (auto simp: and_then_def split: option.splits prod.splits)
qed

definition sl_confirm :: "smart_buy_config \<Rightarrow> nat" where
  "sl_confirm cfg = unat (max (sl_confirm_ticks cfg) 1)"

lemma sl_confirm_cast: "sl_confirm cfg < 256 \<Longrightarrow> unat (ucast (max (sl_confirm_ticks cfg) 1) :: u8) = sl_confirm cfg"
  by (simp add: sl_confirm_def unsigned_ucast_eq unsigned_take_bit_eq take_bit_nat_eq_self)

lemma tick_stop_loss_quiet:
  assumes "\<not> sl_crashes cfg tv" "sl_confirm cfg < 256" "unat (sl_below_floor_streak p) < 255"
  defines "k \<equiv> (if sl_hit cfg (tv, exit_profit_floor p) then Suc (unat (sl_below_floor_streak p)) else 0)"
  shows "snd (tick_stop_loss cfg tv p) \<noteq> None \<longleftrightarrow> sl_confirm cfg \<le> k"
    "unat (sl_below_floor_streak (fst (tick_stop_loss cfg tv p))) = k"
proof -
  let ?st = "sl_below_floor_streak p" and ?c = "ucast (max (sl_confirm_ticks cfg) 1) :: u8"
  have inc: "unat (saturating_add ?st 1) = Suc (unat ?st)"
    using assms(3) by (simp add: unat_saturating_add)
  have pos: "0 < sl_confirm cfg" by (auto simp: sl_confirm_def max_def word_le_nat_alt unat_gt_0)
  have cle: "?c \<le> w \<longleftrightarrow> sl_confirm cfg \<le> unat w" for w :: u8
    using sl_confirm_cast[OF assms(2)] by (simp add: word_le_nat_alt)
  have crash: "\<not> sl_crash_triggered (tv_sl_profit tv) (tv_profit_raw tv) (tv_tick_drop tv)
      (sl_crash_pnl_pct cfg) (sl_crash_tick_drop_pct cfg)
      (in_sl_grace_period (tv_held tv) (sl_grace_secs cfg))"
    using assms(1) by (simp add: sl_crashes_def)
  show "snd (tick_stop_loss cfg tv p) \<noteq> None \<longleftrightarrow> sl_confirm cfg \<le> k"
    using pos by (auto simp: tick_stop_loss_def Let_def crash k_def sl_hit_def cle inc)
  show "unat (sl_below_floor_streak (fst (tick_stop_loss cfg tv p))) = k"
    by (auto simp: tick_stop_loss_def Let_def crash k_def sl_hit_def inc)
qed

definition sl_quiet :: "smart_buy_config \<Rightarrow> (tick_view \<times> f64) list \<Rightarrow> bool" where
  "sl_quiet cfg vs \<longleftrightarrow> list_all (\<lambda>v. \<not> sl_crashes cfg (fst v)) vs"

lemma sl_run_streak:
  assumes "sl_quiet cfg vs" "sl_confirm cfg < 256" "sl_below_floor_streak p = 0"
    "sl_run cfg p vs = (q, None)"
  shows "unat (sl_below_floor_streak q) = trailing_hits (map (sl_hit cfg) vs) \<and>
    trailing_hits (map (sl_hit cfg) vs) < sl_confirm cfg"
  using assms(1,4)
proof (induction vs arbitrary: q rule: rev_induct)
  case Nil
  have "0 < sl_confirm cfg" by (auto simp: sl_confirm_def max_def word_le_nat_alt unat_gt_0)
  then show ?case using Nil assms(3) by (simp add: trailing_hits_def)
next
  case (snoc v vs)
  obtain q0 where q0: "sl_run cfg p vs = (q0, None)"
    "tick_stop_loss cfg (fst v) (q0\<lparr>exit_profit_floor := snd v\<rparr>) = (q, None)"
    using snoc.prems(2) by (cases "sl_run cfg p vs"; cases "snd (sl_run cfg p vs)")
      (auto simp: sl_run_snoc and_then_def)
  have IH: "unat (sl_below_floor_streak q0) = trailing_hits (map (sl_hit cfg) vs)"
    "trailing_hits (map (sl_hit cfg) vs) < sl_confirm cfg"
    using snoc.IH[OF _ q0(1)] snoc.prems(1) by (simp_all add: sl_quiet_def)
  have nc: "\<not> sl_crashes cfg (fst v)" using snoc.prems(1) by (simp add: sl_quiet_def)
  have "unat (sl_below_floor_streak (q0\<lparr>exit_profit_floor := snd v\<rparr>)) < 255"
    using IH assms(2) by simp
  note quiet = tick_stop_loss_quiet[OF nc assms(2) this]
  show ?case using quiet q0(2) IH(1) by (auto simp: trailing_hits_snoc)
qed

text \<open>C25. The plain stop loss needs confirmation: over ticks none of which triggers the crash stop, with a
  confirmation count (at least one is counted) below 256, for a position that starts with a count of
  zero, as a new one does, and whose stop loss has not fired at an earlier tick, it fires exactly at the
  tick that completes that many consecutive ticks at or below the profit floor, all after the grace
  period; any tick above the floor or in the grace period starts the count again.\<close>

theorem stop_loss_needs_confirmation:
  assumes quiet: "list_all (\<lambda>v. \<not> sl_crashes cfg (fst v)) (vs @ [v])"
    and confirm: "unat (max (sl_confirm_ticks cfg) 1) < 256"
    and fresh: "sl_below_floor_streak p = 0" and before: "snd (sl_run cfg p vs) = None"
  shows "snd (sl_run cfg p (vs @ [v])) \<noteq> None \<longleftrightarrow>
    unat (max (sl_confirm_ticks cfg) 1) \<le> trailing_hits (map (sl_hit cfg) (vs @ [v]))"
proof -
  have c: "sl_confirm cfg < 256" using confirm by (simp add: sl_confirm_def)
  obtain q where q: "sl_run cfg p vs = (q, None)" using before by (cases "sl_run cfg p vs") auto
  have "sl_quiet cfg vs" "\<not> sl_crashes cfg (fst v)" using quiet by (simp_all add: sl_quiet_def)
  note streak = sl_run_streak[OF this(1) c fresh q]
  have "unat (sl_below_floor_streak (q\<lparr>exit_profit_floor := snd v\<rparr>)) < 255"
    using streak c by simp
  note step = tick_stop_loss_quiet[OF \<open>\<not> sl_crashes cfg (fst v)\<close> c this]
  show ?thesis using step(1) streak q
    by (simp add: sl_run_snoc and_then_def trailing_hits_snoc sl_confirm_def)
qed

definition sample_view :: "f64 \<Rightarrow> u64 \<Rightarrow> tick_view" where
  "sample_view profit held =
     \<lparr>tv_now = 100 + held, tv_raw = Fin 30, tv_current = Fin 30, tv_profit = profit,
      tv_profit_raw = profit, tv_sl_profit = profit, tv_tick_drop = None, tv_vel = 0, tv_held = held,
      tv_tier = ''A'', tv_mcap_pnl = profit, tv_a_plus = False, tv_grace = False, tv_kill_after = 32,
      tv_tp = default_profile_neutral, tv_drawdown = Fin 18\<rparr>"

lemma default_stop_loss [simp]:
  "sl_confirm_ticks smart_buy_default = 3" "sl_grace_secs smart_buy_default = 5"
  "sl_crash_pnl_pct smart_buy_default = Fin (- 28)" "sl_crash_tick_drop_pct smart_buy_default = Fin 18"
  by (simp_all add: smart_buy_default_def)

lemma stop_loss_needs_confirmation_witness:
  "snd (sl_run smart_buy_default sample_position
     [(sample_view (Fin (- 20)) 6, Fin (- 16)), (sample_view (Fin (- 20)) 7, Fin (- 16)),
      (sample_view (Fin (- 20)) 8, Fin (- 16))]) \<noteq> None"
proof -
  let ?v = "\<lambda>h. (sample_view (Fin (- 20)) h, Fin (- 16))"
  have c: "max (3 :: u32) 1 = 3" by (simp add: max_def word_le_nat_alt)
  have crash: "\<not> sl_crashes smart_buy_default (sample_view (Fin (- 20)) h)" for h
    by (simp add: sl_crashes_def sl_crash_triggered_def sample_view_def)
  have none: "snd (sl_run smart_buy_default sample_position [?v 6, ?v 7]) = None"
    using crash[of 6] crash[of 7]
    by (simp add: tick_stop_loss_def sl_crashes_def sample_view_def and_then_def
        Let_def c in_sl_grace_period_def sample_position_def position_at_def saturating_add_def
        word_le_nat_alt)
  have "snd (sl_run smart_buy_default sample_position ([?v 6, ?v 7] @ [?v 8])) \<noteq> None \<longleftrightarrow>
      unat (max (sl_confirm_ticks smart_buy_default) 1)
        \<le> trailing_hits (map (sl_hit smart_buy_default) ([?v 6, ?v 7] @ [?v 8]))"
    by (rule stop_loss_needs_confirmation[OF _ _ _ none])
       (simp_all add: crash c sample_position_def position_at_def)
  then show ?thesis
    by (simp add: c trailing_hits_def sl_hit_def sample_view_def in_sl_grace_period_def)
qed

text \<open>The confirmation count is cut to 8 bits when it is compared: with a count of 256 the stop loss
  fires at the first tick after the grace period, at any profit and any floor.\<close>

theorem stop_loss_confirm_256_fires_at_once:
  assumes "sl_confirm_ticks cfg = 256" "\<not> in_sl_grace_period (tv_held tv) (sl_grace_secs cfg)"
  shows "\<exists>a. snd (tick_stop_loss cfg tv p) = Some a \<and> act_percent a = Fin 100"
proof -
  have "max (256 :: u32) 1 = 256" by (simp add: max_def word_le_nat_alt)
  then have "(ucast (max (sl_confirm_ticks cfg) 1) :: u8) = 0" using assms(1) by simp
  then show ?thesis using assms(2) by (auto simp: tick_stop_loss_def Let_def full_sell_def)
qed

lemma stop_loss_confirm_256_fires_at_once_witness:
  "\<exists>a. snd (tick_stop_loss (smart_buy_default\<lparr>sl_confirm_ticks := 256\<rparr>) (sample_view (Fin 50) 6)
      sample_position) = Some a \<and> act_percent a = Fin 100"
  by (rule stop_loss_confirm_256_fires_at_once)
     (simp_all add: in_sl_grace_period_def sample_view_def)

section \<open>Time-kill window\<close>

text \<open>With the adaptive time kill the window is between 18 and 80 seconds and in the range of its
  tier (weak 18 to 28, neutral 20 to 45, strong 45 to 80), whatever the configuration says.\<close>

theorem time_kill_window_ranges:
  "if time_kill_adaptive cfg
   then (case time_kill_window_profile cfg p profit cur held of (secs, label) \<Rightarrow>
          (label = ''weak'' \<and> 18 \<le> secs \<and> secs \<le> 28) \<or> (label = ''neutral'' \<and> 20 \<le> secs \<and> secs \<le> 45) \<or>
          (label = ''strong'' \<and> 45 \<le> secs \<and> secs \<le> 80))
   else time_kill_window_profile cfg p profit cur held = (time_kill_secs cfg, ''fixed'')"
proof -
  have b: "45 \<le> clamp_word 45 80 s" "clamp_word 45 80 s \<le> 80" "18 \<le> clamp_word 18 28 s"
    "clamp_word 18 28 s \<le> 28" "20 \<le> clamp_word 20 45 s" "clamp_word 20 45 s \<le> 45" for s :: u64
    using clamp_word_bounds[of 45 80 s] clamp_word_bounds[of 18 28 s] clamp_word_bounds[of 20 45 s]
    by simp_all
  show ?thesis by (simp add: time_kill_window_profile_def Let_def b)
qed

end
