(* ===== verification/Strategy.thy ===== *)
theory Strategy
  imports F64 Machines
begin

text \<open>
  Model of the risk gate \<^verbatim>\<open>src/scoring/strategy_controller.rs\<close> with its configuration from
  \<^verbatim>\<open>src/scoring/config.rs\<close>. The wall clock is an argument: all readings within one call of the
  source fall into the same second. Counters are 32-bit and wrap.

  Besides the decision table of the gate the theory gives an abstract specification: the history
  of queries, opens and closes. Everything the snapshot of the controller shows is a function of the
  history, and every run of the controller refines it.
\<close>

record strategy_config =
  max_open_positions :: u32
  max_trades_per_day :: u32
  max_daily_loss_sol :: f64
  daily_profit_lock_sol :: f64
  loss_streak_limit :: u32
  loss_streak_pause_secs :: u64
  market_regime_pause :: bool
  market_regime_window :: u32
  market_regime_loss_ratio :: f64
  market_regime_pause_secs :: u64

definition strategy_default :: strategy_config where
  "strategy_default =
     \<lparr>max_open_positions = 3, max_trades_per_day = 25, max_daily_loss_sol = f64_of (- 2),
      daily_profit_lock_sol = f64_of 4, loss_streak_limit = 5, loss_streak_pause_secs = 1800,
      market_regime_pause = True, market_regime_window = 10,
      market_regime_loss_ratio = f64_of 0.8, market_regime_pause_secs = 1800\<rparr>"

datatype buy_decision =
    Allow | BlockMaxOpen | BlockDailyTrades | BlockDailyLoss | BlockProfitLock | BlockLossStreak
  | BlockRegime

record strategy =
  st_cfg :: strategy_config
  day_unix :: u64
  daily_trades :: u32
  daily_pnl_sol :: f64
  loss_streak :: u32
  paused_until_unix :: u64
  recent_outcomes :: "bool list"
  last_block_reason :: "string option"

definition current_day :: "u64 \<Rightarrow> u64" where
  "current_day secs = secs - secs mod 86400"

definition strategy_new :: "strategy_config \<Rightarrow> u64 \<Rightarrow> strategy" where
  "strategy_new cfg now =
     \<lparr>st_cfg = cfg, day_unix = current_day now, daily_trades = 0, daily_pnl_sol = 0,
      loss_streak = 0, paused_until_unix = 0, recent_outcomes = [], last_block_reason = None\<rparr>"

definition roll_day_if_needed :: "u64 \<Rightarrow> strategy \<Rightarrow> strategy" where
  "roll_day_if_needed now s =
     (let today = current_day now in
      if today \<noteq> day_unix s then s\<lparr>day_unix := today, daily_trades := 0, daily_pnl_sol := 0\<rparr> else s)"

definition can_open :: "strategy \<Rightarrow> u64 \<Rightarrow> u32 \<Rightarrow> strategy \<times> buy_decision" where
  "can_open s0 now open' =
     (let s = roll_day_if_needed now s0; c = st_cfg s;
          block = (\<lambda>r d. (s\<lparr>last_block_reason := Some r\<rparr>, d))
      in if max_open_positions c \<le> open' then block ''max_open'' BlockMaxOpen
         else if max_trades_per_day c \<le> daily_trades s then block ''daily_trades'' BlockDailyTrades
         else if daily_pnl_sol s \<le> max_daily_loss_sol c then block ''daily_loss'' BlockDailyLoss
         else if daily_profit_lock_sol c \<le> daily_pnl_sol s then block ''profit_lock'' BlockProfitLock
         else if now < paused_until_unix s then block ''paused'' BlockLossStreak
         else (s, Allow))"

definition note_position_opened :: "strategy \<Rightarrow> u64 \<Rightarrow> strategy" where
  "note_position_opened s0 now =
     (let s = roll_day_if_needed now s0 in s\<lparr>daily_trades := daily_trades s + 1\<rparr>)"

text \<open>The window after a push: the oldest outcomes are popped.\<close>

definition push_outcome :: "nat \<Rightarrow> bool list \<Rightarrow> bool \<Rightarrow> bool list" where
  "push_outcome window xs win = (let ys = xs @ [win] in drop (length ys - window) ys)"

definition losses_in :: "bool list \<Rightarrow> nat" where
  "losses_in xs = length (filter (\<lambda>w. \<not> w) xs)"

definition note_loss_streak :: "u64 \<Rightarrow> bool \<Rightarrow> strategy \<Rightarrow> strategy" where
  "note_loss_streak now win s =
     (if win then s\<lparr>loss_streak := 0\<rparr>
      else let s' = s\<lparr>loss_streak := loss_streak s + 1\<rparr> in
           if loss_streak_limit (st_cfg s') \<le> loss_streak s'
           then s'\<lparr>paused_until_unix := now + loss_streak_pause_secs (st_cfg s')\<rparr> else s')"

definition note_regime :: "u64 \<Rightarrow> bool \<Rightarrow> strategy \<Rightarrow> strategy" where
  "note_regime now win s =
     (let c = st_cfg s; window = unat (market_regime_window c);
          rec = push_outcome window (recent_outcomes s) win;
          s' = s\<lparr>recent_outcomes := rec\<rparr>
      in if market_regime_pause c \<and> max window 1 \<le> length rec
         then let ratio = nat_to_f64 (losses_in rec) / nat_to_f64 (length rec) in
              if market_regime_loss_ratio c \<le> ratio
              then let until = now + market_regime_pause_secs c in
                   if paused_until_unix s' < until then s'\<lparr>paused_until_unix := until\<rparr> else s'
              else s'
         else s')"

definition note_position_closed :: "strategy \<Rightarrow> u64 \<Rightarrow> f64 \<Rightarrow> strategy" where
  "note_position_closed s0 now pnl =
     (let s = roll_day_if_needed now s0; s1 = s\<lparr>daily_pnl_sol := daily_pnl_sol s + pnl\<rparr>; win = 0 < pnl
      in note_regime now win (note_loss_streak now win s1))"

record strategy_snapshot =
  sn_day_unix :: u64
  sn_daily_trades :: u32
  sn_daily_pnl_sol :: f64
  sn_loss_streak :: u32
  sn_paused_until_unix :: u64
  sn_recent_outcomes_window :: u32
  sn_recent_losses :: u32
  sn_last_block_reason :: "string option"

definition strategy_snapshot_of :: "strategy \<Rightarrow> strategy_snapshot" where
  "strategy_snapshot_of s =
     \<lparr>sn_day_unix = day_unix s, sn_daily_trades = daily_trades s, sn_daily_pnl_sol = daily_pnl_sol s,
      sn_loss_streak = loss_streak s, sn_paused_until_unix = paused_until_unix s,
      sn_recent_outcomes_window = of_nat (length (recent_outcomes s)),
      sn_recent_losses = of_nat (losses_in (recent_outcomes s)),
      sn_last_block_reason = last_block_reason s\<rparr>"

lemmas strategy_eval = can_open_def note_position_opened_def note_position_closed_def
  note_loss_streak_def note_regime_def roll_day_if_needed_def Let_def

section \<open>The decision table\<close>

lemma roll_day_frame [simp]:
  "st_cfg (roll_day_if_needed now s) = st_cfg s"
  "loss_streak (roll_day_if_needed now s) = loss_streak s"
  "paused_until_unix (roll_day_if_needed now s) = paused_until_unix s"
  "recent_outcomes (roll_day_if_needed now s) = recent_outcomes s"
  "day_unix (roll_day_if_needed now s) = current_day now"
  by (simp_all add: roll_day_if_needed_def Let_def)

text \<open>Today's counters: what the gate compares after a roll-over.\<close>

definition trades_today :: "u64 \<Rightarrow> strategy \<Rightarrow> u32" where
  "trades_today now s = (if current_day now = day_unix s then daily_trades s else 0)"

definition pnl_today :: "u64 \<Rightarrow> strategy \<Rightarrow> f64" where
  "pnl_today now s = (if current_day now = day_unix s then daily_pnl_sol s else 0)"

lemma roll_day_counters [simp]:
  "daily_trades (roll_day_if_needed now s) = trades_today now s"
  "daily_pnl_sol (roll_day_if_needed now s) = pnl_today now s"
  by (simp_all add: roll_day_if_needed_def Let_def trades_today_def pnl_today_def)

text \<open>The gate allows a buy exactly when there is a free slot, today's trade budget is not used up,
  today's profit is neither at the loss cap nor at the profit lock, and no pause runs; a new day
  clears the daily counters only. It never reports a regime block: a regime pause is reported as
  a loss streak.\<close>

theorem can_open_allow_iff:
  "(snd (can_open s now n) = Allow \<longleftrightarrow>
      n < max_open_positions (st_cfg s) \<and> trades_today now s < max_trades_per_day (st_cfg s) \<and>
      \<not> pnl_today now s \<le> max_daily_loss_sol (st_cfg s) \<and>
      \<not> daily_profit_lock_sol (st_cfg s) \<le> pnl_today now s \<and> paused_until_unix s \<le> now) \<and>
   snd (can_open s now n) \<noteq> BlockRegime \<and>
   loss_streak (fst (can_open s now n)) = loss_streak s \<and>
   paused_until_unix (fst (can_open s now n)) = paused_until_unix s \<and>
   recent_outcomes (fst (can_open s now n)) = recent_outcomes s"
  by (auto simp: can_open_def Let_def not_le)

section \<open>Refinement of the history of the controller\<close>

datatype strategy_event = SAsk u32 | SOpened | SClosed f64

fun strategy_step :: "strategy \<Rightarrow> u64 \<times> strategy_event \<Rightarrow> strategy" where
  "strategy_step s (now, SAsk n) = fst (can_open s now n)"
| "strategy_step s (now, SOpened) = note_position_opened s now"
| "strategy_step s (now, SClosed pnl) = note_position_closed s now pnl"

text \<open>
  The specification: a history is the list of events, the newest first, and everything the controller
  shows is a function of it. Today's events are the newest ones that lie on the day of the newest.
\<close>

type_synonym history = "(u64 \<times> strategy_event) list"

fun is_open_event :: "u64 \<times> strategy_event \<Rightarrow> bool" where
  "is_open_event (_, SOpened) = True" | "is_open_event _ = False"

fun closed_pnl :: "u64 \<times> strategy_event \<Rightarrow> f64 list" where
  "closed_pnl (_, SClosed pnl) = [pnl]" | "closed_pnl _ = []"

definition on_day :: "u64 \<Rightarrow> history \<Rightarrow> history" where
  "on_day now h = takeWhile (\<lambda>ev. current_day (fst ev) = current_day now) h"

definition trades_of :: "history \<Rightarrow> nat" where
  "trades_of h = length (filter is_open_event h)"

definition pnl_of :: "history \<Rightarrow> f64" where
  "pnl_of h = foldl (+) 0 (concat (map closed_pnl (rev h)))"

definition wins_of :: "history \<Rightarrow> bool list" where
  "wins_of h = map (\<lambda>pnl. 0 < pnl) (concat (map closed_pnl h))"

definition streak_of :: "history \<Rightarrow> nat" where
  "streak_of h = length (takeWhile Not (wins_of h))"

definition window_of :: "strategy_config \<Rightarrow> history \<Rightarrow> bool list" where
  "window_of cfg h = rev (take (unat (market_regime_window cfg)) (wins_of h))"

text \<open>Whether a window is full and has too many losses.\<close>

definition bad_regime :: "strategy_config \<Rightarrow> bool list \<Rightarrow> bool" where
  "bad_regime cfg w \<longleftrightarrow> market_regime_pause cfg \<and> max (unat (market_regime_window cfg)) 1 \<le> length w \<and>
     market_regime_loss_ratio cfg \<le> nat_to_f64 (losses_in w) / nat_to_f64 (length w)"

text \<open>
  The end of the pause: every loss that completes a streak sets it, every bad regime extends it; and the
  reason of the last query that was blocked.
\<close>

fun pause_of :: "strategy_config \<Rightarrow> history \<Rightarrow> u64" where
  "pause_of cfg [] = 0"
| "pause_of cfg ((now, SClosed pnl) # h) =
     (let p = (if \<not> 0 < pnl \<and> loss_streak_limit cfg \<le> of_nat (streak_of ((now, SClosed pnl) # h))
               then now + loss_streak_pause_secs cfg else pause_of cfg h)
      in if bad_regime cfg (window_of cfg ((now, SClosed pnl) # h))
         then max p (now + market_regime_pause_secs cfg) else p)"
| "pause_of cfg (_ # h) = pause_of cfg h"

fun reason_of :: "strategy_config \<Rightarrow> history \<Rightarrow> string option" where
  "reason_of cfg [] = None"
| "reason_of cfg ((now, SAsk n) # h) =
     (if max_open_positions cfg \<le> n then Some ''max_open''
      else if max_trades_per_day cfg \<le> of_nat (trades_of (on_day now h)) then Some ''daily_trades''
      else if pnl_of (on_day now h) \<le> max_daily_loss_sol cfg then Some ''daily_loss''
      else if daily_profit_lock_sol cfg \<le> pnl_of (on_day now h) then Some ''profit_lock''
      else if now < pause_of cfg h then Some ''paused''
      else reason_of cfg h)"
| "reason_of cfg (_ # h) = reason_of cfg h"

lemma history_simps [simp]:
  "wins_of ((now, SClosed pnl) # h) = (0 < pnl) # wins_of h" "wins_of ((now, SOpened) # h) = wins_of h"
  "wins_of ((now, SAsk n) # h) = wins_of h" "wins_of [] = []"
  "trades_of [] = 0" "trades_of (ev # h) = (if is_open_event ev then 1 else 0) + trades_of h"
  "pnl_of [] = 0" "pnl_of ((now, SClosed pnl) # h) = pnl_of h + pnl"
  "pnl_of ((now, SOpened) # h) = pnl_of h" "pnl_of ((now, SAsk n) # h) = pnl_of h"
  "streak_of ((now, SClosed pnl) # h) = (if 0 < pnl then 0 else Suc (streak_of h))"
  by (simp_all add: wins_of_def trades_of_def pnl_of_def streak_of_def)

lemma streak_window_other [simp]:
  "streak_of ((now, SOpened) # h) = streak_of h" "streak_of ((now, SAsk n) # h) = streak_of h"
  "window_of cfg ((now, SOpened) # h) = window_of cfg h" "window_of cfg ((now, SAsk n) # h) = window_of cfg h"
  by (simp_all add: streak_of_def window_of_def)

lemma window_push:
  "push_outcome (unat (market_regime_window cfg)) (window_of cfg h) (0 < pnl) = window_of cfg ((now, SClosed pnl) # h)"
proof -
  let ?w = "unat (market_regime_window cfg)" and ?x = "0 < pnl"
  have "rev (take ?w (wins_of h)) @ [?x] = rev (take (Suc ?w) (?x # wins_of h))" by simp
  then have "push_outcome ?w (window_of cfg h) ?x = rev (take ?w (take (Suc ?w) (?x # wins_of h)))"
    by (simp only: push_outcome_def window_of_def Let_def length_rev rev_take[symmetric])
  moreover have "take ?w (take (Suc ?w) (?x # wins_of h)) = take ?w (?x # wins_of h)" by (simp only: take_take) (simp add: min_def)
  ultimately show ?thesis by (simp only: window_of_def history_simps)
qed

text \<open>What the controller holds after a history that began at \<open>t0\<close>.\<close>

definition last_day :: "u64 \<Rightarrow> history \<Rightarrow> u64" where
  "last_day t0 h = current_day (if h = [] then t0 else fst (hd h))"

definition today :: "history \<Rightarrow> history" where
  "today h = on_day (fst (hd h)) h"

definition refines :: "strategy_config \<Rightarrow> u64 \<Rightarrow> history \<Rightarrow> strategy \<Rightarrow> bool" where
  "refines cfg t0 h s \<longleftrightarrow>
     s = \<lparr>st_cfg = cfg, day_unix = last_day t0 h, daily_trades = of_nat (trades_of (today h)),
          daily_pnl_sol = pnl_of (today h), loss_streak = of_nat (streak_of h), paused_until_unix = pause_of cfg h,
          recent_outcomes = window_of cfg h, last_block_reason = reason_of cfg h\<rparr>"

lemma note_loss_streak_fields [simp]:
  "st_cfg (note_loss_streak now win s) = st_cfg s"
  "recent_outcomes (note_loss_streak now win s) = recent_outcomes s"
  "loss_streak (note_loss_streak now win s) = (if win then 0 else loss_streak s + 1)"
  "daily_trades (note_loss_streak now win s) = daily_trades s"
  "daily_pnl_sol (note_loss_streak now win s) = daily_pnl_sol s"
  "day_unix (note_loss_streak now win s) = day_unix s"
  "last_block_reason (note_loss_streak now win s) = last_block_reason s"
  "paused_until_unix (note_loss_streak now win s) =
     (if \<not> win \<and> loss_streak_limit (st_cfg s) \<le> loss_streak s + 1
      then now + loss_streak_pause_secs (st_cfg s) else paused_until_unix s)"
  by (simp_all add: note_loss_streak_def Let_def)

lemma note_regime_fields [simp]:
  "st_cfg (note_regime now win s) = st_cfg s"
  "recent_outcomes (note_regime now win s) =
     push_outcome (unat (market_regime_window (st_cfg s))) (recent_outcomes s) win"
  "loss_streak (note_regime now win s) = loss_streak s"
  "daily_trades (note_regime now win s) = daily_trades s"
  "daily_pnl_sol (note_regime now win s) = daily_pnl_sol s"
  "day_unix (note_regime now win s) = day_unix s"
  "last_block_reason (note_regime now win s) = last_block_reason s"
  "paused_until_unix (note_regime now win s) =
     (if bad_regime (st_cfg s) (push_outcome (unat (market_regime_window (st_cfg s))) (recent_outcomes s) win)
      then max (paused_until_unix s) (now + market_regime_pause_secs (st_cfg s)) else paused_until_unix s)"
  by (auto simp: note_regime_def bad_regime_def max_def Let_def not_less)

lemma today_Cons: "today ((now, ev) # h) = (now, ev) # on_day now h"
  by (simp add: today_def on_day_def)

lemma roll_day_refines:
  assumes "refines cfg t0 h s"
  shows "roll_day_if_needed now s = s\<lparr>day_unix := current_day now,
    daily_trades := of_nat (trades_of (on_day now h)), daily_pnl_sol := pnl_of (on_day now h)\<rparr>"
proof (cases "current_day now = last_day t0 h")
  case True
  then have "on_day now h = today h"
    by (cases h) (simp_all add: on_day_def today_def last_day_def)
  then show ?thesis using assms True by (simp add: refines_def roll_day_if_needed_def Let_def)
next
  case False
  then have "on_day now h = []" by (cases h) (simp_all add: on_day_def last_day_def)
  then show ?thesis using assms False by (simp add: refines_def roll_day_if_needed_def Let_def)
qed

lemma strategy_step_refines:
  assumes "refines cfg t0 h s" shows "refines cfg t0 (ev # h) (strategy_step s ev)"
proof -
  note roll = roll_day_refines[OF assms]
  have s: "s = \<lparr>st_cfg = cfg, day_unix = last_day t0 h, daily_trades = of_nat (trades_of (today h)),
          daily_pnl_sol = pnl_of (today h), loss_streak = of_nat (streak_of h), paused_until_unix = pause_of cfg h,
          recent_outcomes = window_of cfg h, last_block_reason = reason_of cfg h\<rparr>"
    using assms by (simp add: refines_def)
  obtain now e where ev: "ev = (now, e)" by (cases ev)
  show ?thesis
  proof (cases e)
    case (SAsk n)
    show ?thesis unfolding ev SAsk strategy_step.simps can_open_def roll
      by (simp add: s refines_def last_day_def today_Cons Let_def)
  next
    case SOpened
    show ?thesis unfolding ev SOpened strategy_step.simps note_position_opened_def roll
      by (simp add: s refines_def last_day_def today_Cons Let_def)
  next
    case (SClosed pnl)
    show ?thesis unfolding ev SClosed strategy_step.simps note_position_closed_def roll refines_def Let_def
      using window_push[of cfg h pnl now]
      by (cases "0 < pnl"; intro strategy.equality) (simp_all add: s last_day_def today_Cons Let_def add.commute)
  qed
qed

lemma strategy_run_refines:
  "refines cfg t0 h s \<Longrightarrow> refines cfg t0 (rev es @ h) (foldl strategy_step s es)"
proof (induction es arbitrary: h s)
  case (Cons ev es)
  then show ?case using Cons.IH[OF strategy_step_refines[OF Cons.prems, of ev]] by simp
qed simp

text \<open>C28. The controller refines its history: after any sequence of queries, opens and closes, at any times,
  each of the eight fields of the snapshot is what the history says. The day is that of the last event;
  the trades and the profit of the day are the opens and the closed profits since the last change of the
  day (32-bit and binary64); the streak is the number of closes since the last win, modulo 2^32; the
  pause is the one that the last completed streak has set and the bad regimes since have extended; the
  window holds the last outcomes and the snapshot counts them and the losses among them; and the reason is
  that of the last query that was blocked.\<close>

theorem strategy_refines_history:
  "let s = foldl strategy_step (strategy_new cfg t0) es; h = rev es
   in strategy_snapshot_of s =
        \<lparr>sn_day_unix = last_day t0 h, sn_daily_trades = of_nat (trades_of (today h)),
         sn_daily_pnl_sol = pnl_of (today h), sn_loss_streak = of_nat (streak_of h),
         sn_paused_until_unix = pause_of cfg h, sn_recent_outcomes_window = of_nat (length (window_of cfg h)),
         sn_recent_losses = of_nat (length (filter Not (window_of cfg h))), sn_last_block_reason = reason_of cfg h\<rparr>
    \<and> recent_outcomes s = window_of cfg h"
proof -
  have "refines cfg t0 [] (strategy_new cfg t0)"
    by (simp add: refines_def strategy_new_def last_day_def today_def on_day_def streak_of_def window_of_def)
  from strategy_run_refines[OF this, of es] show ?thesis
    by (simp add: refines_def strategy_snapshot_of_def losses_in_def Let_def)
qed

section \<open>Pauses\<close>

definition no_close :: "u64 \<times> strategy_event \<Rightarrow> bool" where
  "no_close ev = (case snd ev of SClosed _ \<Rightarrow> False | _ \<Rightarrow> True)"

lemma step_keeps_pause:
  "no_close ev \<Longrightarrow> paused_until_unix (strategy_step s ev) = paused_until_unix s"
  by (cases "(s, ev)" rule: strategy_step.cases)
     (auto simp: no_close_def can_open_def note_position_opened_def Let_def)

lemma run_keeps_pause:
  "list_all no_close es \<Longrightarrow> paused_until_unix (foldl strategy_step s es) = paused_until_unix s"
  by (induction es arbitrary: s) (auto simp: step_keeps_pause)

lemma regime_extends:
  "paused_until_unix s \<le> paused_until_unix (note_regime now win s)"
  by (auto simp: note_regime_def Let_def)

lemma closed_pause:
  assumes "\<not> 0 < pnl" "loss_streak_limit (st_cfg s) \<le> loss_streak s + 1"
  shows "now + loss_streak_pause_secs (st_cfg s) \<le> paused_until_unix (note_position_closed s now pnl)"
proof -
  let ?s = "note_loss_streak now False (roll_day_if_needed now s\<lparr>daily_pnl_sol := pnl_today now s + pnl\<rparr>)"
  have "now + loss_streak_pause_secs (st_cfg s) = paused_until_unix ?s"
    using assms(2) by (simp add: note_loss_streak_def)
  also have "\<dots> \<le> paused_until_unix (note_position_closed s now pnl)"
    using assms(1) regime_extends[of ?s now False] by (simp add: note_position_closed_def)
  finally show ?thesis .
qed

text \<open>A loss that completes the streak blocks every buy until the pause is over, whatever queries
  and opens follow, on that day or the next one.\<close>

theorem loss_streak_pause_blocks:
  assumes loss: "\<not> 0 < pnl" and streak: "loss_streak_limit (st_cfg s) \<le> loss_streak s + 1"
    and quiet: "list_all no_close es"
    and early: "t < now + loss_streak_pause_secs (st_cfg s)"
  shows "snd (can_open (foldl strategy_step (note_position_closed s now pnl) es) t n) \<noteq> Allow"
proof -
  let ?s = "foldl strategy_step (note_position_closed s now pnl) es"
  have "t < paused_until_unix ?s"
    using closed_pause[OF loss streak, of now] early by (simp add: run_keeps_pause[OF quiet])
  then show ?thesis by (auto simp: can_open_def Let_def)
qed

lemma loss_streak_pause_blocks_witness:
  "snd (can_open (foldl strategy_step
      (note_position_closed (strategy_new strategy_default 1000\<lparr>loss_streak := 4\<rparr>) 86390 (Fin (- 1)))
      [(86399, SAsk 0), (86401, SOpened)]) 86402 0) \<noteq> Allow"
  by (rule loss_streak_pause_blocks)
     (simp_all add: strategy_new_def strategy_default_def no_close_def zero_f64_def)

text \<open>
  The pause of a loss streak overwrites the end of the running pause instead of extending it, so a
  completed streak can end a longer regime pause early. The exhibit: three losses and a win start
  a regime pause of 1000 seconds; two more losses shorten it to 10 seconds.
\<close>

definition shorten_cfg :: strategy_config where
  "shorten_cfg = strategy_default\<lparr>max_daily_loss_sol := f64_of (- 20), loss_streak_limit := 2, loss_streak_pause_secs := 10,
     market_regime_window := 4, market_regime_loss_ratio := f64_of (3 / 4),
     market_regime_pause_secs := 1000\<rparr>"

definition shorten_run :: "(u64 \<times> strategy_event) list" where
  "shorten_run = [(100, SClosed (Fin (- 1))), (101, SClosed (Fin (- 1))), (102, SClosed (Fin (- 1))),
     (103, SClosed (Fin 1)), (104, SClosed (Fin 1)), (105, SClosed (Fin (- 1)))]"

lemma shorten_quotients:
  "nat_to_f64 (Suc 0) / nat_to_f64 4 = Fin (1 / 4)" "nat_to_f64 2 / nat_to_f64 4 = Fin (1 / 2)"
  "nat_to_f64 3 / nat_to_f64 4 = Fin (3 / 4)" "f64_of (3 / 4) = Fin (3 / 4)"
proof -
  have r: "rnd (1 / 4) = 1 / 4" "rnd (1 / 2) = 1 / 2" "rnd (3 / 4) = 3 / 4"
    using rnd_exact[of 1 "- 2"] rnd_exact[of 1 "- 1"] rnd_exact[of 3 "- 2"]
    by (simp_all add: power_int_def inverse_eq_divide power_one_over power2_eq_square)
  have f: "f64_of (1 / 4) = Fin (1 / 4)" "f64_of (1 / 2) = Fin (1 / 2)" "f64_of (3 / 4) = Fin (3 / 4)"
    using r by (simp_all add: f64_of_exact)
  show "nat_to_f64 (Suc 0) / nat_to_f64 4 = Fin (1 / 4)" "nat_to_f64 2 / nat_to_f64 4 = Fin (1 / 2)"
    "nat_to_f64 3 / nat_to_f64 4 = Fin (3 / 4)" "f64_of (3 / 4) = Fin (3 / 4)"
    by (simp_all add: nat_to_f64_def f one_f64_def)
qed

definition shorten_state :: "f64 \<Rightarrow> u32 \<Rightarrow> u64 \<Rightarrow> bool list \<Rightarrow> strategy" where
  "shorten_state x k p r =
     \<lparr>st_cfg = shorten_cfg, day_unix = 0, daily_trades = 0, daily_pnl_sol = x, loss_streak = k,
      paused_until_unix = p, recent_outcomes = r, last_block_reason = None\<rparr>"

lemma shorten_day: "(now :: u64) < 86400 \<Longrightarrow> current_day now = 0"
proof -
  assume "now < 86400"
  then have "now mod 86400 = now" by (simp add: word_unat_eq_iff unat_mod word_less_nat_alt)
  then show ?thesis by (simp add: current_day_def)
qed

lemma shorten_fields [simp]:
  "loss_streak_limit shorten_cfg = 2" "loss_streak_pause_secs shorten_cfg = 10"
  "market_regime_pause shorten_cfg" "market_regime_window shorten_cfg = 4"
  "market_regime_loss_ratio shorten_cfg = Fin (3 / 4)" "market_regime_pause_secs shorten_cfg = 1000"
  "max_open_positions shorten_cfg = 3" "max_trades_per_day shorten_cfg = 25"
  "max_daily_loss_sol shorten_cfg = Fin (- 20)" "daily_profit_lock_sol shorten_cfg = Fin 4"
  by (simp_all add: shorten_cfg_def strategy_default_def shorten_quotients)

lemma shorten_step:
  assumes "now < 86400"
  shows "note_position_closed (shorten_state x k p r) now pnl =
    note_regime now (0 < pnl) (note_loss_streak now (0 < pnl) (shorten_state (x + pnl) k p r))"
  using assms by (simp add: note_position_closed_def roll_day_if_needed_def shorten_day shorten_state_def Let_def)

lemma shorten_streak:
  "note_loss_streak now win (shorten_state x k p r) =
     (if win then shorten_state x 0 p r
      else shorten_state x (k + 1) (if 2 \<le> k + 1 then now + 10 else p) r)"
  by (simp add: note_loss_streak_def shorten_state_def Let_def)

lemma shorten_regime:
  "note_regime now win (shorten_state x k p r) =
     (let rec = push_outcome 4 r win in
      shorten_state x k
        (if 4 \<le> length rec \<and> Fin (3 / 4) \<le> nat_to_f64 (losses_in rec) / nat_to_f64 (length rec)
            \<and> p < now + 1000 then now + 1000 else p) rec)"
  by (simp add: note_regime_def shorten_state_def Let_def)

lemma two_not_le_one: "\<not> (2 :: u32) \<le> 1" by (simp add: word_le_nat_alt)

lemma shorten_quotients_Suc:
  "nat_to_f64 (Suc 0) / nat_to_f64 (Suc (Suc (Suc (Suc 0)))) = Fin (1 / 4)"
  "nat_to_f64 (Suc (Suc 0)) / nat_to_f64 (Suc (Suc (Suc (Suc 0)))) = Fin (1 / 2)"
  "nat_to_f64 (Suc (Suc (Suc 0))) / nat_to_f64 (Suc (Suc (Suc (Suc 0)))) = Fin (3 / 4)"
proof -
  have n: "Suc (Suc 0) = 2" "Suc 2 = 3" "Suc 3 = 4" by simp_all
  show "nat_to_f64 (Suc 0) / nat_to_f64 (Suc (Suc (Suc (Suc 0)))) = Fin (1 / 4)"
    "nat_to_f64 (Suc (Suc 0)) / nat_to_f64 (Suc (Suc (Suc (Suc 0)))) = Fin (1 / 2)"
    "nat_to_f64 (Suc (Suc (Suc 0))) / nat_to_f64 (Suc (Suc (Suc (Suc 0)))) = Fin (3 / 4)"
    unfolding n by (rule shorten_quotients)+
qed

lemmas shorten_eval = shorten_quotients_Suc two_not_le_one shorten_step shorten_streak shorten_regime push_outcome_def losses_in_def
  shorten_quotients zero_f64_def

lemma shorten_new: "strategy_new shorten_cfg 100 = shorten_state 0 0 0 []"
  by (simp add: strategy_new_def shorten_state_def shorten_day)

lemma shorten_end:
  "foldl strategy_step (strategy_new shorten_cfg 100) shorten_run
   = shorten_state (Fin (- 2)) 1 1103 [False, True, True, False]"
proof -
  have 1: "note_position_closed (shorten_state (Fin 0) 0 0 []) 100 (Fin (- 1))
      = shorten_state (Fin (- 1)) 1 0 [False]" by (simp add: shorten_eval)
  have 2: "note_position_closed (shorten_state (Fin (- 1)) 1 0 [False]) 101 (Fin (- 1))
      = shorten_state (Fin (- 2)) 2 111 [False, False]" by (simp add: shorten_eval)
  have 3: "note_position_closed (shorten_state (Fin (- 2)) 2 111 [False, False]) 102 (Fin (- 1))
      = shorten_state (Fin (- 3)) 3 112 [False, False, False]" by (simp add: shorten_eval)
  have 4: "note_position_closed (shorten_state (Fin (- 3)) 3 112 [False, False, False]) 103 (Fin 1)
      = shorten_state (Fin (- 2)) 0 1103 [False, False, False, True]" by (simp add: shorten_eval)
  have 5: "note_position_closed (shorten_state (Fin (- 2)) 0 1103 [False, False, False, True]) 104 (Fin 1)
      = shorten_state (Fin (- 1)) 0 1103 [False, False, True, True]" by (simp add: shorten_eval)
  have 6: "note_position_closed (shorten_state (Fin (- 1)) 0 1103 [False, False, True, True]) 105 (Fin (- 1))
      = shorten_state (Fin (- 2)) 1 1103 [False, True, True, False]" by (simp add: shorten_eval)
  show ?thesis by (simp add: shorten_new shorten_run_def zero_f64_def 1 2 3 4 5 6)
qed

text \<open>The pause of a completed loss streak can end a longer regime pause early: there are a
  configuration and a history after which the gate is paused until 1103 and one more losing trade
  moves the end of the pause to 116, so that a buy at 200 is allowed again.\<close>

theorem loss_streak_shortens_regime_pause:
  "let s = foldl strategy_step (strategy_new shorten_cfg 100) shorten_run;
       s' = note_position_closed s 106 (Fin (- 1))
   in paused_until_unix s = 1103 \<and> snd (can_open s 200 0) = BlockLossStreak \<and>
      paused_until_unix s' = 116 \<and> snd (can_open s' 200 0) = Allow"
proof -
  have "note_position_closed (shorten_state (Fin (- 2)) 1 1103 [False, True, True, False]) 106 (Fin (- 1))
      = shorten_state (Fin (- 3)) 2 116 [True, True, False, False]" by (simp add: shorten_eval)
  then show ?thesis
    unfolding shorten_end Let_def
    by (simp add: can_open_def Let_def roll_day_if_needed_def shorten_day, simp add: shorten_state_def)
qed

end
