(* ===== verification/Text.thy ===== *)
theory Text
  imports F64
begin

text \<open>
  The string operations of Rust's standard library that the sources use on the ASCII text they
  build themselves: \<^verbatim>\<open>str::find\<close> with the rest of the string, \<^verbatim>\<open>str::trim\<close>, \<^verbatim>\<open>str::strip_prefix\<close> and the
  parser of \<^verbatim>\<open>f64::from_str\<close>. The main lemma is the round trip of numbers: parsing what
  \<^verbatim>\<open>format!("{:.n}")\<close> printed gives the decimal value, rounded to binary64.
\<close>

section \<open>Searching and trimming\<close>

fun find_after :: "'a list \<Rightarrow> 'a list \<Rightarrow> 'a list option" where
  "find_after needle [] = (if needle = [] then Some [] else None)"
| "find_after needle (x # xs) =
     (if starts_with (x # xs) needle then Some (drop (length needle) (x # xs)) else find_after needle xs)"

definition strip_prefix :: "'a list \<Rightarrow> 'a list \<Rightarrow> 'a list option" where
  "strip_prefix p s = (if starts_with s p then Some (drop (length p) s) else None)"

definition is_space :: "char \<Rightarrow> bool" where
  "is_space c = (let n = (of_char c :: nat) in n = 32 \<or> (9 \<le> n \<and> n \<le> 13))"

definition trim :: "string \<Rightarrow> string" where
  "trim s = rev (dropWhile is_space (rev (dropWhile is_space s)))"

text \<open>
  When the needle has a character that does not occur in what precedes it in the text or in the
  needle, the first occurrence is the known one.
\<close>

lemma not_starts_with_shifted:
  assumes "c \<notin> set pre" "c \<notin> set u" "pre \<noteq> []"
  shows "\<not> starts_with (pre @ u @ c # rest) (u @ c # v)"
proof
  assume "starts_with (pre @ u @ c # rest) (u @ c # v)"
  then obtain zs where eq: "pre @ u @ c # rest = u @ c # v @ zs" by (auto simp: starts_with_iff)
  have "(u @ c # v @ zs) ! length u = c" by simp
  then have "((pre @ u) @ c # rest) ! length u = c" by (simp add: eq)
  moreover have "length u < length (pre @ u)" using assms(3) by simp
  ultimately have "(pre @ u) ! length u = c" by (simp only: nth_append if_True)
  then have "c \<in> set (pre @ u)" using \<open>length u < length (pre @ u)\<close> nth_mem by metis
  then show False using assms by simp
qed

lemma find_after_unique:
  assumes "c \<notin> set pre" "c \<notin> set u"
  shows "find_after (u @ c # v) (pre @ u @ c # v @ rest) = Some rest"
  using assms(1)
proof (induction pre)
  case Nil
  have "starts_with (u @ c # v @ rest) (u @ c # v)"
    using starts_with_append[of "u @ c # v" rest] by simp
  moreover have "drop (length (u @ c # v)) (u @ c # v @ rest) = rest" by simp
  moreover obtain a as where a: "u @ c # v @ rest = a # as" by (cases "u @ c # v @ rest") auto
  ultimately show ?case by (simp only: a append_Nil find_after.simps if_True)
next
  case (Cons x pre)
  have "\<not> starts_with ((x # pre) @ u @ c # v @ rest) (u @ c # v)"
    using Cons.prems assms(2) by (intro not_starts_with_shifted) auto
  then show ?case using Cons by simp
qed

lemma starts_with_split:
  assumes "c \<notin> set p" "c \<notin> set u" "starts_with (p @ c # t) (u @ c # v)"
  shows "p = u"
proof -
  obtain zs where eq: "p @ c # t = u @ c # v @ zs" using assms(3) by (auto simp: starts_with_iff)
  have "takeWhile (\<lambda>d. d \<noteq> c) (xs @ c # ys) = xs" if "c \<notin> set xs" for xs ys
    using that by (induction xs) auto
  from this[OF assms(1), of t] this[OF assms(2), of "v @ zs"] eq show ?thesis by simp
qed

text \<open>No occurrence starts before the first \<open>c\<close> unless the text before it ends like the needle.\<close>

lemma find_after_skip:
  assumes "c \<notin> set pre" "c \<notin> set u" "\<And>p. pre \<noteq> p @ u"
  shows "find_after (u @ c # v) (pre @ c # rest) = find_after (u @ c # v) (c # rest)"
  using assms(1,3)
proof (induction pre)
  case (Cons x pre)
  have "\<not> starts_with ((x # pre) @ c # rest) (u @ c # v)"
  proof
    assume "starts_with ((x # pre) @ c # rest) (u @ c # v)"
    then have "x # pre = u" using Cons.prems(1) assms(2) by (intro starts_with_split)
    then show False using Cons.prems(2)[of "[]"] by simp
  qed
  moreover have "\<And>p. pre \<noteq> p @ u"
    using Cons.prems(2) by (metis append_Cons)
  ultimately show ?case using Cons by simp
qed simp

lemma find_after_None: "c \<in> set needle \<Longrightarrow> c \<notin> set s \<Longrightarrow> find_after needle s = None"
proof (induction s)
  case (Cons x xs)
  have "\<not> starts_with (x # xs) needle"
  proof
    assume "starts_with (x # xs) needle"
    then obtain zs where "x # xs = needle @ zs" by (auto simp: starts_with_iff)
    then have "c \<in> set (x # xs)" using Cons.prems(1) by simp
    then show False using Cons.prems(2) by simp
  qed
  then show ?case using Cons by simp
qed auto

section \<open>Parsing numbers\<close>

definition is_digit :: "char \<Rightarrow> bool" where
  "is_digit c = (let n = (of_char c :: nat) in 48 \<le> n \<and> n \<le> 57)"

definition digits_value :: "string \<Rightarrow> nat" where
  "digits_value ds = foldl (\<lambda>n c. 10 * n + (of_char c - 48)) 0 ds"

definition split_sign :: "string \<Rightarrow> bool \<times> string" where
  "split_sign s = (case s of [] \<Rightarrow> (False, [])
     | c # t \<Rightarrow> if c = CHR ''-'' then (True, t) else if c = CHR ''+'' then (False, t) else (False, s))"

definition parse_exp :: "string \<Rightarrow> int option" where
  "parse_exp s =
     (let (neg, ds) = split_sign s
      in if ds = [] \<or> \<not> list_all is_digit ds then None
         else Some (if neg then - int (digits_value ds) else int (digits_value ds)))"

definition parse_unsigned :: "string \<Rightarrow> rat option" where
  "parse_unsigned s =
     (let ip = takeWhile is_digit s; r = dropWhile is_digit s;
          (fp, r2) = (case r of [] \<Rightarrow> ([], [])
                      | c # t \<Rightarrow> if c = CHR ''.'' then (takeWhile is_digit t, dropWhile is_digit t) else ([], r));
          m = of_nat (digits_value (ip @ fp)) / 10 ^ length fp
      in if ip = [] \<and> fp = [] then None
         else case r2 of [] \<Rightarrow> Some m
              | c # t \<Rightarrow> if c = CHR ''e'' \<or> c = CHR ''E''
                         then map_option (\<lambda>e. m * 10 powi e) (parse_exp t) else None)"

definition parse_f64 :: "string \<Rightarrow> f64 option" where
  "parse_f64 s =
     (let (neg, t) = split_sign s; low = to_ascii_lowercase t
      in if low = ''inf'' \<or> low = ''infinity'' then Some (if neg then NInf else PInf)
         else if low = ''nan'' then Some NaN
         else map_option (\<lambda>m. f64_of (if neg then - m else m)) (parse_unsigned t))"

section \<open>Digits\<close>

lemma digits_value_append:
  "digits_value (xs @ ys) = digits_value xs * 10 ^ length ys + digits_value ys"
proof (induction ys rule: rev_induct)
  case (snoc y ys)
  then show ?case by (simp add: digits_value_def algebra_simps)
qed (simp add: digits_value_def)

lemma digit_char_props [simp]: "is_digit (digit_char d)" "digits_value [digit_char d] = d mod 10"
  by (auto simp: digit_char_def is_digit_def digits_value_def Let_def)

lemma show_nat_digits [simp]: "list_all is_digit (show_nat n)"
  by (induction n rule: show_nat.induct) (subst show_nat.simps, simp)

lemma show_nat_value [simp]: "digits_value (show_nat n) = n"
proof (induction n rule: show_nat.induct)
  case (1 n)
  then show ?case by (subst show_nat.simps) (simp add: digits_value_append)
qed

lemma length_show_nat: "0 < w \<Longrightarrow> n < 10 ^ w \<Longrightarrow> length (show_nat n) \<le> w"
proof (induction n arbitrary: w rule: show_nat.induct)
  case (1 n)
  show ?case
  proof (cases "n < 10")
    case True
    then show ?thesis using 1(2) by (subst show_nat.simps) simp
  next
    case False
    obtain w' where w: "w = Suc w'" using 1(2) by (cases w) auto
    have "0 < w'" using False 1(3) w by (cases w') auto
    moreover have "n div 10 < 10 ^ w'" using 1(3) w by (simp add: less_mult_imp_div_less mult.commute)
    ultimately show ?thesis using 1(1)[OF False] False w by (subst show_nat.simps) simp
  qed
qed

lemma zeros_value: "digits_value (replicate k (CHR ''0'')) = 0"
  by (induction k) (simp_all add: digits_value_def)

lemma zero_digit: "is_digit (CHR ''0'')" by (simp add: is_digit_def)

lemma pad_left_digits:
  "list_all is_digit (pad_left w (CHR ''0'') (show_nat n))"
  "digits_value (pad_left w (CHR ''0'') (show_nat n)) = n"
  using show_nat_digits[of n]
  by (auto simp: pad_left_def digits_value_append zeros_value list_all_iff zero_digit)

lemma not_digit: "\<not> is_digit (CHR ''.'')" "\<not> is_digit (CHR ''-'')" "\<not> is_digit (CHR ''+'')"
  "\<not> is_digit (CHR '' '')" "\<not> is_digit (CHR ''%'')" "\<not> is_digit (CHR ''|'')"
  by (simp_all add: is_digit_def)


lemma span_digits:
  assumes "list_all is_digit ds" "r = [] \<or> \<not> is_digit (hd r)"
  shows "takeWhile is_digit (ds @ r) = ds" "dropWhile is_digit (ds @ r) = r"
proof -
  have d: "\<forall>x \<in> set ds. is_digit x" using assms(1) by (simp add: list_all_iff)
  show "takeWhile is_digit (ds @ r) = ds"
    using d assms(2) by (cases r) (auto simp: takeWhile_append)
  show "dropWhile is_digit (ds @ r) = r"
    using d assms(2) by (cases r) (auto simp: dropWhile_append)
qed

lemma span_all:
  assumes "list_all is_digit ds"
  shows "takeWhile is_digit ds = ds" "dropWhile is_digit ds = []"
  using span_digits[OF assms, of "[]"] by (simp_all only: append_Nil2 simp_thms)

lemma lowercase_digit: "is_digit c \<Longrightarrow> to_ascii_lowercase (c # t) = c # to_ascii_lowercase t"
  by (auto simp: to_ascii_lowercase_def is_digit_def Let_def)

lemma digit_not_letter: "is_digit c \<Longrightarrow> c \<noteq> CHR ''i'' \<and> c \<noteq> CHR ''n'' \<and> c \<noteq> CHR ''-'' \<and> c \<noteq> CHR ''+''"
  by (auto simp: is_digit_def)

section \<open>Round trip of printed numbers\<close>

text \<open>The decimal that \<open>fmt_prec n\<close> prints for a number.\<close>

definition decimal_of :: "nat \<Rightarrow> rat \<Rightarrow> rat" where
  "decimal_of n q = (let d = of_int (rne (\<bar>q\<bar> * 10 ^ n)) / 10 ^ n in if q < 0 then - d else d)"

lemma parse_unsigned_decimal:
  "parse_unsigned (show_nat (k div 10 ^ n)
     @ (if n = 0 then [] else ''.'' @ pad_left n (CHR ''0'') (show_nat (k mod 10 ^ n))))
   = Some (of_nat k / 10 ^ n)"
proof (cases "n = 0")
  case True
  show ?thesis unfolding True by (simp add: parse_unsigned_def Let_def span_all[OF show_nat_digits])
next
  case False
  define fp where "fp = pad_left n (CHR ''0'') (show_nat (k mod 10 ^ n))"
  define ip where "ip = show_nat (k div 10 ^ n)"
  have "length (show_nat (k mod 10 ^ n)) \<le> n" using False by (intro length_show_nat) auto
  then have len: "length fp = n" by (simp add: fp_def length_pad_left)
  have val: "digits_value (ip @ fp) = k"
    by (simp only: fp_def ip_def digits_value_append pad_left_digits len[unfolded fp_def]
        show_nat_value div_mult_mod_eq)
  have d: "list_all is_digit ip" "list_all is_digit fp" "ip \<noteq> []"
    by (simp_all only: ip_def fp_def show_nat_digits pad_left_digits show_nat_nonempty not_False_eq_True)
  have sp: "takeWhile is_digit (ip @ CHR ''.'' # fp) = ip"
    "dropWhile is_digit (ip @ CHR ''.'' # fp) = CHR ''.'' # fp"
    using span_digits[OF d(1), of "CHR ''.'' # fp"] by (simp_all add: not_digit)
  have "parse_unsigned (ip @ CHR ''.'' # fp) = Some (of_nat k / 10 ^ n)"
    using d(3) by (simp add: parse_unsigned_def Let_def sp span_all[OF d(2)] val len)
  then show ?thesis using False by (simp add: ip_def fp_def)
qed

lemma show_nat_hd: obtains c t where "show_nat n = c # t" "is_digit c"
  using show_nat_digits[of n] show_nat_nonempty[of n] by (cases "show_nat n") auto

text \<open>Parsing a printed finite number gives the printed decimal, rounded to binary64.\<close>

lemma parse_fmt_prec: "parse_f64 (fmt_prec n (Fin q)) = Some (f64_of (decimal_of n q))"
proof -
  define k where "k = nat (rne (\<bar>q\<bar> * 10 ^ n))"
  define body where "body = show_nat (k div 10 ^ n)
     @ (if n = 0 then [] else ''.'' @ pad_left n (CHR ''0'') (show_nat (k mod 10 ^ n)))"
  have "rne 0 \<le> rne (\<bar>q\<bar> * 10 ^ n)" by (intro rne_mono) simp
  then have k: "of_int (rne (\<bar>q\<bar> * 10 ^ n)) = (of_nat k :: rat)"
    using rne_of_int[of 0] by (simp add: k_def)
  obtain c t where ct: "show_nat (k div 10 ^ n) = c # t" "is_digit c" by (rule show_nat_hd)
  then obtain t' where body: "body = c # t'" by (simp add: body_def)
  have sign: "split_sign body = (False, body)"
    using digit_not_letter[OF ct(2)] by (simp add: split_sign_def body)
  have low: "to_ascii_lowercase body \<noteq> ''inf''" "to_ascii_lowercase body \<noteq> ''infinity''"
    "to_ascii_lowercase body \<noteq> ''nan''"
    using digit_not_letter[OF ct(2)] by (simp_all add: body lowercase_digit[OF ct(2)])
  have num: "parse_unsigned body = Some (of_nat k / 10 ^ n)"
    unfolding body_def by (rule parse_unsigned_decimal)
  have "fmt_prec n (Fin q) = (if q < 0 then ''-'' else []) @ body"
    by (simp add: fmt_prec_def Let_def body_def k_def)
  moreover have "split_sign (fmt_prec n (Fin q)) = (q < 0, body)"
    using sign calculation by (cases "q < 0") (simp_all add: split_sign_def[of "CHR ''-'' # body"])
  ultimately show ?thesis
    using low num by (simp add: parse_f64_def decimal_of_def Let_def k)
qed

text \<open>The characters of a printed number.\<close>

definition number_char :: "char \<Rightarrow> bool" where
  "number_char c = (is_digit c \<or> c = CHR ''.'' \<or> c = CHR ''-'' \<or> c \<in> set ''NaNinf'')"

lemma fmt_prec_chars: "list_all number_char (fmt_prec n x)"
proof (cases x)
  case (Fin q)
  then show ?thesis
    using show_nat_digits pad_left_digits(1)
    by (auto simp: fmt_prec_def Let_def list_all_iff number_char_def)
qed (auto simp: fmt_prec_def number_char_def)

lemma show_nat_chars: "list_all number_char (show_nat n)"
  using show_nat_digits[of n] by (auto simp: list_all_iff number_char_def)

end
