(* ===== verification/Blacklists.thy ===== *)
theory Blacklists
  imports Exit_Engine Text
begin

text \<open>
  Model of the two memories the bot keeps of bad exits, \<^verbatim>\<open>src/autobuy/curve_quarantine.rs\<close> and
  \<^verbatim>\<open>src/autobuy/dev_blacklist.rs\<close>, with their configurations from \<^verbatim>\<open>src/autobuy/filters/config.rs\<close>.
  Both classify a closed trade by the text of its close reason, which the exit engine printed: the
  classifiers parse numbers back out of it. The main lemmas are the round trip through that text
  (what the stop loss printed is what the blacklist reads) and the life time of a quarantine.
\<close>

section \<open>Curve quarantine\<close>

record curve_quarantine_config =
  cq_enabled :: bool
  cq_cooldown_secs :: u64
  min_mcap_sol_divergence_pct :: f64
  max_pnl_sol_pct :: f64
  sl_crash_false_positive_min_filt_pnl :: f64
  sl_crash_false_positive_max_raw_pnl :: f64

definition curve_quarantine_default :: curve_quarantine_config where
  "curve_quarantine_default =
     \<lparr>cq_enabled = True, cq_cooldown_secs = 24 * 3600, min_mcap_sol_divergence_pct = f64_of 35,
      max_pnl_sol_pct = f64_of (- 10), sl_crash_false_positive_min_filt_pnl = f64_of 10,
      sl_crash_false_positive_max_raw_pnl = f64_of 5\<rparr>"

type_synonym quarantine = "address \<Rightarrow> u64 option"

definition quarantine_active :: "quarantine \<Rightarrow> address \<Rightarrow> u64 \<Rightarrow> bool" where
  "quarantine_active q mint now = (case q mint of Some e \<Rightarrow> now < e | None \<Rightarrow> False)"

definition quarantine_insert :: "quarantine \<Rightarrow> address \<Rightarrow> u64 \<Rightarrow> quarantine" where
  "quarantine_insert q mint e = q(mint \<mapsto> e)"

definition quarantine_prune :: "quarantine \<Rightarrow> u64 \<Rightarrow> quarantine" where
  "quarantine_prune q now = (\<lambda>m. case q m of Some e \<Rightarrow> if now < e then Some e else None | None \<Rightarrow> None)"

definition mcap_sol_pnl_divergence_pct :: "f64 \<Rightarrow> f64 \<Rightarrow> f64" where
  "mcap_sol_pnl_divergence_pct filt sol = filt - sol"

definition should_quarantine_mint ::
  "string \<Rightarrow> f64 \<Rightarrow> f64 \<Rightarrow> f64 \<Rightarrow> curve_quarantine_config \<Rightarrow> bool" where
  "should_quarantine_mint close_reason pnl_sol filt raw cfg =
     (if \<not> cq_enabled cfg then False
      else if max_pnl_sol_pct cfg < pnl_sol then False
      else if min_mcap_sol_divergence_pct cfg \<le> mcap_sol_pnl_divergence_pct filt pnl_sol then True
      else starts_with close_reason ''SL CRASH''
           \<and> sl_crash_false_positive_min_filt_pnl cfg \<le> filt
           \<and> raw \<le> sl_crash_false_positive_max_raw_pnl cfg)"

section \<open>Developer blacklist\<close>

record dev_blacklist_config =
  db_enabled :: bool
  db_cooldown_secs :: i64
  min_pnl_pct_for_sl :: f64
  min_tick_drop_pct :: f64
  permanent_min_tick_drop_pct :: f64
  permanent_min_mcap_drop_pct :: f64

definition dev_blacklist_default :: dev_blacklist_config where
  "dev_blacklist_default =
     \<lparr>db_enabled = True, db_cooldown_secs = 7 * 24 * 3600, min_pnl_pct_for_sl = f64_of (- 30),
      min_tick_drop_pct = f64_of 40, permanent_min_tick_drop_pct = f64_of 55,
      permanent_min_mcap_drop_pct = f64_of 60\<rparr>"

definition DEV_BLACKLIST_NEVER_EXPIRES :: i64 where
  "DEV_BLACKLIST_NEVER_EXPIRES = 0"

datatype dev_blacklist_tier = PermanentRug | Timed

definition short_mint_prefix :: "string \<Rightarrow> string" where
  "short_mint_prefix mint = (if 6 < length mint then take 6 mint else mint)"

definition is_permanent_expires :: "i64 \<Rightarrow> bool" where
  "is_permanent_expires e = (e = DEV_BLACKLIST_NEVER_EXPIRES)"

definition format_skip_detail :: "string \<Rightarrow> string \<Rightarrow> string" where
  "format_skip_detail reason mint = ''previous '' @ reason @ '' on '' @ short_mint_prefix mint"

definition format_filter_skip :: "string \<Rightarrow> string \<Rightarrow> i64 \<Rightarrow> string \<times> string" where
  "format_filter_skip reason mint e =
     (if is_permanent_expires e \<or> starts_with reason ''dev_blacklist_permanent:''
      then let tag = (case strip_prefix ''dev_blacklist_permanent:'' reason of
                        Some t \<Rightarrow> trim t | None \<Rightarrow> ''rug'')
           in (''dev_blacklist_permanent'', ''previous '' @ tag @ '' on '' @ short_mint_prefix mint)
      else (''dev_blacklist'', format_skip_detail reason mint))"

definition quarantine_skip_detail :: "string \<Rightarrow> string" where
  "quarantine_skip_detail mint =
     ''curve_quarantine (mcap/SOL glitch on '' @ short_mint_prefix mint @ '')''"

definition pnl_pct_from_sol :: "f64 \<Rightarrow> f64 \<Rightarrow> f64" where
  "pnl_pct_from_sol spent pnl = (if 0 < spent then pnl / spent * f64_of 100 else 0)"

definition cliff_reason_tag :: "string \<Rightarrow> string" where
  "cliff_reason_tag reason =
     (if starts_with reason ''SL CRASH'' then ''SL CRASH''
      else if starts_with reason ''SL '' then ''SL'' else ''cliff exit'')"

definition number_end :: "char \<Rightarrow> bool" where
  "number_end c = (is_space c \<or> c = CHR ''|'' \<or> c = CHR ''%'')"

definition parse_f64_after :: "string \<Rightarrow> string \<Rightarrow> f64 option" where
  "parse_f64_after reason needle =
     (case find_after needle reason of
        None \<Rightarrow> None
      | Some rest \<Rightarrow> parse_f64 (trim (takeWhile (\<lambda>c. \<not> number_end c) rest)))"

definition parse_tick_drop_pct :: "string \<Rightarrow> f64 option" where
  "parse_tick_drop_pct reason = parse_f64_after reason ''tick_drop=''"

definition parse_mcap_drop_pct :: "string \<Rightarrow> f64 option" where
  "parse_mcap_drop_pct reason =
     (case parse_f64_after reason ''filt_mcap='' of
        None \<Rightarrow> None
      | Some filt \<Rightarrow> (case parse_f64_after reason ''raw_mcap='' of
          None \<Rightarrow> None
        | Some raw \<Rightarrow> if 0 < filt \<and> raw < filt then Some ((filt - raw) / filt * f64_of 100) else None))"

definition at_least :: "f64 \<Rightarrow> f64 option \<Rightarrow> bool" where
  "at_least m x = (case x of Some d \<Rightarrow> m \<le> d | None \<Rightarrow> False)"

definition is_permanent_rug_exit :: "string \<Rightarrow> dev_blacklist_config \<Rightarrow> bool" where
  "is_permanent_rug_exit reason cfg =
     (if starts_with reason ''SL CRASH'' then True
      else if at_least (permanent_min_tick_drop_pct cfg) (parse_tick_drop_pct reason) then True
      else at_least (permanent_min_mcap_drop_pct cfg) (parse_mcap_drop_pct reason))"

definition is_timed_sl_blacklist :: "string \<Rightarrow> f64 \<Rightarrow> dev_blacklist_config \<Rightarrow> bool" where
  "is_timed_sl_blacklist reason pnl_sol cfg =
     (if is_permanent_rug_exit reason cfg then False
      else if \<not> starts_with reason ''SL '' then False
      else if pnl_sol \<le> min_pnl_pct_for_sl cfg then True
      else at_least (min_tick_drop_pct cfg) (parse_tick_drop_pct reason))"

definition classify_dev_blacklist ::
  "string \<Rightarrow> f64 \<Rightarrow> dev_blacklist_config \<Rightarrow> dev_blacklist_tier option" where
  "classify_dev_blacklist reason pnl_sol cfg =
     (if \<not> db_enabled cfg then None
      else if is_permanent_rug_exit reason cfg then Some PermanentRug
      else if is_timed_sl_blacklist reason pnl_sol cfg then Some Timed
      else None)"

definition permanent_rug_label :: "string \<Rightarrow> string" where
  "permanent_rug_label reason =
     (if starts_with reason ''SL CRASH'' then ''SL CRASH rug''
      else if at_least (f64_of 55) (parse_tick_drop_pct reason) then ''instant dump rug''
      else ''mcap collapse rug'')"

fun build_blacklist_reason :: "dev_blacklist_tier \<Rightarrow> string \<Rightarrow> f64 \<Rightarrow> string" where
  "build_blacklist_reason PermanentRug reason pnl_sol =
     ''dev_blacklist_permanent: '' @ permanent_rug_label reason"
| "build_blacklist_reason Timed reason pnl_sol =
     cliff_reason_tag reason @ '' '' @ fmt_prec 0 (f64_round pnl_sol) @ ''%''"

definition should_blacklist_dev :: "string \<Rightarrow> f64 \<Rightarrow> dev_blacklist_config \<Rightarrow> bool" where
  "should_blacklist_dev reason pnl_sol cfg = (classify_dev_blacklist reason pnl_sol cfg \<noteq> None)"

section \<open>Life time of a quarantine\<close>

text \<open>The operations on the cache, each at its time.\<close>

datatype quarantine_op = QInsert address u64 | QPrune u64

fun quarantine_step :: "quarantine \<Rightarrow> quarantine_op \<Rightarrow> quarantine" where
  "quarantine_step q (QInsert m e) = quarantine_insert q m e"
| "quarantine_step q (QPrune now) = quarantine_prune q now"

definition op_fits :: "address \<Rightarrow> u64 \<Rightarrow> quarantine_op \<Rightarrow> bool" where
  "op_fits mint now p = (case p of QInsert m _ \<Rightarrow> m \<noteq> mint | QPrune t \<Rightarrow> t \<le> now)"

lemma quarantine_step_active:
  assumes "op_fits mint now p"
  shows "quarantine_active (quarantine_step q p) mint now = quarantine_active q mint now"
  using assms by (cases p)
    (auto simp: op_fits_def quarantine_active_def quarantine_insert_def quarantine_prune_def
      split: option.splits)

lemma quarantine_run_active:
  "list_all (op_fits mint now) ps \<Longrightarrow>
   quarantine_active (foldl quarantine_step q ps) mint now = quarantine_active q mint now"
  by (induction ps arbitrary: q) (auto simp: quarantine_step_active)

text \<open>A quarantined mint stays blocked exactly until its expiry, whatever other mints are
  quarantined and whenever the cache is pruned in between.\<close>

theorem quarantine_until_expiry:
  assumes "list_all (op_fits mint now) ps"
  shows "quarantine_active (foldl quarantine_step (quarantine_insert q mint e) ps) mint now \<longleftrightarrow> now < e"
  by (simp add: quarantine_run_active[OF assms], simp add: quarantine_active_def quarantine_insert_def)

lemma quarantine_until_expiry_witness:
  "quarantine_active (foldl quarantine_step (quarantine_insert Map.empty 5 86500)
     [QPrune 200, QInsert 6 300, QPrune 40000]) 5 86400"
  using quarantine_until_expiry[of 5 86400 "[QPrune 200, QInsert 6 300, QPrune 40000]" Map.empty 86500]
  by (simp add: op_fits_def)

section \<open>What the stop loss printed is what the blacklist reads\<close>

lemma number_char_clean: "number_char c \<Longrightarrow> \<not> number_end c"
  by (auto simp: number_char_def number_end_def is_digit_def is_space_def Let_def)

lemma number_char_not: "number_char c \<Longrightarrow> c \<noteq> CHR ''d'' \<and> c \<noteq> CHR ''m'' \<and> c \<noteq> CHR ''w''"
  by (auto simp: number_char_def is_digit_def)

lemma fmt_prec_not: "CHR ''d'' \<notin> set (fmt_prec n x)" "CHR ''m'' \<notin> set (fmt_prec n x)"
  "CHR ''w'' \<notin> set (fmt_prec n x)"
  using fmt_prec_chars[of n x] number_char_not by (auto simp: list_all_iff)

lemma show_nat_not: "CHR ''d'' \<notin> set (show_nat k)"
  using show_nat_chars[of k] number_char_not by (auto simp: list_all_iff)

lemma takeWhile_printed:
  "number_end e \<Longrightarrow> takeWhile (\<lambda>c. \<not> number_end c) (fmt_prec n x @ e # r) = fmt_prec n x"
  using fmt_prec_chars[of n x] number_char_clean by (auto simp: list_all_iff takeWhile_append)

lemma trim_clean: "\<forall>c \<in> set s. \<not> number_end c \<Longrightarrow> trim s = s"
proof -
  assume "\<forall>c \<in> set s. \<not> number_end c"
  then have d: "\<forall>c \<in> set s. \<not> is_space c" by (simp add: number_end_def)
  have "dropWhile is_space t = t" if "\<forall>c \<in> set t. \<not> is_space c" for t
    using that by (cases t) auto
  from this[of s] this[of "rev s"] show ?thesis using d by (simp add: trim_def)
qed

lemma trim_fmt_prec: "trim (fmt_prec n x) = fmt_prec n x"
  using fmt_prec_chars[of n x] number_char_clean by (intro trim_clean) (auto simp: list_all_iff)

lemma parse_tick_drop_printed:
  "parse_tick_drop_pct (format_sl_close_reason crash tr fl fi ra fm rm ct (Some (Fin q)))
   = (if 0 < q then Some (f64_of (decimal_of 1 q)) else None)"
proof -
  define conf where "conf = (case ct of Some n \<Rightarrow> show_nat (unat n) @ '' ticks'' | None \<Rightarrow> ''instant'')"
  define pre where "pre = (if crash then ''SL CRASH'' else ''SL'') @ '' trigger_pnl='' @ fmt_prec 1 tr
    @ ''% floor='' @ fmt_prec 1 fl @ ''% filt_pnl='' @ fmt_prec 1 fi @ ''% raw_pnl='' @ fmt_prec 1 ra
    @ ''% | filt_mcap='' @ fmt_prec 1 fm @ '' raw_mcap='' @ fmt_prec 1 rm @ '' | '' @ conf"
  have conf: "CHR ''d'' \<notin> set conf" by (auto simp: conf_def show_nat_not split: option.splits)
  have pre: "CHR ''d'' \<notin> set pre" by (auto simp: pre_def fmt_prec_not conf)
  show ?thesis
  proof (cases "0 < q")
    case True
    have "format_sl_close_reason crash tr fl fi ra fm rm ct (Some (Fin q))
        = (pre @ '' '') @ ''tick_'' @ CHR ''d'' # ''rop='' @ (fmt_prec 1 (Fin q) @ ''%'')"
      using True by (simp add: format_sl_close_reason_def Let_def pre_def conf_def)
    moreover have "find_after (''tick_'' @ CHR ''d'' # ''rop='')
        ((pre @ '' '') @ ''tick_'' @ CHR ''d'' # ''rop='' @ (fmt_prec 1 (Fin q) @ ''%''))
        = Some (fmt_prec 1 (Fin q) @ ''%'')"
      using pre by (intro find_after_unique) auto
    moreover have "number_end (CHR ''%'')" by (simp add: number_end_def)
    ultimately show ?thesis using True
      by (simp add: parse_tick_drop_pct_def parse_f64_after_def takeWhile_printed trim_fmt_prec parse_fmt_prec)
  next
    case False
    then have "format_sl_close_reason crash tr fl fi ra fm rm ct (Some (Fin q)) = pre"
      by (simp add: format_sl_close_reason_def Let_def pre_def conf_def)
    moreover have "find_after ''tick_drop='' pre = None"
      using pre by (intro find_after_None[of "CHR ''d''"]) auto
    ultimately show ?thesis using False by (simp add: parse_tick_drop_pct_def parse_f64_after_def)
  qed
qed

text \<open>The part of the reason before the market caps, which has no \<open>m\<close>.\<close>

lemma parse_mcap_drop_printed:
  "parse_mcap_drop_pct (format_sl_close_reason crash tr fl fi ra (Fin fm) (Fin rm) ct td)
   = (let f = f64_of (decimal_of 1 fm); r = f64_of (decimal_of 1 rm)
      in if 0 < f \<and> r < f then Some ((f - r) / f * f64_of 100) else None)"
proof -
  define pre where "pre = (if crash then ''SL CRASH'' else ''SL'') @ '' trigger_pnl='' @ fmt_prec 1 tr
    @ ''% floor='' @ fmt_prec 1 fl @ ''% filt_pnl='' @ fmt_prec 1 fi @ ''% raw_pnl='' @ fmt_prec 1 ra
    @ ''% | ''"
  define tail where "tail = '' | '' @ (case ct of Some n \<Rightarrow> show_nat (unat n) @ '' ticks'' | None \<Rightarrow> ''instant'')
    @ (case td of Some d \<Rightarrow> if 0 < d then '' tick_drop='' @ fmt_prec 1 d @ ''%'' else [] | None \<Rightarrow> [])"
  let ?f = "fmt_prec 1 (Fin fm)" and ?r = "fmt_prec 1 (Fin rm)"
  let ?reason = "format_sl_close_reason crash tr fl fi ra (Fin fm) (Fin rm) ct td"
  have m: "CHR ''m'' \<notin> set pre" by (auto simp: pre_def fmt_prec_not)
  have reason: "?reason = pre @ ''filt_'' @ CHR ''m'' # ''cap='' @ (?f @ CHR '' '' # ''raw_mcap='' @ ?r @ tail)"
    by (simp add: format_sl_close_reason_def Let_def pre_def tail_def)
  have sp: "number_end (CHR '' '')" by (simp add: number_end_def is_space_def)
  have tail: "tail = CHR '' '' # tl tail" by (simp add: tail_def)
  have "find_after (''filt_'' @ CHR ''m'' # ''cap='') ?reason
      = Some (?f @ CHR '' '' # ''raw_mcap='' @ ?r @ tail)"
    unfolding reason by (rule find_after_unique) (use m in auto)
  then have filt: "parse_f64_after ?reason ''filt_mcap='' = Some (f64_of (decimal_of 1 fm))"
    by (simp add: parse_f64_after_def takeWhile_printed[OF sp] trim_fmt_prec parse_fmt_prec)
  have "find_after (''raw_'' @ CHR ''m'' # ''cap='') ((pre @ ''filt_'') @ CHR ''m'' # ''cap='' @ ?f @ '' raw_mcap='' @ ?r @ tail)
      = find_after (''raw_'' @ CHR ''m'' # ''cap='') (CHR ''m'' # ''cap='' @ ?f @ '' raw_mcap='' @ ?r @ tail)"
    by (rule find_after_skip) (use m in auto)
  also have "\<dots> = find_after (''ra'' @ CHR ''w'' # ''_mcap='')
      ((''mcap='' @ ?f @ '' '') @ ''ra'' @ CHR ''w'' # ''_mcap='' @ (?r @ tail))"
    by simp
  also have "\<dots> = Some (?r @ tail)"
    by (rule find_after_unique) (auto simp: fmt_prec_not)
  finally have "find_after ''raw_mcap='' ?reason = Some (?r @ CHR '' '' # tl tail)"
    using tail by (simp add: reason)
  then have raw: "parse_f64_after ?reason ''raw_mcap='' = Some (f64_of (decimal_of 1 rm))"
    by (simp add: parse_f64_after_def takeWhile_printed[OF sp] trim_fmt_prec parse_fmt_prec)
  show ?thesis by (simp add: parse_mcap_drop_pct_def filt raw Let_def)
qed

text \<open>The blacklist reads back what the stop loss printed: for every close reason that the exit engine
  formats, the parsed tick drop is the printed one (to one decimal), the parsed market-cap drop is
  the one of the printed market caps, and the exit counts as a rug exactly when it was a crash or
  one of the two drops reaches its threshold.\<close>

theorem blacklist_reads_stop_loss:
  "let reason = format_sl_close_reason crash tr fl fi ra (Fin fm) (Fin rm) ct (Some (Fin q));
       f = f64_of (decimal_of 1 fm); r = f64_of (decimal_of 1 rm); d = f64_of (decimal_of 1 q);
       drop = (f - r) / f * f64_of 100
   in parse_tick_drop_pct reason = (if 0 < q then Some d else None) \<and>
      parse_mcap_drop_pct reason = (if 0 < f \<and> r < f then Some drop else None) \<and>
      (is_permanent_rug_exit reason cfg \<longleftrightarrow>
         crash \<or> 0 < q \<and> permanent_min_tick_drop_pct cfg \<le> d
         \<or> 0 < f \<and> r < f \<and> permanent_min_mcap_drop_pct cfg \<le> drop)"
  by (auto simp: Let_def parse_tick_drop_printed parse_mcap_drop_printed is_permanent_rug_exit_def
      sl_close_reason_prefix at_least_def)

text \<open>The two tiers are exclusive, and a reason the exit engine did not write as a stop loss never
  gives the timed tier.\<close>

lemma classify_timed_only_stop_loss:
  "classify_dev_blacklist reason pnl cfg = Some Timed \<Longrightarrow>
     starts_with reason ''SL '' \<and> \<not> is_permanent_rug_exit reason cfg \<and> db_enabled cfg"
  by (auto simp: classify_dev_blacklist_def is_timed_sl_blacklist_def split: if_splits)

end
