(* ===== verification/Brokers.thy ===== *)
theory Brokers
  imports Pools Machines Text
begin

text \<open>
  Model of the broker interface \<^verbatim>\<open>src/autobuy/broker.rs\<close> (receipts and errors) and of the in-memory
  broker of demo mode \<^verbatim>\<open>src/autobuy/broker_mock.rs\<close>. The live broker is in
  \<open>Live_Broker\<close>; what the position manager gets from it is a receipt or an error. Addresses are
  rendered by a library of the sources, so their text is a parameter.

  The demo broker is an interpretation of the machine with an invariant: its balance never becomes
  negative or NaN.
\<close>

section \<open>Receipts and errors\<close>

record buy_receipt =
  sol_spent :: f64
  tokens_received :: f64
  br_signature :: "string option"
  entry_mcap_fill_sol :: "f64 option"

record sell_receipt =
  sol_received_actual :: f64
  sol_received_estimated :: f64
  sr_signature :: "string option"

definition sell_receipt_mock :: "f64 \<Rightarrow> string option \<Rightarrow> sell_receipt" where
  "sell_receipt_mock sol sig =
     \<lparr>sol_received_actual = sol, sol_received_estimated = sol, sr_signature = sig\<rparr>"

datatype broker_error =
    InsufficientBalance f64 f64
  | PositionNotFound address
  | TransactionFailed string
  | JupiterSellExhausted string
  | MintNotOnChain string string
  | Custom string

fun broker_error_display :: "(address \<Rightarrow> string) \<Rightarrow> broker_error \<Rightarrow> string" where
  "broker_error_display addr_str (InsufficientBalance have need) =
     ''Insufficient balance: have '' @ fmt_prec 4 have @ '' SOL, need '' @ fmt_prec 4 need @ '' SOL''"
| "broker_error_display addr_str (PositionNotFound m) = ''No open position for mint '' @ addr_str m"
| "broker_error_display addr_str (TransactionFailed s) = ''Transaction failed: '' @ s"
| "broker_error_display addr_str (JupiterSellExhausted s) =
     ''Jupiter sell exhausted (manual exit required): '' @ s"
| "broker_error_display addr_str (MintNotOnChain m d) = ''Mint not on-chain: '' @ m @ '' ('' @ d @ '')''"
| "broker_error_display addr_str (Custom s) = ''Custom : '' @ s"

fun requires_manual_sell :: "broker_error \<Rightarrow> bool" where
  "requires_manual_sell (JupiterSellExhausted _) = True"
| "requires_manual_sell _ = False"

fun is_mint_not_on_chain :: "broker_error \<Rightarrow> bool" where
  "is_mint_not_on_chain (MintNotOnChain _ _) = True"
| "is_mint_not_on_chain _ = False"

fun is_post_grad_no_route :: "broker_error \<Rightarrow> bool" where
  "is_post_grad_no_route (Custom msg) = contains_sub msg ''post_grad_no_route''"
| "is_post_grad_no_route _ = False"

text \<open>\<^verbatim>\<open>is_buy_mint_unavailable\<close> of \<^verbatim>\<open>src/autobuy/manager.rs\<close>; the texts are ASCII.\<close>

definition is_buy_mint_unavailable :: "(address \<Rightarrow> string) \<Rightarrow> broker_error \<Rightarrow> bool" where
  "is_buy_mint_unavailable addr_str err =
     (if is_mint_not_on_chain err then True
      else let msg = to_ascii_lowercase (broker_error_display addr_str err)
           in contains_sub msg ''mint account not found''
              \<or> (contains_sub msg ''buy mint'' \<and> contains_sub msg ''accountnotfound'')
              \<or> contains_sub msg ''not visible on rpc'')"

section \<open>The demo broker\<close>

record mock_position =
  mk_tokens :: f64
  mk_entry_mcap :: f64

record mock_broker =
  mk_balance :: f64
  mk_positions :: "address \<Rightarrow> mock_position option"

definition mock_new :: "f64 \<Rightarrow> mock_broker" where
  "mock_new initial = \<lparr>mk_balance = initial, mk_positions = Map.empty\<rparr>"

definition pool_mcap_sol :: "pool \<Rightarrow> f64 outcome" where
  "pool_mcap_sol p = bind_outcome (pool_market_cap p) (\<lambda>c. Inr (amount_to_float (currency_amount c)))"

definition mock_buy ::
  "mock_broker \<Rightarrow> address \<Rightarrow> f64 \<Rightarrow> pool \<Rightarrow> (mock_broker \<times> (broker_error + buy_receipt)) outcome" where
  "mock_buy b mint amount p =
     (if mk_balance b < amount then Inr (b, Inl (InsufficientBalance (mk_balance b) amount))
      else let bal = mk_balance b - amount
           in bind_outcome (pool_mcap_sol p) (\<lambda>entry.
                Inr (b\<lparr>mk_balance := bal,
                       mk_positions := (mk_positions b)(mint \<mapsto> \<lparr>mk_tokens = amount, mk_entry_mcap = entry\<rparr>)\<rparr>,
                     Inr \<lparr>sol_spent = amount, tokens_received = amount, br_signature = None,
                          entry_mcap_fill_sol = None\<rparr>)))"

definition mock_sell ::
  "mock_broker \<Rightarrow> address \<Rightarrow> f64 \<Rightarrow> pool \<Rightarrow> bool \<Rightarrow> (mock_broker \<times> (broker_error + sell_receipt)) outcome" where
  "mock_sell b mint token_amount p close_account_after =
     bind_outcome (pool_mcap_sol p) (\<lambda>cur.
       case mk_positions b mint of
         None \<Rightarrow> Inr (b, Inl (PositionNotFound mint))
       | Some pos \<Rightarrow>
           let ratio = (if 0 < mk_entry_mcap pos then cur / mk_entry_mcap pos else 1);
               sol = token_amount * ratio;
               rest = mk_tokens pos - token_amount;
               ps = (if rest \<le> 0 then (mk_positions b)(mint := None)
                     else (mk_positions b)(mint \<mapsto> pos\<lparr>mk_tokens := rest\<rparr>))
           in Inr (b\<lparr>mk_balance := mk_balance b + sol, mk_positions := ps\<rparr>,
                   Inr (sell_receipt_mock sol None)))"

definition mock_forget_position :: "mock_broker \<Rightarrow> address \<Rightarrow> mock_broker" where
  "mock_forget_position b mint = b\<lparr>mk_positions := (mk_positions b)(mint := None)\<rparr>"

section \<open>The demo balance never goes negative\<close>

datatype broker_op = OpBuy address f64 pool | OpSell address f64 pool bool | OpForget address

fun mock_step :: "mock_broker \<Rightarrow> broker_op \<Rightarrow> mock_broker outcome" where
  "mock_step b (OpBuy m a p) = bind_outcome (mock_buy b m a p) (\<lambda>r. Inr (fst r))"
| "mock_step b (OpSell m t p c) = bind_outcome (mock_sell b m t p c) (\<lambda>r. Inr (fst r))"
| "mock_step b (OpForget m) = Inr (mock_forget_position b m)"

text \<open>Sizes are non-negative numbers and the pool has tokens left.\<close>

definition sane_size :: "f64 \<Rightarrow> bool" where
  "sane_size x \<longleftrightarrow> is_finite x \<and> 0 \<le> x"

fun op_sane :: "mock_broker \<Rightarrow> broker_op \<Rightarrow> bool" where
  "op_sane b (OpBuy m a p) \<longleftrightarrow> sane_size a \<and> pool_tokens p \<noteq> 0"
| "op_sane b (OpSell m t p c) \<longleftrightarrow> sane_size t \<and> pool_tokens p \<noteq> 0"
| "op_sane b (OpForget m) \<longleftrightarrow> True"

text \<open>A recorded entry market cap is zero or the price of some pool: at least \<open>2 ^ -64\<close>.\<close>

definition mcap_like :: "f64 \<Rightarrow> bool" where
  "mcap_like x \<longleftrightarrow> (\<exists>q. x = Fin q \<and> (q = 0 \<or> 1 / 2 ^ 64 \<le> q) \<and> q \<le> 2 ^ 64)"

definition mock_inv :: "mock_broker \<Rightarrow> bool" where
  "mock_inv b \<longleftrightarrow> 0 \<le> mk_balance b \<and> (\<forall>m pos. mk_positions b m = Some pos \<longrightarrow> mcap_like (mk_entry_mcap pos))"

lemma pool_mcap_sol_sane:
  assumes "pool_tokens p \<noteq> 0" shows "\<exists>m. pool_mcap_sol p = Inr m \<and> mcap_like m"
proof -
  obtain v where v: "pool_market_cap p = Inr (Native (amount_from_raw_native v))"
    using pool_market_cap_returns[OF assms] by blast
  let ?a = "amount_from_raw_native v"
  have d: "unat (amt_decimals ?a) \<le> 15" by (simp add: amount_from_raw_native_def)
  have "mcap_like (amount_to_float ?a)"
  proof (cases "v = 0")
    case True
    then show ?thesis using amount_to_float_zero[OF _ d]
      by (simp add: mcap_like_def amount_from_raw_native_def)
  next
    case False
    then show ?thesis using amount_to_float_between[OF _ d]
      by (auto simp: mcap_like_def amount_from_raw_native_def)
  qed
  then show ?thesis by (simp add: pool_mcap_sol_def v)
qed

lemma f64_of_le_pow128: "0 \<le> q \<Longrightarrow> q \<le> 2 ^ 128 \<Longrightarrow> \<exists>r. f64_of q = Fin r \<and> 0 \<le> r"
proof -
  assume q: "0 \<le> q" "q \<le> 2 ^ 128"
  have "rnd (2 ^ 128) = 2 ^ 128" using rnd_exact[of 1 128] by (simp add: power_int_def)
  then have r: "0 \<le> rnd q" "rnd q \<le> 2 ^ 128" using rnd_mono[OF q(2)] rnd_nonneg[OF q(1)] by simp_all
  have "(2::rat) ^ 128 < 2 ^ 1024" by simp
  then have "\<bar>rnd q\<bar> < 2 ^ 1024" using r by linarith
  then show ?thesis using r(1) f64_of_Fin by blast
qed

lemma price_ratio_sane:
  assumes "mcap_like cur" "mcap_like entry" "0 < entry"
  shows "\<exists>r. cur / entry = Fin r \<and> 0 \<le> r"
proof -
  obtain c e where ce: "cur = Fin c" "entry = Fin e" "c = 0 \<or> 1 / 2 ^ 64 \<le> c" "c \<le> 2 ^ 64"
    "e = 0 \<or> 1 / 2 ^ 64 \<le> e" "0 < e"
    using assms by (auto simp: mcap_like_def)
  have e: "1 / 2 ^ 64 \<le> e" using ce by auto
  have c: "0 \<le> c" using ce(3) by (auto intro: order_trans[rotated])
  have "c / e \<le> 2 ^ 64 / (1 / 2 ^ 64)" using c ce(4) e by (intro frac_le) auto
  then have "c / e \<le> 2 ^ 128" by simp
  moreover have "0 \<le> c / e" using c ce(6) by simp
  ultimately show ?thesis using f64_of_le_pow128 ce by simp
qed

lemma f64_plus_nonneg: "0 \<le> x \<Longrightarrow> 0 \<le> y \<Longrightarrow> 0 \<le> x + y" for x y :: f64
  by (cases x; cases y) (auto simp: plus_f64_def f64_of_nonneg)

lemma f64_minus_nonneg: "is_finite a \<Longrightarrow> a \<le> x \<Longrightarrow> 0 \<le> x - a" for x a :: f64
  by (cases x; cases a) (auto simp: minus_f64_def is_finite_def f64_of_nonneg)

lemma f64_times_Fin_nonneg: "0 \<le> t \<Longrightarrow> 0 \<le> r \<Longrightarrow> 0 \<le> Fin t * Fin r"
  by (simp add: f64_of_nonneg)

lemma mock_step_keeps_inv:
  assumes inv: "mock_inv b" and sane: "op_sane b op" and step: "mock_step b op = Inr b'"
  shows "mock_inv b'"
proof (cases op)
  case (OpBuy m a p)
  obtain e where e: "pool_mcap_sol p = Inr e" "mcap_like e"
    using pool_mcap_sol_sane sane OpBuy by auto
  have "mk_balance b \<noteq> NaN" "a \<noteq> NaN" using inv sane OpBuy by (auto simp: mock_inv_def sane_size_def is_finite_def)
  then show ?thesis using inv sane step e OpBuy
    by (auto simp: mock_buy_def mock_inv_def sane_size_def f64_not_less f64_minus_nonneg split: if_splits)
next
  case (OpSell m t p c)
  obtain cur where cur: "pool_mcap_sol p = Inr cur" "mcap_like cur"
    using pool_mcap_sol_sane sane OpSell by auto
  obtain tq where t: "t = Fin tq" "0 \<le> tq"
    using sane OpSell by (cases t) (auto simp: sane_size_def is_finite_def)
  show ?thesis
  proof (cases "mk_positions b m")
    case None
    then show ?thesis using inv step cur OpSell by (simp add: mock_sell_def)
  next
    case (Some pos)
    have pos: "mcap_like (mk_entry_mcap pos)" using inv Some by (auto simp: mock_inv_def)
    define ratio where "ratio = (if 0 < mk_entry_mcap pos then cur / mk_entry_mcap pos else 1)"
    have "\<exists>r. ratio = Fin r \<and> 0 \<le> r"
      using price_ratio_sane[OF cur(2) pos] by (auto simp: ratio_def one_f64_def)
    then have "0 \<le> t * ratio" using t f64_times_Fin_nonneg by auto
    then have "0 \<le> mk_balance b + t * ratio" using inv by (simp add: mock_inv_def f64_plus_nonneg)
    then show ?thesis using inv step cur Some pos OpSell
      by (auto simp: mock_sell_def mock_inv_def Let_def ratio_def split: if_splits)
  qed
next
  case (OpForget m)
  then show ?thesis using inv step by (auto simp: mock_forget_position_def mock_inv_def split: if_splits)
qed

lemma mock_step_returns: "op_sane b op \<Longrightarrow> returns (mock_step b op)"
  using pool_mcap_sol_sane
  by (cases op) (fastforce simp: mock_buy_def mock_sell_def returns_iff Let_def split: option.split)+

interpretation demo_broker: total_machine mock_step op_sane mock_inv
  by unfold_locales (auto intro: mock_step_keeps_inv mock_step_returns)

text \<open>The demo broker never panics and never overdraws: after any sequence of buys, sells and
  forgotten positions with non-negative sizes on pools that have tokens, the balance is a number
  that is not negative.\<close>

theorem demo_balance_never_negative:
  assumes "0 \<le> initial" "run_ok mock_step op_sane (mock_new initial) ops"
  shows "\<exists>b. run_outcome mock_step (mock_new initial) ops = Inr b \<and> 0 \<le> mk_balance b"
proof -
  have "mock_inv (mock_new initial)" using assms(1) by (simp add: mock_new_def mock_inv_def)
  then show ?thesis using demo_broker.run_returns[OF _ assms(2)] by (auto simp: mock_inv_def)
qed

definition demo_pool :: pool where
  "demo_pool = BondingPool (bonding_new id 7 9)"

lemma demo_balance_never_negative_witness:
  "\<exists>b. run_outcome mock_step (mock_new (Fin 2))
     [OpBuy 7 (Fin 1) demo_pool, OpSell 7 (Fin 1) demo_pool True] = Inr b \<and> 0 \<le> mk_balance b"
proof (rule demo_balance_never_negative)
  have "op_sane b (OpBuy 7 (Fin 1) demo_pool)" "op_sane b (OpSell 7 (Fin 1) demo_pool True)" for b
    by (simp_all add: sane_size_def is_finite_def pool_tokens_def demo_pool_def bonding_new_def
        amount_from_raw_def)
  then show "run_ok mock_step op_sane (mock_new (Fin 2))
     [OpBuy 7 (Fin 1) demo_pool, OpSell 7 (Fin 1) demo_pool True]"
    by (simp split: sum.split)
qed simp

text \<open>A refused buy changes nothing, an accepted one books exactly the amount.\<close>

lemma mock_buy_cases:
  assumes "mock_buy b mint amount p = Inr (b', r)"
  shows "(\<exists>e. r = Inl e \<and> b' = b) \<or>
    (\<exists>rc. r = Inr rc \<and> tokens_received rc = amount \<and> mk_balance b' = mk_balance b - amount \<and>
      mk_positions b' mint \<noteq> None \<and> (\<forall>m. m \<noteq> mint \<longrightarrow> mk_positions b' m = mk_positions b m))"
  using assms by (auto simp: mock_buy_def bind_outcome_Inr_iff split: if_splits)

end
