(* ===== verification/Wallets.thy ===== *)
theory Wallets
  imports Snapshots Amounts
begin

text \<open>
  Model of the wallet registry \<^verbatim>\<open>src/autobuy/wallet_registry.rs\<close>: the wallets in the order of the
  configuration, their sizes and balances, the lookups by id and by key, runtime patches and the
  construction from the configuration. Environment variables, key pairs and the connection of a
  live broker are arguments. The hash maps by id and by key share their handles with the ordered
  list; here they are searches in it (ids are unique, of several wallets with one key the last one
  is found).
\<close>

record wallet_tier_size =
  a_sol :: f64
  a_plus_sol :: f64
  b_sol :: f64

record wallet_entry_config =
  we_id :: string
  we_label :: string
  we_enabled :: bool
  we_private_key_env :: string
  we_size_sol :: "f64 option"
  we_tier_size :: "wallet_tier_size option"
  we_demo_balance_sol :: "f64 option"
  we_rpc_url_env :: "string option"

definition effective_label :: "wallet_entry_config \<Rightarrow> string" where
  "effective_label e = (if we_label e = [] then we_id e else we_label e)"

record wallet =
  w_id :: string
  w_label :: string
  w_enabled :: bool
  w_size_sol :: "f64 option"
  w_tier_size :: "wallet_tier_size option"
  w_private_key_env :: string
  w_pubkey :: string
  w_address :: address
  w_balance :: f64

definition amount_for_signal :: "wallet \<Rightarrow> f64 \<Rightarrow> tier \<Rightarrow> f64" where
  "amount_for_signal w signal buy_tier =
     (case w_tier_size w of
        Some ts \<Rightarrow> (case buy_tier of APlus \<Rightarrow> a_plus_sol ts | A \<Rightarrow> a_sol ts | B \<Rightarrow> b_sol ts | Skip \<Rightarrow> signal)
      | None \<Rightarrow> (case w_size_sol w of Some s \<Rightarrow> s | None \<Rightarrow> signal))"

record wallet_wire =
  ww_id :: string
  ww_label :: string
  ww_enabled :: bool
  ww_pubkey :: string
  ww_balance_sol :: f64
  ww_size_sol :: "f64 option"
  ww_tier_size :: "wallet_tier_size option"

definition wire_snapshot :: "wallet \<Rightarrow> wallet_wire" where
  "wire_snapshot w =
     \<lparr>ww_id = w_id w, ww_label = w_label w, ww_enabled = w_enabled w, ww_pubkey = w_pubkey w,
      ww_balance_sol = w_balance w, ww_size_sol = w_size_sol w, ww_tier_size = w_tier_size w\<rparr>"

record wallet_registry =
  reg_ordered :: "wallet list"
  reg_mode_label :: string

definition registry_get :: "wallet_registry \<Rightarrow> string \<Rightarrow> wallet option" where
  "registry_get r wid = find (\<lambda>w. w_id w = wid) (reg_ordered r)"

definition registry_by_pubkey :: "wallet_registry \<Rightarrow> address \<Rightarrow> wallet option" where
  "registry_by_pubkey r a = find (\<lambda>w. w_address w = a) (rev (reg_ordered r))"

definition enabled_wallets :: "wallet_registry \<Rightarrow> wallet list" where
  "enabled_wallets r = filter w_enabled (reg_ordered r)"

definition total_balance_sol :: "wallet_registry \<Rightarrow> f64" where
  "total_balance_sol r = foldl (\<lambda>acc w. acc + w_balance w) 0 (reg_ordered r)"

definition primary_pubkey :: "wallet_registry \<Rightarrow> string" where
  "primary_pubkey r = (case reg_ordered r of [] \<Rightarrow> ''no-wallet'' | w # _ \<Rightarrow> w_pubkey w)"

definition wire_snapshots :: "wallet_registry \<Rightarrow> wallet_wire list" where
  "wire_snapshots r = map wire_snapshot (reg_ordered r)"

definition update_wallet :: "string \<Rightarrow> (wallet \<Rightarrow> wallet) \<Rightarrow> wallet_registry \<Rightarrow> wallet_registry" where
  "update_wallet wid f r =
     r\<lparr>reg_ordered := map (\<lambda>w. if w_id w = wid then f w else w) (reg_ordered r)\<rparr>"

definition set_balance_sol :: "string \<Rightarrow> f64 \<Rightarrow> wallet_registry \<Rightarrow> wallet_registry" where
  "set_balance_sol wid bal r = update_wallet wid (\<lambda>w. w\<lparr>w_balance := bal\<rparr>) r"

definition patch_entry :: "wallet_registry \<Rightarrow> wallet_entry_config \<Rightarrow> wallet_registry" where
  "patch_entry r e = update_wallet (we_id e)
     (\<lambda>w. w\<lparr>w_enabled := we_enabled e, w_size_sol := we_size_sol e, w_tier_size := we_tier_size e\<rparr>) r"

definition apply_config_patch :: "wallet_registry \<Rightarrow> wallet_entry_config list \<Rightarrow> wallet_registry" where
  "apply_config_patch r es = foldl patch_entry r es"

text \<open>
  The periodic refresh. The broker of a wallet is asked to read the chain on every \<open>n\<close>-th tick; what its
  \<^verbatim>\<open>balance_sol\<close> answers, with or without that, is an argument, and an error keeps the old balance.
\<close>

definition is_multiple_of :: "u64 \<Rightarrow> u64 \<Rightarrow> bool" where
  "is_multiple_of n t = (if n = 0 then t = 0 else t mod n = 0)"

definition refresh_all_balances ::
  "(string \<Rightarrow> bool \<Rightarrow> f64 option) \<Rightarrow> u64 \<Rightarrow> u64 \<Rightarrow> wallet_registry \<Rightarrow> wallet_registry" where
  "refresh_all_balances answer n t r =
     r\<lparr>reg_ordered := map (\<lambda>w. case answer (w_id w) (is_multiple_of n t) of
                              Some bal \<Rightarrow> w\<lparr>w_balance := bal\<rparr> | None \<Rightarrow> w) (reg_ordered r)\<rparr>"

definition default_wallet_entries :: "wallet_entry_config list" where
  "default_wallet_entries =
     [\<lparr>we_id = ''wallet_1'', we_label = ''Main'', we_enabled = True,
       we_private_key_env = ''PRIVATE_KEY'', we_size_sol = None, we_tier_size = None,
       we_demo_balance_sol = None, we_rpc_url_env = None\<rparr>]"

section \<open>Construction\<close>

datatype execution_mode = Demo | Live

text \<open>
  What the construction gets from outside: environment variables, the fresh key of a demo wallet,
  the address of a private key with its text, and the live broker for a URL and an address, with
  the balance it reports, if it does.
\<close>

record wallet_world =
  env_var :: "string \<Rightarrow> string option"
  fresh_key :: "string \<Rightarrow> string \<times> address"
  key_of_secret :: "string \<Rightarrow> string \<times> address"
  connect_broker :: "string \<Rightarrow> address \<Rightarrow> string + f64 option"

definition rpc_url_of :: "wallet_world \<Rightarrow> wallet_entry_config \<Rightarrow> string + string" where
  "rpc_url_of env cfg =
     (case we_rpc_url_env cfg of
        Some k \<Rightarrow> (case env_var env k of Some u \<Rightarrow> Inr u
                   | None \<Rightarrow> Inl (''env '' @ k @ '' must be set for wallet '' @ we_id cfg @ '' (rpc_url_env)''))
      | None \<Rightarrow> (case env_var env ''SOLANA_RPC_URL'' of Some u \<Rightarrow> Inr u
                 | None \<Rightarrow> (case env_var env ''SOLANA_HTTP'' of Some u \<Rightarrow> Inr u
                    | None \<Rightarrow> Inl ''SOLANA_RPC_URL (or SOLANA_HTTP) env var must be set for live mode'')))"

definition make_wallet :: "wallet_entry_config \<Rightarrow> string \<times> address \<Rightarrow> f64 \<Rightarrow> wallet" where
  "make_wallet cfg key bal =
     \<lparr>w_id = we_id cfg, w_label = effective_label cfg, w_enabled = we_enabled cfg,
      w_size_sol = we_size_sol cfg, w_tier_size = we_tier_size cfg,
      w_private_key_env = we_private_key_env cfg, w_pubkey = fst key, w_address = snd key,
      w_balance = bal\<rparr>"

text \<open>One turn of the loop: an error, a skipped wallet or a new one.\<close>

definition open_wallet ::
  "wallet_world \<Rightarrow> execution_mode \<Rightarrow> f64 \<Rightarrow> wallet_entry_config \<Rightarrow> string + wallet option" where
  "open_wallet env mode default_bal cfg =
     (case mode of
        Demo \<Rightarrow> Inr (Some (make_wallet cfg (fresh_key env (we_id cfg))
                  (case we_demo_balance_sol cfg of Some b \<Rightarrow> b | None \<Rightarrow> default_bal)))
      | Live \<Rightarrow>
          (case env_var env (we_private_key_env cfg) of
             None \<Rightarrow> if \<not> we_enabled cfg then Inr None
                     else Inl (''env '' @ we_private_key_env cfg @ '' must be set for wallet ''
                               @ we_id cfg @ '' (live mode, enabled)'')
           | Some secret \<Rightarrow>
               (case rpc_url_of env cfg of
                  Inl e \<Rightarrow> Inl e
                | Inr url \<Rightarrow>
                    (let key = key_of_secret env secret in
                     case connect_broker env url (snd key) of
                       Inl e \<Rightarrow> Inl (''SolanaBroker init for '' @ we_id cfg @ '' failed: '' @ e)
                     | Inr bal \<Rightarrow> Inr (Some (make_wallet cfg key
                         (case bal of Some b \<Rightarrow> b | None \<Rightarrow> default_bal)))))))"

fun build_wallets ::
  "wallet_world \<Rightarrow> execution_mode \<Rightarrow> f64 \<Rightarrow> wallet list \<Rightarrow> wallet_entry_config list \<Rightarrow> string + wallet list" where
  "build_wallets env mode bal ws [] = Inr ws"
| "build_wallets env mode bal ws (cfg # cfgs) =
     (if we_id cfg \<in> set (map w_id ws) then Inl (''duplicate wallet id '' @ we_id cfg)
      else case open_wallet env mode bal cfg of
             Inl e \<Rightarrow> Inl e
           | Inr None \<Rightarrow> build_wallets env mode bal ws cfgs
           | Inr (Some w) \<Rightarrow> build_wallets env mode bal (ws @ [w]) cfgs)"

definition build_wallet_registry ::
  "wallet_world \<Rightarrow> execution_mode \<Rightarrow> f64 \<Rightarrow> wallet_entry_config list \<Rightarrow> string + wallet_registry" where
  "build_wallet_registry env mode bal entries =
     (let effective = (if entries = [] then default_wallet_entries else entries)
      in case build_wallets env mode bal [] effective of
           Inl e \<Rightarrow> Inl e
         | Inr ws \<Rightarrow> Inr \<lparr>reg_ordered = ws,
                          reg_mode_label = (case mode of Demo \<Rightarrow> ''demo'' | Live \<Rightarrow> ''live'')\<rparr>)"

section \<open>Lookup and update by id\<close>

lemma find_map_upd:
  assumes "\<And>w. w_id (f w) = w_id w"
  shows "find (\<lambda>w. w_id w = k) (map (\<lambda>w. if w_id w = wid then f w else w) ws)
       = (if k = wid then map_option f (find (\<lambda>w. w_id w = k) ws) else find (\<lambda>w. w_id w = k) ws)"
  using assms by (induction ws) auto

lemma registry_get_update:
  assumes "\<And>w. w_id (f w) = w_id w"
  shows "registry_get (update_wallet wid f r) k
       = (if k = wid then map_option f (registry_get r k) else registry_get r k)"
  using find_map_upd[OF assms] by (simp add: registry_get_def update_wallet_def)

lemma update_wallet_ids [simp]:
  assumes "\<And>w. w_id (f w) = w_id w"
  shows "map w_id (reg_ordered (update_wallet wid f r)) = map w_id (reg_ordered r)"
  using assms by (simp add: update_wallet_def)

lemma registry_get_balance:
  "registry_get (set_balance_sol wid bal r) k
   = (if k = wid then map_option (\<lambda>w. w\<lparr>w_balance := bal\<rparr>) (registry_get r k) else registry_get r k)"
  by (simp add: set_balance_sol_def registry_get_update)

lemma registry_get_patch:
  "registry_get (patch_entry r e) k = (if k = we_id e
     then map_option (\<lambda>w. w\<lparr>w_enabled := we_enabled e, w_size_sol := we_size_sol e, w_tier_size := we_tier_size e\<rparr>)
            (registry_get r k)
     else registry_get r k)"
  by (simp add: patch_entry_def registry_get_update)

section \<open>Patches\<close>

text \<open>A runtime patch changes exactly the wallets it names, in the registry order, and of several
  entries for one wallet the last one wins; a wallet never changes its id, key or balance.\<close>

theorem apply_config_patch_last_wins:
  "registry_get (apply_config_patch r es) k =
     (case find (\<lambda>e. we_id e = k) (rev es) of
        None \<Rightarrow> registry_get r k
      | Some e \<Rightarrow> map_option (\<lambda>w. w\<lparr>w_enabled := we_enabled e, w_size_sol := we_size_sol e,
                                     w_tier_size := we_tier_size e\<rparr>) (registry_get r k)) \<and>
   map w_id (reg_ordered (apply_config_patch r es)) = map w_id (reg_ordered r)"
proof (induction es rule: rev_induct)
  case (snoc e es)
  show ?case using snoc.IH
    by (auto simp: apply_config_patch_def registry_get_patch patch_entry_def
        registry_get_update option.map_comp o_def split: option.splits)
qed (simp add: apply_config_patch_def)

section \<open>Built registries\<close>

lemma open_wallet_id: "open_wallet env mode bal cfg = Inr (Some w) \<Longrightarrow> w_id w = we_id cfg"
  by (auto simp: open_wallet_def make_wallet_def Let_def
      split: execution_mode.splits option.splits sum.splits if_splits)

lemma open_wallet_skip: "open_wallet env mode bal cfg = Inr None \<Longrightarrow> \<not> we_enabled cfg \<and> mode = Live"
  by (auto simp: open_wallet_def Let_def
      split: execution_mode.splits option.splits sum.splits if_splits)

lemma open_wallet_enabled: "open_wallet env mode bal cfg = Inr (Some w) \<Longrightarrow> w_enabled w = we_enabled cfg"
  by (auto simp: open_wallet_def make_wallet_def Let_def
      split: execution_mode.splits option.splits sum.splits if_splits)

lemma build_wallets_distinct:
  "build_wallets env mode bal ws cfgs = Inr out \<Longrightarrow> distinct (map w_id ws) \<Longrightarrow> distinct (map w_id out)"
  by (induction env mode bal ws cfgs arbitrary: out rule: build_wallets.induct)
     (auto split: if_splits sum.splits option.splits dest: open_wallet_id)

lemma build_wallets_enabled:
  "build_wallets env mode bal ws cfgs = Inr out \<Longrightarrow>
   map w_id (filter w_enabled out)
     = map w_id (filter w_enabled ws) @ map we_id (filter we_enabled cfgs)"
  by (induction env mode bal ws cfgs arbitrary: out rule: build_wallets.induct)
     (auto split: if_splits sum.splits option.splits dest: open_wallet_id open_wallet_skip open_wallet_enabled)

text \<open>A registry that is built has unique wallet ids, and its enabled wallets are exactly the enabled
  entries of the configuration, in their order: no enabled wallet is silently left out.\<close>

theorem build_registry_complete:
  assumes "build_wallet_registry env mode bal entries = Inr r" "entries \<noteq> []"
  shows "distinct (map w_id (reg_ordered r)) \<and>
    map w_id (enabled_wallets r) = map we_id (filter we_enabled entries)"
  using assms build_wallets_distinct[of env mode bal "[]" entries]
    build_wallets_enabled[of env mode bal "[]" entries]
  by (auto simp: build_wallet_registry_def enabled_wallets_def Let_def split: sum.splits)

definition sample_world :: wallet_world where
  "sample_world =
     \<lparr>env_var = (\<lambda>k. if k = ''KEY_1'' \<or> k = ''SOLANA_HTTP'' then Some ''x'' else None),
      fresh_key = (\<lambda>i. (i, 1)), key_of_secret = (\<lambda>s. (s, 2)), connect_broker = (\<lambda>u a. Inr (Some 1))\<rparr>"

definition sample_entry :: "string \<Rightarrow> string \<Rightarrow> bool \<Rightarrow> wallet_entry_config" where
  "sample_entry i k on = \<lparr>we_id = i, we_label = [], we_enabled = on, we_private_key_env = k,
     we_size_sol = None, we_tier_size = None, we_demo_balance_sol = None, we_rpc_url_env = None\<rparr>"

lemma build_registry_complete_witness:
  "\<exists>r. build_wallet_registry sample_world Live 1
     [sample_entry ''w1'' ''KEY_1'' True, sample_entry ''w2'' ''KEY_2'' False] = Inr r \<and>
   map w_id (enabled_wallets r) = [''w1'']"
proof -
  let ?es = "[sample_entry ''w1'' ''KEY_1'' True, sample_entry ''w2'' ''KEY_2'' False]"
  obtain r where "build_wallet_registry sample_world Live 1 ?es = Inr r"
    by (simp add: build_wallet_registry_def open_wallet_def rpc_url_of_def sample_world_def
        sample_entry_def make_wallet_def Let_def)
  then show ?thesis using build_registry_complete[of sample_world Live 1 ?es r]
    by (simp add: sample_entry_def)
qed

end
