(* ===== verification/Rankers.thy ===== *)
theory Rankers
  imports F64 Machines
begin

text \<open>
  Model of the two registries that learn from the bot's own closed trades:
  \<^verbatim>\<open>src/scoring/dev_ranker.rs\<close> (developers) and \<^verbatim>\<open>src/scoring/smart_money.rs\<close> (early buyers). Each is an
  actor over a table from addresses, as text, to a record; one definition per message. Loading and
  saving the JSON file is not modelled; the text of an address is a parameter.

  Both tables are interpretations of the keyed machine: the record of one address depends on the
  messages for that address only. The developer category is then a function of the history.
\<close>

section \<open>Entries with a default\<close>

text \<open>\<^verbatim>\<open>HashMap::entry(k).or_default()\<close> followed by an update in place.\<close>

fun upsert :: "'k \<Rightarrow> 'v \<Rightarrow> ('v \<Rightarrow> 'v) \<Rightarrow> ('k \<times> 'v) list \<Rightarrow> ('k \<times> 'v) list" where
  "upsert k d f [] = [(k, f d)]"
| "upsert k d f ((k', v) # xs) = (if k' = k then (k', f v) # xs else (k', v) # upsert k d f xs)"

lemma map_of_upsert:
  "map_of (upsert k d f xs) j =
     (if j = k then Some (f (case map_of xs k of Some v \<Rightarrow> v | None \<Rightarrow> d)) else map_of xs j)"
  by (induction k d f xs rule: upsert.induct) auto

section \<open>Developers\<close>

datatype dev_category = DevAPlus | DevA | DevNeutral | DevBad | DevStale | DevFresh

record dev_record =
  dr_score :: f64
  dr_total_tokens :: u64
  dr_strong_successes :: u64
  dr_successes :: u64
  dr_neutrals :: u64
  dr_rugs :: u64
  dr_last_seen_unix :: u64

definition dev_record_default :: dev_record where
  "dev_record_default =
     \<lparr>dr_score = 0, dr_total_tokens = 0, dr_strong_successes = 0, dr_successes = 0, dr_neutrals = 0,
      dr_rugs = 0, dr_last_seen_unix = 0\<rparr>"

datatype token_outcome = StrongSuccess | Success | NeutralOutcome | Rug

definition classify_outcome :: "f64 \<Rightarrow> token_outcome" where
  "classify_outcome pnl =
     (if f64_of 50 \<le> pnl then StrongSuccess
      else if f64_of 30 \<le> pnl then Success
      else if pnl \<le> f64_of (- 16) then Rug
      else NeutralOutcome)"

definition dev_update :: "token_outcome \<Rightarrow> u64 \<Rightarrow> dev_record \<Rightarrow> dev_record" where
  "dev_update o' now r0 =
     (let r = r0\<lparr>dr_total_tokens := dr_total_tokens r0 + 1\<rparr>;
          r' = (case o' of
                  StrongSuccess \<Rightarrow> r\<lparr>dr_score := dr_score r + f64_of 2, dr_strong_successes := dr_strong_successes r + 1\<rparr>
                | Success \<Rightarrow> r\<lparr>dr_score := dr_score r + 1, dr_successes := dr_successes r + 1\<rparr>
                | NeutralOutcome \<Rightarrow> r\<lparr>dr_neutrals := dr_neutrals r + 1\<rparr>
                | Rug \<Rightarrow> r\<lparr>dr_score := dr_score r - f64_of 2, dr_rugs := dr_rugs r + 1\<rparr>)
      in r'\<lparr>dr_last_seen_unix := now\<rparr>)"

definition categorize :: "dev_record \<Rightarrow> u64 \<Rightarrow> u64 \<Rightarrow> dev_category" where
  "categorize r now ttl =
     (if 0 < ttl \<and> ttl < saturating_sub now (dr_last_seen_unix r) then DevStale
      else if f64_of 3 \<le> dr_score r then DevAPlus
      else if f64_of 1 \<le> dr_score r then DevA
      else if dr_score r \<le> f64_of (- 2) then DevBad
      else DevNeutral)"

record dev_ranker_snapshot =
  ds_total_devs :: nat
  ds_a_plus :: nat
  ds_a :: nat
  ds_neutral :: nat
  ds_bad :: nat
  ds_stale :: nat

datatype ranker_message =
    UpdateOutcome address token_outcome
  | GetCategory address
  | SnapshotCounts

datatype ranker_reply =
    RankerNone
  | RankerCategory dev_category dev_record
  | RankerSnapshot dev_ranker_snapshot

type_synonym dev_table = "(string \<times> dev_record) list"

definition count_category :: "dev_table \<Rightarrow> u64 \<Rightarrow> u64 \<Rightarrow> dev_category \<Rightarrow> nat" where
  "count_category st now ttl c = length (filter (\<lambda>(k, r). categorize r now ttl = c) st)"

fun ranker_handle ::
  "(address \<Rightarrow> string) \<Rightarrow> u64 \<Rightarrow> u64 \<Rightarrow> dev_table \<Rightarrow> ranker_message \<Rightarrow> dev_table \<times> ranker_reply" where
  "ranker_handle addr_str ttl now st (UpdateOutcome dev o') =
     (upsert (addr_str dev) dev_record_default (dev_update o' now) st, RankerNone)"
| "ranker_handle addr_str ttl now st (GetCategory dev) =
     (st, case map_of st (addr_str dev) of
            Some r \<Rightarrow> RankerCategory (categorize r now ttl) r
          | None \<Rightarrow> RankerCategory DevNeutral dev_record_default)"
| "ranker_handle addr_str ttl now st SnapshotCounts =
     (st, RankerSnapshot
        \<lparr>ds_total_devs = length st, ds_a_plus = count_category st now ttl DevAPlus,
         ds_a = count_category st now ttl DevA, ds_neutral = count_category st now ttl DevNeutral,
         ds_bad = count_category st now ttl DevBad, ds_stale = count_category st now ttl DevStale\<rparr>)"

text \<open>The table after a sequence of outcomes, each at its time.\<close>

type_synonym outcome_event = "string \<times> token_outcome \<times> u64"

fun dev_step :: "dev_table \<Rightarrow> outcome_event \<Rightarrow> dev_table outcome" where
  "dev_step st (k, o', now) = Inr (upsert k dev_record_default (dev_update o' now) st)"

fun dev_entry_step :: "outcome_event \<Rightarrow> dev_record option \<Rightarrow> dev_record option outcome" where
  "dev_entry_step (k, o', now) v =
     Inr (Some (dev_update o' now (case v of Some r \<Rightarrow> r | None \<Rightarrow> dev_record_default)))"

interpretation dev_ledger: keyed_machine dev_step fst map_of dev_entry_step "\<lambda>_. True"
proof
  fix s e s' show "dev_step s e = Inr s' \<Longrightarrow> dev_entry_step e (map_of s (fst e)) = Inr (map_of s' (fst e))"
    by (cases e) (auto simp: map_of_upsert)
  fix k show "dev_step s e = Inr s' \<Longrightarrow> k \<noteq> fst e \<Longrightarrow> map_of s' k = map_of s k"
    by (cases e) (auto simp: map_of_upsert)
qed simp

text \<open>The history of one developer: how many outcomes of each kind, and the exact score.\<close>

definition outcomes_of :: "string \<Rightarrow> outcome_event list \<Rightarrow> token_outcome list" where
  "outcomes_of k es = map (fst \<circ> snd) (filter (\<lambda>e. fst e = k) es)"

definition outcome_count :: "token_outcome \<Rightarrow> token_outcome list \<Rightarrow> nat" where
  "outcome_count o' os = length (filter (\<lambda>x. x = o') os)"

definition outcome_score :: "token_outcome list \<Rightarrow> int" where
  "outcome_score os = 2 * int (outcome_count StrongSuccess os) + int (outcome_count Success os)
     - 2 * int (outcome_count Rug os)"

lemma outcome_score_snoc:
  "outcome_score (os @ [o']) = outcome_score os
     + (case o' of StrongSuccess \<Rightarrow> 2 | Success \<Rightarrow> 1 | NeutralOutcome \<Rightarrow> 0 | Rug \<Rightarrow> - 2)"
  by (cases o') (simp_all add: outcome_score_def outcome_count_def)

lemma outcome_score_bound: "\<bar>outcome_score os\<bar> \<le> 2 * int (length os)"
proof (induction os rule: rev_induct)
  case (snoc o' os)
  then show ?case by (cases o') (simp_all add: outcome_score_snoc)
qed (simp add: outcome_score_def outcome_count_def)

definition matches_history :: "token_outcome list \<Rightarrow> dev_record \<Rightarrow> bool" where
  "matches_history os r \<longleftrightarrow> dr_score r = Fin (of_int (outcome_score os)) \<and>
     dr_total_tokens r = of_nat (length os) \<and>
     dr_strong_successes r = of_nat (outcome_count StrongSuccess os) \<and>
     dr_successes r = of_nat (outcome_count Success os) \<and>
     dr_neutrals r = of_nat (outcome_count NeutralOutcome os) \<and>
     dr_rugs r = of_nat (outcome_count Rug os)"

lemma matches_default: "matches_history [] dev_record_default"
  by (simp add: matches_history_def dev_record_default_def outcome_score_def outcome_count_def zero_f64_def)

lemma score_plus:
  assumes "\<bar>a + b\<bar> \<le> 2 ^ 53" shows "Fin (of_int a) + Fin (of_int b) = Fin (of_int (a + b))"
  using f64_of_int[OF assms] by simp

lemma score_minus:
  assumes "\<bar>a - b\<bar> \<le> 2 ^ 53" shows "Fin (of_int a) - Fin (of_int b) = Fin (of_int (a - b))"
  using f64_of_int[OF assms] by simp

lemma dev_update_matches:
  assumes m: "matches_history os r" and len: "length os < 2 ^ 51"
  shows "matches_history (os @ [o']) (dev_update o' now r)"
proof -
  let ?s = "outcome_score os"
  have "int (length os) < 2 ^ 51" using len by simp
  then have b: "\<bar>?s\<bar> \<le> 2 ^ 52" using outcome_score_bound[of os] by simp
  have two: "f64_of 2 = Fin (of_int 2)" "(1 :: f64) = Fin (of_int 1)" by (simp_all add: one_f64_def)
  have p: "Fin (of_int ?s) + Fin (of_int 2) = Fin (of_int (?s + 2))"
    "Fin (of_int ?s) + Fin (of_int 1) = Fin (of_int (?s + 1))"
    "Fin (of_int ?s) - Fin (of_int 2) = Fin (of_int (?s - 2))"
    using b by (subst score_plus score_minus; simp)+
  show ?thesis
  proof (cases o')
    case StrongSuccess
    then show ?thesis using m p(1) unfolding matches_history_def dev_update_def Let_def two outcome_score_snoc
      by (simp add: outcome_count_def del: f64_arith_simps)
  next
    case Success
    then show ?thesis using m p(2) unfolding matches_history_def dev_update_def Let_def two outcome_score_snoc
      by (simp add: outcome_count_def del: f64_arith_simps)
  next
    case NeutralOutcome
    then show ?thesis using m unfolding matches_history_def dev_update_def Let_def outcome_score_snoc
      by (simp add: outcome_count_def)
  next
    case Rug
    then show ?thesis using m p(3) unfolding matches_history_def dev_update_def Let_def two outcome_score_snoc
      by (simp add: outcome_count_def del: f64_arith_simps)
  qed
qed

lemma dev_entry_run:
  assumes "length os + length es \<le> 2 ^ 51" "matches_history os r" "\<forall>e \<in> set es. fst e = k"
    "run_outcome (\<lambda>v e. dev_entry_step e v) (Some r) es = Inr v"
  shows "\<exists>r'. v = Some r' \<and> matches_history (os @ map (fst \<circ> snd) es) r' \<and>
    (es \<noteq> [] \<longrightarrow> dr_last_seen_unix r' = snd (snd (last es)))"
  using assms
proof (induction es arbitrary: os r)
  case (Cons e es)
  obtain o' now where e: "e = (k, o', now)" using Cons.prems(3) by (cases e) auto
  have m: "matches_history (os @ [o']) (dev_update o' now r)"
    using Cons.prems(1,2) by (intro dev_update_matches) auto
  have run: "run_outcome (\<lambda>v e. dev_entry_step e v) (Some (dev_update o' now r)) es = Inr v"
    using Cons.prems(4) by (simp add: e)
  have "length (os @ [o']) + length es \<le> 2 ^ 51" "\<forall>e \<in> set es. fst e = k" using Cons.prems(1,3) by simp_all
  from Cons.IH[OF this(1) m this(2) run] obtain r' where r': "v = Some r'"
    "matches_history (os @ [o'] @ map (fst \<circ> snd) es) r'"
    "es \<noteq> [] \<longrightarrow> dr_last_seen_unix r' = snd (snd (last es))" by (auto simp: o_def)
  show ?case
  proof (cases "es = []")
    case True
    then have "r' = dev_update o' now r" using run r'(1) by simp
    then show ?thesis using r' True by (simp add: e dev_update_def Let_def)
  next
    case False
    then show ?thesis using r' by (simp add: e o_def)
  qed
qed auto

text \<open>The record of a developer is exactly its history, whatever happens to other developers in between:
  after any sequence of outcomes (fewer than 2^51 for it) the score is twice the strong successes
  plus the successes minus twice the rugs, without rounding error, and every counter is the number
  of its outcomes. A developer without outcomes has no record.\<close>

theorem dev_record_is_history:
  assumes "run_outcome dev_step [] es = Inr st" "length (outcomes_of k es) \<le> 2 ^ 51"
  shows "case map_of st k of
      None \<Rightarrow> outcomes_of k es = []
    | Some r \<Rightarrow> dr_score r = Fin (of_int (outcome_score (outcomes_of k es))) \<and>
        dr_total_tokens r = of_nat (length (outcomes_of k es)) \<and>
        dr_rugs r = of_nat (outcome_count Rug (outcomes_of k es)) \<and>
        dr_strong_successes r = of_nat (outcome_count StrongSuccess (outcomes_of k es))"
proof -
  let ?es = "filter (\<lambda>e. fst e = k) es"
  have run: "run_outcome (\<lambda>v e. dev_entry_step e v) None ?es = Inr (map_of st k)"
    using dev_ledger.run_project[OF _ assms(1), of k] by simp
  show ?thesis
  proof (cases ?es)
    case Nil
    then show ?thesis using run by (simp add: outcomes_of_def)
  next
    case (Cons e es')
    have "fst e = k" using Cons[THEN filter_eq_ConsD] by auto
    then obtain o' now where e: "e = (k, o', now)" by (cases e) auto
    have k: "\<forall>e \<in> set es'. fst e = k" using arg_cong[OF Cons, of set] by auto
    have os: "outcomes_of k es = [o'] @ map (fst \<circ> snd) es'" by (simp add: outcomes_of_def Cons e)
    have "matches_history [o'] (dev_update o' now dev_record_default)"
      using dev_update_matches[OF matches_default, of o' now] by simp
    moreover have "run_outcome (\<lambda>v e. dev_entry_step e v) (Some (dev_update o' now dev_record_default)) es'
        = Inr (map_of st k)"
      using run by (simp add: Cons e)
    moreover have "length [o'] + length es' \<le> 2 ^ 51" using assms(2) by (simp add: os)
    ultimately obtain r where "map_of st k = Some r" "matches_history (outcomes_of k es) r"
      using dev_entry_run[of "[o']" es' _ k] k unfolding os by blast
    then show ?thesis by (simp add: matches_history_def)
  qed
qed

lemma dev_record_is_history_witness:
  "\<exists>st r. run_outcome dev_step [] [(''d'', StrongSuccess, 10), (''x'', Rug, 11), (''d'', Success, 12)] = Inr st
     \<and> map_of st ''d'' = Some r \<and> dr_score r = Fin 3 \<and> dr_total_tokens r = 2"
proof -
  let ?es = "[(''d'', StrongSuccess, 10), (''x'', Rug, 11), (''d'', Success, 12)]"
  obtain st r where st: "run_outcome dev_step [] ?es = Inr st" "map_of st ''d'' = Some r" by auto
  then show ?thesis using dev_record_is_history[OF st(1), of "''d''"]
    by (simp add: outcomes_of_def outcome_score_def outcome_count_def)
qed

section \<open>Smart money\<close>

record wallet_record =
  wr_trades :: u64
  wr_wins :: u64
  wr_losses :: u64
  wr_pnl_pct_sum :: f64
  wr_last_seen_unix :: u64

definition wallet_record_default :: wallet_record where
  "wallet_record_default =
     \<lparr>wr_trades = 0, wr_wins = 0, wr_losses = 0, wr_pnl_pct_sum = 0, wr_last_seen_unix = 0\<rparr>"

definition winrate :: "wallet_record \<Rightarrow> f64" where
  "winrate r = (if wr_trades r = 0 then 0 else word_to_f64 (wr_wins r) / word_to_f64 (wr_trades r))"

definition avg_pnl_pct :: "wallet_record \<Rightarrow> f64" where
  "avg_pnl_pct r = (if wr_trades r = 0 then 0 else wr_pnl_pct_sum r / word_to_f64 (wr_trades r))"

definition is_smart :: "wallet_record \<Rightarrow> u64 \<Rightarrow> u64 \<Rightarrow> bool" where
  "is_smart r now ttl =
     (if 0 < ttl \<and> ttl < saturating_sub now (wr_last_seen_unix r) then False
      else if wr_trades r < 4 then False
      else f64_of 0.6 \<le> winrate r \<and> f64_of 5 \<le> avg_pnl_pct r)"

definition wallet_note :: "f64 \<Rightarrow> u64 \<Rightarrow> wallet_record \<Rightarrow> wallet_record" where
  "wallet_note pnl now r =
     r\<lparr>wr_trades := wr_trades r + 1, wr_pnl_pct_sum := wr_pnl_pct_sum r + pnl,
       wr_wins := (if 0 < pnl then wr_wins r + 1 else wr_wins r),
       wr_losses := (if 0 < pnl then wr_losses r else wr_losses r + 1),
       wr_last_seen_unix := now\<rparr>"

type_synonym wallet_table = "(string \<times> wallet_record) list"

definition smart_entry :: "(address \<Rightarrow> string) \<Rightarrow> u64 \<Rightarrow> u64 \<Rightarrow> wallet_table \<Rightarrow> address \<Rightarrow> bool" where
  "smart_entry addr_str ttl now st w =
     (case map_of st (addr_str w) of Some r \<Rightarrow> is_smart r now ttl | None \<Rightarrow> False)"

datatype smart_message =
    UpdateOutcomes "address list" f64
  | CountSmart "address list"
  | FilterSmart "address list"
  | SmartSnapshot

datatype smart_reply =
    SmartNone
  | SmartCount u32
  | SmartList "address list"
  | SmartCounts nat nat

fun smart_handle ::
  "(address \<Rightarrow> string) \<Rightarrow> u64 \<Rightarrow> u64 \<Rightarrow> wallet_table \<Rightarrow> smart_message \<Rightarrow> wallet_table \<times> smart_reply" where
  "smart_handle addr_str ttl now st (UpdateOutcomes ws pnl) =
     (foldl (\<lambda>st w. upsert (addr_str w) wallet_record_default (wallet_note pnl now) st) st ws, SmartNone)"
| "smart_handle addr_str ttl now st (CountSmart ws) =
     (st, SmartCount (foldl (\<lambda>c w. if smart_entry addr_str ttl now st w then c + 1 else c) 0 ws))"
| "smart_handle addr_str ttl now st (FilterSmart ws) =
     (st, SmartList (filter (smart_entry addr_str ttl now st) ws))"
| "smart_handle addr_str ttl now st SmartSnapshot =
     (st, SmartCounts (length st) (length (filter (\<lambda>(k, r). is_smart r now ttl) st)))"

type_synonym wallet_event = "string \<times> f64 \<times> u64"

fun wallet_step :: "wallet_table \<Rightarrow> wallet_event \<Rightarrow> wallet_table outcome" where
  "wallet_step st (k, pnl, now) = Inr (upsert k wallet_record_default (wallet_note pnl now) st)"

fun wallet_entry_step :: "wallet_event \<Rightarrow> wallet_record option \<Rightarrow> wallet_record option outcome" where
  "wallet_entry_step (k, pnl, now) v =
     Inr (Some (wallet_note pnl now (case v of Some r \<Rightarrow> r | None \<Rightarrow> wallet_record_default)))"

interpretation wallet_ledger: keyed_machine wallet_step fst map_of wallet_entry_step "\<lambda>_. True"
proof
  fix s e s' show "wallet_step s e = Inr s' \<Longrightarrow> wallet_entry_step e (map_of s (fst e)) = Inr (map_of s' (fst e))"
    by (cases e) (auto simp: map_of_upsert)
  fix k show "wallet_step s e = Inr s' \<Longrightarrow> k \<noteq> fst e \<Longrightarrow> map_of s' k = map_of s k"
    by (cases e) (auto simp: map_of_upsert)
qed simp

lemma count_smart_foldl:
  "foldl (\<lambda>c w. if P w then c + 1 else c) (n :: u32) ws = n + of_nat (length (filter P ws))"
  by (induction ws arbitrary: n) auto

text \<open>Counting and filtering agree, and neither changes the registry.\<close>

lemma count_is_length_of_filter:
  "\<exists>ws' . smart_handle addr_str ttl now st (FilterSmart ws) = (st, SmartList ws') \<and>
     smart_handle addr_str ttl now st (CountSmart ws) = (st, SmartCount (of_nat (length ws')))"
  by (simp add: count_smart_foldl)

text \<open>A wallet seen in fewer than four closed trades is never smart.\<close>

lemma entry_run_trades:
  "run_outcome (\<lambda>v e. wallet_entry_step e v) v es = Inr v' \<Longrightarrow>
   (case v' of None \<Rightarrow> 0 | Some r \<Rightarrow> wr_trades r)
     = (case v of None \<Rightarrow> 0 | Some r \<Rightarrow> wr_trades r) + of_nat (length es)"
proof (induction es arbitrary: v)
  case (Cons e es)
  obtain k pnl now where e: "e = (k, pnl, now)" by (cases e) auto
  show ?case using Cons.IH[of "Some (wallet_note pnl now (case v of Some r \<Rightarrow> r | None \<Rightarrow> wallet_record_default))"]
      Cons.prems
    by (cases v) (simp_all add: e wallet_note_def wallet_record_default_def algebra_simps)
qed simp

lemma few_trades_not_smart:
  assumes "run_outcome wallet_step [] es = Inr st" "length (filter (\<lambda>e. fst e = addr_str w) es) < 4"
  shows "\<not> smart_entry addr_str ttl now st w"
proof -
  have run: "run_outcome (\<lambda>v e. wallet_entry_step e v) None (filter (\<lambda>e. fst e = addr_str w) es)
      = Inr (map_of st (addr_str w))"
    using wallet_ledger.run_project[OF _ assms(1), of "addr_str w"] by simp
  show ?thesis
  proof (cases "map_of st (addr_str w)")
    case (Some r)
    let ?n = "length (filter (\<lambda>e. fst e = addr_str w) es)"
    have "wr_trades r = of_nat ?n" using entry_run_trades[OF run] Some by simp
    moreover have "(of_nat ?n :: u64) < 4" using assms(2) by (simp add: word_less_nat_alt unat_of_nat)
    ultimately show ?thesis using Some by (simp add: smart_entry_def is_smart_def)
  qed (simp add: smart_entry_def)
qed

end
