(* ===== verification/Trading.thy ===== *)
theory Trading
  imports Pools
begin

text \<open>
  Model of \<^verbatim>\<open>src/trading/\<close>: the per-trader ledger (\<^verbatim>\<open>trader.rs\<close>) and the swarm of all traders of a
  token (\<^verbatim>\<open>swarm.rs\<close>), an actor whose state is a vector of ledgers in order of first appearance.

  A buy updates the average cost basis, scaled by the square of the token scale, in 128 bits; a
  sell charges the sold share of it against the proceeds. The lemmas show that the cost basis
  never charges more than was spent, hence that the realised profit is at least the proceeds
  minus the spending, for every history in which no trader sells more than it holds; that a
  sell beyond the holdings wraps the balance around; and that the swarm is a keyed table.
\<close>

section \<open>Trader\<close>

datatype trader_type = Creator | Sniper | Regular

record trader =
  current_holdings :: amount
  avg_cost_basis :: u128
  total_spent :: amount
  realized_pnl :: i64
  sell_proceeds_raw :: u64
  sell_event_count :: u32
  trader_type :: trader_type

definition trader_empty :: "trader_type \<Rightarrow> u8 \<Rightarrow> u8 \<Rightarrow> trader" where
  "trader_empty tt decimals paired_decimals =
     \<lparr>current_holdings = amount_from_raw 0 decimals, avg_cost_basis = 0,
      total_spent = amount_from_raw 0 paired_decimals, realized_pnl = 0,
      sell_proceeds_raw = 0, sell_event_count = 0, trader_type = tt\<rparr>"

definition trader_scale :: "trader \<Rightarrow> u128" where
  "trader_scale t = 10 ^ unat (amt_decimals (current_holdings t))"

definition trader_buy :: "trader \<Rightarrow> u64 \<Rightarrow> amount \<Rightarrow> trader outcome" where
  "trader_buy t bf received =
     bind_outcome (amount_add (current_holdings t) received) (\<lambda>new_holdings.
       if amt_value new_holdings = 0 then Inr t
       else
         bind_outcome (amount_add (total_spent t) (amount_from_raw bf (amt_decimals (total_spent t))))
           (\<lambda>spent. Inr (t\<lparr>avg_cost_basis :=
                (avg_cost_basis t * ucast (amt_value (current_holdings t))
                  + ucast bf * trader_scale t * trader_scale t) div ucast (amt_value new_holdings),
              current_holdings := new_holdings,
              total_spent := spent\<rparr>)))"

definition cost_of_sold :: "trader \<Rightarrow> amount \<Rightarrow> i64" where
  "cost_of_sold t sold =
     ucast (avg_cost_basis t * ucast (amt_value sold) div trader_scale t div trader_scale t)"

definition trader_sell :: "trader \<Rightarrow> amount \<Rightarrow> u64 \<Rightarrow> trader outcome" where
  "trader_sell t sold received =
     (if trader_scale t = 0 then Inl DivideByZero
      else bind_outcome (amount_sub (current_holdings t) sold) (\<lambda>rest.
        Inr (t\<lparr>realized_pnl := realized_pnl t + (received - cost_of_sold t sold),
               current_holdings := rest,
               sell_proceeds_raw := saturating_add (sell_proceeds_raw t) received,
               sell_event_count := saturating_add (sell_event_count t) 1\<rparr>)))"

fun trader_apply :: "trader \<Rightarrow> offer \<Rightarrow> trader outcome" where
  "trader_apply t (Buy bf received) = trader_buy t bf received"
| "trader_apply t (Sell sold received) = trader_sell t sold received"

definition pnl_percent :: "trader \<Rightarrow> f64" where
  "pnl_percent t =
     (if amt_value (total_spent t) = 0 then 0
      else int_to_f64 (sint (realized_pnl t)) / word_to_f64 (amt_value (total_spent t)) * f64_of 100)"

section \<open>Swarm\<close>

record swarm =
  traders :: "(address \<times> trader) list"
  max_token_supply :: amount
  sw_decimals :: u8
  decimals_quote :: u8

definition swarm_new :: "amount \<Rightarrow> u8 \<Rightarrow> u8 \<Rightarrow> swarm" where
  "swarm_new max_supply dec dec_quote =
     \<lparr>traders = [], max_token_supply = max_supply, sw_decimals = dec, decimals_quote = dec_quote\<rparr>"

text \<open>\<^verbatim>\<open>iter_mut().find\<close> updates the first entry with the address.\<close>

fun traders_apply :: "address \<Rightarrow> offer \<Rightarrow> (address \<times> trader) list \<Rightarrow> (address \<times> trader) list outcome"
  where
  "traders_apply a off [] = Inr []"
| "traders_apply a off ((b, t) # ts) =
     (if b = a then bind_outcome (trader_apply t off) (\<lambda>t'. Inr ((b, t') # ts))
      else bind_outcome (traders_apply a off ts) (\<lambda>ts'. Inr ((b, t) # ts')))"

definition swarm_find :: "swarm \<Rightarrow> address \<Rightarrow> trader option" where
  "swarm_find s a = map_of (traders s) a"

definition swarm_update :: "swarm \<Rightarrow> address \<Rightarrow> offer \<Rightarrow> trader_type \<Rightarrow> swarm outcome" where
  "swarm_update s a off tt =
     (case swarm_find s a of
        Some _ \<Rightarrow> bind_outcome (traders_apply a off (traders s)) (\<lambda>ts. Inr (s\<lparr>traders := ts\<rparr>))
      | None \<Rightarrow> bind_outcome (trader_apply (trader_empty tt (sw_decimals s) (decimals_quote s)) off)
          (\<lambda>t. Inr (s\<lparr>traders := traders s @ [(a, t)]\<rparr>)))"

definition traders_by_type :: "swarm \<Rightarrow> trader_type \<Rightarrow> (address \<times> trader) list" where
  "traders_by_type s tt = filter (\<lambda>(_, t). trader_type t = tt) (traders s)"

definition average_pln :: "swarm \<Rightarrow> trader_type \<Rightarrow> f64" where
  "average_pln s tt =
     (let filtered = map snd (traders_by_type s tt) in
      if filtered = [] then 0
      else foldl (+) 0 (map pnl_percent filtered) / nat_to_f64 (length filtered))"

section \<open>The swarm actor\<close>

datatype swarm_message =
    GetPnl trader_type
  | GetTrader address
  | GetAllTraders
  | UpdateTrader address offer trader_type
  | GetTraderTotalSpent address
  | GetTradersByType trader_type
  | GetQuoteDecimals
  | GetTraderPnl address

datatype swarm_reply =
    NoReply
  | RFloat f64
  | RTrader trader
  | RCount nat
  | RAmount amount
  | RTraders "(address \<times> trader) list"
  | RDecimals u8
  | RFloatOption "f64 option"

text \<open>
  One turn of \<^verbatim>\<open>SwarmActor::run\<close>: the new state and what is sent on the oneshot channel.
  \<open>NoReply\<close>: nothing is sent and the channel is dropped, which \<^verbatim>\<open>SwarmHandler::get_trader\<close> turns
  into \<^verbatim>\<open>None\<close>.
\<close>

fun swarm_handle :: "swarm \<Rightarrow> swarm_message \<Rightarrow> (swarm \<times> swarm_reply) outcome" where
  "swarm_handle s (GetPnl tt) = Inr (s, RFloat (average_pln s tt))"
| "swarm_handle s (GetTrader a) =
     Inr (s, case swarm_find s a of None \<Rightarrow> NoReply | Some t \<Rightarrow> RTrader t)"
| "swarm_handle s GetAllTraders = Inr (s, RCount (length (traders s)))"
| "swarm_handle s (UpdateTrader a off tt) =
     bind_outcome (swarm_update s a off tt) (\<lambda>s'. Inr (s', NoReply))"
| "swarm_handle s (GetTraderTotalSpent a) =
     Inr (s, RAmount (case swarm_find s a of None \<Rightarrow> amount_from_raw 0 (decimals_quote s)
                      | Some t \<Rightarrow> total_spent t))"
| "swarm_handle s (GetTradersByType tt) = Inr (s, RTraders (traders_by_type s tt))"
| "swarm_handle s GetQuoteDecimals = Inr (s, RDecimals (decimals_quote s))"
| "swarm_handle s (GetTraderPnl a) = Inr (s, RFloatOption (map_option pnl_percent (swarm_find s a)))"

lemmas trading_eval [model_eval] = trader_buy_def trader_sell_def trader_empty_def trader_scale_def
  cost_of_sold_def amount_add_def amount_sub_def amount_from_raw_def swarm_update_def swarm_find_def
  swarm_new_def saturating_add_def

section \<open>The cost basis never charges more than was spent\<close>

text \<open>
  The history of a trader stays inside the machine integers: amounts in the decimals of the
  ledger, totals below \<open>2 ^ 62\<close>, and no sell of more than the trader holds.
\<close>

fun offer_fits :: "trader \<Rightarrow> offer \<Rightarrow> bool" where
  "offer_fits t (Buy bf r) =
     (amt_decimals r = amt_decimals (current_holdings t) \<and>
      unat (amt_value (current_holdings t)) + unat (amt_value r) < 2 ^ 64 \<and>
      unat (amt_value (total_spent t)) + unat bf < 2 ^ 62)"
| "offer_fits t (Sell sold r) =
     (amt_decimals sold = amt_decimals (current_holdings t) \<and>
      amt_value sold \<le> amt_value (current_holdings t) \<and>
      unat (sell_proceeds_raw t) + unat r < 2 ^ 62)"

definition ledger_scale :: "trader \<Rightarrow> nat" where
  "ledger_scale t = 10 ^ unat (amt_decimals (current_holdings t))"

text \<open>\<open>c\<close> is the cost charged so far.\<close>

definition charged :: "trader \<Rightarrow> nat \<Rightarrow> bool" where
  "charged t c \<longleftrightarrow> realized_pnl t = word_of_int (int (unat (sell_proceeds_raw t)) - int c) \<and>
     c * (ledger_scale t * ledger_scale t)
       + unat (avg_cost_basis t) * unat (amt_value (current_holdings t))
     \<le> unat (amt_value (total_spent t)) * (ledger_scale t * ledger_scale t)"

definition ledger_inv :: "trader \<Rightarrow> bool" where
  "ledger_inv t \<longleftrightarrow> unat (amt_decimals (current_holdings t)) \<le> 9 \<and>
     unat (amt_value (total_spent t)) < 2 ^ 62 \<and> unat (sell_proceeds_raw t) < 2 ^ 62 \<and>
     (\<exists>c. charged t c)"

lemma unat_scale:
  "unat (amt_decimals (current_holdings t)) \<le> 9 \<Longrightarrow> unat (trader_scale t) = ledger_scale t"
proof -
  assume d: "unat (amt_decimals (current_holdings t)) \<le> 9"
  have "(10::nat) ^ unat (amt_decimals (current_holdings t)) \<le> 10 ^ 9"
    using d by (intro power_increasing) auto
  then have "(10::nat) ^ unat (amt_decimals (current_holdings t)) mod 2 ^ 128
      = 10 ^ unat (amt_decimals (current_holdings t))" by (intro mod_less) simp
  moreover have "(10::u128) ^ n = of_nat (10 ^ n)" for n by simp
  ultimately show ?thesis
    by (simp add: trader_scale_def ledger_scale_def unat_of_nat del: of_nat_power)
qed

lemma ledger_scale_bounds:
  assumes "unat (amt_decimals (current_holdings t)) \<le> 9"
  shows "0 < ledger_scale t" "ledger_scale t \<le> 10 ^ 9" "ledger_scale t * ledger_scale t \<le> 10 ^ 18"
proof -
  show b: "0 < ledger_scale t" "ledger_scale t \<le> 10 ^ 9"
    using assms unfolding ledger_scale_def by (simp, intro power_increasing) auto
  then have "ledger_scale t * ledger_scale t \<le> 10 ^ 9 * 10 ^ 9" by (intro mult_mono) auto
  then show "ledger_scale t * ledger_scale t \<le> 10 ^ 18" by simp
qed

lemma mult_scale_bound: "a < 2 ^ 62 \<Longrightarrow> m \<le> 10 ^ 18 \<Longrightarrow> a * m < (2 ^ 122 :: nat)"
proof -
  assume "a < 2 ^ 62" "m \<le> 10 ^ 18"
  then have "a * m \<le> 2 ^ 62 * 10 ^ 18" by (intro mult_mono) auto
  then show ?thesis by simp
qed

lemma unat_add_u128: "unat a + unat b < 2 ^ 128 \<Longrightarrow> unat (a + b) = unat a + unat b" for a b :: u128
  by (simp add: unat_word_ariths)

lemma unat_mult_u128: "unat a * unat b < 2 ^ 128 \<Longrightarrow> unat (a * b) = unat a * unat b" for a b :: u128
  by (simp add: unat_word_ariths)

text \<open>The new average, read as a natural number: nothing overflows.\<close>

lemma unat_new_average:
  assumes inv: "ledger_inv t" and bf: "unat (bf :: u64) < 2 ^ 62"
  shows "unat ((avg_cost_basis t * ucast (amt_value (current_holdings t))
           + ucast bf * trader_scale t * trader_scale t) div (ucast (nh :: u64) :: u128))
     = (unat (avg_cost_basis t) * unat (amt_value (current_holdings t))
           + unat bf * (ledger_scale t * ledger_scale t)) div unat nh"
proof -
  let ?h = "unat (amt_value (current_holdings t))" and ?S = "ledger_scale t"
  have d: "unat (amt_decimals (current_holdings t)) \<le> 9" and sp: "unat (amt_value (total_spent t)) < 2 ^ 62"
    using inv by (auto simp: ledger_inv_def)
  note S = ledger_scale_bounds[OF d]
  have "unat (avg_cost_basis t) * ?h \<le> unat (amt_value (total_spent t)) * (?S * ?S)"
    using inv by (auto simp: ledger_inv_def charged_def)
  then have ah: "unat (avg_cost_basis t) * ?h < 2 ^ 122"
    using mult_scale_bound[OF sp S(3)] by linarith
  have bs: "unat bf * (?S * ?S) < 2 ^ 122" using bf S(3) by (rule mult_scale_bound)
  have "unat bf * ?S \<le> unat bf * (?S * ?S)" using S(1) by simp
  then have bs1: "unat bf * ?S < 2 ^ 122" using bs by linarith
  have m1: "unat (avg_cost_basis t * ucast (amt_value (current_holdings t))) = unat (avg_cost_basis t) * ?h"
    using ah by (subst unat_mult_u128) (auto simp: unat_ucast_u128)
  have m2: "unat (ucast bf * trader_scale t) = unat bf * ?S"
    using bs1 by (subst unat_mult_u128) (auto simp: unat_ucast_u128 unat_scale[OF d])
  have m3: "unat (ucast bf * trader_scale t * trader_scale t) = unat bf * (?S * ?S)"
    using bs by (subst unat_mult_u128) (auto simp: m2 unat_scale[OF d] mult.assoc)
  show ?thesis using ah bs by (simp add: unat_div unat_ucast_u128 unat_add_u128 m1 m3)
qed

lemma buy_keeps_ledger:
  assumes inv: "ledger_inv t" and ok: "offer_fits t (Buy bf r)" and ap: "trader_buy t bf r = Inr t'"
  shows "ledger_inv t'"
proof -
  let ?h = "unat (amt_value (current_holdings t))" and ?S2 = "ledger_scale t * ledger_scale t"
  define nh where "nh = amt_value (current_holdings t) + amt_value r"
  have nh: "unat nh = ?h + unat (amt_value r)" using ok by (simp add: nh_def unat_word_ariths)
  show ?thesis
  proof (cases "nh = 0")
    case True then show ?thesis using ap ok inv by (simp add: trader_buy_def amount_add_def nh_def)
  next
    case False
    define avg where "avg = (avg_cost_basis t * ucast (amt_value (current_holdings t))
           + ucast bf * trader_scale t * trader_scale t) div (ucast nh :: u128)"
    define sp where "sp = amt_value (total_spent t) + bf"
    have t': "t' = t\<lparr>avg_cost_basis := avg,
        current_holdings := \<lparr>amt_value = nh, amt_decimals = amt_decimals (current_holdings t)\<rparr>,
        total_spent := \<lparr>amt_value = sp, amt_decimals = amt_decimals (total_spent t)\<rparr>\<rparr>"
      using ap ok False
      by (simp add: trader_buy_def amount_add_def amount_from_raw_def avg_def sp_def nh_def)
    have spv: "unat sp = unat (amt_value (total_spent t)) + unat bf"
      using ok by (simp add: sp_def unat_word_ariths)
    have "unat avg * unat nh \<le> unat (avg_cost_basis t) * ?h + unat bf * ?S2"
      using unat_new_average[OF inv, of bf nh] ok by (simp add: avg_def)
    moreover obtain c where c: "charged t c" using inv by (auto simp: ledger_inv_def)
    ultimately have "charged t' c"
      by (simp add: charged_def t' ledger_scale_def spv add_mult_distrib)
    then show ?thesis using inv ok spv by (auto simp: ledger_inv_def t')
  qed
qed

lemma unat_cost_of_sold:
  assumes inv: "ledger_inv t" and le: "amt_value sold \<le> amt_value (current_holdings t)"
  shows "unat (cost_of_sold t sold) =
      unat (avg_cost_basis t) * unat (amt_value sold) div (ledger_scale t * ledger_scale t)"
    and "unat (cost_of_sold t sold) \<le> unat (amt_value (total_spent t))"
proof -
  let ?S = "ledger_scale t" and ?q = "unat (avg_cost_basis t) * unat (amt_value sold)"
  have d: "unat (amt_decimals (current_holdings t)) \<le> 9" and sp: "unat (amt_value (total_spent t)) < 2 ^ 62"
    using inv by (auto simp: ledger_inv_def)
  note S = ledger_scale_bounds[OF d]
  have "?q \<le> unat (avg_cost_basis t) * unat (amt_value (current_holdings t))"
    using le by (simp add: word_le_nat_alt)
  also have "\<dots> \<le> unat (amt_value (total_spent t)) * (?S * ?S)"
    using inv by (auto simp: ledger_inv_def charged_def)
  finally have q: "?q \<le> unat (amt_value (total_spent t)) * (?S * ?S)" .
  then have "?q < 2 ^ 122" using mult_scale_bound[OF sp S(3)] by linarith
  then have m: "unat (avg_cost_basis t * ucast (amt_value sold)) = ?q"
    by (subst unat_mult_u128) (auto simp: unat_ucast_u128)
  have c: "?q div (?S * ?S) \<le> unat (amt_value (total_spent t))"
    using div_le_mono[OF q, of "?S * ?S"] S(1) by simp
  then have "?q div (?S * ?S) mod 2 ^ 64 = ?q div (?S * ?S)" using sp by (intro mod_less) simp
  then show e: "unat (cost_of_sold t sold) = ?q div (?S * ?S)"
    by (simp add: cost_of_sold_def unat_ucast_u64 unat_div m unat_scale[OF d] div_mult2_eq)
  show "unat (cost_of_sold t sold) \<le> unat (amt_value (total_spent t))" using c e by simp
qed

lemma sell_keeps_ledger:
  assumes inv: "ledger_inv t" and ok: "offer_fits t (Sell sold r)" and ap: "trader_sell t sold r = Inr t'"
  shows "ledger_inv t'"
proof -
  let ?h = "unat (amt_value (current_holdings t))" and ?S2 = "ledger_scale t * ledger_scale t"
  let ?k = "unat (cost_of_sold t sold)"
  have d: "unat (amt_decimals (current_holdings t)) \<le> 9" using inv by (simp add: ledger_inv_def)
  have le: "amt_value sold \<le> amt_value (current_holdings t)" using ok by simp
  define pr where "pr = saturating_add (sell_proceeds_raw t) r"
  have pr: "unat pr = unat (sell_proceeds_raw t) + unat r"
    using ok by (simp add: pr_def unat_saturating_add)
  define nh where "nh = amt_value (current_holdings t) - amt_value sold"
  have nh: "unat nh = ?h - unat (amt_value sold)" using le by (simp add: nh_def unat_sub)
  have t': "t' = t\<lparr>realized_pnl := realized_pnl t + (r - cost_of_sold t sold),
       current_holdings := \<lparr>amt_value = nh, amt_decimals = amt_decimals (current_holdings t)\<rparr>,
       sell_proceeds_raw := pr, sell_event_count := saturating_add (sell_event_count t) 1\<rparr>"
    using ap ok by (auto simp: trader_sell_def amount_sub_def nh_def pr_def split: if_splits)
  obtain c where c: "charged t c" using inv by (auto simp: ledger_inv_def)
  have "(r - cost_of_sold t sold :: 64 word) = word_of_int (int (unat r) - int ?k)"
    by (simp add: word_of_int_minus)
  then have "realized_pnl t' = word_of_int (int (unat (sell_proceeds_raw t)) - int c + (int (unat r) - int ?k))"
    using c by (simp add: charged_def t' wi_hom_add)
  also have "\<dots> = word_of_int (int (unat pr) - int (c + ?k))" by (simp add: pr algebra_simps)
  finally have pnl: "realized_pnl t' = word_of_int (int (unat pr) - int (c + ?k))" .
  have "?k * ?S2 \<le> unat (avg_cost_basis t) * unat (amt_value sold)"
    using unat_cost_of_sold(1)[OF inv le] by simp
  moreover have "unat (avg_cost_basis t) * unat nh + unat (avg_cost_basis t) * unat (amt_value sold)
      = unat (avg_cost_basis t) * ?h"
    using nh le by (simp add: word_le_nat_alt flip: add_mult_distrib2)
  ultimately have "(c + ?k) * ?S2 + unat (avg_cost_basis t) * unat nh
      \<le> unat (amt_value (total_spent t)) * ?S2"
    using c by (simp add: charged_def add_mult_distrib)
  then have "charged t' (c + ?k)" using pnl by (simp add: charged_def t' ledger_scale_def)
  then show ?thesis using inv ok pr by (auto simp: ledger_inv_def t')
qed

lemma trader_apply_returns:
  assumes "ledger_inv t" "offer_fits t off" shows "returns (trader_apply t off)"
proof -
  have d: "unat (amt_decimals (current_holdings t)) \<le> 9" using assms by (simp add: ledger_inv_def)
  have "trader_scale t \<noteq> 0" using unat_scale[OF d] ledger_scale_bounds(1)[OF d] by auto
  then show ?thesis using assms(2)
    by (cases off) (auto simp: trader_buy_def trader_sell_def amount_add_def amount_sub_def
        amount_from_raw_def)
qed

interpretation ledger: total_machine trader_apply offer_fits ledger_inv
proof unfold_locales
  fix s e s' assume "ledger_inv s" "offer_fits s e" "trader_apply s e = Inr s'"
  then show "ledger_inv s'" by (cases e) (auto intro: buy_keeps_ledger sell_keeps_ledger)
qed (rule trader_apply_returns)

lemma ledger_inv_empty: "ledger_inv (trader_empty tt 6 9)"
proof -
  have "charged (trader_empty tt 6 9) 0"
    by (simp add: charged_def trader_empty_def amount_from_raw_def)
  then show ?thesis by (auto simp: ledger_inv_def trader_empty_def amount_from_raw_def)
qed

lemma charged_le_spent:
  assumes "ledger_inv t" "charged t c" shows "c \<le> unat (amt_value (total_spent t))"
proof -
  have d: "unat (amt_decimals (current_holdings t)) \<le> 9" using assms by (simp add: ledger_inv_def)
  have "c * (ledger_scale t * ledger_scale t)
      \<le> unat (amt_value (total_spent t)) * (ledger_scale t * ledger_scale t)"
    using assms(2) unfolding charged_def by linarith
  then show ?thesis using ledger_scale_bounds(1)[OF d] by simp
qed

lemma sint_word_of_int_small:
  "- (2 ^ 63) \<le> k \<Longrightarrow> k < 2 ^ 63 \<Longrightarrow> sint (word_of_int k :: i64) = k"
  by (simp add: signed_of_int signed_take_bit_int_eq_self)

lemma sint_diff_small:
  "a < 2 ^ 62 \<Longrightarrow> c < 2 ^ 62 \<Longrightarrow> sint (word_of_int (int a - int c) :: i64) = int a - int c" for a c :: nat
  by (intro sint_word_of_int_small) auto

lemma ledger_pnl_bounds:
  assumes inv: "ledger_inv t"
  shows "int (unat (sell_proceeds_raw t)) - int (unat (amt_value (total_spent t))) \<le> sint (realized_pnl t)
    \<and> sint (realized_pnl t) \<le> int (unat (sell_proceeds_raw t))"
proof -
  obtain c where c: "charged t c" using inv by (auto simp: ledger_inv_def)
  have le: "c \<le> unat (amt_value (total_spent t))" using inv c by (rule charged_le_spent)
  have b: "unat (amt_value (total_spent t)) < 2 ^ 62" "unat (sell_proceeds_raw t) < 2 ^ 62"
    using inv by (auto simp: ledger_inv_def)
  have "sint (word_of_int (int (unat (sell_proceeds_raw t)) - int c) :: i64)
      = int (unat (sell_proceeds_raw t)) - int c"
    using b le by (intro sint_diff_small) linarith+
  then have "sint (realized_pnl t) = int (unat (sell_proceeds_raw t)) - int c"
    using c by (simp only: charged_def)
  moreover have "int c \<le> int (unat (amt_value (total_spent t)))" using le by (simp only: of_nat_le_iff)
  ultimately show ?thesis by linarith
qed

text \<open>Whatever sequence of buys and sells a trader makes within its holdings, the ledger never
  panics and its realised profit lies between the proceeds minus everything spent and the
  proceeds: the 128-bit average cost never charges more cost than the trader paid.\<close>

theorem trader_profit_bounds:
  assumes "run_ok trader_apply offer_fits (trader_empty tt 6 9) offers"
  shows "\<exists>t. run_outcome trader_apply (trader_empty tt 6 9) offers = Inr t \<and>
    int (unat (sell_proceeds_raw t)) - int (unat (amt_value (total_spent t))) \<le> sint (realized_pnl t) \<and>
    sint (realized_pnl t) \<le> int (unat (sell_proceeds_raw t))"
  using ledger.run_returns[OF ledger_inv_empty assms] ledger_pnl_bounds by blast

lemma trader_profit_bounds_witness:
  "\<exists>t. run_outcome trader_apply (trader_empty Regular 6 9)
      [Buy 1000000000 (amount_from_raw 35000000000000 6), Sell (amount_from_raw 35000000000000 6) 1500000000]
      = Inr t \<and>
    int (unat (sell_proceeds_raw t)) - int (unat (amt_value (total_spent t))) \<le> sint (realized_pnl t) \<and>
    sint (realized_pnl t) \<le> int (unat (sell_proceeds_raw t))"
  by (rule trader_profit_bounds) (simp add: trading_eval)

text \<open>A trader that sells tokens the ledger has not seen it buy (received by a transfer, say) ends
  with a holding that has wrapped around to just below 2^64 raw units, so it counts as a holder.\<close>

theorem trader_oversell_wraps:
  assumes "0 < x"
  shows "\<exists>t. trader_apply (trader_empty tt 6 9) (Sell (amount_from_raw x 6) r) = Inr t \<and>
    unat (amt_value (current_holdings t)) = 2 ^ 64 - unat x"
proof -
  have "0 < unat x" using assms by (simp add: word_less_nat_alt)
  then have "unat (0 - x) = 2 ^ 64 - unat x" by (subst unat_sub_if') simp
  moreover have "(10::u128) ^ 6 \<noteq> 0" by simp
  ultimately show ?thesis
    by (simp add: trader_sell_def trader_empty_def trader_scale_def amount_from_raw_def amount_sub_def)
qed

lemma trader_oversell_wraps_witness:
  "\<exists>t. trader_apply (trader_empty Regular 6 9) (Sell (amount_from_raw 5 6) 7) = Inr t \<and>
    unat (amt_value (current_holdings t)) = 2 ^ 64 - unat (5 :: u64)"
  by (rule trader_oversell_wraps) simp

section \<open>The swarm is a keyed table of ledgers\<close>

type_synonym trade_report = "address \<times> offer \<times> trader_type"

fun swarm_step :: "swarm \<Rightarrow> trade_report \<Rightarrow> swarm outcome" where
  "swarm_step s (a, off, tt) = swarm_update s a off tt"

fun ledger_step :: "trade_report \<Rightarrow> trader option \<Rightarrow> trader option outcome" where
  "ledger_step (a, off, tt) v =
     bind_outcome (trader_apply (case v of None \<Rightarrow> trader_empty tt 6 9 | Some t \<Rightarrow> t) off)
       (\<lambda>t. Inr (Some t))"

definition pump_swarm :: "swarm \<Rightarrow> bool" where
  "pump_swarm s \<longleftrightarrow> sw_decimals s = 6 \<and> decimals_quote s = 9 \<and> distinct (map fst (traders s))"

lemma traders_apply_keys: "traders_apply a off ts = Inr ts' \<Longrightarrow> map fst ts' = map fst ts"
  by (induction a off ts arbitrary: ts' rule: traders_apply.induct)
     (auto simp: bind_outcome_Inr_iff split: if_splits)

lemma traders_apply_lookup:
  "traders_apply a off ts = Inr ts' \<Longrightarrow> k \<noteq> a \<Longrightarrow> map_of ts' k = map_of ts k"
  "traders_apply a off ts = Inr ts' \<Longrightarrow> map_of ts a = Some t \<Longrightarrow>
     \<exists>t'. trader_apply t off = Inr t' \<and> map_of ts' a = Some t'"
  by (induction a off ts arbitrary: ts' rule: traders_apply.induct)
     (auto simp: bind_outcome_Inr_iff split: if_splits)

lemma swarm_update_cases:
  assumes "swarm_update s a off tt = Inr s'"
  obtains (known) t ts where "swarm_find s a = Some t" "traders_apply a off (traders s) = Inr ts"
      "s' = s\<lparr>traders := ts\<rparr>"
    | (new) t where "swarm_find s a = None"
      "trader_apply (trader_empty tt (sw_decimals s) (decimals_quote s)) off = Inr t"
      "s' = s\<lparr>traders := traders s @ [(a, t)]\<rparr>"
  using assms
  by (auto simp: swarm_update_def bind_outcome_Inr_iff split: option.splits)

lemma swarm_find_iff: "swarm_find s a = None \<longleftrightarrow> a \<notin> set (map fst (traders s))"
  by (simp add: swarm_find_def map_of_eq_None_iff)

lemma swarm_update_keys:
  assumes "swarm_update s a off tt = Inr s'"
  shows "set (map fst (traders s')) = insert a (set (map fst (traders s))) \<and>
    (distinct (map fst (traders s)) \<longrightarrow> distinct (map fst (traders s'))) \<and>
    sw_decimals s' = sw_decimals s \<and> decimals_quote s' = decimals_quote s"
  using assms
proof (cases rule: swarm_update_cases)
  case (known t ts)
  then have "a \<in> set (map fst (traders s))" using swarm_find_iff[of s a] by auto
  moreover have "map fst ts = map fst (traders s)" using known(2) by (rule traders_apply_keys)
  ultimately show ?thesis using known(3) by (simp add: insert_absorb del: set_map)
next
  case (new t)
  then have "a \<notin> set (map fst (traders s))" using swarm_find_iff[of s a] by auto
  then show ?thesis using new(3) by simp
qed

interpretation swarm_table: keyed_machine swarm_step fst swarm_find ledger_step pump_swarm
proof unfold_locales
  fix s e s' assume g: "pump_swarm s" and st: "swarm_step s e = Inr s'"
  obtain a off tt where e: "e = (a, off, tt)" by (cases e)
  from st have up: "swarm_update s a off tt = Inr s'" by (simp add: e)
  show "pump_swarm s'" using g swarm_update_keys[OF up] by (simp add: pump_swarm_def)
  show "ledger_step e (swarm_find s (fst e)) = Inr (swarm_find s' (fst e))"
    using up
  proof (cases rule: swarm_update_cases)
    case (known t ts)
    then show ?thesis using traders_apply_lookup(2)[OF known(2)]
      by (auto simp: e swarm_find_def)
  next
    case (new t)
    then show ?thesis using g by (simp add: e swarm_find_def pump_swarm_def map_add_def)
  qed
  show "swarm_find s' k = swarm_find s k" if "k \<noteq> fst e" for k
    using up
  proof (cases rule: swarm_update_cases)
    case (known t ts)
    then show ?thesis using traders_apply_lookup(1)[OF known(2)] that by (simp add: e swarm_find_def)
  next
    case (new t)
    then show ?thesis using that by (auto simp: e swarm_find_def map_add_def split: option.split)
  qed
qed

lemma pump_swarm_new: "pump_swarm (swarm_new m 6 9)"
  by (simp add: pump_swarm_def swarm_new_def)

text \<open>The ledger the swarm keeps for an address is the one its own trades produce, in order,
  from an empty ledger; trades of other addresses in between do not matter.\<close>

theorem swarm_ledger_is_own_history:
  assumes "run_outcome swarm_step (swarm_new m 6 9) es = Inr s'"
  shows "run_outcome (\<lambda>v e. ledger_step e v) None (filter (\<lambda>e. fst e = a) es) = Inr (swarm_find s' a)"
  using swarm_table.run_project[OF pump_swarm_new assms, of a]
  by (simp add: swarm_find_def swarm_new_def)

lemma swarm_ledger_is_own_history_witness:
  "\<exists>s'. run_outcome swarm_step (swarm_new (amount_from_raw 1000000000 6) 6 9)
      [(1, Buy 5 (amount_from_raw 10 6), Sniper), (2, Buy 6 (amount_from_raw 20 6), Regular),
       (1, Sell (amount_from_raw 4 6) 3, Regular)] = Inr s' \<and>
    run_outcome (\<lambda>v e. ledger_step e v) None
      [(1, Buy 5 (amount_from_raw 10 6), Sniper), (1, Sell (amount_from_raw 4 6) 3, Regular)]
      = Inr (swarm_find s' 1)"
proof -
  let ?es = "[(1, Buy 5 (amount_from_raw 10 6), Sniper), (2, Buy 6 (amount_from_raw 20 6), Regular),
       (1, Sell (amount_from_raw 4 6) 3, Regular)] :: trade_report list"
  have "returns (run_outcome swarm_step (swarm_new (amount_from_raw 1000000000 6) 6 9) ?es)"
    by (simp add: trading_eval)
  then obtain s' where "run_outcome swarm_step (swarm_new (amount_from_raw 1000000000 6) 6 9) ?es = Inr s'"
    by (auto simp: returns_iff)
  then show ?thesis using swarm_ledger_is_own_history[of _ ?es s' 1] by auto
qed

text \<open>The number of holders is the number of distinct addresses seen.\<close>

lemma swarm_run_addresses:
  assumes "run_outcome swarm_step s es = Inr s'" "distinct (map fst (traders s))"
  shows "distinct (map fst (traders s')) \<and>
    set (map fst (traders s')) = set (map fst (traders s)) \<union> set (map fst es)"
  using assms
proof (induction es arbitrary: s)
  case (Cons e es)
  obtain a off tt where e: "e = (a, off, tt)" by (cases e)
  from Cons.prems obtain s1 where s1: "swarm_update s a off tt = Inr s1"
      "run_outcome swarm_step s1 es = Inr s'" by (auto simp: e bind_outcome_Inr_iff)
  have "distinct (map fst (traders s1))" using swarm_update_keys[OF s1(1)] Cons.prems(2) by simp
  from Cons.IH[OF s1(2) this] swarm_update_keys[OF s1(1)] show ?case by (auto simp: e)
qed simp

lemma swarm_holder_count:
  assumes "run_outcome swarm_step (swarm_new m 6 9) es = Inr s'"
  shows "swarm_handle s' GetAllTraders = Inr (s', RCount (card (fst ` set es)))"
proof -
  have "distinct (map fst (traders s'))" "set (map fst (traders s')) = fst ` set es"
    using swarm_run_addresses[OF assms] by (auto simp: swarm_new_def)
  then show ?thesis using distinct_card[of "map fst (traders s')"] by simp
qed

end
