(* ===== verification/Launchpad.thy ===== *)
theory Launchpad
  imports Trading
begin

text \<open>
  Model of \<^verbatim>\<open>src/launchpads/token_bucket.rs\<close> and \<^verbatim>\<open>src/launchpads/pump/launchpad.rs\<close>: the storage of
  all tokens seen, keyed by the derived address of the AMM pool of their mint, and the actor that
  feeds the pump.fun events into it. A bucket holds the pool and the swarm of a token; the swarm
  is an actor behind a FIFO channel, and its state here is the one after all messages sent to it.

  \<open>pool_pda\<close> and \<open>bounding_curve\<close> are the address derivations of the Solana SDK (parameters).
\<close>

record token_bucket =
  tb_pool :: pool
  tb_swarm :: swarm
  tb_created_at :: u64

definition bucket_new :: "pool \<Rightarrow> amount \<Rightarrow> u64 \<Rightarrow> token_bucket" where
  "bucket_new p max_supply created_at =
     \<lparr>tb_pool = p, tb_swarm = swarm_new max_supply (pool_token_decimals p) (pool_quote_decimals p),
      tb_created_at = created_at\<rparr>"

definition bucket_update_pool :: "token_bucket \<Rightarrow> pump_event \<Rightarrow> token_bucket" where
  "bucket_update_pool b e = b\<lparr>tb_pool := pool_update (tb_pool b) e\<rparr>"

definition bucket_update_swarm ::
  "token_bucket \<Rightarrow> address \<Rightarrow> offer \<Rightarrow> trader_type \<Rightarrow> token_bucket outcome" where
  "bucket_update_swarm b a off tt =
     bind_outcome (swarm_update (tb_swarm b) a off tt) (\<lambda>s. Inr (b\<lparr>tb_swarm := s\<rparr>))"

record launchpad =
  lp_tokens :: "address \<rightharpoonup> token_bucket"
  lp_sniper_threshold :: u64

definition launchpad_new :: "u64 \<Rightarrow> launchpad" where
  "launchpad_new threshold = \<lparr>lp_tokens = Map.empty, lp_sniper_threshold = threshold\<rparr>"

text \<open>The role of a trader: a later test overrides an earlier one; the slot difference wraps.\<close>

definition trade_role :: "u64 \<Rightarrow> u64 \<Rightarrow> token_bucket \<Rightarrow> address \<Rightarrow> trader_type" where
  "trade_role threshold slot b user =
     (let role = (if slot - tb_created_at b < threshold then Sniper else Regular)
      in if user \<in> set (pool_creators (tb_pool b)) then Creator else role)"

text \<open>The result carries whether the \<^verbatim>\<open>finish\<close> channel is signalled.\<close>

fun react :: "(address \<Rightarrow> address) \<Rightarrow> (address \<Rightarrow> address) \<Rightarrow> launchpad \<Rightarrow> u64 \<Rightarrow> pump_event
    \<Rightarrow> (launchpad \<times> bool) outcome" where
  "react pool_pda bounding_curve lp slot (Create e) =
     Inr (lp\<lparr>lp_tokens := (lp_tokens lp)(pool_pda (ce_mint e) \<mapsto>
            bucket_new (BondingPool (bonding_new bounding_curve (ce_mint e) (ce_creator e)))
              (amount_from_raw 1000000000 PRECISION) slot)\<rparr>, True)"
| "react pool_pda bounding_curve lp slot (TradeEvent e) =
     (case lp_tokens lp (pool_pda (te_mint e)) of
        None \<Rightarrow> Inr (lp, False)
      | Some b \<Rightarrow>
          let role = trade_role (lp_sniper_threshold lp) slot b (te_user e);
              b' = bucket_update_pool b (TradeEvent e)
          in bind_outcome (bucket_update_swarm b' (te_user e) (offer_of (trade_action_of e)) role)
               (\<lambda>b''. Inr (lp\<lparr>lp_tokens := (lp_tokens lp)(pool_pda (te_mint e) \<mapsto> b'')\<rparr>, True)))"

datatype launchpad_command =
    GetMint address
  | Event u64 pump_event
  | GetBucket address
  | TokenExists address

datatype launchpad_reply =
    LNone
  | LMint "address option"
  | LFinished
  | LBucket token_bucket
  | LExists bool

fun launchpad_listen :: "(address \<Rightarrow> address) \<Rightarrow> (address \<Rightarrow> address) \<Rightarrow> launchpad \<Rightarrow> launchpad_command
    \<Rightarrow> (launchpad \<times> launchpad_reply) outcome" where
  "launchpad_listen pool_pda bc lp (GetMint amm) =
     Inr (lp, LMint (map_option (pool_mint \<circ> tb_pool) (lp_tokens lp amm)))"
| "launchpad_listen pool_pda bc lp (Event slot e) =
     bind_outcome (react pool_pda bc lp slot e)
       (\<lambda>(lp', done). Inr (lp', if done then LFinished else LNone))"
| "launchpad_listen pool_pda bc lp (GetBucket mint) =
     Inr (lp, case lp_tokens lp (pool_pda mint) of None \<Rightarrow> LNone | Some b \<Rightarrow> LBucket b)"
| "launchpad_listen pool_pda bc lp (TokenExists mint) =
     Inr (lp, LExists (lp_tokens lp (pool_pda mint) \<noteq> None))"

text \<open>The storage after a command, without the reply.\<close>

definition launchpad_step :: "(address \<Rightarrow> address) \<Rightarrow> (address \<Rightarrow> address) \<Rightarrow> launchpad
    \<Rightarrow> launchpad_command \<Rightarrow> launchpad outcome" where
  "launchpad_step pool_pda bc lp c =
     bind_outcome (launchpad_listen pool_pda bc lp c) (\<lambda>r. Inr (fst r))"

section \<open>The storage stays well formed and never panics\<close>

definition bucket_ok :: "token_bucket \<Rightarrow> bool" where
  "bucket_ok b \<longleftrightarrow> pump_swarm (tb_swarm b) \<and>
     (\<forall>(a, t) \<in> set (traders (tb_swarm b)). amt_decimals (current_holdings t) = 6)"

definition launchpad_ok :: "(address \<Rightarrow> address) \<Rightarrow> launchpad \<Rightarrow> bool" where
  "launchpad_ok pool_pda lp \<longleftrightarrow>
     (\<forall>k b. lp_tokens lp k = Some b \<longrightarrow> pool_pda (pool_mint (tb_pool b)) = k \<and> bucket_ok b)"

definition offer_decimals :: "offer \<Rightarrow> u8" where
  "offer_decimals off = (case off of Buy _ r \<Rightarrow> amt_decimals r | Sell s _ \<Rightarrow> amt_decimals s)"

lemma offer_decimals_trade [simp]: "offer_decimals (offer_of (trade_action_of e)) = 6"
  by (simp add: offer_decimals_def trade_action_of_def amount_from_raw_def PRECISION_def)

lemma trader_apply_decimals:
  assumes "amt_decimals (current_holdings t) = 6" "offer_decimals off = 6"
  shows "\<exists>t'. trader_apply t off = Inr t' \<and> amt_decimals (current_holdings t') = 6"
  using assms
  by (cases off) (auto simp: offer_decimals_def trader_buy_def trader_sell_def amount_add_def
      amount_sub_def amount_from_raw_def trader_scale_def)

lemma traders_apply_decimals:
  assumes "\<forall>(b, t) \<in> set ts. amt_decimals (current_holdings t) = 6" "offer_decimals off = 6"
  shows "\<exists>ts'. traders_apply a off ts = Inr ts' \<and>
    (\<forall>(b, t) \<in> set ts'. amt_decimals (current_holdings t) = 6)"
  using assms
proof (induction a off ts rule: traders_apply.induct)
  case (2 a off b t ts)
  then show ?case using trader_apply_decimals[of t off] by (cases "b = a") auto
qed simp

lemma bucket_update_swarm_ok:
  assumes ok: "bucket_ok b" and off: "offer_decimals off = 6"
  shows "\<exists>b'. bucket_update_swarm b a off tt = Inr b' \<and> bucket_ok b' \<and> tb_pool b' = tb_pool b"
proof -
  let ?s = "tb_swarm b"
  have ps: "pump_swarm ?s" and ts: "\<forall>(c, t) \<in> set (traders ?s). amt_decimals (current_holdings t) = 6"
    using ok by (auto simp: bucket_ok_def)
  have "\<exists>s'. swarm_update ?s a off tt = Inr s' \<and>
      (\<forall>(c, t) \<in> set (traders s'). amt_decimals (current_holdings t) = 6)"
  proof (cases "swarm_find ?s a")
    case None
    have "\<exists>t. trader_apply (trader_empty tt (sw_decimals ?s) (decimals_quote ?s)) off = Inr t
        \<and> amt_decimals (current_holdings t) = 6"
      using ps off by (intro trader_apply_decimals)
        (auto simp: trader_empty_def amount_from_raw_def pump_swarm_def)
    then show ?thesis using None ts by (auto simp: swarm_update_def)
  next
    case (Some t)
    then show ?thesis using traders_apply_decimals[OF ts off, of a] by (auto simp: swarm_update_def)
  qed
  then obtain s' where s': "swarm_update ?s a off tt = Inr s'"
    "\<forall>(c, t) \<in> set (traders s'). amt_decimals (current_holdings t) = 6" by blast
  then have "pump_swarm s'" using swarm_update_keys[OF s'(1)] ps by (simp add: pump_swarm_def)
  then show ?thesis using s' by (simp add: bucket_update_swarm_def bucket_ok_def)
qed

lemma bucket_new_ok: "bucket_ok (bucket_new p m slot)"
  by (simp add: bucket_ok_def bucket_new_def swarm_new_def pump_swarm_def pool_token_decimals_def
      pool_quote_decimals_def)

lemma react_ok:
  assumes "launchpad_ok pool_pda lp"
  shows "\<exists>lp' fin. react pool_pda bc lp slot e = Inr (lp', fin) \<and> launchpad_ok pool_pda lp'"
proof (cases e)
  case (Create c)
  then show ?thesis using assms bucket_new_ok
    by (auto simp: launchpad_ok_def bucket_new_def bonding_new_def)
next
  case (TradeEvent t)
  show ?thesis
  proof (cases "lp_tokens lp (pool_pda (te_mint t))")
    case None then show ?thesis using TradeEvent assms by (auto intro: exI[of _ False])
  next
    case (Some b)
    let ?b = "bucket_update_pool b (TradeEvent t)"
    have b: "bucket_ok b" "pool_pda (pool_mint (tb_pool b)) = pool_pda (te_mint t)"
      using assms Some by (auto simp: launchpad_ok_def)
    then have "bucket_ok ?b" by (simp add: bucket_ok_def bucket_update_pool_def)
    from bucket_update_swarm_ok[OF this offer_decimals_trade]
    obtain b' where "bucket_update_swarm ?b (te_user t) (offer_of (trade_action_of t))
        (trade_role (lp_sniper_threshold lp) slot b (te_user t)) = Inr b'" "bucket_ok b'"
        "tb_pool b' = tb_pool ?b" by blast
    then show ?thesis using TradeEvent Some assms b
      by (auto simp: launchpad_ok_def bucket_update_pool_def Let_def)
  qed
qed

lemma launchpad_step_ok:
  assumes "launchpad_ok pool_pda lp"
  shows "\<exists>lp'. launchpad_step pool_pda bc lp c = Inr lp' \<and> launchpad_ok pool_pda lp'"
proof (cases c)
  case (Event slot e)
  then show ?thesis using react_ok[OF assms, of bc slot e] by (auto simp: launchpad_step_def)
qed (auto simp: launchpad_step_def assms)

interpretation launchpad_actor: total_machine "launchpad_step pool_pda bc" "\<lambda>_ _. True"
  "launchpad_ok pool_pda" for pool_pda bc
proof unfold_locales
  fix s e assume ok: "launchpad_ok pool_pda s"
  from launchpad_step_ok[OF ok, of bc e] show "returns (launchpad_step pool_pda bc s e)"
    by (auto simp: returns_iff)
  fix s' assume "launchpad_step pool_pda bc s e = Inr s'"
  then show "launchpad_ok pool_pda s'" using launchpad_step_ok[OF ok, of bc e] by auto
qed

lemma launchpad_ok_new: "launchpad_ok pool_pda (launchpad_new threshold)"
  by (simp add: launchpad_ok_def launchpad_new_def)

text \<open>The launchpad actor processes any sequence of commands without a panic, and afterwards a pool
  address is answered with a mint whose derived pool address it is.\<close>

theorem launchpad_never_panics:
  "\<exists>lp. run_outcome (launchpad_step pool_pda bc) (launchpad_new threshold) cs = Inr lp \<and>
     (\<forall>amm mint. launchpad_listen pool_pda bc lp (GetMint amm) = Inr (lp, LMint (Some mint))
        \<longrightarrow> pool_pda mint = amm)"
  using launchpad_actor.run_returns[OF launchpad_ok_new run_ok_True, of pool_pda bc threshold cs]
  by (fastforce simp: launchpad_ok_def)

definition sample_create :: create_event where
  "sample_create = \<lparr>ce_name = ''n'', ce_symbol = ''s'', ce_uri = ''u'', ce_mint = 7,
     ce_bonding_curve = 0, ce_user = 3, ce_creator = 3, ce_timestamp = 0,
     ce_virtual_token_reserves = 1, ce_virtual_sol_reserves = 1, ce_real_token_reserves = 1,
     ce_token_total_supply = 1, ce_token_program = 0, ce_is_mayhem_mode = False,
     ce_is_cashback_enabled = False, ce_quote_mint = 0, ce_virtual_quote_reserves = 0\<rparr>"

definition sample_trade :: "address \<Rightarrow> trade_event" where
  "sample_trade user = \<lparr>te_mint = 7, te_sol_amount = 1000000000, te_token_amount = 34000000000000,
     te_is_buy = True, te_user = user, te_timestamp = 0, te_virtual_sol_reserves = 31000000000,
     te_virtual_token_reserves = 1039000000000000, te_real_sol_reserves = 1000000000,
     te_real_token_reserves = 759100000000000\<rparr>"

lemma launchpad_never_panics_witness:
  "\<exists>lp. run_outcome (launchpad_step (\<lambda>m. m + 1) (\<lambda>m. m)) (launchpad_new 3)
      [Event 5 (Create sample_create)] = Inr lp \<and>
    launchpad_listen (\<lambda>m. m + 1) (\<lambda>m. m) lp (GetMint 8) = Inr (lp, LMint (Some 7)) \<and> (7::address) + 1 = 8"
proof -
  obtain lp where lp: "run_outcome (launchpad_step (\<lambda>m. m + 1) (\<lambda>m. m)) (launchpad_new 3)
      [Event 5 (Create sample_create)] = Inr lp"
    and mint: "\<forall>amm mint. launchpad_listen (\<lambda>m. m + 1) (\<lambda>m. m) lp (GetMint amm) = Inr (lp, LMint (Some mint))
        \<longrightarrow> mint + 1 = amm"
    using launchpad_never_panics[of "\<lambda>m. m + 1" "\<lambda>m. m" 3 "[Event 5 (Create sample_create)]"] by blast
  have "launchpad_listen (\<lambda>m. m + 1) (\<lambda>m. m) lp (GetMint 8) = Inr (lp, LMint (Some 7))"
    using lp by (auto simp: launchpad_step_def launchpad_new_def sample_create_def bucket_new_def
        bonding_new_def)
  then show ?thesis using lp mint by blast
qed

text \<open>A trade of a known token overwrites the reserves of its pool with those of the event and is
  booked to the trader under a role that is Creator for the creator of the token and otherwise
  Sniper exactly within the sniper window, Regular after it.\<close>

theorem react_trade_known:
  assumes ok: "launchpad_ok pool_pda lp"
    and b: "lp_tokens lp (pool_pda (te_mint e)) = Some b" "tb_pool b = BondingPool p"
  shows "\<exists>b'. react pool_pda bc lp slot (TradeEvent e)
       = Inr (lp\<lparr>lp_tokens := (lp_tokens lp)(pool_pda (te_mint e) \<mapsto> b')\<rparr>, True) \<and>
     tb_pool b' = BondingPool (p\<lparr>real_sol_reserves := amount_from_raw_native (te_real_sol_reserves e),
       real_token_reserves := amount_from_raw (te_real_token_reserves e) 6,
       virtual_sol_reserves := amount_from_raw_native (te_virtual_sol_reserves e),
       virtual_token_reserves := amount_from_raw (te_virtual_token_reserves e) 6\<rparr>) \<and>
     swarm_update (tb_swarm b) (te_user e) (offer_of (trade_action_of e))
       (if te_user e \<in> set (b_creator p) then Creator
        else if slot - tb_created_at b < lp_sniper_threshold lp then Sniper else Regular)
       = Inr (tb_swarm b')"
proof -
  let ?b = "bucket_update_pool b (TradeEvent e)"
  have "bucket_ok b" using ok b(1) by (auto simp: launchpad_ok_def)
  then have "bucket_ok ?b" by (simp add: bucket_ok_def bucket_update_pool_def)
  from bucket_update_swarm_ok[OF this offer_decimals_trade, of "te_user e" e
      "trade_role (lp_sniper_threshold lp) slot b (te_user e)"]
  obtain b' where b': "bucket_update_swarm ?b (te_user e) (offer_of (trade_action_of e))
        (trade_role (lp_sniper_threshold lp) slot b (te_user e)) = Inr b'" "tb_pool b' = tb_pool ?b"
    by blast
  have "tb_swarm ?b = tb_swarm b" by (simp add: bucket_update_pool_def)
  then have "swarm_update (tb_swarm b) (te_user e) (offer_of (trade_action_of e))
       (trade_role (lp_sniper_threshold lp) slot b (te_user e)) = Inr (tb_swarm b')"
    using b'(1) by (auto simp: bucket_update_swarm_def bind_outcome_Inr_iff)
  then show ?thesis using b b'
    by (auto simp: Let_def bucket_update_pool_def trade_role_def PRECISION_def)
qed

lemma react_trade_known_witness:
  "\<exists>b'. react (\<lambda>m. m) (\<lambda>m. m) ((launchpad_new 3)\<lparr>lp_tokens := [7 \<mapsto>
        bucket_new (BondingPool (bonding_new (\<lambda>m. m) 7 3)) (amount_from_raw 0 6) 10]\<rparr>)
      11 (TradeEvent (sample_trade 9)) = Inr ((launchpad_new 3)\<lparr>lp_tokens := [7 \<mapsto> b']\<rparr>, True) \<and>
    swarm_update (swarm_new (amount_from_raw 0 6) 6 9) 9
      (Buy 1000000000 (amount_from_raw 34000000000000 6)) Sniper = Inr (tb_swarm b')"
proof -
  let ?b = "bucket_new (BondingPool (bonding_new (\<lambda>m. m) 7 3)) (amount_from_raw 0 6) 10"
  let ?lp = "(launchpad_new 3)\<lparr>lp_tokens := [7 \<mapsto> ?b]\<rparr>"
  have ok: "launchpad_ok (\<lambda>m. m) ?lp" using bucket_new_ok
    by (auto simp: launchpad_ok_def bucket_new_def bonding_new_def split: if_splits)
  have b: "lp_tokens ?lp (te_mint (sample_trade 9)) = Some ?b"
    "tb_pool ?b = BondingPool (bonding_new (\<lambda>m. m) 7 3)"
    by (simp_all add: sample_trade_def bucket_new_def)
  show ?thesis
    using react_trade_known[OF ok b, of "\<lambda>m. m" 11]
    by (auto simp: sample_trade_def trade_action_of_def bucket_new_def launchpad_new_def currency_raw_def
        amount_from_raw_native_def PRECISION_def bonding_new_def pool_token_decimals_def
        pool_quote_decimals_def)
qed

end
