(* ===== verification/Manager.thy ===== *)
theory Manager
  imports Position_Tick Strategy Blacklists Brokers Wallets Rankers Launchpad "HOL-Library.AList"
begin

text \<open>
  Model of the position manager actor of \<^verbatim>\<open>src/autobuy/manager.rs\<close>: its state, its messages and
  what it asks the rest of the program to do, and the handlers of the entry side: pool updates,
  pausing, signals (\<^verbatim>\<open>InitiateBuy\<close>), the fan-out over wallets (\<^verbatim>\<open>ExecuteBuy\<close>) and the result of a buy
  (\<^verbatim>\<open>apply_buy_result\<close>), with the abort after a spike of the fill price. The exit side is in
  \<^verbatim>\<open>Manager_Exit\<close>.

  A handler maps the state to a new state and a list of effects, in the order in which they are
  issued: messages to itself after a delay, calls of spawned tasks, feed messages, rows to save.
  The position table is a hash map in the source; here it is an association list, and iteration
  follows the list. The clock, the text of an address, the answers of the brokers and the JSON
  printer are the environment of a message; all readings of the clock within one message agree.
  Log lines are not modelled.
\<close>

section \<open>Wire records\<close>

record v3_tape_wire =
  bv_persist :: f64
  sell_press :: f64
  absorb :: f64
  dumps :: u32
  sm_exits :: u32

definition v3_from_learning :: "learning_snapshot \<Rightarrow> v3_tape_wire" where
  "v3_from_learning s =
     \<lparr>bv_persist = ls_buyer_velocity_persistence s, sell_press = ls_sell_pressure_score s,
      absorb = ls_absorb_quality_score s, dumps = ls_repeat_dump_slices s,
      sm_exits = smart_wallet_early_exits s\<rparr>"

datatype tx_event_kind = TxBuy | TxSell

record tx_event =
  tx_kind :: tx_event_kind
  tx_wallet_id :: string
  tx_mint :: string
  tx_signature :: "string option"
  tx_amount_sol :: f64
  tx_amount_sol_estimated :: "f64 option"
  tx_status :: string
  tx_reason :: "string option"
  tx_mode :: string
  tx_ts :: i64
  tx_v3_tape :: "v3_tape_wire option"
  tx_time_kill_detail :: "string option"
  tx_pnl_mcap_pct :: "f64 option"
  tx_pnl_sol_pct :: "f64 option"

datatype ws_feed_message =
    PositionOpen string string open_reason f64 "v3_tape_wire option"
  | PositionUpdate string string f64 f64 f64 "string option" "u64 option"
  | PositionClose string string string
  | BalanceUpdate f64
  | WalletBalanceUpdate string f64
  | PausedState bool
  | TxEvent tx_event
  | ManualSellRequired string string string string f64 i64

record open_position_wire =
  ow_wallet_id :: string
  ow_address :: string
  ow_open_reason :: open_reason
  ow_enter_mcap :: f64
  ow_pnl :: f64
  ow_holdings :: f64
  ow_market_cap :: f64
  ow_v3_tape :: "v3_tape_wire option"
  ow_time_kill_tier :: "string option"
  ow_time_kill_after_secs :: "u64 option"

record bot_trade_entry =
  bt_wallet_id :: string
  bt_mint :: string
  bt_entry_mcap_sol :: f64
  bt_invested_sol :: f64
  bt_realized_pnl_pct :: f64
  bt_close_reason :: string
  bt_entry_at :: i64
  bt_closed_at :: i64
  bt_exit_mcap_sol :: f64
  bt_entry_meta :: string

record dev_blacklist_entry =
  be_dev_wallet :: string
  be_reason :: string
  be_mint :: string
  be_pnl_sol :: f64
  be_close_reason :: string
  be_created_at :: i64
  be_expires_at :: i64

section \<open>Messages and effects\<close>

text \<open>The fields shared by \<^verbatim>\<open>ExecuteBuy\<close> and \<^verbatim>\<open>BuyCompleted\<close>.\<close>

record buy_order =
  bo_mint :: address
  bo_wallet :: string
  bo_amount :: f64
  bo_reason :: open_reason
  bo_dev :: "address option"
  bo_early :: "address list"
  bo_snapshot :: "learning_snapshot option"

datatype position_message =
    UpdatePool pool
  | UpdateTokenBucket token_bucket
  | ApplyLiveSnapshot address live_position_snapshot
  | SetPaused bool
  | InitiateBuy pool f64 tier open_reason "address option" "address list" "learning_snapshot option"
  | ClearPendingMint address
  | ExecuteBuy buy_order
  | BuyCompleted buy_order pool string "v3_tape_wire option" "broker_error + buy_receipt"
  | GetStrategySnapshot
  | ExecuteSell address string f64 string
  | GetPnl address
  | GetOpenPositions
  | AbandonPosition address "string option"
  | Tick
  | ApplyExitMcapRefresh address f64 bool

record fill_mcap_spike =
  sp_score_mcap_sol :: f64
  sp_fill_mcap_sol :: f64
  sp_ratio :: f64
  sp_max_ratio :: f64
  sp_min_ratio :: f64
  sp_adverse :: bool

datatype skip_payload = TierSol f64 | Detail string | SpikePayload fill_mcap_spike f64

datatype effect =
    SendAfter u64 position_message      \<comment> \<open>send to itself after so many milliseconds\<close>
  | SpawnBuy buy_order pool string "v3_tape_wire option"
      \<comment> \<open>call \<^verbatim>\<open>broker.buy\<close>, announce a success, then send \<^verbatim>\<open>BuyCompleted\<close>\<close>
  | SpawnLiveSnapshot address token_bucket u64 "address list" "early_tape_point option" f64
      \<comment> \<open>sample the tape, then send \<^verbatim>\<open>ApplyLiveSnapshot\<close>\<close>
  | SpawnExitMcapPoll address f64 bool  \<comment> \<open>resolve the market cap, then send \<^verbatim>\<open>ApplyExitMcapRefresh\<close>\<close>
  | Feed ws_feed_message
  | ForgetPosition string address
  | SaveBotTrade bot_trade_entry bool   \<comment> \<open>and whether to track the price afterwards\<close>
  | BlacklistDev dev_blacklist_entry
  | NoteDevOutcome address token_outcome
  | NoteSmartMoney "address list" f64
  | LogSkipped string "string option" string string skip_payload i64
  | LogClosedTrade learning_snapshot f64 f64 i64 string i64
  | LatencyGate address
  | LatencySent address string
  | LatencyConfirmed address string
  | LatencyFailed address string

record environment =
  env_now :: u64
  env_instant_ms :: u64
  env_str :: "address \<Rightarrow> string"
  env_json :: "v3_tape_wire \<Rightarrow> string"
  env_sell :: "string \<Rightarrow> address \<Rightarrow> f64 \<Rightarrow> pool \<Rightarrow> bool \<Rightarrow> broker_error + sell_receipt"
  env_balance :: "string \<Rightarrow> f64 option"

definition entry_meta_json :: "environment \<Rightarrow> learning_snapshot option \<Rightarrow> string" where
  "entry_meta_json env snap = (case snap of Some s \<Rightarrow> env_json env (v3_from_learning s) | None \<Rightarrow> [])"

section \<open>State\<close>

type_synonym position_table = "(position_key \<times> position) list"

record manager =
  config :: smart_buy_config
  wallets :: wallet_registry
  positions :: position_table
  pending_mints :: "address set"
  pending_wallet_buys :: "position_key set"
  closed_mints :: "address set"
  pool_cache :: "address \<rightharpoonup> pool"
  bucket_cache :: "address \<rightharpoonup> token_bucket"
  last_print_time :: u64
  dev_blacklist_cfg :: dev_blacklist_config
  curve_quarantine_cfg :: curve_quarantine_config
  curve_quarantine :: quarantine
  post_exit_rpc :: bool
  paused :: bool
  balance_state :: f64
  strategy_ctl :: strategy
  dev_ranker :: bool
  smart_money :: bool
  learning :: bool
  buy_latency :: bool
  last_live_snapshot_at :: "address \<rightharpoonup> u64"

definition manager_new ::
  "wallet_registry \<Rightarrow> f64 \<Rightarrow> smart_buy_config \<Rightarrow> dev_blacklist_config \<Rightarrow> curve_quarantine_config \<Rightarrow> bool
   \<Rightarrow> strategy_config \<Rightarrow> bool \<Rightarrow> bool \<Rightarrow> bool \<Rightarrow> bool \<Rightarrow> u64 \<Rightarrow> manager" where
  "manager_new ws bal cfg bl_cfg cq_cfg rpc sc ranker smart learn lat now =
     \<lparr>config = cfg, wallets = ws, positions = [], pending_mints = {}, pending_wallet_buys = {},
      closed_mints = {}, pool_cache = Map.empty, bucket_cache = Map.empty, last_print_time = 0,
      dev_blacklist_cfg = bl_cfg, curve_quarantine_cfg = cq_cfg, curve_quarantine = Map.empty,
      post_exit_rpc = rpc, paused = False, balance_state = bal,
      strategy_ctl = strategy_new sc now, dev_ranker = ranker, smart_money = smart,
      learning = learn, buy_latency = lat, last_live_snapshot_at = Map.empty\<rparr>"

definition position_mints :: "manager \<Rightarrow> address set" where
  "position_mints m = (\<lambda>(k, p). fst k) ` set (positions m)"

definition any_position_for_mint :: "manager \<Rightarrow> address \<Rightarrow> bool" where
  "any_position_for_mint m mint = (mint \<in> position_mints m)"

definition unique_open_mints :: "manager \<Rightarrow> u32" where
  "unique_open_mints m = of_nat (card (position_mints m \<union> pending_mints m))"

definition maybe_finalize_closed_mint :: "address \<Rightarrow> manager \<Rightarrow> manager" where
  "maybe_finalize_closed_mint mint m =
     (if \<not> any_position_for_mint m mint
      then m\<lparr>closed_mints := insert mint (closed_mints m), pool_cache := (pool_cache m)(mint := None)\<rparr>
      else m)"

definition sync_combined_balance :: "manager \<Rightarrow> manager" where
  "sync_combined_balance m = m\<lparr>balance_state := total_balance_sol (wallets m)\<rparr>"

definition balance_feed :: "manager \<Rightarrow> effect list" where
  "balance_feed m =
     map (\<lambda>w. Feed (WalletBalanceUpdate (w_id w) (w_balance w))) (reg_ordered (wallets m))
     @ [Feed (BalanceUpdate (total_balance_sol (wallets m)))]"

definition broadcast_wallet_balances :: "manager \<Rightarrow> manager \<times> effect list" where
  "broadcast_wallet_balances m = (sync_combined_balance m, balance_feed m)"

text \<open>The broker of a wallet reports its balance, then all balances are announced.\<close>

definition refresh_balance :: "environment \<Rightarrow> string \<Rightarrow> manager \<Rightarrow> manager \<times> effect list" where
  "refresh_balance env wid m =
     broadcast_wallet_balances
       (case env_balance env wid of
          Some bal \<Rightarrow> m\<lparr>wallets := set_balance_sol wid bal (wallets m)\<rparr>
        | None \<Rightarrow> m)"

definition update_positions_pool_for_mint :: "address \<Rightarrow> pool \<Rightarrow> manager \<Rightarrow> manager" where
  "update_positions_pool_for_mint mint p m =
     m\<lparr>positions := map (\<lambda>(k, pos). (k, if fst k = mint then pos\<lparr>pos_pool := p\<rparr> else pos)) (positions m)\<rparr>"

definition spawn_live_snapshot_refresh :: "address \<Rightarrow> manager \<Rightarrow> effect list" where
  "spawn_live_snapshot_refresh mint m =
     (case bucket_cache m mint of
        None \<Rightarrow> []
      | Some b \<Rightarrow>
          (case find (\<lambda>(k, pos). fst k = mint) (positions m) of
             None \<Rightarrow> []
           | Some (k, pos) \<Rightarrow>
               [SpawnLiveSnapshot mint b (entry_time pos) (early_buyers pos) (live_tape_curr pos)
                  (bundle_similar_tolerance (exit_v4 (config m)))]))"

section \<open>Pool updates and pausing\<close>

definition update_pool :: "pool \<Rightarrow> manager \<Rightarrow> manager" where
  "update_pool p m =
     (let mint = pool_mint p
      in update_positions_pool_for_mint mint p (m\<lparr>pool_cache := (pool_cache m)(mint \<mapsto> p)\<rparr>))"

definition update_token_bucket :: "token_bucket \<Rightarrow> manager \<Rightarrow> manager \<times> effect list" where
  "update_token_bucket b m =
     (let mint = pool_mint (tb_pool b);
          m1 = m\<lparr>pool_cache := (pool_cache m)(mint \<mapsto> tb_pool b), bucket_cache := (bucket_cache m)(mint \<mapsto> b)\<rparr>;
          m2 = update_positions_pool_for_mint mint (tb_pool b) m1
      in (m2, if any_position_for_mint m2 mint then spawn_live_snapshot_refresh mint m2 else []))"

definition set_paused :: "bool \<Rightarrow> manager \<Rightarrow> manager \<times> effect list" where
  "set_paused v m = (m\<lparr>paused := v\<rparr>, [Feed (PausedState v)])"

section \<open>Signals\<close>

text \<open>\<^verbatim>\<open>Debug\<close> of a decision.\<close>

fun decision_str :: "buy_decision \<Rightarrow> string" where
  "decision_str Allow = ''Allow''"
| "decision_str BlockMaxOpen = ''BlockMaxOpen''"
| "decision_str BlockDailyTrades = ''BlockDailyTrades''"
| "decision_str BlockDailyLoss = ''BlockDailyLoss''"
| "decision_str BlockProfitLock = ''BlockProfitLock''"
| "decision_str BlockLossStreak = ''BlockLossStreak''"
| "decision_str BlockRegime = ''BlockRegime''"

text \<open>The orders of a fan-out: the first at once, each next one a delay later.\<close>

definition fanout :: "u64 \<Rightarrow> (string \<times> f64 \<Rightarrow> buy_order) \<Rightarrow> (string \<times> f64) list \<Rightarrow> address \<Rightarrow> effect list" where
  "fanout delay order ws mint =
     map (\<lambda>(i, w). SendAfter (of_nat i * delay) (ExecuteBuy (order w))) (enumerate 0 ws)
     @ [SendAfter (of_nat (length ws - 1) * delay) (ClearPendingMint mint)]"

definition initiate_buy ::
  "environment \<Rightarrow> pool \<Rightarrow> f64 \<Rightarrow> tier \<Rightarrow> open_reason \<Rightarrow> address option \<Rightarrow> address list
   \<Rightarrow> learning_snapshot option \<Rightarrow> manager \<Rightarrow> manager \<times> effect list" where
  "initiate_buy env p amount buy_tier reason dev early snap m =
     (let mint = pool_mint p; now = env_now env in
      if paused m then (m, [])
      else if any_position_for_mint m mint \<or> mint \<in> pending_mints m \<or> mint \<in> closed_mints m then (m, [])
      else let m1 = m\<lparr>curve_quarantine := quarantine_prune (curve_quarantine m) now\<rparr> in
           if cq_enabled (curve_quarantine_cfg m1) \<and> quarantine_active (curve_quarantine m1) mint now
           then (m1, [])
           else let (st, d) = can_open (strategy_ctl m1) now (unique_open_mints m1);
                    m2 = m1\<lparr>strategy_ctl := st\<rparr> in
                if d \<noteq> Allow
                then (m2, if learning m2
                          then [LogSkipped (env_str env mint) (map_option (env_str env) dev) ''strategy_gate''
                                  (decision_str d) (TierSol amount) now]
                          else [])
                else let m3 = m2\<lparr>pending_mints := insert mint (pending_mints m2),
                                 pool_cache := (pool_cache m2)(mint \<mapsto> p)\<rparr>;
                         ws = map (\<lambda>w. (w_id w, amount_for_signal w amount buy_tier))
                                  (enabled_wallets (wallets m3)) in
                     if ws = [] then (m3\<lparr>pending_mints := pending_mints m3 - {mint}\<rparr>, [])
                     else (m3\<lparr>strategy_ctl := note_position_opened (strategy_ctl m3) now\<rparr>,
                           (if buy_latency m3 then [LatencyGate mint] else [])
                           @ fanout (buy_fanout_delay_ms (config m3))
                               (\<lambda>(wid, a). \<lparr>bo_mint = mint, bo_wallet = wid, bo_amount = a, bo_reason = reason,
                                           bo_dev = dev, bo_early = early, bo_snapshot = snap\<rparr>) ws mint))"

definition clear_pending_mint :: "address \<Rightarrow> manager \<Rightarrow> manager" where
  "clear_pending_mint mint m = m\<lparr>pending_mints := pending_mints m - {mint}\<rparr>"

section \<open>Execution of a buy\<close>

definition execute_buy :: "buy_order \<Rightarrow> manager \<Rightarrow> manager \<times> effect list" where
  "execute_buy bo m =
     (let mint = bo_mint bo; wid = bo_wallet bo; key = (mint, wid);
          m1 = m\<lparr>pending_wallet_buys := insert key (pending_wallet_buys m)\<rparr>;
          dropped = m1\<lparr>pending_wallet_buys := pending_wallet_buys m1 - {key}\<rparr>
      in if paused m1 then (dropped, [])
         else if registry_get (wallets m1) wid = None then (dropped, [])
         else if map_of (positions m1) key \<noteq> None then (dropped, [])
         else case pool_cache m1 mint of
                None \<Rightarrow> (dropped, [])
              | Some latest \<Rightarrow>
                  (m1, (if buy_latency m1 then [LatencySent mint wid] else [])
                       @ [SpawnBuy bo latest (reg_mode_label (wallets m1))
                            (map_option v3_from_learning (bo_snapshot bo))]))"

text \<open>What the spawned task announces when the broker has bought.\<close>

definition buy_sent_event ::
  "environment \<Rightarrow> buy_order \<Rightarrow> string \<Rightarrow> v3_tape_wire option \<Rightarrow> buy_receipt \<Rightarrow> effect" where
  "buy_sent_event env bo mode v3 r =
     Feed (TxEvent \<lparr>tx_kind = TxBuy, tx_wallet_id = bo_wallet bo, tx_mint = env_str env (bo_mint bo),
       tx_signature = br_signature r, tx_amount_sol = sol_spent r, tx_amount_sol_estimated = None,
       tx_status = ''sent'', tx_reason = None, tx_mode = mode, tx_ts = env_now env, tx_v3_tape = v3,
       tx_time_kill_detail = None, tx_pnl_mcap_pct = None, tx_pnl_sol_pct = None\<rparr>)"

definition spawned_buy ::
  "environment \<Rightarrow> buy_order \<Rightarrow> pool \<Rightarrow> string \<Rightarrow> v3_tape_wire option \<Rightarrow> broker_error + buy_receipt \<Rightarrow> effect list" where
  "spawned_buy env bo latest mode v3 res =
     (case res of Inr r \<Rightarrow> [buy_sent_event env bo mode v3 r] | Inl _ \<Rightarrow> [])
     @ [SendAfter 0 (BuyCompleted bo latest mode v3 res)]"

section \<open>The fill price\<close>

definition detect_fill_mcap_spike ::
  "smart_buy_config \<Rightarrow> learning_snapshot option \<Rightarrow> buy_receipt \<Rightarrow> fill_mcap_spike option" where
  "detect_fill_mcap_spike cfg snap r =
     (if \<not> fill_mcap_abort_enabled cfg then None
      else case snap of
        None \<Rightarrow> None
      | Some s \<Rightarrow>
          if entry_mcap_sol s \<le> 0 then None
          else case positive_only (entry_mcap_fill_sol r) of
            None \<Rightarrow> None
          | Some fill \<Rightarrow>
              let score = entry_mcap_sol s; ratio = fill / score;
                  max_ratio = f64_max (fill_mcap_abort_max_ratio cfg) 1;
                  min_ratio = clamp_f64 (f64_of 0.1) 1 (fill_mcap_abort_min_ratio cfg);
                  spike = (\<lambda>adverse. \<lparr>sp_score_mcap_sol = score, sp_fill_mcap_sol = fill, sp_ratio = ratio,
                            sp_max_ratio = max_ratio, sp_min_ratio = min_ratio, sp_adverse = adverse\<rparr>)
              in if max_ratio < ratio then Some (spike False)
                 else if ratio < min_ratio then Some (spike True)
                 else None)"

text \<open>The market cap that profits are measured from.\<close>

definition entry_baseline_mcap ::
  "smart_buy_config \<Rightarrow> learning_snapshot option \<Rightarrow> buy_receipt \<Rightarrow> f64 option" where
  "entry_baseline_mcap cfg snap r =
     map_option (\<lambda>fill.
       if honest_entry_baseline cfg
       then case positive_only (map_option entry_mcap_sol snap) of
              Some score \<Rightarrow>
                let fl = fill * clamp_f64 0 1 (honest_entry_baseline_min_ratio cfg)
                in f64_max (f64_min fill score) fl
            | None \<Rightarrow> fill
       else fill)
     (positive_only (entry_mcap_fill_sol r))"

text \<open>UTF-8 of the arrow in the close reasons.\<close>

definition arrow_utf8 :: string where
  "arrow_utf8 = [CHR 0xE2, CHR 0x86, CHR 0x92]"

definition spike_reason :: "fill_mcap_spike \<Rightarrow> string" where
  "spike_reason s =
     (if sp_adverse s
      then ''FILL MCAP ADVERSE ABORT ('' @ fmt_prec 2 (sp_ratio s) @ ''x < '' @ fmt_prec 2 (sp_min_ratio s)
           @ ''x: score '' @ fmt_prec 1 (sp_score_mcap_sol s) @ arrow_utf8 @ ''fill ''
           @ fmt_prec 1 (sp_fill_mcap_sol s) @ '' SOL)''
      else ''FILL MCAP SPIKE ABORT ('' @ fmt_prec 2 (sp_ratio s) @ ''x > '' @ fmt_prec 2 (sp_max_ratio s)
           @ ''x: '' @ fmt_prec 1 (sp_score_mcap_sol s) @ arrow_utf8 @ fmt_prec 1 (sp_fill_mcap_sol s)
           @ '' SOL)'')"

definition pct_over :: "f64 \<Rightarrow> f64 \<Rightarrow> f64" where
  "pct_over a b = (a / b - 1) * f64_of 100"

text \<open>
  The emergency sell after a spike. The result says whether the position is \<^emph>\<open>not\<close> opened.
\<close>

definition abort_buy_after_fill_mcap_spike ::
  "environment \<Rightarrow> buy_order \<Rightarrow> buy_receipt \<Rightarrow> pool \<Rightarrow> fill_mcap_spike \<Rightarrow> manager
   \<Rightarrow> (bool \<times> manager \<times> effect list) outcome" where
  "abort_buy_after_fill_mcap_spike env bo r p spike m =
     (let mint = bo_mint bo; wid = bo_wallet bo; now = env_now env in
      if registry_get (wallets m) wid = None then Inr (False, m, [])
      else let log = (if learning m
                      then [LogSkipped (env_str env mint) (map_option (env_str env) (bo_dev bo)) ''post_buy''
                              ''fill_mcap_spike'' (SpikePayload spike (bo_amount bo)) now]
                      else []) in
           case env_sell env wid mint (tokens_received r) p True of
             Inl e \<Rightarrow> Inr (False, m, log)
           | Inr s \<Rightarrow>
               let pnl_pct = (if 0 < bo_amount bo then pct_over (sol_received_actual s) (bo_amount bo) else 0);
                   pnl_mcap = (if 0 < sp_score_mcap_sol spike
                               then pct_over (sp_fill_mcap_sol spike) (sp_score_mcap_sol spike) else 0);
                   tx = Feed (TxEvent \<lparr>tx_kind = TxSell, tx_wallet_id = wid, tx_mint = env_str env mint,
                          tx_signature = sr_signature s, tx_amount_sol = sol_received_actual s,
                          tx_amount_sol_estimated = Some (sol_received_estimated s),
                          tx_status = ''confirmed'', tx_reason = Some (spike_reason spike),
                          tx_mode = reg_mode_label (wallets m), tx_ts = now, tx_v3_tape = None,
                          tx_time_kill_detail = None, tx_pnl_mcap_pct = Some pnl_mcap,
                          tx_pnl_sol_pct = Some pnl_pct\<rparr>);
                   m1 = m\<lparr>strategy_ctl := note_position_closed (strategy_ctl m) now
                                           (sol_received_actual s - bo_amount bo)\<rparr>;
                   (m2, bal) = refresh_balance env wid m1
               in bind_outcome (pool_mcap_sol p) (\<lambda>exit_mcap.
                    Inr (True, m2, log @ [tx] @ bal
                      @ [SaveBotTrade \<lparr>bt_wallet_id = wid, bt_mint = env_str env mint,
                           bt_entry_mcap_sol = sp_fill_mcap_sol spike, bt_invested_sol = bo_amount bo,
                           bt_realized_pnl_pct = pnl_pct, bt_close_reason = spike_reason spike,
                           bt_entry_at = now, bt_closed_at = now, bt_exit_mcap_sol = exit_mcap,
                           bt_entry_meta = entry_meta_json env (bo_snapshot bo)\<rparr> False])))"

section \<open>Opening a position\<close>

definition tk_thresholds :: "smart_buy_config \<Rightarrow> tk_entry_thresholds" where
  "tk_thresholds cfg =
     \<lparr>strong_min_buyers = time_kill_strong_min_buyers cfg, strong_min_b2s = time_kill_strong_min_b2s cfg,
      weak_max_buyers = time_kill_weak_max_buyers cfg, weak_max_b2s = time_kill_weak_max_b2s cfg\<rparr>"

text \<open>The tick buffer and the previous raw market cap start from the baseline.\<close>

definition seed_ticks :: "smart_buy_config \<Rightarrow> f64 option \<Rightarrow> position \<Rightarrow> position" where
  "seed_ticks cfg baseline pos =
     (case positive_only baseline of
        Some b \<Rightarrow> (push_exit_mcap_tick (pos\<lparr>exit_mcap_ticks := []\<rparr>) b (exit_mcap_median_ticks cfg))
                    \<lparr>sl_prev_raw_mcap := Some b\<rparr>
      | None \<Rightarrow> pos)"

definition entry_counters :: "buy_order \<Rightarrow> position \<Rightarrow> position" where
  "entry_counters bo pos =
     (case bo_snapshot bo of
        Some s \<Rightarrow> pos\<lparr>tk_entry_buyers := ls_buyer_count s, tk_entry_smart := ls_smart_wallet_count s,
                       tk_entry_b2s := buy_to_sell_ratio s\<rparr>
      | None \<Rightarrow> pos\<lparr>tk_entry_buyers := of_nat (length (early_buyers pos)), tk_entry_smart := 0,
                     tk_entry_b2s := 0\<rparr>)"

definition entry_v4 :: "smart_buy_config \<Rightarrow> u64 \<Rightarrow> learning_snapshot option \<Rightarrow> position \<Rightarrow> position" where
  "entry_v4 cfg now snap pos =
     (if enabled (exit_v4 cfg)
      then let (prof, hold) = resolve_entry_profile (tk_thresholds cfg) (exit_v4 cfg) pos snap;
               fl = entry_live_score_floor snap
           in pos\<lparr>pos_profile := prof, hold_mode := hold, exit_phase := Exploration,
                  live_score_entry_floor := fl, pos_live_score := fl, last_live_score_at := now\<rparr>
      else pos)"

definition open_position ::
  "smart_buy_config \<Rightarrow> u64 \<Rightarrow> buy_order \<Rightarrow> pool \<Rightarrow> buy_receipt \<Rightarrow> position outcome" where
  "open_position cfg now bo p r =
     (let baseline = entry_baseline_mcap cfg (bo_snapshot bo) r in
      bind_outcome (position_new (bo_wallet bo) p (amount_from_float_native (tokens_received r)) now baseline) (\<lambda>p0.
      let p1 = (seed_ticks cfg baseline p0)
                 \<lparr>exit_profit_floor := bc_exit_profit_floor cfg, spent_sol := bo_amount bo,
                  dev_address := bo_dev bo, early_buyers := bo_early bo\<rparr>;
          p2 = entry_v4 cfg now (bo_snapshot bo) (entry_counters bo p1);
          p3 = p2\<lparr>pos_snapshot := bo_snapshot bo, pos_open_reason := Some (bo_reason bo)\<rparr>
      in Inr (push_exit_mcap_tick p3 (amount_to_float (enter_mcap p3)) (exit_mcap_median_ticks cfg))))"

section \<open>The result of a buy\<close>

text \<open>A buy that the broker refused because the mint cannot be traded: the mint is closed for good.\<close>

definition buy_unavailable ::
  "environment \<Rightarrow> buy_order \<Rightarrow> string \<Rightarrow> string \<Rightarrow> broker_error \<Rightarrow> manager \<Rightarrow> manager \<times> effect list" where
  "buy_unavailable env bo stage tag e m =
     (let mint = bo_mint bo; wid = bo_wallet bo;
          m1 = m\<lparr>pending_wallet_buys := pending_wallet_buys m - {(mint, wid)}\<rparr>;
          m2 = (if \<not> any_position_for_mint m1 mint then m1\<lparr>closed_mints := insert mint (closed_mints m1)\<rparr> else m1)
      in (m2, (if buy_latency m then [LatencyFailed mint wid] else [])
              @ (if learning m
                 then [LogSkipped (env_str env mint) (map_option (env_str env) (bo_dev bo)) stage tag
                         (Detail (broker_error_display (env_str env) e)) (env_now env)]
                 else [])))"

definition buy_failed ::
  "environment \<Rightarrow> buy_order \<Rightarrow> string \<Rightarrow> v3_tape_wire option \<Rightarrow> broker_error \<Rightarrow> manager \<Rightarrow> manager \<times> effect list" where
  "buy_failed env bo mode v3 e m =
     (let mint = bo_mint bo; wid = bo_wallet bo in
      (m\<lparr>pending_wallet_buys := pending_wallet_buys m - {(mint, wid)}\<rparr>,
       (if buy_latency m then [LatencyFailed mint wid] else [])
       @ [Feed (TxEvent \<lparr>tx_kind = TxBuy, tx_wallet_id = wid, tx_mint = env_str env mint, tx_signature = None,
            tx_amount_sol = bo_amount bo, tx_amount_sol_estimated = None, tx_status = ''failed'',
            tx_reason = Some (broker_error_display (env_str env) e), tx_mode = mode, tx_ts = env_now env,
            tx_v3_tape = v3, tx_time_kill_detail = None, tx_pnl_mcap_pct = None, tx_pnl_sol_pct = None\<rparr>)]))"

text \<open>The position is entered, the balance refreshed and the opening announced.\<close>

definition buy_opened ::
  "environment \<Rightarrow> buy_order \<Rightarrow> pool \<Rightarrow> v3_tape_wire option \<Rightarrow> buy_receipt \<Rightarrow> manager
   \<Rightarrow> (manager \<times> effect list) outcome" where
  "buy_opened env bo p v3 r m =
     (let mint = bo_mint bo; wid = bo_wallet bo in
      bind_outcome (open_position (config m) (env_now env) bo p r) (\<lambda>pos.
      let live = (if bucket_cache m mint \<noteq> None then spawn_live_snapshot_refresh mint m else []);
          m1 = m\<lparr>positions := AList.update (mint, wid) pos (positions m)\<rparr>;
          (m2, bal) = (if registry_get (wallets m1) wid \<noteq> None then refresh_balance env wid m1
                       else broadcast_wallet_balances m1)
      in Inr (m2, live @ bal @ [Feed (PositionOpen (env_str env mint) wid (bo_reason bo)
                                        (amount_to_float (enter_mcap pos)) v3)])))"

definition buy_filled ::
  "environment \<Rightarrow> buy_order \<Rightarrow> pool \<Rightarrow> v3_tape_wire option \<Rightarrow> buy_receipt \<Rightarrow> manager
   \<Rightarrow> (manager \<times> effect list) outcome" where
  "buy_filled env bo p v3 r m =
     (case detect_fill_mcap_spike (config m) (bo_snapshot bo) r of
        None \<Rightarrow> buy_opened env bo p v3 r m
      | Some spike \<Rightarrow>
          bind_outcome (abort_buy_after_fill_mcap_spike env bo r p spike m) (\<lambda>(aborted, m1, es).
          if aborted then Inr (m1, es)
          else bind_outcome (buy_opened env bo p v3 r m1) (\<lambda>(m2, es'). Inr (m2, es @ es'))))"

definition apply_buy_result ::
  "environment \<Rightarrow> buy_order \<Rightarrow> pool \<Rightarrow> string \<Rightarrow> v3_tape_wire option \<Rightarrow> broker_error + buy_receipt
   \<Rightarrow> manager \<Rightarrow> (manager \<times> effect list) outcome" where
  "apply_buy_result env bo p mode v3 res m =
     (case res of
        Inl e \<Rightarrow>
          Inr (if is_buy_mint_unavailable (env_str env) e
               then buy_unavailable env bo ''buy_rpc'' ''mint_not_on_chain'' e m
               else if is_post_grad_no_route e
               then buy_unavailable env bo ''buy_route'' ''post_grad_no_route'' e m
               else buy_failed env bo mode v3 e m)
      | Inr r \<Rightarrow>
          bind_outcome (buy_filled env bo p v3 r
              (m\<lparr>pending_wallet_buys := pending_wallet_buys m - {(bo_mint bo, bo_wallet bo)}\<rparr>)) (\<lambda>(m', es).
          Inr (m', (if buy_latency m then [LatencyConfirmed (bo_mint bo) (bo_wallet bo)] else []) @ es)))"

end
