(* ===== verification/Manager_Exit.thy ===== *)
theory Manager_Exit
  imports Manager
begin

text \<open>
  Model of the exit side of the position manager of \<^verbatim>\<open>src/autobuy/manager.rs\<close>: market-cap and tape
  refreshes, the tick over all positions, the execution of a sell with everything that follows a
  closed position (strategy, quarantine, blacklist, rankers, learning, the trade row), abandoned
  positions and the queries; and \<open>handle\<close>, one turn of the loop of \<^verbatim>\<open>run\<close>.
\<close>

section \<open>Refreshes\<close>

fun map_outcome :: "('a \<Rightarrow> 'b outcome) \<Rightarrow> 'a list \<Rightarrow> 'b list outcome" where
  "map_outcome f [] = Inr []"
| "map_outcome f (x # xs) = bind_outcome (f x) (\<lambda>y. bind_outcome (map_outcome f xs) (\<lambda>ys. Inr (y # ys)))"

text \<open>Every position of a mint, in place.\<close>

definition on_mint :: "address \<Rightarrow> (position \<Rightarrow> position outcome) \<Rightarrow> manager \<Rightarrow> manager outcome" where
  "on_mint mint f m =
     bind_outcome (map_outcome (\<lambda>(k, p). if fst k = mint then bind_outcome (f p) (\<lambda>p'. Inr (k, p')) else Inr (k, p))
                     (positions m))
       (\<lambda>ps. Inr (m\<lparr>positions := ps\<rparr>))"

text \<open>The market cap of the pool is read for the log line, so a refresh can panic.\<close>

definition apply_exit_mcap :: "f64 \<Rightarrow> bool \<Rightarrow> position \<Rightarrow> position outcome" where
  "apply_exit_mcap mcap use_jupiter pos =
     (if use_jupiter
      then let p1 = pos\<lparr>use_jupiter_exit_mcap := True, exit_mcap_jupiter := Some mcap\<rparr>
           in bind_outcome (pool_mcap_sol (pos_pool p1)) (\<lambda>_. Inr p1)
      else Inr pos)"

definition apply_live_snapshot ::
  "smart_buy_config \<Rightarrow> u64 \<Rightarrow> live_position_snapshot \<Rightarrow> position \<Rightarrow> position outcome" where
  "apply_live_snapshot cfg now live pos =
     (let p1 = pos\<lparr>live_tape_prev := live_tape_curr pos, live_tape_curr := Some (lp_tape live)\<rparr>;
          held = saturating_sub now (entry_time p1);
          vel = time_kill_mcap_velocity_pct_per_sec p1 (amount_to_float (enter_mcap p1)) in
      bind_outcome (pos_pnl p1) (\<lambda>profit.
      let v4 = exit_v4 cfg;
          entry_vel = (case pos_snapshot p1 of Some s \<Rightarrow> velocity_pct s | None \<Rightarrow> 0);
          metrics = live_metrics_from_snapshot live (live_prev_buyers_per_sec p1) vel
                      (live_prev_velocity p1) entry_vel profit v4;
          p2 = p1\<lparr>live_prev_buyers_per_sec := live_buyers_per_sec p1,
                   live_buyers_per_sec := lp_buyers_per_sec live, live_prev_velocity := vel,
                   pos_live_score := max (calculate_live_score metrics) (live_score_entry_floor p1),
                   last_live_score_at := now\<rparr>;
          p3 = (if \<not> in_exit_grace_period_tier held (entry_tier_of p2) v4
                then p2\<lparr>exit_phase := transition_position_phase (exit_phase p2) (pos_live_score p2)
                          (momentum_decay metrics) profit v4\<rparr>
                else p2);
          (prof, hold) = maybe_upgrade_runner v4 (pos_profile p3) metrics (pos_live_score p3) (hold_mode p3)
      in Inr (p3\<lparr>pos_profile := prof, hold_mode := hold\<rparr>)))"

section \<open>The tick\<close>

text \<open>Which mints are due for a fresh tape sample; each due one is stamped.\<close>

definition live_due :: "u64 \<Rightarrow> u64 \<Rightarrow> manager \<Rightarrow> address \<Rightarrow> bool" where
  "live_due now_ms interval m mint =
     (bucket_cache m mint \<noteq> None \<and>
      (case last_live_snapshot_at m mint of
         Some t \<Rightarrow> interval \<le> saturating_sub now_ms t | None \<Rightarrow> True))"

definition tick_live :: "environment \<Rightarrow> manager \<Rightarrow> manager \<times> effect list" where
  "tick_live env m =
     (if enabled (exit_v4 (config m))
      then let mints = remdups (map (\<lambda>(k, p). fst k) (positions m));
               interval = max (exit_v4_live_snapshot_interval_ms (config m)) 100;
               due = filter (live_due (env_instant_ms env) interval m) mints
           in (m\<lparr>last_live_snapshot_at := (\<lambda>a. if a \<in> set due then Some (env_instant_ms env)
                                              else last_live_snapshot_at m a)\<rparr>,
               concat (map (\<lambda>mint. spawn_live_snapshot_refresh mint m) due))
      else (m, []))"

text \<open>One position: its new state, what is spawned and announced, and the sell it queues.\<close>

definition tick_entry ::
  "environment \<Rightarrow> smart_buy_config \<Rightarrow> bool \<Rightarrow> position_key \<times> position
   \<Rightarrow> ((position_key \<times> position) \<times> effect list \<times> (position_key \<times> sell_action) list) outcome" where
  "tick_entry env cfg rpc kp =
     (let (k, pos) = kp in
      bind_outcome (tick_position cfg rpc (env_now env) pos) (\<lambda>r.
      let p' = tr_position r;
          acts = (case tr_action r of Some a \<Rightarrow> [(k, a)] | None \<Rightarrow> []) in
      case tr_view r of
        None \<Rightarrow> Inr ((k, p'), [], acts)
      | Some tv \<Rightarrow>
          bind_outcome (pool_mcap_sol (pos_pool pos)) (\<lambda>pool_raw.
          Inr ((k, p'),
               (case tr_poll r of Some force \<Rightarrow> [SpawnExitMcapPoll (fst k) pool_raw force] | None \<Rightarrow> [])
               @ [Feed (PositionUpdate (env_str env (fst k)) (snd k) (tv_profit tv) (amount_to_float (holdings p'))
                          (tv_current tv) (Some (last_time_kill_tier p')) (Some (last_time_kill_after_secs p')))],
               acts))))"

definition schedule_sell :: "position_key \<times> sell_action \<Rightarrow> effect" where
  "schedule_sell ka =
     (let (k, a) = ka in SendAfter (if act_urgent a then 0 else 800)
        (ExecuteSell (fst k) (snd k) (act_percent a) (act_reason a)))"

definition process_positions :: "environment \<Rightarrow> manager \<Rightarrow> (manager \<times> effect list) outcome" where
  "process_positions env m =
     bind_outcome (map_outcome (tick_entry env (config m) (post_exit_rpc m)) (positions m)) (\<lambda>rs.
       Inr (m\<lparr>positions := map fst rs, last_print_time := max (last_print_time m) (env_now env)\<rparr>,
            concat (map (fst \<circ> snd) rs) @ map schedule_sell (concat (map (snd \<circ> snd) rs))))"

definition tick :: "environment \<Rightarrow> manager \<Rightarrow> (manager \<times> effect list) outcome" where
  "tick env m =
     (let (m1, live) = tick_live env m in
      bind_outcome (process_positions env m1) (\<lambda>(m2, es). Inr (m2, live @ es)))"

section \<open>The execution of a sell\<close>

text \<open>UTF-8 of the middle dot in the details of a time kill.\<close>

definition dot_utf8 :: string where
  "dot_utf8 = [CHR 0x20, CHR 0xC2, CHR 0xB7, CHR 0x20]"

definition time_kill_detail :: "smart_buy_config \<Rightarrow> position \<Rightarrow> string \<Rightarrow> string option" where
  "time_kill_detail cfg pos reason =
     (if reason = ''TIME KILL''
      then if time_kill_adaptive cfg \<and> last_time_kill_tier pos \<noteq> []
           then Some (''adaptive'' @ dot_utf8 @ last_time_kill_tier pos @ dot_utf8
                      @ show_nat (unat (last_time_kill_after_secs pos)) @ ''s'')
           else if \<not> time_kill_adaptive cfg
           then Some (''fixed'' @ dot_utf8 @ show_nat (unat (time_kill_secs cfg)) @ ''s'')
           else Some (''adaptive'' @ dot_utf8 @ ''?'')
      else None)"

text \<open>What is measured before the broker is asked.\<close>

record sell_quote =
  sq_filt_pnl :: f64
  sq_raw_pnl :: f64
  sq_mcap_pnl :: f64
  sq_exit_mcap :: f64
  sq_qty :: f64
  sq_detail :: "string option"

definition quote_sell :: "smart_buy_config \<Rightarrow> position \<Rightarrow> f64 \<Rightarrow> string \<Rightarrow> sell_quote outcome" where
  "quote_sell cfg pos percent reason =
     bind_outcome (exit_raw_mcap pos) (\<lambda>raw.
     bind_outcome (pos_pnl pos) (\<lambda>mcap_pnl.
     bind_outcome (pool_mcap_sol (pos_pool pos)) (\<lambda>exit_mcap.
       Inr \<lparr>sq_filt_pnl = pnl_filtered pos (exit_mcap_band_low_ratio cfg) (exit_mcap_band_high_ratio cfg),
            sq_raw_pnl = pnl_at_mcap pos raw, sq_mcap_pnl = mcap_pnl, sq_exit_mcap = exit_mcap,
            sq_qty = amount_to_float (holdings pos) * (percent / f64_of 100),
            sq_detail = time_kill_detail cfg pos reason\<rparr>)))"

definition whole :: "f64 \<Rightarrow> bool" where
  "whole percent = (f64_of 100 \<le> percent)"

definition sell_event ::
  "environment \<Rightarrow> manager \<Rightarrow> position_key \<Rightarrow> string option \<Rightarrow> f64 \<Rightarrow> f64 option \<Rightarrow> string \<Rightarrow> string
   \<Rightarrow> sell_quote \<Rightarrow> f64 option \<Rightarrow> effect" where
  "sell_event env m k sig amount est status reason q pnl_sol =
     Feed (TxEvent \<lparr>tx_kind = TxSell, tx_wallet_id = snd k, tx_mint = env_str env (fst k), tx_signature = sig,
       tx_amount_sol = amount, tx_amount_sol_estimated = est, tx_status = status, tx_reason = Some reason,
       tx_mode = reg_mode_label (wallets m), tx_ts = env_now env, tx_v3_tape = None,
       tx_time_kill_detail = sq_detail q, tx_pnl_mcap_pct = Some (sq_mcap_pnl q), tx_pnl_sol_pct = pnl_sol\<rparr>)"

text \<open>The position after a failed sell.\<close>

definition reopen :: "broker_error \<Rightarrow> f64 \<Rightarrow> position \<Rightarrow> position" where
  "reopen e percent pos =
     (if requires_manual_sell e \<or> whole percent
      then pos\<lparr>is_closing := False, pending_partial_sell := False\<rparr>
      else pos\<lparr>pending_partial_sell := False\<rparr>)"

text \<open>\<open>m\<close> is the state from which the position has been taken out.\<close>

definition sell_failed ::
  "environment \<Rightarrow> position_key \<Rightarrow> f64 \<Rightarrow> string \<Rightarrow> position \<Rightarrow> sell_quote \<Rightarrow> broker_error \<Rightarrow> manager
   \<Rightarrow> manager \<times> effect list" where
  "sell_failed env k percent reason pos q e m =
     (let txt = broker_error_display (env_str env) e;
          p' = reopen e percent pos
      in (m\<lparr>positions := AList.update k p' (positions m)\<rparr>,
          (if requires_manual_sell e
           then [Feed (ManualSellRequired (snd k) (env_str env (fst k)) reason txt
                         (amount_to_float (holdings p')) (env_now env))]
           else [])
          @ [sell_event env m k None 0 None ''failed'' (reason @ '': '' @ txt) q None]))"

section \<open>After a closed position\<close>

text \<open>The profit of the whole position in SOL and in percent.\<close>

definition close_pnl_sol :: "f64 \<Rightarrow> f64 \<Rightarrow> f64" where
  "close_pnl_sol ret spent = (if 0 < spent then ret - spent else 0)"

definition close_pnl_pct :: "f64 \<Rightarrow> f64 \<Rightarrow> f64 \<Rightarrow> f64" where
  "close_pnl_pct ret spent invested = (if 0 < spent then pct_over ret spent else pct_over ret invested)"

definition blacklist_entry ::
  "environment \<Rightarrow> manager \<Rightarrow> address \<Rightarrow> position \<Rightarrow> string \<Rightarrow> f64 \<Rightarrow> f64 \<Rightarrow> effect list" where
  "blacklist_entry env m mint pos reason pnl_sol pnl_pct =
     (case dev_address pos of
        None \<Rightarrow> []
      | Some dev \<Rightarrow>
          (case classify_dev_blacklist reason pnl_pct (dev_blacklist_cfg m) of
             None \<Rightarrow> []
           | Some t \<Rightarrow>
               [BlacklistDev \<lparr>be_dev_wallet = env_str env dev, be_reason = build_blacklist_reason t reason pnl_pct,
                  be_mint = env_str env mint, be_pnl_sol = pnl_sol, be_close_reason = reason,
                  be_created_at = env_now env,
                  be_expires_at = (case t of PermanentRug \<Rightarrow> DEV_BLACKLIST_NEVER_EXPIRES
                                   | Timed \<Rightarrow> env_now env + db_cooldown_secs (dev_blacklist_cfg m))\<rparr>]))"

definition ranker_effects :: "manager \<Rightarrow> position \<Rightarrow> f64 \<Rightarrow> effect list" where
  "ranker_effects m pos pnl_pct =
     (case dev_address pos of
        Some dev \<Rightarrow> if dev_ranker m then [NoteDevOutcome dev (classify_outcome pnl_pct)] else []
      | None \<Rightarrow> [])
     @ (if early_buyers pos \<noteq> [] \<and> smart_money m then [NoteSmartMoney (early_buyers pos) pnl_pct] else [])"

text \<open>\<^verbatim>\<open>(closed_at - entry_time).max(0)\<close> on signed seconds.\<close>

definition held_seconds :: "u64 \<Rightarrow> u64 \<Rightarrow> i64" where
  "held_seconds now entry = (if sint (now - entry) < 0 then 0 else now - entry)"

definition learning_effects ::
  "environment \<Rightarrow> manager \<Rightarrow> position \<Rightarrow> sell_quote \<Rightarrow> f64 \<Rightarrow> string \<Rightarrow> effect list" where
  "learning_effects env m pos q pnl_pct reason =
     (case pos_snapshot pos of
        Some s \<Rightarrow> if learning m
                  then [LogClosedTrade s (sq_exit_mcap q) pnl_pct (held_seconds (env_now env) (entry_time pos))
                          reason (env_now env)]
                  else []
      | None \<Rightarrow> [])"

definition trade_row ::
  "environment \<Rightarrow> position_key \<Rightarrow> position \<Rightarrow> sell_quote \<Rightarrow> f64 \<Rightarrow> string \<Rightarrow> bot_trade_entry" where
  "trade_row env k pos q pnl_pct reason =
     (let entry = amount_to_float (enter_mcap pos) in
      \<lparr>bt_wallet_id = snd k, bt_mint = env_str env (fst k), bt_entry_mcap_sol = entry,
       bt_invested_sol = (if 0 < spent_sol pos then spent_sol pos else 0),
       bt_realized_pnl_pct = (if 0 < spent_sol pos then pnl_pct
                              else if 0 < entry then pct_over (sq_exit_mcap q) entry else 0),
       bt_close_reason = reason, bt_entry_at = entry_time pos, bt_closed_at = env_now env,
       bt_exit_mcap_sol = sq_exit_mcap q, bt_entry_meta = entry_meta_json env (pos_snapshot pos)\<rparr>)"

text \<open>
  \<open>pos\<close> carries the total returned, this sell included; the position is already out of the table and
  the balances are refreshed.
\<close>

definition close_position ::
  "environment \<Rightarrow> position_key \<Rightarrow> string \<Rightarrow> position \<Rightarrow> sell_quote \<Rightarrow> manager \<Rightarrow> manager \<times> effect list" where
  "close_position env k reason pos q m =
     (let mint = fst k; now = env_now env;
          m1 = maybe_finalize_closed_mint mint m;
          ret = total_returned pos; spent = spent_sol pos;
          pnl_sol = close_pnl_sol ret spent;
          pnl_pct = close_pnl_pct ret spent (amount_to_float (initial_holdings pos));
          m2 = m1\<lparr>strategy_ctl := note_position_closed (strategy_ctl m1) now pnl_sol\<rparr>;
          m3 = (if should_quarantine_mint reason pnl_pct (sq_filt_pnl q) (sq_raw_pnl q) (curve_quarantine_cfg m2)
                then m2\<lparr>curve_quarantine := quarantine_insert (curve_quarantine m2) mint
                          (now + cq_cooldown_secs (curve_quarantine_cfg m2))\<rparr>
                else m2)
      in (m3, blacklist_entry env m3 mint pos reason pnl_sol pnl_pct @ ranker_effects m3 pos pnl_pct
              @ learning_effects env m3 pos q pnl_pct reason
              @ [Feed (PositionClose (env_str env mint) (snd k) reason),
                 SaveBotTrade (trade_row env k pos q pnl_pct reason) (post_exit_rpc m3)]))"

definition sell_done ::
  "environment \<Rightarrow> position_key \<Rightarrow> f64 \<Rightarrow> string \<Rightarrow> position \<Rightarrow> sell_quote \<Rightarrow> sell_receipt \<Rightarrow> manager
   \<Rightarrow> manager \<times> effect list" where
  "sell_done env k percent reason pos q r m =
     (let p1 = pos\<lparr>total_returned := total_returned pos + sol_received_actual r\<rparr>;
          pnl_tx = (if 0 < spent_sol p1 \<and> whole percent then Some (pct_over (total_returned p1) (spent_sol p1)) else None);
          tx = sell_event env m k (sr_signature r) (sol_received_actual r) (Some (sol_received_estimated r))
                 ''confirmed'' reason q pnl_tx;
          p2 = p1\<lparr>holdings := amount_from_float_native (amount_to_float (holdings p1) - sq_qty q),
                   pending_partial_sell := False\<rparr>;
          m1 = (if percent < f64_of 100 then m\<lparr>positions := AList.update k p2 (positions m)\<rparr> else m);
          (m2, bal) = refresh_balance env (snd k) m1;
          (m3, closed) = (if whole percent then close_position env k reason p1 q m2 else (m2, []))
      in (m3, [tx] @ bal @ closed))"

definition execute_sell ::
  "environment \<Rightarrow> address \<Rightarrow> string \<Rightarrow> f64 \<Rightarrow> string \<Rightarrow> manager \<Rightarrow> (manager \<times> effect list) outcome" where
  "execute_sell env mint wid percent reason m =
     (let k = (mint, wid) in
      if registry_get (wallets m) wid = None then Inr (m, [])
      else case map_of (positions m) k of
             None \<Rightarrow> Inr (m, [])
           | Some pos \<Rightarrow>
               let m1 = m\<lparr>positions := AList.delete k (positions m)\<rparr> in
               bind_outcome (quote_sell (config m1) pos percent reason) (\<lambda>q.
                 Inr (case env_sell env wid mint (sq_qty q) (pos_pool pos) (whole percent) of
                        Inl e \<Rightarrow> sell_failed env k percent reason pos q e m1
                      | Inr r \<Rightarrow> sell_done env k percent reason pos q r m1)))"

section \<open>Abandoned positions and queries\<close>

definition abandoned :: "address \<Rightarrow> string option \<Rightarrow> position_key \<Rightarrow> bool" where
  "abandoned mint wid k = (fst k = mint \<and> (case wid of Some w \<Rightarrow> w = snd k | None \<Rightarrow> True))"

definition abandon_position ::
  "environment \<Rightarrow> address \<Rightarrow> string option \<Rightarrow> manager \<Rightarrow> manager \<times> effect list" where
  "abandon_position env mint wid m =
     (let keys = filter (abandoned mint wid) (map fst (positions m));
          m1 = m\<lparr>positions := filter (\<lambda>(k, p). \<not> abandoned mint wid k) (positions m)\<rparr>
      in (maybe_finalize_closed_mint mint m1,
          concat (map (\<lambda>k. (if registry_get (wallets m) (snd k) \<noteq> None then [ForgetPosition (snd k) mint] else [])
              @ [Feed (PositionClose (env_str env mint) (snd k) ''abandoned (operator removed from OPEN)'')]) keys)))"

definition get_pnl :: "address \<Rightarrow> manager \<Rightarrow> f64 option outcome" where
  "get_pnl mint m =
     (case find (\<lambda>(k, p). fst k = mint) (positions m) of
        Some (k, p) \<Rightarrow> bind_outcome (pos_pnl p) (\<lambda>x. Inr (Some x))
      | None \<Rightarrow> Inr None)"

definition open_wire :: "environment \<Rightarrow> position_key \<times> position \<Rightarrow> open_position_wire list outcome" where
  "open_wire env kp =
     (let (k, pos) = kp in
      case pos_open_reason pos of
        None \<Rightarrow> Inr []
      | Some why \<Rightarrow>
          bind_outcome (exit_raw_mcap pos) (\<lambda>mcap.
          bind_outcome (pos_pnl pos) (\<lambda>pnl.
            Inr [\<lparr>ow_wallet_id = snd k, ow_address = env_str env (fst k), ow_open_reason = why,
                  ow_enter_mcap = amount_to_float (enter_mcap pos), ow_pnl = pnl,
                  ow_holdings = amount_to_float (holdings pos), ow_market_cap = mcap,
                  ow_v3_tape = map_option v3_from_learning (pos_snapshot pos),
                  ow_time_kill_tier = (if last_time_kill_tier pos = [] then None
                                       else Some (last_time_kill_tier pos)),
                  ow_time_kill_after_secs = (if last_time_kill_after_secs pos = 0 then None
                                             else Some (last_time_kill_after_secs pos))\<rparr>])))"

definition get_open_positions :: "environment \<Rightarrow> manager \<Rightarrow> open_position_wire list outcome" where
  "get_open_positions env m =
     bind_outcome (map_outcome (open_wire env) (positions m)) (\<lambda>ws. Inr (concat ws))"

section \<open>One turn of the loop\<close>

datatype manager_reply =
    NoReply
  | StrategyReply strategy_snapshot
  | PnlReply "f64 option"
  | OpenPositionsReply "open_position_wire list"

definition silent :: "(manager \<times> effect list) outcome \<Rightarrow> (manager \<times> effect list \<times> manager_reply) outcome" where
  "silent r = bind_outcome r (\<lambda>(m, es). Inr (m, es, NoReply))"

fun handle :: "environment \<Rightarrow> position_message \<Rightarrow> manager \<Rightarrow> (manager \<times> effect list \<times> manager_reply) outcome" where
  "handle env (UpdatePool p) m = Inr (update_pool p m, [], NoReply)"
| "handle env (UpdateTokenBucket b) m = silent (Inr (update_token_bucket b m))"
| "handle env (ApplyExitMcapRefresh mint mcap use_jupiter) m =
     bind_outcome (on_mint mint (apply_exit_mcap mcap use_jupiter) m) (\<lambda>m'. Inr (m', [], NoReply))"
| "handle env (ApplyLiveSnapshot mint live) m =
     bind_outcome (on_mint mint (apply_live_snapshot (config m) (env_now env) live) m)
       (\<lambda>m'. Inr (m', [], NoReply))"
| "handle env (SetPaused v) m = silent (Inr (set_paused v m))"
| "handle env (InitiateBuy p amount buy_tier reason dev early snap) m =
     silent (Inr (initiate_buy env p amount buy_tier reason dev early snap m))"
| "handle env GetStrategySnapshot m = Inr (m, [], StrategyReply (strategy_snapshot_of (strategy_ctl m)))"
| "handle env (AbandonPosition mint wid) m = silent (Inr (abandon_position env mint wid m))"
| "handle env (ClearPendingMint mint) m = Inr (clear_pending_mint mint m, [], NoReply)"
| "handle env (ExecuteBuy bo) m = silent (Inr (execute_buy bo m))"
| "handle env (BuyCompleted bo p mode v3 res) m = silent (apply_buy_result env bo p mode v3 res m)"
| "handle env (ExecuteSell mint wid percent reason) m = silent (execute_sell env mint wid percent reason m)"
| "handle env Tick m = silent (tick env m)"
| "handle env (GetPnl mint) m = bind_outcome (get_pnl mint m) (\<lambda>x. Inr (m, [], PnlReply x))"
| "handle env GetOpenPositions m = bind_outcome (get_open_positions env m) (\<lambda>ws. Inr (m, [], OpenPositionsReply ws))"

end
