(* ===== verification/Manager_System.thy ===== *)
theory Manager_System
  imports Manager_Exit "HOL-Library.Multiset"
begin

text \<open>
  The position manager with everything it has set in motion: the actor's state together with the
  tasks in flight (delayed messages to itself, running buys, samples and polls). A step either
  handles a message from outside or lets one of the tasks complete, in any order: the delays and
  the network do not fix one. The invariants over all reachable states say that the position table
  is consistent, that nothing waits for a task that does not exist, and that the actor does not
  panic.
\<close>

section \<open>Steps\<close>

type_synonym system = "manager \<times> effect multiset"

fun outstanding :: "effect \<Rightarrow> bool" where
  "outstanding (SendAfter d msg) = True"
| "outstanding (SpawnBuy bo p mode v3) = True"
| "outstanding (SpawnLiveSnapshot mint b t early tape tol) = True"
| "outstanding (SpawnExitMcapPoll mint raw force) = True"
| "outstanding _ = False"

definition started :: "effect list \<Rightarrow> effect multiset" where
  "started es = mset (filter outstanding es)"

text \<open>The message a task sends when it is done: what the broker, the tape and the poll answer is open.\<close>

fun completes :: "effect \<Rightarrow> position_message \<Rightarrow> bool" where
  "completes (SendAfter d msg) msg' \<longleftrightarrow> msg' = msg"
| "completes (SpawnBuy bo p mode v3) msg \<longleftrightarrow> (\<exists>res. msg = BuyCompleted bo p mode v3 res)"
| "completes (SpawnLiveSnapshot mint b t early tape tol) msg \<longleftrightarrow> (\<exists>live. msg = ApplyLiveSnapshot mint live)"
| "completes (SpawnExitMcapPoll mint raw force) msg \<longleftrightarrow> (\<exists>mcap use_j. msg = ApplyExitMcapRefresh mint mcap use_j)"
| "completes _ msg \<longleftrightarrow> False"

text \<open>The messages other parts of the program send, with pools that still have tokens.\<close>

definition live_pool :: "pool \<Rightarrow> bool" where
  "live_pool p = (pool_tokens p \<noteq> 0)"

fun external :: "position_message \<Rightarrow> bool" where
  "external (UpdatePool p) = live_pool p"
| "external (UpdateTokenBucket b) = live_pool (tb_pool b)"
| "external (SetPaused v) = True"
| "external (InitiateBuy p amount buy_tier reason dev early snap) = live_pool p"
| "external GetStrategySnapshot = True"
| "external (GetPnl mint) = True"
| "external GetOpenPositions = True"
| "external (AbandonPosition mint wid) = True"
| "external Tick = True"
| "external _ = False"

inductive sys_step :: "system \<Rightarrow> system \<Rightarrow> bool" where
  arrives: "external msg \<Longrightarrow> handle env msg m = Inr (m', es, r) \<Longrightarrow>
     sys_step (m, fl) (m', fl + started es)"
| completed: "e \<in># fl \<Longrightarrow> completes e msg \<Longrightarrow> handle env msg m = Inr (m', es, r) \<Longrightarrow>
     sys_step (m, fl) (m', fl - {#e#} + started es)"

inductive_cases sys_stepE: "sys_step s s'"

definition fresh_manager :: "manager \<Rightarrow> bool" where
  "fresh_manager m \<longleftrightarrow> (\<exists>ws bal cfg bl cq rpc sc ranker smart learn lat now.
     m = manager_new ws bal cfg bl cq rpc sc ranker smart learn lat now)"

definition reachable :: "system \<Rightarrow> bool" where
  "reachable s \<longleftrightarrow> (\<exists>m. fresh_manager m \<and> sys_step\<^sup>*\<^sup>* (m, {#}) s)"

section \<open>The invariant\<close>

text \<open>A sell of a position in flight, and one of all of it.\<close>

definition sell_in_flight :: "effect multiset \<Rightarrow> position_key \<Rightarrow> bool" where
  "sell_in_flight fl k \<longleftrightarrow> (\<exists>d pct why. SendAfter d (ExecuteSell (fst k) (snd k) pct why) \<in># fl)"

definition close_in_flight :: "effect multiset \<Rightarrow> position_key \<Rightarrow> bool" where
  "close_in_flight fl k \<longleftrightarrow>
     (\<exists>d pct why. SendAfter d (ExecuteSell (fst k) (snd k) pct why) \<in># fl \<and> whole pct)"

definition clear_in_flight :: "effect multiset \<Rightarrow> address \<Rightarrow> bool" where
  "clear_in_flight fl mint \<longleftrightarrow> (\<exists>d. SendAfter d (ClearPendingMint mint) \<in># fl)"

definition buy_in_flight :: "effect multiset \<Rightarrow> position_key \<Rightarrow> bool" where
  "buy_in_flight fl k \<longleftrightarrow>
     (\<exists>bo p mode v3. SpawnBuy bo p mode v3 \<in># fl \<and> bo_mint bo = fst k \<and> bo_wallet bo = snd k)"

lemmas in_flight_defs = sell_in_flight_def close_in_flight_def clear_in_flight_def buy_in_flight_def

definition wallet_ids :: "manager \<Rightarrow> string set" where
  "wallet_ids m = set (map w_id (reg_ordered (wallets m)))"

text \<open>One row of the position table.\<close>

definition row_ok :: "string set \<Rightarrow> position_key \<times> position \<Rightarrow> bool" where
  "row_ok ids kp \<longleftrightarrow> wallet_id (snd kp) = snd (fst kp) \<and> snd (fst kp) \<in> ids \<and>
     pool_mint (pos_pool (snd kp)) = fst (fst kp) \<and> live_pool (pos_pool (snd kp))"

text \<open>A row that waits for a sell has one.\<close>

definition row_served :: "effect multiset \<Rightarrow> position_key \<times> position \<Rightarrow> bool" where
  "row_served fl kp \<longleftrightarrow> (is_closing (snd kp) \<longrightarrow> close_in_flight fl (fst kp)) \<and>
     (pending_partial_sell (snd kp) \<longrightarrow> sell_in_flight fl (fst kp))"

definition table_ok :: "manager \<Rightarrow> bool" where
  "table_ok m \<longleftrightarrow> distinct (map fst (positions m)) \<and> list_all (row_ok (wallet_ids m)) (positions m)"

definition cache_ok :: "manager \<Rightarrow> bool" where
  "cache_ok m \<longleftrightarrow> (\<forall>mint p. pool_cache m mint = Some p \<longrightarrow> pool_mint p = mint \<and> live_pool p)"

fun task_ok :: "string set \<Rightarrow> effect \<Rightarrow> bool" where
  "task_ok ids (SpawnBuy bo p mode v3) \<longleftrightarrow> bo_wallet bo \<in> ids \<and> pool_mint p = bo_mint bo \<and> live_pool p"
| "task_ok ids (SendAfter d msg) \<longleftrightarrow>
     (case msg of ExecuteBuy _ \<Rightarrow> True | ClearPendingMint _ \<Rightarrow> True | ExecuteSell _ _ _ _ \<Rightarrow> True | _ \<Rightarrow> False)"
| "task_ok ids _ \<longleftrightarrow> True"

definition served :: "manager \<Rightarrow> effect multiset \<Rightarrow> bool" where
  "served m fl \<longleftrightarrow> list_all (row_served fl) (positions m) \<and>
     (\<forall>mint \<in> pending_mints m. clear_in_flight fl mint) \<and>
     (\<forall>k \<in> pending_wallet_buys m. buy_in_flight fl k)"

definition tasks_ok :: "manager \<Rightarrow> effect multiset \<Rightarrow> bool" where
  "tasks_ok m fl \<longleftrightarrow> (\<forall>e \<in># fl. task_ok (wallet_ids m) e)"

definition sys_inv :: "system \<Rightarrow> bool" where
  "sys_inv s \<longleftrightarrow> table_ok (fst s) \<and> cache_ok (fst s) \<and> tasks_ok (fst s) (snd s) \<and> served (fst s) (snd s)"

lemma sys_inv_fresh: "fresh_manager m \<Longrightarrow> sys_inv (m, {#})"
  by (auto simp: fresh_manager_def manager_new_def sys_inv_def table_ok_def cache_ok_def tasks_ok_def served_def)

section \<open>Between the removal of a task and its handling\<close>

text \<open>What a message itself serves when it is handled.\<close>

definition msg_sells :: "position_message \<Rightarrow> position_key \<Rightarrow> bool" where
  "msg_sells msg k \<longleftrightarrow> (\<exists>pct why. msg = ExecuteSell (fst k) (snd k) pct why)"

definition msg_closes :: "position_message \<Rightarrow> position_key \<Rightarrow> bool" where
  "msg_closes msg k \<longleftrightarrow> (\<exists>pct why. msg = ExecuteSell (fst k) (snd k) pct why \<and> whole pct)"

definition msg_buys :: "position_message \<Rightarrow> position_key \<Rightarrow> bool" where
  "msg_buys msg k \<longleftrightarrow> (\<exists>bo p mode v3 res. msg = BuyCompleted bo p mode v3 res \<and> bo_mint bo = fst k \<and> bo_wallet bo = snd k)"

lemmas msg_serves = msg_sells_def msg_closes_def msg_buys_def

definition served_upto :: "position_message \<Rightarrow> manager \<Rightarrow> effect multiset \<Rightarrow> bool" where
  "served_upto msg m fl \<longleftrightarrow>
     (\<forall>(k, p) \<in> set (positions m).
        (is_closing p \<longrightarrow> close_in_flight fl k \<or> msg_closes msg k) \<and>
        (pending_partial_sell p \<longrightarrow> sell_in_flight fl k \<or> msg_sells msg k)) \<and>
     (\<forall>mint \<in> pending_mints m. clear_in_flight fl mint \<or> msg = ClearPendingMint mint) \<and>
     (\<forall>k \<in> pending_wallet_buys m. buy_in_flight fl k \<or> msg_buys msg k)"

fun msg_ok :: "string set \<Rightarrow> position_message \<Rightarrow> bool" where
  "msg_ok ids (UpdatePool p) = live_pool p"
| "msg_ok ids (UpdateTokenBucket b) = live_pool (tb_pool b)"
| "msg_ok ids (InitiateBuy p amount buy_tier reason dev early snap) = live_pool p"
| "msg_ok ids (BuyCompleted bo p mode v3 res) \<longleftrightarrow>
     bo_wallet bo \<in> ids \<and> pool_mint p = bo_mint bo \<and> live_pool p"
| "msg_ok ids _ = True"

definition pre_inv :: "position_message \<Rightarrow> manager \<Rightarrow> effect multiset \<Rightarrow> bool" where
  "pre_inv msg m fl \<longleftrightarrow> table_ok m \<and> cache_ok m \<and> tasks_ok m fl \<and> served_upto msg m fl
     \<and> msg_ok (wallet_ids m) msg"

lemma in_flight_add:
  "sell_in_flight fl k \<Longrightarrow> sell_in_flight (fl + x) k" "close_in_flight fl k \<Longrightarrow> close_in_flight (fl + x) k"
  "clear_in_flight fl a \<Longrightarrow> clear_in_flight (fl + x) a" "buy_in_flight fl k \<Longrightarrow> buy_in_flight (fl + x) k"
  by (auto simp: in_flight_defs)

lemma in_diff_or: "x \<in># fl \<Longrightarrow> x \<in># fl - {#e#} \<or> x = e"
  by (metis diff_single_trivial insert_DiffM insert_noteq_member)

lemma sell_in_flight_diff:
  "sell_in_flight fl k \<Longrightarrow> completes e msg \<Longrightarrow> sell_in_flight (fl - {#e#}) k \<or> msg_sells msg k"
  unfolding sell_in_flight_def msg_sells_def by (metis in_diff_or completes.simps(1))

lemma close_in_flight_diff:
  "close_in_flight fl k \<Longrightarrow> completes e msg \<Longrightarrow> close_in_flight (fl - {#e#}) k \<or> msg_closes msg k"
  unfolding close_in_flight_def msg_closes_def by (metis in_diff_or completes.simps(1))

lemma clear_in_flight_diff:
  "clear_in_flight fl a \<Longrightarrow> completes e msg \<Longrightarrow> clear_in_flight (fl - {#e#}) a \<or> msg = ClearPendingMint a"
  unfolding clear_in_flight_def by (metis in_diff_or completes.simps(1))

lemma buy_in_flight_diff:
  "buy_in_flight fl k \<Longrightarrow> completes e msg \<Longrightarrow> buy_in_flight (fl - {#e#}) k \<or> msg_buys msg k"
  unfolding buy_in_flight_def msg_buys_def by (metis in_diff_or completes.simps(2))

lemma pre_inv_external:
  assumes "sys_inv (m, fl)" "external msg" shows "pre_inv msg m fl"
proof -
  have "msg_ok (wallet_ids m) msg" using assms(2) by (cases msg) auto
  then show ?thesis using assms(1)
    by (auto simp: sys_inv_def pre_inv_def served_def served_upto_def list_all_iff row_served_def)
qed

lemma pre_inv_completed:
  assumes inv: "sys_inv (m, fl)" and e: "e \<in># fl" "completes e msg" shows "pre_inv msg m (fl - {#e#})"
proof -
  have t: "task_ok (wallet_ids m) e" using inv e(1) by (auto simp: sys_inv_def tasks_ok_def)
  have "msg_ok (wallet_ids m) msg"
  proof (cases e)
    case (SendAfter d x)
    then show ?thesis using t e(2) by (cases x) simp_all
  qed (use t e(2) in auto)
  moreover have "tasks_ok m (fl - {#e#})" using inv by (auto simp: sys_inv_def tasks_ok_def dest: in_diffD)
  moreover have "served_upto msg m (fl - {#e#})"
    unfolding served_upto_def
  proof (intro conjI ballI)
    fix kp assume kp: "kp \<in> set (positions m)"
    obtain k p where k: "kp = (k, p)" by (cases kp)
    have "row_served fl kp" using inv kp by (simp add: sys_inv_def served_def list_all_iff)
    then show "case kp of (k, p) \<Rightarrow>
        (is_closing p \<longrightarrow> close_in_flight (fl - {#e#}) k \<or> msg_closes msg k) \<and>
        (pending_partial_sell p \<longrightarrow> sell_in_flight (fl - {#e#}) k \<or> msg_sells msg k)"
      using close_in_flight_diff[of fl k e msg] sell_in_flight_diff[of fl k e msg] e(2)
      by (auto simp: row_served_def k)
  next
    fix mint assume "mint \<in> pending_mints m"
    then have "clear_in_flight fl mint" using inv by (simp add: sys_inv_def served_def)
    then show "clear_in_flight (fl - {#e#}) mint \<or> msg = ClearPendingMint mint"
      by (rule clear_in_flight_diff[OF _ e(2)])
  next
    fix k assume "k \<in> pending_wallet_buys m"
    then have "buy_in_flight fl k" using inv by (simp add: sys_inv_def served_def)
    then show "buy_in_flight (fl - {#e#}) k \<or> msg_buys msg k" by (rule buy_in_flight_diff[OF _ e(2)])
  qed
  ultimately show ?thesis using inv by (auto simp: sys_inv_def pre_inv_def)
qed

section \<open>Every handler keeps the invariant\<close>

lemma started_simps [simp]: "started [] = {#}" "started (xs @ ys) = started xs + started ys"
  "started (x # xs) = (if outstanding x then {#x#} else {#}) + started xs"
  by (simp_all add: started_def)

text \<open>The common case: rows keep their selling state and pool, the pending sets only shrink.\<close>

definition row_keeps :: "position_key \<times> position \<Rightarrow> position_key \<times> position \<Rightarrow> bool" where
  "row_keeps kp kp' \<longleftrightarrow> fst kp' = fst kp \<and> wallet_id (snd kp') = wallet_id (snd kp) \<and>
     pos_pool (snd kp') = pos_pool (snd kp) \<and> is_closing (snd kp') = is_closing (snd kp) \<and>
     pending_partial_sell (snd kp') = pending_partial_sell (snd kp)"

lemma row_ok_keeps: "row_keeps kp kp' \<Longrightarrow> row_ok ids kp \<Longrightarrow> row_ok ids kp'"
  by (simp add: row_keeps_def row_ok_def)

lemma rows_keep_fst: "list_all2 row_keeps xs ys \<Longrightarrow> map fst ys = map fst xs"
  by (induction rule: list_all2_induct) (simp_all add: row_keeps_def)

lemma rows_keep_set: "list_all2 row_keeps xs ys \<Longrightarrow> kp' \<in> set ys \<Longrightarrow> \<exists>kp \<in> set xs. row_keeps kp kp'"
  by (induction rule: list_all2_induct) auto

lemma rows_keep_refl: "list_all2 row_keeps xs xs"
  by (simp add: list_all2_refl row_keeps_def)

definition tasks_fine :: "manager \<Rightarrow> effect list \<Rightarrow> bool" where
  "tasks_fine m es \<longleftrightarrow> list_all (\<lambda>e. outstanding e \<longrightarrow> task_ok (wallet_ids m) e) es"

lemma tasks_ok_started: "tasks_ok m fl \<Longrightarrow> tasks_fine m es \<Longrightarrow> tasks_ok m (fl + started es)"
  by (auto simp: tasks_ok_def tasks_fine_def started_def list_all_iff)

lemma tasks_fine_simps [simp]: "tasks_fine m []" "tasks_fine m (xs @ ys) \<longleftrightarrow> tasks_fine m xs \<and> tasks_fine m ys"
  "tasks_fine m (x # xs) \<longleftrightarrow> (outstanding x \<longrightarrow> task_ok (wallet_ids m) x) \<and> tasks_fine m xs"
  by (simp_all add: tasks_fine_def)

text \<open>A message that serves nothing.\<close>

fun serving :: "position_message \<Rightarrow> bool" where
  "serving (ExecuteSell mint wid pct why) = True"
| "serving (ClearPendingMint mint) = True"
| "serving (BuyCompleted bo p mode v3 res) = True"
| "serving _ = False"

lemma served_not_serving: "served_upto msg m fl \<Longrightarrow> \<not> serving msg \<Longrightarrow> served m fl"
proof -
  assume a: "served_upto msg m fl" "\<not> serving msg"
  have "\<not> msg_closes msg k" "\<not> msg_sells msg k" "\<not> msg_buys msg k" "msg \<noteq> ClearPendingMint mint" for k mint
    using a(2) by (auto simp: msg_serves)
  then show ?thesis using a(1) by (auto simp: served_upto_def served_def list_all_iff row_served_def)
qed

lemma sys_inv_frame:
  assumes pre: "table_ok m" "tasks_ok m fl" "served m fl"
    and rows: "list_all2 row_keeps (positions m) (positions m')" and ids: "wallet_ids m' = wallet_ids m"
    and sets: "pending_mints m' \<subseteq> pending_mints m" "pending_wallet_buys m' \<subseteq> pending_wallet_buys m"
    and cache: "cache_ok m'" and tasks: "tasks_fine m es"
  shows "sys_inv (m', fl + started es)"
proof -
  have "row_ok (wallet_ids m') kp' \<and> row_served (fl + started es) kp'" if kp': "kp' \<in> set (positions m')" for kp'
  proof -
    obtain kp where kp: "kp \<in> set (positions m)" "row_keeps kp kp'"
      using rows_keep_set[OF rows kp'] by blast
    have "row_ok (wallet_ids m) kp" "row_served fl kp"
      using pre kp(1) by (auto simp: table_ok_def served_def list_all_iff)
    then show ?thesis using kp(2) row_ok_keeps[OF kp(2)] ids
      by (auto simp: row_served_def row_keeps_def in_flight_add)
  qed
  moreover have "distinct (map fst (positions m'))"
    using pre(1) rows_keep_fst[OF rows] by (simp add: table_ok_def)
  moreover have "tasks_ok m' (fl + started es)"
    using tasks_ok_started[OF pre(2) tasks] ids by (simp add: tasks_ok_def)
  ultimately show ?thesis
    using cache sets pre(3) by (auto simp: sys_inv_def table_ok_def served_def list_all_iff in_flight_add)
qed

end
