(* ===== verification/Manager_Safety.thy ===== *)
theory Manager_Safety
  imports Manager_System
begin

text \<open>
  Every handler of the position manager keeps the invariant of the system, and what follows from it
  for all reachable states.
\<close>

section \<open>Effects that start nothing\<close>

definition inert :: "effect list \<Rightarrow> bool" where
  "inert es \<longleftrightarrow> list_all (\<lambda>e. \<not> outstanding e) es"

lemma inert_simps [simp]: "inert []" "inert (xs @ ys) \<longleftrightarrow> inert xs \<and> inert ys"
  "inert (x # xs) \<longleftrightarrow> \<not> outstanding x \<and> inert xs"
  by (simp_all add: inert_def)

lemma inert_started: "inert es \<Longrightarrow> started es = {#}"
  by (simp add: inert_def started_def list_all_iff filter_empty_conv)

lemma inert_fine: "inert es \<Longrightarrow> tasks_fine m es"
  by (auto simp: inert_def tasks_fine_def list_all_iff)

lemma balance_feed_inert [simp]: "inert (balance_feed m)"
  by (auto simp: inert_def balance_feed_def list_all_iff)

lemma spawn_live_fine: "tasks_fine m' (spawn_live_snapshot_refresh mint m)"
  by (auto simp: spawn_live_snapshot_refresh_def split: option.splits)

section \<open>Balances\<close>

lemma registry_ids_set_balance:
  "map w_id (reg_ordered (set_balance_sol wid bal r)) = map w_id (reg_ordered r)"
  unfolding set_balance_sol_def by (rule update_wallet_ids) simp

lemma refresh_balance_cases:
  assumes "refresh_balance env wid m = (m', es)"
  shows "\<exists>ws' b m1. m' = m\<lparr>wallets := ws', balance_state := b\<rparr> \<and>
    map w_id (reg_ordered ws') = map w_id (reg_ordered (wallets m)) \<and> es = balance_feed m1"
proof (cases "env_balance env wid")
  case None
  then have "m' = m\<lparr>wallets := wallets m, balance_state := total_balance_sol (wallets m)\<rparr>" "es = balance_feed m"
    using assms by (simp_all add: refresh_balance_def broadcast_wallet_balances_def sync_combined_balance_def)
  then show ?thesis by blast
next
  case (Some x)
  let ?ws = "set_balance_sol wid x (wallets m)"
  have "m' = m\<lparr>wallets := ?ws, balance_state := total_balance_sol ?ws\<rparr>" "es = balance_feed (m\<lparr>wallets := ?ws\<rparr>)"
    using assms Some by (simp_all add: refresh_balance_def broadcast_wallet_balances_def sync_combined_balance_def)
  then show ?thesis using registry_ids_set_balance by blast
qed

lemma refresh_balance_fields:
  assumes "refresh_balance env wid m = (m', es)"
  shows "positions m' = positions m" "pending_mints m' = pending_mints m"
    "pending_wallet_buys m' = pending_wallet_buys m" "pool_cache m' = pool_cache m"
    "wallet_ids m' = wallet_ids m" "inert es" "closed_mints m' = closed_mints m" "config m' = config m"
proof -
  obtain ws' b m1 where m': "m' = m\<lparr>wallets := ws', balance_state := b\<rparr>"
    and ids: "map w_id (reg_ordered ws') = map w_id (reg_ordered (wallets m))" and es: "es = balance_feed m1"
    using refresh_balance_cases[OF assms] by blast
  show "wallet_ids m' = wallet_ids m" using ids by (simp add: wallet_ids_def m' del: set_map)
  show "positions m' = positions m" "pending_mints m' = pending_mints m"
    "pending_wallet_buys m' = pending_wallet_buys m" "pool_cache m' = pool_cache m"
    "inert es" "closed_mints m' = closed_mints m" "config m' = config m"
    by (simp_all add: m' es)
qed

lemma known_iff: "registry_get (wallets m) wid = None \<longleftrightarrow> wid \<notin> wallet_ids m"
  by (auto simp: registry_get_def wallet_ids_def find_None_iff)

section \<open>Pools and refreshes\<close>

lemma map_outcome_all2: "map_outcome f xs = Inr ys \<Longrightarrow> list_all2 (\<lambda>x y. f x = Inr y) xs ys"
  by (induction xs arbitrary: ys) (auto simp: bind_outcome_Inr_iff)

lemma map_outcome_returns: "(\<And>x. x \<in> set xs \<Longrightarrow> returns (f x)) \<Longrightarrow> returns (map_outcome f xs)"
proof (induction xs)
  case (Cons x xs)
  then have "returns (f x)" "returns (map_outcome f xs)" by simp_all
  then show ?case by (auto simp: returns_iff)
qed simp

lemma repool_inv:
  assumes pre: "table_ok m" "tasks_ok m fl" "served m fl" and p: "live_pool p" "pool_mint p = mint"
    and m': "m' = update_positions_pool_for_mint mint p m0" "positions m0 = positions m" "wallets m0 = wallets m"
      "pending_mints m0 = pending_mints m" "pending_wallet_buys m0 = pending_wallet_buys m" "cache_ok m0"
    and es: "tasks_fine m es"
  shows "sys_inv (m', fl + started es)"
proof -
  have eqs: "wallet_ids m' = wallet_ids m" "pending_mints m' = pending_mints m"
    "pending_wallet_buys m' = pending_wallet_buys m" "cache_ok m'"
    "positions m' = map (\<lambda>(k, pos). (k, if fst k = mint then pos\<lparr>pos_pool := p\<rparr> else pos)) (positions m)"
    using m' by (simp_all add: update_positions_pool_for_mint_def wallet_ids_def cache_ok_def)
  have "distinct (map fst (positions m'))" using pre(1) by (simp add: eqs(5) table_ok_def comp_def case_prod_unfold)
  moreover have "list_all (row_ok (wallet_ids m)) (positions m')"
    using pre(1) p by (auto simp: eqs(5) table_ok_def list_all_iff row_ok_def)
  moreover have "list_all (row_served (fl + started es)) (positions m')"
    using pre(3) by (auto simp: eqs(5) served_def list_all_iff row_served_def in_flight_add split: if_splits)
  ultimately show ?thesis
    using tasks_ok_started[OF pre(2) es] pre(3) eqs
    by (auto simp: sys_inv_def table_ok_def served_def tasks_ok_def in_flight_add)
qed

lemma update_pool_inv:
  assumes "table_ok m" "tasks_ok m fl" "served m fl" "cache_ok m" "live_pool p"
  shows "sys_inv (update_pool p m, fl)"
proof -
  define m0 where "m0 = m\<lparr>pool_cache := (pool_cache m)(pool_mint p \<mapsto> p)\<rparr>"
  have m': "update_pool p m = update_positions_pool_for_mint (pool_mint p) p m0"
    by (simp add: update_pool_def Let_def m0_def)
  have "sys_inv (update_pool p m, fl + started [])"
    by (rule repool_inv[OF assms(1-3,5) refl m'])
      (use assms(4,5) in \<open>simp_all add: m0_def cache_ok_def\<close>)
  then show ?thesis by simp
qed

lemma update_bucket_inv:
  assumes "table_ok m" "tasks_ok m fl" "served m fl" "cache_ok m" "live_pool (tb_pool b)"
    "update_token_bucket b m = (m', es)"
  shows "sys_inv (m', fl + started es)"
proof -
  define m0 where "m0 = m\<lparr>pool_cache := (pool_cache m)(pool_mint (tb_pool b) \<mapsto> tb_pool b),
      bucket_cache := (bucket_cache m)(pool_mint (tb_pool b) \<mapsto> b)\<rparr>"
  have m': "m' = update_positions_pool_for_mint (pool_mint (tb_pool b)) (tb_pool b) m0"
    and es: "tasks_fine m es"
    using assms(6) by (auto simp: update_token_bucket_def Let_def m0_def spawn_live_fine)
  show ?thesis
    by (rule repool_inv[OF assms(1-3,5) refl m' _ _ _ _ _ es])
      (use assms(4,5) in \<open>simp_all add: m0_def cache_ok_def\<close>)
qed

lemma on_mint_inv:
  assumes pre: "table_ok m" "tasks_ok m fl" "served m fl" "cache_ok m" and m': "on_mint mint f m = Inr m'"
    and f: "\<And>k p p'. f p = Inr p' \<Longrightarrow> row_keeps (k, p) (k, p')"
  shows "sys_inv (m', fl)"
proof -
  define g where "g = (\<lambda>(k :: position_key, p). if fst k = mint then bind_outcome (f p) (\<lambda>p'. Inr (k, p')) else Inr (k, p))"
  obtain ps where ps: "map_outcome g (positions m) = Inr ps" and eq: "m' = m\<lparr>positions := ps\<rparr>"
    using m' unfolding on_mint_def g_def[symmetric] by (auto simp: bind_outcome_Inr_iff)
  have "list_all2 row_keeps (positions m) ps"
    using map_outcome_all2[OF ps]
  proof (rule list_all2_mono)
    fix x y
    assume h: "g x = Inr y"
    obtain k p where x: "x = (k, p)" by (cases x)
    show "row_keeps x y"
    proof (cases "fst k = mint")
      case True
      then obtain p' where "f p = Inr p'" "y = (k, p')" using h by (auto simp: g_def x bind_outcome_Inr_iff)
      then show ?thesis using f x by simp
    next
      case False
      then show ?thesis using h by (auto simp: g_def x row_keeps_def)
    qed
  qed
  then show ?thesis
    using sys_inv_frame[OF pre(1-3), of m' "[]"] pre(4) by (simp add: eq wallet_ids_def cache_ok_def)
qed

lemma apply_exit_mcap_keeps: "apply_exit_mcap mcap uj p = Inr p' \<Longrightarrow> row_keeps (k, p) (k, p')"
  by (auto simp: apply_exit_mcap_def row_keeps_def bind_outcome_Inr_iff Let_def split: if_splits)

lemma apply_live_keeps: "apply_live_snapshot cfg now live p = Inr p' \<Longrightarrow> row_keeps (k, p) (k, p')"
  by (clarsimp simp: apply_live_snapshot_def row_keeps_def bind_outcome_Inr_iff Let_def case_prod_unfold)

section \<open>Signals and buys\<close>

lemma fanout_clear: "\<exists>d. SendAfter d (ClearPendingMint mint) \<in> set (fanout delay order ws mint)"
  by (auto simp: fanout_def)

lemma fanout_fine: "tasks_fine m (fanout delay order ws mint)"
  by (auto simp: fanout_def tasks_fine_def list_all_iff)

lemma in_started: "e \<in> set es \<Longrightarrow> outstanding e \<Longrightarrow> e \<in># started es"
  by (simp add: started_def)

lemma initiate_buy_inv:
  assumes pre: "table_ok m" "tasks_ok m fl" "served m fl" "cache_ok m" "live_pool p"
    and r: "initiate_buy env p amount bt reason dev early snap m = (m', es)"
  shows "sys_inv (m', fl + started es)"
proof -
  have eqs: "positions m' = positions m" "wallets m' = wallets m"
      "pending_wallet_buys m' = pending_wallet_buys m" "cache_ok m'" "tasks_fine m es"
    and pend: "pending_mints m' \<subseteq> pending_mints m \<or> pending_mints m' = insert (pool_mint p) (pending_mints m)
        \<and> (\<exists>d. SendAfter d (ClearPendingMint (pool_mint p)) \<in> set es)"
    using r pre(4,5)
    by (auto simp: initiate_buy_def Let_def cache_ok_def fanout_fine fanout_clear split: if_splits prod.splits)
  show ?thesis
  proof (cases "pending_mints m' \<subseteq> pending_mints m")
    case True
    then show ?thesis using sys_inv_frame[OF pre(1-3), of m' es] eqs
      by (simp add: wallet_ids_def rows_keep_refl)
  next
    case False
    then obtain d where d: "SendAfter d (ClearPendingMint (pool_mint p)) \<in> set es"
      and new: "pending_mints m' = insert (pool_mint p) (pending_mints m)" using pend by blast
    have "clear_in_flight (fl + started es) (pool_mint p)"
      using in_started[OF d] by (auto simp: clear_in_flight_def)
    moreover have "sys_inv (m'\<lparr>pending_mints := pending_mints m\<rparr>, fl + started es)"
      using sys_inv_frame[OF pre(1-3), of "m'\<lparr>pending_mints := pending_mints m\<rparr>" es] eqs
      by (simp add: wallet_ids_def rows_keep_refl cache_ok_def)
    ultimately show ?thesis using new
      by (auto simp: sys_inv_def table_ok_def cache_ok_def tasks_ok_def served_def wallet_ids_def)
  qed
qed

lemma clear_pending_inv:
  assumes pre: "table_ok m" "tasks_ok m fl" "served_upto (ClearPendingMint mint) m fl" "cache_ok m"
  shows "sys_inv (clear_pending_mint mint m, fl)"
  using assms by (auto simp: sys_inv_def clear_pending_mint_def served_upto_def served_def list_all_iff
      row_served_def msg_serves table_ok_def cache_ok_def tasks_ok_def wallet_ids_def)

lemma execute_buy_inv:
  assumes pre: "table_ok m" "tasks_ok m fl" "served m fl" "cache_ok m" and r: "execute_buy bo m = (m', es)"
  shows "sys_inv (m', fl + started es)"
proof -
  have eqs: "positions m' = positions m" "wallets m' = wallets m" "pending_mints m' = pending_mints m"
      "cache_ok m'" "tasks_fine m es"
    and pend: "pending_wallet_buys m' \<subseteq> pending_wallet_buys m \<or>
        pending_wallet_buys m' = insert (bo_mint bo, bo_wallet bo) (pending_wallet_buys m)
        \<and> (\<exists>p mode v3. SpawnBuy bo p mode v3 \<in> set es)"
    using r pre(4)
    by (auto simp: execute_buy_def Let_def cache_ok_def known_iff wallet_ids_def split: if_splits option.splits)
  show ?thesis
  proof (cases "pending_wallet_buys m' \<subseteq> pending_wallet_buys m")
    case True
    then show ?thesis using sys_inv_frame[OF pre(1-3), of m' es] eqs
      by (simp add: wallet_ids_def rows_keep_refl)
  next
    case False
    then obtain p mode v3 where d: "SpawnBuy bo p mode v3 \<in> set es"
      and new: "pending_wallet_buys m' = insert (bo_mint bo, bo_wallet bo) (pending_wallet_buys m)" using pend by blast
    have "buy_in_flight (fl + started es) (bo_mint bo, bo_wallet bo)"
      using in_started[OF d] by (auto simp: buy_in_flight_def)
    moreover have "sys_inv (m'\<lparr>pending_wallet_buys := pending_wallet_buys m\<rparr>, fl + started es)"
      using sys_inv_frame[OF pre(1-3), of "m'\<lparr>pending_wallet_buys := pending_wallet_buys m\<rparr>" es] eqs
      by (simp add: wallet_ids_def rows_keep_refl cache_ok_def)
    ultimately show ?thesis using new
      by (auto simp: sys_inv_def table_ok_def cache_ok_def tasks_ok_def served_def wallet_ids_def)
  qed
qed

section \<open>The result of a buy\<close>

lemma set_AList_update: "set (AList.update k v xs) \<subseteq> insert (k, v) (set xs)"
  by (induction xs) auto

lemma list_all_AList_update: "list_all P xs \<Longrightarrow> P (k, v) \<Longrightarrow> list_all P (AList.update k v xs)"
  using set_AList_update by (fastforce simp: list_all_iff)

lemma position_new_desk:
  assumes "position_new wid p a now b = Inr pos"
  shows "wallet_id pos = wid" "pos_pool pos = p" "\<not> is_closing pos" "\<not> pending_partial_sell pos"
  using assms by (auto simp: position_new_def position_at_def bind_outcome_Inr_iff split: option.splits)

text \<open>Steps of the construction that leave the desk of the position alone.\<close>

definition desk :: "position \<Rightarrow> string \<times> pool \<times> bool \<times> bool" where
  "desk p = (wallet_id p, pos_pool p, is_closing p, pending_partial_sell p)"

lemma push_desk: "desk (push_exit_mcap_tick p x n) = desk p"
  by (simp add: push_exit_mcap_tick_def desk_def Let_def)

lemma seed_desk: "desk (seed_ticks cfg b p) = desk p"
  using push_desk[of "p\<lparr>exit_mcap_ticks := []\<rparr>"]
  by (simp add: seed_ticks_def desk_def split: option.split)

lemma counters_desk: "desk (entry_counters bo p) = desk p"
  by (simp add: entry_counters_def desk_def split: option.split)

lemma entry_v4_desk: "desk (entry_v4 cfg now snap p) = desk p"
  by (simp add: entry_v4_def desk_def Let_def split: prod.split)

lemma open_position_desk:
  assumes "open_position cfg now bo p r = Inr pos" shows "desk pos = (bo_wallet bo, p, False, False)"
proof -
  define b where "b = entry_baseline_mcap cfg (bo_snapshot bo) r"
  obtain p0 where p0: "position_new (bo_wallet bo) p (amount_from_float_native (tokens_received r)) now b = Inr p0"
    using assms by (auto simp: open_position_def b_def bind_outcome_Inr_iff Let_def)
  define p1 where "p1 = (seed_ticks cfg b p0)\<lparr>exit_profit_floor := bc_exit_profit_floor cfg,
      spent_sol := bo_amount bo, dev_address := bo_dev bo, early_buyers := bo_early bo\<rparr>"
  define p2 where "p2 = entry_v4 cfg now (bo_snapshot bo) (entry_counters bo p1)"
  define p3 where "p3 = p2\<lparr>pos_snapshot := bo_snapshot bo, pos_open_reason := Some (bo_reason bo)\<rparr>"
  have pos: "pos = push_exit_mcap_tick p3 (amount_to_float (enter_mcap p3)) (exit_mcap_median_ticks cfg)"
    using assms p0 by (simp add: open_position_def Let_def p1_def p2_def p3_def flip: b_def)
  have "desk pos = desk p3" by (simp add: pos push_desk)
  also have "\<dots> = desk p2" by (simp add: p3_def desk_def)
  also have "\<dots> = desk p1" by (simp add: p2_def entry_v4_desk counters_desk)
  also have "\<dots> = desk (seed_ticks cfg b p0)" by (simp add: p1_def desk_def)
  also have "\<dots> = desk p0" by (rule seed_desk)
  finally show ?thesis using position_new_desk[OF p0] by (simp add: desk_def)
qed

lemma abort_fields:
  assumes "abort_buy_after_fill_mcap_spike env bo r p spike m = Inr (aborted, m', es)"
  shows "positions m' = positions m" "pending_mints m' = pending_mints m"
    "pending_wallet_buys m' = pending_wallet_buys m" "pool_cache m' = pool_cache m"
    "wallet_ids m' = wallet_ids m" "inert es" "closed_mints m' = closed_mints m" "config m' = config m"
proof -
  have "positions m' = positions m \<and> pending_mints m' = pending_mints m \<and>
    pending_wallet_buys m' = pending_wallet_buys m \<and> pool_cache m' = pool_cache m \<and>
    wallet_ids m' = wallet_ids m \<and> inert es \<and> closed_mints m' = closed_mints m \<and> config m' = config m"
  proof (cases "\<exists>s. env_sell env (bo_wallet bo) (bo_mint bo) (tokens_received r) p True = Inr s
      \<and> registry_get (wallets m) (bo_wallet bo) \<noteq> None")
    case False
    then show ?thesis using assms
      by (auto simp: abort_buy_after_fill_mcap_spike_def Let_def split: if_splits sum.splits)
  next
    case True
    then obtain s where s: "env_sell env (bo_wallet bo) (bo_mint bo) (tokens_received r) p True = Inr s"
      "registry_get (wallets m) (bo_wallet bo) \<noteq> None" by blast
    define m1 where "m1 = m\<lparr>strategy_ctl := note_position_closed (strategy_ctl m) (env_now env)
        (sol_received_actual s - bo_amount bo)\<rparr>"
    obtain m2 bal where rb: "refresh_balance env (bo_wallet bo) m1 = (m2, bal)" by fastforce
    have "m' = m2 \<and> inert es" using assms s(1) s(2) refresh_balance_fields(6)[OF rb]
      by (auto simp: abort_buy_after_fill_mcap_spike_def Let_def rb[unfolded m1_def] bind_outcome_Inr_iff)
    then show ?thesis using refresh_balance_fields[OF rb]
      by (simp add: m1_def wallet_ids_def)
  qed
  then show "positions m' = positions m" "pending_mints m' = pending_mints m"
    "pending_wallet_buys m' = pending_wallet_buys m" "pool_cache m' = pool_cache m"
    "wallet_ids m' = wallet_ids m" "inert es" "closed_mints m' = closed_mints m" "config m' = config m"
    by simp_all
qed

text \<open>The invariant with the buy of \<open>bo\<close> taken out of the pending ones.\<close>

lemma buy_opened_inv:
  assumes inv: "sys_inv (m, fl)" and bo: "bo_wallet bo \<in> wallet_ids m" "pool_mint p = bo_mint bo" "live_pool p"
    and r: "buy_opened env bo p v3 r m = Inr (m', es)"
  shows "sys_inv (m', fl + started es)"
proof -
  let ?k = "(bo_mint bo, bo_wallet bo)"
  obtain pos where pos: "open_position (config m) (env_now env) bo p r = Inr pos"
    using r by (auto simp: buy_opened_def bind_outcome_Inr_iff Let_def)
  define m1 where "m1 = m\<lparr>positions := AList.update ?k pos (positions m)\<rparr>"
  have known: "registry_get (wallets m1) (bo_wallet bo) \<noteq> None" using bo(1) known_iff[of m] by (simp add: m1_def)
  obtain m2 bal where rb: "refresh_balance env (bo_wallet bo) m1 = (m2, bal)" by fastforce
  have res: "m' = m2 \<and> tasks_fine m es"
    using r pos known rb refresh_balance_fields(6)[OF rb]
    by (auto simp: buy_opened_def Let_def m1_def spawn_live_fine inert_fine split: if_splits)
  have d: "wallet_id pos = bo_wallet bo" "pos_pool pos = p" "\<not> is_closing pos" "\<not> pending_partial_sell pos"
    using open_position_desk[OF pos] by (simp_all add: desk_def)
  have "sys_inv (m1, fl)"
    using inv bo d
    by (auto simp: sys_inv_def table_ok_def served_def cache_ok_def tasks_ok_def wallet_ids_def m1_def
        distinct_update row_ok_def row_served_def intro!: list_all_AList_update)
  then show ?thesis
    using sys_inv_frame[of m1 fl m' es] res refresh_balance_fields[OF rb] rows_keep_refl
    by (auto simp: sys_inv_def cache_ok_def tasks_fine_def wallet_ids_def m1_def)
qed

lemma buy_filled_inv:
  assumes inv: "sys_inv (m, fl)" and bo: "bo_wallet bo \<in> wallet_ids m" "pool_mint p = bo_mint bo" "live_pool p"
    and r: "buy_filled env bo p v3 r m = Inr (m', es)"
  shows "sys_inv (m', fl + started es)"
proof (cases "detect_fill_mcap_spike (config m) (bo_snapshot bo) r")
  case None
  then show ?thesis using buy_opened_inv[OF inv bo] r by (simp add: buy_filled_def)
next
  case (Some spike)
  then obtain aborted m1 es1 where ab: "abort_buy_after_fill_mcap_spike env bo r p spike m = Inr (aborted, m1, es1)"
    using r by (auto simp: buy_filled_def bind_outcome_Inr_iff)
  note f = abort_fields[OF ab]
  have inv1: "sys_inv (m1, fl)"
    using sys_inv_frame[of m fl m1 "[]"] inv f rows_keep_refl by (simp add: sys_inv_def cache_ok_def)
  show ?thesis
  proof (cases aborted)
    case True
    then show ?thesis using r Some ab inv1 inert_started[OF f(6)] by (simp add: buy_filled_def)
  next
    case False
    then obtain es2 where "buy_opened env bo p v3 r m1 = Inr (m', es2)" "es = es1 @ es2"
      using r Some ab by (auto simp: buy_filled_def bind_outcome_Inr_iff)
    then show ?thesis using buy_opened_inv[OF inv1 _ bo(2,3)] bo(1) f inert_started[OF f(6)] by auto
  qed
qed

lemma buy_done_inv:
  assumes "table_ok m" "tasks_ok m fl" "cache_ok m" "served_upto (BuyCompleted bo p mode v3 res) m fl"
  shows "sys_inv (m\<lparr>pending_wallet_buys := pending_wallet_buys m - {(bo_mint bo, bo_wallet bo)}\<rparr>, fl)"
  using assms
  by (auto simp: sys_inv_def served_upto_def served_def list_all_iff row_served_def msg_serves table_ok_def
      cache_ok_def tasks_ok_def wallet_ids_def)

lemma apply_buy_result_inv:
  assumes pre: "table_ok m" "tasks_ok m fl" "cache_ok m" "served_upto (BuyCompleted bo p mode v3 res) m fl"
    and bo: "bo_wallet bo \<in> wallet_ids m" "pool_mint p = bo_mint bo" "live_pool p"
    and r: "apply_buy_result env bo p mode v3 res m = Inr (m', es)"
  shows "sys_inv (m', fl + started es)"
proof (cases res)
  case (Inr rc)
  define m0 where "m0 = m\<lparr>pending_wallet_buys := pending_wallet_buys m - {(bo_mint bo, bo_wallet bo)}\<rparr>"
  have inv0: "sys_inv (m0, fl)" using buy_done_inv[OF pre] by (simp add: m0_def)
  obtain es1 where es1: "buy_filled env bo p v3 rc m0 = Inr (m', es1)" "started es = started es1"
    using r Inr by (auto simp: apply_buy_result_def bind_outcome_Inr_iff m0_def)
  have "bo_wallet bo \<in> wallet_ids m0" using bo(1) by (simp add: m0_def wallet_ids_def)
  from buy_filled_inv[OF inv0 this bo(2,3) es1(1)] show ?thesis by (simp add: es1(2))
next
  case (Inl e)
  have eqs: "positions m' = positions m" "wallets m' = wallets m" "pool_cache m' = pool_cache m"
    "pending_mints m' = pending_mints m" "inert es"
    "pending_wallet_buys m' = pending_wallet_buys m - {(bo_mint bo, bo_wallet bo)}"
    using r Inl by (auto simp: apply_buy_result_def buy_unavailable_def buy_failed_def Let_def split: if_splits)
  have "sys_inv (m', fl)"
    using buy_done_inv[OF pre] eqs by (simp add: sys_inv_def table_ok_def cache_ok_def tasks_ok_def served_def wallet_ids_def)
  then show ?thesis using inert_started[OF eqs(5)] by simp
qed

section \<open>Sells\<close>

lemma set_AList_delete: "(k', p) \<in> set (AList.delete k xs) \<longleftrightarrow> (k', p) \<in> set xs \<and> k' \<noteq> k"
  by (induction xs) auto

lemma AList_delete_eq: "AList.delete k xs = filter (\<lambda>(k', p). k' \<noteq> k) xs"
  by (induction xs) auto

text \<open>The table without the row that the sell is about.\<close>

lemma sell_taken_inv:
  assumes "table_ok m" "tasks_ok m fl" "cache_ok m" "served_upto (ExecuteSell mint wid percent why) m fl"
  shows "sys_inv (m\<lparr>positions := AList.delete (mint, wid) (positions m)\<rparr>, fl)"
proof -
  have "list_all (row_served fl) (AList.delete (mint, wid) (positions m))"
    using assms(4) by (fastforce simp: list_all_iff row_served_def served_upto_def msg_serves set_AList_delete)
  moreover have "list_all (row_ok (wallet_ids m)) (AList.delete (mint, wid) (positions m))"
    using assms(1) by (auto simp: table_ok_def list_all_iff set_AList_delete)
  moreover have "\<forall>a \<in> pending_mints m. clear_in_flight fl a" "\<forall>k \<in> pending_wallet_buys m. buy_in_flight fl k"
    using assms(4) by (auto simp: served_upto_def msg_serves)
  ultimately show ?thesis using assms(1-3)
    by (simp add: sys_inv_def table_ok_def cache_ok_def tasks_ok_def served_def wallet_ids_def distinct_delete)
qed

text \<open>Putting a row back.\<close>

lemma put_back_inv:
  assumes "sys_inv (m, fl)" "row_ok (wallet_ids m) (k, p)" "row_served fl (k, p)"
  shows "sys_inv (m\<lparr>positions := AList.update k p (positions m)\<rparr>, fl)"
  using assms
  by (auto simp: sys_inv_def table_ok_def cache_ok_def tasks_ok_def served_def wallet_ids_def
      distinct_update intro!: list_all_AList_update)

lemma close_effects_inert [simp]:
  "inert (blacklist_entry env m mint pos why a b)" "inert (ranker_effects m pos b)"
  "inert (learning_effects env m pos q b why)"
  by (simp_all add: blacklist_entry_def ranker_effects_def learning_effects_def split: option.split)

lemma finalize_fields:
  "positions (maybe_finalize_closed_mint a m) = positions m" "wallets (maybe_finalize_closed_mint a m) = wallets m"
  "pending_mints (maybe_finalize_closed_mint a m) = pending_mints m"
  "pending_wallet_buys (maybe_finalize_closed_mint a m) = pending_wallet_buys m"
  "cache_ok m \<Longrightarrow> cache_ok (maybe_finalize_closed_mint a m)"
  "closed_mints m \<subseteq> closed_mints (maybe_finalize_closed_mint a m)"
  by (auto simp: maybe_finalize_closed_mint_def cache_ok_def)

lemma close_position_fields:
  assumes "close_position env k why pos q m = (m', es)"
  shows "positions m' = positions m" "wallets m' = wallets m" "pending_mints m' = pending_mints m"
    "pending_wallet_buys m' = pending_wallet_buys m" "cache_ok m \<Longrightarrow> cache_ok m'" "inert es"
    "closed_mints m \<subseteq> closed_mints m'"
proof -
  define m1 where "m1 = maybe_finalize_closed_mint (fst k) m"
  obtain st cq where m': "m' = m1\<lparr>strategy_ctl := st, curve_quarantine := cq\<rparr>"
    and "inert es"
  proof
    let ?m = "fst (close_position env k why pos q m)"
    show "m' = m1\<lparr>strategy_ctl := strategy_ctl ?m, curve_quarantine := curve_quarantine ?m\<rparr>"
      using assms unfolding close_position_def Let_def m1_def[symmetric] by (auto split: if_splits)
    show "inert es" using assms unfolding close_position_def Let_def by auto
  qed
  then show "inert es" by simp
  show "positions m' = positions m" "wallets m' = wallets m" "pending_mints m' = pending_mints m"
    "pending_wallet_buys m' = pending_wallet_buys m" "closed_mints m \<subseteq> closed_mints m'"
    using finalize_fields[where m = m and a = "fst k"] by (simp_all add: m' m1_def)
  show "cache_ok m'" if "cache_ok m"
    using finalize_fields(5)[OF that, where a = "fst k"] by (simp add: m' m1_def cache_ok_def)
qed

lemma sell_done_inv:
  assumes inv: "sys_inv (m, fl)" and row: "row_ok (wallet_ids m) (k, pos)"
    and closing: "is_closing pos \<Longrightarrow> \<not> whole percent \<Longrightarrow> close_in_flight fl k"
    and r: "sell_done env k percent why pos q rc m = (m', es)"
  shows "sys_inv (m', fl) \<and> inert es"
proof -
  define p1 where "p1 = pos\<lparr>total_returned := total_returned pos + sol_received_actual rc\<rparr>"
  define p2 where "p2 = p1\<lparr>holdings := amount_from_float_native (amount_to_float (holdings p1) - sq_qty q),
      pending_partial_sell := False\<rparr>"
  define m1 where "m1 = (if percent < f64_of 100 then m\<lparr>positions := AList.update k p2 (positions m)\<rparr> else m)"
  obtain m2 bal where rb: "refresh_balance env (snd k) m1 = (m2, bal)" by fastforce
  obtain m3 closed where cl: "(if whole percent then close_position env k why p1 q m2 else (m2, [])) = (m3, closed)"
    by fastforce
  define tx where "tx = sell_event env m k (sr_signature rc) (sol_received_actual rc)
      (Some (sol_received_estimated rc)) ''confirmed'' why q
      (if 0 < spent_sol p1 \<and> whole percent then Some (pct_over (total_returned p1) (spent_sol p1)) else None)"
  have "(m', es) = (m3, [tx] @ bal @ closed)"
    using r unfolding sell_done_def Let_def p1_def[symmetric] p2_def[symmetric] m1_def[symmetric] tx_def[symmetric]
    by (simp only: rb cl prod.case)
  then have res: "m' = m3" "inert es \<longleftrightarrow> inert bal \<and> inert closed"
    by (simp_all add: tx_def sell_event_def)
  have inv1: "sys_inv (m1, fl)"
  proof (cases "percent < f64_of 100")
    case True
    then have "\<not> whole percent" using f64_less_imp_not_le by (auto simp: whole_def)
    then have "row_served fl (k, p2)" using closing by (simp add: row_served_def p2_def p1_def)
    moreover have "row_ok (wallet_ids m) (k, p2)" using row by (simp add: row_ok_def p2_def p1_def)
    ultimately show ?thesis using put_back_inv[OF inv] True by (simp add: m1_def)
  qed (simp add: m1_def inv)
  have inv2: "sys_inv (m2, fl)"
    using sys_inv_frame[of m1 fl m2 "[]"] inv1 refresh_balance_fields[OF rb] rows_keep_refl
    by (simp add: sys_inv_def cache_ok_def)
  show ?thesis
  proof (cases "whole percent")
    case True
    then have c: "close_position env k why p1 q m2 = (m3, closed)" using cl by simp
    show ?thesis
      using sys_inv_frame[of m2 fl m3 "[]"] inv2 close_position_fields[OF c] rows_keep_refl res
        refresh_balance_fields(6)[OF rb]
      by (simp add: sys_inv_def wallet_ids_def)
  next
    case False
    then show ?thesis using cl res inv2 refresh_balance_fields(6)[OF rb] by auto
  qed
qed

lemma sell_failed_inv:
  assumes inv: "sys_inv (m, fl)" and row: "row_ok (wallet_ids m) (k, pos)"
    and closing: "is_closing pos \<Longrightarrow> \<not> whole percent \<Longrightarrow> close_in_flight fl k"
    and r: "sell_failed env k percent why pos q e m = (m', es)"
  shows "sys_inv (m', fl) \<and> inert es"
proof -
  have m': "m' = m\<lparr>positions := AList.update k (reopen e percent pos) (positions m)\<rparr>" and es: "inert es"
    using r by (auto simp: sell_failed_def Let_def sell_event_def)
  have "row_ok (wallet_ids m) (k, reopen e percent pos)" using row by (simp add: row_ok_def reopen_def)
  moreover have "row_served fl (k, reopen e percent pos)"
    using closing by (auto simp: row_served_def reopen_def)
  ultimately show ?thesis using put_back_inv[OF inv] m' es by simp
qed

lemma execute_sell_inv:
  assumes pre: "table_ok m" "tasks_ok m fl" "cache_ok m" "served_upto (ExecuteSell mint wid percent why) m fl"
    and r: "execute_sell env mint wid percent why m = Inr (m', es)"
  shows "sys_inv (m', fl + started es)"
proof -
  let ?k = "(mint, wid)"
  have kept: "sys_inv (m, fl + started [])" if "registry_get (wallets m) wid = None \<or> map_of (positions m) ?k = None"
  proof -
    have "(?k, p) \<notin> set (positions m)" for p
      using that pre(1) by (auto simp: table_ok_def list_all_iff row_ok_def known_iff map_of_eq_None_iff image_iff
          dest: bspec)
    then have "AList.delete ?k (positions m) = positions m"
      by (auto simp: AList_delete_eq filter_id_conv)
    then show ?thesis using sell_taken_inv[OF pre] by simp
  qed
  show ?thesis
  proof (cases "registry_get (wallets m) wid = None \<or> map_of (positions m) ?k = None")
    case True
    then have "execute_sell env mint wid percent why m = Inr (m, [])"
      by (auto simp: execute_sell_def Let_def)
    then show ?thesis using kept[OF True] r by simp
  next
    case False
    then obtain pos where pos: "map_of (positions m) ?k = Some pos" by blast
    define m1 where "m1 = m\<lparr>positions := AList.delete ?k (positions m)\<rparr>"
    obtain q where q: "quote_sell (config m1) pos percent why = Inr q"
      using r False pos by (auto simp: execute_sell_def bind_outcome_Inr_iff m1_def Let_def)
    have inv1: "sys_inv (m1, fl)" using sell_taken_inv[OF pre] by (simp add: m1_def)
    have mem: "(?k, pos) \<in> set (positions m)" using map_of_SomeD[OF pos] .
    then have row: "row_ok (wallet_ids m1) (?k, pos)"
      using pre(1) by (auto simp: table_ok_def list_all_iff m1_def wallet_ids_def)
    have closing: "is_closing pos \<Longrightarrow> \<not> whole percent \<Longrightarrow> close_in_flight fl ?k"
      using pre(4) mem by (fastforce simp: served_upto_def msg_serves)
    have "sys_inv (m', fl) \<and> inert es"
    proof (cases "env_sell env wid mint (sq_qty q) (pos_pool pos) (whole percent)")
      case (Inl e)
      then have "sell_failed env ?k percent why pos q e m1 = (m', es)"
        using r False pos q by (auto simp: execute_sell_def m1_def Let_def)
      from sell_failed_inv[OF inv1 row closing this] show ?thesis .
    next
      case (Inr rc)
      then have "sell_done env ?k percent why pos q rc m1 = (m', es)"
        using r False pos q by (auto simp: execute_sell_def m1_def Let_def)
      from sell_done_inv[OF inv1 row closing this] show ?thesis .
    qed
    then show ?thesis by (simp add: inert_started)
  qed
qed

lemma abandon_inv:
  assumes pre: "table_ok m" "tasks_ok m fl" "served m fl" "cache_ok m"
    and r: "abandon_position env mint wid m = (m', es)"
  shows "sys_inv (m', fl + started es)"
proof -
  let ?ps = "filter (\<lambda>(k, p). \<not> abandoned mint wid k) (positions m)"
  have eqs: "positions m' = ?ps" "wallets m' = wallets m" "pending_mints m' = pending_mints m"
    "pending_wallet_buys m' = pending_wallet_buys m" "cache_ok m'" "inert es"
    using r pre(4)
    by (auto simp: abandon_position_def Let_def maybe_finalize_closed_mint_def cache_ok_def inert_def list_all_iff
        split: if_splits)
  have "distinct (map fst ?ps)" using pre(1) by (simp add: table_ok_def distinct_map_filter)
  then show ?thesis using pre eqs inert_started[OF eqs(6)]
    by (auto simp: sys_inv_def table_ok_def tasks_ok_def served_def wallet_ids_def list_all_iff)
qed

section \<open>The tick\<close>

lemma whole_100: "whole (Fin 100)"
  by (simp add: whole_def)

text \<open>What the evaluation of one row does to it, and the sell it queues.\<close>

lemma tick_entry_row:
  assumes "tick_entry env cfg rpc (k, p) = Inr (kp', es, acts)"
  shows "fst kp' = k \<and> wallet_id (snd kp') = wallet_id p \<and> pos_pool (snd kp') = pos_pool p \<and>
    (is_closing (snd kp') \<longrightarrow> is_closing p \<or> (\<exists>a. (k, a) \<in> set acts \<and> whole (act_percent a))) \<and>
    (pending_partial_sell (snd kp') \<longrightarrow> pending_partial_sell p \<or> (\<exists>a. (k, a) \<in> set acts)) \<and>
    tasks_fine m es"
proof -
  obtain r where r: "tick_position cfg rpc (env_now env) p = Inr r"
    using assms by (auto simp: tick_entry_def bind_outcome_Inr_iff)
  have out: "fst kp' = k" "snd kp' = tr_position r" "tasks_fine m es"
    "acts = (case tr_action r of Some a \<Rightarrow> [(k, a)] | None \<Rightarrow> [])"
    using assms by (auto simp: tick_entry_def r bind_outcome_Inr_iff Let_def split: option.splits)
  show ?thesis
  proof (cases "is_closing p")
    case True
    then show ?thesis using r out by (auto simp: tick_position_closing)
  next
    case False
    note d = tick_position_decides[OF r False]
    show ?thesis
    proof (cases "tr_action r")
      case None
      then show ?thesis using d out by (auto simp: keep_defs)
    next
      case (Some a)
      then have "sells_whole p (tr_position r) a \<or> sells_part p (tr_position r) a" using d by simp
      then show ?thesis
      proof
        assume w: "sells_whole p (tr_position r) a"
        then have "whole (act_percent a)" using whole_100 by (simp add: sells_whole_def)
        then show ?thesis using w d out Some by (auto simp: sells_whole_def sell_state_def stake_of_def)
      next
        assume "sells_part p (tr_position r) a"
        then show ?thesis using d out Some False by (auto simp: sells_part_def sell_state_def stake_of_def)
      qed
    qed
  qed
qed

lemma schedule_sell_eq:
  "schedule_sell (k, a) = SendAfter (if act_urgent a then 0 else 800) (ExecuteSell (fst k) (snd k) (act_percent a) (act_reason a))"
  by (simp add: schedule_sell_def)

lemma schedule_sell_in_flight:
  assumes "(k, a) \<in> set acts" "set (map schedule_sell acts) \<subseteq> set es"
  shows "sell_in_flight (fl + started es) k" "whole (act_percent a) \<Longrightarrow> close_in_flight (fl + started es) k"
proof -
  have "schedule_sell (k, a) \<in> set es" using assms by auto
  then have "SendAfter (if act_urgent a then 0 else 800) (ExecuteSell (fst k) (snd k) (act_percent a) (act_reason a))
      \<in># fl + started es"
    using in_started unfolding schedule_sell_eq by fastforce
  then show "sell_in_flight (fl + started es) k"
    "whole (act_percent a) \<Longrightarrow> close_in_flight (fl + started es) k"
    unfolding sell_in_flight_def close_in_flight_def by blast+
qed

lemma schedule_fine: "tasks_fine m (map schedule_sell acts)"
  by (auto simp: tasks_fine_def list_all_iff schedule_sell_eq)

lemma list_all2_set2: "list_all2 R xs ys \<Longrightarrow> y \<in> set ys \<Longrightarrow> \<exists>x \<in> set xs. R x y"
  by (induction rule: list_all2_induct) auto

lemma process_positions_inv:
  assumes inv: "sys_inv (m, fl)" and r: "process_positions env m = Inr (m', es)"
  shows "sys_inv (m', fl + started es)"
proof -
  obtain rs where rs: "map_outcome (tick_entry env (config m) (post_exit_rpc m)) (positions m) = Inr rs"
    and m': "m' = m\<lparr>positions := map fst rs, last_print_time := max (last_print_time m) (env_now env)\<rparr>"
    and es: "es = concat (map (fst \<circ> snd) rs) @ map schedule_sell (concat (map (snd \<circ> snd) rs))"
    using r by (auto simp: process_positions_def bind_outcome_Inr_iff)
  note all2 = map_outcome_all2[OF rs]
  have row: "row_ok (wallet_ids m) kp' \<and> row_served (fl + started es) kp'"
    if kp': "(kp', es', acts) \<in> set rs" for kp' es' acts
  proof -
    obtain kp where kp: "kp \<in> set (positions m)"
      "tick_entry env (config m) (post_exit_rpc m) kp = Inr (kp', es', acts)"
      using list_all2_set2[OF all2 kp'] by blast
    obtain a w p where k: "kp = ((a, w), p)" by (metis surj_pair)
    note t = tick_entry_row[OF kp(2)[unfolded k], where m = m]
    have "set (map schedule_sell acts) \<subseteq> set es" using kp' by (force simp: es)
    note q = schedule_sell_in_flight[OF _ this, where fl = fl]
    have old: "row_ok (wallet_ids m) ((a, w), p)" "row_served fl ((a, w), p)"
      using inv kp(1) k by (auto simp: sys_inv_def table_ok_def served_def list_all_iff)
    have "row_ok (wallet_ids m) kp'" using old(1) t by (simp add: row_ok_def)
    moreover have "is_closing (snd kp') \<Longrightarrow> close_in_flight (fl + started es) (fst kp')"
      using t old(2) q(2) by (auto simp: row_served_def in_flight_add)
    moreover have "pending_partial_sell (snd kp') \<Longrightarrow> sell_in_flight (fl + started es) (fst kp')"
      using t old(2) q(1) by (auto simp: row_served_def in_flight_add)
    ultimately show ?thesis by (simp add: row_served_def)
  qed
  have fine: "tasks_fine m es'" if "(kp', es', acts) \<in> set rs" for kp' es' acts
    using list_all2_set2[OF all2 that] tick_entry_row[where m = m] by (metis surj_pair)
  have "map fst (map fst rs) = map fst (positions m)"
    using all2
  proof (induction rule: list_all2_induct)
    case (Cons x xs y ys)
    then show ?case using tick_entry_row[where m = m] by (metis (no_types, lifting) list.simps(9) prod.collapse)
  qed simp
  then have "distinct (map fst (map fst rs))" using inv by (simp add: sys_inv_def table_ok_def)
  moreover have "tasks_fine m es"
    unfolding es using fine schedule_fine by (fastforce simp: tasks_fine_def list_all_iff)
  ultimately show ?thesis
    using inv row tasks_ok_started[of m fl es]
    by (fastforce simp: sys_inv_def m' table_ok_def cache_ok_def tasks_ok_def served_def wallet_ids_def
        list_all_iff in_flight_add)
qed

lemma tick_inv:
  assumes pre: "table_ok m" "tasks_ok m fl" "served m fl" "cache_ok m" and r: "tick env m = Inr (m', es)"
  shows "sys_inv (m', fl + started es)"
proof -
  obtain m1 live where tl: "tick_live env m = (m1, live)" by fastforce
  obtain es2 where es2: "process_positions env m1 = Inr (m', es2)" "es = live @ es2"
    using r by (auto simp: tick_def tl bind_outcome_Inr_iff)
  have eqs: "positions m1 = positions m" "wallets m1 = wallets m" "pending_mints m1 = pending_mints m"
    "pending_wallet_buys m1 = pending_wallet_buys m" "pool_cache m1 = pool_cache m"
    and fine: "tasks_fine m live"
    using tl spawn_live_fine[of m]
    by (auto simp: tick_live_def Let_def tasks_fine_def list_all_iff split: if_splits)
  have "sys_inv (m1, fl + started live)"
    using sys_inv_frame[OF pre(1-3), of m1 live] eqs fine rows_keep_refl pre(4)
    by (simp add: wallet_ids_def cache_ok_def)
  from process_positions_inv[OF this es2(1)] show ?thesis by (simp add: es2(2) add.assoc)
qed

section \<open>One turn\<close>

lemma silent_Inr: "silent r = Inr (m', es, rep) \<longleftrightarrow> r = Inr (m', es) \<and> rep = NoReply"
  by (cases r) (auto simp: silent_def)

lemma handle_inv:
  assumes pre: "pre_inv msg m fl" and r: "handle env msg m = Inr (m', es, rep)"
  shows "sys_inv (m', fl + started es)"
proof -
  have p: "table_ok m" "tasks_ok m fl" "cache_ok m" "served_upto msg m fl" "msg_ok (wallet_ids m) msg"
    using pre by (auto simp: pre_inv_def)
  note s = served_not_serving[OF p(4)]
  have same: "sys_inv (m, fl)" if "\<not> serving msg"
    using s[OF that] p by (simp add: sys_inv_def)
  show ?thesis
  proof (cases msg)
    case (UpdatePool q)
    then show ?thesis using update_pool_inv[of m fl q] p s r by auto
  next
    case (UpdateTokenBucket b)
    then show ?thesis using update_bucket_inv[of m fl b m' es] p s r by (auto simp: silent_Inr)
  next
    case (ApplyLiveSnapshot mint live)
    then show ?thesis using on_mint_inv[of m fl mint _ m', OF _ _ _ _ _ apply_live_keeps] p s r
      by (auto simp: bind_outcome_Inr_iff)
  next
    case (SetPaused v)
    then show ?thesis using same r
      by (auto simp: silent_Inr set_paused_def sys_inv_def table_ok_def cache_ok_def tasks_ok_def served_def wallet_ids_def)
  next
    case (InitiateBuy q amount bt reason dev early snap)
    then show ?thesis using initiate_buy_inv[of m fl q env amount bt reason dev early snap m' es] p s r
      by (auto simp: silent_Inr)
  next
    case (ClearPendingMint mint)
    then show ?thesis using clear_pending_inv[of m fl mint] p r by auto
  next
    case (ExecuteBuy bo)
    then show ?thesis using execute_buy_inv[of m fl bo m' es] p s r by (auto simp: silent_Inr)
  next
    case (BuyCompleted bo q mode v3 res)
    then show ?thesis using apply_buy_result_inv[of m fl bo q mode v3 res env m' es] p r by (auto simp: silent_Inr)
  next
    case (ExecuteSell mint wid pct why)
    then show ?thesis using execute_sell_inv[of m fl mint wid pct why env m' es] p r by (auto simp: silent_Inr)
  next
    case (AbandonPosition mint wid)
    then show ?thesis using abandon_inv[of m fl env mint wid m' es] p s r by (auto simp: silent_Inr)
  next
    case Tick
    then show ?thesis using tick_inv[of m fl env m' es] p s r by (auto simp: silent_Inr)
  next
    case (ApplyExitMcapRefresh mint mcap uj)
    then show ?thesis using on_mint_inv[of m fl mint _ m', OF _ _ _ _ _ apply_exit_mcap_keeps] p s r
      by (auto simp: bind_outcome_Inr_iff)
  next
    case GetStrategySnapshot
    then show ?thesis using same r by auto
  next
    case (GetPnl mint)
    then show ?thesis using same r by (auto simp: bind_outcome_Inr_iff)
  next
    case GetOpenPositions
    then show ?thesis using same r by (auto simp: bind_outcome_Inr_iff)
  qed
qed

lemma sys_step_inv: "sys_step s s' \<Longrightarrow> sys_inv s \<Longrightarrow> sys_inv s'"
  by (induction rule: sys_step.induct) (blast intro: handle_inv pre_inv_external pre_inv_completed)+

lemma reachable_inv: "reachable s \<Longrightarrow> sys_inv s"
proof -
  assume "reachable s"
  then obtain m where m: "fresh_manager m" "sys_step\<^sup>*\<^sup>* (m, {#}) s" by (auto simp: reachable_def)
  show ?thesis using m(2)
    by (induction rule: rtranclp_induct) (auto intro: sys_inv_fresh[OF m(1)] sys_step_inv)
qed

end
