(* ===== verification/Manager_Laws.thy ===== *)
theory Manager_Laws
  imports Manager_Safety
begin

text \<open>
  What the position manager guarantees: over all reachable states of the system (consistency of the
  table, no row that waits in vain, no panic, closed mints), and for single messages (the gates of a
  signal, the fill price, the two outcomes of a sell); and a run in which one signal is bought twice.
\<close>

section \<open>No panic\<close>

lemma bind_returns: "returns x \<Longrightarrow> (\<And>y. x = Inr y \<Longrightarrow> returns (f y)) \<Longrightarrow> returns (bind_outcome x f)"
  by (cases x) auto

lemma silent_returns: "returns x \<Longrightarrow> returns (silent x)"
  by (auto simp: returns_iff silent_def)

lemma mcap_returns: "live_pool p \<Longrightarrow> returns (pool_mcap_sol p)"
  using pool_mcap_sol_sane[of p] by (auto simp: live_pool_def returns_iff)

lemma raw_returns: "live_pool (pos_pool p) \<Longrightarrow> returns (exit_raw_mcap p)"
  using exit_raw_mcap_returns[of p] by (auto simp: live_pool_def returns_iff)

lemma pnl_returns: "live_pool (pos_pool p) \<Longrightarrow> returns (pos_pnl p)"
  using raw_returns[of p] by (auto simp: pos_pnl_def returns_iff)

lemma quote_returns: "live_pool (pos_pool p) \<Longrightarrow> returns (quote_sell cfg p pct why)"
  using raw_returns[of p] pnl_returns[of p] mcap_returns[of "pos_pool p"]
  by (auto simp: quote_sell_def returns_iff)

lemma apply_live_returns: "live_pool (pos_pool p) \<Longrightarrow> returns (apply_live_snapshot cfg now live p)"
  unfolding apply_live_snapshot_def Let_def case_prod_unfold
  by (rule bind_returns) (simp_all add: pnl_returns)

lemma apply_exit_mcap_returns: "live_pool (pos_pool p) \<Longrightarrow> returns (apply_exit_mcap mcap uj p)"
  using mcap_returns[of "pos_pool p"] by (auto simp: apply_exit_mcap_def returns_iff Let_def)

text \<open>A row whose pool has tokens left.\<close>

definition row_live :: "position_key \<times> position \<Rightarrow> bool" where
  "row_live kp \<longleftrightarrow> live_pool (pos_pool (snd kp))"

lemma on_mint_returns:
  assumes "list_all row_live (positions m)" "\<And>p. live_pool (pos_pool p) \<Longrightarrow> returns (f p)"
  shows "returns (on_mint mint f m)"
proof -
  have "returns (map_outcome (\<lambda>(k, p). if fst k = mint then bind_outcome (f p) (\<lambda>p'. Inr (k, p')) else Inr (k, p))
      (positions m))"
    using assms by (intro map_outcome_returns) (fastforce simp: list_all_iff row_live_def returns_iff)
  then show ?thesis by (auto simp: on_mint_def returns_iff)
qed

lemma tick_entry_returns: "row_live kp \<Longrightarrow> returns (tick_entry env cfg rpc kp)"
proof -
  assume "row_live kp"
  then have live: "live_pool (pos_pool (snd kp))" by (simp add: row_live_def)
  then obtain mc where "pool_mcap_sol (pos_pool (snd kp)) = Inr mc"
    using mcap_returns[of "pos_pool (snd kp)"] by (auto simp: returns_iff)
  moreover obtain r where "tick_position cfg rpc (env_now env) (snd kp) = Inr r"
    using tick_position_returns[of "snd kp"] live unfolding live_pool_def returns_iff by blast
  ultimately show ?thesis by (cases kp) (simp add: tick_entry_def Let_def split: option.split)
qed

lemma tick_returns: "list_all row_live (positions m) \<Longrightarrow> returns (tick env m)"
proof -
  assume rows: "list_all row_live (positions m)"
  obtain m1 live where tl: "tick_live env m = (m1, live)" by fastforce
  then have "positions m1 = positions m" by (auto simp: tick_live_def Let_def split: if_splits)
  then have "returns (map_outcome (tick_entry env (config m1) (post_exit_rpc m1)) (positions m1))"
    using rows by (intro map_outcome_returns tick_entry_returns) (auto simp: list_all_iff)
  then show ?thesis by (auto simp: tick_def tl process_positions_def returns_iff)
qed

lemma open_position_returns: "live_pool p \<Longrightarrow> returns (open_position cfg now bo p r)"
proof -
  assume "live_pool p"
  then have "returns (position_new (bo_wallet bo) p a now b)" for a b
    using pool_market_cap_returns[of p] by (auto simp: position_new_def live_pool_def split: option.split)
  then show ?thesis unfolding open_position_def Let_def by (rule bind_returns) simp
qed

lemma buy_opened_returns: "live_pool p \<Longrightarrow> returns (buy_opened env bo p v3 r m)"
  unfolding buy_opened_def Let_def case_prod_unfold
  by (rule bind_returns) (simp_all add: open_position_returns)

lemma abort_returns: "live_pool p \<Longrightarrow> returns (abort_buy_after_fill_mcap_spike env bo r p spike m)"
  using mcap_returns[of p]
  by (auto simp: abort_buy_after_fill_mcap_spike_def Let_def returns_iff case_prod_unfold split: sum.split)

lemma buy_filled_returns: "live_pool p \<Longrightarrow> returns (buy_filled env bo p v3 r m)"
proof (cases "detect_fill_mcap_spike (config m) (bo_snapshot bo) r")
  case (Some spike)
  assume live: "live_pool p"
  obtain ab m1 es where "abort_buy_after_fill_mcap_spike env bo r p spike m = Inr (ab, m1, es)"
    using abort_returns[OF live] by (fastforce simp: returns_iff)
  moreover obtain m2 es2 where "buy_opened env bo p v3 r m1 = Inr (m2, es2)"
    using buy_opened_returns[OF live] by (fastforce simp: returns_iff)
  ultimately show ?thesis by (simp add: buy_filled_def Some)
qed (simp add: buy_filled_def buy_opened_returns)

lemma apply_buy_result_returns: "live_pool p \<Longrightarrow> returns (apply_buy_result env bo p mode v3 res m)"
  unfolding apply_buy_result_def case_prod_unfold
  by (cases res) (simp_all add: buy_filled_returns bind_returns)

lemma execute_sell_returns:
  assumes "list_all row_live (positions m)" shows "returns (execute_sell env mint wid pct why m)"
proof (cases "map_of (positions m) (mint, wid)")
  case (Some pos)
  then have "row_live ((mint, wid), pos)"
    using assms map_of_SomeD[OF Some] by (auto simp: list_all_iff)
  then have "live_pool (pos_pool pos)" by (simp add: row_live_def)
  then have "returns (quote_sell (config m) pos pct why)" by (rule quote_returns)
  then show ?thesis using Some by (auto simp: execute_sell_def Let_def returns_iff)
qed (simp add: execute_sell_def Let_def)

lemma get_pnl_returns: "list_all row_live (positions m) \<Longrightarrow> returns (get_pnl mint m)"
proof (cases "find (\<lambda>(k, p). fst k = mint) (positions m)")
  case (Some kp)
  assume rows: "list_all row_live (positions m)"
  have "kp \<in> set (positions m)" using Some by (metis find_Some_iff nth_mem)
  then have "live_pool (pos_pool (snd kp))" using rows by (auto simp: list_all_iff row_live_def)
  then have "returns (pos_pnl (snd kp))" by (rule pnl_returns)
  then show ?thesis using Some by (cases kp) (auto simp: get_pnl_def returns_iff)
qed (simp add: get_pnl_def)

lemma open_wire_returns: "row_live kp \<Longrightarrow> returns (open_wire env kp)"
  using raw_returns[of "snd kp"] pnl_returns[of "snd kp"]
  by (cases kp) (auto simp: open_wire_def row_live_def returns_iff split: option.split)

text \<open>
  No handler panics when the pools of the positions have tokens left, and, if the message is the result
  of a buy, the pool of the buy has some as well. All panics are market caps of empty pools.
\<close>

definition pools_left :: "position_message \<Rightarrow> manager \<Rightarrow> bool" where
  "pools_left msg m \<longleftrightarrow> (\<forall>(k, p) \<in> set (positions m). pool_tokens (pos_pool p) \<noteq> 0) \<and>
     (case msg of BuyCompleted bo p mode v3 res \<Rightarrow> pool_tokens p \<noteq> 0 | _ \<Rightarrow> True)"

lemma handle_returns:
  assumes "pools_left msg m" shows "returns (handle env msg m)"
proof -
  have rows: "list_all row_live (positions m)"
    using assms by (auto simp: pools_left_def row_live_def live_pool_def list_all_iff)
  have buy: "live_pool p" if "msg = BuyCompleted bo p mode v3 res" for bo p mode v3 res
    using assms that by (simp add: pools_left_def live_pool_def)
  have open_rows: "returns (map_outcome (open_wire env) (positions m))"
    using rows by (intro map_outcome_returns open_wire_returns) (auto simp: list_all_iff)
  show ?thesis
    using buy on_mint_returns[OF rows] apply_live_returns apply_exit_mcap_returns tick_returns[OF rows, of env]
      execute_sell_returns[OF rows] get_pnl_returns[OF rows] apply_buy_result_returns open_rows
    by (cases msg) (simp_all add: silent_returns bind_returns get_open_positions_def)
qed

lemma pre_inv_pools_left: "pre_inv msg m fl \<Longrightarrow> pools_left msg m"
  by (auto simp: pre_inv_def pools_left_def table_ok_def row_ok_def live_pool_def list_all_iff
      split: position_message.split)

text \<open>C8. The position manager panics on empty pools only: whatever its state and whatever message it gets, from
  outside or from its own tasks, it handles it if the pools of the positions in its table have tokens left
  and, for the result of a buy, the pool that was bought from has. In particular it never panics in a state
  that it can reach while the pools of the messages from outside have tokens left, with any number of
  tasks in flight and completing in any order, whatever the brokers, the tape and the polls answer.\<close>

theorem manager_never_panics:
  assumes "(\<forall>(k, p) \<in> set (positions m). pool_tokens (pos_pool p) \<noteq> 0) \<and>
      (\<forall>bo p mode v3 res. msg = BuyCompleted bo p mode v3 res \<longrightarrow> pool_tokens p \<noteq> 0)
    \<or> reachable (m, fl) \<and> (external msg \<or> (\<exists>e \<in># fl. completes e msg))"
  shows "\<exists>m' es reply. handle env msg m = Inr (m', es, reply)"
proof -
  have "pools_left msg m"
    using assms
  proof
    assume "(\<forall>(k, p) \<in> set (positions m). pool_tokens (pos_pool p) \<noteq> 0) \<and>
      (\<forall>bo p mode v3 res. msg = BuyCompleted bo p mode v3 res \<longrightarrow> pool_tokens p \<noteq> 0)"
    then show ?thesis by (auto simp: pools_left_def split: position_message.split)
  next
    assume r: "reachable (m, fl) \<and> (external msg \<or> (\<exists>e \<in># fl. completes e msg))"
    then show ?thesis using reachable_inv[of "(m, fl)"]
      by (blast intro: pre_inv_pools_left pre_inv_external pre_inv_completed)
  qed
  then show ?thesis using handle_returns by (fastforce simp: returns_iff)
qed

text \<open>C22. The position table is consistent in every reachable state: one row per mint and wallet, of a
  configured wallet, whose position carries the wallet of its key and a pool of its mint.\<close>

theorem position_table_consistent:
  assumes "reachable (m, fl)"
  shows "distinct (map fst (positions m)) \<and>
    (\<forall>((mint, wid), p) \<in> set (positions m).
       wallet_id p = wid \<and> registry_get (wallets m) wid \<noteq> None \<and> pool_mint (pos_pool p) = mint)"
proof -
  have t: "table_ok m" using reachable_inv[OF assms] by (simp add: sys_inv_def)
  then have "row_ok (wallet_ids m) kp" if "kp \<in> set (positions m)" for kp
    using that by (simp add: table_ok_def list_all_iff)
  then show ?thesis using t known_iff[of m] by (fastforce simp: table_ok_def row_ok_def)
qed

text \<open>C3. Nothing waits in vain, in every reachable state: a position marked closing has a sell of all of it
  on its way, a position with a partial sell pending has a sell on its way, a mint blocked by its
  fan-out has the message that unblocks it on its way, and a wallet marked as buying has a running
  buy.\<close>

theorem nothing_waits_in_vain:
  assumes "reachable (m, fl)"
  shows "(\<forall>((mint, wid), p) \<in> set (positions m).
      (is_closing p \<longrightarrow> (\<exists>d pct why. SendAfter d (ExecuteSell mint wid pct why) \<in># fl \<and> f64_of 100 \<le> pct)) \<and>
      (pending_partial_sell p \<longrightarrow> (\<exists>d pct why. SendAfter d (ExecuteSell mint wid pct why) \<in># fl))) \<and>
    (\<forall>mint \<in> pending_mints m. \<exists>d. SendAfter d (ClearPendingMint mint) \<in># fl) \<and>
    (\<forall>(mint, wid) \<in> pending_wallet_buys m.
       \<exists>bo p mode v3. SpawnBuy bo p mode v3 \<in># fl \<and> bo_mint bo = mint \<and> bo_wallet bo = wid)"
proof -
  have s: "served m fl" using reachable_inv[OF assms] by (simp add: sys_inv_def)
  then have "row_served fl kp" if "kp \<in> set (positions m)" for kp
    using that by (simp add: served_def list_all_iff)
  then show ?thesis using s
    by (fastforce simp: served_def row_served_def in_flight_defs whole_def)
qed

section \<open>A signal bought twice\<close>

text \<open>One demo wallet, default configurations, and a signal for one mint.\<close>

definition demo_wallet :: wallet where
  "demo_wallet = make_wallet (sample_entry ''w1'' ''KEY_1'' True) (''w1'', 1) (Fin 2)"

definition demo_manager :: manager where
  "demo_manager = manager_new \<lparr>reg_ordered = [demo_wallet], reg_mode_label = ''demo''\<rparr> (Fin 2)
     smart_buy_default dev_blacklist_default curve_quarantine_default False strategy_default
     False False False False 100"

definition demo_env :: environment where
  "demo_env = \<lparr>env_now = 100, env_instant_ms = 0, env_str = (\<lambda>_. ''m''), env_json = (\<lambda>_. []),
     env_sell = (\<lambda>_ _ _ _ _. Inl (Custom [])), env_balance = (\<lambda>_. None)\<rparr>"

definition demo_signal :: position_message where
  "demo_signal = InitiateBuy demo_pool (Fin 1) A TraderStats None [] None"

definition demo_order :: buy_order where
  "demo_order = \<lparr>bo_mint = 7, bo_wallet = ''w1'', bo_amount = Fin 1, bo_reason = TraderStats,
     bo_dev = None, bo_early = [], bo_snapshot = None\<rparr>"

text \<open>The state after the \<open>n\<close>-th signal, with what is pending.\<close>

definition demo_state :: "nat \<Rightarrow> address set \<Rightarrow> position_key set \<Rightarrow> manager" where
  "demo_state n mints buys = demo_manager\<lparr>
     strategy_ctl := (strategy_new strategy_default 100)\<lparr>daily_trades := of_nat n\<rparr>,
     pending_mints := mints, pending_wallet_buys := buys,
     pool_cache := (if n = 0 then Map.empty else [7 \<mapsto> demo_pool])\<rparr>"

lemma demo_pool_mint: "pool_mint demo_pool = 7"
  by (simp add: demo_pool_def bonding_new_def)

lemma demo_start: "demo_manager = demo_state 0 {} {}"
  by (simp add: demo_state_def demo_manager_def manager_new_def strategy_new_def)

lemma demo_can_open:
  "n < 25 \<Longrightarrow> can_open ((strategy_new strategy_default 100)\<lparr>daily_trades := of_nat n\<rparr>) 100 0
     = ((strategy_new strategy_default 100)\<lparr>daily_trades := of_nat n\<rparr>, Allow)"
  "note_position_opened ((strategy_new strategy_default 100)\<lparr>daily_trades := of_nat n\<rparr>) 100
     = (strategy_new strategy_default 100)\<lparr>daily_trades := of_nat (Suc n)\<rparr>"
  by (simp_all add: can_open_def note_position_opened_def roll_day_if_needed_def strategy_new_def
      current_day_def strategy_default_def Let_def word_le_nat_alt unat_of_nat zero_f64_def)

lemma demo_signal_step:
  assumes "n < 25"
  shows "handle demo_env demo_signal (demo_state n {} buys) =
    Inr (demo_state (Suc n) {7} buys,
         [SendAfter 0 (ExecuteBuy demo_order), SendAfter 0 (ClearPendingMint 7)], NoReply)"
proof -
  have "initiate_buy demo_env demo_pool (Fin 1) A TraderStats None [] None (demo_state n {} buys) =
    (demo_state (Suc n) {7} buys, [SendAfter 0 (ExecuteBuy demo_order), SendAfter 0 (ClearPendingMint 7)])"
    using demo_can_open[of n] assms
    by (simp add: initiate_buy_def Let_def demo_state_def demo_manager_def manager_new_def demo_pool_mint
        any_position_for_mint_def position_mints_def unique_open_mints_def quarantine_prune_def
        quarantine_active_def enabled_wallets_def demo_wallet_def make_wallet_def sample_entry_def
        amount_for_signal_def fanout_def demo_order_def demo_env_def)
  then show ?thesis by (simp add: demo_signal_def silent_def)
qed

lemma demo_buy_step:
  "n > 0 \<Longrightarrow> handle demo_env (ExecuteBuy demo_order) (demo_state n mints buys) =
    Inr (demo_state n mints (insert (7, ''w1'') buys), [SpawnBuy demo_order demo_pool ''demo'' None], NoReply)"
  by (simp add: silent_def execute_buy_def Let_def demo_state_def demo_manager_def manager_new_def demo_order_def
      registry_get_def demo_wallet_def make_wallet_def sample_entry_def)

lemma demo_clear_step:
  "handle env (ClearPendingMint 7) (demo_state n {7} buys) = Inr (demo_state n {} buys, [], NoReply)"
  by (simp add: clear_pending_mint_def demo_state_def)

lemma demo_external: "external demo_signal"
  by (simp add: demo_signal_def live_pool_def pool_tokens_def demo_pool_def bonding_new_def amount_from_raw_def)

lemma demo_signal_sys:
  "n < 25 \<Longrightarrow> sys_step (demo_state n {} buys, fl) (demo_state (Suc n) {7} buys,
     add_mset (SendAfter 0 (ExecuteBuy demo_order)) (add_mset (SendAfter 0 (ClearPendingMint 7)) fl))"
  using sys_step.arrives[OF demo_external demo_signal_step, of n buys fl] by (simp add: add_mset_commute)

lemma demo_buy_sys:
  "n > 0 \<Longrightarrow> sys_step (demo_state n mints buys, add_mset (SendAfter 0 (ExecuteBuy demo_order)) fl)
     (demo_state n mints (insert (7, ''w1'') buys), add_mset (SpawnBuy demo_order demo_pool ''demo'' None) fl)"
  using sys_step.completed[OF _ _ demo_buy_step, of "SendAfter 0 (ExecuteBuy demo_order)"
      "add_mset (SendAfter 0 (ExecuteBuy demo_order)) fl" n mints buys] by simp

lemma demo_clear_sys:
  "sys_step (demo_state n {7} buys, add_mset (SendAfter 0 (ClearPendingMint 7)) fl) (demo_state n {} buys, fl)"
  using sys_step.completed[OF _ _ demo_clear_step, of "SendAfter 0 (ClearPendingMint 7)"
      "add_mset (SendAfter 0 (ClearPendingMint 7)) fl" n buys] by simp

lemma demo_reachable:
  "sys_step\<^sup>*\<^sup>* (demo_state 0 {} {}, {#}) s \<Longrightarrow> reachable s"
  unfolding reachable_def fresh_manager_def demo_start[symmetric] demo_manager_def by blast

text \<open>The first signal is being carried out.\<close>

definition demo_tasks :: "effect multiset" where
  "demo_tasks = {#SendAfter 0 (ExecuteBuy demo_order), SendAfter 0 (ClearPendingMint 7)#}"

lemma demo_run_signal: "sys_step\<^sup>*\<^sup>* (demo_state 0 {} {}, {#}) (demo_state 1 {7} {}, demo_tasks)"
  unfolding One_nat_def demo_tasks_def by (rule r_into_rtranclp, rule demo_signal_sys) simp

lemma demo_in_flight: "reachable (demo_state 1 {7} {}, demo_tasks)"
  by (rule demo_reachable[OF demo_run_signal])

lemma manager_never_panics_witness:
  "(\<exists>m' es reply. handle demo_env (ExecuteBuy demo_order) (demo_state 1 {7} {}) = Inr (m', es, reply)) \<and>
   (\<exists>m' es reply. handle demo_env (BuyCompleted demo_order demo_pool ''demo'' None (Inl (Custom []))) demo_manager
      = Inr (m', es, reply))"
proof
  have "external (ExecuteBuy demo_order) \<or> (\<exists>e \<in># demo_tasks. completes e (ExecuteBuy demo_order))"
    by (rule disjI2, rule bexI[of _ "SendAfter 0 (ExecuteBuy demo_order)"]) (simp_all add: demo_tasks_def)
  then show "\<exists>m' es reply. handle demo_env (ExecuteBuy demo_order) (demo_state 1 {7} {}) = Inr (m', es, reply)"
    using manager_never_panics[OF disjI2] demo_in_flight by blast
  have "pool_tokens demo_pool \<noteq> 0" using demo_external by (simp add: demo_signal_def live_pool_def)
  moreover have "positions demo_manager = []" by (simp add: demo_manager_def manager_new_def)
  ultimately show "\<exists>m' es reply. handle demo_env (BuyCompleted demo_order demo_pool ''demo'' None (Inl (Custom [])))
      demo_manager = Inr (m', es, reply)"
    by (intro manager_never_panics[OF disjI1]) auto
qed

lemma position_table_consistent_witness:
  "distinct (map fst (positions (demo_state 1 {7} {})))"
  using position_table_consistent[OF demo_in_flight] by simp

lemma nothing_waits_in_vain_witness:
  "7 \<in> pending_mints (demo_state 1 {7} {}) \<and> (\<exists>d. SendAfter d (ClearPendingMint 7) \<in># demo_tasks)"
  using nothing_waits_in_vain[OF demo_in_flight] by (simp add: demo_state_def)

text \<open>C24. A buy in flight guards nothing: with the default configuration and one wallet, two signals for one
  mint can each start a buy of it, so that two buys of the same wallet and mint run at once. The
  mint is unblocked as soon as its fan-out is sent, before the buy has completed; the set of wallets
  that are buying is kept, but no handler consults it.\<close>

theorem double_buy_reachable:
  "\<exists>m fl bo p mode v3. reachable (m, fl) \<and> count fl (SpawnBuy bo p mode v3) = 2 \<and>
     pending_wallet_buys m = {(bo_mint bo, bo_wallet bo)}"
proof -
  let ?x = "SendAfter 0 (ExecuteBuy demo_order)" and ?c = "SendAfter 0 (ClearPendingMint 7)"
  let ?b = "SpawnBuy demo_order demo_pool ''demo'' None" and ?k = "(7, ''w1'')"
  note 1 = demo_run_signal[unfolded demo_tasks_def]
  have "sys_step (demo_state 1 {7} {}, {#?x, ?c#}) (demo_state 1 {7} {?k}, {#?b, ?c#})"
    by (rule demo_buy_sys) simp
  then have 2: "sys_step\<^sup>*\<^sup>* (demo_state 0 {} {}, {#}) (demo_state 1 {7} {?k}, {#?c, ?b#})"
    unfolding add_mset_commute[of ?b ?c] by (rule rtranclp.rtrancl_into_rtrancl[OF 1])
  have 3: "sys_step\<^sup>*\<^sup>* (demo_state 0 {} {}, {#}) (demo_state 1 {} {?k}, {#?b#})"
    by (rule rtranclp.rtrancl_into_rtrancl[OF 2 demo_clear_sys])
  have 4: "sys_step\<^sup>*\<^sup>* (demo_state 0 {} {}, {#}) (demo_state (Suc 1) {7} {?k}, {#?x, ?c, ?b#})"
    by (rule rtranclp.rtrancl_into_rtrancl[OF 3], rule demo_signal_sys) simp
  have "sys_step (demo_state (Suc 1) {7} {?k}, {#?x, ?c, ?b#})
      (demo_state (Suc 1) {7} (insert ?k {?k}), {#?b, ?c, ?b#})"
    by (rule demo_buy_sys) simp
  then have "reachable (demo_state (Suc 1) {7} (insert ?k {?k}), {#?b, ?c, ?b#})"
    by (rule demo_reachable[OF rtranclp.rtrancl_into_rtrancl[OF 4]])
  moreover have "pending_wallet_buys (demo_state (Suc 1) {7} (insert ?k {?k})) = {(bo_mint demo_order, bo_wallet demo_order)}"
    by (simp add: demo_state_def demo_order_def)
  moreover have "count {#?b, ?c, ?b#} ?b = 2" by simp
  ultimately show ?thesis by blast
qed

end
