(* ===== verification/Manager_Rest.thy ===== *)
theory Manager_Rest
  imports Manager_Laws
begin

text \<open>
  The position manager left to itself: with no message from outside, the tasks it has started
  complete one after the other, in any order, and start fewer tasks each time. The work in flight
  bounds the number of steps, no reachable state is stuck before all of it is done, and then no
  position and no mint waits for anything.
\<close>

section \<open>Draining\<close>

inductive drain_step :: "system \<Rightarrow> system \<Rightarrow> bool" where
  "e \<in># fl \<Longrightarrow> completes e msg \<Longrightarrow> handle env msg m = Inr (m', es, r) \<Longrightarrow>
     drain_step (m, fl) (m', fl - {#e#} + started es)"

lemma drain_is_step: "drain_step s s' \<Longrightarrow> sys_step s s'"
  by (induction rule: drain_step.induct) (rule sys_step.completed)

text \<open>An order is sent, its buy runs, and the tape of the new position is sampled.\<close>

fun task_weight :: "effect \<Rightarrow> nat" where
  "task_weight (SendAfter d (ExecuteBuy bo)) = 3"
| "task_weight (SpawnBuy bo p mode v3) = 2"
| "task_weight _ = 1"

definition work :: "effect multiset \<Rightarrow> nat" where
  "work fl = (\<Sum>e \<in># fl. task_weight e)"

lemma work_simps [simp]: "work {#} = 0" "work (a + b) = work a + work b" "work (add_mset e a) = task_weight e + work a"
  by (simp_all add: work_def)

lemma work_remove: "e \<in># fl \<Longrightarrow> work (fl - {#e#}) + task_weight e = work fl"
  by (metis insert_DiffM work_simps(3) add.commute)

lemma weight_pos: "0 < task_weight e"
  by (induction e rule: task_weight.induct) simp_all

lemma work_inert: "inert es \<Longrightarrow> work (started es) = 0"
  by (simp add: inert_started)

lemma live_refresh_work: "work (started (spawn_live_snapshot_refresh mint m)) \<le> 1"
  by (simp add: spawn_live_snapshot_refresh_def split: option.split prod.split)

section \<open>A message of the manager's own tasks starts less than it was\<close>

lemma refresh_balance_work: "work (started (snd (refresh_balance env wid m))) = 0"
  by (intro work_inert) (simp add: refresh_balance_def broadcast_wallet_balances_def split: option.split)

lemma buy_opened_work:
  assumes "buy_opened env bo p v3 r m = Inr (m', es)" shows "work (started es) \<le> 1"
proof -
  obtain pos where "open_position (config m) (env_now env) bo p r = Inr pos"
    using assms by (auto simp: buy_opened_def Let_def bind_outcome_Inr_iff)
  then show ?thesis
    using assms live_refresh_work[of "bo_mint bo" m] refresh_balance_work
    by (auto simp: buy_opened_def Let_def case_prod_unfold broadcast_wallet_balances_def inert_started
        split: if_splits)
qed

lemma abort_work:
  assumes "abort_buy_after_fill_mcap_spike env bo r p spike m = Inr (ab, m', es)" shows "work (started es) = 0"
  using assms refresh_balance_work
  by (auto simp: abort_buy_after_fill_mcap_spike_def Let_def case_prod_unfold bind_outcome_Inr_iff
      split: if_splits sum.splits)

lemma buy_filled_work:
  assumes "buy_filled env bo p v3 r m = Inr (m', es)" shows "work (started es) \<le> 1"
proof (cases "detect_fill_mcap_spike (config m) (bo_snapshot bo) r")
  case (Some spike)
  then obtain ab m1 es1 where ab: "abort_buy_after_fill_mcap_spike env bo r p spike m = Inr (ab, m1, es1)"
    using assms by (auto simp: buy_filled_def bind_outcome_Inr_iff)
  then show ?thesis
    using assms abort_work[OF ab] buy_opened_work[of env bo p v3 r m1]
    by (auto simp: buy_filled_def Some bind_outcome_Inr_iff split: if_splits)
qed (use assms buy_opened_work in \<open>simp add: buy_filled_def\<close>)

lemma apply_buy_result_work:
  assumes "apply_buy_result env bo p mode v3 res m = Inr (m', es)" shows "work (started es) \<le> 1"
proof (cases res)
  case (Inl e)
  then show ?thesis
    using assms by (auto simp: apply_buy_result_def buy_unavailable_def buy_failed_def Let_def split: if_splits)
next
  case (Inr r)
  then obtain es1 where "buy_filled env bo p v3 r
      (m\<lparr>pending_wallet_buys := pending_wallet_buys m - {(bo_mint bo, bo_wallet bo)}\<rparr>) = Inr (m', es1)"
    "work (started es) = work (started es1)"
    using assms by (auto simp: apply_buy_result_def bind_outcome_Inr_iff)
  then show ?thesis using buy_filled_work by simp
qed

lemma close_position_work: "work (started (snd (close_position env k reason pos q m))) = 0"
  by (intro work_inert) (simp add: close_position_def Let_def)

lemma execute_sell_work:
  assumes "execute_sell env mint wid pct why m = Inr (m', es)" shows "work (started es) = 0"
proof -
  have "work (started (snd (sell_failed env k pct why pos q e m1))) = 0" for k pos q e m1
    by (simp add: sell_failed_def sell_event_def Let_def)
  moreover have "work (started (snd (sell_done env k pct why pos q r m1))) = 0" for k pos q r m1
    using refresh_balance_work close_position_work
    by (simp add: sell_done_def sell_event_def Let_def case_prod_unfold)
  ultimately have no_work:
    "sell_failed env k pct why pos q e m1 = (m', es) \<Longrightarrow> work (started es) = 0"
    "sell_done env k pct why pos q r m1 = (m', es) \<Longrightarrow> work (started es) = 0" for k pos q e r m1
    by (metis snd_conv)+
  show ?thesis
  proof (cases "registry_get (wallets m) wid = None \<or> map_of (positions m) (mint, wid) = None")
    case True
    then have "execute_sell env mint wid pct why m = Inr (m, [])" by (auto simp: execute_sell_def Let_def)
    then show ?thesis using assms by simp
  next
    case False
    then obtain w pos where pos: "map_of (positions m) (mint, wid) = Some pos" "registry_get (wallets m) wid = Some w"
      by auto
    define m1 where "m1 = m\<lparr>positions := AList.delete (mint, wid) (positions m)\<rparr>"
    obtain q where q: "quote_sell (config m1) pos pct why = Inr q"
      using assms False pos by (auto simp: execute_sell_def bind_outcome_Inr_iff m1_def Let_def)
    then show ?thesis
      using assms pos no_work
      by (cases "env_sell env wid mint (sq_qty q) (pos_pool pos) (whole pct)")
        (auto simp: execute_sell_def m1_def[symmetric] Let_def)
  qed
qed

lemma execute_buy_work:
  "execute_buy bo m = (m', es) \<Longrightarrow> work (started es) \<le> 2"
  by (auto simp: execute_buy_def Let_def split: if_splits option.splits)

lemma drain_step_work:
  assumes inv: "sys_inv (m, fl)" and step: "drain_step (m, fl) s" shows "work (snd s) < work fl"
proof -
  obtain e msg env m' es r where 1: "s = (m', fl - {#e#} + started es)" "e \<in># fl" "completes e msg"
      "handle env msg m = Inr (m', es, r)"
    using step
  proof (cases rule: drain_step.cases)
    case prems: (1 e msg env m' es r)
    show ?thesis by (rule that[OF prems])
  qed
  have t: "task_ok (wallet_ids m) e" using inv 1(2) by (auto simp: sys_inv_def tasks_ok_def)
  have "work (started es) < task_weight e"
  proof (cases e)
    case (SendAfter d x)
    then have h: "handle env x m = Inr (m', es, r)" using 1(3,4) by simp
    show ?thesis
    proof (cases x)
      case (ExecuteBuy bo)
      then have "execute_buy bo m = (m', es)" using h by (auto simp: silent_Inr)
      then show ?thesis using execute_buy_work SendAfter ExecuteBuy by fastforce
    next
      case (ExecuteSell mint wid pct why)
      then have "execute_sell env mint wid pct why m = Inr (m', es)" using h by (simp add: silent_Inr)
      then show ?thesis using execute_sell_work SendAfter ExecuteSell by simp
    qed (use t h SendAfter in auto)
  next
    case (SpawnBuy bo p mode v3)
    then obtain res where "apply_buy_result env bo p mode v3 res m = Inr (m', es)"
      using 1(3,4) by (auto simp: silent_Inr)
    then show ?thesis using apply_buy_result_work SpawnBuy by fastforce
  qed (use 1(3,4) in \<open>auto simp: bind_outcome_Inr_iff\<close>)
  then show ?thesis using work_remove[OF 1(2)] 1(1) by simp
qed

section \<open>At rest\<close>

lemma sys_step_outstanding:
  "sys_step s s' \<Longrightarrow> \<forall>e \<in># snd s. outstanding e \<Longrightarrow> \<forall>e \<in># snd s'. outstanding e"
proof (induction rule: sys_step.induct)
  case (completed e fl msg env m m' es r)
  then have "\<forall>x \<in># fl - {#e#}. outstanding x" by (auto dest: in_diffD)
  then show ?case by (auto simp: started_def)
qed (auto simp: started_def)

lemma reachable_outstanding: "reachable (m, fl) \<Longrightarrow> e \<in># fl \<Longrightarrow> outstanding e"
proof -
  have "sys_step\<^sup>*\<^sup>* s s' \<Longrightarrow> \<forall>e \<in># snd s. outstanding e \<Longrightarrow> \<forall>e \<in># snd s'. outstanding e" for s s'
    by (induction rule: rtranclp_induct) (auto dest: sys_step_outstanding)
  then show "reachable (m, fl) \<Longrightarrow> e \<in># fl \<Longrightarrow> outstanding e" by (fastforce simp: reachable_def)
qed

lemma reachable_drain: "reachable s \<Longrightarrow> drain_step s s' \<Longrightarrow> reachable s'"
  unfolding reachable_def by (meson drain_is_step rtranclp.rtrancl_into_rtrancl)

lemma reachable_drains: "(drain_step ^^ n) s s' \<Longrightarrow> reachable s \<Longrightarrow> reachable s' \<and> n + work (snd s') \<le> work (snd s)"
proof (induction n arbitrary: s')
  case (Suc n)
  then obtain t where t: "(drain_step ^^ n) s t" "drain_step t s'" by auto
  then have r: "reachable t" "n + work (snd t) \<le> work (snd s)" using Suc by auto
  obtain m fl where "t = (m, fl)" by fastforce
  then have "work (snd s') < work (snd t)" using drain_step_work[of m fl s'] reachable_inv[OF r(1)] t(2) by simp
  then show ?case using reachable_drain[OF r(1) t(2)] r(2) by simp
qed simp

lemma reachable_progress:
  assumes r: "reachable (m, fl)" and e: "e \<in># fl" shows "\<exists>s. drain_step (m, fl) s"
proof -
  obtain msg where msg: "completes e msg"
    using reachable_outstanding[OF r e] by (cases e) auto
  have "returns (handle demo_env msg m)"
    by (rule handle_returns[OF pre_inv_pools_left[OF pre_inv_completed[OF reachable_inv[OF r] e msg]]])
  then obtain m' es rep where "handle demo_env msg m = Inr (m', es, rep)" by (auto simp: returns_iff)
  then show ?thesis using drain_step.intros[OF e msg] by blast
qed

lemma rest_of_empty:
  assumes "reachable (m, {#})"
  shows "(\<forall>(k, p) \<in> set (positions m). \<not> is_closing p \<and> \<not> pending_partial_sell p) \<and>
     pending_mints m = {} \<and> pending_wallet_buys m = {}"
proof -
  have s: "served m {#}" using reachable_inv[OF assms] by (simp add: sys_inv_def)
  then have "row_served {#} kp" if "kp \<in> set (positions m)" for kp
    using that by (simp add: served_def list_all_iff)
  then show ?thesis using s
    by (fastforce simp: served_def row_served_def in_flight_defs)
qed

text \<open>Left to itself the position manager stops: from a reachable state, the tasks in flight can
  complete, and start new ones, only a bounded number of times, at most three for an order, two for
  a running buy and one for every other task.\<close>

theorem manager_drains:
  assumes "reachable (m, fl)" "(drain_step ^^ n) (m, fl) (m', fl')"
  shows "n + work fl' \<le> work fl \<and> n \<le> 3 * size fl"
proof -
  have "task_weight e \<le> 3" for e by (induction e rule: task_weight.induct) simp_all
  then have "work fl \<le> 3 * size fl" by (induction fl) (simp_all add: add_le_mono)
  then show ?thesis using reachable_drains[OF assms(2,1)] by simp
qed

text \<open>C21. Left to itself the position manager comes to rest: from every reachable state the tasks in
  flight can be completed to the last, and wherever no task is left to complete, no position waits
  for a sell, no mint is blocked and no wallet is marked as buying.\<close>

theorem manager_comes_to_rest:
  assumes "reachable (m, fl)"
  shows "(\<exists>m'. drain_step\<^sup>*\<^sup>* (m, fl) (m', {#})) \<and>
    (\<forall>m' fl'. drain_step\<^sup>*\<^sup>* (m, fl) (m', fl') \<and> (\<nexists>s. drain_step (m', fl') s) \<longrightarrow>
       fl' = {#} \<and> (\<forall>(k, p) \<in> set (positions m'). \<not> is_closing p \<and> \<not> pending_partial_sell p) \<and>
       pending_mints m' = {} \<and> pending_wallet_buys m' = {})"
proof -
  have ex: "reachable (m, fl) \<Longrightarrow> \<exists>m'. drain_step\<^sup>*\<^sup>* (m, fl) (m', {#})" for m fl
  proof (induction "work fl" arbitrary: m fl rule: less_induct)
    case less
    show ?case
    proof (cases "fl = {#}")
      case False
      then obtain m1 fl1 where s: "drain_step (m, fl) (m1, fl1)"
        using reachable_progress[OF less.prems] by (metis multiset_nonemptyE surj_pair)
      then have "\<exists>m'. drain_step\<^sup>*\<^sup>* (m1, fl1) (m', {#})"
        using less.hyps[of fl1 m1] drain_step_work[OF reachable_inv[OF less.prems] s] reachable_drain[OF less.prems s]
        by simp
      then show ?thesis using s by (meson converse_rtranclp_into_rtranclp)
    qed blast
  qed
  have rest: "fl' = {#}" "reachable (m', fl')"
    if d: "drain_step\<^sup>*\<^sup>* (m, fl) (m', fl')" and stuck: "\<nexists>s. drain_step (m', fl') s" for m' fl'
  proof -
    show r: "reachable (m', fl')" using d assms
      by (induction rule: rtranclp_induct) (auto intro: reachable_drain)
    show "fl' = {#}" using reachable_progress[OF r] stuck by (metis multiset_nonemptyE)
  qed
  show ?thesis using ex[OF assms] rest rest_of_empty by blast
qed

lemma manager_drains_witness:
  "work demo_tasks = 4 \<and> (\<exists>s. (drain_step ^^ 1) (demo_state 1 {7} {}, demo_tasks) s \<and> 1 + work (snd s) \<le> 4)"
proof -
  have "SendAfter 0 (ClearPendingMint 7) \<in># demo_tasks" by (simp add: demo_tasks_def)
  then obtain s where "drain_step (demo_state 1 {7} {}, demo_tasks) s"
    using reachable_progress[OF demo_in_flight] by blast
  then have s: "(drain_step ^^ 1) (demo_state 1 {7} {}, demo_tasks) s" by (simp only: relpowp_1)
  have w: "work demo_tasks = 4" by (simp add: demo_tasks_def)
  have "1 + work (snd s) \<le> 4"
    using manager_drains[OF demo_in_flight, of 1 "fst s" "snd s"] s unfolding w prod.collapse by blast
  then show ?thesis using s w by blast
qed

lemma manager_comes_to_rest_witness:
  "\<exists>m'. drain_step\<^sup>*\<^sup>* (demo_state 1 {7} {}, demo_tasks) (m', {#}) \<and> pending_mints m' = {}"
proof -
  note rest = manager_comes_to_rest[OF demo_in_flight]
  then obtain m' where m': "drain_step\<^sup>*\<^sup>* (demo_state 1 {7} {}, demo_tasks) (m', {#})" by blast
  moreover have "\<nexists>s. drain_step (m', {#}) s" by (auto elim: drain_step.cases)
  ultimately have "pending_mints m' = {}" using rest by blast
  with m' show ?thesis by blast
qed

end
