(* ===== verification/Manager_Buys.thy ===== *)
theory Manager_Buys
  imports Manager_Laws
begin

text \<open>
  What single messages of the entry side guarantee: which signals become orders and in which order
  and amount, which orders become buys, where the profits of a position are measured from, and the
  two outcomes of a filled buy.
\<close>

section \<open>Signals\<close>

text \<open>The orders among the effects, with their delays.\<close>

fun order_of :: "effect \<Rightarrow> (u64 \<times> buy_order) list" where
  "order_of (SendAfter d (ExecuteBuy bo)) = [(d, bo)]"
| "order_of _ = []"

definition buy_schedule :: "effect list \<Rightarrow> (u64 \<times> buy_order) list" where
  "buy_schedule es = concat (map order_of es)"

lemma buy_schedule_simps [simp]:
  "buy_schedule [] = []" "buy_schedule (e # es) = order_of e @ buy_schedule es"
  "buy_schedule (xs @ ys) = buy_schedule xs @ buy_schedule ys"
  by (simp_all add: buy_schedule_def)

lemma buy_schedule_fanout:
  "buy_schedule (fanout delay order ws mint) = map (\<lambda>(i, w). (of_nat i * delay, order w)) (enumerate 0 ws)"
proof -
  have "buy_schedule (map (\<lambda>(i, w). SendAfter (of_nat i * delay) (ExecuteBuy (order w))) xs) =
    map (\<lambda>(i, w). (of_nat i * delay, order w)) xs" for xs :: "(nat \<times> string \<times> f64) list"
    by (induction xs) auto
  then show ?thesis by (simp add: fanout_def)
qed

text \<open>A signal passes all the gates.\<close>

definition signal_passes :: "environment \<Rightarrow> address \<Rightarrow> manager \<Rightarrow> bool" where
  "signal_passes env mint m \<longleftrightarrow> \<not> paused m \<and>
     mint \<notin> position_mints m \<and> mint \<notin> pending_mints m \<and> mint \<notin> closed_mints m \<and>
     \<not> (cq_enabled (curve_quarantine_cfg m) \<and> quarantine_active (curve_quarantine m) mint (env_now env)) \<and>
     unique_open_mints m < max_open_positions (st_cfg (strategy_ctl m)) \<and>
     trades_today (env_now env) (strategy_ctl m) < max_trades_per_day (st_cfg (strategy_ctl m)) \<and>
     \<not> pnl_today (env_now env) (strategy_ctl m) \<le> max_daily_loss_sol (st_cfg (strategy_ctl m)) \<and>
     \<not> daily_profit_lock_sol (st_cfg (strategy_ctl m)) \<le> pnl_today (env_now env) (strategy_ctl m) \<and>
     paused_until_unix (strategy_ctl m) \<le> env_now env"

lemma can_open_allows:
  "snd (can_open s now n) = Allow \<longleftrightarrow>
     n < max_open_positions (st_cfg s) \<and> trades_today now s < max_trades_per_day (st_cfg s) \<and>
     \<not> pnl_today now s \<le> max_daily_loss_sol (st_cfg s) \<and>
     \<not> daily_profit_lock_sol (st_cfg s) \<le> pnl_today now s \<and> paused_until_unix s \<le> now"
  by (auto simp: can_open_def Let_def not_le)

lemma quarantine_active_prune: "quarantine_active (quarantine_prune q now) mint now = quarantine_active q mint now"
  by (auto simp: quarantine_active_def quarantine_prune_def split: option.split)

lemma unique_open_prune [simp]: "unique_open_mints (m\<lparr>curve_quarantine := q\<rparr>) = unique_open_mints m"
  by (simp add: unique_open_mints_def position_mints_def)

lemma enumerate_map: "enumerate n (map f xs) = map (\<lambda>(i, x). (i, f x)) (enumerate n xs)"
  by (induction xs arbitrary: n) auto

text \<open>A signal that passes, and one that does not.\<close>

lemma initiate_buy_passes:
  assumes "signal_passes env (pool_mint p) m" "enabled_wallets (wallets m) \<noteq> []"
  shows "initiate_buy env p amount t why dev early snap m =
    (m\<lparr>curve_quarantine := quarantine_prune (curve_quarantine m) (env_now env),
       strategy_ctl := note_position_opened
         (fst (can_open (strategy_ctl m) (env_now env) (unique_open_mints m))) (env_now env),
       pending_mints := insert (pool_mint p) (pending_mints m),
       pool_cache := (pool_cache m)(pool_mint p \<mapsto> p)\<rparr>,
     (if buy_latency m then [LatencyGate (pool_mint p)] else [])
     @ fanout (buy_fanout_delay_ms (config m))
       (\<lambda>(wid, a). \<lparr>bo_mint = pool_mint p, bo_wallet = wid, bo_amount = a, bo_reason = why,
          bo_dev = dev, bo_early = early, bo_snapshot = snap\<rparr>)
       (map (\<lambda>w. (w_id w, amount_for_signal w amount t)) (enabled_wallets (wallets m))) (pool_mint p))"
proof -
  obtain st d where c: "can_open (strategy_ctl m) (env_now env) (unique_open_mints m) = (st, d)" by fastforce
  have "d = Allow"
    using can_open_allows[of "strategy_ctl m" "env_now env" "unique_open_mints m"] assms(1)
    unfolding signal_passes_def c by simp
  with c assms show ?thesis
    by (cases "cq_enabled (curve_quarantine_cfg m)") (simp_all add: initiate_buy_def signal_passes_def any_position_for_mint_def Let_def quarantine_active_prune)
qed

lemma initiate_buy_blocked:
  assumes "\<not> signal_passes env (pool_mint p) m" "initiate_buy env p amount t why dev early snap m = (m', es)"
  shows "buy_schedule es = [] \<and> pending_mints m' = pending_mints m \<and> positions m' = positions m \<and>
    closed_mints m' = closed_mints m \<and> wallets m' = wallets m"
proof -
  obtain st d where c: "can_open (strategy_ctl m) (env_now env) (unique_open_mints m) = (st, d)" by fastforce
  let ?held = "paused m \<or> pool_mint p \<in> position_mints m \<or> pool_mint p \<in> pending_mints m \<or>
      pool_mint p \<in> closed_mints m"
  let ?q = "cq_enabled (curve_quarantine_cfg m) \<and> quarantine_active (curve_quarantine m) (pool_mint p) (env_now env)"
  consider (held) ?held | (quarantined) "\<not> ?held" ?q | (gate) "\<not> ?held" "\<not> ?q" by blast
  then show ?thesis
  proof cases
    case gate
    then have "d \<noteq> Allow"
      using can_open_allows[of "strategy_ctl m" "env_now env" "unique_open_mints m"] assms(1)
      unfolding signal_passes_def c by auto
    with gate c assms(2) show ?thesis
      by (cases "cq_enabled (curve_quarantine_cfg m)")
        (auto simp: initiate_buy_def any_position_for_mint_def Let_def quarantine_active_prune split: if_splits)
  qed (use assms(2) in \<open>auto simp: initiate_buy_def any_position_for_mint_def Let_def quarantine_active_prune split: if_splits\<close>)
qed

text \<open>C11. A signal becomes orders exactly when the manager is not paused, the mint is neither held nor being
  bought nor closed nor quarantined, and the strategy has a slot, trades, loss and profit budget and
  no pause; then there is one order for each enabled wallet, in the order of the registry, each
  one delay after the one before and of the amount of its wallet, and the mint is blocked. No position changes.\<close>

theorem signal_fans_out:
  "case initiate_buy env p amount t why dev early snap m of (m', es) \<Rightarrow>
     buy_schedule es =
       (if signal_passes env (pool_mint p) m
        then map (\<lambda>(i, w). (of_nat i * buy_fanout_delay_ms (config m),
                \<lparr>bo_mint = pool_mint p, bo_wallet = w_id w, bo_amount = amount_for_signal w amount t, bo_reason = why,
                 bo_dev = dev, bo_early = early, bo_snapshot = snap\<rparr>)) (enumerate 0 (enabled_wallets (wallets m)))
        else []) \<and>
     pending_mints m' = (if buy_schedule es = [] then pending_mints m else insert (pool_mint p) (pending_mints m)) \<and>
     positions m' = positions m \<and> closed_mints m' = closed_mints m \<and> wallets m' = wallets m"
proof -
  let ?r = "initiate_buy env p amount t why dev early snap m"
  let ?ws = "enabled_wallets (wallets m)"
  consider (blocked) "\<not> signal_passes env (pool_mint p) m" | (idle) "signal_passes env (pool_mint p) m" "?ws = []"
    | (sent) "signal_passes env (pool_mint p) m" "?ws \<noteq> []" by blast
  then show ?thesis
  proof cases
    case blocked
    then show ?thesis using initiate_buy_blocked[OF blocked, of amount t why dev early snap] by (auto split: prod.split)
  next
    case idle
    obtain st d where c: "can_open (strategy_ctl m) (env_now env) (unique_open_mints m) = (st, d)" by fastforce
    have "d = Allow"
      using can_open_allows[of "strategy_ctl m" "env_now env" "unique_open_mints m"] idle(1)
      unfolding signal_passes_def c by simp
    with c idle show ?thesis
      by (cases "cq_enabled (curve_quarantine_cfg m)") (auto simp: initiate_buy_def signal_passes_def any_position_for_mint_def Let_def quarantine_active_prune)
  next
    case sent
    then have "enumerate 0 ?ws \<noteq> []" by (cases ?ws) auto
    then show ?thesis unfolding initiate_buy_passes[OF sent] using sent
      by (simp add: buy_schedule_fanout enumerate_map split_def)
  qed
qed

section \<open>Orders\<close>

text \<open>An order becomes a buy exactly when the manager is not paused, the wallet exists and holds no
  position of the mint, and a pool of the mint is cached; the buy trades on the pool that is cached
  now, not on the one of the signal. Otherwise the order is dropped and the wallet is not marked as
  buying. Whether the mint has been closed since the signal, or a buy of it is running, is not
  asked.\<close>

theorem order_becomes_buy:
  "case execute_buy bo m of (m', es) \<Rightarrow>
     (\<forall>bo' p mode v3. SpawnBuy bo' p mode v3 \<in> set es \<longleftrightarrow>
        bo' = bo \<and> mode = reg_mode_label (wallets m) \<and> v3 = map_option v3_from_learning (bo_snapshot bo) \<and>
        \<not> paused m \<and> bo_wallet bo \<in> wallet_ids m \<and> map_of (positions m) (bo_mint bo, bo_wallet bo) = None \<and>
        pool_cache m (bo_mint bo) = Some p) \<and>
     (\<exists>ks. m' = m\<lparr>pending_wallet_buys := ks\<rparr> \<and>
        ((bo_mint bo, bo_wallet bo) \<in> ks \<longleftrightarrow> (\<exists>p mode v3. SpawnBuy bo p mode v3 \<in> set es)) \<and>
        ks - {(bo_mint bo, bo_wallet bo)} = pending_wallet_buys m - {(bo_mint bo, bo_wallet bo)})"
proof -
  have "bo_wallet bo \<in> wallet_ids m \<longleftrightarrow> registry_get (wallets m) (bo_wallet bo) \<noteq> None"
    using known_iff[of m "bo_wallet bo"] by simp
  then show ?thesis
    by (cases "pool_cache m (bo_mint bo)") (auto simp: execute_buy_def Let_def)
qed

section \<open>The fill price\<close>

text \<open>The market cap that profits are measured from is never above the fill price, and at least the
  configured share of it; without the honest baseline it is the fill price.\<close>

theorem entry_baseline_bounds:
  assumes "entry_mcap_fill_sol r = Some (Fin q)" "0 < q" "f64_of q = Fin q"
    "honest_entry_baseline_min_ratio cfg \<noteq> NaN"
  shows "\<exists>b. entry_baseline_mcap cfg snap r = Some b \<and> 0 \<le> b \<and> b \<le> Fin q \<and>
    (if honest_entry_baseline cfg
     then Fin q * clamp_f64 0 1 (honest_entry_baseline_min_ratio cfg) \<le> b
     else b = Fin q) \<and>
    (\<forall>s. snap = Some s \<and> 0 < entry_mcap_sol s \<and> b \<noteq> Fin q * clamp_f64 0 1 (honest_entry_baseline_min_ratio cfg) \<longrightarrow>
       honest_entry_baseline cfg \<longrightarrow> b \<le> entry_mcap_sol s)"
proof -
  define fl where "fl = Fin q * clamp_f64 0 1 (honest_entry_baseline_min_ratio cfg)"
  note c = clamp_unit[OF assms(4)]
  have fl: "fl \<le> Fin q" "0 \<le> fl"
    using f64_shrinks[OF assms(3,2)] c assms(2) unfolding fl_def
    by (auto intro!: f64_times_nonneg dest: f64_le_notNaN)
  have fill: "positive_only (entry_mcap_fill_sol r) = Some (Fin q)"
    using assms(1,2) by (simp add: positive_only_def zero_f64_def)
  show ?thesis
  proof (cases "honest_entry_baseline cfg \<and> (\<exists>s. positive_only (map_option entry_mcap_sol snap) = Some s)")
    case True
    then obtain s where s: "positive_only (map_option entry_mcap_sol snap) = Some s" by blast
    then have "0 < s" by (auto simp: positive_only_def split: option.splits if_splits)
    then have "s \<noteq> NaN" by (auto simp: zero_f64_def)
    then have "f64_max (f64_min (Fin q) s) fl \<le> Fin q" "fl \<le> f64_max (f64_min (Fin q) s) fl"
      "f64_max (f64_min (Fin q) s) fl = fl \<or> f64_max (f64_min (Fin q) s) fl \<le> s"
      using fl f64_min_le1[of "Fin q" s] f64_min_le2[of s "Fin q"] f64_max_cases[of "f64_min (Fin q) s" fl]
        f64_max_ge2[of fl] f64_le_notNaN[OF fl(1)] by auto
    moreover have "entry_baseline_mcap cfg snap r = Some (f64_max (f64_min (Fin q) s) fl)"
      using True s fill by (simp add: entry_baseline_mcap_def fl_def Let_def)
    moreover have "\<forall>s'. snap = Some s' \<longrightarrow> entry_mcap_sol s' = s"
      using s by (auto simp: positive_only_def split: if_splits)
    ultimately show ?thesis using True fl(2) unfolding fl_def[symmetric] by (auto intro: f64_le_trans)
  qed (use fill fl assms(2) in \<open>auto simp: entry_baseline_mcap_def fl_def[symmetric] Let_def positive_only_def split: option.splits\<close>)
qed

lemma entry_baseline_bounds_witness:
  "\<exists>b. entry_baseline_mcap (smart_buy_default\<lparr>honest_entry_baseline := True\<rparr>) None
     \<lparr>sol_spent = 1, tokens_received = 1, br_signature = None, entry_mcap_fill_sol = Some (Fin 40)\<rparr> = Some b \<and>
     0 \<le> b \<and> b \<le> Fin 40"
  using entry_baseline_bounds[of "\<lparr>sol_spent = 1, tokens_received = 1, br_signature = None, entry_mcap_fill_sol = Some (Fin 40)\<rparr>"
      40 "smart_buy_default\<lparr>honest_entry_baseline := True\<rparr>" None]
  by (auto simp: smart_buy_default_def)

section \<open>A filled buy\<close>

fun trade_rows :: "effect \<Rightarrow> bot_trade_entry list" where
  "trade_rows (SaveBotTrade row track) = [row]"
| "trade_rows _ = []"

definition saved_trades :: "effect list \<Rightarrow> bot_trade_entry list" where
  "saved_trades es = concat (map trade_rows es)"

lemma saved_trades_simps [simp]:
  "saved_trades [] = []" "saved_trades (e # es) = trade_rows e @ saved_trades es"
  "saved_trades (xs @ ys) = saved_trades xs @ saved_trades ys"
  by (simp_all add: saved_trades_def)

lemma saved_trades_balance [simp]: "saved_trades (balance_feed m) = []"
  by (simp add: balance_feed_def saved_trades_def)

lemma saved_trades_live [simp]: "saved_trades (spawn_live_snapshot_refresh mint m) = []"
  by (simp add: spawn_live_snapshot_refresh_def split: option.split prod.split)

lemma refresh_balance_more:
  assumes "refresh_balance env wid m = (m', es)"
  shows "strategy_ctl m' = strategy_ctl m" "saved_trades es = []" "curve_quarantine m' = curve_quarantine m"
    "dev_blacklist_cfg m' = dev_blacklist_cfg m" "curve_quarantine_cfg m' = curve_quarantine_cfg m"
    "post_exit_rpc m' = post_exit_rpc m" "dev_ranker m' = dev_ranker m" "smart_money m' = smart_money m"
    "learning m' = learning m"
  using refresh_balance_cases[OF assms] by auto

lemma position_new_money:
  "position_new wid p a now b = Inr pos \<Longrightarrow> initial_holdings pos = a \<and> holdings pos = a \<and> total_returned pos = 0
     \<and> entry_time pos = now"
  by (auto simp: position_new_def position_at_def bind_outcome_Inr_iff split: option.splits)

text \<open>The money in a position, which the later steps of its construction leave alone.\<close>

definition money :: "position \<Rightarrow> amount \<times> amount \<times> f64 \<times> u64 \<times> f64" where
  "money p = (initial_holdings p, holdings p, total_returned p, entry_time p, spent_sol p)"

lemma push_money: "money (push_exit_mcap_tick p x n) = money p"
  by (simp add: push_exit_mcap_tick_def money_def Let_def)

lemma seed_money: "money (seed_ticks cfg b p) = money p"
  using push_money[of "p\<lparr>exit_mcap_ticks := []\<rparr>"] by (simp add: seed_ticks_def money_def split: option.split)

lemma counters_money: "money (entry_counters bo p) = money p"
  by (simp add: entry_counters_def money_def split: option.split)

lemma entry_v4_money: "money (entry_v4 cfg now snap p) = money p"
  by (simp add: entry_v4_def money_def Let_def split: prod.split)

lemma open_position_money:
  assumes "open_position cfg now bo p r = Inr pos"
  shows "money pos = (amount_from_float_native (tokens_received r), amount_from_float_native (tokens_received r),
    0, now, bo_amount bo)"
proof -
  define b where "b = entry_baseline_mcap cfg (bo_snapshot bo) r"
  obtain p0 where p0: "position_new (bo_wallet bo) p (amount_from_float_native (tokens_received r)) now b = Inr p0"
    using assms by (auto simp: open_position_def b_def bind_outcome_Inr_iff Let_def)
  define p1 where "p1 = (seed_ticks cfg b p0)\<lparr>exit_profit_floor := bc_exit_profit_floor cfg,
      spent_sol := bo_amount bo, dev_address := bo_dev bo, early_buyers := bo_early bo\<rparr>"
  define p2 where "p2 = entry_v4 cfg now (bo_snapshot bo) (entry_counters bo p1)"
  define p3 where "p3 = p2\<lparr>pos_snapshot := bo_snapshot bo, pos_open_reason := Some (bo_reason bo)\<rparr>"
  have pos: "pos = push_exit_mcap_tick p3 (amount_to_float (enter_mcap p3)) (exit_mcap_median_ticks cfg)"
    using assms p0 by (simp add: open_position_def Let_def p1_def p2_def p3_def flip: b_def)
  have "money pos = money p3" by (simp add: pos push_money)
  also have "\<dots> = money p2" by (simp add: p3_def money_def)
  also have "\<dots> = money p1" by (simp add: p2_def entry_v4_money counters_money)
  finally show ?thesis using position_new_money[OF p0] seed_money[of cfg b p0] by (simp add: money_def p1_def)
qed

lemma buy_opened_result:
  assumes "buy_opened env bo p v3 r m = Inr (m', es)" "bo_wallet bo \<in> wallet_ids m"
  shows "\<exists>pos. positions m' = AList.update (bo_mint bo, bo_wallet bo) pos (positions m) \<and>
    desk pos = (bo_wallet bo, p, False, False) \<and>
    money pos = (amount_from_float_native (tokens_received r), amount_from_float_native (tokens_received r),
      0, env_now env, bo_amount bo) \<and>
    strategy_ctl m' = strategy_ctl m \<and> closed_mints m' = closed_mints m \<and> saved_trades es = [] \<and>
    Feed (PositionOpen (env_str env (bo_mint bo)) (bo_wallet bo) (bo_reason bo) (amount_to_float (enter_mcap pos)) v3)
      \<in> set es"
proof -
  obtain pos where pos: "open_position (config m) (env_now env) bo p r = Inr pos"
    using assms(1) by (auto simp: buy_opened_def bind_outcome_Inr_iff Let_def)
  define m1 where "m1 = m\<lparr>positions := AList.update (bo_mint bo, bo_wallet bo) pos (positions m)\<rparr>"
  have known: "registry_get (wallets m1) (bo_wallet bo) \<noteq> None" using assms(2) known_iff[of m] by (simp add: m1_def)
  obtain m2 bal where rb: "refresh_balance env (bo_wallet bo) m1 = (m2, bal)" by fastforce
  have "m' = m2" "es = (if bucket_cache m (bo_mint bo) \<noteq> None then spawn_live_snapshot_refresh (bo_mint bo) m else [])
      @ bal @ [Feed (PositionOpen (env_str env (bo_mint bo)) (bo_wallet bo) (bo_reason bo)
                       (amount_to_float (enter_mcap pos)) v3)]"
    using assms(1) pos known rb by (simp_all add: buy_opened_def Let_def m1_def)
  then show ?thesis
    using open_position_desk[OF pos] open_position_money[OF pos] refresh_balance_fields[OF rb] refresh_balance_more[OF rb]
    by (auto simp: m1_def)
qed

lemma abort_result:
  assumes "abort_buy_after_fill_mcap_spike env bo r p spike m = Inr (aborted, m', es)"
    "bo_wallet bo \<in> wallet_ids m"
  shows "case env_sell env (bo_wallet bo) (bo_mint bo) (tokens_received r) p True of
      Inl e \<Rightarrow> \<not> aborted \<and> m' = m \<and> saved_trades es = []
    | Inr s \<Rightarrow> aborted \<and> positions m' = positions m \<and>
        strategy_ctl m' = note_position_closed (strategy_ctl m) (env_now env) (sol_received_actual s - bo_amount bo) \<and>
        (\<exists>row. saved_trades es = [row] \<and> bt_wallet_id row = bo_wallet bo \<and> bt_close_reason row = spike_reason spike \<and>
           bt_invested_sol row = bo_amount bo \<and>
           bt_realized_pnl_pct row = (if 0 < bo_amount bo then pct_over (sol_received_actual s) (bo_amount bo) else 0))"
proof -
  have known: "registry_get (wallets m) (bo_wallet bo) \<noteq> None" using assms(2) known_iff[of m] by simp
  show ?thesis
  proof (cases "env_sell env (bo_wallet bo) (bo_mint bo) (tokens_received r) p True")
    case (Inr s)
    define m1 where "m1 = m\<lparr>strategy_ctl := note_position_closed (strategy_ctl m) (env_now env)
        (sol_received_actual s - bo_amount bo)\<rparr>"
    obtain m2 bal where rb: "refresh_balance env (bo_wallet bo) m1 = (m2, bal)" by fastforce
    show ?thesis
      using assms(1) known Inr refresh_balance_fields[OF rb] refresh_balance_more[OF rb]
      by (auto simp: abort_buy_after_fill_mcap_spike_def Let_def rb[unfolded m1_def] bind_outcome_Inr_iff m1_def)
  qed (use assms(1) known in \<open>auto simp: abort_buy_after_fill_mcap_spike_def Let_def\<close>)
qed

text \<open>C12. A filled buy has one of two outcomes. If the fill price is off and the emergency sell succeeds, no
  position is opened, the strategy is told what the round trip lost, and one trade is saved under the
  reason of the abort; the mint is not closed. Otherwise one position is opened, in the row of the
  mint and the wallet, with the whole fill, nothing returned, the amount of the order as its cost and
  no sell pending, and it is announced; no trade is saved and the strategy is told nothing.\<close>

theorem filled_buy_opens_or_aborts:
  assumes "buy_filled env bo p v3 r m = Inr (m', es)" "bo_wallet bo \<in> wallet_ids m"
  shows "case (detect_fill_mcap_spike (config m) (bo_snapshot bo) r,
               env_sell env (bo_wallet bo) (bo_mint bo) (tokens_received r) p True) of
      (Some spike, Inr s) \<Rightarrow>
        positions m' = positions m \<and> closed_mints m' = closed_mints m \<and>
        strategy_ctl m' = note_position_closed (strategy_ctl m) (env_now env) (sol_received_actual s - bo_amount bo) \<and>
        (\<exists>row. saved_trades es = [row] \<and> bt_wallet_id row = bo_wallet bo \<and> bt_close_reason row = spike_reason spike \<and>
           bt_invested_sol row = bo_amount bo \<and>
           bt_realized_pnl_pct row = (if 0 < bo_amount bo then pct_over (sol_received_actual s) (bo_amount bo) else 0))
    | _ \<Rightarrow>
        strategy_ctl m' = strategy_ctl m \<and> closed_mints m' = closed_mints m \<and> saved_trades es = [] \<and>
        (\<exists>pos. positions m' = AList.update (bo_mint bo, bo_wallet bo) pos (positions m) \<and>
           wallet_id pos = bo_wallet bo \<and> pos_pool pos = p \<and> \<not> is_closing pos \<and> \<not> pending_partial_sell pos \<and>
           holdings pos = amount_from_float_native (tokens_received r) \<and> total_returned pos = 0 \<and>
           spent_sol pos = bo_amount bo \<and> entry_time pos = env_now env \<and>
           Feed (PositionOpen (env_str env (bo_mint bo)) (bo_wallet bo) (bo_reason bo)
                   (amount_to_float (enter_mcap pos)) v3) \<in> set es)"
proof (cases "detect_fill_mcap_spike (config m) (bo_snapshot bo) r")
  case None
  then have "buy_opened env bo p v3 r m = Inr (m', es)" using assms(1) by (simp add: buy_filled_def)
  from buy_opened_result[OF this assms(2)] show ?thesis by (auto simp: None desk_def money_def)
next
  case (Some spike)
  then obtain aborted m1 es1 where ab: "abort_buy_after_fill_mcap_spike env bo r p spike m = Inr (aborted, m1, es1)"
    using assms(1) by (auto simp: buy_filled_def bind_outcome_Inr_iff)
  note abort = abort_result[OF ab assms(2)]
  show ?thesis
  proof (cases "env_sell env (bo_wallet bo) (bo_mint bo) (tokens_received r) p True")
    case (Inr s)
    then have "m' = m1" "es = es1" using abort assms(1) Some ab by (simp_all add: buy_filled_def)
    then show ?thesis using abort abort_fields(7)[OF ab] by (simp add: Some Inr)
  next
    case (Inl e)
    then have "m1 = m" "\<not> aborted" "saved_trades es1 = []" using abort by simp_all
    then obtain es2 where op: "buy_opened env bo p v3 r m = Inr (m', es2)" "es = es1 @ es2"
      using assms(1) Some ab by (auto simp: buy_filled_def bind_outcome_Inr_iff)
    from buy_opened_result[OF op(1) assms(2)] show ?thesis
      using op(2) \<open>saved_trades es1 = []\<close> by (auto simp: Some Inl desk_def money_def)
  qed
qed

definition demo_receipt :: buy_receipt where
  "demo_receipt = \<lparr>sol_spent = Fin 1, tokens_received = Fin 1000, br_signature = None, entry_mcap_fill_sol = Some (Fin 40)\<rparr>"

lemma demo_known: "''w1'' \<in> wallet_ids (demo_state n mints buys)"
  by (simp add: wallet_ids_def demo_state_def demo_manager_def manager_new_def demo_wallet_def make_wallet_def
      sample_entry_def)

lemma demo_pool_live: "live_pool demo_pool"
  by (simp add: live_pool_def pool_tokens_def demo_pool_def bonding_new_def amount_from_raw_def)

lemma filled_buy_opens_or_aborts_witness:
  "\<exists>m' es pos. buy_filled demo_env demo_order demo_pool None demo_receipt (demo_state 1 {} {}) = Inr (m', es) \<and>
     positions m' = [((7, ''w1''), pos)] \<and> spent_sol pos = Fin 1"
proof -
  obtain m' es where r: "buy_filled demo_env demo_order demo_pool None demo_receipt (demo_state 1 {} {}) = Inr (m', es)"
    using buy_filled_returns[OF demo_pool_live, of demo_env demo_order None demo_receipt "demo_state 1 {} {}"]
    by (fastforce simp: returns_iff)
  have "detect_fill_mcap_spike (config (demo_state 1 {} {})) (bo_snapshot demo_order) demo_receipt = None"
    by (simp add: detect_fill_mcap_spike_def demo_order_def)
  moreover have "bo_wallet demo_order \<in> wallet_ids (demo_state 1 {} {})" using demo_known by (simp add: demo_order_def)
  moreover have "positions (demo_state 1 {} {}) = []" by (simp add: demo_state_def demo_manager_def manager_new_def)
  ultimately show ?thesis
    using filled_buy_opens_or_aborts[OF r] r by (auto simp: demo_order_def)
qed

end
