(* ===== verification/Manager_Sells.thy ===== *)
theory Manager_Sells
  imports Manager_Buys
begin

text \<open>
  What the execution of a sell guarantees: a failed one gives the position back, a partial one books
  what it returned, the one of the whole position takes it out of the table and settles it once; and
  the account of a position over a sequence of sells. A mint that has been closed stays closed.
\<close>

section \<open>The cases of a sell\<close>

text \<open>How much is sold.\<close>

definition sell_quantity :: "position \<Rightarrow> f64 \<Rightarrow> f64" where
  "sell_quantity pos pct = amount_to_float (holdings pos) * (pct / f64_of 100)"

lemma quote_quantity: "quote_sell cfg pos pct why = Inr q \<Longrightarrow> sq_qty q = sell_quantity pos pct"
  by (auto simp: quote_sell_def bind_outcome_Inr_iff sell_quantity_def)

lemma execute_sell_cases:
  assumes "execute_sell env mint wid pct why m = Inr (m', es)" "wid \<in> wallet_ids m"
    "map_of (positions m) (mint, wid) = Some pos"
  shows "\<exists>q. quote_sell (config m) pos pct why = Inr q \<and> sq_qty q = sell_quantity pos pct \<and>
    (case env_sell env wid mint (sell_quantity pos pct) (pos_pool pos) (whole pct) of
       Inl e \<Rightarrow> sell_failed env (mint, wid) pct why pos q e
                 (m\<lparr>positions := AList.delete (mint, wid) (positions m)\<rparr>) = (m', es)
     | Inr r \<Rightarrow> sell_done env (mint, wid) pct why pos q r
                 (m\<lparr>positions := AList.delete (mint, wid) (positions m)\<rparr>) = (m', es))"
proof -
  define m1 where "m1 = m\<lparr>positions := AList.delete (mint, wid) (positions m)\<rparr>"
  obtain w where w: "registry_get (wallets m) wid = Some w" using assms(2) known_iff[of m wid] by auto
  obtain q where q: "quote_sell (config m1) pos pct why = Inr q"
    using assms(1) w assms(3) by (auto simp: execute_sell_def bind_outcome_Inr_iff m1_def Let_def)
  then have "quote_sell (config m) pos pct why = Inr q" by (simp add: m1_def)
  with quote_quantity[OF this] show ?thesis
    using assms(1,3) w q unfolding m1_def[symmetric]
    by (cases "env_sell env wid mint (sell_quantity pos pct) (pos_pool pos) (whole pct)")
      (auto simp: execute_sell_def m1_def[symmetric] Let_def)
qed

lemma map_of_put_back: "map_of (AList.update k p (AList.delete k ps)) = (map_of ps)(k \<mapsto> p)"
  by (simp add: update_conv' delete_conv')

text \<open>C14. A sell that fails gives the position back: its row holds the same position, with no partial sell
  pending, and no longer marked closing if the sell was of the whole position or needs a manual
  exit; every other row, the strategy, the closed mints and the wallets are as before, no trade is
  saved, the failure is announced, and the operator is called exactly when a manual exit is needed.\<close>

theorem failed_sell_keeps_position:
  assumes "execute_sell env mint wid pct why m = Inr (m', es)" "wid \<in> wallet_ids m"
    "map_of (positions m) (mint, wid) = Some pos"
    "env_sell env wid mint (sell_quantity pos pct) (pos_pool pos) (whole pct) = Inl e"
  shows "map_of (positions m') = (map_of (positions m))((mint, wid) \<mapsto>
      pos\<lparr>is_closing := is_closing pos \<and> \<not> (requires_manual_sell e \<or> f64_of 100 \<le> pct),
          pending_partial_sell := False\<rparr>) \<and>
    strategy_ctl m' = strategy_ctl m \<and> closed_mints m' = closed_mints m \<and> wallets m' = wallets m \<and>
    saved_trades es = [] \<and>
    (\<exists>tx. Feed (TxEvent tx) \<in> set es \<and> tx_status tx = ''failed'' \<and> tx_kind tx = TxSell \<and>
       tx_reason tx = Some (why @ '': '' @ broker_error_display (env_str env) e)) \<and>
    ((\<exists>w a r x h t. Feed (ManualSellRequired w a r x h t) \<in> set es) \<longleftrightarrow> requires_manual_sell e)"
proof -
  obtain q where f: "sell_failed env (mint, wid) pct why pos q e
      (m\<lparr>positions := AList.delete (mint, wid) (positions m)\<rparr>) = (m', es)"
    using execute_sell_cases[OF assms(1-3)] assms(4) by auto
  have "reopen e pct pos = pos\<lparr>is_closing := is_closing pos \<and> \<not> (requires_manual_sell e \<or> f64_of 100 \<le> pct),
      pending_partial_sell := False\<rparr>"
    by (cases pos) (simp add: reopen_def whole_def)
  then show ?thesis using f by (auto simp: sell_failed_def sell_event_def Let_def map_of_put_back)
qed

text \<open>A partial sell that succeeds books what it returned and takes the sold part off the holdings; the
  position stays in its row with no partial sell pending, and nothing else is settled.\<close>

lemma partial_sell_books:
  assumes "execute_sell env mint wid pct why m = Inr (m', es)" "wid \<in> wallet_ids m"
    "map_of (positions m) (mint, wid) = Some pos" "pct < f64_of 100"
    "env_sell env wid mint (sell_quantity pos pct) (pos_pool pos) False = Inr r"
  shows "map_of (positions m') = (map_of (positions m))((mint, wid) \<mapsto>
      pos\<lparr>total_returned := total_returned pos + sol_received_actual r,
          holdings := amount_from_float_native (amount_to_float (holdings pos) - sell_quantity pos pct),
          pending_partial_sell := False\<rparr>) \<and>
    strategy_ctl m' = strategy_ctl m \<and> closed_mints m' = closed_mints m \<and> wallet_ids m' = wallet_ids m \<and>
    saved_trades es = []"
proof -
  have nw: "\<not> whole pct" using assms(4) f64_less_imp_not_le by (auto simp: whole_def)
  obtain q where q: "sq_qty q = sell_quantity pos pct"
    and f: "sell_done env (mint, wid) pct why pos q r (m\<lparr>positions := AList.delete (mint, wid) (positions m)\<rparr>) = (m', es)"
    using execute_sell_cases[OF assms(1-3)] assms(5) nw by auto
  define p2 where "p2 = pos\<lparr>total_returned := total_returned pos + sol_received_actual r,
      holdings := amount_from_float_native (amount_to_float (holdings pos) - sell_quantity pos pct),
      pending_partial_sell := False\<rparr>"
  define m1 where "m1 = m\<lparr>positions := AList.update (mint, wid) p2 (AList.delete (mint, wid) (positions m))\<rparr>"
  obtain m2 bal where rb: "refresh_balance env wid m1 = (m2, bal)" by fastforce
  have "m' = m2" "saved_trades es = saved_trades bal"
    using f nw assms(4) rb by (auto simp: sell_done_def Let_def q m1_def p2_def sell_event_def)
  then show ?thesis
    using refresh_balance_fields[OF rb] refresh_balance_more[OF rb]
    by (simp add: m1_def map_of_put_back wallet_ids_def flip: p2_def)
qed

lemma close_position_result:
  assumes "close_position env k why pos q m = (m', es)"
  shows "positions m' = positions m"
    "closed_mints m' = (if fst k \<in> position_mints m then closed_mints m else insert (fst k) (closed_mints m))"
    "strategy_ctl m' = note_position_closed (strategy_ctl m) (env_now env)
       (close_pnl_sol (total_returned pos) (spent_sol pos))"
    "saved_trades es = [trade_row env k pos q
       (close_pnl_pct (total_returned pos) (spent_sol pos) (amount_to_float (initial_holdings pos))) why]"
    "Feed (PositionClose (env_str env (fst k)) (snd k) why) \<in> set es"
proof -
  have "saved_trades (blacklist_entry env m3 a pos why x y) = []" "saved_trades (ranker_effects m3 pos y) = []"
    "saved_trades (learning_effects env m3 pos q y why) = []" for m3 a x y
    by (simp_all add: blacklist_entry_def ranker_effects_def learning_effects_def split: option.split)
  then show "saved_trades es = [trade_row env k pos q
       (close_pnl_pct (total_returned pos) (spent_sol pos) (amount_to_float (initial_holdings pos))) why]"
    using assms by (auto simp: close_position_def Let_def)
  show "positions m' = positions m" by (rule close_position_fields(1)[OF assms])
  show "Feed (PositionClose (env_str env (fst k)) (snd k) why) \<in> set es"
    using assms by (auto simp: close_position_def Let_def)
  define m1 where "m1 = maybe_finalize_closed_mint (fst k) m"
  have "closed_mints m' = closed_mints m1" "strategy_ctl m' = note_position_closed (strategy_ctl m1) (env_now env)
       (close_pnl_sol (total_returned pos) (spent_sol pos))"
    using assms unfolding close_position_def Let_def m1_def[symmetric] by (auto split: if_splits)
  then show "closed_mints m' = (if fst k \<in> position_mints m then closed_mints m else insert (fst k) (closed_mints m))"
    "strategy_ctl m' = note_position_closed (strategy_ctl m) (env_now env)
       (close_pnl_sol (total_returned pos) (spent_sol pos))"
    by (simp_all add: m1_def maybe_finalize_closed_mint_def any_position_for_mint_def)
qed

lemma position_mints_iff: "mint \<in> position_mints m \<longleftrightarrow> (\<exists>w. map_of (positions m) (mint, w) \<noteq> None)"
  by (force simp: position_mints_def map_of_eq_None_iff)

text \<open>The sell of a whole position that succeeds settles it once: its row is gone and every other row is
  as before; the strategy is told the profit of the whole position, what all its sells returned less
  its cost; one trade is saved, with the profit in percent of the cost and the reason of the sell;
  and the mint is closed unless another wallet still holds it.\<close>

lemma full_sell_settles_once:
  assumes "execute_sell env mint wid pct why m = Inr (m', es)" "wid \<in> wallet_ids m"
    "map_of (positions m) (mint, wid) = Some pos" "f64_of 100 \<le> pct" "0 < spent_sol pos"
    "env_sell env wid mint (sell_quantity pos pct) (pos_pool pos) True = Inr r"
  shows "map_of (positions m') = (map_of (positions m))((mint, wid) := None) \<and>
    strategy_ctl m' = note_position_closed (strategy_ctl m) (env_now env)
      (total_returned pos + sol_received_actual r - spent_sol pos) \<and>
    (\<exists>row. saved_trades es = [row] \<and> bt_wallet_id row = wid \<and> bt_close_reason row = why \<and>
       bt_invested_sol row = spent_sol pos \<and> bt_closed_at row = env_now env \<and> bt_entry_at row = entry_time pos \<and>
       bt_realized_pnl_pct row = ((total_returned pos + sol_received_actual r) / spent_sol pos - 1) * f64_of 100) \<and>
    closed_mints m' = (if \<exists>w. w \<noteq> wid \<and> map_of (positions m) (mint, w) \<noteq> None then closed_mints m
                       else insert mint (closed_mints m)) \<and>
    Feed (PositionClose (env_str env mint) wid why) \<in> set es"
proof -
  have w: "whole pct" "\<not> pct < f64_of 100" using assms(4) f64_less_imp_not_le by (auto simp: whole_def)
  define m1 where "m1 = m\<lparr>positions := AList.delete (mint, wid) (positions m)\<rparr>"
  define p1 where "p1 = pos\<lparr>total_returned := total_returned pos + sol_received_actual r\<rparr>"
  obtain q where f: "sell_done env (mint, wid) pct why pos q r m1 = (m', es)"
    using execute_sell_cases[OF assms(1-3)] assms(6) w by (auto simp: m1_def)
  obtain m2 bal where rb: "refresh_balance env wid m1 = (m2, bal)" by fastforce
  obtain m3 closed where cl: "close_position env (mint, wid) why p1 q m2 = (m3, closed)" by fastforce
  have res: "m' = m3" "saved_trades es = saved_trades closed" "set closed \<subseteq> set es"
    using f w rb cl refresh_balance_more[OF rb]
    by (auto simp: sell_done_def Let_def sell_event_def p1_def)
  note c = close_position_result[OF cl]
  have m2: "positions m2 = positions m1" "closed_mints m2 = closed_mints m" "strategy_ctl m2 = strategy_ctl m"
    using refresh_balance_fields[OF rb] refresh_balance_more[OF rb] by (simp_all add: m1_def)
  have pos: "map_of (positions m2) = (map_of (positions m))((mint, wid) := None)"
    by (simp add: m2 m1_def delete_conv')
  have "mint \<in> position_mints m2 \<longleftrightarrow> (\<exists>w. w \<noteq> wid \<and> map_of (positions m) (mint, w) \<noteq> None)"
    unfolding position_mints_iff pos by auto
  then show ?thesis
    using c res m2 pos assms(5)
    by (auto simp: close_pnl_sol_def close_pnl_pct_def trade_row_def p1_def pct_over_def)
qed

section \<open>The account of a position\<close>

text \<open>Sells of one position, one after the other.\<close>

fun run_sells ::
  "address \<Rightarrow> string \<Rightarrow> (environment \<times> f64 \<times> string) list \<Rightarrow> manager \<Rightarrow> (manager \<times> effect list) outcome" where
  "run_sells mint wid [] m = Inr (m, [])"
| "run_sells mint wid ((env, pct, why) # ss) m =
     bind_outcome (execute_sell env mint wid pct why m) (\<lambda>(m1, es).
     bind_outcome (run_sells mint wid ss m1) (\<lambda>(m2, es'). Inr (m2, es @ es')))"

text \<open>The broker sells, whatever it is asked, and what it pays.\<close>

definition pays :: "address \<Rightarrow> string \<Rightarrow> environment \<Rightarrow> f64 \<Rightarrow> bool" where
  "pays mint wid env sol \<longleftrightarrow> (\<forall>qty p w. \<exists>r. env_sell env wid mint qty p w = Inr r \<and> sol_received_actual r = sol)"

lemma run_partial_sells:
  assumes "run_sells mint wid (map fst ss) m = Inr (m', es)" "wid \<in> wallet_ids m"
    "map_of (positions m) (mint, wid) = Some pos"
    "list_all (\<lambda>((env, pct, why), sol). pct < f64_of 100 \<and> pays mint wid env sol) ss"
  shows "\<exists>p'. map_of (positions m') = (map_of (positions m))((mint, wid) \<mapsto> p') \<and>
    total_returned p' = foldl (+) (total_returned pos) (map snd ss) \<and> spent_sol p' = spent_sol pos \<and>
    entry_time p' = entry_time pos \<and> strategy_ctl m' = strategy_ctl m \<and> closed_mints m' = closed_mints m \<and>
    wallet_ids m' = wallet_ids m \<and> saved_trades es = []"
  using assms
proof (induction ss arbitrary: m pos es)
  case Nil
  then have "map_of (positions m) = (map_of (positions m))((mint, wid) \<mapsto> pos)" by (simp add: fun_upd_idem)
  then show ?case using Nil.prems(1) by (auto intro!: exI[of _ pos] simp del: fun_upd_apply)
next
  case (Cons x ss)
  obtain env pct why sol where x: "x = ((env, pct, why), sol)" by (metis surj_pair)
  have pct: "pct < f64_of 100" and pay: "pays mint wid env sol" and ss: "list_all
      (\<lambda>((env, pct, why), sol). pct < f64_of 100 \<and> pays mint wid env sol) ss"
    using Cons.prems(4) by (simp_all add: x)
  obtain m1 es1 es2 where run: "execute_sell env mint wid pct why m = Inr (m1, es1)"
      "run_sells mint wid (map fst ss) m1 = Inr (m', es2)" "es = es1 @ es2"
    using Cons.prems(1) by (auto simp: x bind_outcome_Inr_iff)
  obtain r where r: "env_sell env wid mint (sell_quantity pos pct) (pos_pool pos) False = Inr r"
      "sol_received_actual r = sol" using pay unfolding pays_def by blast
  define p1 where "p1 = pos\<lparr>total_returned := total_returned pos + sol,
      holdings := amount_from_float_native (amount_to_float (holdings pos) - sell_quantity pos pct),
      pending_partial_sell := False\<rparr>"
  have b: "map_of (positions m1) = (map_of (positions m))((mint, wid) \<mapsto> p1)" "strategy_ctl m1 = strategy_ctl m"
      "closed_mints m1 = closed_mints m" "wallet_ids m1 = wallet_ids m" "saved_trades es1 = []"
    using partial_sell_books[OF run(1) Cons.prems(2,3) pct r(1)] by (simp_all add: p1_def r(2))
  have "wid \<in> wallet_ids m1" "map_of (positions m1) (mint, wid) = Some p1" using b Cons.prems(2) by simp_all
  from Cons.IH[OF run(2) this ss] show ?case using b run(3) by (auto simp: x p1_def simp del: fun_upd_apply)
qed

lemma run_sells_append:
  "run_sells mint wid (ss @ ts) m =
     bind_outcome (run_sells mint wid ss m) (\<lambda>(m1, es).
     bind_outcome (run_sells mint wid ts m1) (\<lambda>(m2, es'). Inr (m2, es @ es')))"
proof (induction mint wid ss m rule: run_sells.induct)
  case (1 mint wid m)
  then show ?case by (cases "run_sells mint wid ts m") auto
next
  case (2 mint wid env pct why ss m)
  then show ?case
    by (cases "execute_sell env mint wid pct why m") (auto simp: bind_outcome_def split: sum.split prod.split)
qed

text \<open>C2. The account of a position is settled once and in full: after any number of partial sells and the
  sell of the rest, all paid, its row is gone and every other row is as before; the strategy has been
  told one profit, the sum of what all the sells returned less the cost; one trade has been saved,
  with that profit in percent of the cost, under the reason of the last sell; and the mint is closed
  unless another wallet holds it.\<close>

theorem sells_settle_the_account:
  assumes "run_sells mint wid (map fst ss @ [(env, pct, why)]) m = Inr (m', es)" "wid \<in> wallet_ids m"
    "map_of (positions m) (mint, wid) = Some pos" "0 < spent_sol pos"
    "list_all (\<lambda>((env, pct, why), sol). pct < f64_of 100 \<and> pays mint wid env sol) ss"
    "f64_of 100 \<le> pct" "pays mint wid env sol"
  shows "map_of (positions m') = (map_of (positions m))((mint, wid) := None) \<and>
    strategy_ctl m' = note_position_closed (strategy_ctl m) (env_now env)
      (foldl (+) (total_returned pos) (map snd ss @ [sol]) - spent_sol pos) \<and>
    (\<exists>row. saved_trades es = [row] \<and> bt_wallet_id row = wid \<and> bt_close_reason row = why \<and>
       bt_invested_sol row = spent_sol pos \<and> bt_entry_at row = entry_time pos \<and>
       bt_realized_pnl_pct row =
         (foldl (+) (total_returned pos) (map snd ss @ [sol]) / spent_sol pos - 1) * f64_of 100) \<and>
    closed_mints m' = (if \<exists>w. w \<noteq> wid \<and> map_of (positions m) (mint, w) \<noteq> None then closed_mints m
                       else insert mint (closed_mints m))"
proof -
  obtain m1 es1 es2 where run: "run_sells mint wid (map fst ss) m = Inr (m1, es1)"
      "execute_sell env mint wid pct why m1 = Inr (m', es2)" "es = es1 @ es2"
    using assms(1) by (auto simp: run_sells_append bind_outcome_Inr_iff)
  obtain p1 where p: "map_of (positions m1) = (map_of (positions m))((mint, wid) \<mapsto> p1)"
      "total_returned p1 = foldl (+) (total_returned pos) (map snd ss)" "spent_sol p1 = spent_sol pos"
      "entry_time p1 = entry_time pos" "strategy_ctl m1 = strategy_ctl m" "closed_mints m1 = closed_mints m"
      "wallet_ids m1 = wallet_ids m" "saved_trades es1 = []"
    using run_partial_sells[OF run(1) assms(2,3,5)] by blast
  obtain r where r: "env_sell env wid mint (sell_quantity p1 pct) (pos_pool p1) True = Inr r"
      "sol_received_actual r = sol" using assms(7) unfolding pays_def by blast
  have "wid \<in> wallet_ids m1" "map_of (positions m1) (mint, wid) = Some p1" "0 < spent_sol p1"
    using p assms(2,4) by simp_all
  note settled = full_sell_settles_once[OF run(2) this(1,2) assms(6) this(3) r(1)]
  have "(\<exists>w. w \<noteq> wid \<and> map_of (positions m1) (mint, w) \<noteq> None) \<longleftrightarrow>
      (\<exists>w. w \<noteq> wid \<and> map_of (positions m) (mint, w) \<noteq> None)" by (simp add: p(1) cong: conj_cong)
  with settled show ?thesis using p r(2) run(3) by (auto simp del: fun_upd_apply)
qed

section \<open>A closed mint\<close>

lemma initiate_buy_closed: "closed_mints (fst (initiate_buy env p a t why dev early snap m)) = closed_mints m"
  by (simp add: initiate_buy_def Let_def case_prod_unfold)

lemma buy_filled_closed:
  assumes "buy_filled env bo p v3 r m = Inr (m', es)" shows "closed_mints m' = closed_mints m"
proof -
  have opened: "closed_mints m2 = closed_mints m1" if "buy_opened env bo p v3 r m1 = Inr (m2, es2)" for m1 m2 es2
    using that refresh_balance_fields(7)[OF surjective_pairing]
    by (auto simp: buy_opened_def Let_def bind_outcome_Inr_iff case_prod_unfold broadcast_wallet_balances_def
        sync_combined_balance_def split: if_splits)
  show ?thesis
    using assms abort_fields(7) opened
    by (auto simp: buy_filled_def bind_outcome_Inr_iff split: option.splits if_splits)
qed

lemma execute_sell_closed:
  assumes "execute_sell env mint wid pct why m = Inr (m', es)" shows "closed_mints m \<subseteq> closed_mints m'"
proof -
  define m1 where "m1 = m\<lparr>positions := AList.delete (mint, wid) (positions m)\<rparr>"
  have failed: "closed_mints (fst (sell_failed env k pct why pos q e m1)) = closed_mints m" for k pos q e
    by (simp add: sell_failed_def Let_def m1_def)
  have sold: "closed_mints m \<subseteq> closed_mints (fst (sell_done env k pct why pos q r m1))" for k pos q r
    by (auto simp: sell_done_def Let_def case_prod_unfold m1_def refresh_balance_fields(7)[OF surjective_pairing]
        intro!: subsetD[OF close_position_fields(7)[OF surjective_pairing]])
  show ?thesis
  proof (cases "wid \<in> wallet_ids m \<and> map_of (positions m) (mint, wid) \<noteq> None")
    case True
    then obtain pos where "map_of (positions m) (mint, wid) = Some pos" by blast
    then show ?thesis
      using execute_sell_cases[OF assms, of pos] True failed sold unfolding m1_def[symmetric]
      by (metis (mono_tags, lifting) fst_conv order_refl sum.case sum.exhaust)
  next
    case False
    then have "m' = m" using assms known_iff[of m wid] by (auto simp: execute_sell_def)
    then show ?thesis by simp
  qed
qed

lemma handle_closed:
  assumes "handle env msg m = Inr (m', es, rep)" shows "closed_mints m \<subseteq> closed_mints m'"
proof (cases msg)
  case (InitiateBuy p a t why dev early snap)
  then show ?thesis using assms initiate_buy_closed by (auto simp: silent_Inr) (metis fst_conv)+
next
  case (BuyCompleted bo p mode v3 res)
  then show ?thesis
    using assms buy_filled_closed
    by (cases res) (fastforce simp: silent_Inr apply_buy_result_def buy_unavailable_def buy_failed_def Let_def
        bind_outcome_Inr_iff split: if_splits)+
next
  case (ExecuteSell mint wid pct why)
  then have "execute_sell env mint wid pct why m = Inr (m', es)" using assms by (simp add: silent_Inr)
  then show ?thesis by (rule execute_sell_closed)
next
  case (AbandonPosition mint wid)
  then show ?thesis using assms finalize_fields(6)
    by (fastforce simp: silent_Inr abandon_position_def Let_def maybe_finalize_closed_mint_def split: if_splits)
next
  case Tick
  then show ?thesis using assms
    by (auto simp: silent_Inr tick_def tick_live_def process_positions_def Let_def bind_outcome_Inr_iff split: if_splits)
next
  case (ExecuteBuy bo)
  then show ?thesis using assms
    by (auto simp: silent_Inr execute_buy_def Let_def split: if_splits option.splits)
qed (use assms in \<open>auto simp: silent_Inr update_pool_def update_token_bucket_def update_positions_pool_for_mint_def
      set_paused_def clear_pending_mint_def on_mint_def get_pnl_def Let_def bind_outcome_Inr_iff\<close>)

lemma sys_step_closed: "sys_step s s' \<Longrightarrow> closed_mints (fst s) \<subseteq> closed_mints (fst s')"
  by (induction rule: sys_step.induct) (simp_all add: handle_closed)

text \<open>A closed mint stays closed: whatever happens afterwards, no signal for it is ever carried out or
  changes anything.\<close>

theorem closed_mint_stays_closed:
  assumes "sys_step\<^sup>*\<^sup>* (m, fl) (m', fl')" "pool_mint p \<in> closed_mints m"
  shows "pool_mint p \<in> closed_mints m' \<and> initiate_buy env p amount t why dev early snap m' = (m', [])"
proof -
  have "sys_step\<^sup>*\<^sup>* s s' \<Longrightarrow> closed_mints (fst s) \<subseteq> closed_mints (fst s')" for s s'
    by (induction rule: rtranclp_induct) (auto dest: sys_step_closed)
  then have "pool_mint p \<in> closed_mints m'" using assms by fastforce
  then show ?thesis by (simp add: initiate_buy_def Let_def)
qed

section \<open>A sold position\<close>

text \<open>One position of a thousand tokens that has cost one SOL, and brokers that fail and that pay.\<close>

definition held_position :: position where
  "held_position = (position_at ''w1'' demo_pool (amount_from_float_native (Fin 1000)) 100 (amount_from_float_native (Fin 40)))
     \<lparr>spent_sol := Fin 1\<rparr>"

definition held_state :: manager where
  "held_state = (demo_state 1 {} {})\<lparr>positions := [((7, ''w1''), held_position)]\<rparr>"

definition paying_env :: "f64 \<Rightarrow> environment" where
  "paying_env sol = demo_env\<lparr>env_sell := (\<lambda>_ _ _ _ _. Inr (sell_receipt_mock sol None))\<rparr>"

lemma held_facts:
  "''w1'' \<in> wallet_ids held_state" "map_of (positions held_state) (7, ''w1'') = Some held_position"
  "spent_sol held_position = Fin 1" "total_returned held_position = 0" "live_pool (pos_pool held_position)"
  using demo_known[of 1 "{}" "{}"] demo_pool_live
  by (simp_all add: held_state_def held_position_def position_at_def wallet_ids_def)

lemma paying_pays: "pays mint wid (paying_env sol) sol"
  by (simp add: pays_def paying_env_def sell_receipt_mock_def)

text \<open>A sell of a position with a live pool is quoted, so it ends.\<close>

lemma execute_sell_ends:
  assumes "map_of (positions m) (mint, wid) = Some pos" "live_pool (pos_pool pos)"
  shows "\<exists>m' es. execute_sell env mint wid pct why m = Inr (m', es)"
proof (cases "registry_get (wallets m) wid")
  case (Some w)
  obtain q where "quote_sell (config m) pos pct why = Inr q"
    using quote_returns[OF assms(2)] unfolding returns_iff by blast
  then show ?thesis using assms(1) Some
    by (cases "env_sell env wid mint (sq_qty q) (pos_pool pos) (whole pct)")
      (auto simp: execute_sell_def Let_def split: prod.split intro: surj_pair[THEN exE])
qed (simp add: execute_sell_def)

lemma failed_sell_keeps_position_witness:
  "\<exists>m' es p. execute_sell demo_env 7 ''w1'' (Fin 100) ''TIME KILL'' held_state = Inr (m', es) \<and>
     map_of (positions m') (7, ''w1'') = Some p \<and> spent_sol p = Fin 1 \<and> \<not> is_closing p"
proof -
  obtain m' es where r: "execute_sell demo_env 7 ''w1'' (Fin 100) ''TIME KILL'' held_state = Inr (m', es)"
    using execute_sell_ends[OF held_facts(2,5)] by blast
  show ?thesis
    using failed_sell_keeps_position[OF r held_facts(1,2), of "Custom []"] held_facts(3) r by (simp add: demo_env_def)
qed

lemma sells_settle_the_account_witness:
  "\<exists>m' es row. run_sells 7 ''w1'' [(paying_env (Fin 2), Fin 50, ''TP1''), (paying_env (Fin 1), Fin 100, ''TRAILING'')]
       held_state = Inr (m', es) \<and>
     positions m' = [] \<and> saved_trades es = [row] \<and> bt_realized_pnl_pct row = Fin 200 \<and> closed_mints m' = {7}"
proof -
  obtain m1 es1 where r1: "execute_sell (paying_env (Fin 2)) 7 ''w1'' (Fin 50) ''TP1'' held_state = Inr (m1, es1)"
    using execute_sell_ends[OF held_facts(2,5)] by blast
  have nw: "\<not> whole (Fin 50)" "Fin 50 < f64_of 100" "f64_of 100 \<le> Fin 100" by (simp_all add: whole_def)
  have "env_sell (paying_env (Fin 2)) ''w1'' 7 (sell_quantity held_position (Fin 50)) (pos_pool held_position) False
      = Inr (sell_receipt_mock (Fin 2) None)" by (simp add: paying_env_def)
  note b = partial_sell_books[OF r1 held_facts(1,2) nw(2) this]
  obtain p1 where p1: "map_of (positions m1) (7, ''w1'') = Some p1" "live_pool (pos_pool p1)"
    using b held_facts(5) by simp
  obtain m2 es2 where r2: "execute_sell (paying_env (Fin 1)) 7 ''w1'' (Fin 100) ''TRAILING'' m1 = Inr (m2, es2)"
    using execute_sell_ends[OF p1] by blast
  have run: "run_sells 7 ''w1'' (map fst [((paying_env (Fin 2), Fin 50, ''TP1''), Fin 2)]
      @ [(paying_env (Fin 1), Fin 100, ''TRAILING'')]) held_state = Inr (m2, es1 @ es2)"
    using r1 r2 by simp
  have *: "0 < spent_sol held_position"
    "list_all (\<lambda>((env, pct, why), sol). pct < f64_of 100 \<and> pays 7 ''w1'' env sol)
       [((paying_env (Fin 2), Fin 50, ''TP1''), Fin 2)]"
    using held_facts(3) nw(2) paying_pays by simp_all
  note settled = sells_settle_the_account[OF run held_facts(1,2) * nw(3) paying_pays]
  have one: "map_of (positions held_state) (7, w) = (if w = ''w1'' then Some held_position else None)" for w
    by (simp add: held_state_def)
  have "map_of (positions m2) = Map.empty" using settled by (auto simp: held_state_def)
  moreover have "((Fin 0 + Fin 2 + Fin 1) / Fin 1 - 1) * f64_of 100 = Fin 200"
    by (simp add: one_f64_def)
  moreover have "closed_mints held_state = {}"
    by (simp add: held_state_def demo_state_def demo_manager_def manager_new_def)
  ultimately show ?thesis using run settled held_facts(3,4) one by (auto simp: zero_f64_def)
qed

lemma closed_mint_stays_closed_witness:
  "initiate_buy demo_env demo_pool (Fin 1) A TraderStats None [] None
     (fst (set_paused True (demo_state 1 {} {}\<lparr>closed_mints := {7}\<rparr>)))
   = (fst (set_paused True (demo_state 1 {} {}\<lparr>closed_mints := {7}\<rparr>)), [])"
proof -
  let ?m = "demo_state 1 {} {}\<lparr>closed_mints := {7}\<rparr>"
  have "handle demo_env (SetPaused True) ?m = Inr (fst (set_paused True ?m), [Feed (PausedState True)], NoReply)"
    by (simp add: set_paused_def silent_def)
  then have "sys_step (?m, {#}) (fst (set_paused True ?m), {#} + started [Feed (PausedState True)])"
    by (rule sys_step.arrives[rotated]) simp
  then show ?thesis using closed_mint_stays_closed[OF r_into_rtranclp, of ?m] demo_pool_mint by simp
qed

end
