(* ===== verification/Scoring_Config.thy ===== *)
theory Scoring_Config
  imports F64
begin

text \<open>
  The configuration of the scoring pipeline (\<^verbatim>\<open>src/scoring/config.rs\<close>): one record per struct, one
  constant per \<^verbatim>\<open>Default\<close> implementation, with the values of the default functions it calls.
  Signed 32-bit weights and scores are integers; the score engine wraps its sums to 32 bits.
\<close>

section \<open>Signed 32-bit arithmetic\<close>

definition wrap_i32 :: "int \<Rightarrow> int" where
  "wrap_i32 k = (k + 2 ^ 31) mod 2 ^ 32 - 2 ^ 31"

definition is_i32 :: "int \<Rightarrow> bool" where
  "is_i32 k \<longleftrightarrow> - (2 ^ 31) \<le> k \<and> k < 2 ^ 31"

text \<open>\<^verbatim>\<open>i32::saturating_mul\<close>.\<close>

definition saturating_mul_i32 :: "int \<Rightarrow> int \<Rightarrow> int" where
  "saturating_mul_i32 a b = min (max (a * b) (- (2 ^ 31))) (2 ^ 31 - 1)"

lemma wrap_i32_id: "is_i32 k \<Longrightarrow> wrap_i32 k = k"
  by (simp add: wrap_i32_def is_i32_def)

lemma wrap_i32_range [simp]: "is_i32 (wrap_i32 k)"
proof -
  have "0 \<le> (k + 2 ^ 31) mod 2 ^ 32" "(k + 2 ^ 31) mod 2 ^ 32 < 2 ^ 32" by simp_all
  then show ?thesis by (simp add: wrap_i32_def is_i32_def)
qed

lemma wrap_i32_add: "wrap_i32 (wrap_i32 a + b) = wrap_i32 (a + b)"
proof -
  have "((a + m) mod n - m + b + m) mod n = (a + b + m) mod n" for m n :: int
  proof -
    have "((a + m) mod n - m + b + m) mod n = ((a + m) mod n + b) mod n" by simp
    also have "\<dots> = (a + m + b) mod n" by (rule mod_add_left_eq)
    finally show ?thesis by (simp add: add_ac)
  qed
  then show ?thesis unfolding wrap_i32_def by metis
qed

section \<open>Gates of tier B\<close>

record fresh_watchlist_config =
  fw_enabled :: bool
  fw_poll_interval_ms :: u64
  fw_max_wait_ms :: u64
  fw_max_concurrent :: nat

definition fresh_watchlist_default :: fresh_watchlist_config where
  "fresh_watchlist_default =
     \<lparr>fw_enabled = False, fw_poll_interval_ms = 5000, fw_max_wait_ms = 30000, fw_max_concurrent = 50\<rparr>"

record hot_fresh_config =
  hf_enabled :: bool
  hf_min_buyers :: u64
  hf_min_buy_volume_sol :: f64
  hf_min_velocity_pct :: f64

definition hot_fresh_default :: hot_fresh_config where
  "hot_fresh_default =
     \<lparr>hf_enabled = False, hf_min_buyers = 25, hf_min_buy_volume_sol = f64_of 25, hf_min_velocity_pct = f64_of 100\<rparr>"

record tier_b_config =
  tier_b_enabled :: bool
  min_smart_wallets :: u32
  tier_b_min_buyers :: u64
  tier_b_min_buy_volume_sol :: f64
  tier_b_min_velocity_pct :: f64
  fresh_watchlist_cfg :: fresh_watchlist_config
  hot_fresh_override :: hot_fresh_config

definition tier_b_default :: tier_b_config where
  "tier_b_default =
     \<lparr>tier_b_enabled = True, min_smart_wallets = 0, tier_b_min_buyers = 10,
      tier_b_min_buy_volume_sol = f64_of 10, tier_b_min_velocity_pct = f64_of 5,
      fresh_watchlist_cfg = fresh_watchlist_default, hot_fresh_override = hot_fresh_default\<rparr>"

section \<open>Gates of tier A\<close>

record synthetic_pump_config =
  sp_enabled :: bool
  buy_to_sell_ratio_gt :: f64
  sell_volume_window_sol_lt :: f64

definition synthetic_pump_default :: synthetic_pump_config where
  "synthetic_pump_default =
     \<lparr>sp_enabled = True, buy_to_sell_ratio_gt = f64_of 10, sell_volume_window_sol_lt = f64_of 2\<rparr>"

record weak_a_config =
  weak_a_enabled :: bool
  weak_a_max_score :: int
  max_smart_wallets :: u32
  weak_a_min_buy_volume_sol :: f64
  block_repeat_dump_slices_ge :: u32
  block_dev_neutral :: bool
  block_dev_history_weak :: bool
  continuation_second_look_max_score :: int
  synthetic_pump :: synthetic_pump_config

definition weak_a_default :: weak_a_config where
  "weak_a_default =
     \<lparr>weak_a_enabled = True, weak_a_max_score = 7, max_smart_wallets = 0, weak_a_min_buy_volume_sol = f64_of 8,
      block_repeat_dump_slices_ge = 1, block_dev_neutral = True, block_dev_history_weak = True,
      continuation_second_look_max_score = 7, synthetic_pump = synthetic_pump_default\<rparr>"

record strong_a_config =
  strong_a_enabled :: bool
  strong_a_min_score :: int
  strong_a_min_buyers :: u64
  strong_a_min_buy_volume_sol :: f64
  min_buy_to_sell_ratio :: f64
  require_absorb_strong :: bool
  min_absorb_quality :: f64
  require_buyer_velocity_persistent :: bool
  min_buyer_velocity_persistence :: f64

definition strong_a_default :: strong_a_config where
  "strong_a_default =
     \<lparr>strong_a_enabled = True, strong_a_min_score = 8, strong_a_min_buyers = 8,
      strong_a_min_buy_volume_sol = f64_of 8, min_buy_to_sell_ratio = f64_of 1.7,
      require_absorb_strong = True, min_absorb_quality = f64_of 0.58,
      require_buyer_velocity_persistent = True, min_buyer_velocity_persistence = f64_of 0.62\<rparr>"

datatype min_buy_tier = MinA | MinAPlus

section \<open>Continuation\<close>

record second_look_config =
  sl_enabled :: bool
  sl_wait_ms :: u64
  recheck_window_ms :: u64
  recheck_slices :: nat
  sl_min_score :: int

definition second_look_default :: second_look_config where
  "second_look_default =
     \<lparr>sl_enabled = True, sl_wait_ms = 1250, recheck_window_ms = 1200, recheck_slices = 3, sl_min_score = 10\<rparr>"

record peak_guard_config =
  pg_enabled :: bool
  pg_near_peak_ratio :: f64
  min_mcap_sol :: f64
  pg_strong_upticks :: u32
  pg_strong_new_buyers :: u64
  recheck_min_vs_peak_ratio :: f64

definition peak_guard_default :: peak_guard_config where
  "peak_guard_default =
     \<lparr>pg_enabled = True, pg_near_peak_ratio = f64_of 0.97, min_mcap_sol = f64_of 90, pg_strong_upticks = 2,
      pg_strong_new_buyers = 2, recheck_min_vs_peak_ratio = f64_of 0.78\<rparr>"

record continuation_config =
  cont_enabled :: bool
  second_look :: second_look_config
  aplus_peak_guard :: peak_guard_config
  cont_confirm_window_ms :: u64
  cont_confirm_slices :: nat
  min_upticks :: u32
  min_new_unique_buyers :: u64
  max_b2s_drop_ratio :: f64
  max_sell_absorption_ratio :: f64
  min_buys_per_sec :: f64

definition continuation_default :: continuation_config where
  "continuation_default =
     \<lparr>cont_enabled = False, second_look = second_look_default, aplus_peak_guard = peak_guard_default,
      cont_confirm_window_ms = 1500, cont_confirm_slices = 2, min_upticks = 1, min_new_unique_buyers = 1,
      max_b2s_drop_ratio = f64_of 0.6, max_sell_absorption_ratio = f64_of 1.5, min_buys_per_sec = 0\<rparr>"

record anti_parabolic_config =
  parab_enabled :: bool
  near_peak_ratio :: f64
  weak_score_max :: int
  parab_confirm_window_ms :: u64
  parab_confirm_slices :: nat
  strong_upticks :: u32
  strong_new_buyers :: u64

definition anti_parabolic_default :: anti_parabolic_config where
  "anti_parabolic_default =
     \<lparr>parab_enabled = False, near_peak_ratio = f64_of 0.97, weak_score_max = 9, parab_confirm_window_ms = 1500,
      parab_confirm_slices = 2, strong_upticks = 2, strong_new_buyers = 3\<rparr>"

section \<open>Anti-rug\<close>

record anti_rug_config =
  ar_enabled :: bool
  entry_gate_enabled :: bool
  min_sell_volume_window_sol :: f64
  min_fee_flow_ratio :: f64
  min_sell_pressure_score :: f64
  min_buy_volume_for_gates_sol :: f64
  absorb_strong_min_sell_vol_sol :: f64
  buy_to_sell_max_without_min_sell_vol :: f64
  buy_to_sell_min_sell_vol_sol :: f64
  buyer_velocity_min_slices :: nat
  low_mcap_peak_sol :: f64
  low_mcap_min_buy_volume_sol :: f64

definition anti_rug_default :: anti_rug_config where
  "anti_rug_default =
     \<lparr>ar_enabled = True, entry_gate_enabled = True, min_sell_volume_window_sol = f64_of 2,
      min_fee_flow_ratio = f64_of 0.08, min_sell_pressure_score = f64_of 0.05,
      min_buy_volume_for_gates_sol = f64_of 8, absorb_strong_min_sell_vol_sol = f64_of 1.5,
      buy_to_sell_max_without_min_sell_vol = f64_of 12, buy_to_sell_min_sell_vol_sol = f64_of 3,
      buyer_velocity_min_slices = 2, low_mcap_peak_sol = f64_of 90, low_mcap_min_buy_volume_sol = f64_of 25\<rparr>"

section \<open>Weights and thresholds\<close>

record scoring_weights =
  w_dev_history_strong :: int
  w_dev_history_weak :: int
  w_dev_ranker_a_plus :: int
  w_dev_ranker_a :: int
  w_dev_ranker_bad :: int
  w_smart_wallets_3plus :: int
  w_smart_wallets_1plus :: int
  w_buyers_10plus :: int
  w_buyers_6plus :: int
  w_buyers_below_3 :: int
  w_buy_to_sell_ratio_high :: int
  w_momentum_good :: int
  w_momentum_overheated :: int
  w_volume_ok :: int
  w_bundle_similar :: int
  w_bundle_identical :: int
  w_buyer_velocity_persistent :: int
  w_buyer_velocity_fading :: int
  w_sell_pressure_high :: int
  w_absorb_strong :: int
  w_smart_early_exit_dump :: int
  w_repeat_dump_penalty :: int

definition weights_default :: scoring_weights where
  "weights_default =
     \<lparr>w_dev_history_strong = 2, w_dev_history_weak = 2, w_dev_ranker_a_plus = 3, w_dev_ranker_a = 1,
      w_dev_ranker_bad = - 3, w_smart_wallets_3plus = 4, w_smart_wallets_1plus = 1, w_buyers_10plus = 2,
      w_buyers_6plus = 1, w_buyers_below_3 = - 2, w_buy_to_sell_ratio_high = 1, w_momentum_good = 2,
      w_momentum_overheated = - 3, w_volume_ok = 1, w_bundle_similar = - 4, w_bundle_identical = - 5,
      w_buyer_velocity_persistent = 1, w_buyer_velocity_fading = - 2, w_sell_pressure_high = - 2,
      w_absorb_strong = 2, w_smart_early_exit_dump = - 2, w_repeat_dump_penalty = - 1\<rparr>"

record feature_thresholds =
  th_dev_strong_min_coins :: u64
  th_dev_strong_min_pnl_pct :: f64
  th_buyers_high :: u64
  th_buyers_mid :: u64
  th_buyers_low :: u64
  th_buy_to_sell_high :: f64
  th_momentum_good_low_pct :: f64
  th_momentum_good_high_pct :: f64
  th_momentum_overheated_pct :: f64
  th_volume_ok_sol :: f64
  th_bundle_similar_ratio :: f64
  th_bundle_identical_ratio :: f64
  th_bundle_similar_tolerance :: f64
  th_smart_wallet_3plus_min :: u32
  th_smart_wallet_1plus_min :: u32

definition thresholds_default :: feature_thresholds where
  "thresholds_default =
     \<lparr>th_dev_strong_min_coins = 5, th_dev_strong_min_pnl_pct = f64_of 20, th_buyers_high = 10, th_buyers_mid = 6,
      th_buyers_low = 4, th_buy_to_sell_high = f64_of 1.7, th_momentum_good_low_pct = f64_of 12,
      th_momentum_good_high_pct = f64_of 30, th_momentum_overheated_pct = f64_of 55, th_volume_ok_sol = f64_of 12,
      th_bundle_similar_ratio = f64_of 0.7, th_bundle_identical_ratio = f64_of 0.5,
      th_bundle_similar_tolerance = f64_of 0.1, th_smart_wallet_3plus_min = 4, th_smart_wallet_1plus_min = 1\<rparr>"

record tier_size =
  a_plus_sol :: f64
  a_sol :: f64
  b_sol :: f64

definition tier_size_default :: tier_size where
  "tier_size_default = \<lparr>a_plus_sol = f64_of 0.4, a_sol = f64_of 0.3, b_sol = f64_of 0.2\<rparr>"

section \<open>The whole configuration\<close>

text \<open>\<open>aa_override_enabled\<close> is the only field of \<^verbatim>\<open>AAMomentumOverrideConfig\<close>.\<close>

record scoring_config =
  scoring_window_ms :: u64
  buyer_velocity_slices :: nat
  a_plus_threshold :: int
  a_threshold :: int
  require_momentum_good :: bool
  momentum_good_smart_bypass :: u32
  momentum_good_aplus_smart_bypass :: u32
  momentum_good_strong_a :: strong_a_config
  minimum_tier_for_buy :: min_buy_tier
  spam_dev_penalty :: int
  spam_dev_require_a_plus :: bool
  legacy_scoring :: bool
  sc_weights :: scoring_weights
  sc_thresholds :: feature_thresholds
  sc_size :: tier_size
  anti_rug :: anti_rug_config
  continuation :: continuation_config
  anti_parabolic :: anti_parabolic_config
  weak_a_gate :: weak_a_config
  tier_b :: tier_b_config
  aa_override_enabled :: bool

definition scoring_default :: scoring_config where
  "scoring_default =
     \<lparr>scoring_window_ms = 1500, buyer_velocity_slices = 3, a_plus_threshold = 9, a_threshold = 7,
      require_momentum_good = True, momentum_good_smart_bypass = 2, momentum_good_aplus_smart_bypass = 1,
      momentum_good_strong_a = strong_a_default, minimum_tier_for_buy = MinA, spam_dev_penalty = - 3,
      spam_dev_require_a_plus = True, legacy_scoring = False, sc_weights = weights_default,
      sc_thresholds = thresholds_default, sc_size = tier_size_default, anti_rug = anti_rug_default,
      continuation = continuation_default, anti_parabolic = anti_parabolic_default,
      weak_a_gate = weak_a_default, tier_b = tier_b_default, aa_override_enabled = True\<rparr>"

end
