(* ===== verification/Features.thy ===== *)
theory Features
  imports Launchpad Rankers Brokers Positions Position_Tick Scoring_Config
begin

text \<open>
  Model of the feature snapshot of a token at scoring time: \<^verbatim>\<open>scoring/anti_bundle.rs\<close>, the sampling
  and aggregation half of \<^verbatim>\<open>scoring/features.rs\<close> and \<^verbatim>\<open>scoring/live_position.rs\<close>.

  A sample reads the swarm and the pool of a token bucket. The observation loop fetches a bucket per
  slice from the launchpad actor: \<open>fetch k\<close> is the answer to its \<open>k\<close>-th request, \<open>None\<close> when the token
  is unknown. The answers of the smart-money actor are arguments (theory \<open>Rankers\<close> models them), and so
  is the hyperbolic tangent of the mathematical library (\<open>th\<close>). A market cap may panic, so whatever
  reads one has an outcome.
\<close>

section \<open>Anti-bundle statistics\<close>

record bundle_stats =
  similar_size_ratio :: f64
  identical_size_ratio :: f64
  median_size_sol :: f64
  max_size_sol :: f64

definition bundle_empty :: bundle_stats where
  "bundle_empty =
     \<lparr>similar_size_ratio = 0, identical_size_ratio = 0, median_size_sol = 0, max_size_sol = 0\<rparr>"

text \<open>The hash map from milli-SOL keys to counts, in order of first insertion.\<close>

definition size_key :: "f64 \<Rightarrow> i64" where
  "size_key s = f64_to_i64 (f64_round (s * f64_of 1000))"

definition size_buckets :: "f64 list \<Rightarrow> (i64 \<times> nat) list" where
  "size_buckets sizes = foldl (\<lambda>m s. upsert (size_key s) 0 (\<lambda>n. n + 1) m) [] sizes"

definition similar_count :: "f64 \<Rightarrow> f64 \<Rightarrow> f64 list \<Rightarrow> nat" where
  "similar_count tol median sizes =
     (if 0 < median then
        let lo = median * (1 - tol); hi = median * (1 + tol)
        in length (filter (\<lambda>s. lo \<le> s \<and> s \<le> hi) sizes)
      else 0)"

definition compute_bundle_stats :: "f64 list \<Rightarrow> f64 \<Rightarrow> bundle_stats" where
  "compute_bundle_stats buy_sizes tol =
     (let positive = filter (\<lambda>s. 0 < s) buy_sizes
      in if length positive < 3 then bundle_empty
         else let sizes = f64_sort positive;
                  median = sizes ! (length sizes div 2);
                  identical = foldr max (map snd (size_buckets sizes)) 0;
                  total = nat_to_f64 (length sizes)
              in \<lparr>similar_size_ratio = nat_to_f64 (similar_count tol median sizes) / total,
                  identical_size_ratio = nat_to_f64 identical / total,
                  median_size_sol = median, max_size_sol = last sizes\<rparr>)"

section \<open>One sample of the tape\<close>

definition lamports_to_sol :: "u64 \<Rightarrow> f64" where
  "lamports_to_sol raw = amount_to_float (amount_from_raw_native raw)"

definition scan_trader :: "early_tape_point \<Rightarrow> trader \<Rightarrow> early_tape_point" where
  "scan_trader p t =
     (let spent = amount_to_float (total_spent t);
          p1 = p\<lparr>tp_buy_volume_sol := tp_buy_volume_sol p + spent\<rparr>;
          p2 = (if 0 < amt_value (current_holdings t) then p1\<lparr>tp_still_long := tp_still_long p1 + 1\<rparr>
                else if 0 < spent then p1\<lparr>tp_already_sold := tp_already_sold p1 + 1\<rparr>
                else p1)
      in p2\<lparr>tp_cum_sell_raw := saturating_add (tp_cum_sell_raw p2) (sell_proceeds_raw t),
            tp_cum_sell_events := tp_cum_sell_events p2 + ucast (sell_event_count t)\<rparr>)"

definition tape_point_zero :: early_tape_point where
  "tape_point_zero =
     \<lparr>tp_buyer_count = 0, tp_still_long = 0, tp_already_sold = 0, tp_buy_volume_sol = 0,
      tp_cum_sell_raw = 0, tp_cum_sell_events = 0, tp_mcap_sol = 0\<rparr>"

definition snapshot_early_tape :: "token_bucket \<Rightarrow> early_tape_point outcome" where
  "snapshot_early_tape b =
     (let regulars = traders_by_type (tb_swarm b) Regular;
          snipers = traders_by_type (tb_swarm b) Sniper;
          p = foldl scan_trader tape_point_zero (map snd regulars @ map snd snipers)
      in bind_outcome (pool_mcap_sol (tb_pool b)) (\<lambda>mcap.
           Inr (p\<lparr>tp_buyer_count := of_nat (length regulars) + of_nat (length snipers),
                  tp_mcap_sol := mcap\<rparr>)))"

definition momentum_peak_pct :: "f64 \<Rightarrow> f64 \<Rightarrow> f64" where
  "momentum_peak_pct initial peak = (if 0 < initial then (peak / initial - 1) * f64_of 100 else 0)"

section \<open>Observing the tape\<close>

record tape_observation =
  ob_points :: "early_tape_point list"
  ob_initial_mcap_sol :: f64
  ob_peak_mcap_sol :: f64
  ob_current_mcap_sol :: f64
  ob_exited_early :: bool
  ob_last_bucket :: "token_bucket option"

definition finalize_tape_observe ::
  "early_tape_point list \<Rightarrow> bool \<Rightarrow> token_bucket option \<Rightarrow> tape_observation" where
  "finalize_tape_observe points exited last_bucket =
     (let initial = (if points = [] then 0 else tp_mcap_sol (hd points));
          peak = foldl f64_max initial (map tp_mcap_sol points);
          current = (if points = [] then peak else tp_mcap_sol (last points))
      in \<lparr>ob_points = points, ob_initial_mcap_sol = initial, ob_peak_mcap_sol = peak,
          ob_current_mcap_sol = current, ob_exited_early = exited, ob_last_bucket = last_bucket\<rparr>)"

definition tape_hit_momentum_low :: "f64 \<Rightarrow> f64 \<Rightarrow> f64 \<Rightarrow> bool" where
  "tape_hit_momentum_low initial peak low = (0 < initial \<and> low \<le> momentum_peak_pct initial peak)"

text \<open>
  The slices \<open>i, i + 1, \<dots>\<close> still to come, with the locals of the loop. \<open>Inl\<close>: the loop returned.
\<close>

type_synonym tape_state = "early_tape_point list \<times> f64 \<times> f64 \<times> token_bucket option"

fun observe_slices ::
  "(nat \<Rightarrow> token_bucket option) \<Rightarrow> f64 option \<Rightarrow> nat \<Rightarrow> nat \<Rightarrow> tape_state
     \<Rightarrow> (tape_observation + tape_state) outcome" where
  "observe_slices fetch low 0 i st = Inr (Inr st)"
| "observe_slices fetch low (Suc n) i (out, initial, peak, last_bucket) =
     (case fetch i of
        None \<Rightarrow> observe_slices fetch low n (Suc i) (out, initial, peak, last_bucket)
      | Some b \<Rightarrow> bind_outcome (snapshot_early_tape b) (\<lambda>p.
          let initial' = (if out = [] then tp_mcap_sol p else initial);
              peak' = (if out = [] then tp_mcap_sol p else f64_max peak (tp_mcap_sol p));
              out' = out @ [p]
          in if (case low of None \<Rightarrow> False | Some l \<Rightarrow> tape_hit_momentum_low initial' peak' l)
             then Inr (Inl (finalize_tape_observe out' True (Some b)))
             else observe_slices fetch low n (Suc i) (out', initial', peak', Some b)))"

text \<open>The length of a slice, and whether time is left after the last one.\<close>

definition slice_ms :: "u64 \<Rightarrow> u64 \<Rightarrow> u64" where
  "slice_ms window s = max (window div s) 1"

definition window_left :: "u64 \<Rightarrow> u64 \<Rightarrow> bool" where
  "window_left window s = (saturating_mul (slice_ms window s) (saturating_sub s 1) < window)"

definition mark_exit :: "f64 option \<Rightarrow> tape_observation \<Rightarrow> tape_observation" where
  "mark_exit low r =
     (case low of
        None \<Rightarrow> r
      | Some l \<Rightarrow> if tape_hit_momentum_low (ob_initial_mcap_sol r) (ob_peak_mcap_sol r) l
                  then r\<lparr>ob_exited_early := True\<rparr> else r)"

definition observe_end ::
  "(nat \<Rightarrow> token_bucket option) \<Rightarrow> f64 option \<Rightarrow> u64 \<Rightarrow> u64 \<Rightarrow> tape_state \<Rightarrow> tape_observation outcome" where
  "observe_end fetch low window s st =
     (case st of (out, initial, peak, last_bucket) \<Rightarrow>
        if window_left window s then
          case fetch (unat s) of
            Some b \<Rightarrow> bind_outcome (snapshot_early_tape b) (\<lambda>p.
              if out = [] then Inr (finalize_tape_observe [p] False (Some b))
              else Inr (mark_exit low (finalize_tape_observe (butlast out @ [p]) False (Some b))))
          | None \<Rightarrow> Inr (mark_exit low (finalize_tape_observe out False last_bucket))
        else Inr (mark_exit low (finalize_tape_observe out False last_bucket)))"

definition observe_early_tape_points_live ::
  "(nat \<Rightarrow> token_bucket option) \<Rightarrow> u64 \<Rightarrow> nat \<Rightarrow> f64 option \<Rightarrow> tape_observation outcome" where
  "observe_early_tape_points_live fetch window_ms slices low =
     (let s = of_nat (max slices 1) :: u64; window = max window_ms 1
      in if s \<le> 1 then
           (case fetch 0 of
              Some b \<Rightarrow> bind_outcome (snapshot_early_tape b) (\<lambda>p.
                Inr (finalize_tape_observe [p] False (Some b)))
            | None \<Rightarrow> Inr (finalize_tape_observe [] False None))
         else bind_outcome (observe_slices fetch low (unat s) 0 ([], 0, 0, None)) (\<lambda>r.
           case r of
             Inl res \<Rightarrow> Inr res
           | Inr st \<Rightarrow> observe_end fetch low window s st))"

text \<open>
  The observer of one bucket: its pool is fixed, while its swarm is an actor that answers with what it
  holds at the time; \<open>swarm k\<close> is what it holds at the \<open>k\<close>-th sample.
\<close>

fun sample_points :: "(nat \<Rightarrow> early_tape_point outcome) \<Rightarrow> nat \<Rightarrow> nat \<Rightarrow> early_tape_point list outcome" where
  "sample_points sample 0 i = Inr []"
| "sample_points sample (Suc n) i =
     bind_outcome (sample i) (\<lambda>p. bind_outcome (sample_points sample n (Suc i)) (\<lambda>ps. Inr (p # ps)))"

definition observe_early_tape_points ::
  "token_bucket \<Rightarrow> (nat \<Rightarrow> swarm) \<Rightarrow> u64 \<Rightarrow> nat \<Rightarrow> early_tape_point list outcome" where
  "observe_early_tape_points b swarm window_ms slices =
     (let s = of_nat (max slices 1) :: u64; window = max window_ms 1;
          sample = (\<lambda>k. snapshot_early_tape (b\<lparr>tb_swarm := swarm k\<rparr>))
      in if s \<le> 1 then bind_outcome (sample 0) (\<lambda>p. Inr [p])
         else bind_outcome (sample_points sample (unat s) 0) (\<lambda>out.
           if window_left window s then bind_outcome (sample (unat s)) (\<lambda>p. Inr (butlast out @ [p]))
           else Inr out))"

section \<open>What the tape tells\<close>

record tape_derived =
  td_buyer_velocity_new_per_slice :: "u64 list"
  td_buyer_velocity_persistence :: f64
  td_sell_pressure_score :: f64
  td_absorb_quality_score :: f64
  td_sell_events_window :: u64
  td_sell_volume_window_sol :: f64
  td_repeat_dump_slices :: u32
  td_smart_wallet_early_exits :: u32

definition tape_derived_default :: tape_derived where
  "tape_derived_default =
     \<lparr>td_buyer_velocity_new_per_slice = [], td_buyer_velocity_persistence = 0,
      td_sell_pressure_score = 0, td_absorb_quality_score = 0, td_sell_events_window = 0,
      td_sell_volume_window_sol = 0, td_repeat_dump_slices = 0, td_smart_wallet_early_exits = 0\<rparr>"

text \<open>\<^verbatim>\<open>windows(2)\<close>: the adjacent pairs.\<close>

definition windows2 :: "'a list \<Rightarrow> ('a \<times> 'a) list" where
  "windows2 xs = zip xs (tl xs)"

definition buyer_persistence_from_deltas :: "u64 list \<Rightarrow> f64" where
  "buyer_persistence_from_deltas d =
     (if d = [] then f64_of 0.5
      else if length d = 1 then (if 0 < hd d then f64_of 0.62 else f64_of 0.42)
      else if \<forall>(a, b) \<in> set (windows2 d). a < b then 1
      else if \<forall>(a, b) \<in> set (windows2 d). a \<le> b + 1 then f64_of 0.72
      else if \<forall>(a, b) \<in> set (windows2 d). b < a then f64_of 0.05
      else f64_of 0.38)"

definition sell_delta_sol :: "early_tape_point \<times> early_tape_point \<Rightarrow> f64" where
  "sell_delta_sol w = lamports_to_sol (saturating_sub (tp_cum_sell_raw (snd w)) (tp_cum_sell_raw (fst w)))"

definition sell_pressure_of :: "f64 \<Rightarrow> f64 \<Rightarrow> f64" where
  "sell_pressure_of sell_vol mcap_last =
     (let mcap_ref = f64_max mcap_last 1
      in clamp_f64 0 1 (f64_min (sell_vol / mcap_ref) (f64_of 3) / f64_of 3))"

definition absorb_step :: "f64 \<times> f64 \<Rightarrow> early_tape_point \<times> early_tape_point \<Rightarrow> f64 \<times> f64" where
  "absorb_step aw w =
     (let d_sol = sell_delta_sol w
      in if d_sol < f64_of (1 / 10 ^ 9) then aw
         else let dm = tp_mcap_sol (snd w) - tp_mcap_sol (fst w);
                  ratio = dm / d_sol;
                  wt = f64_min d_sol (f64_of 2)
              in (fst aw + ratio * wt, snd aw + wt))"

definition absorb_quality_of :: "(f64 \<Rightarrow> f64) \<Rightarrow> early_tape_point list \<Rightarrow> f64" where
  "absorb_quality_of th points =
     (let (acc, wsum) = foldl absorb_step (0, 0) (windows2 points);
          raw = (if 0 < wsum then acc / wsum else 0)
      in clamp_f64 0 1 ((th raw + 1) * f64_of 0.5))"

definition dump_slice :: "early_tape_point \<times> early_tape_point \<Rightarrow> bool" where
  "dump_slice w =
     (let ds = saturating_sub (tp_cum_sell_events (snd w)) (tp_cum_sell_events (fst w));
          m_mid = (tp_mcap_sol (snd w) + tp_mcap_sol (fst w)) * f64_of 0.5
      in 2 \<le> ds \<and> m_mid * f64_of 0.008 < sell_delta_sol w)"

definition from_tape_points :: "(f64 \<Rightarrow> f64) \<Rightarrow> early_tape_point list \<Rightarrow> u32 \<Rightarrow> tape_derived" where
  "from_tape_points th points smart_exits =
     (if points = [] then tape_derived_default
      else
        let ends = (hd points, last points);
            new_per_slice =
              map (\<lambda>(a, b). saturating_sub (tp_buyer_count b) (tp_buyer_count a)) (windows2 points);
            sell_vol = sell_delta_sol ends
        in \<lparr>td_buyer_velocity_new_per_slice = new_per_slice,
            td_buyer_velocity_persistence = buyer_persistence_from_deltas new_per_slice,
            td_sell_pressure_score = sell_pressure_of sell_vol (tp_mcap_sol (last points)),
            td_absorb_quality_score = absorb_quality_of th points,
            td_sell_events_window =
              saturating_sub (tp_cum_sell_events (last points)) (tp_cum_sell_events (hd points)),
            td_sell_volume_window_sol = sell_vol,
            td_repeat_dump_slices = of_nat (length (filter dump_slice (windows2 points))),
            td_smart_wallet_early_exits = smart_exits\<rparr>)"

section \<open>Early buyers\<close>

record early_buyers_snapshot =
  eb_regulars :: "address list"
  eb_snipers :: "address list"

definition eb_all :: "early_buyers_snapshot \<Rightarrow> address list" where
  "eb_all b = eb_regulars b @ eb_snipers b"

record buyer_scan =
  bs_buy_sizes_sol :: "f64 list"
  bs_still_long :: u64
  bs_already_sold :: u64
  bs_total_volume_sol :: f64

definition push_buyer :: "buyer_scan \<Rightarrow> trader \<Rightarrow> buyer_scan" where
  "push_buyer s t =
     (let spent = amount_to_float (total_spent t);
          s1 = s\<lparr>bs_total_volume_sol := bs_total_volume_sol s + spent\<rparr>;
          s2 = (if 0 < spent then s1\<lparr>bs_buy_sizes_sol := bs_buy_sizes_sol s1 @ [spent]\<rparr> else s1)
      in if 0 < amt_value (current_holdings t) then s2\<lparr>bs_still_long := bs_still_long s2 + 1\<rparr>
         else if 0 < spent then s2\<lparr>bs_already_sold := bs_already_sold s2 + 1\<rparr>
         else s2)"

definition scan_buyers :: "token_bucket \<Rightarrow> buyer_scan" where
  "scan_buyers b =
     foldl push_buyer
       \<lparr>bs_buy_sizes_sol = [], bs_still_long = 0, bs_already_sold = 0, bs_total_volume_sol = 0\<rparr>
       (map snd (traders_by_type (tb_swarm b) Regular) @ map snd (traders_by_type (tb_swarm b) Sniper))"

definition snapshot_early_buyers ::
  "token_bucket \<Rightarrow> f64 \<Rightarrow> early_buyers_snapshot \<times> buyer_scan \<times> bundle_stats" where
  "snapshot_early_buyers b bundle_tolerance =
     (let s = scan_buyers b
      in (\<lparr>eb_regulars = map fst (traders_by_type (tb_swarm b) Regular),
           eb_snipers = map fst (traders_by_type (tb_swarm b) Sniper)\<rparr>,
          s, compute_bundle_stats (bs_buy_sizes_sol s) bundle_tolerance))"

section \<open>The feature vector\<close>

record token_features =
  tf_mint :: address
  tf_dev :: address
  tf_dev_has_history :: bool
  tf_dev_total_coins :: u64
  tf_dev_pnl_avg :: f64
  tf_dev_holders_avg :: u64
  tf_dev_volume_avg :: f64
  tf_dev_trades_avg :: u64
  tf_dev_buy_to_sell_ratio :: f64
  tf_dev_category :: dev_category
  tf_dev_rank_score :: f64
  tf_dev_rank_record :: dev_record
  tf_is_spam_dev :: bool
  tf_current_mcap_sol :: f64
  tf_initial_mcap_sol :: f64
  tf_peak_mcap_sol :: f64
  tf_buyers :: early_buyers_snapshot
  tf_regular_buyer_count :: u64
  tf_sniper_count :: u64
  tf_buy_volume_sol :: f64
  tf_still_long_count :: u64
  tf_already_sold_count :: u64
  tf_buy_to_sell_ratio :: f64
  tf_bundle :: bundle_stats
  tf_smart_wallet_count :: u32
  tf_buyer_velocity_new_per_slice :: "u64 list"
  tf_buyer_velocity_persistence :: f64
  tf_sell_pressure_score :: f64
  tf_absorb_quality_score :: f64
  tf_sell_events_window :: u64
  tf_sell_volume_window_sol :: f64
  tf_repeat_dump_slices :: u32
  tf_smart_wallet_early_exits :: u32

definition tf_buyer_count :: "token_features \<Rightarrow> u64" where
  "tf_buyer_count f = tf_regular_buyer_count f + tf_sniper_count f"

definition buy_to_sell_of :: "u64 \<Rightarrow> u64 \<Rightarrow> f64" where
  "buy_to_sell_of still_long already_sold =
     (if already_sold = 0 then (if 0 < still_long then word_to_f64 still_long else 0)
      else word_to_f64 still_long / word_to_f64 already_sold)"

definition assemble ::
  "address \<Rightarrow> address \<Rightarrow> creator_statistics option \<Rightarrow> dev_category \<Rightarrow> dev_record \<Rightarrow> f64 \<Rightarrow> f64 \<Rightarrow> f64
   \<Rightarrow> early_buyers_snapshot \<Rightarrow> u64 \<Rightarrow> u64 \<Rightarrow> f64 \<Rightarrow> u64 \<Rightarrow> u64 \<Rightarrow> bundle_stats \<Rightarrow> u32 \<Rightarrow> tape_derived
   \<Rightarrow> token_features" where
  "assemble mint dev dev_stats cat rec initial current peak buyers regular_count sniper_count volume
      still_long already_sold bundle smart tape =
     (let stat = (\<lambda>f. case dev_stats of Some s \<Rightarrow> f s | None \<Rightarrow> 0);
          statn = (\<lambda>f. case dev_stats of Some s \<Rightarrow> f s | None \<Rightarrow> 0)
      in \<lparr>tf_mint = mint, tf_dev = dev, tf_dev_has_history = (dev_stats \<noteq> None),
          tf_dev_total_coins = statn total_coins, tf_dev_pnl_avg = stat trader_pnl_average,
          tf_dev_holders_avg = statn total_holders_average, tf_dev_volume_avg = stat average_volume,
          tf_dev_trades_avg = statn median_total_trades,
          tf_dev_buy_to_sell_ratio = stat average_unique_buy_to_sell_ratio,
          tf_dev_category = cat, tf_dev_rank_score = dr_score rec, tf_dev_rank_record = rec,
          tf_is_spam_dev = False, tf_current_mcap_sol = current, tf_initial_mcap_sol = initial,
          tf_peak_mcap_sol = peak, tf_buyers = buyers, tf_regular_buyer_count = regular_count,
          tf_sniper_count = sniper_count, tf_buy_volume_sol = volume, tf_still_long_count = still_long,
          tf_already_sold_count = already_sold,
          tf_buy_to_sell_ratio = buy_to_sell_of still_long already_sold,
          tf_bundle = bundle, tf_smart_wallet_count = smart,
          tf_buyer_velocity_new_per_slice = td_buyer_velocity_new_per_slice tape,
          tf_buyer_velocity_persistence = td_buyer_velocity_persistence tape,
          tf_sell_pressure_score = td_sell_pressure_score tape,
          tf_absorb_quality_score = td_absorb_quality_score tape,
          tf_sell_events_window = td_sell_events_window tape,
          tf_sell_volume_window_sol = td_sell_volume_window_sol tape,
          tf_repeat_dump_slices = td_repeat_dump_slices tape,
          tf_smart_wallet_early_exits = td_smart_wallet_early_exits tape\<rparr>)"

section \<open>An open position\<close>

text \<open>\<open>sm\<close> is the answer of the smart-money actor to \<^verbatim>\<open>filter_smart_wallets\<close>, when it is configured.\<close>

definition participants :: "token_bucket \<Rightarrow> (address \<times> trader) list" where
  "participants b = traders_by_type (tb_swarm b) Regular @ traders_by_type (tb_swarm b) Sniper"

definition holding_addrs :: "token_bucket \<Rightarrow> address list" where
  "holding_addrs b = map fst (filter (\<lambda>(a, t). 0 < amt_value (current_holdings t)) (participants b))"

definition count_smart_wallets_still_long ::
  "token_bucket \<Rightarrow> (address list \<Rightarrow> address list) option \<Rightarrow> u32" where
  "count_smart_wallets_still_long b sm =
     (case sm of
        None \<Rightarrow> 0
      | Some f \<Rightarrow> let addrs = holding_addrs b
                  in if addrs = [] then 0 else of_nat (length (f addrs)))"

definition count_smart_early_exits ::
  "token_bucket \<Rightarrow> (address list \<Rightarrow> address list) option \<Rightarrow> address list \<Rightarrow> u32" where
  "count_smart_early_exits b sm early =
     (case sm of
        None \<Rightarrow> 0
      | Some f \<Rightarrow>
          if early = [] then 0
          else let smart = f early
               in if smart = [] then 0
                  else let holding = set (holding_addrs b)
                       in of_nat (length (filter (\<lambda>a. a \<notin> holding) smart)))"

definition snapshot_live_position ::
  "(f64 \<Rightarrow> f64) \<Rightarrow> token_bucket \<Rightarrow> early_tape_point option \<Rightarrow> u64
   \<Rightarrow> (address list \<Rightarrow> address list) option \<Rightarrow> address list \<Rightarrow> f64 \<Rightarrow> live_position_snapshot outcome" where
  "snapshot_live_position th b prev held_secs sm early bundle_tolerance =
     bind_outcome (snapshot_early_tape b) (\<lambda>curr.
       let smart_count = count_smart_wallets_still_long b sm;
           smart_exits = count_smart_early_exits b sm early;
           dt = word_to_f64 (max held_secs 1);
           (bps, growth, dv, dl) =
             (case prev of
                Some p \<Rightarrow>
                  (word_to_f64 (saturating_sub (tp_buyer_count curr) (tp_buyer_count p)) / dt,
                   word_to_f64 (saturating_sub (tp_still_long curr) (tp_still_long p)) / dt,
                   (tp_buy_volume_sol curr - tp_buy_volume_sol p) / dt,
                   (tp_mcap_sol curr - tp_mcap_sol p) / dt)
              | None \<Rightarrow> (word_to_f64 (tp_buyer_count curr) / dt, 0, 0, 0));
           derived = (case prev of
                Some p \<Rightarrow> from_tape_points th [p, curr] smart_exits
              | None \<Rightarrow> from_tape_points th [curr] smart_exits);
           sizes = filter (\<lambda>s. 0 < s) (map (amount_to_float \<circ> total_spent \<circ> snd) (participants b));
           bundle = compute_bundle_stats sizes bundle_tolerance;
           b2s = (if tp_already_sold curr = 0 then word_to_f64 (tp_still_long curr)
                  else word_to_f64 (tp_still_long curr) / word_to_f64 (tp_already_sold curr))
       in Inr \<lparr>lp_tape = curr, lp_buyers_per_sec = bps, lp_holder_growth_rate = growth,
               lp_volume_delta = dv, lp_liquidity_delta = dl, lp_smart_wallet_count = smart_count,
               lp_smart_wallet_exits = smart_exits, lp_buy_sell_ratio = b2s,
               lp_sell_pressure_score = td_sell_pressure_score derived,
               lp_bundle_similar = similar_size_ratio bundle,
               lp_bundle_identical = identical_size_ratio bundle, lp_mcap_sol = tp_mcap_sol curr\<rparr>)"

end
