(* ===== verification/Gates.thy ===== *)
theory Gates
  imports Features
begin

text \<open>
  Model of the entry gates: the decision half of \<^verbatim>\<open>scoring/features.rs\<close> (continuation, peak guard, weak
  tier A, tier B, momentum overrides), \<^verbatim>\<open>scoring/anti_rug.rs\<close> and \<^verbatim>\<open>scoring/fresh_b.rs\<close>.

  A gate that skips a token answers the reason; \<^verbatim>\<open>Result<(), &str>\<close> is \<open>string + unit\<close>. The items of a
  score are pairs of a rule name and its points.
\<close>

type_synonym score_items = "(string \<times> int) list"

definition score_items_has :: "string \<Rightarrow> score_items \<Rightarrow> bool" where
  "score_items_has name items = (name \<in> fst ` set items)"

section \<open>Anti-rug\<close>

definition entry_skip_reason :: "token_features \<Rightarrow> anti_rug_config \<Rightarrow> string option" where
  "entry_skip_reason f cfg =
     (if \<not> entry_gate_enabled cfg \<or> tf_buy_volume_sol f < min_buy_volume_for_gates_sol cfg then None
      else
        let sell_vol = tf_sell_volume_window_sol f;
            fee_flow = sell_vol / tf_buy_volume_sol f
        in if sell_vol < min_sell_volume_window_sol cfg then Some ''low_sell_side_volume''
           else if fee_flow < min_fee_flow_ratio cfg then Some ''low_fee_flow_ratio''
           else if tf_sell_pressure_score f < min_sell_pressure_score cfg then Some ''low_sell_pressure''
           else if buy_to_sell_max_without_min_sell_vol cfg \<le> tf_buy_to_sell_ratio f
                \<and> sell_vol < buy_to_sell_min_sell_vol_sol cfg then Some ''fake_buy_to_sell_ratio''
           else None)"

definition cap_tier_for_low_mcap :: "token_features \<Rightarrow> anti_rug_config \<Rightarrow> tier \<Rightarrow> tier" where
  "cap_tier_for_low_mcap f cfg tr =
     (if \<not> ar_enabled cfg \<or> tr \<noteq> APlus then tr
      else if tf_peak_mcap_sol f < low_mcap_peak_sol cfg
           \<and> tf_buy_volume_sol f < low_mcap_min_buy_volume_sol cfg then A
      else tr)"

definition rewards_buy_to_sell_ratio :: "token_features \<Rightarrow> anti_rug_config \<Rightarrow> f64 \<Rightarrow> bool" where
  "rewards_buy_to_sell_ratio f cfg ratio_high =
     (if tf_buy_to_sell_ratio f < ratio_high then False
      else if \<not> ar_enabled cfg then True
      else buy_to_sell_min_sell_vol_sol cfg \<le> tf_sell_volume_window_sol f
           \<or> tf_buy_to_sell_ratio f < buy_to_sell_max_without_min_sell_vol cfg)"

section \<open>Tier B\<close>

definition tier_b_dev_eligible :: "token_features \<Rightarrow> tier_b_config \<Rightarrow> bool" where
  "tier_b_dev_eligible f cfg =
     (if \<not> tier_b_enabled cfg \<or> tf_is_spam_dev f then False else tf_dev_category f = DevFresh)"

definition tier_b_base_gates_ok :: "tier_b_config \<Rightarrow> token_features \<Rightarrow> bool" where
  "tier_b_base_gates_ok cfg f =
     (tier_b_enabled cfg \<and> min_smart_wallets cfg \<le> tf_smart_wallet_count f
      \<and> tier_b_min_buyers cfg \<le> tf_buyer_count f \<and> tier_b_min_buy_volume_sol cfg \<le> tf_buy_volume_sol f)"

definition has_momentum_good_item :: "score_items \<Rightarrow> bool" where
  "has_momentum_good_item items = (''momentum_good'' \<in> fst ` set items)"

definition has_momentum_overheated :: "score_items \<Rightarrow> bool" where
  "has_momentum_overheated items = (''momentum_overheated'' \<in> fst ` set items)"

definition fresh_b_velocity_pct :: "token_features \<Rightarrow> f64" where
  "fresh_b_velocity_pct f =
     (let peak = f64_max (tf_peak_mcap_sol f) (tf_current_mcap_sol f)
      in momentum_peak_pct (tf_initial_mcap_sol f) peak)"

definition tier_b_velocity_ok :: "tier_b_config \<Rightarrow> token_features \<Rightarrow> bool" where
  "tier_b_velocity_ok cfg f = (tier_b_min_velocity_pct cfg \<le> fresh_b_velocity_pct f)"

definition is_momentum_only_tier_b_fail :: "tier_b_config \<Rightarrow> token_features \<Rightarrow> score_items \<Rightarrow> bool" where
  "is_momentum_only_tier_b_fail cfg f items =
     (tier_b_dev_eligible f cfg \<and> tier_b_base_gates_ok cfg f \<and> tier_b_velocity_ok cfg f
      \<and> \<not> has_momentum_good_item items)"

definition fresh_b_hot_override_ok :: "tier_b_config \<Rightarrow> token_features \<Rightarrow> score_items \<Rightarrow> bool" where
  "fresh_b_hot_override_ok cfg f items =
     (let ho = hot_fresh_override cfg
      in if \<not> hf_enabled ho \<or> \<not> is_momentum_only_tier_b_fail cfg f items then False
         else hf_min_buyers ho \<le> tf_buyer_count f \<and> hf_min_buy_volume_sol ho \<le> tf_buy_volume_sol f
              \<and> hf_min_velocity_pct ho \<le> fresh_b_velocity_pct f)"

definition tier_b_entry_ok :: "tier_b_config \<Rightarrow> token_features \<Rightarrow> score_items \<Rightarrow> bool" where
  "tier_b_entry_ok cfg f items =
     (tier_b_base_gates_ok cfg f \<and> has_momentum_good_item items \<and> tier_b_velocity_ok cfg f)"

record tier_b_poll =
  poll_entry_ok :: bool
  poll_hot_override :: bool
  poll_momentum_only_fail :: bool
  poll_velocity_pct :: f64
  poll_buyers :: u64
  poll_buy_volume_sol :: f64
  poll_momentum_overheated :: bool

definition evaluate_tier_b_poll :: "tier_b_config \<Rightarrow> token_features \<Rightarrow> score_items \<Rightarrow> tier_b_poll" where
  "evaluate_tier_b_poll cfg f items =
     (let entry_ok = tier_b_entry_ok cfg f items
      in \<lparr>poll_entry_ok = entry_ok,
          poll_hot_override = (\<not> entry_ok \<and> fresh_b_hot_override_ok cfg f items),
          poll_momentum_only_fail = is_momentum_only_tier_b_fail cfg f items,
          poll_velocity_pct = fresh_b_velocity_pct f, poll_buyers = tf_buyer_count f,
          poll_buy_volume_sol = tf_buy_volume_sol f,
          poll_momentum_overheated = has_momentum_overheated items\<rparr>)"

definition tier_b_poll_passes :: "tier_b_poll \<Rightarrow> bool" where
  "tier_b_poll_passes p = (poll_entry_ok p \<or> poll_hot_override p)"

definition fresh_b_gate_fail_reason ::
  "tier_b_config \<Rightarrow> token_features \<Rightarrow> score_items \<Rightarrow> string option" where
  "fresh_b_gate_fail_reason cfg f items =
     (if \<not> tier_b_enabled cfg then Some ''fresh_b_disabled''
      else if \<not> tier_b_base_gates_ok cfg f then
        (if tf_smart_wallet_count f < min_smart_wallets cfg then Some ''fresh_b_no_smart''
         else if tf_buyer_count f < tier_b_min_buyers cfg then Some ''fresh_b_low_buyers''
         else if tf_buy_volume_sol f < tier_b_min_buy_volume_sol cfg then Some ''fresh_b_low_volume''
         else None)
      else if \<not> has_momentum_good_item items then Some ''fresh_b_no_momentum''
      else if \<not> tier_b_velocity_ok cfg f then Some ''fresh_b_low_velocity''
      else None)"

text \<open>How a fresh developer reached the pipeline.\<close>

datatype fresh_b_subtype_kind = TrueFresh | UnknownFresh

fun fresh_b_str :: "fresh_b_subtype_kind \<Rightarrow> string" where
  "fresh_b_str TrueFresh = ''B_TRUE_FRESH''"
| "fresh_b_str UnknownFresh = ''B_UNKNOWN''"

definition fresh_b_for_path :: "creator_statistics option \<Rightarrow> bool \<Rightarrow> fresh_b_subtype_kind option" where
  "fresh_b_for_path dev_stats from_watchlist =
     (if from_watchlist then Some TrueFresh
      else if dev_stats = None then Some UnknownFresh else None)"

section \<open>Momentum overrides of tiers A and A+\<close>

definition is_momentum_only_aa_overheated :: "score_items \<Rightarrow> bool" where
  "is_momentum_only_aa_overheated items = (has_momentum_overheated items \<and> \<not> has_momentum_good_item items)"

definition aa_momentum_override_for_tier :: "bool \<Rightarrow> tier \<Rightarrow> score_items \<Rightarrow> bool" where
  "aa_momentum_override_for_tier on tr items =
     (if \<not> on \<or> \<not> is_momentum_only_aa_overheated items then False
      else case tr of A \<Rightarrow> True | APlus \<Rightarrow> True | _ \<Rightarrow> False)"

definition strong_a_momentum_bypass_ok ::
  "strong_a_config \<Rightarrow> tier \<Rightarrow> int \<Rightarrow> token_features \<Rightarrow> score_items \<Rightarrow> bool" where
  "strong_a_momentum_bypass_ok cfg tr score f items =
     (let has = (\<lambda>name. name \<in> fst ` set items)
      in if \<not> strong_a_enabled cfg \<or> tr \<noteq> A \<or> score < strong_a_min_score cfg then False
         else if has ''buyer_velocity_fading'' \<or> has ''momentum_overheated'' \<or> has ''repeat_dump_cluster''
              \<or> has ''sell_pressure_high'' \<or> has ''bundle_identical'' \<or> has ''bundle_similar'' then False
         else if tf_buyer_count f < strong_a_min_buyers cfg then False
         else if tf_buy_volume_sol f < strong_a_min_buy_volume_sol cfg then False
         else if tf_buy_to_sell_ratio f < min_buy_to_sell_ratio cfg then False
         else (\<not> require_absorb_strong cfg \<or> has ''absorb_strong''
                 \<or> min_absorb_quality cfg \<le> tf_absorb_quality_score f)
              \<and> (\<not> require_buyer_velocity_persistent cfg \<or> has ''buyer_velocity_persistent''
                 \<or> min_buyer_velocity_persistence cfg \<le> tf_buyer_velocity_persistence f))"

section \<open>Skips of tiers A and A+\<close>

definition weak_a_profile_match ::
  "weak_a_config \<Rightarrow> tier \<Rightarrow> int \<Rightarrow> u32 \<Rightarrow> dev_category \<Rightarrow> score_items \<Rightarrow> bool" where
  "weak_a_profile_match cfg tr score smart cat items =
     (if \<not> weak_a_enabled cfg \<or> tr \<noteq> A then False
      else if weak_a_max_score cfg < score \<or> max_smart_wallets cfg < smart then False
      else (block_dev_neutral cfg \<and> (cat = DevNeutral \<or> cat = DevStale))
           \<or> (block_dev_history_weak cfg \<and> score_items_has ''dev_history_weak'' items))"

definition TIER_A_MIN_VELOCITY_PCT :: f64 where
  "TIER_A_MIN_VELOCITY_PCT = f64_of 3"

definition tier_a_low_velocity_skip_reason :: "tier \<Rightarrow> f64 \<Rightarrow> string option" where
  "tier_a_low_velocity_skip_reason tr vel =
     (if tr = A \<and> vel < TIER_A_MIN_VELOCITY_PCT then Some ''low_velocity_a_setup'' else None)"

definition aplus_rug_gate_skip_reason :: "tier \<Rightarrow> u32 \<Rightarrow> f64 \<Rightarrow> string option" where
  "aplus_rug_gate_skip_reason tr smart b2s =
     (if tr \<noteq> APlus then None
      else if smart < 1 then Some ''aplus_no_smart_required''
      else if smart = 0 \<and> f64_of 10 < b2s then Some ''aplus_no_smart_fake_b2s''
      else None)"

definition weak_a_synthetic_pump_skip_reason ::
  "synthetic_pump_config \<Rightarrow> tier \<Rightarrow> u32 \<Rightarrow> token_features \<Rightarrow> score_items \<Rightarrow> string option" where
  "weak_a_synthetic_pump_skip_reason cfg tr smart f items =
     (if \<not> sp_enabled cfg \<or> tr \<noteq> A then None
      else if smart \<noteq> 0 then None
      else if \<not> score_items_has ''dev_history_weak'' items then None
      else if tf_buy_to_sell_ratio f \<le> buy_to_sell_ratio_gt cfg then None
      else if sell_volume_window_sol_lt cfg \<le> tf_sell_volume_window_sol f then None
      else Some ''weak_a_synthetic_pump'')"

definition weak_a_hard_skip_reason ::
  "weak_a_config \<Rightarrow> tier \<Rightarrow> int \<Rightarrow> u32 \<Rightarrow> token_features \<Rightarrow> score_items \<Rightarrow> string option" where
  "weak_a_hard_skip_reason cfg tr score smart f items =
     (if \<not> weak_a_profile_match cfg tr score smart (tf_dev_category f) items then None
      else if block_repeat_dump_slices_ge cfg \<le> tf_repeat_dump_slices f then Some ''weak_a_dump_in_tape''
      else if tf_buy_volume_sol f < weak_a_min_buy_volume_sol cfg then Some ''weak_a_low_volume''
      else None)"

section \<open>Continuation\<close>

definition count_upticks :: "early_tape_point list \<Rightarrow> u32" where
  "count_upticks confirm =
     foldl (\<lambda>n (a, b). if tp_mcap_sol a < tp_mcap_sol b then n + 1 else n) 0 (windows2 confirm)"

definition continuation_strength :: "early_tape_point list \<Rightarrow> u64 \<Rightarrow> u32 \<times> u64" where
  "continuation_strength confirm baseline =
     (if length confirm < 2 then (0, 0)
      else (count_upticks confirm, saturating_sub (tp_buyer_count (last confirm)) baseline))"

text \<open>The ratio of buys to sells inside the window, against the one of the scoring window.\<close>

definition confirm_b2s :: "f64 \<Rightarrow> f64 \<Rightarrow> f64 \<Rightarrow> f64" where
  "confirm_b2s baseline_b2s buy_delta sell_delta =
     (if 0 < sell_delta then buy_delta / sell_delta
      else if 0 < buy_delta then baseline_b2s else 0)"

definition evaluate_continuation ::
  "continuation_config \<Rightarrow> f64 \<Rightarrow> u64 \<Rightarrow> early_tape_point list \<Rightarrow> u64 \<Rightarrow> bool \<Rightarrow> string + unit" where
  "evaluate_continuation cfg baseline_b2s baseline_buyers confirm window_ms is_a_plus =
     (if length confirm < 2 then Inl ''cont_no_data''
      else
        let a = hd confirm; z = last confirm;
            mcap_net_nonneg = (tp_mcap_sol a \<le> tp_mcap_sol z);
            mcap_rising = (tp_mcap_sol a < tp_mcap_sol z);
            new_buyers = saturating_sub (tp_buyer_count z) baseline_buyers;
            secs = word_to_f64 (max window_ms 1) / f64_of 1000;
            buy_delta = f64_max (tp_buy_volume_sol z - tp_buy_volume_sol a) 0;
            sell_delta = sell_delta_sol (a, z)
        in if count_upticks confirm < min_upticks cfg \<and> \<not> mcap_net_nonneg then Inl ''cont_no_uptick''
           else if new_buyers < min_new_unique_buyers cfg then Inl ''cont_no_new_buyers''
           else if 0 < min_buys_per_sec cfg \<and> word_to_f64 new_buyers / secs < min_buys_per_sec cfg
             then Inl ''cont_low_buys_per_sec''
           else if 0 < buy_delta \<and> max_sell_absorption_ratio cfg < sell_delta / buy_delta
             then Inl ''cont_sell_absorption''
           else if 0 < baseline_b2s
                \<and> confirm_b2s baseline_b2s buy_delta sell_delta < baseline_b2s * max_b2s_drop_ratio cfg
                \<and> \<not> (is_a_plus \<and> mcap_rising) then Inl ''cont_b2s_worsening''
           else Inr ())"

definition aplus_peak_no_smart_guard :: "peak_guard_config \<Rightarrow> bool \<Rightarrow> u32 \<Rightarrow> f64 \<Rightarrow> f64 \<Rightarrow> bool" where
  "aplus_peak_no_smart_guard cfg is_a_plus smart current peak =
     (if \<not> pg_enabled cfg \<or> \<not> is_a_plus \<or> 0 < smart then False
      else if peak < min_mcap_sol cfg \<or> current < min_mcap_sol cfg then False
      else 0 < peak \<and> peak * pg_near_peak_ratio cfg \<le> current)"

definition aplus_peak_recheck_mcap_acceptable :: "peak_guard_config \<Rightarrow> f64 \<Rightarrow> f64 \<Rightarrow> f64 \<Rightarrow> bool" where
  "aplus_peak_recheck_mcap_acceptable cfg score_peak score_current recheck =
     (if \<not> pg_enabled cfg \<or> recheck \<le> 0 then 0 < recheck
      else let anchor = f64_max score_peak score_current
           in if anchor \<le> 0 then True else anchor * recheck_min_vs_peak_ratio cfg \<le> recheck)"

definition continuation_confirm_strong :: "peak_guard_config \<Rightarrow> early_tape_point list \<Rightarrow> u64 \<Rightarrow> bool" where
  "continuation_confirm_strong cfg confirm baseline =
     (if length confirm < 2 then False
      else if tp_mcap_sol (last confirm) < tp_mcap_sol (hd confirm) then False
      else case continuation_strength confirm baseline of (upticks, new_buyers) \<Rightarrow>
             pg_strong_upticks cfg \<le> upticks \<and> pg_strong_new_buyers cfg \<le> new_buyers)"

definition continuation_second_look_eligible :: "second_look_config \<Rightarrow> bool \<Rightarrow> int \<Rightarrow> string \<Rightarrow> bool" where
  "continuation_second_look_eligible cfg is_a_plus score reason =
     (if \<not> sl_enabled cfg \<or> \<not> (is_a_plus \<or> sl_min_score cfg \<le> score) then False
      else if reason = ''cont_b2s_worsening'' \<or> reason = ''cont_sell_absorption'' then True
      else if reason = ''cont_no_uptick'' then is_a_plus
      else False)"

definition continuation_second_look_eligible_for_buy ::
  "second_look_config \<Rightarrow> weak_a_config \<Rightarrow> tier \<Rightarrow> bool \<Rightarrow> int \<Rightarrow> u32 \<Rightarrow> token_features \<Rightarrow> score_items
   \<Rightarrow> string \<Rightarrow> bool" where
  "continuation_second_look_eligible_for_buy sl weak tr is_a_plus score smart f items reason =
     (if continuation_second_look_eligible sl is_a_plus score reason then True
      else if \<not> sl_enabled sl \<or> \<not> weak_a_enabled weak \<or> tr \<noteq> A then False
      else if \<not> weak_a_profile_match weak tr score smart (tf_dev_category f) items then False
      else score \<le> continuation_second_look_max_score weak)"

definition evaluate_continuation_second_look ::
  "f64 \<Rightarrow> u64 \<Rightarrow> early_tape_point list \<Rightarrow> string + unit" where
  "evaluate_continuation_second_look ref_mcap baseline recheck =
     (if length recheck < 2 then Inl ''cont_second_look_no_data''
      else
        let a = hd recheck; z = last recheck;
            (upticks, new_buyers) = continuation_strength recheck baseline;
            below_ref = (tp_mcap_sol z < ref_mcap);
            falling = (tp_mcap_sol z < tp_mcap_sol a)
        in if below_ref \<and> falling \<and> upticks = 0 \<and> new_buyers = 0 then Inl ''cont_second_look_mcap_fall''
           else if ref_mcap < tp_mcap_sol z \<or> 1 \<le> upticks \<or> 1 \<le> new_buyers then Inr ()
           else Inl ''cont_second_look_no_recovery'')"

definition parabolic_peak_suspect :: "anti_parabolic_config \<Rightarrow> bool \<Rightarrow> int \<Rightarrow> u32 \<Rightarrow> f64 \<Rightarrow> f64 \<Rightarrow> bool" where
  "parabolic_peak_suspect cfg is_a_plus score smart current peak =
     (if \<not> parab_enabled cfg then False
      else if is_a_plus \<or> 0 < smart \<or> weak_score_max cfg < score then False
      else if peak \<le> 0 then False
      else peak * near_peak_ratio cfg \<le> current)"

end
