(* ===== verification/Score_Engine.thy ===== *)
theory Score_Engine
  imports Gates
begin

text \<open>
  Model of \<^verbatim>\<open>scoring/score_engine.rs\<close>: each rule adds its points under its name when its condition
  holds and the points are not zero; the total of signed 32-bit points decides the tier, which tier B
  replaces for developers without history.

  A rule is an option of a name and its points; \<open>score_rules\<close> runs the rules in the order of the code.
\<close>

section \<open>Rules\<close>

type_synonym rule = "(string \<times> int) option"

type_synonym score = "int \<times> score_items"

definition add_points :: "string \<Rightarrow> int \<Rightarrow> score \<Rightarrow> score" where
  "add_points name points s =
     (if points \<noteq> 0 then (wrap_i32 (fst s + points), snd s @ [(name, points)]) else s)"

definition run_rule :: "score \<Rightarrow> rule \<Rightarrow> score" where
  "run_rule s r = (case r of None \<Rightarrow> s | Some (name, points) \<Rightarrow> add_points name points s)"

definition score_rules :: "rule list \<Rightarrow> score" where
  "score_rules rs = foldl run_rule (0, []) rs"

definition rule_spam :: "scoring_config \<Rightarrow> token_features \<Rightarrow> rule" where
  "rule_spam cfg f = (if tf_is_spam_dev f then Some (''spam_dev_penalty'', spam_dev_penalty cfg) else None)"

definition rule_history :: "scoring_weights \<Rightarrow> feature_thresholds \<Rightarrow> token_features \<Rightarrow> rule" where
  "rule_history w t f =
     (if tf_dev_has_history f then
        (if th_dev_strong_min_coins t \<le> tf_dev_total_coins f
            \<and> th_dev_strong_min_pnl_pct t \<le> tf_dev_pnl_avg f
         then Some (''dev_history_strong'', w_dev_history_strong w)
         else Some (''dev_history_weak'', w_dev_history_weak w))
      else None)"

definition rule_ranker :: "scoring_weights \<Rightarrow> token_features \<Rightarrow> rule" where
  "rule_ranker w f =
     (case tf_dev_category f of
        DevAPlus \<Rightarrow> Some (''dev_ranker_a_plus'', w_dev_ranker_a_plus w)
      | DevA \<Rightarrow> Some (''dev_ranker_a'', w_dev_ranker_a w)
      | DevBad \<Rightarrow> Some (''dev_ranker_bad'', w_dev_ranker_bad w)
      | _ \<Rightarrow> None)"

definition rule_smart :: "scoring_weights \<Rightarrow> feature_thresholds \<Rightarrow> token_features \<Rightarrow> rule" where
  "rule_smart w t f =
     (if th_smart_wallet_3plus_min t \<le> tf_smart_wallet_count f
      then Some (''smart_wallets_3plus'', w_smart_wallets_3plus w)
      else if th_smart_wallet_1plus_min t \<le> tf_smart_wallet_count f
      then Some (''smart_wallets_1plus'', w_smart_wallets_1plus w)
      else None)"

definition rule_buyers :: "scoring_weights \<Rightarrow> feature_thresholds \<Rightarrow> token_features \<Rightarrow> rule" where
  "rule_buyers w t f =
     (if th_buyers_high t \<le> tf_buyer_count f then Some (''buyers_10plus'', w_buyers_10plus w)
      else if th_buyers_mid t \<le> tf_buyer_count f then Some (''buyers_6plus'', w_buyers_6plus w)
      else if tf_buyer_count f < th_buyers_low t then Some (''buyers_below_3'', w_buyers_below_3 w)
      else None)"

definition rule_ratio :: "scoring_config \<Rightarrow> feature_thresholds \<Rightarrow> token_features \<Rightarrow> rule" where
  "rule_ratio cfg t f =
     (if rewards_buy_to_sell_ratio f (anti_rug cfg) (th_buy_to_sell_high t)
      then Some (''buy_to_sell_ratio_high'', w_buy_to_sell_ratio_high (sc_weights cfg)) else None)"

definition scoring_momentum_pct :: "token_features \<Rightarrow> f64" where
  "scoring_momentum_pct f =
     (let peak = f64_max (tf_peak_mcap_sol f) (tf_current_mcap_sol f)
      in momentum_peak_pct (tf_initial_mcap_sol f) peak)"

definition in_good_band :: "feature_thresholds \<Rightarrow> f64 \<Rightarrow> bool" where
  "in_good_band t m = (th_momentum_good_low_pct t \<le> m \<and> m \<le> th_momentum_good_high_pct t)"

definition rule_momentum_legacy :: "scoring_weights \<Rightarrow> feature_thresholds \<Rightarrow> token_features \<Rightarrow> rule" where
  "rule_momentum_legacy w t f =
     (let m = scoring_momentum_pct f
      in if th_momentum_overheated_pct t \<le> m then Some (''momentum_overheated'', w_momentum_overheated w)
         else if in_good_band t m then Some (''momentum_good'', w_momentum_good w)
         else None)"

definition rule_momentum_v2 :: "scoring_weights \<Rightarrow> feature_thresholds \<Rightarrow> token_features \<Rightarrow> rule" where
  "rule_momentum_v2 w t f =
     (let m = scoring_momentum_pct f
      in if in_good_band t m then Some (''momentum_good'', w_momentum_good w)
         else if th_momentum_good_high_pct t < m
              \<or> (th_momentum_good_high_pct t < th_momentum_overheated_pct t
                 \<and> th_momentum_overheated_pct t \<le> m)
         then Some (''momentum_overheated'', w_momentum_overheated w)
         else None)"

definition rule_volume :: "scoring_weights \<Rightarrow> feature_thresholds \<Rightarrow> token_features \<Rightarrow> rule" where
  "rule_volume w t f =
     (if th_volume_ok_sol t \<le> tf_buy_volume_sol f then Some (''volume_ok'', w_volume_ok w) else None)"

definition rule_bundle_legacy :: "scoring_weights \<Rightarrow> feature_thresholds \<Rightarrow> token_features \<Rightarrow> rule" where
  "rule_bundle_legacy w t f =
     (if th_bundle_identical_ratio t \<le> identical_size_ratio (tf_bundle f)
      then Some (''bundle_identical'', w_bundle_identical w)
      else if th_bundle_similar_ratio t \<le> similar_size_ratio (tf_bundle f)
      then Some (''bundle_similar'', w_bundle_similar w)
      else None)"

definition rule_bundle_v2 :: "scoring_weights \<Rightarrow> feature_thresholds \<Rightarrow> token_features \<Rightarrow> rule" where
  "rule_bundle_v2 w t f =
     (if th_bundle_similar_ratio t \<le> similar_size_ratio (tf_bundle f)
      then Some (''bundle_similar'', w_bundle_similar w) else None)"

section \<open>Early tape\<close>

definition rule_velocity :: "anti_rug_config \<Rightarrow> scoring_weights \<Rightarrow> token_features \<Rightarrow> rule" where
  "rule_velocity ar w f =
     (let min_slices = (if ar_enabled ar then max (buyer_velocity_min_slices ar) 2 else 1)
      in if f64_of 0.62 \<le> tf_buyer_velocity_persistence f
            \<and> min_slices \<le> length (tf_buyer_velocity_new_per_slice f)
         then Some (''buyer_velocity_persistent'', w_buyer_velocity_persistent w)
         else if tf_buyer_velocity_persistence f \<le> f64_of 0.28
            \<and> 2 \<le> length (tf_buyer_velocity_new_per_slice f)
         then Some (''buyer_velocity_fading'', w_buyer_velocity_fading w)
         else None)"

definition rule_pressure :: "scoring_weights \<Rightarrow> token_features \<Rightarrow> rule" where
  "rule_pressure w f =
     (if f64_of 0.58 \<le> tf_sell_pressure_score f then Some (''sell_pressure_high'', w_sell_pressure_high w)
      else None)"

definition rule_absorb :: "anti_rug_config \<Rightarrow> scoring_weights \<Rightarrow> token_features \<Rightarrow> rule" where
  "rule_absorb ar w f =
     (let min_sell = (if ar_enabled ar then absorb_strong_min_sell_vol_sol ar else f64_of 0.05)
      in if f64_of 0.58 \<le> tf_absorb_quality_score f \<and> min_sell \<le> tf_sell_volume_window_sol f
         then Some (''absorb_strong'', w_absorb_strong w) else None)"

definition rule_smart_exit :: "scoring_weights \<Rightarrow> token_features \<Rightarrow> rule" where
  "rule_smart_exit w f =
     (if 2 \<le> tf_smart_wallet_early_exits f then Some (''smart_early_exit_dump'', w_smart_early_exit_dump w)
      else if tf_smart_wallet_early_exits f = 1
      then Some (''smart_early_exit_dump'', max (half_i32 (w_smart_early_exit_dump w)) (- 2))
      else None)"

definition rule_dump :: "scoring_weights \<Rightarrow> token_features \<Rightarrow> rule" where
  "rule_dump w f =
     (if 2 \<le> tf_repeat_dump_slices f
      then Some (''repeat_dump_cluster'', saturating_mul_i32 (w_repeat_dump_penalty w) 3)
      else if 1 \<le> tf_repeat_dump_slices f
      then Some (''repeat_dump_cluster'', saturating_mul_i32 (w_repeat_dump_penalty w) 2)
      else None)"

definition early_tape_rules :: "scoring_config \<Rightarrow> token_features \<Rightarrow> rule list" where
  "early_tape_rules cfg f =
     (let w = sc_weights cfg; ar = anti_rug cfg
      in [rule_velocity ar w f, rule_pressure w f, rule_absorb ar w f, rule_smart_exit w f, rule_dump w f])"

section \<open>Tier\<close>

record score_breakdown =
  sb_total :: int
  sb_items :: score_items
  sb_tier :: tier
  sb_recommended_size_sol :: f64
  sb_fresh_b_hot_override :: bool
  sb_a_momentum_override :: bool
  sb_a_plus_momentum_override :: bool

definition tier_of_total :: "scoring_config \<Rightarrow> int \<Rightarrow> tier" where
  "tier_of_total cfg tot =
     (if a_plus_threshold cfg \<le> tot then APlus else if a_threshold cfg \<le> tot then A else Skip)"

fun tier_sol :: "tier_size \<Rightarrow> tier \<Rightarrow> f64" where
  "tier_sol sz APlus = a_plus_sol sz"
| "tier_sol sz A = a_sol sz"
| "tier_sol sz B = b_sol sz"
| "tier_sol sz Skip = 0"

definition finish_breakdown :: "scoring_config \<Rightarrow> token_features \<Rightarrow> score \<Rightarrow> score_breakdown" where
  "finish_breakdown cfg f s =
     (let items = snd s;
          score_tier = cap_tier_for_low_mcap f (anti_rug cfg) (tier_of_total cfg (fst s));
          tier_b_ok = tier_b_entry_ok (tier_b cfg) f items;
          hot_override = (\<not> tier_b_ok \<and> fresh_b_hot_override_ok (tier_b cfg) f items);
          tr = (if tier_b_dev_eligible f (tier_b cfg)
                then (if tier_b_ok \<or> hot_override then B else Skip) else score_tier)
      in \<lparr>sb_total = fst s, sb_items = items, sb_tier = tr,
          sb_recommended_size_sol = tier_sol (sc_size cfg) tr,
          sb_fresh_b_hot_override = hot_override,
          sb_a_momentum_override =
            (tr = A \<and> aa_momentum_override_for_tier (aa_override_enabled cfg) tr items),
          sb_a_plus_momentum_override =
            (tr = APlus \<and> aa_momentum_override_for_tier (aa_override_enabled cfg) tr items)\<rparr>)"

definition rules_legacy :: "scoring_config \<Rightarrow> token_features \<Rightarrow> rule list" where
  "rules_legacy cfg f =
     (let w = sc_weights cfg; t = sc_thresholds cfg
      in [rule_spam cfg f, rule_history w t f, rule_ranker w f, rule_smart w t f, rule_buyers w t f,
          rule_ratio cfg t f, rule_momentum_legacy w t f, rule_volume w t f, rule_bundle_legacy w t f]
         @ early_tape_rules cfg f)"

definition rules_v2 :: "scoring_config \<Rightarrow> feature_thresholds \<Rightarrow> token_features \<Rightarrow> rule list" where
  "rules_v2 cfg t f =
     (let w = sc_weights cfg
      in [rule_spam cfg f, rule_history w t f, rule_ranker w f, rule_smart w t f, rule_buyers w t f,
          rule_ratio cfg t f, rule_momentum_v2 w t f, rule_volume w t f, rule_bundle_v2 w t f]
         @ early_tape_rules cfg f)"

definition score_legacy :: "scoring_config \<Rightarrow> token_features \<Rightarrow> score_breakdown" where
  "score_legacy cfg f = finish_breakdown cfg f (score_rules (rules_legacy cfg f))"

definition score_v2 :: "scoring_config \<Rightarrow> feature_thresholds \<Rightarrow> token_features \<Rightarrow> score_breakdown" where
  "score_v2 cfg t f = finish_breakdown cfg f (score_rules (rules_v2 cfg t f))"

definition score_token :: "scoring_config \<Rightarrow> token_features \<Rightarrow> feature_thresholds \<Rightarrow> score_breakdown" where
  "score_token cfg f t = (if legacy_scoring cfg then score_legacy cfg f else score_v2 cfg t f)"

end
