(* ===== verification/Learning.thy ===== *)
theory Learning
  imports Score_Engine
begin

text \<open>
  Model of \<^verbatim>\<open>learning/\<close>: the snapshot of a scored token (\<^verbatim>\<open>snapshot.rs\<close>), the patch of the thresholds
  and its merge (\<^verbatim>\<open>merge.rs\<close>), and the optimizer that rewrites the patch from the statistics of closed
  trades (\<^verbatim>\<open>engine.rs\<close>). One turn of the optimizer is a function of the answers of the database and of
  whether the file could be written.
\<close>

section \<open>Snapshot of a scored token\<close>

fun tier_debug :: "tier \<Rightarrow> string" where
  "tier_debug APlus = ''APlus''"
| "tier_debug A = ''A''"
| "tier_debug B = ''B''"
| "tier_debug Skip = ''Skip''"

definition from_scoring ::
  "(address \<Rightarrow> string) \<Rightarrow> token_features \<Rightarrow> score_breakdown \<Rightarrow> learning_snapshot" where
  "from_scoring addr_str f bd =
     (let peak = f64_max (tf_peak_mcap_sol f) (tf_current_mcap_sol f)
      in \<lparr>ls_mint = addr_str (tf_mint f), ls_dev = addr_str (tf_dev f),
          entry_mcap_sol = tf_current_mcap_sol f, ls_smart_wallet_count = tf_smart_wallet_count f,
          velocity_pct = (if 0 < tf_initial_mcap_sol f
                          then (peak / tf_initial_mcap_sol f - 1) * f64_of 100 else 0),
          ls_bundle_similar = similar_size_ratio (tf_bundle f),
          ls_bundle_identical = identical_size_ratio (tf_bundle f),
          ls_buyer_count = tf_buyer_count f, buy_to_sell_ratio = tf_buy_to_sell_ratio f,
          ls_buy_volume_sol = tf_buy_volume_sol f, score_total = sb_total bd,
          ls_tier = tier_debug (sb_tier bd),
          ls_buyer_velocity_persistence = tf_buyer_velocity_persistence f,
          ls_buyer_velocity_new_per_slice = tf_buyer_velocity_new_per_slice f,
          ls_sell_pressure_score = tf_sell_pressure_score f,
          ls_absorb_quality_score = tf_absorb_quality_score f,
          ls_sell_volume_window_sol = tf_sell_volume_window_sol f,
          ls_sell_events_window = tf_sell_events_window f,
          ls_repeat_dump_slices = tf_repeat_dump_slices f,
          smart_wallet_early_exits = tf_smart_wallet_early_exits f,
          has_momentum_good = has_momentum_good_item (sb_items bd),
          fresh_b_subtype = None, fresh_watchlist = None, fresh_b_hot_override = None,
          ls_momentum_overheated = has_momentum_overheated (sb_items bd),
          hot_override_reason = None, a_momentum_override = None, a_plus_momentum_override = None,
          first_seen_mcap_sol = None, discovery_to_buy_ms = None\<rparr>)"

definition apply_aa_momentum_override_fields :: "score_breakdown \<Rightarrow> learning_snapshot \<Rightarrow> learning_snapshot" where
  "apply_aa_momentum_override_fields bd s =
     (let s1 = (if sb_a_momentum_override bd
                then s\<lparr>a_momentum_override := Some True,
                       hot_override_reason := Some ''momentum_overheated_only''\<rparr> else s)
      in if sb_a_plus_momentum_override bd
         then s1\<lparr>a_plus_momentum_override := Some True,
                 hot_override_reason := Some ''momentum_overheated_only''\<rparr> else s1)"

definition apply_hot_override_fields :: "bool \<Rightarrow> learning_snapshot \<Rightarrow> learning_snapshot" where
  "apply_hot_override_fields hot s =
     (if hot then s\<lparr>fresh_b_hot_override := Some True,
                    hot_override_reason := Some ''momentum_overheated_only''\<rparr> else s)"

definition from_scoring_fresh_b ::
  "(address \<Rightarrow> string) \<Rightarrow> token_features \<Rightarrow> score_breakdown \<Rightarrow> fresh_b_subtype_kind option
   \<Rightarrow> string option \<Rightarrow> learning_snapshot" where
  "from_scoring_fresh_b addr_str f bd subtype watchlist =
     apply_aa_momentum_override_fields bd
       (apply_hot_override_fields (sb_fresh_b_hot_override bd)
         ((from_scoring addr_str f bd)
            \<lparr>fresh_b_subtype := map_option fresh_b_str subtype, fresh_watchlist := watchlist\<rparr>))"

section \<open>The patch of the thresholds\<close>

record threshold_patch =
  pt_buyers_low :: "u64 option"
  pt_volume_ok_sol_mult :: "f64 option"
  pt_smart_wallet_3plus_min :: "u32 option"
  pt_smart_wallet_1plus_min :: "u32 option"

definition patch_default :: threshold_patch where
  "patch_default =
     \<lparr>pt_buyers_low = None, pt_volume_ok_sol_mult = None, pt_smart_wallet_3plus_min = None,
      pt_smart_wallet_1plus_min = None\<rparr>"

definition merge_buyers_low :: "feature_thresholds \<Rightarrow> u64 \<Rightarrow> u64" where
  "merge_buyers_low base v =
     (let lo = max (saturating_sub (th_buyers_low base) 2) 1;
          hi = min (saturating_add (th_buyers_low base) 2) (max (saturating_sub (th_buyers_mid base) 1) 1)
      in min (max v lo) hi)"

definition merge_volume :: "feature_thresholds \<Rightarrow> f64 \<Rightarrow> f64" where
  "merge_volume base m = f64_max (th_volume_ok_sol base * clamp_f64 (f64_of 0.85) (f64_of 1.15) m) 1"

definition merge_thresholds :: "feature_thresholds \<Rightarrow> threshold_patch \<Rightarrow> feature_thresholds" where
  "merge_thresholds base p =
     (let t1 = (case pt_buyers_low p of
                  Some v \<Rightarrow> base\<lparr>th_buyers_low := merge_buyers_low base v\<rparr> | None \<Rightarrow> base);
          t2 = (case pt_volume_ok_sol_mult p of
                  Some m \<Rightarrow> t1\<lparr>th_volume_ok_sol := merge_volume base m\<rparr> | None \<Rightarrow> t1)
      in case pt_smart_wallet_3plus_min p of
           Some h \<Rightarrow>
             let high = clamp_word 2 8 h;
                 low_default = (case pt_smart_wallet_1plus_min p of
                                  Some l \<Rightarrow> l | None \<Rightarrow> th_smart_wallet_1plus_min base);
                 low = min low_default (max (saturating_sub high 1) 1)
             in t2\<lparr>th_smart_wallet_3plus_min := high, th_smart_wallet_1plus_min := low\<rparr>
         | None \<Rightarrow>
             (case pt_smart_wallet_1plus_min p of
                Some l \<Rightarrow> t2\<lparr>th_smart_wallet_1plus_min :=
                    clamp_word 1 (max (saturating_sub (th_smart_wallet_3plus_min base) 1) 1) l\<rparr>
              | None \<Rightarrow> t2))"

record overrides_file =
  of_patch :: threshold_patch
  of_last_optimized_unix :: i64
  of_last_sample_size :: i64

definition overrides_default :: overrides_file where
  "overrides_default = \<lparr>of_patch = patch_default, of_last_optimized_unix = 0, of_last_sample_size = 0\<rparr>"

section \<open>The optimizer\<close>

record trade_batch_stats =
  ts_n :: i64
  ts_wins :: i64
  ts_win_smart :: f64
  ts_loss_smart :: f64
  ts_win_buyers :: f64
  ts_loss_buyers :: f64
  ts_max_id :: i64

definition batch_winrate :: "trade_batch_stats \<Rightarrow> f64" where
  "batch_winrate s = int_to_f64 (sint (ts_wins s)) / int_to_f64 (sint (ts_n s))"

definition adjust_buyers :: "feature_thresholds \<Rightarrow> trade_batch_stats \<Rightarrow> threshold_patch \<Rightarrow> threshold_patch" where
  "adjust_buyers base s p =
     (let cur = (case pt_buyers_low p of Some v \<Rightarrow> v | None \<Rightarrow> th_buyers_low base)
      in if batch_winrate s < f64_of 0.48 then p\<lparr>pt_buyers_low := Some (saturating_add cur 1)\<rparr>
         else if f64_of 0.62 < batch_winrate s then p\<lparr>pt_buyers_low := Some (max (saturating_sub cur 1) 1)\<rparr>
         else p)"

definition adjust_smart :: "feature_thresholds \<Rightarrow> trade_batch_stats \<Rightarrow> threshold_patch \<Rightarrow> threshold_patch" where
  "adjust_smart base s p =
     (if batch_winrate s < f64_of 0.52 \<and> ts_loss_smart s + f64_of 0.75 < ts_win_smart s
      then let cur = (case pt_smart_wallet_3plus_min p of
                        Some v \<Rightarrow> v | None \<Rightarrow> th_smart_wallet_3plus_min base)
           in p\<lparr>pt_smart_wallet_3plus_min := Some (min (cur + 1) 8)\<rparr>
      else p)"

definition adjust_volume :: "trade_batch_stats \<Rightarrow> threshold_patch \<Rightarrow> threshold_patch" where
  "adjust_volume s p =
     (if 0 < ts_loss_buyers s \<and> 0 < ts_win_buyers s \<and> ts_win_buyers s + f64_of 1.5 < ts_loss_buyers s
      then let m = (case pt_volume_ok_sol_mult p of Some v \<Rightarrow> v | None \<Rightarrow> 1) * f64_of 1.05
           in p\<lparr>pt_volume_ok_sol_mult := Some (f64_min m (f64_of 1.15))\<rparr>
      else p)"

definition apply_heuristics ::
  "feature_thresholds \<Rightarrow> trade_batch_stats \<Rightarrow> threshold_patch \<Rightarrow> threshold_patch" where
  "apply_heuristics base s p =
     (if sint (ts_n s) < 2 then p else adjust_volume s (adjust_smart base s (adjust_buyers base s p)))"

record learning_config =
  lc_enabled :: bool
  analyze_every_trades :: u64
  analyze_interval_secs :: u64
  min_trades_for_update :: i64

definition learning_config_default :: learning_config where
  "learning_config_default =
     \<lparr>lc_enabled = True, analyze_every_trades = 100, analyze_interval_secs = 3600,
      min_trades_for_update = 30\<rparr>"

text \<open>One tick: the answers to \<^verbatim>\<open>count_trades\<close> and \<^verbatim>\<open>stats_all\<close> (\<open>None\<close>: an error), the write of the file.\<close>

record optimizer =
  op_last_count :: i64
  op_overrides :: overrides_file

definition optimizer_tick ::
  "learning_config \<Rightarrow> feature_thresholds \<Rightarrow> i64 option \<Rightarrow> trade_batch_stats option \<Rightarrow> bool \<Rightarrow> i64
   \<Rightarrow> optimizer \<Rightarrow> optimizer" where
  "optimizer_tick cfg base count stats save_ok now st =
     (case count of
        None \<Rightarrow> st
      | Some cnt \<Rightarrow>
          if sint (cnt - op_last_count st) < sint (analyze_every_trades cfg) then st
          else case stats of
                 None \<Rightarrow> st
               | Some s \<Rightarrow>
                   if sint (ts_n s) < sint (min_trades_for_update cfg) then st\<lparr>op_last_count := cnt\<rparr>
                   else let file = (op_overrides st)
                              \<lparr>of_patch := apply_heuristics base s (of_patch (op_overrides st)),
                               of_last_optimized_unix := now, of_last_sample_size := ts_n s\<rparr>
                        in if \<not> save_ok then st
                           else \<lparr>op_last_count = cnt, op_overrides = file\<rparr>)"

end
