(* ===== verification/Learning_Laws.thy ===== *)
theory Learning_Laws
  imports Learning
begin

text \<open>
  What the learning loop guarantees and what it does not: a merged threshold stays near the configured
  one, but the patch behind it is not clamped, so a losing series winds it up and as many winning rounds
  go by before the merged threshold moves again.
\<close>

section \<open>Bounds of a merge\<close>

lemma merge_simps [simp]:
  "th_buyers_low (merge_thresholds base p) =
     (case pt_buyers_low p of Some v \<Rightarrow> merge_buyers_low base v | None \<Rightarrow> th_buyers_low base)"
  "th_volume_ok_sol (merge_thresholds base p) =
     (case pt_volume_ok_sol_mult p of Some m \<Rightarrow> merge_volume base m | None \<Rightarrow> th_volume_ok_sol base)"
  "th_smart_wallet_3plus_min (merge_thresholds base p) =
     (case pt_smart_wallet_3plus_min p of Some h \<Rightarrow> clamp_word 2 8 h | None \<Rightarrow> th_smart_wallet_3plus_min base)"
  by (simp_all add: merge_thresholds_def Let_def split: option.split)

lemma merge_1plus:
  "th_smart_wallet_1plus_min (merge_thresholds base p) = th_smart_wallet_1plus_min base \<or>
   th_smart_wallet_1plus_min (merge_thresholds base p)
     \<le> max (saturating_sub (th_smart_wallet_3plus_min (merge_thresholds base p)) 1) 1"
proof (cases "pt_smart_wallet_3plus_min p")
  case None
  have one: "(1 :: u32) \<le> max (saturating_sub (th_smart_wallet_3plus_min base) 1) 1" by (rule max.cobounded2)
  have "clamp_word 1 (max (saturating_sub (th_smart_wallet_3plus_min base) 1) 1) l
      \<le> max (saturating_sub (th_smart_wallet_3plus_min base) 1) 1" for l
    using clamp_word_bounds[OF one] by blast
  then show ?thesis
    by (cases "pt_smart_wallet_1plus_min p"; cases "pt_buyers_low p"; cases "pt_volume_ok_sol_mult p")
       (simp_all add: merge_thresholds_def Let_def None)
next
  case (Some h)
  have "min x m \<le> m" for x m :: u32 by (rule min.cobounded2)
  then show ?thesis
    by (cases "pt_buyers_low p"; cases "pt_volume_ok_sol_mult p")
       (simp_all add: merge_thresholds_def Let_def Some del: min.cobounded2)
qed

lemma unat_max: "unat (max a b) = max (unat a) (unat b)" for a b :: "'n::len word"
  by (simp add: max_def word_le_nat_alt)

lemma unat_min: "unat (min a b) = min (unat a) (unat b)" for a b :: "'n::len word"
  by (simp add: min_def word_le_nat_alt)

lemma unat_merge_buyers_low:
  "unat (merge_buyers_low base v) =
     min (max (unat v) (max (unat (th_buyers_low base) - 2) 1))
         (min (min (unat (th_buyers_low base) + 2) (2 ^ 64 - 1)) (max (unat (th_buyers_mid base) - 1) 1))"
proof -
  have one: "unat (1 :: u64) = 1" "unat (2 :: u64) = 2" "LENGTH(64) = 64" by simp_all
  show ?thesis
    unfolding merge_buyers_low_def Let_def unat_max unat_min unat_saturating_sub unat_saturating_add one
    by (rule refl)
qed

lemma merge_buyers_low_range:
  "unat (merge_buyers_low base v) \<le> unat (th_buyers_low base) + 2"
  "min (unat (th_buyers_low base) - 2) (unat (th_buyers_mid base) - 1) \<le> unat (merge_buyers_low base v)"
proof -
  have clamp: "min (max x (max (l - 2) 1)) (min (min (l + 2) k) (max (m - 1) 1)) \<le> l + 2"
    "l \<le> k \<Longrightarrow> min (l - 2) (m - 1) \<le> min (max x (max (l - 2) 1)) (min (min (l + 2) k) (max (m - 1) 1))"
    for x l m k :: nat
    by linarith+
  have "unat (th_buyers_low base) < 2 ^ 64" using unsigned_less[of "th_buyers_low base"] by simp
  then have "unat (th_buyers_low base) \<le> 2 ^ 64 - 1" by linarith
  then show "min (unat (th_buyers_low base) - 2) (unat (th_buyers_mid base) - 1) \<le> unat (merge_buyers_low base v)"
    unfolding unat_merge_buyers_low by (rule clamp(2))
  show "unat (merge_buyers_low base v) \<le> unat (th_buyers_low base) + 2"
    unfolding unat_merge_buyers_low by (rule clamp(1))
qed

text \<open>Whatever patch is merged: the buyers bound moves up by at most two, and down by at most two or
  to just below the middle bucket; the volume bound is the configured one or at least 1; the bounds of
  the smart wallets stay in 2 to 8, or as configured, with the lower one below the upper.\<close>

theorem merge_bounds:
  "(let t = merge_thresholds base p in
      unat (th_buyers_low t) \<le> unat (th_buyers_low base) + 2
      \<and> min (unat (th_buyers_low base) - 2) (unat (th_buyers_mid base) - 1) \<le> unat (th_buyers_low t)
      \<and> (th_volume_ok_sol t = th_volume_ok_sol base \<or> 1 \<le> th_volume_ok_sol t)
      \<and> (th_smart_wallet_3plus_min t = th_smart_wallet_3plus_min base
         \<or> 2 \<le> th_smart_wallet_3plus_min t \<and> th_smart_wallet_3plus_min t \<le> 8)
      \<and> (th_smart_wallet_1plus_min t = th_smart_wallet_1plus_min base
         \<or> th_smart_wallet_1plus_min t \<le> max (saturating_sub (th_smart_wallet_3plus_min t) 1) 1))"
proof -
  have vol: "1 \<le> merge_volume base m" for m
    unfolding merge_volume_def by (intro f64_max_ge2) simp
  have sm: "2 \<le> clamp_word 2 8 h \<and> clamp_word 2 8 h \<le> (8 :: u32)" for h
    by (rule clamp_word_bounds) simp
  have low: "unat (th_buyers_low (merge_thresholds base p)) \<le> unat (th_buyers_low base) + 2"
    "min (unat (th_buyers_low base) - 2) (unat (th_buyers_mid base) - 1)
       \<le> unat (th_buyers_low (merge_thresholds base p))"
    using merge_buyers_low_range unfolding merge_simps by (cases "pt_buyers_low p"; simp only: option.case; linarith)+
  have volume: "th_volume_ok_sol (merge_thresholds base p) = th_volume_ok_sol base
      \<or> 1 \<le> th_volume_ok_sol (merge_thresholds base p)"
    by (cases "pt_volume_ok_sol_mult p") (simp_all add: vol)
  have smart: "th_smart_wallet_3plus_min (merge_thresholds base p) = th_smart_wallet_3plus_min base
      \<or> 2 \<le> th_smart_wallet_3plus_min (merge_thresholds base p)
        \<and> th_smart_wallet_3plus_min (merge_thresholds base p) \<le> 8"
    by (cases "pt_smart_wallet_3plus_min p") (simp_all add: sm)
  show ?thesis
    unfolding Let_def by (intro conjI low volume smart merge_1plus)
qed

section \<open>Wind-up of the patch\<close>

definition losing :: "trade_batch_stats \<Rightarrow> bool" where
  "losing s \<longleftrightarrow> 2 \<le> sint (ts_n s) \<and> batch_winrate s < f64_of 0.48"

definition winning :: "trade_batch_stats \<Rightarrow> bool" where
  "winning s \<longleftrightarrow> 2 \<le> sint (ts_n s) \<and> f64_of 0.62 < batch_winrate s"

lemma winning_not_losing: "winning s \<Longrightarrow> \<not> batch_winrate s < f64_of 0.48"
proof
  assume "winning s" "batch_winrate s < f64_of 0.48"
  moreover have "f64_of 0.48 \<le> f64_of 0.62" by (intro f64_of_mono) simp
  ultimately have "f64_of 0.62 < f64_of 0.62"
    unfolding winning_def by (meson f64_less_le_trans f64_less_imp_le f64_le_less_trans)
  then show False by (cases "f64_of 0.62") simp_all
qed

lemma heuristics_buyers_low:
  "losing s \<Longrightarrow> pt_buyers_low p = Some v \<Longrightarrow>
     pt_buyers_low (apply_heuristics base s p) = Some (saturating_add v 1)"
  "losing s \<Longrightarrow> pt_buyers_low p = None \<Longrightarrow>
     pt_buyers_low (apply_heuristics base s p) = Some (saturating_add (th_buyers_low base) 1)"
  "winning s \<Longrightarrow> pt_buyers_low p = Some v \<Longrightarrow>
     pt_buyers_low (apply_heuristics base s p) = Some (max (saturating_sub v 1) 1)"
  using winning_not_losing[of s]
  by (auto simp: apply_heuristics_def adjust_volume_def adjust_smart_def adjust_buyers_def Let_def
      losing_def winning_def)

lemma wind_up:
  assumes "losing s" "unat (th_buyers_low base) + Suc k < 2 ^ 64"
  shows "\<exists>v. pt_buyers_low ((apply_heuristics base s ^^ Suc k) patch_default) = Some v \<and>
    unat v = unat (th_buyers_low base) + Suc k"
  using assms(2)
proof (induction k)
  case 0
  then show ?case using heuristics_buyers_low(2)[OF assms(1), of patch_default base]
    by (simp add: patch_default_def unat_saturating_add)
next
  case (Suc k)
  then obtain v where v: "pt_buyers_low ((apply_heuristics base s ^^ Suc k) patch_default) = Some v"
    "unat v = unat (th_buyers_low base) + Suc k" by auto
  show ?case using heuristics_buyers_low(1)[OF assms(1) v(1), of base] v(2) Suc.prems
    by (simp add: unat_saturating_add)
qed

lemma wind_down:
  assumes "winning s" "pt_buyers_low p = Some v" "j < unat v"
  shows "\<exists>u. pt_buyers_low ((apply_heuristics base s ^^ j) p) = Some u \<and> unat u = unat v - j"
  using assms(3)
proof (induction j)
  case (Suc j)
  then obtain u where u: "pt_buyers_low ((apply_heuristics base s ^^ j) p) = Some u" "unat u = unat v - j"
    by auto
  show ?case using heuristics_buyers_low(3)[OF assms(1) u(1), of base] u(2) Suc.prems
    by (simp add: unat_max unat_saturating_sub)
qed (use assms(2) in simp)

text \<open>The optimizer winds up: after k losing rounds the patch is k above the configured buyers
  bound although the merge allows two, so the next k - 2 winning rounds leave the merged bound at its
  upper limit instead of relaxing it.\<close>

theorem optimizer_winds_up:
  assumes "losing lose" "winning win" "j + 2 \<le> k" "unat (th_buyers_low base) + k < 2 ^ 64"
  shows "unat (th_buyers_low (merge_thresholds base
      ((apply_heuristics base win ^^ j) ((apply_heuristics base lose ^^ k) patch_default)))) =
    min (unat (th_buyers_low base) + 2) (max (unat (th_buyers_mid base) - 1) 1)"
proof -
  obtain k' where k: "k = Suc k'" using assms(3) by (cases k) auto
  obtain v where v: "pt_buyers_low ((apply_heuristics base lose ^^ k) patch_default) = Some v"
    "unat v = unat (th_buyers_low base) + k"
    using wind_up[OF assms(1), of base k'] assms(4) k by auto
  have "j < unat v" using v(2) assms(3) by linarith
  then obtain u where u: "pt_buyers_low ((apply_heuristics base win ^^ j)
        ((apply_heuristics base lose ^^ k) patch_default)) = Some u" "unat u = unat v - j"
    using wind_down[OF assms(2) v(1)] by blast
  have "unat (th_buyers_low base) + 2 \<le> unat u" using u(2) v(2) assms(3) by linarith
  then show ?thesis using u(1) assms(3,4) by (simp add: unat_merge_buyers_low)
qed

definition stats_of :: "i64 \<Rightarrow> i64 \<Rightarrow> trade_batch_stats" where
  "stats_of n wins =
     \<lparr>ts_n = n, ts_wins = wins, ts_win_smart = 0, ts_loss_smart = 0, ts_win_buyers = 0, ts_loss_buyers = 0,
      ts_max_id = 0\<rparr>"

lemma f64_of_eighths: "f64_of (3 / 8) = Fin (3 / 8)" "f64_of (5 / 8) = Fin (5 / 8)"
  using rnd_exact[of 3 "- 3"] rnd_exact[of 5 "- 3"]
  by (auto intro!: f64_of_exact simp: power_int_minus field_simps)

lemma optimizer_winds_up_witness:
  "unat (th_buyers_low (merge_thresholds thresholds_default
      ((apply_heuristics thresholds_default (stats_of 10 10) ^^ 3)
        ((apply_heuristics thresholds_default (stats_of 10 0) ^^ 5) patch_default)))) = 5"
proof -
  have "f64_of (3 / 8) \<le> f64_of 0.48" "f64_of 0.62 \<le> f64_of (5 / 8)" by (intro f64_of_mono; simp)+
  then have "Fin 0 < f64_of 0.48" "f64_of 0.62 < Fin 1"
    unfolding f64_of_eighths by (cases "f64_of 0.48"; cases "f64_of 0.62"; simp)+
  then have "losing (stats_of 10 0)" "winning (stats_of 10 10)"
    by (simp_all add: losing_def winning_def batch_winrate_def stats_of_def int_to_f64_def zero_f64_def one_f64_def)
  then show ?thesis
    using optimizer_winds_up[of "stats_of 10 0" "stats_of 10 10" 3 5 thresholds_default]
    by (simp add: thresholds_default_def)
qed

end
