(* ===== verification/Score_Buy.thy ===== *)
theory Score_Buy
  imports Learning Manager
begin

text \<open>
  Model of \<^verbatim>\<open>pipeline/score_buy.rs\<close>: from a new token to a signal for the position manager. The
  pipeline observes the tape, assembles the features, scores them, applies the gates in their order
  and answers a list of effects, at most one of which is the signal.

  Everything the pipeline asks another actor for is a field of \<open>score_env\<close>: the buckets of the three
  observations, the state of the swarm when the buyers are read, the developer ranker, the smart-money
  registry, the patch of the thresholds, the operator cap, the clock and the texts of addresses. The
  payloads of the log of skipped tokens are the snapshots they are printed from.
\<close>

record score_env =
  se_fetch_score :: "nat \<Rightarrow> token_bucket option"
  se_fetch_confirm :: "nat \<Rightarrow> token_bucket option"
  se_fetch_recheck :: "nat \<Rightarrow> token_bucket option"
  se_swarm :: swarm
  se_dev_category :: "dev_category \<times> dev_record"
  se_count_smart :: "address list \<Rightarrow> u32"
  se_filter_smart :: "address list \<Rightarrow> address list"
  se_patch :: threshold_patch
  se_operator_cap :: f64
  se_elapsed_ms :: u64
  se_has_log :: bool
  se_str :: "address \<Rightarrow> string"
  se_tanh :: "f64 \<Rightarrow> f64"

record pipeline_input =
  pi_mint :: address
  pi_dev :: address
  pi_dev_stats :: "creator_statistics option"
  pi_is_spam_dev :: bool
  pi_bucket :: token_bucket
  pi_from_fresh_watchlist :: bool

datatype pipeline_metric =
    PassedFilter | ScoreSkip | SpamDevSkip | ScoreA | ScoreAPlus | ScoreB
  | ContinuationSkip | ParabolicSkip | PositionInitiated
  | FreshAdded | FreshPassed | FreshRejected

datatype pipeline_effect =
    Metric pipeline_metric
  | Skipped string string learning_snapshot   \<comment> \<open>stage, reason, payload\<close>
  | Noted string string                        \<comment> \<open>stage and reason of the watchlist\<close>
  | ScoreDone address                          \<comment> \<open>latency registry\<close>
  | Signal position_message                    \<comment> \<open>send to the position manager\<close>

section \<open>Features and score\<close>

record scored =
  sc_bucket :: token_bucket
  sc_features :: token_features
  sc_breakdown :: score_breakdown
  sc_smart :: u32
  sc_early :: "address list"
  sc_current_mcap_sol :: f64
  sc_peak_mcap_sol :: f64

definition active_thresholds :: "scoring_config \<Rightarrow> threshold_patch \<Rightarrow> feature_thresholds" where
  "active_thresholds cfg p =
     (if legacy_scoring cfg then sc_thresholds cfg else merge_thresholds (sc_thresholds cfg) p)"

definition early_exits :: "swarm \<Rightarrow> address list \<Rightarrow> u32" where
  "early_exits sw addrs =
     foldl (\<lambda>n a. case swarm_find sw a of
               Some t \<Rightarrow> if amt_value (current_holdings t) = 0 \<and> 0 < amt_value (total_spent t) then n + 1 else n
             | None \<Rightarrow> n) 0 addrs"

definition dev_category_of :: "scoring_config \<Rightarrow> score_env \<Rightarrow> pipeline_input \<Rightarrow> dev_category \<times> dev_record" where
  "dev_category_of cfg env inp =
     (if pi_dev_stats inp = None \<and> tier_b_enabled (tier_b cfg) \<and> \<not> pi_is_spam_dev inp
      then (DevFresh, dev_record_default) else se_dev_category env)"

definition score_stage :: "scoring_config \<Rightarrow> score_env \<Rightarrow> pipeline_input \<Rightarrow> scored outcome" where
  "score_stage cfg env inp =
     bind_outcome (observe_early_tape_points_live (se_fetch_score env) (scoring_window_ms cfg)
        (max (buyer_velocity_slices cfg) 1) (Some (th_momentum_good_low_pct (sc_thresholds cfg)))) (\<lambda>ob.
       let bucket0 = (case ob_last_bucket ob of Some b \<Rightarrow> b | None \<Rightarrow> pi_bucket inp);
           bucket = bucket0\<lparr>tb_swarm := se_swarm env\<rparr>
       in bind_outcome (if 0 < ob_initial_mcap_sol ob then Inr (ob_initial_mcap_sol ob)
                        else pool_mcap_sol (tb_pool bucket)) (\<lambda>initial.
         let current = ob_current_mcap_sol ob;
             peak = f64_max (ob_peak_mcap_sol ob) current;
             thr = active_thresholds cfg (se_patch env);
             (buyers, scan, bundle) = snapshot_early_buyers bucket (th_bundle_similar_tolerance thr);
             (cat, rec) = dev_category_of cfg env inp;
             early = eb_all buyers;
             smart = se_count_smart env early;
             exits = early_exits (se_swarm env) (se_filter_smart env early);
             tape = from_tape_points (se_tanh env) (ob_points ob) exits;
             f = (assemble (pi_mint inp) (pi_dev inp) (pi_dev_stats inp) cat rec initial current peak buyers
                    (of_nat (length (eb_regulars buyers))) (of_nat (length (eb_snipers buyers)))
                    (bs_total_volume_sol scan) (bs_still_long scan) (bs_already_sold scan) bundle smart tape)
                   \<lparr>tf_is_spam_dev := pi_is_spam_dev inp\<rparr>
         in Inr \<lparr>sc_bucket = bucket, sc_features = f, sc_breakdown = score_token cfg f thr,
                 sc_smart = smart, sc_early = early, sc_current_mcap_sol = current,
                 sc_peak_mcap_sol = peak\<rparr>))"

definition learning_snap :: "score_env \<Rightarrow> pipeline_input \<Rightarrow> scored \<Rightarrow> learning_snapshot" where
  "learning_snap env inp s =
     from_scoring_fresh_b (se_str env) (sc_features s) (sc_breakdown s)
       (fresh_b_for_path (pi_dev_stats inp) (pi_from_fresh_watchlist inp))
       (if pi_from_fresh_watchlist inp then Some ''passed'' else None)"

definition log_skipped :: "score_env \<Rightarrow> string \<Rightarrow> string \<Rightarrow> learning_snapshot \<Rightarrow> pipeline_effect list" where
  "log_skipped env stg reason snap = (if se_has_log env then [Skipped stg reason snap] else [])"

section \<open>Gates\<close>

text \<open>A score of tier Skip: which gate of tier B failed, if the developer is fresh.\<close>

definition skip_label :: "scoring_config \<Rightarrow> scored \<Rightarrow> string \<times> string" where
  "skip_label cfg s =
     (case (if tier_b_dev_eligible (sc_features s) (tier_b cfg)
            then fresh_b_gate_fail_reason (tier_b cfg) (sc_features s) (sb_items (sc_breakdown s)) else None) of
        Some r \<Rightarrow> (''fresh_b_gate'', r)
      | None \<Rightarrow> (''score_skip'', ''tier_skip''))"

definition strong_a_ok :: "scoring_config \<Rightarrow> scored \<Rightarrow> bool" where
  "strong_a_ok cfg s =
     strong_a_momentum_bypass_ok (momentum_good_strong_a cfg) (sb_tier (sc_breakdown s))
       (sb_total (sc_breakdown s)) (sc_features s) (sb_items (sc_breakdown s))"

definition momentum_good_satisfied :: "scoring_config \<Rightarrow> scored \<Rightarrow> bool" where
  "momentum_good_satisfied cfg s =
     (let bd = sc_breakdown s; bypass = momentum_good_smart_bypass cfg;
          aplus_bypass = momentum_good_aplus_smart_bypass cfg
      in has_momentum_good_item (sb_items bd)
         \<or> (0 < bypass \<and> bypass \<le> sc_smart s)
         \<or> (0 < aplus_bypass \<and> sb_tier bd = APlus \<and> aplus_bypass \<le> sc_smart s)
         \<or> strong_a_ok cfg s
         \<or> sb_a_momentum_override bd \<or> sb_a_plus_momentum_override bd
         \<or> (sb_tier bd = B \<and> sb_fresh_b_hot_override bd))"

definition override_logs :: "score_env \<Rightarrow> pipeline_input \<Rightarrow> scored \<Rightarrow> pipeline_effect list" where
  "override_logs env inp s =
     (let bd = sc_breakdown s; good = has_momentum_good_item (sb_items bd);
          snap = (learning_snap env inp s)\<lparr>first_seen_mcap_sol := Some (tf_initial_mcap_sol (sc_features s))\<rparr>
      in (if sb_a_momentum_override bd \<and> \<not> good
          then log_skipped env ''aa_momentum_override'' ''A_MOMENTUM_OVERRIDE'' snap else [])
         @ (if sb_a_plus_momentum_override bd \<and> \<not> good
            then log_skipped env ''aa_momentum_override'' ''APLUS_MOMENTUM_OVERRIDE'' snap else []))"

text \<open>The gates of live trading in their order: stage and reason of the first that skips the token.\<close>

definition scored_velocity :: "scored \<Rightarrow> f64" where
  "scored_velocity s =
     (let f = sc_features s
      in momentum_peak_pct (tf_initial_mcap_sol f) (f64_max (tf_peak_mcap_sol f) (tf_current_mcap_sol f)))"

definition market_gate :: "scoring_config \<Rightarrow> pipeline_input \<Rightarrow> scored \<Rightarrow> (string \<times> string) option" where
  "market_gate cfg inp s =
     (let f = sc_features s; tr = sb_tier (sc_breakdown s)
      in if require_momentum_good cfg \<and> \<not> momentum_good_satisfied cfg s
         then Some (''live_gate_momentum'', ''require_momentum_good'')
         else case entry_skip_reason f (anti_rug cfg) of
           Some r \<Rightarrow> Some (''anti_rug'', r)
         | None \<Rightarrow>
             if minimum_tier_for_buy cfg = MinAPlus \<and> tr \<noteq> APlus \<and> tr \<noteq> B
             then Some (''live_gate_tier'', ''minimum_tier_APlus'')
             else if pi_is_spam_dev inp \<and> spam_dev_require_a_plus cfg \<and> tr \<noteq> APlus
             then Some (''spam_dev_weak'', ''spam_dev_require_a_plus'')
             else None)"

definition tier_gate :: "scoring_config \<Rightarrow> scored \<Rightarrow> (string \<times> string) option" where
  "tier_gate cfg s =
     (let f = sc_features s; bd = sc_breakdown s; tr = sb_tier bd; items = sb_items bd; smart = sc_smart s
      in case weak_a_hard_skip_reason (weak_a_gate cfg) tr (sb_total bd) smart f items of
           Some r \<Rightarrow> Some (''weak_a_gate'', r)
         | None \<Rightarrow>
         (case weak_a_synthetic_pump_skip_reason (synthetic_pump (weak_a_gate cfg)) tr smart f items of
            Some r \<Rightarrow> Some (''weak_a_synthetic_pump'', r)
          | None \<Rightarrow>
          (case aplus_rug_gate_skip_reason tr smart (tf_buy_to_sell_ratio f) of
             Some r \<Rightarrow> Some (''aplus_rug_gate'', r)
           | None \<Rightarrow>
           (case tier_a_low_velocity_skip_reason tr (scored_velocity s) of
              Some r \<Rightarrow> Some (''velocity_gate'', r)
            | None \<Rightarrow> None))))"

definition live_gate :: "scoring_config \<Rightarrow> pipeline_input \<Rightarrow> scored \<Rightarrow> (string \<times> string) option" where
  "live_gate cfg inp s =
     (case market_gate cfg inp s of Some r \<Rightarrow> Some r | None \<Rightarrow> tier_gate cfg s)"

text \<open>What a skip of a live gate leaves behind.\<close>

definition gate_effects ::
  "score_env \<Rightarrow> pipeline_input \<Rightarrow> scored \<Rightarrow> string \<times> string \<Rightarrow> pipeline_effect list" where
  "gate_effects env inp s r =
     (let snap = learning_snap env inp s;
          snap' = (if fst r = ''velocity_gate'' then snap\<lparr>velocity_pct := scored_velocity s\<rparr> else snap)
      in (if fst r = ''spam_dev_weak'' then [Metric SpamDevSkip] else [])
         @ log_skipped env (fst r) (snd r) snap')"

section \<open>Confirmation\<close>

definition baseline_buyers :: "scored \<Rightarrow> u64" where
  "baseline_buyers s = tf_regular_buyer_count (sc_features s) + tf_sniper_count (sc_features s)"

definition second_look_allowed :: "scoring_config \<Rightarrow> scored \<Rightarrow> string \<Rightarrow> bool" where
  "second_look_allowed cfg s reason =
     (let bd = sc_breakdown s
      in continuation_second_look_eligible_for_buy (second_look (continuation cfg)) (weak_a_gate cfg)
           (sb_tier bd) (sb_tier bd = APlus) (sb_total bd) (sc_smart s) (sc_features s) (sb_items bd) reason)"

definition recheck_observation :: "scoring_config \<Rightarrow> score_env \<Rightarrow> tape_observation outcome" where
  "recheck_observation cfg env =
     (let sl = second_look (continuation cfg)
      in observe_early_tape_points_live (se_fetch_recheck env) (recheck_window_ms sl) (recheck_slices sl) None)"

definition confirm_verdict :: "scoring_config \<Rightarrow> scored \<Rightarrow> early_tape_point list \<Rightarrow> string + unit" where
  "confirm_verdict cfg s points =
     evaluate_continuation (continuation cfg) (tf_buy_to_sell_ratio (sc_features s)) (baseline_buyers s)
       points (cont_confirm_window_ms (continuation cfg)) (sb_tier (sc_breakdown s) = APlus)"

text \<open>The deferred second confirmation of an A+ token at its peak without smart money.\<close>

definition peak_recheck_acceptable :: "scoring_config \<Rightarrow> scored \<Rightarrow> tape_observation \<Rightarrow> bool" where
  "peak_recheck_acceptable cfg s rc =
     aplus_peak_recheck_mcap_acceptable (aplus_peak_guard (continuation cfg))
       (sc_peak_mcap_sol s) (sc_current_mcap_sol s) (ob_current_mcap_sol rc)"

definition peak_defer_verdict :: "scoring_config \<Rightarrow> scored \<Rightarrow> tape_observation \<Rightarrow> string option" where
  "peak_defer_verdict cfg s rc =
     (let collapse = (if peak_recheck_acceptable cfg s rc then None
                      else Some ''aplus_peak_recheck_mcap_drop'')
      in case confirm_verdict cfg s (ob_points rc) of
           Inr _ \<Rightarrow> collapse
         | Inl reason \<Rightarrow>
             if second_look_allowed cfg s reason then
               (case evaluate_continuation_second_look (ob_current_mcap_sol rc) (baseline_buyers s)
                       (ob_points rc) of
                  Inr _ \<Rightarrow> collapse
                | Inl why \<Rightarrow> Some why)
             else Some reason)"

definition needs_peak_defer :: "scoring_config \<Rightarrow> scored \<Rightarrow> early_tape_point list \<Rightarrow> bool" where
  "needs_peak_defer cfg s points =
     (let pg = aplus_peak_guard (continuation cfg)
      in aplus_peak_no_smart_guard pg (sb_tier (sc_breakdown s) = APlus) (sc_smart s)
           (sc_current_mcap_sol s) (sc_peak_mcap_sol s)
         \<and> ((case confirm_verdict cfg s points of Inl _ \<Rightarrow> True | Inr _ \<Rightarrow> False)
            \<or> \<not> continuation_confirm_strong pg points (baseline_buyers s)))"

definition continuation_skip ::
  "scoring_config \<Rightarrow> score_env \<Rightarrow> scored \<Rightarrow> tape_observation \<Rightarrow> string option outcome" where
  "continuation_skip cfg env s confirm =
     (if needs_peak_defer cfg s (ob_points confirm)
      then bind_outcome (recheck_observation cfg env) (\<lambda>rc. Inr (peak_defer_verdict cfg s rc))
      else case confirm_verdict cfg s (ob_points confirm) of
             Inr _ \<Rightarrow> Inr None
           | Inl reason \<Rightarrow>
               if second_look_allowed cfg s reason then
                 bind_outcome (recheck_observation cfg env) (\<lambda>rc.
                   case evaluate_continuation_second_look (ob_current_mcap_sol confirm) (baseline_buyers s)
                          (ob_points rc) of
                     Inr _ \<Rightarrow> Inr None
                   | Inl why \<Rightarrow> Inr (Some why))
               else Inr (Some reason))"

definition parabolic_skip :: "scoring_config \<Rightarrow> scored \<Rightarrow> tape_observation \<Rightarrow> bool" where
  "parabolic_skip cfg s confirm =
     (let p = anti_parabolic cfg; bd = sc_breakdown s
      in parabolic_peak_suspect p (sb_tier bd = APlus) (sb_total bd) (sc_smart s)
           (sc_current_mcap_sol s) (sc_peak_mcap_sol s)
         \<and> \<not> (case continuation_strength (ob_points confirm) (baseline_buyers s) of
                (upticks, new_buyers) \<Rightarrow> strong_upticks p \<le> upticks \<and> strong_new_buyers p \<le> new_buyers))"

text \<open>The confirmation poll, shared by both gates: the skip of the first that fails.\<close>

definition confirm_stage ::
  "scoring_config \<Rightarrow> score_env \<Rightarrow> scored \<Rightarrow> (pipeline_metric \<times> string \<times> string) option outcome" where
  "confirm_stage cfg env s =
     (let cont = cont_enabled (continuation cfg); parab = parab_enabled (anti_parabolic cfg)
      in if \<not> cont \<and> \<not> parab then Inr None
         else
           let (window, slices) =
                 (if cont then (cont_confirm_window_ms (continuation cfg), cont_confirm_slices (continuation cfg))
                  else (parab_confirm_window_ms (anti_parabolic cfg), parab_confirm_slices (anti_parabolic cfg)))
           in bind_outcome (observe_early_tape_points_live (se_fetch_confirm env) window slices None) (\<lambda>confirm.
                bind_outcome (if cont then continuation_skip cfg env s confirm else Inr None) (\<lambda>skip.
                  case skip of
                    Some reason \<Rightarrow> Inr (Some (ContinuationSkip, ''continuation'', reason))
                  | None \<Rightarrow>
                      if parab \<and> parabolic_skip cfg s confirm
                      then Inr (Some (ParabolicSkip, ''parabolic_peak_entry'', ''weak_peak_no_demand''))
                      else Inr None)))"

section \<open>The pipeline\<close>

fun tier_metric :: "tier \<Rightarrow> pipeline_effect list" where
  "tier_metric A = [Metric ScoreA]"
| "tier_metric APlus = [Metric ScoreAPlus]"
| "tier_metric B = [Metric ScoreB]"
| "tier_metric Skip = []"

definition F64_EPSILON :: f64 where
  "F64_EPSILON = f64_of (1 / 2 ^ 52)"

definition buy_amount :: "score_env \<Rightarrow> scored \<Rightarrow> f64" where
  "buy_amount env s = f64_max (f64_min (sb_recommended_size_sol (sc_breakdown s)) (se_operator_cap env)) 0"

definition buy_signal :: "score_env \<Rightarrow> pipeline_input \<Rightarrow> scored \<Rightarrow> position_message" where
  "buy_signal env inp s =
     InitiateBuy (tb_pool (sc_bucket s)) (buy_amount env s) (sb_tier (sc_breakdown s))
       (case pi_dev_stats inp of Some st \<Rightarrow> DevStats st | None \<Rightarrow> TraderStats)
       (Some (pi_dev inp)) (sc_early s)
       (Some ((learning_snap env inp s)
          \<lparr>first_seen_mcap_sol := Some (tf_initial_mcap_sol (sc_features s)),
           discovery_to_buy_ms := Some (se_elapsed_ms env)\<rparr>))"

definition dispatch_stage ::
  "scoring_config \<Rightarrow> bool \<Rightarrow> score_env \<Rightarrow> pipeline_input \<Rightarrow> scored \<Rightarrow> pipeline_effect list outcome" where
  "dispatch_stage cfg live env inp s =
     (if buy_amount env s \<le> F64_EPSILON
      then Inr (log_skipped env ''size_zero'' ''operator_cap'' (learning_snap env inp s))
      else bind_outcome (if live then confirm_stage cfg env s else Inr None) (\<lambda>skip.
        case skip of
          Some (m, stg, reason) \<Rightarrow> Inr (Metric m # log_skipped env stg reason (learning_snap env inp s))
        | None \<Rightarrow> Inr [ScoreDone (pi_mint inp), Signal (buy_signal env inp s), Metric PositionInitiated]))"

definition run_scoring_and_buy ::
  "scoring_config \<Rightarrow> bool \<Rightarrow> score_env \<Rightarrow> pipeline_input \<Rightarrow> pipeline_effect list outcome" where
  "run_scoring_and_buy cfg live env inp =
     bind_outcome (score_stage cfg env inp) (\<lambda>s.
       let pre = (if pi_from_fresh_watchlist inp then [Metric PassedFilter] else []);
           tr = sb_tier (sc_breakdown s)
       in if tr = Skip then
            (case skip_label cfg s of (stg, reason) \<Rightarrow>
               Inr (pre @ Metric ScoreSkip # log_skipped env stg reason (learning_snap env inp s)))
          else
            let logs = (if live then override_logs env inp s else [])
            in case (if live then live_gate cfg inp s else None) of
                 Some r \<Rightarrow> Inr (pre @ logs @ gate_effects env inp s r)
               | None \<Rightarrow>
                   bind_outcome (dispatch_stage cfg live env inp s) (\<lambda>es.
                     Inr (pre @ logs @ tier_metric tr @ es)))"

end
