(* ===== verification/Score_Laws.thy ===== *)
theory Score_Laws
  imports Score_Buy
begin

text \<open>
  What the score engine guarantees: the total is the sum of the listed items, in 32 bits; every rule
  contributes once; with the shipped weights the total stays between -25 and 18, so it never wraps;
  tier B and the tiers A and A+ exclude each other by the history of the developer.
\<close>

section \<open>Rules that fired\<close>

definition fired :: "rule list \<Rightarrow> score_items" where
  "fired rs = filter (\<lambda>(n, p). p \<noteq> 0) (List.map_filter id rs)"

lemma fired_simps [simp]:
  "fired [] = []" "fired (None # rs) = fired rs"
  "fired (Some (n, p) # rs) = (if p = 0 then fired rs else (n, p) # fired rs)"
  by (simp_all add: fired_def map_filter_simps)

lemma run_rule_simps [simp]:
  "run_rule s None = s"
  "run_rule (wrap_i32 k, items) (Some (n, p)) =
     (if p = 0 then (wrap_i32 k, items) else (wrap_i32 (k + p), items @ [(n, p)]))"
  by (simp_all add: run_rule_def add_points_def wrap_i32_add)

lemma foldl_run_rule:
  "foldl run_rule (wrap_i32 k, items) rs =
     (wrap_i32 (k + sum_list (map snd (fired rs))), items @ fired rs)"
proof (induction rs arbitrary: k items)
  case (Cons r rs)
  then show ?case by (cases r) (auto simp: add.assoc)
qed simp

lemma wrap_i32_0 [simp]: "wrap_i32 0 = 0"
  by (simp add: wrap_i32_def)

lemma score_rules_eq:
  "score_rules rs = (wrap_i32 (sum_list (map snd (fired rs))), fired rs)"
  using foldl_run_rule[of 0 "[]" rs] by (simp add: score_rules_def)

text \<open>Each rule may fire under the names of its own group; groups that share no name keep items apart.\<close>

definition named_by :: "rule \<Rightarrow> string list \<Rightarrow> bool" where
  "named_by r ns \<longleftrightarrow> (\<forall>n p. r = Some (n, p) \<longrightarrow> n \<in> set ns)"

lemma fired_Cons:
  "set (map fst (fired (r # rs))) \<subseteq> fst ` set_option r \<union> set (map fst (fired rs))"
  by (cases r) (auto split: if_splits)

lemma named_by_iff: "named_by r ns \<longleftrightarrow> fst ` set_option r \<subseteq> set ns"
  by (auto simp: named_by_def)

lemma fired_names: "list_all2 named_by rs nss \<Longrightarrow> set (map fst (fired rs)) \<subseteq> set (concat nss)"
proof (induction rule: list_all2_induct)
  case (Cons r rs ns nss)
  have "set (map fst (fired (r # rs))) \<subseteq> fst ` set_option r \<union> set (map fst (fired rs))"
    by (rule fired_Cons)
  also have "\<dots> \<subseteq> set ns \<union> set (concat nss)" using Cons by (intro Un_mono) (simp_all add: named_by_iff)
  finally show ?case by simp
qed simp

lemma fired_distinct:
  "list_all2 named_by rs nss \<Longrightarrow> distinct (concat nss) \<Longrightarrow> distinct (map fst (fired rs))"
proof (induction rule: list_all2_induct)
  case (Cons r rs ns nss)
  then have "set (map fst (fired rs)) \<subseteq> set (concat nss)" by (intro fired_names)
  moreover have "n \<notin> set (map fst (fired rs))" if "n \<in> set ns" for n
    using calculation Cons.prems that by auto
  ultimately show ?case using Cons by (cases r) (auto simp: named_by_def)
qed simp

definition bounded_by :: "rule \<Rightarrow> int \<times> int \<Rightarrow> bool" where
  "bounded_by r b \<longleftrightarrow> fst b \<le> 0 \<and> 0 \<le> snd b \<and> (\<forall>n p. r = Some (n, p) \<longrightarrow> fst b \<le> p \<and> p \<le> snd b)"

lemma fired_bounds:
  "list_all2 bounded_by rs bs \<Longrightarrow>
     sum_list (map fst bs) \<le> sum_list (map snd (fired rs)) \<and>
     sum_list (map snd (fired rs)) \<le> sum_list (map snd bs)"
proof (induction rule: list_all2_induct)
  case (Cons r rs b bs)
  then show ?case by (cases r) (force simp: bounded_by_def split: if_splits)+
qed simp

section \<open>The rules of both engines\<close>

definition engine_rules :: "scoring_config \<Rightarrow> feature_thresholds \<Rightarrow> token_features \<Rightarrow> rule list" where
  "engine_rules cfg t f = (if legacy_scoring cfg then rules_legacy cfg f else rules_v2 cfg t f)"

lemma score_token_eq:
  "score_token cfg f t = finish_breakdown cfg f (score_rules (engine_rules cfg t f))"
  by (simp add: score_token_def score_legacy_def score_v2_def engine_rules_def)

lemma finish_breakdown_simps [simp]:
  "sb_total (finish_breakdown cfg f s) = fst s" "sb_items (finish_breakdown cfg f s) = snd s"
  by (simp_all add: finish_breakdown_def Let_def)

lemmas rule_defs = rule_spam_def rule_history_def rule_ranker_def rule_smart_def rule_buyers_def
  rule_ratio_def rule_momentum_legacy_def rule_momentum_v2_def rule_volume_def rule_bundle_legacy_def
  rule_bundle_v2_def rule_velocity_def rule_pressure_def rule_absorb_def rule_smart_exit_def rule_dump_def

definition rule_names :: "string list list" where
  "rule_names =
     [[''spam_dev_penalty''], [''dev_history_strong'', ''dev_history_weak''],
      [''dev_ranker_a_plus'', ''dev_ranker_a'', ''dev_ranker_bad''],
      [''smart_wallets_3plus'', ''smart_wallets_1plus''],
      [''buyers_10plus'', ''buyers_6plus'', ''buyers_below_3''], [''buy_to_sell_ratio_high''],
      [''momentum_overheated'', ''momentum_good''], [''volume_ok''],
      [''bundle_identical'', ''bundle_similar''],
      [''buyer_velocity_persistent'', ''buyer_velocity_fading''], [''sell_pressure_high''],
      [''absorb_strong''], [''smart_early_exit_dump''], [''repeat_dump_cluster'']]"

lemma rules_named:
  "named_by (rule_spam cfg f) [''spam_dev_penalty'']"
  "named_by (rule_history w t f) [''dev_history_strong'', ''dev_history_weak'']"
  "named_by (rule_ranker w f) [''dev_ranker_a_plus'', ''dev_ranker_a'', ''dev_ranker_bad'']"
  "named_by (rule_smart w t f) [''smart_wallets_3plus'', ''smart_wallets_1plus'']"
  "named_by (rule_buyers w t f) [''buyers_10plus'', ''buyers_6plus'', ''buyers_below_3'']"
  "named_by (rule_ratio cfg t f) [''buy_to_sell_ratio_high'']"
  "named_by (rule_momentum_legacy w t f) [''momentum_overheated'', ''momentum_good'']"
  "named_by (rule_momentum_v2 w t f) [''momentum_overheated'', ''momentum_good'']"
  "named_by (rule_volume w t f) [''volume_ok'']"
  "named_by (rule_bundle_legacy w t f) [''bundle_identical'', ''bundle_similar'']"
  "named_by (rule_bundle_v2 w t f) [''bundle_identical'', ''bundle_similar'']"
  "named_by (rule_velocity ar w f) [''buyer_velocity_persistent'', ''buyer_velocity_fading'']"
  "named_by (rule_pressure w f) [''sell_pressure_high'']"
  "named_by (rule_absorb ar w f) [''absorb_strong'']"
  "named_by (rule_smart_exit w f) [''smart_early_exit_dump'']"
  "named_by (rule_dump w f) [''repeat_dump_cluster'']"
  unfolding named_by_def rule_defs Let_def
  by (auto split: if_splits dev_category.splits)

lemma engine_rules_named: "list_all2 named_by (engine_rules cfg t f) rule_names"
  by (simp add: engine_rules_def rules_legacy_def rules_v2_def early_tape_rules_def rule_names_def
      Let_def rules_named)

lemma rule_names_distinct: "distinct (concat rule_names)"
  by (simp add: rule_names_def)

lemma score_token_items:
  "sb_items (score_token cfg f t) = fired (engine_rules cfg t f)"
  "sb_total (score_token cfg f t) = wrap_i32 (sum_list (map snd (sb_items (score_token cfg f t))))"
  by (simp_all add: score_token_eq score_rules_eq)

lemma fired_comprehension: "fired rs = [(name, points). Some (name, points) \<leftarrow> rs, points \<noteq> 0]"
proof (induction rs)
  case (Cons r rs)
  then show ?case by (cases r) (auto simp: split_def)
qed simp

text \<open>C13. The breakdown explains the score, for both engines: the items are the rules of the engine that hold with
  points other than zero, in this order (the two engines differ in the momentum, the bundle and the
  thresholds), the total is the sum of their points, wrapped to 32 bits, and no rule is listed twice.\<close>

lemma score_is_sum_of_items:
  "let w = sc_weights cfg; ar = anti_rug cfg; legacy = legacy_scoring cfg;
       th = (if legacy then sc_thresholds cfg else t);
       rules = [rule_spam cfg f, rule_history w th f, rule_ranker w f, rule_smart w th f, rule_buyers w th f,
         rule_ratio cfg th f, if legacy then rule_momentum_legacy w th f else rule_momentum_v2 w th f,
         rule_volume w th f, if legacy then rule_bundle_legacy w th f else rule_bundle_v2 w th f,
         rule_velocity ar w f, rule_pressure w f, rule_absorb ar w f, rule_smart_exit w f, rule_dump w f]
   in sb_items (score_token cfg f t) = [(name, points). Some (name, points) \<leftarrow> rules, points \<noteq> 0]
    \<and> sb_total (score_token cfg f t) = wrap_i32 (sum_list (map snd (sb_items (score_token cfg f t))))
    \<and> distinct (map fst (sb_items (score_token cfg f t)))"
proof -
  have rules: "engine_rules cfg t f = (let w = sc_weights cfg; ar = anti_rug cfg; legacy = legacy_scoring cfg;
       th = (if legacy then sc_thresholds cfg else t)
     in [rule_spam cfg f, rule_history w th f, rule_ranker w f, rule_smart w th f, rule_buyers w th f,
         rule_ratio cfg th f, if legacy then rule_momentum_legacy w th f else rule_momentum_v2 w th f,
         rule_volume w th f, if legacy then rule_bundle_legacy w th f else rule_bundle_v2 w th f,
         rule_velocity ar w f, rule_pressure w f, rule_absorb ar w f, rule_smart_exit w f, rule_dump w f])"
    by (simp add: engine_rules_def rules_legacy_def rules_v2_def early_tape_rules_def Let_def)
  have "distinct (map fst (sb_items (score_token cfg f t)))"
    using fired_distinct[OF engine_rules_named rule_names_distinct] by (simp add: score_token_items(1))
  moreover have "sb_items (score_token cfg f t)
      = [(name, points). Some (name, points) \<leftarrow> engine_rules cfg t f, points \<noteq> 0]"
    by (simp add: score_token_items(1) fired_comprehension)
  ultimately show ?thesis using score_token_items(2)[of cfg f t] unfolding rules Let_def by blast
qed

section \<open>Bounds with the shipped weights\<close>

definition default_bounds :: "(int \<times> int) list" where
  "default_bounds =
     [(- 3, 0), (0, 2), (- 3, 3), (0, 4), (- 2, 2), (0, 1), (- 3, 2), (0, 1), (- 5, 0), (- 2, 1),
      (- 2, 0), (0, 2), (- 2, 0), (- 3, 0)]"

definition ships_weights :: "scoring_config \<Rightarrow> bool" where
  "ships_weights cfg \<longleftrightarrow> sc_weights cfg = weights_default \<and> spam_dev_penalty cfg = - 3"

lemma rules_bounded:
  assumes "ships_weights cfg"
  defines "w \<equiv> weights_default"
  shows
    "bounded_by (rule_spam cfg f) (- 3, 0)" "bounded_by (rule_history w t f) (0, 2)"
    "bounded_by (rule_ranker w f) (- 3, 3)" "bounded_by (rule_smart w t f) (0, 4)"
    "bounded_by (rule_buyers w t f) (- 2, 2)" "bounded_by (rule_ratio cfg t f) (0, 1)"
    "bounded_by (rule_momentum_legacy w t f) (- 3, 2)" "bounded_by (rule_momentum_v2 w t f) (- 3, 2)"
    "bounded_by (rule_volume w t f) (0, 1)" "bounded_by (rule_bundle_legacy w t f) (- 5, 0)"
    "bounded_by (rule_bundle_v2 w t f) (- 5, 0)" "bounded_by (rule_velocity ar w f) (- 2, 1)"
    "bounded_by (rule_pressure w f) (- 2, 0)" "bounded_by (rule_absorb ar w f) (0, 2)"
    "bounded_by (rule_smart_exit w f) (- 2, 0)" "bounded_by (rule_dump w f) (- 3, 0)"
  using assms(1) unfolding bounded_by_def rule_defs Let_def w_def
  by (auto simp: ships_weights_def weights_default_def saturating_mul_i32_def half_i32_def
      split: if_splits dev_category.splits)

lemma engine_rules_bounded:
  "ships_weights cfg \<Longrightarrow> list_all2 bounded_by (engine_rules cfg t f) default_bounds"
  using rules_bounded[of cfg]
  by (simp add: engine_rules_def rules_legacy_def rules_v2_def early_tape_rules_def default_bounds_def
      Let_def ships_weights_def)

text \<open>With the shipped weights the score of every token lies between -25 and 18: the total is the
  exact sum of its items and 32-bit arithmetic never wraps.\<close>

lemma shipped_score_bounds:
  assumes "ships_weights cfg"
  shows "sb_total (score_token cfg f t) = sum_list (map snd (sb_items (score_token cfg f t)))
    \<and> - 25 \<le> sb_total (score_token cfg f t) \<and> sb_total (score_token cfg f t) \<le> 18"
proof -
  let ?S = "sum_list (map snd (sb_items (score_token cfg f t)))"
  have S: "- 25 \<le> ?S" "?S \<le> 18"
    using fired_bounds[OF engine_rules_bounded[OF assms, of t f]]
    by (simp_all add: score_token_items(1) default_bounds_def)
  then have "wrap_i32 ?S = ?S" by (intro wrap_i32_id) (simp add: is_i32_def)
  then show ?thesis using S by (simp add: score_token_items(2))
qed

lemma shipped_score_bounds_witness:
  "\<forall>f. - 25 \<le> sb_total (score_token scoring_default f thresholds_default)
     \<and> sb_total (score_token scoring_default f thresholds_default) \<le> 18"
proof -
  have "ships_weights scoring_default" by (simp add: ships_weights_def scoring_default_def)
  then show ?thesis using shipped_score_bounds[of scoring_default] by blast
qed

section \<open>Tiers\<close>

definition plain_tier :: "scoring_config \<Rightarrow> token_features \<Rightarrow> int \<Rightarrow> tier" where
  "plain_tier cfg f tot =
     (if tot < min (a_threshold cfg) (a_plus_threshold cfg) then Skip
      else if tot < a_plus_threshold cfg then A
      else if ar_enabled (anti_rug cfg) \<and> tf_peak_mcap_sol f < low_mcap_peak_sol (anti_rug cfg)
              \<and> tf_buy_volume_sol f < low_mcap_min_buy_volume_sol (anti_rug cfg) then A
      else APlus)"

lemma capped_tier: "cap_tier_for_low_mcap f (anti_rug cfg) (tier_of_total cfg tot) = plain_tier cfg f tot"
  by (auto simp: cap_tier_for_low_mcap_def tier_of_total_def plain_tier_def)

lemma sb_tier_eq:
  "sb_tier (score_token cfg f t) =
     (let items = sb_items (score_token cfg f t) in
      if tier_b_dev_eligible f (tier_b cfg)
      then (if tier_b_poll_passes (evaluate_tier_b_poll (tier_b cfg) f items) then B else Skip)
      else plain_tier cfg f (sb_total (score_token cfg f t)))"
  by (simp add: score_token_eq finish_breakdown_def Let_def capped_tier evaluate_tier_b_poll_def
      tier_b_poll_passes_def)

lemma sb_size_eq:
  "sb_recommended_size_sol (score_token cfg f t) = tier_sol (sc_size cfg) (sb_tier (score_token cfg f t))"
  by (simp add: score_token_eq finish_breakdown_def Let_def)

text \<open>A developer without history is scored in tier B or not at all, exactly by the poll of its gates;
  every other token in A+, A or not at all, exactly by its total and the cap of thin pumps; and the
  recommended size is the one of the tier.\<close>

lemma tier_is_decided:
  "(let bd = score_token cfg f t in
      sb_recommended_size_sol bd = tier_sol (sc_size cfg) (sb_tier bd) \<and>
      (if tier_b_dev_eligible f (tier_b cfg)
       then sb_tier bd = (if tier_b_poll_passes (evaluate_tier_b_poll (tier_b cfg) f (sb_items bd)) then B else Skip)
       else sb_tier bd = plain_tier cfg f (sb_total bd)))"
  by (simp add: Let_def sb_tier_eq sb_size_eq)

end
