(* ===== verification/Feature_Laws.thy ===== *)
theory Feature_Laws
  imports Score_Buy "HOL-Library.Multiset"
begin

text \<open>
  What the feature snapshot guarantees: coordinated buys of one size are reported, the two sweeps of a
  swarm agree, the live observer differs from the plain one in the market caps only, its points are the
  samples of the buckets it fetched, and the tape scores stay in the unit interval.
\<close>

section \<open>Bundles\<close>

lemma map_of_bucket_fold:
  "map_of (foldl (\<lambda>m s. upsert (size_key s) 0 Suc m) m xs) k =
     (let c = length (filter (\<lambda>s. size_key s = k) xs)
      in if c = 0 then map_of m k else Some (c + (case map_of m k of Some n \<Rightarrow> n | None \<Rightarrow> 0)))"
proof (induction xs arbitrary: m)
  case (Cons x xs)
  then show ?case by (auto simp: map_of_upsert Let_def)
qed simp

lemma size_buckets_count:
  assumes "s \<in> set xs"
  shows "map_of (size_buckets xs) (size_key s) = Some (length (filter (\<lambda>u. size_key u = size_key s) xs))"
proof -
  have "filter (\<lambda>u. size_key u = size_key s) xs \<noteq> []" using assms by (auto simp: filter_empty_conv)
  then show ?thesis by (simp add: size_buckets_def map_of_bucket_fold Let_def)
qed

lemma foldr_max_ge: "x \<in> set xs \<Longrightarrow> x \<le> foldr max xs (0::nat)"
  by (induction xs) auto

lemma count_le_identical:
  assumes "s \<in> set xs"
  shows "length (filter (\<lambda>u. u = s) xs) \<le> foldr max (map snd (size_buckets xs)) 0"
proof -
  have "length (filter (\<lambda>u. u = s) xs) \<le> length (filter (\<lambda>u. size_key u = size_key s) xs)"
    by (induction xs) auto
  also have "\<dots> \<le> foldr max (map snd (size_buckets xs)) 0"
    using map_of_SomeD[OF size_buckets_count[OF assms]] by (intro foldr_max_ge) force
  finally show ?thesis .
qed

lemma f64_grows:
  assumes "f64_of q = Fin q" "0 < q" "1 \<le> c" shows "Fin q \<le> Fin q * c"
proof (cases c)
  case (Fin r)
  then have "1 \<le> r" using assms(3) by (simp add: one_f64_def)
  then have "f64_of q \<le> f64_of (q * r)" using assms(2) by (intro f64_of_mono) simp
  then show ?thesis using Fin assms(1) by simp
qed (use assms in \<open>auto simp: times_f64_def signed_inf_def one_f64_def\<close>)

lemma tolerance_band:
  assumes "0 \<le> tol" "tol \<le> 1" "f64_of q = Fin q" "0 < q"
  shows "Fin q * (1 - tol) \<le> Fin q" "Fin q \<le> Fin q * (1 + tol)"
proof -
  obtain r where r: "tol = Fin r" "0 \<le> r" "r \<le> 1"
    using assms(1,2) by (cases tol) (auto simp: zero_f64_def one_f64_def)
  have "0 \<le> f64_of (1 - r)" using r by (intro f64_of_nonneg) simp
  moreover have "f64_of (1 - r) \<le> f64_of 1" using r by (intro f64_of_mono) simp
  ultimately have "0 \<le> 1 - tol" "1 - tol \<le> 1" by (simp_all add: r one_f64_def)
  then show "Fin q * (1 - tol) \<le> Fin q" using assms by (intro f64_shrinks)
  have "f64_of 1 \<le> f64_of (1 + r)" using r by (intro f64_of_mono) simp
  then have "1 \<le> 1 + tol" by (simp add: r one_f64_def)
  then show "Fin q \<le> Fin q * (1 + tol)" using assms by (intro f64_grows)
qed

lemma ratio_mono:
  assumes "k \<le> j" "0 < n" "n \<le> 2 ^ 53" shows "nat_to_f64 k / nat_to_f64 n \<le> nat_to_f64 j / nat_to_f64 n"
proof -
  have n: "nat_to_f64 n = Fin (of_nat n)" using assms(3) by (simp add: nat_to_f64_def f64_of_nat)
  have "nat_to_f64 k \<le> nat_to_f64 j" using assms(1) by (simp add: nat_to_f64_def f64_of_mono)
  then show ?thesis using assms(2) by (intro f64_divide_mono) (simp_all add: n is_finite_def zero_f64_def)
qed

text \<open>Coordinated buys are reported: when more than half of the wallets (at least three, all with
  finite sizes) bought exactly the same size, the median is that size and both bundle ratios are at
  least their share, for every tolerance between 0 and 1.\<close>

theorem equal_buys_are_bundled:
  assumes fin: "\<forall>s \<in> set buys. is_finite s \<and> 0 < s" and n: "3 \<le> length buys" "length buys \<le> 2 ^ 53"
    and tol: "0 \<le> tol" "tol \<le> 1" and q: "f64_of q = Fin q"
    and maj: "length buys < 2 * length (filter (\<lambda>s. s = Fin q) buys)"
  shows "let st = compute_bundle_stats buys tol;
             share = nat_to_f64 (length (filter (\<lambda>s. s = Fin q) buys)) / nat_to_f64 (length buys)
         in median_size_sol st = Fin q \<and> share \<le> similar_size_ratio st \<and> share \<le> identical_size_ratio st"
proof -
  let ?k = "length (filter (\<lambda>s. s = Fin q) buys)"
  have "\<forall>s \<in> set buys. is_finite s" using fin by simp
  then obtain qs where qs: "buys = map Fin qs" by (rule all_finite_map)
  define sizes where "sizes = f64_sort buys"
  have sizes: "sizes = map Fin (sort qs)" by (simp add: sizes_def qs f64_sort_Fin)
  have mem: "mset sizes = mset buys" by (simp add: sizes qs)
  have len: "length sizes = length buys" by (simp add: sizes qs)
  have k: "length (filter (\<lambda>s. s = Fin q) sizes) = ?k"
    using arg_cong[OF mem, of "\<lambda>m. size (filter_mset (\<lambda>s. s = Fin q) m)"] by (simp flip: mset_filter)
  have kq: "?k = length (filter (\<lambda>x. q \<le> x \<and> x \<le> q) qs)"
    by (simp add: qs filter_map comp_def order_eq_iff[of _ q] conj_commute)
  have "q \<le> sort qs ! (length qs div 2) \<and> sort qs ! (length qs div 2) \<le> q"
    using maj unfolding kq by (intro sort_middle_in_majority) (simp add: qs)
  then have med: "sizes ! (length sizes div 2) = Fin q" using n by (simp add: sizes qs)
  have "filter (\<lambda>s. s = Fin q) sizes \<noteq> []" using maj k by auto
  then have inq: "Fin q \<in> set sizes" by (auto simp: filter_empty_conv)
  then have "Fin q \<in> set buys" using mem by (metis set_mset_mset)
  then have q0: "0 < q" using fin by (auto simp: zero_f64_def)
  have all_pos: "filter (\<lambda>s. 0 < s) buys = buys" using fin by (simp add: filter_id_conv)
  have sim: "?k \<le> similar_count tol (Fin q) sizes"
    using tolerance_band[OF tol q q0] q0
    by (auto simp: similar_count_def Let_def zero_f64_def simp flip: k intro!: length_filter_mono)
  have idn: "?k \<le> foldr max (map snd (size_buckets sizes)) 0"
    using count_le_identical[OF inq] k by simp
  have st: "compute_bundle_stats buys tol =
     \<lparr>similar_size_ratio = nat_to_f64 (similar_count tol (Fin q) sizes) / nat_to_f64 (length buys),
      identical_size_ratio = nat_to_f64 (foldr max (map snd (size_buckets sizes)) 0) / nat_to_f64 (length buys),
      median_size_sol = Fin q, max_size_sol = last sizes\<rparr>"
    using n med by (simp add: compute_bundle_stats_def all_pos Let_def len flip: sizes_def)
  show ?thesis using n sim idn by (auto simp: st Let_def intro!: ratio_mono)
qed

lemma equal_buys_are_bundled_witness:
  "let st = compute_bundle_stats [Fin 2, Fin 1, Fin 1] (Fin 0)
   in median_size_sol st = Fin 1 \<and> nat_to_f64 2 / nat_to_f64 3 \<le> identical_size_ratio st"
proof -
  let ?b = "[Fin 2, Fin 1, Fin 1]"
  have n: "length (filter (\<lambda>s. s = Fin 1) ?b) = 2" "length ?b = 3" by simp_all
  have "let st = compute_bundle_stats ?b (Fin 0);
            share = nat_to_f64 (length (filter (\<lambda>s. s = Fin 1) ?b)) / nat_to_f64 (length ?b)
        in median_size_sol st = Fin 1 \<and> share \<le> similar_size_ratio st \<and> share \<le> identical_size_ratio st"
    by (rule equal_buys_are_bundled) (simp_all add: is_finite_def zero_f64_def one_f64_def)
  then show ?thesis unfolding n Let_def by blast
qed

section \<open>The sweeps of a swarm agree\<close>

definition same_scan :: "early_tape_point \<Rightarrow> buyer_scan \<Rightarrow> bool" where
  "same_scan p s \<longleftrightarrow> tp_still_long p = bs_still_long s \<and> tp_already_sold p = bs_already_sold s
     \<and> tp_buy_volume_sol p = bs_total_volume_sol s"

lemma same_scan_step: "same_scan p s \<Longrightarrow> same_scan (scan_trader p t) (push_buyer s t)"
  by (simp add: same_scan_def scan_trader_def push_buyer_def Let_def)

lemma same_scan_fold: "same_scan p s \<Longrightarrow> same_scan (foldl scan_trader p ts) (foldl push_buyer s ts)"
  by (induction ts arbitrary: p s) (simp_all add: same_scan_step)

lemma sizes_of_scan:
  "bs_buy_sizes_sol (foldl push_buyer s ts) =
     bs_buy_sizes_sol s @ filter (\<lambda>x. 0 < x) (map (amount_to_float \<circ> total_spent) ts)"
  by (induction ts arbitrary: s) (simp_all add: push_buyer_def Let_def)

lemma snapshot_early_tape_Inr:
  "snapshot_early_tape b = Inr p \<longleftrightarrow>
     (\<exists>m. pool_mcap_sol (tb_pool b) = Inr m \<and>
       p = (foldl scan_trader tape_point_zero (map snd (participants b)))
         \<lparr>tp_buyer_count := of_nat (length (participants b)), tp_mcap_sol := m\<rparr>)"
  by (auto simp: snapshot_early_tape_def Let_def bind_outcome_Inr_iff participants_def)

lemma snapshot_returns:
  assumes "pool_tokens (tb_pool b) \<noteq> 0" shows "\<exists>p. snapshot_early_tape b = Inr p"
  using pool_mcap_sol_sane[OF assms] by (auto simp: snapshot_early_tape_Inr)

definition sample_bucket :: token_bucket where
  "sample_bucket =
     \<lparr>tb_pool = demo_pool,
      tb_swarm = (swarm_new (amount_from_raw 1000000000 6) 6 9)
        \<lparr>traders := [(21, (trader_empty Regular 6 9)\<lparr>current_holdings := amount_from_raw 5 6\<rparr>),
                     (22, trader_empty Creator 6 9), (23, trader_empty Sniper 6 9)]\<rparr>,
      tb_created_at = 0\<rparr>"

lemma sample_bucket_tokens: "pool_tokens (tb_pool sample_bucket) \<noteq> 0"
  by (simp add: sample_bucket_def pool_tokens_def demo_pool_def bonding_new_def amount_from_raw_def)

text \<open>The sample of the tape and the snapshot of the early buyers count the same traders of a bucket:
  buyers, holders, sellers and volume agree, and the bundle statistics of an open position are those of
  the entry.\<close>

theorem sweeps_agree:
  assumes "snapshot_early_tape b = Inr p" "snapshot_early_buyers b tol = (buyers, scan, bundle)"
  shows "tp_still_long p = bs_still_long scan \<and> tp_already_sold p = bs_already_sold scan
    \<and> tp_buy_volume_sol p = bs_total_volume_sol scan
    \<and> tp_buyer_count p = of_nat (length (eb_all buyers))
    \<and> bundle = compute_bundle_stats
        (filter (\<lambda>s. 0 < s) (map (amount_to_float \<circ> total_spent \<circ> snd) (participants b))) tol"
proof -
  obtain m where p: "p = (foldl scan_trader tape_point_zero (map snd (participants b)))
      \<lparr>tp_buyer_count := of_nat (length (participants b)), tp_mcap_sol := m\<rparr>"
    using assms(1) by (auto simp: snapshot_early_tape_Inr)
  have scan: "scan = scan_buyers b"
    and buyers: "eb_all buyers = map fst (participants b)"
    and bun: "bundle = compute_bundle_stats (bs_buy_sizes_sol scan) tol"
    using assms(2) by (auto simp: snapshot_early_buyers_def Let_def eb_all_def participants_def)
  have "same_scan (foldl scan_trader tape_point_zero (map snd (participants b))) scan"
    unfolding scan scan_buyers_def participants_def map_append
    by (rule same_scan_fold) (simp add: same_scan_def tape_point_zero_def)
  moreover have "bs_buy_sizes_sol scan =
      filter (\<lambda>s. 0 < s) (map (amount_to_float \<circ> total_spent \<circ> snd) (participants b))"
    by (simp add: scan scan_buyers_def sizes_of_scan participants_def comp_assoc)
  ultimately show ?thesis by (simp add: p same_scan_def buyers bun)
qed

lemma sweeps_agree_witness:
  "\<exists>p. snapshot_early_tape sample_bucket = Inr p \<and>
     tp_still_long p = bs_still_long (scan_buyers sample_bucket) \<and>
     tp_buyer_count p = of_nat (length (eb_all (fst (snapshot_early_buyers sample_bucket (Fin 0)))))"
proof -
  obtain p where p: "snapshot_early_tape sample_bucket = Inr p"
    using snapshot_returns[OF sample_bucket_tokens] by blast
  obtain buyers scan bun where s: "snapshot_early_buyers sample_bucket (Fin 0) = (buyers, scan, bun)"
    by (cases "snapshot_early_buyers sample_bucket (Fin 0)")
  then have "scan = scan_buyers sample_bucket" by (simp add: snapshot_early_buyers_def Let_def)
  then show ?thesis using sweeps_agree[OF p s] p s by simp
qed

section \<open>The live observer\<close>

text \<open>What both observers collect when every sample is answered: the samples, as the window spaces them.\<close>

definition collected :: "(nat \<Rightarrow> early_tape_point outcome) \<Rightarrow> u64 \<Rightarrow> nat \<Rightarrow> early_tape_point list outcome" where
  "collected sample w n =
     (let s = of_nat (max n 1) :: u64
      in if s \<le> 1 then bind_outcome (sample 0) (\<lambda>p. Inr [p])
         else bind_outcome (sample_points sample (unat s) 0) (\<lambda>out.
           if window_left (max w 1) s then bind_outcome (sample (unat s)) (\<lambda>p. Inr (butlast out @ [p]))
           else Inr out))"

lemma plain_collects:
  "observe_early_tape_points b swarm w n = collected (\<lambda>k. snapshot_early_tape (b\<lparr>tb_swarm := swarm k\<rparr>)) w n"
  by (simp only: observe_early_tape_points_def collected_def Let_def)

lemma observe_slices_plain:
  "bind_outcome (observe_slices (\<lambda>k. Some (bucket k)) None n i (out, ini, pk, lb))
     (\<lambda>r. case r of Inl res \<Rightarrow> F res | Inr (out', _, _, lb') \<Rightarrow> G out' lb')
   = bind_outcome (sample_points (\<lambda>k. snapshot_early_tape (bucket k)) n i)
       (\<lambda>ps. G (out @ ps) (if n = 0 then lb else Some (bucket (i + n - 1))))"
proof (induction n arbitrary: i out ini pk lb)
  case (Suc n)
  show ?case
  proof (cases "snapshot_early_tape (bucket i)")
    case (Inr p)
    show ?thesis
      using Suc.IH[of "Suc i" "out @ [p]" "if out = [] then tp_mcap_sol p else ini"
          "if out = [] then tp_mcap_sol p else f64_max pk (tp_mcap_sol p)" "Some (bucket i)"]
      by (cases "sample_points (\<lambda>k. snapshot_early_tape (bucket k)) n (Suc i)") (simp_all add: Inr Let_def)
  qed simp
qed simp

definition last_fetch :: "u64 \<Rightarrow> nat \<Rightarrow> nat" where
  "last_fetch w n =
     (let s = of_nat (max n 1) :: u64
      in if s \<le> 1 then 0 else if window_left (max w 1) s then unat s else unat s - 1)"

lemma observer_unfold:
  assumes "s = (of_nat (max n 1) :: u64)"
  shows "observe_early_tape_points_live fetch w n low =
      (if s \<le> 1 then
         (case fetch 0 of
            Some b \<Rightarrow> bind_outcome (snapshot_early_tape b) (\<lambda>p. Inr (finalize_tape_observe [p] False (Some b)))
          | None \<Rightarrow> Inr (finalize_tape_observe [] False None))
       else bind_outcome (observe_slices fetch low (unat s) 0 ([], 0, 0, None)) (\<lambda>r.
         case r of Inl res \<Rightarrow> Inr res | Inr st \<Rightarrow> observe_end fetch low (max w 1) s st))"
    and "collected sample w n =
      (if s \<le> 1 then bind_outcome (sample 0) (\<lambda>p. Inr [p])
       else bind_outcome (sample_points sample (unat s) 0) (\<lambda>out.
         if window_left (max w 1) s then bind_outcome (sample (unat s)) (\<lambda>p. Inr (butlast out @ [p]))
         else Inr out))"
    and "last_fetch w n =
      (if s \<le> 1 then 0 else if window_left (max w 1) s then unat s else unat s - 1)"
  unfolding assms
  by (simp_all only: observe_early_tape_points_live_def collected_def last_fetch_def Let_def)

lemma observe_end_None:
  "observe_end (\<lambda>k. Some (bucket k)) None w s (out, ini, pk, lb) =
     (if window_left w s
      then bind_outcome (snapshot_early_tape (bucket (unat s)))
             (\<lambda>p. Inr (finalize_tape_observe (butlast out @ [p]) False (Some (bucket (unat s)))))
      else Inr (finalize_tape_observe out False lb))"
  by (cases "snapshot_early_tape (bucket (unat s))") (auto simp: observe_end_def mark_exit_def)

lemma live_collects:
  "observe_early_tape_points_live (\<lambda>k. Some (bucket k)) w n None =
     bind_outcome (collected (\<lambda>k. snapshot_early_tape (bucket k)) w n)
       (\<lambda>ps. Inr (finalize_tape_observe ps False (Some (bucket (last_fetch w n)))))"
proof -
  define s where "s = (of_nat (max n 1) :: u64)"
  let ?sample = "\<lambda>k. snapshot_early_tape (bucket k)"
  note unfolded = observer_unfold[OF s_def]
  show ?thesis
  proof (cases "s \<le> 1")
    case True
    then show ?thesis by (cases "snapshot_early_tape (bucket 0)") (simp_all add: unfolded)
  next
    case False
    then have s0: "unat s \<noteq> 0" by (auto simp: unat_eq_zero)
    let ?G = "\<lambda>out lb. observe_end (\<lambda>k. Some (bucket k)) None (max w 1) s (out, 0, 0, lb)"
    have "observe_early_tape_points_live (\<lambda>k. Some (bucket k)) w n None =
        bind_outcome (observe_slices (\<lambda>k. Some (bucket k)) None (unat s) 0 ([], 0, 0, None))
          (\<lambda>r. case r of Inl res \<Rightarrow> Inr res | Inr (out', _, _, lb') \<Rightarrow> ?G out' lb')"
      using False
      by (auto simp: unfolded observe_end_None intro!: arg_cong[where f = "bind_outcome _"] ext
          split: sum.splits)
    also have "\<dots> = bind_outcome (sample_points ?sample (unat s) 0)
        (\<lambda>ps. ?G ps (Some (bucket (unat s - 1))))"
      using s0 by (simp add: observe_slices_plain)
    also have "\<dots> = bind_outcome (collected ?sample w n)
       (\<lambda>ps. Inr (finalize_tape_observe ps False (Some (bucket (last_fetch w n)))))"
      using False
      by (cases "sample_points ?sample (unat s) 0"; cases "snapshot_early_tape (bucket (unat s))")
         (simp_all add: unfolded observe_end_None)
    finally show ?thesis .
  qed
qed

text \<open>Related samples are collected into related lists.\<close>

lemma sample_points_related:
  assumes "\<And>k p q. sample k = Inr p \<Longrightarrow> sample' k = Inr q \<Longrightarrow> R p q"
  shows "sample_points sample n i = Inr ps \<Longrightarrow> sample_points sample' n i = Inr qs \<Longrightarrow> list_all2 R ps qs"
  by (induction n arbitrary: i ps qs) (auto simp: bind_outcome_Inr_iff intro: assms)

lemma list_all2_butlast: "list_all2 R xs ys \<Longrightarrow> list_all2 R (butlast xs) (butlast ys)"
  by (auto simp: butlast_conv_take list_all2_lengthD intro: list_all2_takeI)

lemma collected_related:
  assumes R: "\<And>k p q. sample k = Inr p \<Longrightarrow> sample' k = Inr q \<Longrightarrow> R p q"
    and ps: "collected sample w n = Inr ps" and qs: "collected sample' w n = Inr qs"
  shows "list_all2 R ps qs"
proof -
  have rel: "list_all2 R xs ys" if "sample_points sample m 0 = Inr xs" "sample_points sample' m 0 = Inr ys" for m xs ys
    using sample_points_related[OF R that] .
  show ?thesis
    using ps qs
    by (auto simp: collected_def Let_def bind_outcome_Inr_iff
        intro!: list_all2_appendI list_all2_butlast intro: rel R split: if_splits)
qed

lemma length_sample_points: "sample_points sample n i = Inr ps \<Longrightarrow> length ps = n"
  by (induction n arbitrary: i ps) (auto simp: bind_outcome_Inr_iff)

lemma collected_not_Nil: "collected sample w n = Inr ps \<Longrightarrow> ps \<noteq> []"
  by (auto simp: collected_def Let_def bind_outcome_Inr_iff unat_eq_zero dest: length_sample_points split: if_splits)

text \<open>A sample without its market cap, which is all that the swarm determines.\<close>

definition unpriced :: "early_tape_point \<Rightarrow> early_tape_point" where
  "unpriced p = p\<lparr>tp_mcap_sol := 0\<rparr>"

lemma snapshot_parts:
  assumes "snapshot_early_tape b = Inr p"
  shows "pool_mcap_sol (tb_pool b) = Inr (tp_mcap_sol p)"
    and "snapshot_early_tape b' = Inr q \<Longrightarrow> tb_swarm b' = tb_swarm b \<Longrightarrow> unpriced q = unpriced p"
  using assms by (auto simp: snapshot_early_tape_def Let_def bind_outcome_Inr_iff unpriced_def)

text \<open>C29. The two observers differ in the market cap only: when the launchpad answers every request of the live
  observer with a bucket whose swarm is the one the plain observer watches, and no early exit is set, both
  collect the same samples up to the market cap, which is always that of the one pool for the plain
  observer and that of the pool fetched with the sample for the live one.\<close>

theorem live_observer_refines_plain:
  assumes live: "observe_early_tape_points_live (\<lambda>k. Some (b\<lparr>tb_swarm := swarm k, tb_pool := pool k\<rparr>)) w n None = Inr r"
    and plain: "observe_early_tape_points b swarm w n = Inr ps"
  shows "map unpriced (ob_points r) = map unpriced ps
    \<and> (\<forall>p \<in> set ps. pool_mcap_sol (tb_pool b) = Inr (tp_mcap_sol p))
    \<and> (\<forall>p \<in> set (ob_points r). \<exists>k. pool_mcap_sol (pool k) = Inr (tp_mcap_sol p))
    \<and> ob_current_mcap_sol r = tp_mcap_sol (last (ob_points r))
    \<and> ob_last_bucket r = Some (b\<lparr>tb_swarm := swarm (last_fetch w n), tb_pool := pool (last_fetch w n)\<rparr>)"
proof -
  let ?bucket = "\<lambda>k. b\<lparr>tb_swarm := swarm k, tb_pool := pool k\<rparr>"
  let ?live = "\<lambda>k. snapshot_early_tape (?bucket k)" and ?plain = "\<lambda>k. snapshot_early_tape (b\<lparr>tb_swarm := swarm k\<rparr>)"
  obtain qs where qs: "collected ?live w n = Inr qs"
      "r = finalize_tape_observe qs False (Some (?bucket (last_fetch w n)))"
    using live by (auto simp: live_collects bind_outcome_Inr_iff)
  have ps: "collected ?plain w n = Inr ps" using plain by (simp add: plain_collects)
  have pts: "ob_points r = qs" "ob_last_bucket r = Some (?bucket (last_fetch w n))"
    "ob_current_mcap_sol r = (if qs = [] then ob_peak_mcap_sol r else tp_mcap_sol (last qs))"
    by (simp_all add: qs(2) finalize_tape_observe_def Let_def)
  have both: "list_all2 (\<lambda>q p. unpriced q = unpriced p \<and> pool_mcap_sol (tb_pool b) = Inr (tp_mcap_sol p) \<and>
      (\<exists>k. pool_mcap_sol (pool k) = Inr (tp_mcap_sol q))) qs ps"
  proof (rule collected_related[OF _ qs(1) ps])
    fix k q p assume q: "?live k = Inr q" and p: "?plain k = Inr p"
    from snapshot_parts[OF p] snapshot_parts(1)[OF q] q
    show "unpriced q = unpriced p \<and> pool_mcap_sol (tb_pool b) = Inr (tp_mcap_sol p) \<and>
      (\<exists>k. pool_mcap_sol (pool k) = Inr (tp_mcap_sol q))" by auto
  qed
  have "qs \<noteq> []" using qs(1) by (rule collected_not_Nil)
  moreover have "map unpriced qs = map unpriced ps \<and> (\<forall>p \<in> set ps. pool_mcap_sol (tb_pool b) = Inr (tp_mcap_sol p))
      \<and> (\<forall>q \<in> set qs. \<exists>k. pool_mcap_sol (pool k) = Inr (tp_mcap_sol q))"
    using both by (induction rule: list_all2_induct) auto
  ultimately show ?thesis using pts by simp
qed

lemma foldl_f64_max_ge:
  "x \<noteq> NaN \<Longrightarrow> x \<le> a \<or> x \<in> set xs \<Longrightarrow> x \<le> foldl f64_max a xs"
proof (induction xs arbitrary: a)
  case (Cons y ys)
  show ?case
  proof (cases "x \<in> set ys")
    case False
    then have "x \<le> a \<or> x = y" using Cons.prems by auto
    then have "x \<le> f64_max a y"
    proof
      assume le: "x \<le> a"
      then have "a \<le> f64_max a y" using f64_le_notNaN by (intro f64_max_ge1) blast
      with le show ?thesis by (rule f64_le_trans)
    next
      assume "x = y"
      then show ?thesis using Cons.prems(1) by (auto intro: f64_max_ge2)
    qed
    then show ?thesis using Cons by simp
  qed (use Cons in simp)
qed (auto simp: f64_le_refl)

text \<open>
  The samples that can be taken: slice \<open>k\<close> when its bucket was fetched, the slices that were answered before
  slice \<open>j\<close>, and all that an observation takes when it does not end early (the last one is taken again at
  the end of the window when there is time left).
\<close>

definition sample_of :: "(nat \<Rightarrow> token_bucket option) \<Rightarrow> nat \<Rightarrow> early_tape_point \<Rightarrow> bool" where
  "sample_of fetch k p \<longleftrightarrow> (\<exists>b. fetch k = Some b \<and> snapshot_early_tape b = Inr p)"

definition answered :: "(nat \<Rightarrow> token_bucket option) \<Rightarrow> nat \<Rightarrow> nat list" where
  "answered fetch j = filter (\<lambda>k. fetch k \<noteq> None) [0..<j]"

definition all_samples :: "(nat \<Rightarrow> token_bucket option) \<Rightarrow> u64 \<Rightarrow> nat \<Rightarrow> nat list" where
  "all_samples fetch w n =
     (let s = of_nat (max n 1) :: u64
      in if s \<le> 1 then answered fetch 1
         else if window_left (max w 1) s \<and> fetch (unat s) \<noteq> None then butlast (answered fetch (unat s)) @ [unat s]
         else answered fetch (unat s))"

text \<open>The summary of the samples: the peak is one of them and bounds all that are numbers.\<close>

definition summarised :: "f64 option \<Rightarrow> tape_observation \<Rightarrow> bool" where
  "summarised low r \<longleftrightarrow>
     (if ob_points r = [] then ob_initial_mcap_sol r = 0 \<and> ob_peak_mcap_sol r = 0 \<and> ob_current_mcap_sol r = 0
      else ob_initial_mcap_sol r = tp_mcap_sol (hd (ob_points r))
        \<and> ob_current_mcap_sol r = tp_mcap_sol (last (ob_points r))
        \<and> ob_peak_mcap_sol r \<in> tp_mcap_sol ` set (ob_points r)
        \<and> (\<forall>p \<in> set (ob_points r). tp_mcap_sol p \<noteq> NaN \<longrightarrow> tp_mcap_sol p \<le> ob_peak_mcap_sol r))
     \<and> (ob_exited_early r \<longrightarrow>
          (\<exists>l. low = Some l \<and> tape_hit_momentum_low (ob_initial_mcap_sol r) (ob_peak_mcap_sol r) l))"

definition observed :: "(nat \<Rightarrow> token_bucket option) \<Rightarrow> u64 \<Rightarrow> f64 option \<Rightarrow> nat \<Rightarrow> tape_observation \<Rightarrow> bool" where
  "observed fetch w low n r \<longleftrightarrow> length (ob_points r) \<le> max n 1 \<and> summarised low r \<and>
     (list_all2 (sample_of fetch) (all_samples fetch w n) (ob_points r) \<or>
      ob_exited_early r \<and> (\<exists>j \<le> max n 1. list_all2 (sample_of fetch) (answered fetch j) (ob_points r)))"

lemma foldl_f64_max_mem: "foldl f64_max a xs \<in> insert a (set xs)"
proof (induction xs arbitrary: a)
  case (Cons x xs)
  show ?case using Cons.IH[of "f64_max a x"] f64_max_cases[of a x] by auto
qed simp

lemma summarised_finalize:
  assumes "e \<Longrightarrow> \<exists>l. low = Some l \<and> tape_hit_momentum_low (ob_initial_mcap_sol (finalize_tape_observe ps e b))
                               (ob_peak_mcap_sol (finalize_tape_observe ps e b)) l"
  shows "summarised low (finalize_tape_observe ps e b)"
proof -
  have "foldl f64_max (tp_mcap_sol (hd ps)) (map tp_mcap_sol ps) \<in> tp_mcap_sol ` set ps" if "ps \<noteq> []"
    using foldl_f64_max_mem[of "tp_mcap_sol (hd ps)" "map tp_mcap_sol ps"] that by auto
  then show ?thesis using assms
    by (auto simp: summarised_def finalize_tape_observe_def Let_def intro!: foldl_f64_max_ge)
qed

lemma summarised_mark_exit: "summarised low r \<Longrightarrow> summarised low (mark_exit low r)"
  by (auto simp: summarised_def mark_exit_def split: option.splits)

lemma mark_exit_points [simp]: "ob_points (mark_exit low r) = ob_points r"
  by (simp add: mark_exit_def split: option.split)

lemma finalize_points [simp]: "ob_points (finalize_tape_observe ps e b) = ps"
    "ob_exited_early (finalize_tape_observe ps e b) = e"
  by (simp_all add: finalize_tape_observe_def Let_def)

definition running :: "early_tape_point list \<Rightarrow> f64 \<Rightarrow> f64 \<Rightarrow> bool" where
  "running out ini pk \<longleftrightarrow>
     (out \<noteq> [] \<longrightarrow> ini = tp_mcap_sol (hd out) \<and> pk = foldl f64_max ini (map tp_mcap_sol out))"

lemma f64_max_same [simp]: "f64_max x x = x"
  by (simp add: f64_max_def)

lemma sampleI: "fetch k = Some b \<Longrightarrow> snapshot_early_tape b = Inr p \<Longrightarrow> sample_of fetch k p"
  by (simp add: sample_of_def)

lemma answered_Suc: "answered fetch (Suc i) = answered fetch i @ (if fetch i = None then [] else [i])"
  by (simp add: answered_def)

text \<open>The loop over the slices collects a sample for every one that is answered, until it exits.\<close>

lemma observe_slices_sound:
  assumes "observe_slices fetch low n i (out, ini, pk, lb) = Inr r" "running out ini pk"
    "list_all2 (sample_of fetch) (answered fetch i) out"
  shows "case r of
      Inl res \<Rightarrow> summarised low res \<and> ob_exited_early res \<and>
        (\<exists>j \<le> i + n. list_all2 (sample_of fetch) (answered fetch j) (ob_points res))
    | Inr (out', _) \<Rightarrow> list_all2 (sample_of fetch) (answered fetch (i + n)) out'"
  using assms
proof (induction n arbitrary: i out ini pk lb)
  case (Suc n)
  show ?case
  proof (cases "fetch i")
    case None
    then show ?thesis using Suc.IH[of "Suc i" out ini pk lb] Suc.prems by (auto simp: answered_Suc split: sum.splits)
  next
    case (Some b)
    then obtain p where p: "snapshot_early_tape b = Inr p"
      using Suc.prems(1) by (auto simp: bind_outcome_Inr_iff)
    define ini' where "ini' = (if out = [] then tp_mcap_sol p else ini)"
    define pk' where "pk' = (if out = [] then tp_mcap_sol p else f64_max pk (tp_mcap_sol p))"
    have run: "running (out @ [p]) ini' pk'"
      using Suc.prems(2) by (auto simp: running_def ini'_def pk'_def)
    have samples: "list_all2 (sample_of fetch) (answered fetch (Suc i)) (out @ [p])"
      using Suc.prems(3) Some sampleI[of fetch i b p, OF Some p] by (auto simp: answered_Suc intro!: list_all2_appendI)
    define hit where "hit = (case low of None \<Rightarrow> False | Some l \<Rightarrow> tape_hit_momentum_low ini' pk' l)"
    have step: "observe_slices fetch low (Suc n) i (out, ini, pk, lb) =
        (if hit then Inr (Inl (finalize_tape_observe (out @ [p]) True (Some b)))
         else observe_slices fetch low n (Suc i) (out @ [p], ini', pk', Some b))"
      by (simp only: observe_slices.simps Some option.case p bind_outcome_simps Let_def hit_def ini'_def pk'_def)
    show ?thesis
    proof (cases hit)
      case True
      then have "r = Inl (finalize_tape_observe (out @ [p]) True (Some b))" using Suc.prems(1) step by simp
      moreover have "summarised low (finalize_tape_observe (out @ [p]) True (Some b))"
        using True run
        by (intro summarised_finalize)
           (auto simp: hit_def finalize_tape_observe_def Let_def running_def split: option.splits)
      ultimately show ?thesis using samples by (auto intro!: exI[of _ "Suc i"])
    next
      case False
      then show ?thesis using Suc.IH[OF _ run samples, of "Some b"] Suc.prems(1) step by (auto split: sum.splits)
    qed
  qed
qed auto

lemma observe_end_sound:
  assumes "observe_end fetch low w s (out, ini, pk, lb) = Inr r"
    and "list_all2 (sample_of fetch) (answered fetch (unat s)) out" "unat s \<le> m" "1 \<le> m"
  shows "summarised low r \<and> length (ob_points r) \<le> m \<and>
    list_all2 (sample_of fetch) (if window_left w s \<and> fetch (unat s) \<noteq> None
      then butlast (answered fetch (unat s)) @ [unat s] else answered fetch (unat s)) (ob_points r)"
proof -
  have "length (answered fetch (unat s)) \<le> unat s"
    using length_filter_le[of _ "[0..<unat s]"] by (simp add: answered_def)
  then have len: "length out \<le> m" using assms(2,3) by (simp add: list_all2_lengthD)
  have more: "list_all2 (sample_of fetch) (butlast (answered fetch (unat s)) @ [unat s]) (butlast out @ [p])"
    if "fetch (unat s) = Some b" "snapshot_early_tape b = Inr p" for b p
    using that assms(2) by (auto intro!: list_all2_appendI list_all2_butlast sampleI)
  have empty: "answered fetch (unat s) = []" if "out = []" using assms(2) that by simp
  show ?thesis
    using assms(1,2,4) len more empty
    by (auto simp: observe_end_def bind_outcome_Inr_iff split: if_splits option.splits
        intro!: summarised_mark_exit summarised_finalize)
qed

text \<open>C23. Every observation is sound, whatever the launchpad answers. Its points are exactly the samples of the
  slices whose bucket was fetched, in order and at most one per slice, the last one taken again at the end
  of the window when there is time left; an observation that exits early has those up to some slice.
  Without points all market caps are zero; otherwise the initial and the current one are those of the
  first and of the last point, the peak is that of one of the points and at least that of every point
  that is a number. An early exit is reported only when the peak reaches the momentum asked for.\<close>

theorem tape_observation_sound:
  assumes "observe_early_tape_points_live fetch w n low = Inr r"
  shows "observed fetch w low n r"
proof -
  define s where "s = (of_nat (max n 1) :: u64)"
  have sn: "unat s \<le> max n 1" by (simp add: s_def unat_of_nat)
  have one: "1 \<le> max n 1" by simp
  note unfolded = observer_unfold(1)[OF s_def]
  have all: "all_samples fetch w n = (if s \<le> 1 then answered fetch 1
      else if window_left (max w 1) s \<and> fetch (unat s) \<noteq> None then butlast (answered fetch (unat s)) @ [unat s]
      else answered fetch (unat s))"
    by (simp only: all_samples_def Let_def s_def)
  show ?thesis
  proof (cases "s \<le> 1")
    case True
    then show ?thesis using assms one
      by (auto simp: unfolded observed_def all answered_def sample_of_def bind_outcome_Inr_iff
          split: option.splits intro!: summarised_finalize)
  next
    case False
    then obtain x where x: "observe_slices fetch low (unat s) 0 ([], 0, 0, None) = Inr x"
        and r: "(case x of Inl res \<Rightarrow> Inr res | Inr st \<Rightarrow> observe_end fetch low (max w 1) s st) = Inr r"
      using assms by (auto simp: unfolded bind_outcome_Inr_iff)
    note slices = observe_slices_sound[OF x, unfolded add_0]
    have start: "running [] 0 0" "list_all2 (sample_of fetch) (answered fetch 0) []"
      by (simp_all add: running_def answered_def)
    show ?thesis
    proof (cases x)
      case (Inl res)
      then obtain j where j: "summarised low r" "ob_exited_early r" "j \<le> unat s"
          "list_all2 (sample_of fetch) (answered fetch j) (ob_points r)"
        using slices[OF start] r by auto
      have "length (answered fetch j) \<le> j" using length_filter_le[of _ "[0..<j]"] by (simp add: answered_def)
      then show ?thesis using j sn by (auto simp: observed_def list_all2_lengthD[symmetric])
    next
      case (Inr st)
      obtain out ini pk lb where st: "st = (out, ini, pk, lb)" by (cases st)
      have "list_all2 (sample_of fetch) (answered fetch (unat s)) out" using slices[OF start] Inr st by simp
      from observe_end_sound[OF _ this sn one] show ?thesis using r Inr st False by (auto simp: observed_def all)
    qed
  qed
qed

text \<open>The observer returns when every bucket it is given has a price.\<close>

definition priced :: "(nat \<Rightarrow> token_bucket option) \<Rightarrow> bool" where
  "priced fetch \<longleftrightarrow> (\<forall>k b. fetch k = Some b \<longrightarrow> pool_tokens (tb_pool b) \<noteq> 0)"

definition from_fetch :: "(nat \<Rightarrow> token_bucket option) \<Rightarrow> token_bucket option \<Rightarrow> bool" where
  "from_fetch fetch lb \<longleftrightarrow> (\<forall>b. lb = Some b \<longrightarrow> (\<exists>k. fetch k = Some b))"

lemma from_fetchI [intro, simp]: "from_fetch fetch None" "fetch k = Some b \<Longrightarrow> from_fetch fetch (Some b)"
  by (auto simp: from_fetch_def)

lemma finalize_last_bucket [simp]: "ob_last_bucket (finalize_tape_observe ps e lb) = lb"
  by (simp add: finalize_tape_observe_def Let_def)

lemma mark_exit_last_bucket [simp]: "ob_last_bucket (mark_exit low r) = ob_last_bucket r"
  by (simp add: mark_exit_def split: option.split)

lemma priced_snapshot: "priced fetch \<Longrightarrow> fetch k = Some b \<Longrightarrow> \<exists>p. snapshot_early_tape b = Inr p"
  unfolding priced_def by (intro snapshot_returns) blast

lemma observe_slices_returns:
  assumes "priced fetch" "from_fetch fetch lb"
  shows "\<exists>r. observe_slices fetch low n i (out, ini, pk, lb) = Inr r \<and>
    (case r of Inl res \<Rightarrow> from_fetch fetch (ob_last_bucket res) | Inr (_, _, _, lb') \<Rightarrow> from_fetch fetch lb')"
  using assms(2)
proof (induction n arbitrary: i out ini pk lb)
  case (Suc n)
  show ?case
  proof (cases "fetch i")
    case (Some b)
    then obtain p where "snapshot_early_tape b = Inr p"
      using assms(1) priced_snapshot by blast
    then show ?thesis using Suc.IH[of "Some b"] Some by (auto simp: Let_def)
  qed (use Suc in simp)
qed simp

lemma observe_end_returns:
  assumes "priced fetch" "from_fetch fetch lb"
  shows "\<exists>r. observe_end fetch low w s (out, ini, pk, lb) = Inr r \<and> from_fetch fetch (ob_last_bucket r)"
proof (cases "fetch (unat s)")
  case (Some b)
  then obtain p where "snapshot_early_tape b = Inr p"
    using assms(1) priced_snapshot by blast
  then show ?thesis using assms(2) Some by (auto simp: observe_end_def)
qed (use assms(2) in \<open>auto simp: observe_end_def\<close>)

lemma observer_returns:
  assumes "priced fetch"
  shows "\<exists>r. observe_early_tape_points_live fetch w n low = Inr r \<and> from_fetch fetch (ob_last_bucket r)"
proof -
  define s where "s = (of_nat (max n 1) :: u64)"
  note unfolded = observer_unfold(1)[OF s_def]
  show ?thesis
  proof (cases "s \<le> 1")
    case True
    show ?thesis
    proof (cases "fetch 0")
      case (Some b)
      then obtain p where "snapshot_early_tape b = Inr p"
        using assms priced_snapshot by blast
      then show ?thesis using True Some by (auto simp: unfolded)
    qed (use True in \<open>auto simp: unfolded\<close>)
  next
    case False
    obtain x where x: "observe_slices fetch low (unat s) 0 ([], 0, 0, None) = Inr x"
      "case x of Inl res \<Rightarrow> from_fetch fetch (ob_last_bucket res) | Inr (_, _, _, lb') \<Rightarrow> from_fetch fetch lb'"
      using observe_slices_returns[OF assms, of None] by (metis from_fetchI(1))
    then show ?thesis using False observe_end_returns[OF assms]
      by (auto simp: unfolded split: sum.splits)
  qed
qed

lemma live_observer_refines_plain_witness:
  "\<exists>r ps. observe_early_tape_points_live (\<lambda>k. Some (sample_bucket\<lparr>tb_swarm := tb_swarm sample_bucket,
        tb_pool := tb_pool sample_bucket\<rparr>)) 1500 3 None = Inr r
    \<and> observe_early_tape_points sample_bucket (\<lambda>_. tb_swarm sample_bucket) 1500 3 = Inr ps
    \<and> map unpriced (ob_points r) = map unpriced ps"
proof -
  let ?b = "sample_bucket\<lparr>tb_swarm := tb_swarm sample_bucket, tb_pool := tb_pool sample_bucket\<rparr>"
  have b: "?b = sample_bucket" "sample_bucket\<lparr>tb_swarm := tb_swarm sample_bucket\<rparr> = sample_bucket" by simp_all
  have "priced (\<lambda>_. Some ?b)" by (simp add: priced_def sample_bucket_tokens b)
  then obtain r where r: "observe_early_tape_points_live (\<lambda>_. Some ?b) 1500 3 None = Inr r"
    using observer_returns by blast
  then obtain ps where "observe_early_tape_points sample_bucket (\<lambda>_. tb_swarm sample_bucket) 1500 3 = Inr ps"
    unfolding live_collects plain_collects b by (auto simp: bind_outcome_Inr_iff)
  with r live_observer_refines_plain[OF r this] show ?thesis by blast
qed

lemma tape_observation_sound_witness:
  "\<exists>r. observe_early_tape_points_live (\<lambda>_. Some sample_bucket) 1500 3 (Some (Fin 12)) = Inr r \<and> observed (\<lambda>_. Some sample_bucket) 1500 (Some (Fin 12)) 3 r"
proof -
  have "priced (\<lambda>_. Some sample_bucket)" by (simp add: priced_def sample_bucket_tokens)
  then obtain r where r: "observe_early_tape_points_live (\<lambda>_. Some sample_bucket) 1500 3 (Some (Fin 12)) = Inr r"
    using observer_returns by blast
  from tape_observation_sound[OF r] r show ?thesis by simp
qed

section \<open>Scores of the tape\<close>

lemma lamports_to_sol_finite: "\<exists>q. lamports_to_sol raw = Fin q \<and> 0 \<le> q"
proof (cases "raw = 0")
  case True
  then show ?thesis using amount_to_float_zero[of "amount_from_raw_native raw"]
    by (simp add: lamports_to_sol_def amount_from_raw_native_def)
next
  case False
  then obtain r where "lamports_to_sol raw = Fin r" "1 / 2 ^ 64 \<le> r"
    using amount_to_float_between[of "amount_from_raw_native raw"]
    by (auto simp: lamports_to_sol_def amount_from_raw_native_def)
  moreover have "(0::rat) \<le> 1 / 2 ^ 64" by simp
  ultimately show ?thesis by (meson order_trans)
qed

lemma sell_pressure_unit:
  assumes "v = Fin q" shows "0 \<le> sell_pressure_of v m \<and> sell_pressure_of v m \<le> 1"
proof -
  define r where "r = f64_max m 1"
  have "r = PInf \<or> (\<exists>k. r = Fin k \<and> 1 \<le> k)"
    by (cases m) (auto simp: r_def f64_max_def one_f64_def)
  then have "v / r \<noteq> NaN" using assms by (auto simp: divide_f64_def)
  then have "f64_min (v / r) (f64_of 3) / f64_of 3 \<noteq> NaN"
    by (cases "v / r") (auto simp: f64_min_def divide_f64_def)
  then show ?thesis by (simp add: sell_pressure_of_def clamp_unit flip: r_def)
qed

lemma absorb_unit: "absorb_quality_of th ps = NaN \<or> 0 \<le> absorb_quality_of th ps \<and> absorb_quality_of th ps \<le> 1"
proof -
  have "clamp_f64 0 1 x = NaN \<or> 0 \<le> clamp_f64 0 1 x \<and> clamp_f64 0 1 x \<le> 1" for x
    using clamp_unit[of x] by (cases "x = NaN") (auto simp: clamp_f64_def)
  then show ?thesis by (auto simp: absorb_quality_of_def Let_def split: prod.split)
qed

lemma windows2_Cons [simp]: "windows2 (a # b # xs) = (a, b) # windows2 (b # xs)" "windows2 [a] = []"
  by (simp_all add: windows2_def)

definition new_buyers :: "early_tape_point list \<Rightarrow> nat" where
  "new_buyers ps =
     sum_list (map (\<lambda>(a, b). unat (saturating_sub (tp_buyer_count b) (tp_buyer_count a))) (windows2 ps))"

lemma new_buyers_telescope:
  "unat (tp_buyer_count (last (p # ps))) \<le> unat (tp_buyer_count p) + new_buyers (p # ps)"
proof (induction ps arbitrary: p)
  case (Cons q ps)
  have "new_buyers (p # q # ps) =
      (unat (tp_buyer_count q) - unat (tp_buyer_count p)) + new_buyers (q # ps)"
    by (simp add: new_buyers_def unat_saturating_sub)
  moreover have "unat (tp_buyer_count (last (p # q # ps))) = unat (tp_buyer_count (last (q # ps)))" by simp
  ultimately show ?case using Cons.IH[of q] by linarith
qed (simp add: new_buyers_def)

text \<open>The tape is summarised soundly, whatever its points and whatever the tangent: the sell pressure
  is never NaN and lies between 0 and 1, so does the absorption unless it is NaN, and the new buyers per
  slice add up to at least the growth of the number of buyers.\<close>

theorem tape_summary_sound:
  "(let td = from_tape_points th (p # ps) exits in
      0 \<le> td_sell_pressure_score td \<and> td_sell_pressure_score td \<le> 1
      \<and> (td_absorb_quality_score td = NaN \<or> 0 \<le> td_absorb_quality_score td \<and> td_absorb_quality_score td \<le> 1)
      \<and> unat (tp_buyer_count (last (p # ps))) - unat (tp_buyer_count p)
          \<le> sum_list (map unat (td_buyer_velocity_new_per_slice td))
      \<and> length (td_buyer_velocity_new_per_slice td) = length ps)"
proof -
  define z where "z = last (p # ps)"
  obtain q where "sell_delta_sol (p, z) = Fin q"
    using lamports_to_sol_finite by (auto simp: sell_delta_sol_def)
  note unit = sell_pressure_unit[OF this, of "tp_mcap_sol z"]
  have sum: "sum_list (map unat (map (\<lambda>(a, b). saturating_sub (tp_buyer_count b) (tp_buyer_count a))
      (windows2 (p # ps)))) = new_buyers (p # ps)"
    by (simp add: new_buyers_def comp_def case_prod_unfold)
  have len: "length (windows2 (p # ps)) = length ps" by (simp add: windows2_def)
  have td: "from_tape_points th (p # ps) exits =
     \<lparr>td_buyer_velocity_new_per_slice =
        map (\<lambda>(a, b). saturating_sub (tp_buyer_count b) (tp_buyer_count a)) (windows2 (p # ps)),
      td_buyer_velocity_persistence = buyer_persistence_from_deltas
        (map (\<lambda>(a, b). saturating_sub (tp_buyer_count b) (tp_buyer_count a)) (windows2 (p # ps))),
      td_sell_pressure_score = sell_pressure_of (sell_delta_sol (p, z)) (tp_mcap_sol z),
      td_absorb_quality_score = absorb_quality_of th (p # ps),
      td_sell_events_window = saturating_sub (tp_cum_sell_events z) (tp_cum_sell_events p),
      td_sell_volume_window_sol = sell_delta_sol (p, z),
      td_repeat_dump_slices = of_nat (length (filter dump_slice (windows2 (p # ps)))),
      td_smart_wallet_early_exits = exits\<rparr>"
    by (simp only: from_tape_points_def Let_def list.sel list.distinct if_False flip: z_def)
  show ?thesis
    using new_buyers_telescope[of p ps] absorb_unit[of th "p # ps"] unit
    unfolding z_def[symmetric] td Let_def tape_derived.simps sum by (simp add: len)
qed

end
