(* ===== verification/Create_Gate.thy ===== *)
theory Create_Gate
  imports Score_Buy
begin

text \<open>
  Model of what happens between the creation of a token and its scoring: the creator filter
  (\<^verbatim>\<open>autobuy/filters/creator.rs\<close>), the task that \<^verbatim>\<open>main.rs\<close> spawns for a \<^verbatim>\<open>Create\<close> event, and the
  fresh watchlist (\<^verbatim>\<open>pipeline/fresh_watchlist.rs\<close>), which polls the gates of tier B for tokens of new
  developers until a deadline.

  The answers of the databases are arguments: \<open>Inl\<close> an error, \<open>Inr\<close> a row.
\<close>

section \<open>Creator filter\<close>

record creator_filter =
  cf_min_total_coins :: "u64 option"
  cf_max_total_coins :: "u64 option"
  cf_spam_skip_coins :: "u64 option"
  cf_spam_dev_whitelist :: "string list"
  cf_min_median_market_cap :: "f64 option"
  cf_min_trader_pnl_average :: "f64 option"
  cf_min_total_holders_average :: "f64 option"
  cf_min_average_volume :: "f64 option"
  cf_min_median_total_trades :: "f64 option"
  cf_min_average_unique_buy_to_sell_ratio :: "f64 option"
  cf_min_average_buy_trader_size :: "f64 option"

definition is_spam_dev_whitelisted :: "creator_filter \<Rightarrow> string \<Rightarrow> bool" where
  "is_spam_dev_whitelisted c dev = (dev \<in> set (cf_spam_dev_whitelist c))"

definition below :: "'a::ord option \<Rightarrow> 'a \<Rightarrow> string \<Rightarrow> string list" where
  "below bnd x name = (case bnd of Some m \<Rightarrow> if x < m then [name] else [] | None \<Rightarrow> [])"

definition above :: "'a::ord option \<Rightarrow> 'a \<Rightarrow> string \<Rightarrow> string list" where
  "above bnd x name = (case bnd of Some m \<Rightarrow> if m < x then [name] else [] | None \<Rightarrow> [])"

definition currency_sol :: "currency \<Rightarrow> f64" where
  "currency_sol c = amount_to_float (currency_amount c)"

definition reject_reasons :: "creator_filter \<Rightarrow> creator_statistics \<Rightarrow> string list" where
  "reject_reasons c s =
     below (cf_min_total_coins c) (total_coins s) ''min_total_coins''
     @ above (cf_max_total_coins c) (total_coins s) ''max_total_coins''
     @ below (cf_min_median_market_cap c) (currency_sol (median_market_cap s)) ''min_median_market_cap''
     @ below (cf_min_trader_pnl_average c) (trader_pnl_average s) ''min_trader_pnl_average''
     @ below (cf_min_total_holders_average c) (word_to_f64 (total_holders_average s))
         ''min_total_holders_average''
     @ below (cf_min_average_volume c) (average_volume s) ''min_average_volume''
     @ below (cf_min_median_total_trades c) (word_to_f64 (median_total_trades s))
         ''min_median_total_trades''
     @ below (cf_min_average_unique_buy_to_sell_ratio c) (average_unique_buy_to_sell_ratio s)
         ''min_average_unique_buy_to_sell_ratio''
     @ below (cf_min_average_buy_trader_size c) (currency_sol (average_buy_trader_size s))
         ''min_average_buy_trader_size''"

definition filter_creator :: "creator_filter \<Rightarrow> creator_statistics \<Rightarrow> bool" where
  "filter_creator c s = (reject_reasons c s = [])"

definition EARLY_STATS :: "string list" where
  "EARLY_STATS =
     [''min_median_market_cap'', ''min_trader_pnl_average'', ''min_total_holders_average'',
      ''min_average_volume'', ''min_median_total_trades'']"

definition is_early_stats_only_reject :: "string list \<Rightarrow> bool" where
  "is_early_stats_only_reject reasons = (reasons \<noteq> [] \<and> set reasons \<subseteq> set EARLY_STATS)"

section \<open>A created token\<close>

record general_create =
  gc_mint :: address
  gc_user :: address
  gc_quote_mint :: address

text \<open>The two addresses that stand for SOL are constants of the Solana SDK.\<close>

definition is_native_sol_quote :: "address \<Rightarrow> address \<Rightarrow> general_create \<Rightarrow> bool" where
  "is_native_sol_quote native legacy g = (gc_quote_mint g = native \<or> gc_quote_mint g = legacy)"

definition is_unsupported_quote_mint :: "address \<Rightarrow> address \<Rightarrow> general_create \<Rightarrow> bool" where
  "is_unsupported_quote_mint native legacy g = (\<not> is_native_sol_quote native legacy g)"

record active_dev_blacklist =
  ab_reason :: string
  ab_mint :: string
  ab_expires_at :: i64

record create_env =
  ce_native_sol :: address
  ce_legacy_sol :: address
  ce_blacklist_enabled :: bool
  ce_active_for_dev :: "string + active_dev_blacklist option"
  ce_count_capped :: "string + u64"
  ce_creator_stats :: "string + creator_statistics option"
  ce_prior_coins :: "string + u64"
  ce_has_log :: bool
  ce_str :: "address \<Rightarrow> string"

datatype create_metric = Created | FilterRejected | NoHistory | SpamDev | CreatePassed

datatype create_effect =
    CreateMetric create_metric
  | CreateSkipped string string              \<comment> \<open>stage and reason in the log of skipped tokens\<close>
  | RegisterCreator address creator_statistics

text \<open>
  What becomes of the token. A token offered to the watchlist is dropped when the watchlist takes it or
  knows it already; it is rejected when the watchlist is full.
\<close>

datatype create_outcome =
    Dropped
  | Offered "string list"
  | Scored pipeline_input

definition create_skipped :: "bool \<Rightarrow> string \<Rightarrow> string \<Rightarrow> create_effect list" where
  "create_skipped has_log stg reason = (if has_log then [CreateSkipped stg reason] else [])"

definition blacklist_stage :: "create_env \<Rightarrow> (string \<times> string) option" where
  "blacklist_stage env =
     (if ce_blacklist_enabled env then
        (case ce_active_for_dev env of
           Inr (Some a) \<Rightarrow> Some (format_filter_skip (ab_reason a) (ab_mint a) (ab_expires_at a))
         | _ \<Rightarrow> None)
      else None)"

definition is_spam_dev :: "creator_filter \<Rightarrow> create_env \<Rightarrow> address \<Rightarrow> bool" where
  "is_spam_dev c env dev =
     (case cf_spam_skip_coins c of
        None \<Rightarrow> False
      | Some cap \<Rightarrow>
          (case ce_count_capped env of
             Inl _ \<Rightarrow> False
           | Inr n \<Rightarrow> cap < n \<and> \<not> is_spam_dev_whitelisted c (ce_str env dev)))"

definition history_stage ::
  "scoring_config \<Rightarrow> creator_filter \<Rightarrow> create_env \<Rightarrow> general_create \<Rightarrow> token_bucket
   \<Rightarrow> create_effect list \<times> create_outcome" where
  "history_stage cfg c env g b =
     (let scored = (\<lambda>stats. Scored \<lparr>pi_mint = gc_mint g, pi_dev = gc_user g, pi_dev_stats = stats,
                              pi_is_spam_dev = False, pi_bucket = b, pi_from_fresh_watchlist = False\<rparr>)
      in case ce_creator_stats env of
           Inl msg \<Rightarrow> (create_skipped (ce_has_log env) ''filter_db'' msg, Dropped)
         | Inr None \<Rightarrow>
             if tier_b_enabled (tier_b cfg) then ([CreateMetric CreatePassed], scored None)
             else (CreateMetric NoHistory
                     # create_skipped (ce_has_log env) ''filter_no_history'' ''no_creator_history'', Dropped)
         | Inr (Some s) \<Rightarrow>
             if filter_creator c s
             then ([RegisterCreator (gc_mint g) s, CreateMetric CreatePassed], scored (Some s))
             else case ce_prior_coins env of
                    Inl _ \<Rightarrow> ([CreateMetric FilterRejected], Dropped)
                  | Inr prior \<Rightarrow>
                      if fw_enabled (fresh_watchlist_cfg (tier_b cfg)) \<and> tier_b_enabled (tier_b cfg)
                         \<and> prior = 0 \<and> is_early_stats_only_reject (reject_reasons c s)
                      then ([], Offered (reject_reasons c s))
                      else (CreateMetric FilterRejected
                            # create_skipped (ce_has_log env) ''filter_creator'' ''creator_config_rejected'',
                            Dropped))"

definition handle_create ::
  "scoring_config \<Rightarrow> creator_filter \<Rightarrow> create_env \<Rightarrow> general_create \<Rightarrow> token_bucket
   \<Rightarrow> create_effect list \<times> create_outcome" where
  "handle_create cfg c env g b =
     (if is_unsupported_quote_mint (ce_native_sol env) (ce_legacy_sol env) g
      then (CreateMetric FilterRejected
              # create_skipped (ce_has_log env) ''filter_quote_mint'' ''unsupported_quote_mint'', Dropped)
      else case blacklist_stage env of
             Some (lbl, detail) \<Rightarrow>
               (CreateMetric Created # CreateMetric FilterRejected
                 # create_skipped (ce_has_log env) ''filter_dev_blacklist'' lbl, Dropped)
           | None \<Rightarrow>
               if is_spam_dev c env (gc_user g) then
                 ([CreateMetric Created, CreateMetric SpamDev, CreateMetric CreatePassed],
                  Scored \<lparr>pi_mint = gc_mint g, pi_dev = gc_user g, pi_dev_stats = None,
                          pi_is_spam_dev = True, pi_bucket = b, pi_from_fresh_watchlist = False\<rparr>)
               else case history_stage cfg c env g b of
                      (es, r) \<Rightarrow> (CreateMetric Created # es, r))"

section \<open>The fresh watchlist\<close>

datatype try_add_error = Disabled | Duplicate | CapFull

text \<open>
  The table is shared by the tasks of all tokens: the set of active mints behind a lock, and a counter
  beside it. \<^verbatim>\<open>try_add\<close> reads the counter and takes the mint under the lock, and counts it afterwards.
\<close>

record watchlist =
  wl_active :: "address set"
  wl_running :: nat

definition watchlist_new :: watchlist where
  "watchlist_new = \<lparr>wl_active = {}, wl_running = 0\<rparr>"

definition try_enter :: "fresh_watchlist_config \<Rightarrow> address \<Rightarrow> watchlist \<Rightarrow> try_add_error + watchlist" where
  "try_enter cfg mint w =
     (if \<not> fw_enabled cfg then Inl Disabled
      else if mint \<in> wl_active w then Inl Duplicate
      else if fw_max_concurrent cfg \<le> wl_running w then Inl CapFull
      else Inr (w\<lparr>wl_active := insert mint (wl_active w)\<rparr>))"

text \<open>The token is offered: what remains of the create task, and whether a polling task starts.\<close>

definition offer_to_watchlist ::
  "scoring_config \<Rightarrow> bool \<Rightarrow> address \<Rightarrow> token_bucket \<Rightarrow> watchlist \<Rightarrow> (create_effect list \<times> watchlist \<times> bool) outcome" where
  "offer_to_watchlist cfg has_log mint b w =
     bind_outcome (pool_mcap_sol (tb_pool b)) (\<lambda>initial.
       let rejected = CreateMetric FilterRejected
                      # create_skipped has_log ''filter_creator'' ''creator_config_rejected''
       in case try_enter (fresh_watchlist_cfg (tier_b cfg)) mint w of
            Inr w' \<Rightarrow> Inr ([], w', True)
          | Inl Duplicate \<Rightarrow> Inr ([], w, False)
          | Inl CapFull \<Rightarrow> Inr (rejected, w, False)
          | Inl Disabled \<Rightarrow> Inr (rejected, w, False))"

definition watch_added :: "score_env \<Rightarrow> pipeline_effect list" where
  "watch_added env =
     Metric FreshAdded # (if se_has_log env then [Noted ''fresh_watchlist'' ''watchlist_added''] else [])"

definition count_in :: "watchlist \<Rightarrow> watchlist" where
  "count_in w = w\<lparr>wl_running := wl_running w + 1\<rparr>"

definition leave :: "address \<Rightarrow> watchlist \<Rightarrow> watchlist" where
  "leave mint w = w\<lparr>wl_active := wl_active w - {mint}\<rparr>"

definition count_out :: "watchlist \<Rightarrow> watchlist" where
  "count_out w = w\<lparr>wl_running := wl_running w - 1\<rparr>"

text \<open>One poll of the gates of tier B: \<open>None\<close> when the token is unknown to the launchpad.\<close>

definition poll_b_gates ::
  "scoring_config \<Rightarrow> score_env \<Rightarrow> address \<Rightarrow> address \<Rightarrow> f64 \<Rightarrow> token_bucket option
   \<Rightarrow> tier_b_poll option outcome" where
  "poll_b_gates cfg env mint dev initial fetched =
     (case fetched of
        None \<Rightarrow> Inr None
      | Some b \<Rightarrow> bind_outcome (snapshot_early_tape b) (\<lambda>p.
          let current = tp_mcap_sol p;
              peak = f64_max initial current;
              thr = active_thresholds cfg (se_patch env);
              (buyers, scan, bundle) = snapshot_early_buyers b (th_bundle_similar_tolerance thr);
              smart = se_count_smart env (eb_all buyers);
              tape = from_tape_points (se_tanh env) [p] 0;
              f = assemble mint dev None DevFresh dev_record_default initial current peak buyers
                    (of_nat (length (eb_regulars buyers))) (of_nat (length (eb_snipers buyers)))
                    (bs_total_volume_sol scan) (bs_still_long scan) (bs_already_sold scan) bundle smart tape
          in Inr (Some (evaluate_tier_b_poll (tier_b cfg) f (sb_items (score_token cfg f thr))))))"

text \<open>
  The poll loop over the answers that arrive before the deadline: whether a poll passed, whether by the
  hot override, and the last poll that failed on momentum only.
\<close>

fun poll_loop :: "tier_b_poll option list \<Rightarrow> tier_b_poll option \<Rightarrow> bool \<times> bool \<times> tier_b_poll option" where
  "poll_loop [] lm = (False, False, lm)"
| "poll_loop (None # ps) lm = poll_loop ps lm"
| "poll_loop (Some p # ps) lm =
     (let lm' = (if poll_momentum_only_fail p then Some p else lm)
      in if tier_b_poll_passes p then (True, poll_hot_override p, lm') else poll_loop ps lm')"

definition watch_deadline_ms :: "fresh_watchlist_config \<Rightarrow> u64" where
  "watch_deadline_ms cfg = (let poll = max (fw_poll_interval_ms cfg) 1 in max (fw_max_wait_ms cfg) poll)"

datatype watch_verdict = WatchPassed bool | WatchRejected

definition watch_verdict_of :: "tier_b_poll option list \<Rightarrow> watch_verdict" where
  "watch_verdict_of ps =
     (case poll_loop ps None of (passed, hot, _) \<Rightarrow> if passed then WatchPassed hot else WatchRejected)"

definition watch_input :: "address \<Rightarrow> address \<Rightarrow> token_bucket \<Rightarrow> pipeline_input" where
  "watch_input mint dev b =
     \<lparr>pi_mint = mint, pi_dev = dev, pi_dev_stats = None, pi_is_spam_dev = False, pi_bucket = b,
      pi_from_fresh_watchlist = True\<rparr>"

definition watch_finish ::
  "scoring_config \<Rightarrow> bool \<Rightarrow> score_env \<Rightarrow> address \<Rightarrow> address \<Rightarrow> token_bucket \<Rightarrow> watch_verdict
   \<Rightarrow> pipeline_effect list outcome" where
  "watch_finish cfg live env mint dev b v =
     (case v of
        WatchPassed _ \<Rightarrow>
          bind_outcome (run_scoring_and_buy cfg live env (watch_input mint dev b)) (\<lambda>es.
            Inr (Metric FreshPassed
                 # (if se_has_log env then [Noted ''fresh_watchlist'' ''watchlist_passed''] else []) @ es))
      | WatchRejected \<Rightarrow>
          Inr (Metric FreshRejected
               # (if se_has_log env then [Noted ''fresh_watchlist'' ''watchlist_rejected''] else [])))"

end
