(* ===== verification/Entry_Safety.thy ===== *)
theory Entry_Safety
  imports Score_Laws Feature_Laws Create_Gate
begin

text \<open>
  What the entry pipeline guarantees: it does not panic on buckets that have a price, every token ends
  in one signal or one logged skip, a live signal has passed every gate, developers without history are
  bought in tier B only, and the recheck of A+ tokens at their peak can never run.
\<close>

section \<open>The stages in one result\<close>

definition is_signal :: "pipeline_effect \<Rightarrow> bool" where
  "is_signal e = (case e of Signal _ \<Rightarrow> True | _ \<Rightarrow> False)"

definition signals :: "pipeline_effect list \<Rightarrow> pipeline_effect list" where
  "signals es = filter is_signal es"

text \<open>A skip ends the pipeline; the records of a momentum override do not.\<close>

definition is_final_skip :: "pipeline_effect \<Rightarrow> bool" where
  "is_final_skip e = (case e of Skipped stg _ _ \<Rightarrow> stg \<noteq> ''aa_momentum_override'' | _ \<Rightarrow> False)"

definition final_skips :: "pipeline_effect list \<Rightarrow> pipeline_effect list" where
  "final_skips es = filter is_final_skip es"

lemma effects_simps [simp]:
  "signals [] = []" "signals (xs @ ys) = signals xs @ signals ys"
  "signals (e # es) = (if is_signal e then e # signals es else signals es)"
  "final_skips [] = []" "final_skips (xs @ ys) = final_skips xs @ final_skips ys"
  "final_skips (e # es) = (if is_final_skip e then e # final_skips es else final_skips es)"
  "\<not> is_signal (Metric k)" "\<not> is_signal (Skipped g r sn)" "\<not> is_signal (ScoreDone a)" "is_signal (Signal m)"
  "\<not> is_signal (Noted g r)" "\<not> is_final_skip (Noted g r)"
  "\<not> is_final_skip (Metric k)" "\<not> is_final_skip (ScoreDone a)" "\<not> is_final_skip (Signal m)"
  "is_final_skip (Skipped g r sn) = (g \<noteq> ''aa_momentum_override'')"
  by (simp_all add: signals_def final_skips_def is_signal_def is_final_skip_def)

definition vetted :: "scoring_config \<Rightarrow> bool \<Rightarrow> score_env \<Rightarrow> pipeline_input \<Rightarrow> scored \<Rightarrow> bool" where
  "vetted cfg live env inp s \<longleftrightarrow> sb_tier (sc_breakdown s) \<noteq> Skip
     \<and> (live \<longrightarrow> live_gate cfg inp s = None) \<and> \<not> buy_amount env s \<le> F64_EPSILON
     \<and> (live \<longrightarrow> confirm_stage cfg env s = Inr None)"

lemma log_skipped_effects [simp]:
  "signals (log_skipped env g r sn) = []"
  "g \<noteq> ''aa_momentum_override'' \<Longrightarrow>
     final_skips (log_skipped env g r sn) = (if se_has_log env then [Skipped g r sn] else [])"
  "final_skips (log_skipped env ''aa_momentum_override'' r sn) = []"
  by (simp_all add: log_skipped_def)

lemma override_logs_effects [simp]:
  "signals (override_logs env inp s) = []" "final_skips (override_logs env inp s) = []"
  by (simp_all add: override_logs_def Let_def)

lemma tier_metric_effects [simp]: "signals (tier_metric tr) = []" "final_skips (tier_metric tr) = []"
  by (cases tr; simp)+

lemma live_gate_stage:
  "live_gate cfg inp s = Some (g, r) \<Longrightarrow> g \<noteq> ''aa_momentum_override''"
  by (auto simp: live_gate_def market_gate_def tier_gate_def Let_def split: if_splits option.splits)

lemma skip_label_stage: "skip_label cfg s = (g, r) \<Longrightarrow> g \<noteq> ''aa_momentum_override''"
  by (auto simp: skip_label_def split: option.splits)

lemma confirm_stage_stage:
  "confirm_stage cfg env s = Inr (Some (k, g, r)) \<Longrightarrow> g \<noteq> ''aa_momentum_override''"
  by (auto simp: confirm_stage_def Let_def bind_outcome_Inr_iff split: if_splits option.splits prod.splits)

lemma gate_effects_eq [simp]:
  "signals (gate_effects env inp s r) = []"
  "fst r \<noteq> ''aa_momentum_override'' \<Longrightarrow>
     length (final_skips (gate_effects env inp s r)) = of_bool (se_has_log env)"
  by (simp_all add: gate_effects_def Let_def)

lemma dispatch_stage_Inr:
  assumes "dispatch_stage cfg live env inp s = Inr es"
  shows "signals es = (if \<not> buy_amount env s \<le> F64_EPSILON \<and> (live \<longrightarrow> confirm_stage cfg env s = Inr None)
                       then [Signal (buy_signal env inp s)] else [])
    \<and> length (final_skips es) = (if signals es = [] \<and> se_has_log env then 1 else 0)"
proof (cases "buy_amount env s \<le> F64_EPSILON")
  case False
  then obtain skip where skip: "(if live then confirm_stage cfg env s else Inr None) = Inr skip"
    and es: "es = (case skip of
          Some (k, g, r) \<Rightarrow> Metric k # log_skipped env g r (learning_snap env inp s)
        | None \<Rightarrow> [ScoreDone (pi_mint inp), Signal (buy_signal env inp s), Metric PositionInitiated])"
    using assms by (auto simp: dispatch_stage_def bind_outcome_Inr_iff split: option.splits)
  show ?thesis
  proof (cases skip)
    case None
    then show ?thesis using False skip es by (auto split: if_splits)
  next
    case (Some kgr)
    obtain k g r where kgr: "kgr = (k, g, r)" by (cases kgr)
    have "g \<noteq> ''aa_momentum_override''" "live" "confirm_stage cfg env s = Inr (Some (k, g, r))"
      using skip Some kgr by (auto dest: confirm_stage_stage split: if_splits)
    then show ?thesis using es Some kgr by simp
  qed
qed (use assms in \<open>auto simp: dispatch_stage_def\<close>)

lemma run_outcome:
  assumes "run_scoring_and_buy cfg live env inp = Inr es"
  shows "\<exists>s. score_stage cfg env inp = Inr s
    \<and> signals es = (if vetted cfg live env inp s then [Signal (buy_signal env inp s)] else [])
    \<and> length (final_skips es) = (if \<not> vetted cfg live env inp s \<and> se_has_log env then 1 else 0)"
proof -
  obtain s where s: "score_stage cfg env inp = Inr s"
    using assms by (auto simp: run_scoring_and_buy_def bind_outcome_Inr_iff)
  note run = assms[unfolded run_scoring_and_buy_def s bind_outcome_simps Let_def]
  show ?thesis
  proof (cases "sb_tier (sc_breakdown s) = Skip")
    case True
    then show ?thesis using run s
      by (auto simp: vetted_def dest: skip_label_stage split: prod.splits)
  next
    case False
    show ?thesis
    proof (cases "if live then live_gate cfg inp s else None")
      case (Some r)
      then have gate: "live" "live_gate cfg inp s = Some r" by (auto split: if_splits)
      have "fst r \<noteq> ''aa_momentum_override''" using gate(2) live_gate_stage by (cases r) auto
      note skips = gate_effects_eq(2)[OF this, of env inp s]
      have es: "es = (if pi_from_fresh_watchlist inp then [Metric PassedFilter] else [])
          @ override_logs env inp s @ gate_effects env inp s r"
        using run False gate by simp
      have "\<not> vetted cfg live env inp s" using gate by (simp add: vetted_def)
      then show ?thesis using s skips by (simp add: es)
    next
      case None
      then have gate: "live \<longrightarrow> live_gate cfg inp s = None" by (auto split: if_splits)
      obtain es' where es': "dispatch_stage cfg live env inp s = Inr es'"
        and es: "es = (if pi_from_fresh_watchlist inp then [Metric PassedFilter] else [])
            @ (if live then override_logs env inp s else []) @ tier_metric (sb_tier (sc_breakdown s)) @ es'"
        using run False None by (auto simp: bind_outcome_Inr_iff)
      show ?thesis using s gate False dispatch_stage_Inr[OF es'] by (auto simp: es vetted_def)
    qed
  qed
qed


section \<open>What a scored token carries\<close>

lemma score_stage_facts:
  assumes "score_stage cfg env inp = Inr s"
  shows "sc_breakdown s = score_token cfg (sc_features s) (active_thresholds cfg (se_patch env))"
    "tf_is_spam_dev (sc_features s) = pi_is_spam_dev inp"
    "tf_dev_category (sc_features s) = fst (dev_category_of cfg env inp)"
    "tf_smart_wallet_count (sc_features s) = sc_smart s"
    "tf_dev_has_history (sc_features s) = (pi_dev_stats inp \<noteq> None)"
  using assms
  by (auto simp: score_stage_def bind_outcome_Inr_iff Let_def assemble_def case_prod_unfold)

lemma scored_size:
  "score_stage cfg env inp = Inr s \<Longrightarrow>
     sb_recommended_size_sol (sc_breakdown s) = tier_sol (sc_size cfg) (sb_tier (sc_breakdown s))"
  by (simp add: score_stage_facts(1) sb_size_eq)

text \<open>A developer without history is eligible for tier B, so its tier is B or Skip.\<close>

lemma fresh_dev_tier:
  assumes "score_stage cfg env inp = Inr s" "pi_dev_stats inp = None" "\<not> pi_is_spam_dev inp"
    "tier_b_enabled (tier_b cfg)" "sb_tier (sc_breakdown s) \<noteq> Skip"
  shows "sb_tier (sc_breakdown s) = B"
proof -
  have "tier_b_dev_eligible (sc_features s) (tier_b cfg)"
    using score_stage_facts[OF assms(1)] assms(2-4) by (simp add: tier_b_dev_eligible_def dev_category_of_def)
  then show ?thesis using assms(5) score_stage_facts(1)[OF assms(1)] by (auto simp: sb_tier_eq Let_def split: if_splits)
qed

lemma F64_EPSILON_Fin: "F64_EPSILON = Fin (1 / 2 ^ 52)"
proof -
  have "f64_of (1 / 2 ^ 52) = Fin (1 / 2 ^ 52)"
    using rnd_exact[of 1 "- 52"] by (intro f64_of_exact) (simp_all add: power_int_minus field_simps)
  then show ?thesis by (simp add: F64_EPSILON_def)
qed

lemma buy_amount_bounds:
  assumes "\<not> buy_amount env s \<le> F64_EPSILON"
  shows "F64_EPSILON < buy_amount env s"
    "se_operator_cap env \<noteq> NaN \<Longrightarrow> buy_amount env s \<le> se_operator_cap env"
    "sb_recommended_size_sol (sc_breakdown s) \<noteq> NaN \<Longrightarrow>
       buy_amount env s \<le> sb_recommended_size_sol (sc_breakdown s)"
proof -
  define x where "x = f64_min (sb_recommended_size_sol (sc_breakdown s)) (se_operator_cap env)"
  have amt: "buy_amount env s = f64_max x 0" by (simp add: buy_amount_def x_def)
  have "f64_max x 0 \<noteq> NaN" by (cases x) (auto simp: f64_max_def)
  then show "F64_EPSILON < buy_amount env s"
    using assms unfolding amt by (cases "f64_max x 0") (auto simp: F64_EPSILON_Fin)
  have "f64_max x 0 \<noteq> 0" using assms by (auto simp: amt F64_EPSILON_Fin)
  then have "buy_amount env s = x" using f64_max_cases[of x 0] amt by auto
  then show "se_operator_cap env \<noteq> NaN \<Longrightarrow> buy_amount env s \<le> se_operator_cap env"
    "sb_recommended_size_sol (sc_breakdown s) \<noteq> NaN \<Longrightarrow>
       buy_amount env s \<le> sb_recommended_size_sol (sc_breakdown s)"
    by (simp_all add: x_def f64_min_le1 f64_min_le2)
qed

lemma signal_vetted:
  assumes "run_scoring_and_buy cfg live env inp = Inr es" "Signal m \<in> set es"
  shows "\<exists>s. score_stage cfg env inp = Inr s \<and> vetted cfg live env inp s \<and> m = buy_signal env inp s"
proof -
  have "Signal m \<in> set (signals es)" using assms(2) by (simp add: signals_def)
  then show ?thesis using run_outcome[OF assms(1)] by (auto split: if_splits)
qed

lemma live_gate_None:
  assumes "live_gate cfg inp s = None"
  shows "require_momentum_good cfg \<Longrightarrow> momentum_good_satisfied cfg s"
    "entry_skip_reason (sc_features s) (anti_rug cfg) = None"
    "minimum_tier_for_buy cfg = MinAPlus \<Longrightarrow> sb_tier (sc_breakdown s) = APlus \<or> sb_tier (sc_breakdown s) = B"
    "pi_is_spam_dev inp \<Longrightarrow> spam_dev_require_a_plus cfg \<Longrightarrow> sb_tier (sc_breakdown s) = APlus"
    "sb_tier (sc_breakdown s) = APlus \<Longrightarrow> sc_smart s \<noteq> 0"
    "sb_tier (sc_breakdown s) = A \<Longrightarrow> \<not> scored_velocity s < Fin 3"
  using assms
  by (auto simp: live_gate_def market_gate_def tier_gate_def aplus_rug_gate_skip_reason_def
      tier_a_low_velocity_skip_reason_def TIER_A_MIN_VELOCITY_PCT_def Let_def not_less
      split: if_splits option.splits)


text \<open>A token of a developer without history is bought in tier B and never for more than its size,
  live or not, whether it comes from the create path or from the fresh watchlist.\<close>

theorem fresh_dev_buys_tier_b:
  assumes "run_scoring_and_buy cfg live env inp = Inr es" "Signal m \<in> set es"
    "pi_dev_stats inp = None" "\<not> pi_is_spam_dev inp" "tier_b_enabled (tier_b cfg)"
  shows "\<exists>p amt early sn. m = InitiateBuy p amt B TraderStats (Some (pi_dev inp)) early (Some sn)
    \<and> (tier_sol (sc_size cfg) B = NaN \<or> amt \<le> tier_sol (sc_size cfg) B)"
proof -
  obtain s where s: "score_stage cfg env inp = Inr s" and v: "vetted cfg live env inp s"
    and m: "m = buy_signal env inp s"
    using signal_vetted[OF assms(1,2)] by blast
  have "sb_tier (sc_breakdown s) = B"
    using fresh_dev_tier[OF s assms(3-5)] v by (simp add: vetted_def)
  then show ?thesis
    using buy_amount_bounds(3)[of env s] v scored_size[OF s] assms(3)
    by (auto simp: m buy_signal_def vetted_def simp del: tier_sol.simps)
qed

section \<open>No panic\<close>

definition priced_env :: "score_env \<Rightarrow> pipeline_input \<Rightarrow> bool" where
  "priced_env env inp \<longleftrightarrow> priced (se_fetch_score env) \<and> priced (se_fetch_confirm env)
     \<and> priced (se_fetch_recheck env) \<and> pool_tokens (tb_pool (pi_bucket inp)) \<noteq> 0"

lemma score_stage_returns:
  assumes "priced_env env inp" shows "\<exists>s. score_stage cfg env inp = Inr s"
proof -
  obtain ob where ob: "observe_early_tape_points_live (se_fetch_score env) (scoring_window_ms cfg)
        (max (buyer_velocity_slices cfg) 1) (Some (th_momentum_good_low_pct (sc_thresholds cfg))) = Inr ob"
      "from_fetch (se_fetch_score env) (ob_last_bucket ob)"
    using observer_returns[of "se_fetch_score env"] assms unfolding priced_env_def by blast
  define b where "b = (case ob_last_bucket ob of Some b \<Rightarrow> b | None \<Rightarrow> pi_bucket inp)"
  have "pool_tokens (tb_pool b) \<noteq> 0"
    using ob(2) assms by (auto simp: b_def priced_env_def priced_def from_fetch_def split: option.splits)
  then obtain m where m: "pool_mcap_sol (tb_pool b) = Inr m" using pool_mcap_sol_sane by blast
  then show ?thesis
    by (simp add: score_stage_def ob(1)[unfolded One_nat_def] m Let_def case_prod_unfold flip: b_def)
qed

lemma continuation_skip_returns:
  assumes "priced (se_fetch_recheck env)" shows "\<exists>r. continuation_skip cfg env s confirm = Inr r"
proof -
  obtain rc where "recheck_observation cfg env = Inr rc"
    using observer_returns[OF assms] unfolding recheck_observation_def Let_def by blast
  then show ?thesis by (auto simp: continuation_skip_def split: sum.split)
qed

lemma confirm_stage_returns:
  assumes "priced_env env inp" shows "\<exists>r. confirm_stage cfg env s = Inr r"
proof -
  have "\<forall>w n. \<exists>r. observe_early_tape_points_live (se_fetch_confirm env) w n None = Inr r"
    using observer_returns[of "se_fetch_confirm env"] assms unfolding priced_env_def by blast
  then obtain ob where ob: "observe_early_tape_points_live (se_fetch_confirm env) w n None = Inr (ob w n)" for w n
    by metis
  have "\<forall>confirm. \<exists>r. continuation_skip cfg env s confirm = Inr r"
    using continuation_skip_returns assms unfolding priced_env_def by blast
  then obtain r where r: "continuation_skip cfg env s confirm = Inr (r confirm)" for confirm
    by metis
  show ?thesis
    by (auto simp: confirm_stage_def Let_def ob r case_prod_unfold split: option.split)
qed

lemma pipeline_returns:
  assumes "priced_env env inp" shows "\<exists>es. run_scoring_and_buy cfg live env inp = Inr es"
proof -
  obtain s where s: "score_stage cfg env inp = Inr s" using score_stage_returns[OF assms] by blast
  obtain r where r: "confirm_stage cfg env s = Inr r" using confirm_stage_returns[OF assms] by blast
  have "\<exists>es. dispatch_stage cfg live env inp s = Inr es"
    by (cases r; cases live) (simp_all add: dispatch_stage_def r split: prod.split)
  then obtain es where "dispatch_stage cfg live env inp s = Inr es" by blast
  then show ?thesis by (auto simp: run_scoring_and_buy_def s Let_def split: prod.split option.split)
qed

text \<open>The pipeline does not panic: with buckets that have a price it ends, live or not, for every
  configuration, every answer of the other actors and every tape; and so do the polls of the watchlist.\<close>

theorem pipeline_never_panics:
  assumes "priced_env env inp" "\<forall>b. fetched = Some b \<longrightarrow> pool_tokens (tb_pool b) \<noteq> 0"
  shows "returns (run_scoring_and_buy cfg live env inp)
    \<and> returns (watch_finish cfg live env mint dev (pi_bucket inp) v)
    \<and> returns (poll_b_gates cfg env mint dev initial fetched)
    \<and> returns (offer_to_watchlist cfg has_log mint (pi_bucket inp) w)"
proof (intro conjI)
  show "returns (run_scoring_and_buy cfg live env inp)"
    using pipeline_returns[OF assms(1)] by (simp add: returns_iff)
  have "priced_env env (watch_input mint dev (pi_bucket inp))"
    using assms(1) by (simp add: priced_env_def watch_input_def)
  then obtain es where "run_scoring_and_buy cfg live env (watch_input mint dev (pi_bucket inp)) = Inr es"
    using pipeline_returns by blast
  then show "returns (watch_finish cfg live env mint dev (pi_bucket inp) v)"
    by (cases v) (simp_all add: watch_finish_def)
  show "returns (poll_b_gates cfg env mint dev initial fetched)"
  proof (cases fetched)
    case (Some b)
    then obtain p where "snapshot_early_tape b = Inr p" using assms(2) snapshot_returns by blast
    then show ?thesis by (simp add: poll_b_gates_def Some Let_def case_prod_unfold)
  qed (simp add: poll_b_gates_def)
  obtain m where "pool_mcap_sol (tb_pool (pi_bucket inp)) = Inr m"
    using pool_mcap_sol_sane assms(1) unfolding priced_env_def by blast
  then show "returns (offer_to_watchlist cfg has_log mint (pi_bucket inp) w)"
    by (auto simp: offer_to_watchlist_def Let_def split: sum.split try_add_error.split)
qed

section \<open>The recheck that never runs\<close>

text \<open>A live A+ token without smart wallets is skipped before the confirmation.\<close>

lemma no_peak_defer:
  assumes "live_gate cfg inp s = None" shows "\<not> needs_peak_defer cfg s points"
  using live_gate_None(5)[OF assms]
  by (auto simp: needs_peak_defer_def aplus_peak_no_smart_guard_def Let_def word_gt_0)

definition with_peak_guard :: "peak_guard_config \<Rightarrow> scoring_config \<Rightarrow> scoring_config" where
  "with_peak_guard pg cfg = cfg\<lparr>continuation := (continuation cfg)\<lparr>aplus_peak_guard := pg\<rparr>\<rparr>"

lemma with_peak_guard_simps [simp]:
  "scoring_window_ms (with_peak_guard pg cfg) = scoring_window_ms cfg"
  "buyer_velocity_slices (with_peak_guard pg cfg) = buyer_velocity_slices cfg"
  "a_plus_threshold (with_peak_guard pg cfg) = a_plus_threshold cfg"
  "a_threshold (with_peak_guard pg cfg) = a_threshold cfg"
  "require_momentum_good (with_peak_guard pg cfg) = require_momentum_good cfg"
  "momentum_good_smart_bypass (with_peak_guard pg cfg) = momentum_good_smart_bypass cfg"
  "momentum_good_aplus_smart_bypass (with_peak_guard pg cfg) = momentum_good_aplus_smart_bypass cfg"
  "momentum_good_strong_a (with_peak_guard pg cfg) = momentum_good_strong_a cfg"
  "minimum_tier_for_buy (with_peak_guard pg cfg) = minimum_tier_for_buy cfg"
  "spam_dev_penalty (with_peak_guard pg cfg) = spam_dev_penalty cfg"
  "spam_dev_require_a_plus (with_peak_guard pg cfg) = spam_dev_require_a_plus cfg"
  "legacy_scoring (with_peak_guard pg cfg) = legacy_scoring cfg"
  "sc_weights (with_peak_guard pg cfg) = sc_weights cfg"
  "sc_thresholds (with_peak_guard pg cfg) = sc_thresholds cfg"
  "sc_size (with_peak_guard pg cfg) = sc_size cfg"
  "anti_rug (with_peak_guard pg cfg) = anti_rug cfg"
  "anti_parabolic (with_peak_guard pg cfg) = anti_parabolic cfg"
  "weak_a_gate (with_peak_guard pg cfg) = weak_a_gate cfg"
  "tier_b (with_peak_guard pg cfg) = tier_b cfg"
  "aa_override_enabled (with_peak_guard pg cfg) = aa_override_enabled cfg"
  "second_look (continuation (with_peak_guard pg cfg)) = second_look (continuation cfg)"
  "cont_enabled (continuation (with_peak_guard pg cfg)) = cont_enabled (continuation cfg)"
  "cont_confirm_window_ms (continuation (with_peak_guard pg cfg)) = cont_confirm_window_ms (continuation cfg)"
  "cont_confirm_slices (continuation (with_peak_guard pg cfg)) = cont_confirm_slices (continuation cfg)"
  "min_upticks (continuation (with_peak_guard pg cfg)) = min_upticks (continuation cfg)"
  "min_new_unique_buyers (continuation (with_peak_guard pg cfg)) = min_new_unique_buyers (continuation cfg)"
  "max_b2s_drop_ratio (continuation (with_peak_guard pg cfg)) = max_b2s_drop_ratio (continuation cfg)"
  "max_sell_absorption_ratio (continuation (with_peak_guard pg cfg)) = max_sell_absorption_ratio (continuation cfg)"
  "min_buys_per_sec (continuation (with_peak_guard pg cfg)) = min_buys_per_sec (continuation cfg)"
  by (simp_all add: with_peak_guard_def)

lemma score_token_guard: "score_token (with_peak_guard pg cfg) f t = score_token cfg f t"
  unfolding score_token_def score_legacy_def score_v2_def rules_legacy_def rules_v2_def
    early_tape_rules_def rule_spam_def rule_ratio_def finish_breakdown_def tier_of_total_def
    with_peak_guard_simps
  by (rule refl)

lemma score_stage_guard: "score_stage (with_peak_guard pg cfg) env inp = score_stage cfg env inp"
  unfolding score_stage_def active_thresholds_def dev_category_of_def score_token_guard with_peak_guard_simps
  by (rule refl)

lemma momentum_guard: "momentum_good_satisfied (with_peak_guard pg cfg) s = momentum_good_satisfied cfg s"
  by (simp only: momentum_good_satisfied_def strong_a_ok_def with_peak_guard_simps)

lemma live_gate_guard: "live_gate (with_peak_guard pg cfg) inp s = live_gate cfg inp s"
  by (simp only: live_gate_def market_gate_def tier_gate_def momentum_guard with_peak_guard_simps)

lemma confirm_verdict_guard: "confirm_verdict (with_peak_guard pg cfg) s points = confirm_verdict cfg s points"
  by (simp only: confirm_verdict_def evaluate_continuation_def with_peak_guard_simps)

lemma confirm_stage_guard:
  assumes "live_gate cfg inp s = None"
  shows "confirm_stage (with_peak_guard pg cfg) env s = confirm_stage cfg env s"
proof -
  have no: "\<not> needs_peak_defer (with_peak_guard pg cfg) s points" "\<not> needs_peak_defer cfg s points" for points
    using no_peak_defer assms live_gate_guard by metis+
  have "continuation_skip (with_peak_guard pg cfg) env s confirm = continuation_skip cfg env s confirm" for confirm
    by (simp only: continuation_skip_def no if_False confirm_verdict_guard second_look_allowed_def
        recheck_observation_def with_peak_guard_simps)
  then show ?thesis by (simp only: confirm_stage_def parabolic_skip_def with_peak_guard_simps)
qed

text \<open>The guard for A+ tokens bought at their peak without smart money is dead configuration: an
  earlier gate skips every live A+ token without a smart wallet, so changing, enabling or disabling the
  guard changes nothing the pipeline does, live or not.\<close>

theorem peak_guard_has_no_effect:
  "run_scoring_and_buy (with_peak_guard pg cfg) live env inp = run_scoring_and_buy cfg live env inp"
proof -
  have lbl: "skip_label (with_peak_guard pg cfg) s = skip_label cfg s" for s
    by (simp add: skip_label_def)
  have disp: "dispatch_stage (with_peak_guard pg cfg) live env inp s = dispatch_stage cfg live env inp s"
    if "live \<longrightarrow> live_gate cfg inp s = None" for s
    using that confirm_stage_guard[of cfg inp s pg env] by (cases live) (simp_all add: dispatch_stage_def)
  show ?thesis
  proof (cases "score_stage cfg env inp")
    case (Inr s)
    show ?thesis
      using disp[of s]
      by (cases live; cases "live_gate cfg inp s")
         (simp_all add: run_scoring_and_buy_def score_stage_guard Inr lbl live_gate_guard Let_def)
  qed (simp add: run_scoring_and_buy_def score_stage_guard)
qed

section \<open>Examples\<close>

text \<open>An A+ token: no rule has points, the threshold of A+ is zero, one smart wallet bought early.\<close>

definition zero_weights :: scoring_weights where
  "zero_weights =
     \<lparr>w_dev_history_strong = 0, w_dev_history_weak = 0, w_dev_ranker_a_plus = 0, w_dev_ranker_a = 0,
      w_dev_ranker_bad = 0, w_smart_wallets_3plus = 0, w_smart_wallets_1plus = 0, w_buyers_10plus = 0,
      w_buyers_6plus = 0, w_buyers_below_3 = 0, w_buy_to_sell_ratio_high = 0, w_momentum_good = 0,
      w_momentum_overheated = 0, w_volume_ok = 0, w_bundle_similar = 0, w_bundle_identical = 0,
      w_buyer_velocity_persistent = 0, w_buyer_velocity_fading = 0, w_sell_pressure_high = 0,
      w_absorb_strong = 0, w_smart_early_exit_dump = 0, w_repeat_dump_penalty = 0\<rparr>"

definition demo_scoring :: scoring_config where
  "demo_scoring = scoring_default
     \<lparr>sc_weights := zero_weights, a_plus_threshold := 0, spam_dev_penalty := 0, require_momentum_good := False,
      anti_rug := anti_rug_default\<lparr>ar_enabled := False, entry_gate_enabled := False\<rparr>,
      tier_b := tier_b_default\<lparr>tier_b_enabled := False\<rparr>,
      sc_size := \<lparr>tier_size.a_plus_sol = Fin 1, tier_size.a_sol = Fin 1, tier_size.b_sol = Fin 1\<rparr>\<rparr>"

definition demo_env :: score_env where
  "demo_env =
     \<lparr>se_fetch_score = (\<lambda>_. Some sample_bucket), se_fetch_confirm = (\<lambda>_. Some sample_bucket),
      se_fetch_recheck = (\<lambda>_. Some sample_bucket), se_swarm = tb_swarm sample_bucket,
      se_dev_category = (DevNeutral, dev_record_default), se_count_smart = (\<lambda>_. 1),
      se_filter_smart = (\<lambda>_. []), se_patch = patch_default, se_operator_cap = Fin 1, se_elapsed_ms = 2,
      se_has_log = True, se_str = (\<lambda>_. []), se_tanh = id\<rparr>"

definition demo_input :: "bool \<Rightarrow> bool \<Rightarrow> pipeline_input" where
  "demo_input spam w =
     \<lparr>pi_mint = 7, pi_dev = 9, pi_dev_stats = None, pi_is_spam_dev = spam, pi_bucket = sample_bucket,
      pi_from_fresh_watchlist = w\<rparr>"

lemma fired_zero: "bounded_by r (0, 0) \<Longrightarrow> fired (r # rs) = fired rs"
  by (cases r) (auto simp: bounded_by_def)

lemma fired_mem: "Some (n, p) \<in> set rs \<Longrightarrow> p \<noteq> 0 \<Longrightarrow> (n, p) \<in> set (fired rs)"
proof (induction rs)
  case (Cons r rs)
  then show ?case by (cases r) (auto split: if_splits)
qed simp

lemma zero_rules:
  "sc_weights cfg = zero_weights \<Longrightarrow> spam_dev_penalty cfg = 0 \<Longrightarrow> \<not> legacy_scoring cfg \<Longrightarrow>
     fired (engine_rules cfg t f) = []"
proof -
  assume cfg: "sc_weights cfg = zero_weights" "spam_dev_penalty cfg = 0" "\<not> legacy_scoring cfg"
  have "bounded_by (rule_spam cfg f) (0, 0)" "bounded_by (rule_history zero_weights t f) (0, 0)"
    "bounded_by (rule_ranker zero_weights f) (0, 0)" "bounded_by (rule_smart zero_weights t f) (0, 0)"
    "bounded_by (rule_buyers zero_weights t f) (0, 0)" "bounded_by (rule_ratio cfg t f) (0, 0)"
    "bounded_by (rule_momentum_v2 zero_weights t f) (0, 0)" "bounded_by (rule_volume zero_weights t f) (0, 0)"
    "bounded_by (rule_bundle_v2 zero_weights t f) (0, 0)"
    "bounded_by (rule_velocity (anti_rug cfg) zero_weights f) (0, 0)"
    "bounded_by (rule_pressure zero_weights f) (0, 0)"
    "bounded_by (rule_absorb (anti_rug cfg) zero_weights f) (0, 0)"
    "bounded_by (rule_smart_exit zero_weights f) (0, 0)" "bounded_by (rule_dump zero_weights f) (0, 0)"
    using cfg unfolding bounded_by_def rule_defs Let_def
    by (auto simp: zero_weights_def saturating_mul_i32_def half_i32_def split: if_splits dev_category.splits)
  then show ?thesis
    by (simp add: engine_rules_def rules_v2_def early_tape_rules_def cfg Let_def fired_zero)
qed

lemma demo_priced: "priced_env demo_env (demo_input spam w)"
  using sample_bucket_tokens by (simp add: priced_env_def priced_def demo_env_def demo_input_def)

lemma demo_vetted:
  assumes "score_stage demo_scoring demo_env (demo_input spam w) = Inr s"
  shows "vetted demo_scoring True demo_env (demo_input spam w) s"
proof -
  note f = score_stage_facts[OF assms]
  have bd: "sb_items (sc_breakdown s) = []" "sb_total (sc_breakdown s) = 0"
    by (simp_all add: f(1) score_token_items zero_rules demo_scoring_def scoring_default_def)
  have tr: "sb_tier (sc_breakdown s) = APlus"
    using bd by (simp add: f(1) sb_tier_eq Let_def tier_b_dev_eligible_def plain_tier_def demo_scoring_def
        scoring_default_def)
  have smart: "sc_smart s = 1"
    using assms by (auto simp: score_stage_def bind_outcome_Inr_iff Let_def case_prod_unfold demo_env_def)
  have "buy_amount demo_env s = Fin 1"
    using scored_size[OF assms] tr
    by (simp add: buy_amount_def demo_env_def demo_scoring_def f64_max_def f64_min_def zero_f64_def)
  moreover have "live_gate demo_scoring (demo_input spam w) s = None"
    using bd tr smart
    by (simp add: live_gate_def market_gate_def tier_gate_def demo_scoring_def demo_input_def Let_def
        scoring_default_def entry_skip_reason_def weak_a_hard_skip_reason_def weak_a_profile_match_def
        weak_a_synthetic_pump_skip_reason_def aplus_rug_gate_skip_reason_def
        tier_a_low_velocity_skip_reason_def)
  moreover have "confirm_stage demo_scoring demo_env s = Inr None"
    by (simp add: confirm_stage_def demo_scoring_def scoring_default_def continuation_default_def
        anti_parabolic_default_def)
  ultimately show ?thesis using tr by (simp add: vetted_def F64_EPSILON_Fin)
qed

lemma demo_signal:
  "\<exists>es s. run_scoring_and_buy demo_scoring True demo_env (demo_input spam w) = Inr es \<and>
     score_stage demo_scoring demo_env (demo_input spam w) = Inr s \<and>
     Signal (buy_signal demo_env (demo_input spam w) s) \<in> set es"
proof -
  obtain es where es: "run_scoring_and_buy demo_scoring True demo_env (demo_input spam w) = Inr es"
    using pipeline_returns[OF demo_priced] by blast
  obtain s where s: "score_stage demo_scoring demo_env (demo_input spam w) = Inr s"
    and sg: "signals es = [Signal (buy_signal demo_env (demo_input spam w) s)]"
    using run_outcome[OF es] demo_vetted by auto
  have "Signal (buy_signal demo_env (demo_input spam w) s) \<in> set (signals es)" by (simp add: sg)
  then have "Signal (buy_signal demo_env (demo_input spam w) s) \<in> set es" by (simp add: signals_def)
  then show ?thesis using es s by blast
qed



lemma pipeline_never_panics_witness:
  "returns (run_scoring_and_buy demo_scoring True demo_env (demo_input False False))
    \<and> returns (poll_b_gates demo_scoring demo_env 7 9 0 (Some sample_bucket))"
  using pipeline_never_panics[OF demo_priced[of False False], of "Some sample_bucket" demo_scoring True 7 9 WatchRejected 0
      True watchlist_new] sample_bucket_tokens
  by simp

text \<open>A token of a new developer that the launchpad does not answer for: tier B with the momentum rule.\<close>

definition demo_scoring_b :: scoring_config where
  "demo_scoring_b = demo_scoring
     \<lparr>sc_weights := zero_weights\<lparr>w_momentum_good := 1\<rparr>,
      sc_thresholds := thresholds_default
        \<lparr>th_momentum_good_low_pct := Fin (- 100), th_momentum_good_high_pct := Fin 100\<rparr>,
      tier_b := tier_b_default\<lparr>tier_b_min_buyers := 0, tier_b_min_buy_volume_sol := 0,
                               tier_b_min_velocity_pct := Fin (- 100),
                               fresh_watchlist_cfg := fresh_watchlist_default\<lparr>fw_enabled := True\<rparr>\<rparr>\<rparr>"

definition demo_env_b :: score_env where
  "demo_env_b = demo_env\<lparr>se_fetch_score := (\<lambda>_. None),
     se_swarm := swarm_new (amount_from_raw 1000000000 6) 6 9\<rparr>"

lemma observe_nothing:
  "observe_early_tape_points_live (\<lambda>_. None) w n low = Inr (finalize_tape_observe [] False None)"
proof -
  define s where "s = (of_nat (max n 1) :: u64)"
  have none: "observe_slices (\<lambda>_. None) low k i (out, a, b, c) = Inr (Inr (out, a, b, c))" for k i out a b c
    by (induction k arbitrary: i) simp_all
  have "mark_exit low (finalize_tape_observe [] False None) = finalize_tape_observe [] False None"
    by (simp add: mark_exit_def finalize_tape_observe_def tape_hit_momentum_low_def zero_f64_def Let_def
        split: option.split)
  then show ?thesis by (simp add: observer_unfold(1)[OF s_def] none observe_end_def)
qed

lemma momentum_from_zero: "mcap_like m \<Longrightarrow> momentum_peak_pct m 0 \<in> {Fin (- 100), Fin 0}"
  by (auto simp: mcap_like_def momentum_peak_pct_def zero_f64_def one_f64_def)

lemma demo_b_signal:
  "\<exists>es s. run_scoring_and_buy demo_scoring_b False demo_env_b (demo_input False w) = Inr es \<and>
     Signal (buy_signal demo_env_b (demo_input False w) s) \<in> set es"
proof -
  have "priced_env demo_env_b (demo_input False w)"
    using demo_priced by (simp add: priced_env_def priced_def demo_env_b_def)
  then obtain es where es: "run_scoring_and_buy demo_scoring_b False demo_env_b (demo_input False w) = Inr es"
    using pipeline_returns by blast
  then obtain s where s: "score_stage demo_scoring_b demo_env_b (demo_input False w) = Inr s"
    and sg: "signals es = (if vetted demo_scoring_b False demo_env_b (demo_input False w) s
        then [Signal (buy_signal demo_env_b (demo_input False w) s)] else [])"
    using run_outcome by blast
  let ?f = "sc_features s"
  note fs = score_stage_facts[OF s]
  obtain m where m: "pool_mcap_sol (tb_pool sample_bucket) = Inr m" "mcap_like m"
    using pool_mcap_sol_sane[OF sample_bucket_tokens] by blast
  have feat: "tf_initial_mcap_sol ?f = m" "tf_peak_mcap_sol ?f = 0" "tf_current_mcap_sol ?f = 0"
    "tf_buy_volume_sol ?f = 0" "tf_is_spam_dev ?f = False" "tf_dev_category ?f = DevFresh"
    using s m(1)
    by (auto simp: score_stage_def observe_nothing demo_env_b_def demo_env_def bind_outcome_Inr_iff Let_def
        case_prod_unfold assemble_def finalize_tape_observe_def demo_input_def snapshot_early_buyers_def
        scan_buyers_def traders_by_type_def swarm_new_def dev_category_of_def demo_scoring_b_def
        tier_b_default_def zero_f64_def split: if_splits)
  have thr: "active_thresholds demo_scoring_b (se_patch demo_env_b) = sc_thresholds demo_scoring_b"
    by (simp add: active_thresholds_def demo_scoring_b_def demo_scoring_def scoring_default_def demo_env_b_def
        demo_env_def patch_default_def merge_thresholds_def)
  have vel: "fresh_b_velocity_pct ?f \<in> {Fin (- 100), Fin 0}"
    using momentum_from_zero[OF m(2)] by (simp add: fresh_b_velocity_pct_def feat)
  have mom: "rule_momentum_v2 (sc_weights demo_scoring_b) (sc_thresholds demo_scoring_b) ?f = Some (''momentum_good'', 1)"
    using vel by (auto simp: rule_momentum_v2_def scoring_momentum_pct_def fresh_b_velocity_pct_def Let_def
        in_good_band_def demo_scoring_b_def zero_weights_def)
  have "\<not> legacy_scoring demo_scoring_b" by (simp add: demo_scoring_b_def demo_scoring_def scoring_default_def)
  then have "Some (''momentum_good'', 1) \<in> set (engine_rules demo_scoring_b (sc_thresholds demo_scoring_b) ?f)"
    by (simp add: engine_rules_def rules_v2_def mom Let_def)
  then have "(''momentum_good'', 1) \<in> set (sb_items (sc_breakdown s))"
    unfolding fs(1) thr score_token_items(1) by (rule fired_mem) simp
  then have good: "has_momentum_good_item (sb_items (sc_breakdown s))"
    unfolding has_momentum_good_item_def by force
  have "tier_b_entry_ok (tier_b demo_scoring_b) ?f (sb_items (sc_breakdown s))"
    using good vel by (auto simp: tier_b_entry_ok_def tier_b_base_gates_ok_def tier_b_velocity_ok_def feat
        demo_scoring_b_def tier_b_default_def zero_f64_def)
  then have tr: "sb_tier (sc_breakdown s) = B"
    by (simp add: fs(1) sb_tier_eq Let_def tier_b_dev_eligible_def feat evaluate_tier_b_poll_def
        tier_b_poll_passes_def demo_scoring_b_def tier_b_default_def)
  have "buy_amount demo_env_b s = Fin 1"
    using scored_size[OF s] tr
    by (simp add: buy_amount_def demo_env_b_def demo_env_def demo_scoring_b_def demo_scoring_def f64_max_def
        f64_min_def zero_f64_def)
  then have "vetted demo_scoring_b False demo_env_b (demo_input False w) s"
    using tr by (simp add: vetted_def F64_EPSILON_Fin)
  then have "Signal (buy_signal demo_env_b (demo_input False w) s) \<in> set (signals es)" by (simp add: sg)
  then show ?thesis using es by (auto simp: signals_def)
qed

lemma fresh_dev_buys_tier_b_witness:
  "\<exists>es m. run_scoring_and_buy demo_scoring_b False demo_env_b (demo_input False False) = Inr es \<and> Signal m \<in> set es
     \<and> (\<exists>p amt early sn. m = InitiateBuy p amt B TraderStats (Some 9) early (Some sn) \<and> amt \<le> Fin 1)"
proof -
  obtain es s where es: "run_scoring_and_buy demo_scoring_b False demo_env_b (demo_input False False) = Inr es"
    and m: "Signal (buy_signal demo_env_b (demo_input False False) s) \<in> set es"
    using demo_b_signal by blast
  have "pi_dev_stats (demo_input False False) = None" "\<not> pi_is_spam_dev (demo_input False False)" "tier_b_enabled (tier_b demo_scoring_b)"
    "pi_dev (demo_input False False) = 9" "tier_sol (sc_size demo_scoring_b) B = Fin 1"
    by (simp_all add: demo_input_def demo_scoring_b_def demo_scoring_def tier_b_default_def)
  then show ?thesis using fresh_dev_buys_tier_b[OF es m] es m by auto
qed

end
