(* ===== verification/Create_Laws.thy ===== *)
theory Create_Laws
  imports Entry_Safety
begin

text \<open>
  What holds from the creation of a token to its purchase: what a signal says about the developer of the
  token, and the table of the fresh watchlist as a step relation over the tasks of all tokens.
\<close>

section \<open>From creation to purchase\<close>

lemma handle_create_scored:
  assumes "handle_create cfg c env g b = (es, Scored inp)"
  shows "is_native_sol_quote (ce_native_sol env) (ce_legacy_sol env) g" "blacklist_stage env = None"
    "pi_dev inp = gc_user g" "pi_mint inp = gc_mint g" "\<not> pi_from_fresh_watchlist inp"
    "(pi_is_spam_dev inp \<and> pi_dev_stats inp = None \<and> is_spam_dev c env (gc_user g))
     \<or> (\<not> pi_is_spam_dev inp \<and> ce_creator_stats env = Inr (pi_dev_stats inp)
        \<and> (case pi_dev_stats inp of None \<Rightarrow> tier_b_enabled (tier_b cfg) | Some st \<Rightarrow> filter_creator c st))"
  using assms
  by (auto simp: handle_create_def history_stage_def is_unsupported_quote_mint_def Let_def
      split: if_splits option.splits sum.splits prod.splits)

lemma handle_create_offered:
  assumes "handle_create cfg c env g b = (es, Offered rs)"
  shows "is_native_sol_quote (ce_native_sol env) (ce_legacy_sol env) g" "blacklist_stage env = None"
    "tier_b_enabled (tier_b cfg)" "ce_prior_coins env = Inr 0"
    "\<exists>st. ce_creator_stats env = Inr (Some st) \<and> rs = reject_reasons c st \<and> is_early_stats_only_reject rs"
  using assms
  by (auto simp: handle_create_def history_stage_def is_unsupported_quote_mint_def Let_def
      split: if_splits option.splits sum.splits prod.splits)

text \<open>C1. From creation to purchase: a live signal of a created token is for a token quoted in SOL, and the
  blacklist, where its check is enabled and its look-up answers, has no entry in force for the
  developer (a failed look-up lets the token through). The developer either has statistics that pass the
  creator filter, or has no history and is bought in tier B, or is a prolific launcher, and then, where
  the configuration demands A+ for these, is bought at A+.\<close>

theorem created_token_signal:
  assumes "handle_create cfg c env g b = (es0, Scored inp)"
    "run_scoring_and_buy cfg True senv inp = Inr es" "Signal m \<in> set es"
  shows "is_native_sol_quote (ce_native_sol env) (ce_legacy_sol env) g
    \<and> (ce_blacklist_enabled env \<longrightarrow> (\<forall>a. ce_active_for_dev env \<noteq> Inr (Some a)))
    \<and> (\<exists>p amt tr r early sn. m = InitiateBuy p amt tr r (Some (gc_user g)) early (Some sn)
      \<and> ((\<exists>st. r = DevStats st \<and> ce_creator_stats env = Inr (Some st) \<and> filter_creator c st)
         \<or> (r = TraderStats \<and> ce_creator_stats env = Inr None \<and> tr = B)
         \<or> (r = TraderStats \<and> is_spam_dev c env (gc_user g)
            \<and> (spam_dev_require_a_plus cfg \<longrightarrow> tr = APlus))))"
proof -
  note inp = handle_create_scored[OF assms(1)]
  obtain s where s: "score_stage cfg senv inp = Inr s" and v: "vetted cfg True senv inp s"
    and m: "m = buy_signal senv inp s"
    using signal_vetted[OF assms(2,3)] by blast
  have gate: "live_gate cfg inp s = None" and tr: "sb_tier (sc_breakdown s) \<noteq> Skip"
    using v by (simp_all add: vetted_def)
  show ?thesis
    using inp live_gate_None(4)[OF gate] fresh_dev_tier[OF s _ _ _ tr]
    by (auto simp: m buy_signal_def blacklist_stage_def split: option.splits)
qed

text \<open>C15. From the watchlist to purchase: a token that the create handler deferred and that is bought
  later belongs to a developer whose first token this is, rejected for statistics that need time only,
  and it is bought in tier B.\<close>

theorem watched_token_signal:
  assumes "handle_create cfg c env g b = (es0, Offered rs)"
    "watch_finish cfg live senv (gc_mint g) (gc_user g) b' v = Inr es" "Signal m \<in> set es"
  shows "blacklist_stage env = None \<and> ce_prior_coins env = Inr 0 \<and> set rs \<subseteq> set EARLY_STATS
    \<and> (\<exists>p amt early sn. m = InitiateBuy p amt B TraderStats (Some (gc_user g)) early (Some sn))
    \<and> (\<exists>hot. v = WatchPassed hot)"
proof -
  obtain hot where hot: "v = WatchPassed hot"
    using assms(2,3) by (cases v) (auto simp: watch_finish_def split: if_splits)
  let ?inp = "watch_input (gc_mint g) (gc_user g) b'"
  obtain es' where run: "run_scoring_and_buy cfg live senv ?inp = Inr es'" and "Signal m \<in> set es'"
    using assms(2,3) hot by (auto simp: watch_finish_def bind_outcome_Inr_iff split: if_splits)
  then obtain s where s: "score_stage cfg senv ?inp = Inr s" and v: "vetted cfg live senv ?inp s"
    and m: "m = buy_signal senv ?inp s"
    using signal_vetted by blast
  have "sb_tier (sc_breakdown s) = B"
    using fresh_dev_tier[OF s] handle_create_offered(3)[OF assms(1)] v
    by (simp add: watch_input_def vetted_def)
  then show ?thesis
    using handle_create_offered[OF assms(1)] hot
    by (auto simp: m buy_signal_def watch_input_def is_early_stats_only_reject_def)
qed

section \<open>The table of the watchlist\<close>

text \<open>
  The tasks that use the table: those that took their mint and have not counted themselves yet, those
  that poll, and how many gave their mint back and are still counted.
\<close>

record watch_system =
  ws_table :: watchlist
  ws_entering :: "address set"
  ws_polling :: "address set"
  ws_leaving :: nat

definition watch_init :: watch_system where
  "watch_init = \<lparr>ws_table = watchlist_new, ws_entering = {}, ws_polling = {}, ws_leaving = 0\<rparr>"

text \<open>With \<open>serial\<close> a task enters only when no other is between the lock and the counter.\<close>

inductive watch_step :: "fresh_watchlist_config \<Rightarrow> bool \<Rightarrow> watch_system \<Rightarrow> watch_system \<Rightarrow> bool"
  for cfg serial where
  enter: "try_enter cfg mint (ws_table s) = Inr w \<Longrightarrow> (serial \<longrightarrow> ws_entering s = {}) \<Longrightarrow>
     watch_step cfg serial s (s\<lparr>ws_table := w, ws_entering := insert mint (ws_entering s)\<rparr>)"
| count: "mint \<in> ws_entering s \<Longrightarrow>
     watch_step cfg serial s (s\<lparr>ws_table := count_in (ws_table s), ws_entering := ws_entering s - {mint},
       ws_polling := insert mint (ws_polling s)\<rparr>)"
| give_back: "mint \<in> ws_polling s \<Longrightarrow>
     watch_step cfg serial s (s\<lparr>ws_table := leave mint (ws_table s), ws_polling := ws_polling s - {mint},
       ws_leaving := ws_leaving s + 1\<rparr>)"
| uncount: "0 < ws_leaving s \<Longrightarrow>
     watch_step cfg serial s (s\<lparr>ws_table := count_out (ws_table s), ws_leaving := ws_leaving s - 1\<rparr>)"

inductive watch_reach :: "fresh_watchlist_config \<Rightarrow> bool \<Rightarrow> watch_system \<Rightarrow> bool" for cfg serial where
  start: "watch_reach cfg serial watch_init"
| move: "watch_reach cfg serial s \<Longrightarrow> watch_step cfg serial s t \<Longrightarrow> watch_reach cfg serial t"

definition watch_ok :: "fresh_watchlist_config \<Rightarrow> bool \<Rightarrow> watch_system \<Rightarrow> bool" where
  "watch_ok cfg serial s \<longleftrightarrow> finite (ws_entering s) \<and> finite (ws_polling s)
     \<and> ws_entering s \<inter> ws_polling s = {}
     \<and> wl_active (ws_table s) = ws_entering s \<union> ws_polling s
     \<and> wl_running (ws_table s) = card (ws_polling s) + ws_leaving s
     \<and> (serial \<longrightarrow> wl_running (ws_table s) + card (ws_entering s) \<le> fw_max_concurrent cfg)"

lemma try_enter_Inr:
  "try_enter cfg mint w = Inr w' \<longleftrightarrow>
     fw_enabled cfg \<and> mint \<notin> wl_active w \<and> wl_running w < fw_max_concurrent cfg
     \<and> w' = w\<lparr>wl_active := insert mint (wl_active w)\<rparr>"
  by (auto simp: try_enter_def)

lemma watch_step_ok: "watch_step cfg serial s t \<Longrightarrow> watch_ok cfg serial s \<Longrightarrow> watch_ok cfg serial t"
proof (induction rule: watch_step.induct)
  case (enter mint s w)
  then show ?case by (auto simp: watch_ok_def try_enter_Inr)
next
  case (count mint s)
  then obtain E where E: "ws_entering s = insert mint E" "mint \<notin> E" by (meson mk_disjoint_insert)
  then have "ws_entering s - {mint} = E" by simp
  with count E show ?case by (auto simp: watch_ok_def count_in_def)
next
  case (give_back mint s)
  then obtain P where P: "ws_polling s = insert mint P" "mint \<notin> P" by (meson mk_disjoint_insert)
  then have "ws_polling s - {mint} = P" by simp
  with give_back P show ?case by (auto simp: watch_ok_def leave_def)
next
  case (uncount s)
  then show ?case by (auto simp: watch_ok_def count_out_def)
qed

text \<open>The watchlist stays consistent: its set holds the mints that enter or poll and its counter the
  tasks that are counted, so the counter never goes below zero; while entries do not overlap, the
  tasks stay within the configured number.\<close>

theorem watchlist_is_consistent:
  assumes "watch_reach cfg serial s"
  shows "wl_active (ws_table s) = ws_entering s \<union> ws_polling s
    \<and> wl_running (ws_table s) = card (ws_polling s) + ws_leaving s
    \<and> (serial \<longrightarrow> wl_running (ws_table s) + card (ws_entering s) \<le> fw_max_concurrent cfg)"
proof -
  have "watch_ok cfg serial s"
    using assms
  proof induction
    case start
    show ?case by (simp add: watch_ok_def watch_init_def watchlist_new_def)
  next
    case (move s t)
    then show ?case using watch_step_ok by blast
  qed
  then show ?thesis unfolding watch_ok_def by blast
qed

text \<open>The mints \<open>Z\<close> are in the table, \<open>N\<close> of them entering and \<open>P\<close> polling.\<close>

definition watch_at :: "address set \<Rightarrow> address set \<Rightarrow> address set \<Rightarrow> watch_system" where
  "watch_at Z N P =
     \<lparr>ws_table = \<lparr>wl_active = Z, wl_running = card P\<rparr>, ws_entering = N, ws_polling = P, ws_leaving = 0\<rparr>"

lemma all_enter:
  assumes "finite M" "fw_enabled cfg" "0 < fw_max_concurrent cfg"
  shows "watch_reach cfg False (watch_at M M {})"
  using assms(1)
proof induction
  case empty
  then show ?case using watch_reach.start[of cfg False] by (simp add: watch_at_def watch_init_def watchlist_new_def)
next
  case (insert m M)
  have "watch_step cfg False (watch_at M M {}) (watch_at (insert m M) (insert m M) {})"
    using watch_step.enter[of cfg m "watch_at M M {}" "\<lparr>wl_active = insert m M, wl_running = 0\<rparr>" False]
      assms(2,3) insert.hyps(2)
    by (simp add: watch_at_def try_enter_Inr)
  then show ?case by (rule watch_reach.move[OF insert.IH])
qed

lemma all_count:
  assumes "finite N" "watch_reach cfg False (watch_at Z N P)" "finite P" "N \<inter> P = {}"
  shows "watch_reach cfg False (watch_at Z {} (N \<union> P))"
  using assms
proof (induction N arbitrary: P)
  case (insert m N)
  have "watch_step cfg False (watch_at Z (insert m N) P) (watch_at Z N (insert m P))"
    using watch_step.count[of m "watch_at Z (insert m N) P" cfg False] insert.hyps insert.prems(2,3)
    by (simp add: watch_at_def count_in_def)
  then have "watch_reach cfg False (watch_at Z N (insert m P))"
    by (rule watch_reach.move[OF insert.prems(1)])
  from insert.IH[OF this] insert.prems(2,3) insert.hyps(2) show ?case by simp
qed simp

text \<open>The cap of the watchlist does not hold: whatever it is, as many tasks as are offered at the
  same time pass the test before one of them is counted, and all of them poll.\<close>

theorem watchlist_cap_exceeded:
  assumes "finite M" "fw_enabled cfg" "0 < fw_max_concurrent cfg"
  shows "\<exists>s. watch_reach cfg False s \<and> ws_polling s = M \<and> wl_running (ws_table s) = card M"
proof -
  have "watch_reach cfg False (watch_at M {} M)"
    using all_count[OF assms(1) all_enter[OF assms]] by simp
  then show ?thesis by (intro exI[of _ "watch_at M {} M"]) (simp add: watch_at_def)
qed

section \<open>Examples\<close>

definition demo_filter :: creator_filter where
  "demo_filter =
     \<lparr>cf_min_total_coins = None, cf_max_total_coins = None, cf_spam_skip_coins = Some 3,
      cf_spam_dev_whitelist = [], cf_min_median_market_cap = None, cf_min_trader_pnl_average = Some 1,
      cf_min_total_holders_average = None, cf_min_average_volume = None, cf_min_median_total_trades = None,
      cf_min_average_unique_buy_to_sell_ratio = None, cf_min_average_buy_trader_size = None\<rparr>"

definition demo_token :: general_create where
  "demo_token = \<lparr>gc_mint = 7, gc_user = 9, gc_quote_mint = 1\<rparr>"

definition demo_stats :: creator_statistics where
  "demo_stats =
     \<lparr>median_market_cap = Native (amount_from_raw 0 9), trader_pnl_average = 0, total_holders_average = 0,
      average_volume = 0, median_total_trades = 0, average_unique_buy_to_sell_ratio = 0,
      average_buy_trader_size = Native (amount_from_raw 0 9), total_coins = 0\<rparr>"

text \<open>A developer with \<open>n\<close> tokens so far.\<close>

definition demo_create :: "u64 \<Rightarrow> creator_statistics option \<Rightarrow> create_env" where
  "demo_create n st =
     \<lparr>ce_native_sol = 1, ce_legacy_sol = 2, ce_blacklist_enabled = True, ce_active_for_dev = Inr None,
      ce_count_capped = Inr n, ce_creator_stats = Inr st, ce_prior_coins = Inr 0, ce_has_log = True, ce_str = (\<lambda>_. [])\<rparr>"

lemma demo_rejected: "reject_reasons demo_filter demo_stats = [''min_trader_pnl_average'']"
  by (simp add: reject_reasons_def demo_filter_def demo_stats_def below_def above_def zero_f64_def one_f64_def)

lemma watched_token_signal_witness:
  "\<exists>es m. watch_finish demo_scoring_b False demo_env_b 7 9 sample_bucket (WatchPassed False) = Inr es
     \<and> Signal m \<in> set es \<and> (\<exists>p amt early sn. m = InitiateBuy p amt B TraderStats (Some 9) early (Some sn))"
proof -
  have inp: "watch_input 7 9 sample_bucket = demo_input False True"
    by (simp add: watch_input_def demo_input_def)
  obtain es s where es: "run_scoring_and_buy demo_scoring_b False demo_env_b (demo_input False True) = Inr es"
    and m: "Signal (buy_signal demo_env_b (demo_input False True) s) \<in> set es"
    using demo_b_signal by blast
  obtain es' where es': "watch_finish demo_scoring_b False demo_env_b 7 9 sample_bucket (WatchPassed False) = Inr es'"
    and m': "Signal (buy_signal demo_env_b (demo_input False True) s) \<in> set es'"
    using es m by (auto simp: watch_finish_def inp)
  have create: "handle_create demo_scoring_b demo_filter (demo_create 1 (Some demo_stats)) demo_token sample_bucket
      = ([CreateMetric Created], Offered [''min_trader_pnl_average''])"
    by (simp add: handle_create_def is_unsupported_quote_mint_def is_native_sol_quote_def demo_token_def
        demo_create_def blacklist_stage_def is_spam_dev_def history_stage_def filter_creator_def demo_rejected
        Let_def demo_filter_def[THEN arg_cong[of _ _ cf_spam_skip_coins]] demo_scoring_b_def
        tier_b_default_def is_early_stats_only_reject_def EARLY_STATS_def)
  have "gc_mint demo_token = 7" "gc_user demo_token = 9" by (simp_all add: demo_token_def)
  then show ?thesis using watched_token_signal[OF create _ m'] es' m' by auto
qed

lemma watchlist_is_consistent_witness:
  "\<exists>s. watch_reach (fresh_watchlist_default\<lparr>fw_enabled := True\<rparr>) True s \<and> ws_entering s = {7} \<and> wl_active (ws_table s) = {7}"
proof -
  let ?cfg = "fresh_watchlist_default\<lparr>fw_enabled := True\<rparr>"
  have "watch_step ?cfg True watch_init (watch_init\<lparr>ws_table := \<lparr>wl_active = {7}, wl_running = 0\<rparr>, ws_entering := {7}\<rparr>)"
    using watch_step.enter[of ?cfg 7 watch_init "\<lparr>wl_active = {7}, wl_running = 0\<rparr>" True]
    by (simp add: try_enter_Inr watch_init_def watchlist_new_def fresh_watchlist_default_def)
  then have "watch_reach ?cfg True (watch_init\<lparr>ws_table := \<lparr>wl_active = {7}, wl_running = 0\<rparr>, ws_entering := {7}\<rparr>)"
    by (rule watch_reach.move[OF watch_reach.start])
  then show ?thesis using watchlist_is_consistent by (force simp: watch_init_def)
qed

lemma watchlist_cap_exceeded_witness:
  "\<exists>s. watch_reach (fresh_watchlist_default\<lparr>fw_enabled := True, fw_max_concurrent := 1\<rparr>) False s
     \<and> wl_running (ws_table s) = 3"
  using watchlist_cap_exceeded[of "{1, 2, 3}" "fresh_watchlist_default\<lparr>fw_enabled := True, fw_max_concurrent := 1\<rparr>"]
  by auto

lemma created_token_signal_witness:
  "\<exists>es m. run_scoring_and_buy demo_scoring True demo_env (demo_input True False) = Inr es \<and> Signal m \<in> set es
     \<and> (\<exists>p amt r early sn. m = InitiateBuy p amt APlus r (Some 9) early (Some sn))"
proof -
  obtain es m where es: "run_scoring_and_buy demo_scoring True demo_env (demo_input True False) = Inr es"
    and m: "Signal m \<in> set es"
    using demo_signal by blast
  obtain es0 where create: "handle_create demo_scoring demo_filter (demo_create 5 (Some demo_stats)) demo_token
      sample_bucket = (es0, Scored (demo_input True False))"
    by (simp add: handle_create_def is_unsupported_quote_mint_def is_native_sol_quote_def demo_token_def
        demo_create_def blacklist_stage_def is_spam_dev_def demo_filter_def is_spam_dev_whitelisted_def
        demo_input_def)
  have conf: "spam_dev_require_a_plus demo_scoring" "gc_user demo_token = 9"
    "ce_creator_stats (demo_create 5 (Some demo_stats)) = Inr (Some demo_stats)"
    by (simp_all add: demo_scoring_def scoring_default_def demo_token_def demo_create_def)
  have "\<not> filter_creator demo_filter demo_stats" by (simp add: filter_creator_def demo_rejected)
  with conf obtain p amt r early sn where "m = InitiateBuy p amt APlus r (Some 9) early (Some sn)"
    using created_token_signal[OF create es m] by (elim conjE exE disjE) simp_all
  then show ?thesis using es m by blast
qed

end
