(* ===== verification/Bonding_Curve.thy ===== *)
theory Bonding_Curve
  imports Brokers
begin

text \<open>
  Model of the part of \<^verbatim>\<open>src/autobuy/pump_brocker.rs\<close> that reads a pump.fun bonding curve from the
  bytes of its account and computes with it: \<^verbatim>\<open>BondingCurveState\<close>, the market capitalisation, the
  SOL a sale brings and the largest sale the reserves can pay.

  The lemmas bring the 128-bit computations down to natural numbers; the properties state that
  decoding inverts the account layout, that the limit on a sale is exact, and that the market
  capitalisation is the one of the pool.
\<close>

section \<open>Little-endian integers\<close>

fun le_bytes :: "nat \<Rightarrow> 'n::len word \<Rightarrow> u8 list" where
  "le_bytes 0 w = []"
| "le_bytes (Suc n) w = ucast w # le_bytes n (drop_bit 8 w)"

fun le_word :: "u8 list \<Rightarrow> 'n::len word" where
  "le_word [] = 0"
| "le_word (b # bs) = ucast b + 256 * le_word bs"

lemma length_le_bytes [simp]: "length (le_bytes n w) = n"
  by (induction n w rule: le_bytes.induct) auto

lemma ucast_ucast_8: "(ucast (ucast w :: u8) :: 'n word) = take_bit 8 w" for w :: "'n::len word"
  by (simp add: bit_eq_iff bit_ucast_iff bit_take_bit_iff)

lemma le_word_le_bytes: "le_word (le_bytes n w) = take_bit (8 * n) w" for w :: "'n::len word"
proof (induction n arbitrary: w)
  case (Suc n)
  have "le_word (le_bytes (Suc n) w) = take_bit 8 w + push_bit 8 (take_bit (8 * n) (drop_bit 8 w))"
    by (simp add: Suc ucast_ucast_8 push_bit_eq_mult mult.commute)
  also have "\<dots> = take_bit 8 (take_bit (8 * Suc n) w) + push_bit 8 (drop_bit 8 (take_bit (8 * Suc n) w))"
    by (simp add: drop_bit_take_bit)
  also have "\<dots> = take_bit (8 * Suc n) w" by (metis add.commute bits_ident)
  finally show ?case .
qed simp

lemma le_word_le_bytes_full [simp]:
  "LENGTH('n) \<le> 8 * n \<Longrightarrow> le_word (le_bytes n w) = w" for w :: "'n::len word"
  by (simp add: le_word_le_bytes take_bit_word_eq_self)

text \<open>\<^verbatim>\<open>Address::new_from_array\<close> and \<^verbatim>\<open>to_bytes\<close>: the 32 bytes of an address, first byte lowest.\<close>

definition address_of_bytes :: "u8 list \<Rightarrow> address" where
  "address_of_bytes bs = le_word bs"

definition address_bytes :: "address \<Rightarrow> u8 list" where
  "address_bytes a = le_bytes 32 a"

section \<open>The account of a curve\<close>

record curve_state =
  cs_virtual_token_reserves :: u64
  cs_virtual_sol_reserves :: u64
  cs_real_token_reserves :: u64
  cs_real_sol_reserves :: u64
  cs_creator :: address
  cs_is_cashback_coin :: bool
  cs_complete :: bool

definition CREATOR_OFFSET :: nat where "CREATOR_OFFSET = 8 + 8 * 5 + 1"
definition CREATOR_LEN :: nat where "CREATOR_LEN = 32"
definition IS_CASHBACK_COIN_OFFSET :: nat where
  "IS_CASHBACK_COIN_OFFSET = CREATOR_OFFSET + CREATOR_LEN + 1"

definition read_u64 :: "u8 list \<Rightarrow> nat \<Rightarrow> u64" where
  "read_u64 data off = le_word (take 8 (drop off data))"

text \<open>The bytes of an account, once fetched; the error is the text of the broker error.\<close>

definition decode_curve :: "u8 list \<Rightarrow> string + curve_state" where
  "decode_curve data =
     (if length data < CREATOR_OFFSET + CREATOR_LEN
      then Inl (''bonding_curve data too short: '' @ show_nat (length data) @ '' bytes, need at least ''
                  @ show_nat (CREATOR_OFFSET + CREATOR_LEN))
      else Inr \<lparr>cs_virtual_token_reserves = read_u64 data 8,
                cs_virtual_sol_reserves = read_u64 data 16,
                cs_real_token_reserves = read_u64 data 24,
                cs_real_sol_reserves = read_u64 data 32,
                cs_creator = address_of_bytes (take CREATOR_LEN (drop CREATOR_OFFSET data)),
                cs_is_cashback_coin = (IS_CASHBACK_COIN_OFFSET < length data
                                       \<and> data ! IS_CASHBACK_COIN_OFFSET \<noteq> 0),
                cs_complete = (48 < length data \<and> data ! 48 \<noteq> 0)\<rparr>)"

text \<open>
  The layout that the comment of \<^verbatim>\<open>fetch_bonding_curve_state\<close> gives: discriminator, reserves, total
  supply, \<^verbatim>\<open>complete\<close>, creator, \<^verbatim>\<open>is_mayhem_mode\<close>, \<^verbatim>\<open>is_cashback_coin\<close>, and what follows.
\<close>

definition bool_byte :: "bool \<Rightarrow> u8" where
  "bool_byte b = (if b then 1 else 0)"

definition curve_layout :: "u64 \<Rightarrow> u64 \<Rightarrow> bool \<Rightarrow> u8 list \<Rightarrow> curve_state \<Rightarrow> u8 list" where
  "curve_layout disc supply mayhem rest c =
     le_bytes 8 disc @ le_bytes 8 (cs_virtual_token_reserves c) @ le_bytes 8 (cs_virtual_sol_reserves c)
     @ le_bytes 8 (cs_real_token_reserves c) @ le_bytes 8 (cs_real_sol_reserves c) @ le_bytes 8 supply
     @ [bool_byte (cs_complete c)] @ address_bytes (cs_creator c)
     @ [bool_byte mayhem, bool_byte (cs_is_cashback_coin c)] @ rest"

section \<open>Prices\<close>

text \<open>\<^verbatim>\<open>u64::MAX as u128\<close>.\<close>

definition U64_MAX :: u128 where "U64_MAX = 18446744073709551615"

definition bonding_curve_mcap_sol :: "curve_state \<Rightarrow> f64" where
  "bonding_curve_mcap_sol c =
     (if cs_virtual_token_reserves c = 0 then 0
      else let mcap_raw = saturating_mul (ucast (cs_virtual_sol_reserves c) :: u128) 1000000000000000
                            div ucast (cs_virtual_token_reserves c)
           in amount_to_float (amount_from_raw_native (ucast (min mcap_raw U64_MAX))))"

definition pump_sol_out_for_tokens :: "u64 \<Rightarrow> curve_state \<Rightarrow> u64" where
  "pump_sol_out_for_tokens token_amount_raw c =
     (if token_amount_raw = 0 \<or> cs_virtual_sol_reserves c = 0 \<or> cs_virtual_token_reserves c = 0 then 0
      else let vsr = ucast (cs_virtual_sol_reserves c) :: u128;
               vtr = ucast (cs_virtual_token_reserves c);
               amount = ucast token_amount_raw;
               new_vtr = saturating_add vtr amount
           in if new_vtr = 0 then 0
              else let new_vsr = saturating_mul vsr vtr div new_vtr
                   in ucast (min (saturating_sub vsr new_vsr) U64_MAX))"

definition pump_max_sellable_tokens_for_sol :: "u64 \<Rightarrow> curve_state \<Rightarrow> u64" where
  "pump_max_sellable_tokens_for_sol target_sol_out c =
     (if target_sol_out = 0 \<or> cs_virtual_sol_reserves c = 0 \<or> cs_virtual_token_reserves c = 0 then 0
      else let vsr = ucast (cs_virtual_sol_reserves c) :: u128;
               vtr = ucast (cs_virtual_token_reserves c);
               target = ucast target_sol_out
           in if vsr \<le> target then - 1
              else let denom = vsr - target;
                       new_vtr = saturating_mul vsr vtr div denom
                   in if new_vtr \<le> vtr then 0
                      else ucast (min (saturating_sub new_vtr vtr) U64_MAX))"

text \<open>What a sale is cut to: a tenth of the real reserves is left in the curve.\<close>

definition safety_cap_lamports :: "curve_state \<Rightarrow> u64" where
  "safety_cap_lamports c = ucast ((ucast (cs_real_sol_reserves c) :: u128) * 90 div 100)"

section \<open>The computations over natural numbers\<close>

lemma unat_ucast_u64_min: "unat (ucast (min x U64_MAX) :: u64) = min (unat x) (2 ^ 64 - 1)" for x :: u128
proof -
  have m: "unat U64_MAX = 2 ^ 64 - 1" by (simp add: U64_MAX_def)
  have "unat (min x U64_MAX) = min (unat x) (2 ^ 64 - 1)"
    by (simp add: min_def word_le_nat_alt m)
  moreover have "min (unat x) (2 ^ 64 - 1) < 2 ^ 64" by (simp add: min_less_iff_disj)
  ultimately show ?thesis by (simp only: unat_ucast_u64 mod_less)
qed

lemma unat_u64_less [simp]: "unat (w :: u64) < 18446744073709551616"
  using unsigned_less[of w, where 'a = nat] by simp

lemma unat_u64_le: "unat (w :: u64) \<le> 2 ^ 64 - 1"
  using unat_u64_less[of w] unfolding less_Suc_eq_le[symmetric] by simp

lemma unat_saturating_mul_u128:
  "unat (saturating_mul (ucast (a :: u64)) (ucast (b :: u64)) :: u128) = unat a * unat b"
proof -
  have "unat a * unat b < 2 ^ 64 * 2 ^ 64"
    using unsigned_less[of a, where 'a = nat] unsigned_less[of b, where 'a = nat]
    by (intro mult_strict_mono) auto
  then show ?thesis by (simp add: unat_saturating_mul unat_ucast_u128)
qed

lemma unat_saturating_add_u128:
  "unat (saturating_add (ucast (a :: u64)) (ucast (b :: u64)) :: u128) = unat a + unat b"
proof -
  have "unat a + unat b \<le> 2 ^ 128 - 1" using unat_u64_le[of a] unat_u64_le[of b] by simp
  then show ?thesis by (simp add: unat_saturating_add unat_ucast_u128)
qed

text \<open>What a sale of \<open>t\<close> raw tokens takes out of the virtual SOL reserve.\<close>

definition sol_out_nat :: "nat \<Rightarrow> nat \<Rightarrow> nat \<Rightarrow> nat" where
  "sol_out_nat vsr vtr t = vsr - vsr * vtr div (vtr + t)"

lemma unat_sol_out:
  assumes "cs_virtual_sol_reserves c \<noteq> 0" "cs_virtual_token_reserves c \<noteq> 0"
  shows "unat (pump_sol_out_for_tokens t c) =
    sol_out_nat (unat (cs_virtual_sol_reserves c)) (unat (cs_virtual_token_reserves c)) (unat t)"
proof (cases "t = 0")
  case True
  have "unat (cs_virtual_token_reserves c) \<noteq> 0" using assms(2) by (simp add: unat_eq_zero)
  then show ?thesis using True by (simp add: pump_sol_out_for_tokens_def sol_out_nat_def)
next
  case False
  let ?s = "unat (cs_virtual_sol_reserves c)" and ?v = "unat (cs_virtual_token_reserves c)"
  have nz: "(saturating_add (ucast (cs_virtual_token_reserves c)) (ucast t) :: u128) \<noteq> 0"
  proof
    assume "(saturating_add (ucast (cs_virtual_token_reserves c)) (ucast t) :: u128) = 0"
    then have "?v + unat t = 0" by (metis unat_saturating_add_u128 unat_0)
    then show False using assms(2) by (simp add: unat_eq_zero)
  qed
  have "?s - ?s * ?v div (?v + unat t) \<le> 2 ^ 64 - 1"
    using unat_u64_le[of "cs_virtual_sol_reserves c"] by (rule order_trans[OF diff_le_self])
  then show ?thesis using False assms nz
    by (simp add: pump_sol_out_for_tokens_def Let_def unat_ucast_u64_min unat_saturating_sub unat_div
        unat_saturating_mul_u128 unat_saturating_add_u128 unat_ucast_u128 sol_out_nat_def)
qed

lemma unat_max_sellable:
  assumes "cs_virtual_sol_reserves c \<noteq> 0" "cs_virtual_token_reserves c \<noteq> 0" "target \<noteq> 0"
  shows "unat (pump_max_sellable_tokens_for_sol target c) =
    (let vsr = unat (cs_virtual_sol_reserves c); vtr = unat (cs_virtual_token_reserves c)
     in if vsr \<le> unat target then 2 ^ 64 - 1
        else min (vsr * vtr div (vsr - unat target) - vtr) (2 ^ 64 - 1))"
proof -
  let ?s = "cs_virtual_sol_reserves c" and ?v = "cs_virtual_token_reserves c"
  have le: "((ucast ?s :: u128) \<le> ucast target) = (unat ?s \<le> unat target)"
    by (simp add: word_le_nat_alt unat_ucast_u128)
  have sub: "unat ((ucast ?s :: u128) - ucast target) = unat ?s - unat target" if "\<not> unat ?s \<le> unat target"
    using that by (simp add: unat_sub_if' unat_ucast_u128)
  have div: "unat (saturating_mul (ucast ?s) (ucast ?v) div ((ucast ?s :: u128) - ucast target))
      = unat ?s * unat ?v div (unat ?s - unat target)" if "\<not> unat ?s \<le> unat target"
    using that by (simp add: unat_div sub unat_saturating_mul_u128)
  have m1: "unat (- 1 :: u64) = 2 ^ 64 - 1" by (simp add: unsigned_minus_1_eq_mask mask_eq_exp_minus_1)
  show ?thesis using assms
    by (simp add: pump_max_sellable_tokens_for_sol_def Let_def le m1)
      (auto simp: word_le_nat_alt[where 'a = 128] div unat_ucast_u64_min unat_saturating_sub unat_ucast_u128)
qed

lemma sol_out_le_iff:
  assumes "0 < vtr" "target < vsr"
  shows "sol_out_nat vsr vtr t \<le> target \<longleftrightarrow> t \<le> vsr * vtr div (vsr - target) - vtr"
proof -
  have ge: "vtr \<le> vsr * vtr div (vsr - target)"
    using assms by (simp add: less_eq_div_iff_mult_less_eq)
  have "sol_out_nat vsr vtr t \<le> target \<longleftrightarrow> vsr - target \<le> vsr * vtr div (vtr + t)"
    using assms(2) unfolding sol_out_nat_def by linarith
  also have "\<dots> \<longleftrightarrow> (vsr - target) * (vtr + t) \<le> vsr * vtr"
    using assms(1) by (simp add: less_eq_div_iff_mult_less_eq)
  also have "\<dots> \<longleftrightarrow> vtr + t \<le> vsr * vtr div (vsr - target)"
    using assms(2) by (simp add: less_eq_div_iff_mult_less_eq mult.commute)
  also have "\<dots> \<longleftrightarrow> t \<le> vsr * vtr div (vsr - target) - vtr" using ge by linarith
  finally show ?thesis .
qed

section \<open>Correctness\<close>

text \<open>C19. The limit on a sale is exact: when the curve has reserves and the target is not zero, a sale takes
  at most the target out of the curve if and only if its raw amount is at most what
  pump_max_sellable_tokens_for_sol returns; no reserves make the computation overflow.\<close>

theorem max_sellable_exact:
  assumes "cs_virtual_sol_reserves c \<noteq> 0" "cs_virtual_token_reserves c \<noteq> 0" "target \<noteq> 0"
  shows "pump_sol_out_for_tokens t c \<le> target \<longleftrightarrow> t \<le> pump_max_sellable_tokens_for_sol target c"
proof -
  let ?s = "unat (cs_virtual_sol_reserves c)" and ?v = "unat (cs_virtual_token_reserves c)"
  have v: "0 < ?v" using assms(2) by (simp add: unat_gt_0)
  have t: "unat t \<le> 2 ^ 64 - 1" by (rule unat_u64_le)
  show ?thesis
  proof (cases "?s \<le> unat target")
    case True
    then have "sol_out_nat ?s ?v (unat t) \<le> unat target" unfolding sol_out_nat_def by linarith
    then show ?thesis using True t
      by (simp add: word_le_nat_alt unat_sol_out[OF assms(1,2)] unat_max_sellable[OF assms])
  next
    case False
    then show ?thesis using t sol_out_le_iff[OF v, of "unat target" ?s "unat t"]
      by (simp add: word_le_nat_alt unat_sol_out[OF assms(1,2)] unat_max_sellable[OF assms] Let_def)
  qed
qed

definition young_curve :: curve_state where
  "young_curve = \<lparr>cs_virtual_token_reserves = 1000000000000000, cs_virtual_sol_reserves = 32000000000,
     cs_real_token_reserves = 720000000000000, cs_real_sol_reserves = 2000000000, cs_creator = 5,
     cs_is_cashback_coin = True, cs_complete = False\<rparr>"

lemma max_sellable_exact_witness:
  "pump_sol_out_for_tokens 59602649006622 young_curve \<le> 1800000000
   \<and> \<not> pump_sol_out_for_tokens 59602649006623 young_curve \<le> 1800000000"
proof -
  have "pump_max_sellable_tokens_for_sol 1800000000 young_curve = 59602649006622"
    by (simp add: pump_max_sellable_tokens_for_sol_def young_curve_def saturating_mul_def saturating_sub_def
        U64_MAX_def)
  then show ?thesis
    using max_sellable_exact[of young_curve 1800000000] by (simp add: young_curve_def)
qed


text \<open>C20. Decoding inverts the account layout: the state of a curve written out as the documented layout
  is read back unchanged, whatever the discriminator, the supply, the mayhem flag and the bytes
  behind it.\<close>

theorem decode_curve_layout: "decode_curve (curve_layout disc supply mayhem rest c) = Inr c"
proof -
  let ?d = "curve_layout disc supply mayhem rest c"
  have len: "length ?d = 83 + length rest" by (simp add: curve_layout_def address_bytes_def)
  have r8: "read_u64 ?d 8 = cs_virtual_token_reserves c"
    and r16: "read_u64 ?d 16 = cs_virtual_sol_reserves c"
    and r24: "read_u64 ?d 24 = cs_real_token_reserves c"
    and r32: "read_u64 ?d 32 = cs_real_sol_reserves c"
    by (simp_all add: read_u64_def curve_layout_def)
  have cr: "address_of_bytes (take 32 (drop 49 ?d)) = cs_creator c"
    by (simp add: curve_layout_def address_of_bytes_def address_bytes_def)
  have flags: "?d ! 48 = bool_byte (cs_complete c)" "?d ! 82 = bool_byte (cs_is_cashback_coin c)"
    by (simp_all add: curve_layout_def nth_append address_bytes_def)
  show ?thesis
    unfolding decode_curve_def CREATOR_OFFSET_def CREATOR_LEN_def IS_CASHBACK_COIN_OFFSET_def
    by (simp add: len r8 r16 r24 r32 cr flags bool_byte_def)
qed

lemma bonding_curve_mcap_eq:
  "cs_virtual_token_reserves c \<noteq> 0 \<Longrightarrow> bonding_curve_mcap_sol c =
     amount_to_float (amount_from_raw_native (of_nat (min
       (mcap_lamports (unat (cs_virtual_sol_reserves c)) (unat (cs_virtual_token_reserves c))) (2 ^ 64 - 1))))"
proof -
  assume nz: "cs_virtual_token_reserves c \<noteq> 0"
  let ?s = "cs_virtual_sol_reserves c" and ?v = "cs_virtual_token_reserves c"
  let ?m = "saturating_mul (ucast ?s :: u128) 1000000000000000 div ucast ?v"
  have "unat ?s * 1000000000000000 \<le> (2 ^ 64 - 1) * 1000000000000000"
    using unat_u64_le by (rule mult_right_mono) simp
  then have "unat ?m = mcap_lamports (unat ?s) (unat ?v)"
    by (simp add: unat_div unat_saturating_mul unat_ucast_u128 mcap_lamports_def)
  then have "unat (ucast (min ?m U64_MAX) :: u64) = min (mcap_lamports (unat ?s) (unat ?v)) (2 ^ 64 - 1)"
    by (simp only: unat_ucast_u64_min)
  then have "(ucast (min ?m U64_MAX) :: u64) = of_nat (min (mcap_lamports (unat ?s) (unat ?v)) (2 ^ 64 - 1))"
    by (metis of_nat_unat ucast_id)
  then show ?thesis using nz by (simp only: bonding_curve_mcap_sol_def if_False Let_def)
qed

text \<open>The market capitalisation the live broker reads from the account is the one the pool computes
  from its reserves, as long as that fits in 64 bits of lamports (beyond, the pool wraps and the
  broker saturates).\<close>

theorem curve_mcap_is_pool_mcap:
  assumes "cs_virtual_sol_reserves c = amt_value (virtual_sol_reserves b)"
    and "cs_virtual_token_reserves c = amt_value (virtual_token_reserves b)"
    and "cs_virtual_token_reserves c \<noteq> 0"
    and "unat (cs_virtual_sol_reserves c) * 10 ^ 15 div unat (cs_virtual_token_reserves c) < 2 ^ 64"
  shows "pool_mcap_sol (BondingPool b) = Inr (bonding_curve_mcap_sol c)"
proof -
  let ?m = "mcap_lamports (unat (cs_virtual_sol_reserves c)) (unat (cs_virtual_token_reserves c))"
  have "?m \<le> 2 ^ 64 - 1" using assms(4) by (simp add: mcap_lamports_def)
  then have "min ?m (2 ^ 64 - 1) = ?m" by (rule min_absorb1)
  then show ?thesis using assms(3) unfolding bonding_curve_mcap_eq[OF assms(3)]
    by (simp add: pool_mcap_sol_def bonding_market_cap_eq flip: assms(1,2))
qed

lemma curve_mcap_is_pool_mcap_witness:
  "pool_mcap_sol (BondingPool (bonding_new id 7 9)) =
     Inr (bonding_curve_mcap_sol (young_curve\<lparr>cs_virtual_sol_reserves := 30000000000,
                                            cs_virtual_token_reserves := 1073000000000000\<rparr>))"
  by (rule curve_mcap_is_pool_mcap)
    (simp_all add: young_curve_def bonding_new_def amount_from_raw_def amount_from_raw_native_def)

text \<open>With all reserves at zero the broker reads zero where the pool panics.\<close>

lemma curve_mcap_zero: "cs_virtual_token_reserves c = 0 \<Longrightarrow> bonding_curve_mcap_sol c = 0"
  by (simp add: bonding_curve_mcap_sol_def)

end
