(* ===== verification/Instructions.thy ===== *)
theory Instructions
  imports Bonding_Curve
begin

text \<open>
  Model of the instruction builder \<^verbatim>\<open>sips\<close> as far as the broker uses it: program-derived addresses
  (\<^verbatim>\<open>src/sips/src/address.rs\<close>, \<^verbatim>\<open>helper.rs\<close>), the account lists and the wire form of the instructions of
  pump.fun, of the compute budget and of the token programs (\<^verbatim>\<open>src/sips/src/instructions\<close>).

  Library code is a parameter: SHA-256, the test for points of the curve, base58 and the borsh
  encoding of the arguments. The lemmas describe the search for a program-derived address and the
  accounts of a sale.
\<close>

section \<open>Libraries\<close>

text \<open>The arguments of the instructions that the broker sends.\<close>

datatype ix_args =
    ComputeUnitLimit u32
  | ComputeUnitPrice u128
  | CreateIdempotent
  | CloseAccount
  | PumpSell (ix_spl_amount: u64) (ix_minimum_sol_payout: u64)
  | PumpBuyExactSolIn (ix_sol_amount: u64) (ix_minimum_token_output: u64) bool

text \<open>
  Pure functions of libraries: text of addresses and signatures, hashing, the address of a bonding
  curve, the borsh encoding, \<^verbatim>\<open>Debug\<close> of a duration in nanoseconds, and the API key of the environment.
\<close>

type_synonym signature = "512 word"

record lib =
  lb_addr_str :: "address \<Rightarrow> string"
  lb_parse_addr :: "string \<Rightarrow> address option"
  lb_sig_str :: "signature \<Rightarrow> string"
  lb_parse_sig :: "string \<Rightarrow> string + signature"
  lb_b58 :: "string \<Rightarrow> address"
  lb_sha256 :: "u8 list \<Rightarrow> u8 list"
  lb_on_curve :: "u8 list \<Rightarrow> bool"
  lb_bounding_curve :: "address \<Rightarrow> address"
  lb_borsh :: "ix_args \<Rightarrow> u8 list"
  lb_show_duration :: "nat \<Rightarrow> string"
  lb_api_key :: "string option"

section \<open>Program-derived addresses\<close>

datatype address_error = MaxSeedLengthExceeded | InvalidSeeds

definition ascii :: "string \<Rightarrow> u8 list" where
  "ascii s = map (\<lambda>c. of_nat (of_char c)) s"

definition create_program_address :: "lib \<Rightarrow> u8 list list \<Rightarrow> address \<Rightarrow> address_error + address" where
  "create_program_address L seeds program_id =
     (if 16 < length seeds then Inl MaxSeedLengthExceeded
      else if list_ex (\<lambda>seed. 32 < length seed) seeds then Inl MaxSeedLengthExceeded
      else let hash = lb_sha256 L (concat seeds @ address_bytes program_id @ ascii ''ProgramDerivedAddress'')
           in if lb_on_curve L hash then Inl InvalidSeeds else Inr (address_of_bytes hash))"

primrec pda_search :: "lib \<Rightarrow> address \<Rightarrow> u8 list list \<Rightarrow> nat \<Rightarrow> u8 \<Rightarrow> (address \<times> u8) outcome" where
  "pda_search L program seeds 0 bump = Inl NoValidPda"
| "pda_search L program seeds (Suc n) bump =
     (case create_program_address L (seeds @ [[bump]]) program of
        Inr a \<Rightarrow> Inr (a, bump)
      | Inl e \<Rightarrow> if e = InvalidSeeds then pda_search L program seeds n (bump - 1) else Inl NoValidPda)"

definition pda :: "lib \<Rightarrow> address \<Rightarrow> u8 list list \<Rightarrow> (address \<times> u8) outcome" where
  "pda L program seeds = pda_search L program seeds 255 255"

definition ATA_PROGRAM :: "lib \<Rightarrow> address" where
  "ATA_PROGRAM L = lb_b58 L ''ATokenGPvbdGVxr1b2hvZbsiqW5xWH25efTNsLJA8knL''"

definition ata_address :: "lib \<Rightarrow> address \<Rightarrow> address \<Rightarrow> address \<Rightarrow> (address \<times> u8) outcome" where
  "ata_address L addr token_program mint =
     pda L (ATA_PROGRAM L) [address_bytes addr, address_bytes token_program, address_bytes mint]"

section \<open>Instructions\<close>

record account_meta =
  am_pubkey :: address
  am_is_signer :: bool
  am_writable :: bool

record instruction =
  ix_program :: address
  ix_accounts :: "account_meta list"
  ix_data :: "u8 list"

text \<open>The metas that \<^verbatim>\<open>#[derive(Accounts)]\<close> makes from the attributes of a field.\<close>

definition readonly :: "address \<Rightarrow> account_meta" where
  "readonly a = \<lparr>am_pubkey = a, am_is_signer = False, am_writable = False\<rparr>"

definition writable :: "address \<Rightarrow> account_meta" where
  "writable a = \<lparr>am_pubkey = a, am_is_signer = False, am_writable = True\<rparr>"

definition signer :: "address \<Rightarrow> account_meta" where
  "signer a = \<lparr>am_pubkey = a, am_is_signer = True, am_writable = False\<rparr>"

definition signer_writable :: "address \<Rightarrow> account_meta" where
  "signer_writable a = \<lparr>am_pubkey = a, am_is_signer = True, am_writable = True\<rparr>"

fun discriminator :: "ix_args \<Rightarrow> u8 list" where
  "discriminator (ComputeUnitLimit _) = [2]"
| "discriminator (ComputeUnitPrice _) = [3]"
| "discriminator CreateIdempotent = [1]"
| "discriminator CloseAccount = [9]"
| "discriminator (PumpSell _ _) = [51, 230, 133, 164, 1, 127, 131, 173]"
| "discriminator (PumpBuyExactSolIn _ _ _) = [56, 252, 116, 8, 158, 223, 205, 95]"

definition to_le_bytes :: "lib \<Rightarrow> ix_args \<Rightarrow> u8 list" where
  "to_le_bytes L a = discriminator a @ lb_borsh L a"

definition mk_instruction :: "lib \<Rightarrow> address \<Rightarrow> account_meta list \<Rightarrow> ix_args \<Rightarrow> instruction" where
  "mk_instruction L program accounts args =
     \<lparr>ix_program = program, ix_accounts = accounts, ix_data = to_le_bytes L args\<rparr>"

definition compute_budget_program :: "lib \<Rightarrow> address" where
  "compute_budget_program L = lb_b58 L ''ComputeBudget111111111111111111111111111111''"

definition compute_unit_price :: "lib \<Rightarrow> u128 \<Rightarrow> instruction" where
  "compute_unit_price L price = mk_instruction L (compute_budget_program L) [] (ComputeUnitPrice price)"

definition compute_unit_limit :: "lib \<Rightarrow> u32 \<Rightarrow> instruction" where
  "compute_unit_limit L limit = mk_instruction L (compute_budget_program L) [] (ComputeUnitLimit limit)"

definition system_program :: "lib \<Rightarrow> address" where
  "system_program L = lb_b58 L ''11111111111111111111111111111111''"

definition create_idempotent :: "lib \<Rightarrow> address \<Rightarrow> address \<Rightarrow> address \<Rightarrow> address \<Rightarrow> instruction outcome" where
  "create_idempotent L mint source addr token_program =
     bind_outcome (ata_address L addr token_program mint) (\<lambda>(account, _).
       Inr (mk_instruction L (ATA_PROGRAM L)
         [signer_writable source, writable account, writable addr, readonly mint,
          readonly (system_program L), readonly token_program] CreateIdempotent))"

datatype mint_token_kind = LegacySpl | Token2022

definition spl_token_program :: "lib \<Rightarrow> address" where
  "spl_token_program L = lb_b58 L ''TokenkegQfeZyiNwAJbNbGKPFXCWuBvf9Ss623VQ5DA''"

definition token_2022_program :: "lib \<Rightarrow> address" where
  "token_2022_program L = lb_b58 L ''TokenzQdBNbLqP5VEhdkAS6EPFLC1PHnBqCXEpPxuEb''"

fun token_program :: "lib \<Rightarrow> mint_token_kind \<Rightarrow> address" where
  "token_program L LegacySpl = spl_token_program L"
| "token_program L Token2022 = token_2022_program L"

definition spl_close_account :: "lib \<Rightarrow> address \<Rightarrow> address \<Rightarrow> address \<Rightarrow> instruction" where
  "spl_close_account L account destination authority =
     mk_instruction L (spl_token_program L)
       [writable account, writable destination, signer authority] CloseAccount"

definition token_2022_close_account :: "lib \<Rightarrow> address \<Rightarrow> address \<Rightarrow> address \<Rightarrow> instruction" where
  "token_2022_close_account L account destination authority =
     mk_instruction L (token_2022_program L)
       [writable account, writable destination, signer authority] CloseAccount"

fun close_account_ix :: "lib \<Rightarrow> mint_token_kind \<Rightarrow> address \<Rightarrow> address \<Rightarrow> address \<Rightarrow> instruction" where
  "close_account_ix L LegacySpl a d auth = spl_close_account L a d auth"
| "close_account_ix L Token2022 a d auth = token_2022_close_account L a d auth"

section \<open>pump.fun\<close>

definition pump_program :: "lib \<Rightarrow> address" where
  "pump_program L = lb_b58 L ''6EF8rrecthR5Dkzon8Nwu78hRvfCKubJ14M5uBEwF6P''"

definition pump_global :: "lib \<Rightarrow> address" where
  "pump_global L = lb_b58 L ''4wTV1YmiEkRvAtNtsSGPtUrqRYQMe5SKy2uB4Jjaxnjf''"

definition pump_fee_recipient :: "lib \<Rightarrow> address" where
  "pump_fee_recipient L = lb_b58 L ''62qc2CNXwrYqQScmEdiZFFAnJR262PxWEuNQtxfafNgV''"

definition pump_event_authority :: "lib \<Rightarrow> address" where
  "pump_event_authority L = lb_b58 L ''Ce6TQqeHC9p8KetsN6JsjHK7UTZk7nasjjnr7XxXp9F1''"

definition pump_fee_config :: "lib \<Rightarrow> address" where
  "pump_fee_config L = lb_b58 L ''8Wf5TiAheLUqBrKXeYg2JtAFFMWtKdG2BSFgqUcPVwTt''"

definition pump_fee_program :: "lib \<Rightarrow> address" where
  "pump_fee_program L = lb_b58 L ''pfeeUxB6jkeY1Hxd7CsFCAjcbHA9rWtchMGdZ6VojVZ''"

definition pump_buyback_fee_recipient :: "lib \<Rightarrow> address" where
  "pump_buyback_fee_recipient L = lb_b58 L ''5YxQFdt3Tr9zJLvkFccqXVUwhdTWJQc1fFg2YPbxvxeD''"

text \<open>The addresses that an order derives from the mint, the user and the creator.\<close>

record pump_keys =
  pk_bonding_curve :: address
  pk_associated_bonding_curve :: address
  pk_associated_user :: address
  pk_creator_vault :: address
  pk_user_volume_accumulator :: address
  pk_bonding_curve_v2 :: address

definition pump_keys_of :: "lib \<Rightarrow> address \<Rightarrow> address \<Rightarrow> address \<Rightarrow> address \<Rightarrow> pump_keys outcome" where
  "pump_keys_of L mint user creator tok =
     bind_outcome (pda L (pump_program L) [ascii ''bonding-curve'', address_bytes mint]) (\<lambda>(bc, _).
     bind_outcome (ata_address L bc tok mint) (\<lambda>(abc, _).
     bind_outcome (ata_address L user tok mint) (\<lambda>(au, _).
     bind_outcome (pda L (pump_program L) [ascii ''creator-vault'', address_bytes creator]) (\<lambda>(cv, _).
     bind_outcome (pda L (pump_program L) [ascii ''user_volume_accumulator'', address_bytes user]) (\<lambda>(uva, _).
     bind_outcome (pda L (pump_program L) [ascii ''bonding-curve-v2'', address_bytes mint]) (\<lambda>(v2, _).
       Inr \<lparr>pk_bonding_curve = bc, pk_associated_bonding_curve = abc, pk_associated_user = au,
            pk_creator_vault = cv, pk_user_volume_accumulator = uva, pk_bonding_curve_v2 = v2\<rparr>))))))"

definition buy_accounts :: "lib \<Rightarrow> address \<Rightarrow> address \<Rightarrow> address \<Rightarrow> pump_keys \<Rightarrow> account_meta list" where
  "buy_accounts L mint user tok k =
     [readonly (pump_global L), writable (pump_fee_recipient L), readonly mint,
      writable (pk_bonding_curve k), writable (pk_associated_bonding_curve k),
      writable (pk_associated_user k), signer_writable user, readonly (system_program L), readonly tok,
      writable (pk_creator_vault k), readonly (pump_event_authority L), readonly (pump_program L),
      readonly (lb_b58 L ''Hq2wp8uJ9jCPsYgNHex8RtqdvMPfVGoYwjvF1ATiwn2Y''),
      writable (pk_user_volume_accumulator k), readonly (pump_fee_config L),
      readonly (pump_fee_program L), readonly (pk_bonding_curve_v2 k),
      writable (pump_buyback_fee_recipient L)]"

definition sell_accounts ::
  "lib \<Rightarrow> address \<Rightarrow> address \<Rightarrow> address \<Rightarrow> bool \<Rightarrow> pump_keys \<Rightarrow> account_meta list" where
  "sell_accounts L mint user tok cashback_enabled k =
     [readonly (pump_global L), writable (pump_fee_recipient L), readonly mint,
      writable (pk_bonding_curve k), writable (pk_associated_bonding_curve k),
      writable (pk_associated_user k), signer_writable user, readonly (system_program L),
      writable (pk_creator_vault k), readonly tok, readonly (pump_event_authority L),
      readonly (pump_program L), readonly (pump_fee_config L), readonly (pump_fee_program L)]
     @ (if cashback_enabled then [writable (pk_user_volume_accumulator k)] else [])
     @ [readonly (pk_bonding_curve_v2 k), writable (pump_buyback_fee_recipient L)]"

definition pump_buy_exact_in ::
  "lib \<Rightarrow> address \<Rightarrow> address \<Rightarrow> address \<Rightarrow> address \<Rightarrow> u64 \<Rightarrow> u64 \<Rightarrow> instruction outcome" where
  "pump_buy_exact_in L mint user creator tok sol minimum_token_output =
     bind_outcome (pump_keys_of L mint user creator tok) (\<lambda>k.
       Inr (mk_instruction L (pump_program L) (buy_accounts L mint user tok k)
              (PumpBuyExactSolIn sol minimum_token_output False)))"

definition pump_sell ::
  "lib \<Rightarrow> address \<Rightarrow> address \<Rightarrow> address \<Rightarrow> address \<Rightarrow> u64 \<Rightarrow> u64 \<Rightarrow> bool \<Rightarrow> instruction outcome" where
  "pump_sell L mint user creator tok token_amount minimum_sol_payout cashback_enabled =
     bind_outcome (pump_keys_of L mint user creator tok) (\<lambda>k.
       Inr (mk_instruction L (pump_program L) (sell_accounts L mint user tok cashback_enabled k)
              (PumpSell token_amount minimum_sol_payout)))"

section \<open>Correctness\<close>

lemma pda_search_cases:
  assumes "\<And>b :: u8. create_program_address L (seeds @ [[b]]) program \<noteq> Inl MaxSeedLengthExceeded"
  shows "(case pda_search L program seeds n bump of
      Inr (a, b) \<Rightarrow> (\<exists>k < n. b = bump - of_nat k \<and>
         create_program_address L (seeds @ [[b]]) program = Inr a \<and>
         (\<forall>j < k. create_program_address L (seeds @ [[bump - of_nat j]]) program = Inl InvalidSeeds))
    | Inl e \<Rightarrow> e = NoValidPda \<and>
         (\<forall>j < n. create_program_address L (seeds @ [[bump - of_nat j]]) program = Inl InvalidSeeds))"
proof (induction n arbitrary: bump)
  case (Suc n)
  let ?cpa = "\<lambda>b. create_program_address L (seeds @ [[b]]) program"
  show ?case
  proof (cases "?cpa bump")
    case (Inl e)
    then have e: "e = InvalidSeeds" using assms by (metis address_error.exhaust)
    have shift: "(\<forall>j < Suc k. ?cpa (bump - of_nat j) = Inl InvalidSeeds) \<longleftrightarrow>
        (\<forall>j < k. ?cpa (bump - 1 - of_nat j) = Inl InvalidSeeds)" for k
      unfolding All_less_Suc2 using Inl e by (simp add: algebra_simps)
    note IH = Suc.IH[of "bump - 1"]
    show ?thesis
    proof (cases "pda_search L program seeds n (bump - 1)")
      case (Inl e')
      then show ?thesis using IH \<open>?cpa bump = Inl e\<close> e by (simp add: shift)
    next
      case (Inr p)
      obtain a b where p: "p = (a, b)" by fastforce
      obtain k where k: "k < n" "b = bump - 1 - of_nat k" "?cpa b = Inr a"
        "\<forall>j < k. ?cpa (bump - 1 - of_nat j) = Inl InvalidSeeds"
        using IH Inr p by auto
      have "b = bump - of_nat (Suc k)" using k(2) by (simp add: algebra_simps)
      then show ?thesis using k Inr p \<open>?cpa bump = Inl e\<close> e shift[of k]
        by (auto intro!: exI[of _ "Suc k"])
    qed
  qed (auto intro!: exI[of _ 0])
qed simp

definition pda_hash :: "lib \<Rightarrow> address \<Rightarrow> u8 list list \<Rightarrow> u8 \<Rightarrow> u8 list" where
  "pda_hash L program seeds b =
     lb_sha256 L (concat seeds @ [b] @ address_bytes program @ ascii ''ProgramDerivedAddress'')"

text \<open>A program-derived address is the hash of the seeds with the largest bump seed that gives no point
  of the curve: the search either returns it with its bump, every larger bump being a point of
  the curve, or it panics because all 255 bumps it tries are points of the curve.\<close>

theorem pda_is_first_off_curve:
  assumes "length seeds \<le> 15" "list_all (\<lambda>s. length s \<le> 32) seeds"
  shows "case pda L program seeds of
      Inr (a, b) \<Rightarrow> a = address_of_bytes (pda_hash L program seeds b) \<and>
        \<not> lb_on_curve L (pda_hash L program seeds b) \<and>
        (\<exists>k < 255. b = 255 - of_nat k \<and>
           (\<forall>j < k. lb_on_curve L (pda_hash L program seeds (255 - of_nat j))))
    | Inl e \<Rightarrow> e = NoValidPda \<and> (\<forall>j < 255. lb_on_curve L (pda_hash L program seeds (255 - of_nat j)))"
proof -
  have cpa: "create_program_address L (seeds @ [[b]]) program =
      (if lb_on_curve L (pda_hash L program seeds b) then Inl InvalidSeeds
       else Inr (address_of_bytes (pda_hash L program seeds b)))" for b
    using assms by (auto simp: create_program_address_def pda_hash_def list_ex_iff list_all_iff Let_def)
  then have nm: "create_program_address L (seeds @ [[b]]) program \<noteq> Inl MaxSeedLengthExceeded" for b
    by simp
  show ?thesis using pda_search_cases[OF nm, where n = 255 and bump = 255]
    unfolding pda_def[symmetric] cpa
    by (auto split: sum.splits if_splits prod.splits)
qed

text \<open>A concrete library for the examples; the first bump falls on its curve.\<close>

definition demo_lib :: lib where
  "demo_lib = \<lparr>lb_addr_str = (\<lambda>_. ''addr''), lb_parse_addr = (\<lambda>_. Some 7), lb_sig_str = (\<lambda>_. ''sig''),
     lb_parse_sig = (\<lambda>_. Inr 9), lb_b58 = (\<lambda>s. word_of_nat (length s)),
     lb_sha256 = (\<lambda>bs. take 32 bs), lb_on_curve = (\<lambda>h. hd h = 255),
     lb_bounding_curve = (\<lambda>a. a + 1), lb_borsh = (\<lambda>_. []), lb_show_duration = (\<lambda>_. ''1s''),
     lb_api_key = None\<rparr>"

lemma pda_is_first_off_curve_witness:
  "pda demo_lib 5 [] = Inr (address_of_bytes (pda_hash demo_lib 5 [] 254), 254) \<and>
   (case pda demo_lib 5 [] of
      Inr (a, b) \<Rightarrow> a = address_of_bytes (pda_hash demo_lib 5 [] b) \<and>
        \<not> lb_on_curve demo_lib (pda_hash demo_lib 5 [] b) \<and>
        (\<exists>k < 255. b = 255 - of_nat k \<and>
           (\<forall>j < k. lb_on_curve demo_lib (pda_hash demo_lib 5 [] (255 - of_nat j))))
    | Inl e \<Rightarrow> e = NoValidPda \<and>
        (\<forall>j < 255. lb_on_curve demo_lib (pda_hash demo_lib 5 [] (255 - of_nat j))))"
proof
  have "(255 :: nat) = Suc (Suc 253)" by simp
  then show "pda demo_lib 5 [] = Inr (address_of_bytes (pda_hash demo_lib 5 [] 254), 254)"
    by (simp only: pda_def pda_search.simps)
      (simp add: create_program_address_def pda_hash_def demo_lib_def Let_def)
qed (rule pda_is_first_off_curve; simp)

text \<open>The accounts of a sale: for a cashback coin the user's volume accumulator is inserted, writable,
  as the third from the end, and nothing else changes; there are 17 accounts then and 16 otherwise,
  and the wallet is the only one that signs.\<close>

theorem sell_accounts_layout:
  "sell_accounts L mint user tok True k =
     take 14 (sell_accounts L mint user tok False k) @ [writable (pk_user_volume_accumulator k)]
       @ drop 14 (sell_accounts L mint user tok False k)
   \<and> length (sell_accounts L mint user tok cb k) = (if cb then 17 else 16)
   \<and> filter am_is_signer (sell_accounts L mint user tok cb k) = [signer_writable user]"
  by (simp add: sell_accounts_def readonly_def writable_def signer_writable_def)

text \<open>Every instruction built here is signed by the wallet alone.\<close>

definition signed_only_by :: "address \<Rightarrow> instruction \<Rightarrow> bool" where
  "signed_only_by w ix = list_all (\<lambda>m. am_is_signer m \<longrightarrow> am_pubkey m = w) (ix_accounts ix)"

lemma signed_only_by_ix [simp]:
  "signed_only_by w (compute_unit_price L p)" "signed_only_by w (compute_unit_limit L l)"
  "signed_only_by w (close_account_ix L kind a w w)"
  by (cases kind; simp add: signed_only_by_def compute_unit_price_def compute_unit_limit_def mk_instruction_def
      spl_close_account_def token_2022_close_account_def writable_def signer_def)+

lemma signed_only_by_create: "create_idempotent L mint w w tok = Inr ix \<Longrightarrow> signed_only_by w ix"
  by (auto simp: create_idempotent_def bind_outcome_Inr_iff signed_only_by_def mk_instruction_def
      writable_def readonly_def signer_writable_def)

lemma signed_only_by_pump:
  "pump_buy_exact_in L mint w creator tok s m = Inr ix \<Longrightarrow> signed_only_by w ix"
  "pump_sell L mint w creator tok t p cb = Inr ix \<Longrightarrow> signed_only_by w ix"
  by (auto simp: pump_buy_exact_in_def pump_sell_def bind_outcome_Inr_iff signed_only_by_def
      mk_instruction_def buy_accounts_def sell_accounts_def writable_def readonly_def signer_writable_def)

end
