(* ===== verification/Live_IO.thy ===== *)
theory Live_IO
  imports Instructions
begin

text \<open>
  The async code of the live broker as computations over the state of the broker and the outside
  world. A computation may never return, may fail with a broker error, may panic, or returns a
  value; every call to the outside (RPC node, HTTP, clock) is a step of the world, during which
  other tasks may change the locked fields of the broker.

  The second half is a Hoare logic for total correctness: \<open>triple P m Q R\<close> says that \<open>m\<close>, started
  where \<open>P\<close> holds, returns, with \<open>Q\<close> after a value and \<open>R\<close> after an error or a panic. Its rule for loops asks
  for an invariant and a measure.
\<close>

section \<open>The state\<close>

record live_position =
  lp_tokens :: f64
  lp_entry_mcap :: f64

type_synonym positions = "address \<Rightarrow> live_position option"

text \<open>
  What the broker did, in order: every call that hands a transaction out (\<open>Sending\<close>, \<open>SendingSwap\<close> and
  \<open>Executing\<close>, noted before the call, so that a call which fails is in the trace as well: its transaction
  may still land), the hand-ins that were acknowledged with a signature, and its own writes to the
  cached balance. Transactions the broker composes are noted by label and instructions, those that
  Jupiter composed and the wallet signed by their bytes.
\<close>

datatype effect =
    Sending string "instruction list"
  | SendingSwap string "u8 list"
  | Executing string "u8 list"
  | Submitted string "instruction list" signature
  | SubmittedSwap string "u8 list" signature
  | Executed string "u8 list" signature
  | Debited f64
  | Credited f64
  | Refreshed f64

record 'w live =
  lv_balance :: f64
  lv_positions :: positions
  lv_effects :: "effect list"
  lv_world :: 'w

section \<open>Computations\<close>

datatype stop = Fails broker_error | Panics panic

type_synonym ('w, 'a) io = "'w live \<Rightarrow> ((stop + 'a) \<times> 'w live) option"

definition ret :: "'a \<Rightarrow> ('w, 'a) io" where
  "ret x s = Some (Inr x, s)"

definition fail :: "broker_error \<Rightarrow> ('w, 'a) io" where
  "fail e s = Some (Inl (Fails e), s)"

definition io_bind :: "('w, 'a) io \<Rightarrow> ('a \<Rightarrow> ('w, 'b) io) \<Rightarrow> ('w, 'b) io" where
  "io_bind m f s = (case m s of
     None \<Rightarrow> None
   | Some (Inl e, s') \<Rightarrow> Some (Inl e, s')
   | Some (Inr x, s') \<Rightarrow> f x s')"

text \<open>The \<^verbatim>\<open>Result\<close> of an awaited call as a value; a panic is not caught.\<close>

definition io_try :: "('w, 'a) io \<Rightarrow> ('w, broker_error + 'a) io" where
  "io_try m s = (case m s of
     None \<Rightarrow> None
   | Some (Inl (Fails e), s') \<Rightarrow> Some (Inr (Inl e), s')
   | Some (Inl (Panics p), s') \<Rightarrow> Some (Inl (Panics p), s')
   | Some (Inr x, s') \<Rightarrow> Some (Inr (Inr x), s'))"

text \<open>\<^verbatim>\<open>unwrap_or\<close> and \<^verbatim>\<open>ok()\<close> on the result of an awaited call.\<close>

definition recover :: "'a \<Rightarrow> ('w, 'a) io \<Rightarrow> ('w, 'a) io" where
  "recover d m = io_bind (io_try m) (\<lambda>r. ret (case r of Inl _ \<Rightarrow> d | Inr x \<Rightarrow> x))"

definition io_ok :: "('w, 'a) io \<Rightarrow> ('w, 'a option) io" where
  "io_ok m = io_bind (io_try m) (\<lambda>r. ret (case r of Inl _ \<Rightarrow> None | Inr x \<Rightarrow> Some x))"

definition of_result :: "broker_error + 'a \<Rightarrow> ('w, 'a) io" where
  "of_result r = (case r of Inl e \<Rightarrow> fail e | Inr x \<Rightarrow> ret x)"

definition of_outcome :: "'a outcome \<Rightarrow> ('w, 'a) io" where
  "of_outcome r s = (case r of Inl p \<Rightarrow> Some (Inl (Panics p), s) | Inr x \<Rightarrow> Some (Inr x, s))"

definition of_option :: "broker_error \<Rightarrow> 'a option \<Rightarrow> ('w, 'a) io" where
  "of_option e r = (case r of None \<Rightarrow> fail e | Some x \<Rightarrow> ret x)"

definition get_live :: "('w, 'w live) io" where
  "get_live s = Some (Inr s, s)"

definition emit :: "effect \<Rightarrow> ('w, unit) io" where
  "emit e s = Some (Inr (), s\<lparr>lv_effects := lv_effects s @ [e]\<rparr>)"

definition debit :: "f64 \<Rightarrow> ('w, unit) io" where
  "debit x s = Some (Inr (), s\<lparr>lv_balance := lv_balance s - x, lv_effects := lv_effects s @ [Debited x]\<rparr>)"

definition credit :: "f64 \<Rightarrow> ('w, unit) io" where
  "credit x s = Some (Inr (), s\<lparr>lv_balance := lv_balance s + x, lv_effects := lv_effects s @ [Credited x]\<rparr>)"

lemma io_bind_simps [simp]: "io_bind (ret x) f = f x" "io_bind (fail e) f = fail e"
  by (simp_all add: io_bind_def ret_def fail_def fun_eq_iff)

lemma of_simps [simp]:
  "of_result (Inl e) = fail e" "of_result (Inr x) = ret x"
  "of_option e None = fail e" "of_option e (Some x) = ret x"
  "of_outcome (Inr x) = ret x"
  by (simp_all add: of_result_def of_option_def of_outcome_def ret_def fun_eq_iff)

lemma io_try_simps [simp]: "io_try (ret x) = ret (Inr x)" "io_try (fail e) = ret (Inl e)"
  by (simp_all add: io_try_def ret_def fail_def fun_eq_iff)

text \<open>A loop: the body ends it with \<open>Inr\<close> or goes round again with \<open>Inl\<close>.\<close>

partial_function (option) io_loop :: "('s \<Rightarrow> ('w, 's + 'a) io) \<Rightarrow> 's \<Rightarrow> ('w, 'a) io" where
  "io_loop body x s = (case body x s of
     None \<Rightarrow> None
   | Some (Inl e, s') \<Rightarrow> Some (Inl e, s')
   | Some (Inr (Inl x'), s') \<Rightarrow> io_loop body x' s'
   | Some (Inr (Inr a), s') \<Rightarrow> Some (Inr a, s'))"

section \<open>The outside world\<close>

text \<open>Answers of the RPC node, as far as the broker reads them. An error is its text.\<close>

record sig_status =
  st_err :: "string option"
  st_status_err :: "string option"
  st_confirmed :: bool
  st_processed :: bool

record rpc_account =
  ac_data :: "u8 list"
  ac_owner :: address

datatype encoded_tx = JsonParsed "string list" | JsonRaw "string list" | NotJson

record tx_meta =
  mt_err :: "string option"
  mt_pre_balances :: "u64 list"
  mt_post_balances :: "u64 list"
  mt_loaded :: "(string list \<times> string list) option"

record confirmed_tx =
  ct_transaction :: encoded_tx
  ct_meta :: "tx_meta option"

text \<open>JSON as \<^verbatim>\<open>serde_json::Value\<close> has it; an object is a list of members.\<close>

datatype json_number = PosInt u64 | NegInt i64 | Float f64

datatype json = JNull | JBool bool | JNumber json_number | JString string | JArray "json list"
  | JObject "(string \<times> json) list"

datatype http_method = GET | POST

record http_request =
  hr_method :: http_method
  hr_url :: string
  hr_headers :: "(string \<times> string) list"
  hr_body :: "json option"

record http_response =
  hp_status :: nat
  hp_body :: "string + string"

text \<open>
  Library functions for transactions and JSON: signing, the wire form, base64, parsing and printing.
  \<open>wr_new_signed\<close> is \<^verbatim>\<open>new_signed_with_payer\<close> (instructions, payer, the key it signs with, blockhash);
  \<open>wr_sign\<close> is \<^verbatim>\<open>VersionedTransaction::try_new(message, &[key])\<close>. The keypair stands for its address.
\<close>

record wire =
  wr_new_signed :: "instruction list \<Rightarrow> address \<Rightarrow> address \<Rightarrow> 256 word \<Rightarrow> u8 list"
  wr_b64_decode :: "string \<Rightarrow> string + u8 list"
  wr_b64_encode :: "u8 list \<Rightarrow> string"
  wr_decode_tx :: "u8 list \<Rightarrow> string + u8 list"
  wr_set_blockhash :: "u8 list \<Rightarrow> 256 word \<Rightarrow> u8 list"
  wr_sign :: "address \<Rightarrow> u8 list \<Rightarrow> string + u8 list"
  wr_serialize_tx :: "u8 list \<Rightarrow> string + u8 list"
  wr_json_parse :: "string \<Rightarrow> string + json"
  wr_json_str :: "json \<Rightarrow> string"
  wr_status_text :: "nat \<Rightarrow> string"

text \<open>
  The steps of the outside world. \<open>ch_now\<close> is a monotonic clock in nanoseconds. \<open>ch_others\<close> is what
  other tasks did to the balance and to the positions while a call was awaited.
\<close>

record 'w chain =
  ch_now :: "'w \<Rightarrow> nat"
  ch_sleep :: "nat \<Rightarrow> 'w \<Rightarrow> 'w"
  ch_statuses :: "signature \<Rightarrow> 'w \<Rightarrow> (string + sig_status option list) \<times> 'w"
  ch_blockhash :: "'w \<Rightarrow> (string + 256 word) \<times> 'w"
  ch_send :: "u8 list \<Rightarrow> bool \<Rightarrow> 'w \<Rightarrow> (string + signature) \<times> 'w"
  ch_account :: "address \<Rightarrow> 'w \<Rightarrow> (string + rpc_account option) \<times> 'w"
  ch_token_balance :: "address \<Rightarrow> 'w \<Rightarrow> (string + (string \<times> u8)) \<times> 'w"
  ch_balance :: "address \<Rightarrow> 'w \<Rightarrow> (string + u64) \<times> 'w"
  ch_transaction :: "signature \<Rightarrow> 'w \<Rightarrow> (string + confirmed_tx) \<times> 'w"
  ch_http :: "http_request \<Rightarrow> 'w \<Rightarrow> (string + http_response) \<times> 'w"
  ch_others :: "'w \<Rightarrow> f64 \<times> positions \<Rightarrow> f64 \<times> positions"
  ch_lib :: lib
  ch_wire :: wire

definition call :: "'w chain \<Rightarrow> ('w \<Rightarrow> 'a \<times> 'w) \<Rightarrow> ('w, 'a) io" where
  "call ch f s =
     (let (x, w) = f (lv_world s);
          (b, ps) = ch_others ch w (lv_balance s, lv_positions s)
      in Some (Inr x, s\<lparr>lv_balance := b, lv_positions := ps, lv_world := w\<rparr>))"

definition now :: "'w chain \<Rightarrow> ('w, nat) io" where
  "now ch s = Some (Inr (ch_now ch (lv_world s)), s)"

definition sleep :: "'w chain \<Rightarrow> nat \<Rightarrow> ('w, unit) io" where
  "sleep ch d = call ch (\<lambda>w. ((), ch_sleep ch d w))"

definition millis :: "nat \<Rightarrow> nat" where "millis n = n * 1000000"
definition secs :: "nat \<Rightarrow> nat" where "secs n = n * 1000000000"

text \<open>
  What the timed loops rely on: sleeping takes at least the given time (\<^verbatim>\<open>tokio::time::sleep\<close>), and the
  clock never goes back (\<^verbatim>\<open>std::time::Instant\<close>).
\<close>

definition clock_advances :: "'w chain \<Rightarrow> bool" where
  "clock_advances ch \<longleftrightarrow>
     (\<forall>d w. ch_now ch w + d \<le> ch_now ch (ch_sleep ch d w)) \<and>
     (\<forall>x w. ch_now ch w \<le> ch_now ch (snd (ch_statuses ch x w))) \<and>
     (\<forall>w. ch_now ch w \<le> ch_now ch (snd (ch_blockhash ch w))) \<and>
     (\<forall>t b w. ch_now ch w \<le> ch_now ch (snd (ch_send ch t b w))) \<and>
     (\<forall>a w. ch_now ch w \<le> ch_now ch (snd (ch_account ch a w))) \<and>
     (\<forall>a w. ch_now ch w \<le> ch_now ch (snd (ch_token_balance ch a w))) \<and>
     (\<forall>a w. ch_now ch w \<le> ch_now ch (snd (ch_balance ch a w))) \<and>
     (\<forall>x w. ch_now ch w \<le> ch_now ch (snd (ch_transaction ch x w))) \<and>
     (\<forall>r w. ch_now ch w \<le> ch_now ch (snd (ch_http ch r w)))"

text \<open>
  The polling loops of the broker: probe, give up when the time is over, sleep and probe again. The
  time to sleep may depend on the time elapsed.
\<close>

definition poll_until ::
  "'w chain \<Rightarrow> nat \<Rightarrow> (nat \<Rightarrow> nat) \<Rightarrow> ('s \<Rightarrow> ('w, 's + 'a) io) \<Rightarrow> ('s \<Rightarrow> nat \<Rightarrow> ('w, 'a) io) \<Rightarrow> 's \<Rightarrow> ('w, 'a) io"
where
  "poll_until ch timeout delay probe expire x0 =
     io_bind (now ch) (\<lambda>started. io_loop (\<lambda>x.
       io_bind (probe x) (\<lambda>v. case v of
         Inr a \<Rightarrow> ret (Inr a)
       | Inl x' \<Rightarrow> io_bind (now ch) (\<lambda>n.
           if timeout \<le> n - started then io_bind (expire x' (n - started)) (\<lambda>a. ret (Inr a))
           else io_bind (sleep ch (delay (n - started))) (\<lambda>_. ret (Inl x'))))) x0)"

section \<open>Total correctness\<close>

type_synonym 'w assn = "'w live \<Rightarrow> bool"

definition triple ::
  "'w assn \<Rightarrow> ('w, 'a) io \<Rightarrow> ('a \<Rightarrow> 'w assn) \<Rightarrow> (stop \<Rightarrow> 'w assn) \<Rightarrow> bool" where
  "triple P m Q R \<longleftrightarrow> (\<forall>s. P s \<longrightarrow> (\<exists>r s'. m s = Some (r, s') \<and>
     (case r of Inl e \<Rightarrow> R e s' | Inr x \<Rightarrow> Q x s')))"

named_theorems total_intros "rules of the logic"

lemma totalI:
  assumes "\<And>s. P s \<Longrightarrow> (\<exists>x s'. m s = Some (Inr x, s') \<and> Q x s') \<or> (\<exists>e s'. m s = Some (Inl e, s') \<and> R e s')"
  shows "triple P m Q R"
  unfolding triple_def using assms by (fastforce split: sum.split)

lemma totalD:
  assumes "triple P m Q R" "P s"
  obtains x s' where "m s = Some (Inr x, s')" "Q x s'" | e s' where "m s = Some (Inl e, s')" "R e s'"
  using assms unfolding triple_def by (fastforce split: sum.splits)

lemma total_conseq:
  assumes "triple P' m Q' R'" "\<And>s. P s \<Longrightarrow> P' s" "\<And>x s. Q' x s \<Longrightarrow> Q x s" "\<And>e s. R' e s \<Longrightarrow> R e s"
  shows "triple P m Q R"
proof (rule totalI)
  fix s assume "P s"
  then show "(\<exists>x s'. m s = Some (Inr x, s') \<and> Q x s') \<or> (\<exists>e s'. m s = Some (Inl e, s') \<and> R e s')"
    using assms by (metis totalD)
qed

lemma total_ret [total_intros]: "(\<And>s. P s \<Longrightarrow> Q x s) \<Longrightarrow> triple P (ret x) Q R"
  by (rule totalI) (simp add: ret_def)

lemma total_fail [total_intros]: "(\<And>s. P s \<Longrightarrow> R (Fails e) s) \<Longrightarrow> triple P (fail e) Q R"
  by (rule totalI) (simp add: fail_def)

lemma total_bind:
  assumes "triple P m M R" "\<And>x. triple (M x) (f x) Q R"
  shows "triple P (io_bind m f) Q R"
proof (rule totalI)
  fix s assume "P s"
  with assms(1) show "(\<exists>x s'. io_bind m f s = Some (Inr x, s') \<and> Q x s') \<or>
      (\<exists>e s'. io_bind m f s = Some (Inl e, s') \<and> R e s')"
  proof (cases rule: totalD)
    case (1 x s')
    from assms(2) 1(2) show ?thesis by (cases rule: totalD) (use 1 in \<open>auto simp: io_bind_def\<close>)
  qed (auto simp: io_bind_def)
qed

lemma total_try:
  assumes "triple P m (\<lambda>x. Q (Inr x)) (\<lambda>e. case e of Fails b \<Rightarrow> Q (Inl b) | Panics p \<Rightarrow> R e)"
  shows "triple P (io_try m) Q R"
proof (rule totalI)
  fix s assume "P s"
  with assms show "(\<exists>x s'. io_try m s = Some (Inr x, s') \<and> Q x s') \<or>
      (\<exists>e s'. io_try m s = Some (Inl e, s') \<and> R e s')"
    by (cases rule: totalD) (auto simp: io_try_def split: stop.splits)
qed

lemma total_if [total_intros]:
  "(b \<Longrightarrow> triple P m Q R) \<Longrightarrow> (\<not> b \<Longrightarrow> triple P n Q R) \<Longrightarrow> triple P (if b then m else n) Q R"
  by simp

lemma total_pre: "(\<And>s. P s \<Longrightarrow> triple (\<lambda>t. t = s) m Q R) \<Longrightarrow> triple P m Q R"
  by (rule totalI) (metis (mono_tags, lifting) totalD)

lemma total_loop:
  fixes measure :: "'s \<Rightarrow> 'w live \<Rightarrow> nat"
  assumes step: "\<And>x n. triple (\<lambda>s. J x s \<and> measure x s = n) (body x)
      (\<lambda>r s. case r of Inl x' \<Rightarrow> J x' s \<and> measure x' s < n | Inr a \<Rightarrow> Q a s) R"
  shows "triple (J x) (io_loop body x) Q R"
proof -
  have "J x s \<Longrightarrow> (\<exists>a s'. io_loop body x s = Some (Inr a, s') \<and> Q a s') \<or>
      (\<exists>e s'. io_loop body x s = Some (Inl e, s') \<and> R e s')" for s
  proof (induction "measure x s" arbitrary: x s rule: less_induct)
    case less
    have pre: "J x s \<and> measure x s = measure x s" using less.prems by simp
    from step[of x "measure x s"] pre show ?case
    proof (cases rule: totalD)
      case (1 r s')
      show ?thesis
      proof (cases r)
        case (Inl x')
        then have "(\<exists>a s''. io_loop body x' s' = Some (Inr a, s'') \<and> Q a s'') \<or>
            (\<exists>e s''. io_loop body x' s' = Some (Inl e, s'') \<and> R e s'')"
          using less.hyps 1 by simp
        then show ?thesis using 1 Inl by (simp add: io_loop.simps[of body x s])
      next
        case (Inr a)
        then show ?thesis using 1 by (simp add: io_loop.simps[of body x s])
      qed
    next
      case (2 e s')
      then show ?thesis by (simp add: io_loop.simps[of body x s])
    qed
  qed
  then show ?thesis by (intro totalI)
qed

lemma total_returns: "triple P m Q R \<Longrightarrow> P s \<Longrightarrow> m s \<noteq> None"
  by (erule (1) totalD) auto

section \<open>Specifications by trace\<close>

text \<open>
  \<open>does ch m Q R\<close>: from any state, \<open>m\<close> returns; the effects it appended satisfy \<open>Q\<close> together with its
  value or \<open>R\<close> together with its error, and the clock did not go back. \<open>reads\<close> are the computations
  without effects and panics.
\<close>

definition trace_at :: "'w chain \<Rightarrow> effect list \<Rightarrow> nat \<Rightarrow> 'w assn" where
  "trace_at ch E t s \<longleftrightarrow> lv_effects s = E \<and> t \<le> ch_now ch (lv_world s)"

definition does ::
  "'w chain \<Rightarrow> ('w, 'a) io \<Rightarrow> ('a \<Rightarrow> effect list \<Rightarrow> bool) \<Rightarrow> (stop \<Rightarrow> effect list \<Rightarrow> bool) \<Rightarrow> bool" where
  "does ch m Q R \<longleftrightarrow> (\<forall>E t. triple (trace_at ch E t) m
     (\<lambda>x s. \<exists>es. trace_at ch (E @ es) t s \<and> Q x es) (\<lambda>e s. \<exists>es. trace_at ch (E @ es) t s \<and> R e es))"

definition is_fails :: "stop \<Rightarrow> bool" where
  "is_fails e = (case e of Fails _ \<Rightarrow> True | Panics _ \<Rightarrow> False)"

definition reads :: "'w chain \<Rightarrow> ('w, 'a) io \<Rightarrow> bool" where
  "reads ch m \<longleftrightarrow> does ch m (\<lambda>_ es. es = []) (\<lambda>e es. es = [] \<and> is_fails e)"

named_theorems does_intros "rules for specifications by trace"
named_theorems reads_intros "computations without effects"

lemma is_fails_simps [simp]: "is_fails (Fails e)" "\<not> is_fails (Panics p)"
  by (simp_all add: is_fails_def)

lemma does_conseq:
  "does ch m Q' R' \<Longrightarrow> (\<And>x es. Q' x es \<Longrightarrow> Q x es) \<Longrightarrow> (\<And>e es. R' e es \<Longrightarrow> R e es) \<Longrightarrow> does ch m Q R"
  unfolding does_def by (blast intro: total_conseq)

lemma does_ret: "Q x [] \<Longrightarrow> does ch (ret x) Q R"
  unfolding does_def by (auto intro!: total_ret exI[of _ "[]"])

lemma does_fail: "R (Fails e) [] \<Longrightarrow> does ch (fail e) Q R"
  unfolding does_def by (auto intro!: total_fail exI[of _ "[]"])

lemma does_bind:
  assumes "does ch m M R1"
    and "\<And>x e1. M x e1 \<Longrightarrow> does ch (f x) (\<lambda>y e2. Q y (e1 @ e2)) (\<lambda>e e2. R e (e1 @ e2))"
    and "\<And>e es. R1 e es \<Longrightarrow> R e es"
  shows "does ch (io_bind m f) Q R"
  unfolding does_def
proof (intro allI total_bind)
  fix E t
  show "triple (trace_at ch E t) m (\<lambda>x s. \<exists>es. trace_at ch (E @ es) t s \<and> M x es) (\<lambda>e s. \<exists>es. trace_at ch (E @ es) t s \<and> R e es)"
    using assms(1,3) unfolding does_def by (blast intro: total_conseq)
  fix x
  show "triple (\<lambda>s. \<exists>es. trace_at ch (E @ es) t s \<and> M x es) (f x)
      (\<lambda>y s. \<exists>es. trace_at ch (E @ es) t s \<and> Q y es) (\<lambda>e s. \<exists>es. trace_at ch (E @ es) t s \<and> R e es)"
  proof (rule total_pre)
    fix s assume "\<exists>es. trace_at ch (E @ es) t s \<and> M x es"
    then obtain e1 where e1: "trace_at ch (E @ e1) t s" "M x e1" by blast
    have "triple (trace_at ch (E @ e1) t) (f x)
        (\<lambda>y s. \<exists>es. trace_at ch ((E @ e1) @ es) t s \<and> Q y (e1 @ es))
        (\<lambda>e s. \<exists>es. trace_at ch ((E @ e1) @ es) t s \<and> R e (e1 @ es))"
      using assms(2)[OF e1(2)] unfolding does_def by blast
    then show "triple (\<lambda>t. t = s) (f x)
        (\<lambda>y s. \<exists>es. trace_at ch (E @ es) t s \<and> Q y es) (\<lambda>e s. \<exists>es. trace_at ch (E @ es) t s \<and> R e es)"
      by (rule total_conseq) (use e1(1) in auto)
  qed
qed

lemma does_try:
  assumes "does ch m (\<lambda>x. Q (Inr x)) (\<lambda>e es. case e of Fails b \<Rightarrow> Q (Inl b) es | Panics p \<Rightarrow> R e es)"
  shows "does ch (io_try m) Q R"
  unfolding does_def
proof (intro allI total_try)
  fix E t
  have "triple (trace_at ch E t) m (\<lambda>x s. \<exists>es. trace_at ch (E @ es) t s \<and> Q (Inr x) es)
     (\<lambda>e s. \<exists>es. trace_at ch (E @ es) t s \<and> (case e of Fails b \<Rightarrow> Q (Inl b) es | Panics p \<Rightarrow> R e es))"
    using assms unfolding does_def by blast
  then show "triple (trace_at ch E t) m (\<lambda>x s. \<exists>es. trace_at ch (E @ es) t s \<and> Q (Inr x) es)
     (\<lambda>e. case e of Fails b \<Rightarrow> (\<lambda>s. \<exists>es. trace_at ch (E @ es) t s \<and> Q (Inl b) es)
       | Panics p \<Rightarrow> (\<lambda>s. \<exists>es. trace_at ch (E @ es) t s \<and> R e es))"
    by (rule total_conseq) (auto split: stop.splits)
qed

lemma does_bind_reads:
  assumes "reads ch m" "\<And>x. does ch (f x) Q R" "\<And>b. R (Fails b) []"
  shows "does ch (io_bind m f) Q R"
  by (rule does_bind[OF assms(1)[unfolded reads_def]])
    (use assms(2,3) in \<open>auto simp: is_fails_def split: stop.splits\<close>)

lemma does_try_reads: "reads ch m \<Longrightarrow> does ch (io_try m) (\<lambda>_ es. es = []) (\<lambda>_ _. False)"
  by (rule does_try) (auto simp: reads_def is_fails_def split: stop.splits elim: does_conseq)

lemma reads_ret [reads_intros]: "reads ch (ret x)"
  unfolding reads_def by (rule does_ret) simp

lemma reads_fail [reads_intros]: "reads ch (fail e)"
  unfolding reads_def by (rule does_fail) simp

lemma reads_bind [reads_intros]: "reads ch m \<Longrightarrow> (\<And>x. reads ch (f x)) \<Longrightarrow> reads ch (io_bind m f)"
  unfolding reads_def by (erule does_bind) auto

lemma reads_try [reads_intros]: "reads ch m \<Longrightarrow> reads ch (io_try m)"
  unfolding reads_def[of ch "io_try m"] by (rule does_conseq[OF does_try_reads]) auto

lemma reads_recover [reads_intros]: "reads ch m \<Longrightarrow> reads ch (recover d m)"
  unfolding recover_def by (intro reads_intros)

lemma reads_io_ok [reads_intros]: "reads ch m \<Longrightarrow> reads ch (io_ok m)"
  unfolding io_ok_def by (intro reads_intros)

lemma reads_of_result [reads_intros]: "reads ch (of_result r)"
  by (auto simp: of_result_def intro: reads_intros split: sum.split)

lemma reads_of_option [reads_intros]: "reads ch (of_option e r)"
  by (auto simp: of_option_def intro: reads_intros split: option.split)

lemma reads_if [reads_intros]: "reads ch m \<Longrightarrow> reads ch n \<Longrightarrow> reads ch (if b then m else n)"
  by simp

lemma reads_case_option [reads_intros]:
  "reads ch m \<Longrightarrow> (\<And>x. reads ch (f x)) \<Longrightarrow> reads ch (case r of None \<Rightarrow> m | Some x \<Rightarrow> f x)"
  by (simp split: option.split)

lemma reads_case_sum [reads_intros]:
  "(\<And>e. reads ch (g e)) \<Longrightarrow> (\<And>x. reads ch (f x)) \<Longrightarrow> reads ch (case r of Inl e \<Rightarrow> g e | Inr x \<Rightarrow> f x)"
  by (simp split: sum.split)

lemma reads_case_prod [reads_intros]:
  "(\<And>x y. reads ch (f x y)) \<Longrightarrow> reads ch (case r of (x, y) \<Rightarrow> f x y)"
  by (simp split: prod.split)

lemma reads_get_live [reads_intros]: "reads ch get_live"
  unfolding reads_def does_def
  by (intro allI totalI) (auto simp: get_live_def trace_at_def)

lemma reads_now [reads_intros]: "reads ch (now ch)"
  unfolding reads_def does_def
  by (intro allI totalI) (auto simp: now_def trace_at_def)

lemma reads_call: "(\<And>w. ch_now ch w \<le> ch_now ch (snd (f w))) \<Longrightarrow> reads ch (call ch f)"
  unfolding reads_def does_def
  by (intro allI totalI) (auto simp: call_def trace_at_def split: prod.split, metis order_trans snd_conv)

lemma reads_sleep [reads_intros]: "clock_advances ch \<Longrightarrow> reads ch (sleep ch d)"
  unfolding sleep_def by (rule reads_call) (auto simp: clock_advances_def intro: add_leD1)

lemma reads_externals [reads_intros]:
  assumes "clock_advances ch"
  shows "reads ch (call ch (ch_statuses ch sig))" "reads ch (call ch (ch_blockhash ch))"
    "reads ch (call ch (ch_send ch tx sp))" "reads ch (call ch (ch_account ch a))"
    "reads ch (call ch (ch_token_balance ch a))" "reads ch (call ch (ch_balance ch a))"
    "reads ch (call ch (ch_transaction ch sig))" "reads ch (call ch (ch_http ch r))"
  using assms by (auto intro!: reads_call simp: clock_advances_def)

text \<open>Reads that cannot even fail, because the error is a value or replaced by a default.\<close>

definition safe :: "'w chain \<Rightarrow> ('w, 'a) io \<Rightarrow> bool" where
  "safe ch m \<longleftrightarrow> does ch m (\<lambda>_ es. es = []) (\<lambda>_ _. False)"

lemma does_bind_safe:
  assumes "safe ch m" "\<And>x. does ch (f x) Q R"
  shows "does ch (io_bind m f) Q R"
  by (rule does_bind[OF assms(1)[unfolded safe_def]]) (use assms(2) in auto)

lemma safe_try: "reads ch m \<Longrightarrow> safe ch (io_try m)"
  unfolding safe_def by (rule does_try_reads)

lemma safe_recover: "reads ch m \<Longrightarrow> safe ch (recover d m)"
  unfolding recover_def safe_def[of ch "io_bind _ _"]
  by (rule does_bind_safe[OF safe_try]) (auto intro: does_ret)

lemma safe_io_ok: "reads ch m \<Longrightarrow> safe ch (io_ok m)"
  unfolding io_ok_def safe_def[of ch "io_bind _ _"]
  by (rule does_bind_safe[OF safe_try]) (auto intro: does_ret)

lemma safe_get_live: "safe ch get_live"
  unfolding safe_def does_def by (intro allI totalI) (auto simp: get_live_def trace_at_def)

lemmas safe_intros = safe_try safe_recover safe_io_ok safe_get_live

lemma does_emit: "Q () [e] \<Longrightarrow> does ch (emit e) Q R"
  unfolding does_def by (intro allI totalI) (auto simp: emit_def trace_at_def)

lemma does_debit: "Q () [Debited x] \<Longrightarrow> does ch (debit x) Q R"
  unfolding does_def by (intro allI totalI) (auto simp: debit_def trace_at_def)

lemma does_credit: "Q () [Credited x] \<Longrightarrow> does ch (credit x) Q R"
  unfolding does_def by (intro allI totalI) (auto simp: credit_def trace_at_def)

lemma does_emit_bind:
  "does ch (f ()) (\<lambda>y es. Q y (e # es)) (\<lambda>r es. R r (e # es)) \<Longrightarrow> does ch (io_bind (emit e) f) Q R"
  by (rule does_bind[where M = "\<lambda>_ es. es = [e]" and ?R1.0 = "\<lambda>_ _. False"]) (auto intro: does_emit)

lemma does_debit_bind:
  "does ch (f ()) (\<lambda>y es. Q y (Debited x # es)) (\<lambda>r es. R r (Debited x # es)) \<Longrightarrow> does ch (io_bind (debit x) f) Q R"
  by (rule does_bind[where M = "\<lambda>_ es. es = [Debited x]" and ?R1.0 = "\<lambda>_ _. False"]) (auto intro: does_debit)

lemma does_credit_bind:
  "does ch (f ()) (\<lambda>y es. Q y (Credited x # es)) (\<lambda>r es. R r (Credited x # es)) \<Longrightarrow> does ch (io_bind (credit x) f) Q R"
  by (rule does_bind[where M = "\<lambda>_ es. es = [Credited x]" and ?R1.0 = "\<lambda>_ _. False"]) (auto intro: does_credit)

lemma does_of_outcome_bind:
  assumes "\<And>x. r = Inr x \<Longrightarrow> does ch (f x) Q R" "\<And>p. r = Inl p \<Longrightarrow> R (Panics p) []"
  shows "does ch (io_bind (of_outcome r) f) Q R"
proof (cases r)
  case (Inl p)
  have "does ch (of_outcome (Inl p)) (\<lambda>_ _. False) (\<lambda>e es. e = Panics p \<and> es = [])"
    unfolding does_def by (intro allI totalI) (auto simp: of_outcome_def trace_at_def)
  then show ?thesis unfolding Inl by (rule does_bind) (use assms(2) Inl in auto)
qed (use assms(1) in auto)

text \<open>Case distinctions, and the rules that follow the structure of a computation.\<close>

lemma does_if: "(b \<Longrightarrow> does ch m Q R) \<Longrightarrow> (\<not> b \<Longrightarrow> does ch n Q R) \<Longrightarrow> does ch (if b then m else n) Q R"
  by simp

lemma does_Let: "(\<And>y. y = x \<Longrightarrow> does ch (f y) Q R) \<Longrightarrow> does ch (let y = x in f y) Q R"
  by simp

lemma does_case_sum:
  "(\<And>e. r = Inl e \<Longrightarrow> does ch (g e) Q R) \<Longrightarrow> (\<And>x. r = Inr x \<Longrightarrow> does ch (f x) Q R)
     \<Longrightarrow> does ch (case r of Inl e \<Rightarrow> g e | Inr x \<Rightarrow> f x) Q R"
  by (simp split: sum.split)

lemma does_case_option:
  "(r = None \<Longrightarrow> does ch m Q R) \<Longrightarrow> (\<And>x. r = Some x \<Longrightarrow> does ch (f x) Q R)
     \<Longrightarrow> does ch (case r of None \<Rightarrow> m | Some x \<Rightarrow> f x) Q R"
  by (simp split: option.split)

lemma does_case_prod: "(\<And>x y. r = (x, y) \<Longrightarrow> does ch (f x y) Q R) \<Longrightarrow> does ch (case r of (x, y) \<Rightarrow> f x y) Q R"
  by (simp split: prod.split)

lemmas does_cases = does_if does_Let does_case_sum does_case_option does_case_prod

text \<open>A retry loop: \<open>I x acc\<close> relates the state of the loop to the effects of the rounds so far.\<close>

lemma does_retry:
  fixes \<mu> :: "'s \<Rightarrow> nat"
  assumes "I x []" and body: "\<And>x acc. I x acc \<Longrightarrow> does ch (body x)
      (\<lambda>r es. case r of Inl x' \<Rightarrow> I x' (acc @ es) \<and> \<mu> x' < \<mu> x | Inr a \<Rightarrow> Q a (acc @ es)) (\<lambda>e es. R e (acc @ es))"
  shows "does ch (io_loop body x) Q R"
  unfolding does_def
proof (intro allI)
  fix E t
  let ?J = "\<lambda>x s. \<exists>acc. trace_at ch (E @ acc) t s \<and> I x acc"
  let ?Q = "\<lambda>a s. \<exists>es. trace_at ch (E @ es) t s \<and> Q a es"
  let ?R = "\<lambda>e s. \<exists>es. trace_at ch (E @ es) t s \<and> R e es"
  have "triple (?J x) (io_loop body x) ?Q ?R"
  proof (rule total_loop[where measure = "\<lambda>x s. \<mu> x"])
    fix x n
    show "triple (\<lambda>s. ?J x s \<and> \<mu> x = n) (body x)
      (\<lambda>r s. case r of Inl x' \<Rightarrow> ?J x' s \<and> \<mu> x' < n | Inr a \<Rightarrow> ?Q a s) ?R"
    proof (rule total_pre)
      fix s assume "?J x s \<and> \<mu> x = n"
      then obtain acc where acc: "trace_at ch (E @ acc) t s" "I x acc" "\<mu> x = n" by blast
      have b: "triple (trace_at ch (E @ acc) t) (body x) (\<lambda>r s. \<exists>es. trace_at ch ((E @ acc) @ es) t s \<and>
            (case r of Inl x' \<Rightarrow> I x' (acc @ es) \<and> \<mu> x' < \<mu> x | Inr a \<Rightarrow> Q a (acc @ es)))
          (\<lambda>e s. \<exists>es. trace_at ch ((E @ acc) @ es) t s \<and> R e (acc @ es))"
        using body[OF acc(2)] unfolding does_def by blast
      show "triple (\<lambda>u. u = s) (body x)
        (\<lambda>r s. case r of Inl x' \<Rightarrow> ?J x' s \<and> \<mu> x' < n | Inr a \<Rightarrow> ?Q a s) ?R"
        by (rule total_conseq[OF b]) (use acc in \<open>auto split: sum.splits\<close>)
    qed
  qed
  then show "triple (trace_at ch E t) (io_loop body x) ?Q ?R"
    by (rule total_conseq) (use assms(1) in \<open>auto intro!: exI[of _ "[]"]\<close>)
qed

text \<open>Polling ends when the clock advances and every pause takes time.\<close>

lemma reads_total: "reads ch m \<Longrightarrow> triple (trace_at ch E t) m
    (\<lambda>_. trace_at ch E t) (\<lambda>e s. trace_at ch E t s \<and> is_fails e)"
  unfolding reads_def does_def by (elim allE[of _ E] allE[of _ t] total_conseq) auto

definition poll_body ::
  "'w chain \<Rightarrow> nat \<Rightarrow> (nat \<Rightarrow> nat) \<Rightarrow> ('s \<Rightarrow> ('w, 's + 'a) io) \<Rightarrow> ('s \<Rightarrow> nat \<Rightarrow> ('w, 'a) io) \<Rightarrow> nat \<Rightarrow> 's
     \<Rightarrow> ('w, 's + 'a) io"
where
  "poll_body ch timeout delay probe expire started x =
     io_bind (probe x) (\<lambda>v. case v of
         Inr a \<Rightarrow> ret (Inr a)
       | Inl x' \<Rightarrow> io_bind (now ch) (\<lambda>n.
           if timeout \<le> n - started then io_bind (expire x' (n - started)) (\<lambda>a. ret (Inr a))
           else io_bind (sleep ch (delay (n - started))) (\<lambda>_. ret (Inl x'))))"

lemma poll_round:
  assumes "clock_advances ch" "\<And>n. 0 < delay n" "reads ch (probe x)" "\<And>x n. reads ch (expire x n)"
    "started \<le> c"
  shows "triple (trace_at ch E (max t c)) (poll_body ch timeout delay probe expire started x)
     (\<lambda>r s. trace_at ch E (max t c) s \<and> (\<forall>x'. r = Inl x' \<longrightarrow>
        timeout - (ch_now ch (lv_world s) - started) < timeout - (c - started)))
     (\<lambda>e s. trace_at ch E (max t c) s \<and> is_fails e)"
  unfolding poll_body_def
proof (rule total_bind[OF reads_total[OF assms(3)]])
  fix v
  show "triple (trace_at ch E (max t c)) (case v of
         Inr a \<Rightarrow> ret (Inr a)
       | Inl x' \<Rightarrow> io_bind (now ch) (\<lambda>n.
           if timeout \<le> n - started then io_bind (expire x' (n - started)) (\<lambda>a. ret (Inr a))
           else io_bind (sleep ch (delay (n - started))) (\<lambda>_. ret (Inl x'))))
     (\<lambda>r s. trace_at ch E (max t c) s \<and> (\<forall>x'. r = Inl x' \<longrightarrow>
        timeout - (ch_now ch (lv_world s) - started) < timeout - (c - started)))
     (\<lambda>e s. trace_at ch E (max t c) s \<and> is_fails e)"
  proof (cases v)
    case (Inl x')
    show ?thesis unfolding Inl sum.case
    proof (rule total_pre)
      fix s assume at: "trace_at ch E (max t c) s"
      define n where "n = ch_now ch (lv_world s)"
      have n: "c \<le> n" using at by (simp add: trace_at_def n_def)
      let ?d = "delay (n - started)"
      have now: "triple (\<lambda>u. u = s) (now ch) (\<lambda>m u. m = n \<and> u = s) R" for R
        by (rule totalI) (simp add: now_def n_def)
      have adv: "n + ?d \<le> ch_now ch (ch_sleep ch ?d (lv_world s))"
        using assms(1) by (simp add: clock_advances_def n_def)
      obtain bal ps where o: "ch_others ch (ch_sleep ch ?d (lv_world s)) (lv_balance s, lv_positions s) = (bal, ps)"
        by fastforce
      let ?s' = "s\<lparr>lv_balance := bal, lv_positions := ps, lv_world := ch_sleep ch ?d (lv_world s)\<rparr>"
      have run: "io_bind (sleep ch ?d) (\<lambda>_. ret (Inl x')) s = Some (Inr (Inl x'), ?s')"
        by (simp add: sleep_def call_def io_bind_def ret_def o)
      have at': "trace_at ch E (max t c) ?s'" using at adv n by (simp add: trace_at_def n_def)
      have "timeout - (ch_now ch (lv_world ?s') - started) < timeout - (c - started)"
        if "\<not> timeout \<le> n - started"
      proof -
        have "n < ch_now ch (lv_world ?s')" using adv assms(2)[of "n - started"] by simp
        then show ?thesis using that n assms(5) by linarith
      qed
      then have slept: "triple (\<lambda>u. u = s) (io_bind (sleep ch ?d) (\<lambda>_. ret (Inl x')))
         (\<lambda>r s. trace_at ch E (max t c) s \<and> (\<forall>x'. r = Inl x' \<longrightarrow>
            timeout - (ch_now ch (lv_world s) - started) < timeout - (c - started)))
         (\<lambda>e s. trace_at ch E (max t c) s \<and> is_fails e)" if "\<not> timeout \<le> n - started"
        using that at' run by (intro totalI) blast
      have expired: "triple (\<lambda>u. u = s) (io_bind (expire x' (n - started)) (\<lambda>a. ret (Inr a)))
         (\<lambda>r s. trace_at ch E (max t c) s \<and> (\<forall>x'. r = Inl x' \<longrightarrow>
            timeout - (ch_now ch (lv_world s) - started) < timeout - (c - started)))
         (\<lambda>e s. trace_at ch E (max t c) s \<and> is_fails e)"
        by (rule total_bind[where M = "\<lambda>_. trace_at ch E (max t c)"])
          (use at in \<open>auto intro!: total_ret total_conseq[OF reads_total[OF assms(4)]]\<close>)
      show "triple (\<lambda>u. u = s) (io_bind (now ch) (\<lambda>n.
           if timeout \<le> n - started then io_bind (expire x' (n - started)) (\<lambda>a. ret (Inr a))
           else io_bind (sleep ch (delay (n - started))) (\<lambda>_. ret (Inl x'))))
         (\<lambda>r s. trace_at ch E (max t c) s \<and> (\<forall>x'. r = Inl x' \<longrightarrow>
            timeout - (ch_now ch (lv_world s) - started) < timeout - (c - started)))
         (\<lambda>e s. trace_at ch E (max t c) s \<and> is_fails e)"
      proof (rule total_bind[OF now])
        fix m
        show "triple (\<lambda>u. m = n \<and> u = s)
           (if timeout \<le> m - started then io_bind (expire x' (m - started)) (\<lambda>a. ret (Inr a))
            else io_bind (sleep ch (delay (m - started))) (\<lambda>_. ret (Inl x')))
           (\<lambda>r s. trace_at ch E (max t c) s \<and> (\<forall>x'. r = Inl x' \<longrightarrow>
              timeout - (ch_now ch (lv_world s) - started) < timeout - (c - started)))
           (\<lambda>e s. trace_at ch E (max t c) s \<and> is_fails e)"
          using slept expired by (cases "m = n") (auto intro: totalI)
      qed
    qed
  qed (auto intro!: total_ret)
qed

lemma reads_poll_until [reads_intros]:
  assumes "clock_advances ch" "\<And>n. 0 < delay n" "\<And>x. reads ch (probe x)" "\<And>x n. reads ch (expire x n)"
  shows "reads ch (poll_until ch timeout delay probe expire x0)"
proof -
  have loop: "triple (\<lambda>s. trace_at ch E t s \<and> started \<le> ch_now ch (lv_world s))
      (io_loop (poll_body ch timeout delay probe expire started) x0)
      (\<lambda>_. trace_at ch E t) (\<lambda>e s. trace_at ch E t s \<and> is_fails e)" for E t started
  proof (rule total_loop[where measure = "\<lambda>x s. timeout - (ch_now ch (lv_world s) - started)"])
    fix x n
    show "triple (\<lambda>s. (trace_at ch E t s \<and> started \<le> ch_now ch (lv_world s)) \<and>
          timeout - (ch_now ch (lv_world s) - started) = n)
        (poll_body ch timeout delay probe expire started x)
        (\<lambda>r s. case r of Inl x' \<Rightarrow> (trace_at ch E t s \<and> started \<le> ch_now ch (lv_world s)) \<and>
            timeout - (ch_now ch (lv_world s) - started) < n
          | Inr a \<Rightarrow> trace_at ch E t s)
        (\<lambda>e s. trace_at ch E t s \<and> is_fails e)"
    proof (rule total_pre)
      fix s assume s: "(trace_at ch E t s \<and> started \<le> ch_now ch (lv_world s)) \<and>
          timeout - (ch_now ch (lv_world s) - started) = n"
      then have "started \<le> ch_now ch (lv_world s)" by simp
      note round = poll_round[OF assms(1-4) this]
      show "triple (\<lambda>u. u = s) (poll_body ch timeout delay probe expire started x)
        (\<lambda>r s. case r of Inl x' \<Rightarrow> (trace_at ch E t s \<and> started \<le> ch_now ch (lv_world s)) \<and>
            timeout - (ch_now ch (lv_world s) - started) < n
          | Inr a \<Rightarrow> trace_at ch E t s)
        (\<lambda>e s. trace_at ch E t s \<and> is_fails e)"
        by (rule total_conseq[OF round]) (use s in \<open>auto simp: trace_at_def split: sum.split\<close>)
    qed
  qed
  have now: "triple (trace_at ch E t) (now ch) (\<lambda>n s. trace_at ch E t s \<and> n \<le> ch_now ch (lv_world s)) R" for E t R
    by (rule totalI) (simp add: now_def trace_at_def)
  have "triple (trace_at ch E t) (poll_until ch timeout delay probe expire x0)
      (\<lambda>_. trace_at ch E t) (\<lambda>e s. trace_at ch E t s \<and> is_fails e)" for E t
    unfolding poll_until_def by (rule total_bind[OF now], fold poll_body_def) (rule loop)
  then show ?thesis
    unfolding reads_def does_def by (auto elim!: total_conseq)
qed

end
