(* ===== verification/Live_Rpc.thy ===== *)
theory Live_Rpc
  imports Live_IO
begin

text \<open>
  The helpers of the live broker that talk to the RPC node: the reads with their error texts and the
  classification of errors, the back-offs, the polls that wait for a transaction, an account or a
  balance (\<^verbatim>\<open>src/autobuy/pump_brocker.rs\<close>), the configuration (\<^verbatim>\<open>src/autobuy/execution.rs\<close>) and the net
  SOL of a transaction (\<^verbatim>\<open>src/autobuy/wallet_tx_sol.rs\<close>).

  Every helper is shown to read only: it returns once the clock advances, never panics, and neither
  submits a transaction nor touches the cached balance. Log output is left out.
\<close>

section \<open>Configuration\<close>

record live_config =
  lc_slippage_bps :: u32
  lc_priority_fee_micro_lamports :: u64
  lc_compute_unit_limit :: u32
  lc_max_retries :: u32
  lc_balance_refresh_secs :: u64
  lc_skip_preflight :: bool

definition live_config_default :: live_config where
  "live_config_default = \<lparr>lc_slippage_bps = 500, lc_priority_fee_micro_lamports = 200000,
     lc_compute_unit_limit = 200000, lc_max_retries = 3, lc_balance_refresh_secs = 10,
     lc_skip_preflight = False\<rparr>"

record broker_env =
  be_wallet :: address
  be_exec :: live_config

section \<open>Errors\<close>

definition contains_any :: "string \<Rightarrow> string list \<Rightarrow> bool" where
  "contains_any s ns = list_ex (contains_sub s) ns"

definition is_bonding_curve_complete_pump_error :: "string \<Rightarrow> bool" where
  "is_bonding_curve_complete_pump_error msg = contains_sub msg ''Custom(6005)''"

definition is_transient_rpc_error :: "string \<Rightarrow> bool" where
  "is_transient_rpc_error msg = contains_any (to_ascii_lowercase msg)
     [''429'', ''too many requests'', ''503'', ''502'', ''504'', ''timed out'', ''timeout'',
      ''connection reset'', ''broken pipe'', ''temporarily unavailable'', ''error sending request'',
      ''connection closed'', ''dns'']"

definition is_rpc_account_missing :: "string \<Rightarrow> bool" where
  "is_rpc_account_missing msg = contains_any (to_ascii_lowercase msg)
     [''accountnotfound'', ''account not found'', ''could not find account'', ''mint account not found'']"

definition is_account_propagation_error :: "string \<Rightarrow> bool" where
  "is_account_propagation_error msg = contains_any (to_ascii_lowercase msg)
     [''0xbc4'', ''accountnotinitialized'', ''error number: 3012'', ''\"err\": 3012'']"

text \<open>\<^verbatim>\<open>BrokerError::to_string\<close>.\<close>

definition err_text :: "'w chain \<Rightarrow> broker_error \<Rightarrow> string" where
  "err_text ch e = broker_error_display (lb_addr_str (ch_lib ch)) e"

section \<open>Back-offs\<close>

definition backoff_ms :: "nat \<Rightarrow> nat" where
  "backoff_ms n = min (150 * 2 ^ min (n - 1) 4) 2000"

definition propagation_backoff_ms :: "nat \<Rightarrow> nat" where
  "propagation_backoff_ms n = min (700 * n) 3000"

definition backoff_balance_ms :: "nat \<Rightarrow> string \<Rightarrow> nat" where
  "backoff_balance_ms n err_msg =
     (let m = to_ascii_lowercase err_msg
      in if contains_sub m ''429'' \<or> contains_sub m ''too many requests''
         then min (5 + n * 7) 90 * 1000
         else min (500 * 2 ^ min (n - 1) 7) 15000)"

definition backoff :: "'w chain \<Rightarrow> nat \<Rightarrow> ('w, unit) io" where
  "backoff ch n = sleep ch (millis (backoff_ms n))"

definition propagation_backoff :: "'w chain \<Rightarrow> nat \<Rightarrow> ('w, unit) io" where
  "propagation_backoff ch n = sleep ch (millis (propagation_backoff_ms n))"

definition backoff_balance :: "'w chain \<Rightarrow> nat \<Rightarrow> string \<Rightarrow> ('w, unit) io" where
  "backoff_balance ch n err_msg = sleep ch (millis (backoff_balance_ms n err_msg))"

section \<open>Reads\<close>

text \<open>An awaited call whose error is wrapped (\<^verbatim>\<open>map_err(...)?\<close>).\<close>

definition call_or :: "'w chain \<Rightarrow> ('w \<Rightarrow> (string + 'a) \<times> 'w) \<Rightarrow> (string \<Rightarrow> broker_error) \<Rightarrow> ('w, 'a) io" where
  "call_or ch f err = io_bind (call ch f) (\<lambda>r. case r of Inl e \<Rightarrow> fail (err e) | Inr x \<Rightarrow> ret x)"

definition parse_pubkey :: "'w chain \<Rightarrow> string \<Rightarrow> broker_error \<Rightarrow> ('w, address) io" where
  "parse_pubkey ch s err = of_option err (lb_parse_addr (ch_lib ch) s)"

definition fetch_balance_sol :: "'w chain \<Rightarrow> address \<Rightarrow> ('w, f64) io" where
  "fetch_balance_sol ch wallet =
     io_bind (parse_pubkey ch (lb_addr_str (ch_lib ch) wallet) (Custom ''Invalid Address'')) (\<lambda>pubkey.
     io_bind (call_or ch (ch_balance ch pubkey) Custom) (\<lambda>lamports.
       ret (word_to_f64 lamports / Fin 1000000000)))"

text \<open>One attempt of the retry loop, with what follows a transient error, and the loop.\<close>

definition try_balance ::
  "'w chain \<Rightarrow> address \<Rightarrow> (broker_error \<Rightarrow> ('w, broker_error + f64) io) \<Rightarrow> ('w, broker_error + f64) io" where
  "try_balance ch wallet again =
     io_bind (io_try (fetch_balance_sol ch wallet)) (\<lambda>r. case r of
       Inr v \<Rightarrow> ret (Inr v)
     | Inl e \<Rightarrow> if \<not> is_transient_rpc_error (err_text ch e) then fail e else again e)"

primrec balance_attempts :: "'w chain \<Rightarrow> address \<Rightarrow> nat \<Rightarrow> nat \<Rightarrow> ('w, broker_error + f64) io" where
  "balance_attempts ch wallet 0 a = try_balance ch wallet (\<lambda>e. ret (Inl e))"
| "balance_attempts ch wallet (Suc n) a = try_balance ch wallet (\<lambda>e.
     io_bind (backoff_balance ch a (err_text ch e)) (\<lambda>_. balance_attempts ch wallet n (Suc a)))"

definition fetch_balance_sol_with_retry :: "'w chain \<Rightarrow> address \<Rightarrow> f64 option \<Rightarrow> ('w, f64) io" where
  "fetch_balance_sol_with_retry ch wallet placeholder =
     (let max_attempts = (if placeholder \<noteq> None then 8 else 24)
      in io_bind (balance_attempts ch wallet (max_attempts - 1) 1) (\<lambda>r. case r of
           Inr v \<Rightarrow> ret v
         | Inl e \<Rightarrow> (case placeholder of
             Some fallback \<Rightarrow> if is_transient_rpc_error (err_text ch e) then ret fallback else fail e
           | None \<Rightarrow> fail e)))"

definition fetch_bonding_curve_state :: "'w chain \<Rightarrow> address \<Rightarrow> ('w, curve_state) io" where
  "fetch_bonding_curve_state ch mint =
     (let curve_pk_str = lb_addr_str (ch_lib ch) (lb_bounding_curve (ch_lib ch) mint)
      in io_bind (parse_pubkey ch curve_pk_str (Custom (''invalid bonding curve pubkey: '' @ curve_pk_str))) (\<lambda>curve_pk.
         io_bind (call_or ch (ch_account ch curve_pk)
           (\<lambda>e. Custom (''get_account bonding_curve '' @ curve_pk_str @ '': '' @ e))) (\<lambda>value.
         io_bind (of_option (Custom (''bonding curve '' @ curve_pk_str @ '' not found'')) value) (\<lambda>account.
         case decode_curve (ac_data account) of Inl e \<Rightarrow> fail (Custom e) | Inr c \<Rightarrow> ret c))))"

definition fetch_bonding_curve_creator :: "'w chain \<Rightarrow> address \<Rightarrow> ('w, address) io" where
  "fetch_bonding_curve_creator ch mint =
     io_bind (fetch_bonding_curve_state ch mint) (\<lambda>c. ret (cs_creator c))"

definition probe_bonding_mcap_sol :: "'w chain \<Rightarrow> address \<Rightarrow> ('w, f64 option) io" where
  "probe_bonding_mcap_sol ch mint =
     io_bind (io_ok (fetch_bonding_curve_state ch mint)) (\<lambda>r. case r of
       None \<Rightarrow> ret None
     | Some curve \<Rightarrow>
         if cs_complete curve then ret None
         else let mcap = bonding_curve_mcap_sol curve
              in ret (if is_finite mcap \<and> 0 < mcap then Some mcap else None))"

definition LEGACY :: string where "LEGACY = ''TokenkegQfeZyiNwAJbNbGKPFXCWuBvf9Ss623VQ5DA''"
definition TOKEN22 :: string where "TOKEN22 = ''TokenzQdBNbLqP5VEhdkAS6EPFLC1PHnBqCXEpPxuEb''"

definition fetch_mint_token_kind :: "'w chain \<Rightarrow> address \<Rightarrow> ('w, mint_token_kind) io" where
  "fetch_mint_token_kind ch mint =
     (let mint_str = lb_addr_str (ch_lib ch) mint
      in io_bind (parse_pubkey ch mint_str (Custom (''invalid mint pubkey: '' @ mint_str))) (\<lambda>mint_pk.
         io_bind (call_or ch (ch_account ch mint_pk)
           (\<lambda>e. Custom (''get_account mint '' @ mint_str @ '': '' @ e))) (\<lambda>value.
         io_bind (of_option (MintNotOnChain mint_str ''fetch_mint_token_kind: account empty at confirmed'') value) (\<lambda>acc.
         let owner = lb_addr_str (ch_lib ch) (ac_owner acc)
         in if owner = LEGACY then ret LegacySpl
            else if owner = TOKEN22 then ret Token2022
            else fail (Custom (''mint '' @ mint_str @ '' owner '' @ owner
                               @ '' is not SPL Token (Tokenkeg) or Token-2022 (Tokenz)''))))))"

definition derive_ata_address ::
  "'w chain \<Rightarrow> address \<Rightarrow> address \<Rightarrow> address \<Rightarrow> (address \<times> string) outcome" where
  "derive_ata_address ch wallet mint tok =
     bind_outcome (ata_address (ch_lib ch) wallet tok mint) (\<lambda>(a, _). Inr (a, lb_addr_str (ch_lib ch) a))"

text \<open>\<^verbatim>\<open>str::parse::<u64>\<close> with the texts of its errors.\<close>

fun parse_u64_digits :: "nat \<Rightarrow> string \<Rightarrow> string + u64" where
  "parse_u64_digits acc [] = Inr (of_nat acc)"
| "parse_u64_digits acc (c # cs) =
     (if \<not> is_digit c then Inl ''invalid digit found in string''
      else let n = 10 * acc + (of_char c - 48)
           in if 2 ^ 64 \<le> n then Inl ''number too large to fit in target type'' else parse_u64_digits n cs)"

definition parse_u64 :: "string \<Rightarrow> string + u64" where
  "parse_u64 s = (case s of
     [] \<Rightarrow> Inl ''cannot parse integer from empty string''
   | c # cs \<Rightarrow> if c = CHR ''+'' \<and> cs \<noteq> [] then parse_u64_digits 0 cs else parse_u64_digits 0 s)"

definition fetch_token_account_raw_with_decimals :: "'w chain \<Rightarrow> string \<Rightarrow> ('w, u64 \<times> u8) io" where
  "fetch_token_account_raw_with_decimals ch ata =
     io_bind (parse_pubkey ch ata (Custom (''invalid ATA pubkey: '' @ ata))) (\<lambda>pk.
     io_bind (call_or ch (ch_token_balance ch pk)
       (\<lambda>e. Custom (''get_token_account_balance '' @ ata @ '': '' @ e))) (\<lambda>(amount, decimals).
     case parse_u64 amount of
       Inl e \<Rightarrow> fail (Custom (''parse token amount '' @ ata @ '': '' @ e))
     | Inr raw \<Rightarrow> ret (raw, decimals)))"

definition fetch_token_account_raw :: "'w chain \<Rightarrow> string \<Rightarrow> ('w, u64) io" where
  "fetch_token_account_raw ch ata =
     io_bind (parse_pubkey ch ata (Custom (''invalid ATA pubkey: '' @ ata))) (\<lambda>pk.
     io_bind (call_or ch (ch_token_balance ch pk)
       (\<lambda>e. Custom (''get_token_account_balance '' @ ata @ '': '' @ e))) (\<lambda>(amount, decimals).
     case parse_u64 amount of
       Inl e \<Rightarrow> fail (Custom (''parse token amount '' @ ata @ '': '' @ e))
     | Inr raw \<Rightarrow> ret raw))"

section \<open>Polls\<close>

definition wait_until_signature_confirmed_ok :: "'w chain \<Rightarrow> signature \<Rightarrow> string \<Rightarrow> ('w, unit) io" where
  "wait_until_signature_confirmed_ok ch sig label =
     poll_until ch (secs 90) (\<lambda>elapsed. if elapsed < secs 3 then millis 150 else millis 400)
       (\<lambda>_. io_bind (call_or ch (ch_statuses ch sig)
                (\<lambda>e. Custom (label @ '': get_signature_statuses: '' @ e))) (\<lambda>statuses.
              case statuses of
                Some st # _ \<Rightarrow>
                  (case st_err st of
                     Some err \<Rightarrow> fail (TransactionFailed (label @ '': on-chain transaction error: '' @ err))
                   | None \<Rightarrow>
                       (case st_status_err st of
                          Some e \<Rightarrow> fail (TransactionFailed (label @ '': on-chain transaction status: '' @ e))
                        | None \<Rightarrow> if st_confirmed st then ret (Inr ())
                                  else if st_processed st then ret (Inr ())
                                  else ret (Inl ())))
              | _ \<Rightarrow> ret (Inl ())))
       (\<lambda>_ _. fail (TransactionFailed (label @ '': timed out after '' @ lb_show_duration (ch_lib ch) (secs 90)
           @ '' waiting for confirmed success (sig='' @ lb_sig_str (ch_lib ch) sig @ '')''))) ()"

definition poll_token_balance_increase :: "'w chain \<Rightarrow> string \<Rightarrow> u64 \<Rightarrow> nat \<Rightarrow> ('w, u64 \<times> u8) io" where
  "poll_token_balance_increase ch ata pre_raw total_timeout =
     poll_until ch total_timeout (\<lambda>_. millis 400)
       (\<lambda>(attempts, last_seen, last_err).
          io_bind (io_try (fetch_token_account_raw_with_decimals ch ata)) (\<lambda>r. case r of
            Inr (raw, decimals) \<Rightarrow>
              if pre_raw < raw then ret (Inr (raw, decimals))
              else ret (Inl (Suc attempts, Some raw, last_err))
          | Inl e \<Rightarrow> ret (Inl (Suc attempts, last_seen, Some (err_text ch e)))))
       (\<lambda>(attempts, last_seen, last_err) _.
          if last_seen = Some pre_raw
          then fail (Custom (''ATA '' @ ata @ '' balance did not increase after '' @ show_nat attempts
                 @ '' polls in '' @ lb_show_duration (ch_lib ch) total_timeout @ '' (pre='' @ show_nat (unat pre_raw)
                 @ '', post='' @ show_nat (unat pre_raw) @ '')''))
          else fail (Custom (''ATA '' @ ata @ '' balance read failed after '' @ show_nat attempts
                 @ '' polls in '' @ lb_show_duration (ch_lib ch) total_timeout @ '': ''
                 @ (case last_err of None \<Rightarrow> ''no successful read'' | Some e \<Rightarrow> e))))
       (0, None, None)"

definition sell_raw_delta_slack :: "u64 \<Rightarrow> u64" where
  "sell_raw_delta_slack sold_raw = (if sold_raw = 0 then 0 else min (max (sold_raw div 10000) 1) 100)"

definition min_drop :: "u64 \<Rightarrow> u64" where
  "min_drop sold_raw =
     max (saturating_sub sold_raw (sell_raw_delta_slack sold_raw)) (if 0 < sold_raw then 1 else 0)"

text \<open>The text of a sale whose tokens did not leave the account.\<close>

definition no_drop_text :: "'w chain \<Rightarrow> address \<Rightarrow> string \<Rightarrow> u64 \<Rightarrow> u64 \<Rightarrow> u64 \<Rightarrow> nat \<Rightarrow> nat \<Rightarrow> string" where
  "no_drop_text ch mint ata pre_raw post_raw sold_raw attempts total_timeout =
     lb_addr_str (ch_lib ch) mint @ '': ATA '' @ ata @ '' balance did not drop enough after confirmed SELL: pre_raw=''
     @ show_nat (unat pre_raw) @ '' post_raw='' @ show_nat (unat post_raw) @ '' delta=''
     @ show_nat (unat (saturating_sub pre_raw post_raw)) @ '' need>='' @ show_nat (unat (min_drop sold_raw))
     @ '' sold_raw='' @ show_nat (unat sold_raw) @ '' after '' @ show_nat attempts @ '' polls in ''
     @ lb_show_duration (ch_lib ch) total_timeout"

text \<open>What one round learns: done, or the error to report when the time is over.\<close>

definition probe_ata :: "'w chain \<Rightarrow> address \<Rightarrow> string \<Rightarrow> u64 \<Rightarrow> u64 \<Rightarrow> bool \<Rightarrow> address \<Rightarrow> nat \<Rightarrow>
    nat \<times> broker_error \<Rightarrow> ('w, (nat \<times> broker_error) + unit) io" where
  "probe_ata ch ata_pk ata pre_raw sold_raw expect_ata_closed mint total_timeout st =
     (let attempts = Suc (fst st); mint_s = lb_addr_str (ch_lib ch) mint
      in if expect_ata_closed then
           io_bind (call ch (ch_account ch ata_pk)) (\<lambda>r. case r of
             Inr None \<Rightarrow> ret (Inr ())
           | Inr (Some _) \<Rightarrow> ret (Inl (attempts, TransactionFailed (mint_s @ '': expected ATA '' @ ata
               @ '' to close after full SELL; still present after '' @ show_nat attempts @ '' polls in ''
               @ lb_show_duration (ch_lib ch) total_timeout @ '' (pre_raw='' @ show_nat (unat pre_raw)
               @ '', sold_raw='' @ show_nat (unat sold_raw) @ '')'')))
           | Inl msg \<Rightarrow> ret (Inl (attempts, Custom (mint_s @ '': get_account ATA '' @ ata
               @ '' after full SELL: '' @ msg))))
         else
           io_bind (io_try (fetch_token_account_raw_with_decimals ch ata)) (\<lambda>r. case r of
             Inr (post_raw, _) \<Rightarrow>
               if min_drop sold_raw \<le> saturating_sub pre_raw post_raw then ret (Inr ())
               else ret (Inl (attempts, TransactionFailed
                      (no_drop_text ch mint ata pre_raw post_raw sold_raw attempts total_timeout)))
           | Inl e \<Rightarrow> ret (Inl (attempts, Custom (mint_s @ '': token balance read ATA '' @ ata
               @ '' after SELL: '' @ err_text ch e)))))"

definition poll_ata_confirms_sell ::
  "'w chain \<Rightarrow> string \<Rightarrow> u64 \<Rightarrow> u64 \<Rightarrow> bool \<Rightarrow> address \<Rightarrow> nat \<Rightarrow> ('w, unit) io" where
  "poll_ata_confirms_sell ch ata pre_raw sold_raw expect_ata_closed mint total_timeout =
     io_bind (parse_pubkey ch ata (Custom (''poll_ata_confirms_sell: invalid ATA '' @ ata))) (\<lambda>ata_pk.
       poll_until ch total_timeout (\<lambda>_. millis 400)
         (probe_ata ch ata_pk ata pre_raw sold_raw expect_ata_closed mint total_timeout)
         (\<lambda>st _. fail (snd st)) (0, Custom []))"

definition wait_for_account_visible ::
  "'w chain \<Rightarrow> address \<Rightarrow> string \<Rightarrow> nat \<Rightarrow> nat \<Rightarrow> nat \<Rightarrow> ('w, unit) io" where
  "wait_for_account_visible ch addr label total_timeout min_polls poll_delay =
     (let pubkey_str = lb_addr_str (ch_lib ch) addr
      in io_bind (parse_pubkey ch pubkey_str (Custom (label @ '': invalid pubkey '' @ [CHR 0x27] @ pubkey_str @ [CHR 0x27]))) (\<lambda>pubkey.
           poll_until ch total_timeout (\<lambda>_. poll_delay)
             (\<lambda>attempts. io_bind (call ch (ch_account ch pubkey)) (\<lambda>r. case r of
                Inr (Some _) \<Rightarrow> ret (Inr ())
              | Inr None \<Rightarrow> ret (Inl (Suc attempts))
              | Inl msg \<Rightarrow>
                  if \<not> is_rpc_account_missing msg \<and> \<not> is_transient_rpc_error msg
                  then fail (Custom (label @ '': get_account_with_commitment '' @ pubkey_str @ '' failed: '' @ msg))
                  else ret (Inl (Suc attempts))))
             (\<lambda>attempts elapsed.
                if min_polls \<le> attempts
                then fail (MintNotOnChain pubkey_str (label @ '': not visible on RPC after '' @ show_nat attempts
                       @ '' polls in '' @ lb_show_duration (ch_lib ch) elapsed))
                else fail (MintNotOnChain pubkey_str (label @ '': timeout ''
                       @ lb_show_duration (ch_lib ch) total_timeout @ '' before min_polls''))) 0))"

section \<open>The net SOL of a transaction\<close>

definition account_keys_for_meta :: "encoded_tx \<Rightarrow> tx_meta \<Rightarrow> broker_error + string list" where
  "account_keys_for_meta tx meta =
     (let loaded = (case mt_loaded meta of None \<Rightarrow> [] | Some (w, r) \<Rightarrow> w @ r)
      in case tx of
           JsonParsed keys \<Rightarrow> Inr (keys @ loaded)
         | JsonRaw keys \<Rightarrow> Inr (keys @ loaded)
         | NotJson \<Rightarrow> Inl (Custom ''getTransaction: expected JSON-encoded transaction (set encoding=json)''))"

fun position_of :: "'a \<Rightarrow> 'a list \<Rightarrow> nat option" where
  "position_of x [] = None"
| "position_of x (y # ys) = (if y = x then Some 0 else map_option Suc (position_of x ys))"

definition balance_at :: "u64 list \<Rightarrow> nat \<Rightarrow> u64" where
  "balance_at xs i = (if i < length xs then xs ! i else 0)"

definition wallet_lamport_delta :: "tx_meta \<Rightarrow> string list \<Rightarrow> string \<Rightarrow> broker_error + int" where
  "wallet_lamport_delta meta keys wallet =
     (case position_of wallet keys of
        None \<Rightarrow> Inl (Custom (''wallet '' @ wallet @ '' not present in transaction account keys (len=''
                  @ show_nat (length keys) @ '')''))
      | Some idx \<Rightarrow> Inr (uint (balance_at (mt_post_balances meta) idx) - uint (balance_at (mt_pre_balances meta) idx)))"

definition try_wallet_net_sol_once :: "'w chain \<Rightarrow> string \<Rightarrow> address \<Rightarrow> ('w, f64) io" where
  "try_wallet_net_sol_once ch sig_str wallet =
     (case lb_parse_sig (ch_lib ch) sig_str of
        Inl _ \<Rightarrow> fail (Custom (''wallet_tx_sol: invalid signature base58: '' @ sig_str))
      | Inr sig \<Rightarrow>
          io_bind (call_or ch (ch_transaction ch sig)
            (\<lambda>e. Custom (''getTransaction '' @ sig_str @ '': '' @ e))) (\<lambda>confirmed.
          io_bind (of_option (Custom (''getTransaction '' @ sig_str @ '': missing meta'')) (ct_meta confirmed)) (\<lambda>meta.
          case mt_err meta of
            Some e \<Rightarrow> fail (Custom (''getTransaction '' @ sig_str @ '': transaction meta has err '' @ e))
          | None \<Rightarrow>
              io_bind (of_result (account_keys_for_meta (ct_transaction confirmed) meta)) (\<lambda>keys.
              if length keys \<noteq> length (mt_pre_balances meta) \<or> length keys \<noteq> length (mt_post_balances meta)
              then fail (Custom (''getTransaction '' @ sig_str @ '': balance/key len mismatch keys=''
                     @ show_nat (length keys) @ '' pre='' @ show_nat (length (mt_pre_balances meta))
                     @ '' post='' @ show_nat (length (mt_post_balances meta))))
              else io_bind (of_result (wallet_lamport_delta meta keys (lb_addr_str (ch_lib ch) wallet))) (\<lambda>delta.
                   ret (int_to_f64 delta / Fin 1000000000))))))"

definition META_FETCH_RETRIES :: nat where "META_FETCH_RETRIES = 10"
definition META_FETCH_DELAY_MS :: nat where "META_FETCH_DELAY_MS = 200"

primrec wallet_net_attempts :: "'w chain \<Rightarrow> string \<Rightarrow> address \<Rightarrow> nat \<Rightarrow> ('w, f64) io" where
  "wallet_net_attempts ch sig_str wallet 0 = try_wallet_net_sol_once ch sig_str wallet"
| "wallet_net_attempts ch sig_str wallet (Suc n) =
     io_bind (io_try (try_wallet_net_sol_once ch sig_str wallet)) (\<lambda>r. case r of
       Inr v \<Rightarrow> ret v
     | Inl _ \<Rightarrow> io_bind (sleep ch (millis META_FETCH_DELAY_MS)) (\<lambda>_. wallet_net_attempts ch sig_str wallet n))"

definition wallet_net_sol_received_f64 :: "'w chain \<Rightarrow> string \<Rightarrow> address \<Rightarrow> ('w, f64) io" where
  "wallet_net_sol_received_f64 ch sig_str wallet = wallet_net_attempts ch sig_str wallet (META_FETCH_RETRIES - 1)"

definition wallet_net_sol_or_fallback :: "'w chain \<Rightarrow> broker_env \<Rightarrow> string \<Rightarrow> f64 \<Rightarrow> ('w, f64) io" where
  "wallet_net_sol_or_fallback ch be sig_str fallback_sol =
     recover fallback_sol (wallet_net_sol_received_f64 ch sig_str (be_wallet be))"

section \<open>The helpers only read\<close>

lemma reads_Let [reads_intros]: "reads ch (f x) \<Longrightarrow> reads ch (let y = x in f y)"
  by simp

lemma reads_case_prod_apply [reads_intros]:
  "(\<And>x y. reads ch (f x y n)) \<Longrightarrow> reads ch ((case r of (x, y) \<Rightarrow> f x y) n)"
  by (simp split: prod.split)

lemma reads_case_list [reads_intros]:
  "reads ch m \<Longrightarrow> (\<And>x xs. reads ch (f x xs)) \<Longrightarrow> reads ch (case r of [] \<Rightarrow> m | x # xs \<Rightarrow> f x xs)"
  by (simp split: list.split)

lemma reads_call_or [reads_intros]: "reads ch (call ch f) \<Longrightarrow> reads ch (call_or ch f err)"
  unfolding call_or_def by (intro reads_intros)

lemma reads_parse_pubkey [reads_intros]: "reads ch (parse_pubkey ch s err)"
  unfolding parse_pubkey_def by (intro reads_intros)

lemma reads_backoffs [reads_intros]:
  assumes "clock_advances ch"
  shows "reads ch (backoff ch n)" "reads ch (propagation_backoff ch n)" "reads ch (backoff_balance ch n msg)"
  using assms by (auto simp: backoff_def propagation_backoff_def backoff_balance_def intro: reads_intros)

lemma reads_fetch_balance_sol [reads_intros]: "clock_advances ch \<Longrightarrow> reads ch (fetch_balance_sol ch wallet)"
  unfolding fetch_balance_sol_def by (intro reads_intros)

lemma reads_try_balance: "clock_advances ch \<Longrightarrow> (\<And>e. reads ch (again e)) \<Longrightarrow> reads ch (try_balance ch wallet again)"
  unfolding try_balance_def by (intro reads_intros)

lemma reads_balance_attempts [reads_intros]: "clock_advances ch \<Longrightarrow> reads ch (balance_attempts ch wallet n a)"
  by (induction n arbitrary: a) (auto intro!: reads_try_balance reads_intros)

lemma reads_fetch_balance_sol_with_retry [reads_intros]:
  "clock_advances ch \<Longrightarrow> reads ch (fetch_balance_sol_with_retry ch wallet placeholder)"
  unfolding fetch_balance_sol_with_retry_def by (intro reads_intros)

lemma reads_fetch_bonding_curve_state [reads_intros]:
  "clock_advances ch \<Longrightarrow> reads ch (fetch_bonding_curve_state ch mint)"
  unfolding fetch_bonding_curve_state_def by (intro reads_intros)

lemma reads_fetch_bonding_curve_creator [reads_intros]:
  "clock_advances ch \<Longrightarrow> reads ch (fetch_bonding_curve_creator ch mint)"
  unfolding fetch_bonding_curve_creator_def by (intro reads_intros)

lemma reads_probe_bonding_mcap_sol [reads_intros]:
  "clock_advances ch \<Longrightarrow> reads ch (probe_bonding_mcap_sol ch mint)"
  unfolding probe_bonding_mcap_sol_def by (intro reads_intros)

lemma reads_fetch_mint_token_kind [reads_intros]:
  "clock_advances ch \<Longrightarrow> reads ch (fetch_mint_token_kind ch mint)"
  unfolding fetch_mint_token_kind_def by (intro reads_intros)

lemma reads_fetch_token_account [reads_intros]:
  assumes "clock_advances ch"
  shows "reads ch (fetch_token_account_raw ch ata)" "reads ch (fetch_token_account_raw_with_decimals ch ata)"
  unfolding fetch_token_account_raw_def fetch_token_account_raw_with_decimals_def
  using assms by (intro reads_intros; assumption)+

lemma millis_pos [simp]: "0 < n \<Longrightarrow> 0 < millis n"
  by (simp add: millis_def)

lemma reads_wait_until_signature_confirmed_ok [reads_intros]:
  "clock_advances ch \<Longrightarrow> reads ch (wait_until_signature_confirmed_ok ch sig label)"
  unfolding wait_until_signature_confirmed_ok_def by (intro reads_intros) auto

lemma reads_poll_token_balance_increase [reads_intros]:
  "clock_advances ch \<Longrightarrow> reads ch (poll_token_balance_increase ch ata pre timeout)"
  unfolding poll_token_balance_increase_def by (intro reads_intros) auto

lemma reads_probe_ata [reads_intros]:
  "clock_advances ch \<Longrightarrow> reads ch (probe_ata ch pk ata pre sold exp_closed mint timeout st)"
  unfolding probe_ata_def by (intro reads_intros)

lemma reads_poll_ata_confirms_sell [reads_intros]:
  "clock_advances ch \<Longrightarrow> reads ch (poll_ata_confirms_sell ch ata pre sold exp_closed mint timeout)"
  unfolding poll_ata_confirms_sell_def by (intro reads_intros) auto

lemma reads_wait_for_account_visible [reads_intros]:
  "clock_advances ch \<Longrightarrow> 0 < delay \<Longrightarrow> reads ch (wait_for_account_visible ch a label timeout polls delay)"
  unfolding wait_for_account_visible_def by (intro reads_intros) auto

lemma reads_try_wallet_net [reads_intros]: "clock_advances ch \<Longrightarrow> reads ch (try_wallet_net_sol_once ch sig wallet)"
  unfolding try_wallet_net_sol_once_def by (intro reads_intros)

lemma reads_wallet_net_attempts [reads_intros]:
  "clock_advances ch \<Longrightarrow> reads ch (wallet_net_attempts ch sig wallet n)"
  by (induction n) (auto intro!: reads_intros)

lemma reads_wallet_net_sol_or_fallback [reads_intros]:
  "clock_advances ch \<Longrightarrow> reads ch (wallet_net_sol_or_fallback ch be sig fallback)"
  unfolding wallet_net_sol_or_fallback_def wallet_net_sol_received_f64_def by (intro reads_intros)

end
