(* ===== verification/Jupiter.thy ===== *)
theory Jupiter
  imports Live_Rpc
begin

text \<open>
  Model of \<^verbatim>\<open>src/autobuy/jupiter_sell.rs\<close>: the client of the Jupiter swap API that the broker uses for
  tokens that left the bonding curve (quotes, swap transactions, the v2 order with its execution,
  prices), with the requests it sends, the checks on the answers and the texts of its errors, which
  the broker classifies by substring.

  The answers are JSON values; parsing, printing, base64, signing and the network are parameters.
\<close>

section \<open>JSON\<close>

definition json_get :: "json \<Rightarrow> string \<Rightarrow> json option" where
  "json_get v k = (case v of JObject ms \<Rightarrow> map_of ms k | _ \<Rightarrow> None)"

definition json_as_str :: "json \<Rightarrow> string option" where
  "json_as_str v = (case v of JString s \<Rightarrow> Some s | _ \<Rightarrow> None)"

definition json_as_u64 :: "json \<Rightarrow> u64 option" where
  "json_as_u64 v = (case v of JNumber (PosInt n) \<Rightarrow> Some n | _ \<Rightarrow> None)"

definition json_as_f64 :: "json \<Rightarrow> f64 option" where
  "json_as_f64 v = (case v of
     JNumber (PosInt n) \<Rightarrow> Some (word_to_f64 n)
   | JNumber (NegInt i) \<Rightarrow> Some (int_to_f64 (sint i))
   | JNumber (Float x) \<Rightarrow> Some x
   | _ \<Rightarrow> None)"

definition json_str_field :: "json \<Rightarrow> string \<Rightarrow> string option" where
  "json_str_field v k = Option.bind (json_get v k) json_as_str"

section \<open>Classification of errors\<close>

fun is_jupiter_no_routes_found :: "broker_error \<Rightarrow> bool" where
  "is_jupiter_no_routes_found (Custom msg) =
     (contains_sub msg ''NO_ROUTES_FOUND'' \<or> contains_sub msg ''No routes found'')"
| "is_jupiter_no_routes_found _ = False"

fun is_jupiter_empty_order :: "broker_error \<Rightarrow> bool" where
  "is_jupiter_empty_order (Custom msg) =
     (contains_sub msg ''EMPTY_ORDER'' \<or> contains_sub msg ''empty transaction'')"
| "is_jupiter_empty_order _ = False"

fun is_jupiter_slippage :: "broker_error \<Rightarrow> bool" where
  "is_jupiter_slippage (TransactionFailed msg) =
     (contains_sub msg ''15001'' \<or> contains_sub (to_ascii_lowercase msg) ''slippage tolerance exceeded''
      \<or> contains_sub (to_ascii_lowercase msg) ''slippage'')"
| "is_jupiter_slippage _ = False"

fun is_jupiter_execute_failed :: "broker_error \<Rightarrow> bool" where
  "is_jupiter_execute_failed (TransactionFailed msg) = (\<not> is_jupiter_slippage (TransactionFailed msg))"
| "is_jupiter_execute_failed _ = False"

section \<open>Requests\<close>

definition WSOL_MINT :: string where "WSOL_MINT = ''So11111111111111111111111111111111111111112''"
definition JUPITER_QUOTE :: string where "JUPITER_QUOTE = ''https://api.jup.ag/swap/v1/quote''"
definition JUPITER_SWAP :: string where "JUPITER_SWAP = ''https://api.jup.ag/swap/v1/swap''"
definition JUPITER_ORDER_V2 :: string where "JUPITER_ORDER_V2 = ''https://api.jup.ag/swap/v2/order''"
definition JUPITER_EXECUTE_V2 :: string where "JUPITER_EXECUTE_V2 = ''https://api.jup.ag/swap/v2/execute''"
definition JUPITER_PRICE_V3 :: string where "JUPITER_PRICE_V3 = ''https://api.jup.ag/price/v3''"
definition PUMP_FUN_TOKEN_SUPPLY :: f64 where "PUMP_FUN_TOKEN_SUPPLY = Fin 1000000000"
definition JUPITER_USER_AGENT :: string where
  "JUPITER_USER_AGENT =
     ''loggaper/1.0 (Jupiter Swap API; +https://github.com/TaisyaFreelanse/automatamain)''"
definition JUPITER_EXCLUDE_PUMP_DEXES :: string where "JUPITER_EXCLUDE_PUMP_DEXES = ''Pump.fun,Pump.fun+Amm''"

record quote_opts =
  qo_exclude_dexes :: "string option"
  qo_only_direct_routes :: bool

definition quote_opts_default :: quote_opts where
  "quote_opts_default = \<lparr>qo_exclude_dexes = None, qo_only_direct_routes = False\<rparr>"
definition POST_GRADUATION :: quote_opts where
  "POST_GRADUATION = \<lparr>qo_exclude_dexes = Some JUPITER_EXCLUDE_PUMP_DEXES, qo_only_direct_routes = False\<rparr>"
definition POST_GRADUATION_DIRECT_ONLY :: quote_opts where
  "POST_GRADUATION_DIRECT_ONLY =
     \<lparr>qo_exclude_dexes = Some JUPITER_EXCLUDE_PUMP_DEXES, qo_only_direct_routes = True\<rparr>"
definition POST_GRADUATION_ALLOW_PUMP :: quote_opts where
  "POST_GRADUATION_ALLOW_PUMP = \<lparr>qo_exclude_dexes = None, qo_only_direct_routes = False\<rparr>"
definition POST_GRADUATION_ALLOW_PUMP_DIRECT :: quote_opts where
  "POST_GRADUATION_ALLOW_PUMP_DIRECT = \<lparr>qo_exclude_dexes = None, qo_only_direct_routes = True\<rparr>"

definition jupiter_headers :: "lib \<Rightarrow> (string \<times> string) list" where
  "jupiter_headers L = [(''Accept'', ''application/json''), (''User-Agent'', JUPITER_USER_AGENT)]
     @ (case lb_api_key L of
          None \<Rightarrow> []
        | Some key \<Rightarrow> if trim key = [] then [] else [(''x-api-key'', trim key)])"

definition jupiter_request :: "lib \<Rightarrow> http_method \<Rightarrow> string \<Rightarrow> json option \<Rightarrow> http_request" where
  "jupiter_request L m url body =
     \<lparr>hr_method = m, hr_url = url,
      hr_headers = jupiter_headers L
        @ (if body = None then [] else [(''Content-Type'', ''application/json'')]),
      hr_body = body\<rparr>"

definition body_text :: "http_response \<Rightarrow> string" where
  "body_text r = (case hp_body r of Inr t \<Rightarrow> t | Inl e \<Rightarrow> ''<body read error: '' @ e @ ''>'')"

definition is_success :: "nat \<Rightarrow> bool" where
  "is_success status \<longleftrightarrow> 200 \<le> status \<and> status < 300"

definition jupiter_http_json :: "'w chain \<Rightarrow> http_method \<Rightarrow> string \<Rightarrow> json option \<Rightarrow> string \<Rightarrow> ('w, json) io" where
  "jupiter_http_json ch m url body op =
     io_bind (call_or ch (ch_http ch (jupiter_request (ch_lib ch) m url body))
       (\<lambda>e. Custom (''Jupiter '' @ op @ '' request: '' @ e))) (\<lambda>resp.
     let text = body_text resp
     in if \<not> is_success (hp_status resp)
        then fail (Custom (''Jupiter '' @ op @ '' HTTP '' @ wr_status_text (ch_wire ch) (hp_status resp)
               @ '': '' @ text))
        else (case wr_json_parse (ch_wire ch) text of
            Inl e \<Rightarrow> fail (Custom (''Jupiter '' @ op @ '' JSON: '' @ e @ ''; body='' @ text))
          | Inr v \<Rightarrow> ret v))"

text \<open>A string is its UTF-8 bytes. Cutting it inside a character of several bytes panics.\<close>

definition char_boundary :: "string \<Rightarrow> nat \<Rightarrow> bool" where
  "char_boundary s n \<longleftrightarrow> n = length s \<or> (n < length s \<and> (let b = of_char (s ! n) :: nat in b < 128 \<or> 192 \<le> b))"

definition truncate_log_body :: "string \<Rightarrow> nat \<Rightarrow> string outcome" where
  "truncate_log_body s n =
     (if length s \<le> n then Inr s
      else if char_boundary s n then Inr (take n s @ [CHR 0xE2, CHR 0x80, CHR 0xA6])
      else Inl CharBoundary)"

definition JUPITER_PRICE_LOG_BODY_MAX :: nat where "JUPITER_PRICE_LOG_BODY_MAX = 400"

definition jupiter_fetch_price_v3 :: "'w chain \<Rightarrow> string \<Rightarrow> ('w, json) io" where
  "jupiter_fetch_price_v3 ch ids =
     io_bind (call_or ch (ch_http ch (jupiter_request (ch_lib ch) GET (JUPITER_PRICE_V3 @ ''?ids='' @ ids) None))
       (\<lambda>e. Custom (''Jupiter PRICE request: '' @ e))) (\<lambda>resp.
     let text = body_text resp
     in if \<not> is_success (hp_status resp)
        then io_bind (of_outcome (truncate_log_body text JUPITER_PRICE_LOG_BODY_MAX)) (\<lambda>_.
             io_bind (of_outcome (truncate_log_body text 200)) (\<lambda>t.
             fail (Custom (''Jupiter PRICE HTTP '' @ show_nat (hp_status resp) @ '': '' @ t))))
        else (case wr_json_parse (ch_wire ch) text of
            Inl e \<Rightarrow> io_bind (of_outcome (truncate_log_body text JUPITER_PRICE_LOG_BODY_MAX)) (\<lambda>_.
                       fail (Custom (''Jupiter PRICE JSON: '' @ e)))
          | Inr v \<Rightarrow> ret v))"

section \<open>Quotes and swap transactions\<close>

record swap_build =
  sb_swap_transaction_b64 :: string
  sb_out_lamports :: u64
  sb_v2_request_id :: "string option"
  sb_used_exclude_pump_dexes :: bool

definition from_v1_swap_response :: "json \<Rightarrow> u64 \<Rightarrow> broker_error + swap_build" where
  "from_v1_swap_response swap out_lamports =
     (case json_str_field swap ''swapTransaction'' of
        None \<Rightarrow> Inl (Custom ''Jupiter swap: missing swapTransaction'')
      | Some tx \<Rightarrow> Inr \<lparr>sb_swap_transaction_b64 = tx, sb_out_lamports = out_lamports,
                        sb_v2_request_id = None, sb_used_exclude_pump_dexes = False\<rparr>)"

definition exclude_param :: "string option \<Rightarrow> string" where
  "exclude_param x = (case x of None \<Rightarrow> [] | Some e \<Rightarrow> ''&excludeDexes='' @ e)"

definition quote_url :: "string \<Rightarrow> string \<Rightarrow> u64 \<Rightarrow> u16 \<Rightarrow> quote_opts \<Rightarrow> string" where
  "quote_url input_mint output_mint amount_raw slippage_bps opts =
     JUPITER_QUOTE @ ''?inputMint='' @ input_mint @ ''&outputMint='' @ output_mint
     @ ''&amount='' @ show_nat (unat amount_raw) @ ''&slippageBps='' @ show_nat (unat slippage_bps)
     @ ''&swapMode=ExactIn'' @ exclude_param (qo_exclude_dexes opts)
     @ (if qo_only_direct_routes opts then ''&onlyDirectRoutes=true'' else [])"

definition jupiter_fetch_quote_exact_in ::
  "'w chain \<Rightarrow> string \<Rightarrow> string \<Rightarrow> u64 \<Rightarrow> u16 \<Rightarrow> quote_opts \<Rightarrow> ('w, json) io" where
  "jupiter_fetch_quote_exact_in ch input_mint output_mint amount_raw slippage_bps opts =
     io_bind (jupiter_http_json ch GET (quote_url input_mint output_mint amount_raw slippage_bps opts) None ''quote'')
       (\<lambda>quote. case json_get quote ''error'' of
          Some err \<Rightarrow> fail (Custom (''Jupiter quote error: '' @ wr_json_str (ch_wire ch) err))
        | None \<Rightarrow> ret quote)"

definition out_amount :: "json \<Rightarrow> u64 option" where
  "out_amount quote = (case json_str_field quote ''outAmount'' of
     None \<Rightarrow> None
   | Some s \<Rightarrow> (case parse_u64 s of Inl _ \<Rightarrow> None | Inr n \<Rightarrow> Some n))"

definition parse_out_amount_lamports :: "json \<Rightarrow> u64" where
  "parse_out_amount_lamports quote = (case out_amount quote of None \<Rightarrow> 0 | Some n \<Rightarrow> n)"

definition jupiter_build_swap_exact_in_mints ::
  "'w chain \<Rightarrow> string \<Rightarrow> string \<Rightarrow> u64 \<Rightarrow> u16 \<Rightarrow> string \<Rightarrow> quote_opts \<Rightarrow> ('w, swap_build) io" where
  "jupiter_build_swap_exact_in_mints ch input_mint output_mint amount_raw slippage_bps user_pubkey opts =
     io_bind (jupiter_fetch_quote_exact_in ch input_mint output_mint amount_raw slippage_bps opts) (\<lambda>quote.
     let out_lamports = parse_out_amount_lamports quote;
         body = JObject [(''quoteResponse'', quote), (''userPublicKey'', JString user_pubkey),
                         (''wrapAndUnwrapSol'', JBool True), (''dynamicComputeUnitLimit'', JBool True),
                         (''prioritizationFeeLamports'', JString ''auto'')]
     in io_bind (jupiter_http_json ch POST JUPITER_SWAP (Some body) ''swap'') (\<lambda>swap.
        io_bind (of_result (from_v1_swap_response swap out_lamports)) (\<lambda>build.
        ret (build\<lparr>sb_used_exclude_pump_dexes := qo_exclude_dexes opts \<noteq> None\<rparr>))))"

definition jupiter_build_swap_exact_in ::
  "'w chain \<Rightarrow> string \<Rightarrow> u64 \<Rightarrow> u16 \<Rightarrow> string \<Rightarrow> quote_opts \<Rightarrow> ('w, swap_build) io" where
  "jupiter_build_swap_exact_in ch input_mint amount_raw slippage_bps user_pubkey opts =
     jupiter_build_swap_exact_in_mints ch input_mint WSOL_MINT amount_raw slippage_bps user_pubkey opts"

definition jupiter_build_swap_wsol_to_mint_exact_in ::
  "'w chain \<Rightarrow> string \<Rightarrow> u64 \<Rightarrow> u16 \<Rightarrow> string \<Rightarrow> quote_opts \<Rightarrow> ('w, swap_build) io" where
  "jupiter_build_swap_wsol_to_mint_exact_in ch output_mint sol_lamports_in slippage_bps user_pubkey opts =
     jupiter_build_swap_exact_in_mints ch WSOL_MINT output_mint sol_lamports_in slippage_bps user_pubkey opts"

definition nonempty_field :: "json \<Rightarrow> string \<Rightarrow> string option" where
  "nonempty_field v k = (case json_str_field v k of None \<Rightarrow> None | Some s \<Rightarrow> if s = [] then None else Some s)"

text \<open>Fields printed into the error of an order without a transaction.\<close>

definition field_text :: "wire \<Rightarrow> json option \<Rightarrow> string" where
  "field_text W v = (case v of None \<Rightarrow> [] | Some x \<Rightarrow> wr_json_str W x)"

definition order_build :: "wire \<Rightarrow> json \<Rightarrow> bool \<Rightarrow> broker_error + swap_build" where
  "order_build W order excluded =
     (case nonempty_field order ''error'' of
        Some err \<Rightarrow> Inl (Custom (''Jupiter EMPTY_ORDER: '' @ err))
      | None \<Rightarrow>
          (case nonempty_field order ''transaction'' of
             None \<Rightarrow>
               let code = field_text W (json_get order ''errorCode'');
                   msg = field_text W (case json_get order ''errorMessage'' of
                           Some v \<Rightarrow> Some v | None \<Rightarrow> json_get order ''error'')
               in Inl (Custom (''Jupiter EMPTY_ORDER: empty transaction (errorCode='' @ code
                               @ '', message='' @ msg @ '')''))
           | Some tx \<Rightarrow>
               (case nonempty_field order ''requestId'' of
                  None \<Rightarrow> Inl (Custom ''Jupiter order: missing requestId'')
                | Some req \<Rightarrow> Inr \<lparr>sb_swap_transaction_b64 = tx, sb_out_lamports = parse_out_amount_lamports order,
                                  sb_v2_request_id = Some req, sb_used_exclude_pump_dexes = excluded\<rparr>)))"

definition jupiter_build_swap_v2_order_exact_in ::
  "'w chain \<Rightarrow> string \<Rightarrow> u64 \<Rightarrow> u16 \<Rightarrow> string \<Rightarrow> string option \<Rightarrow> ('w, swap_build) io" where
  "jupiter_build_swap_v2_order_exact_in ch input_mint amount_raw slippage_bps taker exclude_dexes =
     (let url = JUPITER_ORDER_V2 @ ''?inputMint='' @ input_mint @ ''&outputMint='' @ WSOL_MINT
            @ ''&amount='' @ show_nat (unat amount_raw) @ ''&slippageBps='' @ show_nat (unat slippage_bps)
            @ ''&swapMode=ExactIn&taker='' @ taker @ exclude_param exclude_dexes
      in io_bind (jupiter_http_json ch GET url None ''order'') (\<lambda>order.
           of_result (order_build (ch_wire ch) order (exclude_dexes \<noteq> None))))"

definition decode_jupiter_swap_transaction :: "'w chain \<Rightarrow> u8 list \<Rightarrow> broker_error + u8 list" where
  "decode_jupiter_swap_transaction ch bytes = (case wr_decode_tx (ch_wire ch) bytes of
     Inl e \<Rightarrow> Inl (Custom (''Jupiter swapTransaction decode (bincode): '' @ e))
   | Inr tx \<Rightarrow> Inr tx)"

text \<open>The library calls of the broker with their wrapped errors.\<close>

definition lift_err :: "(string \<Rightarrow> broker_error) \<Rightarrow> string + 'a \<Rightarrow> broker_error + 'a" where
  "lift_err f r = (case r of Inl e \<Rightarrow> Inl (f e) | Inr x \<Rightarrow> Inr x)"

definition execute_verdict :: "'w chain \<Rightarrow> json \<Rightarrow> broker_error + signature" where
  "execute_verdict ch resp =
     (let status = (case json_str_field resp ''status'' of None \<Rightarrow> [] | Some s \<Rightarrow> s)
      in if status = ''Success'' then
           (case json_str_field resp ''signature'' of
              None \<Rightarrow> Inl (Custom ''Jupiter execute: missing signature'')
            | Some s \<Rightarrow> lift_err (\<lambda>e. Custom (''Jupiter execute: bad signature: '' @ e)) (lb_parse_sig (ch_lib ch) s))
         else
           let err = (case Option.bind (case json_get resp ''error'' of
                          Some v \<Rightarrow> Some v | None \<Rightarrow> json_get resp ''errorMessage'') json_as_str of
                        None \<Rightarrow> ''unknown'' | Some s \<Rightarrow> s);
               code = (case json_get resp ''code'' of None \<Rightarrow> ''?'' | Some v \<Rightarrow> wr_json_str (ch_wire ch) v)
           in Inl (TransactionFailed (''Jupiter execute status='' @ status @ '' code='' @ code @ '': '' @ err)))"

definition jupiter_execute_v2_order :: "'w chain \<Rightarrow> address \<Rightarrow> swap_build \<Rightarrow> ('w, signature) io" where
  "jupiter_execute_v2_order ch wallet build =
     io_bind (of_option (Custom ''Jupiter execute: missing v2 requestId'') (sb_v2_request_id build)) (\<lambda>request_id.
     io_bind (of_result (lift_err (\<lambda>e. Custom (''Jupiter order tx base64: '' @ e))
       (wr_b64_decode (ch_wire ch) (trim (sb_swap_transaction_b64 build))))) (\<lambda>tx_bytes.
     io_bind (of_result (decode_jupiter_swap_transaction ch tx_bytes)) (\<lambda>template.
     io_bind (of_result (lift_err (\<lambda>e. Custom (''Jupiter order sign: VersionedTransaction::try_new: '' @ e))
       (wr_sign (ch_wire ch) wallet template))) (\<lambda>signed.
     io_bind (of_result (lift_err (\<lambda>e. Custom (''Jupiter order tx serialize: '' @ e))
       (wr_serialize_tx (ch_wire ch) signed))) (\<lambda>bytes.
     let body = JObject [(''signedTransaction'', JString (wr_b64_encode (ch_wire ch) bytes)),
                         (''requestId'', JString request_id)]
     in io_bind (emit (Executing request_id signed)) (\<lambda>_.
        io_bind (jupiter_http_json ch POST JUPITER_EXECUTE_V2 (Some body) ''execute'') (\<lambda>resp.
        io_bind (of_result (execute_verdict ch resp)) (\<lambda>sig.
        io_bind (emit (Executed request_id signed sig)) (\<lambda>_. ret sig)))))))))"

section \<open>Prices\<close>

definition parse_price_v3_usd :: "json \<Rightarrow> string \<Rightarrow> f64 option" where
  "parse_price_v3_usd body mint =
     (case Option.bind (Option.bind (json_get body mint) (\<lambda>entry. json_get entry ''usdPrice''))
        (\<lambda>v. case json_as_f64 v of Some x \<Rightarrow> Some x | None \<Rightarrow> Option.bind (json_as_str v) parse_f64) of
        None \<Rightarrow> None
      | Some usd \<Rightarrow> if is_finite usd \<and> 0 < usd then Some usd else None)"

definition parse_price_v3_decimals :: "json \<Rightarrow> string \<Rightarrow> u8 option" where
  "parse_price_v3_decimals body mint =
     (case Option.bind (Option.bind (json_get body mint) (\<lambda>entry. json_get entry ''decimals'')) json_as_u64 of
        None \<Rightarrow> None
      | Some d \<Rightarrow> if unat d < 256 then Some (ucast d) else None)"

definition implied_mcap_of_prices :: "f64 \<Rightarrow> f64 \<Rightarrow> f64 option" where
  "implied_mcap_of_prices token_usd sol_usd =
     (if sol_usd \<le> 0 then None
      else let mcap = token_usd / sol_usd * PUMP_FUN_TOKEN_SUPPLY
           in if is_finite mcap \<and> 0 < mcap then Some mcap else None)"

definition jupiter_implied_mcap_sol_price_v3 :: "'w chain \<Rightarrow> string \<Rightarrow> ('w, f64 option) io" where
  "jupiter_implied_mcap_sol_price_v3 ch mint =
     io_bind (io_ok (jupiter_fetch_price_v3 ch (mint @ '','' @ WSOL_MINT))) (\<lambda>body. case body of
       None \<Rightarrow> ret None
     | Some b \<Rightarrow>
         (case parse_price_v3_usd b mint of
            None \<Rightarrow> ret None
          | Some token_usd \<Rightarrow>
              (case parse_price_v3_usd b WSOL_MINT of
                 None \<Rightarrow> ret None
               | Some sol_usd \<Rightarrow> ret (implied_mcap_of_prices token_usd sol_usd))))"

definition jupiter_token_decimals :: "'w chain \<Rightarrow> string \<Rightarrow> ('w, u8 option) io" where
  "jupiter_token_decimals ch mint =
     io_bind (io_ok (jupiter_fetch_price_v3 ch mint)) (\<lambda>body. case body of
       None \<Rightarrow> ret None
     | Some b \<Rightarrow> ret (parse_price_v3_decimals b mint))"

definition implied_mcap_of_quote :: "u64 \<Rightarrow> f64 option" where
  "implied_mcap_of_quote out_lamports =
     (if out_lamports = 0 then None
      else let mcap = word_to_f64 out_lamports / Fin 1000000000 * PUMP_FUN_TOKEN_SUPPLY
           in if is_finite mcap \<and> 0 < mcap then Some mcap else None)"

definition jupiter_implied_mcap_sol_quote :: "'w chain \<Rightarrow> string \<Rightarrow> ('w, f64 option) io" where
  "jupiter_implied_mcap_sol_quote ch mint =
     io_bind (jupiter_token_decimals ch mint) (\<lambda>d.
     let decimals = (case d of None \<Rightarrow> 6 | Some n \<Rightarrow> n);
         one_token_raw = pow10_u64 (min decimals 12)
     in io_bind (io_ok (jupiter_fetch_quote_exact_in ch mint WSOL_MINT one_token_raw 300 quote_opts_default)) (\<lambda>quote.
        case quote of
          None \<Rightarrow> ret None
        | Some q \<Rightarrow> (case out_amount q of None \<Rightarrow> ret None | Some n \<Rightarrow> ret (implied_mcap_of_quote n))))"

definition jupiter_implied_mcap_sol :: "'w chain \<Rightarrow> string \<Rightarrow> ('w, f64 option) io" where
  "jupiter_implied_mcap_sol ch mint =
     io_bind (jupiter_implied_mcap_sol_price_v3 ch mint) (\<lambda>m. case m of
       Some x \<Rightarrow> ret (Some x)
     | None \<Rightarrow> jupiter_implied_mcap_sol_quote ch mint)"

section \<open>All but the execution of an order only read\<close>

lemma reads_jupiter_http_json [reads_intros]:
  "clock_advances ch \<Longrightarrow> reads ch (jupiter_http_json ch m url body op)"
  unfolding jupiter_http_json_def by (intro reads_intros)

lemma reads_jupiter_fetch_quote [reads_intros]:
  "clock_advances ch \<Longrightarrow> reads ch (jupiter_fetch_quote_exact_in ch i out amt slip opts)"
  unfolding jupiter_fetch_quote_exact_in_def by (intro reads_intros)

lemma reads_jupiter_builds [reads_intros]:
  assumes "clock_advances ch"
  shows "reads ch (jupiter_build_swap_exact_in_mints ch i out amt slip user opts)"
    "reads ch (jupiter_build_swap_exact_in ch i amt slip user opts)"
    "reads ch (jupiter_build_swap_wsol_to_mint_exact_in ch out amt slip user opts)"
    "reads ch (jupiter_build_swap_v2_order_exact_in ch i amt slip user ex)"
  unfolding jupiter_build_swap_exact_in_def jupiter_build_swap_wsol_to_mint_exact_in_def
    jupiter_build_swap_exact_in_mints_def jupiter_build_swap_v2_order_exact_in_def
  using assms by (intro reads_intros; assumption)+

text \<open>What \<^verbatim>\<open>VersionedTransaction::try_new\<close> made of some message with the wallet as the only key.\<close>

definition wallet_signed :: "'w chain \<Rightarrow> address \<Rightarrow> u8 list \<Rightarrow> bool" where
  "wallet_signed ch w tx \<longleftrightarrow> (\<exists>message. wr_sign (ch_wire ch) w message = Inr tx)"

lemma does_of_sign:
  assumes "\<And>tx. wallet_signed ch w tx \<Longrightarrow> does ch (f tx) Q R" "\<And>b. R (Fails b) []"
  shows "does ch (io_bind (of_result (lift_err g (wr_sign (ch_wire ch) w message))) f) Q R"
proof (cases "wr_sign (ch_wire ch) w message")
  case (Inl e)
  then show ?thesis by (simp add: lift_err_def does_fail assms(2))
next
  case (Inr tx)
  then show ?thesis using assms(1)[of tx] by (auto simp: lift_err_def wallet_signed_def)
qed

text \<open>
  An execution hands in one transaction, signed by the wallet, and answers with its signature, or it
  fails without one; before the request goes out a failure leaves nothing.
\<close>

lemma does_jupiter_execute_v2_order:
  assumes "clock_advances ch"
  shows "does ch (jupiter_execute_v2_order ch w build)
     (\<lambda>sig es. \<exists>req tx. sb_v2_request_id build = Some req \<and> wallet_signed ch w tx
        \<and> es = [Executing req tx, Executed req tx sig])
     (\<lambda>e es. is_fails e \<and> (es = [] \<or> (\<exists>req tx. wallet_signed ch w tx \<and> es = [Executing req tx])))"
proof (cases "sb_v2_request_id build")
  case None
  then show ?thesis by (simp add: jupiter_execute_v2_order_def does_fail)
next
  case (Some req)
  show ?thesis
    unfolding jupiter_execute_v2_order_def Let_def Some of_simps io_bind_simps
    by (rule does_of_sign does_emit_bind does_bind_reads does_ret | (intro reads_intros assms; fail) | (auto; fail))+
qed

end
