(* ===== verification/Live_Send.thy ===== *)
theory Live_Send
  imports Jupiter
begin

text \<open>
  How the live broker of \<^verbatim>\<open>src/autobuy/pump_brocker.rs\<close> gets a transaction on chain: the compute-budget
  prelude, the two send-and-confirm loops, and the chain of Jupiter quotes with its fall-backs.

  The lemmas give the trace of every function: a send hands its transaction out at most \<open>max_retries\<close>
  times, at most one hand-in is acknowledged, and exactly one when the send succeeds; quotes hand out
  none.
\<close>

section \<open>Sending\<close>

definition compute_budget_prelude :: "'w chain \<Rightarrow> broker_env \<Rightarrow> instruction list" where
  "compute_budget_prelude ch be =
     (if 0 < lc_priority_fee_micro_lamports (be_exec be)
      then [compute_unit_price (ch_lib ch) (ucast (lc_priority_fee_micro_lamports (be_exec be)))] else [])
     @ (if 0 < lc_compute_unit_limit (be_exec be)
        then [compute_unit_limit (ch_lib ch) (lc_compute_unit_limit (be_exec be))] else [])"

definition max_retries :: "broker_env \<Rightarrow> nat" where
  "max_retries be = max (max (unat (lc_max_retries (be_exec be))) 1) 6"

text \<open>One round of the loop; it carries the number of attempts made so far.\<close>

definition send_round ::
  "'w chain \<Rightarrow> broker_env \<Rightarrow> instruction list \<Rightarrow> string \<Rightarrow> address \<Rightarrow> nat \<Rightarrow> ('w, nat + string) io" where
  "send_round ch be ixs label payer sent =
     (let n = Suc sent
      in io_bind (call ch (ch_blockhash ch)) (\<lambda>r. case r of
           Inl e \<Rightarrow>
             if max_retries be \<le> n
             then fail (Custom (label @ '': blockhash fetch failed after '' @ show_nat n @ '' attempts: '' @ e))
             else io_bind (backoff ch n) (\<lambda>_. ret (Inl n))
         | Inr blockhash \<Rightarrow>
             let tx = wr_new_signed (ch_wire ch) ixs payer (be_wallet be) blockhash
             in io_bind (emit (Sending label ixs)) (\<lambda>_.
                io_bind (call ch (ch_send ch tx (lc_skip_preflight (be_exec be)))) (\<lambda>r. case r of
                  Inr sig \<Rightarrow>
                    io_bind (emit (Submitted label ixs sig)) (\<lambda>_.
                    io_bind (wait_until_signature_confirmed_ok ch sig label) (\<lambda>_.
                    ret (Inr (lb_sig_str (ch_lib ch) sig))))
                | Inl msg \<Rightarrow>
                    if max_retries be \<le> n then fail (TransactionFailed msg)
                    else if is_account_propagation_error msg
                    then io_bind (propagation_backoff ch n) (\<lambda>_. ret (Inl n))
                    else io_bind (backoff ch n) (\<lambda>_. ret (Inl n))))))"

definition send_with_retries :: "'w chain \<Rightarrow> broker_env \<Rightarrow> instruction list \<Rightarrow> string \<Rightarrow> ('w, string) io" where
  "send_with_retries ch be ixs label =
     io_bind (parse_pubkey ch (lb_addr_str (ch_lib ch) (be_wallet be)) (Custom ''Invalid Payer Address'')) (\<lambda>payer.
       io_loop (send_round ch be ixs label payer) 0)"

definition send_versioned_round ::
  "'w chain \<Rightarrow> broker_env \<Rightarrow> u8 list \<Rightarrow> string \<Rightarrow> nat \<Rightarrow> ('w, nat + signature) io" where
  "send_versioned_round ch be template label sent =
     (let n = Suc sent
      in io_bind (call_or ch (ch_blockhash ch) (\<lambda>e. Custom (label @ '': get_latest_blockhash: '' @ e))) (\<lambda>blockhash.
         io_bind (of_result (lift_err (\<lambda>e. Custom (label @ '': VersionedTransaction::try_new: '' @ e))
           (wr_sign (ch_wire ch) (be_wallet be) (wr_set_blockhash (ch_wire ch) template blockhash)))) (\<lambda>signed.
         io_bind (emit (SendingSwap label signed)) (\<lambda>_.
         io_bind (call ch (ch_send ch signed (lc_skip_preflight (be_exec be)))) (\<lambda>r. case r of
           Inr sig \<Rightarrow>
             io_bind (emit (SubmittedSwap label signed sig)) (\<lambda>_.
             io_bind (wait_until_signature_confirmed_ok ch sig label) (\<lambda>_. ret (Inr sig)))
         | Inl msg \<Rightarrow>
             if max_retries be \<le> n then fail (TransactionFailed msg)
             else io_bind (backoff ch n) (\<lambda>_. ret (Inl n)))))))"

definition send_versioned_jupiter_with_retries ::
  "'w chain \<Rightarrow> broker_env \<Rightarrow> u8 list \<Rightarrow> string \<Rightarrow> ('w, signature) io" where
  "send_versioned_jupiter_with_retries ch be template label =
     io_loop (send_versioned_round ch be template label) 0"

section \<open>Jupiter quotes\<close>

text \<open>\<^verbatim>\<open>slippage_bps.min(5000).try_into().unwrap_or(500)\<close>; 5000 fits.\<close>

definition slippage_bps_u16 :: "broker_env \<Rightarrow> u16" where
  "slippage_bps_u16 be = ucast (min (lc_slippage_bps (be_exec be)) 5000)"

definition wallet_str :: "'w chain \<Rightarrow> broker_env \<Rightarrow> string" where
  "wallet_str ch be = lb_addr_str (ch_lib ch) (be_wallet be)"

definition show_bool :: "bool \<Rightarrow> string" where
  "show_bool b = (if b then ''true'' else ''false'')"

definition jupiter_buy_build_post_graduation ::
  "'w chain \<Rightarrow> broker_env \<Rightarrow> string \<Rightarrow> u64 \<Rightarrow> u16 \<Rightarrow> ('w, swap_build \<times> bool) io" where
  "jupiter_buy_build_post_graduation ch be mint_s sol_lamports slip_bps =
     io_bind (io_try (jupiter_build_swap_wsol_to_mint_exact_in ch mint_s sol_lamports slip_bps
         (wallet_str ch be) POST_GRADUATION)) (\<lambda>r. case r of
       Inr build \<Rightarrow> ret (build, False)
     | Inl e \<Rightarrow>
         if \<not> is_jupiter_no_routes_found e then fail e
         else io_bind (io_try (jupiter_build_swap_wsol_to_mint_exact_in ch mint_s sol_lamports slip_bps
                (wallet_str ch be) POST_GRADUATION_ALLOW_PUMP)) (\<lambda>r. case r of
              Inr build \<Rightarrow> ret (build, True)
            | Inl e \<Rightarrow>
                if is_jupiter_no_routes_found e
                then fail (Custom (''post_grad_no_route: '' @ mint_s
                       @ '' no Jupiter buy route (excluded+allow-pump NO_ROUTES)''))
                else fail e))"

definition jupiter_quote_swap_build ::
  "'w chain \<Rightarrow> broker_env \<Rightarrow> string \<Rightarrow> u64 \<Rightarrow> u16 \<Rightarrow> quote_opts \<Rightarrow> ('w, swap_build) io" where
  "jupiter_quote_swap_build ch be mint_s chunk_raw slip_bps opts =
     jupiter_build_swap_exact_in ch mint_s chunk_raw slip_bps (wallet_str ch be) opts"

definition jupiter_quote_swap_build_post_graduation ::
  "'w chain \<Rightarrow> broker_env \<Rightarrow> string \<Rightarrow> u64 \<Rightarrow> u16 \<Rightarrow> ('w, swap_build) io" where
  "jupiter_quote_swap_build_post_graduation ch be mint_s chunk_raw slip_bps =
     io_bind (io_try (jupiter_quote_swap_build ch be mint_s chunk_raw slip_bps POST_GRADUATION)) (\<lambda>r. case r of
       Inr build \<Rightarrow> ret build
     | Inl e \<Rightarrow>
         if \<not> is_jupiter_no_routes_found e then fail e
         else io_bind (io_try (jupiter_build_swap_v2_order_exact_in ch mint_s chunk_raw slip_bps
                (wallet_str ch be) (Some JUPITER_EXCLUDE_PUMP_DEXES))) (\<lambda>r. case r of
              Inr build \<Rightarrow> ret build
            | Inl _ \<Rightarrow> jupiter_quote_swap_build ch be mint_s chunk_raw slip_bps POST_GRADUATION_ALLOW_PUMP))"

definition jupiter_quote_swap_build_allow_pump_v1 ::
  "'w chain \<Rightarrow> broker_env \<Rightarrow> string \<Rightarrow> u64 \<Rightarrow> u16 \<Rightarrow> ('w, swap_build) io" where
  "jupiter_quote_swap_build_allow_pump_v1 ch be mint_s chunk_raw slip_bps =
     jupiter_quote_swap_build ch be mint_s chunk_raw slip_bps POST_GRADUATION_ALLOW_PUMP"

definition jupiter_retry_build_after_pump_6005 ::
  "'w chain \<Rightarrow> broker_env \<Rightarrow> string \<Rightarrow> u64 \<Rightarrow> u16 \<Rightarrow> bool \<Rightarrow> ('w, swap_build) io" where
  "jupiter_retry_build_after_pump_6005 ch be mint_s chunk_raw slip_bps had_exclude_on_first_quote =
     io_bind (if had_exclude_on_first_quote
              then io_ok (jupiter_quote_swap_build ch be mint_s chunk_raw slip_bps POST_GRADUATION_DIRECT_ONLY)
              else ret None) (\<lambda>r. case r of
       Some build \<Rightarrow> ret build
     | None \<Rightarrow> jupiter_quote_swap_build ch be mint_s chunk_raw slip_bps POST_GRADUATION_ALLOW_PUMP_DIRECT)"

definition decode_swap :: "'w chain \<Rightarrow> swap_build \<Rightarrow> broker_error + u8 list" where
  "decode_swap ch build =
     (case lift_err (\<lambda>e. Custom (''Jupiter swapTransaction base64: '' @ e))
             (wr_b64_decode (ch_wire ch) (trim (sb_swap_transaction_b64 build))) of
        Inl e \<Rightarrow> Inl e
      | Inr bytes \<Rightarrow> decode_jupiter_swap_transaction ch bytes)"

definition jupiter_send_swap_build :: "'w chain \<Rightarrow> broker_env \<Rightarrow> swap_build \<Rightarrow> ('w, signature) io" where
  "jupiter_send_swap_build ch be build =
     (if sb_v2_request_id build \<noteq> None then jupiter_execute_v2_order ch (be_wallet be) build
      else io_bind (of_result (decode_swap ch build)) (\<lambda>template.
           send_versioned_jupiter_with_retries ch be template ''SELL-JUPITER''))"

definition slip_step :: "u16 \<Rightarrow> u32 \<Rightarrow> u16" where
  "slip_step base_bps mul = ucast (min (saturating_mul (ucast base_bps) mul) (3500 :: u32))"

definition jupiter_slippage_steps :: "u16 \<Rightarrow> u16 list" where
  "jupiter_slippage_steps base_bps =
     foldl (\<lambda>steps mul. let b = slip_step base_bps mul in if b \<in> set steps then steps else steps @ [b])
       [] [1, 2, 3]"

definition jupiter_chunk_amounts :: "u64 \<Rightarrow> u32 \<Rightarrow> u64 list" where
  "jupiter_chunk_amounts total_raw parts =
     (if total_raw = 0 then []
      else if parts \<le> 1 \<or> total_raw < ucast parts * 50000 then [total_raw]
      else let base = total_raw div ucast parts
           in replicate (unat (parts - 1)) base @ [total_raw - base * (ucast parts - 1)])"

section \<open>The traces of sending\<close>

text \<open>
  \<open>attempts\<close> counts every call that handed a transaction out, whatever the network answered;
  \<open>submissions\<close> counts those that were acknowledged with a signature.
\<close>

definition is_attempt :: "effect \<Rightarrow> bool" where
  "is_attempt e = (case e of Sending _ _ \<Rightarrow> True | SendingSwap _ _ \<Rightarrow> True | Executing _ _ \<Rightarrow> True | _ \<Rightarrow> False)"

definition is_submission :: "effect \<Rightarrow> bool" where
  "is_submission e = (case e of Submitted _ _ _ \<Rightarrow> True | SubmittedSwap _ _ _ \<Rightarrow> True | Executed _ _ _ \<Rightarrow> True
     | _ \<Rightarrow> False)"

definition attempts :: "effect list \<Rightarrow> nat" where
  "attempts es = length (filter is_attempt es)"

definition submissions :: "effect list \<Rightarrow> nat" where
  "submissions es = length (filter is_submission es)"

fun debit_of :: "effect \<Rightarrow> f64 list" where
  "debit_of (Debited x) = [x]" | "debit_of _ = []"

fun credit_of :: "effect \<Rightarrow> f64 list" where
  "credit_of (Credited x) = [x]" | "credit_of _ = []"

definition debits :: "effect list \<Rightarrow> f64 list" where "debits es = concat (map debit_of es)"
definition credits :: "effect list \<Rightarrow> f64 list" where "credits es = concat (map credit_of es)"

lemma trace_simps [simp]:
  "submissions [] = 0" "attempts [] = 0" "debits [] = []" "credits [] = []"
  "submissions (e # es) = (if is_submission e then 1 else 0) + submissions es"
  "attempts (e # es) = (if is_attempt e then 1 else 0) + attempts es"
  "debits (e # es) = debit_of e @ debits es" "credits (e # es) = credit_of e @ credits es"
  "submissions (es @ fs) = submissions es + submissions fs"
  "attempts (es @ fs) = attempts es + attempts fs"
  "debits (es @ fs) = debits es @ debits fs" "credits (es @ fs) = credits es @ credits fs"
  by (simp_all add: submissions_def attempts_def debits_def credits_def)

lemma is_submission_simps [simp]:
  "is_submission (Submitted l ixs s)" "is_submission (SubmittedSwap l b s)" "is_submission (Executed r b s)"
  "\<not> is_submission (Sending l ixs)" "\<not> is_submission (SendingSwap l b)" "\<not> is_submission (Executing r b)"
  "\<not> is_submission (Debited x)" "\<not> is_submission (Credited x)" "\<not> is_submission (Refreshed x)"
  by (simp_all add: is_submission_def)

lemma is_attempt_simps [simp]:
  "is_attempt (Sending l ixs)" "is_attempt (SendingSwap l b)" "is_attempt (Executing r b)"
  "\<not> is_attempt (Submitted l ixs s)" "\<not> is_attempt (SubmittedSwap l b s)" "\<not> is_attempt (Executed r b s)"
  "\<not> is_attempt (Debited x)" "\<not> is_attempt (Credited x)" "\<not> is_attempt (Refreshed x)"
  by (simp_all add: is_attempt_def)

lemma trace_replicate [simp]:
  "submissions (replicate k (Sending l ixs)) = 0" "attempts (replicate k (Sending l ixs)) = k"
  "debits (replicate k (Sending l ixs)) = []" "credits (replicate k (Sending l ixs)) = []"
  by (induction k) simp_all

lemma max_retries_pos [simp]: "0 < max_retries be"
  by (simp add: max_retries_def)

text \<open>
  A send hands its transaction out once per round until one hand-in is acknowledged, at most
  \<open>max_retries\<close> times; it succeeds only after the acknowledgement.
\<close>

definition handed :: "instruction list \<Rightarrow> string \<Rightarrow> nat \<Rightarrow> effect list \<Rightarrow> bool" where
  "handed ixs label n es \<longleftrightarrow> (\<exists>k\<le>n. es = replicate k (Sending label ixs))"

definition acknowledged :: "instruction list \<Rightarrow> string \<Rightarrow> nat \<Rightarrow> signature \<Rightarrow> effect list \<Rightarrow> bool" where
  "acknowledged ixs label n sig es \<longleftrightarrow>
     (\<exists>k. 0 < k \<and> k \<le> n \<and> es = replicate k (Sending label ixs) @ [Submitted label ixs sig])"

lemma handed_intros:
  "handed ixs label n []"
  "handed ixs label n es \<Longrightarrow> n \<le> m \<Longrightarrow> handed ixs label m es"
  "handed ixs label n es \<Longrightarrow> Suc n \<le> m \<Longrightarrow> handed ixs label m (es @ [Sending label ixs])"
  "handed ixs label n es \<Longrightarrow> Suc n \<le> m \<Longrightarrow>
     acknowledged ixs label m sig (es @ [Sending label ixs, Submitted label ixs sig])"
proof -
  show "handed ixs label n []" by (auto simp: handed_def intro: exI[of _ 0])
  show "handed ixs label n es \<Longrightarrow> n \<le> m \<Longrightarrow> handed ixs label m es"
    by (auto simp: handed_def intro: order_trans)
  show "handed ixs label n es \<Longrightarrow> Suc n \<le> m \<Longrightarrow> handed ixs label m (es @ [Sending label ixs])"
    unfolding handed_def by (metis Suc_le_mono order_trans replicate_Suc replicate_append_same append_Cons)
  show "handed ixs label n es \<Longrightarrow> Suc n \<le> m \<Longrightarrow>
     acknowledged ixs label m sig (es @ [Sending label ixs, Submitted label ixs sig])"
    unfolding handed_def acknowledged_def
  proof (elim exE conjE)
    fix k assume "k \<le> n" "es = replicate k (Sending label ixs)" "Suc n \<le> m"
    then show "\<exists>k>0. k \<le> m \<and> es @ [Sending label ixs, Submitted label ixs sig]
        = replicate k (Sending label ixs) @ [Submitted label ixs sig]"
      by (intro exI[of _ "Suc k"]) (simp add: replicate_app_Cons_same)
  qed
qed

lemma does_send_round:
  assumes "clock_advances ch" "sent < max_retries be" "handed ixs label sent acc"
  shows "does ch (send_round ch be ixs label payer sent)
     (\<lambda>r es. case r of
        Inl n \<Rightarrow> (n < max_retries be \<and> handed ixs label n (acc @ es)) \<and> max_retries be - n < max_retries be - sent
      | Inr txt \<Rightarrow> \<exists>s. acknowledged ixs label (max_retries be) s (acc @ es) \<and> txt = lb_sig_str (ch_lib ch) s)
     (\<lambda>e es. is_fails e \<and> (handed ixs label (max_retries be) (acc @ es)
        \<or> (\<exists>s. acknowledged ixs label (max_retries be) s (acc @ es))))"
proof -
  have more: "Suc sent \<le> max_retries be" using assms(2) by simp
  have traces: "handed ixs label (max_retries be) acc" "handed ixs label (Suc sent) acc"
      "handed ixs label (max_retries be) (acc @ [Sending label ixs])"
      "handed ixs label (Suc sent) (acc @ [Sending label ixs])"
      "acknowledged ixs label (max_retries be) sig (acc @ [Sending label ixs, Submitted label ixs sig])" for sig
    using assms(2,3) more by (blast intro: handed_intros order.strict_implies_order order_refl lessI)+
  show ?thesis
    unfolding send_round_def Let_def
    using assms(2)
    by (auto intro!: does_bind_reads does_emit_bind does_ret does_fail reads_intros assms(1)
        diff_less_mono2 simp: traces split: sum.split) (use traces(5) in blast)+
qed

lemma does_send_with_retries:
  assumes "clock_advances ch"
  shows "does ch (send_with_retries ch be ixs label)
     (\<lambda>txt es. \<exists>s. acknowledged ixs label (max_retries be) s es \<and> txt = lb_sig_str (ch_lib ch) s)
     (\<lambda>e es. is_fails e \<and> (handed ixs label (max_retries be) es
        \<or> (\<exists>s. acknowledged ixs label (max_retries be) s es)))"
  unfolding send_with_retries_def
proof (intro does_bind_reads reads_intros)
  fix payer
  show "does ch (io_loop (send_round ch be ixs label payer) 0)
     (\<lambda>txt es. \<exists>s. acknowledged ixs label (max_retries be) s es \<and> txt = lb_sig_str (ch_lib ch) s)
     (\<lambda>e es. is_fails e \<and> (handed ixs label (max_retries be) es
        \<or> (\<exists>s. acknowledged ixs label (max_retries be) s es)))"
    by (rule does_retry[where I = "\<lambda>n acc. n < max_retries be \<and> handed ixs label n acc"
          and \<mu> = "\<lambda>n. max_retries be - n"])
      (use does_send_round[OF assms] in \<open>auto intro: handed_intros\<close>)
qed (auto intro: handed_intros)

text \<open>The same for a transaction Jupiter composed: every round signs it anew, with the wallet alone.\<close>

definition is_sending_swap :: "'w chain \<Rightarrow> address \<Rightarrow> effect \<Rightarrow> bool" where
  "is_sending_swap ch w e = (case e of SendingSwap _ tx \<Rightarrow> wallet_signed ch w tx | _ \<Rightarrow> False)"

definition swap_handed :: "'w chain \<Rightarrow> address \<Rightarrow> nat \<Rightarrow> effect list \<Rightarrow> bool" where
  "swap_handed ch w n es \<longleftrightarrow> length es \<le> n \<and> list_all (is_sending_swap ch w) es"

definition swap_acknowledged :: "'w chain \<Rightarrow> address \<Rightarrow> nat \<Rightarrow> effect list \<Rightarrow> bool" where
  "swap_acknowledged ch w n es \<longleftrightarrow>
     (\<exists>pre label tx sig. swap_handed ch w n pre \<and> pre \<noteq> [] \<and> wallet_signed ch w tx
        \<and> es = pre @ [SubmittedSwap label tx sig])"

lemma swap_handed_intros:
  "swap_handed ch w n []"
  "swap_handed ch w n es \<Longrightarrow> n \<le> m \<Longrightarrow> swap_handed ch w m es"
  "swap_handed ch w n es \<Longrightarrow> Suc n \<le> m \<Longrightarrow> wallet_signed ch w tx \<Longrightarrow> swap_handed ch w m (es @ [SendingSwap l tx])"
  "swap_handed ch w n es \<Longrightarrow> Suc n \<le> m \<Longrightarrow> wallet_signed ch w tx \<Longrightarrow>
     swap_acknowledged ch w m (es @ [SendingSwap l tx, SubmittedSwap l tx sig])"
proof -
  show "swap_handed ch w n es \<Longrightarrow> Suc n \<le> m \<Longrightarrow> wallet_signed ch w tx \<Longrightarrow>
     swap_acknowledged ch w m (es @ [SendingSwap l tx, SubmittedSwap l tx sig])"
    unfolding swap_acknowledged_def
    by (intro exI[of _ "es @ [SendingSwap l tx]"] exI) (auto simp: swap_handed_def is_sending_swap_def)
qed (auto simp: swap_handed_def is_sending_swap_def)

lemma does_send_versioned:
  assumes "clock_advances ch"
  shows "does ch (send_versioned_jupiter_with_retries ch be template label)
     (\<lambda>s es. swap_acknowledged ch (be_wallet be) (max_retries be) es)
     (\<lambda>e es. is_fails e \<and> (swap_handed ch (be_wallet be) (max_retries be) es
        \<or> swap_acknowledged ch (be_wallet be) (max_retries be) es))"
  unfolding send_versioned_jupiter_with_retries_def
proof (rule does_retry[where I = "\<lambda>n acc. n < max_retries be \<and> swap_handed ch (be_wallet be) n acc"
      and \<mu> = "\<lambda>n. max_retries be - n"])
  fix sent acc assume "sent < max_retries be \<and> swap_handed ch (be_wallet be) sent acc"
  then have pre: "sent < max_retries be" "Suc sent \<le> max_retries be"
    "swap_handed ch (be_wallet be) sent acc" by simp_all
  have traces: "swap_handed ch (be_wallet be) (max_retries be) acc"
    "wallet_signed ch (be_wallet be) tx \<Longrightarrow>
       swap_handed ch (be_wallet be) (max_retries be) (acc @ [SendingSwap label tx])"
    "wallet_signed ch (be_wallet be) tx \<Longrightarrow> swap_handed ch (be_wallet be) (Suc sent) (acc @ [SendingSwap label tx])"
    "wallet_signed ch (be_wallet be) tx \<Longrightarrow> swap_acknowledged ch (be_wallet be) (max_retries be)
       (acc @ [SendingSwap label tx, SubmittedSwap label tx sig])" for tx sig
    using pre by (blast intro: swap_handed_intros order.strict_implies_order order_refl)+
  show "does ch (send_versioned_round ch be template label sent)
     (\<lambda>r es. case r of
        Inl n \<Rightarrow> (n < max_retries be \<and> swap_handed ch (be_wallet be) n (acc @ es))
          \<and> max_retries be - n < max_retries be - sent
      | Inr s \<Rightarrow> swap_acknowledged ch (be_wallet be) (max_retries be) (acc @ es))
     (\<lambda>e es. is_fails e \<and> (swap_handed ch (be_wallet be) (max_retries be) (acc @ es)
        \<or> swap_acknowledged ch (be_wallet be) (max_retries be) (acc @ es)))"
    unfolding send_versioned_round_def Let_def
    using pre(1) traces
    by (auto intro!: does_of_sign does_bind_reads does_emit_bind does_ret does_fail reads_intros assms
        diff_less_mono2 split: sum.split)
qed (auto intro: swap_handed_intros)

lemma reads_jupiter_quotes [reads_intros]:
  assumes "clock_advances ch"
  shows "reads ch (jupiter_quote_swap_build ch be m c s opts)"
    "reads ch (jupiter_quote_swap_build_post_graduation ch be m c s)"
    "reads ch (jupiter_quote_swap_build_allow_pump_v1 ch be m c s)"
    "reads ch (jupiter_retry_build_after_pump_6005 ch be m c s had)"
    "reads ch (jupiter_buy_build_post_graduation ch be m c s)"
  unfolding jupiter_quote_swap_build_post_graduation_def jupiter_quote_swap_build_allow_pump_v1_def
    jupiter_retry_build_after_pump_6005_def jupiter_buy_build_post_graduation_def jupiter_quote_swap_build_def
  using assms by (intro reads_intros; assumption)+

end
