(* ===== verification/Live_Broker.thy ===== *)
theory Live_Broker
  imports Live_Send
begin

text \<open>
  The live broker: \<^verbatim>\<open>SolanaBroker\<close> of \<^verbatim>\<open>src/autobuy/pump_brocker.rs\<close>. Buying and selling on the bonding
  curve and, once a token has left it, through Jupiter; the drain of a token account that one sale
  could not empty; and the reconciliation with observed trades. Log output is left out.

  The arguments that the sell functions hand down unchanged are one record here.
\<close>

section \<open>Buying\<close>

text \<open>\<^verbatim>\<open>sips::helper::Amount::<P>::from_float\<close>.\<close>

definition sips_from_float :: "nat \<Rightarrow> f64 \<Rightarrow> u64" where
  "sips_from_float P v = f64_to_word (f64_round (v * word_to_f64 (10 ^ P :: u64)))"

definition filled_tokens :: "u64 \<Rightarrow> u64 \<Rightarrow> u8 \<Rightarrow> f64" where
  "filled_tokens pre_raw post_raw decimals =
     word_to_f64 (saturating_sub post_raw pre_raw) / word_to_f64 (pow10_u64 decimals)"

text \<open>\<^verbatim>\<open>10f64.powi(decimals)\<close> is exact up to 22 decimals; beyond, the model rounds the power once.\<close>

definition quoted_tokens :: "u64 \<Rightarrow> u8 \<Rightarrow> f64" where
  "quoted_tokens out_raw decimals = f64_max (word_to_f64 out_raw / f64_of (10 ^ unat decimals)) 0"

text \<open>The signature of the swap; a route that hits the completed curve is not retried.\<close>

definition swap_verdict :: "'w chain \<Rightarrow> string \<Rightarrow> bool \<Rightarrow> broker_error + signature \<Rightarrow> ('w, string) io" where
  "swap_verdict ch mint_s used_fallback r = (case r of
     Inr sig \<Rightarrow> ret (lb_sig_str (ch_lib ch) sig)
   | Inl e \<Rightarrow> (case e of
       TransactionFailed msg \<Rightarrow>
         if is_bonding_curve_complete_pump_error msg
         then fail (Custom (''post_grad_no_route: '' @ mint_s
                @ '' BUY route hit bonding curve 6005 (fallback='' @ show_bool used_fallback @ '')''))
         else fail e
     | _ \<Rightarrow> fail e))"

text \<open>The tokens of a swap: the increase of the account, else the quote.\<close>

definition swap_fill :: "'w chain \<Rightarrow> string \<Rightarrow> u64 \<Rightarrow> u64 \<Rightarrow> ('w, f64) io" where
  "swap_fill ch ata_str pre_raw out_raw =
     io_bind (io_try (poll_token_balance_increase ch ata_str pre_raw (millis 15000))) (\<lambda>r. case r of
       Inr (post_raw, decimals) \<Rightarrow> ret (filled_tokens pre_raw post_raw decimals)
     | Inl _ \<Rightarrow>
         io_bind (io_try (fetch_token_account_raw_with_decimals ch ata_str)) (\<lambda>q. ret (case q of
           Inr (_, decimals) \<Rightarrow> quoted_tokens out_raw decimals
         | Inl _ \<Rightarrow> f64_max (word_to_f64 out_raw / Fin 1000000) 0)))"

definition buy_tokens_post_graduation ::
  "'w chain \<Rightarrow> broker_env \<Rightarrow> address \<Rightarrow> f64 \<Rightarrow> mint_token_kind \<Rightarrow> ('w, buy_receipt) io" where
  "buy_tokens_post_graduation ch be mint amount_sol kind =
     (let sol_lamports = f64_to_word (f64_round (amount_sol * Fin 1000000000));
          mint_s = lb_addr_str (ch_lib ch) mint
      in if sol_lamports = 0 then fail (Custom ''Jupiter BUY: amount_sol rounds to 0 lamports'')
         else
           io_bind (of_outcome (derive_ata_address ch (be_wallet be) mint (token_program (ch_lib ch) kind))) (\<lambda>(_, ata_str).
           io_bind (recover 0 (fetch_token_account_raw ch ata_str)) (\<lambda>pre_raw.
           io_bind (jupiter_buy_build_post_graduation ch be mint_s sol_lamports (slippage_bps_u16 be)) (\<lambda>(build, used_fallback).
           io_bind (of_result (decode_swap ch build)) (\<lambda>template.
           io_bind (io_try (send_versioned_jupiter_with_retries ch be template ''BUY-JUPITER'')) (\<lambda>r.
           io_bind (swap_verdict ch mint_s used_fallback r) (\<lambda>sig_str.
           io_bind (debit amount_sol) (\<lambda>_.
           io_bind (swap_fill ch ata_str pre_raw (sb_out_lamports build)) (\<lambda>actual.
           ret \<lparr>sol_spent = amount_sol, tokens_received = actual, br_signature = Some sig_str,
                entry_mcap_fill_sol = None\<rparr>)))))))))"

text \<open>\<^verbatim>\<open>pool.price().amount().to_float()\<close> and \<^verbatim>\<open>pool.creators()[0]\<close>.\<close>

definition pool_price_sol :: "pool \<Rightarrow> f64 outcome" where
  "pool_price_sol p = bind_outcome (pool_price p) (\<lambda>c. Inr (amount_to_float (currency_amount c)))"

definition first_creator :: "pool \<Rightarrow> address outcome" where
  "first_creator p = (case pool_creators p of [] \<Rightarrow> Inl IndexOutOfBounds | c # _ \<Rightarrow> Inr c)"

definition F64_MIN_POSITIVE :: f64 where "F64_MIN_POSITIVE = Fin (1 / 2 ^ 1022)"

definition slippage_of :: "broker_env \<Rightarrow> f64" where
  "slippage_of be = word_to_f64 (lc_slippage_bps (be_exec be)) / Fin 10000"

text \<open>The floor for the tokens of a buy at the price of the pool.\<close>

definition min_token_out :: "broker_env \<Rightarrow> f64 \<Rightarrow> f64 \<Rightarrow> f64" where
  "min_token_out be amount_sol price =
     amount_sol / f64_max price F64_MIN_POSITIVE * f64_max (1 - slippage_of be) 0"

text \<open>The market capitalisation after the fill, when it can be read and is positive.\<close>

definition entry_mcap_fill :: "'w chain \<Rightarrow> address \<Rightarrow> ('w, f64 option) io" where
  "entry_mcap_fill ch mint = io_bind (io_ok (fetch_bonding_curve_state ch mint)) (\<lambda>r. ret (case r of
     None \<Rightarrow> None
   | Some curve \<Rightarrow> let m = bonding_curve_mcap_sol curve in if 0 < m then Some m else None))"

text \<open>What follows a confirmed buy: the debit, the fill and the receipt.\<close>

definition book_curve_buy ::
  "'w chain \<Rightarrow> address \<Rightarrow> f64 \<Rightarrow> f64 \<Rightarrow> string \<Rightarrow> u64 \<Rightarrow> string \<Rightarrow> ('w, buy_receipt) io" where
  "book_curve_buy ch mint amount_sol min_token_out_f ata_str pre_raw sig_str =
     io_bind (debit amount_sol) (\<lambda>_.
     io_bind (io_try (poll_token_balance_increase ch ata_str pre_raw (millis 15000))) (\<lambda>q.
     let actual = (case q of
           Inr (post_raw, decimals) \<Rightarrow> filled_tokens pre_raw post_raw decimals
         | Inl _ \<Rightarrow> min_token_out_f)
     in io_bind (entry_mcap_fill ch mint) (\<lambda>m.
        ret \<lparr>sol_spent = amount_sol, tokens_received = actual, br_signature = Some sig_str,
             entry_mcap_fill_sol = m\<rparr>)))"

text \<open>A buy on the curve, from the price of the pool on.\<close>

definition buy_on_curve ::
  "'w chain \<Rightarrow> broker_env \<Rightarrow> address \<Rightarrow> f64 \<Rightarrow> pool \<Rightarrow> mint_token_kind \<Rightarrow> ('w, buy_receipt) io" where
  "buy_on_curve ch be mint amount_sol pool kind =
     (let L = ch_lib ch; tok = token_program L kind; wallet = be_wallet be
      in io_bind (of_outcome (pool_price_sol pool)) (\<lambda>price.
         let min_token_out_f = min_token_out be amount_sol price;
             sol_amount_in = sips_from_float 9 amount_sol;
             min_out = sips_from_float 6 (f64_max min_token_out_f 0)
         in io_bind (of_outcome (create_idempotent L mint wallet wallet tok)) (\<lambda>create_ata_ix.
            io_bind (of_outcome (derive_ata_address ch wallet mint tok)) (\<lambda>(_, ata_str).
            io_bind (recover 0 (fetch_token_account_raw ch ata_str)) (\<lambda>pre_raw.
            io_bind (io_try (fetch_bonding_curve_creator ch mint)) (\<lambda>c.
            io_bind (case c of Inr a \<Rightarrow> ret a | Inl _ \<Rightarrow> of_outcome (first_creator pool)) (\<lambda>creator_for_vault.
            io_bind (of_outcome (pump_buy_exact_in L mint wallet creator_for_vault tok sol_amount_in min_out)) (\<lambda>ix.
            io_bind (io_try (send_with_retries ch be (compute_budget_prelude ch be @ [create_ata_ix, ix]) ''BUY'')) (\<lambda>r.
            case r of
              Inr sig_str \<Rightarrow> book_curve_buy ch mint amount_sol min_token_out_f ata_str pre_raw sig_str
            | Inl e \<Rightarrow> (case e of
                 TransactionFailed msg \<Rightarrow>
                   if is_bonding_curve_complete_pump_error msg
                   then buy_tokens_post_graduation ch be mint amount_sol kind
                   else fail e
               | _ \<Rightarrow> fail e))))))))))"

definition live_buy :: "'w chain \<Rightarrow> broker_env \<Rightarrow> address \<Rightarrow> f64 \<Rightarrow> pool \<Rightarrow> ('w, buy_receipt) io" where
  "live_buy ch be mint amount_sol pool =
     io_bind get_live (\<lambda>s.
     if lv_balance s < amount_sol then fail (InsufficientBalance (lv_balance s) amount_sol)
     else
       io_bind (wait_for_account_visible ch mint ''BUY mint'' (millis 3500) 3 (millis 300)) (\<lambda>_.
       io_bind (fetch_mint_token_kind ch mint) (\<lambda>kind.
       io_bind (io_try (fetch_bonding_curve_state ch mint)) (\<lambda>c.
       case c of
         Inr curve \<Rightarrow>
           if cs_complete curve then buy_tokens_post_graduation ch be mint amount_sol kind
           else buy_on_curve ch be mint amount_sol pool kind
       | Inl _ \<Rightarrow> buy_on_curve ch be mint amount_sol pool kind))))"

section \<open>Selling through Jupiter\<close>

record sell_job =
  sj_mint :: address
  sj_ata_str :: string
  sj_ata_sol :: address
  sj_slip :: f64
  sj_kind :: mint_token_kind

definition close_ixs :: "'w chain \<Rightarrow> broker_env \<Rightarrow> sell_job \<Rightarrow> instruction list" where
  "close_ixs ch be j = compute_budget_prelude ch be
     @ [close_account_ix (ch_lib ch) (sj_kind j) (sj_ata_sol j) (be_wallet be) (be_wallet be)]"

text \<open>Closing the emptied token account after a chunk: a failure is ignored.\<close>

definition close_after_chunk :: "'w chain \<Rightarrow> broker_env \<Rightarrow> sell_job \<Rightarrow> f64 \<Rightarrow> string \<Rightarrow> ('w, f64 \<times> string) io" where
  "close_after_chunk ch be j sol_actual last_sig =
     io_bind (io_try (fetch_token_account_raw ch (sj_ata_str j))) (\<lambda>r. case r of
       Inr left \<Rightarrow>
         if left = 0 then
           io_bind (io_try (send_with_retries ch be (close_ixs ch be j) ''CLOSE-ATA'')) (\<lambda>c. case c of
             Inr cs \<Rightarrow> io_bind (wallet_net_sol_or_fallback ch be cs 0) (\<lambda>close_delta. ret (sol_actual + close_delta, cs))
           | Inl _ \<Rightarrow> ret (sol_actual, last_sig))
         else ret (sol_actual, last_sig)
     | Inl _ \<Rightarrow> ret (sol_actual, last_sig))"

text \<open>Handing in the swap; after a 6005 it is built and sent once more with direct routes only.\<close>

definition jupiter_send_guarded ::
  "'w chain \<Rightarrow> broker_env \<Rightarrow> sell_job \<Rightarrow> u64 \<Rightarrow> u16 \<Rightarrow> swap_build \<Rightarrow> ('w, signature \<times> swap_build) io" where
  "jupiter_send_guarded ch be j chunk_raw slip_bps build =
     io_bind (io_try (jupiter_send_swap_build ch be build)) (\<lambda>r. case r of
       Inr sig \<Rightarrow> ret (sig, build)
     | Inl e \<Rightarrow> (case e of
         TransactionFailed msg \<Rightarrow>
           if is_bonding_curve_complete_pump_error msg then
             io_bind (jupiter_retry_build_after_pump_6005 ch be (lb_addr_str (ch_lib ch) (sj_mint j)) chunk_raw
               slip_bps (sb_used_exclude_pump_dexes build)) (\<lambda>build'.
             io_bind (jupiter_send_swap_build ch be build') (\<lambda>sig. ret (sig, build')))
           else fail e
       | _ \<Rightarrow> fail e))"

definition estimated_sol :: "sell_job \<Rightarrow> u64 \<Rightarrow> f64" where
  "estimated_sol j out_lamports = f64_max (word_to_f64 out_lamports / Fin 1000000000 * (1 - sj_slip j)) 0"

definition jupiter_sell_chunk_once ::
  "'w chain \<Rightarrow> broker_env \<Rightarrow> sell_job \<Rightarrow> u64 \<Rightarrow> u64 \<Rightarrow> bool \<Rightarrow> u16 \<Rightarrow> bool \<Rightarrow> ('w, sell_receipt) io" where
  "jupiter_sell_chunk_once ch be j pre_sell_raw chunk_raw close_ata_after slip_bps allow_pump_v1_only =
     (let mint_s = lb_addr_str (ch_lib ch) (sj_mint j)
      in io_bind (if allow_pump_v1_only
                  then jupiter_quote_swap_build_allow_pump_v1 ch be mint_s chunk_raw slip_bps
                  else jupiter_quote_swap_build_post_graduation ch be mint_s chunk_raw slip_bps) (\<lambda>build0.
         io_bind (jupiter_send_guarded ch be j chunk_raw slip_bps build0) (\<lambda>(sig, build).
         io_bind (poll_ata_confirms_sell ch (sj_ata_str j) pre_sell_raw chunk_raw False (sj_mint j) (secs 90)) (\<lambda>_.
         let estimated = estimated_sol j (sb_out_lamports build);
             sig_str = lb_sig_str (ch_lib ch) sig
         in io_bind (wallet_net_sol_or_fallback ch be sig_str estimated) (\<lambda>sol0.
            io_bind (if close_ata_after then close_after_chunk ch be j sol0 sig_str else ret (sol0, sig_str)) (\<lambda>(sol_actual, last_sig).
            io_bind (credit sol_actual) (\<lambda>_.
            ret \<lparr>sol_received_actual = sol_actual, sol_received_estimated = estimated,
                 sr_signature = Some last_sig\<rparr>))))))) "

text \<open>The retries over growing slippage, and the last attempt with pump routes allowed.\<close>

primrec sell_slip_steps ::
  "'w chain \<Rightarrow> broker_env \<Rightarrow> sell_job \<Rightarrow> u64 \<Rightarrow> u64 \<Rightarrow> bool \<Rightarrow> u16 \<Rightarrow> u16 list \<Rightarrow> ('w, sell_receipt) io" where
  "sell_slip_steps ch be j pre_sell_raw chunk_raw close_ata_after max_slip [] =
     jupiter_sell_chunk_once ch be j pre_sell_raw chunk_raw close_ata_after max_slip True"
| "sell_slip_steps ch be j pre_sell_raw chunk_raw close_ata_after max_slip (slip_bps # rest) =
     io_bind (io_try (jupiter_sell_chunk_once ch be j pre_sell_raw chunk_raw close_ata_after slip_bps False)) (\<lambda>r.
       case r of
         Inr rc \<Rightarrow> ret rc
       | Inl e \<Rightarrow> if is_jupiter_slippage e
                  then sell_slip_steps ch be j pre_sell_raw chunk_raw close_ata_after max_slip rest
                  else fail e)"

definition jupiter_sell_chunk ::
  "'w chain \<Rightarrow> broker_env \<Rightarrow> sell_job \<Rightarrow> u64 \<Rightarrow> u64 \<Rightarrow> bool \<Rightarrow> u16 \<Rightarrow> ('w, sell_receipt) io" where
  "jupiter_sell_chunk ch be j pre_sell_raw chunk_raw close_ata_after slip_bps =
     (if chunk_raw = 0
      then fail (Custom (lb_addr_str (ch_lib ch) (sj_mint j) @ '': Jupiter chunk amount is zero''))
      else let steps = jupiter_slippage_steps slip_bps;
               max_slip = (if steps = [] then slip_bps else last steps)
           in sell_slip_steps ch be j pre_sell_raw chunk_raw close_ata_after max_slip steps)"

text \<open>The chunks of one attempt; the error of the first chunk that fails ends it.\<close>

primrec sell_chunks ::
  "'w chain \<Rightarrow> broker_env \<Rightarrow> sell_job \<Rightarrow> bool \<Rightarrow> u16 \<Rightarrow> u64 list \<Rightarrow> u64 \<Rightarrow> f64 \<Rightarrow> f64 \<Rightarrow> string option
     \<Rightarrow> ('w, broker_error + sell_receipt) io" where
  "sell_chunks ch be j do_close_ata slip_bps [] pre_raw total_actual total_est last_sig =
     ret (Inr \<lparr>sol_received_actual = total_actual, sol_received_estimated = total_est, sr_signature = last_sig\<rparr>)"
| "sell_chunks ch be j do_close_ata slip_bps (chunk_raw # rest) pre_raw total_actual total_est last_sig =
     io_bind (io_try (jupiter_sell_chunk ch be j pre_raw chunk_raw (do_close_ata \<and> rest = []) slip_bps)) (\<lambda>r.
       case r of
         Inl e \<Rightarrow> ret (Inl e)
       | Inr rc \<Rightarrow> sell_chunks ch be j do_close_ata slip_bps rest (saturating_sub pre_raw chunk_raw)
                    (total_actual + sol_received_actual rc) (total_est + sol_received_estimated rc)
                    (if sr_signature rc = None then last_sig else sr_signature rc))"

definition sell_parts ::
  "'w chain \<Rightarrow> broker_env \<Rightarrow> sell_job \<Rightarrow> u64 \<Rightarrow> u64 \<Rightarrow> bool \<Rightarrow> u32 \<Rightarrow> ('w, broker_error + sell_receipt) io" where
  "sell_parts ch be j pre_sell_raw sold_raw do_close_ata parts =
     sell_chunks ch be j do_close_ata (slippage_bps_u16 be) (jupiter_chunk_amounts sold_raw parts)
       pre_sell_raw 0 0 None"

definition right_arrow :: string where "right_arrow = [CHR 0xE2, CHR 0x86, CHR 0x92]"

definition exhausted_text :: "'w chain \<Rightarrow> sell_job \<Rightarrow> u64 \<Rightarrow> broker_error \<Rightarrow> string" where
  "exhausted_text ch j sold_raw e =
     lb_addr_str (ch_lib ch) (sj_mint j) @ '': Jupiter sell exhausted after exclude'' @ right_arrow @ ''v2''
     @ right_arrow @ ''v1-allow-pump, slippage retries, and 4-way split (raw='' @ show_nat (unat sold_raw)
     @ ''): '' @ err_text ch e"

definition sell_tokens_post_graduation ::
  "'w chain \<Rightarrow> broker_env \<Rightarrow> sell_job \<Rightarrow> u64 \<Rightarrow> u64 \<Rightarrow> bool \<Rightarrow> ('w, sell_receipt) io" where
  "sell_tokens_post_graduation ch be j pre_sell_raw sold_raw do_close_ata =
     io_bind (sell_parts ch be j pre_sell_raw sold_raw do_close_ata 1) (\<lambda>r1. case r1 of
       Inr rc \<Rightarrow> ret rc
     | Inl _ \<Rightarrow>
         io_bind (sell_parts ch be j pre_sell_raw sold_raw do_close_ata 4) (\<lambda>r4. case r4 of
           Inr rc \<Rightarrow> ret rc
         | Inl e \<Rightarrow> fail (JupiterSellExhausted (exhausted_text ch j sold_raw e))))"

section \<open>Selling on the curve\<close>

text \<open>The cut of a sale to what the curve can pay.\<close>

definition sale_clamped :: "curve_state \<Rightarrow> u64 \<Rightarrow> bool" where
  "sale_clamped c amount \<longleftrightarrow> safety_cap_lamports c < pump_sol_out_for_tokens amount c"

definition clamp_sale :: "curve_state \<Rightarrow> u64 \<Rightarrow> u64" where
  "clamp_sale c amount =
     (if sale_clamped c amount
      then min (pump_max_sellable_tokens_for_sol (safety_cap_lamports c) c) amount else amount)"

definition curve_sol :: "u64 \<Rightarrow> curve_state \<Rightarrow> f64" where
  "curve_sol amount c = word_to_f64 (pump_sol_out_for_tokens amount c) / Fin 1000000000"

definition after_slip :: "f64 \<Rightarrow> f64 \<Rightarrow> f64" where
  "after_slip expected slip = f64_max (expected * (1 - slip)) 0"

text \<open>What the drain has collected: SOL received and estimated, and the last signature.\<close>

type_synonym drained = "f64 \<times> f64 \<times> string"

definition add_receipt :: "drained \<Rightarrow> sell_receipt \<Rightarrow> drained" where
  "add_receipt st rc = (case st of (act, est, sig) \<Rightarrow>
     (act + sol_received_actual rc, est + sol_received_estimated rc,
      case sr_signature rc of None \<Rightarrow> sig | Some s \<Rightarrow> s))"

text \<open>The rest of the account through Jupiter; this ends the drain.\<close>

definition drain_through_jupiter ::
  "'w chain \<Rightarrow> broker_env \<Rightarrow> sell_job \<Rightarrow> u64 \<Rightarrow> drained \<Rightarrow> ('w, drained + drained) io" where
  "drain_through_jupiter ch be j pre_raw st =
     io_bind (sell_tokens_post_graduation ch be j pre_raw pre_raw True) (\<lambda>jup. ret (Inl (add_receipt st jup)))"

text \<open>After a leg that sold: stop only when a full unclamped leg left dust.\<close>

definition drain_dust :: "'w chain \<Rightarrow> sell_job \<Rightarrow> u64 \<Rightarrow> u64 \<Rightarrow> bool \<Rightarrow> drained \<Rightarrow> ('w, drained + drained) io" where
  "drain_dust ch j pre_raw amount leg_clamped st =
     (if \<not> leg_clamped \<and> saturating_sub pre_raw (sell_raw_delta_slack pre_raw) \<le> amount
      then io_bind (recover 0 (fetch_token_account_raw ch (sj_ata_str j))) (\<lambda>after.
           ret (if 0 < after \<and> after \<le> 1000 then Inl st else Inr st))
      else ret (Inr st))"

text \<open>One leg: \<open>Inl\<close> breaks the loop, \<open>Inr\<close> goes on. A failed read of the curve breaks it before the cached
  creator would be needed.\<close>

definition drain_leg ::
  "'w chain \<Rightarrow> broker_env \<Rightarrow> sell_job \<Rightarrow> nat \<Rightarrow> drained \<Rightarrow> ('w, drained + drained) io" where
  "drain_leg ch be j leg st =
     io_bind (recover 0 (fetch_token_account_raw ch (sj_ata_str j))) (\<lambda>pre_raw.
     if pre_raw = 0 then ret (Inl st)
     else io_bind (io_try (fetch_bonding_curve_state ch (sj_mint j))) (\<lambda>c. case c of
       Inl _ \<Rightarrow> ret (Inl st)
     | Inr curve \<Rightarrow>
         if cs_complete curve then drain_through_jupiter ch be j pre_raw st
         else
           let amount = clamp_sale curve pre_raw; leg_clamped = (amount < pre_raw) in
           if amount = 0 then ret (Inl st)
           else
             let est_leg = after_slip (curve_sol amount curve) (sj_slip j);
                 label = ''SELL-DRAIN-'' @ show_nat leg in
             io_bind (of_outcome (pump_sell (ch_lib ch) (sj_mint j) (be_wallet be) (cs_creator curve)
               (token_program (ch_lib ch) (sj_kind j)) amount (sips_from_float 9 0) (cs_is_cashback_coin curve))) (\<lambda>ix.
             io_bind (io_try (send_with_retries ch be (compute_budget_prelude ch be @ [ix]) label)) (\<lambda>r. case r of
               Inl e \<Rightarrow> (case e of
                 TransactionFailed msg \<Rightarrow>
                   if is_bonding_curve_complete_pump_error msg then drain_through_jupiter ch be j pre_raw st
                   else fail e
               | _ \<Rightarrow> fail e)
             | Inr sig \<Rightarrow>
                 io_bind (poll_ata_confirms_sell ch (sj_ata_str j) pre_raw amount False (sj_mint j) (secs 45)) (\<lambda>_.
                 io_bind (wallet_net_sol_or_fallback ch be sig est_leg) (\<lambda>leg_actual.
                 drain_dust ch j pre_raw amount leg_clamped
                   (fst st + leg_actual, fst (snd st) + est_leg, sig)))))))"

primrec drain_legs ::
  "'w chain \<Rightarrow> broker_env \<Rightarrow> sell_job \<Rightarrow> nat \<Rightarrow> nat \<Rightarrow> drained \<Rightarrow> ('w, drained) io" where
  "drain_legs ch be j 0 leg st = ret st"
| "drain_legs ch be j (Suc n) leg st =
     io_bind (drain_leg ch be j leg st) (\<lambda>r. case r of
       Inl st' \<Rightarrow> ret st'
     | Inr st' \<Rightarrow> drain_legs ch be j n (Suc leg) st')"

definition MAX_DRAIN_LEGS :: nat where "MAX_DRAIN_LEGS = 50"

definition drain_pump_ata_after_clamped_full_exit ::
  "'w chain \<Rightarrow> broker_env \<Rightarrow> sell_job \<Rightarrow> string \<Rightarrow> ('w, drained) io" where
  "drain_pump_ata_after_clamped_full_exit ch be j first_confirmed_sig =
     io_bind (drain_legs ch be j MAX_DRAIN_LEGS 0 (0, 0, first_confirmed_sig)) (\<lambda>(act, est, sig).
     io_bind (recover 0 (fetch_token_account_raw ch (sj_ata_str j))) (\<lambda>rem.
     if rem = 0 then
       io_bind (send_with_retries ch be (close_ixs ch be j) ''SELL-CLOSE-ATA'') (\<lambda>csig.
       io_bind (poll_ata_confirms_sell ch (sj_ata_str j) 0 1 True (sj_mint j) (secs 30)) (\<lambda>_.
       io_bind (wallet_net_sol_or_fallback ch be csig 0) (\<lambda>close_actual.
       ret (act + close_actual, est, csig))))
     else ret (act, est, sig)))"

text \<open>How many tokens a sale is about: on a full exit what the account holds.\<close>

definition resolve_sell_amount :: "'w chain \<Rightarrow> string \<Rightarrow> address \<Rightarrow> f64 \<Rightarrow> bool \<Rightarrow> ('w, f64) io" where
  "resolve_sell_amount ch ata_str mint token_amount close_account_after =
     (if close_account_after then
        io_bind (io_try (fetch_token_account_raw_with_decimals ch ata_str)) (\<lambda>r. ret (case r of
          Inr (raw, decimals) \<Rightarrow> if 0 < raw then word_to_f64 raw / word_to_f64 (pow10_u64 decimals) else 0
        | Inl _ \<Rightarrow> f64_max token_amount 0))
      else io_bind get_live (\<lambda>s.
        if 0 < token_amount then ret token_amount
        else (case lv_positions s mint of
            Some pos \<Rightarrow> ret (lp_tokens pos)
          | None \<Rightarrow> fail (Custom ''Calculated token amount is 0 and no WS-tracked balance found.''))))"

definition JUPITER_SELL_MCAP_SOL :: f64 where "JUPITER_SELL_MCAP_SOL = Fin 250"

definition route_jupiter :: "curve_state option \<Rightarrow> bool" where
  "route_jupiter c =
     (let mcap = (case c of None \<Rightarrow> 0 | Some s \<Rightarrow> bonding_curve_mcap_sol s)
      in (case c of None \<Rightarrow> False | Some s \<Rightarrow> cs_complete s) \<or> (JUPITER_SELL_MCAP_SOL \<le> mcap \<and> is_finite mcap))"

text \<open>The plan of a sale: the raw amount, whether it was cut, the SOL expected after slippage.\<close>

definition plan_sale :: "curve_state option \<Rightarrow> pool \<Rightarrow> f64 \<Rightarrow> f64 \<Rightarrow> (u64 \<times> bool \<times> f64) outcome" where
  "plan_sale c pool actual_token_amount slip =
     (let raw0 = f64_to_word (f64_round (actual_token_amount * Fin 1000000));
          raw = (case c of None \<Rightarrow> raw0 | Some curve \<Rightarrow> clamp_sale curve raw0);
          clamped = (case c of None \<Rightarrow> False | Some curve \<Rightarrow> sale_clamped curve raw0)
      in bind_outcome (case c of
             Some curve \<Rightarrow> Inr (curve_sol raw curve)
           | None \<Rightarrow> bind_outcome (pool_price_sol pool) (\<lambda>price.
               Inr (word_to_f64 raw / Fin 1000000 * f64_max price 0))) (\<lambda>expected.
         Inr (raw, clamped, after_slip expected slip)))"

text \<open>The transaction of a sale: the sell instruction unless nothing is to be sold, and the close.\<close>

definition sell_ixs ::
  "'w chain \<Rightarrow> broker_env \<Rightarrow> sell_job \<Rightarrow> address \<Rightarrow> bool \<Rightarrow> u64 \<Rightarrow> bool \<Rightarrow> instruction list outcome" where
  "sell_ixs ch be j creator cashback raw do_close_ata =
     bind_outcome (if 0 < raw
       then bind_outcome (pump_sell (ch_lib ch) (sj_mint j) (be_wallet be) creator
              (token_program (ch_lib ch) (sj_kind j)) raw (sips_from_float 9 0) cashback) (\<lambda>ix. Inr [ix])
       else Inr []) (\<lambda>sell.
     Inr (compute_budget_prelude ch be @ sell
       @ (if do_close_ata
          then [close_account_ix (ch_lib ch) (sj_kind j) (sj_ata_sol j) (be_wallet be) (be_wallet be)] else [])))"

text \<open>A sale on the curve, from the composed transaction on.\<close>

definition sell_on_curve ::
  "'w chain \<Rightarrow> broker_env \<Rightarrow> sell_job \<Rightarrow> instruction list \<Rightarrow> u64 \<Rightarrow> bool \<Rightarrow> bool \<Rightarrow> f64 \<Rightarrow> ('w, sell_receipt) io" where
  "sell_on_curve ch be j ixs raw do_close_ata drain est =
     io_bind (recover 0 (fetch_token_account_raw ch (sj_ata_str j))) (\<lambda>pre_sell_raw.
     io_bind (io_try (send_with_retries ch be ixs ''SELL'')) (\<lambda>r. case r of
       Inl e \<Rightarrow> (case e of
         TransactionFailed msg \<Rightarrow>
           if is_bonding_curve_complete_pump_error msg then
             if raw = 0 then fail e
             else sell_tokens_post_graduation ch be j pre_sell_raw raw do_close_ata
           else fail e
       | _ \<Rightarrow> fail e)
     | Inr sig_str \<Rightarrow>
         io_bind (poll_ata_confirms_sell ch (sj_ata_str j) pre_sell_raw raw do_close_ata (sj_mint j) (secs 45)) (\<lambda>_.
         io_bind (wallet_net_sol_or_fallback ch be sig_str est) (\<lambda>act.
         io_bind (if drain then drain_pump_ata_after_clamped_full_exit ch be j sig_str
                  else ret (0, 0, sig_str)) (\<lambda>(dr_act, dr_est, last_sig).
         ret (if drain
              then \<lparr>sol_received_actual = act + dr_act, sol_received_estimated = est + dr_est, sr_signature = Some last_sig\<rparr>
              else \<lparr>sol_received_actual = act, sol_received_estimated = est, sr_signature = Some sig_str\<rparr>))))))"

text \<open>From the curve read on: Jupiter or the curve.\<close>

definition sell_planned ::
  "'w chain \<Rightarrow> broker_env \<Rightarrow> sell_job \<Rightarrow> curve_state option \<Rightarrow> address \<Rightarrow> bool \<Rightarrow> u64 \<times> bool \<times> f64
     \<Rightarrow> ('w, sell_receipt) io" where
  "sell_planned ch be j c creator close_account_after plan =
     (case plan of (raw, clamped, est) \<Rightarrow>
        let do_close_ata = (close_account_after \<and> \<not> clamped);
            cashback = (case c of None \<Rightarrow> False | Some s \<Rightarrow> cs_is_cashback_coin s)
        in if route_jupiter c \<and> 0 < raw then
             io_bind (recover 0 (fetch_token_account_raw ch (sj_ata_str j))) (\<lambda>pre_raw.
             sell_tokens_post_graduation ch be j pre_raw raw do_close_ata)
           else
             io_bind (of_outcome (sell_ixs ch be j creator cashback raw do_close_ata)) (\<lambda>ixs.
             if ixs = [] \<or> (\<not> 0 < raw \<and> \<not> do_close_ata)
             then fail (Custom (lb_addr_str (ch_lib ch) (sj_mint j)
                    @ '': nothing to send (no tokens to sell after clamp and no close requested)''))
             else sell_on_curve ch be j ixs raw do_close_ata (close_account_after \<and> clamped) est))"

definition live_sell ::
  "'w chain \<Rightarrow> broker_env \<Rightarrow> address \<Rightarrow> f64 \<Rightarrow> pool \<Rightarrow> bool \<Rightarrow> ('w, sell_receipt) io" where
  "live_sell ch be mint token_amount pool close_account_after =
     io_bind (fetch_mint_token_kind ch mint) (\<lambda>kind.
     io_bind (of_outcome (derive_ata_address ch (be_wallet be) mint (token_program (ch_lib ch) kind))) (\<lambda>(ata_sol, ata_str).
     io_bind (resolve_sell_amount ch ata_str mint token_amount close_account_after) (\<lambda>actual_token_amount.
     if \<not> close_account_after \<and> actual_token_amount \<le> 0
     then fail (Custom ''Calculated token amount is 0. Position might not be updated via WS yet.'')
     else
       let slip = slippage_of be;
           j = \<lparr>sj_mint = mint, sj_ata_str = ata_str, sj_ata_sol = ata_sol, sj_slip = slip, sj_kind = kind\<rparr>
       in io_bind (io_ok (fetch_bonding_curve_state ch mint)) (\<lambda>c.
          io_bind (case c of Some s \<Rightarrow> ret (cs_creator s) | None \<Rightarrow> of_outcome (first_creator pool)) (\<lambda>creator.
          io_bind (of_outcome (plan_sale c pool actual_token_amount slip)) (\<lambda>plan.
          sell_planned ch be j c creator close_account_after plan))))))"

section \<open>State\<close>

definition live_new :: "'w chain \<Rightarrow> broker_env \<Rightarrow> f64 \<Rightarrow> ('w, f64 \<times> positions) io" where
  "live_new ch be balance_init_placeholder_sol =
     io_bind (fetch_balance_sol_with_retry ch (be_wallet be) (Some balance_init_placeholder_sol)) (\<lambda>b.
       ret (b, Map.empty))"

definition live_balance_sol :: "('w, f64) io" where
  "live_balance_sol = io_bind get_live (\<lambda>s. ret (lv_balance s))"

definition live_refresh_onchain_balance :: "'w chain \<Rightarrow> broker_env \<Rightarrow> ('w, unit) io" where
  "live_refresh_onchain_balance ch be =
     io_bind (fetch_balance_sol_with_retry ch (be_wallet be) None) (\<lambda>onchain s.
       Some (Inr (), s\<lparr>lv_balance := onchain, lv_effects := lv_effects s @ [Refreshed onchain]\<rparr>))"

definition live_on_trade ::
  "broker_env \<Rightarrow> trade_action \<Rightarrow> pool \<Rightarrow> f64 \<times> positions \<Rightarrow> (f64 \<times> positions) outcome" where
  "live_on_trade be trade pool st =
     (if trade_trader trade \<noteq> be_wallet be then Inr st
      else case trade of
        ABuy buy \<Rightarrow>
          bind_outcome (pool_mcap_sol pool) (\<lambda>entry_mcap.
            let pos = (case snd st (gb_mint buy) of
                  Some p \<Rightarrow> p | None \<Rightarrow> \<lparr>lp_tokens = 0, lp_entry_mcap = entry_mcap\<rparr>)
            in Inr (fst st + 0, (snd st)(gb_mint buy \<mapsto>
                 pos\<lparr>lp_tokens := lp_tokens pos + amount_to_float (gb_bought buy)\<rparr>)))
      | ASell sell \<Rightarrow>
          let bal = fst st + amount_to_float (currency_amount (gs_received sell)) in
          (case snd st (gs_mint sell) of
             None \<Rightarrow> Inr (bal, snd st)
           | Some pos \<Rightarrow>
               let rest = lp_tokens pos - amount_to_float (gs_sold sell)
               in Inr (bal, if rest \<le> 0 then (snd st)(gs_mint sell := None)
                            else (snd st)(gs_mint sell \<mapsto> pos\<lparr>lp_tokens := rest\<rparr>))))"

definition live_forget_position :: "address \<Rightarrow> f64 \<times> positions \<Rightarrow> f64 \<times> positions" where
  "live_forget_position mint st = (fst st, (snd st)(mint := None))"

end
