(* ===== verification/Live_Demo.thy ===== *)
theory Live_Demo
  imports Live_Broker
begin

text \<open>
  A concrete outside world for the examples: a clock that only sleeping advances, a node that knows
  no account, and a network that takes every transaction and confirms it.
\<close>

definition demo_wire :: wire where
  "demo_wire = \<lparr>wr_new_signed = (\<lambda>_ _ _ _. [1, 2]), wr_b64_decode = (\<lambda>_. Inr [1]), wr_b64_encode = (\<lambda>_. ''AQ''),
     wr_decode_tx = Inr, wr_set_blockhash = (\<lambda>t _. t), wr_sign = (\<lambda>_. Inr), wr_serialize_tx = Inr,
     wr_json_parse = (\<lambda>_. Inl ''no JSON''), wr_json_str = (\<lambda>_. ''null''), wr_status_text = (\<lambda>_. ''500'')\<rparr>"

definition demo_status :: sig_status where
  "demo_status = \<lparr>st_err = None, st_status_err = None, st_confirmed = True, st_processed = True\<rparr>"

definition demo_chain :: "nat chain" where
  "demo_chain = \<lparr>ch_now = (\<lambda>w. w), ch_sleep = (\<lambda>d w. w + d),
     ch_statuses = (\<lambda>_ w. (Inr [Some demo_status], w)), ch_blockhash = (\<lambda>w. (Inr 5, w)),
     ch_send = (\<lambda>_ _ w. (Inr 9, w)), ch_account = (\<lambda>_ w. (Inr None, w)),
     ch_token_balance = (\<lambda>_ w. (Inr (''1000000'', 6), w)), ch_balance = (\<lambda>_ w. (Inr 1000000000, w)),
     ch_transaction = (\<lambda>_ w. (Inl ''not found'', w)), ch_http = (\<lambda>_ w. (Inl ''refused'', w)),
     ch_others = (\<lambda>_ s. s), ch_lib = demo_lib, ch_wire = demo_wire\<rparr>"

lemma demo_clock_advances: "clock_advances demo_chain"
  by (simp add: clock_advances_def demo_chain_def)

definition demo_env :: broker_env where
  "demo_env = \<lparr>be_wallet = 7, be_exec = live_config_default\<rparr>"

lemma demo_wallet: "be_wallet demo_env = 7"
  by (simp add: demo_env_def)

definition demo_job :: sell_job where
  "demo_job = \<lparr>sj_mint = 3, sj_ata_str = ''ata'', sj_ata_sol = 4, sj_slip = 0, sj_kind = LegacySpl\<rparr>"

definition demo_pool :: pool where
  "demo_pool = BondingPool (bonding_new (\<lambda>a. a + 1) 3 8)"

end
