(* ===== verification/Live_Laws.thy ===== *)
theory Live_Laws
  imports Live_Demo
begin

text \<open>
  What the live broker guarantees, as specifications by trace: every operation returns once the clock
  advances, a buy debits the cached balance exactly when it succeeds, a sale through Jupiter credits
  exactly what its receipt reports, the number of hand-ins of an order is bounded, acknowledged or not,
  and every transaction it hands out is signed by its wallet alone.
\<close>

section \<open>Chunks and slippage\<close>

lemma slip_step_le: "unat (slip_step base mul) \<le> 3500"
proof -
  have m: "unat (min (saturating_mul (ucast base) mul) (3500 :: u32)) \<le> 3500"
    by (simp add: min_def word_le_nat_alt)
  have "unat (slip_step base mul) = unat (min (saturating_mul (ucast base) mul) (3500 :: u32)) mod 2 ^ 16"
    by (simp add: slip_step_def unsigned_ucast_eq unsigned_take_bit_eq take_bit_eq_mod)
  then show ?thesis using m by simp
qed

text \<open>The slippage of a sale through Jupiter is raised step by step over once, twice and three times the
  configured tolerance, each step cut to 35 percent and none tried twice: there is at least one step
  and there are at most three.\<close>

theorem slippage_steps_bounded:
  "distinct (jupiter_slippage_steps base) \<and> jupiter_slippage_steps base \<noteq> []
   \<and> length (jupiter_slippage_steps base) \<le> 3
   \<and> set (jupiter_slippage_steps base) = {slip_step base 1, slip_step base 2, slip_step base 3}
   \<and> list_all (\<lambda>s. unat s \<le> 3500) (jupiter_slippage_steps base)"
  by (cases "slip_step base 2 = slip_step base 1"; cases "slip_step base 3 = slip_step base 1";
      cases "slip_step base 3 = slip_step base 2")
    (auto simp: jupiter_slippage_steps_def Let_def slip_step_le)

lemma length_slippage_steps: "length (jupiter_slippage_steps base) \<le> 3"
  by (cases "slip_step base 2 = slip_step base 1"; cases "slip_step base 3 = slip_step base 1";
      cases "slip_step base 3 = slip_step base 2")
    (simp_all add: jupiter_slippage_steps_def Let_def)

lemma unat_ucast_u32_u64: "unat (ucast (w :: u32) :: u64) = unat w"
proof -
  have "unat w < 2 ^ 64" using unsigned_less[of w, where 'a = nat] by simp
  then show ?thesis by (simp add: unsigned_ucast_eq unsigned_take_bit_eq take_bit_nat_eq_self)
qed

lemma chunk_amounts:
  "sum_list (map unat (jupiter_chunk_amounts raw parts)) = unat raw
   \<and> 0 \<notin> set (jupiter_chunk_amounts raw parts)
   \<and> length (jupiter_chunk_amounts raw parts) \<le> max 1 (unat parts)"
proof (cases "raw = 0 \<or> parts \<le> 1 \<or> raw < ucast parts * 50000")
  case True
  then show ?thesis by (auto simp: jupiter_chunk_amounts_def)
next
  case False
  let ?p = "unat parts" and ?t = "unat raw"
  have p: "1 < ?p" using False by (simp add: word_less_nat_alt not_le)
  have up: "unat (ucast parts :: u64) = ?p" by (rule unat_ucast_u32_u64)
  have "?p \<le> 2 ^ 32 - 1" using unsigned_less[of parts, where 'a = nat] by simp
  then have "?p * 50000 < 2 ^ 64" by simp
  then have "unat (ucast parts * 50000 :: u64) = ?p * 50000" by (simp add: unat_word_ariths up)
  then have t: "?p * 50000 \<le> ?t" using False by (simp add: word_less_nat_alt)
  define base where "base = raw div ucast parts"
  have base: "unat base = ?t div ?p" by (simp add: base_def unat_div up)
  have pos: "0 < ?t div ?p" using t p by (simp add: div_greater_zero_iff)
  have p1: "unat (ucast parts - 1 :: u64) = ?p - 1" using p by (simp add: unat_sub_if' up)
  have p1': "unat (parts - 1) = ?p - 1" using p by (simp add: unat_sub_if')
  have le: "?t div ?p * (?p - 1) \<le> ?t" by (metis diff_le_self div_times_less_eq_dividend mult_le_mono2 order_trans)
  have mul: "unat (base * (ucast parts - 1)) = ?t div ?p * (?p - 1)"
  proof -
    have "unat base * unat (ucast parts - 1 :: u64) < 2 ^ LENGTH(64)"
      unfolding base p1 by (rule le_less_trans[OF le]) simp
    then show ?thesis using iffD1[OF unat_mult_lem] base p1 by metis
  qed
  have last: "unat (raw - base * (ucast parts - 1)) = ?t - ?t div ?p * (?p - 1)"
    using le by (simp add: unat_sub_if' mul)
  have nz: "?t div ?p * (?p - 1) < ?t"
  proof -
    have "?t div ?p * (?p - 1) < ?t div ?p * ?p" using pos p by (intro mult_less_mono2) auto
    then show ?thesis using div_times_less_eq_dividend[of ?t ?p] by linarith
  qed
  have chunks: "jupiter_chunk_amounts raw parts = replicate (?p - 1) base @ [raw - base * (ucast parts - 1)]"
    using False by (simp add: jupiter_chunk_amounts_def Let_def base_def p1')
  have "base \<noteq> 0" using pos base by (metis less_irrefl unat_0)
  moreover have "raw - base * (ucast parts - 1) \<noteq> 0" using nz last by (metis diff_is_0_eq not_le unat_0)
  moreover have "sum_list (replicate (?p - 1) (?t div ?p)) = (?p - 1) * (?t div ?p)" by (simp add: sum_list_replicate)
  ultimately show ?thesis using le p unfolding chunks
    by (simp add: last base map_replicate mult.commute)
qed

text \<open>The chunks of a sale through Jupiter add up to exactly the amount to sell, none is empty, and
  there are at most as many as asked for (one when that is zero).\<close>

theorem chunk_amounts_partition:
  "sum_list (map unat (jupiter_chunk_amounts raw parts)) = unat raw
   \<and> 0 \<notin> set (jupiter_chunk_amounts raw parts)
   \<and> length (jupiter_chunk_amounts raw parts) \<le> max 1 (unat parts)"
  by (rule chunk_amounts)

lemma length_chunk_amounts: "length (jupiter_chunk_amounts raw parts) \<le> max 1 (unat parts)"
  using chunk_amounts by blast

section \<open>Traces\<close>

text \<open>
  Every transaction that was handed out, acknowledged or not, is signed by the wallet alone: in the
  instructions the broker composes the wallet is the only signer, and the bytes of the transactions
  that Jupiter composed are what signing with the wallet's key as the only key returned.
\<close>

definition wallet_only :: "'w chain \<Rightarrow> address \<Rightarrow> effect \<Rightarrow> bool" where
  "wallet_only ch w e = (case e of
     Sending _ ixs \<Rightarrow> list_all (signed_only_by w) ixs
   | Submitted _ ixs _ \<Rightarrow> list_all (signed_only_by w) ixs
   | SendingSwap _ tx \<Rightarrow> wallet_signed ch w tx
   | SubmittedSwap _ tx _ \<Rightarrow> wallet_signed ch w tx
   | Executing _ tx \<Rightarrow> wallet_signed ch w tx
   | Executed _ tx _ \<Rightarrow> wallet_signed ch w tx
   | _ \<Rightarrow> True)"

definition authorised :: "'w chain \<Rightarrow> address \<Rightarrow> effect list \<Rightarrow> bool" where
  "authorised ch w es = list_all (wallet_only ch w) es"

text \<open>
  The cached balance is not touched, at most \<open>k\<close> hand-ins are acknowledged and at most \<open>k\<close> times the
  number of retries are tried, all in order.
\<close>

definition calm :: "'w chain \<Rightarrow> broker_env \<Rightarrow> nat \<Rightarrow> effect list \<Rightarrow> bool" where
  "calm ch be k es \<longleftrightarrow> debits es = [] \<and> credits es = [] \<and> submissions es \<le> k
     \<and> attempts es \<le> k * max_retries be \<and> authorised ch (be_wallet be) es"

lemma wallet_only_simps [simp]:
  "wallet_only ch w (Sending l ixs) = list_all (signed_only_by w) ixs"
  "wallet_only ch w (Submitted l ixs sig) = list_all (signed_only_by w) ixs"
  "wallet_only ch w (SendingSwap l tx) = wallet_signed ch w tx"
  "wallet_only ch w (SubmittedSwap l tx sig) = wallet_signed ch w tx"
  "wallet_only ch w (Executing l tx) = wallet_signed ch w tx"
  "wallet_only ch w (Executed l tx sig) = wallet_signed ch w tx"
  "wallet_only ch w (Debited x)" "wallet_only ch w (Credited x)" "wallet_only ch w (Refreshed x)"
  by (simp_all add: wallet_only_def)

lemma authorised_simps [simp]:
  "authorised ch w []" "authorised ch w (e # es) = (wallet_only ch w e \<and> authorised ch w es)"
  "authorised ch w (es @ fs) = (authorised ch w es \<and> authorised ch w fs)"
  by (simp_all add: authorised_def)

lemma calm_Nil [simp]: "calm ch be k []"
  by (simp add: calm_def)

lemma retries_add: "a + b \<le> k \<Longrightarrow> x \<le> a * max_retries be \<Longrightarrow> y \<le> b * max_retries be \<Longrightarrow> x + y \<le> k * max_retries be"
  by (metis add_le_mono add_mult_distrib mult_le_mono1 order_trans)

lemma retries_mono: "a \<le> k \<Longrightarrow> x \<le> a * max_retries be \<Longrightarrow> x \<le> k * max_retries be"
  by (metis mult_le_mono1 order_trans)

lemma calm_append: "calm ch be a es \<Longrightarrow> calm ch be b fs \<Longrightarrow> a + b \<le> k \<Longrightarrow> calm ch be k (es @ fs)"
  by (auto simp: calm_def intro: retries_add)

lemma calm_mono: "calm ch be a es \<Longrightarrow> a \<le> k \<Longrightarrow> calm ch be k es"
  by (auto simp: calm_def intro: retries_mono)

text \<open>The traces of one send.\<close>

lemma calm_send:
  assumes "list_all (signed_only_by (be_wallet be)) ixs"
  shows "handed ixs label (max_retries be) es \<Longrightarrow> calm ch be 1 es"
    "acknowledged ixs label (max_retries be) sig es \<Longrightarrow> calm ch be 1 es \<and> submissions es = 1"
  using assms by (auto simp: handed_def acknowledged_def calm_def authorised_def list_all_length nth_append)

lemma sending_swaps:
  "list_all (is_sending_swap ch w) es \<Longrightarrow>
     attempts es = length es \<and> submissions es = 0 \<and> debits es = [] \<and> credits es = [] \<and> authorised ch w es"
  by (induction es) (auto simp: is_sending_swap_def split: effect.splits)

lemma calm_swap:
  shows "swap_handed ch (be_wallet be) (max_retries be) es \<Longrightarrow> calm ch be 1 es"
    "swap_acknowledged ch (be_wallet be) (max_retries be) es \<Longrightarrow> calm ch be 1 es \<and> submissions es = 1"
  by (auto simp: swap_handed_def swap_acknowledged_def calm_def dest!: sending_swaps)

lemma calm_executed:
  assumes "wallet_signed ch (be_wallet be) tx"
  shows "calm ch be 1 [Executing req tx]" "calm ch be 1 [Executing req tx, Executed req tx sig]"
  using assms max_retries_pos[of be] by (simp_all add: calm_def Suc_le_eq)

lemma signed_prelude [simp]: "list_all (signed_only_by w) (compute_budget_prelude ch be)"
  by (simp add: compute_budget_prelude_def)

lemma signed_close [simp]: "list_all (signed_only_by (be_wallet be)) (close_ixs ch be j)"
  by (simp add: close_ixs_def)

lemma does_send_calm:
  assumes "clock_advances ch" "list_all (signed_only_by (be_wallet be)) ixs"
  shows "does ch (send_with_retries ch be ixs label) (\<lambda>_ es. calm ch be 1 es \<and> submissions es = 1)
     (\<lambda>e es. is_fails e \<and> calm ch be 1 es)"
  by (rule does_conseq[OF does_send_with_retries[OF assms(1)]]) (use calm_send[OF assms(2)] in blast)+

lemma does_try_send:
  assumes "clock_advances ch" "list_all (signed_only_by (be_wallet be)) ixs"
  shows "does ch (io_try (send_with_retries ch be ixs label))
     (\<lambda>r es. calm ch be 1 es \<and> (\<forall>s. r = Inr s \<longrightarrow> submissions es = 1)) (\<lambda>_ _. False)"
  by (rule does_try, rule does_conseq[OF does_send_calm[OF assms]]) (auto split: stop.splits)

lemma does_bind_try_send:
  assumes "clock_advances ch" "list_all (signed_only_by (be_wallet be)) ixs"
    and "\<And>r e1. calm ch be 1 e1 \<Longrightarrow> (\<And>s. r = Inr s \<Longrightarrow> submissions e1 = 1) \<Longrightarrow>
      does ch (f r) (\<lambda>x es. Q x (e1 @ es)) (\<lambda>e es. R e (e1 @ es))"
  shows "does ch (io_bind (io_try (send_with_retries ch be ixs label)) f) Q R"
  by (rule does_bind[OF does_try_send[OF assms(1,2)]]) (use assms(3) in auto)

lemma safe_wallet_net: "clock_advances ch \<Longrightarrow> safe ch (wallet_net_sol_or_fallback ch be sig x)"
  unfolding wallet_net_sol_or_fallback_def wallet_net_sol_received_f64_def
  by (intro safe_recover reads_intros)

lemma does_close_after_chunk:
  assumes "clock_advances ch"
  shows "does ch (close_after_chunk ch be j sol sig) (\<lambda>_ es. calm ch be 1 es) (\<lambda>_ _. False)"
  unfolding close_after_chunk_def
  by (rule does_bind_try_send does_bind_safe does_ret does_cases assms signed_close
      | (intro safe_intros safe_wallet_net reads_intros assms; fail) | (simp; fail))+

section \<open>Sales through Jupiter\<close>

lemma does_case_failed:
  "(\<And>msg. e = TransactionFailed msg \<Longrightarrow> does ch (f msg) Q R) \<Longrightarrow> does ch (fail e) Q R \<Longrightarrow>
     does ch (case e of TransactionFailed msg \<Rightarrow> f msg | _ \<Rightarrow> fail e) Q R"
  by (cases e) simp_all

lemma does_swap_calm:
  assumes "clock_advances ch"
  shows "does ch (jupiter_send_swap_build ch be build) (\<lambda>_ es. calm ch be 1 es \<and> submissions es = 1)
     (\<lambda>e es. is_fails e \<and> calm ch be 1 es)"
proof (cases "sb_v2_request_id build = None")
  case True
  then show ?thesis unfolding jupiter_send_swap_build_def
    by (auto intro!: does_bind_reads reads_intros does_conseq[OF does_send_versioned[OF assms]] dest!: calm_swap)
next
  case False
  then have "jupiter_send_swap_build ch be build = jupiter_execute_v2_order ch (be_wallet be) build"
    by (simp add: jupiter_send_swap_build_def)
  then show ?thesis
    by (simp only:, intro does_conseq[OF does_jupiter_execute_v2_order[OF assms]])
      (auto intro: calm_executed simp del: One_nat_def)
qed

lemma does_bind_swap:
  assumes "clock_advances ch"
    and "\<And>s e1. calm ch be 1 e1 \<Longrightarrow> submissions e1 = 1 \<Longrightarrow> does ch (f s) (\<lambda>x es. Q x (e1 @ es)) (\<lambda>e es. R e (e1 @ es))"
    and "\<And>b es. calm ch be 1 es \<Longrightarrow> R (Fails b) es"
  shows "does ch (io_bind (jupiter_send_swap_build ch be build) f) Q R"
  by (rule does_bind[OF does_swap_calm[OF assms(1)]]) (use assms(2,3) in \<open>auto simp: is_fails_def split: stop.splits\<close>)

lemma does_bind_try_swap:
  assumes "clock_advances ch"
    and "\<And>r e1. calm ch be 1 e1 \<Longrightarrow> (\<And>s. r = Inr s \<Longrightarrow> submissions e1 = 1) \<Longrightarrow>
      does ch (f r) (\<lambda>x es. Q x (e1 @ es)) (\<lambda>e es. R e (e1 @ es))"
  shows "does ch (io_bind (io_try (jupiter_send_swap_build ch be build)) f) Q R"
proof (rule does_bind)
  show "does ch (io_try (jupiter_send_swap_build ch be build))
     (\<lambda>r es. calm ch be 1 es \<and> (\<forall>s. r = Inr s \<longrightarrow> submissions es = 1)) (\<lambda>_ _. False)"
    by (rule does_try, rule does_conseq[OF does_swap_calm[OF assms(1)]]) (auto split: stop.splits)
qed (use assms(2) in auto)

lemma does_jupiter_send_guarded:
  assumes "clock_advances ch"
  shows "does ch (jupiter_send_guarded ch be j raw slip build)
     (\<lambda>_ es. calm ch be 2 es \<and> 1 \<le> submissions es) (\<lambda>e es. is_fails e \<and> calm ch be 2 es)"
  unfolding jupiter_send_guarded_def
  by (rule does_bind_try_swap does_bind_swap does_bind_reads does_ret does_fail does_case_failed does_cases assms
      | (intro reads_intros assms; fail) | (auto simp: calm_def; fail))+

text \<open>What a chunk leaves behind: \<open>k\<close> bounds the acknowledged hand-ins, and with the retries all of them.\<close>

definition sold :: "'w chain \<Rightarrow> broker_env \<Rightarrow> nat \<Rightarrow> f64 list \<Rightarrow> effect list \<Rightarrow> bool" where
  "sold ch be k cs es \<longleftrightarrow> debits es = [] \<and> credits es = cs \<and> submissions es \<le> k
     \<and> attempts es \<le> k * max_retries be \<and> authorised ch (be_wallet be) es"

lemma sold_append: "calm ch be a es \<Longrightarrow> sold ch be b cs fs \<Longrightarrow> a + b \<le> k \<Longrightarrow> sold ch be k cs (es @ fs)"
  by (auto simp: sold_def calm_def intro: retries_add)

lemma sold_mono: "sold ch be a cs es \<Longrightarrow> a \<le> k \<Longrightarrow> sold ch be k cs es"
  by (auto simp: sold_def intro: retries_mono)

lemma sold_append_sold: "sold ch be a cs es \<Longrightarrow> sold ch be b ds fs \<Longrightarrow> a + b \<le> k \<Longrightarrow> sold ch be k (cs @ ds) (es @ fs)"
  by (auto simp: sold_def intro: retries_add)

text \<open>One chunk: on success the receipt says what was credited, on failure nothing was.\<close>

lemma does_jupiter_sell_chunk_once:
  assumes "clock_advances ch"
  shows "does ch (jupiter_sell_chunk_once ch be j pre raw cl slip only)
     (\<lambda>rc es. sold ch be 3 [sol_received_actual rc] es \<and> 1 \<le> submissions es \<and> sr_signature rc \<noteq> None)
     (\<lambda>e es. is_fails e \<and> calm ch be 2 es)"
proof -
  have tail: "does ch (io_bind (if cl then close_after_chunk ch be j sol sig else ret (sol, sig)) (\<lambda>(act, l).
       io_bind (credit act) (\<lambda>_. ret \<lparr>sol_received_actual = act, sol_received_estimated = est, sr_signature = Some l\<rparr>)))
     (\<lambda>rc es. sold ch be 1 [sol_received_actual rc] es \<and> sr_signature rc \<noteq> None) (\<lambda>_ _. False)" for sol sig est
  proof (rule does_bind)
    show "does ch (if cl then close_after_chunk ch be j sol sig else ret (sol, sig))
        (\<lambda>_ es. calm ch be 1 es) (\<lambda>_ _. False)"
      by (rule does_if, rule does_close_after_chunk[OF assms], rule does_ret) simp
  qed (auto intro!: does_case_prod does_credit_bind does_ret simp: calm_def sold_def)
  show ?thesis
    unfolding jupiter_sell_chunk_once_def Let_def
  proof (rule does_bind_reads)
    fix build0
    show "does ch (io_bind (jupiter_send_guarded ch be j raw slip build0) (\<lambda>(sig, build).
         io_bind (poll_ata_confirms_sell ch (sj_ata_str j) pre raw False (sj_mint j) (secs 90)) (\<lambda>_.
         io_bind (wallet_net_sol_or_fallback ch be (lb_sig_str (ch_lib ch) sig) (estimated_sol j (sb_out_lamports build))) (\<lambda>sol0.
            io_bind (if cl then close_after_chunk ch be j sol0 (lb_sig_str (ch_lib ch) sig)
               else ret (sol0, lb_sig_str (ch_lib ch) sig)) (\<lambda>(act, l).
            io_bind (credit act) (\<lambda>_.
            ret \<lparr>sol_received_actual = act, sol_received_estimated = estimated_sol j (sb_out_lamports build),
                 sr_signature = Some l\<rparr>))))))
       (\<lambda>rc es. sold ch be 3 [sol_received_actual rc] es \<and> 1 \<le> submissions es \<and> sr_signature rc \<noteq> None)
       (\<lambda>e es. is_fails e \<and> calm ch be 2 es)"
      by (rule does_bind[OF does_jupiter_send_guarded[OF assms]] does_case_prod does_conseq[OF tail]
          does_bind_safe[OF safe_wallet_net[OF assms]] does_bind_reads
          | (intro reads_intros assms; fail) | (auto simp: calm_def sold_def; fail))+
  qed (auto intro!: reads_intros assms)
qed

lemma does_sell_slip_steps:
  assumes "clock_advances ch"
  shows "does ch (sell_slip_steps ch be j pre raw cl m steps)
     (\<lambda>rc es. sold ch be (2 * length steps + 3) [sol_received_actual rc] es \<and> 1 \<le> submissions es \<and> sr_signature rc \<noteq> None)
     (\<lambda>e es. is_fails e \<and> calm ch be (2 * length steps + 2) es)"
proof (induction steps)
  case Nil
  show ?case unfolding sell_slip_steps.simps
    by (rule does_conseq[OF does_jupiter_sell_chunk_once[OF assms]]) (auto simp: sold_def calm_def)
next
  case (Cons slip rest)
  have tried: "does ch (io_try (jupiter_sell_chunk_once ch be j pre raw cl slip False))
     (\<lambda>r es. case r of Inr rc \<Rightarrow> sold ch be 3 [sol_received_actual rc] es \<and> 1 \<le> submissions es \<and> sr_signature rc \<noteq> None
        | Inl _ \<Rightarrow> calm ch be 2 es) (\<lambda>_ _. False)"
    by (rule does_try, rule does_conseq[OF does_jupiter_sell_chunk_once[OF assms]])
      (auto simp: sold_def calm_def split: stop.splits)
  show ?case unfolding sell_slip_steps.simps
  proof (rule does_bind[OF tried])
    fix r :: "broker_error + sell_receipt" and e1
    assume r: "case r of Inr rc \<Rightarrow> sold ch be 3 [sol_received_actual rc] e1 \<and> 1 \<le> submissions e1 \<and> sr_signature rc \<noteq> None
        | Inl _ \<Rightarrow> calm ch be 2 e1"
    show "does ch (case r of Inr rc \<Rightarrow> ret rc
       | Inl e \<Rightarrow> if is_jupiter_slippage e then sell_slip_steps ch be j pre raw cl m rest else fail e)
       (\<lambda>rc es. sold ch be (2 * length (slip # rest) + 3) [sol_received_actual rc] (e1 @ es) \<and> 1 \<le> submissions (e1 @ es)
          \<and> sr_signature rc \<noteq> None)
       (\<lambda>e es. is_fails e \<and> calm ch be (2 * length (slip # rest) + 2) (e1 @ es))"
      using r
      by (auto intro!: does_ret does_fail does_conseq[OF Cons.IH] simp: sold_def calm_def add_mult_distrib split: sum.splits)
  qed simp
qed

lemma does_jupiter_sell_chunk:
  assumes "clock_advances ch"
  shows "does ch (jupiter_sell_chunk ch be j pre raw cl slip)
     (\<lambda>rc es. sold ch be 9 [sol_received_actual rc] es \<and> 1 \<le> submissions es \<and> sr_signature rc \<noteq> None)
     (\<lambda>e es. is_fails e \<and> calm ch be 8 es)"
proof -
  have "does ch (sell_slip_steps ch be j pre raw cl m (jupiter_slippage_steps slip))
     (\<lambda>rc es. sold ch be 9 [sol_received_actual rc] es \<and> 1 \<le> submissions es \<and> sr_signature rc \<noteq> None)
     (\<lambda>e es. is_fails e \<and> calm ch be 8 es)" for m
    using length_slippage_steps[of slip]
    by (intro does_conseq[OF does_sell_slip_steps[OF assms]]) (auto elim!: sold_mono calm_mono)
  then show ?thesis unfolding jupiter_sell_chunk_def Let_def by (auto intro: does_fail)
qed

text \<open>The chunks of an attempt: the receipt adds up what was credited, in the order of the chunks.\<close>

lemma does_sell_chunks:
  assumes "clock_advances ch"
  shows "does ch (sell_chunks ch be j cl slip chunks pre act est sig)
     (\<lambda>r es. sold ch be (9 * length chunks) (credits es) es \<and>
        (case r of
           Inr rc \<Rightarrow> length (credits es) = length chunks \<and> sol_received_actual rc = foldl (+) act (credits es)
             \<and> length chunks \<le> submissions es
         | Inl _ \<Rightarrow> length (credits es) < length chunks))
     (\<lambda>_ _. False)"
proof (induction chunks arbitrary: pre act est sig)
  case Nil
  show ?case by (auto intro: does_ret simp: sold_def)
next
  case (Cons c rest)
  have tried: "does ch (io_try (jupiter_sell_chunk ch be j pre c (cl \<and> rest = []) slip))
     (\<lambda>r es. case r of Inr rc \<Rightarrow> sold ch be 9 [sol_received_actual rc] es \<and> 1 \<le> submissions es | Inl _ \<Rightarrow> calm ch be 8 es)
     (\<lambda>_ _. False)"
    by (rule does_try, rule does_conseq[OF does_jupiter_sell_chunk[OF assms]]) (auto split: stop.splits)
  show ?case unfolding sell_chunks.simps
  proof (rule does_bind[OF tried])
    fix r :: "broker_error + sell_receipt" and e1
    assume r: "case r of Inr rc \<Rightarrow> sold ch be 9 [sol_received_actual rc] e1 \<and> 1 \<le> submissions e1 | Inl _ \<Rightarrow> calm ch be 8 e1"
    show "does ch (case r of Inl e \<Rightarrow> ret (Inl e)
         | Inr rc \<Rightarrow> sell_chunks ch be j cl slip rest (saturating_sub pre c)
                    (act + sol_received_actual rc) (est + sol_received_estimated rc)
                    (if sr_signature rc = None then sig else sr_signature rc))
       (\<lambda>r es. sold ch be (9 * length (c # rest)) (credits (e1 @ es)) (e1 @ es) \<and>
        (case r of
           Inr rc \<Rightarrow> length (credits (e1 @ es)) = length (c # rest) \<and>
             sol_received_actual rc = foldl (+) act (credits (e1 @ es)) \<and> length (c # rest) \<le> submissions (e1 @ es)
         | Inl _ \<Rightarrow> length (credits (e1 @ es)) < length (c # rest)))
       (\<lambda>_ _. False)"
      using r
      by (auto intro!: does_ret does_conseq[OF Cons.IH] simp: sold_def calm_def add_mult_distrib split: sum.splits)
  qed simp
qed

lemma does_sell_parts:
  assumes "clock_advances ch"
  shows "does ch (sell_parts ch be j pre raw cl parts)
     (\<lambda>r es. sold ch be (9 * max 1 (unat parts)) (credits es) es \<and>
        (case r of
           Inr rc \<Rightarrow> sol_received_actual rc = foldl (+) 0 (credits es) \<and> (raw \<noteq> 0 \<longrightarrow> 1 \<le> submissions es)
             \<and> length (credits es) \<le> max 1 (unat parts)
         | Inl _ \<Rightarrow> length (credits es) < max 1 (unat parts)))
     (\<lambda>_ _. False)"
proof -
  let ?cs = "jupiter_chunk_amounts raw parts"
  have len: "length ?cs \<le> max 1 (unat parts)" by (rule length_chunk_amounts)
  have ne: "raw \<noteq> 0 \<Longrightarrow> 1 \<le> length ?cs"
    using chunk_amounts[of raw parts] by (cases ?cs) (auto simp: unat_eq_zero)
  show ?thesis unfolding sell_parts_def
    by (rule does_conseq[OF does_sell_chunks[OF assms]])
      (use len ne in \<open>auto elim!: sold_mono split: sum.splits\<close>)
qed

text \<open>C7. A sale through Jupiter settles: when it succeeds, the SOL its receipt reports is the sum of what was
  credited to the cached balance, and something was handed in unless there was nothing to sell; when
  it fails, it fails as exhausted, with at most three chunks credited and reported nowhere. It always
  returns, has at most 45 hand-ins acknowledged, and never debits.\<close>

theorem jupiter_sale_settles:
  assumes "clock_advances ch"
  shows "does ch (sell_tokens_post_graduation ch be j pre raw cl)
     (\<lambda>rc es. debits es = [] \<and> sol_received_actual rc = foldl (+) 0 (credits es) \<and>
        submissions es \<le> 45 \<and> (raw \<noteq> 0 \<longrightarrow> 1 \<le> submissions es) \<and> authorised ch (be_wallet be) es)
     (\<lambda>e es. (\<exists>txt. e = Fails (JupiterSellExhausted txt)) \<and> debits es = [] \<and> length (credits es) \<le> 3 \<and>
        submissions es \<le> 45 \<and> authorised ch (be_wallet be) es)"
  unfolding sell_tokens_post_graduation_def
proof (rule does_bind[OF does_sell_parts[OF assms]])
  fix r :: "broker_error + sell_receipt" and e1
  assume "sold ch be (9 * max 1 (unat (1 :: u32))) (credits e1) e1 \<and>
     (case r of
        Inr rc \<Rightarrow> sol_received_actual rc = foldl (+) 0 (credits e1) \<and> (raw \<noteq> 0 \<longrightarrow> 1 \<le> submissions e1)
          \<and> length (credits e1) \<le> max 1 (unat (1 :: u32))
      | Inl _ \<Rightarrow> length (credits e1) < max 1 (unat (1 :: u32)))"
  then have r: "debits e1 = []" "submissions e1 \<le> 9" "authorised ch (be_wallet be) e1"
    "r = Inl x \<Longrightarrow> credits e1 = []"
    "r = Inr rc \<Longrightarrow> sol_received_actual rc = foldl (+) 0 (credits e1) \<and> (raw \<noteq> 0 \<longrightarrow> 1 \<le> submissions e1)" for x rc
    by (auto simp: sold_def split: sum.splits)
  show "does ch (case r of Inr rc \<Rightarrow> ret rc
     | Inl _ \<Rightarrow> io_bind (sell_parts ch be j pre raw cl 4) (\<lambda>r4. case r4 of
           Inr rc \<Rightarrow> ret rc
         | Inl e \<Rightarrow> fail (JupiterSellExhausted (exhausted_text ch j raw e))))
     (\<lambda>rc es. debits (e1 @ es) = [] \<and> sol_received_actual rc = foldl (+) 0 (credits (e1 @ es)) \<and>
        submissions (e1 @ es) \<le> 45 \<and> (raw \<noteq> 0 \<longrightarrow> 1 \<le> submissions (e1 @ es)) \<and> authorised ch (be_wallet be) (e1 @ es))
     (\<lambda>e es. (\<exists>txt. e = Fails (JupiterSellExhausted txt)) \<and> debits (e1 @ es) = [] \<and>
        length (credits (e1 @ es)) \<le> 3 \<and> submissions (e1 @ es) \<le> 45 \<and> authorised ch (be_wallet be) (e1 @ es))"
  proof (cases r)
    case (Inl x)
    show ?thesis unfolding Inl sum.case
      by (rule does_bind[OF does_sell_parts[OF assms]])
        (use r(1-3) r(4)[OF Inl] in \<open>auto intro!: does_ret does_fail simp: sold_def split: sum.splits\<close>)
  next
    case (Inr rc)
    then show ?thesis using r by (auto intro!: does_ret)
  qed
qed simp

lemma jupiter_sale_settles_witness:
  "does demo_chain (sell_tokens_post_graduation demo_chain demo_env demo_job 5000000 5000000 True)
     (\<lambda>rc es. debits es = [] \<and> sol_received_actual rc = foldl (+) 0 (credits es) \<and>
        submissions es \<le> 45 \<and> ((5000000 :: u64) \<noteq> 0 \<longrightarrow> 1 \<le> submissions es) \<and> authorised demo_chain 7 es)
     (\<lambda>e es. (\<exists>txt. e = Fails (JupiterSellExhausted txt)) \<and> debits es = [] \<and> length (credits es) \<le> 3 \<and>
        submissions es \<le> 45 \<and> authorised demo_chain 7 es)"
  using jupiter_sale_settles[OF demo_clock_advances, where be = demo_env and j = demo_job and pre = 5000000
      and raw = 5000000 and cl = True]
  by (simp only: demo_wallet)

section \<open>Buying\<close>

lemma does_try_versioned:
  assumes "clock_advances ch"
    and "\<And>r e1. calm ch be 1 e1 \<Longrightarrow> (\<And>s. r = Inr s \<Longrightarrow> submissions e1 = 1) \<Longrightarrow>
      does ch (f r) (\<lambda>x es. Q x (e1 @ es)) (\<lambda>e es. R e (e1 @ es))"
  shows "does ch (io_bind (io_try (send_versioned_jupiter_with_retries ch be tx label)) f) Q R"
proof (rule does_bind)
  show "does ch (io_try (send_versioned_jupiter_with_retries ch be tx label))
     (\<lambda>r es. calm ch be 1 es \<and> (\<forall>s. r = Inr s \<longrightarrow> submissions es = 1)) (\<lambda>_ _. False)"
    by (rule does_try, rule does_conseq[OF does_send_versioned[OF assms(1)]]) (auto dest!: calm_swap split: stop.splits)
qed (use assms(2) in auto)

text \<open>What a buy leaves behind: \<open>bought\<close> when it succeeds, \<open>refused\<close> otherwise.\<close>

definition bought :: "'w chain \<Rightarrow> broker_env \<Rightarrow> f64 \<Rightarrow> nat \<Rightarrow> buy_receipt \<Rightarrow> effect list \<Rightarrow> bool" where
  "bought ch be amt k rc es \<longleftrightarrow> debits es = [amt] \<and> credits es = [] \<and> 1 \<le> submissions es \<and> submissions es \<le> k
     \<and> attempts es \<le> k * max_retries be \<and> authorised ch (be_wallet be) es \<and> sol_spent rc = amt \<and> br_signature rc \<noteq> None"

lemma safe_entry_mcap_fill: "clock_advances ch \<Longrightarrow> safe ch (entry_mcap_fill ch mint)"
  unfolding entry_mcap_fill_def safe_def[of ch "io_bind _ _"]
  by (rule does_bind_safe[OF safe_io_ok] does_ret | (intro reads_intros; assumption) | (simp; fail))+

lemma safe_swap_fill: "clock_advances ch \<Longrightarrow> safe ch (swap_fill ch ata pre out)"
  unfolding swap_fill_def safe_def[of ch "io_bind _ _"]
  by (rule does_bind_safe[OF safe_try] does_case_sum does_case_prod does_ret
      | (intro reads_intros; assumption) | (simp; fail))+

lemma does_swap_verdict:
  "does ch (swap_verdict ch mint_s fallback r) (\<lambda>_ es. es = [] \<and> (\<exists>s. r = Inr s)) (\<lambda>e es. is_fails e \<and> es = [])"
  unfolding swap_verdict_def
  by (rule does_case_sum does_case_failed does_if does_ret does_fail | (simp; fail))+

lemma does_buy_post:
  assumes "clock_advances ch"
  shows "does ch (buy_tokens_post_graduation ch be mint amt kind) (bought ch be amt 1)
     (\<lambda>e es. calm ch be 1 es \<and> (\<forall>p. e = Panics p \<longrightarrow> es = [] \<and>
        derive_ata_address ch (be_wallet be) mint (token_program (ch_lib ch) kind) = Inl p))"
  unfolding buy_tokens_post_graduation_def
  by (rule does_Let does_if does_of_outcome_bind does_case_prod does_bind_safe[OF safe_recover]
      does_bind_safe[OF safe_swap_fill[OF assms]] does_try_versioned[OF assms] does_bind[OF does_swap_verdict]
      does_debit_bind does_bind_reads does_ret does_fail
      | (intro reads_intros assms; fail) | (auto simp: calm_def bought_def; fail))+

lemma does_book_curve_buy:
  assumes "clock_advances ch"
  shows "does ch (book_curve_buy ch mint amt m ata pre sig)
     (\<lambda>rc es. es = [Debited amt] \<and> sol_spent rc = amt \<and> br_signature rc \<noteq> None) (\<lambda>_ _. False)"
  unfolding book_curve_buy_def
  by (rule does_debit_bind does_bind_safe[OF safe_try] does_Let does_bind_safe[OF safe_entry_mcap_fill[OF assms]] does_ret
      | (intro reads_intros assms; fail) | (simp; fail))+

lemma does_bind_creator:
  assumes "\<And>x. does ch (f x) Q R" "\<And>p. R (Panics p) []"
  shows "does ch (io_bind (case c of Inr a \<Rightarrow> ret a | Inl _ \<Rightarrow> of_outcome x) f) Q R"
  using assms by (cases c) (auto intro: does_of_outcome_bind)

lemma does_buy_on_curve:
  assumes "clock_advances ch"
  shows "does ch (buy_on_curve ch be mint amt pool kind) (bought ch be amt 2)
     (\<lambda>e es. calm ch be 2 es \<and> (\<forall>p. e = Panics p \<longrightarrow> es = []))"
  unfolding buy_on_curve_def
  by (rule does_Let does_if does_bind_try_send[OF assms] does_of_outcome_bind does_case_prod
      does_bind_safe[OF safe_recover] does_bind_safe[OF safe_try] does_bind_creator does_case_sum
      does_conseq[OF does_book_curve_buy[OF assms]] does_case_failed does_fail
      does_conseq[OF does_buy_post[OF assms]]
      | (intro reads_intros assms; fail)
      | (auto simp: calm_def bought_def signed_only_by_create signed_only_by_pump; fail))+

text \<open>C5. A buy settles: it always returns; when it succeeds, the cached balance has been debited exactly once,
  by the amount, which the receipt reports with a signature, and one or two hand-ins were acknowledged;
  when it fails, nothing was debited, at most two were acknowledged, and when it panics, nothing was
  handed out either. Whatever its end, transactions were handed out, acknowledged or not, at most twice
  as often as a send is retried (a hand-in that was not acknowledged may still land), and each of them,
  composed by the broker or by Jupiter, is signed by the wallet alone.\<close>

theorem live_buy_settles:
  assumes "clock_advances ch"
  shows "does ch (live_buy ch be mint amt pool)
     (\<lambda>rc es. debits es = [amt] \<and> credits es = [] \<and> sol_spent rc = amt \<and> br_signature rc \<noteq> None \<and>
        1 \<le> submissions es \<and> submissions es \<le> 2 \<and> attempts es \<le> 2 * max_retries be \<and>
        authorised ch (be_wallet be) es)
     (\<lambda>e es. debits es = [] \<and> credits es = [] \<and> submissions es \<le> 2 \<and> attempts es \<le> 2 * max_retries be \<and>
        authorised ch (be_wallet be) es \<and>
        (\<forall>p. e = Panics p \<longrightarrow> es = []))"
  unfolding live_buy_def
  by (rule does_bind_safe[OF safe_get_live] does_if does_fail does_bind_safe[OF safe_try] does_bind_reads
      does_case_sum does_conseq[OF does_buy_on_curve[OF assms]] does_conseq[OF does_buy_post[OF assms]]
      | (intro reads_intros assms millis_pos; simp; fail) | (intro reads_intros assms; fail)
      | (auto simp: calm_def bought_def; fail))+

lemma live_buy_settles_witness:
  "does demo_chain (live_buy demo_chain demo_env 3 1 demo_pool)
     (\<lambda>rc es. debits es = [1] \<and> credits es = [] \<and> sol_spent rc = 1 \<and> br_signature rc \<noteq> None \<and>
        1 \<le> submissions es \<and> submissions es \<le> 2 \<and> attempts es \<le> 2 * max_retries demo_env \<and>
        authorised demo_chain 7 es)
     (\<lambda>e es. debits es = [] \<and> credits es = [] \<and> submissions es \<le> 2 \<and> attempts es \<le> 2 * max_retries demo_env \<and>
        authorised demo_chain 7 es \<and>
        (\<forall>p. e = Panics p \<longrightarrow> es = []))"
  using live_buy_settles[OF demo_clock_advances, where be = demo_env and mint = 3 and amt = 1 and pool = demo_pool]
  by (simp only: demo_wallet)

section \<open>Selling\<close>

text \<open>Nothing is debited, at most \<open>k\<close> hand-ins are acknowledged and at most \<open>k\<close> times the number of retries
  are tried, all in order.\<close>

definition sells :: "'w chain \<Rightarrow> broker_env \<Rightarrow> nat \<Rightarrow> effect list \<Rightarrow> bool" where
  "sells ch be k es \<longleftrightarrow> debits es = [] \<and> submissions es \<le> k
     \<and> attempts es \<le> k * max_retries be \<and> authorised ch (be_wallet be) es"

lemma sells_simps [simp]: "sells ch be k []"
  by (simp add: sells_def)

lemma does_sale_post:
  assumes "clock_advances ch"
  shows "does ch (sell_tokens_post_graduation ch be j pre raw cl)
     (\<lambda>_ es. sells ch be 45 es \<and> (raw \<noteq> 0 \<longrightarrow> 1 \<le> submissions es)) (\<lambda>e es. is_fails e \<and> sells ch be 45 es)"
  unfolding sell_tokens_post_graduation_def
proof (rule does_bind[OF does_sell_parts[OF assms]])
  fix r :: "broker_error + sell_receipt" and e1
  assume "sold ch be (9 * max 1 (unat (1 :: u32))) (credits e1) e1 \<and>
     (case r of
        Inr rc \<Rightarrow> sol_received_actual rc = foldl (+) 0 (credits e1) \<and> (raw \<noteq> 0 \<longrightarrow> 1 \<le> submissions e1)
          \<and> length (credits e1) \<le> max 1 (unat (1 :: u32))
      | Inl _ \<Rightarrow> length (credits e1) < max 1 (unat (1 :: u32)))"
  then have r: "sells ch be 9 e1" "r = Inr rc \<Longrightarrow> raw \<noteq> 0 \<longrightarrow> 1 \<le> submissions e1" for rc
    by (auto simp: sold_def sells_def split: sum.splits)
  show "does ch (case r of Inr rc \<Rightarrow> ret rc
     | Inl _ \<Rightarrow> io_bind (sell_parts ch be j pre raw cl 4) (\<lambda>r4. case r4 of
           Inr rc \<Rightarrow> ret rc
         | Inl e \<Rightarrow> fail (JupiterSellExhausted (exhausted_text ch j raw e))))
     (\<lambda>_ es. sells ch be 45 (e1 @ es) \<and> (raw \<noteq> 0 \<longrightarrow> 1 \<le> submissions (e1 @ es)))
     (\<lambda>e es. is_fails e \<and> sells ch be 45 (e1 @ es))"
    using r
    by (auto intro!: does_ret does_fail does_bind[OF does_sell_parts[OF assms]]
        simp: sold_def sells_def split: sum.splits)
qed simp

lemma does_drain_through_jupiter:
  assumes "clock_advances ch"
  shows "does ch (drain_through_jupiter ch be j pre st) (\<lambda>r es. sells ch be 45 es \<and> isl r)
     (\<lambda>e es. is_fails e \<and> sells ch be 45 es)"
  unfolding drain_through_jupiter_def
  by (rule does_bind[OF does_sale_post[OF assms]]) (rule does_case_prod does_ret | (simp; fail))+

lemma safe_drain_dust: "clock_advances ch \<Longrightarrow> safe ch (drain_dust ch j pre amt cl st)"
  unfolding drain_dust_def safe_def[of ch "if _ then _ else _"]
  by (rule does_if does_bind_safe[OF safe_recover] does_ret | (intro reads_intros; assumption) | (simp; fail))+

lemma does_drain_leg:
  assumes "clock_advances ch"
  shows "does ch (drain_leg ch be j leg st)
     (\<lambda>r es. case r of Inl _ \<Rightarrow> sells ch be 46 es | Inr _ \<Rightarrow> sells ch be 1 es) (\<lambda>e es. sells ch be 46 es)"
  unfolding drain_leg_def
  by (rule does_Let does_if does_bind_try_send[OF assms] does_of_outcome_bind
      does_bind_safe[OF safe_recover] does_bind_safe[OF safe_try] does_case_sum does_case_failed does_ret does_fail
      does_conseq[OF does_drain_through_jupiter[OF assms]] does_bind_safe[OF safe_wallet_net[OF assms]]
      does_conseq[OF safe_drain_dust[OF assms, unfolded safe_def]] does_bind_reads
      | (intro reads_intros assms; fail)
      | (auto simp: calm_def sells_def signed_only_by_pump split: sum.split; fail))+

lemma does_drain_legs:
  assumes "clock_advances ch"
  shows "does ch (drain_legs ch be j n leg st) (\<lambda>_ es. sells ch be (n + 45) es) (\<lambda>_ es. sells ch be (n + 45) es)"
proof (induction n arbitrary: leg st)
  case 0
  show ?case by (simp add: does_ret)
next
  case (Suc n)
  show ?case unfolding drain_legs.simps
  proof (rule does_bind[OF does_drain_leg[OF assms]])
    fix r :: "drained + drained" and e1
    assume "case r of Inl _ \<Rightarrow> sells ch be 46 e1 | Inr _ \<Rightarrow> sells ch be 1 e1"
    then show "does ch (case r of Inl st' \<Rightarrow> ret st' | Inr st' \<Rightarrow> drain_legs ch be j n (Suc leg) st')
      (\<lambda>_ es. sells ch be (Suc n + 45) (e1 @ es)) (\<lambda>_ es. sells ch be (Suc n + 45) (e1 @ es))"
      by (auto intro!: does_ret does_conseq[OF Suc.IH] simp: sells_def add_mult_distrib split: sum.splits)
  qed (simp add: sells_def add_mult_distrib)
qed

lemma does_bind_send:
  assumes "clock_advances ch" "list_all (signed_only_by (be_wallet be)) ixs"
    and "\<And>s e1. calm ch be 1 e1 \<Longrightarrow> does ch (f s) (\<lambda>x es. Q x (e1 @ es)) (\<lambda>e es. R e (e1 @ es))"
    and "\<And>b es. calm ch be 1 es \<Longrightarrow> R (Fails b) es"
  shows "does ch (io_bind (send_with_retries ch be ixs label) f) Q R"
  by (rule does_bind[OF does_send_calm[OF assms(1,2)]]) (use assms(3,4) in \<open>auto simp: is_fails_def split: stop.splits\<close>)

lemma does_drain:
  assumes "clock_advances ch"
  shows "does ch (drain_pump_ata_after_clamped_full_exit ch be j sig) (\<lambda>_ es. sells ch be 96 es) (\<lambda>_ es. sells ch be 96 es)"
  unfolding drain_pump_ata_after_clamped_full_exit_def
proof (rule does_bind[OF does_drain_legs[OF assms]])
  fix st :: drained and e1
  assume "sells ch be (MAX_DRAIN_LEGS + 45) e1"
  then have "sells ch be 95 e1" by (simp add: MAX_DRAIN_LEGS_def)
  then show "does ch (case st of (act, est, sig) \<Rightarrow>
     io_bind (recover 0 (fetch_token_account_raw ch (sj_ata_str j))) (\<lambda>rem.
     if rem = 0 then
       io_bind (send_with_retries ch be (close_ixs ch be j) ''SELL-CLOSE-ATA'') (\<lambda>csig.
       io_bind (poll_ata_confirms_sell ch (sj_ata_str j) 0 1 True (sj_mint j) (secs 30)) (\<lambda>_.
       io_bind (wallet_net_sol_or_fallback ch be csig 0) (\<lambda>close_actual.
       ret (act + close_actual, est, csig))))
     else ret (act, est, sig)))
     (\<lambda>_ es. sells ch be 96 (e1 @ es)) (\<lambda>_ es. sells ch be 96 (e1 @ es))"
    by - (rule does_case_prod does_bind_safe[OF safe_recover] does_if does_bind_send[OF assms signed_close]
        does_bind_safe[OF safe_wallet_net[OF assms]] does_bind_reads does_ret
        | (intro reads_intros assms; fail) | (auto simp: calm_def sells_def; fail))+
qed (auto simp: MAX_DRAIN_LEGS_def sells_def)

lemma does_sell_on_curve:
  assumes "clock_advances ch" "list_all (signed_only_by (be_wallet be)) ixs"
  shows "does ch (sell_on_curve ch be j ixs raw cl drain est)
     (\<lambda>rc es. sells ch be 97 es \<and> 1 \<le> submissions es) (\<lambda>_ es. sells ch be 97 es)"
  unfolding sell_on_curve_def
proof (rule does_bind_safe[OF safe_recover] does_bind_try_send[OF assms] | (intro reads_intros assms(1); fail))+
  fix pre :: u64 and r :: "broker_error + string" and e1
  assume e1: "calm ch be 1 e1" "\<And>s. r = Inr s \<Longrightarrow> submissions e1 = 1"
  show "does ch (case r of Inl e \<Rightarrow> (case e of
         TransactionFailed msg \<Rightarrow>
           if is_bonding_curve_complete_pump_error msg then
             if raw = 0 then fail e
             else sell_tokens_post_graduation ch be j pre raw cl
           else fail e
       | _ \<Rightarrow> fail e)
     | Inr sig_str \<Rightarrow>
         io_bind (poll_ata_confirms_sell ch (sj_ata_str j) pre raw cl (sj_mint j) (secs 45)) (\<lambda>_.
         io_bind (wallet_net_sol_or_fallback ch be sig_str est) (\<lambda>act.
         io_bind (if drain then drain_pump_ata_after_clamped_full_exit ch be j sig_str
                  else ret (0, 0, sig_str)) (\<lambda>(dr_act, dr_est, last_sig).
         ret (if drain
              then \<lparr>sol_received_actual = act + dr_act, sol_received_estimated = est + dr_est, sr_signature = Some last_sig\<rparr>
              else \<lparr>sol_received_actual = act, sol_received_estimated = est, sr_signature = Some sig_str\<rparr>)))))
     (\<lambda>rc es. sells ch be 97 (e1 @ es) \<and> 1 \<le> submissions (e1 @ es)) (\<lambda>_ es. sells ch be 97 (e1 @ es))"
  proof (cases r)
    case (Inl e)
    show ?thesis unfolding Inl sum.case
      by (rule does_case_failed does_if does_fail does_conseq[OF does_sale_post[OF assms(1)]]
          | (use e1(1) in \<open>auto simp: calm_def sells_def; fail\<close>))+
  next
    case (Inr sig_str)
    have mid: "does ch (if drain then drain_pump_ata_after_clamped_full_exit ch be j sig_str else ret (0, 0, sig_str))
       (\<lambda>_ es. sells ch be 96 es) (\<lambda>_ es. sells ch be 96 es)"
      by (rule does_if, rule does_drain[OF assms(1)], rule does_ret) simp
    show ?thesis unfolding Inr sum.case
      by (rule does_bind[OF mid] does_bind_safe[OF safe_wallet_net[OF assms(1)]] does_bind_reads does_case_prod does_ret
          | (intro reads_intros assms(1); fail)
          | (use e1(1) e1(2)[OF Inr] in \<open>auto simp: calm_def sells_def; fail\<close>))+
  qed
qed

lemma signed_sell_ixs:
  "sell_ixs ch be j creator cb raw cl = Inr ixs \<Longrightarrow> list_all (signed_only_by (be_wallet be)) ixs"
  by (auto simp: sell_ixs_def bind_outcome_Inr_iff signed_only_by_pump split: if_splits)

lemma does_sell_planned:
  assumes "clock_advances ch"
  shows "does ch (sell_planned ch be j c creator cl plan)
     (\<lambda>rc es. sells ch be 97 es \<and> 1 \<le> submissions es) (\<lambda>_ es. sells ch be 97 es)"
  unfolding sell_planned_def
  by (rule does_case_prod does_Let does_if does_bind_safe[OF safe_recover] does_of_outcome_bind does_fail
      does_conseq[OF does_sale_post[OF assms]] does_conseq[OF does_sell_on_curve[OF assms signed_sell_ixs]]
      | (intro reads_intros assms; fail) | assumption | (auto simp: sells_def; fail))+

lemma reads_resolve_sell_amount [reads_intros]:
  "clock_advances ch \<Longrightarrow> reads ch (resolve_sell_amount ch ata_str mint amt cl)"
  unfolding resolve_sell_amount_def reads_def
  by (rule does_if does_bind_safe[OF safe_get_live] does_case_option does_ret does_fail does_bind_safe[OF safe_try]
      | (intro reads_intros; assumption) | (simp add: is_fails_def; fail))+

lemma does_bind_curve_creator:
  assumes "\<And>x. does ch (f x) Q R" "\<And>p. R (Panics p) []"
  shows "does ch (io_bind (case c of Some s \<Rightarrow> ret (g s) | None \<Rightarrow> of_outcome x) f) Q R"
  using assms by (cases c) (auto intro: does_of_outcome_bind)

text \<open>C6. A sale is bounded: it always returns; when it succeeds, at least one hand-in has been acknowledged;
  whatever its end, at most 97 were, transactions were handed out (acknowledged or not) at most 97 times
  the number of retries of a send, each signed by the wallet alone whether the broker or Jupiter composed
  it, and the cached balance was never debited.\<close>

theorem live_sell_bounded:
  assumes "clock_advances ch"
  shows "does ch (live_sell ch be mint amt pool cl)
     (\<lambda>_ es. debits es = [] \<and> 1 \<le> submissions es \<and> submissions es \<le> 97 \<and>
        attempts es \<le> 97 * max_retries be \<and> authorised ch (be_wallet be) es)
     (\<lambda>_ es. debits es = [] \<and> submissions es \<le> 97 \<and> attempts es \<le> 97 * max_retries be \<and>
        authorised ch (be_wallet be) es)"
  unfolding live_sell_def
  by (rule does_Let does_if does_bind_reads does_of_outcome_bind does_case_prod does_fail
      does_bind_safe[OF safe_io_ok] does_bind_curve_creator does_conseq[OF does_sell_planned[OF assms]]
      | (intro reads_intros assms; fail) | (auto simp: sells_def; fail))+

lemma live_sell_bounded_witness:
  "does demo_chain (live_sell demo_chain demo_env 3 1 demo_pool True)
     (\<lambda>_ es. debits es = [] \<and> 1 \<le> submissions es \<and> submissions es \<le> 97 \<and>
        attempts es \<le> 97 * max_retries demo_env \<and> authorised demo_chain 7 es)
     (\<lambda>_ es. debits es = [] \<and> submissions es \<le> 97 \<and> attempts es \<le> 97 * max_retries demo_env \<and>
        authorised demo_chain 7 es)"
  using live_sell_bounded[OF demo_clock_advances, where be = demo_env and mint = 3 and amt = 1
      and pool = demo_pool and cl = True]
  by (simp only: demo_wallet)

end
