(* ===== verification/Live_Confirm.thy ===== *)
theory Live_Confirm
  imports Live_Laws
begin

text \<open>
  What a confirmed sale has observed. The polls of the broker are loops over the answers of the node;
  partial correctness says that the value of a loop is that of one of its rounds.
\<close>

section \<open>Confirmation of a sale\<close>

text \<open>A loop that ended with a value got it from a round.\<close>

lemma io_loop_value:
  fixes body :: "'s \<Rightarrow> ('w, 's + 'a) io"
  assumes "io_loop body x s = Some (Inr a, s')"
  shows "\<exists>x0 s0. body x0 s0 = Some (Inr (Inr a), s')"
proof -
  define P where "P = (\<lambda>(body :: 's \<Rightarrow> ('w, 's + 'a) io) (x :: 's) (s :: 'w live) (r :: (stop + 'a) \<times> 'w live).
    \<forall>a s'. r = (Inr a, s') \<longrightarrow> (\<exists>x0 s0. body x0 s0 = Some (Inr (Inr a), s')))"
  have "P body x s (Inr a, s')"
  proof (rule io_loop.raw_induct[of P "((body, x), s)" "(Inr a, s')", unfolded prod.case])
    fix loop and body :: "'s \<Rightarrow> ('w, 's + 'a) io" and x s r
    assume "\<And>body x s r. loop body x s = Some r \<Longrightarrow> P body x s r"
      and "(case body x s of None \<Rightarrow> None
        | Some (Inl e, s') \<Rightarrow> Some (Inl e, s')
        | Some (Inr (Inl x'), s') \<Rightarrow> loop body x' s'
        | Some (Inr (Inr a), s') \<Rightarrow> Some (Inr a, s')) = Some r"
    then show "P body x s r" by (fastforce simp: P_def split: option.splits prod.splits sum.splits)
  qed (rule assms)
  then show ?thesis by (simp add: P_def)
qed

lemma io_bind_value: "io_bind m f s = Some (Inr y, s') \<longleftrightarrow> (\<exists>x s1. m s = Some (Inr x, s1) \<and> f x s1 = Some (Inr y, s'))"
  by (auto simp: io_bind_def split: option.splits prod.splits sum.splits)

lemma ret_value [simp]: "ret x s = Some (Inr y, s') \<longleftrightarrow> y = x \<and> s' = s" "fail e s \<noteq> Some (Inr y, s')"
  by (auto simp: ret_def fail_def)

lemma poll_until_eq:
  "poll_until ch timeout delay probe expire x0 =
     io_bind (now ch) (\<lambda>started. io_loop (poll_body ch timeout delay probe expire started) x0)"
  unfolding poll_until_def by (fold poll_body_def) (rule refl)

lemma poll_until_value:
  assumes "poll_until ch timeout delay probe expire x0 s = Some (Inr a, s')"
    and "\<And>x n s. \<exists>e s'. expire x n s = Some (Inl e, s')"
  shows "\<exists>x s0. probe x s0 = Some (Inr (Inr a), s')"
proof -
  from assms(1) obtain started s1 where "io_loop (poll_body ch timeout delay probe expire started) x0 s1 = Some (Inr a, s')"
    by (auto simp: poll_until_eq io_bind_value)
  from io_loop_value[OF this] obtain x s0 where
    "poll_body ch timeout delay probe expire started x s0 = Some (Inr (Inr a), s')" by blast
  then obtain v s2 where v: "probe x s0 = Some (Inr v, s2)" and rest:
    "(case v of Inr a \<Rightarrow> ret (Inr a)
       | Inl x' \<Rightarrow> io_bind (now ch) (\<lambda>n.
           if timeout \<le> n - started then io_bind (expire x' (n - started)) (\<lambda>a. ret (Inr a))
           else io_bind (sleep ch (delay (n - started))) (\<lambda>_. ret (Inl x')))) s2 = Some (Inr (Inr a), s')"
    by (auto simp: poll_body_def io_bind_value)
  have "\<not> expire x' n t = Some (Inr y, t')" for x' n t y t'
    using assms(2)[of x' n t] by auto
  with rest have "v = Inr a" "s2 = s'"
    by (auto simp: io_bind_value split: sum.splits if_splits)
  with v show ?thesis by blast
qed

lemma io_try_value:
  "io_try m s = Some (Inr r, s') \<longleftrightarrow> (case r of Inr x \<Rightarrow> m s = Some (Inr x, s') | Inl e \<Rightarrow> m s = Some (Inl (Fails e), s'))"
  by (auto simp: io_try_def split: option.splits prod.splits sum.splits stop.splits)

lemma poll_ata_value:
  assumes "poll_ata_confirms_sell ch ata pre amount False mint timeout s = Some (Inr (), s')"
  shows "\<exists>s0 post d. fetch_token_account_raw_with_decimals ch ata s0 = Some (Inr (post, d), s') \<and>
    min_drop amount \<le> saturating_sub pre post"
proof -
  from assms obtain pk s1 where
    "poll_until ch timeout (\<lambda>_. millis 400) (probe_ata ch pk ata pre amount False mint timeout)
       (\<lambda>st _. fail (snd st)) (0, Custom []) s1 = Some (Inr (), s')"
    by (auto simp: poll_ata_confirms_sell_def io_bind_value)
  from poll_until_value[OF this] obtain x s0 where
    "probe_ata ch pk ata pre amount False mint timeout x s0 = Some (Inr (Inr ()), s')"
    by (auto simp: fail_def)
  then have probe: "probe_ata ch pk ata pre amount False mint timeout x s0 = Some (Inr (Inr ()), s')" .
  show ?thesis
  proof (cases "fetch_token_account_raw_with_decimals ch ata s0")
    case None
    then show ?thesis using probe by (simp add: probe_ata_def Let_def io_bind_def io_try_def)
  next
    case (Some p)
    obtain r s1 where p: "p = (r, s1)" by fastforce
    show ?thesis
    proof (cases r)
      case (Inl e)
      then show ?thesis using probe Some p
        by (cases e) (simp_all add: probe_ata_def Let_def io_bind_def io_try_def ret_def)
    next
      case (Inr v)
      obtain post d where v: "v = (post, d)" by fastforce
      have "(if min_drop amount \<le> saturating_sub pre post then ret (Inr ())
          else ret (Inl (Suc (fst x), TransactionFailed
            (no_drop_text ch mint ata pre post amount (Suc (fst x)) timeout)))) s1 = Some (Inr (Inr ()), s')"
        using probe Some p Inr v by (simp add: probe_ata_def Let_def io_bind_def io_try_def)
      then have "min_drop amount \<le> saturating_sub pre post" "s' = s1" by (auto split: if_splits)
      then show ?thesis using Some p Inr v by blast
    qed
  qed
qed

text \<open>C18. When a partial sale is confirmed, the node has reported, at the end of the poll, a balance that has
  dropped: by one unit at least, and by the sold amount up to a slack of at most 100 units.\<close>

theorem confirmed_sale_was_observed:
  assumes "poll_ata_confirms_sell ch ata pre amount False mint timeout s = Some (Inr (), s')"
  shows "\<exists>s0 post d. fetch_token_account_raw_with_decimals ch ata s0 = Some (Inr (post, d), s') \<and>
    (amount \<noteq> 0 \<longrightarrow> post < pre \<and> unat post + (unat amount - 100) \<le> unat pre)"
proof -
  obtain s0 post d where p: "fetch_token_account_raw_with_decimals ch ata s0 = Some (Inr (post, d), s')"
    "min_drop amount \<le> saturating_sub pre post" using poll_ata_value[OF assms] by blast
  have slack: "unat (sell_raw_delta_slack amount) \<le> 100"
    by (auto simp: sell_raw_delta_slack_def min_def word_le_nat_alt)
  have "unat amount - unat (sell_raw_delta_slack amount) \<le> unat (min_drop amount)"
    by (simp add: min_drop_def unat_saturating_sub[symmetric] word_le_nat_alt[symmetric])
  moreover have "unat (min_drop amount) \<le> unat pre - unat post"
    using p(2) by (simp add: word_le_nat_alt unat_saturating_sub)
  moreover have "amount \<noteq> 0 \<Longrightarrow> 1 \<le> unat (min_drop amount)"
    by (auto simp: min_drop_def word_gt_0 unat_gt_0 Suc_le_eq max_def split: if_splits)
  ultimately show ?thesis using p(1) slack
    by (intro exI[of _ s0] exI[of _ post] exI[of _ d]) (auto simp: word_less_nat_alt)
qed

definition demo_live :: "nat live" where
  "demo_live = \<lparr>lv_balance = 1, lv_positions = Map.empty, lv_effects = [], lv_world = 0\<rparr>"

lemma demo_balance_read:
  "fetch_token_account_raw_with_decimals demo_chain ''ata'' demo_live = Some (Inr (1000000, 6), demo_live)"
  by (simp add: fetch_token_account_raw_with_decimals_def parse_pubkey_def call_or_def call_def io_bind_def
      demo_chain_def demo_lib_def demo_live_def ret_def of_option_def of_result_def parse_u64_def is_digit_def)

lemma demo_sale_confirmed:
  "poll_ata_confirms_sell demo_chain ''ata'' 5000000 4000000 False 3 (secs 45) demo_live = Some (Inr (), demo_live)"
proof -
  have "probe_ata demo_chain 7 ''ata'' 5000000 4000000 False 3 (secs 45) (0, Custom []) demo_live
      = Some (Inr (Inr ()), demo_live)"
    by (simp add: probe_ata_def Let_def io_bind_def io_try_def demo_balance_read ret_def min_drop_def
        sell_raw_delta_slack_def saturating_sub_def)
  then show ?thesis
    by (simp add: poll_ata_confirms_sell_def poll_until_def io_bind_def parse_pubkey_def now_def
        io_loop.simps demo_lib_def demo_chain_def ret_def)
qed

lemma confirmed_sale_was_observed_witness:
  "\<exists>s0 post d. fetch_token_account_raw_with_decimals demo_chain ''ata'' s0 = Some (Inr (post, d), demo_live) \<and>
    ((4000000 :: u64) \<noteq> 0 \<longrightarrow> post < 5000000 \<and> unat post + (unat (4000000 :: u64) - 100) \<le> unat (5000000 :: u64))"
  by (rule confirmed_sale_was_observed[OF demo_sale_confirmed])

text \<open>A balance that could not be read before a sale counts as zero: the sale can never be confirmed.\<close>

lemma unread_balance_never_confirms:
  "amount \<noteq> 0 \<Longrightarrow> poll_ata_confirms_sell ch ata 0 amount False mint timeout s \<noteq> Some (Inr u, s')"
proof
  assume "amount \<noteq> 0" "poll_ata_confirms_sell ch ata 0 amount False mint timeout s = Some (Inr u, s')"
  then obtain post where "min_drop amount \<le> saturating_sub 0 post" using poll_ata_value by fastforce
  moreover have "saturating_sub 0 post = 0" for post :: u64 by (auto simp: saturating_sub_def word_gt_0)
  ultimately show False using \<open>amount \<noteq> 0\<close> by (auto simp: min_drop_def word_gt_0 max_def split: if_splits)
qed

lemma unread_chunk_once:
  "raw \<noteq> 0 \<Longrightarrow> jupiter_sell_chunk_once ch be j 0 raw cl slip only s \<noteq> Some (Inr rc, s')"
  unfolding jupiter_sell_chunk_once_def Let_def io_bind_value
  using unread_balance_never_confirms by (fastforce simp: io_bind_value split: prod.splits)

lemma unread_slip_steps:
  "raw \<noteq> 0 \<Longrightarrow> sell_slip_steps ch be j 0 raw cl m steps s \<noteq> Some (Inr rc, s')"
proof (induction steps arbitrary: s)
  case Nil
  then show ?case by (simp add: unread_chunk_once)
next
  case (Cons slip rest)
  show ?case
  proof
    assume "sell_slip_steps ch be j 0 raw cl m (slip # rest) s = Some (Inr rc, s')"
    then obtain r s1 where "io_try (jupiter_sell_chunk_once ch be j 0 raw cl slip False) s = Some (Inr r, s1)"
      "(case r of Inr rc \<Rightarrow> ret rc
        | Inl e \<Rightarrow> if is_jupiter_slippage e then sell_slip_steps ch be j 0 raw cl m rest else fail e) s1 = Some (Inr rc, s')"
      unfolding sell_slip_steps.simps io_bind_value by blast
    then show False using Cons
      by (cases r) (auto simp: io_try_value unread_chunk_once split: if_splits)
  qed
qed

lemma unread_parts:
  assumes "raw \<noteq> 0" "sell_parts ch be j 0 raw cl parts s = Some (Inr r, s')"
  shows "isl r"
proof -
  obtain c rest where cs: "jupiter_chunk_amounts raw parts = c # rest" "c \<noteq> 0"
    using chunk_amounts[of raw parts] assms(1)
    by (cases "jupiter_chunk_amounts raw parts") (auto simp: unat_eq_zero)
  have never: "jupiter_sell_chunk ch be j 0 c cl' slip s \<noteq> Some (Inr rc, s1)" for cl' slip s rc s1
    using cs(2) by (simp add: jupiter_sell_chunk_def Let_def unread_slip_steps unread_chunk_once)
  from assms(2) obtain q s1 where q: "io_try (jupiter_sell_chunk ch be j 0 c (cl \<and> rest = []) (slippage_bps_u16 be)) s = Some (Inr q, s1)"
    "(case q of Inl e \<Rightarrow> ret (Inl e)
      | Inr rc \<Rightarrow> sell_chunks ch be j cl (slippage_bps_u16 be) rest (saturating_sub 0 c)
                    (0 + sol_received_actual rc) (0 + sol_received_estimated rc)
                    (if sr_signature rc = None then None else sr_signature rc)) s1 = Some (Inr r, s')"
    unfolding sell_parts_def cs(1) sell_chunks.simps io_bind_value by blast
  from q(1) never have "isl q" by (cases q) (auto simp: io_try_value)
  with q(2) show ?thesis by (cases q) auto
qed

text \<open>C17. When the balance of a token account could not be read before a sale through Jupiter, it counts as
  zero, no swap can be confirmed, and the sale fails whatever the swaps did on the chain: it has handed
  them in and reports none of them.\<close>

theorem unread_balance_loses_sale:
  assumes "clock_advances ch" "raw \<noteq> 0"
  shows "\<exists>b s'. sell_tokens_post_graduation ch be j 0 raw cl s = Some (Inl (Fails b), s')"
proof -
  have never: "sell_tokens_post_graduation ch be j 0 raw cl s \<noteq> Some (Inr rc, s')" for rc s'
  proof
    assume "sell_tokens_post_graduation ch be j 0 raw cl s = Some (Inr rc, s')"
    then obtain r1 s1 where r1: "sell_parts ch be j 0 raw cl 1 s = Some (Inr r1, s1)"
      "(case r1 of Inr rc \<Rightarrow> ret rc
        | Inl _ \<Rightarrow> io_bind (sell_parts ch be j 0 raw cl 4) (\<lambda>r4. case r4 of
              Inr rc \<Rightarrow> ret rc
            | Inl e \<Rightarrow> fail (JupiterSellExhausted (exhausted_text ch j raw e)))) s1 = Some (Inr rc, s')"
      unfolding sell_tokens_post_graduation_def io_bind_value by blast
    with unread_parts[OF assms(2) r1(1)] obtain r4 s2 where r4: "sell_parts ch be j 0 raw cl 4 s1 = Some (Inr r4, s2)"
      "(case r4 of Inr rc \<Rightarrow> ret rc | Inl e \<Rightarrow> fail (JupiterSellExhausted (exhausted_text ch j raw e))) s2 = Some (Inr rc, s')"
      by (cases r1) (auto simp: io_bind_value)
    with unread_parts[OF assms(2) r4(1)] show False by (cases r4) auto
  qed
  have "triple (trace_at ch (lv_effects s) (ch_now ch (lv_world s))) (sell_tokens_post_graduation ch be j 0 raw cl)
      (\<lambda>_ _. True) (\<lambda>e _. is_fails e)"
    by (rule total_conseq[OF does_sale_post[OF assms(1), unfolded does_def, rule_format]]) auto
  then show ?thesis
    by (rule totalD[of _ _ _ _ s]) (use never in \<open>auto simp: trace_at_def is_fails_def split: stop.splits\<close>)
qed

lemma unread_balance_loses_sale_witness:
  "\<exists>b s'. sell_tokens_post_graduation demo_chain demo_env demo_job 0 4000000 True demo_live = Some (Inl (Fails b), s')"
  by (rule unread_balance_loses_sale[OF demo_clock_advances]) simp

end
