(* ===== verification/Post_Exit.thy ===== *)
theory Post_Exit
  imports Live_Demo
begin

text \<open>
  Model of \<^verbatim>\<open>src/autobuy/post_exit_tracker.rs\<close> and of the samples and metrics of
  \<^verbatim>\<open>src/persistence/bot_trade_post_exit.rs\<close>: the market cap of an open position whose token left the curve
  (curve or Jupiter), and the task that samples the market cap for half an hour after a position was
  closed. The metrics it saves are the value the task ends with; the save itself is not modelled.
\<close>

section \<open>The samples\<close>

definition POST_EXIT_CHECKPOINT_SECS :: "u64 list" where
  "POST_EXIT_CHECKPOINT_SECS = [10, 30, 50, 70, 100, 180, 240, 300, 600, 900, 1800]"

definition pct_from_exit :: "f64 \<Rightarrow> f64 option \<Rightarrow> f64 option" where
  "pct_from_exit exit_mcap_sol mcap = (case mcap of None \<Rightarrow> None
   | Some m \<Rightarrow> if 0 < exit_mcap_sol \<and> is_finite m \<and> 0 < m
              then Some ((m / exit_mcap_sol - 1) * Fin 100) else None)"

record post_exit_samples =
  ps_mcap_10s :: "f64 option"
  ps_mcap_30s :: "f64 option"
  ps_mcap_50s :: "f64 option"
  ps_mcap_70s :: "f64 option"
  ps_mcap_100s :: "f64 option"
  ps_mcap_180s :: "f64 option"
  ps_mcap_240s :: "f64 option"
  ps_mcap_300s :: "f64 option"
  ps_mcap_10m :: "f64 option"
  ps_mcap_15m :: "f64 option"
  ps_mcap_30m :: "f64 option"
  ps_max_mcap :: "f64 option"
  ps_min_mcap :: "f64 option"
  ps_time_to_max_secs :: "u64 option"
  ps_time_to_min_secs :: "u64 option"

definition post_exit_samples_default :: post_exit_samples where
  "post_exit_samples_default =
     \<lparr>ps_mcap_10s = None, ps_mcap_30s = None, ps_mcap_50s = None, ps_mcap_70s = None, ps_mcap_100s = None,
      ps_mcap_180s = None, ps_mcap_240s = None, ps_mcap_300s = None, ps_mcap_10m = None, ps_mcap_15m = None,
      ps_mcap_30m = None, ps_max_mcap = None, ps_min_mcap = None, ps_time_to_max_secs = None,
      ps_time_to_min_secs = None\<rparr>"

definition update_max :: "u64 \<Rightarrow> f64 \<Rightarrow> post_exit_samples \<Rightarrow> post_exit_samples" where
  "update_max elapsed_secs mcap s =
     (if (case ps_max_mcap s of None \<Rightarrow> True | Some prev \<Rightarrow> prev < mcap)
      then s\<lparr>ps_max_mcap := Some mcap, ps_time_to_max_secs := Some elapsed_secs\<rparr> else s)"

definition update_min :: "u64 \<Rightarrow> f64 \<Rightarrow> post_exit_samples \<Rightarrow> post_exit_samples" where
  "update_min elapsed_secs mcap s =
     (if (case ps_min_mcap s of None \<Rightarrow> True | Some prev \<Rightarrow> mcap < prev)
      then s\<lparr>ps_min_mcap := Some mcap, ps_time_to_min_secs := Some elapsed_secs\<rparr> else s)"

definition update_extrema :: "u64 \<Rightarrow> f64 \<Rightarrow> post_exit_samples \<Rightarrow> post_exit_samples" where
  "update_extrema elapsed_secs mcap s = update_min elapsed_secs mcap (update_max elapsed_secs mcap s)"

definition usable_mcap :: "f64 \<Rightarrow> bool" where
  "usable_mcap m \<longleftrightarrow> is_finite m \<and> 0 < m"

definition record_exit_baseline :: "f64 \<Rightarrow> post_exit_samples \<Rightarrow> post_exit_samples" where
  "record_exit_baseline exit_mcap_sol s =
     (if usable_mcap exit_mcap_sol then update_extrema 0 exit_mcap_sol s else s)"

definition store_checkpoint :: "u64 \<Rightarrow> f64 \<Rightarrow> post_exit_samples \<Rightarrow> post_exit_samples" where
  "store_checkpoint c m s =
     (if c = 10 then s\<lparr>ps_mcap_10s := Some m\<rparr>
      else if c = 30 then s\<lparr>ps_mcap_30s := Some m\<rparr>
      else if c = 50 then s\<lparr>ps_mcap_50s := Some m\<rparr>
      else if c = 70 then s\<lparr>ps_mcap_70s := Some m\<rparr>
      else if c = 100 then s\<lparr>ps_mcap_100s := Some m\<rparr>
      else if c = 180 then s\<lparr>ps_mcap_180s := Some m\<rparr>
      else if c = 240 then s\<lparr>ps_mcap_240s := Some m\<rparr>
      else if c = 300 then s\<lparr>ps_mcap_300s := Some m\<rparr>
      else if c = 600 then s\<lparr>ps_mcap_10m := Some m\<rparr>
      else if c = 900 then s\<lparr>ps_mcap_15m := Some m\<rparr>
      else if c = 1800 then s\<lparr>ps_mcap_30m := Some m\<rparr>
      else s)"

definition set_checkpoint :: "u64 \<Rightarrow> f64 \<Rightarrow> post_exit_samples \<Rightarrow> post_exit_samples" where
  "set_checkpoint checkpoint_secs mcap s =
     (if \<not> is_finite mcap \<or> mcap \<le> 0 then s
      else store_checkpoint checkpoint_secs mcap (update_extrema checkpoint_secs mcap s))"

section \<open>The metrics\<close>

record post_exit_metrics =
  pm_mcap_10s :: "f64 option"
  pm_mcap_30s :: "f64 option"
  pm_mcap_50s :: "f64 option"
  pm_mcap_70s :: "f64 option"
  pm_mcap_100s :: "f64 option"
  pm_mcap_180s :: "f64 option"
  pm_mcap_240s :: "f64 option"
  pm_mcap_300s :: "f64 option"
  pm_mcap_5m :: "f64 option"
  pm_mcap_10m :: "f64 option"
  pm_mcap_15m :: "f64 option"
  pm_mcap_30m :: "f64 option"
  pm_max_mcap :: "f64 option"
  pm_min_mcap :: "f64 option"
  pm_time_to_max_secs :: "i64 option"
  pm_time_to_min_secs :: "i64 option"
  pm_pct_10s :: "f64 option"
  pm_pct_30s :: "f64 option"
  pm_pct_50s :: "f64 option"
  pm_pct_70s :: "f64 option"
  pm_pct_100s :: "f64 option"
  pm_pct_180s :: "f64 option"
  pm_pct_240s :: "f64 option"
  pm_pct_300s :: "f64 option"
  pm_pct_5m :: "f64 option"
  pm_pct_10m :: "f64 option"
  pm_pct_15m :: "f64 option"
  pm_pct_30m :: "f64 option"
  pm_max_pct :: "f64 option"
  pm_min_pct :: "f64 option"

definition i64_of_secs :: "u64 \<Rightarrow> i64" where
  "i64_of_secs s = (if unat s < 2 ^ 63 then s else 0x7FFFFFFFFFFFFFFF)"

definition from_samples :: "f64 \<Rightarrow> post_exit_samples \<Rightarrow> post_exit_metrics" where
  "from_samples exit_mcap_sol s =
     (let m300 = ps_mcap_300s s; pct = pct_from_exit exit_mcap_sol
      in \<lparr>pm_mcap_10s = ps_mcap_10s s, pm_mcap_30s = ps_mcap_30s s, pm_mcap_50s = ps_mcap_50s s,
          pm_mcap_70s = ps_mcap_70s s, pm_mcap_100s = ps_mcap_100s s, pm_mcap_180s = ps_mcap_180s s,
          pm_mcap_240s = ps_mcap_240s s, pm_mcap_300s = m300, pm_mcap_5m = m300, pm_mcap_10m = ps_mcap_10m s,
          pm_mcap_15m = ps_mcap_15m s, pm_mcap_30m = ps_mcap_30m s, pm_max_mcap = ps_max_mcap s,
          pm_min_mcap = ps_min_mcap s,
          pm_time_to_max_secs = map_option i64_of_secs (ps_time_to_max_secs s),
          pm_time_to_min_secs = map_option i64_of_secs (ps_time_to_min_secs s),
          pm_pct_10s = pct (ps_mcap_10s s), pm_pct_30s = pct (ps_mcap_30s s), pm_pct_50s = pct (ps_mcap_50s s),
          pm_pct_70s = pct (ps_mcap_70s s), pm_pct_100s = pct (ps_mcap_100s s),
          pm_pct_180s = pct (ps_mcap_180s s), pm_pct_240s = pct (ps_mcap_240s s), pm_pct_300s = pct m300,
          pm_pct_5m = pct m300, pm_pct_10m = pct (ps_mcap_10m s), pm_pct_15m = pct (ps_mcap_15m s),
          pm_pct_30m = pct (ps_mcap_30m s), pm_max_pct = pct (ps_max_mcap s), pm_min_pct = pct (ps_min_mcap s)\<rparr>)"

section \<open>The market cap of an open position\<close>

datatype mcap_source = FromBonding | FromJupiter

definition sample_post_exit_mcap ::
  "'w chain \<Rightarrow> address \<Rightarrow> string \<Rightarrow> ('w, (f64 \<times> mcap_source) option) io" where
  "sample_post_exit_mcap ch mint mint_str =
     io_bind (probe_bonding_mcap_sol ch mint) (\<lambda>r. case r of
       Some mcap \<Rightarrow> ret (Some (mcap, FromBonding))
     | None \<Rightarrow> io_bind (jupiter_implied_mcap_sol ch mint_str) (\<lambda>j.
                ret (map_option (\<lambda>mcap. (mcap, FromJupiter)) j)))"

definition OPEN_EXIT_JUPITER_DIVERGENCE_RATIO :: f64 where
  "OPEN_EXIT_JUPITER_DIVERGENCE_RATIO = f64_of (85 / 100)"

definition usable_only :: "f64 option \<Rightarrow> f64 option" where
  "usable_only x = (case x of None \<Rightarrow> None | Some m \<Rightarrow> if usable_mcap m then Some m else None)"

definition decide_open_exit_mcap :: "f64 option \<Rightarrow> f64 option \<Rightarrow> f64 \<Rightarrow> bool \<Rightarrow> f64 \<times> bool" where
  "decide_open_exit_mcap bonding jupiter pool_raw_mcap force_jupiter =
     (if force_jupiter then
        (case usable_only jupiter of
           Some j \<Rightarrow> (j, True)
         | None \<Rightarrow> (case usable_only bonding of Some b \<Rightarrow> (b, True) | None \<Rightarrow> (pool_raw_mcap, True)))
      else
        (case (usable_only jupiter, usable_only bonding) of
           (Some j, Some b) \<Rightarrow>
             if j < b * OPEN_EXIT_JUPITER_DIVERGENCE_RATIO then (j, True) else (b, False)
         | (Some j, None) \<Rightarrow> if bonding = None then (j, True) else (pool_raw_mcap, False)
         | (None, Some b) \<Rightarrow> (b, False)
         | (None, None) \<Rightarrow> (pool_raw_mcap, False)))"

definition resolve_open_exit_mcap ::
  "'w chain \<Rightarrow> address \<Rightarrow> string \<Rightarrow> f64 \<Rightarrow> bool \<Rightarrow> ('w, f64 \<times> bool) io" where
  "resolve_open_exit_mcap ch mint mint_str pool_raw_mcap force_jupiter =
     io_bind (probe_bonding_mcap_sol ch mint) (\<lambda>bonding.
     io_bind (jupiter_implied_mcap_sol ch mint_str) (\<lambda>jupiter.
     ret (decide_open_exit_mcap bonding jupiter pool_raw_mcap force_jupiter)))"

section \<open>The task after an exit\<close>

record post_exit_run =
  pr_samples :: post_exit_samples
  pr_bonding :: u32
  pr_jupiter :: u32
  pr_missed :: u32

definition sleep_until :: "'w chain \<Rightarrow> u64 \<Rightarrow> u64 \<Rightarrow> ('w, unit) io" where
  "sleep_until ch elapsed target_secs =
     (if elapsed < target_secs then sleep ch (secs (unat (target_secs - elapsed))) else ret ())"

definition note_sample :: "u64 \<Rightarrow> (f64 \<times> mcap_source) option \<Rightarrow> post_exit_run \<Rightarrow> post_exit_run" where
  "note_sample checkpoint r p = (case r of
     None \<Rightarrow> p\<lparr>pr_missed := pr_missed p + 1\<rparr>
   | Some (mcap, source) \<Rightarrow>
       let p1 = p\<lparr>pr_samples := set_checkpoint checkpoint mcap (pr_samples p)\<rparr>
       in (case source of
             FromBonding \<Rightarrow> p1\<lparr>pr_bonding := pr_bonding p1 + 1\<rparr>
           | FromJupiter \<Rightarrow> p1\<lparr>pr_jupiter := pr_jupiter p1 + 1\<rparr>))"

primrec track_checkpoints ::
  "'w chain \<Rightarrow> address \<Rightarrow> string \<Rightarrow> nat \<Rightarrow> u64 list \<Rightarrow> post_exit_run \<Rightarrow> ('w, post_exit_run) io" where
  "track_checkpoints ch mint mint_str started [] p = ret p"
| "track_checkpoints ch mint mint_str started (c # cs) p =
     io_bind (now ch) (\<lambda>n.
     io_bind (sleep_until ch (of_nat ((n - started) div 1000000000)) c) (\<lambda>_.
     io_bind (sample_post_exit_mcap ch mint mint_str) (\<lambda>r.
     track_checkpoints ch mint mint_str started cs (note_sample c r p))))"

definition post_exit_start :: "f64 \<Rightarrow> post_exit_run" where
  "post_exit_start exit_mcap_sol =
     \<lparr>pr_samples = record_exit_baseline exit_mcap_sol post_exit_samples_default,
      pr_bonding = 0, pr_jupiter = 0, pr_missed = 0\<rparr>"

text \<open>The task; \<open>None\<close> when the mint is not an address and nothing is saved.\<close>

definition post_exit_tracking :: "'w chain \<Rightarrow> string \<Rightarrow> f64 \<Rightarrow> ('w, post_exit_metrics option) io" where
  "post_exit_tracking ch mint exit_mcap_sol = (case lb_parse_addr (ch_lib ch) mint of
     None \<Rightarrow> ret None
   | Some mint_addr \<Rightarrow>
       io_bind (now ch) (\<lambda>started.
       io_bind (track_checkpoints ch mint_addr mint started POST_EXIT_CHECKPOINT_SECS
         (post_exit_start exit_mcap_sol)) (\<lambda>p.
       ret (Some (from_samples exit_mcap_sol (pr_samples p))))))"

end
