(* ===== verification/Post_Exit_Laws.thy ===== *)
theory Post_Exit_Laws
  imports Post_Exit
begin

text \<open>
  What the tracker after an exit and the market cap of open positions guarantee: the extrema and
  their times are those of the usable samples, the task always ends, and a market cap of Jupiter is
  taken for an open position only under the stated conditions. An error page that is cut inside a
  character makes both tasks panic.
\<close>

section \<open>Extrema\<close>

text \<open>
  \<open>attained worse xs m t\<close>: \<open>m\<close> at time \<open>t\<close> is the first of the best samples of \<open>xs\<close>, or there are none.
\<close>

definition attained :: "(f64 \<Rightarrow> f64 \<Rightarrow> bool) \<Rightarrow> (u64 \<times> f64) list \<Rightarrow> f64 option \<Rightarrow> u64 option \<Rightarrow> bool" where
  "attained worse xs m t = (case m of
     None \<Rightarrow> xs = [] \<and> t = None
   | Some v \<Rightarrow> \<exists>pre c post. t = Some c \<and> xs = pre @ (c, v) # post \<and>
       list_all (\<lambda>(_, v'). worse v' v) pre \<and> list_all (\<lambda>(_, v'). \<not> worse v v') post)"

lemma attained_first: "attained worse [(c, v)] (Some v) (Some c)"
  unfolding attained_def by (simp, rule exI[of _ "[]"]) simp

lemma attained_None: "attained worse xs None t \<longleftrightarrow> xs = [] \<and> t = None"
  by (simp add: attained_def)

lemma attained_better:
  assumes "attained worse xs (Some v) t" "worse v w"
    "\<And>x y z. worse x y \<Longrightarrow> worse y z \<Longrightarrow> worse x z"
    "\<And>x. x \<in> snd ` set xs \<Longrightarrow> \<not> worse v x \<Longrightarrow> worse x w"
  shows "attained worse (xs @ [(c, w)]) (Some w) (Some c)"
proof -
  obtain pre c' post where p: "xs = pre @ (c', v) # post" "list_all (\<lambda>(_, v'). worse v' v) pre"
    "list_all (\<lambda>(_, v'). \<not> worse v v') post"
    using assms(1) by (auto simp: attained_def)
  have "list_all (\<lambda>(_, v'). worse v' w) xs"
    using p assms(2-4) by (fastforce simp: list_all_iff)
  then show ?thesis unfolding attained_def by (simp, intro exI[of _ xs] exI[of _ "[]"]) simp
qed

lemma attained_kept:
  assumes "attained worse xs (Some v) t" "\<not> worse v w"
  shows "attained worse (xs @ [(c, w)]) (Some v) t"
proof -
  obtain pre c' post where p: "t = Some c'" "xs = pre @ (c', v) # post" "list_all (\<lambda>(_, v'). worse v' v) pre"
    "list_all (\<lambda>(_, v'). \<not> worse v v') post"
    using assms(1) by (auto simp: attained_def)
  then show ?thesis unfolding attained_def
    by (simp, intro exI[of _ pre] exI[of _ "post @ [(c, w)]"]) (simp add: assms(2))
qed

definition extrema_of :: "(u64 \<times> f64) list \<Rightarrow> post_exit_samples \<Rightarrow> bool" where
  "extrema_of xs s \<longleftrightarrow> list_all (\<lambda>(_, m). usable_mcap m) xs \<and>
     attained (<) xs (ps_max_mcap s) (ps_time_to_max_secs s) \<and>
     attained (\<lambda>x y. y < x) xs (ps_min_mcap s) (ps_time_to_min_secs s)"

lemma attained_best_usable: "attained worse xs (Some v) t \<Longrightarrow> list_all (\<lambda>(_, m). usable_mcap m) xs \<Longrightarrow> usable_mcap v"
  by (auto simp: attained_def)

lemma usable_total: "usable_mcap x \<Longrightarrow> usable_mcap y \<Longrightarrow> \<not> x < y \<longleftrightarrow> y \<le> x"
  by (auto simp: usable_mcap_def is_finite_iff)

lemma extrema_update:
  assumes "extrema_of xs s" "usable_mcap m"
  shows "extrema_of (xs @ [(c, m)]) (update_extrema c m s)"
proof -
  have u: "\<And>x. x \<in> snd ` set xs \<Longrightarrow> usable_mcap x"
    using assms(1) by (auto simp: extrema_of_def list_all_iff)
  have mx: "attained (<) (xs @ [(c, m)]) (ps_max_mcap (update_max c m s)) (ps_time_to_max_secs (update_max c m s))"
  proof (cases "ps_max_mcap s")
    case None
    then have "xs = []" using assms(1) by (simp add: extrema_of_def attained_None)
    then show ?thesis using None by (simp add: update_max_def attained_first)
  next
    case (Some v)
    then have a: "attained (<) xs (Some v) (ps_time_to_max_secs s)" and v: "usable_mcap v"
      using assms(1) attained_best_usable by (fastforce simp: extrema_of_def)+
    show ?thesis
    proof (cases "v < m")
      case True
      from attained_better[OF a True] u v show ?thesis
        by (simp add: update_max_def Some True) (meson f64_le_less_trans f64_order_trans f64_less_imp_le usable_total True)
    qed (use attained_kept[OF a] Some in \<open>simp add: update_max_def\<close>)
  qed
  have mn: "attained (\<lambda>x y. y < x) (xs @ [(c, m)]) (ps_min_mcap (update_min c m s)) (ps_time_to_min_secs (update_min c m s))"
  proof (cases "ps_min_mcap s")
    case None
    then have "xs = []" using assms(1) by (simp add: extrema_of_def attained_None)
    then show ?thesis using None by (simp add: update_min_def attained_first)
  next
    case (Some v)
    then have a: "attained (\<lambda>x y. y < x) xs (Some v) (ps_time_to_min_secs s)" and v: "usable_mcap v"
      using assms(1) attained_best_usable by (fastforce simp: extrema_of_def)+
    show ?thesis
    proof (cases "m < v")
      case True
      from attained_better[OF a True] u v show ?thesis
        by (simp add: update_min_def Some True) (meson f64_less_le_trans f64_order_trans f64_less_imp_le usable_total True)
    qed (use attained_kept[OF a] Some in \<open>simp add: update_min_def\<close>)
  qed
  have eq: "ps_max_mcap (update_extrema c m s) = ps_max_mcap (update_max c m s)"
    "ps_time_to_max_secs (update_extrema c m s) = ps_time_to_max_secs (update_max c m s)"
    "ps_min_mcap (update_extrema c m s) = ps_min_mcap (update_min c m s)"
    "ps_time_to_min_secs (update_extrema c m s) = ps_time_to_min_secs (update_min c m s)"
    by (simp_all add: update_extrema_def update_min_def update_max_def split: option.splits)
  show ?thesis using mx mn assms by (simp add: extrema_of_def eq)
qed

lemma store_checkpoint_extrema [simp]:
  "ps_max_mcap (store_checkpoint c m s) = ps_max_mcap s" "ps_min_mcap (store_checkpoint c m s) = ps_min_mcap s"
  "ps_time_to_max_secs (store_checkpoint c m s) = ps_time_to_max_secs s"
  "ps_time_to_min_secs (store_checkpoint c m s) = ps_time_to_min_secs s"
  by (simp_all add: store_checkpoint_def)

lemma extrema_store [simp]: "extrema_of xs (store_checkpoint c m s) = extrema_of xs s"
  by (simp add: extrema_of_def)

lemma usable_iff: "\<not> (\<not> is_finite m \<or> m \<le> 0) \<longleftrightarrow> usable_mcap m"
  by (cases m) (auto simp: usable_mcap_def is_finite_iff)

lemma extrema_set_checkpoint:
  assumes "extrema_of xs s"
  shows "extrema_of (xs @ filter (\<lambda>(_, m). usable_mcap m) [(c, m)]) (set_checkpoint c m s)"
  using extrema_update[OF assms] assms usable_iff[of m] by (auto simp: set_checkpoint_def)

text \<open>The maximum and the minimum of the tracker, with their times, are those of the market cap at the
  exit and of all samples, the unusable ones left out: an extreme is one of them, first reached at the
  recorded time, and nothing is recorded when there are none.\<close>

lemma post_exit_extrema:
  "extrema_of (filter (\<lambda>(_, m). usable_mcap m) ((0, exit_mcap) # xs))
     (fold (\<lambda>(c, m). set_checkpoint c m) xs (record_exit_baseline exit_mcap post_exit_samples_default))"
proof -
  have "extrema_of [] post_exit_samples_default"
    by (simp add: extrema_of_def attained_None post_exit_samples_default_def)
  from extrema_update[OF this, of exit_mcap 0] this
  have "extrema_of (filter (\<lambda>(_, m). usable_mcap m) [(0, exit_mcap)])
      (record_exit_baseline exit_mcap post_exit_samples_default)"
    by (simp add: record_exit_baseline_def)
  moreover have "extrema_of (ys @ filter (\<lambda>(_, m). usable_mcap m) xs) (fold (\<lambda>(c, m). set_checkpoint c m) xs s)"
    if "extrema_of ys s" for ys s
    using that
  proof (induction xs arbitrary: ys s)
    case (Cons x xs)
    obtain c m where x: "x = (c, m)" by fastforce
    from Cons.IH[OF extrema_set_checkpoint[OF Cons.prems, of c m]] show ?case by (auto simp: x)
  qed simp
  ultimately show ?thesis by fastforce
qed

section \<open>Reads that may panic on a cut character\<close>

definition price_stop :: "stop \<Rightarrow> bool" where
  "price_stop e \<longleftrightarrow> e = Panics CharBoundary"

text \<open>No effects; the only panic is that of a cut character. \<open>nearly_safe\<close> computations do not fail otherwise.\<close>

definition nearly_reads :: "'w chain \<Rightarrow> ('w, 'a) io \<Rightarrow> bool" where
  "nearly_reads ch m \<longleftrightarrow> does ch m (\<lambda>_ es. es = []) (\<lambda>e es. es = [] \<and> (is_fails e \<or> price_stop e))"

definition nearly_safe :: "'w chain \<Rightarrow> ('w, 'a) io \<Rightarrow> bool" where
  "nearly_safe ch m \<longleftrightarrow> does ch m (\<lambda>_ es. es = []) (\<lambda>e es. es = [] \<and> price_stop e)"

lemma nearly_reads_reads: "reads ch m \<Longrightarrow> nearly_reads ch m"
  unfolding reads_def nearly_reads_def by (erule does_conseq) auto

lemma nearly_reads_bind: "nearly_reads ch m \<Longrightarrow> (\<And>x. nearly_reads ch (f x)) \<Longrightarrow> nearly_reads ch (io_bind m f)"
  unfolding nearly_reads_def by (erule does_bind) auto

lemma nearly_reads_truncate: "nearly_reads ch (of_outcome (truncate_log_body t n))"
proof (cases "truncate_log_body t n")
  case (Inl p)
  then have "p = CharBoundary" by (auto simp: truncate_log_body_def split: if_splits)
  then show ?thesis unfolding nearly_reads_def Inl does_def
    by (auto intro!: totalI simp: of_outcome_def price_stop_def)
next
  case (Inr x)
  then show ?thesis by (simp add: nearly_reads_reads reads_ret)
qed

lemma nearly_safe_safe: "safe ch m \<Longrightarrow> nearly_safe ch m"
  unfolding safe_def nearly_safe_def by (erule does_conseq) auto

lemma nearly_safe_bind: "nearly_safe ch m \<Longrightarrow> (\<And>x. nearly_safe ch (f x)) \<Longrightarrow> nearly_safe ch (io_bind m f)"
  unfolding nearly_safe_def by (erule does_bind) auto

lemma nearly_safe_ret: "nearly_safe ch (ret x)"
  unfolding nearly_safe_def by (rule does_ret) simp

lemma nearly_safe_ok:
  assumes "nearly_reads ch m" shows "nearly_safe ch (io_ok m)"
proof -
  have "does ch (io_try m) (\<lambda>_ es. es = []) (\<lambda>e es. es = [] \<and> price_stop e)"
    by (rule does_try) (use assms in \<open>auto simp: nearly_reads_def is_fails_def split: stop.splits elim: does_conseq\<close>)
  then show ?thesis unfolding io_ok_def nearly_safe_def by (rule does_bind) (auto intro: does_ret)
qed

lemma nearly_reads_price: "clock_advances ch \<Longrightarrow> nearly_reads ch (jupiter_fetch_price_v3 ch ids)"
  unfolding jupiter_fetch_price_v3_def Let_def
  by (rule nearly_reads_bind nearly_reads_truncate | (rule nearly_reads_reads; intro reads_intros; assumption)
      | (split if_split sum.split; intro conjI impI allI) | (rule nearly_reads_reads; rule reads_fail))+

lemma safe_probe: "clock_advances ch \<Longrightarrow> safe ch (probe_bonding_mcap_sol ch mint)"
  unfolding probe_bonding_mcap_sol_def safe_def[of ch "io_bind _ _"] Let_def
  by (rule does_bind_safe[OF safe_io_ok] does_case_option does_if does_ret
      | (intro reads_intros; assumption) | (simp; fail))+

lemmas nearly_safe_probe = nearly_safe_safe[OF safe_probe]

lemma nearly_safe_implied:
  "clock_advances ch \<Longrightarrow> nearly_safe ch (jupiter_implied_mcap_sol ch mint)"
  unfolding jupiter_implied_mcap_sol_def jupiter_implied_mcap_sol_price_v3_def
    jupiter_implied_mcap_sol_quote_def jupiter_token_decimals_def Let_def
  by (rule nearly_safe_bind nearly_safe_ret nearly_safe_ok nearly_reads_price
      | assumption | (rule nearly_reads_reads; intro reads_intros; assumption)
      | (split option.split; intro conjI impI allI))+

section \<open>The market cap of an open position\<close>

text \<open>The market cap of an open position is the pool's or a usable one of the curve or of Jupiter; where
  Jupiter is not forced, its price is taken only when the curve has none or when it is below 85 percent
  of the curve's, and the position is marked exactly then; where it is forced the position stays
  marked, and the pool's price is used only if neither source has one.\<close>

theorem open_exit_mcap_choice:
  "case decide_open_exit_mcap bonding jupiter pool_raw force of (m, use_jupiter) \<Rightarrow>
     if force then use_jupiter \<and> m = (case usable_only jupiter of Some j \<Rightarrow> j
          | None \<Rightarrow> (case usable_only bonding of Some b \<Rightarrow> b | None \<Rightarrow> pool_raw))
     else (use_jupiter \<longleftrightarrow> (\<exists>j. usable_only jupiter = Some j \<and> (bonding = None \<or>
             (\<exists>b. usable_only bonding = Some b \<and> j < b * OPEN_EXIT_JUPITER_DIVERGENCE_RATIO)))) \<and>
          (if use_jupiter then usable_only jupiter = Some m
           else m = (case usable_only bonding of Some b \<Rightarrow> b | None \<Rightarrow> pool_raw))"
proof -
  have none: "usable_only None = None" by (simp add: usable_only_def)
  have some: "bonding \<noteq> None" if "usable_only bonding = Some b" for b
    using that none by (cases bonding) auto
  show ?thesis
    by (cases "usable_only jupiter"; cases "usable_only bonding"; cases force)
      (auto simp: decide_open_exit_mcap_def none dest!: some)
qed

section \<open>The task after an exit\<close>

text \<open>The samples of a run, as pairs of checkpoint and market cap.\<close>

definition taken :: "u64 list \<Rightarrow> (f64 \<times> mcap_source) option list \<Rightarrow> (u64 \<times> f64) list" where
  "taken cs rs = List.map_filter (\<lambda>(c, r). map_option (\<lambda>(m, _). (c, m)) r) (zip cs rs)"

lemma taken_simps [simp]:
  "taken [] rs = []" "taken (c # cs) (None # rs) = taken cs rs"
  "taken (c # cs) (Some (m, src) # rs) = (c, m) # taken cs rs"
  by (simp_all add: taken_def)

lemma pr_samples_note [simp]:
  "pr_samples (note_sample c r p) = (case r of None \<Rightarrow> pr_samples p | Some (m, _) \<Rightarrow> set_checkpoint c m (pr_samples p))"
  by (auto simp: note_sample_def Let_def split: option.split mcap_source.split)

lemma safe_call: "(\<And>w. ch_now ch w \<le> ch_now ch (snd (f w))) \<Longrightarrow> safe ch (call ch f)"
  unfolding safe_def does_def
  by (intro allI totalI) (auto simp: call_def trace_at_def split: prod.split, metis order_trans snd_conv)

lemma safe_sleep: "clock_advances ch \<Longrightarrow> safe ch (sleep ch d)"
  unfolding sleep_def by (rule safe_call) (auto simp: clock_advances_def intro: add_leD1)

lemma safe_ret: "safe ch (ret x)"
  unfolding safe_def by (rule does_ret) simp

lemma safe_now: "safe ch (now ch)"
  unfolding safe_def does_def by (auto intro!: totalI exI[of _ "[]"] simp: now_def trace_at_def)

lemma does_track_checkpoints:
  assumes "clock_advances ch"
  shows "does ch (track_checkpoints ch mint ms started cs p)
     (\<lambda>p' es. es = [] \<and> (\<exists>rs. length rs = length cs \<and>
        pr_samples p' = fold (\<lambda>(c, m). set_checkpoint c m) (taken cs rs) (pr_samples p)))
     (\<lambda>e es. es = [] \<and> price_stop e)"
proof (induction cs arbitrary: p)
  case Nil
  show ?case by (simp add: does_ret)
next
  case (Cons c cs)
  have sl: "safe ch (sleep_until ch e t)" for e t
    unfolding sleep_until_def using assms by (simp add: safe_sleep safe_ret)
  have smp: "nearly_safe ch (sample_post_exit_mcap ch mint ms)"
    unfolding sample_post_exit_mcap_def
    by (rule nearly_safe_bind nearly_safe_ret nearly_safe_probe[OF assms] nearly_safe_implied[OF assms]
        | (split option.split; intro conjI impI allI))+
  show ?case unfolding track_checkpoints.simps
  proof (rule does_bind_safe[OF safe_now does_bind_safe[OF sl does_bind[OF smp[unfolded nearly_safe_def]]]])
    fix n :: nat and u :: unit and r :: "(f64 \<times> mcap_source) option" and e1 :: "effect list"
    assume "e1 = []"
    then show "does ch (track_checkpoints ch mint ms started cs (note_sample c r p))
      (\<lambda>p' es. e1 @ es = [] \<and> (\<exists>rs. length rs = length (c # cs) \<and>
         pr_samples p' = fold (\<lambda>(c, m). set_checkpoint c m) (taken (c # cs) rs) (pr_samples p)))
      (\<lambda>e es. e1 @ es = [] \<and> price_stop e)"
      by (cases r) (auto intro!: does_conseq[OF Cons.IH] intro: exI[of _ "r # rs" for rs])
  qed simp
qed

text \<open>The task after an exit always ends and hands in no transaction. Unless the mint is no address or the
  task panics on a cut character, the metrics are those of the samples it took, at most one for each
  of the eleven checkpoints; maximum and minimum, with their times, are the first best of the market
  cap at the exit and of these samples, the unusable ones left out.\<close>

theorem post_exit_tracking_sound:
  assumes "clock_advances ch"
  shows "does ch (post_exit_tracking ch mint exit_mcap)
     (\<lambda>r es. es = [] \<and> (case r of
        None \<Rightarrow> lb_parse_addr (ch_lib ch) mint = None
      | Some pm \<Rightarrow> \<exists>rs s. length rs = 11 \<and> pm = from_samples exit_mcap s \<and>
          s = fold (\<lambda>(c, m). set_checkpoint c m) (taken POST_EXIT_CHECKPOINT_SECS rs)
                (record_exit_baseline exit_mcap post_exit_samples_default) \<and>
          extrema_of (filter (\<lambda>(_, m). usable_mcap m) ((0, exit_mcap) # taken POST_EXIT_CHECKPOINT_SECS rs)) s))
     (\<lambda>e es. es = [] \<and> e = Panics CharBoundary)"
proof (cases "lb_parse_addr (ch_lib ch) mint")
  case None
  then show ?thesis by (simp add: post_exit_tracking_def does_ret)
next
  case (Some a)
  have len: "length POST_EXIT_CHECKPOINT_SECS = 11" by (simp add: POST_EXIT_CHECKPOINT_SECS_def)
  show ?thesis unfolding post_exit_tracking_def Some option.case
    by (rule does_bind_safe[OF safe_now does_bind[OF does_track_checkpoints[OF assms]]])
      (auto intro!: does_ret exI post_exit_extrema simp: len post_exit_start_def price_stop_def simp del: filter.simps)
qed

lemma post_exit_tracking_sound_witness:
  "does demo_chain (post_exit_tracking demo_chain ''mint'' (Fin 80))
     (\<lambda>r es. es = [] \<and> (case r of
        None \<Rightarrow> lb_parse_addr (ch_lib demo_chain) ''mint'' = None
      | Some pm \<Rightarrow> \<exists>rs s. length rs = 11 \<and> pm = from_samples (Fin 80) s \<and>
          s = fold (\<lambda>(c, m). set_checkpoint c m) (taken POST_EXIT_CHECKPOINT_SECS rs)
                (record_exit_baseline (Fin 80) post_exit_samples_default) \<and>
          extrema_of (filter (\<lambda>(_, m). usable_mcap m) ((0, Fin 80) # taken POST_EXIT_CHECKPOINT_SECS rs)) s))
     (\<lambda>e es. es = [] \<and> e = Panics CharBoundary)"
  by (rule post_exit_tracking_sound[OF demo_clock_advances])

section \<open>A cut character\<close>

lemma does_bind_known:
  assumes "\<And>w. fst (f w) = x" "\<And>w. ch_now ch w \<le> ch_now ch (snd (f w))" "does ch (g x) Q R"
  shows "does ch (io_bind (call ch f) g) Q R"
proof (rule does_bind[where M = "\<lambda>y es. y = x \<and> es = []" and ?R1.0 = "\<lambda>_ _. False"])
  have "\<exists>s'. call ch f s = Some (Inr x, s') \<and> lv_effects s' = lv_effects s \<and> lv_world s' = snd (f (lv_world s))" for s
    using assms(1)[of "lv_world s"] by (cases "f (lv_world s)") (auto simp: call_def Let_def split: prod.split)
  then show "does ch (call ch f) (\<lambda>y es. y = x \<and> es = []) (\<lambda>_ _. False)"
    unfolding does_def by (intro allI totalI) (force simp: trace_at_def intro: order_trans[OF _ assms(2)])
qed (use assms(3) in auto)

definition panics_only :: "'w chain \<Rightarrow> ('w, 'a) io \<Rightarrow> bool" where
  "panics_only ch m \<longleftrightarrow> does ch m (\<lambda>_ _. False) (\<lambda>e es. e = Panics CharBoundary \<and> es = [])"

lemma panics_only_bind: "panics_only ch m \<Longrightarrow> panics_only ch (io_bind m f)"
  unfolding panics_only_def by (erule does_bind) auto

lemma panics_only_safe: "safe ch m \<Longrightarrow> (\<And>x. panics_only ch (f x)) \<Longrightarrow> panics_only ch (io_bind m f)"
  unfolding panics_only_def by (rule does_bind_safe)

lemma panics_only_ok: "panics_only ch m \<Longrightarrow> panics_only ch (io_ok m)"
  unfolding io_ok_def by (rule panics_only_bind) (auto simp: panics_only_def intro!: does_try elim: does_conseq)

lemma panics_only_outcome: "panics_only ch (of_outcome (Inl CharBoundary))"
  unfolding panics_only_def does_def by (auto intro!: totalI simp: of_outcome_def)

text \<open>C16. When the price service answers with an error page and byte 200 or 400 of a longer page lies inside
  a character of several bytes, the poll for an open position panics instead of falling back to the
  quote or to the pool: its refresh is never sent.\<close>

theorem price_error_page_panics:
  fixes ch :: "'w chain"
  assumes "clock_advances ch" "\<And>r w. fst (ch_http ch r w) = Inr page"
    and "\<not> is_success (hp_status page)"
    and "(200 < length (body_text page) \<and> \<not> char_boundary (body_text page) 200) \<or>
         (400 < length (body_text page) \<and> \<not> char_boundary (body_text page) 400)"
  shows "does ch (resolve_open_exit_mcap ch mint ms pool_raw force)
     (\<lambda>_ _. False) (\<lambda>e es. e = Panics CharBoundary \<and> es = [])"
proof -
  have clock: "ch_now ch w \<le> ch_now ch (snd (ch_http ch r w))" for r w
    using assms(1) by (simp add: clock_advances_def)
  have cut: "panics_only ch (io_bind (of_outcome (truncate_log_body (body_text page) 400)) (\<lambda>_.
      io_bind (of_outcome (truncate_log_body (body_text page) 200)) f))" for f :: "string \<Rightarrow> ('w, json) io"
    using assms(4) by (auto simp: truncate_log_body_def intro!: panics_only_bind panics_only_outcome)
  have "panics_only ch (jupiter_fetch_price_v3 ch ids)" for ids
    unfolding jupiter_fetch_price_v3_def call_or_def Let_def JUPITER_PRICE_LOG_BODY_MAX_def panics_only_def
    by (rule does_bind[where M = "\<lambda>y es. y = page \<and> es = []" and ?R1.0 = "\<lambda>_ _. False"],
        rule does_bind_known[OF assms(2) clock])
      (use assms(3) cut in \<open>auto simp: panics_only_def intro!: does_ret\<close>)
  then have "panics_only ch (jupiter_implied_mcap_sol ch ms)"
    unfolding jupiter_implied_mcap_sol_def jupiter_implied_mcap_sol_price_v3_def
    by (intro panics_only_bind panics_only_ok)
  then have "panics_only ch (resolve_open_exit_mcap ch mint ms pool_raw force)"
    unfolding resolve_open_exit_mcap_def
    by (intro panics_only_safe[OF safe_probe[OF assms(1)]] panics_only_bind)
  then show ?thesis by (simp add: panics_only_def)
qed

definition error_page :: http_response where
  "error_page = \<lparr>hp_status = 403, hp_body = Inr (replicate 199 (CHR ''x'') @ [CHR 0xC3, CHR 0xA9])\<rparr>"

definition error_chain :: "nat chain" where
  "error_chain = demo_chain\<lparr>ch_http := \<lambda>_ w. (Inr error_page, w)\<rparr>"

lemma price_error_page_panics_witness:
  "does error_chain (resolve_open_exit_mcap error_chain 3 ''mint'' (Fin 160) False)
     (\<lambda>_ _. False) (\<lambda>e es. e = Panics CharBoundary \<and> es = [])"
proof (rule price_error_page_panics)
  show "clock_advances error_chain"
    by (simp add: clock_advances_def error_chain_def demo_chain_def)
  show "\<And>r w. fst (ch_http error_chain r w) = Inr error_page" by (simp add: error_chain_def)
  show "\<not> is_success (hp_status error_page)" by (simp add: error_page_def is_success_def)
  have "(replicate 199 (CHR ''x'') @ [CHR 0xC3, CHR 0xA9]) ! 200 = CHR 0xA9"
    by (simp only: nth_append length_replicate) simp
  then show "(200 < length (body_text error_page) \<and> \<not> char_boundary (body_text error_page) 200) \<or>
      (400 < length (body_text error_page) \<and> \<not> char_boundary (body_text error_page) 400)"
    by (simp add: error_page_def body_text_def char_boundary_def)
qed

end
