(* ===== verification/Performance.thy ===== *)
theory Performance
  imports Positions
begin

text \<open>
  Model of \<^verbatim>\<open>src/autobuy/performance_tracker.rs\<close>: the baseline that statistics of developers are compared
  with, its decay, the actor around it, one turn per message, and the actor that keeps the statistics
  of the developers of created tokens.
\<close>

section \<open>The tracker\<close>

record perf_tracker =
  pt_creator_filter :: creator_statistics
  pt_threshold :: f64
  pt_best_market_cap :: f64

definition default_floor :: creator_statistics where
  "default_floor = \<lparr>median_market_cap = Native (amount_from_float_native (Fin 50)), trader_pnl_average = Fin 5,
     total_holders_average = 30, average_volume = Fin 50, median_total_trades = 40,
     average_unique_buy_to_sell_ratio = 0,
     average_buy_trader_size = Native (amount_from_float_native (Fin 1)), total_coins = 0\<rparr>"

definition perf_new :: "f64 \<Rightarrow> perf_tracker" where
  "perf_new threshold = \<lparr>pt_creator_filter = default_floor, pt_threshold = threshold, pt_best_market_cap = 0\<rparr>"

definition DECAY :: f64 where "DECAY = f64_of (9 / 10)"

definition decay_f64 :: "f64 \<Rightarrow> f64 \<Rightarrow> f64" where
  "decay_f64 x low = f64_max (x * DECAY) low"

definition decay_u64 :: "u64 \<Rightarrow> u64 \<Rightarrow> u64" where
  "decay_u64 x low = max (f64_to_word (word_to_f64 x * DECAY)) low"

definition decay_currency :: "currency \<Rightarrow> currency \<Rightarrow> currency" where
  "decay_currency x low = Native (amount_from_float_native
     (decay_f64 (amount_to_float (currency_amount x)) (amount_to_float (currency_amount low))))"

definition decay_filter :: "creator_statistics \<Rightarrow> creator_statistics" where
  "decay_filter c = c\<lparr>
     trader_pnl_average := decay_f64 (trader_pnl_average c) (trader_pnl_average default_floor),
     total_holders_average := decay_u64 (total_holders_average c) (total_holders_average default_floor),
     average_volume := decay_f64 (average_volume c) (average_volume default_floor),
     median_total_trades := decay_u64 (median_total_trades c) (median_total_trades default_floor),
     average_unique_buy_to_sell_ratio :=
       decay_f64 (average_unique_buy_to_sell_ratio c) (average_unique_buy_to_sell_ratio default_floor),
     median_market_cap := decay_currency (median_market_cap c) (median_market_cap default_floor),
     average_buy_trader_size := decay_currency (average_buy_trader_size c) (average_buy_trader_size default_floor)\<rparr>"

definition decay_baseline :: "perf_tracker \<Rightarrow> perf_tracker" where
  "decay_baseline t = t\<lparr>pt_best_market_cap := decay_f64 (pt_best_market_cap t) 0,
     pt_creator_filter := decay_filter (pt_creator_filter t)\<rparr>"

definition set_filter :: "creator_statistics \<Rightarrow> perf_tracker \<Rightarrow> perf_tracker" where
  "set_filter stats t = t\<lparr>pt_creator_filter := stats\<rparr>"

definition perf_criteria :: "creator_statistics \<Rightarrow> creator_statistics \<Rightarrow> bool list" where
  "perf_criteria base s =
     [trader_pnl_average base \<le> trader_pnl_average s,
      total_holders_average base \<le> total_holders_average s,
      average_volume base \<le> average_volume s,
      median_total_trades base \<le> median_total_trades s,
      average_unique_buy_to_sell_ratio base \<le> average_unique_buy_to_sell_ratio s,
      amount_to_float (currency_amount (median_market_cap base))
        \<le> amount_to_float (currency_amount (median_market_cap s)),
      amount_to_float (currency_amount (average_buy_trader_size base))
        \<le> amount_to_float (currency_amount (average_buy_trader_size s))]"

definition cmp_step :: "bool \<Rightarrow> f64 \<times> f64 \<Rightarrow> f64 \<times> f64" where
  "cmp_step met st = (if met then fst st + 1 else fst st, snd st + 1)"

definition perf_compare :: "creator_statistics \<Rightarrow> perf_tracker \<Rightarrow> bool" where
  "perf_compare stats t =
     (let (score, total) = fold cmp_step (perf_criteria (pt_creator_filter t) stats) (0, 0)
      in pt_threshold t \<le> (if total = 0 then 0 else score / total))"

section \<open>The actors\<close>

datatype tracker_message =
    TmCompare creator_statistics
  | GetBestMarketCap
  | SetFilter creator_statistics
  | TryUpdateAth f64 creator_statistics

datatype tracker_reply = BoolReply bool | CapReply f64 | NoTrackerReply

text \<open>The state of the actor: the tracker and the number of comparisons since the last decay (an \<^verbatim>\<open>i32\<close> below 100).\<close>

fun tracker_turn :: "tracker_message \<Rightarrow> perf_tracker \<times> int \<Rightarrow> (perf_tracker \<times> int) \<times> tracker_reply" where
  "tracker_turn (TmCompare stats) (t, n) =
     (let n1 = n + 1;
          (t', n') = (if 100 \<le> n1 then (decay_baseline t, 0) else (t, n1))
      in ((t', n'), BoolReply (perf_compare stats t')))"
| "tracker_turn GetBestMarketCap (t, n) =
     ((t, n), CapReply (amount_to_float (currency_amount (median_market_cap (pt_creator_filter t)))))"
| "tracker_turn (SetFilter stats) (t, n) = ((set_filter stats t, n), NoTrackerReply)"
| "tracker_turn (TryUpdateAth market_cap stats) (t, n) =
     (if pt_best_market_cap t < market_cap
      then ((set_filter stats (t\<lparr>pt_best_market_cap := market_cap\<rparr>), n), BoolReply True)
      else ((t, n), BoolReply False))"

primrec tracker_run :: "tracker_message list \<Rightarrow> perf_tracker \<times> int \<Rightarrow> (perf_tracker \<times> int) \<times> tracker_reply list" where
  "tracker_run [] s = (s, [])"
| "tracker_run (m # ms) s =
     (let (s1, r) = tracker_turn m s; (s2, rs) = tracker_run ms s1 in (s2, r # rs))"

datatype registry_message = SaveStats address creator_statistics | GetStats address

fun registry_turn ::
  "registry_message \<Rightarrow> (address \<Rightarrow> creator_statistics option)
     \<Rightarrow> (address \<Rightarrow> creator_statistics option) \<times> creator_statistics option" where
  "registry_turn (SaveStats a stats) m = (m(a \<mapsto> stats), None)"
| "registry_turn (GetStats a) m = (m, m a)"

section \<open>Comparisons\<close>

lemma cmp_steps:
  assumes "length bs + k + m \<le> 100"
  shows "fold cmp_step bs (Fin (of_nat k), Fin (of_nat (k + m))) =
    (Fin (of_nat (k + length (filter id bs))), Fin (of_nat (k + m + length bs)))"
  using assms
proof (induction bs arbitrary: k m)
  case (Cons b bs)
  have plus: "Fin (of_nat j) + 1 = Fin (of_nat (Suc j))" if "j < 100" for j
  proof -
    have "Fin (of_nat j) + 1 = f64_of (of_nat (Suc j))" by (simp add: plus_f64_def one_f64_def add.commute)
    also have "\<dots> = Fin (of_nat (Suc j))" using that by (intro f64_of_nat) simp
    finally show ?thesis .
  qed
  show ?case
  proof (cases b)
    case True
    then show ?thesis using Cons.prems Cons.IH[of "Suc k" m] plus[of k] plus[of "k + m"] by (simp add: cmp_step_def)
  next
    case False
    then show ?thesis using Cons.prems Cons.IH[of k "Suc m"] plus[of "k + m"] by (simp add: cmp_step_def)
  qed
qed simp

lemma perf_compare_count:
  "perf_compare s t \<longleftrightarrow>
     pt_threshold t \<le> f64_of (of_nat (length (filter id (perf_criteria (pt_creator_filter t) s))) / 7)"
proof -
  have len: "length (perf_criteria (pt_creator_filter t) s) = 7" by (simp add: perf_criteria_def)
  have "fold cmp_step (perf_criteria (pt_creator_filter t) s) (0, 0) =
      (Fin (of_nat (length (filter id (perf_criteria (pt_creator_filter t) s)))), Fin 7)"
    using cmp_steps[of "perf_criteria (pt_creator_filter t) s" 0 0] by (simp add: len zero_f64_def)
  then show ?thesis by (simp add: perf_compare_def)
qed

text \<open>With the threshold 0.8 of the shipped program a developer passes exactly when at least six of the
  seven statistics reach the baseline.\<close>

theorem shipped_tracker_needs_six:
  "perf_compare s (t\<lparr>pt_threshold := f64_of (8 / 10)\<rparr>) \<longleftrightarrow>
     6 \<le> length (filter id (perf_criteria (pt_creator_filter t) s))"
proof -
  let ?n = "length (filter id (perf_criteria (pt_creator_filter t) s))"
  have "(f64_of (8 / 10) \<le> f64_of (of_nat ?n / 7)) \<longleftrightarrow> 6 \<le> ?n"
  proof
    assume "6 \<le> ?n"
    then have "(6 :: rat) \<le> of_nat ?n" using of_nat_le_iff[of 6 ?n, where 'a = rat] by simp
    then show "f64_of (8 / 10) \<le> f64_of (of_nat ?n / 7)" by (intro f64_of_mono) simp
  next
    assume le: "f64_of (8 / 10) \<le> f64_of (of_nat ?n / 7)"
    have e: "f64_of (25 / 32) = Fin (25 / 32)" "f64_of (3 / 4) = Fin (3 / 4)"
      using rnd_exact[of 25 "- 5"] rnd_exact[of 3 "- 2"] by (simp_all add: f64_of_exact power_int_minus_divide)
    show "6 \<le> ?n"
    proof (rule ccontr)
      assume "\<not> 6 \<le> ?n"
      then have "of_nat ?n \<le> (5 :: rat)" using of_nat_le_iff[of ?n 5, where 'a = rat] by simp
      then have "f64_of (of_nat ?n / 7) \<le> f64_of (3 / 4)" by (intro f64_of_mono) simp
      moreover have "f64_of (25 / 32) \<le> f64_of (8 / 10)" by (intro f64_of_mono) simp
      ultimately have "Fin (25 / 32) \<le> Fin (3 / 4)" using le by (metis e f64_le_trans)
      then show False by simp
    qed
  qed
  then show ?thesis by (simp add: perf_compare_count)
qed

section \<open>Decay\<close>

lemma decay_f64_ge: "low \<noteq> NaN \<Longrightarrow> low \<le> decay_f64 x low"
  unfolding decay_f64_def by (rule f64_max_ge2)

lemma f64_round_ge: "Fin (of_nat n) \<le> x \<Longrightarrow> Fin (of_nat n) \<le> f64_round x"
proof (cases x)
  case (Fin q)
  assume "Fin (of_nat n) \<le> x"
  then have q: "of_nat n \<le> q" by (simp add: Fin)
  have "int n \<le> \<lfloor>q + 1 / 2\<rfloor>" using q by (simp add: le_floor_iff)
  then have "(of_nat n :: rat) \<le> of_int \<lfloor>q + 1 / 2\<rfloor>" by (metis of_int_le_iff of_int_of_nat_eq)
  moreover have "0 \<le> q" using q of_nat_0_le_iff[of n, where 'a = rat] by linarith
  ultimately show ?thesis by (simp add: Fin f64_round_def)
qed (auto simp: f64_round_def)

lemma f64_to_word_ge:
  assumes "Fin (of_nat n) \<le> x" "n < 2 ^ LENGTH('n)"
  shows "n \<le> unat (f64_to_word x :: 'n::len word)"
proof (cases x)
  case (Fin q)
  then have q: "of_nat n \<le> q" using assms(1) by simp
  then have fl: "int n \<le> \<lfloor>q\<rfloor>" by (simp add: le_floor_iff)
  have pos: "\<not> q < 0" using q of_nat_0_le_iff[of n, where 'a = rat] by linarith
  show ?thesis
  proof (cases "2 ^ LENGTH('n) \<le> \<lfloor>q\<rfloor>")
    case True
    then show ?thesis using assms(2) pos
      by (simp add: Fin f64_to_word_def unsigned_minus_1_eq_mask mask_eq_exp_minus_1)
  next
    case False
    have "unat (of_int \<lfloor>q\<rfloor> :: 'n word) = nat \<lfloor>q\<rfloor>"
    proof -
      have "\<lfloor>q\<rfloor> mod 2 ^ LENGTH('n) = \<lfloor>q\<rfloor>" using False pos by (intro mod_pos_pos_trivial) auto
      then show ?thesis by (simp add: unat_eq_nat_uint uint_word_of_int_eq take_bit_eq_mod)
    qed
    then show ?thesis using False pos fl by (simp add: Fin f64_to_word_def)
  qed
next
  case PInf
  then show ?thesis using assms(2)
    by (simp add: f64_to_word_def unsigned_minus_1_eq_mask mask_eq_exp_minus_1)
qed (use assms(1) in auto)

lemma native_raw_ge:
  assumes "Fin (of_nat n) \<le> v" "n * 1000000000 < 2 ^ 53"
  shows "n * 1000000000 \<le> unat (amt_value (amount_from_float_native v))"
proof -
  have p: "word_to_f64 (pow10_u64 9) = Fin (10 ^ 9)" by (simp add: pow10_f64)
  have "Fin (of_nat n) * Fin (10 ^ 9) = f64_of (of_nat (n * 1000000000))" by (simp add: times_f64_def)
  also have "\<dots> = Fin (of_nat (n * 1000000000))" using assms(2) by (intro f64_of_nat) simp
  finally have "Fin (of_nat (n * 1000000000)) \<le> v * Fin (10 ^ 9)"
    using f64_times_mono[OF assms(1), of "Fin (10 ^ 9)"] by (simp add: is_finite_iff)
  then show ?thesis using assms(2)
    by (auto simp: amount_from_float_native_def Let_def p intro!: f64_to_word_ge f64_round_ge)
qed

lemma native_to_float:
  assumes "n * 1000000000 < 2 ^ 50"
  shows "amount_to_float (amount_from_float_native (Fin (of_nat n))) = Fin (of_nat n)"
proof -
  let ?m = "n * 1000000000"
  have p: "word_to_f64 (pow10_u64 9) = Fin (10 ^ 9)" by (simp add: pow10_f64)
  have "Fin (of_nat n) * Fin (10 ^ 9) = f64_of (of_nat ?m)" by (simp add: times_f64_def)
  also have "\<dots> = Fin (of_nat ?m)" using assms by (intro f64_of_nat) simp
  finally have m: "Fin (of_nat n) * Fin (10 ^ 9) = Fin (of_nat ?m)" .
  have "f64_round (Fin (of_nat ?m)) = Fin (of_nat ?m)"
    using f64_round_near[of "of_nat ?m" "int ?m"] by (simp del: of_nat_mult)
  then have raw: "amount_from_float_native (Fin (of_nat n)) = \<lparr>amt_value = of_nat ?m, amt_decimals = 9\<rparr>"
    using assms unfolding amount_from_float_native_def Let_def p m by (simp add: f64_to_word_of_nat del: of_nat_mult)
  have "unat (of_nat ?m :: u64) = ?m" using assms by (simp add: unat_of_nat take_bit_nat_eq_self del: of_nat_mult)
  then have "word_to_f64 (of_nat ?m :: u64) = Fin (of_nat ?m)"
    using word_to_f64_exact[of "of_nat ?m :: u64"] assms by (simp del: of_nat_mult)
  then have "amount_to_float (amount_from_float_native (Fin (of_nat n))) = Fin (of_nat ?m) / Fin (10 ^ 9)"
    by (simp add: amount_to_float_def raw p del: of_nat_mult)
  also have "\<dots> = f64_of (of_nat n)" by simp
  also have "\<dots> = Fin (of_nat n)" using assms by (intro f64_of_nat) simp
  finally show ?thesis .
qed

lemma decay_currency_ge:
  assumes "n * 1000000000 < 2 ^ 53"
    and "amount_to_float (currency_amount low) = Fin (of_nat n)"
  shows "n * 1000000000 \<le> unat (currency_raw (decay_currency x low))"
  unfolding decay_currency_def currency_raw_def
  using decay_f64_ge[of "Fin (of_nat n)"] assms by (auto intro!: native_raw_ge)

text \<open>A decay never drops the baseline below its floor, whatever the statistics were: each count, average
  and ratio, and both amounts in lamports.\<close>

theorem decay_keeps_floor:
  "case pt_creator_filter (decay_baseline t) of c \<Rightarrow>
     Fin 5 \<le> trader_pnl_average c \<and> 30 \<le> total_holders_average c \<and> Fin 50 \<le> average_volume c \<and>
     40 \<le> median_total_trades c \<and> 0 \<le> average_unique_buy_to_sell_ratio c \<and>
     50000000000 \<le> unat (currency_raw (median_market_cap c)) \<and>
     1000000000 \<le> unat (currency_raw (average_buy_trader_size c)) \<and>
     0 \<le> pt_best_market_cap (decay_baseline t)"
proof -
  have lows: "amount_to_float (currency_amount (median_market_cap default_floor)) = Fin (of_nat 50)"
    "amount_to_float (currency_amount (average_buy_trader_size default_floor)) = Fin (of_nat 1)"
    using native_to_float[of 50] native_to_float[of 1] by (simp_all add: default_floor_def one_f64_def)
  show ?thesis
    using decay_f64_ge[of "Fin 5"] decay_f64_ge[of "Fin 50"] decay_f64_ge[of 0]
      decay_currency_ge[OF _ lows(1)] decay_currency_ge[OF _ lows(2)]
    by (simp add: decay_baseline_def decay_filter_def decay_u64_def default_floor_def zero_f64_def)
qed

section \<open>The turns of the tracker\<close>

lemma tracker_run_compares:
  assumes "0 \<le> n" "n < 100"
  shows "fst (tracker_run (map TmCompare ss) (t, n)) =
    ((decay_baseline ^^ nat ((n + int (length ss)) div 100)) t, (n + int (length ss)) mod 100)"
  using assms
proof (induction ss arbitrary: t n)
  case Nil
  then show ?case by simp
next
  case (Cons s ss)
  show ?case
  proof (cases "100 \<le> n + 1")
    case True
    then have n: "n = 99" using Cons.prems by simp
    have "nat ((99 + (1 + int (length ss))) div 100) = Suc (nat (int (length ss) div 100))"
      by (simp add: nat_div_distrib div_add_self1 algebra_simps)
    then show ?thesis using Cons.IH[of 0 "decay_baseline t"]
      by (auto simp: n Let_def funpow_swap1 fst_def split: prod.splits)
  next
    case False
    then show ?thesis using Cons.IH[of "n + 1" t] Cons.prems
      by (auto simp: Let_def algebra_simps fst_def split: prod.splits)
  qed
qed

text \<open>The actor decays its baseline at every hundredth comparison and at no other: after a series of
  comparisons it has decayed once for every full hundred, and it has counted the rest.\<close>

theorem tracker_decays_every_hundredth:
  "fst (tracker_run (map TmCompare ss) (perf_new th, 0)) =
    ((decay_baseline ^^ (length ss div 100)) (perf_new th), int (length ss mod 100))"
  using tracker_run_compares[of 0 ss "perf_new th"] by (simp add: nat_div_distrib zmod_int zdiv_int)

end
