(* ===== verification/Feed_Metrics.thy ===== *)
theory Feed_Metrics
  imports Amounts Machines
begin

text \<open>
  Model of \<^verbatim>\<open>src/feed/metrics.rs\<close>: the counters of a feed and of the bot with their snapshots, and the
  two bounded memories of transaction signatures (the monitor of the rates is in \<open>Feed_Health\<close>).
  Counters are 64-bit and wrap; the clock is an argument.

  Both memories interpret the locale \<open>fifo_memory\<close>: they know exactly the last keys they have accepted.
\<close>

section \<open>Counters of a feed\<close>

record feed_metrics =
  fm_name :: string
  fm_subscribed :: u64
  fm_reconnects :: u64
  fm_idle_reconnects :: u64
  fm_stream_errors :: u64
  fm_messages :: u64
  fm_events :: u64
  fm_parse_errors :: u64
  fm_err_logs :: u64
  fm_bytes_in :: u64
  fm_dropped_failed_tx :: u64
  fm_dropped_no_program_data :: u64
  fm_dropped_self_dup :: u64
  fm_duplicates_cross_feed :: u64
  fm_lines_total :: u64
  fm_lines_program_data :: u64
  fm_last_message_unix :: u64
  fm_started_unix :: u64

text \<open>A snapshot has the counters and what is computed from them.\<close>

record feed_snapshot = feed_metrics +
  fs_uptime_secs :: u64
  fs_msg_per_sec_avg :: f64
  fs_events_per_sec_avg :: f64
  fs_bytes_per_sec_avg :: f64
  fs_useful_msg_ratio :: f64
  fs_events_per_msg_total :: f64

definition feed_metrics_new :: "string \<Rightarrow> u64 \<Rightarrow> feed_metrics" where
  "feed_metrics_new name now = \<lparr>fm_name = name, fm_subscribed = 0, fm_reconnects = 0,
     fm_idle_reconnects = 0, fm_stream_errors = 0, fm_messages = 0, fm_events = 0, fm_parse_errors = 0,
     fm_err_logs = 0, fm_bytes_in = 0, fm_dropped_failed_tx = 0, fm_dropped_no_program_data = 0,
     fm_dropped_self_dup = 0, fm_duplicates_cross_feed = 0, fm_lines_total = 0,
     fm_lines_program_data = 0, fm_last_message_unix = 0, fm_started_unix = now\<rparr>"

definition note_subscribed :: "feed_metrics \<Rightarrow> feed_metrics" where
  "note_subscribed m = m\<lparr>fm_subscribed := fm_subscribed m + 1\<rparr>"

definition note_reconnect :: "feed_metrics \<Rightarrow> feed_metrics" where
  "note_reconnect m = m\<lparr>fm_reconnects := fm_reconnects m + 1\<rparr>"

definition note_idle_reconnect :: "feed_metrics \<Rightarrow> feed_metrics" where
  "note_idle_reconnect m = m\<lparr>fm_idle_reconnects := fm_idle_reconnects m + 1\<rparr>"

definition note_stream_error :: "feed_metrics \<Rightarrow> feed_metrics" where
  "note_stream_error m = m\<lparr>fm_stream_errors := fm_stream_errors m + 1\<rparr>"

definition note_message :: "u64 \<Rightarrow> u64 \<Rightarrow> feed_metrics \<Rightarrow> feed_metrics" where
  "note_message now bytes m = m\<lparr>fm_messages := fm_messages m + 1, fm_bytes_in := fm_bytes_in m + bytes,
     fm_last_message_unix := now\<rparr>"

definition note_event :: "feed_metrics \<Rightarrow> feed_metrics" where
  "note_event m = m\<lparr>fm_events := fm_events m + 1\<rparr>"

definition note_parse_error :: "feed_metrics \<Rightarrow> feed_metrics" where
  "note_parse_error m = m\<lparr>fm_parse_errors := fm_parse_errors m + 1\<rparr>"

definition note_err_log :: "feed_metrics \<Rightarrow> feed_metrics" where
  "note_err_log m = m\<lparr>fm_err_logs := fm_err_logs m + 1\<rparr>"

definition note_dropped_failed_tx :: "feed_metrics \<Rightarrow> feed_metrics" where
  "note_dropped_failed_tx m = m\<lparr>fm_dropped_failed_tx := fm_dropped_failed_tx m + 1\<rparr>"

definition note_dropped_no_program_data :: "feed_metrics \<Rightarrow> feed_metrics" where
  "note_dropped_no_program_data m = m\<lparr>fm_dropped_no_program_data := fm_dropped_no_program_data m + 1\<rparr>"

definition note_dropped_self_dup :: "feed_metrics \<Rightarrow> feed_metrics" where
  "note_dropped_self_dup m = m\<lparr>fm_dropped_self_dup := fm_dropped_self_dup m + 1\<rparr>"

definition note_cross_dup :: "feed_metrics \<Rightarrow> feed_metrics" where
  "note_cross_dup m = m\<lparr>fm_duplicates_cross_feed := fm_duplicates_cross_feed m + 1\<rparr>"

definition add_lines :: "u64 \<Rightarrow> u64 \<Rightarrow> feed_metrics \<Rightarrow> feed_metrics" where
  "add_lines n program_data m = m\<lparr>fm_lines_total := fm_lines_total m + n,
     fm_lines_program_data := fm_lines_program_data m + program_data\<rparr>"

lemmas note_defs = note_subscribed_def note_reconnect_def note_idle_reconnect_def note_stream_error_def
  note_message_def note_event_def note_parse_error_def note_err_log_def note_dropped_failed_tx_def
  note_dropped_no_program_data_def note_dropped_self_dup_def note_cross_dup_def add_lines_def

definition processed_after_prefilter :: "feed_metrics \<Rightarrow> u64" where
  "processed_after_prefilter m =
     max (saturating_sub (saturating_sub (saturating_sub (fm_messages m) (fm_dropped_failed_tx m))
       (fm_dropped_no_program_data m)) (fm_dropped_self_dup m)) 1"

definition feed_snapshot_of :: "u64 \<Rightarrow> feed_metrics \<Rightarrow> feed_snapshot" where
  "feed_snapshot_of now m =
     (let uptime = max (saturating_sub now (fm_started_unix m)) 1
      in feed_metrics.extend m (feed_snapshot.fields uptime
           (word_to_f64 (fm_messages m) / word_to_f64 uptime)
           (word_to_f64 (fm_events m) / word_to_f64 uptime)
           (word_to_f64 (fm_bytes_in m) / word_to_f64 uptime)
           (word_to_f64 (fm_events m) / word_to_f64 (processed_after_prefilter m))
           (word_to_f64 (fm_events m) / word_to_f64 (max (fm_messages m) 1))))"

section \<open>Counters of the bot\<close>

record bot_counters =
  bc_creates_total :: u64
  bc_creates_no_history :: u64
  bc_creates_filter_rejected :: u64
  bc_creates_passed_filter :: u64
  bc_spam_dev_skipped :: u64
  bc_score_skipped :: u64
  bc_score_a :: u64
  bc_score_a_plus :: u64
  bc_score_b :: u64
  bc_continuation_skipped :: u64
  bc_parabolic_skipped :: u64
  bc_strategy_blocked :: u64
  bc_positions_initiated :: u64
  bc_fresh_watchlist_added :: u64
  bc_fresh_watchlist_passed :: u64
  bc_fresh_watchlist_rejected :: u64

record bot_metrics = bot_counters +
  bm_started_unix :: u64

record bot_snapshot = bot_counters +
  bs_uptime_secs :: u64

definition bot_metrics_new :: "u64 \<Rightarrow> bot_metrics" where
  "bot_metrics_new now = \<lparr>bc_creates_total = 0, bc_creates_no_history = 0, bc_creates_filter_rejected = 0,
     bc_creates_passed_filter = 0, bc_spam_dev_skipped = 0, bc_score_skipped = 0, bc_score_a = 0,
     bc_score_a_plus = 0, bc_score_b = 0, bc_continuation_skipped = 0, bc_parabolic_skipped = 0,
     bc_strategy_blocked = 0, bc_positions_initiated = 0, bc_fresh_watchlist_added = 0,
     bc_fresh_watchlist_passed = 0, bc_fresh_watchlist_rejected = 0, bm_started_unix = now\<rparr>"

definition bot_snapshot_of :: "u64 \<Rightarrow> bot_metrics \<Rightarrow> bot_snapshot" where
  "bot_snapshot_of now m = bot_counters.extend (bot_counters.truncate m)
     (bot_snapshot.fields (max (saturating_sub now (bm_started_unix m)) 1))"

text \<open>The methods \<^verbatim>\<open>note_*\<close>, one constructor each.\<close>

datatype bot_note = NoteCreate | NoteNoHistory | NoteFilterRejected | NotePassedFilter | NoteSpamDevSkip
  | NoteScoreSkip | NoteScoreA | NoteScoreAPlus | NoteScoreB | NoteContinuationSkip | NoteParabolicSkip
  | NoteStrategyBlocked | NotePositionInitiated | NoteWatchlistAdded | NoteWatchlistPassed
  | NoteWatchlistRejected

fun note_bot :: "bot_metrics \<Rightarrow> bot_note \<Rightarrow> bot_metrics" where
  "note_bot m NoteCreate = m\<lparr>bc_creates_total := bc_creates_total m + 1\<rparr>"
| "note_bot m NoteNoHistory = m\<lparr>bc_creates_no_history := bc_creates_no_history m + 1\<rparr>"
| "note_bot m NoteFilterRejected = m\<lparr>bc_creates_filter_rejected := bc_creates_filter_rejected m + 1\<rparr>"
| "note_bot m NotePassedFilter = m\<lparr>bc_creates_passed_filter := bc_creates_passed_filter m + 1\<rparr>"
| "note_bot m NoteSpamDevSkip = m\<lparr>bc_spam_dev_skipped := bc_spam_dev_skipped m + 1\<rparr>"
| "note_bot m NoteScoreSkip = m\<lparr>bc_score_skipped := bc_score_skipped m + 1\<rparr>"
| "note_bot m NoteScoreA = m\<lparr>bc_score_a := bc_score_a m + 1\<rparr>"
| "note_bot m NoteScoreAPlus = m\<lparr>bc_score_a_plus := bc_score_a_plus m + 1\<rparr>"
| "note_bot m NoteScoreB = m\<lparr>bc_score_b := bc_score_b m + 1\<rparr>"
| "note_bot m NoteContinuationSkip = m\<lparr>bc_continuation_skipped := bc_continuation_skipped m + 1\<rparr>"
| "note_bot m NoteParabolicSkip = m\<lparr>bc_parabolic_skipped := bc_parabolic_skipped m + 1\<rparr>"
| "note_bot m NoteStrategyBlocked = m\<lparr>bc_strategy_blocked := bc_strategy_blocked m + 1\<rparr>"
| "note_bot m NotePositionInitiated = m\<lparr>bc_positions_initiated := bc_positions_initiated m + 1\<rparr>"
| "note_bot m NoteWatchlistAdded = m\<lparr>bc_fresh_watchlist_added := bc_fresh_watchlist_added m + 1\<rparr>"
| "note_bot m NoteWatchlistPassed = m\<lparr>bc_fresh_watchlist_passed := bc_fresh_watchlist_passed m + 1\<rparr>"
| "note_bot m NoteWatchlistRejected = m\<lparr>bc_fresh_watchlist_rejected := bc_fresh_watchlist_rejected m + 1\<rparr>"

section \<open>Bounded memories of signatures\<close>

record self_dedup =
  sd_capacity :: nat
  sd_order :: "string list"
  sd_seen :: "string set"

definition self_dedup_new :: "nat \<Rightarrow> self_dedup" where
  "self_dedup_new capacity = \<lparr>sd_capacity = capacity, sd_order = [], sd_seen = {}\<rparr>"

text \<open>\<open>evict capacity order\<close>: the queue after making room, and what was taken out of it.\<close>

definition evict :: "nat \<Rightarrow> 'k list \<Rightarrow> 'k list \<times> 'k option" where
  "evict capacity order =
     (if capacity \<le> length order
      then (case order of [] \<Rightarrow> ([], None) | old # rest \<Rightarrow> (rest, Some old))
      else (order, None))"

definition check_and_remember :: "self_dedup \<Rightarrow> string \<Rightarrow> bool \<times> self_dedup" where
  "check_and_remember d signature =
     (if signature \<in> sd_seen d then (True, d)
      else let (order, out) = evict (sd_capacity d) (sd_order d);
               seen = (case out of None \<Rightarrow> sd_seen d | Some old \<Rightarrow> sd_seen d - {old})
           in (False, d\<lparr>sd_order := order @ [signature], sd_seen := insert signature seen\<rparr>))"

record signature_dedup =
  sg_capacity :: nat
  sg_order :: "string list"
  sg_owner :: "string \<Rightarrow> string option"

definition signature_dedup_new :: "nat \<Rightarrow> signature_dedup" where
  "signature_dedup_new capacity = \<lparr>sg_capacity = capacity, sg_order = [], sg_owner = Map.empty\<rparr>"

definition observe :: "signature_dedup \<Rightarrow> string \<Rightarrow> string \<Rightarrow> bool \<times> signature_dedup" where
  "observe d signature feed =
     (case sg_owner d signature of
        Some prev \<Rightarrow> (prev \<noteq> feed, d)
      | None \<Rightarrow>
          let (order, out) = evict (sg_capacity d) (sg_order d);
              owner = (case out of None \<Rightarrow> sg_owner d | Some old \<Rightarrow> (sg_owner d)(old := None))
          in (False, d\<lparr>sg_order := order @ [signature], sg_owner := owner(signature \<mapsto> feed)\<rparr>))"

text \<open>
  The contract of both: a key that is known changes nothing, a fresh one is appended to the queue, at
  the cost of its first element when the queue is full.
\<close>

definition push_window :: "nat \<Rightarrow> 'k list \<Rightarrow> 'k \<Rightarrow> 'k list" where
  "push_window capacity w k = (if k \<in> set w then w else fst (evict capacity w) @ [k])"

lemma fst_evict: "fst (evict c w) = (if c \<le> length w then tl w else w)"
  by (cases w) (auto simp: evict_def)

lemma snd_evict: "snd (evict c w) = (if c \<le> length w \<and> w \<noteq> [] then Some (hd w) else None)"
  by (cases w) (auto simp: evict_def)

lemma push_window_distinct: "distinct w \<Longrightarrow> distinct (push_window c w k)"
  by (cases w) (auto simp: push_window_def fst_evict)

lemma push_window_length: "length w \<le> max 1 c \<Longrightarrow> length (push_window c w k) \<le> max 1 c"
  by (cases w) (auto simp: push_window_def fst_evict)

locale fifo_memory =
  fixes capacity :: "'s \<Rightarrow> nat" and order :: "'s \<Rightarrow> 'k list" and known :: "'s \<Rightarrow> 'k set"
    and remember :: "'s \<Rightarrow> 'e \<Rightarrow> 's" and key :: "'e \<Rightarrow> 'k"
  assumes capacity_remember: "capacity (remember s e) = capacity s"
    and order_remember: "known s = set (order s) \<Longrightarrow> order (remember s e) = push_window (capacity s) (order s) (key e)"
    and known_remember: "known s = set (order s) \<Longrightarrow> distinct (order s) \<Longrightarrow>
      known (remember s e) = set (push_window (capacity s) (order s) (key e))"
begin

lemma run_window:
  "known s = set (order s) \<Longrightarrow> distinct (order s) \<Longrightarrow>
   order (foldl remember s es) = foldl (push_window (capacity s)) (order s) (map key es)
   \<and> known (foldl remember s es) = set (order (foldl remember s es))
   \<and> distinct (order (foldl remember s es))
   \<and> capacity (foldl remember s es) = capacity s"
proof (induction es arbitrary: s)
  case (Cons e es)
  have "known (remember s e) = set (order (remember s e))" "distinct (order (remember s e))"
    using Cons.prems by (simp_all add: order_remember known_remember push_window_distinct)
  note IH = Cons.IH[OF this, unfolded order_remember[OF Cons.prems(1)] capacity_remember]
  then show ?case by (elim conjE) simp
qed simp

end

lemma set_evict_insert:
  "K = set w \<Longrightarrow> distinct w \<Longrightarrow>
     insert k (case snd (evict c w) of None \<Rightarrow> K | Some old \<Rightarrow> K - {old}) = insert k (set (fst (evict c w)))"
  by (cases w) (auto simp: fst_evict snd_evict)

interpretation self_memory: fifo_memory sd_capacity sd_order sd_seen "\<lambda>d s. snd (check_and_remember d s)" id
  by unfold_locales (simp_all add: check_and_remember_def push_window_def set_evict_insert split_def Let_def)

lemma dom_evict:
  "dom (case out of None \<Rightarrow> m | Some old \<Rightarrow> m(old := None)) = (case out of None \<Rightarrow> dom m | Some old \<Rightarrow> dom m - {old})"
  by (cases out) auto

interpretation shared_memory: fifo_memory sg_capacity sg_order "\<lambda>d. dom (sg_owner d)"
  "\<lambda>d (s, feed). snd (observe d s feed)" fst
proof unfold_locales
  fix d :: signature_dedup and e :: "string \<times> string"
  obtain s feed where e: "e = (s, feed)" by (cases e)
  show "sg_capacity (case e of (s, feed) \<Rightarrow> snd (observe d s feed)) = sg_capacity d"
    by (simp add: e observe_def split_def Let_def split: option.split)
  assume k: "dom (sg_owner d) = set (sg_order d)"
  then have mem: "s \<in> set (sg_order d) \<longleftrightarrow> sg_owner d s \<noteq> None" by (auto simp: domIff)
  show "sg_order (case e of (s, feed) \<Rightarrow> snd (observe d s feed)) = push_window (sg_capacity d) (sg_order d) (fst e)"
    using mem by (auto simp: e observe_def split_def Let_def push_window_def split: option.split)
  assume dist: "distinct (sg_order d)"
  show "dom (sg_owner (case e of (s, feed) \<Rightarrow> snd (observe d s feed))) =
      set (push_window (sg_capacity d) (sg_order d) (fst e))"
  proof (cases "sg_owner d s")
    case None
    then show ?thesis using mem set_evict_insert[OF k dist, of s "sg_capacity d"]
      by (simp add: e observe_def split_def Let_def push_window_def dom_evict)
  qed (use mem k in \<open>simp add: e observe_def push_window_def\<close>)
qed

text \<open>
  Of the shared memory: it knows the owners of the last signatures, and the owner is the feed that saw
  the signature first.
\<close>

lemma shared_memory_window:
  "sg_order (foldl (\<lambda>d (s, feed). snd (observe d s feed)) (signature_dedup_new c) es) =
     foldl (push_window c) [] (map fst es)
   \<and> dom (sg_owner (foldl (\<lambda>d (s, feed). snd (observe d s feed)) (signature_dedup_new c) es)) =
     set (foldl (push_window c) [] (map fst es))"
  using shared_memory.run_window[of "signature_dedup_new c" es] by (simp add: signature_dedup_new_def)

text \<open>
  \<open>fresh_keys c w ks\<close>: the keys of \<open>ks\<close> that are not in the window when they come, the window being \<open>w\<close> at
  the start. The window holds the last of them, at least one and at most \<open>c\<close>.
\<close>

fun fresh_keys :: "nat \<Rightarrow> 'k list \<Rightarrow> 'k list \<Rightarrow> 'k list" where
  "fresh_keys c w [] = []"
| "fresh_keys c w (k # ks) =
     (if k \<in> set w then fresh_keys c w ks else k # fresh_keys c (push_window c w k) ks)"

definition recent :: "nat \<Rightarrow> 'a list \<Rightarrow> 'a list" where
  "recent n xs = drop (length xs - n) xs"

lemma recent_recent_append: "recent n (recent n xs @ ys) = recent n (xs @ ys)"
  by (cases "length xs \<le> n") (simp_all add: recent_def add.commute)

lemma recent_all: "length xs \<le> n \<Longrightarrow> recent n xs = xs"
  by (simp add: recent_def)

lemma push_window_recent:
  assumes "length w \<le> max 1 c" "k \<notin> set w" shows "push_window c w k = recent (max 1 c) (w @ [k])"
proof (cases "c \<le> length w")
  case True
  then show ?thesis using assms
    by (cases w) (auto simp: push_window_def fst_evict recent_def max_def split: if_splits)
next
  case False
  then show ?thesis using assms by (simp add: push_window_def fst_evict recent_def)
qed

lemma window_is_recent:
  "length w \<le> max 1 c \<Longrightarrow> foldl (push_window c) w ks = recent (max 1 c) (w @ fresh_keys c w ks)"
proof (induction ks arbitrary: w)
  case Nil
  then show ?case by (simp add: recent_all)
next
  case (Cons k ks)
  show ?case
  proof (cases "k \<in> set w")
    case True
    then have "push_window c w k = w" by (simp add: push_window_def)
    then show ?thesis using Cons True by simp
  next
    case False
    have "recent (max 1 c) (push_window c w k @ F) = recent (max 1 c) (w @ k # F)" for F
      by (simp only: push_window_recent[OF Cons.prems False] recent_recent_append append_assoc append.simps)
    then show ?thesis using False Cons.IH[OF push_window_length[OF Cons.prems]] by simp
  qed
qed

lemma fresh_keys_append:
  "fresh_keys c w (ks @ ks') = fresh_keys c w ks @ fresh_keys c (foldl (push_window c) w ks) ks'"
proof (induction ks arbitrary: w)
  case (Cons k ks)
  have "k \<in> set w \<Longrightarrow> push_window c w k = w" by (simp add: push_window_def)
  then show ?case using Cons by simp
qed simp

text \<open>Between two occurrences of a key among the fresh ones lie at least \<open>c\<close> others.\<close>

lemma fresh_keys_apart:
  assumes "fresh_keys c [] ks = xs @ k # ys @ k # zs" shows "max 1 c \<le> length ys"
proof -
  have split: "\<exists>ks1 ks2. ks = ks1 @ k2 # ks2 \<and> fresh_keys c w ks1 = us \<and> k2 \<notin> set (foldl (push_window c) w ks1)"
    if "fresh_keys c w ks = us @ k2 # vs" for w us k2 vs ks
    using that
  proof (induction ks arbitrary: w us)
    case (Cons a ks)
    show ?case
    proof (cases "a \<in> set w")
      case True
      then have "push_window c w a = w" by (simp add: push_window_def)
      moreover obtain ks1 ks2 where "ks = ks1 @ k2 # ks2" "fresh_keys c w ks1 = us" "k2 \<notin> set (foldl (push_window c) w ks1)"
        using Cons.IH[of w us] Cons.prems True by auto
      ultimately show ?thesis using True by (intro exI[of _ "a # ks1"] exI[of _ ks2]) simp
    next
      case False
      show ?thesis
      proof (cases us)
        case Nil
        then show ?thesis using Cons.prems False by (intro exI[of _ "[]"] exI[of _ ks]) simp
      next
        case (Cons u us')
        then have "u = a" "fresh_keys c (push_window c w a) ks = us' @ k2 # vs" using Cons.prems False by auto
        with Cons.IH[of "push_window c w a" us'] obtain ks1 ks2 where
          "ks = ks1 @ k2 # ks2" "fresh_keys c (push_window c w a) ks1 = us'"
          "k2 \<notin> set (foldl (push_window c) (push_window c w a) ks1)" by auto
        then show ?thesis using False Cons \<open>u = a\<close> by (intro exI[of _ "a # ks1"] exI[of _ ks2]) simp
      qed
    qed
  qed simp
  from split[of "[]" ks "xs @ k # ys" k zs] assms obtain ks1 where
    f: "fresh_keys c [] ks1 = xs @ k # ys" and n: "k \<notin> set (foldl (push_window c) [] ks1)" by auto
  have "k \<notin> set (recent (max 1 c) (xs @ k # ys))" using n by (simp add: window_is_recent f)
  moreover have "k \<in> set (recent (max 1 c) (xs @ k # ys))" if "length ys < max 1 c"
    using that by (simp add: recent_def)
  ultimately show ?thesis by (cases "length ys < max 1 c") auto
qed

text \<open>What the code admits: the signatures that are not reported as seen.\<close>

fun admitted :: "self_dedup \<Rightarrow> string list \<Rightarrow> string list" where
  "admitted d [] = []"
| "admitted d (s # ss) =
     (let (dup, d1) = check_and_remember d s in if dup then admitted d1 ss else s # admitted d1 ss)"

lemma admitted_fresh:
  "sd_seen d = set (sd_order d) \<Longrightarrow> distinct (sd_order d) \<Longrightarrow>
   admitted d ss = fresh_keys (sd_capacity d) (sd_order d) ss"
proof (induction ss arbitrary: d)
  case (Cons s ss)
  have "sd_seen (snd (check_and_remember d s)) = set (sd_order (snd (check_and_remember d s)))
      \<and> distinct (sd_order (snd (check_and_remember d s)))"
    using self_memory.run_window[OF Cons.prems, of "[s]"] by auto
  then show ?case using Cons.IH[of "snd (check_and_remember d s)"] Cons.prems
      self_memory.order_remember[of d s] self_memory.capacity_remember[of d s]
    by (auto simp: split_def Let_def check_and_remember_def push_window_def)
qed simp

text \<open>The memory of a feed for transactions it has seen is an exact window: a signature is admitted
  exactly when it is not among the last admitted ones, as many as the capacity says, so that it is
  processed a second time only after that many others.\<close>

theorem self_dedup_is_window:
  "admitted (self_dedup_new c) sigs = fresh_keys c [] sigs
   \<and> foldl (push_window c) [] sigs = recent (max 1 c) (admitted (self_dedup_new c) sigs)
   \<and> (\<forall>xs s ys zs. admitted (self_dedup_new c) sigs = xs @ s # ys @ s # zs \<longrightarrow> max 1 c \<le> length ys)"
proof -
  have "admitted (self_dedup_new c) sigs = fresh_keys c [] sigs"
    using admitted_fresh[of "self_dedup_new c" sigs] by (simp add: self_dedup_new_def)
  then show ?thesis using window_is_recent[of "[]" c sigs] fresh_keys_apart[of c sigs] by auto
qed

lemma self_dedup_is_window_witness:
  "admitted (self_dedup_new 2) [''a'', ''b'', ''a'', ''c'', ''a''] = [''a'', ''b'', ''c'', ''a'']"
  using self_dedup_is_window[of 2 "[''a'', ''b'', ''a'', ''c'', ''a'']"]
  by (simp add: push_window_def evict_def)

end
