(* ===== verification/Logs_Feed.thy ===== *)
theory Logs_Feed
  imports Feed_Metrics
begin

text \<open>
  Model of \<^verbatim>\<open>src/feed/logs_feed.rs\<close>: a feed subscribes to the log messages of a program, filters and
  decodes them, and sends the events to its receiver. A session of one subscription is a run over
  rounds of its loop, each given by the reading of the clock at its start and by what the awaited
  stream answered; the outer loop is a run over attempts to subscribe. The decoder (\<^verbatim>\<open>T::from_str\<close>) is a
  parameter. Sending is not delayed by a full channel; whether the receiver still exists is part of
  the state. The memory of signatures that all feeds share may be changed by the other feeds between
  two rounds.
\<close>

section \<open>One message\<close>

definition RECONNECT_BACKOFF_INITIAL_MS :: u64 where "RECONNECT_BACKOFF_INITIAL_MS = 1000"
definition RECONNECT_BACKOFF_MAX_MS :: u64 where "RECONNECT_BACKOFF_MAX_MS = 60000"
definition STREAM_USEFUL_IDLE_TIMEOUT_SECS :: nat where "STREAM_USEFUL_IDLE_TIMEOUT_SECS = 15"
definition SELF_DEDUP_CAPACITY :: nat where "SELF_DEDUP_CAPACITY = 4096"
definition PROGRAM_DATA_PREFIX :: string where "PROGRAM_DATA_PREFIX = ''Program data: ''"

record log_info =
  li_slot :: u64
  li_signature :: string
  li_err :: bool
  li_logs :: "string list"

text \<open>The state of a feed: what outlives a session, and the instant of the last useful event.\<close>

record 'e feed_state =
  fd_metrics :: feed_metrics
  fd_self_dedup :: self_dedup
  fd_dedup :: signature_dedup
  fd_receiver_open :: bool
  fd_sent :: "(u64 \<times> 'e) list"
  fd_last_event :: nat

definition feed_new :: "string \<Rightarrow> u64 \<Rightarrow> signature_dedup \<Rightarrow> 'e feed_state" where
  "feed_new name now shared = \<lparr>fd_metrics = feed_metrics_new name now,
     fd_self_dedup = self_dedup_new SELF_DEDUP_CAPACITY, fd_dedup = shared, fd_receiver_open = True,
     fd_sent = [], fd_last_event = 0\<rparr>"

definition count_metric :: "(feed_metrics \<Rightarrow> feed_metrics) \<Rightarrow> 'e feed_state \<Rightarrow> 'e feed_state" where
  "count_metric f s = s\<lparr>fd_metrics := f (fd_metrics s)\<rparr>"

definition payload_bytes :: "log_info \<Rightarrow> u64" where
  "payload_bytes li = sum_list (map (of_nat \<circ> length) (li_logs li)) + of_nat (length (li_signature li))"

definition is_program_data :: "string \<Rightarrow> bool" where
  "is_program_data line = starts_with line PROGRAM_DATA_PREFIX"

text \<open>The loop over the lines: false when the receiver is gone, which ends the session.\<close>

fun forward_lines :: "(string \<Rightarrow> 'x + 'e) \<Rightarrow> u64 \<Rightarrow> nat \<Rightarrow> string list \<Rightarrow> 'e feed_state
    \<Rightarrow> bool \<times> 'e feed_state" where
  "forward_lines parse slot now [] s = (True, s)"
| "forward_lines parse slot now (line # logs) s =
     (if \<not> is_program_data line then forward_lines parse slot now logs s
      else case parse line of
        Inr event \<Rightarrow>
          let s1 = count_metric note_event s\<lparr>fd_last_event := now\<rparr>
          in if fd_receiver_open s1
             then forward_lines parse slot now logs (s1\<lparr>fd_sent := fd_sent s1 @ [(slot, event)]\<rparr>)
             else (False, s1)
      | Inl _ \<Rightarrow> forward_lines parse slot now logs (count_metric note_parse_error s))"

definition remember_self :: "log_info \<Rightarrow> 'e feed_state \<Rightarrow> bool \<times> 'e feed_state" where
  "remember_self li s =
     (if li_signature li = [] then (False, s)
      else let (dup, d) = check_and_remember (fd_self_dedup s) (li_signature li)
           in (dup, s\<lparr>fd_self_dedup := d\<rparr>))"

definition observe_shared :: "log_info \<Rightarrow> 'e feed_state \<Rightarrow> 'e feed_state" where
  "observe_shared li s =
     (if li_signature li = [] then s
      else let (dup, d) = observe (fd_dedup s) (li_signature li) (fm_name (fd_metrics s));
               s1 = s\<lparr>fd_dedup := d\<rparr>
           in if dup then count_metric note_cross_dup s1 else s1)"

definition program_data_lines :: "log_info \<Rightarrow> nat" where
  "program_data_lines li = length (filter is_program_data (li_logs li))"

definition handle_log :: "(string \<Rightarrow> 'x + 'e) \<Rightarrow> nat \<Rightarrow> u64 \<Rightarrow> log_info \<Rightarrow> 'e feed_state
    \<Rightarrow> bool \<times> 'e feed_state" where
  "handle_log parse now unix li s =
     (let s = count_metric (note_message unix (payload_bytes li)) s
      in if li_err li then (True, count_metric (note_dropped_failed_tx \<circ> note_err_log) s)
         else let (dup, s) = remember_self li s
              in if dup then (True, count_metric note_dropped_self_dup s)
                 else let s = observe_shared li s;
                          n = program_data_lines li;
                          s = count_metric (add_lines (of_nat (length (li_logs li))) (of_nat n)) s
                      in if n = 0 then (True, count_metric note_dropped_no_program_data s)
                         else forward_lines parse (li_slot li) now (li_logs li) s)"

section \<open>A session\<close>

text \<open>What a round of the loop waited for, and how a session ends.\<close>

datatype stream_answer =
    Arrived nat u64 log_info    \<comment> \<open>a message, with the instant and the wall clock at its arrival\<close>
  | StreamEnded
  | NothingInTime

datatype session_end = IdleTriggered | ClosedByStream | ReceiverGone

definition useful_idle :: nat where
  "useful_idle = STREAM_USEFUL_IDLE_TIMEOUT_SECS * 1000"

definition session_round :: "(string \<Rightarrow> 'x + 'e) \<Rightarrow> nat \<Rightarrow> stream_answer \<Rightarrow> 'e feed_state
    \<Rightarrow> session_end option \<times> 'e feed_state" where
  "session_round parse start answer s =
     (if useful_idle \<le> start - fd_last_event s
      then (Some IdleTriggered, count_metric note_idle_reconnect s)
      else case answer of
        Arrived now unix li \<Rightarrow>
          (let (go_on, s1) = handle_log parse now unix li s
           in (if go_on then None else Some ReceiverGone, s1))
      | StreamEnded \<Rightarrow> (Some ClosedByStream, s)
      | NothingInTime \<Rightarrow> (None, s))"

text \<open>Before a round, other feeds and the receiver may have acted.\<close>

datatype 'e feed_round = Round nat stream_answer
  | OtherFeed string string   \<comment> \<open>another feed observes a signature\<close>
  | DropReceiver

fun session :: "(string \<Rightarrow> 'x + 'e) \<Rightarrow> 'e feed_round list \<Rightarrow> 'e feed_state
    \<Rightarrow> session_end option \<times> 'e feed_state" where
  "session parse [] s = (None, s)"
| "session parse (Round start answer # rs) s =
     (case session_round parse start answer s of
        (None, s1) \<Rightarrow> session parse rs s1
      | (Some e, s1) \<Rightarrow> (Some e, s1))"
| "session parse (OtherFeed signature feed # rs) s =
     session parse rs (s\<lparr>fd_dedup := snd (observe (fd_dedup s) signature feed)\<rparr>)"
| "session parse (DropReceiver # rs) s = session parse rs (s\<lparr>fd_receiver_open := False\<rparr>)"

section \<open>The outer loop\<close>

record 'e subscriber =
  su_feed :: "'e feed_state"
  su_backoff_ms :: u64
  su_failures :: u64

definition subscriber_new :: "'e feed_state \<Rightarrow> 'e subscriber" where
  "subscriber_new s = \<lparr>su_feed = s, su_backoff_ms = RECONNECT_BACKOFF_INITIAL_MS, su_failures = 0\<rparr>"

text \<open>An attempt: the connection fails, or a session starts at an instant and runs.\<close>

datatype 'e attempt = ConnectFails | Connects nat "'e feed_round list"

definition pseudo_jitter_ms :: "u64 \<Rightarrow> u64 \<Rightarrow> u64" where
  "pseudo_jitter_ms nanos span_ms = (if span_ms = 0 then 0 else nanos mod span_ms)"

definition subscribed :: "nat \<Rightarrow> 'e subscriber \<Rightarrow> 'e subscriber" where
  "subscribed now u = u\<lparr>su_feed := count_metric note_subscribed (su_feed u)\<lparr>fd_last_event := now\<rparr>,
     su_failures := 0, su_backoff_ms := RECONNECT_BACKOFF_INITIAL_MS\<rparr>"

text \<open>After an attempt: the pause before the next one, in milliseconds, and the state for it.\<close>

definition after_attempt :: "bool \<Rightarrow> u64 \<Rightarrow> 'e subscriber \<Rightarrow> u64 \<times> 'e subscriber" where
  "after_attempt ended_with_error nanos u =
     (let s = count_metric note_reconnect (su_feed u);
          s = (if ended_with_error then count_metric note_stream_error s else s);
          jitter_ms = pseudo_jitter_ms nanos (su_backoff_ms u div 4);
          sleep_ms = saturating_add (su_backoff_ms u) jitter_ms
      in (sleep_ms, u\<lparr>su_feed := s, su_failures := su_failures u + 1,
            su_backoff_ms := min (saturating_mul (su_backoff_ms u) 2) RECONNECT_BACKOFF_MAX_MS\<rparr>))"

text \<open>None: the session of the attempt is still running.\<close>

definition subscribe_attempt :: "(string \<Rightarrow> 'x + 'e) \<Rightarrow> 'e attempt \<Rightarrow> u64 \<Rightarrow> 'e subscriber
    \<Rightarrow> (u64 \<times> 'e subscriber) option" where
  "subscribe_attempt parse a nanos u =
     (case a of
        ConnectFails \<Rightarrow> Some (after_attempt True nanos u)
      | Connects now rounds \<Rightarrow>
          (let u1 = subscribed now u in
           case session parse rounds (su_feed u1) of
             (None, _) \<Rightarrow> None
           | (Some _, s) \<Rightarrow> Some (after_attempt False nanos (u1\<lparr>su_feed := s\<rparr>))))"

text \<open>The pauses of a series of attempts, each with the nanoseconds its jitter is drawn from.\<close>

fun subscribe :: "(string \<Rightarrow> 'x + 'e) \<Rightarrow> ('e attempt \<times> u64) list \<Rightarrow> 'e subscriber
    \<Rightarrow> (u64 list \<times> 'e subscriber) option" where
  "subscribe parse [] u = Some ([], u)"
| "subscribe parse ((a, nanos) # as) u =
     (case subscribe_attempt parse a nanos u of
        None \<Rightarrow> None
      | Some (ms, u1) \<Rightarrow> (case subscribe parse as u1 of
           None \<Rightarrow> None
         | Some (mss, u2) \<Rightarrow> Some (ms # mss, u2)))"

end
