(* ===== verification/Feed_Laws.thy ===== *)
theory Feed_Laws
  imports Logs_Feed
begin

text \<open>
  What a feed guarantees. The relation \<open>accounts\<close> says what any stretch of its work adds to the counters;
  it composes, so that the account of a session is that of its messages. The other lemmas follow
  the instant of the last useful event and the pause between subscriptions.
\<close>

section \<open>The account of a session\<close>

text \<open>The events of a message, and the messages that are neither failed nor seen before.\<close>

fun decoded_lines :: "(string \<Rightarrow> 'x + 'e) \<Rightarrow> u64 \<Rightarrow> string list \<Rightarrow> (u64 \<times> 'e) list" where
  "decoded_lines parse slot [] = []"
| "decoded_lines parse slot (line # logs) =
     (if is_program_data line then (case parse line of Inr e \<Rightarrow> [(slot, e)] | Inl _ \<Rightarrow> []) else [])
     @ decoded_lines parse slot logs"

definition decoded :: "(string \<Rightarrow> 'x + 'e) \<Rightarrow> log_info \<Rightarrow> (u64 \<times> 'e) list" where
  "decoded parse li = decoded_lines parse (li_slot li) (li_logs li)"

fun fresh_logs :: "self_dedup \<Rightarrow> log_info list \<Rightarrow> log_info list" where
  "fresh_logs d [] = []"
| "fresh_logs d (li # lis) =
     (if li_err li then fresh_logs d lis
      else if li_signature li = [] then li # fresh_logs d lis
      else let (dup, d1) = check_and_remember d (li_signature li)
           in if dup then fresh_logs d1 lis else li # fresh_logs d1 lis)"

text \<open>The signatures of these are the admitted ones.\<close>

lemma fresh_logs_admitted:
  "map li_signature (filter (\<lambda>li. li_signature li \<noteq> []) (fresh_logs d lis)) =
   admitted d (map li_signature (filter (\<lambda>li. \<not> li_err li \<and> li_signature li \<noteq> []) lis))"
  by (induction lis arbitrary: d) (simp_all add: split_def Let_def)

definition remember_log :: "self_dedup \<Rightarrow> log_info \<Rightarrow> self_dedup" where
  "remember_log d li =
     (if li_err li \<or> li_signature li = [] then d else snd (check_and_remember d (li_signature li)))"

lemma fresh_logs_Cons:
  "fresh_logs d (li # lis) = fresh_logs d [li] @ fresh_logs (remember_log d li) lis"
  by (auto simp: remember_log_def split_def Let_def)

text \<open>A line with program data that the decoder refuses.\<close>

definition undecodable :: "(string \<Rightarrow> 'x + 'e) \<Rightarrow> string \<Rightarrow> bool" where
  "undecodable parse line \<longleftrightarrow> is_program_data line \<and> isl (parse line)"

text \<open>What the handled messages, of which some are fresh, add to each counter. The repeated messages are
  those that are neither failed nor fresh.\<close>

definition accounts :: "(string \<Rightarrow> 'x + 'e) \<Rightarrow> feed_metrics \<Rightarrow> feed_metrics \<Rightarrow> log_info list \<Rightarrow> log_info list \<Rightarrow> bool" where
  "accounts parse m m' handled fresh \<longleftrightarrow>
     (let lines = concat (map li_logs fresh)
      in fm_messages m' = fm_messages m + of_nat (length handled) \<and>
         fm_bytes_in m' = fm_bytes_in m + sum_list (map payload_bytes handled) \<and>
         fm_dropped_failed_tx m' = fm_dropped_failed_tx m + of_nat (length (filter li_err handled)) \<and>
         fm_dropped_self_dup m' + of_nat (length (filter li_err handled) + length fresh) =
           fm_dropped_self_dup m + of_nat (length handled) \<and>
         fm_lines_total m' = fm_lines_total m + of_nat (length lines) \<and>
         fm_lines_program_data m' = fm_lines_program_data m + of_nat (length (filter is_program_data lines)) \<and>
         fm_dropped_no_program_data m' =
           fm_dropped_no_program_data m + of_nat (length (filter (\<lambda>li. program_data_lines li = 0) fresh)) \<and>
         fm_events m' = fm_events m + of_nat (length (concat (map (decoded parse) fresh))) \<and>
         fm_parse_errors m' = fm_parse_errors m + of_nat (length (filter (undecodable parse) lines)))"

lemma accounts_refl [simp]: "accounts parse m m [] []"
  by (simp add: accounts_def)

lemma accounts_trans:
  assumes "accounts parse m m1 h1 f1" "accounts parse m1 m2 h2 f2"
  shows "accounts parse m m2 (h1 @ h2) (f1 @ f2)"
proof -
  have chain: "c + (x + y) = a + (h + k)" if "b + x = a + h" "c + y = b + k" for a b c x y h k :: u64
  proof -
    have "c + (x + y) = (c + y) + x" by (simp only: ac_simps)
    also have "\<dots> = (b + x) + k" unfolding that(2) by (simp only: ac_simps)
    finally show ?thesis unfolding that(1) by (simp only: ac_simps)
  qed
  have "fm_dropped_self_dup m2 + (of_nat (length (filter li_err h1) + length f1) + of_nat (length (filter li_err h2) + length f2)) =
      fm_dropped_self_dup m + (of_nat (length h1) + of_nat (length h2))"
    using assms by (intro chain[of "fm_dropped_self_dup m1"]) (simp_all add: accounts_def Let_def)
  then have "fm_dropped_self_dup m2 + of_nat (length (filter li_err (h1 @ h2)) + length (f1 @ f2)) =
      fm_dropped_self_dup m + of_nat (length (h1 @ h2))"
    by (simp add: ac_simps)
  then show ?thesis using assms unfolding accounts_def Let_def by (elim conjE) simp
qed

lemma count_metric_simps [simp]:
  "fd_metrics (count_metric f s) = f (fd_metrics s)" "fd_sent (count_metric f s) = fd_sent s"
  "fd_self_dedup (count_metric f s) = fd_self_dedup s" "fd_receiver_open (count_metric f s) = fd_receiver_open s"
  "fd_last_event (count_metric f s) = fd_last_event s" "fd_dedup (count_metric f s) = fd_dedup s"
  by (simp_all add: count_metric_def)

text \<open>The lines of a message, with an open receiver: all are gone through.\<close>

definition lines_done :: "(string \<Rightarrow> 'x + 'e) \<Rightarrow> u64 \<Rightarrow> string list \<Rightarrow> nat \<Rightarrow> 'e feed_state \<Rightarrow> 'e feed_state \<Rightarrow> bool" where
  "lines_done parse slot logs now s s' \<longleftrightarrow>
     (let new = decoded_lines parse slot logs
      in fd_receiver_open s' \<and> fd_self_dedup s' = fd_self_dedup s \<and>
         fd_sent s' = fd_sent s @ new \<and> fd_last_event s' = (if new = [] then fd_last_event s else now) \<and>
         fd_metrics s' = (fd_metrics s)\<lparr>fm_events := fm_events (fd_metrics s) + of_nat (length new),
           fm_parse_errors := fm_parse_errors (fd_metrics s) + of_nat (length (filter (undecodable parse) logs))\<rparr>)"

lemma forward_lines_open:
  "fd_receiver_open s \<Longrightarrow> \<exists>s'. forward_lines parse slot now logs s = (True, s') \<and> lines_done parse slot logs now s s'"
proof (induction logs arbitrary: s)
  case (Cons line logs)
  consider (other) "\<not> is_program_data line" | (event) e where "is_program_data line" "parse line = Inr e"
    | (error) x where "is_program_data line" "parse line = Inl x" by (cases "parse line") auto
  then show ?case
  proof cases
    case other
    then show ?thesis using Cons.IH[OF Cons.prems] by (simp add: lines_done_def undecodable_def)
  next
    case event
    let ?s = "count_metric note_event s\<lparr>fd_last_event := now\<rparr>"
    let ?s1 = "?s\<lparr>fd_sent := fd_sent ?s @ [(slot, e)]\<rparr>"
    have "fd_receiver_open ?s1" using Cons.prems by simp
    from Cons.IH[OF this] obtain s' where "forward_lines parse slot now logs ?s1 = (True, s')"
      and "lines_done parse slot logs now ?s1 s'" by blast
    then show ?thesis using event Cons.prems
      by (intro exI[of _ s']) (auto simp: lines_done_def undecodable_def note_defs Let_def algebra_simps)
  next
    case error
    have "fd_receiver_open (count_metric note_parse_error s)" using Cons.prems by simp
    from Cons.IH[OF this] show ?thesis using error
      by (auto simp: lines_done_def undecodable_def note_defs Let_def algebra_simps)
  qed
qed (simp add: lines_done_def)

lemma no_program_lines:
  assumes "program_data_lines li = 0"
  shows "decoded parse li = []" "filter (undecodable parse) (li_logs li) = []" "filter is_program_data (li_logs li) = []"
proof -
  have "filter is_program_data logs = [] \<Longrightarrow> decoded_lines parse slot logs = [] \<and> filter (undecodable parse) logs = []" for slot logs
    by (induction logs) (auto simp: undecodable_def split: if_splits)
  then show "decoded parse li = []" "filter (undecodable parse) (li_logs li) = []" "filter is_program_data (li_logs li) = []"
    using assms by (simp_all add: program_data_lines_def decoded_def)
qed

lemma observe_shared_simps [simp]:
  "fd_sent (observe_shared li s) = fd_sent s" "fd_self_dedup (observe_shared li s) = fd_self_dedup s"
  "fd_receiver_open (observe_shared li s) = fd_receiver_open s" "fd_last_event (observe_shared li s) = fd_last_event s"
  "fm_messages (fd_metrics (observe_shared li s)) = fm_messages (fd_metrics s)"
  "fm_bytes_in (fd_metrics (observe_shared li s)) = fm_bytes_in (fd_metrics s)"
  "fm_events (fd_metrics (observe_shared li s)) = fm_events (fd_metrics s)"
  "fm_parse_errors (fd_metrics (observe_shared li s)) = fm_parse_errors (fd_metrics s)"
  "fm_dropped_failed_tx (fd_metrics (observe_shared li s)) = fm_dropped_failed_tx (fd_metrics s)"
  "fm_dropped_self_dup (fd_metrics (observe_shared li s)) = fm_dropped_self_dup (fd_metrics s)"
  "fm_dropped_no_program_data (fd_metrics (observe_shared li s)) = fm_dropped_no_program_data (fd_metrics s)"
  "fm_lines_total (fd_metrics (observe_shared li s)) = fm_lines_total (fd_metrics s)"
  "fm_lines_program_data (fd_metrics (observe_shared li s)) = fm_lines_program_data (fd_metrics s)"
  "fm_subscribed (fd_metrics (observe_shared li s)) = fm_subscribed (fd_metrics s)"
  by (auto simp: observe_shared_def split_def Let_def note_defs)

text \<open>One message, with an open receiver.\<close>

definition message_done :: "(string \<Rightarrow> 'x + 'e) \<Rightarrow> nat \<Rightarrow> log_info \<Rightarrow> 'e feed_state \<Rightarrow> 'e feed_state \<Rightarrow> bool" where
  "message_done parse now li s s' \<longleftrightarrow>
     (let fresh = fresh_logs (fd_self_dedup s) [li]; new = concat (map (decoded parse) fresh)
      in fd_receiver_open s' \<and> fd_self_dedup s' = remember_log (fd_self_dedup s) li \<and>
         fd_sent s' = fd_sent s @ new \<and> fd_last_event s' = (if new = [] then fd_last_event s else now) \<and>
         accounts parse (fd_metrics s) (fd_metrics s') [li] fresh)"

text \<open>The memory of the feed changes, and nothing else.\<close>

lemma remember_self_facts:
  assumes "remember_self li s = (dup, s1)" "\<not> li_err li"
  shows "fd_self_dedup s1 = remember_log (fd_self_dedup s) li" "fd_metrics s1 = fd_metrics s"
    "fd_sent s1 = fd_sent s" "fd_receiver_open s1 = fd_receiver_open s" "fd_last_event s1 = fd_last_event s"
    "fresh_logs (fd_self_dedup s) [li] = (if dup then [] else [li])"
  using assms by (auto simp: remember_self_def remember_log_def split_def Let_def split: if_splits)

lemma fresh_message_done:
  assumes r: "remember_self li (count_metric (note_message unix (payload_bytes li)) s) = (False, s1)"
    and ok: "\<not> li_err li" and "fd_receiver_open s"
  shows "\<exists>s'. handle_log parse now unix li s = (True, s') \<and> message_done parse now li s s'"
proof -
  note m = remember_self_facts[OF r ok]
  let ?s2 = "count_metric (add_lines (of_nat (length (li_logs li))) (of_nat (program_data_lines li))) (observe_shared li s1)"
  show ?thesis
  proof (cases "program_data_lines li = 0")
    case True
    then show ?thesis using r ok m assms(3) no_program_lines(1,2)[OF True, of parse] no_program_lines(3)[OF True]
      by (auto simp: handle_log_def message_done_def accounts_def note_defs)
  next
    case False
    have "fd_receiver_open ?s2" using m assms(3) by simp
    from forward_lines_open[OF this, of parse "li_slot li" now "li_logs li"] obtain s' where
      f: "forward_lines parse (li_slot li) now (li_logs li) ?s2 = (True, s')"
        "lines_done parse (li_slot li) (li_logs li) now ?s2 s'" by blast
    have "accounts parse (fd_metrics s) (fd_metrics s') [li] [li]"
      using f(2) ok False m(2)
      by (simp add: accounts_def lines_done_def decoded_def note_defs Let_def) (simp add: program_data_lines_def)
    then show ?thesis using False r ok f m
      by (auto simp: handle_log_def message_done_def lines_done_def decoded_def Let_def)
  qed
qed

lemma handle_log_open:
  assumes "fd_receiver_open s"
  shows "\<exists>s'. handle_log parse now unix li s = (True, s') \<and> message_done parse now li s s'"
proof (cases "li_err li")
  case True
  then show ?thesis
    by (auto simp: handle_log_def message_done_def remember_log_def accounts_def note_defs assms)
next
  case ok: False
  obtain dup s1 where r: "remember_self li (count_metric (note_message unix (payload_bytes li)) s) = (dup, s1)" by fastforce
  show ?thesis
  proof (cases dup)
    case True
    then show ?thesis using r ok remember_self_facts[OF r ok] assms
      by (auto simp: handle_log_def message_done_def accounts_def note_defs)
  next
    case False
    then show ?thesis using fresh_message_done[OF _ ok assms] r by simp
  qed
qed

text \<open>A session: the messages that were handled before it ended.\<close>

fun arrivals :: "'e feed_round list \<Rightarrow> log_info list" where
  "arrivals [] = []"
| "arrivals (Round start (Arrived now unix li) # rs) = li # arrivals rs"
| "arrivals (_ # rs) = arrivals rs"

fun keeps_receiver :: "'e feed_round \<Rightarrow> bool" where
  "keeps_receiver DropReceiver = False"
| "keeps_receiver _ = True"

definition session_done :: "(string \<Rightarrow> 'x + 'e) \<Rightarrow> log_info list \<Rightarrow> 'e feed_state \<Rightarrow> 'e feed_state \<Rightarrow> bool" where
  "session_done parse handled s s' \<longleftrightarrow>
     (let fresh = fresh_logs (fd_self_dedup s) handled; new = concat (map (decoded parse) fresh)
      in fd_receiver_open s' \<and> fd_self_dedup s' = foldl remember_log (fd_self_dedup s) handled \<and>
         fd_sent s' = fd_sent s @ new \<and> (new = [] \<longrightarrow> fd_last_event s' = fd_last_event s) \<and>
         accounts parse (fd_metrics s) (fd_metrics s') handled fresh)"

lemma session_done_Cons:
  assumes "message_done parse now li s s1" "session_done parse handled s1 s'"
  shows "session_done parse (li # handled) s s'"
proof -
  have f: "fresh_logs (fd_self_dedup s) (li # handled) =
      fresh_logs (fd_self_dedup s) [li] @ fresh_logs (fd_self_dedup s1) handled"
    using assms(1) by (simp only: fresh_logs_Cons[of _ li handled] message_done_def Let_def)
  let ?f1 = "fresh_logs (fd_self_dedup s) [li]" and ?f2 = "fresh_logs (fd_self_dedup s1) handled"
  have "accounts parse (fd_metrics s) (fd_metrics s') ([li] @ handled) (?f1 @ ?f2)"
    using assms by (intro accounts_trans[of _ _ "fd_metrics s1"]) (simp_all add: message_done_def session_done_def Let_def)
  then show ?thesis using assms unfolding session_done_def message_done_def Let_def f
    by (auto simp del: fresh_logs.simps split: if_splits)
qed

lemma session_done_Nil: "fd_receiver_open s \<Longrightarrow> session_done parse [] s s"
  by (simp add: session_done_def)

lemma session_done_metrics:
  "session_done parse handled (s\<lparr>fd_dedup := d\<rparr>) s' \<longleftrightarrow> session_done parse handled s s'"
  by (simp add: session_done_def Let_def)

lemma session_open:
  "fd_receiver_open s \<Longrightarrow> list_all keeps_receiver rounds \<Longrightarrow> session parse rounds s = (e, s') \<Longrightarrow>
   \<exists>handled rest. arrivals rounds = handled @ rest \<and> (e = None \<longrightarrow> rest = []) \<and> e \<noteq> Some ReceiverGone \<and>
     session_done parse handled s s'"
proof (induction rounds arbitrary: s)
  case Nil
  then show ?case by (auto intro: session_done_Nil)
next
  case (Cons r rounds)
  show ?case
  proof (cases r)
    case (Round start answer)
    show ?thesis
    proof (cases "useful_idle \<le> start - fd_last_event s")
      case True
      then have "e = Some IdleTriggered" "s' = count_metric note_idle_reconnect s"
        using Cons.prems(3) Round by (simp_all add: session_round_def)
      then have "session_done parse [] s s'" using Cons.prems(1)
        by (simp add: session_done_def accounts_def note_defs)
      then show ?thesis using \<open>e = Some IdleTriggered\<close> by (intro exI[of _ "[]"] exI[of _ "arrivals (r # rounds)"]) simp
    next
      case busy: False
      show ?thesis
      proof (cases answer)
        case (Arrived now unix li)
        obtain s1 where h: "handle_log parse now unix li s = (True, s1)" "message_done parse now li s s1"
          using handle_log_open[OF Cons.prems(1)] by blast
        have "session parse rounds s1 = (e, s')" "fd_receiver_open s1"
          using Cons.prems h busy Round Arrived by (simp_all add: session_round_def message_done_def Let_def)
        with Cons.IH[of s1] Cons.prems(2) obtain handled rest where
          "arrivals rounds = handled @ rest" "e = None \<longrightarrow> rest = []" "e \<noteq> Some ReceiverGone" "session_done parse handled s1 s'"
          by auto
        then show ?thesis using session_done_Cons[OF h(2)] Round Arrived
          by (intro exI[of _ "li # handled"] exI[of _ rest]) simp
      next
        case StreamEnded
        then have "e = Some ClosedByStream" "s' = s"
          using Cons.prems(3) Round busy by (simp_all add: session_round_def)
        then show ?thesis using Cons.prems(1) session_done_Nil
          by (intro exI[of _ "[]"] exI[of _ "arrivals (r # rounds)"]) simp
      next
        case NothingInTime
        then show ?thesis using Cons.IH[of s] Cons.prems Round busy by (simp add: session_round_def)
      qed
    qed
  next
    case (OtherFeed signature feed)
    then show ?thesis using Cons.IH[of "s\<lparr>fd_dedup := snd (observe (fd_dedup s) signature feed)\<rparr>"] Cons.prems
      by (simp add: session_done_metrics)
  qed (use Cons.prems in simp)
qed

text \<open>C31. While its receiver stays open, a session sends exactly the decodable events of the messages it handled
  that are neither failed nor seen before, in order, and its counters say how: the messages and their
  bytes, of the messages the failed, the repeated (which with the fresh ones are all of them) and the
  fresh ones without program data, and of the lines of the fresh ones all, those with program data, the
  decoded and the undecodable ones, each modulo 2 to the 64. The handled messages are a prefix of the
  arrived ones, and all of them while the session runs.\<close>

theorem feed_forwards_fresh_events:
  assumes "fd_receiver_open s" "list_all keeps_receiver rounds" "session parse rounds s = (e, s')"
  shows "\<exists>handled rest. arrivals rounds = handled @ rest \<and> (e = None \<longrightarrow> rest = []) \<and>
    (let fresh = fresh_logs (fd_self_dedup s) handled
     in fd_sent s' = fd_sent s @ concat (map (decoded parse) fresh) \<and>
        accounts parse (fd_metrics s) (fd_metrics s') handled fresh)"
  using session_open[OF assms] by (auto simp: session_done_def Let_def)

definition demo_feed :: "string feed_state" where
  "demo_feed = feed_new ''pump'' 0 (signature_dedup_new 10000)"

definition demo_log :: log_info where
  "demo_log = \<lparr>li_slot = 7, li_signature = ''sig'', li_err = False, li_logs = [''Program log: x'', ''Program data: y'']\<rparr>"

lemma feed_forwards_fresh_events_witness:
  fixes parse :: "string \<Rightarrow> string + string"
  defines "parse \<equiv> Inr" and "rounds \<equiv> [Round 0 (Arrived 5 100 demo_log), Round 5 (Arrived 6 101 demo_log)]"
  shows "\<exists>handled rest. arrivals rounds = handled @ rest \<and> (fst (session parse rounds demo_feed) = None \<longrightarrow> rest = []) \<and>
    (let fresh = fresh_logs (fd_self_dedup demo_feed) handled
     in fd_sent (snd (session parse rounds demo_feed)) = fd_sent demo_feed @ concat (map (decoded parse) fresh) \<and>
        accounts parse (fd_metrics demo_feed) (fd_metrics (snd (session parse rounds demo_feed))) handled fresh)"
  by (rule feed_forwards_fresh_events[OF _ _ prod.collapse[symmetric]])
    (simp_all add: rounds_def demo_feed_def feed_new_def)

section \<open>The watchdog\<close>

text \<open>Messages without an event cannot keep a dead feed alive: once fifteen seconds have passed since the
  last useful event, the next round ends the session and asks for a new subscription, whatever else
  arrived; and a round that starts earlier does not.\<close>

theorem idle_feed_reconnects:
  assumes "fd_receiver_open s" "list_all keeps_receiver rounds" "session parse rounds s = (None, s')"
    and "concat (map (decoded parse) (fresh_logs (fd_self_dedup s) (arrivals rounds))) = []"
  shows "(session parse (rounds @ [Round start answer]) s = (Some IdleTriggered, count_metric note_idle_reconnect s'))
    \<longleftrightarrow> useful_idle \<le> start - fd_last_event s"
proof -
  have run: "session parse (rounds @ rs) s = session parse rs s'" for rs
    using assms(3)
  proof (induction rounds arbitrary: s)
    case (Cons r rounds)
    then show ?case by (cases r) (auto split: prod.splits option.splits)
  qed simp
  from session_open[OF assms(1-3)] have "session_done parse (arrivals rounds) s s'" by auto
  then have open_s': "fd_receiver_open s'" and last: "fd_last_event s' = fd_last_event s"
    using assms(4) by (auto simp: session_done_def Let_def)
  show ?thesis
  proof (cases "useful_idle \<le> start - fd_last_event s")
    case True
    then show ?thesis by (simp add: run session_round_def last)
  next
    case False
    have "fst (session parse [Round start answer] s') \<noteq> Some IdleTriggered"
      using False last by (auto simp: session_round_def split: stream_answer.split prod.split if_splits)
    then show ?thesis using False by (auto simp: run)
  qed
qed

lemma idle_feed_reconnects_witness:
  "(session (Inr :: string \<Rightarrow> string + string) ([] @ [Round 15000 StreamEnded]) demo_feed =
      (Some IdleTriggered, count_metric note_idle_reconnect demo_feed)) \<longleftrightarrow> useful_idle \<le> 15000 - fd_last_event demo_feed"
  by (rule idle_feed_reconnects) (simp_all add: demo_feed_def feed_new_def)

section \<open>Pauses\<close>

definition connects :: "'e attempt \<Rightarrow> bool" where
  "connects a = (case a of ConnectFails \<Rightarrow> False | Connects _ _ \<Rightarrow> True)"

text \<open>A pause is the back-off and less than a quarter of it; the back-off doubles up to a minute.\<close>

definition backoff_ok :: "u64 \<Rightarrow> bool" where
  "backoff_ok b \<longleftrightarrow> 1000 \<le> unat b \<and> unat b \<le> 60000"

lemma pause_bounds:
  assumes "backoff_ok (su_backoff_ms u)"
  shows "unat (su_backoff_ms u) \<le> unat (fst (after_attempt err nanos u))
    \<and> 4 * unat (fst (after_attempt err nanos u)) < 5 * unat (su_backoff_ms u)
    \<and> backoff_ok (su_backoff_ms (snd (after_attempt err nanos u)))"
proof -
  let ?b = "su_backoff_ms u" and ?j = "pseudo_jitter_ms nanos (su_backoff_ms u div 4)"
  have b: "1000 \<le> unat ?b" "unat ?b \<le> 60000" using assms by (auto simp: backoff_ok_def)
  have d: "unat (?b div 4) = unat ?b div 4" by (simp add: unat_div)
  have "?b div 4 \<noteq> 0"
  proof
    assume "?b div 4 = 0"
    then have "unat ?b div 4 = 0" by (metis d unat_0)
    then show False using b by simp
  qed
  then have "unat ?j = unat nanos mod (unat ?b div 4)" by (simp add: pseudo_jitter_ms_def unat_mod d)
  then have "unat ?j < unat ?b div 4" using b by simp
  moreover have "unat (saturating_add ?b ?j) = unat ?b + unat ?j"
    using b \<open>unat ?j < unat ?b div 4\<close> by (simp add: unat_saturating_add)
  moreover have "unat (saturating_mul ?b 2) = 2 * unat ?b"
    using b by (simp add: unat_saturating_mul)
  ultimately show ?thesis using b
    by (auto simp: after_attempt_def Let_def backoff_ok_def min_def word_le_nat_alt RECONNECT_BACKOFF_MAX_MS_def)
qed

lemma attempt_pause:
  assumes "backoff_ok (su_backoff_ms u)" "subscribe_attempt parse a nanos u = Some (ms, u')"
  shows "1000 \<le> unat ms \<and> unat ms < (if connects a then 1250 else 75000) \<and> backoff_ok (su_backoff_ms u')"
proof (cases a)
  case ConnectFails
  then have "ms = fst (after_attempt True nanos u)" "u' = snd (after_attempt True nanos u)"
    using assms(2) by (auto simp: subscribe_attempt_def)
  then show ?thesis using pause_bounds[OF assms(1), of True nanos] assms(1) ConnectFails
    by (auto simp: connects_def backoff_ok_def)
next
  case (Connects now rounds)
  then obtain e s where "session parse rounds (su_feed (subscribed now u)) = (Some e, s)"
    and eq: "(ms, u') = after_attempt False nanos (subscribed now u\<lparr>su_feed := s\<rparr>)"
    using assms(2) by (auto simp: subscribe_attempt_def Let_def split: prod.splits option.splits)
  let ?u = "subscribed now u\<lparr>su_feed := s\<rparr>"
  have b: "su_backoff_ms ?u = 1000" by (simp add: subscribed_def RECONNECT_BACKOFF_INITIAL_MS_def)
  then have "backoff_ok (su_backoff_ms ?u)" by (simp add: backoff_ok_def)
  from pause_bounds[OF this, of False nanos] eq[symmetric] b Connects show ?thesis
    by (auto simp: connects_def)
qed

text \<open>Between two subscriptions of a feed lie at least one second and less than seventy-five, and less than
  one and a quarter when the last attempt connected.\<close>

theorem reconnect_pauses_bounded:
  assumes "subscribe parse as (subscriber_new s) = Some (mss, u)"
  shows "list_all2 (\<lambda>(a, nanos) ms. 1000 \<le> unat ms \<and> unat ms < (if connects a then 1250 else 75000)) as mss"
proof -
  have "list_all2 (\<lambda>(a, nanos) ms. 1000 \<le> unat ms \<and> unat ms < (if connects a then 1250 else 75000)) as mss"
    if "backoff_ok (su_backoff_ms u0)" "subscribe parse as u0 = Some (mss, u)" for u0
    using that
  proof (induction as arbitrary: u0 mss)
    case (Cons p as)
    obtain a nanos where p: "p = (a, nanos)" by fastforce
    with Cons.prems(2) obtain ms u1 mss' where step: "subscribe_attempt parse a nanos u0 = Some (ms, u1)"
      and rest: "subscribe parse as u1 = Some (mss', u)" "mss = ms # mss'"
      by (auto split: option.splits)
    note pause = attempt_pause[OF Cons.prems(1) step]
    then show ?case using Cons.IH[OF _ rest(1)] rest(2) by (simp add: p)
  qed simp
  from this[of "subscriber_new s"] show ?thesis using assms
    by (simp add: subscriber_new_def backoff_ok_def RECONNECT_BACKOFF_INITIAL_MS_def)
qed

lemma reconnect_pauses_bounded_witness:
  "list_all2 (\<lambda>(a, nanos) ms. 1000 \<le> unat ms \<and> unat ms < (if connects a then 1250 else 75000))
     [(ConnectFails :: string attempt, 7), (ConnectFails, 0 :: u64)] [1007, 2000 :: u64]"
proof -
  have "subscribe (Inr :: string \<Rightarrow> string + string) [(ConnectFails, 7), (ConnectFails, 0)] (subscriber_new demo_feed) =
      Some ([1007, 2000], snd (the (subscribe (Inr :: string \<Rightarrow> string + string)
        [(ConnectFails, 7), (ConnectFails, 0)] (subscriber_new demo_feed))))"
    by (simp add: subscribe_attempt_def after_attempt_def subscriber_new_def pseudo_jitter_ms_def Let_def
        RECONNECT_BACKOFF_INITIAL_MS_def RECONNECT_BACKOFF_MAX_MS_def saturating_add_def saturating_mul_def min_def)
  from reconnect_pauses_bounded[OF this] show ?thesis .
qed

section \<open>A receiver that is gone\<close>

text \<open>The first event ends the lines: it is counted and not delivered.\<close>

definition event_lost :: "'e feed_state \<Rightarrow> 'e feed_state \<Rightarrow> bool" where
  "event_lost s s' \<longleftrightarrow> \<not> fd_receiver_open s' \<and> fd_sent s' = fd_sent s \<and> fd_self_dedup s' = fd_self_dedup s \<and>
     fm_subscribed (fd_metrics s') = fm_subscribed (fd_metrics s) \<and>
     fm_events (fd_metrics s') = fm_events (fd_metrics s) + 1"

lemma forward_lines_closed:
  "\<not> fd_receiver_open s \<Longrightarrow> decoded_lines parse slot logs \<noteq> [] \<Longrightarrow>
   \<exists>s'. forward_lines parse slot now logs s = (False, s') \<and> event_lost s s'"
proof (induction logs arbitrary: s)
  case (Cons line logs)
  consider (other) "\<not> is_program_data line" | (event) e where "is_program_data line" "parse line = Inr e"
    | (error) x where "is_program_data line" "parse line = Inl x" by (cases "parse line") auto
  then show ?case
  proof cases
    case other
    then show ?thesis using Cons by simp
  next
    case event
    then show ?thesis using Cons.prems by (simp add: Let_def note_defs event_lost_def)
  next
    case error
    then show ?thesis using Cons.IH[of "count_metric note_parse_error s"] Cons.prems
      by (simp add: note_defs event_lost_def)
  qed
qed simp

text \<open>The first message of every session is fresh, did not fail and holds an event, and it comes before the
  feed is idle.\<close>

fun meets_events :: "(string \<Rightarrow> 'x + 'e) \<Rightarrow> self_dedup \<Rightarrow> ('e attempt \<times> u64) list \<Rightarrow> bool" where
  "meets_events parse d [] = True"
| "meets_events parse d ((Connects now (Round start (Arrived seen_at unix li) # rounds), nanos) # as) =
     (start < now + useful_idle \<and> fresh_logs d [li] = [li] \<and> decoded parse li \<noteq> [] \<and>
      meets_events parse (remember_log d li) as)"
| "meets_events parse d (_ # as) = False"

lemma handle_log_closed:
  assumes "\<not> fd_receiver_open s" "fresh_logs (fd_self_dedup s) [li] = [li]" "decoded parse li \<noteq> []"
  shows "\<exists>s'. handle_log parse now unix li s = (False, s') \<and>
    event_lost (s\<lparr>fd_self_dedup := remember_log (fd_self_dedup s) li\<rparr>) s'"
proof -
  let ?counted = "count_metric (note_message unix (payload_bytes li)) s"
  have ok: "\<not> li_err li" using assms(2) by auto
  obtain dup s1 where r: "remember_self li ?counted = (dup, s1)" by fastforce
  note m = remember_self_facts[OF r ok]
  have dup: "\<not> dup" using m(6) assms(2) by (auto simp del: fresh_logs.simps)
  have n: "program_data_lines li \<noteq> 0" using no_program_lines(1)[of li parse] assms(3) by auto
  let ?s2 = "count_metric (add_lines (of_nat (length (li_logs li))) (of_nat (program_data_lines li))) (observe_shared li s1)"
  have "\<not> fd_receiver_open ?s2" using m assms(1) by simp
  from forward_lines_closed[OF this] assms(3) obtain s3 where
    f: "forward_lines parse (li_slot li) now (li_logs li) ?s2 = (False, s3)" "event_lost ?s2 s3"
    unfolding decoded_def by blast
  have "handle_log parse now unix li s = (False, s3)"
    unfolding handle_log_def Let_def using ok n dup by (simp only: r f(1) prod.case if_False)
  moreover have "event_lost (s\<lparr>fd_self_dedup := remember_log (fd_self_dedup s) li\<rparr>) s3"
    using f(2) m by (simp add: event_lost_def note_defs)
  ultimately show ?thesis by blast
qed

text \<open>One attempt.\<close>

lemma attempt_closed:
  assumes "\<not> fd_receiver_open (su_feed u)" "backoff_ok (su_backoff_ms u)"
    and "meets_events parse (fd_self_dedup (su_feed u))
      ((Connects now (Round start (Arrived seen_at unix li) # rounds), nanos) # as)"
  shows "\<exists>ms u'. subscribe_attempt parse (Connects now (Round start (Arrived seen_at unix li) # rounds)) nanos u = Some (ms, u') \<and>
    1000 \<le> unat ms \<and> unat ms < 1250 \<and> \<not> fd_receiver_open (su_feed u') \<and> backoff_ok (su_backoff_ms u') \<and>
    fd_self_dedup (su_feed u') = remember_log (fd_self_dedup (su_feed u)) li \<and> fd_sent (su_feed u') = fd_sent (su_feed u) \<and>
    fm_subscribed (fd_metrics (su_feed u')) = fm_subscribed (fd_metrics (su_feed u)) + 1 \<and>
    fm_events (fd_metrics (su_feed u')) = fm_events (fd_metrics (su_feed u)) + 1"
proof -
  let ?a = "Connects now (Round start (Arrived seen_at unix li) # rounds)" and ?s = "su_feed (subscribed now u)"
  have s: "fd_last_event ?s = now" "\<not> fd_receiver_open ?s" "fd_self_dedup ?s = fd_self_dedup (su_feed u)"
    "fd_sent ?s = fd_sent (su_feed u)" "fm_subscribed (fd_metrics ?s) = fm_subscribed (fd_metrics (su_feed u)) + 1"
    "fm_events (fd_metrics ?s) = fm_events (fd_metrics (su_feed u))"
    using assms(1) by (simp_all add: subscribed_def note_defs)
  obtain s3 where h: "handle_log parse seen_at unix li ?s = (False, s3)"
    and lost: "event_lost (?s\<lparr>fd_self_dedup := remember_log (fd_self_dedup ?s) li\<rparr>) s3"
    using handle_log_closed[OF s(2), of li parse] s(3) assms(3) by (auto simp del: fresh_logs.simps)
  have busy: "\<not> useful_idle \<le> start - now"
    using assms(3) by (auto simp: useful_idle_def STREAM_USEFUL_IDLE_TIMEOUT_SECS_def simp del: fresh_logs.simps)
  have "session parse (Round start (Arrived seen_at unix li) # rounds) ?s = (Some ReceiverGone, s3)"
    using busy s(1) h by (simp add: session_round_def)
  then obtain ms u' where a: "subscribe_attempt parse ?a nanos u = Some (ms, u')"
    "u' = snd (after_attempt False nanos (subscribed now u\<lparr>su_feed := s3\<rparr>))"
    by (cases "after_attempt False nanos (subscribed now u\<lparr>su_feed := s3\<rparr>)") (simp add: subscribe_attempt_def Let_def)
  show ?thesis using attempt_pause[OF assms(2) a(1)] a lost s
    by (intro exI[of _ ms] exI[of _ u']) (simp add: connects_def event_lost_def after_attempt_def Let_def note_defs)
qed

text \<open>C39. When the receiver of a feed is gone, the feed does not stop: however many sessions follow, each
  of which first meets a fresh and decodable event, every one ends with that event, which is counted and
  delivered to nobody, and the feed subscribes again after a pause of at least one second and less than
  one and a quarter, once for every attempt.\<close>

theorem closed_receiver_is_resubscribed:
  assumes "\<not> fd_receiver_open (su_feed u)" "backoff_ok (su_backoff_ms u)"
    and "meets_events parse (fd_self_dedup (su_feed u)) as"
  shows "\<exists>mss u'. subscribe parse as u = Some (mss, u') \<and> length mss = length as \<and>
    (\<forall>ms \<in> set mss. 1000 \<le> unat ms \<and> unat ms < 1250) \<and>
    \<not> fd_receiver_open (su_feed u') \<and> fd_sent (su_feed u') = fd_sent (su_feed u) \<and>
    fm_subscribed (fd_metrics (su_feed u')) = fm_subscribed (fd_metrics (su_feed u)) + of_nat (length as) \<and>
    fm_events (fd_metrics (su_feed u')) = fm_events (fd_metrics (su_feed u)) + of_nat (length as)"
  using assms
proof (induction parse "fd_self_dedup (su_feed u)" as arbitrary: u rule: meets_events.induct)
  case (2 parse now start seen_at unix li rounds nanos as)
  let ?a = "Connects now (Round start (Arrived seen_at unix li) # rounds)"
  obtain ms u1 where step: "subscribe_attempt parse ?a nanos u = Some (ms, u1)" and
    u1: "1000 \<le> unat ms" "unat ms < 1250" "\<not> fd_receiver_open (su_feed u1)" "backoff_ok (su_backoff_ms u1)"
      "fd_self_dedup (su_feed u1) = remember_log (fd_self_dedup (su_feed u)) li" "fd_sent (su_feed u1) = fd_sent (su_feed u)"
      "fm_subscribed (fd_metrics (su_feed u1)) = fm_subscribed (fd_metrics (su_feed u)) + 1"
      "fm_events (fd_metrics (su_feed u1)) = fm_events (fd_metrics (su_feed u)) + 1"
    using attempt_closed[OF "2.prems"] by blast
  have "meets_events parse (fd_self_dedup (su_feed u1)) as" using "2.prems"(3) u1(5) by simp
  with "2.hyps"(1)[OF u1(5)[symmetric] u1(3,4)] obtain mss u2 where
    "subscribe parse as u1 = Some (mss, u2)" "length mss = length as" "\<forall>ms \<in> set mss. 1000 \<le> unat ms \<and> unat ms < 1250"
    "\<not> fd_receiver_open (su_feed u2)" "fd_sent (su_feed u2) = fd_sent (su_feed u1)"
    "fm_subscribed (fd_metrics (su_feed u2)) = fm_subscribed (fd_metrics (su_feed u1)) + of_nat (length as)"
    "fm_events (fd_metrics (su_feed u2)) = fm_events (fd_metrics (su_feed u1)) + of_nat (length as)" by blast
  then show ?case using step u1 by (intro exI[of _ "ms # mss"] exI[of _ u2]) simp
qed simp_all

lemma closed_receiver_is_resubscribed_witness:
  fixes as :: "(string attempt \<times> u64) list"
  defines "as \<equiv> [(Connects 0 [Round 0 (Arrived 5 100 demo_log)], 0),
    (Connects 1300 [Round 1310 (Arrived 1320 101 (demo_log\<lparr>li_signature := ''other''\<rparr>))], 7)]"
  shows "\<exists>mss u'. subscribe (Inr :: string \<Rightarrow> string + string) as
      (subscriber_new (demo_feed\<lparr>fd_receiver_open := False\<rparr>)) = Some (mss, u') \<and> length mss = 2 \<and>
    (\<forall>ms \<in> set mss. 1000 \<le> unat ms \<and> unat ms < 1250) \<and> \<not> fd_receiver_open (su_feed u') \<and>
    fd_sent (su_feed u') = [] \<and> fm_subscribed (fd_metrics (su_feed u')) = 2 \<and> fm_events (fd_metrics (su_feed u')) = 2"
proof -
  let ?u = "subscriber_new (demo_feed\<lparr>fd_receiver_open := False\<rparr>)"
  have "\<not> fd_receiver_open (su_feed ?u)" "backoff_ok (su_backoff_ms ?u)"
    "meets_events (Inr :: string \<Rightarrow> string + string) (fd_self_dedup (su_feed ?u)) as"
    by (simp_all add: as_def subscriber_new_def demo_feed_def feed_new_def self_dedup_new_def backoff_ok_def demo_log_def
        RECONNECT_BACKOFF_INITIAL_MS_def decoded_def is_program_data_def PROGRAM_DATA_PREFIX_def useful_idle_def
        STREAM_USEFUL_IDLE_TIMEOUT_SECS_def remember_log_def check_and_remember_def evict_def SELF_DEDUP_CAPACITY_def)
  from closed_receiver_is_resubscribed[OF this] obtain mss u' where
    run: "subscribe (Inr :: string \<Rightarrow> string + string) as ?u = Some (mss, u')" "length mss = length as"
      "\<forall>ms \<in> set mss. 1000 \<le> unat ms \<and> unat ms < 1250" "\<not> fd_receiver_open (su_feed u')"
      "fd_sent (su_feed u') = fd_sent (su_feed ?u)"
      "fm_subscribed (fd_metrics (su_feed u')) = fm_subscribed (fd_metrics (su_feed ?u)) + of_nat (length as)"
      "fm_events (fd_metrics (su_feed u')) = fm_events (fd_metrics (su_feed ?u)) + of_nat (length as)" by blast
  moreover have "length as = 2" by (simp add: as_def)
  moreover have "fd_sent (su_feed ?u) = []" "fm_subscribed (fd_metrics (su_feed ?u)) = 0"
    "fm_events (fd_metrics (su_feed ?u)) = 0"
    by (simp_all add: subscriber_new_def demo_feed_def feed_new_def feed_metrics_new_def)
  ultimately show ?thesis by (intro exI[of _ mss] exI[of _ u']) simp
qed

end
