(* ===== verification/Feed_Health.thy ===== *)
theory Feed_Health
  imports Feed_Metrics
begin

text \<open>
  Model of the stall detection of \<^verbatim>\<open>src/feed/metrics.rs\<close> (\<^verbatim>\<open>FeedHealthMonitor\<close>) and of the logger of
  \<^verbatim>\<open>src/main.rs\<close> that drives it: every thirty seconds it takes a snapshot of each feed, computes the rate
  of messages since the last one, keeps a moving average, and prints alerts. The printed lines are the
  output of the model, without their text; the clock is an argument of every place that reads it.

  The property gives the alerts of the monitor as a function of the samples of the feed so far.
\<close>

section \<open>The monitor\<close>

definition FEED_STALL_MSG_AGE_SECS :: u64 where "FEED_STALL_MSG_AGE_SECS = 60"
definition FEED_ZERO_RATE_STREAK :: u32 where "FEED_ZERO_RATE_STREAK = 3"
definition FEED_STARTUP_GRACE_SECS :: u64 where "FEED_STARTUP_GRACE_SECS = 90"
definition FEED_ZERO_RATE_EPS :: f64 where "FEED_ZERO_RATE_EPS = f64_of (5/100)"

datatype feed_health_event = HealthOk | Stall | Recovered

record feed_health_monitor =
  fh_zero_rate_streak :: "string \<Rightarrow> u32 option"
  fh_was_stalled :: "string \<Rightarrow> bool option"

definition feed_health_new :: feed_health_monitor where
  "feed_health_new = \<lparr>fh_zero_rate_streak = Map.empty, fh_was_stalled = Map.empty\<rparr>"

definition last_msg_age_secs :: "u64 \<Rightarrow> feed_snapshot \<Rightarrow> u64" where
  "last_msg_age_secs now snap =
     (if fm_last_message_unix snap = 0 then fs_uptime_secs snap
      else saturating_sub now (fm_last_message_unix snap))"

definition zero_rate_streak :: "feed_health_monitor \<Rightarrow> string \<Rightarrow> u32" where
  "zero_rate_streak h feed = (case fh_zero_rate_streak h feed of None \<Rightarrow> 0 | Some n \<Rightarrow> n)"

definition is_zero_rate :: "f64 \<Rightarrow> bool" where
  "is_zero_rate rate \<longleftrightarrow> rate < FEED_ZERO_RATE_EPS"

definition is_monitored :: "feed_snapshot \<Rightarrow> bool" where
  "is_monitored snap \<longleftrightarrow> \<not> fs_uptime_secs snap < FEED_STARTUP_GRACE_SECS \<and> fm_subscribed snap \<noteq> 0"

definition evaluate :: "u64 \<Rightarrow> feed_snapshot \<Rightarrow> f64 \<Rightarrow> feed_health_monitor \<Rightarrow> feed_health_event \<times> feed_health_monitor" where
  "evaluate now snap interval_rate h =
     (if fs_uptime_secs snap < FEED_STARTUP_GRACE_SECS then (HealthOk, h)
      else if fm_subscribed snap = 0 then (HealthOk, h)
      else let name = fm_name snap;
               streak = (if is_zero_rate interval_rate then saturating_add (zero_rate_streak h name) 1 else 0);
               stalled = (FEED_STALL_MSG_AGE_SECS < last_msg_age_secs now snap \<or> FEED_ZERO_RATE_STREAK \<le> streak);
               was = (fh_was_stalled h name = Some True)
           in (if stalled then Stall else if was then Recovered else HealthOk,
               h\<lparr>fh_zero_rate_streak := (fh_zero_rate_streak h)(name \<mapsto> streak),
                 fh_was_stalled := (fh_was_stalled h)(name \<mapsto> stalled)\<rparr>))"

section \<open>The logger\<close>

definition interval_secs :: u64 where "interval_secs = 30"

record metrics_logger =
  ml_last_messages :: "string \<Rightarrow> u64 option"
  ml_ema_msgs :: "string \<Rightarrow> f64 option"
  ml_health :: feed_health_monitor

definition metrics_logger_new :: metrics_logger where
  "metrics_logger_new = \<lparr>ml_last_messages = Map.empty, ml_ema_msgs = Map.empty, ml_health = feed_health_new\<rparr>"

datatype log_line =
    MetricsLine string f64 f64 u64       \<comment> \<open>feed, rate, moving average, age of the last message\<close>
  | StallWarning string bool bool u32    \<comment> \<open>feed, which of the two reasons are given, streak\<close>
  | RecoveredLine string f64 u64
  | SpikeAlert string f64 f64            \<comment> \<open>feed, rate, average before\<close>

definition interval_rate :: "feed_snapshot \<Rightarrow> metrics_logger \<Rightarrow> f64" where
  "interval_rate snap l =
     (let prev = (case ml_last_messages l (fm_name snap) of None \<Rightarrow> 0 | Some n \<Rightarrow> n)
      in word_to_f64 (saturating_sub (fm_messages snap) prev) / word_to_f64 interval_secs)"

definition ema_alpha :: f64 where "ema_alpha = f64_of (3/10)"

text \<open>One feed in one round; \<open>now1\<close> and \<open>now2\<close> are the readings of the clock for the line and for the monitor.\<close>

definition log_feed :: "u64 \<Rightarrow> u64 \<Rightarrow> feed_snapshot \<Rightarrow> metrics_logger \<Rightarrow> log_line list \<times> metrics_logger" where
  "log_feed now1 now2 snap l =
     (let name = fm_name snap;
          rate = interval_rate snap l;
          prior = (case ml_ema_msgs l name of None \<Rightarrow> rate | Some e \<Rightarrow> e);
          ema = ema_alpha * rate + (1 - ema_alpha) * prior;
          age = last_msg_age_secs now1 snap;
          (event, health) = evaluate now2 snap rate (ml_health l);
          streak = zero_rate_streak health name;
          alert = (case event of
              Stall \<Rightarrow> [StallWarning name (FEED_STALL_MSG_AGE_SECS < age) (FEED_ZERO_RATE_STREAK \<le> streak) streak]
            | Recovered \<Rightarrow> [RecoveredLine name rate age]
            | HealthOk \<Rightarrow> []);
          spike = (if 1 < prior \<and> prior * Fin 3 < rate then [SpikeAlert name rate prior] else [])
      in (MetricsLine name rate ema age # alert @ spike,
          l\<lparr>ml_last_messages := (ml_last_messages l)(name \<mapsto> fm_messages snap),
            ml_ema_msgs := (ml_ema_msgs l)(name \<mapsto> ema), ml_health := health\<rparr>))"

text \<open>A round over all feeds, each with its metrics and its three readings of the clock.\<close>

fun log_round :: "(feed_metrics \<times> u64 \<times> u64 \<times> u64) list \<Rightarrow> metrics_logger \<Rightarrow> log_line list \<times> metrics_logger" where
  "log_round [] l = ([], l)"
| "log_round ((m, now0, now1, now2) # ms) l =
     (let (out, l1) = log_feed now1 now2 (feed_snapshot_of now0 m) l;
          (outs, l2) = log_round ms l1
      in (out @ outs, l2))"

section \<open>Alerts as a function of the samples\<close>

text \<open>A sample of a feed: its clock, snapshot and rate. Samples during the grace period or before the
  first subscription do not count.\<close>

type_synonym feed_sample = "u64 \<times> feed_snapshot \<times> f64"

definition own_samples :: "string \<Rightarrow> feed_sample list \<Rightarrow> feed_sample list" where
  "own_samples feed = filter (\<lambda>(now, snap, rate). is_monitored snap \<and> fm_name snap = feed)"

definition sample_zero :: "feed_sample \<Rightarrow> bool" where "sample_zero = (\<lambda>(now, snap, rate). is_zero_rate rate)"
definition sample_old :: "feed_sample \<Rightarrow> bool" where "sample_old = (\<lambda>(now, snap, rate). 60 < last_msg_age_secs now snap)"

definition is_stalled :: "feed_sample list \<Rightarrow> bool" where
  "is_stalled xs \<longleftrightarrow> xs \<noteq> [] \<and>
     (sample_old (last xs) \<or> 3 \<le> length xs \<and> list_all sample_zero (drop (length xs - 3) xs))"

definition run_monitor :: "feed_sample list \<Rightarrow> feed_health_monitor" where
  "run_monitor = foldl (\<lambda>h (now, snap, rate). snd (evaluate now snap rate h)) feed_health_new"

definition zero_run :: "feed_sample list \<Rightarrow> nat" where
  "zero_run xs = length (takeWhile sample_zero (rev xs))"

lemma zero_run_snoc: "zero_run (xs @ [x]) = (if sample_zero x then Suc (zero_run xs) else 0)"
  by (simp add: zero_run_def)

lemma takeWhile_long: "n \<le> length (takeWhile P xs) \<longleftrightarrow> n \<le> length xs \<and> list_all P (take n xs)"
proof (induction xs arbitrary: n)
  case (Cons x xs)
  then show ?case by (cases n) auto
qed simp

lemma zero_run_three: "n \<le> zero_run xs \<longleftrightarrow> n \<le> length xs \<and> list_all sample_zero (drop (length xs - n) xs)"
  by (simp add: zero_run_def takeWhile_long take_rev list_all_rev)

lemma streak_step: "unat (n :: u32) = min (2 ^ 32 - 1) k \<Longrightarrow> unat (saturating_add n 1) = min (2 ^ 32 - 1) (Suc k)"
  by (simp add: unat_saturating_add)

definition stall_entry :: "feed_sample list \<Rightarrow> bool option" where
  "stall_entry xs = (if xs = [] then None else Some (is_stalled xs))"

lemma evaluate_step:
  assumes "is_monitored snap" "unat (zero_rate_streak h (fm_name snap)) = min (2 ^ 32 - 1) (zero_run xs)"
    and "fh_was_stalled h (fm_name snap) = stall_entry xs"
  shows "fst (evaluate now snap rate h) =
      (if is_stalled (xs @ [(now, snap, rate)]) then Stall else if is_stalled xs then Recovered else HealthOk)
    \<and> unat (zero_rate_streak (snd (evaluate now snap rate h)) (fm_name snap)) = min (2 ^ 32 - 1) (zero_run (xs @ [(now, snap, rate)]))
    \<and> fh_was_stalled (snd (evaluate now snap rate h)) (fm_name snap) = stall_entry (xs @ [(now, snap, rate)])"
proof -
  let ?x = "(now, snap, rate)"
  define streak where "streak = (if is_zero_rate rate then saturating_add (zero_rate_streak h (fm_name snap)) 1 else 0)"
  have s: "unat streak = min (2 ^ 32 - 1) (zero_run (xs @ [?x]))"
    using streak_step[OF assms(2)] by (simp add: streak_def zero_run_snoc sample_zero_def)
  have "FEED_ZERO_RATE_STREAK \<le> streak \<longleftrightarrow> 3 \<le> zero_run (xs @ [?x])"
    using s by (simp add: FEED_ZERO_RATE_STREAK_def word_le_nat_alt)
  then have st: "(FEED_STALL_MSG_AGE_SECS < last_msg_age_secs now snap \<or> FEED_ZERO_RATE_STREAK \<le> streak)
      \<longleftrightarrow> is_stalled (xs @ [?x])"
    by (simp only: zero_run_three is_stalled_def) (simp add: FEED_STALL_MSG_AGE_SECS_def sample_old_def)
  have "fh_was_stalled h (fm_name snap) = Some True \<longleftrightarrow> is_stalled xs"
    using assms(3) by (simp add: stall_entry_def is_stalled_def)
  then show ?thesis using assms(1) st s
    by (simp add: evaluate_def is_monitored_def Let_def stall_entry_def zero_rate_streak_def flip: streak_def)
qed

lemma evaluate_frame:
  "\<not> is_monitored snap \<or> fm_name snap \<noteq> feed \<Longrightarrow>
   fh_was_stalled (snd (evaluate now snap rate h)) feed = fh_was_stalled h feed
   \<and> zero_rate_streak (snd (evaluate now snap rate h)) feed = zero_rate_streak h feed"
  by (auto simp: evaluate_def is_monitored_def zero_rate_streak_def Let_def)

lemma run_monitor_state:
  "unat (zero_rate_streak (run_monitor es) feed) = min (2 ^ 32 - 1) (zero_run (own_samples feed es))
   \<and> fh_was_stalled (run_monitor es) feed = stall_entry (own_samples feed es)"
proof (induction es rule: rev_induct)
  case Nil
  then show ?case
    by (simp add: run_monitor_def own_samples_def feed_health_new_def zero_rate_streak_def zero_run_def stall_entry_def)
next
  case (snoc e es)
  obtain now snap rate where e: "e = (now, snap, rate)" by (cases e)
  have run: "run_monitor (es @ [e]) = snd (evaluate now snap rate (run_monitor es))"
    by (simp add: run_monitor_def e)
  show ?case
  proof (cases "is_monitored snap \<and> fm_name snap = feed")
    case True
    then have "own_samples feed (es @ [e]) = own_samples feed es @ [(now, snap, rate)]"
      by (simp add: own_samples_def e)
    then show ?thesis
      using evaluate_step[of snap "run_monitor es" "own_samples feed es" now rate] snoc True by (simp add: run)
  next
    case False
    then have "own_samples feed (es @ [e]) = own_samples feed es" by (auto simp: own_samples_def e)
    then show ?thesis using evaluate_frame[of snap feed now rate "run_monitor es"] snoc False by (auto simp: run)
  qed
qed

text \<open>C35. The alerts of the health monitor depend on the samples of the feed alone: a stall is reported exactly
  when the last message is over a minute old or the last three samples have no rate, a recovery exactly at
  the first sample without a stall after one with, and nothing in the grace period or before the first
  subscription.\<close>

theorem health_alerts_exact:
  "fst (evaluate now snap rate (run_monitor es)) =
     (if \<not> is_monitored snap then HealthOk
      else if is_stalled (own_samples (fm_name snap) es @ [(now, snap, rate)]) then Stall
      else if is_stalled (own_samples (fm_name snap) es) then Recovered else HealthOk)"
proof (cases "is_monitored snap")
  case True
  then show ?thesis using evaluate_step run_monitor_state by simp
next
  case False
  then show ?thesis by (auto simp: evaluate_def is_monitored_def)
qed

end
