(* ===== verification/Config_File.thy ===== *)
theory Config_File
  imports Prelude "HOL-Library.Sublist"
begin

text \<open>
  Model of \<^verbatim>\<open>rewrite_yaml_mode\<close> of \<^verbatim>\<open>src/main.rs\<close>: the HTTP API switches the bot between demo and live mode by
  rewriting one line of the text of its configuration file. White space is that of ASCII.

  The lemmas describe the loop over the lines by where the mode is written; the properties state that
  exactly one line is written, and that a comment at the margin makes it a second mode.
\<close>

section \<open>Lines\<close>

definition newline :: char where "newline = char_of (10 :: nat)"
definition carriage_return :: char where "carriage_return = char_of (13 :: nat)"

definition is_whitespace :: "char \<Rightarrow> bool" where
  "is_whitespace c \<longleftrightarrow> (let n = (of_char c :: nat) in n = 32 \<or> (9 \<le> n \<and> n \<le> 13))"

definition trim_start :: "string \<Rightarrow> string" where
  "trim_start = dropWhile is_whitespace"

text \<open>\<^verbatim>\<open>str::lines\<close>; \<open>acc\<close> is the current line backwards.\<close>

fun lines_from :: "string \<Rightarrow> string \<Rightarrow> string list" where
  "lines_from acc [] = (if acc = [] then [] else [rev acc])"
| "lines_from acc (c # cs) =
     (if c = newline
      then rev (case acc of r # acc' \<Rightarrow> if r = carriage_return then acc' else acc | [] \<Rightarrow> []) # lines_from [] cs
      else lines_from (c # acc) cs)"

definition lines :: "string \<Rightarrow> string list" where
  "lines = lines_from []"

definition unlines :: "string list \<Rightarrow> string" where
  "unlines ls = concat (map (\<lambda>l. l @ [newline]) ls)"

section \<open>The rewriting\<close>

record rewrite_state =
  rs_inside_exec :: bool
  rs_mode_written :: bool
  rs_saw_exec_header :: bool

definition rewrite_start :: rewrite_state where
  "rewrite_start = \<lparr>rs_inside_exec = False, rs_mode_written = False, rs_saw_exec_header = False\<rparr>"

definition is_exec_header :: "string \<Rightarrow> bool" where
  "is_exec_header line \<longleftrightarrow> starts_with (trim_start line) ''execution:''"

definition is_mode_line :: "string \<Rightarrow> bool" where
  "is_mode_line line \<longleftrightarrow> starts_with (trim_start line) ''mode:''"

definition is_top_level :: "string \<Rightarrow> bool" where
  "is_top_level line \<longleftrightarrow> line \<noteq> [] \<and> length line - length (trim_start line) = 0"

definition mode_line :: "string \<Rightarrow> string" where
  "mode_line new_mode = ''  mode: '' @ new_mode"

definition replaced_mode :: "string \<Rightarrow> string \<Rightarrow> string" where
  "replaced_mode new_mode line = takeWhile is_whitespace line @ ''mode: '' @ new_mode"

text \<open>One line of the file: the lines it becomes, and the state after it.\<close>

definition rewrite_line :: "string \<Rightarrow> string \<Rightarrow> rewrite_state \<Rightarrow> string list \<times> rewrite_state" where
  "rewrite_line new_mode line st =
     (if is_exec_header line then ([line], st\<lparr>rs_inside_exec := True, rs_saw_exec_header := True\<rparr>)
      else if rs_inside_exec st \<and> is_top_level line
      then (if rs_mode_written st then ([line], st\<lparr>rs_inside_exec := False\<rparr>)
            else ([mode_line new_mode, line], st\<lparr>rs_mode_written := True, rs_inside_exec := False\<rparr>))
      else if rs_inside_exec st \<and> \<not> rs_mode_written st \<and> is_mode_line line
      then ([replaced_mode new_mode line], st\<lparr>rs_mode_written := True\<rparr>)
      else ([line], st))"

fun rewrite_lines :: "string \<Rightarrow> string list \<Rightarrow> rewrite_state \<Rightarrow> string list" where
  "rewrite_lines new_mode [] st =
     (if rs_mode_written st then []
      else (if rs_saw_exec_header st then [] else [[], ''execution:'']) @ [mode_line new_mode])"
| "rewrite_lines new_mode (line # ls) st =
     (let (out, st1) = rewrite_line new_mode line st in out @ rewrite_lines new_mode ls st1)"

definition rewrite_yaml_mode :: "string \<Rightarrow> string \<Rightarrow> string" where
  "rewrite_yaml_mode content new_mode = unlines (rewrite_lines new_mode (lines content) rewrite_start)"

section \<open>One line is written\<close>

lemma rewrite_written: "rs_mode_written st \<Longrightarrow> rewrite_lines new_mode ls st = ls"
proof (induction ls arbitrary: st)
  case (Cons l ls)
  have "fst (rewrite_line new_mode l st) = [l]" "rs_mode_written (snd (rewrite_line new_mode l st))"
    using Cons.prems by (simp_all add: rewrite_line_def)
  then show ?case using Cons.IH by (simp add: split_def)
qed simp

text \<open>
  How a rewriting changes the lines: it replaces a mode line, inserts one before a line at the margin,
  or appends one, with a header of its own if there is none.
\<close>

inductive mode_edit :: "string \<Rightarrow> bool \<Rightarrow> string list \<Rightarrow> string list \<Rightarrow> bool" for new_mode has_header where
  replace: "is_mode_line l \<Longrightarrow> mode_edit new_mode has_header (pre @ [l] @ post) (pre @ [replaced_mode new_mode l] @ post)"
| insert: "is_top_level l \<Longrightarrow> mode_edit new_mode has_header (pre @ [l] @ post) (pre @ [mode_line new_mode, l] @ post)"
| append: "has_header \<Longrightarrow> mode_edit new_mode has_header pre (pre @ [mode_line new_mode])"
| create: "\<not> has_header \<Longrightarrow> mode_edit new_mode has_header pre (pre @ [[], ''execution:'', mode_line new_mode])"

lemma mode_edit_Cons:
  assumes "mode_edit m h ls ls'" shows "mode_edit m h (l # ls) (l # ls')"
  using assms
proof cases
  case (replace l' pre post)
  then show ?thesis using mode_edit.replace[of l' m h "l # pre" post] by simp
next
  case (insert l' pre post)
  then show ?thesis using mode_edit.insert[of l' m h "l # pre" post] by simp
next
  case append
  then show ?thesis using mode_edit.append[of h m "l # ls"] by simp
next
  case create
  then show ?thesis using mode_edit.create[of h m "l # ls"] by simp
qed

lemma rewrite_lines_edit:
  "\<not> rs_mode_written st \<Longrightarrow> h = (rs_saw_exec_header st \<or> list_ex is_exec_header ls) \<Longrightarrow>
   mode_edit m h ls (rewrite_lines m ls st)"
proof (induction ls arbitrary: st)
  case Nil
  then show ?case using mode_edit.append[of h m "[]"] mode_edit.create[of h m "[]"] by simp
next
  case (Cons l ls)
  consider (top) "rs_inside_exec st" "is_top_level l" "\<not> is_exec_header l"
    | (mode) "rs_inside_exec st" "\<not> is_top_level l" "is_mode_line l" "\<not> is_exec_header l"
    | (other) st1 where "rewrite_line m l st = ([l], st1)" "\<not> rs_mode_written st1"
        "rs_saw_exec_header st1 \<longleftrightarrow> rs_saw_exec_header st \<or> is_exec_header l"
    using Cons.prems by (cases "is_exec_header l"; cases "rs_inside_exec st"; cases "is_top_level l";
        cases "is_mode_line l") (auto simp: rewrite_line_def)
  then show ?case
  proof cases
    case top
    then have "rewrite_lines m (l # ls) st = [] @ [mode_line m, l] @ ls"
      using Cons.prems by (simp add: rewrite_line_def rewrite_written)
    then show ?thesis using mode_edit.insert[OF top(2), of m h "[]" ls] by simp
  next
    case mode
    then have "rewrite_lines m (l # ls) st = [] @ [replaced_mode m l] @ ls"
      using Cons.prems by (simp add: rewrite_line_def rewrite_written)
    then show ?thesis using mode_edit.replace[OF mode(3), of m h "[]" ls] by simp
  next
    case other
    then have "mode_edit m h ls (rewrite_lines m ls st1)" using Cons.prems by (intro Cons.IH) auto
    then show ?thesis using other(1) by (simp add: mode_edit_Cons)
  qed
qed

text \<open>Switching the mode rewrites the file line by line and changes it in one place only: one mode line
  is replaced, or one is inserted before a line at the margin, or one is appended; a header is added
  exactly when the file has none.\<close>

theorem mode_rewrite_is_local:
  "\<exists>ls. rewrite_yaml_mode content new_mode = unlines ls \<and>
     mode_edit new_mode (list_ex is_exec_header (lines content)) (lines content) ls"
  using rewrite_lines_edit[of rewrite_start "list_ex is_exec_header (lines content)" "lines content" new_mode]
  by (auto simp: rewrite_yaml_mode_def rewrite_start_def)

section \<open>A comment at the margin doubles the mode\<close>

lemma lines_snoc_newline: "newline \<notin> set l \<Longrightarrow> carriage_return \<notin> set l \<Longrightarrow>
  carriage_return \<notin> set acc \<Longrightarrow> lines_from acc (l @ newline # cs) = (rev acc @ l) # lines_from [] cs"
proof (induction l arbitrary: acc)
  case Nil
  then show ?case by (cases acc) auto
next
  case (Cons c l)
  then show ?case using Cons.IH[of "c # acc"] by auto
qed

lemma lines_unlines:
  "\<forall>l \<in> set ls. newline \<notin> set l \<and> carriage_return \<notin> set l \<Longrightarrow> lines (unlines ls) = ls"
  unfolding lines_def
  by (induction ls) (simp_all add: unlines_def lines_snoc_newline)

text \<open>In a file whose execution block has a comment at the margin before its mode, the switch takes the
  comment for the end of the block: the new mode is inserted before it and the old one stays behind
  it, so that the file has two.\<close>

theorem margin_comment_doubles_mode:
  assumes "\<forall>l \<in> set (pre @ [comment, old] @ post). newline \<notin> set l \<and> carriage_return \<notin> set l"
    and "list_all (\<lambda>l. \<not> is_exec_header l) pre"
    and "starts_with comment ''#''" and "is_mode_line old"
  shows "rewrite_yaml_mode (unlines (pre @ [''execution:'', comment, old] @ post)) new_mode =
    unlines (pre @ [''execution:'', mode_line new_mode, comment, old] @ post)"
proof -
  have nl: "newline \<notin> set ''execution:''" "carriage_return \<notin> set ''execution:''"
    by (simp_all add: newline_def carriage_return_def char_of_def)
  have hdr: "is_exec_header ''execution:''"
    by (simp add: is_exec_header_def trim_start_def is_whitespace_def)
  obtain rest where c: "comment = CHR ''#'' # rest" using assms(3) by (cases comment) auto
  have ws: "\<not> is_whitespace (CHR ''#'')" by (simp add: is_whitespace_def)
  have top: "is_top_level comment" "\<not> is_exec_header comment"
    using ws by (simp_all add: c is_top_level_def is_exec_header_def trim_start_def)
  have skip: "rewrite_lines new_mode (pre @ ls) rewrite_start = pre @ rewrite_lines new_mode ls rewrite_start" for ls
    using assms(2) by (induction pre) (simp_all add: rewrite_line_def rewrite_start_def)
  have "lines (unlines (pre @ [''execution:'', comment, old] @ post)) = pre @ [''execution:'', comment, old] @ post"
    using assms(1) nl by (intro lines_unlines) auto
  then have "rewrite_yaml_mode (unlines (pre @ [''execution:'', comment, old] @ post)) new_mode =
      unlines (pre @ rewrite_lines new_mode ([''execution:'', comment, old] @ post) rewrite_start)"
    by (simp only: rewrite_yaml_mode_def skip)
  then show ?thesis using top hdr by (simp add: rewrite_line_def rewrite_start_def rewrite_written)
qed

lemma margin_comment_doubles_mode_witness:
  "rewrite_yaml_mode (unlines [''execution:'', ''# mode of the bot'', ''  mode: demo'']) ''live'' =
   unlines [''execution:'', ''  mode: live'', ''# mode of the bot'', ''  mode: demo'']"
  using margin_comment_doubles_mode[of "[]" "''# mode of the bot''" "''  mode: demo''" "[]" "''live''"]
  by (simp add: newline_def carriage_return_def char_of_def mode_line_def is_mode_line_def trim_start_def
      is_whitespace_def)

section \<open>What a rewriting to demo mode can leave behind\<close>

text \<open>
  A line that sets a mode and has the word live in it, and the lines \<open>mode_line\<close> and \<open>replaced_mode\<close>
  write for demo mode. Everything is up to prefixes, because a failed write may cut the file anywhere.
\<close>

definition says_live :: "string \<Rightarrow> bool" where
  "says_live line \<longleftrightarrow> is_mode_line line \<and> sublist ''live'' line"

definition demo_line :: "string \<Rightarrow> bool" where
  "demo_line line \<longleftrightarrow> (\<exists>indent. list_all is_whitespace indent \<and> line = indent @ ''mode: demo'')"

text \<open>\<open>tame old new\<close>: every line of the new text that sets a mode comes from the old text or sets demo mode.\<close>

definition tame :: "string \<Rightarrow> string \<Rightarrow> bool" where
  "tame old new \<longleftrightarrow> (\<forall>l \<in> set (lines new). is_mode_line l \<longrightarrow>
     (\<exists>l0 \<in> set (lines old). is_mode_line l0 \<and> prefix l l0) \<or> (\<exists>d. demo_line d \<and> prefix l d))"

lemma lines_from_end: "newline \<notin> set l \<Longrightarrow> lines_from acc l = (if rev acc @ l = [] then [] else [rev acc @ l])"
  by (induction l arbitrary: acc) auto

lemma lines_from_newline: "newline \<notin> set l \<Longrightarrow>
  \<exists>l'. prefix l' (rev acc @ l) \<and> lines_from acc (l @ newline # cs) = l' # lines_from [] cs"
proof (induction l arbitrary: acc)
  case Nil
  show ?case by (cases acc) auto
next
  case (Cons c l)
  then show ?case using Cons.IH[of "c # acc"] by auto
qed

lemma lines_no_newline: "newline \<notin> set acc \<Longrightarrow> l \<in> set (lines_from acc s) \<Longrightarrow> newline \<notin> set l"
proof (induction acc s arbitrary: l rule: lines_from.induct)
  case (2 acc c cs)
  then show ?case by (cases acc) (auto split: if_splits)
qed (auto split: if_splits)

text \<open>The lines of any beginning of a text are beginnings of the lines it was made of.\<close>

lemma lines_take_unlines:
  assumes "\<forall>l \<in> set ls. newline \<notin> set l" "l \<in> set (lines (take n (unlines ls)))"
  shows "\<exists>l0 \<in> set ls. prefix l l0"
  using assms
proof (induction ls arbitrary: n)
  case Nil
  then show ?case by (simp add: lines_def unlines_def)
next
  case (Cons l0 ls)
  have nl: "newline \<notin> set l0" using Cons.prems(1) by simp
  have u: "unlines (l0 # ls) = l0 @ newline # unlines ls" by (simp add: unlines_def)
  show ?case
  proof (cases "n \<le> length l0")
    case True
    have "newline \<notin> set (take n l0)" using nl by (meson in_set_takeD)
    then have "lines (take n (unlines (l0 # ls))) = (if take n l0 = [] then [] else [take n l0])"
      using True unfolding u lines_def by (simp add: lines_from_end)
    then show ?thesis using Cons.prems(2) by (auto simp: take_is_prefix split: if_splits)
  next
    case False
    then obtain m where m: "n - length l0 = Suc m" by (metis diff_is_0_eq not0_implies_Suc)
    obtain l' where l': "prefix l' l0"
        "lines_from [] (l0 @ newline # take m (unlines ls)) = l' # lines_from [] (take m (unlines ls))"
      using lines_from_newline[OF nl, of "[]" "take m (unlines ls)"] by auto
    have "lines (take n (unlines (l0 # ls))) = l' # lines (take m (unlines ls))"
      using False m l'(2) unfolding u lines_def by simp
    then show ?thesis using Cons.prems l'(1) Cons.IH[of m] by auto
  qed
qed

lemma is_mode_line_prefix: "is_mode_line l \<Longrightarrow> prefix l l0 \<Longrightarrow> is_mode_line l0"
proof -
  assume m: "is_mode_line l" and p: "prefix l l0"
  obtain r where r: "l0 = l @ r" using p by (auto simp: prefix_def)
  have "trim_start l \<noteq> []" using m by (auto simp: is_mode_line_def)
  then have "\<exists>x\<in>set l. \<not> is_whitespace x" by (auto simp: trim_start_def)
  then have "trim_start l0 = trim_start l @ r" by (auto simp: trim_start_def r)
  then show ?thesis using m by (auto simp: is_mode_line_def starts_with_iff)
qed

lemma mode_edit_lines:
  assumes "mode_edit m h ls ls'" "l \<in> set ls'"
  shows "l \<in> set ls \<or> l = mode_line m \<or> l = [] \<or> l = ''execution:'' \<or> (\<exists>l0 \<in> set ls. l = replaced_mode m l0)"
  using assms by (induction rule: mode_edit.induct) auto

lemma demo_lines:
  "demo_line (mode_line ''demo'')" "demo_line (replaced_mode ''demo'' l)"
proof -
  show "demo_line (mode_line ''demo'')" unfolding demo_line_def mode_line_def
    by (intro exI[of _ "''  ''"]) (simp add: is_whitespace_def)
  show "demo_line (replaced_mode ''demo'' l)" unfolding demo_line_def replaced_mode_def
    by (intro exI[of _ "takeWhile is_whitespace l"]) (auto simp: list_all_iff dest: set_takeWhileD)
qed

lemma demo_line_not_live: "demo_line d \<Longrightarrow> prefix l d \<Longrightarrow> \<not> says_live l"
proof
  assume d: "demo_line d" and p: "prefix l d" and live: "says_live l"
  obtain indent where i: "list_all is_whitespace indent" "d = indent @ ''mode: demo''"
    using d by (auto simp: demo_line_def)
  have "CHR ''v'' \<in> set l" using live set_mono_sublist[of "''live''" l] by (auto simp: says_live_def)
  then have "CHR ''v'' \<in> set d" using p set_mono_prefix by blast
  then show False using i by (auto simp: list_all_iff is_whitespace_def)
qed

lemma tame_refl: "tame content content"
  by (auto simp: tame_def)

lemma tame_trans:
  assumes "tame a b" "tame b c" shows "tame a c"
  unfolding tame_def
proof (intro ballI impI)
  fix l assume l: "l \<in> set (lines c)" "is_mode_line l"
  then consider (old) l1 where "l1 \<in> set (lines b)" "is_mode_line l1" "prefix l l1" | (demo) d where "demo_line d" "prefix l d"
    using assms(2) by (auto simp: tame_def)
  then show "(\<exists>l0\<in>set (lines a). is_mode_line l0 \<and> prefix l l0) \<or> (\<exists>d. demo_line d \<and> prefix l d)"
  proof cases
    case old
    then show ?thesis using assms(1) by (meson prefix_order.trans tame_def)
  qed blast
qed

text \<open>A file rewritten to demo mode is tame, wherever the write was cut.\<close>

lemma rewrite_demo_tame: "tame content (take n (rewrite_yaml_mode content ''demo''))"
  unfolding tame_def
proof (intro ballI impI)
  fix l assume l: "l \<in> set (lines (take n (rewrite_yaml_mode content ''demo'')))" "is_mode_line l"
  let ?ls = "rewrite_lines ''demo'' (lines content) rewrite_start"
  let ?h = "list_ex is_exec_header (lines content)"
  have edit: "mode_edit ''demo'' ?h (lines content) ?ls"
    by (rule rewrite_lines_edit) (simp_all add: rewrite_start_def)
  have old: "newline \<notin> set x" if "x \<in> set (lines content)" for x
    using lines_no_newline[of "[]" x content] that by (simp add: lines_def)
  have lits: "newline \<notin> set ''  mode: demo''" "newline \<notin> set ''mode: demo''" "newline \<notin> set ''execution:''"
    by (simp_all add: newline_def char_of_def)
  have indent: "newline \<notin> set (takeWhile is_whitespace x)" if "x \<in> set (lines content)" for x
    using old[OF that] set_takeWhileD by fast
  have "newline \<notin> set x" if "x \<in> set ?ls" for x
    using mode_edit_lines[OF edit that] old lits indent
    by (auto simp: mode_line_def replaced_mode_def simp del: list.set(2))
  then obtain l0 where l0: "l0 \<in> set ?ls" "prefix l l0"
    using l(1) lines_take_unlines unfolding rewrite_yaml_mode_def by blast
  have m0: "is_mode_line l0" using is_mode_line_prefix l(2) l0(2) by blast
  have no: "\<not> is_mode_line []" "\<not> is_mode_line ''execution:''"
    by (simp_all add: is_mode_line_def trim_start_def is_whitespace_def)
  from mode_edit_lines[OF edit l0(1)] m0 no have "l0 \<in> set (lines content) \<or> demo_line l0"
    using demo_lines by auto
  then show "(\<exists>l0\<in>set (lines content). is_mode_line l0 \<and> prefix l l0) \<or> (\<exists>d. demo_line d \<and> prefix l d)"
    using l0(2) m0 by blast
qed

lemma tame_live: "tame old new \<Longrightarrow> l \<in> set (lines new) \<Longrightarrow> says_live l \<Longrightarrow>
    \<exists>l0 \<in> set (lines old). says_live l0 \<and> prefix l l0"
proof -
  assume t: "tame old new" "l \<in> set (lines new)" "says_live l"
  then have "\<not> (\<exists>d. demo_line d \<and> prefix l d)" using demo_line_not_live by blast
  then obtain l0 where l0: "l0 \<in> set (lines old)" "is_mode_line l0" "prefix l l0"
    using t by (auto simp: tame_def says_live_def)
  have "sublist ''live'' l0" using t(3) l0(3) prefix_imp_sublist sublist_order.order.trans unfolding says_live_def by blast
  then show ?thesis using l0 by (auto simp: says_live_def)
qed

end
