(* ===== verification/Http_Api.thy ===== *)
theory Http_Api
  imports Jupiter Wallets Manager Config_File
begin

text \<open>
  Model of the HTTP routes of \<^verbatim>\<open>src/main.rs\<close> that read or change the state of the running bot: pause and
  mode, buy size, wallets, positions, the log of transactions, and the commands of the websocket. A
  route is a function of the state and the request to the response and the new state; the messages it
  sends to the position manager are part of the state. The YAML library, which rewrites the list of
  wallets in the configuration file, and the file system are parameters. Routes that only print a
  query of the database are left out; the chart is in \<open>Chart\<close>.

  The properties are about runs of requests: the buy size never falls below its floor, and a file in demo
  mode stays in demo mode until a confirmed request. One shows what a change of wallets does to the others.
\<close>

section \<open>State\<close>

text \<open>\<^verbatim>\<open>serde_yaml\<close>: parsing, setting the key \<^verbatim>\<open>wallets\<close> of a document that is a mapping, printing.\<close>

record 'y yaml_lib =
  yl_parse :: "string \<Rightarrow> string + 'y"
  yl_set_wallets :: "wallet_entry_config list \<Rightarrow> 'y \<Rightarrow> 'y option"
  yl_print :: "'y \<Rightarrow> string + string"

text \<open>
  The configuration file: its content or the error of reading it, and what will happen to the writes to
  come (none fails once the list is used up). \<^verbatim>\<open>std::fs::write\<close> opens the file, which truncates it, and then
  writes: when it cannot open the file, nothing changes; when it fails later, the beginning of the new
  content is left, which cannot be read any more when it ends inside a character.
\<close>

datatype write_fault = NoFault | OpenFault string | WriteFault nat string

record config_file =
  cf_content :: "string + string"
  cf_faults :: "write_fault list"

definition written_part :: "nat \<Rightarrow> string \<Rightarrow> string + string" where
  "written_part n new =
     (let k = min n (length new)
      in if char_boundary new k then Inr (take k new) else Inl ''stream did not contain valid UTF-8'')"

definition fs_write :: "string \<Rightarrow> config_file \<Rightarrow> string option \<times> config_file" where
  "fs_write new f =
     (case cf_faults f of
        [] \<Rightarrow> (None, f\<lparr>cf_content := Inr new\<rparr>)
      | fault # rest \<Rightarrow>
          let f = f\<lparr>cf_faults := rest\<rparr>
          in case fault of
               NoFault \<Rightarrow> (None, f\<lparr>cf_content := Inr new\<rparr>)
             | OpenFault e \<Rightarrow> (Some e, f)
             | WriteFault n e \<Rightarrow> (Some e, f\<lparr>cf_content := written_part n new\<rparr>))"

text \<open>A write that succeeds leaves the new content, one that fails the old one or a part of the new one.\<close>

lemma fs_write_cases:
  assumes "fs_write new f = (err, f')"
  shows "err = None \<and> cf_content f' = Inr new \<or>
    err \<noteq> None \<and> (cf_content f' = cf_content f \<or> (\<exists>n. cf_content f' = written_part n new))"
  using assms by (auto simp: fs_write_def Let_def split: list.splits write_fault.splits)

record api_state =
  ap_registry :: wallet_registry
  ap_paused :: bool
  ap_balance :: f64
  ap_buy_size :: f64
  ap_buy_cap_floor :: f64
  ap_mode :: string
  ap_pubkey :: string
  ap_file :: config_file
  ap_manager_open :: bool
  ap_sent :: "position_message list"

datatype http_status = OK | NO_CONTENT | BAD_REQUEST | FORBIDDEN | SERVICE_UNAVAILABLE | INTERNAL_SERVER_ERROR

definition BUY_CAP_ABSOLUTE_FLOOR_SOL :: f64 where "BUY_CAP_ABSOLUTE_FLOOR_SOL = f64_of (4/10)"

definition buy_cap_floor :: "f64 \<Rightarrow> f64" where
  "buy_cap_floor a_plus_size = f64_max BUY_CAP_ABSOLUTE_FLOOR_SOL a_plus_size"

definition buy_cap_seed :: "f64 \<Rightarrow> f64 \<Rightarrow> f64" where
  "buy_cap_seed amount_sol a_plus_size = f64_max amount_sol (buy_cap_floor a_plus_size)"

section \<open>Reading\<close>

record status_response =
  sr_paused :: bool
  sr_balance_sol :: f64
  sr_total_balance_sol :: f64
  sr_mode :: string
  sr_wallet :: string
  sr_wallets :: "wallet_wire list"

definition get_status :: "api_state \<Rightarrow> status_response" where
  "get_status s =
     (let total = total_balance_sol (ap_registry s)
      in \<lparr>sr_paused = ap_paused s, sr_balance_sol = total, sr_total_balance_sol = total, sr_mode = ap_mode s,
          sr_wallet = ap_pubkey s, sr_wallets = wire_snapshots (ap_registry s)\<rparr>)"

definition get_wallets :: "api_state \<Rightarrow> wallet_wire list" where
  "get_wallets s = wire_snapshots (ap_registry s)"

definition get_buy_size :: "api_state \<Rightarrow> f64" where
  "get_buy_size s = ap_buy_size s"

text \<open>The developer's record: the look-up of the developer of the coin, then of his statistics.\<close>

definition get_dev_stats :: "(string \<Rightarrow> address option) \<Rightarrow> string + string option \<Rightarrow> (address \<Rightarrow> string + 'c)
    \<Rightarrow> http_status \<times> 'c option" where
  "get_dev_stats parse_addr developer stats =
     (case developer of
        Inl e \<Rightarrow> (INTERNAL_SERVER_ERROR, None)
      | Inr None \<Rightarrow> (OK, None)
      | Inr (Some d) \<Rightarrow> (case parse_addr d of
          None \<Rightarrow> (BAD_REQUEST, None)
        | Some a \<Rightarrow> (case stats a of
            Inl e \<Rightarrow> (INTERNAL_SERVER_ERROR, None)
          | Inr c \<Rightarrow> (OK, Some c))))"

text \<open>The open profit per wallet, from the answer of the manager.\<close>

definition add_pnl :: "(string \<times> f64) list \<Rightarrow> string \<times> f64 \<Rightarrow> (string \<times> f64) list" where
  "add_pnl acc p =
     (if map_of acc (fst p) = None then acc @ [(fst p, 0 + snd p)] else alist_upd (fst p) (\<lambda>v. v + snd p) acc)"

definition open_pnl :: "(string \<times> f64) list \<Rightarrow> (string \<times> f64) list" where
  "open_pnl open_positions = foldl add_pnl [] open_positions"

text \<open>\<open>order\<close> is the order in which the hash map is read. The realised profit of the answer is always zero.\<close>

record pnl_response =
  pr_combined_realized_sol :: f64
  pr_combined_open_unrealized_sol :: f64
  pr_per_wallet :: "(string \<times> f64) list"

definition get_pnl_route :: "((string \<times> f64) list \<Rightarrow> (string \<times> f64) list) \<Rightarrow> (string \<times> f64) list option \<Rightarrow> pnl_response" where
  "get_pnl_route order answer =
     (case answer of
        None \<Rightarrow> \<lparr>pr_combined_realized_sol = 0, pr_combined_open_unrealized_sol = 0, pr_per_wallet = []\<rparr>
      | Some open_positions \<Rightarrow>
          let per_wallet = order (open_pnl open_positions)
          in \<lparr>pr_combined_realized_sol = 0, pr_combined_open_unrealized_sol = foldl (+) 0 (map snd per_wallet),
              pr_per_wallet = per_wallet\<rparr>)"

section \<open>The log of transactions\<close>

definition TX_LOG_CAPACITY :: nat where "TX_LOG_CAPACITY = 200"

definition tx_log_push :: "('m \<Rightarrow> bool) \<Rightarrow> 'm list \<Rightarrow> 'm \<Rightarrow> 'm list" where
  "tx_log_push is_tx_event msgs m =
     (if is_tx_event m
      then (if TX_LOG_CAPACITY \<le> length msgs then tl msgs else msgs) @ [m]
      else msgs)"

text \<open>The log is the last two hundred transaction events.\<close>

lemma tx_log_is_recent:
  "foldl (tx_log_push p) [] ms = drop (length (filter p ms) - TX_LOG_CAPACITY) (filter p ms)"
proof (induction ms rule: rev_induct)
  case (snoc m ms)
  let ?f = "filter p ms"
  show ?case
  proof (cases "p m")
    case True
    then have step: "foldl (tx_log_push p) [] (ms @ [m]) =
        (if TX_LOG_CAPACITY \<le> length (drop (length ?f - TX_LOG_CAPACITY) ?f)
         then tl (drop (length ?f - TX_LOG_CAPACITY) ?f) else drop (length ?f - TX_LOG_CAPACITY) ?f) @ [m]"
      by (simp add: snoc tx_log_push_def)
    have drop_m: "drop (Suc 0 - TX_LOG_CAPACITY) [m] = [m]" by (simp add: TX_LOG_CAPACITY_def)
    show ?thesis
    proof (cases "TX_LOG_CAPACITY \<le> length ?f")
      case long: True
      then have "length (drop (length ?f - TX_LOG_CAPACITY) ?f) = TX_LOG_CAPACITY" by simp
      moreover have "tl (drop (length ?f - TX_LOG_CAPACITY) ?f) = drop (Suc (length ?f) - TX_LOG_CAPACITY) ?f"
        using long by (simp add: Suc_diff_le drop_Suc tl_drop)
      moreover have le: "Suc (length ?f) - TX_LOG_CAPACITY \<le> length ?f" by (simp add: TX_LOG_CAPACITY_def)
      ultimately have "foldl (tx_log_push p) [] (ms @ [m]) = drop (Suc (length ?f) - TX_LOG_CAPACITY) ?f @ [m]"
        unfolding step by simp
      then show ?thesis using True le by simp
    next
      case short: False
      then show ?thesis unfolding step using True drop_m by simp
    qed
  qed (use snoc in \<open>simp add: tx_log_push_def\<close>)
qed simp

section \<open>Writing\<close>

definition set_buy_size :: "json \<Rightarrow> api_state \<Rightarrow> http_status \<times> api_state" where
  "set_buy_size body s =
     (case Option.bind (json_get body ''sol'') json_as_f64 of
        Some sol \<Rightarrow>
          if \<not> 0 < sol then (BAD_REQUEST, s)
          else if sol < ap_buy_cap_floor s then (BAD_REQUEST, s)
          else (NO_CONTENT, s\<lparr>ap_buy_size := sol\<rparr>)
      | None \<Rightarrow> (BAD_REQUEST, s))"

text \<open>
  \<open>confirm\<close> is the header \<^verbatim>\<open>X-Confirm-Live\<close>, if it is text. The flag of the answer is \<^verbatim>\<open>restart_required\<close>.
\<close>

definition put_mode :: "string option \<Rightarrow> json \<Rightarrow> api_state \<Rightarrow> (http_status \<times> bool) \<times> api_state" where
  "put_mode confirm body s =
     (let target = json_str_field body ''mode''
      in if target \<noteq> Some ''demo'' \<and> target \<noteq> Some ''live'' then ((BAD_REQUEST, False), s)
         else if target = Some ''live'' \<and> (case confirm of None \<Rightarrow> True | Some v \<Rightarrow> to_ascii_lowercase v \<noteq> ''yes'')
         then ((FORBIDDEN, False), s)
         else case cf_content (ap_file s) of
           Inl e \<Rightarrow> ((INTERNAL_SERVER_ERROR, False), s)
         | Inr content \<Rightarrow>
             let (err, f) = fs_write (rewrite_yaml_mode content (the target)) (ap_file s)
             in ((if err = None then (OK, Some (ap_mode s) \<noteq> target) else (INTERNAL_SERVER_ERROR, False)),
                 s\<lparr>ap_file := f\<rparr>))"

text \<open>The error, if any, and the file.\<close>

definition rewrite_yaml_wallets :: "'y yaml_lib \<Rightarrow> wallet_entry_config list \<Rightarrow> config_file
    \<Rightarrow> string option \<times> config_file" where
  "rewrite_yaml_wallets Y ws f =
     (case cf_content f of
        Inl e \<Rightarrow> (Some e, f)
      | Inr content \<Rightarrow> (case yl_parse Y content of
          Inl e \<Rightarrow> (Some e, f)
        | Inr doc \<Rightarrow> (case yl_set_wallets Y ws doc of
            None \<Rightarrow> (Some ''root yaml is not a mapping'', f)
          | Some doc' \<Rightarrow> (case yl_print Y doc' of
              Inl e \<Rightarrow> (Some e, f)
            | Inr out \<Rightarrow> fs_write out f))))"

definition json_as_array :: "json \<Rightarrow> json list option" where
  "json_as_array v = (case v of JArray vs \<Rightarrow> Some vs | _ \<Rightarrow> None)"

definition json_as_bool :: "json \<Rightarrow> bool option" where
  "json_as_bool v = (case v of JBool b \<Rightarrow> Some b | _ \<Rightarrow> None)"

text \<open>The size in a request: absent, \<^verbatim>\<open>null\<close> (which clears it), or a number.\<close>

definition requested_size :: "json \<Rightarrow> f64 option option" where
  "requested_size v =
     (case json_get v ''size_sol'' of
        None \<Rightarrow> None
      | Some JNull \<Rightarrow> Some None
      | Some x \<Rightarrow> map_option Some (json_as_f64 x))"

definition patched_entry :: "wallet \<Rightarrow> wallet_entry_config" where
  "patched_entry w = \<lparr>we_id = w_id w, we_label = w_label w, we_enabled = w_enabled w,
     we_private_key_env = w_private_key_env w, we_size_sol = w_size_sol w, we_tier_size = w_tier_size w,
     we_demo_balance_sol = None, we_rpc_url_env = None\<rparr>"

definition apply_request :: "json \<Rightarrow> wallet \<Rightarrow> wallet" where
  "apply_request v w =
     (let w = (case Option.bind (json_get v ''enabled'') json_as_bool of Some on \<Rightarrow> w\<lparr>w_enabled := on\<rparr> | None \<Rightarrow> w)
      in case requested_size v of Some sz \<Rightarrow> w\<lparr>w_size_sol := sz\<rparr> | None \<Rightarrow> w)"

text \<open>The loop over the requested wallets: the registry, and the entries for the file.\<close>

fun patch_wallets :: "json list \<Rightarrow> wallet_registry \<Rightarrow> wallet_registry \<times> wallet_entry_config list" where
  "patch_wallets [] r = (r, [])"
| "patch_wallets (v # vs) r =
     (case json_str_field v ''id'' of
        None \<Rightarrow> patch_wallets vs r
      | Some wid \<Rightarrow> (case registry_get r wid of
          None \<Rightarrow> patch_wallets vs r
        | Some w \<Rightarrow>
            let r1 = update_wallet wid (apply_request v) r;
                (r2, es) = patch_wallets vs r1
            in (r2, patched_entry (apply_request v w) # es)))"

definition put_wallets :: "'y yaml_lib \<Rightarrow> json \<Rightarrow> api_state \<Rightarrow> http_status \<times> api_state" where
  "put_wallets Y body s =
     (case Option.bind (json_get body ''wallets'') json_as_array of
        None \<Rightarrow> (BAD_REQUEST, s)
      | Some arr \<Rightarrow>
          let (r, patches) = patch_wallets arr (ap_registry s); s = s\<lparr>ap_registry := r\<rparr>
          in let (err, f) = rewrite_yaml_wallets Y patches (ap_file s)
             in (if err = None then OK else INTERNAL_SERVER_ERROR, s\<lparr>ap_file := f\<rparr>))"

text \<open>
  Abandoning positions: every string that parses is sent to the manager; a closed channel ends the
  request at once. The answer has the abandoned and the invalid strings.
\<close>

fun abandon_mints :: "(string \<Rightarrow> address option) \<Rightarrow> string option \<Rightarrow> json list \<Rightarrow> api_state
    \<Rightarrow> ((string list \<times> string list) option) \<times> api_state" where
  "abandon_mints parse_addr wid [] s = (Some ([], []), s)"
| "abandon_mints parse_addr wid (v # vs) s =
     (case json_as_str v of
        None \<Rightarrow> abandon_mints parse_addr wid vs s
      | Some t \<Rightarrow> (case parse_addr t of
          None \<Rightarrow> (case abandon_mints parse_addr wid vs s of
             (answer, s') \<Rightarrow> (map_option (\<lambda>(ok, bad). (ok, t # bad)) answer, s'))
        | Some mint \<Rightarrow>
            if \<not> ap_manager_open s then (None, s)
            else (case abandon_mints parse_addr wid vs
                    (s\<lparr>ap_sent := ap_sent s @ [AbandonPosition mint wid]\<rparr>) of
              (answer, s') \<Rightarrow> (map_option (\<lambda>(ok, bad). (t # ok, bad)) answer, s'))))"

definition post_positions_abandon :: "(string \<Rightarrow> address option) \<Rightarrow> json \<Rightarrow> api_state
    \<Rightarrow> (http_status \<times> string list \<times> string list) \<times> api_state" where
  "post_positions_abandon parse_addr body s =
     (case Option.bind (json_get body ''mints'') json_as_array of
        None \<Rightarrow> ((BAD_REQUEST, [], []), s)
      | Some arr \<Rightarrow>
          (case abandon_mints parse_addr (json_str_field body ''wallet_id'') arr s of
             (Some (abandoned, invalid), s') \<Rightarrow> ((OK, abandoned, invalid), s')
           | (None, s') \<Rightarrow> ((SERVICE_UNAVAILABLE, [], []), s')))"

text \<open>The websocket: a text that parses as the one command there is sets the pause.\<close>

definition ws_incoming :: "(string \<Rightarrow> bool option) \<Rightarrow> string \<Rightarrow> api_state \<Rightarrow> api_state" where
  "ws_incoming parse_command msg s =
     (case parse_command msg of
        Some pause \<Rightarrow> if ap_manager_open s then s\<lparr>ap_sent := ap_sent s @ [SetPaused pause]\<rparr> else s
      | None \<Rightarrow> s)"


section \<open>A run of requests\<close>

datatype api_request = SetBuySize json | PutMode "string option" json | PutWallets json
  | AbandonPositions json | Command string

definition handle_request :: "'y yaml_lib \<Rightarrow> (string \<Rightarrow> address option) \<Rightarrow> (string \<Rightarrow> bool option) \<Rightarrow> api_request
    \<Rightarrow> api_state \<Rightarrow> api_state" where
  "handle_request Y parse_addr parse_command q s =
     (case q of
        SetBuySize body \<Rightarrow> snd (set_buy_size body s)
      | PutMode confirm body \<Rightarrow> snd (put_mode confirm body s)
      | PutWallets body \<Rightarrow> snd (put_wallets Y body s)
      | AbandonPositions body \<Rightarrow> snd (post_positions_abandon parse_addr body s)
      | Command msg \<Rightarrow> ws_incoming parse_command msg s)"

definition handle_requests :: "'y yaml_lib \<Rightarrow> (string \<Rightarrow> address option) \<Rightarrow> (string \<Rightarrow> bool option) \<Rightarrow> api_request list
    \<Rightarrow> api_state \<Rightarrow> api_state" where
  "handle_requests Y parse_addr parse_command qs s = fold (handle_request Y parse_addr parse_command) qs s"

text \<open>What a route leaves alone: everything but its own part of the state.\<close>

lemma abandon_mints_frame:
  "\<exists>ms. snd (abandon_mints parse_addr wid vs s) = s\<lparr>ap_sent := ap_sent s @ ms\<rparr>"
proof (induction vs arbitrary: s)
  case Nil
  then show ?case by (auto intro: exI[of _ "[]"])
next
  case (Cons v vs)
  consider (skip) "snd (abandon_mints parse_addr wid (v # vs) s) = snd (abandon_mints parse_addr wid vs s)"
    | (stop) "snd (abandon_mints parse_addr wid (v # vs) s) = s"
    | (sent) m where "snd (abandon_mints parse_addr wid (v # vs) s) =
        snd (abandon_mints parse_addr wid vs (s\<lparr>ap_sent := ap_sent s @ [m]\<rparr>))"
  proof (cases "Option.bind (json_as_str v) parse_addr")
    case None
    then have "snd (abandon_mints parse_addr wid (v # vs) s) = snd (abandon_mints parse_addr wid vs s)"
      by (auto simp: split_def split: option.splits bind_splits)
    then show thesis by (rule skip)
  next
    case (Some mint)
    then obtain t where t: "json_as_str v = Some t" "parse_addr t = Some mint" by (auto split: bind_splits)
    show thesis
    proof (cases "ap_manager_open s")
      case True
      then have "snd (abandon_mints parse_addr wid (v # vs) s) =
          snd (abandon_mints parse_addr wid vs (s\<lparr>ap_sent := ap_sent s @ [AbandonPosition mint wid]\<rparr>))"
        using t by (simp add: split_def)
      then show thesis by (rule sent)
    qed (use t stop in simp)
  qed
  then show ?case
  proof cases
    case skip
    then show ?thesis using Cons.IH[of s] by simp
  next
    case stop
    then show ?thesis by (auto intro: exI[of _ "[]"])
  next
    case sent
    then show ?thesis using Cons.IH[of "s\<lparr>ap_sent := ap_sent s @ [m]\<rparr>"] by auto
  qed
qed

lemma post_positions_abandon_frame:
  "\<exists>ms. snd (post_positions_abandon parse_addr body s) = s\<lparr>ap_sent := ap_sent s @ ms\<rparr>"
proof (cases "Option.bind (json_get body ''mints'') json_as_array")
  case None
  then show ?thesis by (auto simp: post_positions_abandon_def intro: exI[of _ "[]"])
next
  case (Some arr)
  let ?r = "abandon_mints parse_addr (json_str_field body ''wallet_id'') arr s"
  have "snd (post_positions_abandon parse_addr body s) = snd ?r"
    using Some by (cases ?r) (auto simp: post_positions_abandon_def split: option.splits)
  then show ?thesis using abandon_mints_frame by metis
qed

lemma put_wallets_frame:
  "\<exists>r f. snd (put_wallets Y body s) = s\<lparr>ap_registry := r, ap_file := f\<rparr>"
proof (cases "Option.bind (json_get body ''wallets'') json_as_array")
  case None
  then have "snd (put_wallets Y body s) = s\<lparr>ap_registry := ap_registry s, ap_file := ap_file s\<rparr>"
    by (simp add: put_wallets_def)
  then show ?thesis by blast
next
  case (Some arr)
  obtain r es where p: "patch_wallets arr (ap_registry s) = (r, es)" by fastforce
  obtain err f where "rewrite_yaml_wallets Y es (ap_file s) = (err, f)" by fastforce
  then show ?thesis using Some p by (auto simp: put_wallets_def)
qed

lemma put_mode_frame:
  "\<exists>f. snd (put_mode confirm body s) = s\<lparr>ap_file := f\<rparr>"
  by (auto simp: put_mode_def Let_def split_def split: sum.splits option.splits intro: exI[of _ "ap_file s"])

definition covers_floor :: "api_state \<Rightarrow> bool" where
  "covers_floor s \<longleftrightarrow> ap_buy_cap_floor s \<noteq> NaN \<and> ap_buy_size s \<noteq> NaN \<and> ap_buy_cap_floor s \<le> ap_buy_size s"

lemma f64_not_lessD: "\<not> x < y \<Longrightarrow> 0 < x \<Longrightarrow> y \<noteq> NaN \<Longrightarrow> x \<noteq> NaN \<and> y \<le> x"
  by (cases x; cases y) auto

lemma handle_request_covers:
  assumes "covers_floor s"
  shows "covers_floor (handle_request Y parse_addr parse_command q s) \<and>
    ap_buy_cap_floor (handle_request Y parse_addr parse_command q s) = ap_buy_cap_floor s"
proof (cases q)
  case (SetBuySize body)
  then show ?thesis using assms f64_not_lessD
    by (auto simp: handle_request_def set_buy_size_def covers_floor_def split: option.splits)
next
  case (PutMode confirm body)
  then show ?thesis using put_mode_frame[of confirm body s] assms by (auto simp: handle_request_def covers_floor_def)
next
  case (PutWallets body)
  then show ?thesis using put_wallets_frame[of Y body s] assms by (auto simp: handle_request_def covers_floor_def)
next
  case (AbandonPositions body)
  then show ?thesis using post_positions_abandon_frame[of parse_addr body s] assms
    by (auto simp: handle_request_def covers_floor_def)
next
  case (Command msg)
  then show ?thesis using assms
    by (auto simp: handle_request_def ws_incoming_def covers_floor_def split: option.splits)
qed

lemma handle_requests_covers:
  "covers_floor s \<Longrightarrow> covers_floor (handle_requests Y parse_addr parse_command qs s)
    \<and> ap_buy_cap_floor (handle_requests Y parse_addr parse_command qs s) = ap_buy_cap_floor s"
  unfolding handle_requests_def
proof (induction qs arbitrary: s)
  case (Cons q qs)
  then show ?case using handle_request_covers[OF Cons.prems, of Y parse_addr parse_command q] by auto
qed simp

lemma seed_covers: "buy_cap_floor a \<noteq> NaN \<and> buy_cap_seed x a \<noteq> NaN \<and> buy_cap_floor a \<le> buy_cap_seed x a"
proof -
  have f: "buy_cap_floor a \<noteq> NaN"
    by (simp add: buy_cap_floor_def BUY_CAP_ABSOLUTE_FLOOR_SOL_def f64_max_def)
  then have "buy_cap_floor a \<le> buy_cap_seed x a" unfolding buy_cap_seed_def by (rule f64_max_ge2)
  then show ?thesis using f by (cases "buy_cap_seed x a") auto
qed

lemma f64_max_not_less: "x \<noteq> NaN \<Longrightarrow> \<not> f64_max x y < y"
  by (cases x; cases y) (auto simp: f64_max_def)

lemma floor_covers: "f64_of (4/10) \<le> buy_cap_floor a \<and> \<not> buy_cap_floor a < a"
  unfolding buy_cap_floor_def BUY_CAP_ABSOLUTE_FLOOR_SOL_def
  using f64_max_ge1[OF f64_of_not_NaN] f64_max_not_less[OF f64_of_not_NaN] by blast

lemma f64_le_trans_less: "x \<le> y \<Longrightarrow> x \<noteq> NaN \<Longrightarrow> y \<noteq> NaN \<Longrightarrow> \<not> (x :: f64) < a \<Longrightarrow> \<not> y < a"
  by (cases x; cases y; cases a) auto

text \<open>Whatever requests the bot has served since its start, the size of a buy covers the absolute floor
  of 0.4 SOL and is never less than the size of the best tier.\<close>

theorem buy_size_never_below_floor:
  assumes "ap_buy_cap_floor s = buy_cap_floor a_plus" "ap_buy_size s = buy_cap_seed amount a_plus"
  shows "f64_of (4/10) \<le> ap_buy_size (handle_requests Y parse_addr parse_command qs s)
    \<and> \<not> ap_buy_size (handle_requests Y parse_addr parse_command qs s) < a_plus"
proof -
  have "covers_floor s" using assms seed_covers by (simp add: covers_floor_def)
  from handle_requests_covers[OF this, of Y parse_addr parse_command qs]
  show ?thesis using assms(1) floor_covers f64_le_trans f64_le_trans_less
    unfolding covers_floor_def by metis
qed


definition demo_api_wallet :: "string \<Rightarrow> wallet" where
  "demo_api_wallet wid = \<lparr>w_id = wid, w_label = wid, w_enabled = True, w_size_sol = None, w_tier_size = None,
     w_private_key_env = wid, w_pubkey = wid, w_address = 0, w_balance = 0\<rparr>"

definition demo_api :: api_state where
  "demo_api = \<lparr>ap_registry = \<lparr>reg_ordered = [demo_api_wallet ''a'', demo_api_wallet ''b''], reg_mode_label = ''demo''\<rparr>,
     ap_paused = False, ap_balance = 1, ap_buy_size = 1, ap_buy_cap_floor = 1, ap_mode = ''demo'', ap_pubkey = [],
     ap_file = \<lparr>cf_content = Inr ''ab'', cf_faults = []\<rparr>, ap_manager_open = True, ap_sent = []\<rparr>"

definition demo_yaml :: "string yaml_lib" where
  "demo_yaml = \<lparr>yl_parse = Inr, yl_set_wallets = \<lambda>ws d. Some (concat (map we_id ws)), yl_print = Inr\<rparr>"

lemma buy_size_never_below_floor_witness:
  "\<exists>s :: api_state. ap_buy_cap_floor s = buy_cap_floor (f64_of 2) \<and>
     f64_of (4/10) \<le> ap_buy_size (handle_requests demo_yaml Map.empty Map.empty
       [SetBuySize (JObject [(''sol'', JNumber (PosInt 1))]), Command ''x''] s) \<and>
     \<not> ap_buy_size (handle_requests demo_yaml Map.empty Map.empty
       [SetBuySize (JObject [(''sol'', JNumber (PosInt 1))]), Command ''x''] s) < f64_of 2"
proof -
  let ?s = "\<lparr>ap_registry = \<lparr>reg_ordered = [], reg_mode_label = ''demo''\<rparr>, ap_paused = False, ap_balance = 1,
    ap_buy_size = buy_cap_seed 1 (f64_of 2), ap_buy_cap_floor = buy_cap_floor (f64_of 2), ap_mode = ''demo'', ap_pubkey = [],
    ap_file = \<lparr>cf_content = Inr [], cf_faults = []\<rparr>, ap_manager_open = True, ap_sent = []\<rparr>"
  have "ap_buy_cap_floor ?s = buy_cap_floor (f64_of 2)" "ap_buy_size ?s = buy_cap_seed 1 (f64_of 2)" by simp_all
  from buy_size_never_below_floor[OF this] this(1) show ?thesis by blast
qed


section \<open>Live mode needs a confirmation\<close>

text \<open>Requests that neither confirm live mode nor rewrite the wallets.\<close>

fun unconfirmed :: "api_request \<Rightarrow> bool" where
  "unconfirmed (PutMode confirm body) =
     (json_str_field body ''mode'' \<noteq> Some ''live'' \<or>
      (case confirm of None \<Rightarrow> True | Some v \<Rightarrow> to_ascii_lowercase v \<noteq> ''yes''))"
| "unconfirmed (PutWallets body) = False"
| "unconfirmed q = True"

text \<open>What the file can hold after such a request: nothing that can be read, or a tame text.\<close>

definition tame_file :: "string \<Rightarrow> config_file \<Rightarrow> bool" where
  "tame_file old f \<longleftrightarrow> (\<forall>new. cf_content f = Inr new \<longrightarrow> tame old new)"

lemma tame_written_part: "written_part n (rewrite_yaml_mode content ''demo'') = Inr new \<Longrightarrow> tame content new"
  using rewrite_demo_tame by (auto simp: written_part_def Let_def split: if_splits)

lemma fs_write_demo:
  assumes "cf_content f = Inr content"
  shows "tame_file content (snd (fs_write (rewrite_yaml_mode content ''demo'') f))"
proof -
  let ?new = "rewrite_yaml_mode content ''demo''"
  obtain err f' where w: "fs_write ?new f = (err, f')" by fastforce
  have "tame content ?new" using rewrite_demo_tame[of content "length ?new"] by simp
  then show ?thesis using fs_write_cases[OF w] assms w tame_refl[of content]
    by (auto simp: tame_file_def dest: tame_written_part)
qed

lemma put_mode_unconfirmed:
  assumes "unconfirmed (PutMode confirm body)" "tame_file old (ap_file s)"
  shows "tame_file old (ap_file (snd (put_mode confirm body s)))"
proof (cases "ap_file (snd (put_mode confirm body s)) = ap_file s")
  case False
  then obtain content where c: "cf_content (ap_file s) = Inr content"
      "ap_file (snd (put_mode confirm body s)) = snd (fs_write (rewrite_yaml_mode content ''demo'') (ap_file s))"
    using assms(1) by (auto simp: put_mode_def Let_def split_def split: if_splits sum.splits option.splits)
  then show ?thesis using fs_write_demo[OF c(1)] assms(2) tame_trans unfolding tame_file_def by metis
qed (use assms(2) in simp)

lemma handle_request_unconfirmed:
  assumes "unconfirmed q" "tame_file old (ap_file s)"
  shows "ap_mode (handle_request Y parse_addr parse_command q s) = ap_mode s \<and>
    tame_file old (ap_file (handle_request Y parse_addr parse_command q s))"
proof (cases q)
  case (SetBuySize body)
  then show ?thesis using assms by (auto simp: handle_request_def set_buy_size_def split: option.splits)
next
  case (PutMode confirm body)
  then show ?thesis using put_mode_unconfirmed[of confirm body old s] put_mode_frame[of confirm body s] assms
    by (auto simp: handle_request_def)
next
  case (PutWallets body)
  then show ?thesis using assms by simp
next
  case (AbandonPositions body)
  then show ?thesis using post_positions_abandon_frame[of parse_addr body s] assms by (auto simp: handle_request_def)
next
  case (Command msg)
  then show ?thesis using assms by (auto simp: handle_request_def ws_incoming_def split: option.splits)
qed

lemma handle_requests_unconfirmed:
  assumes "list_all unconfirmed qs" "tame_file old (ap_file s)"
  shows "ap_mode (handle_requests Y parse_addr parse_command qs s) = ap_mode s \<and>
    tame_file old (ap_file (handle_requests Y parse_addr parse_command qs s))"
  using assms unfolding handle_requests_def
proof (induction qs arbitrary: s)
  case (Cons q qs)
  then show ?case using handle_request_unconfirmed[of q old s Y parse_addr parse_command] by simp
qed simp

text \<open>C33. Without a confirmed request for live mode (and without a rewriting of the wallets) no run of requests
  puts live mode into the configuration file, even when writes fail half-way: whatever can be read from
  the file afterwards, every line that sets a mode is (the beginning of) one that the file had before or
  of "mode: demo" with some indentation, so that no line sets a mode to live where none did. The mode of
  the running bot does not change.\<close>

theorem live_mode_needs_confirmation:
  assumes "list_all unconfirmed qs" "cf_content (ap_file s) = Inr content"
    and "cf_content (ap_file (handle_requests Y parse_addr parse_command qs s)) = Inr new"
  shows "ap_mode (handle_requests Y parse_addr parse_command qs s) = ap_mode s
    \<and> (\<forall>l \<in> set (lines new). is_mode_line l \<longrightarrow>
        (\<exists>l0 \<in> set (lines content). is_mode_line l0 \<and> prefix l l0) \<or>
        (\<exists>indent. list_all is_whitespace indent \<and> prefix l (indent @ ''mode: demo'')))
    \<and> (list_ex (\<lambda>l. is_mode_line l \<and> sublist ''live'' l) (lines new) \<longrightarrow>
        list_ex (\<lambda>l. is_mode_line l \<and> sublist ''live'' l) (lines content))"
proof -
  have "tame_file content (ap_file s)" using assms(2) by (simp add: tame_file_def tame_refl)
  from handle_requests_unconfirmed[OF assms(1) this, of Y parse_addr parse_command] assms(3)
  have mode: "ap_mode (handle_requests Y parse_addr parse_command qs s) = ap_mode s" and t: "tame content new"
    by (auto simp: tame_file_def)
  have "list_ex says_live (lines new) \<Longrightarrow> list_ex says_live (lines content)"
    using tame_live[OF t] by (auto simp: list_ex_iff)
  then show ?thesis using mode t unfolding tame_def demo_line_def says_live_def by blast
qed

lemma live_mode_needs_confirmation_witness:
  "\<exists>new. cf_content (ap_file (handle_requests demo_yaml Map.empty Map.empty
      [PutMode None (JObject [(''mode'', JString ''live'')]),
       PutMode (Some ''no'') (JObject [(''mode'', JString ''live'')]),
       PutMode None (JObject [(''mode'', JString ''demo'')])] (demo_api\<lparr>ap_file := \<lparr>cf_content = Inr ''ab'',
         cf_faults = [WriteFault 16 ''no space'']\<rparr>\<rparr>))) = Inr new
    \<and> new \<noteq> ''ab'' \<and> \<not> list_ex (\<lambda>l. is_mode_line l \<and> sublist ''live'' l) (lines new)"
proof -
  let ?qs = "[PutMode None (JObject [(''mode'', JString ''live'')]),
       PutMode (Some ''no'') (JObject [(''mode'', JString ''live'')]),
       PutMode None (JObject [(''mode'', JString ''demo'')])]"
  let ?s = "demo_api\<lparr>ap_file := \<lparr>cf_content = Inr ''ab'', cf_faults = [WriteFault 16 ''no space'']\<rparr>\<rparr>"
  have un: "list_all unconfirmed ?qs" by (simp add: to_ascii_lowercase_def json_str_field_def json_get_def json_as_str_def)
  have c: "cf_content (ap_file ?s) = Inr ''ab''" by simp
  have new: "cf_content (ap_file (handle_requests demo_yaml Map.empty Map.empty ?qs ?s))
      = Inr (take 16 (rewrite_yaml_mode ''ab'' ''demo''))" (is "_ = Inr ?new")
    by code_simp
  have "\<not> list_ex (\<lambda>l. is_mode_line l \<and> sublist ''live'' l) (lines ''ab'')" by code_simp
  moreover have "?new \<noteq> ''ab''" by code_simp
  ultimately show ?thesis using new live_mode_needs_confirmation[OF un c new] by blast
qed

section \<open>Changing the wallets\<close>

text \<open>The identifiers of a request, and the entries it writes to the file.\<close>

definition requested_ids :: "json list \<Rightarrow> string list" where
  "requested_ids arr = List.map_filter (\<lambda>v. json_str_field v ''id'') arr"

lemma apply_request_fixed [simp]:
  "w_id (apply_request v w) = w_id w" "w_private_key_env (apply_request v w) = w_private_key_env w"
  "w_balance (apply_request v w) = w_balance w" "w_address (apply_request v w) = w_address w"
  by (auto simp: apply_request_def Let_def split: option.splits)

lemma patch_wallets_ids: "map w_id (reg_ordered (fst (patch_wallets vs r))) = map w_id (reg_ordered r)"
proof (induction vs r rule: patch_wallets.induct)
  case (2 v vs r)
  then show ?case by (auto simp: split_def Let_def split: option.splits)
qed simp

lemma registry_get_known: "registry_get r wid \<noteq> None \<longleftrightarrow> wid \<in> set (map w_id (reg_ordered r))"
  by (auto simp: registry_get_def find_None_iff)

lemma registry_get_id: "registry_get r wid = Some w \<Longrightarrow> w_id w = wid"
  by (auto simp: registry_get_def find_Some_iff)

lemma patch_wallets_entries:
  "map we_id (snd (patch_wallets vs r)) =
     filter (\<lambda>i. i \<in> set (map w_id (reg_ordered r))) (requested_ids vs)
   \<and> (\<forall>e \<in> set (snd (patch_wallets vs r)). we_demo_balance_sol e = None \<and> we_rpc_url_env e = None)"
proof (induction vs r rule: patch_wallets.induct)
  case (2 v vs r)
  show ?case
  proof (cases "json_str_field v ''id''")
    case None
    then show ?thesis using 2(1) by (simp add: requested_ids_def List.map_filter_simps)
  next
    case (Some wid)
    show ?thesis
    proof (cases "registry_get r wid")
      case None
      then have "wid \<notin> set (map w_id (reg_ordered r))" using registry_get_known by blast
      then show ?thesis using 2(2)[OF Some None] Some None
        by (simp add: requested_ids_def List.map_filter_simps)
    next
      case (Some w)
      let ?r1 = "update_wallet wid (apply_request v) r"
      have known: "wid \<in> set (map w_id (reg_ordered r))" using Some registry_get_known by blast
      have ids: "map w_id (reg_ordered ?r1) = map w_id (reg_ordered r)" by simp
      note step = \<open>json_str_field v ''id'' = Some wid\<close> Some
      from 2(3)[OF step refl] ids have ih:
        "map we_id (snd (patch_wallets vs ?r1)) = filter (\<lambda>i. i \<in> set (map w_id (reg_ordered r))) (requested_ids vs)"
        "\<forall>e \<in> set (snd (patch_wallets vs ?r1)). we_demo_balance_sol e = None \<and> we_rpc_url_env e = None"
        by metis+
      have "snd (patch_wallets (v # vs) r) = patched_entry (apply_request v w) # snd (patch_wallets vs ?r1)"
        using step by (simp add: split_def Let_def)
      then show ?thesis using ih known registry_get_id[OF Some] step(1)
        by (simp add: requested_ids_def List.map_filter_simps patched_entry_def)
    qed
  qed
qed (simp add: requested_ids_def List.map_filter_simps)

text \<open>A successful change of the wallets writes to the configuration file a list of exactly the known
  wallets that the request names: every other wallet of the bot is gone from the file, and the entries
  lose their own endpoint and demo balance. The running bot keeps all its wallets.\<close>

theorem put_wallets_drops_the_others:
  assumes "put_wallets Y body s = (OK, s')"
    and "json_get body ''wallets'' = Some (JArray arr)"
  shows "\<exists>content doc es doc' out. cf_content (ap_file s) = Inr content \<and> yl_parse Y content = Inr doc \<and>
      yl_set_wallets Y es doc = Some doc' \<and> yl_print Y doc' = Inr out \<and> cf_content (ap_file s') = Inr out \<and>
      map we_id es = filter (\<lambda>i. i \<in> set (map w_id (reg_ordered (ap_registry s)))) (requested_ids arr) \<and>
      (\<forall>e \<in> set es. we_rpc_url_env e = None \<and> we_demo_balance_sol e = None) \<and>
      map w_id (reg_ordered (ap_registry s')) = map w_id (reg_ordered (ap_registry s))"
proof -
  obtain r es where p: "patch_wallets arr (ap_registry s) = (r, es)" by fastforce
  note es = patch_wallets_entries[of arr "ap_registry s"] and r = patch_wallets_ids[of arr "ap_registry s"]
  obtain f where f: "rewrite_yaml_wallets Y es (ap_file s) = (None, f)" "s' = s\<lparr>ap_registry := r, ap_file := f\<rparr>"
    using assms p by (auto simp: put_wallets_def json_as_array_def Let_def split_def split: if_splits) (metis prod.collapse)
  then obtain content doc doc' out where "cf_content (ap_file s) = Inr content" "yl_parse Y content = Inr doc"
      "yl_set_wallets Y es doc = Some doc'" "yl_print Y doc' = Inr out" "cf_content f = Inr out"
    by (auto simp: rewrite_yaml_wallets_def split: sum.splits option.splits dest: fs_write_cases)
  moreover have "cf_content (ap_file s') = cf_content f" "ap_registry s' = r" using f(2) by simp_all
  ultimately show ?thesis using es r p by auto
qed


lemma put_wallets_drops_the_others_witness:
  "\<exists>(es :: wallet_entry_config list) s'. put_wallets demo_yaml (JObject [(''wallets'', JArray [JObject [(''id'', JString ''b'')]])]) demo_api = (OK, s') \<and>
     map we_id es = [''b''] \<and> map w_id (reg_ordered (ap_registry s')) = [''a'', ''b''] \<and>
     cf_content (ap_file s') = Inr ''b''"
proof -
  let ?arr = "[JObject [(''id'', JString ''b'')]]"
  let ?body = "JObject [(''wallets'', JArray ?arr)]"
  note ev = json_get_def json_str_field_def json_as_str_def
  have ok: "fst (put_wallets demo_yaml ?body demo_api) = OK"
    by (simp add: put_wallets_def json_as_array_def rewrite_yaml_wallets_def fs_write_def demo_yaml_def demo_api_def split_def Let_def ev)
  have body: "json_get ?body ''wallets'' = Some (JArray ?arr)" by (simp add: ev)
  obtain s' where s': "put_wallets demo_yaml ?body demo_api = (OK, s')" using ok by (metis prod.collapse)
  have ids: "filter (\<lambda>i. i \<in> set (map w_id (reg_ordered (ap_registry demo_api)))) (requested_ids ?arr) = [''b'']"
    by (simp add: requested_ids_def List.map_filter_simps demo_api_def demo_api_wallet_def ev)
  from put_wallets_drops_the_others[OF s' body, unfolded ids] obtain content doc es doc' out where
    w: "yl_set_wallets demo_yaml es doc = Some doc'" "yl_print demo_yaml doc' = Inr out"
      "cf_content (ap_file s') = Inr out" "map we_id es = [''b'']"
      "map w_id (reg_ordered (ap_registry s')) = map w_id (reg_ordered (ap_registry demo_api))"
    by (elim exE conjE)
  have "out = concat (map we_id es)" using w(1,2) by (simp add: demo_yaml_def)
  then have "out = ''b''" by (simp only: w(4)) simp
  moreover have "map w_id (reg_ordered (ap_registry demo_api)) = [''a'', ''b'']" by (simp add: demo_api_def demo_api_wallet_def)
  ultimately show ?thesis using w(3-5) s' by metis
qed

end
