(* ===== verification/Api_Laws.thy ===== *)
theory Api_Laws
  imports Http_Api Score_Laws Score_Buy
begin

text \<open>
  The HTTP interface and the buying pipeline together: the size that an operator sets through the
  interface is an upper bound for the size of a buy, but the interface accepts no bound below 0.4 SOL and
  the size of tier A+, so that the bound has no effect on a tier that is not larger than both.
\<close>

lemma f64_min_left: "x \<noteq> NaN \<Longrightarrow> x \<le> y \<Longrightarrow> f64_min x y = x"
  by (cases x; cases y) (auto simp: f64_min_def)

lemma f64_max_zero: "0 \<le> x \<Longrightarrow> f64_max x 0 = x"
  by (cases x) (auto simp: f64_max_def zero_f64_def)

lemma f64_nonneg_not_NaN: "0 \<le> (x :: f64) \<Longrightarrow> x \<noteq> NaN"
  by (cases x) (auto simp: zero_f64_def)

text \<open>C32. Whatever the operator requests, a buy has the size of its tier as long as that size lies between zero
  and the larger of 0.4 SOL and the size of tier A+ (the sizes of the tiers are not validated, but those that
  ship do): the smallest bound the interface accepts is that maximum, so that only a tier larger than A+ and
  0.4 SOL can be limited at all.\<close>

theorem operator_cap_never_binds:
  assumes "ap_buy_cap_floor s = buy_cap_floor (a_plus_sol (sc_size cfg))"
    and "ap_buy_size s = buy_cap_seed amount (a_plus_sol (sc_size cfg))"
    and "sc_breakdown sc = score_token cfg f th"
    and "0 \<le> tier_sol (sc_size cfg) (sb_tier (sc_breakdown sc))"
    and "tier_sol (sc_size cfg) (sb_tier (sc_breakdown sc)) \<le> f64_max (f64_of (4/10)) (a_plus_sol (sc_size cfg))"
    and "se_operator_cap env = ap_buy_size (handle_requests Y parse_addr parse_command qs s)"
  shows "buy_amount env sc = tier_sol (sc_size cfg) (sb_tier (sc_breakdown sc))"
proof -
  let ?size = "tier_sol (sc_size cfg) (sb_tier (sc_breakdown sc))" and ?cap = "se_operator_cap env"
  have "covers_floor s" using assms(1,2) seed_covers by (simp add: covers_floor_def)
  from handle_requests_covers[OF this, of Y parse_addr parse_command qs]
  have cap: "buy_cap_floor (a_plus_sol (sc_size cfg)) \<le> ?cap" using assms(1,6) unfolding covers_floor_def by (elim conjE) simp
  have "?size \<le> ?cap"
    using f64_le_trans[OF assms(5)[folded BUY_CAP_ABSOLUTE_FLOOR_SOL_def buy_cap_floor_def] cap] .
  then have "f64_max (f64_min ?size ?cap) 0 = ?size"
    using assms(4) by (simp add: f64_min_left f64_nonneg_not_NaN f64_max_zero)
  then show ?thesis by (simp add: buy_amount_def assms(3) sb_size_eq)
qed

lemma shipped_sizes: "0 \<le> tier_sol tier_size_default t \<and> tier_sol tier_size_default t \<le> f64_of 0.4"
  by (cases t) (auto simp: tier_size_default_def zero_f64_def intro: f64_of_mono f64_of_nonneg[unfolded zero_f64_def])

lemma operator_cap_never_binds_witness:
  "\<forall>(env :: score_env) (sc :: scored) (cfg :: scoring_config) f th. buy_amount (env\<lparr>se_operator_cap := ap_buy_size (handle_requests demo_yaml Map.empty Map.empty
       [SetBuySize (JObject [(''sol'', JNumber (PosInt 1))])]
       (demo_api\<lparr>ap_buy_cap_floor := buy_cap_floor (f64_of 0.4), ap_buy_size := buy_cap_seed 1 (f64_of 0.4)\<rparr>))\<rparr>)
     (sc\<lparr>sc_breakdown := score_token (cfg\<lparr>sc_size := tier_size_default\<rparr>) f th\<rparr>) =
   tier_sol tier_size_default (sb_tier (score_token (cfg\<lparr>sc_size := tier_size_default\<rparr>) f th))"
proof (intro allI)
  fix env :: score_env and sc :: scored and cfg :: scoring_config and f th
  let ?s = "demo_api\<lparr>ap_buy_cap_floor := buy_cap_floor (f64_of 0.4), ap_buy_size := buy_cap_seed 1 (f64_of 0.4)\<rparr>"
  let ?cfg = "cfg\<lparr>sc_size := tier_size_default\<rparr>"
  let ?qs = "[SetBuySize (JObject [(''sol'', JNumber (PosInt 1))])]"
  let ?env = "env\<lparr>se_operator_cap := ap_buy_size (handle_requests demo_yaml Map.empty Map.empty ?qs ?s)\<rparr>"
  let ?sc = "sc\<lparr>sc_breakdown := score_token ?cfg f th\<rparr>"
  have a: "a_plus_sol tier_size_default = f64_of 0.4" by (simp add: tier_size_default_def)
  have floor: "f64_of 0.4 \<le> f64_max (f64_of (2/5)) (f64_of (2/5))"
    by (simp add: f64_max_def f64_le_refl)
  have sizes: "0 \<le> tier_sol tier_size_default t \<and>
      tier_sol tier_size_default t \<le> f64_max (f64_of (2/5)) (f64_of (2/5))" for t
    using shipped_sizes f64_le_trans floor by blast
  have "buy_amount ?env ?sc = tier_sol (sc_size ?cfg) (sb_tier (sc_breakdown ?sc))"
    by (rule operator_cap_never_binds[where s = ?s and amount = 1]) (simp_all add: a sizes)
  then show "buy_amount ?env ?sc = tier_sol tier_size_default (sb_tier (score_token ?cfg f th))" by simp
qed

end
