(* ===== verification/Pump_Pipeline.thy ===== *)
theory Pump_Pipeline
  imports Launchpad Create_Gate
begin

text \<open>
  Model of what lies between the feeds and the loop of \<^verbatim>\<open>src/main.rs\<close>: the parsing of a log line into an
  event (\<^verbatim>\<open>src/feed/logs/pump.rs\<close>, \<^verbatim>\<open>src/feed/logs/pump_amm.rs\<close>), the translation of events to actions
  (\<^verbatim>\<open>src/generalize/adapters/pump.rs\<close>), and the consumer of \<^verbatim>\<open>src/pipelines/pump.rs\<close>, which reports every
  event to the launchpad actor and sends it on with the bucket of its token. Base64 and borsh are
  parameters. The three messages of one event to the launchpad are one step: other tasks only read.

  The property says which events are sent on, in what order, and with which bucket.
\<close>

section \<open>Log lines\<close>

datatype log_error = LogIo | Base64Decode | InvalidDiscriminator | InvalidLogEvent

definition CREATE_EVENT :: "u8 list" where "CREATE_EVENT = [27, 114, 169, 77, 222, 235, 99, 118]"
definition TRADE_EVENT :: "u8 list" where "TRADE_EVENT = [189, 219, 127, 211, 78, 230, 97, 238]"

definition program_data :: string where "program_data = ''Program data: ''"

text \<open>The payload of a line, split into discriminator and data.\<close>

definition split_line :: "(string \<Rightarrow> u8 list option) \<Rightarrow> string \<Rightarrow> log_error + u8 list \<times> u8 list" where
  "split_line base64 line =
     (if \<not> starts_with line program_data then Inl InvalidLogEvent
      else case base64 (drop (length program_data) line) of
        None \<Rightarrow> Inl Base64Decode
      | Some blob \<Rightarrow> if length blob < 8 then Inl InvalidLogEvent else Inr (take 8 blob, drop 8 blob))"

definition borsh :: "(u8 list \<Rightarrow> 'e option) \<Rightarrow> ('e \<Rightarrow> 'f) \<Rightarrow> u8 list \<Rightarrow> log_error + 'f" where
  "borsh decode con data = (case decode data of None \<Rightarrow> Inl LogIo | Some e \<Rightarrow> Inr (con e))"

definition pump_event_of_line :: "(string \<Rightarrow> u8 list option) \<Rightarrow> (u8 list \<Rightarrow> trade_event option)
    \<Rightarrow> (u8 list \<Rightarrow> create_event option) \<Rightarrow> string \<Rightarrow> log_error + pump_event" where
  "pump_event_of_line base64 trade create line =
     (case split_line base64 line of
        Inl e \<Rightarrow> Inl e
      | Inr (discriminator, data) \<Rightarrow>
          if discriminator = TRADE_EVENT then borsh trade TradeEvent data
          else if discriminator = CREATE_EVENT then borsh create Create data
          else Inl InvalidDiscriminator)"

text \<open>The events of the AMM, with the fields that are read.\<close>

record amm_buy_event =
  ab_pool :: address
  ab_user :: address
  ab_base_amount_out :: u64
  ab_pool_quote_token_reserves :: u64
  ab_quote_amount_in :: u64

record amm_sell_event =
  as_pool :: address
  as_user :: address
  as_base_amount_in :: u64
  as_quote_amount_out :: u64

record create_pool_event =
  cp_pool :: address
  cp_creator :: address
  cp_quote_mint :: address

datatype amm_event = AmmBuy amm_buy_event | AmmSell amm_sell_event | CreatePool create_pool_event

fun amm_pool :: "amm_event \<Rightarrow> address" where
  "amm_pool (AmmBuy e) = ab_pool e"
| "amm_pool (AmmSell e) = as_pool e"
| "amm_pool (CreatePool e) = cp_pool e"

definition BUY_EVENT :: "u8 list" where "BUY_EVENT = [103, 244, 82, 31, 44, 245, 119, 119]"
definition SELL_EVENT :: "u8 list" where "SELL_EVENT = [62, 47, 55, 10, 165, 3, 220, 42]"
definition CREATE_POOL_EVENT :: "u8 list" where "CREATE_POOL_EVENT = [177, 49, 12, 210, 160, 118, 167, 116]"

definition amm_event_of_line :: "(string \<Rightarrow> u8 list option) \<Rightarrow> (u8 list \<Rightarrow> amm_buy_event option)
    \<Rightarrow> (u8 list \<Rightarrow> amm_sell_event option) \<Rightarrow> (u8 list \<Rightarrow> create_pool_event option) \<Rightarrow> string
    \<Rightarrow> log_error + amm_event" where
  "amm_event_of_line base64 buy sell create line =
     (case split_line base64 line of
        Inl e \<Rightarrow> Inl e
      | Inr (discriminator, data) \<Rightarrow>
          if discriminator = BUY_EVENT then borsh buy AmmBuy data
          else if discriminator = SELL_EVENT then borsh sell AmmSell data
          else if discriminator = CREATE_POOL_EVENT then borsh create CreatePool data
          else Inl InvalidDiscriminator)"

section \<open>Actions\<close>

text \<open>The name, symbol and link of a created token are dropped: nothing reads them.\<close>

datatype action = CreateAction general_create | TradeAction trade_action

definition action_of :: "pump_event \<Rightarrow> action" where
  "action_of e =
     (case e of
        Create c \<Rightarrow> CreateAction \<lparr>gc_mint = ce_mint c, gc_user = ce_user c, gc_quote_mint = ce_quote_mint c\<rparr>
      | TradeEvent t \<Rightarrow> TradeAction (trade_action_of t))"

fun action_mint :: "action \<Rightarrow> address" where
  "action_mint (CreateAction g) = gc_mint g"
| "action_mint (TradeAction t) = trade_mint t"

text \<open>\<^verbatim>\<open>into_general\<close> of the AMM, which reads the reserves of the pool as the amount bought, and the amount sold
  as the amount received.\<close>

definition into_general :: "amm_event \<Rightarrow> address \<Rightarrow> action" where
  "into_general e mint =
     (case e of
        AmmBuy b \<Rightarrow> TradeAction (ABuy \<lparr>gb_mint = mint, gb_user = ab_user b,
          gb_bought = amount_from_raw (ab_pool_quote_token_reserves b) PRECISION,
          gb_spent = Native (amount_from_raw_native (ab_quote_amount_in b))\<rparr>)
      | AmmSell s \<Rightarrow> TradeAction (ASell \<lparr>gs_mint = mint, gs_user = as_user s,
          gs_sold = amount_from_raw (as_base_amount_in s) PRECISION,
          gs_received = Native (amount_from_raw_native (as_base_amount_in s))\<rparr>)
      | CreatePool p \<Rightarrow> CreateAction \<lparr>gc_mint = mint, gc_user = cp_creator p, gc_quote_mint = cp_quote_mint p\<rparr>)"

lemma amm_amounts_ignore_trade:
  "into_general (AmmBuy (b\<lparr>ab_base_amount_out := n\<rparr>)) mint = into_general (AmmBuy b) mint"
  "into_general (AmmSell (s\<lparr>as_quote_amount_out := n\<rparr>)) mint = into_general (AmmSell s) mint"
  by (simp_all add: into_general_def)

section \<open>The consumer\<close>

definition is_filtered :: "bool \<Rightarrow> pump_event \<Rightarrow> bool" where
  "is_filtered mayhem e = (case e of Create c \<Rightarrow> ce_is_mayhem_mode c \<noteq> mayhem | TradeEvent _ \<Rightarrow> False)"

definition consume :: "(address \<Rightarrow> address) \<Rightarrow> (address \<Rightarrow> address) \<Rightarrow> bool \<Rightarrow> launchpad \<Rightarrow> u64 \<times> pump_event
    \<Rightarrow> (launchpad \<times> (u64 \<times> action \<times> token_bucket) list) outcome" where
  "consume pool_pda bc mayhem lp ev =
     (let (slot, e) = ev; mint = event_mint e
      in if is_filtered mayhem e then Inr (lp, [])
         else bind_outcome (launchpad_listen pool_pda bc lp (Event slot e)) (\<lambda>(lp, done).
           if done \<noteq> LFinished then Inr (lp, [])
           else bind_outcome (launchpad_listen pool_pda bc lp (TokenExists mint)) (\<lambda>(lp, token_exists).
             if token_exists \<noteq> LExists True then Inr (lp, [])
             else bind_outcome (launchpad_listen pool_pda bc lp (GetBucket mint)) (\<lambda>(lp, answer).
               case answer of
                 LBucket bucket \<Rightarrow> Inr (lp, [(slot, action_of e, bucket)])
               | _ \<Rightarrow> Inr (lp, [])))))"

fun pump_run :: "(address \<Rightarrow> address) \<Rightarrow> (address \<Rightarrow> address) \<Rightarrow> bool \<Rightarrow> launchpad \<Rightarrow> (u64 \<times> pump_event) list
    \<Rightarrow> (launchpad \<times> (u64 \<times> action \<times> token_bucket) list) outcome" where
  "pump_run pool_pda bc mayhem lp [] = Inr (lp, [])"
| "pump_run pool_pda bc mayhem lp (ev # evs) =
     bind_outcome (consume pool_pda bc mayhem lp ev) (\<lambda>(lp1, out).
     bind_outcome (pump_run pool_pda bc mayhem lp1 evs) (\<lambda>(lp2, outs). Inr (lp2, out @ outs)))"

section \<open>What is sent on\<close>

text \<open>Created tokens of the configured kind, and trades of tokens that were created before.\<close>

fun known_events :: "(address \<Rightarrow> address) \<Rightarrow> bool \<Rightarrow> address set \<Rightarrow> (u64 \<times> pump_event) list \<Rightarrow> (u64 \<times> pump_event) list" where
  "known_events pool_pda mayhem K [] = []"
| "known_events pool_pda mayhem K ((slot, e) # evs) =
     (case e of
        Create c \<Rightarrow>
          if ce_is_mayhem_mode c \<noteq> mayhem then known_events pool_pda mayhem K evs
          else (slot, e) # known_events pool_pda mayhem (insert (pool_pda (ce_mint c)) K) evs
      | TradeEvent t \<Rightarrow>
          if pool_pda (te_mint t) \<in> K then (slot, e) # known_events pool_pda mayhem K evs
          else known_events pool_pda mayhem K evs)"

lemma action_mint_of [simp]: "action_mint (action_of e) = event_mint e"
  by (cases e) (auto simp: action_of_def trade_action_of_def)

lemma react_known:
  assumes "launchpad_ok pool_pda lp" "lp_tokens lp (pool_pda (event_mint e)) \<noteq> None \<or> (\<exists>c. e = Create c)"
  shows "\<exists>lp' b. react pool_pda bc lp slot e = Inr (lp', True) \<and> launchpad_ok pool_pda lp' \<and>
    lp_tokens lp' (pool_pda (event_mint e)) = Some b \<and>
    dom (lp_tokens lp') = insert (pool_pda (event_mint e)) (dom (lp_tokens lp))"
proof -
  obtain lp' fin where r: "react pool_pda bc lp slot e = Inr (lp', fin)" and ok: "launchpad_ok pool_pda lp'"
    using react_ok[OF assms(1), of bc slot e] by blast
  have "fin \<and> (\<exists>b. lp_tokens lp' (pool_pda (event_mint e)) = Some b) \<and>
      dom (lp_tokens lp') = insert (pool_pda (event_mint e)) (dom (lp_tokens lp))"
    using r assms(2) by (cases e) (auto simp: bind_outcome_Inr_iff Let_def split: option.splits)
  then show ?thesis using r ok by auto
qed

lemma consume_step:
  assumes "launchpad_ok pool_pda lp"
  shows "\<exists>lp' out. consume pool_pda bc mayhem lp (slot, e) = Inr (lp', out) \<and> launchpad_ok pool_pda lp' \<and>
    (if is_filtered mayhem e \<or> (\<exists>t. e = TradeEvent t) \<and> lp_tokens lp (pool_pda (event_mint e)) = None
     then lp' = lp \<and> out = []
     else dom (lp_tokens lp') = insert (pool_pda (event_mint e)) (dom (lp_tokens lp)) \<and>
       (\<exists>b. lp_tokens lp' (pool_pda (event_mint e)) = Some b \<and> out = [(slot, action_of e, b)]))"
proof (cases "is_filtered mayhem e \<or> (\<exists>t. e = TradeEvent t) \<and> lp_tokens lp (pool_pda (event_mint e)) = None")
  case True
  then show ?thesis using assms by (cases e) (auto simp: consume_def Let_def)
next
  case False
  then have "lp_tokens lp (pool_pda (event_mint e)) \<noteq> None \<or> (\<exists>c. e = Create c)" by (cases e) auto
  from react_known[OF assms this, of bc slot] obtain lp' b where
    r: "react pool_pda bc lp slot e = Inr (lp', True)" "launchpad_ok pool_pda lp'"
    "lp_tokens lp' (pool_pda (event_mint e)) = Some b"
    "dom (lp_tokens lp') = insert (pool_pda (event_mint e)) (dom (lp_tokens lp))" by blast
  then have "consume pool_pda bc mayhem lp (slot, e) = Inr (lp', [(slot, action_of e, b)])"
    using False by (simp add: consume_def Let_def)
  then show ?thesis using r False by auto
qed

definition sent_with_bucket :: "(address \<Rightarrow> address) \<Rightarrow> u64 \<times> action \<times> token_bucket \<Rightarrow> bool" where
  "sent_with_bucket pool_pda = (\<lambda>(slot, a, b). pool_pda (pool_mint (tb_pool b)) = pool_pda (action_mint a) \<and> bucket_ok b)"

lemma pump_run_known:
  "launchpad_ok pool_pda lp \<Longrightarrow>
   \<exists>lp' out. pump_run pool_pda bc mayhem lp evs = Inr (lp', out) \<and> list_all (sent_with_bucket pool_pda) out \<and>
     map (\<lambda>(slot, a, b). (slot, a)) out =
       map (\<lambda>(slot, e). (slot, action_of e)) (known_events pool_pda mayhem (dom (lp_tokens lp)) evs)"
proof (induction evs arbitrary: lp)
  case (Cons ev evs)
  obtain slot e where ev: "ev = (slot, e)" by fastforce
  let ?skip = "is_filtered mayhem e \<or> (\<exists>t. e = TradeEvent t) \<and> lp_tokens lp (pool_pda (event_mint e)) = None"
  from consume_step[OF Cons.prems, of bc mayhem slot e] obtain lp1 out1 where
    c: "consume pool_pda bc mayhem lp (slot, e) = Inr (lp1, out1)" "launchpad_ok pool_pda lp1" and
    d: "if ?skip then lp1 = lp \<and> out1 = []
        else dom (lp_tokens lp1) = insert (pool_pda (event_mint e)) (dom (lp_tokens lp)) \<and>
          (\<exists>b. lp_tokens lp1 (pool_pda (event_mint e)) = Some b \<and> out1 = [(slot, action_of e, b)])" by blast
  from Cons.IH[OF c(2)] obtain lp2 out2 where
    r: "pump_run pool_pda bc mayhem lp1 evs = Inr (lp2, out2)" "list_all (sent_with_bucket pool_pda) out2"
      "map (\<lambda>(slot, a, b). (slot, a)) out2 =
       map (\<lambda>(slot, e). (slot, action_of e)) (known_events pool_pda mayhem (dom (lp_tokens lp1)) evs)" by blast
  have run: "pump_run pool_pda bc mayhem lp (ev # evs) = Inr (lp2, out1 @ out2)" using c(1) r(1) by (simp add: ev)
  show ?case
  proof (cases ?skip)
    case True
    then have "known_events pool_pda mayhem (dom (lp_tokens lp)) (ev # evs) =
        known_events pool_pda mayhem (dom (lp_tokens lp1)) evs"
      using d by (cases e) (auto simp: ev is_filtered_def)
    then show ?thesis using run r d True by auto
  next
    case False
    then obtain b where b: "lp_tokens lp1 (pool_pda (event_mint e)) = Some b" "out1 = [(slot, action_of e, b)]"
      and dom1: "dom (lp_tokens lp1) = insert (pool_pda (event_mint e)) (dom (lp_tokens lp))" using d by auto
    have "sent_with_bucket pool_pda (slot, action_of e, b)"
      using c(2) b(1) by (simp add: sent_with_bucket_def launchpad_ok_def)
    moreover have "known_events pool_pda mayhem (dom (lp_tokens lp)) (ev # evs) =
        (slot, e) # known_events pool_pda mayhem (dom (lp_tokens lp1)) evs"
      using False dom1 by (cases e) (auto simp: ev insert_absorb domIff is_filtered_def)
    ultimately show ?thesis using run r b(2) by auto
  qed
qed simp

text \<open>C30. The pipeline never panics and sends on, in the order of the feed and with nothing in between, exactly
  the creations of the configured kind and the trades of tokens created before, each with a well-formed
  bucket of its own token; every trade of a token that was filtered or is older than the process is dropped.\<close>

theorem pipeline_sends_known_events:
  "\<exists>lp out. pump_run pool_pda bc mayhem (launchpad_new threshold) evs = Inr (lp, out) \<and>
     list_all (sent_with_bucket pool_pda) out \<and>
     map (\<lambda>(slot, a, b). (slot, a)) out =
       map (\<lambda>(slot, e). (slot, action_of e)) (known_events pool_pda mayhem {} evs)"
  using pump_run_known[OF launchpad_ok_new, of pool_pda bc mayhem threshold evs] by (simp add: launchpad_new_def)

end
