(* ===== verification/Telemetry.thy ===== *)
theory Telemetry
  imports Machines "HOL-Library.Multiset"
begin

text \<open>
  Two small actors beside the trade stream: the waiter that holds back writes about a token until the
  token itself is saved (\<^verbatim>\<open>src/setup/waiter.rs\<close>), and the registry of the times a buy takes from the
  creation of its token to its confirmation (\<^verbatim>\<open>src/telemetry/buy_latency.rs\<close>). Instants are
  milliseconds; the line the registry logs is the value of the call.
\<close>

section \<open>Waiting for a token to be saved\<close>

datatype 'w token_state = Created | Waiting "'w list"

datatype 'w waiter_message = NotifyCreated address | WaitUntilCreated address 'w

type_synonym 'w waiter = "address \<Rightarrow> 'w token_state option"

text \<open>One turn of \<^verbatim>\<open>run\<close>: the new table, and who is answered.\<close>

definition waiter_step :: "'w waiter \<Rightarrow> 'w waiter_message \<Rightarrow> 'w waiter \<times> 'w list" where
  "waiter_step st m =
     (case m of
        NotifyCreated a \<Rightarrow>
          (st(a \<mapsto> Created), case st a of Some (Waiting ws) \<Rightarrow> ws | _ \<Rightarrow> [])
      | WaitUntilCreated a w \<Rightarrow>
          (case st a of
             Some Created \<Rightarrow> (st, [w])
           | Some (Waiting ws) \<Rightarrow> (st(a \<mapsto> Waiting (ws @ [w])), [])
           | None \<Rightarrow> (st(a \<mapsto> Waiting [w]), [])))"

fun waiter_run :: "'w waiter \<Rightarrow> 'w waiter_message list \<Rightarrow> 'w waiter \<times> 'w list" where
  "waiter_run st [] = (st, [])"
| "waiter_run st (m # ms) =
     (let (st1, ws) = waiter_step st m; (st2, ws') = waiter_run st1 ms in (st2, ws @ ws'))"

fun notified :: "'w waiter_message list \<Rightarrow> address set" where
  "notified [] = {}"
| "notified (NotifyCreated a # ms) = insert a (notified ms)"
| "notified (WaitUntilCreated a w # ms) = notified ms"

fun registered :: "'w waiter_message list \<Rightarrow> (address \<times> 'w) list" where
  "registered [] = []"
| "registered (NotifyCreated a # ms) = registered ms"
| "registered (WaitUntilCreated a w # ms) = (a, w) # registered ms"

text \<open>The waiters that a table still holds for the addresses of a set.\<close>

definition due :: "address set \<Rightarrow> (address \<times> 'w) list \<Rightarrow> 'w multiset" where
  "due N rs = image_mset snd (filter_mset (\<lambda>r. fst r \<in> N) (mset rs))"

definition pending :: "'w waiter \<Rightarrow> address \<Rightarrow> 'w list" where
  "pending st a = (case st a of Some (Waiting ws) \<Rightarrow> ws | _ \<Rightarrow> [])"

definition saved_already :: "'w waiter \<Rightarrow> address set" where
  "saved_already st = {a. st a = Some Created}"

definition due_pending :: "'w waiter \<Rightarrow> address set \<Rightarrow> 'w multiset" where
  "due_pending st N = (\<Sum>a\<in>N. mset (pending st a))"

lemma due_simps [simp]:
  "due N [] = {#}" "due N ((a, w) # rs) = (if a \<in> N then {#w#} else {#}) + due N rs"
  by (simp_all add: due_def)

lemma pending_simps [simp]:
  "pending (st(a \<mapsto> Created)) b = (if b = a then [] else pending st b)"
  "pending (st(a \<mapsto> Waiting ws)) b = (if b = a then ws else pending st b)"
  "st a = Some Created \<Longrightarrow> pending st a = []" "st a = None \<Longrightarrow> pending st a = []"
  "st a = Some (Waiting ws) \<Longrightarrow> pending st a = ws"
  by (simp_all add: pending_def)

lemma saved_already_simps [simp]:
  "saved_already (st(a \<mapsto> Created)) = insert a (saved_already st)"
  "st a \<noteq> Some Created \<Longrightarrow> saved_already (st(a \<mapsto> Waiting ws)) = saved_already st"
  by (auto simp: saved_already_def)

lemma finite_notified [simp]: "finite (notified ms)"
  by (induction ms rule: notified.induct) auto

lemma due_pending_created:
  "finite N \<Longrightarrow> due_pending (st(a \<mapsto> Created)) N + (if a \<in> N then mset (pending st a) else {#}) = due_pending st N"
  unfolding due_pending_def
  by (cases "a \<in> N") (auto simp: sum.remove[of N a] intro!: sum.cong)

lemma due_pending_insert:
  "finite N \<Longrightarrow> due_pending st (insert a N) = mset (pending st a) + due_pending st (N - {a})"
  by (simp add: due_pending_def sum.insert_remove)

lemma due_pending_waiting:
  assumes "finite N" "mset ws = mset (pending st a) + {#w#}"
  shows "due_pending (st(a \<mapsto> Waiting ws)) N = due_pending st N + (if a \<in> N then {#w#} else {#})"
proof (cases "a \<in> N")
  case True
  have "(\<Sum>b\<in>N - {a}. mset (pending (st(a \<mapsto> Waiting ws)) b)) = (\<Sum>b\<in>N - {a}. mset (pending st b))"
    by (rule sum.cong) auto
  then show ?thesis using True assms by (simp add: due_pending_def sum.remove[of N a])
next
  case False
  then show ?thesis by (auto simp: due_pending_def intro!: sum.cong)
qed

lemma due_pending_remove:
  assumes "finite N" "pending st a = []" shows "due_pending st (N - {a}) = due_pending st N"
  using assms by (cases "a \<in> N") (simp_all add: due_pending_def sum.remove[of N a])

text \<open>Answered are those who waited for an address notified since, and those who ask afterwards.\<close>

lemma waiter_run_answers:
  "mset (snd (waiter_run st ms)) =
     due_pending st (notified ms) + due (notified ms \<union> saved_already st) (registered ms)"
proof (induction ms arbitrary: st)
  case Nil
  then show ?case by (simp add: due_pending_def)
next
  case (Cons m ms)
  show ?case
  proof (cases m)
    case (NotifyCreated a)
    have "due_pending (st(a \<mapsto> Created)) (notified ms) + mset (pending st a) = due_pending st (insert a (notified ms))"
      using due_pending_created[of "notified ms" st a] due_pending_remove[of "notified ms" "st(a \<mapsto> Created)" a]
        due_pending_created[of "notified ms - {a}" st a]
      by (simp add: due_pending_insert)
    then show ?thesis using Cons.IH[of "st(a \<mapsto> Created)"]
      by (simp add: NotifyCreated waiter_step_def pending_def split_def Let_def ac_simps del: fun_upd_apply)
  next
    case (WaitUntilCreated a w)
    show ?thesis
    proof (cases "st a = Some Created")
      case True
      then have "a \<in> saved_already st" by (simp add: saved_already_def)
      then show ?thesis using True Cons.IH[of st]
        by (simp add: WaitUntilCreated waiter_step_def split_def Let_def)
    next
      case False
      have na: "a \<notin> saved_already st" using False by (simp add: saved_already_def)
      obtain ws where step: "waiter_step st m = (st(a \<mapsto> Waiting ws), [])"
        and ws: "mset ws = mset (pending st a) + {#w#}"
        using False WaitUntilCreated
        by (cases "st a"; cases "the (st a)") (auto simp: waiter_step_def pending_def)
      show ?thesis using Cons.IH[of "st(a \<mapsto> Waiting ws)"] na False
        by (simp add: step[unfolded WaitUntilCreated] due_pending_waiting[OF _ ws] WaitUntilCreated ac_simps del: fun_upd_apply)
    qed
  qed
qed

text \<open>C37. After any messages, exactly the waiters of the tokens that were reported as saved have been
  answered, each as often as it has asked: none before, none twice, none forgotten.\<close>

theorem waiter_answers_after_creation:
  "mset (snd (waiter_run Map.empty ms)) = due (notified ms) (registered ms)"
  by (simp add: waiter_run_answers due_pending_def pending_def saved_already_def)

section \<open>The latency of buys\<close>

record wallet_timing =
  wt_sent :: "nat option"
  wt_confirmed :: "nat option"

record trace =
  tc_created :: nat
  tc_score_done :: "nat option"
  tc_gate :: "nat option"
  tc_wallets :: "(string \<times> wallet_timing) list"

type_synonym latency_registry = "address \<Rightarrow> trace option"

definition timing_default :: wallet_timing where
  "timing_default = \<lparr>wt_sent = None, wt_confirmed = None\<rparr>"

text \<open>\<^verbatim>\<open>entry(wallet_id).or_default()\<close> with the change made to it.\<close>

definition entry_or_default :: "string \<Rightarrow> (wallet_timing \<Rightarrow> wallet_timing) \<Rightarrow> (string \<times> wallet_timing) list
    \<Rightarrow> (string \<times> wallet_timing) list" where
  "entry_or_default k f ws =
     (if map_of ws k = None then ws @ [(k, f timing_default)] else alist_upd k f ws)"

definition on_created :: "nat \<Rightarrow> address \<Rightarrow> latency_registry \<Rightarrow> latency_registry" where
  "on_created now mint g =
     (case g mint of
        Some _ \<Rightarrow> g
      | None \<Rightarrow> g(mint \<mapsto> \<lparr>tc_created = now, tc_score_done = None, tc_gate = None, tc_wallets = []\<rparr>))"

definition on_score_done :: "nat \<Rightarrow> address \<Rightarrow> latency_registry \<Rightarrow> latency_registry" where
  "on_score_done now mint g =
     (case g mint of None \<Rightarrow> g | Some t \<Rightarrow> g(mint \<mapsto> t\<lparr>tc_score_done := Some now\<rparr>))"

definition on_gate :: "nat \<Rightarrow> address \<Rightarrow> latency_registry \<Rightarrow> latency_registry" where
  "on_gate now mint g =
     (case g mint of None \<Rightarrow> g | Some t \<Rightarrow> g(mint \<mapsto> t\<lparr>tc_gate := Some now\<rparr>))"

definition on_sent :: "nat \<Rightarrow> address \<Rightarrow> string \<Rightarrow> latency_registry \<Rightarrow> latency_registry" where
  "on_sent now mint wallet_id g =
     (case g mint of None \<Rightarrow> g
      | Some t \<Rightarrow> g(mint \<mapsto> t\<lparr>tc_wallets := entry_or_default wallet_id (\<lambda>w. w\<lparr>wt_sent := Some now\<rparr>) (tc_wallets t)\<rparr>))"

definition all_done :: "trace \<Rightarrow> bool" where
  "all_done t \<longleftrightarrow> tc_wallets t \<noteq> [] \<and>
     list_all (\<lambda>(_, w). wt_sent w \<noteq> None \<and> wt_confirmed w \<noteq> None) (tc_wallets t)"

text \<open>The figures of the line that is logged.\<close>

record wallet_latency =
  wl_id :: string
  wl_gate_to_sent :: nat
  wl_sent :: nat
  wl_confirmed :: nat
  wl_sent_to_confirmed :: nat

record latency_line =
  ll_mint :: address
  ll_created_to_score :: nat
  ll_created_to_gate :: nat
  ll_score_to_gate :: nat
  ll_wallets :: "wallet_latency list"

definition since :: "nat option \<Rightarrow> nat option \<Rightarrow> nat" where
  "since from to = (case (from, to) of (Some a, Some b) \<Rightarrow> b - a | _ \<Rightarrow> 0)"

definition latency_line_of :: "address \<Rightarrow> trace \<Rightarrow> latency_line" where
  "latency_line_of mint t =
     (let created = Some (tc_created t)
      in \<lparr>ll_mint = mint, ll_created_to_score = since created (tc_score_done t),
          ll_created_to_gate = since created (tc_gate t),
          ll_score_to_gate = since (tc_score_done t) (tc_gate t),
          ll_wallets = map (\<lambda>(wid, w). \<lparr>wl_id = wid, wl_gate_to_sent = since (tc_gate t) (wt_sent w),
            wl_sent = since created (wt_sent w), wl_confirmed = since created (wt_confirmed w),
            wl_sent_to_confirmed = since (wt_sent w) (wt_confirmed w)\<rparr>) (tc_wallets t)\<rparr>)"

definition mark_wallet_done :: "nat \<Rightarrow> address \<Rightarrow> string \<Rightarrow> latency_registry
    \<Rightarrow> latency_registry \<times> latency_line list" where
  "mark_wallet_done now mint wallet_id g =
     (case g mint of
        None \<Rightarrow> (g, [])
      | Some t \<Rightarrow>
          let t = t\<lparr>tc_wallets := entry_or_default wallet_id (\<lambda>w. w\<lparr>wt_confirmed := Some now\<rparr>) (tc_wallets t)\<rparr>
          in if all_done t then (g(mint := None), [latency_line_of mint t]) else (g(mint \<mapsto> t), []))"

text \<open>The calls; a buy that failed is marked like one that was confirmed.\<close>

datatype latency_call = OnCreated address | OnScoreDone address | OnGate address
  | OnSent address string | OnConfirmed address string | OnBuyFailed address string

fun do_call :: "latency_registry \<Rightarrow> nat \<times> latency_call \<Rightarrow> latency_registry \<times> latency_line list" where
  "do_call g (now, OnCreated mint) = (on_created now mint g, [])"
| "do_call g (now, OnScoreDone mint) = (on_score_done now mint g, [])"
| "do_call g (now, OnGate mint) = (on_gate now mint g, [])"
| "do_call g (now, OnSent mint w) = (on_sent now mint w g, [])"
| "do_call g (now, OnConfirmed mint w) = mark_wallet_done now mint w g"
| "do_call g (now, OnBuyFailed mint w) = mark_wallet_done now mint w g"

fun latency_run :: "latency_registry \<Rightarrow> (nat \<times> latency_call) list \<Rightarrow> latency_registry \<times> latency_line list" where
  "latency_run g [] = (g, [])"
| "latency_run g (c # cs) =
     (let (g1, ls) = do_call g c; (g2, ls') = latency_run g1 cs in (g2, ls @ ls'))"

fun call_mint :: "latency_call \<Rightarrow> address" where
  "call_mint (OnCreated m) = m" | "call_mint (OnScoreDone m) = m" | "call_mint (OnGate m) = m"
| "call_mint (OnSent m _) = m" | "call_mint (OnConfirmed m _) = m" | "call_mint (OnBuyFailed m _) = m"

fun ends_wallet :: "latency_call \<Rightarrow> bool" where
  "ends_wallet (OnConfirmed _ _) = True" | "ends_wallet (OnBuyFailed _ _) = True" | "ends_wallet _ = False"

lemmas latency_defs = on_created_def on_score_done_def on_gate_def on_sent_def mark_wallet_done_def

lemma do_call_keeps:
  assumes "g mint \<noteq> None" "\<not> (ends_wallet c \<and> call_mint c = mint)"
  shows "fst (do_call g (now, c)) mint \<noteq> None"
  using assms by (cases c) (auto simp: latency_defs Let_def split: option.split)

lemma latency_run_keeps:
  "g mint \<noteq> None \<Longrightarrow> \<forall>(now, c) \<in> set cs. \<not> (ends_wallet c \<and> call_mint c = mint)
   \<Longrightarrow> fst (latency_run g cs) mint \<noteq> None"
proof (induction cs arbitrary: g)
  case (Cons p cs)
  obtain now c where p: "p = (now, c)" by fastforce
  have "fst (do_call g p) mint \<noteq> None" using Cons.prems do_call_keeps[of g mint c now] by (auto simp: p)
  then show ?case using Cons.IH[of "fst (do_call g p)"] Cons.prems by (simp add: split_def Let_def)
qed simp

text \<open>The registry forgets a token only when a buy of it has ended: a token that was created and for
  which no buy ends is held for ever, whatever else is called.\<close>

theorem latency_registry_leaks:
  assumes "(t0, OnCreated mint) \<in> set cs"
    and "\<forall>(now, c) \<in> set cs. \<not> (ends_wallet c \<and> call_mint c = mint)"
  shows "fst (latency_run g cs) mint \<noteq> None"
  using assms
proof (induction cs arbitrary: g)
  case (Cons p cs)
  show ?case
  proof (cases "p = (t0, OnCreated mint)")
    case True
    then have "fst (do_call g p) mint \<noteq> None" by (auto simp: latency_defs split: option.split)
    then show ?thesis using latency_run_keeps[of "fst (do_call g p)" mint cs] Cons.prems
      by (simp add: split_def Let_def)
  next
    case False
    then show ?thesis using Cons.IH[of "fst (do_call g p)"] Cons.prems by (simp add: split_def Let_def)
  qed
qed simp

lemma latency_registry_leaks_witness:
  "fst (latency_run Map.empty [(1, OnCreated 7), (2, OnScoreDone 7), (3, OnCreated 8)]) 7 \<noteq> None"
  by (rule latency_registry_leaks[of 1]) simp_all

text \<open>When the buy of one wallet ends before that of a second is sent, the token is logged and
  forgotten: the line has the first wallet alone, and the second buy is not measured at all.\<close>

theorem late_wallet_is_not_measured:
  assumes "g mint = None"
  shows "snd (latency_run g [(t0, OnCreated mint), (t1, OnGate mint), (t2, OnSent mint w1),
           (t3, OnConfirmed mint w1), (t4, OnSent mint w2), (t5, OnConfirmed mint w2)]) =
         [\<lparr>ll_mint = mint, ll_created_to_score = 0, ll_created_to_gate = t1 - t0, ll_score_to_gate = 0,
           ll_wallets = [\<lparr>wl_id = w1, wl_gate_to_sent = t2 - t1, wl_sent = t2 - t0, wl_confirmed = t3 - t0,
             wl_sent_to_confirmed = t3 - t2\<rparr>]\<rparr>]"
  using assms
  by (simp add: latency_defs entry_or_default_def all_done_def latency_line_of_def since_def
      timing_default_def Let_def)

lemma late_wallet_is_not_measured_witness:
  "length (snd (latency_run Map.empty [(0, OnCreated 7), (1, OnGate 7), (2, OnSent 7 ''a''),
     (30, OnConfirmed 7 ''a''), (40, OnSent 7 ''b''), (90, OnConfirmed 7 ''b'')])) = 1"
  using late_wallet_is_not_measured[of Map.empty 7 0 1 2 "''a''" 30 40 "''b''" 90] by simp

end
