(* ===== verification/Write_Queue.thy ===== *)
theory Write_Queue
  imports Trading
begin

text \<open>
  Model of the persistence of the trade stream: the batching writer
  \<^verbatim>\<open>src/persistence/write_queue.rs\<close> with the rows of \<^verbatim>\<open>src/persistence/coin_mcap_tape.rs\<close>, and the conversion
  of trades to and from their database rows (\<^verbatim>\<open>src/persistence/traders.rs\<close>,
  \<^verbatim>\<open>src/persistence/postgres/traders.rs\<close>). The database is the list of statements sent to it; a statement
  that fails is logged and forgotten by the program, so its result plays no part.

  The writer is a machine over the events of its task: an operation offered to the channel, the timer
  of a batch, a message received. Its history invariant says where every accepted operation is.
\<close>

section \<open>Rows\<close>

definition MCAP_ABS_MAX :: f64 where "MCAP_ABS_MAX = Fin 200000"

definition mcap_valid :: "f64 \<Rightarrow> bool" where
  "mcap_valid mcap \<longleftrightarrow> is_finite mcap \<and> 0 < mcap \<and> mcap \<le> MCAP_ABS_MAX"

record tape_row =
  tr_coin_address :: string
  tr_ts_unix :: i64
  tr_mcap_sol :: f64
  tr_source :: string

definition tape_row_of :: "i64 \<Rightarrow> string \<Rightarrow> f64 \<Rightarrow> string \<Rightarrow> tape_row option" where
  "tape_row_of now coin mcap source =
     (if \<not> mcap_valid mcap then None
      else Some \<lparr>tr_coin_address = coin, tr_ts_unix = now, tr_mcap_sol = mcap, tr_source = source\<rparr>)"

record trader_entry =
  en_trader_address :: string
  en_coin_address :: string
  en_realized_pnl :: f64
  en_slot :: u64
  en_is_buy :: bool
  en_market_cap :: currency
  en_currency :: currency
  en_role :: trader_type

datatype db_currency = Sol | Usd

text \<open>The row of the table \<^verbatim>\<open>trades\<close>, and what \<^verbatim>\<open>save_trade\<close> binds to its insertion.\<close>

record trades_row =
  ro_trader_address :: string
  ro_coin_address :: string
  ro_pnl :: f64
  ro_slot_time :: i64
  ro_is_buy :: bool
  ro_market_cap :: f64
  ro_currency :: db_currency
  ro_size :: f64
  ro_role :: trader_type

definition db_amount :: "currency \<Rightarrow> db_currency \<times> f64" where
  "db_amount c = (case c of Native a \<Rightarrow> (Sol, amount_to_float a) | Dollar a \<Rightarrow> (Usd, amount_to_float a))"

definition row_of_entry :: "trader_entry \<Rightarrow> trades_row" where
  "row_of_entry e =
     (let size = snd (db_amount (en_currency e));
          (db_currency, market_cap) = db_amount (en_market_cap e)
      in \<lparr>ro_trader_address = en_trader_address e, ro_coin_address = en_coin_address e,
          ro_pnl = en_realized_pnl e, ro_slot_time = en_slot e, ro_is_buy = en_is_buy e,
          ro_market_cap = market_cap, ro_currency = db_currency, ro_size = size, ro_role = en_role e\<rparr>)"

definition currency_from_float_native :: "f64 \<Rightarrow> currency" where
  "currency_from_float_native v = Native (amount_from_float_native v)"

definition currency_from_float_usd :: "f64 \<Rightarrow> currency" where
  "currency_from_float_usd v = Dollar (amount_from_float_native v)"

definition currency_of_db :: "db_currency \<Rightarrow> f64 \<Rightarrow> currency" where
  "currency_of_db c v = (case c of Sol \<Rightarrow> currency_from_float_native v | Usd \<Rightarrow> currency_from_float_usd v)"

text \<open>Reading a row back: the market capitalisation is read from the column of the size.\<close>

definition entry_of_row :: "trades_row \<Rightarrow> trader_entry" where
  "entry_of_row r =
     (let size = ro_size r; market_cap = ro_size r
      in \<lparr>en_trader_address = ro_trader_address r, en_coin_address = ro_coin_address r,
          en_realized_pnl = ro_pnl r, en_slot = ro_slot_time r, en_is_buy = ro_is_buy r,
          en_market_cap = currency_of_db (ro_currency r) market_cap,
          en_currency = currency_of_db (ro_currency r) size, en_role = ro_role r\<rparr>)"

section \<open>The queue\<close>

definition CHANNEL_CAP :: nat where "CHANNEL_CAP = 32768"
definition FLUSH_MAX_OPS :: nat where "FLUSH_MAX_OPS = 64"

datatype write_op = TapeOp string f64 string | TradeOp trader_entry

datatype statement = InsertTape "tape_row list" | SaveTrade trader_entry

record write_queue =
  wq_enqueued :: u64
  wq_dropped :: u64
  wq_flushed_ops :: u64
  wq_flush_batches :: u64
  wq_channel :: "write_op list"
  wq_buf :: "write_op list"
  wq_database :: "statement list"

definition write_queue_new :: write_queue where
  "write_queue_new = \<lparr>wq_enqueued = 0, wq_dropped = 0, wq_flushed_ops = 0, wq_flush_batches = 0,
     wq_channel = [], wq_buf = [], wq_database = []\<rparr>"

text \<open>A full channel drops the operation.\<close>

definition try_send :: "write_queue \<Rightarrow> write_op \<Rightarrow> write_queue" where
  "try_send q op =
     (let q = q\<lparr>wq_enqueued := wq_enqueued q + 1\<rparr>
      in if length (wq_channel q) < CHANNEL_CAP then q\<lparr>wq_channel := wq_channel q @ [op]\<rparr>
         else q\<lparr>wq_dropped := wq_dropped q + 1\<rparr>)"

definition tape_rows :: "i64 \<Rightarrow> write_op list \<Rightarrow> tape_row list" where
  "tape_rows now ops = List.map_filter
     (\<lambda>op. case op of TapeOp coin mcap source \<Rightarrow> tape_row_of now coin mcap source | TradeOp _ \<Rightarrow> None) ops"

definition trade_ops :: "write_op list \<Rightarrow> trader_entry list" where
  "trade_ops ops = List.map_filter (\<lambda>op. case op of TapeOp _ _ _ \<Rightarrow> None | TradeOp e \<Rightarrow> Some e) ops"

definition statements :: "i64 \<Rightarrow> write_op list \<Rightarrow> statement list" where
  "statements now ops =
     (let rows = tape_rows now ops
      in (if rows \<noteq> [] then [InsertTape rows] else []) @ map SaveTrade (trade_ops ops))"

definition flush_batch :: "i64 \<Rightarrow> write_queue \<Rightarrow> write_queue" where
  "flush_batch now q = q\<lparr>wq_flush_batches := wq_flush_batches q + 1,
     wq_flushed_ops := wq_flushed_ops q + of_nat (length (wq_buf q)),
     wq_database := wq_database q @ statements now (wq_buf q), wq_buf := []\<rparr>"

text \<open>
  The events of the task: an operation offered from outside; the timer of the batch; a message taken
  from the channel, after which a full buffer ends the batch. Every batch that is not empty is flushed.
\<close>

datatype queue_event = Offer write_op | Timer i64 | Receive i64

definition queue_step :: "write_queue \<Rightarrow> queue_event \<Rightarrow> write_queue" where
  "queue_step q e =
     (case e of
        Offer op \<Rightarrow> try_send q op
      | Timer now \<Rightarrow> if wq_buf q \<noteq> [] then flush_batch now q else q
      | Receive now \<Rightarrow>
          (case wq_channel q of
             [] \<Rightarrow> q
           | op # rest \<Rightarrow>
               let q = q\<lparr>wq_channel := rest, wq_buf := wq_buf q @ [op]\<rparr>
               in if FLUSH_MAX_OPS \<le> length (wq_buf q) then flush_batch now q else q))"

definition queue_run :: "write_queue \<Rightarrow> queue_event list \<Rightarrow> write_queue" where
  "queue_run = foldl queue_step"

text \<open>The channel is closed: what is left in it is received, then the last batch is flushed.\<close>

definition queue_shutdown :: "i64 \<Rightarrow> write_queue \<Rightarrow> write_queue" where
  "queue_shutdown now q =
     queue_step (queue_run q (replicate (length (wq_channel q)) (Receive now))) (Timer now)"

section \<open>Nothing is lost and nothing is reordered\<close>

definition saved :: "statement list \<Rightarrow> trader_entry list" where
  "saved = List.map_filter (\<lambda>s. case s of SaveTrade e \<Rightarrow> Some e | InsertTape _ \<Rightarrow> None)"

text \<open>The operations that found room in the channel.\<close>

fun accepted_ops :: "write_queue \<Rightarrow> queue_event list \<Rightarrow> write_op list" where
  "accepted_ops q [] = []"
| "accepted_ops q (e # es) =
     (case e of Offer op \<Rightarrow> if length (wq_channel q) < CHANNEL_CAP then [op] else [] | _ \<Rightarrow> [])
     @ accepted_ops (queue_step q e) es"

lemma saved_simps [simp]:
  "saved [] = []" "saved (xs @ ys) = saved xs @ saved ys" "saved (map SaveTrade es) = es"
  "saved [InsertTape rows] = []"
  by (simp_all add: saved_def map_filter_def comp_def)

lemma trade_ops_simps [simp]:
  "trade_ops [] = []" "trade_ops (xs @ ys) = trade_ops xs @ trade_ops ys"
  "trade_ops (op # ys) = (case op of TapeOp _ _ _ \<Rightarrow> [] | TradeOp e \<Rightarrow> [e]) @ trade_ops ys"
  by (simp_all add: trade_ops_def map_filter_def split: write_op.split)

lemma saved_statements [simp]: "saved (statements now ops) = trade_ops ops"
  by (simp add: statements_def Let_def)

text \<open>Every trade accepted so far is saved, in the buffer, or in the channel, in this order.\<close>

definition in_flight :: "write_queue \<Rightarrow> write_op list" where
  "in_flight q = wq_buf q @ wq_channel q"

lemma queue_step_history:
  "saved (wq_database (queue_step q e)) @ trade_ops (in_flight (queue_step q e)) =
   saved (wq_database q) @ trade_ops (in_flight q) @ trade_ops (accepted_ops q [e])"
  by (auto simp: queue_step_def try_send_def flush_batch_def in_flight_def Let_def
      split: queue_event.split list.split)

lemma queue_run_history:
  "saved (wq_database (queue_run q es)) @ trade_ops (in_flight (queue_run q es)) =
   saved (wq_database q) @ trade_ops (in_flight q) @ trade_ops (accepted_ops q es)"
proof (induction es arbitrary: q)
  case (Cons e es)
  have "accepted_ops q (e # es) = accepted_ops q [e] @ accepted_ops (queue_step q e) es" by simp
  then show ?case using Cons.IH[of "queue_step q e"] queue_step_history[of q e]
    by (simp add: queue_run_def)
qed (simp add: queue_run_def)

lemma accepted_receives [simp]: "accepted_ops q (replicate n (Receive now)) = []"
  by (induction n arbitrary: q) auto

lemma length_channel_receive: "length (wq_channel (queue_step q (Receive now))) = length (wq_channel q) - 1"
  by (auto simp: queue_step_def flush_batch_def Let_def split: list.split)

lemma channel_drained: "wq_channel (queue_run q (replicate (length (wq_channel q)) (Receive now))) = []"
proof -
  have "length (wq_channel (queue_run q (replicate n (Receive now)))) = length (wq_channel q) - n" for n
    by (induction n arbitrary: q) (simp_all add: queue_run_def length_channel_receive)
  then show ?thesis by (metis diff_self_eq_0 length_0_conv)
qed

text \<open>C36. After the channel of the writer is closed, exactly the trades that found room in it are saved,
  each once and in the order in which they were offered, whatever the batches were.\<close>

theorem write_queue_keeps_order:
  "saved (wq_database (queue_shutdown now (queue_run write_queue_new es))) =
   trade_ops (accepted_ops write_queue_new es)"
proof -
  let ?q = "queue_run write_queue_new es"
  let ?r = "queue_run ?q (replicate (length (wq_channel ?q)) (Receive now))"
  have "saved (wq_database ?r) @ trade_ops (wq_buf ?r) = saved (wq_database ?q) @ trade_ops (in_flight ?q)"
    using queue_run_history[of ?q "replicate (length (wq_channel ?q)) (Receive now)"]
      channel_drained[of ?q now] by (simp add: in_flight_def)
  moreover have "saved (wq_database (queue_shutdown now ?q)) = saved (wq_database ?r) @ trade_ops (wq_buf ?r)"
    by (simp add: queue_shutdown_def queue_step_def flush_batch_def)
  ultimately show ?thesis using queue_run_history[of write_queue_new es]
    by (simp add: write_queue_new_def in_flight_def)
qed

text \<open>Batches are bounded, and no tape row with an unusable market cap is inserted.\<close>

definition queue_bounded :: "write_queue \<Rightarrow> bool" where
  "queue_bounded q \<longleftrightarrow> length (wq_buf q) < FLUSH_MAX_OPS \<and> length (wq_channel q) \<le> CHANNEL_CAP \<and>
     (\<forall>rows. InsertTape rows \<in> set (wq_database q) \<longrightarrow>
        rows \<noteq> [] \<and> length rows \<le> FLUSH_MAX_OPS \<and> list_all (mcap_valid \<circ> tr_mcap_sol) rows)"

lemma tape_rows_bounded: "length (tape_rows now ops) \<le> length ops"
  by (simp add: tape_rows_def map_filter_def)

lemma tape_rows_valid: "list_all (mcap_valid \<circ> tr_mcap_sol) (tape_rows now ops)"
  by (auto simp: tape_rows_def map_filter_def list_all_iff tape_row_of_def split: write_op.splits if_splits)

lemma statements_tape:
  "InsertTape rows \<in> set (statements now ops) \<longleftrightarrow> rows = tape_rows now ops \<and> rows \<noteq> []"
  by (auto simp: statements_def Let_def)

lemma flush_bounded:
  assumes "length (wq_buf q) \<le> FLUSH_MAX_OPS" "length (wq_channel q) \<le> CHANNEL_CAP"
    and "\<forall>rows. InsertTape rows \<in> set (wq_database q) \<longrightarrow>
      rows \<noteq> [] \<and> length rows \<le> FLUSH_MAX_OPS \<and> list_all (mcap_valid \<circ> tr_mcap_sol) rows"
  shows "queue_bounded (flush_batch now q)"
  using assms tape_rows_valid[of now "wq_buf q"] le_trans[OF tape_rows_bounded[of now "wq_buf q"]]
  by (auto simp: queue_bounded_def flush_batch_def FLUSH_MAX_OPS_def statements_tape)

interpretation writer: invariant_machine "\<lambda>q e. Inr (queue_step q e)" "\<lambda>_ _. True" queue_bounded
proof
  fix q e q'
  assume q: "queue_bounded q" and "Inr (queue_step q e) = (Inr q' :: write_queue outcome)"
  then have q': "q' = queue_step q e" by simp
  show "queue_bounded q'"
  proof (cases e)
    case (Offer op)
    then show ?thesis using q by (auto simp: q' queue_step_def try_send_def queue_bounded_def Let_def)
  next
    case (Timer now)
    then show ?thesis using q flush_bounded[of q now]
      by (auto simp: q' queue_step_def queue_bounded_def)
  next
    case (Receive now)
    show ?thesis
    proof (cases "wq_channel q")
      case (Cons op rest)
      let ?q = "q\<lparr>wq_channel := rest, wq_buf := wq_buf q @ [op]\<rparr>"
      have "length (wq_buf ?q) \<le> FLUSH_MAX_OPS" using q by (simp add: queue_bounded_def)
      then show ?thesis using q Cons Receive flush_bounded[of ?q now]
        by (auto simp: q' queue_step_def queue_bounded_def Let_def)
    qed (use q Receive in \<open>simp add: q' queue_step_def\<close>)
  qed
qed

lemma write_queue_bounded: "queue_bounded (queue_run write_queue_new es)"
proof -
  have "queue_bounded write_queue_new"
    by (simp add: queue_bounded_def write_queue_new_def FLUSH_MAX_OPS_def)
  from writer.inv_run[OF this run_ok_True] show ?thesis
    by (simp add: run_outcome_lift queue_run_def)
qed

text \<open>Reading a saved trade back loses its market capitalisation: the size of the trade takes its place.\<close>

lemma entry_market_cap_is_size:
  "en_market_cap (entry_of_row r) = en_currency (entry_of_row r)"
  by (simp add: entry_of_row_def Let_def)

end
