(* ===== verification/Dispatch.thy ===== *)
theory Dispatch
  imports Pump_Pipeline Telemetry Write_Queue Manager
begin

text \<open>
  Model of the loop of \<^verbatim>\<open>src/main.rs\<close> over the actions of the pipeline: what it does itself and which tasks
  it starts (the task for a created token is \<open>Create_Gate\<close>), the task that saves a token, and the task that
  waits for its token and then writes a trade to the tape and the table.

  The property composes the loop with the waiter of \<open>Telemetry\<close>: the trades of a token that the loop
  rejects for its quote mint start tasks that wait for ever.
\<close>

datatype main_effect =
    FilterRejected address                    \<comment> \<open>unsupported quote mint: counted and logged\<close>
  | CreateTask general_create token_bucket
  | SaveToken address address u64
  | WalletsOnTrade trade_action pool
  | SendManager position_message
  | TrackerTask trade_action token_bucket
  | TapeTask u64 trade_action token_bucket

definition dispatch :: "address \<Rightarrow> address \<Rightarrow> u64 \<times> action \<times> token_bucket \<Rightarrow> main_effect list" where
  "dispatch native legacy ev =
     (let (slot, a, bucket) = ev
      in case a of
        CreateAction g \<Rightarrow>
          if is_unsupported_quote_mint native legacy g then [FilterRejected (gc_mint g)]
          else [CreateTask g bucket, SaveToken (gc_mint g) (gc_user g) slot]
      | TradeAction t \<Rightarrow>
          [WalletsOnTrade t (tb_pool bucket), SendManager (UpdateTokenBucket bucket), TrackerTask t bucket,
           TapeTask slot t bucket])"

definition dispatch_all :: "address \<Rightarrow> address \<Rightarrow> (u64 \<times> action \<times> token_bucket) list \<Rightarrow> main_effect list" where
  "dispatch_all native legacy evs = concat (map (dispatch native legacy) evs)"

text \<open>The end of the task of a trade, once its token is saved; \<open>swarm\<close> is that of the bucket by then.\<close>

definition tape_task :: "(address \<Rightarrow> string) \<Rightarrow> u64 \<Rightarrow> trade_action \<Rightarrow> token_bucket \<Rightarrow> swarm \<Rightarrow> write_op list outcome" where
  "tape_task str slot t bucket swarm =
     (case swarm_find swarm (trade_trader t) of
        None \<Rightarrow> Inr []
      | Some trader \<Rightarrow>
          bind_outcome (pool_market_cap (tb_pool bucket)) (\<lambda>mcap.
            let mint_s = str (trade_mint t)
            in Inr [TapeOp mint_s (amount_to_float (currency_amount mcap)) ''trade'',
                    TradeOp \<lparr>en_trader_address = str (trade_trader t), en_coin_address = mint_s,
                      en_realized_pnl = pnl_percent trader, en_slot = slot,
                      en_is_buy = (case t of ABuy _ \<Rightarrow> True | ASell _ \<Rightarrow> False),
                      en_market_cap = mcap, en_currency = trade_size t, en_role = trader_type trader\<rparr>]))"

section \<open>Tasks that wait for ever\<close>

text \<open>The tokens whose saving is started, and the tasks that wait, each with its token and its number.\<close>

definition saved_tokens :: "main_effect list \<Rightarrow> address set" where
  "saved_tokens es = {m. \<exists>dev slot. SaveToken m dev slot \<in> set es}"

definition waiting_mints :: "main_effect list \<Rightarrow> address list" where
  "waiting_mints es = List.map_filter (\<lambda>e. case e of TapeTask _ t _ \<Rightarrow> Some (trade_mint t) | _ \<Rightarrow> None) es"

definition trades_of :: "address \<Rightarrow> (u64 \<times> action \<times> token_bucket) list \<Rightarrow> nat" where
  "trades_of mint evs = length (filter (\<lambda>(slot, a, b). \<exists>t. a = TradeAction t \<and> trade_mint t = mint) evs)"

lemma waiting_mints_dispatch:
  "length (filter ((=) mint) (waiting_mints (dispatch_all native legacy evs))) = trades_of mint evs"
proof (induction evs)
  case (Cons ev evs)
  obtain slot a b where "ev = (slot, a, b)" by (cases ev)
  then show ?case using Cons
    by (cases a) (auto simp: dispatch_all_def dispatch_def waiting_mints_def trades_of_def map_filter_def)
qed (simp add: dispatch_all_def waiting_mints_def trades_of_def map_filter_def)

lemma dispatch_saves:
  "SaveToken m dev slot \<in> set (dispatch native legacy ev) \<Longrightarrow>
   \<exists>g b. ev = (slot, CreateAction g, b) \<and> gc_mint g = m \<and> \<not> is_unsupported_quote_mint native legacy g"
  by (cases ev; cases "fst (snd ev)") (auto simp: dispatch_def split: if_splits)

lemma saved_tokens_dispatch:
  "m \<in> saved_tokens (dispatch_all native legacy evs) \<Longrightarrow>
   \<exists>slot g b. (slot, CreateAction g, b) \<in> set evs \<and> gc_mint g = m \<and> \<not> is_unsupported_quote_mint native legacy g"
  using dispatch_saves by (fastforce simp: saved_tokens_def dispatch_all_def)

text \<open>What is pending for a token that is never reported as saved: everyone who asked.\<close>

lemma pending_unsaved:
  "mint \<notin> notified ms \<Longrightarrow> st mint \<noteq> Some Created \<Longrightarrow>
   mset (pending (fst (waiter_run st ms)) mint) = mset (pending st mint) + due {mint} (registered ms)
   \<and> fst (waiter_run st ms) mint \<noteq> Some Created"
proof (induction ms arbitrary: st)
  case (Cons m ms)
  show ?case
  proof (cases m)
    case (NotifyCreated a)
    then have "a \<noteq> mint" using Cons.prems by auto
    then have "(st(a \<mapsto> Created)) mint \<noteq> Some Created" "pending (st(a \<mapsto> Created)) mint = pending st mint"
      using Cons.prems by auto
    then show ?thesis using Cons.IH[of "st(a \<mapsto> Created)"] Cons.prems
      by (simp add: NotifyCreated waiter_step_def split_def Let_def del: fun_upd_apply)
  next
    case (WaitUntilCreated a w)
    define st1 where "st1 = fst (waiter_step st m)"
    have st1: "st1 mint \<noteq> Some Created"
      "mset (pending st1 mint) = mset (pending st mint) + (if a = mint then {#w#} else {#})"
      using Cons.prems(2) by (auto simp: st1_def WaitUntilCreated waiter_step_def pending_def
          split: option.splits token_state.splits)
    have "mint \<notin> notified ms" using Cons.prems(1) by (simp add: WaitUntilCreated)
    from Cons.IH[of st1, OF this st1(1)] st1(2) show ?thesis
      by (auto simp: WaitUntilCreated split_def Let_def simp flip: st1_def[unfolded WaitUntilCreated])
  qed
qed simp

text \<open>C34. The trades of a token with an unsupported quote mint start tasks that wait for ever: whatever order the
  tasks run in, the waiter answers none of them and holds one for every trade.\<close>

theorem unsupported_quote_leaks_tasks:
  assumes "\<forall>(slot, a, b) \<in> set evs. \<forall>g. a = CreateAction g \<longrightarrow> gc_mint g = mint \<longrightarrow> is_unsupported_quote_mint native legacy g"
    and "notified ms \<subseteq> saved_tokens (dispatch_all native legacy evs)"
    and "mset (map fst (registered ms)) = mset (waiting_mints (dispatch_all native legacy evs))"
  shows "length (pending (fst (waiter_run Map.empty ms)) mint) = trades_of mint evs
    \<and> mset (snd (waiter_run Map.empty ms)) = due (notified ms) (registered ms) \<and> mint \<notin> notified ms"
proof -
  have no: "mint \<notin> notified ms"
  proof
    assume "mint \<in> notified ms"
    then obtain slot g b where "(slot, CreateAction g, b) \<in> set evs" "gc_mint g = mint"
        "\<not> is_unsupported_quote_mint native legacy g"
      using assms(2) saved_tokens_dispatch by blast
    then show False using assms(1) by fastforce
  qed
  have "mset (pending (fst (waiter_run Map.empty ms)) mint) = due {mint} (registered ms)"
    using pending_unsaved[OF no, of Map.empty] by (simp add: pending_def)
  then have "length (pending (fst (waiter_run Map.empty ms)) mint) = size (due {mint} (registered ms))"
    by (metis size_mset)
  also have "\<dots> = size (filter_mset ((=) mint) (mset (map fst (registered ms))))"
    by (simp add: due_def filter_mset_image_mset eq_commute)
  also have "\<dots> = length (filter ((=) mint) (waiting_mints (dispatch_all native legacy evs)))"
    by (simp only: assms(3) mset_filter[symmetric] size_mset)
  finally show ?thesis using no waiting_mints_dispatch
    by (simp add: waiter_run_answers due_pending_def pending_def saved_already_def)
qed


lemma unsupported_quote_leaks_tasks_witness:
  "length (pending (fst (waiter_run Map.empty [WaitUntilCreated 7 (1 :: nat), WaitUntilCreated 7 2])) 7) = 2"
proof -
  let ?g = "\<lparr>gc_mint = 7, gc_user = 3, gc_quote_mint = 99\<rparr>"
  let ?b = "bucket_new (BondingPool (bonding_new id 7 3)) (amount_from_raw 1 6) 0"
  let ?t = "TradeAction (trade_action_of (sample_trade 4))"
  let ?evs = "[(1, CreateAction ?g, ?b), (2, ?t, ?b), (3, ?t, ?b)]"
  let ?ms = "[WaitUntilCreated 7 (1 :: nat), WaitUntilCreated 7 2]"
  have "trade_mint (trade_action_of (sample_trade 4)) = 7" by (simp add: trade_action_of_def sample_trade_def)
  then have "trades_of 7 ?evs = 2"
    and "mset (map fst (registered ?ms)) = mset (waiting_mints (dispatch_all 0 1 ?evs))"
    by (simp_all add: trades_of_def dispatch_all_def dispatch_def waiting_mints_def List.map_filter_simps
        is_unsupported_quote_mint_def is_native_sol_quote_def)
  moreover have "\<forall>(slot, a, b) \<in> set ?evs. \<forall>g. a = CreateAction g \<longrightarrow> gc_mint g = 7 \<longrightarrow> is_unsupported_quote_mint 0 1 g"
    by (auto simp: is_unsupported_quote_mint_def is_native_sol_quote_def)
  moreover have "notified ?ms \<subseteq> saved_tokens (dispatch_all 0 1 ?evs)" by simp
  ultimately show ?thesis using unsupported_quote_leaks_tasks[of ?evs 7 0 1 ?ms] by simp
qed

end
