(* ===== verification/Chart.thy ===== *)
theory Chart
  imports Amounts
begin

text \<open>
  Model of the chart endpoint of \<^verbatim>\<open>src/main.rs\<close> (\<^verbatim>\<open>get_chart\<close> and the functions \<^verbatim>\<open>chart_*\<close>): from the rows
  of the tape (or, without a tape, of the trades table) and the closed trades of a token, it computes
  the points and markers that the dashboard draws. The rows are the arguments. Times are \<^verbatim>\<open>i64\<close>: integers
  here, with the wrap-around and the saturation of the code written out.

  The properties say what the answer contains (increasing points inside the window, with market caps of
  the rows, and markers in order), and that without a tape the markers are on another axis.
\<close>

section \<open>Market caps\<close>

definition CHART_SLOTS_PER_SEC :: f64 where "CHART_SLOTS_PER_SEC = Fin (5/2)"
definition CHART_PRE_SECS :: int where "CHART_PRE_SECS = 300"
definition CHART_POST_SECS :: int where "CHART_POST_SECS = 120"
definition CHART_MAX_SPAN_SECS :: int where "CHART_MAX_SPAN_SECS = 3600"
definition CHART_MCAP_ABS_MAX :: f64 where "CHART_MCAP_ABS_MAX = Fin 200000"

definition chart_mcap_valid :: "f64 \<Rightarrow> bool" where
  "chart_mcap_valid mcap \<longleftrightarrow> is_finite mcap \<and> 0 < mcap \<and> mcap \<le> CHART_MCAP_ABS_MAX"

definition chart_tape_median :: "f64 list \<Rightarrow> f64 option" where
  "chart_tape_median mcaps =
     (let v = f64_sort (filter chart_mcap_valid mcaps)
      in if v = [] then None else Some (v ! (length v div 2)))"

definition chart_mcap_matches_tape :: "f64 \<Rightarrow> f64 option \<Rightarrow> bool" where
  "chart_mcap_matches_tape mcap median =
     (if \<not> chart_mcap_valid mcap then False
      else case median of
        None \<Rightarrow> True
      | Some med \<Rightarrow> if med \<le> 0 then True else med * f64_of (2/100) \<le> mcap \<and> mcap \<le> med * Fin 50)"

section \<open>Times\<close>

definition wrap_i64 :: "int \<Rightarrow> int" where
  "wrap_i64 k = (k + 2 ^ 63) mod 2 ^ 64 - 2 ^ 63"

definition sat_i64 :: "int \<Rightarrow> int" where
  "sat_i64 k = max (- (2 ^ 63)) (min (2 ^ 63 - 1) k)"

definition chart_is_unix_secs :: "int \<Rightarrow> bool" where
  "chart_is_unix_secs t \<longleftrightarrow> 1000000000 \<le> t"

definition chart_slot_to_sec :: "int \<Rightarrow> int \<Rightarrow> int" where
  "chart_slot_to_sec slot slot0 =
     (let delta = sat_i64 (slot - slot0)
      in sint (f64_to_i64 (f64_max (f64_round (int_to_f64 delta / CHART_SLOTS_PER_SEC)) 0)))"

text \<open>\<^verbatim>\<open>min_by\<close> keeps the first of equal minima.\<close>

fun closest :: "f64 \<Rightarrow> int \<times> f64 \<Rightarrow> (int \<times> f64) list \<Rightarrow> int \<times> f64" where
  "closest target best [] = best"
| "closest target best (p # ps) =
     closest target (if \<bar>snd p - target\<bar> < \<bar>snd best - target\<bar> then p else best) ps"

definition chart_infer_slot_by_mcap :: "f64 \<Rightarrow> (int \<times> f64) list \<Rightarrow> int" where
  "chart_infer_slot_by_mcap target series =
     (case filter (chart_mcap_valid \<circ> snd) series of
        p # ps \<Rightarrow> fst (closest target p ps)
      | [] \<Rightarrow> (case series of [] \<Rightarrow> 0 | p # _ \<Rightarrow> fst p))"

definition chart_normalize_marker_secs ::
  "int \<Rightarrow> int \<Rightarrow> f64 \<Rightarrow> f64 \<Rightarrow> (int \<times> f64) list \<Rightarrow> int \<Rightarrow> bool \<Rightarrow> int \<times> int" where
  "chart_normalize_marker_secs entry_at closed_at entry_mcap exit_mcap series slot0 timeline_unix =
     (let entry_unix = 0 < entry_at \<and> chart_is_unix_secs entry_at;
          close_unix = 0 < closed_at \<and> chart_is_unix_secs closed_at
      in if timeline_unix \<and> entry_unix \<and> close_unix \<and> entry_at \<le> closed_at then (entry_at, closed_at)
         else
           let exit_sec = chart_slot_to_sec (chart_infer_slot_by_mcap exit_mcap series) slot0;
               entry_sec = (if 0 < entry_at \<and> \<not> entry_unix then chart_slot_to_sec entry_at slot0
                 else if entry_unix then entry_at
                 else chart_slot_to_sec (chart_infer_slot_by_mcap entry_mcap series) slot0);
               closed_sec = (if 0 < closed_at \<and> \<not> close_unix then chart_slot_to_sec closed_at slot0
                 else if close_unix then closed_at else max exit_sec entry_sec)
           in (entry_sec, closed_sec))"

text \<open>Of neighbours with one time the last value stays.\<close>

fun merge_equal_times :: "(int \<times> f64) list \<Rightarrow> (int \<times> f64) list" where
  "merge_equal_times ((t, m) # (t', m') # ps) =
     (if t = t' then merge_equal_times ((t, m') # ps) else (t, m) # merge_equal_times ((t', m') # ps))"
| "merge_equal_times ps = ps"

definition chart_dedup_points :: "(int \<times> f64) list \<Rightarrow> (int \<times> f64) list" where
  "chart_dedup_points points = merge_equal_times (sort_key fst points)"

definition chart_trade_window_bounds :: "(int \<times> int) list \<Rightarrow> (int \<times> f64) list \<Rightarrow> int \<times> int" where
  "chart_trade_window_bounds marker_times points =
     (if marker_times \<noteq> []
      then (sat_i64 (Min (set (map fst marker_times)) - CHART_PRE_SECS),
            wrap_i64 (Max (set (map snd marker_times)) + CHART_POST_SECS))
      else if points \<noteq> []
      then let lo = fst (hd points); hi = fst (last points); span = sat_i64 (hi - lo)
           in if CHART_MAX_SPAN_SECS < span
              then (sat_i64 (lo - CHART_PRE_SECS), wrap_i64 (lo + CHART_MAX_SPAN_SECS))
              else (sat_i64 (lo - CHART_PRE_SECS), wrap_i64 (hi + 60))
      else (0, CHART_POST_SECS))"

section \<open>The endpoint\<close>

record marker_row =
  mr_entry_at :: int
  mr_closed_at :: int
  mr_entry_mcap :: f64
  mr_exit_mcap :: f64
  mr_pnl :: f64
  mr_reason :: string

record chart_response =
  cr_points :: "(int \<times> f64) list"
  cr_markers :: "marker_row list"

text \<open>Valid rows; without the tape, of consecutive rows with one slot the last counts.\<close>

definition chart_series :: "bool \<Rightarrow> (int \<times> f64) list \<Rightarrow> (int \<times> f64) list" where
  "chart_series use_unix_tape rows =
     (let valid = filter (chart_mcap_valid \<circ> snd) rows
      in if use_unix_tape then valid else merge_equal_times valid)"

definition in_band :: "(int \<times> f64) list \<Rightarrow> (int \<times> f64) list" where
  "in_band series = filter (\<lambda>(_, m). chart_mcap_matches_tape m (chart_tape_median (map snd series))) series"

definition chart_marker :: "f64 option \<Rightarrow> (int \<times> f64) list \<Rightarrow> int \<Rightarrow> bool \<Rightarrow> marker_row \<Rightarrow> marker_row option" where
  "chart_marker median series slot0 use_unix_tape m =
     (if \<not> chart_mcap_matches_tape (mr_entry_mcap m) median \<or> \<not> chart_mcap_matches_tape (mr_exit_mcap m) median
      then None
      else let (entry_at, closed_at) = chart_normalize_marker_secs (mr_entry_at m) (mr_closed_at m)
                 (mr_entry_mcap m) (mr_exit_mcap m) series slot0 use_unix_tape
           in if closed_at < entry_at then None
              else Some (m\<lparr>mr_entry_at := entry_at, mr_closed_at := closed_at\<rparr>))"

text \<open>\<^verbatim>\<open>i64::clamp\<close> panics when the bounds are in the wrong order.\<close>

definition clamp_time :: "int \<Rightarrow> int \<Rightarrow> int \<Rightarrow> int outcome" where
  "clamp_time lo hi t = (if hi < lo then Inl ClampBounds else Inr (max lo (min hi t)))"

definition shift_marker :: "int \<Rightarrow> int \<Rightarrow> int \<Rightarrow> marker_row \<Rightarrow> marker_row outcome" where
  "shift_marker lo hi base m =
     bind_outcome (clamp_time lo hi (mr_entry_at m)) (\<lambda>e.
     bind_outcome (clamp_time lo hi (mr_closed_at m)) (\<lambda>c.
       Inr (m\<lparr>mr_entry_at := sat_i64 (e - base), mr_closed_at := sat_i64 (c - base)\<rparr>)))"

fun each_outcome :: "('a \<Rightarrow> 'b outcome) \<Rightarrow> 'a list \<Rightarrow> 'b list outcome" where
  "each_outcome f [] = Inr []"
| "each_outcome f (x # xs) = bind_outcome (f x) (\<lambda>y. bind_outcome (each_outcome f xs) (\<lambda>ys. Inr (y # ys)))"

definition chart_markers :: "bool \<Rightarrow> (int \<times> f64) list \<Rightarrow> marker_row list \<Rightarrow> (int \<times> f64) list \<times> marker_row list" where
  "chart_markers use_unix_tape rows marker_rows =
     (let series = chart_series use_unix_tape rows;
          median = chart_tape_median (map snd series);
          kept = in_band series;
          slot0 = (if use_unix_tape then 0 else case kept of [] \<Rightarrow> 0 | p # _ \<Rightarrow> fst p);
          points = (if use_unix_tape then chart_dedup_points kept
            else chart_dedup_points (map (\<lambda>(slot, m). (chart_slot_to_sec slot slot0, m)) kept))
      in (points, List.map_filter
            (chart_marker median (if use_unix_tape then points else kept) slot0 use_unix_tape) marker_rows))"

definition chart_reply :: "bool \<Rightarrow> (int \<times> f64) list \<Rightarrow> marker_row list \<Rightarrow> chart_response outcome" where
  "chart_reply use_unix_tape rows marker_rows =
     (let (points, markers) = chart_markers use_unix_tape rows marker_rows;
          times = map (\<lambda>m. (mr_entry_at m, mr_closed_at m)) markers;
          (lo, hi) = chart_trade_window_bounds times points;
          base = (if markers = [] then lo else Min (set (map mr_entry_at markers)));
          points = map (\<lambda>(t, m). (sat_i64 (t - base), m)) (filter (\<lambda>(t, _). lo \<le> t \<and> t \<le> hi) points)
      in bind_outcome (each_outcome (shift_marker lo hi base) markers) (\<lambda>markers.
           Inr \<lparr>cr_points = points, cr_markers = markers\<rparr>))"

text \<open>A failed read of the trades or of the markers is the status 500, here \<open>None\<close>.\<close>

definition get_chart :: "(int \<times> f64) list \<Rightarrow> (int \<times> f64) list option \<Rightarrow> marker_row list option
    \<Rightarrow> chart_response option outcome" where
  "get_chart tape_rows slot_rows marker_rows =
     (let use_unix_tape = tape_rows \<noteq> []
      in case (if use_unix_tape then Some tape_rows else slot_rows) of
           None \<Rightarrow> Inr None
         | Some rows \<Rightarrow> (case marker_rows of
             None \<Rightarrow> Inr None
           | Some ms \<Rightarrow> bind_outcome (chart_reply use_unix_tape rows ms) (\<lambda>r. Inr (Some r))))"

section \<open>What a chart contains\<close>

lemma sat_i64_id [simp]: "- (2 ^ 62) \<le> k \<Longrightarrow> k \<le> 2 ^ 62 \<Longrightarrow> sat_i64 (k) = k"
  by (simp add: sat_i64_def)

lemma sat_i64_mono: "a \<le> b \<Longrightarrow> sat_i64 a \<le> sat_i64 b"
  by (auto simp: sat_i64_def)

lemma merge_equal_times_mem:
  "p \<in> set (merge_equal_times ps) \<Longrightarrow> p \<in> set ps"
  by (induction ps rule: merge_equal_times.induct) (auto split: if_splits)

lemma merge_equal_times_hd:
  "sorted (map fst ((t, m) # ps)) \<Longrightarrow> p \<in> set (merge_equal_times ((t, m) # ps)) \<Longrightarrow> t \<le> fst p"
  by (auto dest!: merge_equal_times_mem)

lemma merge_equal_times_sorted:
  "sorted (map fst ps) \<Longrightarrow> sorted_wrt (<) (map fst (merge_equal_times ps))"
proof (induction ps rule: merge_equal_times.induct)
  case (1 t m t' m' ps)
  show ?case
  proof (cases "t = t'")
    case False
    then have lt: "t < t'" using "1.prems" by simp
    have "t < fst p" if "p \<in> set (merge_equal_times ((t', m') # ps))" for p
      using merge_equal_times_hd[OF _ that] "1.prems" lt by fastforce
    then show ?thesis using False 1 by auto
  qed (use 1 in simp)
qed simp_all

lemma dedup_points_mem: "p \<in> set (chart_dedup_points ps) \<Longrightarrow> p \<in> set ps"
  by (auto simp: chart_dedup_points_def dest!: merge_equal_times_mem)

lemma dedup_points_increasing: "sorted_wrt (<) (map fst (chart_dedup_points ps))"
  unfolding chart_dedup_points_def by (rule merge_equal_times_sorted) simp


section \<open>Times of slots\<close>

lemma f64_round_le_int: "y \<le> Fin (of_int M) \<Longrightarrow> y \<noteq> NaN \<Longrightarrow> 0 \<le> M \<Longrightarrow> f64_round y \<le> Fin (of_int M)"
proof (cases y)
  case (Fin q)
  assume "y \<le> Fin (of_int M)" "0 \<le> M"
  then have "q \<le> of_int M" using Fin by simp
  then have "\<lfloor>q + 1 / 2\<rfloor> \<le> M" by linarith
  moreover have "- \<lfloor>1 / 2 - q\<rfloor> \<le> M" if "q < 0" using that \<open>0 \<le> M\<close> by linarith
  then have "- rat_of_int \<lfloor>1 / 2 - q\<rfloor> \<le> of_int M" if "q < 0" using that by (metis of_int_le_iff of_int_minus)
  ultimately show ?thesis using Fin by (simp add: f64_round_def)
qed (auto simp: f64_round_def)

lemma f64_to_i64_range:
  assumes "0 \<le> z" "z \<le> Fin (of_int M)" "z \<noteq> NaN" "M < 2 ^ 63"
  shows "0 \<le> sint (f64_to_i64 z) \<and> sint (f64_to_i64 z) \<le> M"
proof (cases z)
  case (Fin q)
  then have "0 \<le> q" "q \<le> of_int M" using assms by (auto simp: zero_f64_def)
  then have "0 \<le> \<lfloor>q\<rfloor>" "\<lfloor>q\<rfloor> \<le> M" by (auto simp: floor_le_iff le_floor_iff)
  moreover from this have "signed_take_bit 63 \<lfloor>q\<rfloor> = \<lfloor>q\<rfloor>"
    using assms(4) by (intro signed_take_bit_int_eq_self) linarith+
  then have "sint (word_of_int \<lfloor>q\<rfloor> :: i64) = \<lfloor>q\<rfloor>" by (simp add: sint_sbintrunc')
  moreover from calculation have "max (- (2 ^ 63)) (min (2 ^ 63 - 1) \<lfloor>q\<rfloor>) = \<lfloor>q\<rfloor>" using assms(4) by linarith
  then have "f64_to_i64 z = word_of_int \<lfloor>q\<rfloor>" using Fin \<open>0 \<le> q\<close> by (simp only: f64_to_i64_def Let_def f64.case if_True)
  ultimately show ?thesis by simp
qed (use assms in \<open>auto simp: zero_f64_def\<close>)

text \<open>A difference of slots that is at most \<open>n\<close> is at most \<open>M\<close> seconds.\<close>

lemma chart_slot_to_sec_range:
  assumes "slot - slot0 \<le> n" "n < 2 ^ 63" "- (2 ^ 63) \<le> n" "f64_of (of_int n) = Fin (of_int n)"
    and "2 * n \<le> 5 * M" "0 \<le> M" "M < 2 ^ 63" "f64_of (of_int M) = Fin (of_int M)"
  shows "0 \<le> chart_slot_to_sec slot slot0 \<and> chart_slot_to_sec slot slot0 \<le> M"
proof -
  let ?d = "sat_i64 (slot - slot0)"
  have "?d \<le> n" using assms(1-3) by (simp add: sat_i64_def)
  then have "int_to_f64 ?d \<le> Fin (of_int n)" unfolding int_to_f64_def assms(4)[symmetric] by (intro f64_of_mono) simp
  then have "int_to_f64 ?d / CHART_SLOTS_PER_SEC \<le> Fin (of_int n) / CHART_SLOTS_PER_SEC"
    by (rule f64_divide_mono) (simp_all add: CHART_SLOTS_PER_SEC_def is_finite_def zero_f64_def)
  also have "\<dots> = f64_of (of_int (2 * n) / 5)"
    by (simp add: CHART_SLOTS_PER_SEC_def divide_f64_def mult.commute)
  also have "\<dots> \<le> f64_of (of_int M)"
  proof (rule f64_of_mono)
    have "of_int (2 * n) \<le> (of_int (5 * M) :: rat)" using assms(5) by (simp only: of_int_le_iff)
    then show "of_int (2 * n) / 5 \<le> (of_int M :: rat)" by simp
  qed
  finally have y: "int_to_f64 ?d / CHART_SLOTS_PER_SEC \<le> Fin (of_int M)" using assms(8) by simp
  have "int_to_f64 ?d / CHART_SLOTS_PER_SEC \<noteq> NaN"
    by (cases "int_to_f64 ?d") (auto simp: CHART_SLOTS_PER_SEC_def int_to_f64_def divide_f64_def signed_inf_def)
  from f64_round_le_int[OF y this assms(6)] this
  have "f64_max (f64_round (int_to_f64 ?d / CHART_SLOTS_PER_SEC)) 0 \<le> Fin (of_int M)"
    using assms(6) by (auto simp: f64_max_def zero_f64_def)
  moreover have "f64_max x 0 \<noteq> NaN" "0 \<le> f64_max x 0" for x
    by (cases x; auto simp: f64_max_def zero_f64_def)+
  ultimately show ?thesis unfolding chart_slot_to_sec_def Let_def
    using f64_to_i64_range assms(7) by blast
qed


section \<open>The answer\<close>

definition near :: "int \<Rightarrow> bool" where "near t \<longleftrightarrow> \<bar>t\<bar> \<le> 2 ^ 52"
definition sane_time :: "int \<Rightarrow> bool" where "sane_time t \<longleftrightarrow> \<bar>t\<bar> \<le> 2 ^ 50"

lemma slot_to_sec_near: "sane_time slot \<Longrightarrow> sane_time slot0 \<Longrightarrow> near (chart_slot_to_sec slot slot0)"
  using chart_slot_to_sec_range[of slot slot0 "2 ^ 51" "2 ^ 51"] f64_of_int[of "2 ^ 51"]
  by (simp add: near_def sane_time_def abs_le_iff)

lemma sane_near: "sane_time t \<Longrightarrow> near t" by (simp add: sane_time_def near_def)

lemma closest_mem: "closest target best ps \<in> insert best (set ps)"
  by (induction target best ps rule: closest.induct) auto

lemma infer_slot_sane:
  assumes "\<forall>p \<in> set series. sane_time (fst p)" shows "sane_time (chart_infer_slot_by_mcap target series)"
proof (cases "filter (chart_mcap_valid \<circ> snd) series")
  case Nil
  then show ?thesis using assms
    by (auto simp: chart_infer_slot_by_mcap_def sane_time_def split: list.splits)
next
  case (Cons p ps)
  then have "set (p # ps) \<subseteq> set series" by (metis filter_is_subset)
  then have "closest target p ps \<in> set series" using closest_mem[of target p ps] by auto
  then show ?thesis using assms Cons by (simp add: chart_infer_slot_by_mcap_def)
qed

lemma marker_secs_near:
  assumes "\<forall>p \<in> set series. sane_time (fst p)" "sane_time slot0" "sane_time e" "sane_time c"
    and "chart_normalize_marker_secs e c em xm series slot0 unix = (e', c')"
  shows "near e' \<and> near c'"
proof -
  note inf = infer_slot_sane[OF assms(1)]
  note n = slot_to_sec_near[OF inf assms(2)] slot_to_sec_near[OF assms(3,2)] slot_to_sec_near[OF assms(4,2)]
    sane_near[OF assms(3)] sane_near[OF assms(4)]
  have "near (max a b)" if "near a" "near b" for a b using that by (simp add: max_def)
  with n show ?thesis using assms(5) unfolding chart_normalize_marker_secs_def Let_def
    by (auto split: if_splits)
qed

lemma series_mem:
  assumes "p \<in> set (in_band (chart_series unix rows))" shows "p \<in> set rows \<and> chart_mcap_valid (snd p)"
  using assms by (auto simp: in_band_def chart_series_def chart_mcap_matches_tape_def Let_def
      dest!: merge_equal_times_mem split: if_splits)

lemma chart_markers_facts:
  assumes sane: "\<forall>p \<in> set rows. sane_time (fst p)"
      "\<forall>m \<in> set ms. sane_time (mr_entry_at m) \<and> sane_time (mr_closed_at m)"
    and eq: "chart_markers unix rows ms = (points, markers)"
  shows "sorted_wrt (<) (map fst points)"
    and "\<forall>p \<in> set points. near (fst p) \<and> snd p \<in> snd ` set rows \<and> chart_mcap_valid (snd p)"
    and "\<forall>m \<in> set markers. near (mr_entry_at m) \<and> near (mr_closed_at m) \<and> mr_entry_at m \<le> mr_closed_at m"
proof -
  let ?kept = "in_band (chart_series unix rows)"
  define slot0 where "slot0 = (if unix then 0 else case ?kept of [] \<Rightarrow> 0 | p # _ \<Rightarrow> fst p)"
  have kept: "sane_time (fst p) \<and> snd p \<in> snd ` set rows \<and> chart_mcap_valid (snd p)" if "p \<in> set ?kept" for p
    using series_mem[OF that] sane by auto
  have slot0: "sane_time slot0"
    using kept by (auto simp: slot0_def sane_time_def split: list.splits)
  have points: "points = chart_dedup_points (if unix then ?kept else map (\<lambda>(slot, m). (chart_slot_to_sec slot slot0, m)) ?kept)"
    and markers: "markers = List.map_filter (chart_marker (chart_tape_median (map snd (chart_series unix rows)))
        (if unix then points else ?kept) slot0 unix) ms"
    using eq by (auto simp: chart_markers_def slot0_def Let_def)
  show "sorted_wrt (<) (map fst points)" using dedup_points_increasing by (simp add: points)
  show pts: "\<forall>p \<in> set points. near (fst p) \<and> snd p \<in> snd ` set rows \<and> chart_mcap_valid (snd p)"
    using kept slot_to_sec_near[OF _ slot0] sane_near
    by (fastforce simp: points dest!: dedup_points_mem split: if_splits)
  have series: "\<forall>p \<in> set (if unix then points else ?kept). sane_time (fst p)"
    using kept by (auto simp: points dest!: dedup_points_mem)
  show "\<forall>m \<in> set markers. near (mr_entry_at m) \<and> near (mr_closed_at m) \<and> mr_entry_at m \<le> mr_closed_at m"
  proof
    fix m assume "m \<in> set markers"
    then obtain m0 where "m0 \<in> set ms" and m: "chart_marker (chart_tape_median (map snd (chart_series unix rows)))
        (if unix then points else ?kept) slot0 unix m0 = Some m"
      unfolding markers by (force simp: List.map_filter_def)
    obtain e c where ec: "chart_normalize_marker_secs (mr_entry_at m0) (mr_closed_at m0) (mr_entry_mcap m0) (mr_exit_mcap m0)
        (if unix then points else ?kept) slot0 unix = (e, c)" by fastforce
    have "near e \<and> near c" using marker_secs_near[OF series slot0 _ _ ec] sane(2) \<open>m0 \<in> set ms\<close> by blast
    then show "near (mr_entry_at m) \<and> near (mr_closed_at m) \<and> mr_entry_at m \<le> mr_closed_at m"
      using m ec by (auto simp: chart_marker_def split: if_splits)
  qed
qed


lemma window_of_markers:
  assumes "ms \<noteq> []" "\<forall>m \<in> set ms. near (mr_entry_at m) \<and> near (mr_closed_at m) \<and> mr_entry_at m \<le> mr_closed_at m"
    and "chart_trade_window_bounds (map (\<lambda>m. (mr_entry_at m, mr_closed_at m)) ms) points = (lo, hi)"
  shows "lo = Min (set (map mr_entry_at ms)) - 300" "hi = Max (set (map mr_closed_at ms)) + 120"
    "near (Min (set (map mr_entry_at ms)))"
    "\<forall>m \<in> set ms. Min (set (map mr_entry_at ms)) \<le> mr_entry_at m \<and> mr_closed_at m \<le> Max (set (map mr_closed_at ms))"
proof -
  let ?lo = "Min (set (map mr_entry_at ms))" and ?hi = "Max (set (map mr_closed_at ms))"
  have "?lo \<in> set (map mr_entry_at ms)" using assms(1) by (intro Min_in) auto
  then show lo: "near ?lo" using assms(2) by auto
  have "?hi \<in> set (map mr_closed_at ms)" using assms(1) by (intro Max_in) auto
  then have hi: "near ?hi" using assms(2) by auto
  show "\<forall>m \<in> set ms. ?lo \<le> mr_entry_at m \<and> mr_closed_at m \<le> ?hi" by (auto intro: Min_le Max_ge)
  have "lo = sat_i64 (?lo - 300)" "hi = wrap_i64 (?hi + 120)"
    using assms(1,3) by (auto simp: chart_trade_window_bounds_def CHART_PRE_SECS_def CHART_POST_SECS_def comp_def)
  then show "lo = ?lo - 300" "hi = ?hi + 120"
    using lo hi by (auto simp: near_def abs_le_iff wrap_i64_def)
qed

text \<open>The origin of the times of an answer, and which points of the series it shows.\<close>

definition chart_origin :: "marker_row list \<Rightarrow> (int \<times> f64) list \<Rightarrow> int" where
  "chart_origin shown series =
     (if shown \<noteq> [] then Min (set (map mr_entry_at shown))
      else case series of [] \<Rightarrow> 0 | p # _ \<Rightarrow> fst p - 300)"

definition in_window :: "marker_row list \<Rightarrow> (int \<times> f64) list \<Rightarrow> int \<Rightarrow> bool" where
  "in_window shown series t \<longleftrightarrow>
     (if shown \<noteq> []
      then Min (set (map mr_entry_at shown)) - 300 \<le> t \<and> t \<le> Max (set (map mr_closed_at shown)) + 120
      else t \<le> fst (hd series) + 3600)"

definition from_origin :: "int \<Rightarrow> marker_row \<Rightarrow> marker_row" where
  "from_origin base m = m\<lparr>mr_entry_at := mr_entry_at m - base, mr_closed_at := mr_closed_at m - base\<rparr>"

lemma window_of_points:
  assumes "sorted_wrt (<) (map fst points)" "\<forall>p \<in> set points. near (fst p)"
    and "chart_trade_window_bounds [] points = (lo, hi)"
  shows "lo = chart_origin [] points" "\<bar>lo\<bar> \<le> 2 ^ 53"
    "\<forall>p \<in> set points. (lo \<le> fst p \<and> fst p \<le> hi) = in_window [] points (fst p)"
proof -
  have bounds: "lo = chart_origin [] points \<and> \<bar>lo\<bar> \<le> 2 ^ 53 \<and>
    (\<forall>p \<in> set points. (lo \<le> fst p \<and> fst p \<le> hi) = in_window [] points (fst p))"
  proof (cases points)
    case (Cons q qs)
    let ?last = "fst (last points)"
    have near: "near (fst q)" "near ?last" using assms(2) Cons by auto
    have low: "fst q \<le> fst p" if "p \<in> set points" for p
      using that assms(1) Cons by auto
    have high: "fst p \<le> ?last" if "p \<in> set points" for p
    proof -
      have split: "points = butlast points @ [last points]" using Cons by simp
      then have "sorted_wrt (<) (map fst (butlast points) @ [?last])" using assms(1) by (metis list.simps(8,9) map_append)
      then show ?thesis using that split
        by (metis (no_types, lifting) Un_iff image_eqI list.set(1) list.set(2) list.set_map order.strict_implies_order
            order_refl set_append singletonD singletonI sorted_wrt_append)
    qed
    have "lo = fst q - 300" using assms(3) Cons near
      by (auto simp: chart_trade_window_bounds_def near_def abs_le_iff CHART_PRE_SECS_def Let_def split: if_splits)
    moreover from this have "hi = (if 3600 < ?last - fst q then fst q + 3600 else ?last + 60)"
      using assms(3) Cons near
      by (auto simp: chart_trade_window_bounds_def near_def abs_le_iff CHART_MAX_SPAN_SECS_def Let_def wrap_i64_def split: if_splits)
    ultimately have "(lo \<le> fst p \<and> fst p \<le> hi) = (fst p \<le> fst q + 3600)" if "p \<in> set points" for p
      using low[OF that] high[OF that] by (simp split: if_splits)
    then show ?thesis using near(1) \<open>lo = fst q - 300\<close> Cons
      by (auto simp: chart_origin_def in_window_def near_def abs_le_iff)
  qed (use assms(3) in \<open>auto simp: chart_trade_window_bounds_def chart_origin_def\<close>)
  then show "lo = chart_origin [] points" "\<bar>lo\<bar> \<le> 2 ^ 53"
    "\<forall>p \<in> set points. (lo \<le> fst p \<and> fst p \<le> hi) = in_window [] points (fst p)" by blast+
qed

lemma shift_markers:
  assumes "\<forall>m \<in> set ms. near (mr_entry_at m) \<and> near (mr_closed_at m) \<and> lo \<le> mr_entry_at m \<and>
      mr_entry_at m \<le> mr_closed_at m \<and> mr_closed_at m \<le> hi" "near base"
  shows "each_outcome (shift_marker lo hi base) ms = Inr (map (from_origin base) ms)"
  using assms(1)
proof (induction ms)
  case (Cons m ms)
  then have m: "near (mr_entry_at m)" "near (mr_closed_at m)" "lo \<le> mr_entry_at m" "mr_entry_at m \<le> mr_closed_at m"
    "mr_closed_at m \<le> hi" by auto
  have "clamp_time lo hi (mr_entry_at m) = Inr (mr_entry_at m)" "clamp_time lo hi (mr_closed_at m) = Inr (mr_closed_at m)"
    using m by (auto simp: clamp_time_def)
  moreover have "sat_i64 (mr_entry_at m - base) = mr_entry_at m - base" "sat_i64 (mr_closed_at m - base) = mr_closed_at m - base"
    using m(1,2) assms(2) by (auto simp: near_def abs_le_iff)
  ultimately show ?case using Cons by (simp add: shift_marker_def from_origin_def)
qed simp

lemma shown_shift:
  assumes "\<forall>m \<in> set shown. near (mr_entry_at m) \<and> near (mr_closed_at m) \<and> mr_entry_at m \<le> mr_closed_at m"
    and "chart_trade_window_bounds (map (\<lambda>m. (mr_entry_at m, mr_closed_at m)) shown) points = (lo, hi)"
  shows "each_outcome (shift_marker lo hi (chart_origin shown points)) shown =
    Inr (map (from_origin (chart_origin shown points)) shown)"
proof (cases "shown = []")
  case False
  note W = window_of_markers[OF False assms]
  show ?thesis
  proof (rule shift_markers)
    show "near (chart_origin shown points)" using W(3) False by (simp add: chart_origin_def)
    have "lo \<le> mr_entry_at m \<and> mr_closed_at m \<le> hi" if "m \<in> set shown" for m
      using W(1,2) bspec[OF W(4) that] by linarith
    then show "\<forall>m \<in> set shown. near (mr_entry_at m) \<and> near (mr_closed_at m) \<and> lo \<le> mr_entry_at m \<and>
        mr_entry_at m \<le> mr_closed_at m \<and> mr_closed_at m \<le> hi" using assms(1) by blast
  qed
qed simp

text \<open>With or without a marker: where the origin is, and which points are in the window.\<close>

lemma window_general:
  assumes "sorted_wrt (<) (map fst points)" "\<forall>p \<in> set points. near (fst p)"
    and "\<forall>m \<in> set shown. near (mr_entry_at m) \<and> near (mr_closed_at m) \<and> mr_entry_at m \<le> mr_closed_at m"
    and w: "chart_trade_window_bounds (map (\<lambda>m. (mr_entry_at m, mr_closed_at m)) shown) points = (lo, hi)"
  shows "(if shown = [] then lo else Min (set (map mr_entry_at shown))) = chart_origin shown points"
    "\<bar>chart_origin shown points\<bar> \<le> 2 ^ 53"
    "\<forall>p \<in> set points. (lo \<le> fst p \<and> fst p \<le> hi) = in_window shown points (fst p)"
proof -
  have "(if shown = [] then lo else Min (set (map mr_entry_at shown))) = chart_origin shown points \<and>
    \<bar>chart_origin shown points\<bar> \<le> 2 ^ 53 \<and> (\<forall>p \<in> set points. (lo \<le> fst p \<and> fst p \<le> hi) = in_window shown points (fst p))"
  proof (cases "shown = []")
    case True
    then show ?thesis using window_of_points[OF assms(1,2), of lo hi] w by simp
  next
    case False
    note W = window_of_markers[OF False assms(3) w]
    show ?thesis using False W(3) unfolding W(1,2) in_window_def chart_origin_def
      by (simp add: near_def)
  qed
  then show "(if shown = [] then lo else Min (set (map mr_entry_at shown))) = chart_origin shown points"
    "\<bar>chart_origin shown points\<bar> \<le> 2 ^ 53"
    "\<forall>p \<in> set points. (lo \<le> fst p \<and> fst p \<le> hi) = in_window shown points (fst p)" by blast+
qed

lemma chart_reply_form:
  assumes "\<forall>p \<in> set rows. sane_time (fst p)"
    and "\<forall>m \<in> set ms. sane_time (mr_entry_at m) \<and> sane_time (mr_closed_at m)"
    and cm: "chart_markers unix rows ms = (points, shown)"
  shows "chart_reply unix rows ms = Inr
    \<lparr>cr_points = map (\<lambda>(t, m). (t - chart_origin shown points, m)) (filter (\<lambda>(t, m). in_window shown points t) points),
     cr_markers = map (from_origin (chart_origin shown points)) shown\<rparr>"
proof -
  note facts = chart_markers_facts[OF assms]
  have near: "\<forall>p \<in> set points. near (fst p)" using facts(2) by blast
  obtain lo hi where w: "chart_trade_window_bounds (map (\<lambda>m. (mr_entry_at m, mr_closed_at m)) shown) points = (lo, hi)"
    by fastforce
  note W = window_general[OF facts(1) near facts(3) w]
  have inside: "filter (\<lambda>(t, _). lo \<le> t \<and> t \<le> hi) points = filter (\<lambda>(t, m). in_window shown points t) points"
    using W(3) by (auto intro!: filter_cong)
  have "sat_i64 (fst p - chart_origin shown points) = fst p - chart_origin shown points" if "p \<in> set points" for p
    using near that W(2) by (auto simp: near_def abs_le_iff)
  then have ps: "map (\<lambda>(t, m). (sat_i64 (t - chart_origin shown points), m)) (filter (\<lambda>(t, m). in_window shown points t) points) =
      map (\<lambda>(t, m). (t - chart_origin shown points, m)) (filter (\<lambda>(t, m). in_window shown points t) points)" by auto
  show ?thesis unfolding chart_reply_def cm prod.case Let_def w W(1) inside ps shown_shift[OF facts(3) w] by simp
qed

text \<open>The times of an answer are inside the window, counted from the origin.\<close>

lemma window_times:
  assumes "sorted_wrt (<) (map fst points)" "p \<in> set points" "in_window shown points (fst p)"
  shows "if shown = [] then 300 \<le> fst p - chart_origin shown points \<and> fst p - chart_origin shown points \<le> 3900
    else - 300 \<le> fst p - chart_origin shown points \<and> fst p - chart_origin shown points \<le>
      Max (set (map mr_closed_at (map (from_origin (chart_origin shown points)) shown))) + 120"
proof (cases "shown = []")
  case True
  obtain q qs where "points = q # qs" using assms(2) by (cases points) auto
  moreover from this have "fst q \<le> fst p" using assms(1,2) by auto
  ultimately show ?thesis using True assms(3) by (simp add: in_window_def chart_origin_def)
next
  case False
  have "Max (set (map mr_closed_at (map (from_origin b) shown))) = Max ((\<lambda>c. c - b) ` set (map mr_closed_at shown))" for b
    by (simp add: image_image from_origin_def)
  also have "\<dots> b = Max (set (map mr_closed_at shown)) - b" for b
    using False by (intro mono_Max_commute[symmetric]) (auto simp: mono_def)
  finally show ?thesis using False assms(3) by (auto simp: in_window_def chart_origin_def)
qed

text \<open>C38. The chart of a token, whose rows and trades have times of at most 2 to the 50 in size, is always produced.
  Of the series of the token it shows exactly the points in the window: with a trade of the bot from five
  minutes before the first entry to two minutes after the last exit, and without one the first hour. It
  counts times from the first entry, and without a trade from five minutes before the first point. The
  points are strictly increasing in time, each has a valid market cap of one of the rows and a time
  within these bounds, and the trades shown open at or after the origin and close after they open.\<close>

theorem chart_is_sound:
  assumes "\<forall>p \<in> set rows. sane_time (fst p)"
    and "\<forall>m \<in> set ms. sane_time (mr_entry_at m) \<and> sane_time (mr_closed_at m)"
    and "chart_markers unix rows ms = (series, shown)"
  shows "\<exists>r. chart_reply unix rows ms = Inr r \<and>
    cr_points r = [(t - chart_origin shown series, m). (t, m) \<leftarrow> series, in_window shown series t] \<and>
    cr_markers r = map (from_origin (chart_origin shown series)) shown \<and>
    sorted_wrt (<) (map fst (cr_points r)) \<and>
    (\<forall>(t, m) \<in> set (cr_points r). m \<in> snd ` set rows \<and> chart_mcap_valid m \<and>
       (if cr_markers r = [] then 300 \<le> t \<and> t \<le> 3900
        else - 300 \<le> t \<and> t \<le> Max (set (map mr_closed_at (cr_markers r))) + 120)) \<and>
    (\<forall>m \<in> set (cr_markers r). 0 \<le> mr_entry_at m \<and> mr_entry_at m \<le> mr_closed_at m)"
proof -
  note facts = chart_markers_facts[OF assms]
  let ?o = "chart_origin shown series" and ?inside = "filter (\<lambda>(t, m). in_window shown series t) series"
  let ?r = "\<lparr>cr_points = map (\<lambda>(t, m). (t - ?o, m)) ?inside, cr_markers = map (from_origin ?o) shown\<rparr>"
  have "[(t - ?o, m). (t, m) \<leftarrow> ps, in_window shown series t] =
      map (\<lambda>(t, m). (t - ?o, m)) (filter (\<lambda>(t, m). in_window shown series t) ps)" for ps :: "(int \<times> f64) list"
    by (induction ps) auto
  note shape = this[of series]
  have "sorted_wrt (<) (map fst ?inside)" using facts(1) by (simp add: sorted_wrt_map sorted_wrt_filter)
  then have inc: "sorted_wrt (<) (map fst (cr_points ?r))" by (simp add: sorted_wrt_map split_def)
  have mem: "m \<in> snd ` set rows \<and> chart_mcap_valid m \<and>
      (if cr_markers ?r = [] then 300 \<le> t \<and> t \<le> 3900
       else - 300 \<le> t \<and> t \<le> Max (set (map mr_closed_at (cr_markers ?r))) + 120)" if tm: "(t, m) \<in> set (cr_points ?r)" for t m
  proof -
    obtain p where p: "p \<in> set series" "in_window shown series (fst p)" "t = fst p - ?o" "m = snd p" using tm by auto
    then show ?thesis using window_times[OF facts(1) p(1,2)] facts(2) by (auto split: if_splits)
  qed
  have mk: "\<forall>m \<in> set (cr_markers ?r). 0 \<le> mr_entry_at m \<and> mr_entry_at m \<le> mr_closed_at m"
    using facts(3) by (auto simp: chart_origin_def from_origin_def intro: Min_le)
  have "\<forall>(t, m) \<in> set (cr_points ?r). m \<in> snd ` set rows \<and> chart_mcap_valid m \<and>
      (if cr_markers ?r = [] then 300 \<le> t \<and> t \<le> 3900
       else - 300 \<le> t \<and> t \<le> Max (set (map mr_closed_at (cr_markers ?r))) + 120)"
    using mem by blast
  with chart_reply_form[OF assms] shape[symmetric] inc mk show ?thesis
    by (intro exI[of _ ?r] conjI) (simp_all only: chart_response.select_convs)
qed

text \<open>Two points, and a trade whose window the first does not reach.\<close>

definition demo_tape :: "(int \<times> f64) list" where
  "demo_tape = [(1700000000, Fin 30), (1700000500, Fin 30)]"

definition demo_trade :: marker_row where
  "demo_trade = \<lparr>mr_entry_at = 1700000400, mr_closed_at = 1700000460, mr_entry_mcap = Fin 30,
     mr_exit_mcap = Fin 30, mr_pnl = 0, mr_reason = ''x''\<rparr>"

lemma valid_30: "chart_mcap_valid (Fin 30)"
  by (simp add: chart_mcap_valid_def is_finite_def CHART_MCAP_ABS_MAX_def zero_f64_def)

lemma band_30: "chart_mcap_matches_tape (Fin 30) (Some (Fin 30))"
proof -
  obtain q where "f64_of (2/100) = Fin q" "q \<le> 1"
    using f64_of_mono[of "2/100" 1] f64_of_nonneg[of "2/100"] by (cases "f64_of (2/100)") (auto simp: one_f64_def zero_f64_def)
  then have "Fin 30 * f64_of (2/100) \<le> Fin 30" using f64_of_mono[of "30 * q" 30] by simp
  moreover have "Fin 30 \<le> Fin 30 * Fin 50" using f64_of_mono[of 30 1500] by simp
  ultimately show ?thesis using valid_30 by (simp add: chart_mcap_matches_tape_def zero_f64_def)
qed

lemma demo_chart: "chart_markers True demo_tape [demo_trade] = (demo_tape, [demo_trade])"
proof -
  have med: "chart_tape_median [Fin 30, Fin 30] = Some (Fin 30)"
    using valid_30 by (simp add: chart_tape_median_def f64_sort_def)
  have series: "chart_series True demo_tape = demo_tape" using valid_30 by (simp add: chart_series_def demo_tape_def)
  have kept: "in_band demo_tape = demo_tape" using band_30 by (simp add: in_band_def med demo_tape_def)
  have dedup: "chart_dedup_points demo_tape = demo_tape" by (simp add: chart_dedup_points_def demo_tape_def)
  have med': "chart_tape_median (map snd demo_tape) = Some (Fin 30)" using med by (simp add: demo_tape_def)
  have "chart_marker (Some (Fin 30)) demo_tape 0 True demo_trade = Some demo_trade"
    using band_30 by (simp add: chart_marker_def demo_trade_def chart_normalize_marker_secs_def chart_is_unix_secs_def)
  then show ?thesis by (simp add: chart_markers_def series kept dedup med' List.map_filter_simps)
qed

lemma chart_is_sound_witness:
  "\<exists>r. chart_reply True demo_tape [demo_trade] = Inr r \<and> cr_points r = [(100, Fin 30)] \<and>
    cr_markers r = [demo_trade\<lparr>mr_entry_at := 0, mr_closed_at := 60\<rparr>]"
proof -
  have "chart_origin [demo_trade] demo_tape = 1700000400" by (simp add: chart_origin_def demo_trade_def)
  moreover have "from_origin 1700000400 demo_trade = demo_trade\<lparr>mr_entry_at := 0, mr_closed_at := 60\<rparr>"
    by (simp add: from_origin_def demo_trade_def)
  moreover have "\<not> in_window [demo_trade] demo_tape 1700000000" "in_window [demo_trade] demo_tape 1700000500"
    by (simp_all add: in_window_def demo_trade_def)
  moreover have "\<forall>p \<in> set demo_tape. sane_time (fst p)"
    "\<forall>m \<in> set [demo_trade]. sane_time (mr_entry_at m) \<and> sane_time (mr_closed_at m)"
    by (simp_all add: sane_time_def demo_tape_def demo_trade_def)
  note chart_is_sound[OF this demo_chart]
  ultimately show ?thesis by (auto simp: demo_tape_def)
qed

text \<open>
  Without a tape the points are on the axis of slots, in seconds from the first, and the trades of the
  bot, whose times are wall clock times, are not moved to that axis.
\<close>

lemma normalize_unix:
  assumes "chart_is_unix_secs e" "chart_is_unix_secs c"
  shows "chart_normalize_marker_secs e c em xm series slot0 False = (e, c)"
  using assms by (auto simp: chart_normalize_marker_secs_def chart_is_unix_secs_def Let_def)

text \<open>Without a tape, once a closed trade of the bot is in the band of the market caps, the chart has no
  point at all, whatever the trades of the token were in its first thirty years of slots.\<close>

theorem chart_without_tape_is_empty:
  assumes "\<forall>p \<in> set rows. 0 \<le> fst p \<and> fst p \<le> 2400000000"
    and "\<forall>m \<in> set ms. chart_is_unix_secs (mr_entry_at m) \<and> chart_is_unix_secs (mr_closed_at m) \<and>
      sane_time (mr_entry_at m) \<and> sane_time (mr_closed_at m)"
    and "chart_reply False rows ms = Inr r" "cr_markers r \<noteq> []"
  shows "cr_points r = []"
proof -
  let ?kept = "in_band (chart_series False rows)"
  obtain points markers where cm: "chart_markers False rows ms = (points, markers)" by fastforce
  define slot0 where "slot0 = (case ?kept of [] \<Rightarrow> 0 | p # _ \<Rightarrow> fst p)"
  have rows: "\<forall>p \<in> set rows. sane_time (fst p)" using assms(1) by (fastforce simp: sane_time_def)
  have ms: "\<forall>m \<in> set ms. sane_time (mr_entry_at m) \<and> sane_time (mr_closed_at m)" using assms(2) by blast
  note facts = chart_markers_facts[OF rows ms cm]
  have kept: "0 \<le> fst p \<and> fst p \<le> 2400000000" if "p \<in> set ?kept" for p
    using series_mem[OF that] assms(1) by blast
  then have slot0: "0 \<le> slot0" by (auto simp: slot0_def split: list.splits)
  have points: "points = chart_dedup_points (map (\<lambda>(slot, m). (chart_slot_to_sec slot slot0, m)) ?kept)"
    and markers: "markers = List.map_filter (chart_marker (chart_tape_median (map snd (chart_series False rows)))
        ?kept slot0 False) ms"
    using cm by (auto simp: chart_markers_def slot0_def Let_def)
  have late: "1000000000 \<le> mr_entry_at m" if "m \<in> set markers" for m
  proof -
    from that obtain m0 where "m0 \<in> set ms" "chart_marker (chart_tape_median (map snd (chart_series False rows)))
        ?kept slot0 False m0 = Some m"
      unfolding markers by (force simp: List.map_filter_def)
    then show ?thesis using assms(2) normalize_unix
      by (fastforce simp: chart_marker_def chart_is_unix_secs_def split: if_splits)
  qed
  have early: "fst p \<le> 960000000" if p: "p \<in> set points" for p
  proof -
    obtain slot m where "(slot, m) \<in> set ?kept" "fst p = chart_slot_to_sec slot slot0"
      using dedup_points_mem[OF p[unfolded points]] by force
    then show ?thesis using chart_slot_to_sec_range[of slot slot0 2400000000 960000000] kept slot0
        f64_of_int[of 2400000000] f64_of_int[of 960000000] by fastforce
  qed
  obtain lo hi where w: "chart_trade_window_bounds (map (\<lambda>m. (mr_entry_at m, mr_closed_at m)) markers) points = (lo, hi)"
    by fastforce
  have "markers \<noteq> []"
    using assms(3,4) cm w by (auto simp: chart_reply_def Let_def bind_outcome_Inr_iff)
  note W = window_of_markers[OF this facts(3) w]
  have "Min (set (map mr_entry_at markers)) \<in> set (map mr_entry_at markers)"
    using \<open>markers \<noteq> []\<close> by (intro Min_in) auto
  then have "999999700 \<le> lo" using late W(1) by auto
  then have "filter (\<lambda>(t, _). lo \<le> t \<and> t \<le> hi) points = []" using early by (fastforce simp: filter_empty_conv)
  then show ?thesis using assms(3) cm w by (auto simp: chart_reply_def Let_def bind_outcome_Inr_iff)
qed


lemma chart_without_tape_is_empty_witness:
  "\<exists>r. chart_reply False [(5, Fin 30)] [\<lparr>mr_entry_at = 1700000000, mr_closed_at = 1700000060, mr_entry_mcap = Fin 30,
      mr_exit_mcap = Fin 40, mr_pnl = 0, mr_reason = ''x''\<rparr>] = Inr r \<and> cr_markers r \<noteq> [] \<and> cr_points r = []"
proof -
  let ?rows = "[(5 :: int, Fin 30)]" and ?m = "\<lparr>mr_entry_at = 1700000000, mr_closed_at = 1700000060, mr_entry_mcap = Fin 30,
      mr_exit_mcap = Fin 40, mr_pnl = 0, mr_reason = ''x''\<rparr>"
  have valid: "chart_mcap_valid (Fin 30)" "chart_mcap_valid (Fin 40)"
    by (simp_all add: chart_mcap_valid_def is_finite_def CHART_MCAP_ABS_MAX_def zero_f64_def)
  obtain q where "f64_of (2/100) = Fin q" "q \<le> 1"
    using f64_of_mono[of "2/100" 1] f64_of_nonneg[of "2/100"] by (cases "f64_of (2/100)") (auto simp: one_f64_def zero_f64_def)
  then have "Fin 30 * f64_of (2/100) \<le> Fin 30" using f64_of_mono[of "30 * q" 30] by simp
  then have band: "chart_mcap_matches_tape (Fin 30) (Some (Fin 30))" "chart_mcap_matches_tape (Fin 40) (Some (Fin 30))"
    using valid f64_le_trans[of "Fin 30 * f64_of (2/100)" "Fin 30" "Fin 40"]
    by (simp_all add: chart_mcap_matches_tape_def zero_f64_def)
  have med: "chart_tape_median [Fin 30] = Some (Fin 30)"
    using valid by (simp add: chart_tape_median_def f64_sort_def)
  have series: "chart_series False ?rows = ?rows" using valid by (simp add: chart_series_def)
  have kept: "in_band ?rows = ?rows" using band by (simp add: in_band_def med)
  have mark: "chart_marker (Some (Fin 30)) ?rows 5 False ?m = Some ?m"
    using band normalize_unix[of 1700000000 1700000060] by (simp add: chart_marker_def chart_is_unix_secs_def)
  have "snd (chart_markers False ?rows [?m]) = [?m]"
    using mark by (simp add: chart_markers_def series kept med List.map_filter_simps)
  then obtain ps where cm: "chart_markers False ?rows [?m] = (ps, [?m])" by (metis prod.collapse)
  have "\<exists>r. chart_reply False ?rows [?m] = Inr r \<and> cr_markers r \<noteq> []"
    by (simp add: chart_reply_def cm chart_trade_window_bounds_def CHART_PRE_SECS_def CHART_POST_SECS_def
        shift_marker_def clamp_time_def sat_i64_def wrap_i64_def)
  then obtain r where r: "chart_reply False ?rows [?m] = Inr r" "cr_markers r \<noteq> []" by blast
  have "cr_points r = []"
    by (rule chart_without_tape_is_empty[OF _ _ r]) (simp_all add: sane_time_def chart_is_unix_secs_def)
  then show ?thesis using r by blast
qed

end
