(* ===== verification/Counterfactual.thy ===== *)
theory Counterfactual
  imports Score_Laws Chart Config_File
begin

text \<open>
  Model of \<^verbatim>\<open>src/bin/cf_spamdev.rs\<close>, the offline tool that replays the scoring of tokens of spam
  developers under several penalties: it rebuilds the features of the scoring window from the stored
  trades and runs the real score engine on them. The rows of the database, the registry of wallets and
  the configuration are arguments; the printed report is the table of outcomes.

  The lemmas show that its copy of the smart-money rule is the one of the registry and that the rebuilt
  features are consistent; the property is what the report must satisfy whatever the data.
\<close>

section \<open>Wallets\<close>

definition TTL_SECS :: u64 where "TTL_SECS = 172800"
definition PENALTIES :: "int list" where "PENALTIES = [0, - 1, - 2, - 3]"

record cf_wallet =
  cw_trades :: u64
  cw_wins :: u64
  cw_pnl_pct_sum :: f64
  cw_last_seen_unix :: u64

definition cf_winrate :: "cf_wallet \<Rightarrow> f64" where
  "cf_winrate r = (if cw_trades r = 0 then 0 else word_to_f64 (cw_wins r) / word_to_f64 (cw_trades r))"

definition cf_avg_pnl_pct :: "cf_wallet \<Rightarrow> f64" where
  "cf_avg_pnl_pct r = (if cw_trades r = 0 then 0 else cw_pnl_pct_sum r / word_to_f64 (cw_trades r))"

definition cf_is_smart :: "cf_wallet \<Rightarrow> u64 \<Rightarrow> bool" where
  "cf_is_smart r now =
     (if TTL_SECS < saturating_sub now (cw_last_seen_unix r) then False
      else if cw_trades r < 4 then False
      else f64_of 0.6 \<le> cf_winrate r \<and> f64_of 5 \<le> cf_avg_pnl_pct r)"

text \<open>What the tool reads of a stored record.\<close>

definition cf_wallet_of :: "wallet_record \<Rightarrow> cf_wallet" where
  "cf_wallet_of r = \<lparr>cw_trades = wr_trades r, cw_wins = wr_wins r, cw_pnl_pct_sum = wr_pnl_pct_sum r,
     cw_last_seen_unix = wr_last_seen_unix r\<rparr>"

text \<open>The rule is the one of the registry with the lifetime of the shipped configuration.\<close>

lemma cf_smart_is_registry_rule: "cf_is_smart (cf_wallet_of r) now = is_smart r now TTL_SECS"
  by (simp add: cf_is_smart_def cf_wallet_of_def is_smart_def TTL_SECS_def cf_winrate_def cf_avg_pnl_pct_def
      winrate_def avg_pnl_pct_def)

section \<open>The scoring window\<close>

record cf_trade =
  ct_trader :: string
  ct_is_buy :: bool
  ct_size :: f64
  ct_is_sol :: bool
  ct_mcap :: f64
  ct_role :: string
  ct_slot :: int

definition counts :: "cf_trade \<Rightarrow> bool" where
  "counts t \<longleftrightarrow> ct_role t = ''regular'' \<or> ct_role t = ''sniper''"

text \<open>The loops break at the first trade behind the bound.\<close>

definition until_slot :: "int \<Rightarrow> cf_trade list \<Rightarrow> cf_trade list" where
  "until_slot bound ts = takeWhile (\<lambda>t. ct_slot t \<le> bound) ts"

record snapshot_acc =
  sa_buyers :: "string set"
  sa_buy_vol :: f64
  sa_sell_raw :: u64
  sa_sell_events :: u64
  sa_mcap :: f64
  sa_peak :: f64

definition snapshot_trade :: "snapshot_acc \<Rightarrow> cf_trade \<Rightarrow> snapshot_acc" where
  "snapshot_trade s t =
     (let s = (if 0 < ct_mcap t then s\<lparr>sa_mcap := ct_mcap t, sa_peak := f64_max (sa_peak s) (ct_mcap t)\<rparr> else s)
      in if \<not> counts t then s
         else if ct_is_buy t
         then let s = s\<lparr>sa_buyers := insert (ct_trader t) (sa_buyers s)\<rparr>
              in if ct_is_sol t then s\<lparr>sa_buy_vol := sa_buy_vol s + ct_size t\<rparr> else s
         else if ct_is_sol t
         then s\<lparr>sa_sell_raw := saturating_add (sa_sell_raw s) (f64_to_word (ct_size t * Fin (10 ^ 9))),
                sa_sell_events := sa_sell_events s + 1\<rparr>
         else s)"

definition snapshot_at :: "cf_trade list \<Rightarrow> int \<Rightarrow> f64 \<Rightarrow> early_tape_point \<times> f64" where
  "snapshot_at ts bound init_mcap =
     (let s = foldl snapshot_trade \<lparr>sa_buyers = {}, sa_buy_vol = 0, sa_sell_raw = 0, sa_sell_events = 0,
                sa_mcap = init_mcap, sa_peak = init_mcap\<rparr> (until_slot bound ts);
          n = of_nat (card (sa_buyers s))
      in (\<lparr>tp_buyer_count = n, tp_still_long = n, tp_already_sold = 0, tp_buy_volume_sol = sa_buy_vol s,
           tp_cum_sell_raw = sa_sell_raw s, tp_cum_sell_events = sa_sell_events s, tp_mcap_sol = sa_mcap s\<rparr>,
          sa_peak s))"

record window_acc =
  wa_buy_size :: "(string \<times> f64) list"
  wa_has_sell :: "string set"
  wa_regulars :: "string set"
  wa_snipers :: "string set"
  wa_seen_buyer :: "string set"
  wa_volume :: f64
  wa_peak :: f64
  wa_last :: f64

definition window_trade :: "window_acc \<Rightarrow> cf_trade \<Rightarrow> window_acc" where
  "window_trade s t =
     (let s = (if 0 < ct_mcap t then s\<lparr>wa_peak := f64_max (wa_peak s) (ct_mcap t), wa_last := ct_mcap t\<rparr> else s)
      in if \<not> counts t then s
         else if ct_is_buy t
         then let s = (if ct_is_sol t
                    then s\<lparr>wa_volume := wa_volume s + ct_size t,
                           wa_buy_size := upsert (ct_trader t) 0 (\<lambda>v. v + ct_size t) (wa_buy_size s)\<rparr> else s)
              in if ct_trader t \<in> wa_seen_buyer s then s
                 else let s = s\<lparr>wa_seen_buyer := insert (ct_trader t) (wa_seen_buyer s)\<rparr>
                      in if ct_role t = ''sniper''
                         then s\<lparr>wa_snipers := insert (ct_trader t) (wa_snipers s)\<rparr>
                         else s\<lparr>wa_regulars := insert (ct_trader t) (wa_regulars s)\<rparr>
         else s\<lparr>wa_has_sell := insert (ct_trader t) (wa_has_sell s)\<rparr>)"

definition window_start :: "f64 \<Rightarrow> window_acc" where
  "window_start init_mcap = \<lparr>wa_buy_size = [], wa_has_sell = {}, wa_regulars = {}, wa_snipers = {},
     wa_seen_buyer = {}, wa_volume = 0, wa_peak = init_mcap, wa_last = init_mcap\<rparr>"

definition scan_window :: "cf_trade list \<Rightarrow> int \<Rightarrow> f64 \<Rightarrow> window_acc" where
  "scan_window ts eff_end init_mcap = foldl window_trade (window_start init_mcap) (until_slot eff_end ts)"

text \<open>The samples of the live observer, with its early exit: the points, and where the window ends.\<close>

definition sampled_window :: "cf_trade list \<Rightarrow> int \<Rightarrow> int \<Rightarrow> f64 \<Rightarrow> f64 \<Rightarrow> early_tape_point list \<times> int" where
  "sampled_window ts created win_slots mom_low_pct init_mcap =
     (let b1 = wrap_i64 (created + win_slots sdiv 3);
          b2 = wrap_i64 (created + wrap_i64 (win_slots * 2) sdiv 3);
          b3 = wrap_i64 (created + win_slots);
          p0 = fst (snapshot_at ts created init_mcap);
          (p1, peak1) = snapshot_at ts b1 init_mcap
      in if mom_low_pct \<le> momentum_peak_pct init_mcap peak1 then ([p0, p1], b1)
         else let (p2, peak2) = snapshot_at ts b2 init_mcap
              in if mom_low_pct \<le> momentum_peak_pct init_mcap peak2 then ([p0, p1, p2], b2)
                 else ([p0, p1, fst (snapshot_at ts b3 init_mcap)], b3))"

text \<open>The features, the number of smart wallets, the number of buyers, the momentum and the volume.\<close>

definition smart_in :: "(string \<Rightarrow> cf_wallet option) \<Rightarrow> u64 \<Rightarrow> string \<Rightarrow> bool" where
  "smart_in sm now w = (case sm w of None \<Rightarrow> False | Some r \<Rightarrow> cf_is_smart r now)"

definition reconstruct :: "(f64 \<Rightarrow> f64) \<Rightarrow> address \<Rightarrow> cf_trade list \<Rightarrow> int \<Rightarrow> int \<Rightarrow> f64 \<Rightarrow> (string \<Rightarrow> cf_wallet option) \<Rightarrow> u64
    \<Rightarrow> (token_features \<times> u32 \<times> u64 \<times> f64 \<times> f64) option" where
  "reconstruct th dev ts created win_slots mom_low_pct sm now =
     (case find (\<lambda>t. 0 < ct_mcap t) ts of
        None \<Rightarrow> None
      | Some t0 \<Rightarrow>
          let init_mcap = ct_mcap t0;
              (points, eff_end) = sampled_window ts created win_slots mom_low_pct init_mcap;
              w = scan_window ts eff_end init_mcap;
              regular_buyer_count = of_nat (card (wa_regulars w));
              sniper_count = of_nat (card (wa_snipers w));
              buyer_count = regular_buyer_count + sniper_count
          in if init_mcap \<le> 0 \<or> buyer_count = 0 then None
             else
               let smart = {x \<in> wa_seen_buyer w. smart_in sm now x};
                   smart_cnt = of_nat (card smart);
                   smart_exits = of_nat (card (smart \<inter> wa_has_sell w));
                   still_long = of_nat (card (wa_seen_buyer w - wa_has_sell w));
                   already_sold = of_nat (card (wa_seen_buyer w \<inter> wa_has_sell w));
                   tape = from_tape_points th points smart_exits;
                   tf = (assemble 0 dev None DevNeutral dev_record_default init_mcap (wa_last w)
                           (f64_max (wa_peak w) (wa_last w)) \<lparr>eb_regulars = [], eb_snipers = []\<rparr>
                           regular_buyer_count sniper_count (wa_volume w) still_long already_sold
                           (compute_bundle_stats (map snd (wa_buy_size w)) (f64_of 0.05)) smart_cnt tape)
                        \<lparr>tf_is_spam_dev := True, tf_dev_rank_score := 0\<rparr>
               in Some (tf, smart_cnt, buyer_count, momentum_peak_pct init_mcap (f64_max (wa_peak w) (wa_last w)), wa_volume w))"

section \<open>The rebuilt features are consistent\<close>

definition buyers_split :: "window_acc \<Rightarrow> bool" where
  "buyers_split s \<longleftrightarrow> wa_seen_buyer s = wa_regulars s \<union> wa_snipers s \<and> wa_regulars s \<inter> wa_snipers s = {} \<and>
     finite (wa_seen_buyer s)"

lemma window_trade_buyers: "buyers_split s \<Longrightarrow> buyers_split (window_trade s t)"
  by (auto simp: buyers_split_def window_trade_def Let_def)

lemma scan_window_buyers: "buyers_split (scan_window ts e m)"
proof -
  have "buyers_split s \<Longrightarrow> buyers_split (foldl window_trade s us)" for s us
    by (induction us arbitrary: s) (auto intro: window_trade_buyers)
  moreover have "buyers_split (window_start m)" by (simp add: window_start_def buyers_split_def)
  ultimately show ?thesis unfolding scan_window_def by blast
qed

lemma buyers_split_counts:
  assumes "buyers_split w"
  shows "card (wa_regulars w) + card (wa_snipers w) = card (wa_seen_buyer w - x) + card (wa_seen_buyer w \<inter> x)"
proof -
  have "card (wa_regulars w) + card (wa_snipers w) = card (wa_seen_buyer w)"
    using assms by (metis buyers_split_def card_Un_disjoint finite_Un)
  moreover have "card (wa_seen_buyer w) = card (wa_seen_buyer w - x) + card (wa_seen_buyer w \<inter> x)"
    using assms by (metis buyers_split_def card_Int_Diff add.commute)
  ultimately show ?thesis by simp
qed

text \<open>Every buyer is a regular or a sniper, and still holds or has sold; smart wallets that left are smart wallets.\<close>

lemma reconstruct_counts:
  assumes "reconstruct th dev ts created win_slots low sm now = Some (tf, smart_cnt, buyers, mom, vol)"
  shows "tf_is_spam_dev tf \<and> buyers = tf_buyer_count tf \<and> buyers = tf_still_long_count tf + tf_already_sold_count tf \<and>
    buyers \<noteq> 0 \<and> smart_cnt = tf_smart_wallet_count tf"
proof -
  obtain e m where w: "buyers = of_nat (card (wa_regulars (scan_window ts e m))) + of_nat (card (wa_snipers (scan_window ts e m)))"
      "tf_still_long_count tf = of_nat (card (wa_seen_buyer (scan_window ts e m) - wa_has_sell (scan_window ts e m)))"
      "tf_already_sold_count tf = of_nat (card (wa_seen_buyer (scan_window ts e m) \<inter> wa_has_sell (scan_window ts e m)))"
    and r: "tf_is_spam_dev tf" "buyers = tf_buyer_count tf" "buyers \<noteq> 0" "smart_cnt = tf_smart_wallet_count tf"
    using assms by (auto simp: reconstruct_def Let_def assemble_def tf_buyer_count_def split_def split: option.splits if_splits)
  have "buyers = tf_still_long_count tf + tf_already_sold_count tf" unfolding w
    using buyers_split_counts[OF scan_window_buyers, of ts e m "wa_has_sell (scan_window ts e m)"] by (metis of_nat_add)
  then show ?thesis using r by blast
qed

section \<open>Candidates\<close>

definition csv_mints :: "string \<Rightarrow> string list" where
  "csv_mints csv = filter (\<lambda>m. m \<noteq> []) (map (\<lambda>l. trim (takeWhile (\<lambda>c. c \<noteq> CHR '','') l)) (lines csv))"

fun insert_by_peak :: "string \<times> f64 \<Rightarrow> (string \<times> f64) list \<Rightarrow> (string \<times> f64) list" where
  "insert_by_peak x [] = [x]"
| "insert_by_peak x (y # ys) = (if snd x < snd y then y # insert_by_peak x ys else x # y # ys)"

definition candidates :: "(string \<Rightarrow> f64 option) \<Rightarrow> string list \<Rightarrow> (string \<times> f64) list" where
  "candidates peak mints =
     foldr insert_by_peak
       (filter (\<lambda>(_, p). f64_of 150 \<le> p) (List.map_filter (\<lambda>m. map_option (Pair m) (peak m)) mints)) []"

section \<open>The table\<close>

record cf_outcome =
  oc_a_plus :: nat
  oc_a :: nat
  oc_skip :: nat
  oc_buy_a_plus :: nat
  oc_strong_a :: nat

definition cf_outcome_default :: cf_outcome where
  "cf_outcome_default = \<lparr>oc_a_plus = 0, oc_a = 0, oc_skip = 0, oc_buy_a_plus = 0, oc_strong_a = 0\<rparr>"

definition bump :: "score_breakdown \<Rightarrow> bool \<Rightarrow> cf_outcome \<Rightarrow> cf_outcome" where
  "bump bd mom_ok o0 =
     (let o1 = (case sb_tier bd of
                  APlus \<Rightarrow> o0\<lparr>oc_a_plus := oc_a_plus o0 + 1\<rparr>
                | A \<Rightarrow> o0\<lparr>oc_a := oc_a o0 + 1\<rparr>
                | _ \<Rightarrow> o0\<lparr>oc_skip := oc_skip o0 + 1\<rparr>);
          o2 = (if sb_tier bd = APlus \<and> mom_ok then o1\<lparr>oc_buy_a_plus := oc_buy_a_plus o1 + 1\<rparr> else o1)
      in if sb_tier bd \<noteq> Skip \<and> 8 \<le> sb_total bd \<and> mom_ok then o2\<lparr>oc_strong_a := oc_strong_a o2 + 1\<rparr> else o2)"

text \<open>One candidate under one penalty.\<close>

definition score_penalty :: "scoring_config \<Rightarrow> int \<Rightarrow> token_features \<Rightarrow> score_breakdown" where
  "score_penalty cfg pen tf = score_token (cfg\<lparr>spam_dev_penalty := pen\<rparr>) tf (sc_thresholds cfg)"

definition bump_candidate :: "scoring_config \<Rightarrow> int \<Rightarrow> token_features \<times> u32 \<Rightarrow> cf_outcome \<Rightarrow> cf_outcome" where
  "bump_candidate cfg pen ts =
     (let bd = score_penalty cfg pen (fst ts);
          bypass = momentum_good_smart_bypass cfg;
          mom_ok = (has_momentum_good_item (sb_items bd) \<or> 0 < bypass \<and> bypass \<le> snd ts)
      in bump bd mom_ok)"

text \<open>The database: when a coin was created, its trades between two slots in order.\<close>

record trades_db =
  db_created :: "string \<Rightarrow> int option"
  db_trades :: "string \<Rightarrow> int \<Rightarrow> int \<Rightarrow> cf_trade list"

definition candidate_features :: "(f64 \<Rightarrow> f64) \<Rightarrow> address \<Rightarrow> scoring_config \<Rightarrow> int \<Rightarrow> (string \<Rightarrow> cf_wallet option) \<Rightarrow> u64
    \<Rightarrow> trades_db \<Rightarrow> string \<Rightarrow> (token_features \<times> u32) option" where
  "candidate_features th dev cfg win_slots sm now db mint =
     (case db_created db mint of
        None \<Rightarrow> None
      | Some created \<Rightarrow>
          let ts = db_trades db mint created (wrap_i64 (created + win_slots))
          in if ts = [] then None
             else map_option (\<lambda>(tf, smart_cnt, _). (tf, smart_cnt))
                    (reconstruct th dev ts created win_slots (th_momentum_good_low_pct (sc_thresholds cfg)) sm now))"

definition outcome_row :: "scoring_config \<Rightarrow> int \<Rightarrow> (token_features \<times> u32) list \<Rightarrow> cf_outcome" where
  "outcome_row cfg pen cs = foldl (\<lambda>o0 c. bump_candidate cfg pen c o0) cf_outcome_default cs"

text \<open>A row of the report: the candidates whose peak reaches the bound, under one penalty.\<close>

definition report_row :: "(f64 \<Rightarrow> f64) \<Rightarrow> address \<Rightarrow> scoring_config \<Rightarrow> int \<Rightarrow> (string \<Rightarrow> cf_wallet option) \<Rightarrow> u64
    \<Rightarrow> trades_db \<Rightarrow> (string \<times> f64) list \<Rightarrow> f64 \<Rightarrow> int \<Rightarrow> cf_outcome" where
  "report_row th dev cfg win_slots sm now db cands bound pen =
     outcome_row cfg pen
       (List.map_filter (candidate_features th dev cfg win_slots sm now db)
          (map fst (filter (\<lambda>(_, pk). bound \<le> pk) cands)))"

section \<open>A harsher penalty never helps\<close>

definition rest_rules :: "scoring_config \<Rightarrow> token_features \<Rightarrow> rule list" where
  "rest_rules cfg f = tl (engine_rules cfg (sc_thresholds cfg) f)"

lemma penalty_rules:
  "tf_is_spam_dev f \<Longrightarrow> engine_rules (cfg\<lparr>spam_dev_penalty := pen\<rparr>) (sc_thresholds cfg) f =
     Some (''spam_dev_penalty'', pen) # rest_rules cfg f"
  by (simp add: rest_rules_def engine_rules_def rules_legacy_def rules_v2_def early_tape_rules_def Let_def
      rule_spam_def rule_ratio_def)

lemma rest_bounds:
  assumes "sc_weights cfg = weights_default" "tf_is_spam_dev f"
  shows "- 22 \<le> sum_list (map snd (fired (rest_rules cfg f))) \<and> sum_list (map snd (fired (rest_rules cfg f))) \<le> 18"
proof -
  have "ships_weights (cfg\<lparr>spam_dev_penalty := - 3\<rparr>)" using assms(1) by (simp add: ships_weights_def)
  from engine_rules_bounded[OF this, of "sc_thresholds cfg" f]
  have "list_all2 bounded_by (rest_rules cfg f) (tl default_bounds)"
    unfolding penalty_rules[OF assms(2)] by (simp add: default_bounds_def)
  from fired_bounds[OF this] show ?thesis by (simp add: default_bounds_def)
qed

lemma penalty_total:
  assumes "sc_weights cfg = weights_default" "tf_is_spam_dev f" "pen \<in> set PENALTIES"
  shows "sb_total (score_penalty cfg pen f) = sum_list (map snd (fired (rest_rules cfg f))) + pen"
proof -
  have "sum_list (map snd (fired (engine_rules (cfg\<lparr>spam_dev_penalty := pen\<rparr>) (sc_thresholds cfg) f))) =
      sum_list (map snd (fired (rest_rules cfg f))) + pen"
    by (simp add: penalty_rules[OF assms(2)])
  moreover have "is_i32 (sum_list (map snd (fired (rest_rules cfg f))) + pen)"
    using rest_bounds[OF assms(1,2)] assms(3) by (auto simp: is_i32_def PENALTIES_def)
  ultimately show ?thesis
    by (simp add: score_penalty_def score_token_items(1) score_token_items(2) wrap_i32_id)
qed

lemma penalty_momentum:
  "tf_is_spam_dev f \<Longrightarrow> has_momentum_good_item (sb_items (score_penalty cfg pen f)) =
     has_momentum_good_item (fired (rest_rules cfg f))"
  by (auto simp: score_penalty_def score_token_items(1) penalty_rules has_momentum_good_item_def)

lemma penalty_tier:
  assumes "tf_is_spam_dev f"
  shows "sb_tier (score_penalty cfg pen f) = plain_tier cfg f (sb_total (score_penalty cfg pen f))"
  using assms by (simp add: score_penalty_def sb_tier_eq tier_b_dev_eligible_def plain_tier_def)

definition no_better :: "cf_outcome \<Rightarrow> cf_outcome \<Rightarrow> bool" where
  "no_better harsh mild \<longleftrightarrow> oc_a_plus harsh \<le> oc_a_plus mild \<and> oc_buy_a_plus harsh \<le> oc_buy_a_plus mild \<and>
     oc_strong_a harsh \<le> oc_strong_a mild \<and> oc_skip mild \<le> oc_skip harsh"

lemma bump_no_better:
  assumes "sc_weights cfg = weights_default" "tf_is_spam_dev (fst c)" "p \<in> set PENALTIES" "q \<in> set PENALTIES" "p \<le> q"
    "no_better a b"
  shows "no_better (bump_candidate cfg p c a) (bump_candidate cfg q c b)"
proof -
  have le: "sb_total (score_penalty cfg p (fst c)) \<le> sb_total (score_penalty cfg q (fst c))"
    using assms(5) by (simp add: penalty_total[OF assms(1,2,3)] penalty_total[OF assms(1,2,4)])
  have m: "has_momentum_good_item (sb_items (score_penalty cfg p (fst c))) =
      has_momentum_good_item (sb_items (score_penalty cfg q (fst c)))"
    by (simp add: penalty_momentum[OF assms(2)])
  show ?thesis
    using le assms(6)
    by (simp add: bump_candidate_def Let_def bump_def m penalty_tier[OF assms(2)] plain_tier_def no_better_def
        split: if_splits)
qed

lemma outcome_row_no_better:
  assumes "sc_weights cfg = weights_default" "\<forall>c \<in> set cs. tf_is_spam_dev (fst c)" "p \<in> set PENALTIES"
    "q \<in> set PENALTIES" "p \<le> q"
  shows "no_better (outcome_row cfg p cs) (outcome_row cfg q cs)"
  using assms(2) unfolding outcome_row_def
  by (induction cs rule: rev_induct) (auto simp: no_better_def[of cf_outcome_default] bump_no_better[OF assms(1) _ assms(3,4,5)])

lemma candidate_is_spam_dev:
  "candidate_features th dev cfg win_slots sm now db mint = Some c \<Longrightarrow> tf_is_spam_dev (fst c)"
  using reconstruct_counts
  by (auto simp: candidate_features_def Let_def split: option.splits if_splits dest!: reconstruct_counts)

text \<open>C40. With the weights the program ships and for the penalties the tool compares: whatever the database,
  the candidates and the bound, a harsher penalty for spam developers never reports more tokens that
  reach A+, more that are bought, or more of the alternative gate, and never fewer that are skipped.\<close>

theorem harsher_penalty_never_helps:
  assumes "sc_weights cfg = weights_default" "p \<in> set PENALTIES" "q \<in> set PENALTIES" "p \<le> q"
  shows "no_better (report_row th dev cfg win_slots sm now db cands bound p)
    (report_row th dev cfg win_slots sm now db cands bound q)"
  unfolding report_row_def
  by (rule outcome_row_no_better[OF assms(1) _ assms(2-4)])
    (use candidate_is_spam_dev in \<open>fastforce simp: List.map_filter_def\<close>)

lemma harsher_penalty_never_helps_witness:
  "\<forall>th dev win_slots sm now db cands bound.
     no_better (report_row th dev scoring_default win_slots sm now db cands bound (- 3))
       (report_row th dev scoring_default win_slots sm now db cands bound 0)"
proof (intro allI)
  fix th dev win_slots sm now db cands bound
  show "no_better (report_row th dev scoring_default win_slots sm now db cands bound (- 3))
      (report_row th dev scoring_default win_slots sm now db cands bound 0)"
    by (rule harsher_penalty_never_helps) (simp_all add: scoring_default_def PENALTIES_def)
qed

end
