(* ===== verification/Dashboard.thy ===== *)
theory Dashboard
  imports Manager Jupiter Chart Machines
begin

text \<open>
  Model of the desktop client (\<^verbatim>\<open>src/dashboard/src/main.rs\<close>, its own crate): the state that it keeps, what an
  event of the network does to it (\<^verbatim>\<open>drain_events\<close>), what the buttons do, the channel of commands to the
  network thread, the requests that thread makes of a command, and the cleaning of a chart. Drawing is
  left out. The messages are those of the manager: the client declares the same ones.
  The statistics of a developer and of a tier, which are only shown, are of the types \<open>'d\<close> and \<open>'t\<close>.
\<close>

text \<open>A precondition of every message of a run that does not look at the state.\<close>

lemma run_ok_all: "list_all P xs \<Longrightarrow> run_ok step (\<lambda>_. P) s xs"
  by (induction xs arbitrary: s) (auto split: sum.split)

section \<open>Charts\<close>

text \<open>The client has copies of the functions of the server.\<close>

definition dash_mcap_valid :: "f64 \<Rightarrow> bool" where
  "dash_mcap_valid mcap \<longleftrightarrow> is_finite mcap \<and> 0 < mcap \<and> mcap \<le> Fin 200000"

definition dash_tape_median :: "f64 list \<Rightarrow> f64 option" where
  "dash_tape_median mcaps =
     (let v = f64_sort (filter dash_mcap_valid mcaps)
      in if v = [] then None else Some (v ! (length v div 2)))"

definition dash_matches_tape :: "f64 \<Rightarrow> f64 option \<Rightarrow> bool" where
  "dash_matches_tape mcap median =
     (if \<not> dash_mcap_valid mcap then False
      else case median of
        None \<Rightarrow> True
      | Some med \<Rightarrow> if med \<le> 0 then True else med * f64_of (2/100) \<le> mcap \<and> mcap \<le> med * Fin 50)"

lemma dash_copies:
  "dash_mcap_valid = chart_mcap_valid" "dash_tape_median = chart_tape_median"
  "dash_matches_tape = chart_mcap_matches_tape"
proof -
  show valid: "dash_mcap_valid = chart_mcap_valid"
    by (intro ext) (simp add: dash_mcap_valid_def chart_mcap_valid_def CHART_MCAP_ABS_MAX_def)
  show "dash_tape_median = chart_tape_median" "dash_matches_tape = chart_mcap_matches_tape"
    by (intro ext; simp add: dash_tape_median_def chart_tape_median_def dash_matches_tape_def
        chart_mcap_matches_tape_def valid)+
qed

text \<open>Linear interpolation; the caller has excluded times outside the points.\<close>

fun interpolate :: "(int \<times> f64) list \<Rightarrow> int \<Rightarrow> f64" where
  "interpolate ((t0, m0) # (t1, m1) # ps) t =
     (if t0 \<le> t \<and> t \<le> t1
      then if t1 = t0 then m0
           else m0 + (m1 - m0) * (int_to_f64 (wrap_i64 (t - t0)) / int_to_f64 (wrap_i64 (t1 - t0)))
      else interpolate ((t1, m1) # ps) t)"
| "interpolate [(t0, m0)] t = m0"
| "interpolate [] t = 0"

definition mcap_at_time :: "(int \<times> f64) list \<Rightarrow> int \<Rightarrow> f64" where
  "mcap_at_time points t =
     (if points = [] then 0
      else if t \<le> fst (hd points) then snd (hd points)
      else if fst (last points) \<le> t then snd (last points)
      else interpolate points t)"

definition dash_window_bounds :: "(int \<times> int) list \<Rightarrow> (int \<times> f64) list \<Rightarrow> int \<times> int" where
  "dash_window_bounds marker_times points =
     (if marker_times \<noteq> []
      then (sat_i64 (Min (set (map fst marker_times)) - 300), wrap_i64 (Max (set (map snd marker_times)) + 120))
      else if points \<noteq> []
      then let lo = fst (hd points); hi = fst (last points); span = sat_i64 (hi - lo)
           in if 180 < span then (sat_i64 (lo - 300), wrap_i64 (lo + 180))
              else (sat_i64 (lo - 300), wrap_i64 (hi + 60))
      else (0, 120))"

definition focus_trade_window :: "chart_response \<Rightarrow> chart_response outcome" where
  "focus_trade_window c =
     (let (lo, hi) = dash_window_bounds (map (\<lambda>m. (mr_entry_at m, mr_closed_at m)) (cr_markers c)) (cr_points c);
          base = (if cr_markers c = [] then lo else Min (set (map mr_entry_at (cr_markers c))));
          points = map (\<lambda>(t, m). (sat_i64 (t - base), m)) (filter (\<lambda>(t, _). lo \<le> t \<and> t \<le> hi) (cr_points c))
      in bind_outcome (each_outcome (shift_marker lo hi base) (cr_markers c)) (\<lambda>markers.
           Inr \<lparr>cr_points = points, cr_markers = markers\<rparr>))"

text \<open>A marker off the band gets the market cap of the tape at its time.\<close>

definition mend_marker :: "f64 option \<Rightarrow> (int \<times> f64) list \<Rightarrow> marker_row \<Rightarrow> marker_row" where
  "mend_marker median series m =
     (let at_entry = mcap_at_time series (mr_entry_at m);
          m = (if \<not> dash_matches_tape (mr_entry_mcap m) median \<and> dash_mcap_valid at_entry
               then m\<lparr>mr_entry_mcap := at_entry\<rparr> else m);
          at_exit = mcap_at_time series (mr_closed_at m)
      in if \<not> dash_matches_tape (mr_exit_mcap m) median \<and> dash_mcap_valid at_exit
         then m\<lparr>mr_exit_mcap := at_exit\<rparr> else m)"

definition keep_marker :: "f64 option \<Rightarrow> marker_row \<Rightarrow> bool" where
  "keep_marker median m \<longleftrightarrow> mr_entry_at m \<le> mr_closed_at m \<and> 0 \<le> mr_entry_at m \<and> 0 \<le> mr_closed_at m \<and>
     dash_matches_tape (mr_entry_mcap m) median \<and> dash_matches_tape (mr_exit_mcap m) median"

definition sanitize_chart :: "chart_response \<Rightarrow> chart_response outcome" where
  "sanitize_chart c =
     (let points = merge_equal_times (sort_key fst (filter (dash_mcap_valid \<circ> snd) (cr_points c)));
          median = dash_tape_median (map snd points);
          points = filter (\<lambda>(_, m). dash_matches_tape m median) points;
          markers = filter (keep_marker median) (map (mend_marker median points) (cr_markers c))
      in focus_trade_window \<lparr>cr_points = points, cr_markers = markers\<rparr>)"

definition plot_y_bounds :: "chart_response \<Rightarrow> f64 \<Rightarrow> f64 \<Rightarrow> f64 \<Rightarrow> (f64 \<times> f64) option" where
  "plot_y_bounds c price_mult x_entry x_exit =
     (let near = (\<lambda>(t, m). dash_mcap_valid m \<and> x_entry - Fin 30 \<le> int_to_f64 t \<and> int_to_f64 t \<le> x_exit + Fin 30);
          ys = map (\<lambda>(_, m). m * price_mult) (filter near (cr_points c))
            @ concat (map (\<lambda>m. (if dash_mcap_valid (mr_entry_mcap m) then [mr_entry_mcap m * price_mult] else [])
                @ (if dash_mcap_valid (mr_exit_mcap m) then [mr_exit_mcap m * price_mult] else [])) (cr_markers c));
          lo = foldl f64_min PInf ys; hi = foldl f64_max NInf ys
      in if ys = [] then None
         else if \<not> is_finite lo \<or> \<not> is_finite hi \<or> hi \<le> lo then None
         else Some (lo, hi))"

section \<open>State\<close>

record dash_wallet =
  dw_id :: string
  dw_label :: string
  dw_enabled :: bool
  dw_pubkey :: string
  dw_balance_sol :: f64
  dw_size_sol :: "f64 option"

record bot_trade_row = bot_trade_entry +
  br_id :: i64

record mode_info =
  mi_mode :: string
  mi_wallet :: string
  mi_balance_sol :: f64

record dash_position =
  dp_wallet_id :: string
  dp_address :: string
  dp_open_reason :: open_reason
  dp_pnl :: f64
  dp_holdings :: f64
  dp_market_cap :: f64
  dp_enter_mcap :: f64
  dp_v3_tape :: "v3_tape_wire option"
  dp_time_kill_tier :: "string option"
  dp_time_kill_after_secs :: "u64 option"

record config_panel =
  cp_open :: bool
  cp_buy_size_remote :: "f64 option"
  cp_buy_size_input :: string
  cp_buy_size_status :: "string option"
  cp_buy_size_saving :: bool
  cp_mode_info :: "mode_info option"
  cp_pending_live_switch :: bool
  cp_confirm_input :: string
  cp_mode_saving :: bool
  cp_mode_status :: "string option"
  cp_restart_required :: bool

record manual_sell_alert =
  ms_mint :: string
  ms_exit_reason :: string
  ms_detail :: string
  ms_holdings :: f64
  ms_ts :: i64

datatype dash_cmd = CmdSetPaused bool | CmdFetchDevStats string | CmdFetchChart string | CmdFetchBuySize
  | CmdSetBuySize f64 | CmdFetchMode | CmdFetchTxLog | CmdFetchBotTrades | CmdFetchStatus
  | CmdRefreshAfterClose | CmdFetchOpenPositions | CmdFetchTierStats | CmdSetMode string bool
  | CmdPutWallets "dash_wallet list"

record ('d, 't) dashboard =
  da_cmds :: "dash_cmd list"
  da_connected :: bool
  da_paused :: bool
  da_balance :: "f64 option"
  da_open :: "string \<Rightarrow> dash_position option"
  da_history :: "bot_trade_row list"
  da_selected_dev :: "(string \<times> 'd option) option"
  da_loading_dev :: "string option"
  da_chart_window :: "(string \<times> chart_response) option"
  da_sol_price :: "f64 option"
  da_pubkey :: "string option"
  da_mode :: "string option"
  da_tx_log :: "string \<Rightarrow> tx_event list option"
  da_config_panel :: config_panel
  da_manual_sell_alert :: "manual_sell_alert option"
  da_wallets :: "dash_wallet list"
  da_wallet_view :: string
  da_wallet_save_status :: "string option"
  da_tier_b_stats :: "'t option"

definition config_panel_new :: config_panel where
  "config_panel_new = \<lparr>cp_open = False, cp_buy_size_remote = None, cp_buy_size_input = [], cp_buy_size_status = None,
     cp_buy_size_saving = False, cp_mode_info = None, cp_pending_live_switch = False, cp_confirm_input = [],
     cp_mode_saving = False, cp_mode_status = None, cp_restart_required = False\<rparr>"

definition dashboard_new :: "('d, 't) dashboard" where
  "dashboard_new = \<lparr>da_cmds = [], da_connected = False, da_paused = False, da_balance = None, da_open = Map.empty,
     da_history = [], da_selected_dev = None, da_loading_dev = None, da_chart_window = None, da_sol_price = None,
     da_pubkey = None, da_mode = None, da_tx_log = Map.empty, da_config_panel = config_panel_new,
     da_manual_sell_alert = None, da_wallets = [], da_wallet_view = ''all'', da_wallet_save_status = None,
     da_tier_b_stats = None\<rparr>"

text \<open>The channel to the network thread holds 128 commands; one more is dropped.\<close>

definition CMD_CHANNEL :: nat where "CMD_CHANNEL = 128"

definition try_cmd :: "dash_cmd \<Rightarrow> ('d, 't) dashboard \<Rightarrow> ('d, 't) dashboard" where
  "try_cmd c d = (if length (da_cmds d) < CMD_CHANNEL then d\<lparr>da_cmds := da_cmds d @ [c]\<rparr> else d)"

definition set_panel :: "(config_panel \<Rightarrow> config_panel) \<Rightarrow> ('d, 't) dashboard \<Rightarrow> ('d, 't) dashboard" where
  "set_panel f d = d\<lparr>da_config_panel := f (da_config_panel d)\<rparr>"

section \<open>What is shown\<close>

definition wallet_matches_view :: "('d, 't) dashboard \<Rightarrow> string \<Rightarrow> bool" where
  "wallet_matches_view d wid \<longleftrightarrow> da_wallet_view d = ''all'' \<or> da_wallet_view d = wid"

definition filtered_history :: "('d, 't) dashboard \<Rightarrow> bot_trade_row list" where
  "filtered_history d = filter (\<lambda>r. wallet_matches_view d (bt_wallet_id r)) (da_history d)"

definition find_wallet :: "('d, 't) dashboard \<Rightarrow> string \<Rightarrow> dash_wallet option" where
  "find_wallet d wid = find (\<lambda>w. dw_id w = wid) (da_wallets d)"

definition wallets_total :: "dash_wallet list \<Rightarrow> f64" where
  "wallets_total ws = foldl (+) 0 (map dw_balance_sol ws)"

definition context_balance_sol :: "('d, 't) dashboard \<Rightarrow> f64 option" where
  "context_balance_sol d =
     (if da_wallets d \<noteq> []
      then if da_wallet_view d = ''all'' then Some (wallets_total (da_wallets d))
           else map_option dw_balance_sol (find_wallet d (da_wallet_view d))
      else da_balance d)"

definition context_realized_pnl_sol :: "('d, 't) dashboard \<Rightarrow> f64" where
  "context_realized_pnl_sol d =
     foldl (+) 0 (map (\<lambda>t. bt_invested_sol t * bt_realized_pnl_pct t / Fin 100) (filtered_history d))"

text \<open>The bar over the history: trades, rate of wins and mean profit in percent.\<close>

definition history_stats :: "('d, 't) dashboard \<Rightarrow> nat \<times> f64 \<times> f64" where
  "history_stats d =
     (let hist = filtered_history d; n = length hist; wins = length (filter (\<lambda>t. 0 < bt_realized_pnl_pct t) hist)
      in (n, if hist = [] then 0 else int_to_f64 (int wins) / int_to_f64 (int n) * Fin 100,
          if hist = [] then 0 else foldl (+) 0 (map bt_realized_pnl_pct hist) / int_to_f64 (int n)))"

definition display_buy_size_sol :: "('d, 't) dashboard \<Rightarrow> f64 option" where
  "display_buy_size_sol d =
     (case (if da_wallet_view d = ''all'' then None else Option.bind (find_wallet d (da_wallet_view d)) dw_size_sol) of
        Some sz \<Rightarrow> Some sz
      | None \<Rightarrow> cp_buy_size_remote (da_config_panel d))"

definition wallet_display_label :: "('d, 't) dashboard \<Rightarrow> string \<Rightarrow> string" where
  "wallet_display_label d wid =
     (case find_wallet d wid of
        None \<Rightarrow> wid
      | Some w \<Rightarrow> if dw_label w = [] then wid else wid @ [CHR 0x20, CHR 0xC2, CHR 0xB7, CHR 0x20] @ dw_label w)"

section \<open>Events\<close>

definition pos_map_key :: "string \<Rightarrow> string \<Rightarrow> string" where
  "pos_map_key mint wid = mint @ '':'' @ wid"

definition clear_manual_sell_for_mint :: "string \<Rightarrow> ('d, 't) dashboard \<Rightarrow> ('d, 't) dashboard" where
  "clear_manual_sell_for_mint mint d =
     (case da_manual_sell_alert d of
        Some a \<Rightarrow> if ms_mint a = mint then d\<lparr>da_manual_sell_alert := None\<rparr> else d
      | None \<Rightarrow> d)"

definition TX_LOG_CAP :: nat where "TX_LOG_CAP = 256"

definition push_tx_log :: "tx_event \<Rightarrow> ('d, 't) dashboard \<Rightarrow> ('d, 't) dashboard" where
  "push_tx_log row d =
     (let q = (case da_tx_log d (tx_wallet_id row) of None \<Rightarrow> [] | Some q \<Rightarrow> q);
          q = (if TX_LOG_CAP \<le> length q then tl q else q)
      in d\<lparr>da_tx_log := (da_tx_log d)(tx_wallet_id row \<mapsto> q @ [row])\<rparr>)"

definition wire_to_position :: "open_position_wire \<Rightarrow> dash_position" where
  "wire_to_position w = \<lparr>dp_wallet_id = ow_wallet_id w, dp_address = ow_address w, dp_open_reason = ow_open_reason w,
     dp_pnl = ow_pnl w, dp_holdings = ow_holdings w, dp_market_cap = ow_market_cap w, dp_enter_mcap = ow_enter_mcap w,
     dp_v3_tape = ow_v3_tape w, dp_time_kill_tier = ow_time_kill_tier w,
     dp_time_kill_after_secs = ow_time_kill_after_secs w\<rparr>"

definition wire_key :: "open_position_wire \<Rightarrow> string" where
  "wire_key w = pos_map_key (ow_address w) (ow_wallet_id w)"

definition apply_open_positions :: "open_position_wire list \<Rightarrow> ('d, 't) dashboard \<Rightarrow> ('d, 't) dashboard" where
  "apply_open_positions rows d =
     (let live = set (map wire_key rows);
          alert = (case da_manual_sell_alert d of
              Some a \<Rightarrow> if \<exists>w \<in> set rows. ow_address w = ms_mint a then Some a else None
            | None \<Rightarrow> None)
      in d\<lparr>da_manual_sell_alert := alert,
           da_open := foldl (\<lambda>open w. open(wire_key w \<mapsto> wire_to_position w)) (da_open d |` live) rows\<rparr>)"

definition update_position :: "f64 \<Rightarrow> f64 \<Rightarrow> f64 \<Rightarrow> string option \<Rightarrow> u64 option \<Rightarrow> dash_position \<Rightarrow> dash_position" where
  "update_position pnl held mcap tk_tier after pos =
     pos\<lparr>dp_pnl := pnl, dp_holdings := held, dp_market_cap := mcap,
       dp_time_kill_tier := (if tk_tier \<noteq> None then tk_tier else dp_time_kill_tier pos),
       dp_time_kill_after_secs := (if after \<noteq> None then after else dp_time_kill_after_secs pos)\<rparr>"

fun set_wallet_balance :: "string \<Rightarrow> f64 \<Rightarrow> dash_wallet list \<Rightarrow> dash_wallet list" where
  "set_wallet_balance wid b [] = []"
| "set_wallet_balance wid b (w # ws) =
     (if dw_id w = wid then w\<lparr>dw_balance_sol := b\<rparr> # ws else w # set_wallet_balance wid b ws)"

fun apply_msg :: "ws_feed_message \<Rightarrow> ('d, 't) dashboard \<Rightarrow> ('d, 't) dashboard" where
  "apply_msg (PositionOpen address wid why mcap v3) d =
     d\<lparr>da_open := (da_open d)(pos_map_key address wid \<mapsto>
       \<lparr>dp_wallet_id = wid, dp_address = address, dp_open_reason = why, dp_pnl = 0, dp_holdings = 0,
        dp_market_cap = 0, dp_enter_mcap = mcap, dp_v3_tape = v3, dp_time_kill_tier = None,
        dp_time_kill_after_secs = None\<rparr>)\<rparr>"
| "apply_msg (PositionUpdate address wid pnl held mcap tk_tier after) d =
     (case da_open d (pos_map_key address wid) of
        None \<Rightarrow> d
      | Some pos \<Rightarrow> d\<lparr>da_open := (da_open d)(pos_map_key address wid \<mapsto> update_position pnl held mcap tk_tier after pos)\<rparr>)"
| "apply_msg (PositionClose address wid why) d =
     (let d = clear_manual_sell_for_mint address d
      in try_cmd CmdRefreshAfterClose (d\<lparr>da_open := (da_open d)(pos_map_key address wid := None)\<rparr>))"
| "apply_msg (BalanceUpdate b) d = d\<lparr>da_balance := Some b\<rparr>"
| "apply_msg (WalletBalanceUpdate wid b) d =
     (let ws = set_wallet_balance wid b (da_wallets d)
      in d\<lparr>da_wallets := ws, da_balance := Some (wallets_total ws)\<rparr>)"
| "apply_msg (PausedState p) d = d\<lparr>da_paused := p\<rparr>"
| "apply_msg (ManualSellRequired wid mint exit_reason detail held ts) d =
     d\<lparr>da_manual_sell_alert := Some \<lparr>ms_mint = mint, ms_exit_reason = exit_reason, ms_detail = detail,
       ms_holdings = held, ms_ts = ts\<rparr>\<rparr>"
| "apply_msg (TxEvent tx) d =
     (let d = (if tx_kind tx = TxSell \<and> (tx_status tx = ''confirmed'' \<or> tx_status tx = ''sent'')
               then clear_manual_sell_for_mint (tx_mint tx) d else d);
          d = push_tx_log tx d
      in if tx_kind tx = TxSell \<and> tx_status tx = ''confirmed'' then try_cmd CmdRefreshAfterClose d else d)"

definition check_mark :: string where "check_mark = [CHR 0xE2, CHR 0x9C, CHR 0x93, CHR 0x20]"
definition cross_mark :: string where "cross_mark = [CHR 0xE2, CHR 0x9C, CHR 0x97, CHR 0x20]"
definition long_dash :: string where "long_dash = [CHR 0xE2, CHR 0x80, CHR 0x94]"

definition mode_saved_text :: "string \<Rightarrow> bool \<Rightarrow> string" where
  "mode_saved_text mode restart = check_mark @ ''saved (mode='' @ mode @ '')  '' @ long_dash @ '' ''
     @ (if restart then ''restart bot to activate'' else ''no change'')"

definition on_loaded :: "f64 \<Rightarrow> config_panel \<Rightarrow> config_panel" where
  "on_loaded sol p =
     (let p = p\<lparr>cp_buy_size_remote := Some sol\<rparr>
      in if cp_buy_size_input p = [] then p\<lparr>cp_buy_size_input := fmt_prec 4 sol\<rparr> else p)"

definition on_save_ok :: "f64 \<Rightarrow> config_panel \<Rightarrow> config_panel" where
  "on_save_ok sol p = p\<lparr>cp_buy_size_saving := False, cp_buy_size_remote := Some sol,
     cp_buy_size_status := Some (check_mark @ ''Saved'')\<rparr>"

definition on_save_err :: "string \<Rightarrow> config_panel \<Rightarrow> config_panel" where
  "on_save_err msg p = p\<lparr>cp_buy_size_saving := False, cp_buy_size_status := Some (cross_mark @ msg)\<rparr>"

datatype ('d, 't) app_event = Connected | Disconnected | Msg ws_feed_message | BotTrades "bot_trade_row list"
  | Status bool "string option" | DevStatsLoaded string "'d option" | ChartLoaded string "chart_response option"
  | SolPrice f64 | Pubkey string | BuySize f64 | BuySizeSetOk | BuySizeSetErr string | ModeLoaded mode_info
  | TxLog "tx_event list" | ModeSetOk string bool | ModeSetErr string | OpenPositions "open_position_wire list"
  | WalletsLoaded "dash_wallet list" | WalletsSaveOk | WalletsSaveErr string | TierStats 't

fun apply_event :: "('d, 't) app_event \<Rightarrow> ('d, 't) dashboard \<Rightarrow> ('d, 't) dashboard outcome" where
  "apply_event Connected d = Inr (d\<lparr>da_connected := True\<rparr>)"
| "apply_event Disconnected d = Inr (d\<lparr>da_connected := False\<rparr>)"
| "apply_event (BotTrades rows) d = Inr (d\<lparr>da_history := rows\<rparr>)"
| "apply_event (Status p m) d =
     Inr (d\<lparr>da_paused := p, da_mode := (case m of Some _ \<Rightarrow> m | None \<Rightarrow> da_mode d)\<rparr>)"
| "apply_event (ModeLoaded info) d =
     Inr (set_panel (\<lambda>p. p\<lparr>cp_mode_info := Some info\<rparr>) (d\<lparr>da_mode := Some (mi_mode info)\<rparr>))"
| "apply_event (TxLog rows) d = Inr (foldl (\<lambda>d r. push_tx_log r d) (d\<lparr>da_tx_log := Map.empty\<rparr>) rows)"
| "apply_event (ModeSetOk mode restart) d =
     Inr (set_panel (\<lambda>p. p\<lparr>cp_mode_saving := False, cp_pending_live_switch := False, cp_confirm_input := [],
       cp_restart_required := restart, cp_mode_status := Some (mode_saved_text mode restart)\<rparr>) d)"
| "apply_event (ModeSetErr msg) d =
     Inr (set_panel (\<lambda>p. p\<lparr>cp_mode_saving := False, cp_mode_status := Some (cross_mark @ msg)\<rparr>) d)"
| "apply_event (SolPrice x) d = Inr (d\<lparr>da_sol_price := Some x\<rparr>)"
| "apply_event (Pubkey k) d = Inr (d\<lparr>da_pubkey := Some k\<rparr>)"
| "apply_event (BuySize sol) d = Inr (set_panel (on_loaded sol) d)"
| "apply_event BuySizeSetOk d =
     Inr (set_panel (\<lambda>p. on_save_ok (case parse_f64 (cp_buy_size_input p) of Some v \<Rightarrow> v | None \<Rightarrow> 0) p) d)"
| "apply_event (BuySizeSetErr msg) d = Inr (set_panel (on_save_err msg) d)"
| "apply_event (DevStatsLoaded mint stats) d =
     Inr (d\<lparr>da_loading_dev := (if da_loading_dev d = Some mint then None else da_loading_dev d),
       da_selected_dev := Some (mint, stats)\<rparr>)"
| "apply_event (ChartLoaded mint data) d =
     (case data of
        None \<Rightarrow> Inr d
      | Some c \<Rightarrow> bind_outcome (sanitize_chart c) (\<lambda>c. Inr (d\<lparr>da_chart_window := Some (mint, c)\<rparr>)))"
| "apply_event (WalletsLoaded ws) d = Inr (d\<lparr>da_wallets := ws\<rparr>)"
| "apply_event WalletsSaveOk d = Inr (d\<lparr>da_wallet_save_status := Some (check_mark @ ''Wallets saved'')\<rparr>)"
| "apply_event (WalletsSaveErr msg) d = Inr (d\<lparr>da_wallet_save_status := Some (cross_mark @ msg)\<rparr>)"
| "apply_event (TierStats s) d = Inr (d\<lparr>da_tier_b_stats := Some s\<rparr>)"
| "apply_event (OpenPositions rows) d = Inr (apply_open_positions rows d)"
| "apply_event (Msg m) d = Inr (apply_msg m d)"

section \<open>Buttons\<close>

definition current_mode :: "('d, 't) dashboard \<Rightarrow> string" where
  "current_mode d =
     (case cp_mode_info (da_config_panel d) of
        Some info \<Rightarrow> mi_mode info
      | None \<Rightarrow> (case da_mode d of Some m \<Rightarrow> m | None \<Rightarrow> ''unknown''))"

text \<open>What the user does. A button that is not shown or not enabled does nothing.\<close>

datatype user_action = TypeConfirm string | ClickConfirmLive | ClickCancel | ClickSwitchDemo | ClickSwitchLive
  | TypeBuySize string | ClickSaveBuySize | ClickReload
  | ToggleWallet nat bool | EditWalletSize nat string | ClickRefreshWallets
  | ToggleConfig | CloseConfig | ClickPause | ChooseView string | ClickDismiss
  | ClickChart string | ClickDevStats | CloseChart | CloseDevStats

definition start_mode_switch :: "string \<Rightarrow> bool \<Rightarrow> ('d, 't) dashboard \<Rightarrow> ('d, 't) dashboard" where
  "start_mode_switch mode confirm d =
     try_cmd (CmdSetMode mode confirm) (set_panel (\<lambda>p. p\<lparr>cp_mode_saving := True, cp_mode_status := None\<rparr>) d)"

text \<open>The block of the execution mode: while a switch to live mode is pending, only its confirmation is shown.\<close>

definition mode_block_act :: "user_action \<Rightarrow> ('d, 't) dashboard \<Rightarrow> ('d, 't) dashboard" where
  "mode_block_act a d =
     (let p = da_config_panel d; armed = (cp_confirm_input p = ''LIVE'' \<and> \<not> cp_mode_saving p) in
      if cp_pending_live_switch p
      then (case a of
          TypeConfirm s \<Rightarrow> set_panel (\<lambda>p. p\<lparr>cp_confirm_input := s\<rparr>) d
        | ClickConfirmLive \<Rightarrow> if armed then start_mode_switch ''live'' True d else d
        | ClickCancel \<Rightarrow> set_panel (\<lambda>p. p\<lparr>cp_pending_live_switch := False, cp_confirm_input := []\<rparr>) d
        | _ \<Rightarrow> d)
      else (case a of
          ClickSwitchDemo \<Rightarrow>
            if current_mode d \<noteq> ''demo'' \<and> \<not> cp_mode_saving p then start_mode_switch ''demo'' False d else d
        | ClickSwitchLive \<Rightarrow>
            if current_mode d \<noteq> ''live'' \<and> \<not> cp_mode_saving p
            then set_panel (\<lambda>p. p\<lparr>cp_pending_live_switch := True, cp_confirm_input := [], cp_mode_status := None\<rparr>) d
            else d
        | _ \<Rightarrow> d))"

text \<open>The block of the buy size.\<close>

definition typed_buy_size :: "config_panel \<Rightarrow> f64 option" where
  "typed_buy_size p =
     (case parse_f64 (cp_buy_size_input p) of Some v \<Rightarrow> if 0 < v then Some v else None | None \<Rightarrow> None)"

definition can_save_buy_size :: "config_panel \<Rightarrow> bool" where
  "can_save_buy_size p \<longleftrightarrow> \<not> cp_buy_size_saving p \<and>
     (case typed_buy_size p of
        None \<Rightarrow> False
      | Some a \<Rightarrow> (case cp_buy_size_remote p of None \<Rightarrow> True | Some b \<Rightarrow> f64_of (1 / 10 ^ 9) < \<bar>a - b\<bar>))"

definition buy_size_act :: "user_action \<Rightarrow> ('d, 't) dashboard \<Rightarrow> ('d, 't) dashboard" where
  "buy_size_act a d =
     (case a of
        TypeBuySize s \<Rightarrow> set_panel (\<lambda>p. p\<lparr>cp_buy_size_input := s\<rparr>) d
      | ClickSaveBuySize \<Rightarrow>
          (case typed_buy_size (da_config_panel d) of
             Some v \<Rightarrow>
               if can_save_buy_size (da_config_panel d)
               then try_cmd (CmdSetBuySize v)
                      (set_panel (\<lambda>p. p\<lparr>cp_buy_size_saving := True, cp_buy_size_status := None\<rparr>) d)
               else d
           | None \<Rightarrow> d)
      | ClickReload \<Rightarrow>
          try_cmd CmdFetchBuySize (set_panel (\<lambda>p. p\<lparr>cp_buy_size_status := None, cp_buy_size_input := []\<rparr>) d)
      | _ \<Rightarrow> d)"

text \<open>The block of the wallets: every change of a field sends all of them.\<close>

definition edit_wallet :: "nat \<Rightarrow> (dash_wallet \<Rightarrow> dash_wallet) \<Rightarrow> ('d, 't) dashboard \<Rightarrow> ('d, 't) dashboard" where
  "edit_wallet i f d =
     (if i < length (da_wallets d)
      then let ws = (da_wallets d)[i := f (da_wallets d ! i)]
           in try_cmd (CmdPutWallets ws) (d\<lparr>da_wallets := ws\<rparr>)
      else d)"

definition wallets_block_act :: "user_action \<Rightarrow> ('d, 't) dashboard \<Rightarrow> ('d, 't) dashboard" where
  "wallets_block_act a d =
     (case a of
        ToggleWallet i on \<Rightarrow> edit_wallet i (\<lambda>w. w\<lparr>dw_enabled := on\<rparr>) d
      | EditWalletSize i s \<Rightarrow>
          edit_wallet i (\<lambda>w. w\<lparr>dw_size_sol := (if trim s = [] then None else parse_f64 (trim s))\<rparr>) d
      | ClickRefreshWallets \<Rightarrow> if da_wallets d = [] then d else try_cmd CmdFetchStatus d
      | _ \<Rightarrow> d)"

text \<open>The top bar, the list of the history and the two windows.\<close>

definition top_bar_act :: "user_action \<Rightarrow> ('d, 't) dashboard \<Rightarrow> ('d, 't) dashboard" where
  "top_bar_act a d =
     (case a of
        ToggleConfig \<Rightarrow>
          if cp_open (da_config_panel d) then set_panel (\<lambda>p. p\<lparr>cp_open := False\<rparr>) d
          else try_cmd CmdFetchBuySize (set_panel (\<lambda>p. p\<lparr>cp_open := True, cp_buy_size_status := None\<rparr>) d)
      | ClickPause \<Rightarrow> try_cmd (CmdSetPaused (\<not> da_paused d)) (d\<lparr>da_paused := \<not> da_paused d\<rparr>)
      | ChooseView v \<Rightarrow> if v = ''all'' \<or> v \<in> dw_id ` set (da_wallets d) then d\<lparr>da_wallet_view := v\<rparr> else d
      | ClickDismiss \<Rightarrow> d\<lparr>da_manual_sell_alert := None\<rparr>
      | _ \<Rightarrow> d)"

definition window_act :: "user_action \<Rightarrow> ('d, 't) dashboard \<Rightarrow> ('d, 't) dashboard" where
  "window_act a d =
     (case a of
        ClickChart mint \<Rightarrow> if mint \<in> bt_mint ` set (filtered_history d) then try_cmd (CmdFetchChart mint) d else d
      | ClickDevStats \<Rightarrow>
          (case da_chart_window d of
             Some (mint, _) \<Rightarrow> try_cmd (CmdFetchDevStats mint) (d\<lparr>da_loading_dev := Some mint\<rparr>)
           | None \<Rightarrow> d)
      | CloseChart \<Rightarrow> d\<lparr>da_chart_window := None\<rparr>
      | CloseDevStats \<Rightarrow> d\<lparr>da_selected_dev := None\<rparr>
      | _ \<Rightarrow> d)"

fun user_act :: "user_action \<Rightarrow> ('d, 't) dashboard \<Rightarrow> ('d, 't) dashboard" where
  "user_act ToggleConfig d = top_bar_act ToggleConfig d"
| "user_act ClickPause d = top_bar_act ClickPause d"
| "user_act (ChooseView v) d = top_bar_act (ChooseView v) d"
| "user_act ClickDismiss d = top_bar_act ClickDismiss d"
| "user_act (ClickChart mint) d = window_act (ClickChart mint) d"
| "user_act ClickDevStats d = window_act ClickDevStats d"
| "user_act CloseChart d = window_act CloseChart d"
| "user_act CloseDevStats d = window_act CloseDevStats d"
| "user_act CloseConfig d = set_panel (\<lambda>p. p\<lparr>cp_open := False\<rparr>) d"
| "user_act a d =
     (if cp_open (da_config_panel d) then wallets_block_act a (mode_block_act a (buy_size_act a d)) else d)"

lemmas act_defs = top_bar_act_def window_act_def buy_size_act_def mode_block_act_def wallets_block_act_def
  edit_wallet_def start_mode_switch_def

text \<open>The poll every fifteen seconds.\<close>

definition poll_commands :: "dash_cmd list" where
  "poll_commands = [CmdFetchMode, CmdFetchTxLog, CmdFetchBotTrades, CmdFetchStatus, CmdFetchOpenPositions, CmdFetchTierStats]"

definition http_poll :: "('d, 't) dashboard \<Rightarrow> ('d, 't) dashboard" where
  "http_poll d = foldl (\<lambda>d c. try_cmd c d) d poll_commands"

section \<open>The network thread\<close>

text \<open>The report on a text that does not parse cuts it at byte 200: the thread panics inside a character.\<close>

definition unparsed_text :: "string \<Rightarrow> string outcome" where
  "unparsed_text s = (let n = min (length s) 200 in if char_boundary s n then Inr (take n s) else Inl CharBoundary)"

text \<open>The events of an answer to \<^verbatim>\<open>GET /status\<close>.\<close>

definition status_events :: "bool \<Rightarrow> f64 \<Rightarrow> f64 option \<Rightarrow> string option \<Rightarrow> string option \<Rightarrow> dash_wallet list
    \<Rightarrow> ('d, 't) app_event list" where
  "status_events pause balance total_balance mode wallet ws =
     [Status pause mode] @ (case wallet of Some pk \<Rightarrow> [Pubkey pk] | None \<Rightarrow> [])
     @ (if ws \<noteq> [] then [WalletsLoaded ws] else [])
     @ [Msg (BalanceUpdate (case total_balance of Some b \<Rightarrow> b | None \<Rightarrow> balance))]"

text \<open>The log of the server is sent as messages, of which the transactions are kept.\<close>

definition tx_rows :: "ws_feed_message list \<Rightarrow> tx_event list" where
  "tx_rows ms = List.map_filter (\<lambda>m. case m of TxEvent tx \<Rightarrow> Some tx | _ \<Rightarrow> None) ms"

text \<open>
  The fetches of the history: each has a number, and its answer counts only while no later one has started.
\<close>

record history_net =
  hn_gen :: nat
  hn_running :: "nat list"
  hn_sent :: "(nat \<times> bot_trade_row list) list"

definition history_net_new :: history_net where
  "history_net_new = \<lparr>hn_gen = 0, hn_running = [], hn_sent = []\<rparr>"

datatype history_step = StartFetch | FetchAnswer nat "bot_trade_row list option"

definition history_net_step :: "history_net \<Rightarrow> history_step \<Rightarrow> history_net" where
  "history_net_step s e =
     (case e of
        StartFetch \<Rightarrow> s\<lparr>hn_gen := hn_gen s + 1, hn_running := hn_running s @ [hn_gen s + 1]\<rparr>
      | FetchAnswer g rows \<Rightarrow>
          if g \<notin> set (hn_running s) then s
          else let s = s\<lparr>hn_running := remove1 g (hn_running s)\<rparr>
               in if hn_gen s \<noteq> g then s
                  else (case rows of Some r \<Rightarrow> s\<lparr>hn_sent := hn_sent s @ [(g, r)]\<rparr> | None \<Rightarrow> s))"

end
