(* ===== verification/Dashboard_Follow.thy ===== *)
theory Dashboard_Follow
  imports Dashboard Manager_Buys
begin

text \<open>
  The desktop client beside the position manager: the cards of open positions that the client shows are
  the positions of the manager, when the messages of the manager arrive in order and none is lost. The
  contract is a refinement: the table of the manager, read as cards, and the cards of the client make the
  same steps. A snapshot of the positions restores the cards from any state of the client, so one that
  comes late restores the past.
\<close>

section \<open>Cards\<close>

text \<open>What a card keeps of a position: wallet, mint, the reason and the market cap of the entry.\<close>

type_synonym card = "string \<times> string \<times> open_reason option \<times> f64"

definition card_of :: "dash_position \<Rightarrow> card" where
  "card_of p = (dp_wallet_id p, dp_address p, Some (dp_open_reason p), dp_enter_mcap p)"

definition dash_cards :: "('d, 't) dashboard \<Rightarrow> string \<Rightarrow> card option" where
  "dash_cards d k = map_option card_of (da_open d k)"

definition card_key :: "(address \<Rightarrow> string) \<Rightarrow> position_key \<Rightarrow> string" where
  "card_key str k = pos_map_key (str (fst k)) (snd k)"

definition position_card :: "(address \<Rightarrow> string) \<Rightarrow> position_key \<Rightarrow> open_reason option \<times> amount \<Rightarrow> card" where
  "position_card str k f = (snd k, str (fst k), fst f, amount_to_float (snd f))"

text \<open>The part of a position that its card shows.\<close>

definition face :: "position \<Rightarrow> open_reason option \<times> amount" where
  "face p = (pos_open_reason p, enter_mcap p)"

definition faces :: "position_table \<Rightarrow> (position_key \<times> open_reason option \<times> amount) list" where
  "faces ps = map (\<lambda>(k, p). (k, face p)) ps"

definition carded :: "(address \<Rightarrow> string) \<Rightarrow> (position_key \<times> open_reason option \<times> amount) list \<Rightarrow> (string \<times> card) list" where
  "carded str fs = map (\<lambda>(k, f). (card_key str k, position_card str k f)) fs"

definition manager_cards :: "(address \<Rightarrow> string) \<Rightarrow> manager \<Rightarrow> string \<Rightarrow> card option" where
  "manager_cards str m = map_of (carded str (faces (positions m)))"

text \<open>Keys of different positions differ: a colon separates a mint, which has none, from the wallet.\<close>

definition plain_names :: "(address \<Rightarrow> string) \<Rightarrow> bool" where
  "plain_names str \<longleftrightarrow> inj str \<and> (\<forall>a. CHR '':'' \<notin> set (str a))"

lemma colon_splits:
  assumes "xs @ c # ys = xs' @ c # ys'" "c \<notin> set xs" "c \<notin> set xs'" shows "xs = xs' \<and> ys = ys'"
  using assms by (induction xs arbitrary: xs') (case_tac xs'; auto)+

lemma card_key_inj: "plain_names str \<Longrightarrow> inj (card_key str)"
  by (auto simp: plain_names_def inj_def card_key_def pos_map_key_def dest!: colon_splits)

section \<open>The table as a map of cards\<close>

lemma fst_faces [simp]: "map fst (faces ps) = map fst ps"
  by (simp add: faces_def comp_def case_prod_unfold)

lemma faces_simps [simp]: "faces [] = []" "faces ((k, p) # ps) = (k, face p) # faces ps"
  by (simp_all add: faces_def)

lemma carded_simps [simp]: "carded str [] = []"
  "carded str ((k, f) # fs) = (card_key str k, position_card str k f) # carded str fs"
  by (simp_all add: carded_def)

lemma faces_update: "faces (AList.update k p ps) = AList.update k (face p) (faces ps)"
  by (induction ps) auto

lemma faces_delete: "faces (AList.delete k ps) = AList.delete k (faces ps)"
  by (induction ps) (auto simp: AList.delete_eq)

lemma carded_update: "inj (card_key str) \<Longrightarrow>
    map_of (carded str (AList.update k f fs)) = (map_of (carded str fs))(card_key str k \<mapsto> position_card str k f)"
  by (induction fs) (auto simp: fun_eq_iff dest: injD)

lemma carded_lookup: "inj (card_key str) \<Longrightarrow>
    map_of (carded str fs) (card_key str k) = map_option (position_card str k) (map_of fs k)"
  by (induction fs) (auto simp: inj_eq)

lemma map_of_filter_keys: "map_of (filter (\<lambda>(k, f). \<not> P k) fs) k = (if P k then None else map_of fs k)"
  by (induction fs) auto

lemma carded_outside: "s \<notin> range (card_key str) \<Longrightarrow> map_of (carded str fs) s = None"
  by (induction fs) auto

lemma carded_filter:
  assumes "inj (card_key str)"
  shows "map_of (carded str (filter (\<lambda>(k, f). \<not> P k) fs)) s =
    (if s \<in> card_key str ` {k \<in> set (map fst fs). P k} then None else map_of (carded str fs) s)"
proof (cases "s \<in> range (card_key str)")
  case True
  then obtain k where s: "s = card_key str k" by blast
  have none: "k \<notin> set (map fst fs) \<Longrightarrow> map_of fs k = None" by (simp add: map_of_eq_None_iff)
  show ?thesis
    unfolding s inj_image_mem_iff[OF assms] carded_lookup[OF assms] map_of_filter_keys using none by auto
next
  case False
  then show ?thesis by (auto simp: carded_outside)
qed

lemma carded_delete: "inj (card_key str) \<Longrightarrow>
    map_of (carded str (AList.delete k fs)) = (map_of (carded str fs))(card_key str k := None)"
  by (induction fs) (auto simp: fun_eq_iff inj_eq AList.delete_eq)

lemma faces_lookup: "map_of (faces ps) k = map_option face (map_of ps k)"
  by (induction ps) auto

lemma manager_cards_cong: "faces (positions m') = faces (positions m) \<Longrightarrow> manager_cards str m' = manager_cards str m"
  by (simp add: manager_cards_def)

section \<open>Messages as steps of the cards\<close>

fun card_step :: "Manager.effect \<Rightarrow> (string \<Rightarrow> card option) \<Rightarrow> string \<Rightarrow> card option" where
  "card_step (Feed (PositionOpen address wid why mcap v3)) c = c(pos_map_key address wid \<mapsto> (wid, address, Some why, mcap))"
| "card_step (Feed (PositionClose address wid why)) c = c(pos_map_key address wid := None)"
| "card_step _ c = c"

definition cards_after :: "Manager.effect list \<Rightarrow> (string \<Rightarrow> card option) \<Rightarrow> string \<Rightarrow> card option" where
  "cards_after es c = foldl (\<lambda>c e. card_step e c) c es"

lemma cards_after_simps [simp]: "cards_after [] c = c" "cards_after (e # es) c = cards_after es (card_step e c)"
  "cards_after (es @ es') c = cards_after es' (cards_after es c)"
  by (simp_all add: cards_after_def)

text \<open>Effects that neither open nor close a card.\<close>

fun moves :: "Manager.effect \<Rightarrow> bool" where
  "moves (Feed (PositionOpen address wid why mcap v3)) = True"
| "moves (Feed (PositionClose address wid why)) = True"
| "moves _ = False"

definition quiet :: "Manager.effect list \<Rightarrow> bool" where
  "quiet es \<longleftrightarrow> list_all (\<lambda>e. \<not> moves e) es"

lemma quiet_simps [simp]: "quiet []" "quiet (xs @ ys) \<longleftrightarrow> quiet xs \<and> quiet ys"
  "quiet (x # xs) \<longleftrightarrow> \<not> moves x \<and> quiet xs"
  by (simp_all add: quiet_def)

lemma step_quiet: "\<not> moves e \<Longrightarrow> card_step e c = c"
  by (cases "(e, c)" rule: card_step.cases) simp_all

lemma cards_after_quiet: "quiet es \<Longrightarrow> cards_after es c = c"
  by (induction es arbitrary: c) (simp_all add: step_quiet)

text \<open>The client makes the same steps.\<close>

definition show_feed :: "Manager.effect list \<Rightarrow> ('d, 't) dashboard \<Rightarrow> ('d, 't) dashboard" where
  "show_feed es d = foldl (\<lambda>d e. case e of Feed msg \<Rightarrow> apply_msg msg d | _ \<Rightarrow> d) d es"

lemma da_open_frame [simp]: "da_open (try_cmd c d) = da_open d" "da_open (push_tx_log tx d) = da_open d"
  "da_open (clear_manual_sell_for_mint mint d) = da_open d" "da_open (set_panel f d) = da_open d"
  by (simp_all add: try_cmd_def push_tx_log_def Let_def clear_manual_sell_for_mint_def set_panel_def
      split: option.split)

lemma card_of_update [simp]: "card_of (update_position pnl held mcap tk after p) = card_of p"
  by (simp add: card_of_def update_position_def)

lemma dash_cards_msg: "dash_cards (apply_msg msg d) = card_step (Feed msg) (dash_cards d)"
  by (cases msg) (auto simp: dash_cards_def card_of_def update_position_def fun_eq_iff Let_def split: option.split)

lemma show_feed_cards: "dash_cards (show_feed es d) = cards_after es (dash_cards d)"
proof (induction es arbitrary: d)
  case (Cons e es)
  have "dash_cards (case e of Feed msg \<Rightarrow> apply_msg msg d | _ \<Rightarrow> d) = card_step e (dash_cards d)"
    by (cases e) (simp_all add: dash_cards_msg)
  then show ?case using Cons by (simp add: show_feed_def)
qed (simp add: show_feed_def)

section \<open>Every handler of the manager makes the steps it announces\<close>

definition tracks :: "(address \<Rightarrow> string) \<Rightarrow> manager \<Rightarrow> manager \<Rightarrow> Manager.effect list \<Rightarrow> bool" where
  "tracks str m m' es \<longleftrightarrow> manager_cards str m' = cards_after es (manager_cards str m) \<and>
     (distinct (map fst (positions m)) \<longrightarrow> distinct (map fst (positions m')))"

lemma tracks_faces:
  assumes "faces (positions m') = faces (positions m)" "quiet es" shows "tracks str m m' es"
proof -
  have "map fst (positions m') = map fst (positions m)" using assms(1) fst_faces by metis
  then show ?thesis unfolding tracks_def manager_cards_def cards_after_quiet[OF assms(2)] assms(1) by metis
qed

lemma tracks_same: "positions m' = positions m \<Longrightarrow> quiet es \<Longrightarrow> tracks str m m' es"
  by (rule tracks_faces) simp_all

lemma tracks_comp: "tracks str m m1 es \<Longrightarrow> tracks str m1 m' es' \<Longrightarrow> tracks str m m' (es @ es')"
  by (simp add: tracks_def)

lemma balance_feed_quiet [simp]: "quiet (balance_feed m)"
  by (auto simp: quiet_def balance_feed_def list_all_iff)

lemma refresh_quiet: "refresh_balance env wid m = (m', es) \<Longrightarrow> quiet es"
  by (auto dest!: refresh_balance_cases)

lemma small_effects_quiet [simp]:
  "quiet (spawn_live_snapshot_refresh mint m)" "quiet (fanout delay order ws mint)"
  "quiet (blacklist_entry env m mint pos why a b)" "quiet (ranker_effects m pos b)"
  "quiet (learning_effects env m pos q b why)" "\<not> moves (sell_event env m k sig a est st why q x)"
  by (auto simp: quiet_def list_all_iff spawn_live_snapshot_refresh_def fanout_def blacklist_entry_def
      ranker_effects_def learning_effects_def sell_event_def split: option.splits)

lemma face_pool [simp]: "face (p\<lparr>pos_pool := q\<rparr>) = face p"
  by (simp add: face_def)

lemma repool_faces: "faces (positions (update_positions_pool_for_mint mint q m)) = faces (positions m)"
  by (auto simp: update_positions_pool_for_mint_def faces_def)

lemma on_mint_faces:
  assumes "on_mint mint f m = Inr m'" and f: "\<And>p p'. f p = Inr p' \<Longrightarrow> face p' = face p"
  shows "faces (positions m') = faces (positions m)"
proof -
  let ?g = "\<lambda>(k :: position_key, p). if fst k = mint then bind_outcome (f p) (\<lambda>p'. Inr (k, p')) else Inr (k, p)"
  obtain ps where ps: "map_outcome ?g (positions m) = Inr ps" "positions m' = ps"
    using assms(1) by (auto simp: on_mint_def bind_outcome_Inr_iff)
  have "list_all2 (\<lambda>x y. ?g x = Inr y) xs ys \<Longrightarrow> faces ys = faces xs" for xs ys
    by (induction rule: list_all2_induct) (auto simp: bind_outcome_Inr_iff f split: if_splits)
  from this[OF map_outcome_all2[OF ps(1)]] show ?thesis by (simp add: ps(2))
qed

lemma apply_exit_mcap_face: "apply_exit_mcap mcap uj p = Inr p' \<Longrightarrow> face p' = face p"
  by (auto simp: apply_exit_mcap_def face_def bind_outcome_Inr_iff Let_def split: if_splits)

lemma apply_live_face: "apply_live_snapshot cfg t live p = Inr p' \<Longrightarrow> face p' = face p"
  by (clarsimp simp: apply_live_snapshot_def face_def bind_outcome_Inr_iff Let_def case_prod_unfold)

lemma open_position_reason: "open_position cfg t bo p r = Inr pos \<Longrightarrow> pos_open_reason pos = Some (bo_reason bo)"
  by (auto simp: open_position_def bind_outcome_Inr_iff Let_def push_exit_mcap_tick_def)

lemma buy_opened_tracks:
  assumes "plain_names (env_str env)" "buy_opened env bo p v3 r m = Inr (m', es)"
  shows "tracks (env_str env) m m' es"
proof -
  let ?k = "(bo_mint bo, bo_wallet bo)"
  obtain pos where pos: "open_position (config m) (env_now env) bo p r = Inr pos"
    using assms(2) by (auto simp: buy_opened_def bind_outcome_Inr_iff Let_def)
  define m1 where "m1 = m\<lparr>positions := AList.update ?k pos (positions m)\<rparr>"
  obtain m2 bal where rb: "(if registry_get (wallets m1) (bo_wallet bo) \<noteq> None
      then refresh_balance env (bo_wallet bo) m1 else broadcast_wallet_balances m1) = (m2, bal)" by fastforce
  then have m2: "positions m2 = AList.update ?k pos (positions m)" "quiet bal"
    using refresh_balance_fields(1)[of env "bo_wallet bo" m1 m2 bal] refresh_quiet[of env "bo_wallet bo" m1 m2 bal]
    by (auto simp: m1_def broadcast_wallet_balances_def sync_combined_balance_def split: if_splits)
  obtain live where res: "m' = m2" "quiet live" "es = live @ bal @ [Feed (PositionOpen (env_str env (bo_mint bo))
      (bo_wallet bo) (bo_reason bo) (amount_to_float (enter_mcap pos)) v3)]"
    using assms(2) pos rb[unfolded m1_def] by (fastforce simp: buy_opened_def Let_def)
  then show ?thesis
    by (simp add: tracks_def manager_cards_def m2 faces_update carded_update[OF card_key_inj[OF assms(1)]]
        cards_after_quiet card_key_def position_card_def face_def open_position_reason[OF pos] distinct_update)
qed

lemma abort_quiet: "abort_buy_after_fill_mcap_spike env bo r p spike m = Inr (aborted, m', es) \<Longrightarrow> quiet es"
  by (auto simp: abort_buy_after_fill_mcap_spike_def Let_def bind_outcome_Inr_iff
      split: if_splits sum.splits prod.splits dest!: refresh_quiet)

lemma apply_buy_result_tracks:
  assumes "plain_names (env_str env)" "apply_buy_result env bo p mode v3 res m = Inr (m', es)"
  shows "tracks (env_str env) m m' es"
proof (cases res)
  case (Inl e)
  then show ?thesis using assms(2)
    by (auto intro!: tracks_same simp: apply_buy_result_def buy_unavailable_def buy_failed_def Let_def split: if_splits)
next
  case (Inr rc)
  define m0 where "m0 = m\<lparr>pending_wallet_buys := pending_wallet_buys m - {(bo_mint bo, bo_wallet bo)}\<rparr>"
  obtain pre es1 where es1: "buy_filled env bo p v3 rc m0 = Inr (m', es1)" "es = pre @ es1" "quiet pre"
    using assms(2) Inr by (fastforce simp: apply_buy_result_def bind_outcome_Inr_iff m0_def)
  have "tracks (env_str env) m0 m' es1"
  proof (cases "detect_fill_mcap_spike (config m0) (bo_snapshot bo) rc")
    case None
    then show ?thesis using es1(1) buy_opened_tracks[OF assms(1)] by (simp add: buy_filled_def)
  next
    case (Some spike)
    then obtain aborted m1 es2 where
      ab: "abort_buy_after_fill_mcap_spike env bo rc p spike m0 = Inr (aborted, m1, es2)"
      using es1(1) by (auto simp: buy_filled_def bind_outcome_Inr_iff)
    have t: "tracks (env_str env) m0 m1 es2" by (rule tracks_same[OF abort_fields(1)[OF ab] abort_quiet[OF ab]])
    show ?thesis using es1(1) Some ab t tracks_comp[OF t] buy_opened_tracks[OF assms(1)]
      by (auto simp: buy_filled_def bind_outcome_Inr_iff split: if_splits)
  qed
  moreover have "tracks (env_str env) m m0 pre" by (rule tracks_same) (simp_all add: m0_def es1(3))
  ultimately show ?thesis unfolding es1(2) by (rule tracks_comp[rotated])
qed

text \<open>A sell takes the row out; it is put back, or its card is closed.\<close>

lemma row_back:
  assumes "plain_names str" "map_of (positions m) k = Some p" "face p' = face p"
    "positions m' = AList.update k p' (AList.delete k (positions m))" "quiet es"
  shows "tracks str m m' es"
proof -
  note inj = card_key_inj[OF assms(1)]
  have "manager_cards str m (card_key str k) = Some (position_card str k (face p))"
    by (simp add: manager_cards_def carded_lookup[OF inj] faces_lookup assms(2))
  then have "manager_cards str m' = manager_cards str m"
    by (auto simp: manager_cards_def assms(3,4) faces_update faces_delete carded_update[OF inj] carded_delete[OF inj])
  then show ?thesis using assms(4,5) by (simp add: tracks_def cards_after_quiet distinct_update distinct_delete)
qed

lemma row_gone:
  assumes "plain_names str" "positions m' = AList.delete k (positions m)" "quiet es" "quiet es'"
  shows "tracks str m m' (es @ Feed (PositionClose (str (fst k)) (snd k) why) # es')"
  using assms(2-4)
  by (simp add: tracks_def manager_cards_def faces_delete carded_delete[OF card_key_inj[OF assms(1)]]
      cards_after_quiet card_key_def distinct_delete)

text \<open>A share to sell that is a number.\<close>

lemma part_or_whole: "percent \<noteq> NaN \<Longrightarrow> percent < f64_of 100 \<or> whole percent"
  by (cases percent) (auto simp: whole_def)

lemma close_announced:
  assumes "close_position env k why p q m = (m', es)"
  obtains pre row track where "positions m' = positions m" "quiet pre"
    "es = pre @ Feed (PositionClose (env_str env (fst k)) (snd k) why) # [SaveBotTrade row track]"
proof
  show "positions m' = positions m" by (rule close_position_fields(1)[OF assms])
  let ?c = "fst (close_position env k why p q m)"
  let ?pct = "close_pnl_pct (total_returned p) (spent_sol p) (amount_to_float (initial_holdings p))"
  let ?pre = "blacklist_entry env ?c (fst k) p why (close_pnl_sol (total_returned p) (spent_sol p)) ?pct
    @ ranker_effects ?c p ?pct @ learning_effects env ?c p q ?pct why"
  show "quiet ?pre" by simp
  show "es = ?pre @ Feed (PositionClose (env_str env (fst k)) (snd k) why)
      # [SaveBotTrade (trade_row env k p q ?pct why) (post_exit_rpc ?c)]"
    using assms by (auto simp: close_position_def Let_def)
qed

lemma sell_done_tracks:
  assumes "plain_names (env_str env)" "percent \<noteq> NaN" "map_of (positions m) k = Some p"
    "sell_done env k percent why p q rc (m\<lparr>positions := AList.delete k (positions m)\<rparr>) = (m', es)"
  shows "tracks (env_str env) m m' es"
proof -
  define m0 where "m0 = m\<lparr>positions := AList.delete k (positions m)\<rparr>"
  define p1 where "p1 = p\<lparr>total_returned := total_returned p + sol_received_actual rc\<rparr>"
  define p2 where "p2 = p1\<lparr>holdings := amount_from_float_native (amount_to_float (holdings p1) - sq_qty q),
      pending_partial_sell := False\<rparr>"
  define m1 where "m1 = (if percent < f64_of 100 then m0\<lparr>positions := AList.update k p2 (positions m0)\<rparr> else m0)"
  define tx where "tx = sell_event env m0 k (sr_signature rc) (sol_received_actual rc)
      (Some (sol_received_estimated rc)) ''confirmed'' why q
      (if 0 < spent_sol p1 \<and> whole percent then Some (pct_over (total_returned p1) (spent_sol p1)) else None)"
  obtain m2 bal where rb: "refresh_balance env (snd k) m1 = (m2, bal)" by fastforce
  obtain m3 closed where cl: "(if whole percent then close_position env k why p1 q m2 else (m2, [])) = (m3, closed)"
    by fastforce
  have res: "m' = m3" "es = [tx] @ bal @ closed"
    using assms(4) unfolding sell_done_def Let_def m0_def[symmetric] p1_def[symmetric] p2_def[symmetric]
      m1_def[symmetric] tx_def[symmetric] by (simp_all only: rb cl prod.case prod.inject)
  have bal: "positions m2 = positions m1" "quiet ([tx] @ bal)"
    using refresh_balance_fields(1)[OF rb] refresh_quiet[OF rb] by (simp_all add: tx_def)
  show ?thesis
  proof (cases "percent < f64_of 100")
    case True
    then have "\<not> whole percent" using f64_less_imp_not_le by (auto simp: whole_def)
    then have "positions m' = AList.update k p2 (AList.delete k (positions m))" "quiet es"
      using True cl res bal by (auto simp: m1_def m0_def)
    then show ?thesis by (rule row_back[OF assms(1,3), rotated]) (simp add: p2_def p1_def face_def)
  next
    case False
    then have w: "whole percent" using part_or_whole[OF assms(2)] by simp
    then have "close_position env k why p1 q m2 = (m3, closed)" using cl by simp
    then obtain pre row track where c: "positions m3 = positions m2" "quiet pre"
      "closed = pre @ Feed (PositionClose (env_str env (fst k)) (snd k) why) # [SaveBotTrade row track]"
      by (rule close_announced)
    have "positions m' = AList.delete k (positions m)" using False c(1) res bal by (simp add: m1_def m0_def)
    from row_gone[OF assms(1) this, of "[tx] @ bal @ pre" "[SaveBotTrade row track]" why]
    show ?thesis using bal(2) c(2,3) by (simp add: res)
  qed
qed

lemma execute_sell_tracks:
  assumes "plain_names (env_str env)" "percent \<noteq> NaN" "execute_sell env mint wid percent why m = Inr (m', es)"
  shows "tracks (env_str env) m m' es"
proof (cases "registry_get (wallets m) wid = None \<or> map_of (positions m) (mint, wid) = None")
  case True
  then have "execute_sell env mint wid percent why m = Inr (m, [])" by (auto simp: execute_sell_def Let_def)
  then show ?thesis using assms(3) by (auto intro!: tracks_same)
next
  case False
  let ?k = "(mint, wid)"
  obtain p where p: "map_of (positions m) ?k = Some p" using False by blast
  define m1 where "m1 = m\<lparr>positions := AList.delete ?k (positions m)\<rparr>"
  obtain q where q: "quote_sell (config m1) p percent why = Inr q"
    using assms(3) False p by (auto simp: execute_sell_def bind_outcome_Inr_iff m1_def Let_def)
  show ?thesis
  proof (cases "env_sell env wid mint (sq_qty q) (pos_pool p) (whole percent)")
    case (Inl e)
    then have "sell_failed env ?k percent why p q e m1 = (m', es)"
      using assms(3) False p q by (auto simp: execute_sell_def m1_def Let_def)
    then have "positions m' = AList.update ?k (reopen e percent p) (AList.delete ?k (positions m))" "quiet es"
      by (auto simp: sell_failed_def Let_def m1_def)
    then show ?thesis by (rule row_back[OF assms(1) p, rotated]) (simp add: reopen_def face_def)
  next
    case (Inr rc)
    then have sold: "sell_done env ?k percent why p q rc m1 = (m', es)"
      using assms(3) False p q by (auto simp: execute_sell_def m1_def Let_def)
    show ?thesis by (rule sell_done_tracks[OF assms(1,2) p sold[unfolded m1_def]])
  qed
qed

lemma closes_cards:
  assumes "\<forall>k \<in> set ks. fst k = mint" "\<And>k. quiet (g k)"
  shows "cards_after (concat (map (\<lambda>k. g k @ [Feed (PositionClose (str mint) (snd k) why)]) ks)) c =
    (\<lambda>s. if s \<in> card_key str ` set ks then None else c s)"
  using assms(1)
  by (induction ks arbitrary: c) (auto simp: cards_after_quiet[OF assms(2)] card_key_def fun_eq_iff)

lemma abandon_tracks:
  assumes "plain_names (env_str env)" "abandon_position env mint wid m = (m', es)"
  shows "tracks (env_str env) m m' es"
proof -
  let ?gone = "abandoned mint wid" and ?ks = "map fst (positions m)"
  have pos: "positions m' = filter (\<lambda>(k, p). \<not> ?gone k) (positions m)"
    and es: "es = concat (map (\<lambda>k. (if registry_get (wallets m) (snd k) \<noteq> None then [ForgetPosition (snd k) mint] else [])
        @ [Feed (PositionClose (env_str env mint) (snd k) ''abandoned (operator removed from OPEN)'')]) (filter ?gone ?ks))"
    using assms(2) by (auto simp: abandon_position_def Let_def maybe_finalize_closed_mint_def)
  have f: "faces (filter (\<lambda>(k, p). \<not> ?gone k) ps) = filter (\<lambda>(k, f). \<not> ?gone k) (faces ps)" for ps
    by (induction ps) auto
  have "cards_after es (manager_cards (env_str env) m) =
      (\<lambda>s. if s \<in> card_key (env_str env) ` set (filter ?gone ?ks) then None else manager_cards (env_str env) m s)"
    unfolding es by (rule closes_cards) (auto simp: abandoned_def)
  moreover have "manager_cards (env_str env) m' =
      (\<lambda>s. if s \<in> card_key (env_str env) ` set (filter ?gone ?ks) then None else manager_cards (env_str env) m s)"
    by (simp add: fun_eq_iff manager_cards_def pos f carded_filter[OF card_key_inj[OF assms(1)]])
  ultimately show ?thesis by (simp add: tracks_def pos distinct_map_filter)
qed

lemma tick_entry_face:
  assumes "tick_entry env cfg rpc (k, p) = Inr (kp', es, acts)"
  shows "fst kp' = k \<and> face (snd kp') = face p \<and> quiet es"
proof -
  obtain r where r: "tick_position cfg rpc (env_now env) p = Inr r"
    using assms by (auto simp: tick_entry_def bind_outcome_Inr_iff)
  have out: "fst kp' = k" "snd kp' = tr_position r" "quiet es"
    using assms by (auto simp: tick_entry_def r bind_outcome_Inr_iff Let_def split: option.splits)
  have "face (tr_position r) = face p"
  proof (cases "is_closing p")
    case True
    then show ?thesis using r by (auto simp: tick_position_closing)
  next
    case False
    then show ?thesis using tick_position_decides[OF r] by (simp add: stake_of_def face_def)
  qed
  then show ?thesis using out by simp
qed

lemma process_positions_tracks:
  assumes "process_positions env m = Inr (m', es)" shows "tracks str m m' es"
proof -
  let ?f = "tick_entry env (config m) (post_exit_rpc m)"
  obtain rs where rs: "map_outcome ?f (positions m) = Inr rs" and m': "positions m' = map fst rs"
    and es: "es = concat (map (fst \<circ> snd) rs) @ map schedule_sell (concat (map (snd \<circ> snd) rs))"
    using assms by (auto simp: process_positions_def bind_outcome_Inr_iff)
  have "list_all2 (\<lambda>x y. ?f x = Inr y) xs ys \<Longrightarrow>
      faces (map fst ys) = faces xs \<and> quiet (concat (map (fst \<circ> snd) ys))" for xs ys
  proof (induction rule: list_all2_induct)
    case (Cons x xs y ys)
    obtain k p kp' es' acts where "x = (k, p)" "y = (kp', es', acts)" by (metis surj_pair)
    then show ?case using Cons tick_entry_face[of env "config m" "post_exit_rpc m" k p kp' es' acts]
      by (cases kp') simp
  qed simp
  from this[OF map_outcome_all2[OF rs]] show ?thesis
    by (intro tracks_faces) (auto simp: m' es quiet_def list_all_iff schedule_sell_eq)
qed

lemma tick_tracks:
  assumes "tick env m = Inr (m', es)" shows "tracks str m m' es"
proof -
  obtain m1 live where tl: "tick_live env m = (m1, live)" by fastforce
  obtain es2 where es2: "process_positions env m1 = Inr (m', es2)" "es = live @ es2"
    using assms by (auto simp: tick_def tl bind_outcome_Inr_iff)
  have "positions m1 = positions m" "quiet live"
    using tl small_effects_quiet(1) by (auto simp: tick_live_def Let_def quiet_def list_all_iff split: if_splits)
  then show ?thesis
    unfolding es2(2) by (rule tracks_comp[OF tracks_same process_positions_tracks[OF es2(1)]])
qed

text \<open>What the manager may be told: the share of a sell is a number.\<close>

fun sane_message :: "position_message \<Rightarrow> bool" where
  "sane_message (ExecuteSell mint wid percent why) \<longleftrightarrow> percent \<noteq> NaN"
| "sane_message _ \<longleftrightarrow> True"

lemma handle_tracks:
  assumes names: "plain_names (env_str env)" and sane: "sane_message msg" and r: "handle env msg m = Inr (m', es, rep)"
  shows "tracks (env_str env) m m' es"
proof (cases msg)
  case (UpdatePool q)
  then show ?thesis using r by (auto intro!: tracks_faces simp: update_pool_def Let_def repool_faces)
next
  case (UpdateTokenBucket b)
  then show ?thesis using r
    by (auto intro!: tracks_faces simp: silent_Inr update_token_bucket_def Let_def repool_faces)
next
  case (ApplyLiveSnapshot mint live)
  then show ?thesis using r on_mint_faces[OF _ apply_live_face]
    by (auto intro!: tracks_faces simp: bind_outcome_Inr_iff)
next
  case (ApplyExitMcapRefresh mint mcap uj)
  then show ?thesis using r on_mint_faces[OF _ apply_exit_mcap_face]
    by (auto intro!: tracks_faces simp: bind_outcome_Inr_iff)
next
  case (InitiateBuy q amount bt why dev early snap)
  then show ?thesis using r
    by (auto intro!: tracks_same simp: silent_Inr initiate_buy_def Let_def split: if_splits prod.splits)
next
  case (ExecuteBuy bo)
  then show ?thesis using r
    by (auto intro!: tracks_same simp: silent_Inr execute_buy_def Let_def split: if_splits option.splits)
next
  case (BuyCompleted bo q mode v3 res)
  then show ?thesis using r apply_buy_result_tracks[OF names] by (auto simp: silent_Inr)
next
  case (ExecuteSell mint wid pct why)
  then show ?thesis using r sane execute_sell_tracks[OF names] by (auto simp: silent_Inr)
next
  case (AbandonPosition mint wid)
  then show ?thesis using r abandon_tracks[OF names] by (auto simp: silent_Inr)
next
  case Tick
  then show ?thesis using r tick_tracks by (auto simp: silent_Inr)
qed (use r in \<open>auto intro!: tracks_same simp: silent_Inr set_paused_def clear_pending_mint_def bind_outcome_Inr_iff\<close>)

section \<open>Snapshots\<close>

lemma open_wires:
  assumes "map_outcome (open_wire env) ps = Inr wss" "\<forall>kp \<in> set ps. pos_open_reason (snd kp) \<noteq> None"
  shows "map (\<lambda>w. (wire_key w, card_of (wire_to_position w))) (concat wss) = carded (env_str env) (faces ps)"
  using assms
  by (induction ps arbitrary: wss)
    (auto simp: bind_outcome_Inr_iff open_wire_def card_key_def position_card_def face_def wire_key_def card_of_def
      wire_to_position_def)

lemma inserted_rows:
  "(\<lambda>k. map_option card_of (foldl (\<lambda>opened w. opened(wire_key w \<mapsto> wire_to_position w)) c rows k)) =
     (\<lambda>k. map_option card_of (c k)) ++ map_of (rev (map (\<lambda>w. (wire_key w, card_of (wire_to_position w))) rows))"
proof (induction rows arbitrary: c)
  case (Cons w rows)
  show ?case unfolding foldl_Cons Cons.IH by (auto simp: map_add_def fun_eq_iff split: option.splits)
qed simp

lemma map_of_rev_keys: "distinct (map fst xs) \<Longrightarrow> map_of (rev xs) = map_of xs"
  by (subst map_of_inject_set) (simp_all add: rev_map[symmetric])

lemma snapshot_restores_cards:
  assumes "plain_names (env_str env)" "distinct (map fst (positions m))"
    "\<forall>kp \<in> set (positions m). pos_open_reason (snd kp) \<noteq> None" "get_open_positions env m = Inr ws"
  shows "dash_cards (apply_open_positions ws d) = manager_cards (env_str env) m"
proof -
  let ?row = "\<lambda>w. (wire_key w, card_of (wire_to_position w))"
  obtain wss where wss: "map_outcome (open_wire env) (positions m) = Inr wss" "ws = concat wss"
    using assms(4) by (auto simp: get_open_positions_def bind_outcome_Inr_iff)
  have rows: "map ?row ws = carded (env_str env) (faces (positions m))"
    unfolding wss(2) by (rule open_wires[OF wss(1) assms(3)])
  have "map fst (carded (env_str env) fs) = map (card_key (env_str env)) (map fst fs)" for fs
    by (simp add: carded_def comp_def case_prod_unfold)
  then have keys: "distinct (map fst (map ?row ws))"
    unfolding rows using assms(2) card_key_inj[OF assms(1)]
    by (metis distinct_map fst_faces inj_on_subset subset_UNIV)
  have "fst ` set (map ?row ws) = set (map wire_key ws)" by (simp add: image_image)
  then have "dom (map_of (map ?row ws)) = set (map wire_key ws)" by (simp only: dom_map_of_conv_image_fst)
  then have "(\<lambda>k. map_option card_of ((da_open d |` set (map wire_key ws)) k)) ++ map_of (map ?row ws) = map_of (map ?row ws)"
    by (auto simp: map_add_def fun_eq_iff restrict_map_def split: option.splits dest: domI)
  then show ?thesis
    unfolding manager_cards_def rows[symmetric]
    by (simp add: dash_cards_def[abs_def] apply_open_positions_def Let_def inserted_rows map_of_rev_keys[OF keys]
        flip: rev_map)
qed

section \<open>The client beside the manager\<close>

text \<open>
  A turn of the manager, whose messages and answer the client gets; another event of the client's network
  thread; or something that the user does.
\<close>

datatype ('d, 't) joint_step = Turn environment position_message | Other "('d, 't) app_event" | User user_action

fun answer :: "manager_reply \<Rightarrow> ('d, 't) dashboard \<Rightarrow> ('d, 't) dashboard" where
  "answer (OpenPositionsReply ws) d = apply_open_positions ws d"
| "answer _ d = d"

fun joint :: "manager \<times> ('d, 't) dashboard \<Rightarrow> ('d, 't) joint_step \<Rightarrow> (manager \<times> ('d, 't) dashboard) outcome" where
  "joint (m, d) (Turn env msg) =
     bind_outcome (handle env msg m) (\<lambda>(m', es, r). Inr (m', answer r (show_feed es d)))"
| "joint (m, d) (Other e) = bind_outcome (apply_event e d) (\<lambda>d'. Inr (m, d'))"
| "joint (m, d) (User a) = Inr (m, user_act a d)"

text \<open>The other events say nothing of positions; the rendering of addresses does not change.\<close>

fun own_event :: "('d, 't) app_event \<Rightarrow> bool" where
  "own_event (Msg msg) \<longleftrightarrow> \<not> moves (Feed msg)"
| "own_event (OpenPositions rows) \<longleftrightarrow> False"
| "own_event _ \<longleftrightarrow> True"

fun joint_ok :: "(address \<Rightarrow> string) \<Rightarrow> ('d, 't) joint_step \<Rightarrow> bool" where
  "joint_ok str (Turn env msg) \<longleftrightarrow> env_str env = str \<and> sane_message msg"
| "joint_ok str (Other e) \<longleftrightarrow> own_event e"
| "joint_ok str (User a) \<longleftrightarrow> True"

lemma own_event_cards: "own_event e \<Longrightarrow> apply_event e d = Inr d' \<Longrightarrow> dash_cards d' = dash_cards d"
proof (cases e)
  case (Msg msg)
  then show "own_event e \<Longrightarrow> apply_event e d = Inr d' \<Longrightarrow> dash_cards d' = dash_cards d"
    by (auto simp: dash_cards_msg step_quiet)
next
  case (TxLog rows)
  have "da_open (foldl (\<lambda>d r. push_tx_log r d) d0 rows) = da_open d0" for d0 :: "('a, 'b) dashboard"
    by (induction rows arbitrary: d0) simp_all
  then show "own_event e \<Longrightarrow> apply_event e d = Inr d' \<Longrightarrow> dash_cards d' = dash_cards d"
    using TxLog by (auto simp: dash_cards_def)
qed (auto simp: dash_cards_def bind_outcome_Inr_iff split: option.splits)

lemma user_cards: "dash_cards (user_act a d) = dash_cards d"
  by (cases a) (auto simp: dash_cards_def act_defs Let_def split: option.split)

definition in_step :: "(address \<Rightarrow> string) \<Rightarrow> manager \<times> ('d, 't) dashboard \<Rightarrow> bool" where
  "in_step str s \<longleftrightarrow> distinct (map fst (positions (fst s))) \<and> dash_cards (snd s) = manager_cards str (fst s)"

text \<open>A card knows its reason, so in step every position has one.\<close>

lemma in_step_reasons:
  assumes "plain_names str" "in_step str (m, d)" shows "\<forall>kp \<in> set (positions m). pos_open_reason (snd kp) \<noteq> None"
proof
  fix kp assume kp: "kp \<in> set (positions m)"
  obtain k p where k: "kp = (k, p)" by (cases kp)
  have "map_of (positions m) k = Some p" using assms(2) kp k by (simp add: in_step_def)
  then have "dash_cards d (card_key str k) = Some (position_card str k (face p))"
    using assms(2) by (simp add: in_step_def manager_cards_def carded_lookup[OF card_key_inj[OF assms(1)]] faces_lookup)
  then show "pos_open_reason (snd kp) \<noteq> None"
    by (cases "pos_open_reason p") (auto simp: k dash_cards_def card_of_def position_card_def face_def)
qed

lemma answer_in_step:
  assumes "plain_names (env_str env)" "in_step (env_str env) (m, d)" "handle env msg m = Inr (m', es, r)"
    "in_step (env_str env) (m', show_feed es d)"
  shows "in_step (env_str env) (m', answer r (show_feed es d))"
proof (cases r)
  case (OpenPositionsReply ws)
  then have g: "get_open_positions env m = Inr ws" "m' = m"
    using assms(3) by (cases msg; auto simp: silent_Inr bind_outcome_Inr_iff)+
  have "distinct (map fst (positions m))" using assms(2) by (simp add: in_step_def)
  from snapshot_restores_cards[OF assms(1) this in_step_reasons[OF assms(1,2)] g(1), of "show_feed es d"]
  show ?thesis using assms(4) by (simp add: in_step_def OpenPositionsReply g(2))
qed (use assms(4) in simp_all)

lemma joint_in_step:
  assumes "plain_names str" "in_step str s" "joint_ok str x" "joint s x = Inr s'" shows "in_step str s'"
proof -
  obtain m d where s: "s = (m, d)" by (cases s)
  show ?thesis
  proof (cases x)
    case (Turn env msg)
    then have e: "env_str env = str" "sane_message msg" using assms(3) by simp_all
    obtain m' es r where h: "handle env msg m = Inr (m', es, r)" "s' = (m', answer r (show_feed es d))"
      using assms(4) Turn s by (auto simp: bind_outcome_Inr_iff)
    have "tracks str m m' es" using handle_tracks[of env msg m m' es r] e h(1) assms(1) by simp
    then have "in_step str (m', show_feed es d)"
      using assms(2) by (simp add: in_step_def tracks_def show_feed_cards s)
    then show ?thesis using answer_in_step[of env m d msg m' es r] assms(1,2) e(1) h s by simp
  qed (use assms s in \<open>auto simp: in_step_def user_cards bind_outcome_Inr_iff dest: own_event_cards\<close>)
qed

interpretation side_by_side: invariant_machine joint "\<lambda>_. joint_ok str" "\<lambda>s. plain_names str \<and> in_step str s" for str
  by unfold_locales (blast intro: joint_in_step)

lemma fresh_in_step: "fresh_manager m \<Longrightarrow> in_step str (m, dashboard_new)"
  by (auto simp: fresh_manager_def manager_new_def in_step_def dashboard_new_def dash_cards_def manager_cards_def)

text \<open>C26. From the start of both on, and whatever other events and actions of the user come between, the cards
  of open positions in the client are the positions of the manager: the same mints and wallets, with the
  reason and the market cap of their entries. The messages arrive in order, and a snapshot at once.
\<close>

theorem dashboard_follows_manager:
  fixes d :: "('d, 't) dashboard"
  assumes "fresh_manager m0" "plain_names str" "list_all (joint_ok str) xs"
    "run_outcome joint (m0, dashboard_new) xs = Inr (m, d)"
  shows "dash_cards d = manager_cards str m"
proof -
  have "plain_names str \<and> in_step str (m0, dashboard_new :: ('d, 't) dashboard)"
    using assms(2) fresh_in_step[OF assms(1)] by simp
  from side_by_side.inv_run[OF this run_ok_all[OF assms(3)] assms(4)] show ?thesis by (simp add: in_step_def)
qed

section \<open>A late snapshot\<close>

text \<open>
  A snapshot that was taken before a position was closed and arrives after the message of it shows the closed
  position again: the requests are not ordered with the messages.
\<close>

lemma late_snapshot_reopens:
  assumes "plain_names (env_str env)" "distinct (map fst (positions m))"
    "\<forall>kp \<in> set (positions m). pos_open_reason (snd kp) \<noteq> None" "get_open_positions env m = Inr ws"
    "k \<in> set (map fst (positions m))" "handle env' msg m = Inr (m', es, r)" "k \<notin> set (map fst (positions m'))"
  shows "dash_cards (apply_open_positions ws (show_feed es d)) (card_key (env_str env) k) \<noteq> None \<and>
    manager_cards (env_str env) m' (card_key (env_str env) k) = None"
proof -
  note inj = card_key_inj[OF assms(1)]
  have look: "manager_cards (env_str env) n (card_key (env_str env) k) \<noteq> None \<longleftrightarrow> k \<in> set (map fst (positions n))" for n
    by (simp add: manager_cards_def carded_lookup[OF inj] faces_lookup map_of_eq_None_iff)
  have "manager_cards (env_str env) m (card_key (env_str env) k) \<noteq> None"
    "manager_cards (env_str env) m' (card_key (env_str env) k) = None" using look assms(5,7) by blast+
  then show ?thesis using snapshot_restores_cards[OF assms(1-4), of "show_feed es d"] by simp
qed

section \<open>An example\<close>

text \<open>Names that are plain, and a filled buy in front of the client.\<close>

definition unary :: "address \<Rightarrow> string" where
  "unary a = replicate (unat a) CHR ''x''"

lemma unary_plain: "plain_names unary"
  by (auto simp: plain_names_def unary_def inj_def intro: unsigned_word_eqI)

definition view_env :: environment where
  "view_env = demo_env\<lparr>env_str := unary\<rparr>"

lemma demo_buy_fills:
  "\<exists>m es. handle view_env (BuyCompleted demo_order demo_pool ''demo'' None (Inr demo_receipt)) demo_manager = Inr (m, es, NoReply)
     \<and> map_of (positions m) (7, ''w1'') \<noteq> None"
proof -
  let ?m = "demo_manager\<lparr>pending_wallet_buys := pending_wallet_buys demo_manager - {(7, ''w1'')}\<rparr>"
  obtain m es where r: "buy_filled view_env demo_order demo_pool None demo_receipt ?m = Inr (m, es)"
    using buy_filled_returns[OF demo_pool_live, of view_env demo_order None demo_receipt ?m] by (fastforce simp: returns_iff)
  have "detect_fill_mcap_spike (config ?m) (bo_snapshot demo_order) demo_receipt = None"
    by (simp add: detect_fill_mcap_spike_def demo_order_def)
  then have "buy_opened view_env demo_order demo_pool None demo_receipt ?m = Inr (m, es)"
    using r by (simp add: buy_filled_def)
  moreover have "bo_wallet demo_order \<in> wallet_ids ?m"
    using demo_known[of 0 "{}" "{}"] by (simp add: demo_order_def wallet_ids_def demo_start)
  ultimately have "map_of (positions m) (7, ''w1'') \<noteq> None"
    by (auto simp: update_conv demo_order_def dest!: buy_opened_result)
  then show ?thesis
    using r by (auto simp: silent_def apply_buy_result_def demo_order_def)
qed

lemma dashboard_follows_manager_witness:
  "\<exists>m d. run_outcome joint (demo_manager, dashboard_new :: (unit, unit) dashboard)
      [Turn view_env (BuyCompleted demo_order demo_pool ''demo'' None (Inr demo_receipt)), User ClickPause,
       Other Connected] = Inr (m, d) \<and>
     dash_cards d = manager_cards unary m \<and> dash_cards d (card_key unary (7, ''w1'')) \<noteq> None"
proof -
  let ?buy = "BuyCompleted demo_order demo_pool ''demo'' None (Inr demo_receipt)"
  let ?xs = "[Turn view_env ?buy, User ClickPause, Other Connected] :: (unit, unit) joint_step list"
  obtain m es where h: "handle view_env ?buy demo_manager = Inr (m, es, NoReply)" and
    pos: "map_of (positions m) (7, ''w1'') \<noteq> None" using demo_buy_fills by blast
  obtain d where r: "run_outcome joint (demo_manager, dashboard_new) ?xs = Inr (m, d)"
    by (simp add: h del: handle.simps)
  have "fresh_manager demo_manager" unfolding fresh_manager_def demo_manager_def by blast
  then have "dash_cards d = manager_cards unary m"
    by (rule dashboard_follows_manager[OF _ unary_plain _ r]) (simp add: view_env_def)
  moreover have "manager_cards unary m (card_key unary (7, ''w1'')) \<noteq> None"
    using pos by (simp add: manager_cards_def carded_lookup[OF card_key_inj[OF unary_plain]] faces_lookup del: not_None_eq)
  ultimately show ?thesis using r by metis
qed

end
