(* ===== verification/Dashboard_Laws.thy ===== *)
theory Dashboard_Laws
  imports Dashboard Http_Api "HOL-Library.Sublist"
begin

text \<open>
  The desktop client and the server together: the requests that a command of the client makes, runs of the
  client (events, actions of the user, polls, and the network thread that takes commands while it is
  connected), and what they guarantee: live mode is only ever asked for after the word \<^verbatim>\<open>LIVE\<close> was
  typed, the history is never replaced by an older one; and where they fail: a full channel and a cancelled
  switch.
\<close>

section \<open>The requests of a command\<close>

text \<open>A number as JSON: what is not finite becomes null.\<close>

definition number_json :: "f64 \<Rightarrow> json" where
  "number_json x = (if is_finite x then JNumber (Float x) else JNull)"

definition wallet_json :: "dash_wallet \<Rightarrow> json" where
  "wallet_json w = JObject [(''id'', JString (dw_id w)), (''label'', JString (dw_label w)),
     (''enabled'', JBool (dw_enabled w)), (''pubkey'', JString (dw_pubkey w)),
     (''balance_sol'', number_json (dw_balance_sol w)),
     (''size_sol'', case dw_size_sol w of Some x \<Rightarrow> number_json x | None \<Rightarrow> JNull)]"

definition quote_mark :: string where "quote_mark = [CHR 0x22]"

definition set_paused_text :: "bool \<Rightarrow> string" where
  "set_paused_text v = ''{'' @ quote_mark @ ''cmd'' @ quote_mark @ '':'' @ quote_mark @ ''set_paused'' @ quote_mark @ '',''
     @ quote_mark @ ''paused'' @ quote_mark @ '':'' @ (if v then ''true'' else ''false'') @ ''}''"

text \<open>The writing requests; the other commands only read.\<close>

fun cmd_requests :: "dash_cmd \<Rightarrow> api_request list" where
  "cmd_requests (CmdSetPaused v) = [Command (set_paused_text v)]"
| "cmd_requests (CmdSetBuySize v) = [SetBuySize (JObject [(''sol'', number_json v)])]"
| "cmd_requests (CmdSetMode mode confirm) =
     [PutMode (if confirm then Some ''yes'' else None) (JObject [(''mode'', JString mode)])]"
| "cmd_requests (CmdPutWallets ws) = [PutWallets (JObject [(''wallets'', JArray (map wallet_json ws))])]"
| "cmd_requests _ = []"

section \<open>Runs of the client\<close>

text \<open>The network thread takes the first command, which it does while it is connected.\<close>

datatype ('d, 't) gui_input = Event "('d, 't) app_event" | Act user_action | Poll | Take

fun gui_step :: "('d, 't) dashboard \<times> dash_cmd list \<Rightarrow> ('d, 't) gui_input \<Rightarrow> (('d, 't) dashboard \<times> dash_cmd list) outcome" where
  "gui_step (d, taken) (Event e) = bind_outcome (apply_event e d) (\<lambda>d'. Inr (d', taken))"
| "gui_step (d, taken) (Act a) = Inr (user_act a d, taken)"
| "gui_step (d, taken) Poll = Inr (http_poll d, taken)"
| "gui_step (d, taken) Take =
     (case da_cmds d of [] \<Rightarrow> Inr (d, taken) | c # cs \<Rightarrow> Inr (d\<lparr>da_cmds := cs\<rparr>, taken @ [c]))"

section \<open>The typed word\<close>

fun harmless :: "dash_cmd \<Rightarrow> bool" where
  "harmless (CmdSetMode mode confirm) \<longleftrightarrow> mode = ''demo'' \<and> \<not> confirm"
| "harmless _ \<longleftrightarrow> True"

definition untyped :: "('d, 't) dashboard \<times> dash_cmd list \<Rightarrow> bool" where
  "untyped s \<longleftrightarrow> cp_confirm_input (da_config_panel (fst s)) \<noteq> ''LIVE'' \<and>
     list_all harmless (da_cmds (fst s)) \<and> list_all harmless (snd s)"

lemma try_cmd_frame [simp]: "da_config_panel (try_cmd c d) = da_config_panel d" "da_paused (try_cmd c d) = da_paused d"
  "list_all harmless (da_cmds d) \<Longrightarrow> harmless c \<Longrightarrow> list_all harmless (da_cmds (try_cmd c d))"
  by (simp_all add: try_cmd_def)

lemma set_panel_simps [simp]: "da_config_panel (set_panel f d) = f (da_config_panel d)" "da_cmds (set_panel f d) = da_cmds d"
  by (simp_all add: set_panel_def)

lemma frames [simp]: "da_config_panel (push_tx_log tx d) = da_config_panel d" "da_cmds (push_tx_log tx d) = da_cmds d"
  "da_config_panel (clear_manual_sell_for_mint mint d) = da_config_panel d"
  "da_cmds (clear_manual_sell_for_mint mint d) = da_cmds d"
  "da_config_panel (apply_open_positions rows d) = da_config_panel d" "da_cmds (apply_open_positions rows d) = da_cmds d"
  by (simp_all add: push_tx_log_def Let_def clear_manual_sell_for_mint_def apply_open_positions_def split: option.split)

lemma log_frames [simp]: "da_config_panel (foldl (\<lambda>d r. push_tx_log r d) d rows) = da_config_panel d"
  "da_cmds (foldl (\<lambda>d r. push_tx_log r d) d rows) = da_cmds d"
  by (induction rows arbitrary: d) simp_all

lemma loaded_frame [simp]: "cp_confirm_input (on_loaded x p) = cp_confirm_input p"
  "cp_mode_saving (on_loaded x p) = cp_mode_saving p"
  by (simp_all add: on_loaded_def Let_def)

lemma msg_panel [simp]: "da_config_panel (apply_msg msg d) = da_config_panel d"
  by (cases msg) (simp_all add: Let_def split: option.split)

lemma msg_harmless: "list_all harmless (da_cmds d) \<Longrightarrow> list_all harmless (da_cmds (apply_msg msg d))"
  by (cases msg) (simp_all add: Let_def split: option.split)

lemma event_untyped: "apply_event e d = Inr d' \<Longrightarrow> untyped (d, taken) \<Longrightarrow> untyped (d', taken)"
  by (cases e) (auto simp: untyped_def msg_harmless on_save_ok_def on_save_err_def
      bind_outcome_Inr_iff split: option.splits)

lemma poll_frames [simp]: "da_config_panel (http_poll d) = da_config_panel d"
  "list_all harmless (da_cmds d) \<Longrightarrow> list_all harmless (da_cmds (http_poll d))"
  by (simp_all add: http_poll_def poll_commands_def)

lemma act_untyped: "a \<noteq> TypeConfirm ''LIVE'' \<Longrightarrow> untyped (d, taken) \<Longrightarrow> untyped (user_act a d, taken)"
  by (cases a) (auto simp: untyped_def act_defs Let_def split: option.split)

lemma gui_step_untyped:
  "gui_step s x = Inr s' \<Longrightarrow> x \<noteq> Act (TypeConfirm ''LIVE'') \<Longrightarrow> untyped s \<Longrightarrow> untyped s'"
proof (induction s x rule: gui_step.induct)
  case (1 d taken e)
  then show ?case by (auto simp: bind_outcome_Inr_iff dest: event_untyped)
next
  case (2 d taken a)
  then show ?case by (auto intro: act_untyped)
next
  case (4 d taken)
  then show ?case by (auto simp: untyped_def split: list.splits)
qed (auto simp: untyped_def)

interpretation typed: invariant_machine gui_step "\<lambda>_ x. x \<noteq> Act (TypeConfirm ''LIVE'')" untyped
  by unfold_locales (rule gui_step_untyped)

lemma untyped_new: "untyped (dashboard_new, [])"
  by (simp add: untyped_def dashboard_new_def config_panel_new_def)

lemma harmless_unconfirmed: "harmless c \<Longrightarrow> PutMode confirm body \<in> set (cmd_requests c) \<Longrightarrow> unconfirmed (PutMode confirm body)"
  by (cases c) auto

text \<open>C27. As long as the user has not typed the word LIVE, no request of the client asks the server for live
  mode with the confirmation that it demands, whatever buttons are pressed and whatever the network says.
\<close>

theorem live_needs_typed_word:
  fixes d :: "('d, 't) dashboard"
  assumes "run_outcome gui_step (dashboard_new, []) xs = Inr (d, taken)" "Act (TypeConfirm ''LIVE'') \<notin> set xs"
    "PutMode confirm body \<in> set (concat (map cmd_requests taken))"
  shows "unconfirmed (PutMode confirm body)"
proof -
  have "list_all (\<lambda>x. x \<noteq> Act (TypeConfirm ''LIVE'')) xs" using assms(2) by (auto simp: list_all_iff)
  then have "list_all harmless taken"
    using typed.inv_run[OF untyped_new run_ok_all assms(1)] by (simp add: untyped_def)
  moreover obtain c where c: "c \<in> set taken" "PutMode confirm body \<in> set (cmd_requests c)" using assms(3) by auto
  ultimately have "harmless c" by (simp add: list_all_iff)
  then show ?thesis using c(2) by (rule harmless_unconfirmed)
qed

section \<open>The queue of commands\<close>

text \<open>Commands are only ever added, and taken in that order: none is retracted.\<close>

lemma cmds_appended [simp]: "prefix (da_cmds d) (da_cmds (try_cmd c d))"
  by (simp add: try_cmd_def)

lemma msg_appends: "prefix (da_cmds d) (da_cmds (apply_msg msg d))"
  by (cases msg) (auto simp: Let_def try_cmd_def split: option.split)

lemma event_appends: "apply_event e d = Inr d' \<Longrightarrow> prefix (da_cmds d) (da_cmds d')"
  by (cases e) (auto simp: msg_appends bind_outcome_Inr_iff split: option.splits)

lemma act_appends: "prefix (da_cmds d) (da_cmds (user_act a d))"
  by (cases a) (auto simp: act_defs Let_def try_cmd_def split: option.split)

lemma poll_appends: "prefix (da_cmds d) (da_cmds (http_poll d))"
proof -
  have "prefix (da_cmds d) (da_cmds (foldl (\<lambda>d c. try_cmd c d) d cs))" for cs
    by (induction cs arbitrary: d) (auto intro: prefix_order.trans[OF cmds_appended])
  then show ?thesis by (simp add: http_poll_def)
qed

definition commands :: "('d, 't) dashboard \<times> dash_cmd list \<Rightarrow> dash_cmd list" where
  "commands s = snd s @ da_cmds (fst s)"

lemma step_appends: "gui_step s x = Inr s' \<Longrightarrow> prefix (commands s) (commands s')"
  by (induction s x rule: gui_step.induct)
    (auto simp: commands_def bind_outcome_Inr_iff act_appends poll_appends dest: event_appends split: list.splits)

interpretation queue: invariant_machine gui_step "\<lambda>_ _. True" "\<lambda>s. prefix cs (commands s)" for cs
  by unfold_locales (blast intro: step_appends prefix_order.trans)

lemma commands_keep_order: "run_outcome gui_step s xs = Inr s' \<Longrightarrow> prefix (commands s) (commands s')"
  using queue.inv_run[OF prefix_order.refl run_ok_True] .

text \<open>So a switch to live mode that the user cancels is still sent when the connection is back.\<close>

lemma cancelled_switch_is_sent:
  "\<exists>d :: (unit, unit) dashboard. run_outcome gui_step (dashboard_new, []) [Act ToggleConfig, Act ClickSwitchLive,
      Act (TypeConfirm ''LIVE''), Act ClickConfirmLive, Act ClickCancel, Event Connected, Take, Take] =
      Inr (d, [CmdFetchBuySize, CmdSetMode ''live'' True]) \<and> \<not> cp_pending_live_switch (da_config_panel d)"
  by (simp add: act_defs Let_def dashboard_new_def config_panel_new_def set_panel_def try_cmd_def CMD_CHANNEL_def
      current_mode_def)

section \<open>A full channel\<close>

definition is_switch :: "dash_cmd \<Rightarrow> bool" where
  "is_switch c \<longleftrightarrow> (\<exists>mode confirm. c = CmdSetMode mode confirm)"

lemma is_switch_simps [simp]: "is_switch (CmdSetMode mode confirm)" "\<not> is_switch (CmdSetPaused v)"
  "\<not> is_switch (CmdFetchDevStats mint)" "\<not> is_switch (CmdFetchChart mint)" "\<not> is_switch CmdFetchBuySize"
  "\<not> is_switch (CmdSetBuySize x)" "\<not> is_switch CmdFetchMode" "\<not> is_switch CmdFetchTxLog"
  "\<not> is_switch CmdFetchBotTrades" "\<not> is_switch CmdFetchStatus" "\<not> is_switch CmdRefreshAfterClose"
  "\<not> is_switch CmdFetchOpenPositions" "\<not> is_switch CmdFetchTierStats" "\<not> is_switch (CmdPutWallets ws)"
  by (simp_all add: is_switch_def)

fun switch_answer :: "('d, 't) gui_input \<Rightarrow> bool" where
  "switch_answer (Event (ModeSetOk mode restart)) = True"
| "switch_answer (Event (ModeSetErr msg)) = True"
| "switch_answer _ = False"

text \<open>While a switch is being saved, no other one is queued, and only an answer to a switch ends that.\<close>

definition waiting :: "('d, 't) dashboard \<Rightarrow> bool" where
  "waiting d \<longleftrightarrow> cp_mode_saving (da_config_panel d)"

definition switches :: "('d, 't) dashboard \<Rightarrow> dash_cmd list" where
  "switches d = filter is_switch (da_cmds d)"

lemma switches_frame [simp]: "\<not> is_switch c \<Longrightarrow> switches (try_cmd c d) = switches d"
  "da_cmds d' = da_cmds d \<Longrightarrow> switches (d'\<lparr>da_config_panel := p\<rparr>) = switches d"
  by (simp_all add: switches_def try_cmd_def)

lemma msg_switches: "switches (apply_msg msg d) = switches d"
  by (cases msg) (auto simp: Let_def switches_def try_cmd_def split: option.split)

lemma event_waits:
  "apply_event e d = Inr d' \<Longrightarrow> \<not> switch_answer (Event e) \<Longrightarrow> switches d' = switches d \<and> waiting d' = waiting d"
  by (cases e) (auto simp: waiting_def msg_switches on_save_ok_def on_save_err_def switches_def
      bind_outcome_Inr_iff msg_switches[unfolded switches_def] split: option.splits)

lemma act_waits: "waiting d \<Longrightarrow> switches (user_act a d) = switches d \<and> waiting (user_act a d)"
  by (cases a) (auto simp: waiting_def act_defs Let_def switches_def try_cmd_def
      split: option.split)

lemma poll_waits: "switches (http_poll d) = switches d"
  by (simp add: http_poll_def poll_commands_def)

lemma step_waits:
  "gui_step s x = Inr s' \<Longrightarrow> \<not> switch_answer x \<Longrightarrow> waiting (fst s) \<Longrightarrow>
   waiting (fst s') \<and> filter is_switch (commands s') = filter is_switch (commands s)"
proof (induction s x rule: gui_step.induct)
  case (1 d taken e)
  then show ?case using event_waits[of e d] by (auto simp: bind_outcome_Inr_iff commands_def switches_def)
next
  case (2 d taken a)
  then show ?case using act_waits[of d a] by (auto simp: commands_def switches_def)
next
  case (3 d taken)
  then show ?case using poll_waits[of d] by (auto simp: commands_def switches_def waiting_def)
next
  case (4 d taken)
  then show ?case by (auto simp: commands_def waiting_def split: list.splits)
qed

interpretation stuck: invariant_machine gui_step "\<lambda>_ x. \<not> switch_answer x"
    "\<lambda>s. waiting (fst s) \<and> filter is_switch (commands s) = cs" for cs
  by unfold_locales (auto dest: step_waits)

text \<open>
  A switch to demo mode that the user asks for while the channel is full is lost, and the buttons wait for
  its answer for ever: whatever happens next, short of an answer to a switch that was never sent, no switch
  is queued or sent any more, and the panel still says that it is saving.
\<close>

lemma lost_switch_blocks_buttons:
  fixes d :: "('d, 't) dashboard"
  assumes "CMD_CHANNEL \<le> length (da_cmds d)" "cp_open (da_config_panel d)"
    "\<not> cp_pending_live_switch (da_config_panel d)" "\<not> cp_mode_saving (da_config_panel d)" "current_mode d \<noteq> ''demo''"
    "run_outcome gui_step (user_act ClickSwitchDemo d, taken) xs = Inr (d', taken')" "list_all (\<lambda>x. \<not> switch_answer x) xs"
  shows "filter is_switch (taken' @ da_cmds d') = filter is_switch (taken @ da_cmds d) \<and>
    cp_mode_saving (da_config_panel d')"
proof -
  have "da_cmds (user_act ClickSwitchDemo d) = da_cmds d" "waiting (user_act ClickSwitchDemo d)"
    using assms(1-5) by (simp_all add: act_defs Let_def try_cmd_def waiting_def)
  then show ?thesis
    using stuck.inv_run[OF _ run_ok_all[OF assms(7)] assms(6), of "filter is_switch (taken @ da_cmds d)"]
    by (simp add: commands_def waiting_def)
qed

text \<open>Six commands every fifteen seconds: five and a half minutes without a connection fill the channel.\<close>

lemma polls_fill_channel: "length (da_cmds ((http_poll ^^ n) d)) = max (length (da_cmds d)) (min CMD_CHANNEL (length (da_cmds d) + 6 * n))"
proof (induction n)
  case (Suc n)
  have one: "length (da_cmds (try_cmd c e)) = (if length (da_cmds e) < CMD_CHANNEL then length (da_cmds e) + 1 else length (da_cmds e))"
    for c and e :: "('a, 'b) dashboard" by (simp add: try_cmd_def)
  have "length (da_cmds (http_poll e)) = max (length (da_cmds e)) (min CMD_CHANNEL (length (da_cmds e) + 6))"
    for e :: "('a, 'b) dashboard"
    unfolding http_poll_def poll_commands_def foldl.simps one by (auto simp: CMD_CHANNEL_def split: if_splits)
  then show ?case using Suc by (auto simp: CMD_CHANNEL_def max_def min_def)
qed (simp add: CMD_CHANNEL_def)

lemma lost_switch_blocks_buttons_witness:
  "\<exists>d' :: (unit, unit) dashboard.
     run_outcome gui_step (user_act ClickSwitchDemo (dashboard_new\<lparr>da_cmds := replicate 128 CmdFetchMode,
          da_config_panel := config_panel_new\<lparr>cp_open := True\<rparr>\<rparr>), []) [Event Connected, Take, Act ClickSwitchDemo] = Inr (d', [CmdFetchMode]) \<and>
     filter is_switch ([CmdFetchMode] @ da_cmds d') = [] \<and> cp_mode_saving (da_config_panel d')"
proof -
  let ?d = "dashboard_new\<lparr>da_cmds := replicate 128 CmdFetchMode,
    da_config_panel := config_panel_new\<lparr>cp_open := True\<rparr>\<rparr> :: (unit, unit) dashboard"
  have cmds: "replicate 128 CmdFetchMode = CmdFetchMode # replicate 127 CmdFetchMode"
    by (simp add: numeral_eq_Suc)
  obtain d' where r: "run_outcome gui_step (user_act ClickSwitchDemo ?d, []) [Event Connected, Take, Act ClickSwitchDemo] =
      Inr (d', [CmdFetchMode])"
    by (simp add: act_defs Let_def dashboard_new_def config_panel_new_def set_panel_def try_cmd_def CMD_CHANNEL_def
        current_mode_def cmds)
  have "filter is_switch ([CmdFetchMode] @ da_cmds d') = filter is_switch ([] @ da_cmds ?d) \<and>
      cp_mode_saving (da_config_panel d')"
    by (rule lost_switch_blocks_buttons[OF _ _ _ _ _ r])
      (simp_all add: CMD_CHANNEL_def dashboard_new_def config_panel_new_def current_mode_def)
  then show ?thesis using r by (auto simp: filter_empty_conv)
qed

lemma live_needs_typed_word_witness:
  "\<exists>d :: (unit, unit) dashboard. run_outcome gui_step (dashboard_new, []) [Act ToggleConfig, Act ClickSwitchLive,
      Act (TypeConfirm ''live''), Act ClickConfirmLive, Act ClickCancel, Event (Status False (Some ''live'')),
      Act ClickSwitchDemo, Take, Take] = Inr (d, [CmdFetchBuySize, CmdSetMode ''demo'' False]) \<and>
     unconfirmed (PutMode None (JObject [(''mode'', JString ''demo'')]))"
proof -
  let ?xs = "[Act ToggleConfig, Act ClickSwitchLive, Act (TypeConfirm ''live''), Act ClickConfirmLive, Act ClickCancel,
    Event (Status False (Some ''live'')), Act ClickSwitchDemo, Take, Take] :: (unit, unit) gui_input list"
  obtain d where r: "run_outcome gui_step (dashboard_new, []) ?xs = Inr (d, [CmdFetchBuySize, CmdSetMode ''demo'' False])"
    by (simp add: act_defs Let_def dashboard_new_def config_panel_new_def set_panel_def try_cmd_def CMD_CHANNEL_def
        current_mode_def)
  have "unconfirmed (PutMode None (JObject [(''mode'', JString ''demo'')]))"
    by (rule live_needs_typed_word[OF r]) simp_all
  then show ?thesis using r by blast
qed

section \<open>The history\<close>

text \<open>Answers that count come from later and later fetches: an old history never replaces a newer one.\<close>

definition history_ok :: "history_net \<Rightarrow> bool" where
  "history_ok s \<longleftrightarrow> distinct (hn_running s) \<and> (\<forall>g \<in> set (hn_running s). g \<le> hn_gen s) \<and>
     sorted_wrt (<) (map fst (hn_sent s)) \<and>
     (\<forall>g \<in> set (map fst (hn_sent s)). g \<le> hn_gen s \<and> g \<notin> set (hn_running s))"

lemma history_step_ok: assumes "history_ok s" shows "history_ok (history_net_step s e)"
proof (cases e)
  case StartFetch
  then show ?thesis using assms by (force simp: history_ok_def history_net_step_def)
next
  case (FetchAnswer g rows)
  show ?thesis
  proof (cases "g \<in> set (hn_running s)")
    case True
    then have "x < hn_gen s" if "x \<in> set (map fst (hn_sent s))" "hn_gen s = g" for x
      using assms that by (metis history_ok_def le_neq_implies_less)
    then show ?thesis using assms True FetchAnswer
      by (auto simp: history_ok_def history_net_step_def Let_def sorted_wrt_append split: option.split)
  qed (use assms FetchAnswer in \<open>simp add: history_net_step_def\<close>)
qed

interpretation history: invariant_machine "\<lambda>s e. Inr (history_net_step s e)" "\<lambda>_ _. True" history_ok
  by unfold_locales (auto intro: history_step_ok)

lemma history_never_goes_back: "sorted_wrt (<) (map fst (hn_sent (foldl history_net_step history_net_new es)))"
proof -
  have "history_ok history_net_new" by (simp add: history_ok_def history_net_new_def)
  then show ?thesis using history.inv_run[OF _ run_ok_True run_outcome_lift] by (simp add: history_ok_def)
qed

end
