(* ===== verification/Spec2Isabelle.thy ===== *)
theory Spec2Isabelle
  imports Manager_Rest Manager_Sells Learning_Laws Create_Laws Live_Confirm Post_Exit_Laws Performance
    Feed_Laws Feed_Health Api_Laws Dispatch Counterfactual Dashboard_Follow Dashboard_Laws
begin

text \<open>
  Verification of the trading core of a bot for newly launched tokens. Paths are relative to
  \<^verbatim>\<open>src/src/\<close> of the repository, a Rust workspace; the release build is modelled, in which integer
  arithmetic wraps around.

  \<^bold>\<open>The program.\<close> A feed decodes trades of the launchpad from the chain. The launchpad storage keeps
  one bucket per token, its pool and the ledger of its traders. Pipelines score new tokens and send
  signals to the position manager, an actor that fans a signal out over the configured wallets, buys
  through a broker, evaluates the open positions on every tick, sells them in parts or whole, and
  settles each closed position with the strategy controller, the blacklists, the rankers and the
  trade table.

  \<^bold>\<open>The theories\<close>, in the order of their imports:
  \<^item> \<open>Prelude\<close>: machine integers, the outcome type (a panic as a value), decimal rendering,
    substrings, association lists. \<open>F64\<close>: the type \<^verbatim>\<open>f64\<close> as exact rationals with rounding to 53 bits,
    two infinities and NaN; monotonicity of every rounding operation. \<open>Machines\<close>: three locales, a
    machine with an invariant, one that never panics, and one whose keys do not interfere; the
    actors below interpret them. \<open>Text\<close>: printing and parsing of numbers.
  \<^item> \<open>Amounts\<close> (\<^verbatim>\<open>helper.rs\<close>, \<^verbatim>\<open>generalize/general_commands.rs\<close>), \<open>Pools\<close> (\<^verbatim>\<open>launchpads/pump/pool.rs\<close>,
    \<^verbatim>\<open>feed/logs/pump.rs\<close>): fixed-point amounts, trade events, bonding and migrated pools.
  \<^item> \<open>Trading\<close> (\<^verbatim>\<open>trading/\<close>): the ledger of a trader and the swarm actor. \<open>Launchpad\<close> (\<^verbatim>\<open>launchpads/\<close>):
    buckets and the storage actor.
  \<^item> \<open>Snapshots\<close>, \<open>Exit_Engine\<close> (\<^verbatim>\<open>autobuy/exit_engine.rs\<close>), \<open>Positions\<close> (\<^verbatim>\<open>autobuy/positions.rs\<close>),
    \<open>Position_Tick\<close> (the body of \<^verbatim>\<open>process_positions\<close> in \<^verbatim>\<open>autobuy/manager.rs\<close>, one definition per
    stage; the stages are interpretations of the locale \<open>decision\<close>).
  \<^item> \<open>Strategy\<close> (\<^verbatim>\<open>scoring/strategy_controller.rs\<close>), \<open>Blacklists\<close> (\<^verbatim>\<open>autobuy/curve_quarantine.rs\<close>,
    \<^verbatim>\<open>autobuy/dev_blacklist.rs\<close>), \<open>Rankers\<close> (\<^verbatim>\<open>scoring/dev_ranker.rs\<close>, \<^verbatim>\<open>scoring/smart_money.rs\<close>),
    \<open>Brokers\<close> (\<^verbatim>\<open>autobuy/broker.rs\<close>, \<^verbatim>\<open>autobuy/broker_mock.rs\<close>), \<open>Wallets\<close>
    (\<^verbatim>\<open>autobuy/wallet_registry.rs\<close>).
  \<^item> \<open>Scoring_Config\<close> (\<^verbatim>\<open>scoring/config.rs\<close>), \<open>Features\<close> (the sampling half of \<^verbatim>\<open>scoring/features.rs\<close>,
    \<^verbatim>\<open>scoring/anti_bundle.rs\<close>, \<^verbatim>\<open>scoring/live_position.rs\<close>), \<open>Gates\<close> (its gates, \<^verbatim>\<open>scoring/anti_rug.rs\<close>,
    \<^verbatim>\<open>scoring/fresh_b.rs\<close>), \<open>Score_Engine\<close> (\<^verbatim>\<open>scoring/score_engine.rs\<close>), \<open>Learning\<close> (\<^verbatim>\<open>learning/\<close>):
    what a token is scored by. \<open>Score_Buy\<close> (\<^verbatim>\<open>pipeline/score_buy.rs\<close>): the pipeline from the tape to the
    signal. \<open>Create_Gate\<close> (the create handler of \<^verbatim>\<open>main.rs\<close>, \<^verbatim>\<open>autobuy/filters/creator.rs\<close>,
    \<^verbatim>\<open>pipeline/fresh_watchlist.rs\<close>): what happens to a token before. \<open>Score_Laws\<close>, \<open>Feature_Laws\<close>,
    \<open>Learning_Laws\<close>, \<open>Entry_Safety\<close>, \<open>Create_Laws\<close>: their theorems.
  \<^item> \<open>Manager\<close> and \<open>Manager_Exit\<close> (\<^verbatim>\<open>autobuy/manager.rs\<close>): the state of \<^verbatim>\<open>PositionManagerActor\<close> as the
    record \<open>manager\<close>, one definition per message of \<^verbatim>\<open>run\<close> and per method; \<open>handle\<close> is one turn of the
    loop. A handler returns the new state and its effects in order; what an effect of a spawned task
    answers comes back as a message.
  \<^item> \<open>Manager_System\<close>: the step relation \<open>sys_step\<close> of the actor with its tasks in flight, which complete in
    any order, and the invariant \<open>sys_inv\<close>. \<open>Manager_Safety\<close>: every handler keeps it. \<open>Manager_Laws\<close>: what
    follows for all reachable states. \<open>Manager_Rest\<close>: draining without outside messages.
    \<open>Manager_Buys\<close>, \<open>Manager_Sells\<close>: what single messages and sequences of sells guarantee.

  \<^item> \<open>Bonding_Curve\<close> (the account of a bonding curve and what \<^verbatim>\<open>autobuy/pump_brocker.rs\<close> computes from it),
    \<open>Instructions\<close> (\<^verbatim>\<open>src/sips/src/\<close>: program-derived addresses and the instructions the broker sends).
    \<open>Live_IO\<close>: the async code as computations over the locked fields of the broker, the trace of what it
    did, and an arbitrary outside world, in which every call may also let other tasks run; a computation
    returns, fails, panics, or never returns. With it comes a Hoare logic for total correctness.
    \<open>Live_Rpc\<close> (the reads, back-offs and polls of \<^verbatim>\<open>autobuy/pump_brocker.rs\<close>, \<^verbatim>\<open>autobuy/execution.rs\<close>,
    \<^verbatim>\<open>autobuy/wallet_tx_sol.rs\<close>), \<open>Jupiter\<close> (\<^verbatim>\<open>autobuy/jupiter_sell.rs\<close>), \<open>Live_Send\<close> (the send loops and the
    chain of quotes), \<open>Live_Broker\<close> (\<^verbatim>\<open>SolanaBroker\<close>: buying, selling, the drain). \<open>Live_Demo\<close>: one concrete
    world for examples. \<open>Live_Laws\<close>, \<open>Live_Confirm\<close>: the theorems.
  \<^item> \<open>Post_Exit\<close> (\<^verbatim>\<open>autobuy/post_exit_tracker.rs\<close>, \<^verbatim>\<open>persistence/bot_trade_post_exit.rs\<close>) with
    \<open>Post_Exit_Laws\<close>: the market cap of open positions and the samples after an exit. \<open>Performance\<close>
    (\<^verbatim>\<open>autobuy/performance_tracker.rs\<close>): the baseline for the statistics of developers.
  \<^item> \<open>Feed_Metrics\<close> (\<^verbatim>\<open>feed/metrics.rs\<close>): the counters and the two memories of signatures, instances of the
    locale \<open>fifo_memory\<close>. \<open>Feed_Health\<close>: the monitor of the same file and the logger of \<^verbatim>\<open>main.rs\<close>.
    \<open>Logs_Feed\<close> (\<^verbatim>\<open>feed/logs_feed.rs\<close>): a message, a session, the loop around the sessions; \<open>Feed_Laws\<close>: its
    theorems. \<open>Pump_Pipeline\<close> (\<^verbatim>\<open>feed/logs/\<close>, \<^verbatim>\<open>generalize/adapters/pump.rs\<close>, \<^verbatim>\<open>pipelines/pump.rs\<close>): from a line
    to an action with its bucket, through the launchpad actor.
  \<^item> \<open>Write_Queue\<close> (\<^verbatim>\<open>persistence/write_queue.rs\<close>, the rows of \<^verbatim>\<open>persistence/\<close>), \<open>Telemetry\<close> (\<^verbatim>\<open>setup/waiter.rs\<close>,
    \<^verbatim>\<open>telemetry/buy_latency.rs\<close>), \<open>Dispatch\<close>: the loop of \<^verbatim>\<open>main.rs\<close> over the actions, which starts the tasks of
    \<open>Create_Gate\<close>, the waiter and the queue.
  \<^item> \<open>Http_Api\<close> (the routes of \<^verbatim>\<open>main.rs\<close>), \<open>Config_File\<close> (its rewriting of the configuration file), \<open>Chart\<close>
    (its chart of a token), \<open>Api_Laws\<close>: the buy size of the operator against the sizes of the score engine.
    \<open>Counterfactual\<close> (\<^verbatim>\<open>bin/cf_spamdev.rs\<close>): the offline report on penalties, on the score engine of the bot.
  \<^item> \<open>Dashboard\<close> (\<^verbatim>\<open>src/dashboard/\<close>, a crate of its own): the desktop client, its events, buttons and commands.
    \<open>Dashboard_Follow\<close>: the client beside the manager. \<open>Dashboard_Laws\<close>: its requests and its channel; runs of
    both are instances of \<open>invariant_machine\<close>.

  \<^bold>\<open>What the theorems show.\<close> From creation to signal: every token ends in one signal or, with the log of
  the learning engine, in one logged reason, a signal has passed every gate that applies to its developer
  and tier, the score is the sum of its items, which are the rules that hold, in order, and lies in known
  bounds, the points of the observed tape are the samples that were fetched. For the rest: a consistent
  table in every reachable state of the launchpad and of the manager, and no panic there (of the manager:
  while the pools it is given have tokens, which is the only case in which it panics); nothing waits for a task that does not exist, and left alone the manager comes
  to rest; the gates of a signal, the outcomes of a fill, the full account of a position over its
  sells; one sound decision per position and tick, with the confirmation of the stop loss; the
  strategy controller, the rankers and the trader ledgers refine the history of their events; bounds
  of prices, scores, windows and profits through all roundings; what the blacklist parses is what the
  exit engine printed. For the live broker: every order returns, the transactions it hands out are bounded
  in number, the acknowledged ones and all attempts, and signed by the wallet alone, those that Jupiter
  composes too, the cached balance is debited or credited by what the receipt says, a
  confirmed sale was observed on the chain; the account layout, the limit of a sale and the search for
  an address are exact; the extrema after an exit are those of its samples. From the chain to the tasks:
  a feed with a receiver forwards every fresh event once and in order and its counters say what became of
  every message and line, the
  pipeline sends on exactly the events of known tokens, the write queue saves every accepted trade once
  and in order, the waiter answers when the token is saved; the alerts on a feed, the contents of a
  chart and the lines that a rewriting of the mode touches are characterised, live mode needs its
  confirmation, for which the client demands the typed word; the open positions that the client shows are
  those of the manager. Theorems of the kind \<^emph>\<open>error\<close> exhibit behaviour the code should not have: two
  concurrent buys of one wallet and mint, a confirmation count cut to eight bits, a pause that is
  shortened, a ledger that wraps, a guard that never runs, a cap that concurrent tasks pass, an
  optimizer that winds up, a sale that is reported as failed because a balance could not be read, an
  error page that ends a task by a panic, tasks that wait for ever, a feed that reconnects to a closed
  receiver, a limit of the operator that never binds, a chart without points, a configuration with two
  modes, a registry that only grows, a closed position that a late snapshot shows again, a cancelled switch
  that is sent, a button that waits for ever.

  \<^bold>\<open>Bounds and fuel.\<close> No definition needs fuel: loops are folds over the data or structural recursion,
  apart from the polls of the live broker, which watch the clock. They are \<open>io_loop\<close>, a partial function
  into options, and are proved to return once the clock advances. Integers keep their width. Time is the argument \<open>now\<close> of an operation, and all readings of the
  clock within one message agree.

  \<^bold>\<open>Parameters.\<close> The text of an address, the JSON printer, key pairs and what the live broker answers to the manager,
  of the tape and of the polls are arguments (\<open>environment\<close>, or open in \<open>completes\<close>); so are, in
  \<open>score_env\<close> and \<open>create_env\<close>, the answers of the other actors and of the databases (the k-th request
  for a bucket is answered by the function of k), and the hyperbolic tangent; hash maps are
  iterated in the order of a list; sends of the actors on a full channel are not lost (the write queue drops them, as it says); log lines are left out. For the live broker the RPC node, HTTP
  and the clock are the functions of the record \<open>chain\<close>, the wire formats and signatures those of
  \<open>wire\<close>, SHA-256, the curve test, base58 and borsh those of \<open>lib\<close>; what is handed out is
  in the trace before it is known whether it arrives, since a send that is not acknowledged may still land.
  Nothing is assumed of these functions but, where it is
  named, \<open>clock_advances\<close>: the clock never goes back and sleeping moves it on. A session of a
  feed is the list of what its rounds waited for, with the instants; the YAML library is the record
  \<open>yaml_lib\<close>, the file its content or the error of reading it and the faults of the writes to come, each of
  which fails to open the file or leaves a part of the new content in it; the rows of the database are arguments.

  \<^bold>\<open>Not modelled.\<close> The SQL statements and the aggregates of the database, the transport of the websocket
  and of HTTP, the routes that only pass on rows or counters, the drawing of the desktop client, process
  start and the reading of keys and environment variables: input and output around libraries that are not
  in the repository.
\<close>

end
